(* ===== verification/Hdf_Prelude.thy ===== *)
theory Hdf_Prelude
  imports Main "HOL-Library.Word" "HOL-Library.Monad_Syntax"
begin

unbundle bit_operations_syntax

text \<open>
  Shared vocabulary of the development: the C integer types, the status codes of
  \<^verbatim>\<open>include/utils/hdf_base.h\<close>, bytes in memory with explicit faults, the bounded
  copy \<^verbatim>\<open>memcpy_s\<close>, C strings, and the generic lemmas the component theories share.

  Conventions.  A value of type \<^typ>\<open>'a option\<close> returned by a C operation is \<^const>\<open>None\<close>
  exactly when the C code would access memory outside an allocated object (or would not
  return); a theorem that an operation is \<open>Some r\<close> therefore states memory safety,
  termination and the functional result together.  The platform is the 64-bit little-endian
  one: \<^verbatim>\<open>size_t\<close> is a 64-bit word, \<^verbatim>\<open>int32_t\<close> is read from a 32-bit word with
  \<^const>\<open>sint\<close>, plain \<^verbatim>\<open>char\<close> is signed.  Log macros have no effect on the state and are
  left out.
\<close>

section \<open>C types and status codes\<close>

type_synonym uint8_t = "8 word"
type_synonym uint16_t = "16 word"
type_synonym uint32_t = "32 word"
type_synonym uint64_t = "64 word"
type_synonym size_t = "64 word"
type_synonym bytes = "8 word list"

datatype HDF_STATUS =
    HDF_SUCCESS
  | HDF_FAILURE
  | HDF_ERR_NOT_SUPPORT
  | HDF_ERR_INVALID_PARAM
  | HDF_ERR_INVALID_OBJECT
  | HDF_ERR_MALLOC_FAIL
  | HDF_ERR_TIMEOUT
  | HDF_ERR_THREAD_CREATE_FAIL
  | HDF_ERR_QUEUE_FULL
  | HDF_ERR_DEVICE_BUSY
  | HDF_ERR_IO
  | HDF_ERR_BAD_FD
  | HDF_BSP_ERR_OP
  | HDF_ERR_BSP_PLT_API_ERR
  | HDF_PAL_ERR_DEV_CREATE
  | HDF_PAL_ERR_INNER
  | HDF_DEV_ERR_NO_MEMORY
  | HDF_DEV_ERR_NO_DEVICE
  | HDF_DEV_ERR_NO_DEVICE_SERVICE
  | HDF_DEV_ERR_DEV_INIT_FAIL
  | HDF_DEV_ERR_PUBLISH_FAIL
  | HDF_DEV_ERR_ATTACHDEV_FAIL
  | HDF_DEV_ERR_NODATA
  | HDF_DEV_ERR_NORANGE
  | HDF_DEV_ERR_OP

fun hdf_status_code :: "HDF_STATUS \<Rightarrow> int" where
  "hdf_status_code HDF_SUCCESS = 0"
| "hdf_status_code HDF_FAILURE = -1"
| "hdf_status_code HDF_ERR_NOT_SUPPORT = -2"
| "hdf_status_code HDF_ERR_INVALID_PARAM = -3"
| "hdf_status_code HDF_ERR_INVALID_OBJECT = -4"
| "hdf_status_code HDF_ERR_MALLOC_FAIL = -6"
| "hdf_status_code HDF_ERR_TIMEOUT = -7"
| "hdf_status_code HDF_ERR_THREAD_CREATE_FAIL = -10"
| "hdf_status_code HDF_ERR_QUEUE_FULL = -15"
| "hdf_status_code HDF_ERR_DEVICE_BUSY = -16"
| "hdf_status_code HDF_ERR_IO = -17"
| "hdf_status_code HDF_ERR_BAD_FD = -18"
| "hdf_status_code HDF_BSP_ERR_OP = -101"
| "hdf_status_code HDF_ERR_BSP_PLT_API_ERR = -102"
| "hdf_status_code HDF_PAL_ERR_DEV_CREATE = -103"
| "hdf_status_code HDF_PAL_ERR_INNER = -104"
| "hdf_status_code HDF_DEV_ERR_NO_MEMORY = -201"
| "hdf_status_code HDF_DEV_ERR_NO_DEVICE = -202"
| "hdf_status_code HDF_DEV_ERR_NO_DEVICE_SERVICE = -203"
| "hdf_status_code HDF_DEV_ERR_DEV_INIT_FAIL = -204"
| "hdf_status_code HDF_DEV_ERR_PUBLISH_FAIL = -205"
| "hdf_status_code HDF_DEV_ERR_ATTACHDEV_FAIL = -206"
| "hdf_status_code HDF_DEV_ERR_NODATA = -207"
| "hdf_status_code HDF_DEV_ERR_NORANGE = -208"
| "hdf_status_code HDF_DEV_ERR_OP = -210"

lemma hdf_status_code_inj: "hdf_status_code a = hdf_status_code b \<Longrightarrow> a = b"
  by (cases a; cases b; simp)

section \<open>Bytes in memory\<close>

text \<open>
  A block of memory is a byte list.  \<open>mem_read\<close> and \<open>mem_write\<close> fault (\<^const>\<open>None\<close>)
  unless the whole range lies inside the block.
\<close>

definition mem_read :: "bytes \<Rightarrow> nat \<Rightarrow> nat \<Rightarrow> bytes option" where
  "mem_read d pos n = (if pos + n \<le> length d then Some (take n (drop pos d)) else None)"

definition mem_write :: "bytes \<Rightarrow> nat \<Rightarrow> bytes \<Rightarrow> bytes option" where
  "mem_write d pos bs =
     (if pos + length bs \<le> length d
      then Some (take pos d @ bs @ drop (pos + length bs) d) else None)"

lemma mem_read_Some [simp]:
  "pos + n \<le> length d \<Longrightarrow> mem_read d pos n = Some (take n (drop pos d))"
  by (simp add: mem_read_def)

lemma mem_read_eq_Some_iff:
  "mem_read d pos n = Some bs \<longleftrightarrow> pos + n \<le> length d \<and> bs = take n (drop pos d)"
  by (auto simp: mem_read_def)

lemma mem_write_eq_Some_iff:
  "mem_write d pos bs = Some d' \<longleftrightarrow>
     pos + length bs \<le> length d \<and> d' = take pos d @ bs @ drop (pos + length bs) d"
  by (auto simp: mem_write_def)

lemma mem_write_length: "mem_write d pos bs = Some d' \<Longrightarrow> length d' = length d"
  by (auto simp: mem_write_eq_Some_iff)

lemma mem_write_take: "mem_write d pos bs = Some d' \<Longrightarrow> n \<le> pos \<Longrightarrow> take n d' = take n d"
  by (auto simp: mem_write_eq_Some_iff min_def)

lemma mem_write_same:
  "mem_write d pos bs = Some d' \<Longrightarrow> take (length bs) (drop pos d') = bs"
  by (auto simp: mem_write_eq_Some_iff min_def)

text \<open>
  \<^verbatim>\<open>memcpy_s (dest, destMax, src, count)\<close> of C11 Annex K: an error status (here
  \<^const>\<open>False\<close>) when the destination is smaller than the count, else the copy.  The code that is
  modelled checks the sizes first, so what a failed call leaves in the destination is not read.
\<close>

definition memcpy_s :: "bytes \<Rightarrow> nat \<Rightarrow> nat \<Rightarrow> bytes \<Rightarrow> (bool \<times> bytes) option" where
  "memcpy_s d pos destMax src =
     (if destMax < length src then Some (False, d)
      else map_option (Pair True) (mem_write d pos src))"

section \<open>Little-endian integers\<close>

fun le_bytes :: "nat \<Rightarrow> 'a::len word \<Rightarrow> bytes" where
  "le_bytes 0 w = []"
| "le_bytes (Suc n) w = ucast w # le_bytes n (drop_bit 8 w)"

fun le_word :: "bytes \<Rightarrow> 'a::len word" where
  "le_word [] = 0"
| "le_word (b # bs) = ucast b OR push_bit 8 (le_word bs)"

lemma le_bytes_length [simp]: "length (le_bytes n w) = n"
  by (induction n arbitrary: w) auto

lemma le_word_bit:
  "bit (le_word bs :: 'a::len word) i \<longleftrightarrow>
     i < LENGTH('a) \<and> i div 8 < length bs \<and> bit (bs ! (i div 8)) (i mod 8)"
proof (induction bs arbitrary: i)
  case Nil
  then show ?case by simp
next
  case (Cons b bs)
  show ?case
  proof (cases "i < 8")
    case True
    then show ?thesis by (auto simp: bit_simps)
  next
    case False
    then have d: "i div 8 = Suc ((i - 8) div 8)" and m: "i mod 8 = (i - 8) mod 8"
      by (auto simp: le_div_geq le_mod_geq not_less)
    have b: "\<not> bit b i"
      using False bit_imp_le_length [of b i] by auto
    show ?thesis
      using False b by (auto simp: bit_simps Cons.IH d m)
  qed
qed

lemma le_bytes_nth_bit:
  "j < n \<Longrightarrow> bit (le_bytes n (w :: 'a::len word) ! j) i \<longleftrightarrow> i < 8 \<and> bit w (8 * j + i)"
proof (induction n arbitrary: j w)
  case 0
  then show ?case by simp
next
  case (Suc n)
  then show ?case
    by (cases j) (auto simp: bit_simps ac_simps dest: bit_imp_le_length)
qed

lemma le_word_le_bytes:
  "LENGTH('a) \<le> 8 * n \<Longrightarrow> le_word (le_bytes n w) = (w :: 'a::len word)"
proof (rule bit_word_eqI)
  fix i assume n: "LENGTH('a) \<le> 8 * n" and i: "i < LENGTH('a)"
  then have j: "i div 8 < n" by (simp add: less_mult_imp_div_less mult.commute)
  show "bit (le_word (le_bytes n w) :: 'a word) i = bit w i"
    using i j by (simp add: le_word_bit le_bytes_nth_bit)
qed

lemma le_bytes_le_word:
  "length bs = n \<Longrightarrow> 8 * n \<le> LENGTH('a) \<Longrightarrow> le_bytes n (le_word bs :: 'a::len word) = bs"
proof (rule nth_equalityI)
  assume "length bs = n"
  then show "length (le_bytes n (le_word bs :: 'a word)) = length bs" by simp
next
  fix j assume n: "length bs = n" "8 * n \<le> LENGTH('a)"
    and j: "j < length (le_bytes n (le_word bs :: 'a word))"
  show "le_bytes n (le_word bs :: 'a word) ! j = bs ! j"
  proof (rule bit_word_eqI)
    fix i assume "i < LENGTH(8)"
    moreover from this n j have "8 * j + i < LENGTH('a)" by simp
    ultimately show "bit (le_bytes n (le_word bs :: 'a word) ! j) i = bit (bs ! j) i"
      using n j by (simp add: le_bytes_nth_bit le_word_bit)
  qed
qed

section \<open>Powers of two and masks\<close>

lemma unat_lt: "unat (w :: 'a::len word) < 2 ^ LENGTH('a)"
  by (rule unsigned_less)

lemma unat32_lt: "unat (w :: 32 word) < 4294967296"
  using unat_lt [of w] by simp

lemma unat64_lt: "unat (w :: 64 word) < 18446744073709551616"
  using unat_lt [of w] by simp

lemma unat_of_nat_32: "n < 4294967296 \<Longrightarrow> unat (of_nat n :: 32 word) = n"
  by (simp add: unsigned_of_nat take_bit_nat_eq_self)

lemma unat_of_nat_64: "n < 18446744073709551616 \<Longrightarrow> unat (of_nat n :: 64 word) = n"
  by (simp add: unsigned_of_nat take_bit_nat_eq_self)

lemma unat_of_nat_16: "n < 65536 \<Longrightarrow> unat (of_nat n :: 16 word) = n"
  by (simp add: unsigned_of_nat take_bit_nat_eq_self)

lemma sint_small32: "unat (w :: 32 word) < 2147483648 \<Longrightarrow> sint w = int (unat w)"
proof -
  assume "unat w < 2147483648"
  then have "uint w < 2147483648" using uint_nat [of w] by linarith
  moreover have "- 2147483648 \<le> uint w" using uint_nat [of w] by linarith
  ultimately show ?thesis unfolding sint_uint by (subst signed_take_bit_int_eq_self) auto
qed

lemma sint_nonneg32: "0 \<le> sint (w :: 32 word) \<Longrightarrow> unat w < 2147483648 \<and> sint w = int (unat w)"
proof -
  assume nonneg: "0 \<le> sint w"
  have "sint w < 2147483648" using sint_lt [of w] by simp
  then have "uint w = sint w" unfolding uint_sint using nonneg by (simp add: take_bit_int_eq_self)
  then show ?thesis using \<open>sint w < 2147483648\<close> uint_nat [of w] by linarith
qed

lemma scast_small32: "unat (w :: 32 word) < 2147483648 \<Longrightarrow> (scast w :: 64 word) = ucast w"
  unfolding scast_eq by (simp add: sint_small32)

lemma unat_pow2: "n < LENGTH('a) \<Longrightarrow> unat (2 ^ n :: 'a::len word) = 2 ^ n"
  by transfer (simp add: take_bit_of_exp)

lemma unat_and_pow2_mask: "unat (w AND (2 ^ n - 1) :: 'a::len word) = unat w mod 2 ^ n"
proof -
  have w: "w AND (2 ^ n - 1) = take_bit n w" by (simp add: take_bit_eq_mask mask_eq_exp_minus_1)
  show ?thesis unfolding w unsigned_take_bit_eq by (rule take_bit_eq_mod)
qed

text \<open>Rounding up to a multiple of four, as the code writes it on words.\<close>

definition pad4 :: "nat \<Rightarrow> nat" where
  "pad4 n = (n + 3) div 4 * 4"

lemma pad4_bounds: "n \<le> pad4 n" "pad4 n \<le> n + 3" "pad4 n mod 4 = 0"
  by (auto simp: pad4_def)

lemma pad4_pos: "0 < n \<Longrightarrow> 4 \<le> pad4 n"
  by (auto simp: pad4_def)

lemma unat_and_not_3: "unat (w AND NOT 3 :: 64 word) = unat w div 4 * 4"
proof -
  have "w AND NOT 3 = push_bit 2 (drop_bit 2 w)"
  proof (rule bit_word_eqI)
    fix i assume "i < LENGTH(64)"
    have three: "(3 :: 64 word) = mask 2" by (simp add: mask_eq_exp_minus_1)
    have "bit (3 :: 64 word) i \<longleftrightarrow> i < 2"
      unfolding three using \<open>i < LENGTH(64)\<close> by (auto simp: bit_mask_iff)
    moreover have "bit (push_bit 2 (drop_bit 2 w)) i \<longleftrightarrow> 2 \<le> i \<and> bit w i"
    proof (cases "2 \<le> i")
      case True
      then have "Suc (Suc (i - 2)) = i" by simp
      with True show ?thesis using \<open>i < LENGTH(64)\<close> by (simp add: bit_push_bit_iff bit_drop_bit_eq)
    next
      case False
      then show ?thesis by (simp add: bit_push_bit_iff)
    qed
    ultimately show "bit (w AND NOT 3) i = bit (push_bit 2 (drop_bit 2 w)) i"
      using \<open>i < LENGTH(64)\<close> unfolding bit_and_iff bit_not_iff by auto
  qed
  moreover have d: "unat (drop_bit 2 w) = unat w div 4"
    by (simp only: drop_bit_eq_div unat_div) simp
  moreover have "unat (push_bit 2 (drop_bit 2 w)) = unat (drop_bit 2 w) * 4"
  proof -
    have "unat (drop_bit 2 w) * 4 < 2 ^ 64" unfolding d using unat64_lt [of w] by simp
    then show ?thesis by (simp only: push_bit_eq_mult unat_word_ariths) simp
  qed
  ultimately show ?thesis by simp
qed

section \<open>C strings\<close>

text \<open>
  The bytes of a C string up to its terminator; \<open>cstr_at\<close> faults when no terminator
  follows inside the block.
\<close>

fun c_strlen :: "bytes \<Rightarrow> nat option" where
  "c_strlen [] = None"
| "c_strlen (b # bs) = (if b = 0 then Some 0 else map_option Suc (c_strlen bs))"

definition cstr_at :: "bytes \<Rightarrow> nat \<Rightarrow> bytes option" where
  "cstr_at d pos = map_option (\<lambda>n. take n (drop pos d)) (c_strlen (drop pos d))"

lemma c_strlen_append:
  "0 \<notin> set s \<Longrightarrow> c_strlen (s @ 0 # rest) = Some (length s)"
  by (induction s) auto

lemma c_strlen_Some:
  "c_strlen bs = Some n \<Longrightarrow> n < length bs \<and> bs ! n = 0 \<and> 0 \<notin> set (take n bs)"
proof (induction bs arbitrary: n)
  case Nil
  then show ?case by simp
next
  case (Cons b bs)
  then show ?case by (cases n) (auto split: if_splits)
qed

section \<open>Pointers into a block and 32-bit integers\<close>

text \<open>
  Where the code adds signed offsets to a pointer, the pointer is an \<^typ>\<open>int\<close> relative to
  the start of the block, and an access below or above the block faults.
\<close>

definition ptr_read :: "bytes \<Rightarrow> int \<Rightarrow> nat \<Rightarrow> bytes option" where
  "ptr_read b p n = (if p < 0 then None else mem_read b (nat p) n)"

definition ptr_strlen :: "bytes \<Rightarrow> int \<Rightarrow> nat option" where
  "ptr_strlen b p = (if p < 0 then None else c_strlen (drop (nat p) b))"

definition ptr_str :: "bytes \<Rightarrow> int \<Rightarrow> bytes option" where
  "ptr_str b p = (if p < 0 then None else cstr_at b (nat p))"

text \<open>The value a variable of type \<^verbatim>\<open>int32_t\<close> or \<^verbatim>\<open>uint32_t\<close> keeps of an integer.\<close>

definition i32 :: "int \<Rightarrow> int" where
  "i32 x = (x + 2147483648) mod 4294967296 - 2147483648"

definition u32 :: "int \<Rightarrow> int" where
  "u32 x = x mod 4294967296"

lemma i32_id [simp]: "- 2147483648 \<le> x \<Longrightarrow> x < 2147483648 \<Longrightarrow> i32 x = x"
  by (simp add: i32_def)

lemma u32_id [simp]: "0 \<le> x \<Longrightarrow> x < 4294967296 \<Longrightarrow> u32 x = x"
  by (simp add: u32_def)

lemma i32_bounds: "- 2147483648 \<le> i32 x" "i32 x < 2147483648"
  using pos_mod_bound [of 4294967296 "x + 2147483648"] pos_mod_sign [of 4294967296 "x + 2147483648"]
  by (auto simp: i32_def)

section \<open>Allocation\<close>

text \<open>
  \<^verbatim>\<open>OsalMemAlloc\<close> and \<^verbatim>\<open>OsalMemCalloc\<close> of \<^verbatim>\<open>support/posix/src/osal_mem.c\<close>: a request for
  no bytes is refused; whether any other succeeds is the environment's choice \<open>ok\<close>.  The
  fresh bytes of the uninitialised variant are the argument \<open>junk\<close>.
\<close>

definition OsalMemAlloc :: "bool \<Rightarrow> (nat \<Rightarrow> uint8_t) \<Rightarrow> nat \<Rightarrow> bytes option" where
  "OsalMemAlloc ok junk n = (if n = 0 then None else if ok then Some (map junk [0..<n]) else None)"

definition OsalMemCalloc :: "bool \<Rightarrow> nat \<Rightarrow> bytes option" where
  "OsalMemCalloc ok n = (if n = 0 then None else if ok then Some (replicate n 0) else None)"

text \<open>
  Whether an allocation succeeds is decided by the environment: a list of answers, consumed
  in order by the calls to the allocator; when it is used up every further call succeeds.
\<close>

type_synonym alloc_oracle = "bool list"

fun osal_alloc :: "alloc_oracle \<Rightarrow> bool \<times> alloc_oracle" where
  "osal_alloc [] = (True, [])"
| "osal_alloc (b # bs) = (b, bs)"

section \<open>Lists searched by a predicate\<close>

text \<open>
  The framework keeps its objects on linked lists: the first element a test accepts is found,
  changed in place, or unlinked.
\<close>

fun search_first :: "('a \<Rightarrow> bool) \<Rightarrow> 'a list \<Rightarrow> 'a option" where
  "search_first P [] = None"
| "search_first P (x # xs) = (if P x then Some x else search_first P xs)"

fun upd_first :: "('a \<Rightarrow> bool) \<Rightarrow> ('a \<Rightarrow> 'a) \<Rightarrow> 'a list \<Rightarrow> 'a list" where
  "upd_first P f [] = []"
| "upd_first P f (x # xs) = (if P x then f x # xs else x # upd_first P f xs)"

fun del_first :: "('a \<Rightarrow> bool) \<Rightarrow> 'a list \<Rightarrow> 'a list" where
  "del_first P [] = []"
| "del_first P (x # xs) = (if P x then xs else x # del_first P xs)"

lemma search_first_Some: "search_first P xs = Some x \<Longrightarrow> P x \<and> x \<in> set xs"
  by (induction xs) (auto split: if_splits)

lemma search_first_None: "search_first P xs = None \<longleftrightarrow> (\<forall>x\<in>set xs. \<not> P x)"
  by (induction xs) auto

lemma search_upd_first [simp]:
  "(\<And>x. P (f x) = P x) \<Longrightarrow> search_first P (upd_first P f xs) = map_option f (search_first P xs)"
  by (induction xs) auto

lemma search_upd_first_other:
  "(\<And>x. P x \<Longrightarrow> \<not> Q x \<and> \<not> Q (f x)) \<Longrightarrow> search_first Q (upd_first P f xs) = search_first Q xs"
  by (induction xs) auto

lemma search_del_first_other:
  "(\<And>x. P x \<Longrightarrow> \<not> Q x) \<Longrightarrow> search_first Q (del_first P xs) = search_first Q xs"
  by (induction xs) auto

lemma del_first_none: "search_first P xs = None \<Longrightarrow> del_first P xs = xs"
  by (induction xs) (auto split: if_splits)

lemma upd_first_none: "search_first P xs = None \<Longrightarrow> upd_first P f xs = xs"
  by (induction xs) (auto split: if_splits)

lemma del_first_length:
  "search_first P xs = Some x \<Longrightarrow> Suc (length (del_first P xs)) = length xs"
  by (induction xs) (auto split: if_splits)

lemma search_upd_const:
  "search_first P xs = Some x \<Longrightarrow> P y \<Longrightarrow> search_first P (upd_first P (\<lambda>_. y) xs) = Some y"
  by (induction xs) (auto split: if_splits)

section \<open>Arrays\<close>

text \<open>An element of an array, or a fault.\<close>

definition raw_at :: "bytes \<Rightarrow> nat \<Rightarrow> uint8_t option" where
  "raw_at raw p = (if p < length raw then Some (raw ! p) else None)"

definition arr_set :: "'a list \<Rightarrow> nat \<Rightarrow> 'a \<Rightarrow> 'a list option" where
  "arr_set xs i x = (if i < length xs then Some (xs[i := x]) else None)"

definition arr_get :: "'a list \<Rightarrow> nat \<Rightarrow> 'a option" where
  "arr_get xs i = (if i < length xs then Some (xs ! i) else None)"

section \<open>Operations that do not fault\<close>

text \<open>
  \<open>runs P m\<close>: the operation \<open>m\<close> does not fault and its result satisfies \<open>P\<close>.  The rules compute it
  along the structure of an operation.
\<close>

definition runs :: "('a \<Rightarrow> bool) \<Rightarrow> 'a option \<Rightarrow> bool" where
  "runs P m = (case m of None \<Rightarrow> False | Some x \<Rightarrow> P x)"

named_theorems runs_simps

lemma runs_Some [runs_simps]: "runs P (Some x) = P x"
  by (simp add: runs_def)

lemma runs_bind [runs_simps]: "runs P (m \<bind> f) = runs (\<lambda>x. runs P (f x)) m"
  by (cases m) (simp_all add: runs_def)

lemma runs_if [runs_simps]: "runs P (if b then m else n) = (if b then runs P m else runs P n)"
  by simp

lemma runs_case [runs_simps]: "runs P (case x of (a, b) \<Rightarrow> f a b) = (case x of (a, b) \<Rightarrow> runs P (f a b))"
  by (cases x) simp

lemma runs_raw_at [runs_simps]: "p < length raw \<Longrightarrow> runs P (raw_at raw p) = P (raw ! p)"
  by (simp add: raw_at_def runs_def)

lemma runs_arr_set [runs_simps]: "i < length xs \<Longrightarrow> runs P (arr_set xs i x) = P (xs[i := x])"
  by (simp add: arr_set_def runs_def)

lemma runs_arr_get [runs_simps]: "i < length xs \<Longrightarrow> runs P (arr_get xs i) = P (xs ! i)"
  by (simp add: arr_get_def runs_def)

lemma runs_mem_read [runs_simps]: "p + n \<le> length raw \<Longrightarrow> runs P (mem_read raw p n) = P (take n (drop p raw))"
  by (simp add: runs_def)

lemma runs_mono: "runs P m \<Longrightarrow> (\<And>x. P x \<Longrightarrow> Q x) \<Longrightarrow> runs Q m"
  by (auto simp: runs_def split: option.splits)

lemma runs_iff: "runs P m \<longleftrightarrow> (\<exists>x. m = Some x \<and> P x)"
  by (auto simp: runs_def split: option.splits)

end
