(* ===== verification/Hdf_SList.thy ===== *)
theory Hdf_SList
  imports Hdf_Prelude
begin

text \<open>
  The intrusive singly linked list of \<^verbatim>\<open>utils/src/hdf_slist.c\<close>.

  The model keeps the pointers: a node is an address, \<open>0\<close> is \<^verbatim>\<open>NULL\<close>, and the heap maps
  the address of every allocated \<^verbatim>\<open>struct HdfSListNode\<close> to its \<^verbatim>\<open>next\<close> field.  A
  \<^verbatim>\<open>struct HdfSList\<close> has the layout of a node (its \<^verbatim>\<open>root\<close> is the \<^verbatim>\<open>next\<close> field),
  and the code casts it to one, so the list head is an address of the same heap.  Loops
  over the pointers are partial functions: \<^const>\<open>None\<close> is a dereference of an unallocated
  address or a walk that does not end.

  The second half relates every operation to an operation on HOL lists; the components
  built on these lists use that view.
\<close>

section \<open>Nodes and iterators\<close>

type_synonym addr = nat
type_synonym slist_heap = "addr \<rightharpoonup> addr"

definition rd_next :: "slist_heap \<Rightarrow> addr \<Rightarrow> addr option" where
  "rd_next h p = (if p = 0 then None else h p)"

definition wr_next :: "slist_heap \<Rightarrow> addr \<Rightarrow> addr \<Rightarrow> slist_heap option" where
  "wr_next h p v = (if p = 0 \<or> h p = None then None else Some (h(p \<mapsto> v)))"

record HdfSListIterator =
  it_stepOnNext :: bool
  it_prev :: addr
  it_curr :: addr

section \<open>Operations\<close>

definition HdfSListInit :: "slist_heap \<Rightarrow> addr \<Rightarrow> slist_heap option" where
  "HdfSListInit h list = (if list \<noteq> 0 then wr_next h list 0 else Some h)"

definition HdfSListIsEmpty :: "slist_heap \<Rightarrow> addr \<Rightarrow> bool option" where
  "HdfSListIsEmpty h list =
     (if list = 0 then Some True else do { r \<leftarrow> rd_next h list; Some (r = 0) })"

definition HdfSListIteratorInit :: "slist_heap \<Rightarrow> addr \<Rightarrow> HdfSListIterator option" where
  "HdfSListIteratorInit h list =
     (if list = 0 then Some \<lparr>it_stepOnNext = False, it_prev = 0, it_curr = 0\<rparr>
      else do {
        r \<leftarrow> rd_next h list;
        Some \<lparr>it_stepOnNext = False, it_prev = list, it_curr = r\<rparr>
      })"

definition HdfSListIteratorHasNext :: "slist_heap \<Rightarrow> HdfSListIterator \<Rightarrow> bool option" where
  "HdfSListIteratorHasNext h it =
     (if it_curr it = 0 \<or> it_prev it = 0 then Some False
      else if \<not> it_stepOnNext it then Some (it_curr it \<noteq> 0)
      else do {
        pn \<leftarrow> rd_next h (it_prev it);
        if pn \<noteq> it_curr it then Some (pn \<noteq> 0)
        else do { cn \<leftarrow> rd_next h (it_curr it); Some (cn \<noteq> 0) }
      })"

definition HdfSListIteratorNext ::
    "slist_heap \<Rightarrow> HdfSListIterator \<Rightarrow> (addr \<times> HdfSListIterator) option" where
  "HdfSListIteratorNext h it =
     (if it_curr it = 0 \<or> it_prev it = 0 then Some (0, it)
      else if it_stepOnNext it then do {
        pn \<leftarrow> rd_next h (it_prev it);
        it' \<leftarrow> (if pn = it_curr it then do {
                  cn \<leftarrow> rd_next h (it_curr it);
                  Some (it\<lparr>it_prev := it_curr it, it_curr := cn\<rparr>)
                } else Some (it\<lparr>it_curr := pn\<rparr>));
        Some (it_curr it', it')
      }
      else Some (it_curr it, it\<lparr>it_stepOnNext := True\<rparr>))"

definition HdfSListIteratorRemove ::
    "slist_heap \<Rightarrow> HdfSListIterator \<Rightarrow> (slist_heap \<times> HdfSListIterator) option" where
  "HdfSListIteratorRemove h it =
     (if it_curr it = 0 \<or> it_prev it = 0 then Some (h, it)
      else do {
        cn \<leftarrow> rd_next h (it_curr it);
        h' \<leftarrow> wr_next h (it_prev it) cn;
        Some (h', it\<lparr>it_curr := cn, it_stepOnNext := False\<rparr>)
      })"

definition HdfSListIteratorInsert ::
    "slist_heap \<Rightarrow> HdfSListIterator \<Rightarrow> addr \<Rightarrow> (slist_heap \<times> HdfSListIterator) option" where
  "HdfSListIteratorInsert h it link =
     (if link = 0 then Some (h, it)
      else do {
        h1 \<leftarrow> wr_next h link (it_curr it);
        h2 \<leftarrow> wr_next h1 (it_prev it) link;
        Some (h2, it\<lparr>it_prev := link\<rparr>)
      })"

partial_function (option) HdfSListSearch_loop ::
    "slist_heap \<Rightarrow> (addr \<Rightarrow> uint32_t \<Rightarrow> bool) \<Rightarrow> uint32_t \<Rightarrow> HdfSListIterator \<Rightarrow> addr option" where
  "HdfSListSearch_loop h comparer keyValue it = do {
     more \<leftarrow> HdfSListIteratorHasNext h it;
     if \<not> more then Some 0
     else do {
       r \<leftarrow> HdfSListIteratorNext h it;
       if comparer (fst r) keyValue then Some (fst r)
       else HdfSListSearch_loop h comparer keyValue (snd r)
     }
   }"

definition HdfSListSearch ::
    "slist_heap \<Rightarrow> addr \<Rightarrow> uint32_t \<Rightarrow> (addr \<Rightarrow> uint32_t \<Rightarrow> bool) option \<Rightarrow> addr option" where
  "HdfSListSearch h list keyValue comparer =
     (case comparer of None \<Rightarrow> Some 0
      | Some cmp \<Rightarrow> do {
          it \<leftarrow> HdfSListIteratorInit h list;
          HdfSListSearch_loop h cmp keyValue it
        })"

partial_function (option) HdfSListGetLast_loop ::
    "slist_heap \<Rightarrow> addr \<Rightarrow> addr \<Rightarrow> addr option" where
  "HdfSListGetLast_loop h lst iterator =
     (if iterator = 0 then Some lst
      else do { n \<leftarrow> rd_next h iterator; HdfSListGetLast_loop h iterator n })"

definition HdfSListGetLast :: "slist_heap \<Rightarrow> addr \<Rightarrow> addr option" where
  "HdfSListGetLast h list =
     (if list = 0 then Some 0
      else do { r \<leftarrow> rd_next h list; HdfSListGetLast_loop h 0 r })"

definition HdfSListAdd :: "slist_heap \<Rightarrow> addr \<Rightarrow> addr \<Rightarrow> slist_heap option" where
  "HdfSListAdd h list link =
     (if list = 0 \<or> link = 0 then Some h
      else do {
        r \<leftarrow> rd_next h list;
        h1 \<leftarrow> wr_next h link r;
        wr_next h1 list link
      })"

partial_function (option) HdfSListAddTail_loop ::
    "slist_heap \<Rightarrow> addr \<Rightarrow> addr \<Rightarrow> slist_heap option" where
  "HdfSListAddTail_loop h link iterator = do {
     n \<leftarrow> rd_next h iterator;
     if n \<noteq> 0 then (if n = link then Some h else HdfSListAddTail_loop h link n)
     else do { h1 \<leftarrow> wr_next h link 0; wr_next h1 iterator link }
   }"

definition HdfSListAddTail :: "slist_heap \<Rightarrow> addr \<Rightarrow> addr \<Rightarrow> slist_heap option" where
  "HdfSListAddTail h list link =
     (if list = 0 \<or> link = 0 then Some h else HdfSListAddTail_loop h link list)"

text \<open>The walk of \<^verbatim>\<open>HdfSListAddOrder\<close> that looks whether the link is already in the list.\<close>

partial_function (option) HdfSListAddOrder_dup ::
    "slist_heap \<Rightarrow> addr \<Rightarrow> addr \<Rightarrow> bool option" where
  "HdfSListAddOrder_dup h link iterator =
     (if iterator = 0 then Some False
      else if iterator = link then Some True
      else do { n \<leftarrow> rd_next h iterator; HdfSListAddOrder_dup h link n })"

text \<open>
  Its second loop: insert between two neighbours, or after the last node; the iterator is
  not \<^verbatim>\<open>NULL\<close> here, the caller has handled the empty list.
\<close>

partial_function (option) HdfSListAddOrder_loop ::
    "slist_heap \<Rightarrow> (addr \<Rightarrow> addr \<Rightarrow> bool) \<Rightarrow> addr \<Rightarrow> addr \<Rightarrow> slist_heap option" where
  "HdfSListAddOrder_loop h comparer link iterator = do {
     n \<leftarrow> rd_next h iterator;
     if n = 0 then do { h1 \<leftarrow> wr_next h link 0; wr_next h1 iterator link }
     else if comparer iterator link \<and> comparer link n
     then do { h1 \<leftarrow> wr_next h link n; wr_next h1 iterator link }
     else HdfSListAddOrder_loop h comparer link n
   }"

definition HdfSListAddOrder ::
    "slist_heap \<Rightarrow> addr \<Rightarrow> addr \<Rightarrow> (addr \<Rightarrow> addr \<Rightarrow> bool) option \<Rightarrow> (bool \<times> slist_heap) option" where
  "HdfSListAddOrder h list link comparer =
     (case comparer of None \<Rightarrow> Some (False, h)
      | Some cmp \<Rightarrow>
          if list = 0 \<or> link = 0 then Some (False, h)
          else do {
            root \<leftarrow> rd_next h list;
            dup \<leftarrow> HdfSListAddOrder_dup h link root;
            if dup then Some (False, h)
            else if cmp link root then do {
              h1 \<leftarrow> wr_next h link root;
              h2 \<leftarrow> wr_next h1 list link;
              Some (True, h2)
            }
            else if root = 0 then do {
              h1 \<leftarrow> wr_next h link 0;
              h2 \<leftarrow> wr_next h1 list link;
              Some (True, h2)
            }
            else map_option (Pair True) (HdfSListAddOrder_loop h cmp link root)
          })"

partial_function (option) HdfSListRemove_loop ::
    "slist_heap \<Rightarrow> addr \<Rightarrow> addr \<Rightarrow> slist_heap option" where
  "HdfSListRemove_loop h link iterator =
     (if iterator = 0 then Some h
      else do {
        n \<leftarrow> rd_next h iterator;
        if n = link then do { ln \<leftarrow> rd_next h link; wr_next h iterator ln }
        else HdfSListRemove_loop h link n
      })"

definition HdfSListRemove :: "slist_heap \<Rightarrow> addr \<Rightarrow> addr \<Rightarrow> slist_heap option" where
  "HdfSListRemove h list link =
     (if list = 0 \<or> link = 0 then Some h else HdfSListRemove_loop h link list)"

text \<open>
  The deleter is a callback on the heap (it usually frees the node); \<^const>\<open>None\<close> is the
  null callback.
\<close>

type_synonym slist_deleter = "(slist_heap \<Rightarrow> addr \<Rightarrow> slist_heap option) option"

partial_function (option) HdfSListFlush_loop ::
    "slist_deleter \<Rightarrow> slist_heap \<Rightarrow> HdfSListIterator \<Rightarrow> slist_heap option" where
  "HdfSListFlush_loop deleter h it = do {
     more \<leftarrow> HdfSListIteratorHasNext h it;
     if \<not> more then Some h
     else do {
       r \<leftarrow> HdfSListIteratorNext h it;
       s \<leftarrow> HdfSListIteratorRemove h (snd r);
       h' \<leftarrow> (case deleter of None \<Rightarrow> Some (fst s) | Some del \<Rightarrow> del (fst s) (fst r));
       HdfSListFlush_loop deleter h' (snd s)
     }
   }"

definition HdfSListFlush :: "slist_heap \<Rightarrow> addr \<Rightarrow> slist_deleter \<Rightarrow> slist_heap option" where
  "HdfSListFlush h list deleter =
     (if list = 0 then Some h
      else do { it \<leftarrow> HdfSListIteratorInit h list; HdfSListFlush_loop deleter h it })"

partial_function (option) HdfSListCount_loop ::
    "slist_heap \<Rightarrow> addr \<Rightarrow> nat \<Rightarrow> nat option" where
  "HdfSListCount_loop h iterator counter = do {
     n \<leftarrow> rd_next h iterator;
     if n = 0 then Some counter else HdfSListCount_loop h n (Suc counter)
   }"

definition HdfSListCount :: "slist_heap \<Rightarrow> addr \<Rightarrow> nat option" where
  "HdfSListCount h list = (if list = 0 then Some 0 else HdfSListCount_loop h list 0)"

definition HdfSListPeek :: "slist_heap \<Rightarrow> addr \<Rightarrow> addr option" where
  "HdfSListPeek h list = (if list = 0 then Some 0 else rd_next h list)"

definition HdfSListNext :: "slist_heap \<Rightarrow> addr \<Rightarrow> addr option" where
  "HdfSListNext h link = (if link = 0 then Some 0 else rd_next h link)"

definition HdfSListPop :: "slist_heap \<Rightarrow> addr \<Rightarrow> (addr \<times> slist_heap) option" where
  "HdfSListPop h list =
     (if list = 0 then Some (0, h)
      else do {
        root \<leftarrow> rd_next h list;
        if root = 0 then Some (0, h)
        else do {
          n \<leftarrow> rd_next h root;
          h' \<leftarrow> wr_next h list n;
          Some (root, h')
        }
      })"

section \<open>Lists as paths in the heap\<close>

fun lseg :: "slist_heap \<Rightarrow> addr \<Rightarrow> addr list \<Rightarrow> addr \<Rightarrow> bool" where
  "lseg h p [] q \<longleftrightarrow> p = q"
| "lseg h p (x # xs) q \<longleftrightarrow> p = x \<and> x \<noteq> 0 \<and> (\<exists>n. h x = Some n \<and> lseg h n xs q)"

text \<open>The list at address \<open>l\<close> has the nodes \<open>xs\<close>, in this order.\<close>

definition slist :: "slist_heap \<Rightarrow> addr \<Rightarrow> addr list \<Rightarrow> bool" where
  "slist h l xs \<longleftrightarrow> lseg h l (l # xs) 0"

lemma lseg_null [simp]: "lseg h 0 xs q \<longleftrightarrow> xs = [] \<and> q = 0"
  by (cases xs) auto

lemma lseg_append: "lseg h p (xs @ ys) q \<longleftrightarrow> (\<exists>r. lseg h p xs r \<and> lseg h r ys q)"
  by (induction xs arbitrary: p) auto

lemma lseg_upd [simp]: "a \<notin> set xs \<Longrightarrow> lseg (h(a := v)) p xs q \<longleftrightarrow> lseg h p xs q"
  by (induction xs arbitrary: p) auto

lemma lseg_unique: "lseg h p xs 0 \<Longrightarrow> lseg h p ys 0 \<Longrightarrow> xs = ys"
proof (induction xs arbitrary: p ys)
  case Nil
  then show ?case by simp
next
  case (Cons x xs)
  then show ?case by (cases ys) auto
qed

lemma lseg_nonzero: "lseg h p xs q \<Longrightarrow> 0 \<notin> set xs"
  by (induction xs arbitrary: p) auto

lemma lseg_alloc: "lseg h p xs q \<Longrightarrow> x \<in> set xs \<Longrightarrow> \<exists>n. h x = Some n"
  by (induction xs arbitrary: p) auto

lemma lseg_hd: "lseg h p xs q \<Longrightarrow> xs \<noteq> [] \<Longrightarrow> p = hd xs"
  by (cases xs) auto

lemma lseg_distinct: "lseg h p xs 0 \<Longrightarrow> distinct xs"
proof (induction xs arbitrary: p)
  case Nil
  then show ?case by simp
next
  case (Cons x xs)
  from Cons.prems obtain n where hx: "h x = Some n" and tail: "lseg h n xs 0" by auto
  have "x \<notin> set xs"
  proof
    assume "x \<in> set xs"
    then obtain us vs where xs: "xs = us @ x # vs" by (auto simp: in_set_conv_decomp)
    from tail have "\<exists>r. lseg h r (x # vs) 0"
      unfolding xs lseg_append by blast
    with hx have "lseg h n vs 0" by auto
    from lseg_unique [OF tail this] xs show False by simp
  qed
  with Cons.IH [OF tail] show ?case by simp
qed

lemma slist_distinct: "slist h l xs \<Longrightarrow> distinct (l # xs)"
  unfolding slist_def by (rule lseg_distinct)

lemma slistD:
  assumes "slist h l xs"
  shows "l \<noteq> 0" "0 \<notin> set xs" "\<exists>r. h l = Some r \<and> lseg h r xs 0"
  using assms lseg_nonzero [of h l "l # xs" 0] by (auto simp: slist_def)

lemma rd_next_eq [simp]: "p \<noteq> 0 \<Longrightarrow> rd_next h p = h p"
  by (simp add: rd_next_def)

lemma wr_next_eq [simp]: "p \<noteq> 0 \<Longrightarrow> h p = Some v \<Longrightarrow> wr_next h p w = Some (h(p \<mapsto> w))"
  by (simp add: wr_next_def)

section \<open>Reading operations\<close>

lemma HdfSListInit_slist:
  "l \<noteq> 0 \<Longrightarrow> h l = Some v \<Longrightarrow> \<exists>h'. HdfSListInit h l = Some h' \<and> slist h' l []"
  by (simp add: HdfSListInit_def slist_def)

lemma HdfSListIsEmpty_slist:
  "slist h l xs \<Longrightarrow> HdfSListIsEmpty h l = Some (xs = [])"
  by (cases xs) (auto simp: HdfSListIsEmpty_def slist_def)

lemma HdfSListGetLast_loop_lseg:
  "lseg h p xs 0 \<Longrightarrow> HdfSListGetLast_loop h lst p = Some (if xs = [] then lst else last xs)"
  by (induction xs arbitrary: p lst) (auto simp: HdfSListGetLast_loop.simps)

lemma HdfSListGetLast_slist:
  "slist h l xs \<Longrightarrow> HdfSListGetLast h l = Some (if xs = [] then 0 else last xs)"
  by (auto simp: HdfSListGetLast_def slist_def HdfSListGetLast_loop_lseg)

lemma HdfSListCount_loop_lseg:
  "lseg h p (p # xs) 0 \<Longrightarrow> HdfSListCount_loop h p c = Some (c + length xs)"
proof (induction xs arbitrary: p c)
  case Nil
  then show ?case by (auto simp: HdfSListCount_loop.simps)
next
  case (Cons x xs)
  then have "h p = Some x" "p \<noteq> 0" "x \<noteq> 0" "lseg h x (x # xs) 0" by auto
  with Cons.IH [of x "Suc c"] show ?case
    by (subst HdfSListCount_loop.simps) simp
qed

lemma HdfSListCount_slist: "slist h l xs \<Longrightarrow> HdfSListCount h l = Some (length xs)"
  using slistD(1) [of h l xs]
  by (simp add: HdfSListCount_def slist_def HdfSListCount_loop_lseg del: lseg.simps(2))

lemma HdfSListPeek_slist: "slist h l xs \<Longrightarrow> HdfSListPeek h l = Some (case xs of [] \<Rightarrow> 0 | x # _ \<Rightarrow> x)"
  by (cases xs) (auto simp: HdfSListPeek_def slist_def)

section \<open>Iteration\<close>

text \<open>
  The position of an iterator in a list: \<open>iter_at h it p ys\<close> says that \<open>ys\<close> are the
  nodes it has still to deliver and \<open>p\<close> is the node (or head) before them.
\<close>

definition iter_at :: "slist_heap \<Rightarrow> HdfSListIterator \<Rightarrow> addr \<Rightarrow> addr list \<Rightarrow> bool" where
  "iter_at h it p ys \<longleftrightarrow>
     (if it_stepOnNext it
      then it_curr it = p \<and> it_prev it \<noteq> 0 \<and> h (it_prev it) = Some p
      else it_prev it = p \<and> h p = Some (it_curr it)) \<and> lseg h p (p # ys) 0"

lemma iter_at_init:
  "slist h l xs \<Longrightarrow> \<exists>it. HdfSListIteratorInit h l = Some it \<and> iter_at h it l xs"
  by (auto simp: HdfSListIteratorInit_def iter_at_def slist_def)

lemma iter_at_has_next:
  "iter_at h it p ys \<Longrightarrow> HdfSListIteratorHasNext h it = Some (ys \<noteq> [])"
  by (cases ys) (auto simp: HdfSListIteratorHasNext_def iter_at_def split: if_splits)

lemma iter_at_next:
  assumes "iter_at h it p (y # ys)"
  shows "\<exists>it'. HdfSListIteratorNext h it = Some (y, it') \<and> iter_at h it' y ys \<and>
           it_stepOnNext it' \<and> it_prev it' = p \<and> it_curr it' = y"
  using assms
  by (auto simp: HdfSListIteratorNext_def iter_at_def split: if_splits)

lemma HdfSListSearch_loop_iter:
  "iter_at h it p ys \<Longrightarrow>
   HdfSListSearch_loop h cmp key it =
     Some (case find (\<lambda>x. cmp x key) ys of None \<Rightarrow> 0 | Some x \<Rightarrow> x)"
proof (induction ys arbitrary: it p)
  case Nil
  then show ?case
    by (subst HdfSListSearch_loop.simps) (simp add: iter_at_has_next)
next
  case (Cons y ys)
  obtain it' where "HdfSListIteratorNext h it = Some (y, it')" "iter_at h it' y ys"
    using iter_at_next [OF Cons.prems] by blast
  with Cons.IH [of it' y] Cons.prems show ?case
    by (subst HdfSListSearch_loop.simps) (simp add: iter_at_has_next)
qed

text \<open>A search is \<^const>\<open>find\<close> on the nodes, with \<^verbatim>\<open>NULL\<close> for no match.\<close>

lemma HdfSListSearch_slist:
  "slist h l xs \<Longrightarrow>
   HdfSListSearch h l key (Some cmp) =
     Some (case find (\<lambda>x. cmp x key) xs of None \<Rightarrow> 0 | Some x \<Rightarrow> x)"
  using iter_at_init [of h l xs] HdfSListSearch_loop_iter
  by (fastforce simp: HdfSListSearch_def)

section \<open>Insertion\<close>

lemma HdfSListAdd_slist:
  assumes "slist h l xs" "x \<noteq> 0" "x \<notin> set (l # xs)" "h x = Some v"
  shows "\<exists>h'. HdfSListAdd h l x = Some h' \<and> slist h' l (x # xs)"
  using assms slistD [OF assms(1)] slist_distinct [OF assms(1)]
  by (auto simp: HdfSListAdd_def slist_def)

lemma HdfSListAddTail_loop_lseg:
  assumes "lseg h p (p # xs) 0" "x \<noteq> 0" "h x = Some v" "x \<noteq> p"
  shows "\<exists>h'. HdfSListAddTail_loop h x p = Some h' \<and>
           (if x \<in> set xs then h' = h
            else lseg h' p (p # xs @ [x]) 0 \<and> (\<forall>a. a \<notin> set (p # xs @ [x]) \<longrightarrow> h' a = h a))"
  using assms
proof (induction xs arbitrary: p)
  case Nil
  then show ?case by (subst HdfSListAddTail_loop.simps) auto
next
  case (Cons y ys)
  then have p: "h p = Some y" "p \<noteq> 0" "y \<noteq> 0" "lseg h y (y # ys) 0" by auto
  have d: "distinct (p # y # ys)" using lseg_distinct [OF Cons.prems(1)] .
  show ?case
  proof (cases "x = y")
    case True
    with p show ?thesis by (subst HdfSListAddTail_loop.simps) auto
  next
    case False
    with Cons.IH [OF p(4)] Cons.prems obtain h' where h': "HdfSListAddTail_loop h x y = Some h'"
      "if x \<in> set ys then h' = h
       else lseg h' y (y # ys @ [x]) 0 \<and> (\<forall>a. a \<notin> set (y # ys @ [x]) \<longrightarrow> h' a = h a)"
      by blast
    then show ?thesis
      using p d False Cons.prems by (subst HdfSListAddTail_loop.simps) (auto split: if_splits)
  qed
qed

text \<open>Adding at the tail leaves a list that already holds the node unchanged.\<close>

lemma HdfSListAddTail_slist:
  assumes "slist h l xs" "x \<noteq> 0" "x \<noteq> l" "h x = Some v"
  shows "\<exists>h'. HdfSListAddTail h l x = Some h' \<and>
           slist h' l (if x \<in> set xs then xs else xs @ [x])"
  using HdfSListAddTail_loop_lseg [OF assms(1)[unfolded slist_def] assms(2,4,3)] assms(1,2)
    slistD(1) [OF assms(1)]
  by (auto simp: HdfSListAddTail_def slist_def split: if_splits)

section \<open>Ordered insertion\<close>

fun sl_insert_after :: "('a \<Rightarrow> 'a \<Rightarrow> bool) \<Rightarrow> 'a \<Rightarrow> 'a list \<Rightarrow> 'a list" where
  "sl_insert_after cmp x [] = [x]"
| "sl_insert_after cmp x [y] = [y, x]"
| "sl_insert_after cmp x (y # z # zs) =
     (if cmp y x \<and> cmp x z then y # x # z # zs else y # sl_insert_after cmp x (z # zs))"

text \<open>What \<^verbatim>\<open>HdfSListAddOrder\<close> does to the sequence of nodes.\<close>

definition sl_add_order :: "('a \<Rightarrow> 'a \<Rightarrow> bool) \<Rightarrow> 'a \<Rightarrow> 'a list \<Rightarrow> 'a list" where
  "sl_add_order cmp x xs =
     (case xs of [] \<Rightarrow> [x] | y # _ \<Rightarrow> if cmp x y then x # xs else sl_insert_after cmp x xs)"

lemma HdfSListAddOrder_dup_lseg:
  "lseg h p xs 0 \<Longrightarrow> HdfSListAddOrder_dup h x p = Some (x \<in> set xs)"
  by (induction xs arbitrary: p) (auto simp: HdfSListAddOrder_dup.simps)

lemma set_sl_insert_after: "set (sl_insert_after cmp x xs) = insert x (set xs)"
  by (induction cmp x xs rule: sl_insert_after.induct) auto

lemma HdfSListAddOrder_loop_lseg:
  assumes "lseg h p (p # xs) 0" "x \<noteq> 0" "h x = Some v" "x \<notin> set (p # xs)"
  shows "\<exists>h'. HdfSListAddOrder_loop h cmp x p = Some h' \<and>
           lseg h' p (sl_insert_after cmp x (p # xs)) 0 \<and>
           (\<forall>a. a \<notin> set (p # xs @ [x]) \<longrightarrow> h' a = h a)"
  using assms
proof (induction xs arbitrary: p)
  case Nil
  then show ?case by (subst HdfSListAddOrder_loop.simps) auto
next
  case (Cons y ys)
  then have p: "h p = Some y" "p \<noteq> 0" "y \<noteq> 0" "lseg h y (y # ys) 0" by auto
  have d: "distinct (p # y # ys)" using lseg_distinct [OF Cons.prems(1)] .
  show ?case
  proof (cases "cmp p x \<and> cmp x y")
    case True
    with p d Cons.prems show ?thesis by (subst HdfSListAddOrder_loop.simps) auto
  next
    case False
    from Cons.IH [OF p(4)] Cons.prems obtain h' where h': "HdfSListAddOrder_loop h cmp x y = Some h'"
      "lseg h' y (sl_insert_after cmp x (y # ys)) 0" "\<forall>a. a \<notin> set (y # ys @ [x]) \<longrightarrow> h' a = h a"
      by auto
    then have "h' p = Some y" using d Cons.prems p by auto
    with h' p d False Cons.prems show ?thesis
      by (subst HdfSListAddOrder_loop.simps) (auto simp: set_sl_insert_after)
  qed
qed

lemma slist_insert_head:
  "slist h l xs \<Longrightarrow> h l = Some r \<Longrightarrow> x \<noteq> 0 \<Longrightarrow> x \<notin> set (l # xs) \<Longrightarrow> slist (h(x \<mapsto> r, l \<mapsto> x)) l (x # xs)"
  using slist_distinct [of h l xs] by (auto simp: slist_def)

lemma HdfSListAddOrder_refines:
  assumes "slist h l xs" "x \<noteq> 0" "x \<noteq> l" "h x = Some v"
  shows "\<exists>h'. HdfSListAddOrder h l x (Some cmp) = Some (x \<notin> set xs, h') \<and>
           slist h' l (if x \<in> set xs then xs else sl_add_order cmp x xs)"
proof (cases xs)
  case Nil
  with assms show ?thesis
    by (auto simp: HdfSListAddOrder_def slist_def HdfSListAddOrder_dup.simps sl_add_order_def)
next
  case (Cons y ys)
  with assms have l: "h l = Some y" "y \<noteq> 0" "lseg h y xs 0" "l \<noteq> 0" by (auto simp: slist_def)
  have d: "distinct (l # xs)" using slist_distinct [OF assms(1)] .
  have dup: "HdfSListAddOrder_dup h x y = Some (x \<in> set xs)"
    by (rule HdfSListAddOrder_dup_lseg [OF l(3)])
  consider "x \<in> set xs" | "x \<notin> set xs" "cmp x y" | "x \<notin> set xs" "\<not> cmp x y" by blast
  then show ?thesis
  proof cases
    case 1
    with assms l dup show ?thesis by (auto simp: HdfSListAddOrder_def)
  next
    case 2
    with assms l dup Cons show ?thesis
      by (auto simp: HdfSListAddOrder_def sl_add_order_def intro!: slist_insert_head)
  next
    case 3
    with HdfSListAddOrder_loop_lseg [of h y ys x v cmp] assms l Cons obtain h' where
      h': "HdfSListAddOrder_loop h cmp x y = Some h'" "lseg h' y (sl_insert_after cmp x xs) 0"
        "\<forall>a. a \<notin> set (y # ys @ [x]) \<longrightarrow> h' a = h a" by auto
    then have "h' l = Some y" using d l Cons assms by auto
    with h' l dup 3 assms Cons show ?thesis
      by (auto simp: HdfSListAddOrder_def sl_add_order_def slist_def)
  qed
qed

lemma mset_sl_add_order: "set (sl_add_order cmp x xs) = insert x (set xs)"
  by (auto simp: sl_add_order_def set_sl_insert_after split: list.splits)

lemma length_sl_add_order [simp]: "length (sl_add_order cmp x xs) = Suc (length xs)"
proof -
  have "length (sl_insert_after cmp x xs) = Suc (length xs)"
    by (induction cmp x xs rule: sl_insert_after.induct) auto
  then show ?thesis by (auto simp: sl_add_order_def split: list.splits)
qed

lemma sorted_sl_insert_after:
  fixes key :: "'a \<Rightarrow> 'k::linorder"
  shows "sorted (map key xs) \<Longrightarrow> xs \<noteq> [] \<Longrightarrow> key (hd xs) \<le> key x \<Longrightarrow>
    sorted (map key (sl_insert_after (\<lambda>a b. key a \<le> key b) x xs))"
proof (induction "\<lambda>a b. key a \<le> key b" x xs rule: sl_insert_after.induct)
  case (3 x y z zs)
  show ?case
  proof (cases "key y \<le> key x \<and> key x \<le> key z")
    case True
    with "3.prems" show ?thesis by auto
  next
    case False
    with "3.prems" have "key z \<le> key x" by auto
    with "3.hyps" [OF False] "3.prems" False show ?thesis
      by (auto simp: set_sl_insert_after)
  qed
qed auto

lemma sorted_sl_add_order:
  fixes key :: "'a \<Rightarrow> 'k::linorder"
  assumes "\<And>a b. cmp a b \<longleftrightarrow> key a \<le> key b" "sorted (map key xs)"
  shows "sorted (map key (sl_add_order cmp x xs))"
proof (cases xs)
  case Nil
  then show ?thesis by (simp add: sl_add_order_def)
next
  case (Cons y ys)
  from assms(1) have cmp: "cmp = (\<lambda>a b. key a \<le> key b)" by (simp add: fun_eq_iff)
  show ?thesis
  proof (cases "cmp x y")
    case True
    with Cons assms show ?thesis by (fastforce simp: sl_add_order_def)
  next
    case False
    with Cons cmp sorted_sl_insert_after [of key xs x] assms(2) show ?thesis
      by (simp add: sl_add_order_def)
  qed
qed

section \<open>Removal\<close>

lemma HdfSListRemove_loop_lseg:
  assumes "lseg h p (p # xs) 0" "x \<noteq> 0"
  shows "\<exists>h'. HdfSListRemove_loop h x p = Some h' \<and> lseg h' p (p # remove1 x xs) 0 \<and>
           h' x = (if x = p then h' p else h x) \<and> (\<forall>a. a \<notin> set (p # xs) \<longrightarrow> h' a = h a)"
  using assms
proof (induction xs arbitrary: p)
  case Nil
  then show ?case
    by (subst HdfSListRemove_loop.simps) (auto simp: HdfSListRemove_loop.simps)
next
  case (Cons y ys)
  then have p: "h p = Some y" "p \<noteq> 0" "y \<noteq> 0" "lseg h y (y # ys) 0" by auto
  have d: "distinct (p # y # ys)" using lseg_distinct [OF Cons.prems(1)] .
  show ?case
  proof (cases "y = x")
    case True
    with p d show ?thesis by (subst HdfSListRemove_loop.simps) auto
  next
    case False
    from Cons.IH [OF p(4) Cons.prems(2)] obtain h' where h': "HdfSListRemove_loop h x y = Some h'"
      "lseg h' y (y # remove1 x ys) 0" "h' x = (if x = y then h' y else h x)"
      "\<forall>a. a \<notin> set (y # ys) \<longrightarrow> h' a = h a" by blast
    with d p False show ?thesis
      by (subst HdfSListRemove_loop.simps) auto
  qed
qed

lemma HdfSListRemove_slist:
  assumes "slist h l xs" "x \<noteq> 0" "x \<noteq> l"
  shows "\<exists>h'. HdfSListRemove h l x = Some h' \<and> slist h' l (remove1 x xs) \<and> h' x = h x"
  using HdfSListRemove_loop_lseg [OF assms(1)[unfolded slist_def] assms(2)] assms slistD(1) [OF assms(1)]
  by (auto simp: HdfSListRemove_def slist_def)

lemma HdfSListPop_slist:
  assumes "slist h l xs"
  shows "\<exists>h'. HdfSListPop h l = Some (case xs of [] \<Rightarrow> 0 | x # _ \<Rightarrow> x, h') \<and> slist h' l (tl xs)"
  using assms slist_distinct [OF assms]
  by (cases xs) (auto simp: HdfSListPop_def slist_def)

text \<open>
  Flushing with a deleter that frees the node: every node of the list is freed, once each
  and never used after it is freed, and the list is empty.
\<close>

definition free_node :: "slist_heap \<Rightarrow> addr \<Rightarrow> slist_heap option" where
  "free_node h p = (if p = 0 \<or> h p = None then None else Some (h(p := None)))"

lemma HdfSListFlush_loop_free:
  assumes "lseg h l (l # xs) 0" "it_stepOnNext it = False" "it_prev it = l" "h l = Some (it_curr it)"
  shows "\<exists>h'. HdfSListFlush_loop (Some free_node) h it = Some h' \<and> h' l = Some 0 \<and>
           (\<forall>x\<in>set xs. h' x = None) \<and> (\<forall>a. a \<notin> set (l # xs) \<longrightarrow> h' a = h a)"
  using assms
proof (induction xs arbitrary: h it)
  case Nil
  then show ?case
    by (subst HdfSListFlush_loop.simps) (auto simp: HdfSListIteratorHasNext_def)
next
  case (Cons y ys)
  have d: "distinct (l # y # ys)" using lseg_distinct [OF Cons.prems(1)] .
  from Cons.prems obtain n where n: "h y = Some n" "y \<noteq> 0" "l \<noteq> 0" "it_curr it = y"
    "lseg h n ys 0" by auto
  define g where "g = (h(l \<mapsto> n))(y := None)"
  have g: "lseg g l (l # ys) 0" "g l = Some n" "g y = None" using n d by (auto simp: g_def)
  let ?it = "it\<lparr>it_curr := n, it_stepOnNext := False\<rparr>"
  have it: "it_stepOnNext ?it = False" "it_prev ?it = l" "g l = Some (it_curr ?it)"
    using Cons.prems(3) g by simp_all
  obtain h' where h': "HdfSListFlush_loop (Some free_node) g ?it = Some h'" "h' l = Some 0"
    "\<forall>x\<in>set ys. h' x = None" "\<forall>a. a \<notin> set (l # ys) \<longrightarrow> h' a = g a"
    using Cons.IH [OF g(1) it] by blast
  have step: "HdfSListFlush_loop (Some free_node) h it = HdfSListFlush_loop (Some free_node) g ?it"
    using n d Cons.prems(2-4)
    by (subst HdfSListFlush_loop.simps)
       (auto simp: HdfSListIteratorHasNext_def HdfSListIteratorNext_def
         HdfSListIteratorRemove_def free_node_def g_def)
  have "h' y = None" using h'(4) g(3) d by simp
  moreover have "\<forall>a. a \<notin> set (l # y # ys) \<longrightarrow> h' a = h a"
    using h'(4) by (simp add: g_def)
  ultimately show ?case using h' step by auto
qed

lemma HdfSListFlush_frees:
  assumes "slist h l xs"
  shows "\<exists>h'. HdfSListFlush h l (Some free_node) = Some h' \<and> slist h' l [] \<and>
           (\<forall>x\<in>set xs. h' x = None) \<and> (\<forall>a. a \<notin> set (l # xs) \<longrightarrow> h' a = h a)"
proof -
  from slistD [OF assms] obtain r where r: "l \<noteq> 0" "h l = Some r" by auto
  then show ?thesis
    using HdfSListFlush_loop_free [OF assms[unfolded slist_def],
      of "\<lparr>it_stepOnNext = False, it_prev = l, it_curr = r\<rparr>"]
    by (auto simp: HdfSListFlush_def HdfSListIteratorInit_def slist_def)
qed

section \<open>The list contract\<close>

text \<open>
  What the managers rely on when they keep their records on such a list: the sequence of
  nodes the heap represents, and how adding, removing and searching act on it.
\<close>

locale node_list =
  fixes rep :: "'h \<Rightarrow> addr \<Rightarrow> addr list \<Rightarrow> bool"
    and allocated :: "'h \<Rightarrow> addr \<Rightarrow> bool"
    and add :: "'h \<Rightarrow> addr \<Rightarrow> addr \<Rightarrow> 'h option"
    and remove :: "'h \<Rightarrow> addr \<Rightarrow> addr \<Rightarrow> 'h option"
    and search :: "'h \<Rightarrow> addr \<Rightarrow> uint32_t \<Rightarrow> (addr \<Rightarrow> uint32_t \<Rightarrow> bool) option \<Rightarrow> addr option"
  assumes rep_distinct: "rep h l xs \<Longrightarrow> distinct (l # xs) \<and> 0 \<notin> set (l # xs)"
    and add_rep: "rep h l xs \<Longrightarrow> x \<noteq> 0 \<Longrightarrow> x \<notin> set (l # xs) \<Longrightarrow> allocated h x \<Longrightarrow>
      \<exists>h'. add h l x = Some h' \<and> rep h' l (x # xs)"
    and remove_rep: "rep h l xs \<Longrightarrow> x \<noteq> 0 \<Longrightarrow> x \<noteq> l \<Longrightarrow>
      \<exists>h'. remove h l x = Some h' \<and> rep h' l (remove1 x xs)"
    and search_rep: "rep h l xs \<Longrightarrow> search h l key (Some cmp) =
      Some (case find (\<lambda>x. cmp x key) xs of None \<Rightarrow> 0 | Some x \<Rightarrow> x)"
begin

lemma search_hit:
  assumes "rep h l xs" "search h l key (Some cmp) = Some x" "x \<noteq> 0"
  shows "x \<in> set xs \<and> cmp x key"
  using assms rep_distinct [OF assms(1)]
  by (auto simp: search_rep find_Some_iff in_set_conv_nth split: option.splits)

lemma search_miss:
  assumes "rep h l xs" "search h l key (Some cmp) = Some 0"
  shows "\<forall>x\<in>set xs. \<not> cmp x key"
proof (cases "find (\<lambda>x. cmp x key) xs")
  case None
  then show ?thesis by (simp add: find_None_iff)
next
  case (Some x)
  then have "x \<in> set xs" by (auto simp: find_Some_iff in_set_conv_nth)
  moreover have "x = 0" using Some assms by (simp add: search_rep)
  ultimately show ?thesis using rep_distinct [OF assms(1)] by auto
qed

text \<open>The newest record of a key shadows the older ones.\<close>

lemma search_after_add:
  assumes "rep h l xs" "x \<noteq> 0" "x \<notin> set (l # xs)" "allocated h x"
  shows "\<exists>h'. add h l x = Some h' \<and> rep h' l (x # xs) \<and>
           (\<forall>key cmp. search h' l key (Some cmp) =
              (if cmp x key then Some x else search h l key (Some cmp)))"
  using add_rep [OF assms] search_rep assms(1) by fastforce

end

interpretation hdf_slist: node_list slist "\<lambda>h x. h x \<noteq> None" HdfSListAdd HdfSListRemove HdfSListSearch
proof (unfold_locales, goal_cases)
  case (1 h l xs)
  then show ?case using slist_distinct slistD by auto
next
  case (2 h l xs x)
  then show ?case using HdfSListAdd_slist by blast
next
  case (3 h l xs x)
  then show ?case using HdfSListRemove_slist by blast
next
  case (4 h l xs key cmp)
  then show ?case by (rule HdfSListSearch_slist)
qed

section \<open>Properties\<close>

definition example_heap :: slist_heap where
  "example_heap = [100 \<mapsto> 1, 1 \<mapsto> 2, 2 \<mapsto> 0, 3 \<mapsto> 0]"

lemma example_heap_slist: "slist example_heap 100 [1, 2]"
  by (simp add: slist_def example_heap_def)

text \<open>
  C19: with a comparer that orders the nodes by a key and answers false for the end of the
  list (as the host and device comparers do), the ordered insertion of a node that is not
  in a sorted list succeeds, without a fault, and leaves a sorted list of the same nodes
  and the new one.
\<close>

theorem add_order_keeps_sorted:
  fixes key :: "addr \<Rightarrow> nat"
  assumes "slist h l xs" "sorted (map key xs)" "x \<noteq> 0" "x \<noteq> l" "x \<notin> set xs" "h x = Some v"
    and cmp: "cmp = (\<lambda>a b. a \<noteq> 0 \<and> b \<noteq> 0 \<and> key a \<le> key b)"
  shows "\<exists>h' ys. HdfSListAddOrder h l x (Some cmp) = Some (True, h') \<and> slist h' l ys \<and>
           sorted (map key ys) \<and> set ys = insert x (set xs) \<and> length ys = Suc (length xs)"
proof -
  from HdfSListAddOrder_refines [OF assms(1,3,4,6), of cmp] assms(5) obtain h' where
    h': "HdfSListAddOrder h l x (Some cmp) = Some (True, h')" "slist h' l (sl_add_order cmp x xs)" by auto
  let ?le = "\<lambda>a b. key a \<le> key b"
  have nz: "0 \<notin> set (x # xs)" using slistD(2) [OF assms(1)] assms(3) by auto
  have after: "sl_insert_after cmp x zs = sl_insert_after ?le x zs" if "0 \<notin> set (x # zs)" for zs
    using that cmp by (induction cmp x zs rule: sl_insert_after.induct) auto
  have "sl_add_order cmp x xs = sl_add_order ?le x xs"
    using nz after [OF nz] cmp by (auto simp: sl_add_order_def split: list.splits)
  with h' sorted_sl_add_order [of ?le key xs x] assms(2) show ?thesis
    by (auto simp: mset_sl_add_order intro!: exI [of _ "sl_add_order ?le x xs"])
qed

theorem add_order_keeps_sorted_witness:
  "\<exists>h' ys. HdfSListAddOrder example_heap 100 3 (Some (\<lambda>a b. a \<noteq> 0 \<and> b \<noteq> 0 \<and> a \<le> b)) = Some (True, h') \<and>
     slist h' 100 ys \<and> set ys = {1, 2, 3}"
proof -
  from add_order_keeps_sorted [OF example_heap_slist, of id 3 0 "\<lambda>a b. a \<noteq> 0 \<and> b \<noteq> 0 \<and> id a \<le> id b"]
  obtain h' ys where
    "HdfSListAddOrder example_heap 100 3 (Some (\<lambda>a b. a \<noteq> 0 \<and> b \<noteq> 0 \<and> a \<le> b)) = Some (True, h')"
    "slist h' 100 ys" "set ys = {1, 2, 3}"
    by (auto simp: example_heap_def)
  then show ?thesis by blast
qed

text \<open>
  C22: flushing a list with a deleter that frees each node terminates without touching a
  freed node: every node of the list is freed, nothing else is changed, the list is empty.
\<close>

theorem flush_frees_every_node:
  assumes "slist h l xs"
  shows "\<exists>h'. HdfSListFlush h l (Some free_node) = Some h' \<and> HdfSListCount h' l = Some 0 \<and>
           (\<forall>x\<in>set xs. h' x = None) \<and> (\<forall>a. a \<notin> set (l # xs) \<longrightarrow> h' a = h a)"
  using HdfSListFlush_frees [OF assms] HdfSListCount_slist by fastforce

theorem flush_frees_every_node_witness:
  "\<exists>h'. HdfSListFlush example_heap 100 (Some free_node) = Some h' \<and> h' 1 = None \<and> h' 2 = None \<and> h' 3 = Some 0"
  using flush_frees_every_node [OF example_heap_slist] by (auto simp: example_heap_def)

end
