(* ===== verification/Hdf_Map.thy ===== *)
theory Hdf_Map
  imports Hdf_Prelude
begin

text \<open>
  The chained hash map of \<^verbatim>\<open>utils/src/hdf_map.c\<close> and the string hash of
  \<^verbatim>\<open>utils/src/hdf_cstring.c\<close>.

  A key is a C string, given by its bytes before the terminator.  A bucket is the list of
  its chain; \<open>nodes = None\<close> is the null bucket array.  An operation is \<^const>\<open>None\<close> when
  the code indexes a null bucket array or indexes past its end.  The second half proves the
  map contract of \<open>kv_store\<close> for this implementation.
\<close>

section \<open>The hash function\<close>

definition char_to_uint32 :: "uint8_t \<Rightarrow> uint32_t" where
  "char_to_uint32 c = scast c"

fun MapHash_loop :: "uint32_t \<Rightarrow> bytes \<Rightarrow> uint32_t" where
  "MapHash_loop hashValue [] = hashValue"
| "MapHash_loop hashValue (c # cs) =
     (if c = 0 then hashValue else MapHash_loop (hashValue * 131 + char_to_uint32 c) cs)"

definition MapHash :: "bytes \<Rightarrow> uint32_t" where
  "MapHash hashKey = MapHash_loop 0 hashKey AND 0x7FFFFFFF"

text \<open>
  \<^verbatim>\<open>HdfStringMakeHashKey\<close>: the same polynomial, with a mask or-ed in; a null key hashes
  to the mask.
\<close>

definition HdfStringMakeHashKey :: "bytes option \<Rightarrow> uint32_t \<Rightarrow> uint32_t" where
  "HdfStringMakeHashKey key msk =
     (case key of None \<Rightarrow> (0 AND 0x7FFFFFFF) OR msk
      | Some k \<Rightarrow> (MapHash_loop 0 k AND 0x7FFFFFFF) OR msk)"

section \<open>Nodes and buckets\<close>

record MapNode =
  mn_hash :: uint32_t
  mn_key :: bytes
  mn_value :: bytes

definition mn_valueSize :: "MapNode \<Rightarrow> uint32_t" where
  "mn_valueSize n = of_nat (length (mn_value n))"

record Map =
  nodes :: "MapNode list list option"
  nodeSize :: uint32_t
  bucketSize :: uint32_t

definition HDF_MIN_MAP_SIZE :: uint32_t where "HDF_MIN_MAP_SIZE = 8"
definition HDF_ENLARGE_FACTOR :: nat where "HDF_ENLARGE_FACTOR = 2"
definition HDF_MAP_KEY_MAX_SIZE :: nat where "HDF_MAP_KEY_MAX_SIZE = 1000"
definition HDF_MAP_VALUE_MAX_SIZE :: nat where "HDF_MAP_VALUE_MAX_SIZE = 1000"

definition MapHashIdx :: "Map \<Rightarrow> uint32_t \<Rightarrow> uint32_t" where
  "MapHashIdx m hash = hash AND (bucketSize m - 1)"

text \<open>The chain head \<^verbatim>\<open>map->nodes[idx]\<close>; reading it faults on a null or short array.\<close>

definition map_bucket :: "Map \<Rightarrow> uint32_t \<Rightarrow> MapNode list option" where
  "map_bucket m idx =
     (case nodes m of None \<Rightarrow> None
      | Some bs \<Rightarrow> if unat idx < length bs then Some (bs ! unat idx) else None)"

definition map_set_bucket :: "Map \<Rightarrow> uint32_t \<Rightarrow> MapNode list \<Rightarrow> Map option" where
  "map_set_bucket m idx chain =
     (case nodes m of None \<Rightarrow> None
      | Some bs \<Rightarrow> if unat idx < length bs
                   then Some (m\<lparr>nodes := Some (bs[unat idx := chain])\<rparr>) else None)"

definition MapAddNode :: "Map \<Rightarrow> MapNode \<Rightarrow> Map option" where
  "MapAddNode m node = (
     let idx = MapHashIdx m (mn_hash node) in
     do { chain \<leftarrow> map_bucket m idx; map_set_bucket m idx (node # chain) })"

fun MapAddNodes :: "Map \<Rightarrow> MapNode list \<Rightarrow> Map option" where
  "MapAddNodes m [] = Some m"
| "MapAddNodes m (n # ns) = do { m' \<leftarrow> MapAddNode m n; MapAddNodes m' ns }"

text \<open>
  \<^verbatim>\<open>MapResize\<close>: the two nested loops visit the old buckets in order and every chain from
  its head, so the nodes are re-added in the order of \<^const>\<open>concat\<close>.  The loop bound is the
  old \<^verbatim>\<open>bucketSize\<close>.  Its only caller, \<^verbatim>\<open>MapSet\<close>, passes a size of at least eight, so what an
  allocation of no bytes returns does not matter.
\<close>

definition MapResize :: "bool \<Rightarrow> Map \<Rightarrow> uint32_t \<Rightarrow> (HDF_STATUS \<times> Map) option" where
  "MapResize alloc_ok m sz =
     (if \<not> alloc_ok then Some (HDF_ERR_MALLOC_FAIL, m)
      else let m1 = m\<lparr>nodes := Some (replicate (unat sz) []), bucketSize := sz\<rparr> in
        case nodes m of
          None \<Rightarrow> Some (HDF_SUCCESS, m1)
        | Some tmp \<Rightarrow>
            if unat (bucketSize m) \<le> length tmp
            then map_option (Pair HDF_SUCCESS)
                   (MapAddNodes m1 (concat (take (unat (bucketSize m)) tmp)))
            else None)"

definition MapCreateNode :: "bool \<Rightarrow> bytes \<Rightarrow> uint32_t \<Rightarrow> bytes \<Rightarrow> MapNode option" where
  "MapCreateNode alloc_ok key hash value =
     (if alloc_ok then Some \<lparr>mn_hash = hash, mn_key = key, mn_value = value\<rparr> else None)"

section \<open>Set, get, erase, delete\<close>

definition node_matches :: "uint32_t \<Rightarrow> bytes \<Rightarrow> MapNode \<Rightarrow> bool" where
  "node_matches hash key n \<longleftrightarrow> mn_hash n = hash \<and> mn_key n = key"

text \<open>
  The search loop of \<^verbatim>\<open>MapSet\<close> on one chain: \<^const>\<open>None\<close> when no node has the key, else
  the status and the chain after the in-place update of the first match.
\<close>

fun MapSet_chain :: "uint32_t \<Rightarrow> bytes \<Rightarrow> bytes \<Rightarrow> MapNode list \<Rightarrow> (HDF_STATUS \<times> MapNode list) option" where
  "MapSet_chain hash key value [] = None"
| "MapSet_chain hash key value (n # ns) =
     (if \<not> node_matches hash key n
      then map_option (map_prod id (Cons n)) (MapSet_chain hash key value ns)
      else if length (mn_value n) \<noteq> length value then Some (HDF_ERR_INVALID_OBJECT, n # ns)
      else Some (HDF_SUCCESS, n\<lparr>mn_value := value\<rparr> # ns))"

text \<open>
  \<^verbatim>\<open>MapSet\<close>.  The two flags say whether the allocations of the bucket array and of the
  node succeed; as in the code, the status of \<^verbatim>\<open>MapResize\<close> is not looked at.  The value
  is given by its bytes, \<^verbatim>\<open>valueSize\<close> by their number.
\<close>

definition MapSet_insert :: "bool \<Rightarrow> bool \<Rightarrow> Map \<Rightarrow> bytes \<Rightarrow> uint32_t \<Rightarrow> bytes \<Rightarrow> (HDF_STATUS \<times> Map) option" where
  "MapSet_insert resize_ok node_ok m key hash value = do {
     r \<leftarrow> (if bucketSize m \<le> nodeSize m
          then MapResize resize_ok m
                 (if bucketSize m < HDF_MIN_MAP_SIZE then HDF_MIN_MAP_SIZE
                  else push_bit HDF_ENLARGE_FACTOR (bucketSize m))
          else Some (HDF_SUCCESS, m));
     let m1 = snd r in
     case MapCreateNode node_ok key hash value of
       None \<Rightarrow> Some (HDF_ERR_INVALID_OBJECT, m1)
     | Some node \<Rightarrow> do {
         m2 \<leftarrow> MapAddNode m1 node;
         Some (HDF_SUCCESS, m2\<lparr>nodeSize := nodeSize m2 + 1\<rparr>)
       }
   }"

definition MapSet ::
    "bool \<Rightarrow> bool \<Rightarrow> Map option \<Rightarrow> bytes option \<Rightarrow> bytes option \<Rightarrow> (HDF_STATUS \<times> Map option) option" where
  "MapSet resize_ok node_ok mp key value =
     (case (mp, key, value) of
        (Some m, Some k, Some v) \<Rightarrow>
          if length v = 0 then Some (HDF_ERR_INVALID_PARAM, mp)
          else if HDF_MAP_KEY_MAX_SIZE < length v \<or> HDF_MAP_VALUE_MAX_SIZE < length k
          then Some (HDF_ERR_INVALID_PARAM, mp)
          else let hash = MapHash k in do {
            found \<leftarrow> (if 0 < nodeSize m \<and> nodes m \<noteq> None then do {
                        chain \<leftarrow> map_bucket m (MapHashIdx m hash);
                        Some (MapSet_chain hash k v chain)
                      } else Some None);
            case found of
              Some (status, chain') \<Rightarrow>
                map_option (\<lambda>m'. (status, Some m')) (map_set_bucket m (MapHashIdx m hash) chain')
            | None \<Rightarrow> map_option (map_prod id Some) (MapSet_insert resize_ok node_ok m k hash v)
          }
      | _ \<Rightarrow> Some (HDF_ERR_INVALID_PARAM, mp))"

text \<open>\<^verbatim>\<open>MapGet\<close> returns a pointer to the stored bytes; the model returns the bytes.\<close>

definition MapGet :: "Map option \<Rightarrow> bytes option \<Rightarrow> bytes option option" where
  "MapGet mp key =
     (case (mp, key) of
        (Some m, Some k) \<Rightarrow>
          if nodeSize m = 0 \<or> nodes m = None then Some None
          else do {
            chain \<leftarrow> map_bucket m (MapHashIdx m (MapHash k));
            Some (map_option mn_value (find (node_matches (MapHash k) k) chain))
          }
      | _ \<Rightarrow> Some None)"

fun MapErase_chain :: "uint32_t \<Rightarrow> bytes \<Rightarrow> MapNode list \<Rightarrow> MapNode list option" where
  "MapErase_chain hash key [] = None"
| "MapErase_chain hash key (n # ns) =
     (if node_matches hash key n then Some ns
      else map_option (Cons n) (MapErase_chain hash key ns))"

definition MapErase :: "Map option \<Rightarrow> bytes option \<Rightarrow> (HDF_STATUS \<times> Map option) option" where
  "MapErase mp key =
     (case (mp, key) of
        (Some m, Some k) \<Rightarrow>
          if nodeSize m = 0 \<or> nodes m = None then Some (HDF_ERR_INVALID_PARAM, mp)
          else do {
            chain \<leftarrow> map_bucket m (MapHashIdx m (MapHash k));
            case MapErase_chain (MapHash k) k chain of
              None \<Rightarrow> Some (HDF_FAILURE, mp)
            | Some chain' \<Rightarrow> do {
                m' \<leftarrow> map_set_bucket m (MapHashIdx m (MapHash k)) chain';
                Some (HDF_SUCCESS, Some (m'\<lparr>nodeSize := nodeSize m' - 1\<rparr>))
              }
          }
      | _ \<Rightarrow> Some (HDF_ERR_INVALID_PARAM, mp))"

definition MapInit :: "Map option \<Rightarrow> Map option" where
  "MapInit mp = map_option (\<lambda>m. m\<lparr>nodes := None, nodeSize := 0, bucketSize := 0\<rparr>) mp"

text \<open>\<^verbatim>\<open>MapDelete\<close> also returns the nodes it frees, in order.\<close>

definition MapDelete :: "Map option \<Rightarrow> (MapNode list \<times> Map option) option" where
  "MapDelete mp =
     (case mp of None \<Rightarrow> Some ([], None)
      | Some m \<Rightarrow>
          (case nodes m of None \<Rightarrow> Some ([], mp)
           | Some bs \<Rightarrow>
               if unat (bucketSize m) \<le> length bs
               then Some (concat (take (unat (bucketSize m)) bs),
                          Some (m\<lparr>nodes := None, nodeSize := 0, bucketSize := 0\<rparr>))
               else None))"

section \<open>The map contract\<close>

text \<open>
  What a client of a string map relies on: a state invariant, the finite map the state
  stands for, and the effect of each operation on it.  Storing under an existing key is
  refused when the value has another size.
\<close>

locale kv_store =
  fixes kv_inv :: "'m \<Rightarrow> bool"
    and kv_room :: "'m \<Rightarrow> bool"
    and kv_abs :: "'m \<Rightarrow> bytes \<rightharpoonup> bytes"
    and kv_set :: "'m \<Rightarrow> bytes \<Rightarrow> bytes \<Rightarrow> (HDF_STATUS \<times> 'm) option"
    and kv_get :: "'m \<Rightarrow> bytes \<Rightarrow> bytes option option"
    and kv_erase :: "'m \<Rightarrow> bytes \<Rightarrow> (HDF_STATUS \<times> 'm) option"
  assumes get_abs: "kv_inv m \<Longrightarrow> kv_get m k = Some (kv_abs m k)"
    and set_fits: "kv_inv m \<Longrightarrow> kv_room m \<Longrightarrow> 0 < length v \<Longrightarrow> length v \<le> HDF_MAP_KEY_MAX_SIZE \<Longrightarrow>
      length k \<le> HDF_MAP_VALUE_MAX_SIZE \<Longrightarrow> (\<And>w. kv_abs m k = Some w \<Longrightarrow> length w = length v) \<Longrightarrow>
      \<exists>m'. kv_set m k v = Some (HDF_SUCCESS, m') \<and> kv_inv m' \<and> kv_abs m' = (kv_abs m)(k \<mapsto> v)"
    and set_clash: "kv_inv m \<Longrightarrow> 0 < length v \<Longrightarrow> length v \<le> HDF_MAP_KEY_MAX_SIZE \<Longrightarrow>
      length k \<le> HDF_MAP_VALUE_MAX_SIZE \<Longrightarrow> kv_abs m k = Some w \<Longrightarrow> length w \<noteq> length v \<Longrightarrow>
      kv_set m k v = Some (HDF_ERR_INVALID_OBJECT, m)"
    and erase_abs: "kv_inv m \<Longrightarrow> kv_abs m k = Some w \<Longrightarrow>
      \<exists>m'. kv_erase m k = Some (HDF_SUCCESS, m') \<and> kv_inv m' \<and> kv_abs m' = (kv_abs m)(k := None)"
begin

lemma set_then_get:
  assumes "kv_inv m" "kv_room m" "0 < length v" "length v \<le> HDF_MAP_KEY_MAX_SIZE"
    "length k \<le> HDF_MAP_VALUE_MAX_SIZE" "\<And>w. kv_abs m k = Some w \<Longrightarrow> length w = length v"
  shows "\<exists>m'. kv_set m k v = Some (HDF_SUCCESS, m') \<and>
           (\<forall>k'. kv_get m' k' = (if k' = k then Some (Some v) else kv_get m k'))"
  using set_fits [OF assms] get_abs assms(1) by fastforce

lemma erase_then_get:
  assumes "kv_inv m" "kv_get m k = Some (Some w)"
  shows "\<exists>m'. kv_erase m k = Some (HDF_SUCCESS, m') \<and>
           (\<forall>k'. kv_get m' k' = (if k' = k then Some None else kv_get m k'))"
proof -
  from assms have "kv_abs m k = Some w" by (simp add: get_abs)
  from erase_abs [OF assms(1) this] show ?thesis
    using get_abs assms(1) by fastforce
qed

end

section \<open>The representation invariant\<close>

definition kv_of :: "MapNode list \<Rightarrow> bytes \<rightharpoonup> bytes" where
  "kv_of ns = map_of (map (\<lambda>n. (mn_key n, mn_value n)) ns)"

lemma kv_of_simps [simp]:
  "kv_of [] = Map.empty"
  "kv_of (n # ns) = (kv_of ns)(mn_key n \<mapsto> mn_value n)"
  by (simp_all add: kv_of_def)

lemma kv_of_append: "kv_of (xs @ ys) = kv_of ys ++ kv_of xs"
  by (simp add: kv_of_def)

lemma kv_of_None: "k \<notin> mn_key ` set ns \<Longrightarrow> kv_of ns k = None"
  by (induction ns) auto

lemma kv_of_eq_None_iff: "kv_of ns k = None \<longleftrightarrow> k \<notin> mn_key ` set ns"
  by (induction ns) auto

definition map_abs :: "Map \<Rightarrow> bytes \<rightharpoonup> bytes" where
  "map_abs m = (case nodes m of None \<Rightarrow> Map.empty | Some bs \<Rightarrow> kv_of (concat bs))"

text \<open>The bucket of a key, and the nodes that may be in bucket \<open>i\<close>.\<close>

definition key_idx :: "Map \<Rightarrow> bytes \<Rightarrow> nat" where
  "key_idx m k = unat (MapHashIdx m (MapHash k))"

definition chain_ok :: "Map \<Rightarrow> nat \<Rightarrow> MapNode list \<Rightarrow> bool" where
  "chain_ok m i chain \<longleftrightarrow>
     distinct (map mn_key chain) \<and>
     (\<forall>n\<in>set chain. mn_hash n = MapHash (mn_key n) \<and> key_idx m (mn_key n) = i)"

definition placed :: "Map \<Rightarrow> MapNode list list \<Rightarrow> bool" where
  "placed m bs \<longleftrightarrow>
     nodes m = Some bs \<and> length bs = unat (bucketSize m) \<and>
     (\<exists>e. 3 \<le> e \<and> e < 32 \<and> bucketSize m = 2 ^ e) \<and>
     (\<forall>i<length bs. chain_ok m i (bs ! i))"

definition map_inv :: "Map \<Rightarrow> bool" where
  "map_inv m \<longleftrightarrow>
     (case nodes m of
        None \<Rightarrow> nodeSize m = 0 \<and> bucketSize m = 0
      | Some bs \<Rightarrow> placed m bs \<and> unat (nodeSize m) = length (concat bs))"

text \<open>Room for one more node without the shift of the bucket size wrapping round.\<close>

definition map_room :: "Map \<Rightarrow> bool" where
  "map_room m \<longleftrightarrow> unat (nodeSize m) < 2 ^ 30"

lemma placedD:
  assumes "placed m bs"
  shows "nodes m = Some bs" "length bs = unat (bucketSize m)" "\<And>k. key_idx m k < length bs"
    "\<And>i. i < length bs \<Longrightarrow> chain_ok m i (bs ! i)"
proof -
  from assms show "nodes m = Some bs" "length bs = unat (bucketSize m)"
    "\<And>i. i < length bs \<Longrightarrow> chain_ok m i (bs ! i)" by (auto simp: placed_def)
  from assms obtain e where e: "e < 32" "bucketSize m = 2 ^ e" by (auto simp: placed_def)
  then have "unat (h AND (2 ^ e - 1)) < unat (2 ^ e :: uint32_t)" for h :: uint32_t
    by (simp add: unat_and_pow2_mask unat_pow2)
  then show "key_idx m k < length bs" for k
    using assms e by (simp add: placed_def key_idx_def MapHashIdx_def)
qed

lemma kv_of_concat:
  assumes "i < length bs" "\<And>j. j < length bs \<Longrightarrow> j \<noteq> i \<Longrightarrow> k \<notin> mn_key ` set (bs ! j)"
  shows "kv_of (concat bs) k = kv_of (bs ! i) k"
proof -
  let ?A = "concat (take i bs)" and ?B = "concat (drop (Suc i) bs)"
  have bs: "concat bs = ?A @ bs ! i @ ?B"
    using id_take_nth_drop [OF assms(1)] by (metis concat.simps(2) concat_append)
  have "k \<notin> mn_key ` set ?A"
  proof
    assume "k \<in> mn_key ` set ?A"
    then obtain c where c: "c \<in> set (take i bs)" "k \<in> mn_key ` set c" by auto
    then obtain j where "j < i" "bs ! j = c"
      using assms(1) by (auto simp: in_set_conv_nth)
    with c assms(1) assms(2) [of j] show False by auto
  qed
  moreover have "k \<notin> mn_key ` set ?B"
  proof
    assume "k \<in> mn_key ` set ?B"
    then obtain c where c: "c \<in> set (drop (Suc i) bs)" "k \<in> mn_key ` set c" by auto
    then obtain j where j: "j < length (drop (Suc i) bs)" "drop (Suc i) bs ! j = c"
      by (metis in_set_conv_nth)
    then have "Suc i + j < length bs" by simp
    with j c assms(2) [of "Suc i + j"] show False by auto
  qed
  ultimately show ?thesis
    by (simp add: bs kv_of_append kv_of_None map_add_def split: option.splits)
qed

lemma placed_abs:
  assumes "placed m bs"
  shows "map_abs m k = kv_of (bs ! key_idx m k) k"
proof -
  have "kv_of (concat bs) k = kv_of (bs ! key_idx m k) k"
    using placedD [OF assms] by (intro kv_of_concat) (auto simp: chain_ok_def)
  then show ?thesis by (simp add: map_abs_def placedD(1) [OF assms])
qed

lemma placed_bucket:
  "placed m bs \<Longrightarrow> map_bucket m (MapHashIdx m (MapHash k)) = Some (bs ! key_idx m k)"
  using placedD(1,3) [of m bs] by (simp add: map_bucket_def key_idx_def)

lemma placed_set_bucket:
  "placed m bs \<Longrightarrow> map_set_bucket m (MapHashIdx m (MapHash k)) c =
     Some (m\<lparr>nodes := Some (bs[key_idx m k := c])\<rparr>)"
  using placedD(1,3) [of m bs] by (simp add: map_set_bucket_def key_idx_def)

lemma key_idx_update [simp]:
  "key_idx (m\<lparr>nodes := x\<rparr>) k = key_idx m k" "key_idx (m\<lparr>nodeSize := y\<rparr>) k = key_idx m k"
  by (simp_all add: key_idx_def MapHashIdx_def)

lemma chain_ok_update [simp]:
  "chain_ok (m\<lparr>nodes := x\<rparr>) i c = chain_ok m i c" "chain_ok (m\<lparr>nodeSize := y\<rparr>) i c = chain_ok m i c"
  by (simp_all add: chain_ok_def)

lemma placed_update:
  assumes "placed m bs" "chain_ok m (key_idx m k) c"
  shows "placed (m\<lparr>nodes := Some (bs[key_idx m k := c])\<rparr>) (bs[key_idx m k := c])"
proof -
  have "chain_ok m i (bs[key_idx m k := c] ! i)" if "i < length bs" for i
    using that assms(2) placedD(4) [OF assms(1)] by (cases "i = key_idx m k") auto
  then show ?thesis using assms(1) by (simp add: placed_def)
qed

lemma placed_nodeSize [simp]: "placed (m\<lparr>nodeSize := y\<rparr>) bs = placed m bs"
  by (simp add: placed_def)

lemma map_abs_nodeSize [simp]: "map_abs (m\<lparr>nodeSize := y\<rparr>) = map_abs m"
  by (simp add: map_abs_def)

text \<open>Replacing the chain of one key by a chain with the new content changes that key only.\<close>

lemma placed_update_abs:
  assumes p: "placed m bs" and c: "chain_ok m (key_idx m k) c"
    and c_k: "kv_of c k = v"
    and c_other: "\<And>k'. k' \<noteq> k \<Longrightarrow> kv_of c k' = kv_of (bs ! key_idx m k) k'"
  shows "map_abs (m\<lparr>nodes := Some (bs[key_idx m k := c])\<rparr>) = (map_abs m)(k := v)"
proof
  fix k'
  let ?m = "m\<lparr>nodes := Some (bs[key_idx m k := c])\<rparr>"
  have "map_abs ?m k' = kv_of (bs[key_idx m k := c] ! key_idx m k') k'"
    using placed_abs [OF placed_update [OF p c], of k'] by simp
  also have "\<dots> = ((map_abs m)(k := v)) k'"
    using placedD(3) [OF p] c_k c_other placed_abs [OF p, of k']
    by (cases "key_idx m k' = key_idx m k") auto
  finally show "map_abs ?m k' = ((map_abs m)(k := v)) k'" .
qed

lemma length_concat_update:
  assumes "i < length bs"
  shows "length (concat (bs[i := c])) + length (bs ! i) = length (concat bs) + length c"
proof -
  have bs: "bs = take i bs @ bs ! i # drop (Suc i) bs"
    by (rule id_take_nth_drop [OF assms])
  have "length (concat bs) = length (concat (take i bs)) + length (bs ! i) + length (concat (drop (Suc i) bs))"
    by (subst bs) simp
  then show ?thesis by (simp add: upd_conv_take_nth_drop [OF assms])
qed

section \<open>The operations meet the contract\<close>

lemma find_matches_kv_of:
  "\<forall>n\<in>set c. mn_hash n = MapHash (mn_key n) \<Longrightarrow>
   map_option mn_value (find (node_matches (MapHash k) k) c) = kv_of c k"
  by (induction c) (auto simp: node_matches_def)

lemma MapGet_abs:
  assumes "map_inv m"
  shows "MapGet (Some m) (Some k) = Some (map_abs m k)"
proof (cases "nodes m")
  case None
  then show ?thesis by (simp add: MapGet_def map_abs_def)
next
  case (Some bs)
  with assms have p: "placed m bs" and n: "unat (nodeSize m) = length (concat bs)"
    by (auto simp: map_inv_def)
  show ?thesis
  proof (cases "nodeSize m = 0")
    case True
    with n have "concat bs = []" by simp
    then have "kv_of (concat bs) k = None" by (simp only: kv_of_simps)
    with True Some show ?thesis by (simp add: MapGet_def map_abs_def)
  next
    case False
    have "chain_ok m (key_idx m k) (bs ! key_idx m k)" using placedD(3,4) [OF p] by blast
    then have "map_option mn_value (find (node_matches (MapHash k) k) (bs ! key_idx m k)) = map_abs m k"
      by (simp add: find_matches_kv_of placed_abs [OF p] chain_ok_def)
    with False Some show ?thesis by (simp add: MapGet_def placed_bucket [OF p])
  qed
qed

lemma MapSet_chain_None:
  "chain_ok m i c \<Longrightarrow> MapSet_chain (MapHash k) k v c = None \<longleftrightarrow> kv_of c k = None"
  by (induction c) (auto simp: node_matches_def chain_ok_def)

lemma MapSet_chain_fits:
  "chain_ok m i c \<Longrightarrow> kv_of c k = Some w \<Longrightarrow> length w = length v \<Longrightarrow>
   \<exists>c'. MapSet_chain (MapHash k) k v c = Some (HDF_SUCCESS, c') \<and> chain_ok m i c' \<and>
        map mn_key c' = map mn_key c \<and> kv_of c' = (kv_of c)(k \<mapsto> v)"
proof (induction c)
  case Nil
  then show ?case by simp
next
  case (Cons n ns)
  have tail: "chain_ok m i ns" using Cons.prems(1) by (simp add: chain_ok_def)
  show ?case
  proof (cases "mn_key n = k")
    case True
    with Cons.prems show ?thesis by (auto simp: node_matches_def chain_ok_def)
  next
    case False
    with Cons.prems(2) have "kv_of ns k = Some w" by simp
    from Cons.IH [OF tail this Cons.prems(3)] obtain c' where
      "MapSet_chain (MapHash k) k v ns = Some (HDF_SUCCESS, c')" "chain_ok m i c'"
      "map mn_key c' = map mn_key ns" "kv_of c' = (kv_of ns)(k \<mapsto> v)" by blast
    moreover have "set (map mn_key c') = set (map mn_key ns)" using calculation by simp
    moreover have "kv_of (n # c') = (kv_of (n # ns))(k \<mapsto> v)"
      using False calculation by (simp add: fun_upd_twist)
    ultimately show ?thesis
      using False Cons.prems by (auto simp: node_matches_def chain_ok_def simp del: kv_of_simps)
  qed
qed

lemma MapSet_chain_clash:
  "chain_ok m i c \<Longrightarrow> kv_of c k = Some w \<Longrightarrow> length w \<noteq> length v \<Longrightarrow>
   MapSet_chain (MapHash k) k v c = Some (HDF_ERR_INVALID_OBJECT, c)"
  by (induction c) (auto simp: node_matches_def chain_ok_def split: if_splits)

lemma MapAddNode_placed:
  assumes p: "placed m bs" and h: "mn_hash n = MapHash (mn_key n)" and k: "map_abs m (mn_key n) = None"
  shows "\<exists>bs'. MapAddNode m n = Some (m\<lparr>nodes := Some bs'\<rparr>) \<and> placed (m\<lparr>nodes := Some bs'\<rparr>) bs' \<and>
           length (concat bs') = Suc (length (concat bs)) \<and>
           map_abs (m\<lparr>nodes := Some bs'\<rparr>) = (map_abs m)(mn_key n \<mapsto> mn_value n)"
proof -
  let ?i = "key_idx m (mn_key n)"
  let ?c = "n # bs ! ?i"
  from k placed_abs [OF p] have "mn_key n \<notin> mn_key ` set (bs ! ?i)"
    by (simp add: kv_of_eq_None_iff)
  with placedD(4) [OF p, of ?i] placedD(3) [OF p] h have c: "chain_ok m ?i ?c"
    by (auto simp: chain_ok_def)
  moreover have "MapAddNode m n = Some (m\<lparr>nodes := Some (bs[?i := ?c])\<rparr>)"
    by (simp add: MapAddNode_def Let_def h placed_bucket [OF p] placed_set_bucket [OF p])
  moreover have "length (concat (bs[?i := ?c])) = Suc (length (concat bs))"
    using length_concat_update [of ?i bs ?c] placedD(3) [OF p, of "mn_key n"] by simp
  moreover have "map_abs (m\<lparr>nodes := Some (bs[?i := ?c])\<rparr>) = (map_abs m)(mn_key n \<mapsto> mn_value n)"
    by (rule placed_update_abs [OF p c]) auto
  ultimately show ?thesis using placed_update [OF p] by blast
qed

lemma MapAddNodes_placed:
  assumes "placed m bs" "\<forall>n\<in>set ns. mn_hash n = MapHash (mn_key n)" "distinct (map mn_key ns)"
    "\<forall>n\<in>set ns. map_abs m (mn_key n) = None"
  shows "\<exists>bs'. MapAddNodes m ns = Some (m\<lparr>nodes := Some bs'\<rparr>) \<and> placed (m\<lparr>nodes := Some bs'\<rparr>) bs' \<and>
           length (concat bs') = length ns + length (concat bs) \<and>
           map_abs (m\<lparr>nodes := Some bs'\<rparr>) = map_abs m ++ kv_of ns"
  using assms
proof (induction ns arbitrary: m bs)
  case Nil
  then have m: "m\<lparr>nodes := Some bs\<rparr> = m" by (simp add: placedD(1))
  show ?case using Nil by (intro exI [of _ bs]) (simp add: m)
next
  case (Cons n ns)
  from MapAddNode_placed [OF Cons.prems(1), of n] Cons.prems obtain bs1 where
    bs1: "MapAddNode m n = Some (m\<lparr>nodes := Some bs1\<rparr>)" "placed (m\<lparr>nodes := Some bs1\<rparr>) bs1"
      "length (concat bs1) = Suc (length (concat bs))"
      "map_abs (m\<lparr>nodes := Some bs1\<rparr>) = (map_abs m)(mn_key n \<mapsto> mn_value n)" by auto
  from Cons.prems have "\<forall>n'\<in>set ns. map_abs (m\<lparr>nodes := Some bs1\<rparr>) (mn_key n') = None"
    by (auto simp: bs1(4) image_iff)
  from Cons.IH [OF bs1(2) _ _ this] Cons.prems obtain bs' where
    "MapAddNodes (m\<lparr>nodes := Some bs1\<rparr>) ns = Some (m\<lparr>nodes := Some bs'\<rparr>)"
    "placed (m\<lparr>nodes := Some bs'\<rparr>) bs'" "length (concat bs') = length ns + length (concat bs1)"
    "map_abs (m\<lparr>nodes := Some bs'\<rparr>) = map_abs (m\<lparr>nodes := Some bs1\<rparr>) ++ kv_of ns" by auto
  moreover have "kv_of ns (mn_key n) = None"
    using Cons.prems(3) by (auto intro!: kv_of_None)
  ultimately have "map_abs (m\<lparr>nodes := Some bs'\<rparr>) = map_abs m ++ kv_of (n # ns)"
    "MapAddNodes m (n # ns) = Some (m\<lparr>nodes := Some bs'\<rparr>)"
    "length (concat bs') = length (n # ns) + length (concat bs)"
    using bs1 by (auto simp: fun_eq_iff map_add_def split: option.splits)
  with \<open>placed (m\<lparr>nodes := Some bs'\<rparr>) bs'\<close> show ?case by blast
qed

text \<open>Growing the bucket array keeps the content.\<close>

lemma placed_concat:
  assumes "placed m bs"
  shows "\<forall>n\<in>set (concat bs). mn_hash n = MapHash (mn_key n)" "distinct (map mn_key (concat bs))"
proof -
  show "\<forall>n\<in>set (concat bs). mn_hash n = MapHash (mn_key n)"
  proof
    fix n assume "n \<in> set (concat bs)"
    then obtain c where c: "c \<in> set bs" "n \<in> set c" by auto
    from c(1) obtain i where "i < length bs" "bs ! i = c" by (metis in_set_conv_nth)
    with placedD(4) [OF assms] c(2) show "mn_hash n = MapHash (mn_key n)"
      by (auto simp: chain_ok_def)
  qed
  have "distinct (map mn_key (concat cs))"
    if "\<And>i. i < length cs \<Longrightarrow> chain_ok m (f + i) (cs ! i)" for cs f
    using that
  proof (induction cs arbitrary: f)
    case Nil
    then show ?case by simp
  next
    case (Cons c cs)
    have "chain_ok m (Suc f + i) (cs ! i)" if "i < length cs" for i
      using Cons.prems [of "Suc i"] that by simp
    note rest = this
    have c: "chain_ok m f c" using Cons.prems [of 0] by simp
    have "key_idx m (mn_key n) \<noteq> f" if "n \<in> set (concat cs)" for n
    proof -
      from that obtain c' where c': "c' \<in> set cs" "n \<in> set c'" by auto
      from c'(1) obtain i where "i < length cs" "cs ! i = c'" by (metis in_set_conv_nth)
      with c'(2) have "i < length cs" "n \<in> set (cs ! i)" by auto
      with rest [of i] show ?thesis by (auto simp: chain_ok_def)
    qed
    with c have "mn_key ` set c \<inter> mn_key ` set (concat cs) = {}"
      by (fastforce simp: chain_ok_def)
    with c Cons.IH [OF rest] show ?case by (auto simp: chain_ok_def)
  qed
  from this [of bs 0] placedD(4) [OF assms] show "distinct (map mn_key (concat bs))" by simp
qed

lemma MapResize_abs:
  assumes inv: "map_inv m" and size: "sz = 2 ^ e" "3 \<le> e" "e < 32"
  shows "\<exists>m'. MapResize True m sz = Some (HDF_SUCCESS, m') \<and> map_inv m' \<and> nodeSize m' = nodeSize m \<and>
           nodes m' \<noteq> None \<and> map_abs m' = map_abs m"
proof -
  let ?E = "replicate (unat sz) ([] :: MapNode list)"
  let ?m1 = "m\<lparr>nodes := Some ?E, bucketSize := sz\<rparr>"
  have "concat ?E = []" by simp
  then have abs1: "map_abs ?m1 = Map.empty" by (simp add: map_abs_def)
  have p1: "placed ?m1 ?E" using size by (auto simp: placed_def chain_ok_def)
  show ?thesis
  proof (cases "nodes m")
    case None
    with inv p1 abs1 show ?thesis
      by (auto simp: MapResize_def map_inv_def Let_def map_abs_def)
  next
    case (Some bs)
    with inv have p: "placed m bs" and n: "unat (nodeSize m) = length (concat bs)"
      by (auto simp: map_inv_def)
    from MapAddNodes_placed [OF p1 placed_concat [OF p]] abs1 obtain bs' where
      bs': "MapAddNodes ?m1 (concat bs) = Some (?m1\<lparr>nodes := Some bs'\<rparr>)"
        "placed (?m1\<lparr>nodes := Some bs'\<rparr>) bs'" "length (concat bs') = length (concat bs)"
        "map_abs (?m1\<lparr>nodes := Some bs'\<rparr>) = kv_of (concat bs)" by auto
    have len: "length bs = unat (bucketSize m)" by (rule placedD(2) [OF p])
    then have "MapResize True m sz = Some (HDF_SUCCESS, ?m1\<lparr>nodes := Some bs'\<rparr>)"
      using Some bs'(1) by (simp add: MapResize_def Let_def)
    moreover have "map_inv (?m1\<lparr>nodes := Some bs'\<rparr>)"
      using bs' n by (simp add: map_inv_def placedD(1) [OF bs'(2)])
    ultimately show ?thesis using bs'(4) Some by (auto simp: map_abs_def)
  qed
qed

lemma map_inv_new_bucket:
  assumes "map_inv m" "map_room m" "bucketSize m \<le> nodeSize m"
  shows "\<exists>e. (if bucketSize m < HDF_MIN_MAP_SIZE then HDF_MIN_MAP_SIZE
              else push_bit HDF_ENLARGE_FACTOR (bucketSize m)) = 2 ^ e \<and> 3 \<le> e \<and> e < 32"
proof (cases "nodes m")
  case None
  with assms(1) show ?thesis
    by (intro exI [of _ 3]) (simp add: map_inv_def HDF_MIN_MAP_SIZE_def)
next
  case (Some bs)
  with assms(1) obtain e where e: "3 \<le> e" "e < 32" "bucketSize m = 2 ^ e"
    by (auto simp: map_inv_def placed_def)
  from assms(3) have "unat (bucketSize m) \<le> unat (nodeSize m)" by (simp add: word_le_nat_alt)
  also have "\<dots> < 2 ^ 30" using assms(2) by (simp add: map_room_def)
  finally have "(2::nat) ^ e < 2 ^ 30" using e by (simp add: unat_pow2)
  then have "e < 30" by (rule power_less_imp_less_exp [rotated]) simp
  moreover have "\<not> bucketSize m < HDF_MIN_MAP_SIZE"
  proof -
    have "(2::nat) ^ 3 \<le> 2 ^ e" using e(1) by (rule power_increasing) simp
    then show ?thesis using e by (simp add: HDF_MIN_MAP_SIZE_def word_less_nat_alt unat_pow2)
  qed
  moreover have "push_bit HDF_ENLARGE_FACTOR (bucketSize m) = 2 ^ (e + 2)"
    by (simp add: HDF_ENLARGE_FACTOR_def e(3) push_bit_eq_mult power_add)
  ultimately show ?thesis using e by (intro exI [of _ "e + 2"]) simp
qed

lemma MapSet_insert_abs:
  assumes inv: "map_inv m" and room: "map_room m" and new: "map_abs m k = None"
  shows "\<exists>m'. MapSet_insert True True m k (MapHash k) v = Some (HDF_SUCCESS, m') \<and> map_inv m' \<and>
           map_abs m' = (map_abs m)(k \<mapsto> v)"
proof -
  define r where "r = (if bucketSize m \<le> nodeSize m
    then MapResize True m (if bucketSize m < HDF_MIN_MAP_SIZE then HDF_MIN_MAP_SIZE
                           else push_bit HDF_ENLARGE_FACTOR (bucketSize m))
    else Some (HDF_SUCCESS, m))"
  have "\<exists>m1. r = Some (HDF_SUCCESS, m1) \<and> map_inv m1 \<and> nodeSize m1 = nodeSize m \<and>
          nodes m1 \<noteq> None \<and> map_abs m1 = map_abs m"
  proof (cases "bucketSize m \<le> nodeSize m")
    case True
    from map_inv_new_bucket [OF inv room True] obtain e where
      e: "(if bucketSize m < HDF_MIN_MAP_SIZE then HDF_MIN_MAP_SIZE
           else push_bit HDF_ENLARGE_FACTOR (bucketSize m)) = 2 ^ e" "3 \<le> e" "e < 32" by blast
    from MapResize_abs [OF inv e] True show ?thesis by (simp add: r_def)
  next
    case False
    with inv show ?thesis by (auto simp: r_def map_inv_def split: option.splits)
  qed
  then obtain m1 bs where m1: "r = Some (HDF_SUCCESS, m1)" "placed m1 bs"
    "unat (nodeSize m1) = length (concat bs)" "nodeSize m1 = nodeSize m" "map_abs m1 = map_abs m"
    by (auto simp: map_inv_def split: option.splits)
  let ?n = "\<lparr>mn_hash = MapHash k, mn_key = k, mn_value = v\<rparr>"
  from MapAddNode_placed [OF m1(2), of ?n] new m1(5) obtain bs' where
    bs': "MapAddNode m1 ?n = Some (m1\<lparr>nodes := Some bs'\<rparr>)" "placed (m1\<lparr>nodes := Some bs'\<rparr>) bs'"
      "length (concat bs') = Suc (length (concat bs))"
      "map_abs (m1\<lparr>nodes := Some bs'\<rparr>) = (map_abs m1)(k \<mapsto> v)" by auto
  let ?m' = "m1\<lparr>nodes := Some bs', nodeSize := nodeSize m1 + 1\<rparr>"
  have "unat (nodeSize m1 + 1) = Suc (unat (nodeSize m1))"
    using room m1(4) by (simp add: map_room_def unat_word_ariths)
  then have "map_inv ?m'" using bs' m1(3) by (simp add: map_inv_def)
  moreover have "map_abs ?m' = (map_abs m)(k \<mapsto> v)" using bs'(4) m1(5) by simp
  moreover have "MapSet_insert True True m k (MapHash k) v = Some (HDF_SUCCESS, ?m')"
    using m1(1) bs'(1) unfolding MapSet_insert_def r_def [symmetric] by (simp add: MapCreateNode_def)
  ultimately show ?thesis by blast
qed

lemma MapSet_lookup:
  assumes inv: "map_inv m" and v: "0 < length v" "length v \<le> HDF_MAP_KEY_MAX_SIZE"
    and k: "length k \<le> HDF_MAP_VALUE_MAX_SIZE"
  shows "(if 0 < nodeSize m \<and> nodes m \<noteq> None then do {
            chain \<leftarrow> map_bucket m (MapHashIdx m (MapHash k));
            Some (MapSet_chain (MapHash k) k v chain)
          } else Some None) =
    Some (if map_abs m k = None then None
          else MapSet_chain (MapHash k) k v (the (nodes m) ! key_idx m k))"
proof (cases "nodes m")
  case None
  then show ?thesis by (simp add: map_abs_def)
next
  case (Some bs)
  with inv have p: "placed m bs" and n: "unat (nodeSize m) = length (concat bs)"
    by (auto simp: map_inv_def)
  have c: "chain_ok m (key_idx m k) (bs ! key_idx m k)" using placedD(3,4) [OF p] by blast
  show ?thesis
  proof (cases "nodeSize m = 0")
    case True
    with n have "concat bs = []" by simp
    then have "kv_of (concat bs) k = None" by (simp only: kv_of_simps)
    with True Some show ?thesis by (simp add: map_abs_def)
  next
    case False
    with Some c show ?thesis
      by (simp add: placed_bucket [OF p] placed_abs [OF p] MapSet_chain_None word_neq_0_conv)
  qed
qed

lemma MapSet_new_abs:
  assumes "map_inv m" "map_room m" "0 < length v" "length v \<le> HDF_MAP_KEY_MAX_SIZE"
    "length k \<le> HDF_MAP_VALUE_MAX_SIZE" "map_abs m k = None"
  shows "\<exists>m'. MapSet True True (Some m) (Some k) (Some v) = Some (HDF_SUCCESS, Some m') \<and>
           map_inv m' \<and> map_abs m' = (map_abs m)(k \<mapsto> v)"
  using MapSet_lookup [OF assms(1,3,4,5)] MapSet_insert_abs [OF assms(1,2,6), of v] assms(3-6)
  by (auto simp: MapSet_def Let_def not_less)

lemma MapSet_old_abs:
  assumes inv: "map_inv m" and v: "0 < length v" "length v \<le> HDF_MAP_KEY_MAX_SIZE"
    and k: "length k \<le> HDF_MAP_VALUE_MAX_SIZE" and old: "map_abs m k = Some w"
  shows "if length w = length v
         then \<exists>m'. MapSet a b (Some m) (Some k) (Some v) = Some (HDF_SUCCESS, Some m') \<and>
                map_inv m' \<and> map_abs m' = (map_abs m)(k \<mapsto> v)
         else MapSet a b (Some m) (Some k) (Some v) = Some (HDF_ERR_INVALID_OBJECT, Some m)"
proof -
  from old obtain bs where bs: "nodes m = Some bs" by (cases "nodes m") (auto simp: map_abs_def)
  with inv have p: "placed m bs" and n: "unat (nodeSize m) = length (concat bs)"
    by (auto simp: map_inv_def)
  let ?i = "key_idx m k"
  have c: "chain_ok m ?i (bs ! ?i)" using placedD(3,4) [OF p] by blast
  have kv: "kv_of (bs ! ?i) k = Some w" using old placed_abs [OF p] by simp
  note look = MapSet_lookup [OF inv v k] old bs
  show ?thesis
  proof (cases "length w = length v")
    case True
    from MapSet_chain_fits [OF c kv True] obtain c' where
      c': "MapSet_chain (MapHash k) k v (bs ! ?i) = Some (HDF_SUCCESS, c')" "chain_ok m ?i c'"
        "map mn_key c' = map mn_key (bs ! ?i)" "kv_of c' = (kv_of (bs ! ?i))(k \<mapsto> v)" by blast
    let ?m' = "m\<lparr>nodes := Some (bs[?i := c'])\<rparr>"
    have "MapSet a b (Some m) (Some k) (Some v) = Some (HDF_SUCCESS, Some ?m')"
      using look c'(1) v k by (simp add: MapSet_def Let_def placed_set_bucket [OF p] not_less)
    moreover have "map_abs ?m' = (map_abs m)(k \<mapsto> v)"
      using c'(4) by (intro placed_update_abs [OF p c'(2)]) auto
    moreover have "length (concat (bs[?i := c'])) = length (concat bs)"
      using length_concat_update [of ?i bs c'] placedD(3) [OF p] arg_cong [OF c'(3), of length] by simp
    then have "map_inv ?m'" using placed_update [OF p c'(2)] n by (simp add: map_inv_def)
    ultimately show ?thesis using True by auto
  next
    case False
    have "m\<lparr>nodes := Some (bs[?i := bs ! ?i])\<rparr> = m" using bs by simp
    with False look MapSet_chain_clash [OF c kv False] v k show ?thesis
      by (simp add: MapSet_def Let_def placed_set_bucket [OF p] not_less del: list_update_id)
  qed
qed

lemma MapErase_chain_abs:
  "chain_ok m i c \<Longrightarrow>
   (case kv_of c k of None \<Rightarrow> MapErase_chain (MapHash k) k c = None
    | Some w \<Rightarrow> \<exists>c'. MapErase_chain (MapHash k) k c = Some c' \<and> chain_ok m i c' \<and>
        length c = Suc (length c') \<and> set c' \<subseteq> set c \<and> kv_of c' = (kv_of c)(k := None))"
proof (induction c)
  case Nil
  then show ?case by simp
next
  case (Cons n ns)
  have tail: "chain_ok m i ns" using Cons.prems by (simp add: chain_ok_def)
  show ?case
  proof (cases "mn_key n = k")
    case True
    with Cons.prems have "kv_of ns k = None" by (auto simp: chain_ok_def kv_of_eq_None_iff)
    then have "kv_of ns = (kv_of (n # ns))(k := None)" using True by (auto simp: fun_eq_iff)
    with True Cons.prems tail show ?thesis by (auto simp: node_matches_def chain_ok_def)
  next
    case False
    show ?thesis
    proof (cases "kv_of ns k")
      case None
      with False Cons.IH [OF tail] show ?thesis by (simp add: node_matches_def)
    next
      case (Some w)
      with Cons.IH [OF tail] obtain c' where c': "MapErase_chain (MapHash k) k ns = Some c'"
        "chain_ok m i c'" "length ns = Suc (length c')" "set c' \<subseteq> set ns"
        "kv_of c' = (kv_of ns)(k := None)" by auto
      then have "kv_of (n # c') = (kv_of (n # ns))(k := None)"
        using False by (simp add: fun_upd_twist)
      moreover have "chain_ok m i (n # c')"
        using c'(2,4) Cons.prems by (auto simp: chain_ok_def)
      ultimately show ?thesis using c' False Some by (auto simp: node_matches_def)
    qed
  qed
qed

lemma MapErase_abs:
  assumes inv: "map_inv m" and old: "map_abs m k = Some w"
  shows "\<exists>m'. MapErase (Some m) (Some k) = Some (HDF_SUCCESS, Some m') \<and> map_inv m' \<and>
           map_abs m' = (map_abs m)(k := None)"
proof -
  from old obtain bs where bs: "nodes m = Some bs" by (cases "nodes m") (auto simp: map_abs_def)
  with inv have p: "placed m bs" and n: "unat (nodeSize m) = length (concat bs)"
    by (auto simp: map_inv_def)
  let ?i = "key_idx m k"
  have c: "chain_ok m ?i (bs ! ?i)" using placedD(3,4) [OF p] by blast
  from MapErase_chain_abs [OF c, of k] old placed_abs [OF p, of k] obtain c' where
    c': "MapErase_chain (MapHash k) k (bs ! ?i) = Some c'" "chain_ok m ?i c'"
      "length (bs ! ?i) = Suc (length c')" "kv_of c' = (kv_of (bs ! ?i))(k := None)" by auto
  have len: "Suc (length (concat (bs[?i := c']))) = length (concat bs)"
    using length_concat_update [of ?i bs c'] placedD(3) [OF p, of k] c'(3) by simp
  then have "unat (nodeSize m) \<noteq> 0" unfolding n by linarith
  then have "nodeSize m \<noteq> 0" by auto
  let ?m' = "m\<lparr>nodes := Some (bs[?i := c']), nodeSize := nodeSize m - 1\<rparr>"
  have "MapErase (Some m) (Some k) = Some (HDF_SUCCESS, Some ?m')"
    using \<open>nodeSize m \<noteq> 0\<close> bs c'(1) placedD(3) [OF p, of k]
    by (simp add: MapErase_def placed_bucket [OF p] placed_set_bucket [OF p])
  moreover have "unat (nodeSize m - 1) = unat (nodeSize m) - 1"
    using \<open>nodeSize m \<noteq> 0\<close> by (simp add: unat_minus_one)
  then have "map_inv ?m'" using placed_update [OF p c'(2)] n len by (simp add: map_inv_def)
  moreover have "map_abs ?m' = (map_abs m)(k := None)"
    using placed_update_abs [OF p c'(2), of None] c'(4) by simp
  ultimately show ?thesis by blast
qed

section \<open>The implementation as a string map\<close>

definition hm_set :: "Map \<Rightarrow> bytes \<Rightarrow> bytes \<Rightarrow> (HDF_STATUS \<times> Map) option" where
  "hm_set m k v =
     (case MapSet True True (Some m) (Some k) (Some v) of Some (s, Some m') \<Rightarrow> Some (s, m') | _ \<Rightarrow> None)"

definition hm_get :: "Map \<Rightarrow> bytes \<Rightarrow> bytes option option" where
  "hm_get m k = MapGet (Some m) (Some k)"

definition hm_erase :: "Map \<Rightarrow> bytes \<Rightarrow> (HDF_STATUS \<times> Map) option" where
  "hm_erase m k = (case MapErase (Some m) (Some k) of Some (s, Some m') \<Rightarrow> Some (s, m') | _ \<Rightarrow> None)"

lemma hm_eq_iff:
  "hm_set m k v = Some (s, m') \<longleftrightarrow> MapSet True True (Some m) (Some k) (Some v) = Some (s, Some m')"
  "hm_erase m k = Some (s, m') \<longleftrightarrow> MapErase (Some m) (Some k) = Some (s, Some m')"
  by (auto simp: hm_set_def hm_erase_def split: option.splits prod.splits)

interpretation hdf_map: kv_store map_inv map_room map_abs hm_set hm_get hm_erase
proof (unfold_locales, goal_cases)
  case (1 m k)
  then show ?case by (simp add: hm_get_def MapGet_abs)
next
  case (2 m v k)
  show ?case
  proof (cases "map_abs m k")
    case None
    with MapSet_new_abs [OF 2(1-5)] show ?thesis by (simp add: hm_eq_iff)
  next
    case (Some w)
    with MapSet_old_abs [OF 2(1,3-5) Some, of True True] 2(6) show ?thesis by (simp add: hm_eq_iff)
  qed
next
  case (3 m v k w)
  with MapSet_old_abs [OF 3(1-5), of True True] show ?case by (simp add: hm_eq_iff)
next
  case (4 m k w)
  with MapErase_abs [OF 4] show ?case by (simp add: hm_eq_iff)
qed

definition empty_map :: Map where
  "empty_map = \<lparr>nodes = None, nodeSize = 0, bucketSize = 0\<rparr>"

lemma map_inv_empty: "map_inv empty_map" "map_room empty_map" "map_abs empty_map = Map.empty"
  by (simp_all add: empty_map_def map_inv_def map_room_def map_abs_def)

text \<open>
  C3: storing a pair that fits (value of 1 to 1000 bytes, key of at most 1000, no value of
  another size under the key) succeeds, and afterwards a lookup returns the value for the
  key and what it returned before for every other key, across bucket growth and collisions.
\<close>

theorem map_set_then_get:
  assumes "map_inv m" "map_room m" "0 < length v" "length v \<le> 1000" "length k \<le> 1000"
    and "\<And>w. MapGet (Some m) (Some k) = Some (Some w) \<Longrightarrow> length w = length v"
  shows "\<exists>m'. MapSet True True (Some m) (Some k) (Some v) = Some (HDF_SUCCESS, Some m') \<and> map_inv m' \<and>
           (\<forall>k'. MapGet (Some m') (Some k') = (if k' = k then Some (Some v) else MapGet (Some m) (Some k')))"
proof -
  have "\<And>w. map_abs m k = Some w \<Longrightarrow> length w = length v" using assms(1,6) by (simp add: MapGet_abs)
  from hdf_map.set_fits [OF assms(1-3) _ _ this] assms(4,5) obtain m' where
    m': "hm_set m k v = Some (HDF_SUCCESS, m')" "map_inv m'" "map_abs m' = (map_abs m)(k \<mapsto> v)"
    by (auto simp: HDF_MAP_KEY_MAX_SIZE_def HDF_MAP_VALUE_MAX_SIZE_def)
  then show ?thesis using assms(1) by (auto simp: hm_eq_iff MapGet_abs)
qed

theorem map_set_then_get_witness:
  "\<exists>m'. MapSet True True (Some empty_map) (Some [104, 105]) (Some [1]) = Some (HDF_SUCCESS, Some m') \<and>
     MapGet (Some m') (Some [104, 105]) = Some (Some [1])"
proof -
  have "MapGet (Some empty_map) (Some [104, 105]) = Some None"
    by (simp add: MapGet_def empty_map_def)
  then show ?thesis
    using map_set_then_get [of empty_map "[1]" "[104, 105]"] map_inv_empty by auto
qed

text \<open>
  C20: erasing a key that is present succeeds, removes this key and keeps every other pair;
  the node count stays the number of nodes.
\<close>

theorem map_erase_then_get:
  assumes "map_inv m" "MapGet (Some m) (Some k) = Some (Some w)"
  shows "\<exists>m'. MapErase (Some m) (Some k) = Some (HDF_SUCCESS, Some m') \<and> map_inv m' \<and>
           (\<forall>k'. MapGet (Some m') (Some k') = (if k' = k then Some None else MapGet (Some m) (Some k')))"
proof -
  from assms have "map_abs m k = Some w" by (simp add: MapGet_abs)
  from MapErase_abs [OF assms(1) this] assms(1) show ?thesis by (auto simp: MapGet_abs)
qed

definition one_key_map :: Map where
  "one_key_map = \<lparr>nodes = Some [[], [\<lparr>mn_hash = 97, mn_key = [97], mn_value = [7]\<rparr>], [], [], [], [], [], []],
                  nodeSize = 1, bucketSize = 8\<rparr>"

lemma one_key_map_inv: "map_inv one_key_map"
proof -
  have "chain_ok one_key_map i (the (nodes one_key_map) ! i)" if "i < 8" for i
  proof -
    from that have "i \<in> {0, 1, 2, 3, 4, 5, 6, 7}" by auto
    then show ?thesis
      by (auto simp: one_key_map_def chain_ok_def key_idx_def MapHashIdx_def MapHash_def
          char_to_uint32_def nth_Cons')
  qed
  then show ?thesis
    by (auto simp: map_inv_def placed_def one_key_map_def intro!: exI [of _ 3])
qed

theorem map_erase_then_get_witness:
  "\<exists>m'. MapErase (Some one_key_map) (Some [97]) = Some (HDF_SUCCESS, Some m') \<and>
     MapGet (Some m') (Some [97]) = Some None"
proof -
  have "MapGet (Some one_key_map) (Some [97]) = Some (Some [7])"
    by (simp add: MapGet_def one_key_map_def map_bucket_def MapHashIdx_def MapHash_def
        char_to_uint32_def node_matches_def)
  from map_erase_then_get [OF one_key_map_inv this] show ?thesis by auto
qed

text \<open>
  The first insertion into an initialised map ignores a failed allocation of the bucket
  array and then indexes the null array: the operation faults instead of returning an error.
\<close>

theorem map_first_insert_alloc_failure_faults:
  assumes "0 < length v" "length v \<le> 1000" "length k \<le> 1000"
  shows "MapSet False True (MapInit (Some m)) (Some k) (Some v) = None"
  using assms
  by (simp add: MapSet_def MapInit_def MapSet_insert_def MapResize_def MapCreateNode_def
      MapAddNode_def map_bucket_def Let_def HDF_MAP_KEY_MAX_SIZE_def HDF_MAP_VALUE_MAX_SIZE_def)

theorem map_first_insert_alloc_failure_faults_witness:
  "MapSet False True (MapInit (Some empty_map)) (Some [97]) (Some [7]) = None"
  by (rule map_first_insert_alloc_failure_faults) simp_all

end
