(* ===== verification/Hdf_Sbuf.thy ===== *)
theory Hdf_Sbuf
  imports Hdf_Prelude
begin

text \<open>
  The serialization buffer: the raw implementation of \<^verbatim>\<open>utils/src/hdf_sbuf_impl_raw.c\<close> and
  the dispatching front end of \<^verbatim>\<open>utils/src/hdf_sbuf.c\<close>.

  A \<^verbatim>\<open>struct HdfSbufImpl *\<close> argument is an option, \<^const>\<open>None\<close> for the null pointer.  The data
  block is a byte list; a pointer into it that the code hands out is its offset.  Every
  access to the block goes through \<^const>\<open>mem_read\<close>, \<^const>\<open>mem_write\<close> or
  \<^const>\<open>memcpy_s\<close>, so an operation that would leave the block is \<^const>\<open>None\<close>.  A flag
  \<open>ok\<close> says whether the allocation of the operation succeeds.
\<close>

section \<open>State\<close>

record HdfSBufRaw =
  sb_writePos :: size_t
  sb_readPos :: size_t
  sb_capacity :: size_t
  sb_data :: "bytes option"
  sb_isBind :: bool

definition HDF_SBUF_GROW_SIZE_DEFAULT :: size_t where "HDF_SBUF_GROW_SIZE_DEFAULT = 256"
definition HDF_SBUF_MAX_SIZE :: size_t where "HDF_SBUF_MAX_SIZE = 512 * 1024"

definition SbufRawImplGetAlignSize :: "size_t \<Rightarrow> size_t" where
  "SbufRawImplGetAlignSize n = (n + 4 - 1) AND NOT (4 - 1)"

definition SbufRawImplGetLeftWriteSize :: "HdfSBufRaw \<Rightarrow> size_t" where
  "SbufRawImplGetLeftWriteSize sbuf =
     (if sb_capacity sbuf < sb_writePos sbuf then 0 else sb_capacity sbuf - sb_writePos sbuf)"

definition SbufRawImplGetLeftReadSize :: "HdfSBufRaw \<Rightarrow> size_t" where
  "SbufRawImplGetLeftReadSize sbuf =
     (if sb_writePos sbuf < sb_readPos sbuf then 0 else sb_writePos sbuf - sb_readPos sbuf)"

section \<open>Positions\<close>

definition SbufRawImplWriteRollback :: "HdfSBufRaw option \<Rightarrow> uint32_t \<Rightarrow> bool \<times> HdfSBufRaw option" where
  "SbufRawImplWriteRollback impl sz =
     (case impl of None \<Rightarrow> (False, impl)
      | Some sbuf \<Rightarrow> (let alignSize = SbufRawImplGetAlignSize (ucast sz) in
          if sb_writePos sbuf < alignSize then (False, impl)
          else (True, Some (sbuf\<lparr>sb_writePos := sb_writePos sbuf - alignSize\<rparr>))))"

definition SbufRawImplReadRollback :: "HdfSBufRaw option \<Rightarrow> uint32_t \<Rightarrow> bool \<times> HdfSBufRaw option" where
  "SbufRawImplReadRollback impl sz =
     (case impl of None \<Rightarrow> (False, impl)
      | Some sbuf \<Rightarrow> (let alignSize = SbufRawImplGetAlignSize (ucast sz) in
          if sb_readPos sbuf < alignSize then (False, impl)
          else (True, Some (sbuf\<lparr>sb_readPos := sb_readPos sbuf - alignSize\<rparr>))))"

definition SbufRawImplGetData :: "HdfSBufRaw option \<Rightarrow> bytes option" where
  "SbufRawImplGetData impl = (case impl of None \<Rightarrow> None | Some sbuf \<Rightarrow> sb_data sbuf)"

definition SbufRawImplSetDataSize :: "HdfSBufRaw option \<Rightarrow> size_t \<Rightarrow> HdfSBufRaw option" where
  "SbufRawImplSetDataSize impl sz =
     (case impl of None \<Rightarrow> None
      | Some sbuf \<Rightarrow> if sz \<le> sb_capacity sbuf
                     then Some (sbuf\<lparr>sb_readPos := 0, sb_writePos := sz\<rparr>) else impl)"

definition SbufRawImplFlush :: "HdfSBufRaw option \<Rightarrow> HdfSBufRaw option" where
  "SbufRawImplFlush impl =
     (case impl of None \<Rightarrow> None | Some sbuf \<Rightarrow> Some (sbuf\<lparr>sb_readPos := 0, sb_writePos := 0\<rparr>))"

definition SbufRawImplGetCapacity :: "HdfSBufRaw option \<Rightarrow> size_t" where
  "SbufRawImplGetCapacity impl = (case impl of Some sbuf \<Rightarrow> sb_capacity sbuf | None \<Rightarrow> 0)"

definition SbufRawImplGetDataSize :: "HdfSBufRaw option \<Rightarrow> size_t" where
  "SbufRawImplGetDataSize impl = (case impl of Some sbuf \<Rightarrow> sb_writePos sbuf | None \<Rightarrow> 0)"

section \<open>Growing, writing and reading\<close>

text \<open>The new size is computed in \<^verbatim>\<open>size_t\<close> and kept in a \<^verbatim>\<open>uint32_t\<close>.\<close>

definition SbufRawImplGrow :: "bool \<Rightarrow> HdfSBufRaw \<Rightarrow> uint32_t \<Rightarrow> (bool \<times> HdfSBufRaw) option" where
  "SbufRawImplGrow ok sbuf growSize =
     (if sb_isBind sbuf then Some (False, sbuf)
      else let newSize = (ucast (SbufRawImplGetAlignSize (sb_capacity sbuf + ucast growSize)) :: uint32_t) in
        if ucast newSize < sb_capacity sbuf then Some (False, sbuf)
        else if ucast newSize > HDF_SBUF_MAX_SIZE then Some (False, sbuf)
        else (case OsalMemCalloc ok (unat newSize) of
            None \<Rightarrow> Some (False, sbuf)
          | Some newData \<Rightarrow>
              (case sb_data sbuf of
                 None \<Rightarrow> Some (True, sbuf\<lparr>sb_data := Some newData, sb_capacity := ucast newSize\<rparr>)
               | Some d \<Rightarrow> do {
                   src \<leftarrow> mem_read d 0 (unat (sb_writePos sbuf));
                   r \<leftarrow> memcpy_s newData 0 (unat newSize) src;
                   if \<not> fst r then Some (False, sbuf)
                   else Some (True, sbuf\<lparr>sb_data := Some (snd r), sb_capacity := ucast newSize\<rparr>)
                 })))"

text \<open>
  \<^verbatim>\<open>SbufRawImplWrite\<close>; the caller's buffer is the byte block \<open>buf\<close>, of which \<open>sz\<close>
  bytes are read.  The grow size is passed through a \<^verbatim>\<open>uint32_t\<close> parameter.
\<close>

definition SbufRawImplWrite_copy ::
    "HdfSBufRaw \<Rightarrow> bytes \<Rightarrow> uint32_t \<Rightarrow> size_t \<Rightarrow> (bool \<times> HdfSBufRaw option) option" where
  "SbufRawImplWrite_copy sbuf buf sz alignSize =
     (case sb_data sbuf of None \<Rightarrow> None
      | Some d \<Rightarrow> do {
          src \<leftarrow> mem_read buf 0 (unat sz);
          r \<leftarrow> memcpy_s d (unat (sb_writePos sbuf)) (unat (SbufRawImplGetLeftWriteSize sbuf)) src;
          if \<not> fst r then Some (False, Some sbuf)
          else Some (True, Some (sbuf\<lparr>sb_data := Some (snd r), sb_writePos := sb_writePos sbuf + alignSize\<rparr>))
        })"

definition SbufRawImplWrite ::
    "bool \<Rightarrow> HdfSBufRaw option \<Rightarrow> bytes option \<Rightarrow> uint32_t \<Rightarrow> (bool \<times> HdfSBufRaw option) option" where
  "SbufRawImplWrite ok impl data sz =
     (case impl of None \<Rightarrow> Some (False, impl)
      | Some sbuf \<Rightarrow>
          (case (sb_data sbuf, data) of
             (Some d, Some buf) \<Rightarrow>
               if sz = 0 then Some (True, impl)
               else let alignSize = SbufRawImplGetAlignSize (ucast sz) in
                 if alignSize < ucast sz then Some (False, impl)
                 else if SbufRawImplGetLeftWriteSize sbuf < alignSize then do {
                   let growSize = (if HDF_SBUF_GROW_SIZE_DEFAULT < alignSize
                                   then alignSize + HDF_SBUF_GROW_SIZE_DEFAULT
                                   else HDF_SBUF_GROW_SIZE_DEFAULT);
                   g \<leftarrow> SbufRawImplGrow ok sbuf (ucast growSize);
                   if \<not> fst g then Some (False, Some (snd g))
                   else SbufRawImplWrite_copy (snd g) buf sz alignSize
                 }
                 else SbufRawImplWrite_copy sbuf buf sz alignSize
           | _ \<Rightarrow> Some (False, impl)))"

text \<open>
  \<^verbatim>\<open>SbufRawImplRead\<close>: \<open>dst\<close> says whether the destination pointer is not null; the bytes
  stored there are returned, \<^const>\<open>None\<close> standing for the result \<^verbatim>\<open>false\<close>.
\<close>

definition SbufRawImplRead ::
    "HdfSBufRaw option \<Rightarrow> bool \<Rightarrow> uint32_t \<Rightarrow> (bytes option \<times> HdfSBufRaw option) option" where
  "SbufRawImplRead impl dst readSize =
     (case impl of None \<Rightarrow> Some (None, impl)
      | Some sbuf \<Rightarrow>
          (case sb_data sbuf of None \<Rightarrow> Some (None, impl)
           | Some d \<Rightarrow>
               if \<not> dst then Some (None, impl)
               else if readSize = 0 then Some (Some [], impl)
               else let alignSize = SbufRawImplGetAlignSize (ucast readSize) in
                 if SbufRawImplGetLeftReadSize sbuf < alignSize then Some (None, impl)
                 else do {
                   bs \<leftarrow> mem_read d (unat (sb_readPos sbuf)) (unat readSize);
                   Some (Some bs, Some (sbuf\<lparr>sb_readPos := sb_readPos sbuf + alignSize\<rparr>))
                 }))"

section \<open>Typed values\<close>

definition SbufRawImplWriteUint64 :: "bool \<Rightarrow> HdfSBufRaw option \<Rightarrow> uint64_t \<Rightarrow> (bool \<times> HdfSBufRaw option) option" where
  "SbufRawImplWriteUint64 ok impl v = SbufRawImplWrite ok impl (Some (le_bytes 8 v)) 8"

definition SbufRawImplWriteUint32 :: "bool \<Rightarrow> HdfSBufRaw option \<Rightarrow> uint32_t \<Rightarrow> (bool \<times> HdfSBufRaw option) option" where
  "SbufRawImplWriteUint32 ok impl v = SbufRawImplWrite ok impl (Some (le_bytes 4 v)) 4"

definition SbufRawImplWriteUint16 :: "bool \<Rightarrow> HdfSBufRaw option \<Rightarrow> uint16_t \<Rightarrow> (bool \<times> HdfSBufRaw option) option" where
  "SbufRawImplWriteUint16 ok impl v = SbufRawImplWrite ok impl (Some (le_bytes 2 v)) 2"

definition SbufRawImplWriteUint8 :: "bool \<Rightarrow> HdfSBufRaw option \<Rightarrow> uint8_t \<Rightarrow> (bool \<times> HdfSBufRaw option) option" where
  "SbufRawImplWriteUint8 ok impl v = SbufRawImplWrite ok impl (Some (le_bytes 1 v)) 1"

text \<open>A signed value is given by its two's complement bits.\<close>

definition SbufRawImplWriteInt64 :: "bool \<Rightarrow> HdfSBufRaw option \<Rightarrow> 64 word \<Rightarrow> (bool \<times> HdfSBufRaw option) option" where
  "SbufRawImplWriteInt64 ok impl v = SbufRawImplWrite ok impl (Some (le_bytes 8 v)) 8"

definition SbufRawImplWriteInt32 :: "bool \<Rightarrow> HdfSBufRaw option \<Rightarrow> 32 word \<Rightarrow> (bool \<times> HdfSBufRaw option) option" where
  "SbufRawImplWriteInt32 ok impl v = SbufRawImplWrite ok impl (Some (le_bytes 4 v)) 4"

definition SbufRawImplWriteInt16 :: "bool \<Rightarrow> HdfSBufRaw option \<Rightarrow> 16 word \<Rightarrow> (bool \<times> HdfSBufRaw option) option" where
  "SbufRawImplWriteInt16 ok impl v = SbufRawImplWrite ok impl (Some (le_bytes 2 v)) 2"

definition SbufRawImplWriteInt8 :: "bool \<Rightarrow> HdfSBufRaw option \<Rightarrow> 8 word \<Rightarrow> (bool \<times> HdfSBufRaw option) option" where
  "SbufRawImplWriteInt8 ok impl v = SbufRawImplWrite ok impl (Some (le_bytes 1 v)) 1"

definition read_word :: "(bytes option \<times> HdfSBufRaw option) option \<Rightarrow> ('a::len word option \<times> HdfSBufRaw option) option" where
  "read_word r = map_option (map_prod (map_option le_word) id) r"

definition SbufRawImplReadUint64 :: "HdfSBufRaw option \<Rightarrow> bool \<Rightarrow> (uint64_t option \<times> HdfSBufRaw option) option" where
  "SbufRawImplReadUint64 impl dst = read_word (SbufRawImplRead impl dst 8)"

definition SbufRawImplReadUint32 :: "HdfSBufRaw option \<Rightarrow> bool \<Rightarrow> (uint32_t option \<times> HdfSBufRaw option) option" where
  "SbufRawImplReadUint32 impl dst = read_word (SbufRawImplRead impl dst 4)"

definition SbufRawImplReadUint16 :: "HdfSBufRaw option \<Rightarrow> bool \<Rightarrow> (uint16_t option \<times> HdfSBufRaw option) option" where
  "SbufRawImplReadUint16 impl dst = read_word (SbufRawImplRead impl dst 2)"

definition SbufRawImplReadUint8 :: "HdfSBufRaw option \<Rightarrow> bool \<Rightarrow> (uint8_t option \<times> HdfSBufRaw option) option" where
  "SbufRawImplReadUint8 impl dst = read_word (SbufRawImplRead impl dst 1)"

definition SbufRawImplReadInt64 :: "HdfSBufRaw option \<Rightarrow> bool \<Rightarrow> (64 word option \<times> HdfSBufRaw option) option" where
  "SbufRawImplReadInt64 impl dst = read_word (SbufRawImplRead impl dst 8)"

definition SbufRawImplReadInt32 :: "HdfSBufRaw option \<Rightarrow> bool \<Rightarrow> (32 word option \<times> HdfSBufRaw option) option" where
  "SbufRawImplReadInt32 impl dst = read_word (SbufRawImplRead impl dst 4)"

definition SbufRawImplReadInt16 :: "HdfSBufRaw option \<Rightarrow> bool \<Rightarrow> (16 word option \<times> HdfSBufRaw option) option" where
  "SbufRawImplReadInt16 impl dst = read_word (SbufRawImplRead impl dst 2)"

definition SbufRawImplReadInt8 :: "HdfSBufRaw option \<Rightarrow> bool \<Rightarrow> (8 word option \<times> HdfSBufRaw option) option" where
  "SbufRawImplReadInt8 impl dst = read_word (SbufRawImplRead impl dst 1)"

section \<open>Buffers and strings\<close>

definition SbufRawImplWriteBuffer ::
    "bool \<Rightarrow> bool \<Rightarrow> HdfSBufRaw option \<Rightarrow> bytes option \<Rightarrow> uint32_t \<Rightarrow> (bool \<times> HdfSBufRaw option) option" where
  "SbufRawImplWriteBuffer ok1 ok2 impl data writeSize =
     (if impl = None then Some (False, impl)
      else if data = None then SbufRawImplWriteInt32 ok1 impl 0
      else do {
        r1 \<leftarrow> SbufRawImplWriteInt32 ok1 impl writeSize;
        if \<not> fst r1 then Some (False, snd r1)
        else do {
          r2 \<leftarrow> SbufRawImplWrite ok2 (snd r1) data writeSize;
          if \<not> fst r2 then Some (False, snd (SbufRawImplWriteRollback (snd r2) 4))
          else Some (True, snd r2)
        }
      })"

text \<open>A C string argument is its bytes before the terminator.\<close>

definition SbufRawImplWriteString ::
    "bool \<Rightarrow> bool \<Rightarrow> HdfSBufRaw option \<Rightarrow> bytes option \<Rightarrow> (bool \<times> HdfSBufRaw option) option" where
  "SbufRawImplWriteString ok1 ok2 impl value =
     (if impl = None then Some (False, impl)
      else case value of
        None \<Rightarrow> SbufRawImplWriteBuffer ok1 ok2 impl None 0
      | Some s \<Rightarrow> SbufRawImplWriteBuffer ok1 ok2 impl (Some (s @ [0])) (of_nat (length s + 1)))"

text \<open>
  \<^verbatim>\<open>SbufRawImplReadBuffer\<close>: on success the offset of the data (\<^const>\<open>None\<close> for the null
  pointer) and the size stored in \<^verbatim>\<open>*readSize\<close>.  The size read is an \<^verbatim>\<open>int\<close>, converted to
  \<^verbatim>\<open>size_t\<close> by sign extension in the call of the alignment function.  \<open>dst\<close> says that
  both out pointers are not null.
\<close>

definition SbufRawImplReadBuffer ::
    "HdfSBufRaw option \<Rightarrow> bool \<Rightarrow> ((size_t option \<times> uint32_t) option \<times> HdfSBufRaw option) option" where
  "SbufRawImplReadBuffer impl dst =
     (case impl of None \<Rightarrow> Some (None, impl)
      | Some sbuf \<Rightarrow>
          if sb_data sbuf = None \<or> \<not> dst then Some (None, impl)
          else do {
            r \<leftarrow> SbufRawImplReadInt32 impl True;
            (case r of
               (Some buffSize, Some sbuf1) \<Rightarrow>
                 if buffSize = 0 then Some (Some (None, 0), Some sbuf1)
                 else let alignSize = SbufRawImplGetAlignSize (scast buffSize) in
                   if SbufRawImplGetLeftReadSize sbuf1 < alignSize
                   then Some (None, snd (SbufRawImplReadRollback (Some sbuf1) 4))
                   else Some (Some (Some (sb_readPos sbuf1), buffSize),
                              Some (sbuf1\<lparr>sb_readPos := sb_readPos sbuf1 + alignSize\<rparr>))
             | (_, impl1) \<Rightarrow> Some (None, impl1))
          })"

text \<open>
  \<^verbatim>\<open>SbufRawImplReadString\<close> returns the offset of the string; it overwrites the last byte of
  the string area with the terminator.
\<close>

definition SbufRawImplReadString :: "HdfSBufRaw option \<Rightarrow> (size_t option \<times> HdfSBufRaw option) option" where
  "SbufRawImplReadString impl =
     (case impl of None \<Rightarrow> Some (None, impl)
      | Some sbuf \<Rightarrow>
          if sb_data sbuf = None then Some (None, impl)
          else do {
            r \<leftarrow> SbufRawImplReadInt32 impl True;
            (case r of
               (Some strLen, Some sbuf1) \<Rightarrow>
                 if sint strLen \<le> 0 then Some (None, Some sbuf1)
                 else let alignSize = SbufRawImplGetAlignSize (scast strLen) in
                   if sint strLen > 32767 \<or> SbufRawImplGetLeftReadSize sbuf1 < alignSize
                   then Some (None, snd (SbufRawImplReadRollback (Some sbuf1) 4))
                   else (case sb_data sbuf1 of None \<Rightarrow> None
                     | Some d \<Rightarrow> do {
                         d' \<leftarrow> mem_write d (unat (sb_readPos sbuf1) + (unat strLen - 1)) [0];
                         Some (Some (sb_readPos sbuf1),
                               Some (sbuf1\<lparr>sb_data := Some d', sb_readPos := sb_readPos sbuf1 + alignSize\<rparr>))
                       })
             | (_, impl1) \<Rightarrow> Some (None, impl1))
          })"

section \<open>Construction, copy and move\<close>

definition SbufRawImplNewInstance :: "bool \<Rightarrow> bool \<Rightarrow> size_t \<Rightarrow> HdfSBufRaw option" where
  "SbufRawImplNewInstance ok1 ok2 capacity =
     (if HDF_SBUF_MAX_SIZE < capacity then None
      else if \<not> ok1 then None
      else case OsalMemCalloc ok2 (unat capacity) of
        None \<Rightarrow> None
      | Some d \<Rightarrow> Some \<lparr>sb_writePos = 0, sb_readPos = 0, sb_capacity = capacity, sb_data = Some d, sb_isBind = False\<rparr>)"

definition SbufRawImplCopy :: "bool \<Rightarrow> bool \<Rightarrow> HdfSBufRaw option \<Rightarrow> HdfSBufRaw option option" where
  "SbufRawImplCopy ok1 ok2 impl =
     (case impl of None \<Rightarrow> Some None
      | Some sbuf \<Rightarrow>
          (case sb_data sbuf of None \<Rightarrow> Some None
           | Some d \<Rightarrow>
               (case SbufRawImplNewInstance ok1 ok2 (sb_capacity sbuf) of
                  None \<Rightarrow> Some None
                | Some new \<Rightarrow>
                    (case sb_data new of None \<Rightarrow> None
                     | Some nd \<Rightarrow> do {
                         src \<leftarrow> mem_read d 0 (unat (sb_capacity sbuf));
                         r \<leftarrow> memcpy_s nd 0 (unat (sb_capacity sbuf)) src;
                         if \<not> fst r then Some None
                         else Some (Some (new\<lparr>sb_capacity := sb_capacity sbuf, sb_readPos := 0,
                                              sb_writePos := sb_writePos sbuf, sb_data := Some (snd r)\<rparr>))
                       }))))"

text \<open>\<^verbatim>\<open>SbufRawImplMove\<close> returns the new buffer (if any) and the emptied old one.\<close>

definition SbufRawImplMove :: "bool \<Rightarrow> HdfSBufRaw option \<Rightarrow> HdfSBufRaw option \<times> HdfSBufRaw option" where
  "SbufRawImplMove ok impl =
     (case impl of None \<Rightarrow> (None, impl)
      | Some sbuf \<Rightarrow>
          if sb_isBind sbuf then (None, impl)
          else if \<not> ok then (None, impl)
          else (Some \<lparr>sb_writePos = sb_writePos sbuf, sb_readPos = 0, sb_capacity = sb_capacity sbuf,
                      sb_data = sb_data sbuf, sb_isBind = False\<rparr>,
                SbufRawImplFlush (Some (sbuf\<lparr>sb_data := None, sb_capacity := 0\<rparr>))))"

definition SbufRawImplTransDataOwnership :: "HdfSBufRaw option \<Rightarrow> HdfSBufRaw option" where
  "SbufRawImplTransDataOwnership impl = map_option (\<lambda>sbuf. sbuf\<lparr>sb_isBind := False\<rparr>) impl"

text \<open>\<^verbatim>\<open>SbufRawImplRecycle\<close> is given by the data block it frees.\<close>

definition SbufRawImplRecycle :: "HdfSBufRaw option \<Rightarrow> bytes option" where
  "SbufRawImplRecycle impl =
     (case impl of None \<Rightarrow> None | Some sbuf \<Rightarrow> if \<not> sb_isBind sbuf then sb_data sbuf else None)"

definition SbufObtainRaw :: "bool \<Rightarrow> bool \<Rightarrow> size_t \<Rightarrow> HdfSBufRaw option" where
  "SbufObtainRaw ok1 ok2 capacity =
     (case SbufRawImplNewInstance ok1 ok2 capacity of None \<Rightarrow> None | Some sbuf \<Rightarrow> Some sbuf)"

text \<open>
  \<^verbatim>\<open>SbufBindRaw\<close>: \<open>base\<close> is the address and \<open>block\<close> the memory there, of \<open>sz\<close> bytes.
\<close>

definition SbufBindRaw :: "bool \<Rightarrow> 64 word \<Rightarrow> bytes \<Rightarrow> size_t \<Rightarrow> HdfSBufRaw option" where
  "SbufBindRaw ok base block sz =
     (if base = 0 \<or> sz = 0 then None
      else if base AND 0x3 \<noteq> 0 then None
      else if \<not> ok then None
      else Some \<lparr>sb_writePos = sz, sb_readPos = 0, sb_capacity = sz, sb_data = Some block, sb_isBind = True\<rparr>)"

section \<open>Sizes\<close>

lemma unat_align:
  "unat n + 3 < 2 ^ 64 \<Longrightarrow> unat (SbufRawImplGetAlignSize n) = pad4 (unat n)"
proof -
  assume n: "unat n + 3 < 2 ^ 64"
  have "SbufRawImplGetAlignSize n = (n + 3) AND NOT 3" by (simp add: SbufRawImplGetAlignSize_def add.commute)
  then have "unat (SbufRawImplGetAlignSize n) = unat (n + 3) div 4 * 4"
    by (simp only: unat_and_not_3)
  also have "unat (n + 3) = unat n + 3" using n by (simp add: unat_word_ariths)
  finally show ?thesis by (simp add: pad4_def)
qed

lemma unat_ucast_32_64 [simp]: "unat (ucast (x :: 32 word) :: 64 word) = unat x"
  using unat32_lt [of x] by (simp add: unsigned_ucast_eq take_bit_nat_eq_self)

lemma unat_align_u32: "unat (SbufRawImplGetAlignSize (ucast (x :: 32 word))) = pad4 (unat x)"
proof -
  show ?thesis using unat32_lt [of x] by (subst unat_align) auto
qed

lemma align_not_less: "\<not> SbufRawImplGetAlignSize (ucast (x :: 32 word)) < ucast x"
  using pad4_bounds(1) [of "unat x"] by (simp add: word_less_nat_alt unat_align_u32)

section \<open>The invariant and the written bytes\<close>

definition sbuf_ok :: "HdfSBufRaw \<Rightarrow> bool" where
  "sbuf_ok sb \<longleftrightarrow> sb_writePos sb \<le> sb_capacity sb \<and>
     (case sb_data sb of None \<Rightarrow> sb_capacity sb = 0 | Some d \<Rightarrow> length d = unat (sb_capacity sb))"

text \<open>The bytes written so far, and those not read yet.\<close>

definition sb_view :: "HdfSBufRaw \<Rightarrow> bytes" where
  "sb_view sb = (case sb_data sb of None \<Rightarrow> [] | Some d \<Rightarrow> take (unat (sb_writePos sb)) d)"

definition sb_pending :: "HdfSBufRaw \<Rightarrow> bytes" where
  "sb_pending sb = drop (unat (sb_readPos sb)) (sb_view sb)"

lemma sb_view_readPos [simp]: "sb_view (sb\<lparr>sb_readPos := x\<rparr>) = sb_view sb"
  by (simp add: sb_view_def split: option.splits)

lemma sbuf_ok_view_length: "sbuf_ok sb \<Longrightarrow> length (sb_view sb) = unat (sb_writePos sb)"
  by (auto simp: sbuf_ok_def sb_view_def word_le_nat_alt split: option.splits)

lemma left_write_nat:
  "sbuf_ok sb \<Longrightarrow> unat (SbufRawImplGetLeftWriteSize sb) = unat (sb_capacity sb) - unat (sb_writePos sb)"
  by (auto simp: SbufRawImplGetLeftWriteSize_def sbuf_ok_def word_le_nat_alt word_less_nat_alt unat_sub)

lemma left_read_nat:
  "sbuf_ok sb \<Longrightarrow> unat (SbufRawImplGetLeftReadSize sb) = length (sb_pending sb)"
  by (auto simp: SbufRawImplGetLeftReadSize_def sb_pending_def sbuf_ok_view_length
      word_less_nat_alt word_le_nat_alt unat_sub not_less)

section \<open>Growing\<close>

lemma SbufRawImplGrow_safe:
  assumes "sbuf_ok sb" "sb_data sb \<noteq> None" and g4: "unat g mod 4 = 0"
  shows "\<exists>r sb'. SbufRawImplGrow ok sb g = Some (r, sb') \<and> sbuf_ok sb' \<and> sb_data sb' \<noteq> None \<and>
     sb_view sb' = sb_view sb \<and> sb_readPos sb' = sb_readPos sb \<and> sb_writePos sb' = sb_writePos sb \<and>
     sb_isBind sb' = sb_isBind sb \<and>
     (if r then unat (sb_capacity sb') \<le> 524288 \<and> unat (sb_capacity sb') \<ge> unat (sb_capacity sb) + unat g \<and>
                unat (sb_capacity sb') \<le> unat (sb_capacity sb) + unat g + 3
      else sb' = sb)"
proof -
  from assms obtain d where d: "sb_data sb = Some d" "length d = unat (sb_capacity sb)"
    by (auto simp: sbuf_ok_def)
  have wp: "unat (sb_writePos sb) \<le> unat (sb_capacity sb)"
    using assms by (simp add: sbuf_ok_def word_le_nat_alt)
  define sum where "sum = sb_capacity sb + ucast g"
  define new where "new = (ucast (SbufRawImplGetAlignSize sum) :: uint32_t)"
  show ?thesis
  proof (cases "sb_isBind sb \<or> ucast new < sb_capacity sb \<or> ucast new > HDF_SBUF_MAX_SIZE \<or> new = 0 \<or> \<not> ok")
    case True
    then have "SbufRawImplGrow ok sb g = Some (False, sb)"
      by (auto simp: SbufRawImplGrow_def Let_def new_def sum_def OsalMemCalloc_def)
    with assms show ?thesis by auto
  next
    case False
    then have ge: "unat (sb_capacity sb) \<le> unat new" and le: "unat new \<le> 524288" and nz: "new \<noteq> 0" "ok" "\<not> sb_isBind sb"
      by (auto simp: word_less_nat_alt HDF_SBUF_MAX_SIZE_def)
    have cg: "unat (sb_capacity sb) + unat g + 3 < 2 ^ 64"
      using ge le unat32_lt [of g] by simp
    then have s: "unat sum = unat (sb_capacity sb) + unat g"
      by (simp add: sum_def unat_word_ariths)
    then have al: "unat (SbufRawImplGetAlignSize sum) = pad4 (unat (sb_capacity sb) + unat g)"
      using cg by (simp add: unat_align)
    have new: "unat new = pad4 (unat (sb_capacity sb) + unat g) mod 2 ^ 32"
      by (simp add: new_def unsigned_ucast_eq al take_bit_eq_mod)
    have small: "pad4 (unat (sb_capacity sb) + unat g) < 2 ^ 32"
    proof (rule ccontr)
      let ?P = "pad4 (unat (sb_capacity sb) + unat g)"
      assume big: "\<not> ?P < 2 ^ 32"
      have gm: "unat g \<le> 4294967292" using unat32_lt [of g] g4 by presburger
      have P: "?P \<le> unat (sb_capacity sb) + unat g + 3" by (rule pad4_bounds(2))
      then have "?P < 2 ^ 32 + 2 ^ 32" using gm ge le by simp
      then have "unat new = ?P - 2 ^ 32" using big unfolding new by (simp add: mod_if)
      then show False using big P gm ge by simp
    qed
    let ?sb' = "sb\<lparr>sb_data := Some (take (unat (sb_writePos sb)) d @ drop (unat (sb_writePos sb)) (replicate (unat new) 0)),
                    sb_capacity := ucast new\<rparr>"
    have "SbufRawImplGrow ok sb g = Some (True, ?sb')"
      using False d wp ge nz
      by (simp add: SbufRawImplGrow_def Let_def new_def [symmetric] sum_def [symmetric] OsalMemCalloc_def
          unat_eq_zero memcpy_s_def mem_write_def min_def)
    moreover have "sbuf_ok ?sb'" using d wp ge by (simp add: sbuf_ok_def word_le_nat_alt)
    moreover have "sb_view ?sb' = sb_view sb" using d wp by (simp add: sb_view_def)
    ultimately show ?thesis
      using new small le pad4_bounds [of "unat (sb_capacity sb) + unat g"] nz
      by (intro exI [of _ True] exI [of _ ?sb']) auto
  qed
qed

lemma SbufRawImplGrow_succeeds:
  assumes "sbuf_ok sb" "sb_data sb \<noteq> None" "\<not> sb_isBind sb"
    and "unat (sb_capacity sb) + unat g + 3 \<le> 524288" "0 < unat g"
  shows "\<exists>sb'. SbufRawImplGrow True sb g = Some (True, sb')"
proof -
  from assms obtain d where d: "sb_data sb = Some d" "length d = unat (sb_capacity sb)"
    by (auto simp: sbuf_ok_def)
  have wp: "unat (sb_writePos sb) \<le> unat (sb_capacity sb)"
    using assms by (simp add: sbuf_ok_def word_le_nat_alt)
  define sum where "sum = sb_capacity sb + ucast g"
  define new where "new = (ucast (SbufRawImplGetAlignSize sum) :: uint32_t)"
  have "unat sum = unat (sb_capacity sb) + unat g"
    using assms(4) by (simp add: sum_def unat_word_ariths)
  then have "unat (SbufRawImplGetAlignSize sum) = pad4 (unat (sb_capacity sb) + unat g)"
    using assms(4) by (simp add: unat_align)
  moreover have P: "pad4 (unat (sb_capacity sb) + unat g) \<le> 524288"
    "unat (sb_capacity sb) + unat g \<le> pad4 (unat (sb_capacity sb) + unat g)"
    using assms(4) pad4_bounds [of "unat (sb_capacity sb) + unat g"] by auto
  ultimately have "unat new = pad4 (unat (sb_capacity sb) + unat g)"
    by (simp add: new_def unsigned_ucast_eq take_bit_nat_eq_self)
  with P have "unat (sb_capacity sb) \<le> unat new" "unat new \<le> 524288" "0 < unat new"
    using assms(5) by auto
  then show ?thesis
    using assms(3) d wp
    by (auto simp: SbufRawImplGrow_def Let_def new_def [symmetric] sum_def [symmetric] OsalMemCalloc_def
        memcpy_s_def mem_write_def min_def word_less_nat_alt HDF_SBUF_MAX_SIZE_def)
qed

section \<open>Writing\<close>

lemma SbufRawImplWrite_copy_safe:
  assumes ok: "sbuf_ok sb" and d: "sb_data sb = Some d" and buf: "unat sz \<le> length buf"
    and fit: "pad4 (unat sz) \<le> unat (SbufRawImplGetLeftWriteSize sb) \<or>
              unat (SbufRawImplGetLeftWriteSize sb) < unat sz"
  shows "\<exists>r sb'. SbufRawImplWrite_copy sb buf sz (SbufRawImplGetAlignSize (ucast sz)) = Some (r, Some sb') \<and>
     sbuf_ok sb' \<and> sb_data sb' \<noteq> None \<and> sb_readPos sb' = sb_readPos sb \<and> sb_isBind sb' = sb_isBind sb \<and>
     sb_capacity sb' = sb_capacity sb \<and>
     (r \<longleftrightarrow> pad4 (unat sz) \<le> unat (SbufRawImplGetLeftWriteSize sb)) \<and>
     (if r then \<exists>pad. sb_view sb' = sb_view sb @ take (unat sz) buf @ pad \<and>
                   length pad = pad4 (unat sz) - unat sz
      else sb_view sb' = sb_view sb)"
proof -
  have wp: "unat (sb_writePos sb) \<le> length d" and len: "length d = unat (sb_capacity sb)"
    using ok d by (auto simp: sbuf_ok_def word_le_nat_alt)
  have left: "unat (SbufRawImplGetLeftWriteSize sb) = length d - unat (sb_writePos sb)"
    using left_write_nat [OF ok] len by simp
  note sz_le = pad4_bounds(1) [of "unat sz"]
  show ?thesis
  proof (cases "pad4 (unat sz) \<le> unat (SbufRawImplGetLeftWriteSize sb)")
    case True
    let ?w = "unat (sb_writePos sb)"
    let ?d = "take ?w d @ take (unat sz) buf @ drop (?w + unat sz) d"
    let ?sb = "sb\<lparr>sb_data := Some ?d, sb_writePos := sb_writePos sb + SbufRawImplGetAlignSize (ucast sz)\<rparr>"
    have fits: "?w + pad4 (unat sz) \<le> length d" using True left wp by simp
    then have "?w + pad4 (unat sz) < 2 ^ 64" using len unat64_lt [of "sb_capacity sb"] by simp
    then have w': "unat (sb_writePos sb + SbufRawImplGetAlignSize (ucast sz)) = ?w + pad4 (unat sz)"
      by (simp add: unat_word_ariths unat_align_u32)
    have "SbufRawImplWrite_copy sb buf sz (SbufRawImplGetAlignSize (ucast sz)) = Some (True, Some ?sb)"
      using True d buf fits sz_le by (simp add: SbufRawImplWrite_copy_def memcpy_s_def mem_write_def min_def)
    moreover have "length ?d = length d" using fits sz_le buf by simp
    moreover have "sbuf_ok ?sb"
      using fits len \<open>length ?d = length d\<close> by (simp add: sbuf_ok_def word_le_nat_alt w')
    moreover have "sb_view ?sb = sb_view sb @ take (unat sz) buf @ take (pad4 (unat sz) - unat sz) (drop (?w + unat sz) d)"
      using d wp buf sz_le by (simp add: sb_view_def w' min_def)
    moreover have "length (take (pad4 (unat sz) - unat sz) (drop (?w + unat sz) d)) = pad4 (unat sz) - unat sz"
      using fits by simp
    ultimately show ?thesis using True by (intro exI [of _ True] exI [of _ ?sb]) auto
  next
    case False
    with fit have "SbufRawImplWrite_copy sb buf sz (SbufRawImplGetAlignSize (ucast sz)) = Some (False, Some sb)"
      using d buf by (simp add: SbufRawImplWrite_copy_def memcpy_s_def)
    with ok False d show ?thesis by auto
  qed
qed

lemma SbufRawImplWrite_copy_fits:
  assumes "sbuf_ok sb" "sb_data sb = Some d" "unat sz \<le> length buf"
    and fit: "pad4 (unat sz) \<le> unat (SbufRawImplGetLeftWriteSize sb)"
  shows "\<exists>sb'. SbufRawImplWrite_copy sb buf sz (SbufRawImplGetAlignSize (ucast sz)) = Some (True, Some sb') \<and>
     sb_data sb' \<noteq> None \<and> sb_capacity sb' = sb_capacity sb"
proof -
  obtain r sb' where "SbufRawImplWrite_copy sb buf sz (SbufRawImplGetAlignSize (ucast sz)) = Some (r, Some sb')"
    "sb_data sb' \<noteq> None" "sb_capacity sb' = sb_capacity sb"
    "r \<longleftrightarrow> pad4 (unat sz) \<le> unat (SbufRawImplGetLeftWriteSize sb)"
    using SbufRawImplWrite_copy_safe [OF assms(1-3) disjI1 [OF fit]] by blast
  with fit show ?thesis by simp
qed

definition grow_size :: "uint32_t \<Rightarrow> size_t" where
  "grow_size sz = (let a = SbufRawImplGetAlignSize (ucast sz) in
     if HDF_SBUF_GROW_SIZE_DEFAULT < a then a + HDF_SBUF_GROW_SIZE_DEFAULT else HDF_SBUF_GROW_SIZE_DEFAULT)"

lemma grow_size_nat:
  "unat (grow_size sz) = (if 256 < pad4 (unat sz) then pad4 (unat sz) + 256 else 256)"
proof -
  have "pad4 (unat sz) \<le> 4294967299" using pad4_bounds(2) [of "unat sz"] unat32_lt [of sz] by simp
  then show ?thesis
    by (simp add: grow_size_def Let_def HDF_SBUF_GROW_SIZE_DEFAULT_def word_less_nat_alt unat_align_u32
        unat_word_ariths)
qed

lemma grow_size_mod4: "unat (ucast (grow_size sz) :: uint32_t) mod 4 = 0"
proof -
  have "unat (ucast (grow_size sz) :: uint32_t) = unat (grow_size sz) mod 4294967296"
    by (simp add: unsigned_ucast_eq take_bit_eq_mod)
  moreover have "unat (grow_size sz) mod 4 = 0"
    using pad4_bounds(3) [of "unat sz"] by (auto simp: grow_size_nat mod_add_eq)
  ultimately show ?thesis by (simp add: mod_mod_cancel)
qed

lemma SbufRawImplWrite_unfold:
  "sb_data sb = Some d \<Longrightarrow>
   SbufRawImplWrite ok (Some sb) (Some buf) sz =
     (if sz = 0 then Some (True, Some sb)
      else if SbufRawImplGetLeftWriteSize sb < SbufRawImplGetAlignSize (ucast sz) then do {
        g \<leftarrow> SbufRawImplGrow ok sb (ucast (grow_size sz));
        if \<not> fst g then Some (False, Some (snd g))
        else SbufRawImplWrite_copy (snd g) buf sz (SbufRawImplGetAlignSize (ucast sz))
      }
      else SbufRawImplWrite_copy sb buf sz (SbufRawImplGetAlignSize (ucast sz)))"
  by (simp add: SbufRawImplWrite_def Let_def align_not_less grow_size_def)

lemma grow_size_u32:
  "unat sz \<le> 4000000000 \<Longrightarrow> unat (ucast (grow_size sz) :: uint32_t) = unat (grow_size sz)"
  using pad4_bounds(2) [of "unat sz"]
  by (simp add: unsigned_ucast_eq take_bit_nat_eq_self grow_size_nat)

text \<open>Growing always makes room, unless the size passed on was truncated.\<close>

lemma grow_fits:
  assumes "unat (sb_capacity sb) + unat (ucast (grow_size sz) :: uint32_t) \<le> cap" "w \<le> unat (sb_capacity sb)"
    "cap \<le> 524288"
  shows "pad4 (unat sz) \<le> cap - w \<or> cap - w < unat sz"
proof -
  have g: "unat (ucast (grow_size sz) :: uint32_t) = unat (grow_size sz) mod 4294967296"
    by (simp add: unsigned_ucast_eq take_bit_eq_mod)
  show ?thesis
  proof (cases "unat (grow_size sz) < 4294967296")
    case True
    then show ?thesis using assms g grow_size_nat [of sz] by (auto split: if_splits)
  next
    case False
    then have "524288 < unat sz"
      using pad4_bounds(2) [of "unat sz"] grow_size_nat [of sz] by (auto split: if_splits)
    then show ?thesis using assms(3) by auto
  qed
qed

lemma SbufRawImplWrite_safe:
  assumes ok: "sbuf_ok sb" and buf: "unat sz \<le> length buf"
  shows "\<exists>r sb'. SbufRawImplWrite a (Some sb) (Some buf) sz = Some (r, Some sb') \<and>
     sbuf_ok sb' \<and> sb_readPos sb' = sb_readPos sb \<and> sb_isBind sb' = sb_isBind sb \<and>
     (if r then \<exists>pad. sb_view sb' = sb_view sb @ take (unat sz) buf @ pad \<and>
                   length pad = pad4 (unat sz) - unat sz
      else sb_view sb' = sb_view sb)"
proof (cases "sb_data sb")
  case None
  with ok show ?thesis by (auto simp: SbufRawImplWrite_def)
next
  case (Some d)
  note unf = SbufRawImplWrite_unfold [OF Some]
  consider "sz = 0" | "sz \<noteq> 0" "pad4 (unat sz) \<le> unat (SbufRawImplGetLeftWriteSize sb)"
    | "sz \<noteq> 0" "unat (SbufRawImplGetLeftWriteSize sb) < pad4 (unat sz)" by linarith
  then show ?thesis
  proof cases
    case 1
    with ok show ?thesis by (auto simp: unf pad4_def)
  next
    case 2
    then have "\<not> SbufRawImplGetLeftWriteSize sb < SbufRawImplGetAlignSize (ucast sz)"
      by (simp add: word_less_nat_alt unat_align_u32)
    with 2 have "SbufRawImplWrite a (Some sb) (Some buf) sz =
        SbufRawImplWrite_copy sb buf sz (SbufRawImplGetAlignSize (ucast sz))"
      by (simp add: unf)
    with SbufRawImplWrite_copy_safe [OF ok Some buf disjI1 [OF 2(2)]] show ?thesis by metis
  next
    case 3
    then have lt: "SbufRawImplGetLeftWriteSize sb < SbufRawImplGetAlignSize (ucast sz)"
      by (simp add: word_less_nat_alt unat_align_u32)
    let ?g = "ucast (grow_size sz) :: uint32_t"
    from SbufRawImplGrow_safe [OF ok _ grow_size_mod4, of a sz] Some obtain r sb1 where
      g: "SbufRawImplGrow a sb ?g = Some (r, sb1)" "sbuf_ok sb1" "sb_data sb1 \<noteq> None"
        "sb_view sb1 = sb_view sb" "sb_readPos sb1 = sb_readPos sb" "sb_writePos sb1 = sb_writePos sb"
        "sb_isBind sb1 = sb_isBind sb"
        "r \<Longrightarrow> unat (sb_capacity sb1) \<le> 524288 \<and> unat (sb_capacity sb) + unat ?g \<le> unat (sb_capacity sb1)"
      by (auto split: if_splits)
    show ?thesis
    proof (cases r)
      case False
      with g 3 lt show ?thesis by (auto simp: unf)
    next
      case True
      from g(3) obtain d1 where d1: "sb_data sb1 = Some d1" by auto
      have "unat (sb_writePos sb) \<le> unat (sb_capacity sb)"
        using ok by (simp add: sbuf_ok_def word_le_nat_alt)
      from grow_fits [OF _ this] g(8) [OF True]
      have "pad4 (unat sz) \<le> unat (SbufRawImplGetLeftWriteSize sb1) \<or>
            unat (SbufRawImplGetLeftWriteSize sb1) < unat sz"
        unfolding left_write_nat [OF g(2)] g(6) by blast
      note copy = SbufRawImplWrite_copy_safe [OF g(2) d1 buf this, unfolded g(4,5,7)]
      have "SbufRawImplWrite a (Some sb) (Some buf) sz =
          SbufRawImplWrite_copy sb1 buf sz (SbufRawImplGetAlignSize (ucast sz))"
        using 3(1) lt g(1) True by (simp add: unf)
      with copy show ?thesis by metis
    qed
  qed
qed

lemma SbufRawImplWrite_succeeds:
  assumes ok: "sbuf_ok sb" and d: "sb_data sb = Some d" and nb: "\<not> sb_isBind sb"
    and buf: "unat sz \<le> length buf"
    and room: "unat (sb_capacity sb) + pad4 (unat sz) + 259 \<le> 524288"
  shows "\<exists>sb'. SbufRawImplWrite True (Some sb) (Some buf) sz = Some (True, Some sb') \<and> sb_data sb' \<noteq> None \<and>
     unat (sb_capacity sb') \<le> unat (sb_capacity sb) + pad4 (unat sz) + 259"
proof (cases "sz = 0 \<or> pad4 (unat sz) \<le> unat (SbufRawImplGetLeftWriteSize sb)")
  case True
  note unf = SbufRawImplWrite_unfold [OF d]
  show ?thesis
  proof (cases "sz = 0")
    case True
    with d show ?thesis by (simp add: unf)
  next
    case False
    with True have fit: "pad4 (unat sz) \<le> unat (SbufRawImplGetLeftWriteSize sb)" by simp
    then have "SbufRawImplWrite True (Some sb) (Some buf) sz =
        SbufRawImplWrite_copy sb buf sz (SbufRawImplGetAlignSize (ucast sz))"
      using False by (simp add: unf word_less_nat_alt unat_align_u32)
    with SbufRawImplWrite_copy_fits [OF ok d buf fit] show ?thesis by auto
  qed
next
  case False
  note unf = SbufRawImplWrite_unfold [OF d]
  let ?g = "ucast (grow_size sz) :: uint32_t"
  have szs: "unat sz \<le> 4000000000" using room pad4_bounds(1) [of "unat sz"] by linarith
  have g: "unat ?g = unat (grow_size sz)" by (rule grow_size_u32 [OF szs])
  have gb: "unat ?g \<le> pad4 (unat sz) + 256" "0 < unat ?g" "pad4 (unat sz) \<le> unat ?g"
    using g by (auto simp: grow_size_nat)
  obtain sb1 where s1: "SbufRawImplGrow True sb ?g = Some (True, sb1)"
    using SbufRawImplGrow_succeeds [OF ok _ nb, of ?g] d room gb by auto
  with SbufRawImplGrow_safe [OF ok _ grow_size_mod4, of True sz] d have
    g1: "sbuf_ok sb1" "sb_data sb1 \<noteq> None" "sb_writePos sb1 = sb_writePos sb"
      "unat (sb_capacity sb1) \<ge> unat (sb_capacity sb) + unat ?g"
      "unat (sb_capacity sb1) \<le> unat (sb_capacity sb) + unat ?g + 3" by auto
  from g1(2) obtain d1 where d1: "sb_data sb1 = Some d1" by auto
  have "unat (sb_writePos sb) \<le> unat (sb_capacity sb)"
    using ok by (simp add: sbuf_ok_def word_le_nat_alt)
  then have fit: "pad4 (unat sz) \<le> unat (SbufRawImplGetLeftWriteSize sb1)"
    unfolding left_write_nat [OF g1(1)] g1(3) using g1(4) gb(3) by linarith
  have "SbufRawImplWrite True (Some sb) (Some buf) sz =
      SbufRawImplWrite_copy sb1 buf sz (SbufRawImplGetAlignSize (ucast sz))"
    using False s1 by (simp add: unf word_less_nat_alt unat_align_u32)
  moreover obtain sb2 where "SbufRawImplWrite_copy sb1 buf sz (SbufRawImplGetAlignSize (ucast sz)) = Some (True, Some sb2)"
    "sb_data sb2 \<noteq> None" "sb_capacity sb2 = sb_capacity sb1"
    using SbufRawImplWrite_copy_fits [OF g1(1) d1 buf fit] by blast
  ultimately show ?thesis using g1(5) gb(1) by simp
qed

section \<open>Reading\<close>

lemma SbufRawImplRead_safe:
  assumes ok: "sbuf_ok sb"
  shows "SbufRawImplRead (Some sb) dst sz =
     Some (if sb_data sb = None \<or> \<not> dst then (None, Some sb)
           else if sz = 0 then (Some [], Some sb)
           else if length (sb_pending sb) < pad4 (unat sz) then (None, Some sb)
           else (Some (take (unat sz) (sb_pending sb)),
                 Some (sb\<lparr>sb_readPos := sb_readPos sb + SbufRawImplGetAlignSize (ucast sz)\<rparr>)))"
proof (cases "sb_data sb")
  case None
  then show ?thesis by (simp add: SbufRawImplRead_def)
next
  case (Some d)
  have lt: "SbufRawImplGetLeftReadSize sb < SbufRawImplGetAlignSize (ucast sz) \<longleftrightarrow>
      length (sb_pending sb) < pad4 (unat sz)"
    by (simp add: word_less_nat_alt unat_align_u32 left_read_nat [OF ok])
  have len: "length d = unat (sb_capacity sb)" "unat (sb_writePos sb) \<le> unat (sb_capacity sb)"
    using ok Some by (auto simp: sbuf_ok_def word_le_nat_alt)
  have pend: "sb_pending sb = drop (unat (sb_readPos sb)) (take (unat (sb_writePos sb)) d)"
    using Some by (simp add: sb_pending_def sb_view_def)
  show ?thesis
  proof (cases "length (sb_pending sb) < pad4 (unat sz)")
    case True
    with Some lt show ?thesis by (simp add: SbufRawImplRead_def Let_def)
  next
    case False
    show ?thesis
    proof (cases "sz = 0")
      case True
      with Some show ?thesis by (simp add: SbufRawImplRead_def)
    next
      case nz: False
      have pos: "0 < unat sz" using nz by (simp add: unat_gt_0)
      have "unat sz \<le> length (sb_pending sb)"
        using False pad4_bounds(1) [of "unat sz"] by simp
      then have in_block: "unat (sb_readPos sb) + unat sz \<le> unat (sb_writePos sb)"
        using len pos by (simp add: pend)
      then have "take (unat sz) (sb_pending sb) = take (unat sz) (drop (unat (sb_readPos sb)) d)"
        by (simp add: pend drop_take min_def)
      with False nz Some lt in_block len show ?thesis
        by (simp add: SbufRawImplRead_def Let_def)
    qed
  qed
qed

section \<open>Messages\<close>

text \<open>
  A buffer ready for \<open>k\<close> more bytes (including the slack of a growth step) whose unread
  part is \<open>bs\<close>.
\<close>

definition sb_room :: "HdfSBufRaw \<Rightarrow> nat \<Rightarrow> bool" where
  "sb_room sb k \<longleftrightarrow> \<not> sb_isBind sb \<and> unat (sb_capacity sb) + k \<le> 524288"

definition sb_ready :: "HdfSBufRaw \<Rightarrow> bytes \<Rightarrow> bool" where
  "sb_ready sb bs \<longleftrightarrow> sbuf_ok sb \<and> sb_data sb \<noteq> None \<and> sb_readPos sb \<le> sb_writePos sb \<and> sb_pending sb = bs"

lemma write_ready:
  assumes ready: "sb_ready sb bs" and room: "sb_room sb (pad4 (unat sz) + 259 + k)" and buf: "unat sz \<le> length buf"
  shows "\<exists>sb' pad. SbufRawImplWrite True (Some sb) (Some buf) sz = Some (True, Some sb') \<and>
     sb_ready sb' (bs @ take (unat sz) buf @ pad) \<and> length pad = pad4 (unat sz) - unat sz \<and> sb_room sb' k"
proof -
  from ready obtain d where d: "sb_data sb = Some d" and ok: "sbuf_ok sb"
    and rp: "unat (sb_readPos sb) \<le> unat (sb_writePos sb)" and bs: "sb_pending sb = bs"
    by (auto simp: sb_ready_def word_le_nat_alt)
  obtain sb' where w: "SbufRawImplWrite True (Some sb) (Some buf) sz = Some (True, Some sb')"
    "sb_data sb' \<noteq> None" "unat (sb_capacity sb') \<le> unat (sb_capacity sb) + pad4 (unat sz) + 259"
    using SbufRawImplWrite_succeeds [OF ok d _ buf] room by (auto simp: sb_room_def)
  from SbufRawImplWrite_safe [OF ok buf, of True] w(1) obtain pad where
    w': "sbuf_ok sb'" "sb_readPos sb' = sb_readPos sb" "sb_isBind sb' = sb_isBind sb"
      "sb_view sb' = sb_view sb @ take (unat sz) buf @ pad" "length pad = pad4 (unat sz) - unat sz"
    by auto
  have "unat (sb_writePos sb) \<le> unat (sb_writePos sb')"
    using arg_cong [OF w'(4), of length] by (simp add: sbuf_ok_view_length ok w'(1))
  then have "sb_ready sb' (bs @ take (unat sz) buf @ pad)"
    using w' w(2) rp bs sbuf_ok_view_length [OF ok] by (simp add: sb_ready_def word_le_nat_alt sb_pending_def)
  moreover have "sb_room sb' k" using w(3) w'(3) room by (simp add: sb_room_def)
  ultimately show ?thesis using w(1) w'(5) by blast
qed

lemma advance_ready:
  assumes ready: "sb_ready sb (bs @ pad @ rest)" and n: "length bs = unat (sz :: uint32_t)"
    and pad: "length pad = pad4 (unat sz) - unat sz"
  shows "\<not> SbufRawImplGetLeftReadSize sb < SbufRawImplGetAlignSize (ucast sz)"
    and "sb_ready (sb\<lparr>sb_readPos := sb_readPos sb + SbufRawImplGetAlignSize (ucast sz)\<rparr>) rest"
    and "\<exists>d junk. sb_data sb = Some d \<and> length d = unat (sb_capacity sb) \<and>
           drop (unat (sb_readPos sb)) d = bs @ pad @ rest @ junk \<and>
           unat (sb_readPos sb) + unat sz \<le> length d"
proof -
  have ok: "sbuf_ok sb" and pend: "sb_pending sb = bs @ pad @ rest"
    using ready by (auto simp: sb_ready_def)
  let ?sb = "sb\<lparr>sb_readPos := sb_readPos sb + SbufRawImplGetAlignSize (ucast sz)\<rparr>"
  have al: "length (bs @ pad) = pad4 (unat sz)" using n pad pad4_bounds(1) [of "unat sz"] by simp
  then have len: "length (sb_pending sb) = pad4 (unat sz) + length rest" unfolding pend by simp
  then show "\<not> SbufRawImplGetLeftReadSize sb < SbufRawImplGetAlignSize (ucast sz)"
    by (simp add: word_less_nat_alt unat_align_u32 left_read_nat [OF ok])
  have rle: "unat (sb_readPos sb) \<le> unat (sb_writePos sb)"
    using ready by (simp add: sb_ready_def word_le_nat_alt)
  then have wp: "unat (sb_writePos sb) = unat (sb_readPos sb) + pad4 (unat sz) + length rest"
    using sbuf_ok_view_length [OF ok] len by (simp add: sb_pending_def)
  then have rp: "unat (sb_readPos sb + SbufRawImplGetAlignSize (ucast sz)) = unat (sb_readPos sb) + pad4 (unat sz)"
    using unat64_lt [of "sb_writePos sb"] by (simp add: unat_word_ariths unat_align_u32)
  have "sb_pending ?sb = drop (pad4 (unat sz)) (sb_pending sb)"
    by (simp add: sb_pending_def rp add.commute)
  then have "sb_pending ?sb = rest" unfolding pend using al by simp
  then show "sb_ready ?sb rest"
    using ready wp by (auto simp: sb_ready_def sbuf_ok_def word_le_nat_alt rp)
  obtain d where d: "sb_data sb = Some d" "length d = unat (sb_capacity sb)"
    "unat (sb_writePos sb) \<le> length d"
    using ready by (auto simp: sb_ready_def sbuf_ok_def word_le_nat_alt)
  let ?r = "unat (sb_readPos sb)" let ?w = "unat (sb_writePos sb)"
  have "drop ?r d = drop ?r (take ?w d @ drop ?w d)" by simp
  also have "\<dots> = sb_pending sb @ drop ?w d"
    using d rle by (simp only: drop_append) (simp add: sb_pending_def sb_view_def d(1) min_def)
  finally have "drop ?r d = bs @ pad @ rest @ drop ?w d" by (simp add: pend)
  then show "\<exists>d junk. sb_data sb = Some d \<and> length d = unat (sb_capacity sb) \<and>
      drop ?r d = bs @ pad @ rest @ junk \<and> ?r + unat sz \<le> length d"
    using d wp pad4_bounds(1) [of "unat sz"] by auto
qed

lemma read_ready:
  assumes ready: "sb_ready sb (bs @ pad @ rest)" and n: "length bs = unat sz" "0 < unat sz"
    and pad: "length pad = pad4 (unat sz) - unat sz"
  shows "\<exists>sb'. SbufRawImplRead (Some sb) True sz = Some (Some bs, Some sb') \<and> sb_ready sb' rest"
proof -
  let ?sb = "sb\<lparr>sb_readPos := sb_readPos sb + SbufRawImplGetAlignSize (ucast sz)\<rparr>"
  obtain d junk where d: "sb_data sb = Some d" "drop (unat (sb_readPos sb)) d = bs @ pad @ rest @ junk"
    "unat (sb_readPos sb) + unat sz \<le> length d"
    using advance_ready(3) [OF ready n(1) pad] by blast
  have "sz \<noteq> 0" using n(2) by auto
  then have "SbufRawImplRead (Some sb) True sz = Some (Some bs, Some ?sb)"
    using d n advance_ready(1) [OF ready n(1) pad] by (simp add: SbufRawImplRead_def Let_def)
  with advance_ready(2) [OF ready n(1) pad] show ?thesis by blast
qed

datatype sbuf_value =
    U64 uint64_t | U32 uint32_t | U16 uint16_t | U8 uint8_t
  | I64 "64 word" | I32 "32 word" | I16 "16 word" | I8 "8 word"
  | Buf bytes | Str bytes

fun sbuf_value_ok :: "sbuf_value \<Rightarrow> bool" where
  "sbuf_value_ok (Buf b) \<longleftrightarrow> length b \<le> 524288"
| "sbuf_value_ok (Str s) \<longleftrightarrow> length s < 32767 \<and> 0 \<notin> set s"
| "sbuf_value_ok _ \<longleftrightarrow> True"

definition sbuf_put :: "sbuf_value \<Rightarrow> HdfSBufRaw \<Rightarrow> (bool \<times> HdfSBufRaw option) option" where
  "sbuf_put v sb = (case v of
     U64 w \<Rightarrow> SbufRawImplWriteUint64 True (Some sb) w | U32 w \<Rightarrow> SbufRawImplWriteUint32 True (Some sb) w
   | U16 w \<Rightarrow> SbufRawImplWriteUint16 True (Some sb) w | U8 w \<Rightarrow> SbufRawImplWriteUint8 True (Some sb) w
   | I64 w \<Rightarrow> SbufRawImplWriteInt64 True (Some sb) w | I32 w \<Rightarrow> SbufRawImplWriteInt32 True (Some sb) w
   | I16 w \<Rightarrow> SbufRawImplWriteInt16 True (Some sb) w | I8 w \<Rightarrow> SbufRawImplWriteInt8 True (Some sb) w
   | Buf b \<Rightarrow> SbufRawImplWriteBuffer True True (Some sb) (Some b) (of_nat (length b))
   | Str s \<Rightarrow> SbufRawImplWriteString True True (Some sb) (Some s))"

text \<open>
  Reading back, by the kind of value expected (its content is ignored); the pointer returned
  for a buffer or a string is dereferenced.
\<close>

definition sbuf_deref_buffer :: "(size_t option \<times> uint32_t) option \<times> HdfSBufRaw option \<Rightarrow> sbuf_value option" where
  "sbuf_deref_buffer r = (case r of
     (Some (None, n), _) \<Rightarrow> Some (Buf [])
   | (Some (Some off, n), Some sb) \<Rightarrow>
       (case sb_data sb of None \<Rightarrow> None | Some d \<Rightarrow> map_option Buf (mem_read d (unat off) (unat n)))
   | _ \<Rightarrow> None)"

definition sbuf_deref_string :: "size_t option \<times> HdfSBufRaw option \<Rightarrow> sbuf_value option" where
  "sbuf_deref_string r = (case r of
     (Some off, Some sb) \<Rightarrow>
       (case sb_data sb of None \<Rightarrow> None | Some d \<Rightarrow> map_option Str (cstr_at d (unat off)))
   | _ \<Rightarrow> None)"

definition sbuf_get :: "sbuf_value \<Rightarrow> HdfSBufRaw \<Rightarrow> (sbuf_value option \<times> HdfSBufRaw option) option" where
  "sbuf_get k sb = (case k of
     U64 _ \<Rightarrow> map_option (map_prod (map_option U64) id) (SbufRawImplReadUint64 (Some sb) True)
   | U32 _ \<Rightarrow> map_option (map_prod (map_option U32) id) (SbufRawImplReadUint32 (Some sb) True)
   | U16 _ \<Rightarrow> map_option (map_prod (map_option U16) id) (SbufRawImplReadUint16 (Some sb) True)
   | U8 _ \<Rightarrow> map_option (map_prod (map_option U8) id) (SbufRawImplReadUint8 (Some sb) True)
   | I64 _ \<Rightarrow> map_option (map_prod (map_option I64) id) (SbufRawImplReadInt64 (Some sb) True)
   | I32 _ \<Rightarrow> map_option (map_prod (map_option I32) id) (SbufRawImplReadInt32 (Some sb) True)
   | I16 _ \<Rightarrow> map_option (map_prod (map_option I16) id) (SbufRawImplReadInt16 (Some sb) True)
   | I8 _ \<Rightarrow> map_option (map_prod (map_option I8) id) (SbufRawImplReadInt8 (Some sb) True)
   | Buf _ \<Rightarrow> map_option (\<lambda>r. (sbuf_deref_buffer r, snd r)) (SbufRawImplReadBuffer (Some sb) True)
   | Str _ \<Rightarrow> map_option (\<lambda>r. (sbuf_deref_string r, snd r)) (SbufRawImplReadString (Some sb)))"

text \<open>What the buffer holds for a value: its chunks, each padded to a multiple of four.\<close>

fun value_chunks :: "sbuf_value \<Rightarrow> bytes list" where
  "value_chunks (U64 w) = [le_bytes 8 w]"
| "value_chunks (U32 w) = [le_bytes 4 w]"
| "value_chunks (U16 w) = [le_bytes 2 w]"
| "value_chunks (U8 w) = [le_bytes 1 w]"
| "value_chunks (I64 w) = [le_bytes 8 w]"
| "value_chunks (I32 w) = [le_bytes 4 w]"
| "value_chunks (I16 w) = [le_bytes 2 w]"
| "value_chunks (I8 w) = [le_bytes 1 w]"
| "value_chunks (Buf b) = [le_bytes 4 (of_nat (length b) :: 32 word), b]"
| "value_chunks (Str s) = [le_bytes 4 (of_nat (length s + 1) :: 32 word), s @ [0]]"

definition padded :: "bytes \<Rightarrow> bytes \<Rightarrow> bool" where
  "padded c bs \<longleftrightarrow> (\<exists>pad. bs = c @ pad \<and> length pad = pad4 (length c) - length c)"

definition encodes :: "sbuf_value \<Rightarrow> bytes \<Rightarrow> bool" where
  "encodes v bs \<longleftrightarrow> (\<exists>bss. list_all2 padded (value_chunks v) bss \<and> bs = concat bss)"

definition value_cost :: "sbuf_value \<Rightarrow> nat" where
  "value_cost v = sum_list (map (\<lambda>c. pad4 (length c) + 259) (value_chunks v))"

lemma write_chunk_ready:
  assumes "sb_ready sb bs" "sb_room sb (pad4 (length c) + 259 + k)"
  shows "\<exists>sb' e. SbufRawImplWrite True (Some sb) (Some c) (of_nat (length c)) = Some (True, Some sb') \<and>
     sb_ready sb' (bs @ e) \<and> padded c e \<and> sb_room sb' k"
proof -
  have "length c \<le> 524288" using assms(2) pad4_bounds(1) [of "length c"] by (simp add: sb_room_def)
  then have n: "unat (of_nat (length c) :: 32 word) = length c" by (simp add: unat_of_nat_32)
  with write_ready [OF assms(1), of "of_nat (length c)" k c] assms(2) show ?thesis
    unfolding padded_def by fastforce
qed

lemma read_chunk_ready:
  assumes "sb_ready sb (e @ rest)" "padded c e" "c \<noteq> []" "length c < 2 ^ 32"
  shows "\<exists>sb'. SbufRawImplRead (Some sb) True (of_nat (length c)) = Some (Some c, Some sb') \<and> sb_ready sb' rest"
proof -
  have "unat (of_nat (length c) :: 32 word) = length c" using assms(4) by (simp add: unat_of_nat_32)
  with assms read_ready [of sb c _ rest "of_nat (length c)"] show ?thesis
    by (auto simp: padded_def)
qed

lemma sbuf_put_ready:
  assumes ready: "sb_ready sb bs" and room: "sb_room sb (value_cost v + k)"
  shows "\<exists>sb' e. sbuf_put v sb = Some (True, Some sb') \<and> sb_ready sb' (bs @ e) \<and> encodes v e \<and> sb_room sb' k"
proof -
  have one: "\<exists>sb' e. SbufRawImplWrite True (Some sb) (Some c) (of_nat (length c)) = Some (True, Some sb') \<and>
      sb_ready sb' (bs @ e) \<and> encodes v e \<and> sb_room sb' k"
    if "value_chunks v = [c]" for c
    using write_chunk_ready [OF ready, of c k] room that
    by (fastforce simp: value_cost_def encodes_def list_all2_Cons1)
  have two: "\<exists>sb' e. SbufRawImplWriteBuffer True True (Some sb) (Some b) (of_nat (length b)) = Some (True, Some sb') \<and>
      sb_ready sb' (bs @ e) \<and> encodes v e \<and> sb_room sb' k"
    if v: "value_chunks v = [le_bytes 4 (of_nat (length b) :: 32 word), b]" for b
  proof -
    let ?n = "le_bytes 4 (of_nat (length b) :: 32 word)"
    obtain sb1 e1 where w1: "SbufRawImplWrite True (Some sb) (Some ?n) 4 = Some (True, Some sb1)"
      "sb_ready sb1 (bs @ e1)" "padded ?n e1" "sb_room sb1 (pad4 (length b) + 259 + k)"
      using write_chunk_ready [OF ready, of ?n "pad4 (length b) + 259 + k"] room v
      by (auto simp: value_cost_def add.assoc)
    obtain sb2 e2 where w2: "SbufRawImplWrite True (Some sb1) (Some b) (of_nat (length b)) = Some (True, Some sb2)"
      "sb_ready sb2 (bs @ e1 @ e2)" "padded b e2" "sb_room sb2 k"
      using write_chunk_ready [OF w1(2,4)] by auto
    have "encodes v (e1 @ e2)"
      unfolding encodes_def v using w1(3) w2(3) by (intro exI [of _ "[e1, e2]"]) simp
    with w1 w2 show ?thesis
      by (auto simp: SbufRawImplWriteBuffer_def SbufRawImplWriteInt32_def)
  qed
  show ?thesis
  proof (cases v)
    case (Buf b)
    with two [of b] show ?thesis by (simp add: sbuf_put_def)
  next
    case (Str s)
    with two [of "s @ [0]"] show ?thesis by (simp add: sbuf_put_def SbufRawImplWriteString_def)
  qed (use one in \<open>force simp: sbuf_put_def SbufRawImplWriteUint64_def SbufRawImplWriteUint32_def
      SbufRawImplWriteUint16_def SbufRawImplWriteUint8_def SbufRawImplWriteInt64_def SbufRawImplWriteInt32_def
      SbufRawImplWriteInt16_def SbufRawImplWriteInt8_def\<close>)+
qed

lemma read_length_ready:
  assumes ready: "sb_ready sb (e1 @ e2 @ rest)" and n: "padded (le_bytes 4 (of_nat n :: 32 word)) e1"
    and c: "padded c e2" "length c = n" "n < 2147483648"
  shows "\<exists>sb1 d junk pad. SbufRawImplReadInt32 (Some sb) True = Some (Some (of_nat n), Some sb1) \<and>
     sb_ready sb1 (e2 @ rest) \<and>
     \<not> SbufRawImplGetLeftReadSize sb1 < SbufRawImplGetAlignSize (scast (of_nat n :: 32 word)) \<and>
     sb_ready (sb1\<lparr>sb_readPos := sb_readPos sb1 + SbufRawImplGetAlignSize (scast (of_nat n :: 32 word))\<rparr>) rest \<and>
     sb_data sb1 = Some d \<and> drop (unat (sb_readPos sb1)) d = c @ pad @ junk \<and>
     unat (sb_readPos sb1) + n \<le> length d"
proof -
  obtain sb1 where r: "SbufRawImplRead (Some sb) True 4 = Some (Some (le_bytes 4 (of_nat n :: 32 word)), Some sb1)"
    "sb_ready sb1 (e2 @ rest)"
    using read_chunk_ready [OF ready n] by (auto simp flip: length_greater_0_conv)
  have nn: "unat (of_nat n :: 32 word) = n" using c(3) by (simp add: unat_of_nat_32)
  have sc: "(scast (of_nat n :: 32 word) :: 64 word) = ucast (of_nat n :: 32 word)"
    using c(3) nn by (simp add: scast_small32)
  obtain pad where e2: "e2 = c @ pad" "length pad = pad4 n - n" using c by (auto simp: padded_def)
  have r1: "sb_ready sb1 (c @ pad @ rest)" using r(2) e2 by simp
  have lens: "length c = unat (of_nat n :: 32 word)" "length pad = pad4 (unat (of_nat n :: 32 word)) - unat (of_nat n :: 32 word)"
    using nn c(2) e2(2) by simp_all
  obtain d junk where "sb_data sb1 = Some d" "drop (unat (sb_readPos sb1)) d = c @ pad @ rest @ junk"
    "unat (sb_readPos sb1) + n \<le> length d"
    using advance_ready(3) [OF r1 lens] nn by auto
  moreover have "SbufRawImplReadInt32 (Some sb) True = Some (Some (of_nat n), Some sb1)"
    by (simp add: SbufRawImplReadInt32_def read_word_def r(1) le_word_le_bytes)
  ultimately show ?thesis
    using r(2) advance_ready(1,2) [OF r1 lens] unfolding sc by blast
qed

lemma sbuf_get_buffer:
  assumes ready: "sb_ready sb (e @ rest)" and e: "encodes (Buf b) e" and ok: "length b \<le> 524288"
  shows "\<exists>sb'. sbuf_get (Buf k) sb = Some (Some (Buf b), Some sb') \<and> sb_ready sb' rest"
proof -
  obtain e1 e2 where e12: "e = e1 @ e2" "padded (le_bytes 4 (of_nat (length b) :: 32 word)) e1" "padded b e2"
    using e by (auto simp: encodes_def list_all2_Cons1)
  have ready': "sb_ready sb (e1 @ e2 @ rest)" using ready e12(1) by simp
  obtain sb1 d junk pad where r:
    "SbufRawImplReadInt32 (Some sb) True = Some (Some (of_nat (length b)), Some sb1)"
    "sb_ready sb1 (e2 @ rest)"
    "\<not> SbufRawImplGetLeftReadSize sb1 < SbufRawImplGetAlignSize (scast (of_nat (length b) :: 32 word))"
    "sb_ready (sb1\<lparr>sb_readPos := sb_readPos sb1 + SbufRawImplGetAlignSize (scast (of_nat (length b) :: 32 word))\<rparr>) rest"
    "sb_data sb1 = Some d" "drop (unat (sb_readPos sb1)) d = b @ pad @ junk"
    "unat (sb_readPos sb1) + length b \<le> length d"
    using read_length_ready [OF ready' e12(2,3) refl] ok by auto
  have d: "sb_data sb \<noteq> None" using ready by (simp add: sb_ready_def)
  have nn: "unat (of_nat (length b) :: 32 word) = length b" using ok by (simp add: unat_of_nat_32)
  show ?thesis
  proof (cases "b = []")
    case True
    then have "e2 = []" using e12(3) by (simp add: padded_def pad4_def)
    with True r(1,2) d show ?thesis
      by (simp add: sbuf_get_def SbufRawImplReadBuffer_def sbuf_deref_buffer_def)
  next
    case False
    have nz: "(of_nat (length b) :: 32 word) \<noteq> 0" using False nn by (metis length_0_conv unat_0)
    have "mem_read d (unat (sb_readPos sb1)) (length b) = Some b" using r(6,7) by simp
    with r(1,3,4,5) d nz nn show ?thesis
      by (simp add: sbuf_get_def SbufRawImplReadBuffer_def sbuf_deref_buffer_def Let_def)
  qed
qed

lemma mem_write_id:
  assumes "drop p d = xs @ x # ys" "p + length xs < length d"
  shows "mem_write d (p + length xs) [x] = Some d"
proof -
  have "d ! (p + length xs) = x" using assms nth_drop [of p d "length xs"] by simp
  with id_take_nth_drop [OF assms(2)] show ?thesis using assms(2) by (simp add: mem_write_def)
qed

lemma sbuf_get_string:
  assumes ready: "sb_ready sb (e @ rest)" and e: "encodes (Str s) e" and ok: "length s < 32767" "0 \<notin> set s"
  shows "\<exists>sb'. sbuf_get (Str k) sb = Some (Some (Str s), Some sb') \<and> sb_ready sb' rest"
proof -
  let ?n = "length s + 1"
  obtain e1 e2 where e12: "e = e1 @ e2" "padded (le_bytes 4 (of_nat ?n :: 32 word)) e1" "padded (s @ [0]) e2"
    using e by (auto simp: encodes_def list_all2_Cons1)
  have ready': "sb_ready sb (e1 @ e2 @ rest)" using ready e12(1) by simp
  obtain sb1 d junk pad where r:
    "SbufRawImplReadInt32 (Some sb) True = Some (Some (of_nat ?n), Some sb1)"
    "\<not> SbufRawImplGetLeftReadSize sb1 < SbufRawImplGetAlignSize (scast (of_nat ?n :: 32 word))"
    "sb_ready (sb1\<lparr>sb_readPos := sb_readPos sb1 + SbufRawImplGetAlignSize (scast (of_nat ?n :: 32 word))\<rparr>) rest"
    "sb_data sb1 = Some d" "drop (unat (sb_readPos sb1)) d = s @ 0 # pad @ junk"
    "unat (sb_readPos sb1) + ?n \<le> length d"
    using read_length_ready [OF ready' e12(2,3)] ok(1) by auto
  have d: "sb_data sb \<noteq> None" using ready by (simp add: sb_ready_def)
  have nn: "unat (of_nat ?n :: 32 word) = ?n" using ok by (subst unat_of_nat_32) auto
  then have si: "sint (of_nat ?n :: 32 word) = int ?n" using ok(1) by (subst sint_small32) auto
  have "mem_write d (unat (sb_readPos sb1) + (unat (of_nat ?n :: 32 word) - 1)) [0] = Some d"
    unfolding nn using mem_write_id [OF r(5)] r(6) by simp
  moreover have "cstr_at d (unat (sb_readPos sb1)) = Some s"
    unfolding cstr_at_def r(5) using c_strlen_append [OF ok(2), of "pad @ junk"] by simp
  moreover have same: "sb1\<lparr>sb_data := Some d, sb_readPos := p\<rparr> = sb1\<lparr>sb_readPos := p\<rparr>" for p
    using r(4) by (cases sb1) simp
  ultimately show ?thesis
    using r(1,2,3,4) d si ok(1)
    by (simp del: of_nat_Suc of_nat_add add: same sbuf_get_def SbufRawImplReadString_def sbuf_deref_string_def Let_def)
qed

section \<open>The buffer as a message queue\<close>

text \<open>
  The contract a client of the serialization interface relies on: values come back in the
  order they were put, as long as there is room.
\<close>

fun put_all :: "('v \<Rightarrow> 's \<Rightarrow> (bool \<times> 's option) option) \<Rightarrow> 'v list \<Rightarrow> 's \<Rightarrow> (bool \<times> 's option) option" where
  "put_all put [] s = Some (True, Some s)"
| "put_all put (v # vs) s = do {
     r \<leftarrow> put v s;
     (case r of (True, Some s') \<Rightarrow> put_all put vs s' | _ \<Rightarrow> Some r)
   }"

fun get_all :: "('v \<Rightarrow> 's \<Rightarrow> ('v option \<times> 's option) option) \<Rightarrow> 'v list \<Rightarrow> 's \<Rightarrow> ('v list \<times> 's) option" where
  "get_all get [] s = Some ([], s)"
| "get_all get (k # ks) s = do {
     r \<leftarrow> get k s;
     (case r of (Some v, Some s') \<Rightarrow> map_option (apfst (Cons v)) (get_all get ks s') | _ \<Rightarrow> None)
   }"

locale message_queue =
  fixes put :: "'v \<Rightarrow> 's \<Rightarrow> (bool \<times> 's option) option"
    and get :: "'v \<Rightarrow> 's \<Rightarrow> ('v option \<times> 's option) option"
    and cost :: "'v \<Rightarrow> nat"
    and valid :: "'v \<Rightarrow> bool"
    and room :: "'s \<Rightarrow> nat \<Rightarrow> bool"
    and holds :: "'s \<Rightarrow> 'v list \<Rightarrow> bool"
  assumes put_law: "holds s vs \<Longrightarrow> valid v \<Longrightarrow> room s (cost v + k) \<Longrightarrow>
      \<exists>s'. put v s = Some (True, Some s') \<and> holds s' (vs @ [v]) \<and> room s' k"
    and get_law: "holds s (v # vs) \<Longrightarrow> \<exists>s'. get v s = Some (Some v, Some s') \<and> holds s' vs"
begin

lemma put_all_holds:
  "holds s vs \<Longrightarrow> list_all valid ws \<Longrightarrow> room s (sum_list (map cost ws) + k) \<Longrightarrow>
   \<exists>s'. put_all put ws s = Some (True, Some s') \<and> holds s' (vs @ ws) \<and> room s' k"
proof (induction ws arbitrary: s vs)
  case Nil
  then show ?case by simp
next
  case (Cons w ws)
  from put_law [OF Cons.prems(1), of w "sum_list (map cost ws) + k"] Cons.prems
  obtain s1 where "put w s = Some (True, Some s1)" "holds s1 (vs @ [w])" "room s1 (sum_list (map cost ws) + k)"
    by (auto simp: add.assoc)
  with Cons.IH [of s1 "vs @ [w]"] Cons.prems(2) show ?case by auto
qed

lemma get_all_holds:
  "holds s (ws @ vs) \<Longrightarrow> \<exists>s'. get_all get ws s = Some (ws, s') \<and> holds s' vs"
proof (induction ws arbitrary: s)
  case Nil
  then show ?case by simp
next
  case (Cons w ws)
  then obtain s1 where "get w s = Some (Some w, Some s1)" "holds s1 (ws @ vs)"
    using get_law [of s w "ws @ vs"] by auto
  with Cons.IH [of s1] show ?case by auto
qed

lemma put_all_get_all:
  assumes "holds s []" "list_all valid ws" "room s (sum_list (map cost ws))"
  shows "\<exists>s1 s2. put_all put ws s = Some (True, Some s1) \<and> get_all get ws s1 = Some (ws, s2) \<and> holds s2 []"
proof -
  obtain s1 where "put_all put ws s = Some (True, Some s1)" "holds s1 ws"
    using put_all_holds [OF assms(1,2), of 0] assms(3) by auto
  moreover from this get_all_holds [of s1 ws "[]"] obtain s2 where "get_all get ws s1 = Some (ws, s2)" "holds s2 []"
    by auto
  ultimately show ?thesis by blast
qed

end

definition sbuf_holds :: "HdfSBufRaw \<Rightarrow> sbuf_value list \<Rightarrow> bool" where
  "sbuf_holds sb vs \<longleftrightarrow> list_all sbuf_value_ok vs \<and> (\<exists>es. list_all2 encodes vs es \<and> sb_ready sb (concat es))"

lemma sbuf_get_word:
  assumes "sb_ready sb (e @ rest)" "encodes v e" "value_chunks v = [le_bytes n (w :: 'a::len word)]"
    and "n \<in> {1, 2, 4, 8}" "LENGTH('a) \<le> 8 * n" "unat (m :: uint32_t) = n"
  shows "\<exists>sb'. (read_word (SbufRawImplRead (Some sb) True m) :: ('a word option \<times> HdfSBufRaw option) option) =
      Some (Some w, Some sb') \<and> sb_ready sb' rest"
proof -
  have p: "padded (le_bytes n w) e" using assms(2,3) by (auto simp: encodes_def list_all2_Cons1)
  then obtain pad where e: "e = le_bytes n w @ pad" "length pad = pad4 n - n" by (auto simp: padded_def)
  have "\<exists>sb'. SbufRawImplRead (Some sb) True m = Some (Some (le_bytes n w), Some sb') \<and> sb_ready sb' rest"
    by (rule read_ready [where pad = pad]) (use assms e in auto)
  then show ?thesis using assms(5) by (auto simp: read_word_def le_word_le_bytes)
qed

lemma sbuf_get_ready:
  assumes "sb_ready sb (e @ rest)" "encodes v e" "sbuf_value_ok v"
  shows "\<exists>sb'. sbuf_get v sb = Some (Some v, Some sb') \<and> sb_ready sb' rest"
proof (cases v)
  case (Buf b)
  with assms sbuf_get_buffer show ?thesis by simp
next
  case (Str s)
  with assms sbuf_get_string show ?thesis by simp
next
  case (U64 w)
  with sbuf_get_word [OF assms(1,2), of 8 w 8] show ?thesis by (auto simp: sbuf_get_def SbufRawImplReadUint64_def)
next
  case (U32 w)
  with sbuf_get_word [OF assms(1,2), of 4 w 4] show ?thesis by (auto simp: sbuf_get_def SbufRawImplReadUint32_def)
next
  case (U16 w)
  with sbuf_get_word [OF assms(1,2), of 2 w 2] show ?thesis by (auto simp: sbuf_get_def SbufRawImplReadUint16_def)
next
  case (U8 w)
  with sbuf_get_word [OF assms(1,2), of 1 w 1] show ?thesis by (auto simp: sbuf_get_def SbufRawImplReadUint8_def)
next
  case (I64 w)
  with sbuf_get_word [OF assms(1,2), of 8 w 8] show ?thesis by (auto simp: sbuf_get_def SbufRawImplReadInt64_def)
next
  case (I32 w)
  with sbuf_get_word [OF assms(1,2), of 4 w 4] show ?thesis by (auto simp: sbuf_get_def SbufRawImplReadInt32_def)
next
  case (I16 w)
  with sbuf_get_word [OF assms(1,2), of 2 w 2] show ?thesis by (auto simp: sbuf_get_def SbufRawImplReadInt16_def)
next
  case (I8 w)
  with sbuf_get_word [OF assms(1,2), of 1 w 1] show ?thesis by (auto simp: sbuf_get_def SbufRawImplReadInt8_def)
qed

interpretation sbuf_queue: message_queue sbuf_put sbuf_get value_cost sbuf_value_ok sb_room sbuf_holds
proof
  fix s vs v k
  assume h: "sbuf_holds s vs" and v: "sbuf_value_ok v" and r: "sb_room s (value_cost v + k)"
  then obtain es where es: "list_all2 encodes vs es" "sb_ready s (concat es)" by (auto simp: sbuf_holds_def)
  obtain s' e where "sbuf_put v s = Some (True, Some s')" "sb_ready s' (concat es @ e)" "encodes v e" "sb_room s' k"
    using sbuf_put_ready [OF es(2) r] by blast
  then show "\<exists>s'. sbuf_put v s = Some (True, Some s') \<and> sbuf_holds s' (vs @ [v]) \<and> sb_room s' k"
    using h v es by (auto simp: sbuf_holds_def intro!: exI [of _ "es @ [e]"] list_all2_appendI)
next
  fix s v vs
  assume h: "sbuf_holds s (v # vs)"
  then obtain e es where "encodes v e" "list_all2 encodes vs es" "sb_ready s (e @ concat es)"
    "sbuf_value_ok v" "list_all sbuf_value_ok vs"
    by (auto simp: sbuf_holds_def list_all2_Cons1)
  with sbuf_get_ready [of s e "concat es" v]
  show "\<exists>s'. sbuf_get v s = Some (Some v, Some s') \<and> sbuf_holds s' vs"
    unfolding sbuf_holds_def by blast
qed

lemma new_instance_holds_nothing:
  "SbufObtainRaw ok1 ok2 capacity = Some sb \<Longrightarrow> sbuf_holds sb [] \<and> \<not> sb_isBind sb \<and> sb_capacity sb = capacity"
  by (auto simp: SbufObtainRaw_def SbufRawImplNewInstance_def OsalMemCalloc_def sbuf_holds_def
      sb_ready_def sbuf_ok_def sb_pending_def sb_view_def split: if_splits option.splits)

text \<open>
  Every list of values written into a fresh serialization buffer is read back unchanged
  and in the same order (integers of every width, byte buffers, strings), whatever the
  initial capacity, with the buffer growing on the way, as long as the total stays below the
  maximal size.
\<close>

theorem sbuf_message_roundtrip:
  assumes "SbufObtainRaw True True capacity = Some sb"
    and "list_all sbuf_value_ok vs"
    and "unat capacity + sum_list (map value_cost vs) \<le> 524288"
  shows "\<exists>sb1 sb2. put_all sbuf_put vs sb = Some (True, Some sb1) \<and> get_all sbuf_get vs sb1 = Some (vs, sb2)"
  using sbuf_queue.put_all_get_all [of sb vs] new_instance_holds_nothing [OF assms(1)] assms(2,3)
  by (auto simp: sb_room_def)

theorem sbuf_message_roundtrip_witness:
  "\<exists>sb sb1 sb2. SbufObtainRaw True True 4 = Some sb \<and>
     put_all sbuf_put [Str [104, 105], U16 513, Buf [1, 2, 3], I64 (-7)] sb = Some (True, Some sb1) \<and>
     get_all sbuf_get [Str [104, 105], U16 513, Buf [1, 2, 3], I64 (-7)] sb1 =
       Some ([Str [104, 105], U16 513, Buf [1, 2, 3], I64 (-7)], sb2)"
proof -
  obtain sb where "SbufObtainRaw True True 4 = Some sb"
    by (simp add: SbufObtainRaw_def SbufRawImplNewInstance_def OsalMemCalloc_def HDF_SBUF_MAX_SIZE_def)
  with sbuf_message_roundtrip [of 4 sb "[Str [104, 105], U16 513, Buf [1, 2, 3], I64 (-7)]"]
  show ?thesis by (simp add: value_cost_def pad4_def)
qed

section \<open>Memory safety of every operation\<close>

text \<open>
  The operations of the raw implementation on one buffer, with the answers of the allocator and
  the arguments of the caller.  The getters change nothing and are left out.
\<close>

datatype sbuf_op =
    OpWrite bool bytes
  | OpRead uint32_t
  | OpWriteUint64 bool uint64_t
  | OpWriteUint32 bool uint32_t
  | OpWriteUint16 bool uint16_t
  | OpWriteUint8 bool uint8_t
  | OpWriteInt64 bool "64 word"
  | OpWriteInt32 bool "32 word"
  | OpWriteInt16 bool "16 word"
  | OpWriteInt8 bool "8 word"
  | OpReadUint64
  | OpReadUint32
  | OpReadUint16
  | OpReadUint8
  | OpReadInt64
  | OpReadInt32
  | OpReadInt16
  | OpReadInt8
  | OpWriteBuffer bool bool bytes
  | OpWriteNullBuffer bool
  | OpWriteString bool bool "bytes option"
  | OpReadBuffer
  | OpReadString
  | OpWriteRollback uint32_t
  | OpReadRollback uint32_t
  | OpSetDataSize size_t
  | OpFlush
  | OpTransDataOwnership

fun sbuf_exec :: "sbuf_op \<Rightarrow> HdfSBufRaw \<Rightarrow> HdfSBufRaw option" where
  "sbuf_exec (OpWrite ok bs) sb =
     Option.bind (SbufRawImplWrite ok (Some sb) (Some bs) (of_nat (length bs))) snd"
| "sbuf_exec (OpRead n) sb = Option.bind (SbufRawImplRead (Some sb) True n) snd"
| "sbuf_exec (OpWriteUint64 ok v) sb = Option.bind (SbufRawImplWriteUint64 ok (Some sb) v) snd"
| "sbuf_exec (OpWriteUint32 ok v) sb = Option.bind (SbufRawImplWriteUint32 ok (Some sb) v) snd"
| "sbuf_exec (OpWriteUint16 ok v) sb = Option.bind (SbufRawImplWriteUint16 ok (Some sb) v) snd"
| "sbuf_exec (OpWriteUint8 ok v) sb = Option.bind (SbufRawImplWriteUint8 ok (Some sb) v) snd"
| "sbuf_exec (OpWriteInt64 ok v) sb = Option.bind (SbufRawImplWriteInt64 ok (Some sb) v) snd"
| "sbuf_exec (OpWriteInt32 ok v) sb = Option.bind (SbufRawImplWriteInt32 ok (Some sb) v) snd"
| "sbuf_exec (OpWriteInt16 ok v) sb = Option.bind (SbufRawImplWriteInt16 ok (Some sb) v) snd"
| "sbuf_exec (OpWriteInt8 ok v) sb = Option.bind (SbufRawImplWriteInt8 ok (Some sb) v) snd"
| "sbuf_exec OpReadUint64 sb = Option.bind (SbufRawImplReadUint64 (Some sb) True) snd"
| "sbuf_exec OpReadUint32 sb = Option.bind (SbufRawImplReadUint32 (Some sb) True) snd"
| "sbuf_exec OpReadUint16 sb = Option.bind (SbufRawImplReadUint16 (Some sb) True) snd"
| "sbuf_exec OpReadUint8 sb = Option.bind (SbufRawImplReadUint8 (Some sb) True) snd"
| "sbuf_exec OpReadInt64 sb = Option.bind (SbufRawImplReadInt64 (Some sb) True) snd"
| "sbuf_exec OpReadInt32 sb = Option.bind (SbufRawImplReadInt32 (Some sb) True) snd"
| "sbuf_exec OpReadInt16 sb = Option.bind (SbufRawImplReadInt16 (Some sb) True) snd"
| "sbuf_exec OpReadInt8 sb = Option.bind (SbufRawImplReadInt8 (Some sb) True) snd"
| "sbuf_exec (OpWriteBuffer ok1 ok2 bs) sb =
     Option.bind (SbufRawImplWriteBuffer ok1 ok2 (Some sb) (Some bs) (of_nat (length bs))) snd"
| "sbuf_exec (OpWriteNullBuffer ok) sb = Option.bind (SbufRawImplWriteBuffer ok ok (Some sb) None 0) snd"
| "sbuf_exec (OpWriteString ok1 ok2 s) sb = Option.bind (SbufRawImplWriteString ok1 ok2 (Some sb) s) snd"
| "sbuf_exec OpReadBuffer sb = Option.bind (SbufRawImplReadBuffer (Some sb) True) snd"
| "sbuf_exec OpReadString sb = Option.bind (SbufRawImplReadString (Some sb)) snd"
| "sbuf_exec (OpWriteRollback n) sb = snd (SbufRawImplWriteRollback (Some sb) n)"
| "sbuf_exec (OpReadRollback n) sb = snd (SbufRawImplReadRollback (Some sb) n)"
| "sbuf_exec (OpSetDataSize n) sb = SbufRawImplSetDataSize (Some sb) n"
| "sbuf_exec OpFlush sb = SbufRawImplFlush (Some sb)"
| "sbuf_exec OpTransDataOwnership sb = SbufRawImplTransDataOwnership (Some sb)"

text \<open>
  The buffers a process holds.  Copying and moving make a new one, at the end of the list;
  recycling takes one out.  An
  operation on a buffer that is not there is not executed.
\<close>

datatype pool_op =
    On nat sbuf_op
  | CopyOf nat bool bool
  | MoveOf nat bool
  | RecycleOf nat

fun pool_exec :: "pool_op \<Rightarrow> HdfSBufRaw list \<Rightarrow> HdfSBufRaw list option" where
  "pool_exec (On i x) bs =
     (if i < length bs then map_option (\<lambda>sb. bs[i := sb]) (sbuf_exec x (bs ! i)) else Some bs)"
| "pool_exec (CopyOf i ok1 ok2) bs =
     (if i < length bs then map_option (\<lambda>new. case new of None \<Rightarrow> bs | Some sb \<Rightarrow> bs @ [sb])
        (SbufRawImplCopy ok1 ok2 (Some (bs ! i))) else Some bs)"
| "pool_exec (MoveOf i ok) bs =
     (if i < length bs then case SbufRawImplMove ok (Some (bs ! i)) of
          (new, Some old) \<Rightarrow> Some (bs[i := old] @ (case new of None \<Rightarrow> [] | Some sb \<Rightarrow> [sb]))
        | (_, None) \<Rightarrow> None
      else Some bs)"
| "pool_exec (RecycleOf i) bs = Some (take i bs @ drop (Suc i) bs)"

fun pool_exec_all :: "pool_op list \<Rightarrow> HdfSBufRaw list \<Rightarrow> HdfSBufRaw list option" where
  "pool_exec_all [] bs = Some bs"
| "pool_exec_all (x # xs) bs = Option.bind (pool_exec x bs) (pool_exec_all xs)"

lemma unat_of_nat_le: "unat (of_nat n :: 'a::len word) \<le> n"
  by (simp add: unsigned_of_nat take_bit_nat_less_eq_self)

lemma sbuf_ok_readPos [simp]: "sbuf_ok (sb\<lparr>sb_readPos := x\<rparr>) = sbuf_ok sb"
  by (simp add: sbuf_ok_def split: option.splits)

lemma sbuf_ok_writePos: "sbuf_ok sb \<Longrightarrow> x \<le> sb_capacity sb \<Longrightarrow> sbuf_ok (sb\<lparr>sb_writePos := x\<rparr>)"
  by (simp add: sbuf_ok_def split: option.splits)

lemma SbufRawImplWriteRollback_ok:
  "sbuf_ok sb \<Longrightarrow> \<exists>r sb'. SbufRawImplWriteRollback (Some sb) n = (r, Some sb') \<and> sbuf_ok sb'"
  by (auto simp: SbufRawImplWriteRollback_def Let_def sbuf_ok_def word_le_nat_alt word_less_nat_alt unat_sub not_less
      split: option.splits)

lemma SbufRawImplReadRollback_ok:
  "sbuf_ok sb \<Longrightarrow> \<exists>r sb'. SbufRawImplReadRollback (Some sb) n = (r, Some sb') \<and> sbuf_ok sb' \<and> sb_data sb' = sb_data sb"
  by (auto simp: SbufRawImplReadRollback_def Let_def)

lemma SbufRawImplWriteBuffer_safe:
  assumes "sbuf_ok sb" "unat n \<le> length bs"
  shows "\<exists>r sb'. SbufRawImplWriteBuffer ok1 ok2 (Some sb) (Some bs) n = Some (r, Some sb') \<and> sbuf_ok sb' \<and>
     sb_readPos sb' = sb_readPos sb \<and> (\<not> r \<longrightarrow> sb_view sb' = sb_view sb)"
proof -
  obtain r1 sb1 where w1: "SbufRawImplWrite ok1 (Some sb) (Some (le_bytes 4 n)) 4 = Some (r1, Some sb1)"
    "sbuf_ok sb1" "sb_readPos sb1 = sb_readPos sb"
    "if r1 then \<exists>pad. sb_view sb1 = sb_view sb @ take (unat (4 :: uint32_t)) (le_bytes 4 n) @ pad \<and>
                      length pad = pad4 (unat (4 :: uint32_t)) - unat (4 :: uint32_t)
     else sb_view sb1 = sb_view sb"
    using SbufRawImplWrite_safe [OF assms(1), of 4 "le_bytes 4 n" ok1] by auto
  show ?thesis
  proof (cases r1)
    case False
    with w1 show ?thesis by (auto simp: SbufRawImplWriteBuffer_def SbufRawImplWriteInt32_def)
  next
    case True
    then have v1: "sb_view sb1 = sb_view sb @ le_bytes 4 n" using w1(4) by (auto simp: pad4_def)
    obtain r2 sb2 where w2: "SbufRawImplWrite ok2 (Some sb1) (Some bs) n = Some (r2, Some sb2)"
      "sbuf_ok sb2" "sb_readPos sb2 = sb_readPos sb1"
      "\<not> r2 \<Longrightarrow> sb_view sb2 = sb_view sb1"
      using SbufRawImplWrite_safe [OF w1(2) assms(2), of ok2] by (auto split: if_splits)
    show ?thesis
    proof (cases r2)
      case True
      with w1 w2 \<open>r1\<close> show ?thesis by (auto simp add: SbufRawImplWriteBuffer_def SbufRawImplWriteInt32_def)
    next
      case False
      then have v2: "sb_view sb2 = sb_view sb @ le_bytes 4 n" using w2(4) v1 by simp
      have al: "SbufRawImplGetAlignSize (ucast (4 :: uint32_t)) = 4" by (simp add: SbufRawImplGetAlignSize_def)
      have wp: "unat (sb_writePos sb2) = length (sb_view sb) + 4"
        using arg_cong [OF v2, of length] by (simp add: sbuf_ok_view_length w2(2))
      then have ge: "\<not> sb_writePos sb2 < 4" and sub: "unat (sb_writePos sb2 - 4) = length (sb_view sb)"
        by (auto simp: word_less_nat_alt unat_sub word_le_nat_alt)
      let ?sb = "sb2\<lparr>sb_writePos := sb_writePos sb2 - 4\<rparr>"
      have "SbufRawImplWriteRollback (Some sb2) 4 = (True, Some ?sb)"
        using ge al by (simp add: SbufRawImplWriteRollback_def)
      moreover have "sbuf_ok ?sb"
        using SbufRawImplWriteRollback_ok [OF w2(2), of 4] calculation by auto
      moreover have "sb_view ?sb = take (length (sb_view sb)) (sb_view sb2)"
        using wp by (simp add: sb_view_def sub min_def split: option.splits)
      then have "sb_view ?sb = sb_view sb" unfolding v2 by simp
      ultimately show ?thesis
        using w1 w2 \<open>r1\<close> False by (auto simp add: SbufRawImplWriteBuffer_def SbufRawImplWriteInt32_def)
    qed
  qed
qed

lemma SbufRawImplReadInt32_safe:
  assumes "sbuf_ok sb" "sb_data sb \<noteq> None"
  shows "(\<exists>x. SbufRawImplReadInt32 (Some sb) True =
             Some (Some x, Some (sb\<lparr>sb_readPos := sb_readPos sb + 4\<rparr>)) \<and> 4 \<le> length (sb_pending sb)) \<or>
     SbufRawImplReadInt32 (Some sb) True = Some (None, Some sb)"
  using assms(2) by (auto simp: SbufRawImplReadInt32_def read_word_def SbufRawImplRead_safe [OF assms(1)]
      SbufRawImplGetAlignSize_def pad4_def)

lemma read_rollback_4: "4 \<le> length (sb_pending sb) \<Longrightarrow> sbuf_ok sb \<Longrightarrow>
   SbufRawImplReadRollback (Some (sb\<lparr>sb_readPos := sb_readPos sb + 4\<rparr>)) 4 = (True, Some sb)"
proof -
  assume len: "4 \<le> length (sb_pending sb)" and ok: "sbuf_ok sb"
  then have "unat (sb_readPos sb) + 4 \<le> unat (sb_writePos sb)"
    using sbuf_ok_view_length [OF ok] by (simp add: sb_pending_def)
  then have "unat (sb_readPos sb + 4) = unat (sb_readPos sb) + 4"
    using unat64_lt [of "sb_writePos sb"] by (simp add: unat_word_ariths)
  then show ?thesis
    by (simp add: SbufRawImplReadRollback_def SbufRawImplGetAlignSize_def word_less_nat_alt)
qed

lemma SbufRawImplReadBuffer_safe:
  assumes "sbuf_ok sb"
  shows "\<exists>r sb'. SbufRawImplReadBuffer (Some sb) dst = Some (r, Some sb') \<and> sbuf_ok sb' \<and>
     sb_view sb' = sb_view sb \<and> (r = None \<longrightarrow> sb' = sb)"
proof (cases "sb_data sb = None \<or> \<not> dst")
  case True
  with assms show ?thesis by (auto simp: SbufRawImplReadBuffer_def)
next
  case False
  then have d: "sb_data sb \<noteq> None" and dst by auto
  from SbufRawImplReadInt32_safe [OF assms d] show ?thesis
  proof (elim disjE exE conjE)
    fix x
    assume "SbufRawImplReadInt32 (Some sb) True = Some (Some x, Some (sb\<lparr>sb_readPos := sb_readPos sb + 4\<rparr>))"
      and "4 \<le> length (sb_pending sb)"
    with assms d \<open>dst\<close> show ?thesis
      by (simp add: SbufRawImplReadBuffer_def read_rollback_4 Let_def)
  next
    assume "SbufRawImplReadInt32 (Some sb) True = Some (None, Some sb)"
    with assms d \<open>dst\<close> show ?thesis by (simp add: SbufRawImplReadBuffer_def)
  qed
qed

text \<open>
  reading a buffer never leaves the data block whatever the bytes are, and when it fails
  the state is exactly what it was: the length field read first is given back.
\<close>

theorem sbuf_read_buffer_failure_atomic:
  assumes "sbuf_ok sb"
  shows "\<exists>r sb'. SbufRawImplReadBuffer (Some sb) dst = Some (r, Some sb') \<and> sbuf_ok sb' \<and>
     sb_view sb' = sb_view sb \<and> (r = None \<longrightarrow> sb' = sb)"
  by (rule SbufRawImplReadBuffer_safe [OF assms])

theorem sbuf_read_buffer_failure_atomic_witness:
  "\<exists>sb'. SbufRawImplReadBuffer (Some \<lparr>sb_writePos = 8, sb_readPos = 0, sb_capacity = 8,
       sb_data = Some [100, 0, 0, 0, 1, 2, 3, 4], sb_isBind = True\<rparr>) True = Some (None, Some sb') \<and> sb_readPos sb' = 0"
proof -
  let ?sb = "\<lparr>sb_writePos = 8, sb_readPos = 0, sb_capacity = 8,
       sb_data = Some [100, 0, 0, 0, 1, 2, 3, 4 :: 8 word], sb_isBind = True\<rparr>"
  have ok: "sbuf_ok ?sb" by (simp add: sbuf_ok_def)
  have "SbufRawImplReadBuffer (Some ?sb) True \<noteq> None \<and>
      fst (the (SbufRawImplReadBuffer (Some ?sb) True)) = None" by code_simp
  with sbuf_read_buffer_failure_atomic [OF ok, of True] show ?thesis by auto
qed

lemma SbufRawImplReadString_safe:
  assumes ok: "sbuf_ok sb"
  shows "\<exists>r sb'. SbufRawImplReadString (Some sb) = Some (r, Some sb') \<and> sbuf_ok sb'"
proof (cases "sb_data sb")
  case None
  with ok show ?thesis by (simp add: SbufRawImplReadString_def)
next
  case (Some d)
  then have dn: "sb_data sb \<noteq> None" by simp
  let ?sb = "sb\<lparr>sb_readPos := sb_readPos sb + 4\<rparr>"
  have ok1: "sbuf_ok ?sb" using ok by simp
  from SbufRawImplReadInt32_safe [OF ok dn] show ?thesis
  proof (elim disjE exE conjE)
    assume "SbufRawImplReadInt32 (Some sb) True = Some (None, Some sb)"
    with ok dn show ?thesis by (simp add: SbufRawImplReadString_def)
  next
    fix x
    assume r: "SbufRawImplReadInt32 (Some sb) True = Some (Some x, Some ?sb)" and len: "4 \<le> length (sb_pending sb)"
    show ?thesis
    proof (cases "sint x \<le> 0 \<or> 32767 < sint x \<or> SbufRawImplGetLeftReadSize ?sb < SbufRawImplGetAlignSize (scast x)")
      case True
      then consider "sint x \<le> 0" | "\<not> sint x \<le> 0" "32767 < sint x \<or> SbufRawImplGetLeftReadSize ?sb < SbufRawImplGetAlignSize (scast x)"
        by linarith
      then show ?thesis
      proof cases
        case 1
        with r ok1 dn show ?thesis by (simp add: SbufRawImplReadString_def)
      next
        case 2
        with r ok dn len show ?thesis by (simp add: SbufRawImplReadString_def read_rollback_4)
      qed
    next
      case False
      then have s: "0 < sint x" "sint x \<le> 32767" by auto
      have x: "unat x < 2147483648"
        using sint_nonneg32 [of x] s(1) by simp
      have pos: "0 < unat x" using s(1) sint_small32 [OF x] by linarith
      have sc: "(scast x :: 64 word) = ucast x" by (rule scast_small32 [OF x])
      have "pad4 (unat x) \<le> length (sb_pending ?sb)"
        using False by (simp add: sc word_less_nat_alt unat_align_u32 left_read_nat [OF ok1])
      moreover have "length (sb_pending ?sb) = unat (sb_writePos sb) - unat (sb_readPos sb + 4)"
        using sbuf_ok_view_length [OF ok1] by (simp add: sb_pending_def)
      moreover have "unat (sb_writePos sb) \<le> length d"
        using ok Some by (simp add: sbuf_ok_def word_le_nat_alt)
      ultimately have "unat (sb_readPos sb + 4) + (unat x - 1) + 1 \<le> length d"
        using pad4_bounds(1) [of "unat x"] pos by linarith
      then obtain d' where d': "mem_write d (unat (sb_readPos sb + 4) + (unat x - 1)) [0] = Some d'" "length d' = length d"
        by (auto simp: mem_write_def)
      have "sbuf_ok (sb\<lparr>sb_data := Some d', sb_readPos := p\<rparr>)" for p
        using ok Some d'(2) by (simp add: sbuf_ok_def)
      with False r d' Some s show ?thesis by (simp add: SbufRawImplReadString_def Let_def)
    qed
  qed
qed

lemma SbufRawImplCopy_safe:
  assumes "sbuf_ok sb"
  shows "\<exists>r. SbufRawImplCopy ok1 ok2 (Some sb) = Some r \<and> pred_option sbuf_ok r"
proof (cases "sb_data sb")
  case (Some d)
  then have len: "length d = unat (sb_capacity sb)" "sb_writePos sb \<le> sb_capacity sb"
    using assms by (simp_all add: sbuf_ok_def)
  then show ?thesis using Some
    by (auto simp: SbufRawImplCopy_def SbufRawImplNewInstance_def OsalMemCalloc_def mem_read_def memcpy_s_def mem_write_def
        sbuf_ok_def split: option.splits)
qed (simp add: SbufRawImplCopy_def)

lemma SbufRawImplMove_safe:
  "sbuf_ok sb \<Longrightarrow> \<exists>new old. SbufRawImplMove ok (Some sb) = (new, Some old) \<and> pred_option sbuf_ok new \<and> sbuf_ok old"
  by (auto simp: SbufRawImplMove_def SbufRawImplFlush_def sbuf_ok_def split: option.splits)

lemma pool_update_ok: "list_all P xs \<Longrightarrow> P x \<Longrightarrow> list_all P (xs[i := x])"
  by (auto simp: list_all_iff dest: set_update_subset_insert [THEN subsetD])

lemma write_word_ok:
  "sbuf_ok sb \<Longrightarrow> unat n \<le> k \<Longrightarrow>
   \<exists>sb'. Option.bind (SbufRawImplWrite a (Some sb) (Some (le_bytes k w)) n) snd = Some sb' \<and> sbuf_ok sb'"
  using SbufRawImplWrite_safe [of sb n "le_bytes k w" a] by auto

lemma read_word_ok:
  "sbuf_ok sb \<Longrightarrow> \<exists>sb'. Option.bind (read_word (SbufRawImplRead (Some sb) True n)) snd = Some sb' \<and> sbuf_ok sb'"
  by (simp add: SbufRawImplRead_safe read_word_def)

lemmas typed_defs = SbufRawImplWriteUint64_def SbufRawImplWriteUint32_def SbufRawImplWriteUint16_def SbufRawImplWriteUint8_def
  SbufRawImplWriteInt64_def SbufRawImplWriteInt32_def SbufRawImplWriteInt16_def SbufRawImplWriteInt8_def
  SbufRawImplReadUint64_def SbufRawImplReadUint32_def SbufRawImplReadUint16_def SbufRawImplReadUint8_def
  SbufRawImplReadInt64_def SbufRawImplReadInt32_def SbufRawImplReadInt16_def SbufRawImplReadInt8_def

lemma write_null_ok: "sbuf_ok sb \<Longrightarrow> \<exists>sb'. Option.bind (SbufRawImplWriteBuffer a b (Some sb) None 0) snd = Some sb' \<and> sbuf_ok sb'"
  using SbufRawImplWrite_safe [of sb 4 "le_bytes 4 (0 :: 32 word)" a]
  by (auto simp: SbufRawImplWriteBuffer_def SbufRawImplWriteInt32_def)

lemma sbuf_exec_ok:
  assumes "sbuf_ok sb"
  shows "\<exists>sb'. sbuf_exec x sb = Some sb' \<and> sbuf_ok sb'"
proof (cases x)
  case (OpWrite a bs)
  with SbufRawImplWrite_safe [OF assms unat_of_nat_le, where buf = bs and a = a] show ?thesis by auto
next
  case (OpRead n)
  with assms show ?thesis by (simp add: SbufRawImplRead_safe)
next
  case (OpWriteBuffer a b bs)
  with SbufRawImplWriteBuffer_safe [OF assms unat_of_nat_le, where bs = bs and ?ok1.0 = a and ?ok2.0 = b] show ?thesis by auto
next
  case (OpWriteNullBuffer a)
  with write_null_ok [OF assms] show ?thesis by simp
next
  case (OpWriteString a b str)
  show ?thesis
  proof (cases str)
    case None
    with OpWriteString write_null_ok [OF assms] show ?thesis by (simp add: SbufRawImplWriteString_def)
  next
    case (Some bs)
    have "unat (of_nat (length bs + 1) :: 32 word) \<le> length (bs @ [0])" using unat_of_nat_le [of "length bs + 1"] by simp
    with OpWriteString Some SbufRawImplWriteBuffer_safe [OF assms this, of a b] show ?thesis
      by (auto simp: SbufRawImplWriteString_def)
  qed
next
  case OpReadBuffer
  with SbufRawImplReadBuffer_safe [OF assms, of True] show ?thesis by auto
next
  case OpReadString
  with SbufRawImplReadString_safe [OF assms] show ?thesis by auto
next
  case (OpWriteRollback n)
  with SbufRawImplWriteRollback_ok [OF assms, of n] show ?thesis by auto
next
  case (OpReadRollback n)
  with SbufRawImplReadRollback_ok [OF assms, of n] show ?thesis by auto
next
  case (OpSetDataSize n)
  with sbuf_ok_writePos [of "sb\<lparr>sb_readPos := 0\<rparr>" n] assms show ?thesis
    by (simp add: SbufRawImplSetDataSize_def)
next
  case OpFlush
  with sbuf_ok_writePos [of "sb\<lparr>sb_readPos := 0\<rparr>" 0] assms show ?thesis
    by (simp add: SbufRawImplFlush_def)
next
  case OpTransDataOwnership
  with assms show ?thesis by (simp add: SbufRawImplTransDataOwnership_def sbuf_ok_def split: option.splits)
next
  case (OpWriteUint8 a v)
  with write_word_ok [OF assms, of 1 1 a v] show ?thesis by (simp add: SbufRawImplWriteUint8_def)
next
  case (OpWriteInt8 a v)
  with write_word_ok [OF assms, of 1 1 a v] show ?thesis by (simp add: SbufRawImplWriteInt8_def)
qed (simp_all add: typed_defs write_word_ok [OF assms] read_word_ok [OF assms])

lemma pool_exec_ok:
  assumes "list_all sbuf_ok bs"
  shows "\<exists>bs'. pool_exec x bs = Some bs' \<and> list_all sbuf_ok bs'"
proof (cases x)
  case (On i op)
  show ?thesis
  proof (cases "i < length bs")
    case True
    then have "sbuf_ok (bs ! i)" using assms by (simp add: list_all_length)
    from sbuf_exec_ok [OF this, of op] obtain sb' where "sbuf_exec op (bs ! i) = Some sb'" "sbuf_ok sb'" by blast
    then show ?thesis using On True assms by (simp add: list_all_length nth_list_update)
  qed (use On assms in simp)
next
  case (CopyOf i ok1 ok2)
  show ?thesis
  proof (cases "i < length bs")
    case True
    then have "sbuf_ok (bs ! i)" using assms by (simp add: list_all_length)
    from SbufRawImplCopy_safe [OF this, of ok1 ok2] obtain r
      where "SbufRawImplCopy ok1 ok2 (Some (bs ! i)) = Some r" "pred_option sbuf_ok r" by blast
    then show ?thesis using CopyOf True assms by (cases r) simp_all
  qed (use CopyOf assms in simp)
next
  case (MoveOf i ok)
  show ?thesis
  proof (cases "i < length bs")
    case True
    then have "sbuf_ok (bs ! i)" using assms by (simp add: list_all_length)
    from SbufRawImplMove_safe [OF this, of ok] obtain new old
      where "SbufRawImplMove ok (Some (bs ! i)) = (new, Some old)" "pred_option sbuf_ok new" "sbuf_ok old" by blast
    then show ?thesis using MoveOf True assms by (cases new) (simp_all add: pool_update_ok)
  qed (use MoveOf assms in simp)
next
  case (RecycleOf i)
  with assms show ?thesis by (auto simp: list_all_iff dest: in_set_takeD in_set_dropD)
qed

lemma pool_exec_all_ok: "list_all sbuf_ok bs \<Longrightarrow> \<exists>bs'. pool_exec_all xs bs = Some bs' \<and> list_all sbuf_ok bs'"
proof (induction xs arbitrary: bs)
  case (Cons x xs)
  from pool_exec_ok [OF Cons.prems, of x] obtain b1 where "pool_exec x bs = Some b1" "list_all sbuf_ok b1" by blast
  with Cons.IH show ?case by simp
qed simp

lemma sbuf_bind_ok: "SbufBindRaw ok base block sz = Some sb \<Longrightarrow> length block = unat sz \<Longrightarrow> sbuf_ok sb"
  by (auto simp: SbufBindRaw_def sbuf_ok_def split: if_splits)

text \<open>
  C18: Messages from other processes.  A process that binds a buffer to a block of arbitrary bytes may
  then use it in any way: write and read values, buffers and strings, roll back, set the size, flush, take
  over the ownership of the block (after which the buffer may grow), copy it, move it, recycle it, and do the
  same with the copies, in any order, with any sizes and with any failures of the allocator.  No operation
  reads or writes outside the data block of its buffer, and in every buffer the write position stays within
  the capacity, which is the size of the block.
\<close>

theorem sbuf_hostile_message_safe:
  assumes "SbufBindRaw ok base block sz = Some sb" and "length block = unat sz"
  shows "\<exists>bs. pool_exec_all ops [sb] = Some bs \<and> list_all sbuf_ok bs"
  by (rule pool_exec_all_ok) (simp add: sbuf_bind_ok [OF assms])

theorem sbuf_hostile_message_safe_witness:
  "\<exists>sb bs. SbufBindRaw True 4096 [255, 255, 0, 0, 9, 9, 9, 9] 8 = Some sb \<and>
     pool_exec_all [On 0 OpReadString, On 0 OpReadBuffer, CopyOf 0 True True, On 1 (OpWrite True [1, 2]),
       On 0 OpTransDataOwnership, MoveOf 0 True, RecycleOf 0, On 1 (OpReadUint64)] [sb] = Some bs \<and> list_all sbuf_ok bs"
proof -
  obtain sb where sb: "SbufBindRaw True 4096 [255, 255, 0, 0, 9, 9, 9, 9] 8 = Some sb"
    by (simp add: SbufBindRaw_def)
  from sbuf_hostile_message_safe [OF this] have "\<exists>bs. pool_exec_all ops [sb] = Some bs \<and> list_all sbuf_ok bs" for ops
    by simp
  with sb show ?thesis by blast
qed

text \<open>
  C21: a failing buffer write is undone: the length word written first is rolled back, and the
  bytes in the buffer and the read position are what they were before the call.
\<close>

theorem sbuf_write_buffer_failure_atomic:
  assumes "sbuf_ok sb" "unat n \<le> length bs"
    and "SbufRawImplWriteBuffer ok1 ok2 (Some sb) (Some bs) n = Some (False, impl)"
  shows "\<exists>sb'. impl = Some sb' \<and> sbuf_ok sb' \<and> sb_view sb' = sb_view sb \<and> sb_readPos sb' = sb_readPos sb"
  using SbufRawImplWriteBuffer_safe [OF assms(1,2), of ok1 ok2] assms(3) by auto

theorem sbuf_write_buffer_failure_atomic_witness:
  "\<exists>impl sb'. SbufRawImplWriteBuffer True False
       (Some \<lparr>sb_writePos = 0, sb_readPos = 0, sb_capacity = 4, sb_data = Some [0, 0, 0, 0], sb_isBind = False\<rparr>)
       (Some [1, 2, 3]) 3 = Some (False, impl) \<and> impl = Some sb' \<and> sb_view sb' = []"
proof -
  let ?sb = "\<lparr>sb_writePos = 0, sb_readPos = 0, sb_capacity = 4, sb_data = Some [0, 0, 0, 0 :: 8 word], sb_isBind = False\<rparr>"
  let ?r = "SbufRawImplWriteBuffer True False (Some ?sb) (Some [1, 2, 3]) 3"
  have ok: "sbuf_ok ?sb" by (simp add: sbuf_ok_def)
  have "?r \<noteq> None \<and> \<not> fst (the ?r)" by code_simp
  then obtain impl where "?r = Some (False, impl)" by (cases ?r; cases "the ?r") auto
  moreover from sbuf_write_buffer_failure_atomic [OF ok _ this]
  obtain sb' where "impl = Some sb'" "sb_view sb' = sb_view ?sb" by auto
  ultimately show ?thesis by (auto simp: sb_view_def)
qed

text \<open>
  a length field of -1, -2 or -3 is accepted: aligning it wraps to zero, so the read of a
  buffer succeeds without consuming anything more and reports a size of more than 4 GiB.
\<close>

theorem sbuf_read_buffer_accepts_negative_size:
  assumes "sb_ready sb (le_bytes 4 n @ rest)" and "n \<in> {- 1, - 2, - 3 :: 32 word}"
  shows "\<exists>sb'. SbufRawImplReadBuffer (Some sb) True = Some (Some (Some (sb_readPos sb'), n), Some sb') \<and>
     sb_ready sb' rest \<and> 4294967293 \<le> n"
proof -
  have "\<exists>sb1. SbufRawImplRead (Some sb) True 4 = Some (Some (le_bytes 4 n), Some sb1) \<and> sb_ready sb1 rest"
    by (rule read_ready [where pad = "[]"]) (use assms in \<open>auto simp: pad4_def\<close>)
  then obtain sb1 where r: "SbufRawImplRead (Some sb) True 4 = Some (Some (le_bytes 4 n), Some sb1)" "sb_ready sb1 rest"
    by blast
  have al: "SbufRawImplGetAlignSize (scast n) = 0"
  proof -
    have "SbufRawImplGetAlignSize (scast (- 1 :: 32 word)) = 0" "SbufRawImplGetAlignSize (scast (- 2 :: 32 word)) = 0"
      "SbufRawImplGetAlignSize (scast (- 3 :: 32 word)) = 0" by code_simp+
    with assms(2) show ?thesis by blast
  qed
  have big: "4294967293 \<le> n" "n \<noteq> 0"
  proof -
    have "4294967293 \<le> (- 1 :: 32 word)" "4294967293 \<le> (- 2 :: 32 word)" "4294967293 \<le> (- 3 :: 32 word)"
      by code_simp+
    with assms(2) show "4294967293 \<le> n" by blast
    then show "n \<noteq> 0" by auto
  qed
  have "sb_data sb \<noteq> None" using assms(1) by (simp add: sb_ready_def)
  with r al big have "SbufRawImplReadBuffer (Some sb) True = Some (Some (Some (sb_readPos sb1), n), Some sb1)"
    by (simp add: SbufRawImplReadBuffer_def SbufRawImplReadInt32_def read_word_def le_word_le_bytes Let_def)
  with r big show ?thesis by blast
qed

theorem sbuf_read_buffer_accepts_negative_size_witness:
  "\<exists>sb'. SbufRawImplReadBuffer (Some \<lparr>sb_writePos = 4, sb_readPos = 0, sb_capacity = 4,
       sb_data = Some [255, 255, 255, 255], sb_isBind = True\<rparr>) True = Some (Some (Some (sb_readPos sb'), - 1), Some sb')"
proof -
  have "sb_ready \<lparr>sb_writePos = 4, sb_readPos = 0, sb_capacity = 4,
       sb_data = Some [255, 255, 255, 255], sb_isBind = True\<rparr> (le_bytes 4 (- 1 :: 32 word) @ [])"
    by (simp add: sb_ready_def sbuf_ok_def sb_pending_def sb_view_def) code_simp
  from sbuf_read_buffer_accepts_negative_size [OF this] show ?thesis by auto
qed

end
