(* ===== verification/Hdf_SbufIf.thy ===== *)
theory Hdf_SbufIf
  imports Hdf_Sbuf
begin

text \<open>
  The front end of the serialization buffer, \<^verbatim>\<open>utils/src/hdf_sbuf.c\<close>: a buffer is a table of
  methods with an implementation object, and every function checks one method of the table and
  calls one.  The raw implementation fills the table in \<^verbatim>\<open>SbufInterfaceAssign\<close>; the inter-process
  constructors are weak symbols of another library, here absent.

  A method slot is null, a function, or \<open>FWild\<close>: memory that was never written, whose use is a
  fault.  The table of \<^verbatim>\<open>SbufObtainRaw\<close> is zeroed before it is filled, that of
  \<^verbatim>\<open>SbufBindRaw\<close> is not.
\<close>

section \<open>The table of methods\<close>

datatype 'f fptr = FNull | FWild | FPtr 'f

type_synonym ('i, 'w) write_fn = "(bool \<Rightarrow> 'i option \<Rightarrow> 'w \<Rightarrow> (bool \<times> 'i option) option) fptr"
type_synonym ('i, 'w) read_fn = "('i option \<Rightarrow> bool \<Rightarrow> ('w option \<times> 'i option) option) fptr"

record 'i HdfSbufImpl =
  writeBuffer :: "(bool \<Rightarrow> bool \<Rightarrow> 'i option \<Rightarrow> bytes option \<Rightarrow> uint32_t \<Rightarrow> (bool \<times> 'i option) option) fptr"
  writeUnpadBuffer :: "(bool \<Rightarrow> 'i option \<Rightarrow> bytes \<Rightarrow> uint32_t \<Rightarrow> (bool \<times> 'i option) option) fptr"
  writeUint64 :: "('i, uint64_t) write_fn"
  writeUint32 :: "('i, uint32_t) write_fn"
  writeUint16 :: "('i, uint16_t) write_fn"
  writeUint8 :: "('i, uint8_t) write_fn"
  writeInt64 :: "('i, 64 word) write_fn"
  writeInt32 :: "('i, 32 word) write_fn"
  writeInt16 :: "('i, 16 word) write_fn"
  writeInt8 :: "('i, 8 word) write_fn"
  writeString :: "(bool \<Rightarrow> bool \<Rightarrow> 'i option \<Rightarrow> bytes option \<Rightarrow> (bool \<times> 'i option) option) fptr"
  writeFileDescriptor :: "('i, 32 word) write_fn"
  writeFloat :: "('i, 32 word) write_fn"
  writeDouble :: "('i, 64 word) write_fn"
  readDouble :: "('i, 64 word) read_fn"
  readFloat :: "('i, 32 word) read_fn"
  readFileDescriptor :: "('i option \<Rightarrow> (32 word \<times> 'i option) option) fptr"
  writeString16 :: "(bool \<Rightarrow> 'i option \<Rightarrow> 16 word list option \<Rightarrow> uint32_t \<Rightarrow> (bool \<times> 'i option) option) fptr"
  readBuffer :: "('i option \<Rightarrow> bool \<Rightarrow> ((size_t option \<times> uint32_t) option \<times> 'i option) option) fptr"
  readUnpadBuffer :: "('i option \<Rightarrow> size_t \<Rightarrow> (size_t option \<times> 'i option) option) fptr"
  readUint64 :: "('i, uint64_t) read_fn"
  readUint32 :: "('i, uint32_t) read_fn"
  readUint16 :: "('i, uint16_t) read_fn"
  readUint8 :: "('i, uint8_t) read_fn"
  readInt64 :: "('i, 64 word) read_fn"
  readInt32 :: "('i, 32 word) read_fn"
  readInt16 :: "('i, 16 word) read_fn"
  readInt8 :: "('i, 8 word) read_fn"
  readString :: "('i option \<Rightarrow> (size_t option \<times> 'i option) option) fptr"
  readString16 :: "('i option \<Rightarrow> (size_t option \<times> 'i option) option) fptr"
  writeRemoteService :: "('i option \<Rightarrow> nat option \<Rightarrow> (32 word \<times> 'i option) option) fptr"
  readRemoteService :: "('i option \<Rightarrow> (nat option \<times> 'i option) option) fptr"
  getData :: "('i option \<Rightarrow> bytes option) fptr"
  flush :: "('i option \<Rightarrow> 'i option) fptr"
  getCapacity :: "('i option \<Rightarrow> size_t) fptr"
  getDataSize :: "('i option \<Rightarrow> size_t) fptr"
  setDataSize :: "('i option \<Rightarrow> size_t \<Rightarrow> 'i option) fptr"
  recycle :: "('i option \<Rightarrow> bytes option) fptr"
  move :: "(bool \<Rightarrow> 'i option \<Rightarrow> 'i option \<times> 'i option) fptr"
  copy :: "(bool \<Rightarrow> bool \<Rightarrow> 'i option \<Rightarrow> 'i option option) fptr"
  transDataOwnership :: "('i option \<Rightarrow> 'i option) fptr"

text \<open>
  The raw implementation's table; \<open>rest\<close> is what the slots it does not fill hold.
\<close>

definition SbufInterfaceAssign :: "bool \<Rightarrow> HdfSBufRaw HdfSbufImpl" where
  "SbufInterfaceAssign zeroed =
     \<lparr>writeBuffer = FPtr SbufRawImplWriteBuffer,
      writeUnpadBuffer = (if zeroed then FNull else FWild),
      writeUint64 = FPtr SbufRawImplWriteUint64,
      writeUint32 = FPtr SbufRawImplWriteUint32,
      writeUint16 = FPtr SbufRawImplWriteUint16,
      writeUint8 = FPtr SbufRawImplWriteUint8,
      writeInt64 = FPtr SbufRawImplWriteInt64,
      writeInt32 = FPtr SbufRawImplWriteInt32,
      writeInt16 = FPtr SbufRawImplWriteInt16,
      writeInt8 = FPtr SbufRawImplWriteInt8,
      writeString = FPtr SbufRawImplWriteString,
      writeFileDescriptor = (if zeroed then FNull else FWild),
      writeFloat = (if zeroed then FNull else FWild),
      writeDouble = (if zeroed then FNull else FWild),
      readDouble = (if zeroed then FNull else FWild),
      readFloat = (if zeroed then FNull else FWild),
      readFileDescriptor = (if zeroed then FNull else FWild),
      writeString16 = (if zeroed then FNull else FWild),
      readBuffer = FPtr SbufRawImplReadBuffer,
      readUnpadBuffer = (if zeroed then FNull else FWild),
      readUint64 = FPtr SbufRawImplReadUint64,
      readUint32 = FPtr SbufRawImplReadUint32,
      readUint16 = FPtr SbufRawImplReadUint16,
      readUint8 = FPtr SbufRawImplReadUint8,
      readInt64 = FPtr SbufRawImplReadInt64,
      readInt32 = FPtr SbufRawImplReadInt32,
      readInt16 = FPtr SbufRawImplReadInt16,
      readInt8 = FPtr SbufRawImplReadInt8,
      readString = FPtr SbufRawImplReadString,
      readString16 = (if zeroed then FNull else FWild),
      writeRemoteService = (if zeroed then FNull else FWild),
      readRemoteService = (if zeroed then FNull else FWild),
      getData = FPtr SbufRawImplGetData,
      flush = FPtr SbufRawImplFlush,
      getCapacity = FPtr SbufRawImplGetCapacity,
      getDataSize = FPtr SbufRawImplGetDataSize,
      setDataSize = FPtr SbufRawImplSetDataSize,
      recycle = FPtr SbufRawImplRecycle,
      move = FPtr SbufRawImplMove,
      copy = FPtr SbufRawImplCopy,
      transDataOwnership = FPtr SbufRawImplTransDataOwnership\<rparr>"

section \<open>Buffers and calls\<close>

text \<open>The type is only read for messages; \<^verbatim>\<open>HdfSBufMove\<close> leaves it unset.\<close>

record 'i HdfSBuf =
  sf_impl :: "('i HdfSbufImpl \<times> 'i) option"
  sf_type :: "uint32_t option"

definition HDF_SBUF_DEFAULT_SIZE :: size_t where "HDF_SBUF_DEFAULT_SIZE = 256"

definition put_impl :: "'i option \<Rightarrow> 'i HdfSBuf \<Rightarrow> 'i HdfSBuf" where
  "put_impl i' b = (case i' of None \<Rightarrow> b | Some i \<Rightarrow> b\<lparr>sf_impl := map_option (map_prod id (\<lambda>_. i)) (sf_impl b)\<rparr>)"

text \<open>
  The macro \<^verbatim>\<open>HDF_SBUF_IMPL_CHECK_RETURN\<close> with the test of method \<open>api\<close>, followed by the body.
\<close>

definition HDF_SBUF_IMPL_CHECK_RETURN ::
    "('i HdfSbufImpl \<Rightarrow> 'f fptr) \<Rightarrow> 'r \<Rightarrow> 'i HdfSBuf option
     \<Rightarrow> ('i HdfSbufImpl \<Rightarrow> 'i \<Rightarrow> ('r \<times> 'i option) option) \<Rightarrow> ('r \<times> 'i HdfSBuf option) option" where
  "HDF_SBUF_IMPL_CHECK_RETURN api retCode sbuf body =
     (case sbuf of None \<Rightarrow> Some (retCode, None)
      | Some b \<Rightarrow>
          (case sf_impl b of None \<Rightarrow> Some (retCode, sbuf)
           | Some (impl, i) \<Rightarrow>
               (case api impl of FNull \<Rightarrow> Some (retCode, sbuf)
                | _ \<Rightarrow> map_option (map_prod id (\<lambda>i'. Some (put_impl i' b))) (body impl i))))"

text \<open>Calling through a pointer: a null or wild pointer is a fault.\<close>

definition call_ptr :: "'f fptr \<Rightarrow> ('f \<Rightarrow> 'r option) \<Rightarrow> 'r option" where
  "call_ptr f k = (case f of FPtr g \<Rightarrow> k g | _ \<Rightarrow> None)"

definition HdfSbufGetData ::
    "'i HdfSBuf option \<Rightarrow> (bytes option \<times> 'i HdfSBuf option) option" where
  "HdfSbufGetData sbuf =
     HDF_SBUF_IMPL_CHECK_RETURN getData None sbuf (\<lambda>impl i. call_ptr (getData impl) (\<lambda>f. Some (f (Some i), None)))"

definition HdfSbufFlush ::
    "'i HdfSBuf option \<Rightarrow> (unit \<times> 'i HdfSBuf option) option" where
  "HdfSbufFlush sbuf =
     HDF_SBUF_IMPL_CHECK_RETURN getData () sbuf (\<lambda>impl i. call_ptr (flush impl) (\<lambda>f. Some ((), f (Some i))))"

definition HdfSbufGetCapacity ::
    "'i HdfSBuf option \<Rightarrow> (size_t \<times> 'i HdfSBuf option) option" where
  "HdfSbufGetCapacity sbuf =
     HDF_SBUF_IMPL_CHECK_RETURN getCapacity (- 1) sbuf (\<lambda>impl i. call_ptr (getCapacity impl) (\<lambda>f. Some (f (Some i), None)))"

definition HdfSbufGetDataSize ::
    "'i HdfSBuf option \<Rightarrow> (size_t \<times> 'i HdfSBuf option) option" where
  "HdfSbufGetDataSize sbuf =
     HDF_SBUF_IMPL_CHECK_RETURN getDataSize (- 1) sbuf (\<lambda>impl i. call_ptr (getDataSize impl) (\<lambda>f. Some (f (Some i), None)))"

definition HdfSbufSetDataSize ::
    "'i HdfSBuf option \<Rightarrow> size_t \<Rightarrow> (unit \<times> 'i HdfSBuf option) option" where
  "HdfSbufSetDataSize sbuf sz =
     HDF_SBUF_IMPL_CHECK_RETURN setDataSize () sbuf (\<lambda>impl i. call_ptr (setDataSize impl) (\<lambda>f. Some ((), f (Some i) sz)))"

definition HdfSbufWriteBuffer ::
    "bool \<Rightarrow> bool \<Rightarrow> 'i HdfSBuf option \<Rightarrow> bytes option \<Rightarrow> uint32_t \<Rightarrow> (bool \<times> 'i HdfSBuf option) option" where
  "HdfSbufWriteBuffer ok1 ok2 sbuf data writeSize =
     HDF_SBUF_IMPL_CHECK_RETURN getCapacity False sbuf (\<lambda>impl i. call_ptr (writeBuffer impl) (\<lambda>f. f ok1 ok2 (Some i) data writeSize))"

definition HdfSbufWriteUnpadBuffer ::
    "bool \<Rightarrow> 'i HdfSBuf option \<Rightarrow> bytes option \<Rightarrow> uint32_t \<Rightarrow> (bool \<times> 'i HdfSBuf option) option" where
  "HdfSbufWriteUnpadBuffer ok sbuf data writeSize =
     (case data of None \<Rightarrow> Some (False, sbuf)
      | Some d \<Rightarrow> HDF_SBUF_IMPL_CHECK_RETURN writeUnpadBuffer False sbuf
          (\<lambda>impl i. call_ptr (writeUnpadBuffer impl) (\<lambda>f. f ok (Some i) d writeSize)))"

definition HdfSbufReadUnpadBuffer ::
    "'i HdfSBuf option \<Rightarrow> size_t \<Rightarrow> (size_t option \<times> 'i HdfSBuf option) option" where
  "HdfSbufReadUnpadBuffer sbuf len =
     HDF_SBUF_IMPL_CHECK_RETURN readUnpadBuffer None sbuf (\<lambda>impl i. call_ptr (readUnpadBuffer impl) (\<lambda>f. f (Some i) len))"

definition HdfSbufReadBuffer ::
    "'i HdfSBuf option \<Rightarrow> bool \<Rightarrow> ((size_t option * uint32_t) option \<times> 'i HdfSBuf option) option" where
  "HdfSbufReadBuffer sbuf dst =
     HDF_SBUF_IMPL_CHECK_RETURN readBuffer None sbuf (\<lambda>impl i. call_ptr (readBuffer impl) (\<lambda>f. f (Some i) dst))"

definition HdfSbufWriteUint64 ::
    "bool \<Rightarrow> 'i HdfSBuf option \<Rightarrow> uint64_t \<Rightarrow> (bool \<times> 'i HdfSBuf option) option" where
  "HdfSbufWriteUint64 ok sbuf v =
     HDF_SBUF_IMPL_CHECK_RETURN writeUint64 False sbuf (\<lambda>impl i. call_ptr (writeUint64 impl) (\<lambda>f. f ok (Some i) v))"

definition HdfSbufWriteUint32 ::
    "bool \<Rightarrow> 'i HdfSBuf option \<Rightarrow> uint32_t \<Rightarrow> (bool \<times> 'i HdfSBuf option) option" where
  "HdfSbufWriteUint32 ok sbuf v =
     HDF_SBUF_IMPL_CHECK_RETURN writeUint32 False sbuf (\<lambda>impl i. call_ptr (writeUint32 impl) (\<lambda>f. f ok (Some i) v))"

definition HdfSbufWriteUint16 ::
    "bool \<Rightarrow> 'i HdfSBuf option \<Rightarrow> uint16_t \<Rightarrow> (bool \<times> 'i HdfSBuf option) option" where
  "HdfSbufWriteUint16 ok sbuf v =
     HDF_SBUF_IMPL_CHECK_RETURN writeUint16 False sbuf (\<lambda>impl i. call_ptr (writeUint16 impl) (\<lambda>f. f ok (Some i) v))"

definition HdfSbufWriteUint8 ::
    "bool \<Rightarrow> 'i HdfSBuf option \<Rightarrow> uint8_t \<Rightarrow> (bool \<times> 'i HdfSBuf option) option" where
  "HdfSbufWriteUint8 ok sbuf v =
     HDF_SBUF_IMPL_CHECK_RETURN writeUint8 False sbuf (\<lambda>impl i. call_ptr (writeUint8 impl) (\<lambda>f. f ok (Some i) v))"

definition HdfSbufWriteInt64 ::
    "bool \<Rightarrow> 'i HdfSBuf option \<Rightarrow> 64 word \<Rightarrow> (bool \<times> 'i HdfSBuf option) option" where
  "HdfSbufWriteInt64 ok sbuf v =
     HDF_SBUF_IMPL_CHECK_RETURN writeInt64 False sbuf (\<lambda>impl i. call_ptr (writeInt64 impl) (\<lambda>f. f ok (Some i) v))"

definition HdfSbufWriteInt32 ::
    "bool \<Rightarrow> 'i HdfSBuf option \<Rightarrow> 32 word \<Rightarrow> (bool \<times> 'i HdfSBuf option) option" where
  "HdfSbufWriteInt32 ok sbuf v =
     HDF_SBUF_IMPL_CHECK_RETURN writeInt32 False sbuf (\<lambda>impl i. call_ptr (writeInt32 impl) (\<lambda>f. f ok (Some i) v))"

definition HdfSbufWriteInt16 ::
    "bool \<Rightarrow> 'i HdfSBuf option \<Rightarrow> 16 word \<Rightarrow> (bool \<times> 'i HdfSBuf option) option" where
  "HdfSbufWriteInt16 ok sbuf v =
     HDF_SBUF_IMPL_CHECK_RETURN writeInt16 False sbuf (\<lambda>impl i. call_ptr (writeInt16 impl) (\<lambda>f. f ok (Some i) v))"

definition HdfSbufWriteInt8 ::
    "bool \<Rightarrow> 'i HdfSBuf option \<Rightarrow> 8 word \<Rightarrow> (bool \<times> 'i HdfSBuf option) option" where
  "HdfSbufWriteInt8 ok sbuf v =
     HDF_SBUF_IMPL_CHECK_RETURN writeInt8 False sbuf (\<lambda>impl i. call_ptr (writeInt8 impl) (\<lambda>f. f ok (Some i) v))"

definition HdfSbufWriteString ::
    "bool \<Rightarrow> bool \<Rightarrow> 'i HdfSBuf option \<Rightarrow> bytes option \<Rightarrow> (bool \<times> 'i HdfSBuf option) option" where
  "HdfSbufWriteString ok1 ok2 sbuf v =
     HDF_SBUF_IMPL_CHECK_RETURN writeString False sbuf (\<lambda>impl i. call_ptr (writeString impl) (\<lambda>f. f ok1 ok2 (Some i) v))"

definition HdfSbufWriteString16 ::
    "bool \<Rightarrow> 'i HdfSBuf option \<Rightarrow> 16 word list option \<Rightarrow> uint32_t \<Rightarrow> (bool \<times> 'i HdfSBuf option) option" where
  "HdfSbufWriteString16 ok sbuf v sz =
     HDF_SBUF_IMPL_CHECK_RETURN writeString16 False sbuf (\<lambda>impl i. call_ptr (writeString16 impl) (\<lambda>f. f ok (Some i) v sz))"

definition HdfSbufReadUint64 ::
    "'i HdfSBuf option \<Rightarrow> bool \<Rightarrow> (uint64_t option \<times> 'i HdfSBuf option) option" where
  "HdfSbufReadUint64 sbuf dst =
     HDF_SBUF_IMPL_CHECK_RETURN readUint64 None sbuf (\<lambda>impl i. call_ptr (readUint64 impl) (\<lambda>f. f (Some i) dst))"

definition HdfSbufReadUint32 ::
    "'i HdfSBuf option \<Rightarrow> bool \<Rightarrow> (uint32_t option \<times> 'i HdfSBuf option) option" where
  "HdfSbufReadUint32 sbuf dst =
     HDF_SBUF_IMPL_CHECK_RETURN readUint32 None sbuf (\<lambda>impl i. call_ptr (readUint32 impl) (\<lambda>f. f (Some i) dst))"

definition HdfSbufReadUint16 ::
    "'i HdfSBuf option \<Rightarrow> bool \<Rightarrow> (uint16_t option \<times> 'i HdfSBuf option) option" where
  "HdfSbufReadUint16 sbuf dst =
     HDF_SBUF_IMPL_CHECK_RETURN readUint16 None sbuf (\<lambda>impl i. call_ptr (readUint16 impl) (\<lambda>f. f (Some i) dst))"

definition HdfSbufReadUint8 ::
    "'i HdfSBuf option \<Rightarrow> bool \<Rightarrow> (uint8_t option \<times> 'i HdfSBuf option) option" where
  "HdfSbufReadUint8 sbuf dst =
     HDF_SBUF_IMPL_CHECK_RETURN readUint8 None sbuf (\<lambda>impl i. call_ptr (readUint8 impl) (\<lambda>f. f (Some i) dst))"

definition HdfSbufReadInt64 ::
    "'i HdfSBuf option \<Rightarrow> bool \<Rightarrow> (64 word option \<times> 'i HdfSBuf option) option" where
  "HdfSbufReadInt64 sbuf dst =
     HDF_SBUF_IMPL_CHECK_RETURN readInt64 None sbuf (\<lambda>impl i. call_ptr (readInt64 impl) (\<lambda>f. f (Some i) dst))"

definition HdfSbufReadInt32 ::
    "'i HdfSBuf option \<Rightarrow> bool \<Rightarrow> (32 word option \<times> 'i HdfSBuf option) option" where
  "HdfSbufReadInt32 sbuf dst =
     HDF_SBUF_IMPL_CHECK_RETURN readInt32 None sbuf (\<lambda>impl i. call_ptr (readInt32 impl) (\<lambda>f. f (Some i) dst))"

definition HdfSbufReadInt16 ::
    "'i HdfSBuf option \<Rightarrow> bool \<Rightarrow> (16 word option \<times> 'i HdfSBuf option) option" where
  "HdfSbufReadInt16 sbuf dst =
     HDF_SBUF_IMPL_CHECK_RETURN readInt16 None sbuf (\<lambda>impl i. call_ptr (readInt16 impl) (\<lambda>f. f (Some i) dst))"

definition HdfSbufReadInt8 ::
    "'i HdfSBuf option \<Rightarrow> bool \<Rightarrow> (8 word option \<times> 'i HdfSBuf option) option" where
  "HdfSbufReadInt8 sbuf dst =
     HDF_SBUF_IMPL_CHECK_RETURN readInt8 None sbuf (\<lambda>impl i. call_ptr (readInt8 impl) (\<lambda>f. f (Some i) dst))"

definition HdfSbufReadString ::
    "'i HdfSBuf option \<Rightarrow> (size_t option \<times> 'i HdfSBuf option) option" where
  "HdfSbufReadString sbuf =
     HDF_SBUF_IMPL_CHECK_RETURN readString None sbuf (\<lambda>impl i. call_ptr (readString impl) (\<lambda>f. f (Some i)))"

definition HdfSBufWriteString16 ::
    "bool \<Rightarrow> 'i HdfSBuf option \<Rightarrow> 16 word list option \<Rightarrow> uint32_t \<Rightarrow> (bool \<times> 'i HdfSBuf option) option" where
  "HdfSBufWriteString16 ok sbuf v sz =
     HDF_SBUF_IMPL_CHECK_RETURN writeString16 False sbuf (\<lambda>impl i. call_ptr (writeString16 impl) (\<lambda>f. f ok (Some i) v sz))"

definition HdfSBufReadString16 ::
    "'i HdfSBuf option \<Rightarrow> (size_t option \<times> 'i HdfSBuf option) option" where
  "HdfSBufReadString16 sbuf =
     HDF_SBUF_IMPL_CHECK_RETURN readString16 None sbuf (\<lambda>impl i. call_ptr (readString16 impl) (\<lambda>f. f (Some i)))"

text \<open>The error value of the next function and of the reading of a file descriptor is \<^verbatim>\<open>false\<close>, zero.\<close>

definition HdfSBufWriteRemoteService ::
    "'i HdfSBuf option \<Rightarrow> nat option \<Rightarrow> (32 word \<times> 'i HdfSBuf option) option" where
  "HdfSBufWriteRemoteService sbuf service =
     HDF_SBUF_IMPL_CHECK_RETURN writeRemoteService 0 sbuf (\<lambda>impl i. call_ptr (writeRemoteService impl) (\<lambda>f. f (Some i) service))"

definition HdfSBufReadRemoteService ::
    "'i HdfSBuf option \<Rightarrow> (nat option \<times> 'i HdfSBuf option) option" where
  "HdfSBufReadRemoteService sbuf =
     HDF_SBUF_IMPL_CHECK_RETURN readRemoteService None sbuf (\<lambda>impl i. call_ptr (readRemoteService impl) (\<lambda>f. f (Some i)))"

definition HdfSbufWriteFloat ::
    "bool \<Rightarrow> 'i HdfSBuf option \<Rightarrow> 32 word \<Rightarrow> (bool \<times> 'i HdfSBuf option) option" where
  "HdfSbufWriteFloat ok sbuf v =
     HDF_SBUF_IMPL_CHECK_RETURN writeFloat False sbuf (\<lambda>impl i. call_ptr (writeFloat impl) (\<lambda>f. f ok (Some i) v))"

definition HdfSbufWriteDouble ::
    "bool \<Rightarrow> 'i HdfSBuf option \<Rightarrow> 64 word \<Rightarrow> (bool \<times> 'i HdfSBuf option) option" where
  "HdfSbufWriteDouble ok sbuf v =
     HDF_SBUF_IMPL_CHECK_RETURN writeDouble False sbuf (\<lambda>impl i. call_ptr (writeDouble impl) (\<lambda>f. f ok (Some i) v))"

definition HdfSbufWriteFileDescriptor ::
    "bool \<Rightarrow> 'i HdfSBuf option \<Rightarrow> 32 word \<Rightarrow> (bool \<times> 'i HdfSBuf option) option" where
  "HdfSbufWriteFileDescriptor ok sbuf v =
     HDF_SBUF_IMPL_CHECK_RETURN writeFileDescriptor False sbuf (\<lambda>impl i. call_ptr (writeFileDescriptor impl) (\<lambda>f. f ok (Some i) v))"

definition HdfSbufReadFileDescriptor ::
    "'i HdfSBuf option \<Rightarrow> (32 word \<times> 'i HdfSBuf option) option" where
  "HdfSbufReadFileDescriptor sbuf =
     HDF_SBUF_IMPL_CHECK_RETURN readFileDescriptor 0 sbuf (\<lambda>impl i. call_ptr (readFileDescriptor impl) (\<lambda>f. f (Some i)))"

definition HdfSbufReadDouble ::
    "'i HdfSBuf option \<Rightarrow> bool \<Rightarrow> (64 word option \<times> 'i HdfSBuf option) option" where
  "HdfSbufReadDouble sbuf dst =
     HDF_SBUF_IMPL_CHECK_RETURN readDouble None sbuf (\<lambda>impl i. call_ptr (readDouble impl) (\<lambda>f. f (Some i) dst))"

definition HdfSbufReadFloat ::
    "'i HdfSBuf option \<Rightarrow> bool \<Rightarrow> (32 word option \<times> 'i HdfSBuf option) option" where
  "HdfSbufReadFloat sbuf dst =
     HDF_SBUF_IMPL_CHECK_RETURN readFloat None sbuf (\<lambda>impl i. call_ptr (readFloat impl) (\<lambda>f. f (Some i) dst))"

definition HdfSbufTransDataOwnership ::
    "'i HdfSBuf option \<Rightarrow> (unit \<times> 'i HdfSBuf option) option" where
  "HdfSbufTransDataOwnership sbuf =
     HDF_SBUF_IMPL_CHECK_RETURN transDataOwnership () sbuf (\<lambda>impl i. call_ptr (transDataOwnership impl) (\<lambda>f. Some ((), f (Some i))))"

section \<open>Making and freeing buffers\<close>

text \<open>\<open>ok\<close>: the allocation of the front object; \<open>oks\<close>: those of the implementation.\<close>

abbreviation (input) SBUF_RAW :: uint32_t where "SBUF_RAW \<equiv> 0"
abbreviation (input) SBUF_TYPE_MAX :: uint32_t where "SBUF_TYPE_MAX \<equiv> 3"

record HdfSbufConstructor =
  sc_obtain :: "(bool \<Rightarrow> bool \<Rightarrow> size_t \<Rightarrow> (HdfSBufRaw HdfSbufImpl \<times> HdfSBufRaw) option) option"
  sc_bind :: "(bool \<Rightarrow> 64 word \<Rightarrow> bytes \<Rightarrow> size_t \<Rightarrow> (HdfSBufRaw HdfSbufImpl \<times> HdfSBufRaw) option) option"

definition HdfSbufConstructorGet :: "uint32_t \<Rightarrow> HdfSbufConstructor option" where
  "HdfSbufConstructorGet type =
     (if type \<ge> SBUF_TYPE_MAX then None
      else if type = SBUF_RAW then
        Some \<lparr>sc_obtain = Some (\<lambda>ok1 ok2 capacity. map_option (Pair (SbufInterfaceAssign True)) (SbufObtainRaw ok1 ok2 capacity)),
              sc_bind = Some (\<lambda>ok base block sz. map_option (Pair (SbufInterfaceAssign False)) (SbufBindRaw ok base block sz))\<rparr>
      else Some \<lparr>sc_obtain = None, sc_bind = None\<rparr>)"

definition HdfSBufTypedObtainCapacity :: "bool \<Rightarrow> bool \<Rightarrow> bool \<Rightarrow> uint32_t \<Rightarrow> size_t \<Rightarrow> HdfSBufRaw HdfSBuf option" where
  "HdfSBufTypedObtainCapacity ok ok1 ok2 type capacity = do {
     constructor \<leftarrow> HdfSbufConstructorGet type;
     obtainf \<leftarrow> sc_obtain constructor;
     (if \<not> ok then None
      else case obtainf ok1 ok2 capacity of
        None \<Rightarrow> None
      | Some impl \<Rightarrow> Some \<lparr>sf_impl = Some impl, sf_type = Some type\<rparr>)
   }"

definition HdfSBufTypedObtainInplace ::
    "bool \<Rightarrow> uint32_t \<Rightarrow> ('i HdfSbufImpl \<times> 'i) option \<Rightarrow> 'i HdfSBuf option" where
  "HdfSBufTypedObtainInplace ok type impl =
     (if type \<ge> SBUF_TYPE_MAX \<or> impl = None then None
      else if \<not> ok then None
      else Some \<lparr>sf_impl = impl, sf_type = Some type\<rparr>)"

definition HdfSBufTypedObtain :: "bool \<Rightarrow> bool \<Rightarrow> bool \<Rightarrow> uint32_t \<Rightarrow> HdfSBufRaw HdfSBuf option" where
  "HdfSBufTypedObtain ok ok1 ok2 type = HdfSBufTypedObtainCapacity ok ok1 ok2 type HDF_SBUF_DEFAULT_SIZE"

definition HdfSBufTypedBind :: "bool \<Rightarrow> bool \<Rightarrow> uint32_t \<Rightarrow> 64 word \<Rightarrow> bytes \<Rightarrow> size_t \<Rightarrow> HdfSBufRaw HdfSBuf option" where
  "HdfSBufTypedBind ok ok1 type base block sz = do {
     constructor \<leftarrow> HdfSbufConstructorGet type;
     bindf \<leftarrow> sc_bind constructor;
     (if \<not> ok then None
      else case bindf ok1 base block sz of
        None \<Rightarrow> None
      | Some impl \<Rightarrow> Some \<lparr>sf_impl = Some impl, sf_type = Some type\<rparr>)
   }"

definition HdfSBufObtain :: "bool \<Rightarrow> bool \<Rightarrow> bool \<Rightarrow> size_t \<Rightarrow> HdfSBufRaw HdfSBuf option" where
  "HdfSBufObtain ok ok1 ok2 capacity = HdfSBufTypedObtainCapacity ok ok1 ok2 SBUF_RAW capacity"

definition HdfSBufObtainDefaultSize :: "bool \<Rightarrow> bool \<Rightarrow> bool \<Rightarrow> HdfSBufRaw HdfSBuf option" where
  "HdfSBufObtainDefaultSize ok ok1 ok2 = HdfSBufObtain ok ok1 ok2 HDF_SBUF_DEFAULT_SIZE"

definition HdfSBufBind :: "bool \<Rightarrow> bool \<Rightarrow> 64 word \<Rightarrow> bytes \<Rightarrow> size_t \<Rightarrow> HdfSBufRaw HdfSBuf option" where
  "HdfSBufBind ok ok1 base block sz = HdfSBufTypedBind ok ok1 SBUF_RAW base block sz"

text \<open>The copy made by an implementation has its own zeroed and filled table.\<close>

definition HdfSBufCopy ::
    "bool \<Rightarrow> bool \<Rightarrow> bool \<Rightarrow> 'i HdfSbufImpl \<Rightarrow> 'i HdfSBuf option \<Rightarrow> ('i HdfSBuf option \<times> 'i HdfSBuf option) option" where
  "HdfSBufCopy ok ok1 ok2 newImpl sbuf =
     HDF_SBUF_IMPL_CHECK_RETURN copy None sbuf (\<lambda>impl i. call_ptr (copy impl) (\<lambda>f.
       if \<not> ok then Some (None, None)
       else case f ok1 ok2 (Some i) of
         None \<Rightarrow> None
       | Some None \<Rightarrow> Some (None, None)
       | Some (Some j) \<Rightarrow> Some (Some \<lparr>sf_impl = Some (newImpl, j), sf_type = Option.bind sbuf sf_type\<rparr>, None)))"

definition HdfSBufMove ::
    "bool \<Rightarrow> bool \<Rightarrow> 'i HdfSbufImpl \<Rightarrow> 'i HdfSBuf option \<Rightarrow> ('i HdfSBuf option \<times> 'i HdfSBuf option) option" where
  "HdfSBufMove ok ok1 newImpl sbuf =
     HDF_SBUF_IMPL_CHECK_RETURN move None sbuf (\<lambda>impl i. call_ptr (move impl) (\<lambda>f.
       if \<not> ok then Some (None, None)
       else case f ok1 (Some i) of
         (None, i') \<Rightarrow> Some (None, i')
       | (Some j, i') \<Rightarrow> Some (Some \<lparr>sf_impl = Some (newImpl, j), sf_type = None\<rparr>, i')))"

text \<open>The result is the data block that is freed, if any.\<close>

definition HdfSBufRecycle :: "'i HdfSBuf option \<Rightarrow> bytes option option" where
  "HdfSBufRecycle sbuf =
     (case sbuf of None \<Rightarrow> Some None
      | Some b \<Rightarrow>
          (case sf_impl b of None \<Rightarrow> Some None
           | Some (impl, i) \<Rightarrow>
               if recycle impl = FNull then Some None
               else call_ptr (recycle impl) (\<lambda>f. Some (f (Some i)))))"

definition HdfSbufGetImpl :: "'i HdfSBuf option \<Rightarrow> ('i HdfSbufImpl \<times> 'i) option" where
  "HdfSbufGetImpl sbuf = Option.bind sbuf sf_impl"

section \<open>The front end over the raw implementation\<close>

lemma raw_slots [simp]:
  "writeBuffer (SbufInterfaceAssign z) = FPtr SbufRawImplWriteBuffer"
  "writeUint64 (SbufInterfaceAssign z) = FPtr SbufRawImplWriteUint64"
  "writeUint32 (SbufInterfaceAssign z) = FPtr SbufRawImplWriteUint32"
  "writeUint16 (SbufInterfaceAssign z) = FPtr SbufRawImplWriteUint16"
  "writeUint8 (SbufInterfaceAssign z) = FPtr SbufRawImplWriteUint8"
  "writeInt64 (SbufInterfaceAssign z) = FPtr SbufRawImplWriteInt64"
  "writeInt32 (SbufInterfaceAssign z) = FPtr SbufRawImplWriteInt32"
  "writeInt16 (SbufInterfaceAssign z) = FPtr SbufRawImplWriteInt16"
  "writeInt8 (SbufInterfaceAssign z) = FPtr SbufRawImplWriteInt8"
  "writeString (SbufInterfaceAssign z) = FPtr SbufRawImplWriteString"
  "readBuffer (SbufInterfaceAssign z) = FPtr SbufRawImplReadBuffer"
  "readUint64 (SbufInterfaceAssign z) = FPtr SbufRawImplReadUint64"
  "readUint32 (SbufInterfaceAssign z) = FPtr SbufRawImplReadUint32"
  "readUint16 (SbufInterfaceAssign z) = FPtr SbufRawImplReadUint16"
  "readUint8 (SbufInterfaceAssign z) = FPtr SbufRawImplReadUint8"
  "readInt64 (SbufInterfaceAssign z) = FPtr SbufRawImplReadInt64"
  "readInt32 (SbufInterfaceAssign z) = FPtr SbufRawImplReadInt32"
  "readInt16 (SbufInterfaceAssign z) = FPtr SbufRawImplReadInt16"
  "readInt8 (SbufInterfaceAssign z) = FPtr SbufRawImplReadInt8"
  "readString (SbufInterfaceAssign z) = FPtr SbufRawImplReadString"
  "getData (SbufInterfaceAssign z) = FPtr SbufRawImplGetData"
  "flush (SbufInterfaceAssign z) = FPtr SbufRawImplFlush"
  "getCapacity (SbufInterfaceAssign z) = FPtr SbufRawImplGetCapacity"
  "getDataSize (SbufInterfaceAssign z) = FPtr SbufRawImplGetDataSize"
  "setDataSize (SbufInterfaceAssign z) = FPtr SbufRawImplSetDataSize"
  "recycle (SbufInterfaceAssign z) = FPtr SbufRawImplRecycle"
  "move (SbufInterfaceAssign z) = FPtr SbufRawImplMove"
  "copy (SbufInterfaceAssign z) = FPtr SbufRawImplCopy"
  "transDataOwnership (SbufInterfaceAssign z) = FPtr SbufRawImplTransDataOwnership"
  by (simp_all add: SbufInterfaceAssign_def)

lemmas check_defs = HDF_SBUF_IMPL_CHECK_RETURN_def call_ptr_def

lemmas hdf_write_defs = HdfSbufWriteUint64_def HdfSbufWriteUint32_def HdfSbufWriteUint16_def HdfSbufWriteUint8_def
  HdfSbufWriteInt64_def HdfSbufWriteInt32_def HdfSbufWriteInt16_def HdfSbufWriteInt8_def
  HdfSbufWriteBuffer_def HdfSbufWriteString_def

lemmas hdf_read_defs = HdfSbufReadUint64_def HdfSbufReadUint32_def HdfSbufReadUint16_def HdfSbufReadUint8_def
  HdfSbufReadInt64_def HdfSbufReadInt32_def HdfSbufReadInt16_def HdfSbufReadInt8_def
  HdfSbufReadBuffer_def HdfSbufReadString_def

definition hdf_put :: "sbuf_value \<Rightarrow> HdfSBufRaw HdfSBuf \<Rightarrow> (bool \<times> HdfSBufRaw HdfSBuf option) option" where
  "hdf_put v b = (case v of
     U64 w \<Rightarrow> HdfSbufWriteUint64 True (Some b) w | U32 w \<Rightarrow> HdfSbufWriteUint32 True (Some b) w
   | U16 w \<Rightarrow> HdfSbufWriteUint16 True (Some b) w | U8 w \<Rightarrow> HdfSbufWriteUint8 True (Some b) w
   | I64 w \<Rightarrow> HdfSbufWriteInt64 True (Some b) w | I32 w \<Rightarrow> HdfSbufWriteInt32 True (Some b) w
   | I16 w \<Rightarrow> HdfSbufWriteInt16 True (Some b) w | I8 w \<Rightarrow> HdfSbufWriteInt8 True (Some b) w
   | Buf x \<Rightarrow> HdfSbufWriteBuffer True True (Some b) (Some x) (of_nat (length x))
   | Str x \<Rightarrow> HdfSbufWriteString True True (Some b) (Some x))"

definition raw_of :: "HdfSBufRaw HdfSBuf option \<Rightarrow> HdfSBufRaw option" where
  "raw_of b = map_option snd (Option.bind b sf_impl)"

definition hdf_get :: "sbuf_value \<Rightarrow> HdfSBufRaw HdfSBuf \<Rightarrow> (sbuf_value option \<times> HdfSBufRaw HdfSBuf option) option" where
  "hdf_get k b = (case k of
     U64 _ \<Rightarrow> map_option (map_prod (map_option U64) id) (HdfSbufReadUint64 (Some b) True)
   | U32 _ \<Rightarrow> map_option (map_prod (map_option U32) id) (HdfSbufReadUint32 (Some b) True)
   | U16 _ \<Rightarrow> map_option (map_prod (map_option U16) id) (HdfSbufReadUint16 (Some b) True)
   | U8 _ \<Rightarrow> map_option (map_prod (map_option U8) id) (HdfSbufReadUint8 (Some b) True)
   | I64 _ \<Rightarrow> map_option (map_prod (map_option I64) id) (HdfSbufReadInt64 (Some b) True)
   | I32 _ \<Rightarrow> map_option (map_prod (map_option I32) id) (HdfSbufReadInt32 (Some b) True)
   | I16 _ \<Rightarrow> map_option (map_prod (map_option I16) id) (HdfSbufReadInt16 (Some b) True)
   | I8 _ \<Rightarrow> map_option (map_prod (map_option I8) id) (HdfSbufReadInt8 (Some b) True)
   | Buf _ \<Rightarrow> map_option (\<lambda>r. (sbuf_deref_buffer (map_prod id raw_of r), snd r)) (HdfSbufReadBuffer (Some b) True)
   | Str _ \<Rightarrow> map_option (\<lambda>r. (sbuf_deref_string (map_prod id raw_of r), snd r)) (HdfSbufReadString (Some b)))"

text \<open>A buffer of the front end over a raw one.\<close>

definition over_raw :: "HdfSBufRaw HdfSBuf \<Rightarrow> HdfSBufRaw \<Rightarrow> bool" where
  "over_raw b sb \<longleftrightarrow> (\<exists>z. sf_impl b = Some (SbufInterfaceAssign z, sb))"

lemma over_rawI: "sf_impl b = Some (SbufInterfaceAssign z, sb) \<Longrightarrow> over_raw b sb"
  by (auto simp: over_raw_def)

lemma over_raw_put [simp]: "over_raw b sb \<Longrightarrow> over_raw (put_impl (Some sb') b) sb'"
  by (auto simp: over_raw_def put_impl_def)

lemma over_raw_unique: "over_raw b sb \<Longrightarrow> over_raw b sb' \<Longrightarrow> sb = sb'"
  by (auto simp: over_raw_def)

lemma raw_of_put [simp]: "over_raw b sb \<Longrightarrow> raw_of (Some (put_impl (Some sb') b)) = Some sb'"
  by (auto simp: over_raw_def put_impl_def raw_of_def)

lemma hdf_put_raw:
  assumes "over_raw b sb"
  shows "hdf_put v b = map_option (map_prod id (\<lambda>i'. Some (put_impl i' b))) (sbuf_put v sb)"
  using assms
  by (cases v) (auto simp: over_raw_def hdf_put_def sbuf_put_def hdf_write_defs check_defs)

lemma hdf_get_raw:
  assumes b: "over_raw b sb" and g: "sbuf_get v sb = Some (r, Some sb')"
  shows "hdf_get v b = Some (r, Some (put_impl (Some sb') b))"
proof (cases v)
  case (Buf x)
  then obtain q where q: "SbufRawImplReadBuffer (Some sb) True = Some (q, Some sb')"
    "r = sbuf_deref_buffer (q, Some sb')"
    using g by (auto simp: sbuf_get_def)
  have "HdfSbufReadBuffer (Some b) True = Some (q, Some (put_impl (Some sb') b))"
    using b q by (auto simp: over_raw_def hdf_read_defs check_defs)
  then show ?thesis using Buf q b by (simp add: hdf_get_def)
next
  case (Str x)
  then obtain q where q: "SbufRawImplReadString (Some sb) = Some (q, Some sb')"
    "r = sbuf_deref_string (q, Some sb')"
    using g by (auto simp: sbuf_get_def)
  have "HdfSbufReadString (Some b) = Some (q, Some (put_impl (Some sb') b))"
    using b q by (auto simp: over_raw_def hdf_read_defs check_defs)
  then show ?thesis using Str q b by (simp add: hdf_get_def)
qed (use b g in \<open>auto simp: over_raw_def hdf_get_def sbuf_get_def hdf_read_defs check_defs\<close>)

definition hdf_holds :: "HdfSBufRaw HdfSBuf \<Rightarrow> sbuf_value list \<Rightarrow> bool" where
  "hdf_holds b vs \<longleftrightarrow> (\<exists>sb. over_raw b sb \<and> sbuf_holds sb vs)"

definition hdf_room :: "HdfSBufRaw HdfSBuf \<Rightarrow> nat \<Rightarrow> bool" where
  "hdf_room b k \<longleftrightarrow> (\<exists>sb. over_raw b sb \<and> sb_room sb k)"

interpretation hdf_queue: message_queue hdf_put hdf_get value_cost sbuf_value_ok hdf_room hdf_holds
proof
  fix b vs v k
  assume h: "hdf_holds b vs" and v: "sbuf_value_ok v" and r: "hdf_room b (value_cost v + k)"
  then obtain sb where sb: "over_raw b sb" "sbuf_holds sb vs" "sb_room sb (value_cost v + k)"
    using over_raw_unique by (fastforce simp: hdf_holds_def hdf_room_def)
  from sbuf_queue.put_law [OF sb(2) v sb(3)] obtain sb'
    where "sbuf_put v sb = Some (True, Some sb')" "sbuf_holds sb' (vs @ [v])" "sb_room sb' k" by blast
  then show "\<exists>b'. hdf_put v b = Some (True, Some b') \<and> hdf_holds b' (vs @ [v]) \<and> hdf_room b' k"
    using over_raw_put [OF sb(1), of sb'] by (auto simp: hdf_put_raw [OF sb(1)] hdf_holds_def hdf_room_def)
next
  fix b v vs
  assume "hdf_holds b (v # vs)"
  then obtain sb where sb: "over_raw b sb" "sbuf_holds sb (v # vs)" by (auto simp: hdf_holds_def)
  from sbuf_queue.get_law [OF sb(2)] obtain sb' where "sbuf_get v sb = Some (Some v, Some sb')" "sbuf_holds sb' vs"
    by blast
  then show "\<exists>b'. hdf_get v b = Some (Some v, Some b') \<and> hdf_holds b' vs"
    using hdf_get_raw [OF sb(1)] over_raw_put [OF sb(1), of sb'] by (auto simp: hdf_holds_def)
qed

text \<open>Writing never moves the read position.\<close>

lemma grow_readPos: "SbufRawImplGrow ok sb n = Some (r, sb') \<Longrightarrow> sb_readPos sb' = sb_readPos sb"
  by (auto simp: SbufRawImplGrow_def Let_def bind_eq_Some_conv split: if_splits option.splits)

lemma copy_readPos: "SbufRawImplWrite_copy sb buf sz al = Some (r, Some sb') \<Longrightarrow> sb_readPos sb' = sb_readPos sb"
  by (auto simp: SbufRawImplWrite_copy_def bind_eq_Some_conv split: if_splits option.splits)

lemma write_readPos:
  assumes "SbufRawImplWrite ok (Some sb) data sz = Some (r, Some sb')"
  shows "sb_readPos sb' = sb_readPos sb"
  using assms
  by (auto simp: SbufRawImplWrite_def Let_def bind_eq_Some_conv split: if_splits option.splits
    dest!: grow_readPos copy_readPos)

lemma write_some: "SbufRawImplWrite ok (Some sb) data sz = Some (r, i) \<Longrightarrow> i \<noteq> None"
  by (auto simp: SbufRawImplWrite_def SbufRawImplWrite_copy_def Let_def bind_eq_Some_conv
    split: if_splits option.splits)

lemma buffer_readPos:
  assumes "SbufRawImplWriteBuffer ok1 ok2 (Some sb) data n = Some (r, Some sb')"
  shows "sb_readPos sb' = sb_readPos sb"
proof (cases data)
  case None
  then show ?thesis using assms write_readPos
    by (auto simp: SbufRawImplWriteBuffer_def SbufRawImplWriteInt32_def)
next
  case (Some d)
  obtain r1 i1 where w1: "SbufRawImplWriteInt32 ok1 (Some sb) n = Some (r1, i1)"
    using assms Some by (auto simp: SbufRawImplWriteBuffer_def bind_eq_Some_conv)
  note w1' = w1 [unfolded SbufRawImplWriteInt32_def]
  obtain sb1 where i1: "i1 = Some sb1" using write_some [OF w1'] by blast
  have rp1: "sb_readPos sb1 = sb_readPos sb" using w1' unfolding i1 by (rule write_readPos)
  show ?thesis
  proof (cases r1)
    case False
    then show ?thesis using assms Some w1 i1 rp1 by (simp add: SbufRawImplWriteBuffer_def)
  next
    case True
    obtain r2 i2 where w2: "SbufRawImplWrite ok2 (Some sb1) data n = Some (r2, i2)"
      using assms Some w1 i1 True by (auto simp: SbufRawImplWriteBuffer_def bind_eq_Some_conv)
    obtain sb2 where i2: "i2 = Some sb2" using write_some [OF w2] by blast
    have rp2: "sb_readPos sb2 = sb_readPos sb1" using w2 unfolding i2 by (rule write_readPos)
    have r: "SbufRawImplWriteBuffer ok1 ok2 (Some sb) data n =
        (if \<not> r2 then Some (False, snd (SbufRawImplWriteRollback (Some sb2) 4)) else Some (True, Some sb2))"
      using Some w1 i1 True w2 i2 by (simp add: SbufRawImplWriteBuffer_def)
    show ?thesis
      using assms rp1 rp2 unfolding r
      by (auto simp: SbufRawImplWriteRollback_def Let_def split: if_splits)
  qed
qed

lemma put_readPos: "sbuf_put v sb = Some (r, Some sb') \<Longrightarrow> sb_readPos sb' = sb_readPos sb"
  by (cases v) (auto simp: sbuf_put_def SbufRawImplWriteUint64_def SbufRawImplWriteUint32_def
    SbufRawImplWriteUint16_def SbufRawImplWriteUint8_def SbufRawImplWriteInt64_def SbufRawImplWriteInt32_def
    SbufRawImplWriteInt16_def SbufRawImplWriteInt8_def SbufRawImplWriteString_def write_readPos
    dest: write_readPos buffer_readPos)

lemma hdf_put_readPos:
  assumes "over_raw b sb" "hdf_put v b = Some (r, Some b')" "over_raw b' sb'"
  shows "sb_readPos sb' = sb_readPos sb"
proof -
  obtain i where i: "sbuf_put v sb = Some (r, i)" "b' = put_impl i b"
    using assms(1,2) by (auto simp: hdf_put_raw)
  show ?thesis
  proof (cases i)
    case None
    then have "b' = b" using i by (simp add: put_impl_def)
    then show ?thesis using assms(1,3) over_raw_unique by metis
  next
    case (Some sb1)
    then have "over_raw b' sb1" using i assms(1) by simp
    then have "sb1 = sb'" using assms(3) over_raw_unique by blast
    then show ?thesis using i Some put_readPos by blast
  qed
qed

lemma hdf_put_over: "over_raw b sb \<Longrightarrow> hdf_put v b = Some (r, Some b') \<Longrightarrow> \<exists>sb'. over_raw b' sb'"
proof -
  assume b: "over_raw b sb" and put: "hdf_put v b = Some (r, Some b')"
  obtain i where i: "b' = put_impl i b" using b put by (auto simp: hdf_put_raw)
  show ?thesis
  proof (cases i)
    case None
    then show ?thesis using i b by (auto simp: put_impl_def)
  next
    case (Some sb')
    then show ?thesis using i over_raw_put [OF b, of sb'] by blast
  qed
qed

lemma put_all_readPos:
  "over_raw b sb \<Longrightarrow> put_all hdf_put vs b = Some (True, Some b') \<Longrightarrow> over_raw b' sb' \<Longrightarrow> sb_readPos sb' = sb_readPos sb"
proof (induction vs arbitrary: b sb)
  case Nil
  then show ?case using over_raw_unique by auto
next
  case (Cons v vs)
  then obtain b1 where b1: "hdf_put v b = Some (True, Some b1)" "put_all hdf_put vs b1 = Some (True, Some b')"
    by (auto simp: bind_eq_Some_conv split: prod.splits bool.splits option.splits)
  obtain sb1 where sb1: "over_raw b1 sb1" using hdf_put_over [OF Cons.prems(1) b1(1)] by blast
  show ?case
    using Cons.IH [OF sb1 b1(2) Cons.prems(3)] hdf_put_readPos [OF Cons.prems(1) b1(1) sb1] by simp
qed

lemma encodes_nonempty: "encodes v e \<Longrightarrow> e \<noteq> []"
  by (cases v) (auto simp: encodes_def list_all2_Cons1 padded_def dest: arg_cong [where f = length])

text \<open>
  C2: A message sent through the serialization buffer.  Values of any kinds are written into a
  buffer from \<^verbatim>\<open>HdfSBufObtain\<close>; the bytes of \<^verbatim>\<open>HdfSbufGetData\<close>, as many as
  \<^verbatim>\<open>HdfSbufGetDataSize\<close> says, arrive at an aligned address elsewhere, and the receiver binds a
  second buffer to them.  Reading there gives exactly the values written, in the same order.  This
  is for messages of at least one value, strings shorter than 32767 bytes and without zero bytes
  among them, when memory can be allocated and the initial capacity plus a reserve for every value
  is at most the 512 KiB that a buffer may have: the reserve is, for each piece written (a number,
  a length, the bytes behind a length), its padded length and 259 bytes, the most the buffer grows
  by beyond what it needs.  A message closer to the limit can be refused by the code.
\<close>

theorem sbuf_transfer:
  assumes obt: "HdfSBufObtain True True True capacity = Some b"
    and ok: "list_all sbuf_value_ok vs" and ne: "vs \<noteq> []"
    and room: "unat capacity + sum_list (map value_cost vs) \<le> 524288"
    and base: "base \<noteq> 0" "base AND 3 = 0"
  shows "\<exists>b1 data n b2 b3. put_all hdf_put vs b = Some (True, Some b1)
    \<and> HdfSbufGetData (Some b1) = Some (Some data, Some b1) \<and> HdfSbufGetDataSize (Some b1) = Some (n, Some b1)
    \<and> HdfSBufBind True True base (take (unat n) data) n = Some b2
    \<and> get_all hdf_get vs b2 = Some (vs, b3)"
proof -
  obtain sb where sb: "SbufObtainRaw True True capacity = Some sb" "over_raw b sb"
    using obt over_rawI [of b True]
    by (auto simp: HdfSBufObtain_def HdfSBufTypedObtainCapacity_def HdfSbufConstructorGet_def
      bind_eq_Some_conv split: option.splits)
  note new = new_instance_holds_nothing [OF sb(1)]
  have "hdf_holds b []" using sb(2) new by (auto simp: hdf_holds_def)
  moreover have "hdf_room b (sum_list (map value_cost vs))"
    using sb(2) new room by (auto simp: hdf_room_def sb_room_def)
  ultimately obtain b1 where b1: "put_all hdf_put vs b = Some (True, Some b1)" "hdf_holds b1 vs"
    using hdf_queue.put_all_holds [of b "[]" vs 0] ok by auto
  obtain sb1 where sb1: "over_raw b1 sb1" "sbuf_holds sb1 vs" using b1(2) by (auto simp: hdf_holds_def)
  have "sb_readPos sb = 0"
    using sb(1) by (auto simp: SbufObtainRaw_def SbufRawImplNewInstance_def split: if_splits option.splits)
  then have rp: "sb_readPos sb1 = 0" using put_all_readPos [OF sb(2) b1(1) sb1(1)] by simp
  obtain es where es: "list_all2 encodes vs es" "sb_ready sb1 (concat es)" using sb1(2) by (auto simp: sbuf_holds_def)
  obtain d where d: "sb_data sb1 = Some d" using es(2) by (auto simp: sb_ready_def)
  let ?n = "sb_writePos sb1"
  have "unat ?n \<le> length d" using es(2) d by (auto simp: sb_ready_def sbuf_ok_def word_le_nat_alt)
  then have len: "length (take (unat ?n) d) = unat ?n" by (simp only: length_take min_absorb2)
  have pend: "take (unat ?n) d = concat es"
    using es(2) d rp by (simp add: sb_ready_def sb_pending_def sb_view_def)
  have "concat es \<noteq> []" using es(1) ne encodes_nonempty by (cases vs) (auto simp: list_all2_Cons1)
  then have n0: "?n \<noteq> 0" using pend by force
  define sb2 where "sb2 = \<lparr>sb_writePos = ?n, sb_readPos = 0, sb_capacity = ?n,
      sb_data = Some (take (unat ?n) d), sb_isBind = True\<rparr>"
  have bindr: "SbufBindRaw True base (take (unat ?n) d) ?n = Some sb2"
    using base n0 by (simp add: SbufBindRaw_def sb2_def)
  define b2 where "b2 = \<lparr>sf_impl = Some (SbufInterfaceAssign False, sb2), sf_type = Some SBUF_RAW\<rparr>"
  have bindh: "HdfSBufBind True True base (take (unat ?n) d) ?n = Some b2"
    by (simp add: HdfSBufBind_def HdfSBufTypedBind_def HdfSbufConstructorGet_def bindr b2_def)
  have "sbuf_holds sb2 vs"
    using es len pend sb1(2) by (auto simp: sbuf_holds_def sb_ready_def sbuf_ok_def sb_pending_def sb_view_def sb2_def)
  then have "hdf_holds b2 vs" by (auto simp: hdf_holds_def over_raw_def b2_def)
  then obtain b3 where "get_all hdf_get vs b2 = Some (vs, b3)"
    using hdf_queue.get_all_holds [of b2 vs "[]"] by auto
  moreover have "HdfSbufGetData (Some b1) = Some (Some d, Some b1)" "HdfSbufGetDataSize (Some b1) = Some (?n, Some b1)"
    using sb1(1) d by (auto simp: over_raw_def HdfSbufGetData_def HdfSbufGetDataSize_def check_defs
      SbufRawImplGetData_def SbufRawImplGetDataSize_def put_impl_def)
  ultimately show ?thesis using b1(1) bindh by blast
qed

theorem sbuf_transfer_witness:
  "\<exists>b b1 data n b2 b3. HdfSBufObtain True True True 4 = Some b
    \<and> put_all hdf_put [Str [104, 105], U16 513, Buf [1, 2, 3]] b = Some (True, Some b1)
    \<and> HdfSbufGetData (Some b1) = Some (Some data, Some b1) \<and> HdfSbufGetDataSize (Some b1) = Some (n, Some b1)
    \<and> HdfSBufBind True True 4096 (take (unat n) data) n = Some b2
    \<and> get_all hdf_get [Str [104, 105], U16 513, Buf [1, 2, 3]] b2 = Some ([Str [104, 105], U16 513, Buf [1, 2, 3]], b3)"
proof -
  obtain b where b: "HdfSBufObtain True True True 4 = Some b"
    by (simp add: HdfSBufObtain_def HdfSBufTypedObtainCapacity_def HdfSbufConstructorGet_def SbufObtainRaw_def
      SbufRawImplNewInstance_def OsalMemCalloc_def HDF_SBUF_MAX_SIZE_def)
  show ?thesis
    using sbuf_transfer [OF b, of "[Str [104, 105], U16 513, Buf [1, 2, 3]]" 4096] b
    by (fastforce simp: value_cost_def pad4_def)
qed

lemma obtain_form: "HdfSBufObtain True ok1 ok2 capacity = Some b \<Longrightarrow> \<exists>sb. sf_impl b = Some (SbufInterfaceAssign True, sb)"
  by (auto simp: HdfSBufObtain_def HdfSBufTypedObtainCapacity_def HdfSbufConstructorGet_def bind_eq_Some_conv
    split: option.splits)

lemma bind_form: "HdfSBufBind True ok1 base block sz = Some b \<Longrightarrow> \<exists>sb. sf_impl b = Some (SbufInterfaceAssign False, sb)"
  by (auto simp: HdfSBufBind_def HdfSBufTypedBind_def HdfSbufConstructorGet_def bind_eq_Some_conv
    split: option.splits)

lemma missing_slots:
  "writeUnpadBuffer (SbufInterfaceAssign z) = (if z then FNull else FWild)"
  "readUnpadBuffer (SbufInterfaceAssign z) = (if z then FNull else FWild)"
  "writeRemoteService (SbufInterfaceAssign z) = (if z then FNull else FWild)"
  "readFileDescriptor (SbufInterfaceAssign z) = (if z then FNull else FWild)"
  by (simp_all add: SbufInterfaceAssign_def)

lemmas missing_defs = HDF_SBUF_IMPL_CHECK_RETURN_def call_ptr_def HdfSbufWriteUnpadBuffer_def
  HdfSbufReadUnpadBuffer_def HdfSBufWriteRemoteService_def HdfSbufReadFileDescriptor_def missing_slots

lemma missing_zeroed:
  assumes "\<exists>sb. sf_impl b = Some (SbufInterfaceAssign True, sb)"
  shows "HdfSbufWriteUnpadBuffer ok (Some b) (Some d) n = Some (False, Some b)
      \<and> HdfSbufReadUnpadBuffer (Some b) len = Some (None, Some b)
      \<and> HdfSBufWriteRemoteService (Some b) service = Some (0, Some b)
      \<and> HdfSbufReadFileDescriptor (Some b) = Some (0, Some b)"
  using assms by (auto simp: missing_defs)

lemma missing_wild:
  assumes "\<exists>sb. sf_impl b = Some (SbufInterfaceAssign False, sb)"
  shows "HdfSbufWriteUnpadBuffer ok (Some b) (Some d) n = None
      \<and> HdfSbufReadUnpadBuffer (Some b) len = None
      \<and> HdfSBufWriteRemoteService (Some b) service = None
      \<and> HdfSbufReadFileDescriptor (Some b) = None"
  using assms by (auto simp: missing_defs)

text \<open>
  Methods the raw implementation does not have.  On a buffer from \<^verbatim>\<open>HdfSBufObtain\<close> they fail
  and change nothing, but the failure of the two functions that return numbers is zero, which
  their documentation gives to success.  On a buffer from \<^verbatim>\<open>HdfSBufBind\<close> the table was allocated
  without being zeroed, so the null test itself reads memory that was never written.
\<close>

theorem sbuf_missing_methods:
  "(HdfSBufObtain True ok1 ok2 capacity = Some b \<longrightarrow>
      HdfSbufWriteUnpadBuffer ok (Some b) (Some d) n = Some (False, Some b)
      \<and> HdfSbufReadUnpadBuffer (Some b) len = Some (None, Some b)
      \<and> HdfSBufWriteRemoteService (Some b) service = Some (0, Some b)
      \<and> HdfSbufReadFileDescriptor (Some b) = Some (0, Some b))
   \<and> (HdfSBufBind True ok1 base block sz = Some b \<longrightarrow>
      HdfSbufWriteUnpadBuffer ok (Some b) (Some d) n = None
      \<and> HdfSbufReadUnpadBuffer (Some b) len = None
      \<and> HdfSBufWriteRemoteService (Some b) service = None
      \<and> HdfSbufReadFileDescriptor (Some b) = None)"
  using missing_zeroed [OF obtain_form] missing_wild [OF bind_form] by blast

theorem sbuf_missing_methods_witness:
  "\<exists>b. HdfSBufBind True True 4096 [1, 2, 3, 4] 4 = Some b \<and> HdfSbufReadFileDescriptor (Some b) = None"
proof -
  obtain b where b: "HdfSBufBind True True 4096 [1, 2, 3, 4] 4 = Some b"
    by (simp add: HdfSBufBind_def HdfSBufTypedBind_def HdfSbufConstructorGet_def SbufBindRaw_def)
  with sbuf_missing_methods [of True True 4 b True "[]" 0 0 None 4096 "[1, 2, 3, 4]" 4] show ?thesis by blast
qed

end
