(* ===== verification/Hcs_Blob.thy ===== *)
theory Hcs_Blob
  imports Hdf_Prelude
begin

text \<open>
  Access to the configuration bytecode: \<^verbatim>\<open>utils/include/hcs_blob_if.h\<close> and
  \<^verbatim>\<open>utils/src/hcs_parser/hcs_blob_if.c\<close>, and the encoder that produces it, the bytecode
  back end of the configuration compiler (\<^verbatim>\<open>tools/leagecy/hc-gen/src/hcs_bytecode_gen.c\<close>
  and \<^verbatim>\<open>hcs_opcode.c\<close>).

  The parameter \<open>al\<close> is the global \<^verbatim>\<open>g_byteAlign\<close>.  A pointer into the blob \<open>b\<close> is its
  offset, an \<^typ>\<open>int\<close>; an access outside the blob is \<^const>\<open>None\<close>.  Values of type
  \<^verbatim>\<open>int32_t\<close> are integers reduced with \<^const>\<open>i32\<close> where the code stores them.
\<close>

section \<open>The header macros and inline functions\<close>

definition CONFIG_NODE :: uint32_t where "CONFIG_NODE = 0x1"
definition CONFIG_ATTR :: uint32_t where "CONFIG_ATTR = 0x2"
definition CONFIG_REFERENCE :: uint32_t where "CONFIG_REFERENCE = 0x3"
definition CONFIG_ARRAY :: uint32_t where "CONFIG_ARRAY = 0x4"
definition CONFIG_BYTE :: uint32_t where "CONFIG_BYTE = 0x10"
definition CONFIG_WORD :: uint32_t where "CONFIG_WORD = 0x11"
definition CONFIG_DWORD :: uint32_t where "CONFIG_DWORD = 0x12"
definition CONFIG_QWORD :: uint32_t where "CONFIG_QWORD = 0x13"
definition CONFIG_STRING :: uint32_t where "CONFIG_STRING = 0x14"

lemmas config_defs = CONFIG_NODE_def CONFIG_ATTR_def CONFIG_REFERENCE_def CONFIG_ARRAY_def
  CONFIG_BYTE_def CONFIG_WORD_def CONFIG_DWORD_def CONFIG_QWORD_def CONFIG_STRING_def

definition HBC_MAGIC_NUMBER :: uint32_t where "HBC_MAGIC_NUMBER = 0xA00AA00A"
definition HBC_HEADER_LENGTH :: int where "HBC_HEADER_LENGTH = 20"
definition HBC_BLOB_MAX_LENGTH :: int where "HBC_BLOB_MAX_LENGTH = 1024 * 1024 * 10"
definition HBC_ROOT_NAME :: bytes where "HBC_ROOT_NAME = [0x72, 0x6F, 0x6F, 0x74]"

definition HcsAlignSize :: "size_t \<Rightarrow> size_t" where
  "HcsAlignSize n = (n + 4 - 1) AND NOT (4 - 1)"

definition HcsByteCodeToUint8 :: "bytes \<Rightarrow> int \<Rightarrow> uint8_t option" where
  "HcsByteCodeToUint8 b p = map_option le_word (ptr_read b p 1)"

definition HcsByteCodeToUint16 :: "bytes \<Rightarrow> int \<Rightarrow> uint16_t option" where
  "HcsByteCodeToUint16 b p = map_option le_word (ptr_read b p 2)"

definition HcsByteCodeToUint32 :: "bytes \<Rightarrow> int \<Rightarrow> uint32_t option" where
  "HcsByteCodeToUint32 b p = map_option le_word (ptr_read b p 4)"

definition HcsByteCodeToUint64 :: "bytes \<Rightarrow> int \<Rightarrow> uint64_t option" where
  "HcsByteCodeToUint64 b p = map_option le_word (ptr_read b p 8)"

definition HcsGetPrefix :: "bool \<Rightarrow> bytes \<Rightarrow> int \<Rightarrow> uint32_t option" where
  "HcsGetPrefix al b p = (if al then HcsByteCodeToUint32 b p else map_option ucast (HcsByteCodeToUint8 b p))"

definition HCS_DWORD_LENGTH :: int where "HCS_DWORD_LENGTH = 4"
definition HCS_QWORD_LENGTH :: int where "HCS_QWORD_LENGTH = 8"
definition HCS_PREFIX_LENGTH :: "bool \<Rightarrow> int" where "HCS_PREFIX_LENGTH al = (if al then HCS_DWORD_LENGTH else 1)"
definition HCS_BYTE_LENGTH :: "bool \<Rightarrow> int" where "HCS_BYTE_LENGTH al = (if al then HCS_DWORD_LENGTH else 1)"
definition HCS_WORD_LENGTH :: "bool \<Rightarrow> int" where "HCS_WORD_LENGTH al = (if al then HCS_DWORD_LENGTH else 2)"

text \<open>\<^verbatim>\<open>HCS_STRING_LENGTH (str)\<close>, from the value of \<^verbatim>\<open>strlen (str)\<close> and for a pointer.\<close>

definition hcs_string_length :: "bool \<Rightarrow> nat \<Rightarrow> int" where
  "hcs_string_length al n = (if al then uint (HcsAlignSize (of_nat (n + 1))) else uint (of_nat (n + 1) :: size_t))"

definition HCS_STRING_LENGTH :: "bool \<Rightarrow> bytes \<Rightarrow> int \<Rightarrow> int option" where
  "HCS_STRING_LENGTH al b p = map_option (hcs_string_length al) (ptr_strlen b p)"

section \<open>Lengths\<close>

definition HcsGetDataTypeOffset :: "bool \<Rightarrow> bytes \<Rightarrow> int \<Rightarrow> int option" where
  "HcsGetDataTypeOffset al b start = do {
     prefix \<leftarrow> HcsGetPrefix al b start;
     if prefix = CONFIG_BYTE then Some (HCS_BYTE_LENGTH al + HCS_PREFIX_LENGTH al)
     else if prefix = CONFIG_WORD then Some (HCS_WORD_LENGTH al + HCS_PREFIX_LENGTH al)
     else if prefix = CONFIG_DWORD \<or> prefix = CONFIG_REFERENCE then Some (HCS_DWORD_LENGTH + HCS_PREFIX_LENGTH al)
     else if prefix = CONFIG_QWORD then Some (HCS_QWORD_LENGTH + HCS_PREFIX_LENGTH al)
     else if prefix = CONFIG_STRING then do {
       n \<leftarrow> HCS_STRING_LENGTH al b (start + HCS_PREFIX_LENGTH al);
       Some (i32 (n + HCS_PREFIX_LENGTH al))
     }
     else Some (- 1)
   }"

definition HcsSwapToUint8 :: "bool \<Rightarrow> bytes \<Rightarrow> int \<Rightarrow> uint32_t \<Rightarrow> uint8_t option option" where
  "HcsSwapToUint8 al b realValue type =
     (if type = CONFIG_BYTE then
        (if al then map_option (\<lambda>w. Some (ucast w)) (HcsByteCodeToUint32 b realValue)
         else map_option Some (HcsByteCodeToUint8 b realValue))
      else Some None)"

definition HcsSwapToUint16 :: "bool \<Rightarrow> bytes \<Rightarrow> int \<Rightarrow> uint32_t \<Rightarrow> uint16_t option option" where
  "HcsSwapToUint16 al b realValue type =
     (if type = CONFIG_WORD then
        (if al then map_option (\<lambda>w. Some (ucast w)) (HcsByteCodeToUint32 b realValue)
         else map_option Some (HcsByteCodeToUint16 b realValue))
      else map_option (map_option ucast) (HcsSwapToUint8 al b realValue type))"

definition HcsSwapToUint32 :: "bool \<Rightarrow> bytes \<Rightarrow> int \<Rightarrow> uint32_t \<Rightarrow> uint32_t option option" where
  "HcsSwapToUint32 al b realValue type =
     (if type = CONFIG_DWORD then map_option Some (HcsByteCodeToUint32 b realValue)
      else map_option (map_option ucast) (HcsSwapToUint16 al b realValue type))"

definition HcsSwapToUint64 :: "bool \<Rightarrow> bytes \<Rightarrow> int \<Rightarrow> uint32_t \<Rightarrow> uint64_t option option" where
  "HcsSwapToUint64 al b realValue type =
     (if type = CONFIG_QWORD then map_option Some (HcsByteCodeToUint64 b realValue)
      else map_option (map_option ucast) (HcsSwapToUint32 al b realValue type))"

text \<open>The loop of \<^verbatim>\<open>HcsGetArrayLength\<close>, with the number of elements still to pass.\<close>

fun array_length_loop :: "bool \<Rightarrow> bytes \<Rightarrow> int \<Rightarrow> nat \<Rightarrow> int \<Rightarrow> int option" where
  "array_length_loop al b start 0 arrayLen = Some arrayLen"
| "array_length_loop al b start (Suc n) arrayLen = do {
     lenData \<leftarrow> HcsGetDataTypeOffset al b (start + arrayLen);
     if lenData < 0 then Some (- 1)
     else array_length_loop al b start n (i32 (arrayLen + lenData))
   }"

definition HcsGetArrayLength :: "bool \<Rightarrow> bytes \<Rightarrow> int \<Rightarrow> int option" where
  "HcsGetArrayLength al b start = do {
     r \<leftarrow> HcsSwapToUint16 al b (start + HCS_PREFIX_LENGTH al) CONFIG_WORD;
     (case r of None \<Rightarrow> Some (- 1)
      | Some count \<Rightarrow> array_length_loop al b start (unat count) (HCS_PREFIX_LENGTH al + HCS_WORD_LENGTH al))
   }"

definition HcsGetAttrLength :: "bool \<Rightarrow> bytes \<Rightarrow> int \<Rightarrow> int option" where
  "HcsGetAttrLength al b start = do {
     n \<leftarrow> HCS_STRING_LENGTH al b (start + HCS_PREFIX_LENGTH al);
     let len = i32 (HCS_PREFIX_LENGTH al + n);
     prefix \<leftarrow> HcsGetPrefix al b (start + len);
     dataLen \<leftarrow> (if prefix \<in> {CONFIG_BYTE, CONFIG_WORD, CONFIG_DWORD, CONFIG_QWORD, CONFIG_STRING, CONFIG_REFERENCE}
                then HcsGetDataTypeOffset al b (start + len)
                else if prefix = CONFIG_ARRAY then HcsGetArrayLength al b (start + len)
                else Some (- 1));
     Some (if dataLen < 0 then - 1 else i32 (dataLen + len))
   }"

definition HcsGetNodeOrAttrLength :: "bool \<Rightarrow> bytes \<Rightarrow> int \<Rightarrow> int option" where
  "HcsGetNodeOrAttrLength al b start = do {
     prefix \<leftarrow> HcsGetPrefix al b start;
     if prefix = CONFIG_NODE then do {
       n \<leftarrow> HCS_STRING_LENGTH al b (start + HCS_PREFIX_LENGTH al);
       Some (i32 (n + HCS_PREFIX_LENGTH al + HCS_DWORD_LENGTH))
     }
     else if prefix = CONFIG_ATTR then HcsGetAttrLength al b start
     else Some (- 1)
   }"

definition HcsGetNodeLength :: "bool \<Rightarrow> bytes \<Rightarrow> int \<Rightarrow> int option" where
  "HcsGetNodeLength al b blob = do {
     rootLen \<leftarrow> HcsGetNodeOrAttrLength al b blob;
     if rootLen < 0 then Some (- 1)
     else do {
       n \<leftarrow> HCS_STRING_LENGTH al b (blob + HCS_PREFIX_LENGTH al);
       sub \<leftarrow> HcsByteCodeToUint32 b (blob + HCS_PREFIX_LENGTH al + n);
       Some (i32 (rootLen + uint sub))
     }
   }"

text \<open>
  \<^verbatim>\<open>CheckHcsBlobLength\<close> and \<^verbatim>\<open>HcsCheckBlobFormat\<close>: the old value \<open>al\<close> of
  \<^verbatim>\<open>g_byteAlign\<close> still governs the minimal length; the new value is returned beside the
  verdict.  The blob argument is an option for the null pointer, \<open>len\<close> the length passed.
\<close>

definition CheckHcsBlobLength :: "bool \<Rightarrow> int \<Rightarrow> 32 word \<Rightarrow> bool \<times> bool" where
  "CheckHcsBlobLength al len totalSize =
     (let rootNodeLen = u32 (hcs_string_length al (length HBC_ROOT_NAME) + HCS_PREFIX_LENGTH al + HCS_DWORD_LENGTH);
          minLength = u32 (rootNodeLen + HBC_HEADER_LENGTH);
          al' = (sint totalSize < 0);
          blobLength = (if al' then u32 (HBC_HEADER_LENGTH - sint totalSize)
                        else u32 (HBC_HEADER_LENGTH + sint totalSize))
      in (\<not> (len \<noteq> blobLength \<or> blobLength < minLength), al'))"

definition HcsCheckBlobFormat :: "bool \<Rightarrow> bytes option \<Rightarrow> int \<Rightarrow> (bool \<times> bool) option" where
  "HcsCheckBlobFormat al start len =
     (case start of None \<Rightarrow> Some (False, al)
      | Some b \<Rightarrow>
          if len < HBC_HEADER_LENGTH \<or> HBC_BLOB_MAX_LENGTH < len then Some (False, al)
          else do {
            magicNumber \<leftarrow> HcsByteCodeToUint32 b 0;
            if magicNumber \<noteq> HBC_MAGIC_NUMBER then Some (False, al)
            else do {
              totalSize \<leftarrow> HcsByteCodeToUint32 b 16;
              Some (CheckHcsBlobLength al len totalSize)
            }
          })"

section \<open>The encoder\<close>

text \<open>
  The syntax tree of the configuration compiler as its bytecode back end sees it: a value is
  an integer of the width the front end chose, a string, a reference (given by the hash of
  its target) or an array; an object is a term with its value or a node with its children in
  order.
\<close>

datatype hcs_value =
    HByte uint8_t | HWord uint16_t | HDword uint32_t | HQword uint64_t
  | HString bytes | HRef uint32_t | HArray "hcs_value list"

datatype hcs_obj = HTerm bytes hcs_value | HNode bytes "hcs_obj list"

definition HcsAlign :: "bool \<Rightarrow> nat \<Rightarrow> nat" where
  "HcsAlign al n = (if al then pad4 n else n)"

definition HcsOutputWriteAlign :: "bool \<Rightarrow> bytes \<Rightarrow> bytes" where
  "HcsOutputWriteAlign al bs = bs @ replicate (HcsAlign al (length bs) - length bs) 0"

text \<open>\<^verbatim>\<open>HcsCalculateOpcodeSize\<close>, as the backward walk applies it to children first.\<close>

fun value_size :: "bool \<Rightarrow> hcs_value \<Rightarrow> nat" where
  "value_size al (HByte _) = HcsAlign al 1 + HcsAlign al 1"
| "value_size al (HWord _) = HcsAlign al 1 + HcsAlign al 2"
| "value_size al (HDword _) = HcsAlign al 1 + HcsAlign al 4"
| "value_size al (HQword _) = HcsAlign al 1 + HcsAlign al 8"
| "value_size al (HString s) = HcsAlign al 1 + HcsAlign al 0 + HcsAlign al (length s + 1)"
| "value_size al (HRef _) = HcsAlign al 1 + HcsAlign al 4"
| "value_size al (HArray vs) = sum_list (map (value_size al) vs) + (HcsAlign al 1 + HcsAlign al 2)"

fun obj_size :: "bool \<Rightarrow> hcs_obj \<Rightarrow> nat" where
  "obj_size al (HTerm name v) = value_size al v + (HcsAlign al 1 + HcsAlign al 0 + HcsAlign al (length name + 1))"
| "obj_size al (HNode name items) =
     sum_list (map (obj_size al) items) + (HcsAlign al 1 + HcsAlign al 4 + HcsAlign al (length name + 1))"

definition obj_subSize :: "bool \<Rightarrow> hcs_obj list \<Rightarrow> nat" where
  "obj_subSize al items = sum_list (map (obj_size al) items)"

text \<open>\<^verbatim>\<open>ByteCodeWriteWalk\<close>, applied by the forward walk to an object and then its children.\<close>

fun write_value :: "bool \<Rightarrow> hcs_value \<Rightarrow> bytes" where
  "write_value al (HByte w) = HcsOutputWriteAlign al [0x10] @ HcsOutputWriteAlign al (le_bytes 1 w)"
| "write_value al (HWord w) = HcsOutputWriteAlign al [0x11] @ HcsOutputWriteAlign al (le_bytes 2 w)"
| "write_value al (HDword w) = HcsOutputWriteAlign al [0x12] @ HcsOutputWriteAlign al (le_bytes 4 w)"
| "write_value al (HQword w) = HcsOutputWriteAlign al [0x13] @ HcsOutputWriteAlign al (le_bytes 8 w)"
| "write_value al (HString s) = HcsOutputWriteAlign al [0x14] @ HcsOutputWriteAlign al (s @ [0])"
| "write_value al (HRef h) = HcsOutputWriteAlign al [0x03] @ HcsOutputWriteAlign al (le_bytes 4 h)"
| "write_value al (HArray vs) =
     HcsOutputWriteAlign al [0x04] @ HcsOutputWriteAlign al (le_bytes 2 (of_nat (length vs) :: uint16_t)) @
     concat (map (write_value al) vs)"

fun write_obj :: "bool \<Rightarrow> hcs_obj \<Rightarrow> bytes" where
  "write_obj al (HTerm name v) =
     HcsOutputWriteAlign al [0x02] @ HcsOutputWriteAlign al (name @ [0]) @ write_value al v"
| "write_obj al (HNode name items) =
     HcsOutputWriteAlign al [0x01] @ HcsOutputWriteAlign al (name @ [0]) @
     HcsOutputWriteAlign al (le_bytes 4 (of_nat (obj_subSize al items) :: uint32_t)) @
     concat (map (write_obj al) items)"

definition HcsBytecodeOutput :: "bool \<Rightarrow> uint32_t \<Rightarrow> uint32_t \<Rightarrow> hcs_obj \<Rightarrow> bytes" where
  "HcsBytecodeOutput al major minor root =
     (let size = of_nat (obj_size al root) :: uint32_t in
      HcsOutputWriteAlign al (le_bytes 4 HBC_MAGIC_NUMBER @ le_bytes 4 major @ le_bytes 4 minor @
        le_bytes 4 (0 :: uint32_t) @ le_bytes 4 (if al then - size else size)) @
      write_obj al root)"

section \<open>Sizes agree with the output\<close>

lemma HcsAlign_ge: "n \<le> HcsAlign al n"
  using pad4_bounds(1) by (simp add: HcsAlign_def)

lemma HcsOutputWriteAlign_length [simp]: "length (HcsOutputWriteAlign al bs) = HcsAlign al (length bs)"
  using HcsAlign_ge [of "length bs" al] by (simp add: HcsOutputWriteAlign_def)

lemma HcsAlign_simps [simp]:
  "HcsAlign al 0 = 0" "HcsAlign al (Suc 0) = (if al then 4 else 1)" "HcsAlign al 2 = (if al then 4 else 2)"
  "HcsAlign al 4 = 4" "HcsAlign al 8 = 8" "HcsAlign al 20 = 20"
  by (auto simp: HcsAlign_def pad4_def)

lemma write_value_length [simp]: "length (write_value al v) = value_size al v"
proof (induction v)
  case (HArray vs)
  then have "map (length \<circ> write_value al) vs = map (value_size al) vs" by (intro map_cong) auto
  with HArray show ?case by (simp add: length_concat del: map_eq_conv)
qed auto

lemma write_obj_length [simp]: "length (write_obj al x) = obj_size al x"
proof (induction x)
  case (HNode name items)
  then have "map (length \<circ> write_obj al) items = map (obj_size al) items" by (intro map_cong) auto
  with HNode show ?case by (simp add: length_concat del: map_eq_conv)
qed auto

section \<open>Reading what the encoder wrote\<close>

definition holds_at :: "bytes \<Rightarrow> int \<Rightarrow> bytes \<Rightarrow> bool" where
  "holds_at b p bs \<longleftrightarrow> (\<exists>pre post. b = pre @ bs @ post \<and> int (length pre) = p)"

lemma holds_at_appendD:
  assumes "holds_at b p (xs @ ys)"
  shows "holds_at b p xs" "holds_at b (p + int (length xs)) ys"
proof -
  from assms obtain pre post where b: "b = pre @ (xs @ ys) @ post" "int (length pre) = p"
    by (auto simp: holds_at_def)
  then show "holds_at b p xs" by (auto simp: holds_at_def)
  from b show "holds_at b (p + int (length xs)) ys"
    unfolding holds_at_def by (intro exI [of _ "pre @ xs"] exI [of _ post]) simp
qed

lemma holds_at_nonneg: "holds_at b p xs \<Longrightarrow> 0 \<le> p"
  by (auto simp: holds_at_def)

lemma holds_at_length: "holds_at b p xs \<Longrightarrow> p + int (length xs) \<le> int (length b)"
  by (auto simp: holds_at_def)

lemma ptr_read_holds: "holds_at b p xs \<Longrightarrow> n = length xs \<Longrightarrow> ptr_read b p n = Some xs"
  by (auto simp: holds_at_def ptr_read_def)

lemma ptr_strlen_holds: "holds_at b p (xs @ [0]) \<Longrightarrow> 0 \<notin> set xs \<Longrightarrow> ptr_strlen b p = Some (length xs)"
  by (auto simp: holds_at_def ptr_strlen_def c_strlen_append)

lemma ptr_str_holds: "holds_at b p (xs @ [0]) \<Longrightarrow> 0 \<notin> set xs \<Longrightarrow> ptr_str b p = Some xs"
  by (auto simp: holds_at_def ptr_str_def cstr_at_def c_strlen_append)

lemma holds_at_output: "holds_at b p (HcsOutputWriteAlign al xs) \<Longrightarrow> holds_at b p xs"
  unfolding HcsOutputWriteAlign_def by (rule holds_at_appendD(1))

lemma unat_HcsAlignSize: "n + 4 < 2 ^ 63 \<Longrightarrow> unat (HcsAlignSize (of_nat n)) = pad4 n"
proof -
  assume n: "n + 4 < 2 ^ 63"
  have "HcsAlignSize (of_nat n) = (of_nat n + 3) AND NOT 3" by (simp add: HcsAlignSize_def add.commute)
  then have "unat (HcsAlignSize (of_nat n)) = unat (of_nat n + 3 :: 64 word) div 4 * 4"
    by (simp only: unat_and_not_3)
  also have "unat (of_nat n + 3 :: 64 word) = n + 3"
    using n by (simp add: unat_word_ariths unat_of_nat_64)
  finally show ?thesis by (simp add: pad4_def)
qed

lemma hcs_string_length_eq:
  "n < 2 ^ 62 \<Longrightarrow> hcs_string_length al n = int (HcsAlign al (n + 1))"
  unfolding hcs_string_length_def HcsAlign_def uint_nat
  using unat_HcsAlignSize [of "n + 1"] unat_of_nat_64 [of "n + 1"] by simp

lemma HCS_STRING_LENGTH_holds:
  "holds_at b p (xs @ [0]) \<Longrightarrow> 0 \<notin> set xs \<Longrightarrow> length b < 2 ^ 62 \<Longrightarrow>
   HCS_STRING_LENGTH al b p = Some (int (HcsAlign al (length xs + 1)))"
  using holds_at_length [of b p "xs @ [0]"] holds_at_nonneg [of b p "xs @ [0]"] hcs_string_length_eq [of "length xs" al]
  by (simp add: HCS_STRING_LENGTH_def ptr_strlen_holds)

lemma le_word_pad: "le_word (bs @ replicate k 0) = le_word bs"
  by (induction bs) (simp_all, induction k, simp_all)

lemma le_word_zeros [simp]: "le_word (replicate k 0) = 0"
  by (induction k) auto

text \<open>An integer of \<open>n\<close> bytes is read back at its width, padded or not.\<close>

lemma read_u32_aligned:
  assumes "holds_at b p (HcsOutputWriteAlign True bs)" "length bs \<in> {1, 2, 4}"
  shows "HcsByteCodeToUint32 b p = Some (le_word bs)"
proof -
  have "length (HcsOutputWriteAlign True bs) = 4" using assms(2) by auto
  then have "ptr_read b p 4 = Some (HcsOutputWriteAlign True bs)" using assms(1) by (simp add: ptr_read_holds)
  then show ?thesis by (simp add: HcsByteCodeToUint32_def HcsOutputWriteAlign_def le_word_pad)
qed

lemma HcsGetPrefix_holds:
  "holds_at b p (HcsOutputWriteAlign al [c]) \<Longrightarrow> HcsGetPrefix al b p = Some (ucast c)"
proof (cases al)
  case True
  moreover assume "holds_at b p (HcsOutputWriteAlign al [c])"
  ultimately show ?thesis using read_u32_aligned [of b p "[c]"] by (simp add: HcsGetPrefix_def)
next
  case False
  moreover assume "holds_at b p (HcsOutputWriteAlign al [c])"
  ultimately have "ptr_read b p 1 = Some [c]" by (simp add: ptr_read_holds HcsOutputWriteAlign_def)
  with False show ?thesis by (simp add: HcsGetPrefix_def HcsByteCodeToUint8_def)
qed

lemma HCS_PREFIX_LENGTH_eq: "HCS_PREFIX_LENGTH al = int (HcsAlign al 1)"
  by (simp add: HCS_PREFIX_LENGTH_def HCS_DWORD_LENGTH_def)

lemma HCS_WORD_LENGTH_eq: "HCS_WORD_LENGTH al = int (HcsAlign al 2)"
  by (simp add: HCS_WORD_LENGTH_def HCS_DWORD_LENGTH_def)

lemma HCS_BYTE_LENGTH_eq: "HCS_BYTE_LENGTH al = int (HcsAlign al 1)"
  by (simp add: HCS_BYTE_LENGTH_def HCS_DWORD_LENGTH_def)

section \<open>The parser's lengths are the encoder's sizes\<close>

fun scalar_ok :: "hcs_value \<Rightarrow> bool" where
  "scalar_ok (HString s) \<longleftrightarrow> 0 \<notin> set s"
| "scalar_ok (HArray _) \<longleftrightarrow> False"
| "scalar_ok _ \<longleftrightarrow> True"

fun value_ok :: "hcs_value \<Rightarrow> bool" where
  "value_ok (HArray vs) \<longleftrightarrow> length vs < 65536 \<and> list_all scalar_ok vs"
| "value_ok v \<longleftrightarrow> scalar_ok v"

fun obj_ok :: "hcs_obj \<Rightarrow> bool" where
  "obj_ok (HTerm name v) \<longleftrightarrow> 0 \<notin> set name \<and> value_ok v"
| "obj_ok (HNode name items) \<longleftrightarrow> 0 \<notin> set name \<and> list_all obj_ok items"

text \<open>The blob is smaller than the range of \<^verbatim>\<open>int32_t\<close>, as the format check guarantees.\<close>

definition blob_small :: "bytes \<Rightarrow> bool" where
  "blob_small b \<longleftrightarrow> int (length b) < 2147483648"

lemma holds_at_small: "holds_at b p xs \<Longrightarrow> blob_small b \<Longrightarrow> p + int (length xs) < 2147483648 \<and> 0 \<le> p"
  using holds_at_length [of b p xs] holds_at_nonneg [of b p xs] by (simp add: blob_small_def)

lemma HCS_STRING_LENGTH_small:
  "holds_at b p (HcsOutputWriteAlign al (xs @ [0])) \<Longrightarrow> 0 \<notin> set xs \<Longrightarrow> blob_small b \<Longrightarrow>
   HCS_STRING_LENGTH al b p = Some (int (HcsAlign al (Suc (length xs))))"
  using HCS_STRING_LENGTH_holds [OF holds_at_output] by (simp add: blob_small_def)

text \<open>The prefix of a value, as the code the parser reads.\<close>

fun value_code :: "hcs_value \<Rightarrow> uint8_t" where
  "value_code (HByte _) = 0x10"
| "value_code (HWord _) = 0x11"
| "value_code (HDword _) = 0x12"
| "value_code (HQword _) = 0x13"
| "value_code (HString _) = 0x14"
| "value_code (HRef _) = 0x03"
| "value_code (HArray _) = 0x04"

lemma write_value_prefix: "\<exists>rest. write_value al v = HcsOutputWriteAlign al [value_code v] @ rest"
  by (cases v) auto

lemma prefix_of_value:
  "holds_at b p (write_value al v) \<Longrightarrow> HcsGetPrefix al b p = Some (ucast (value_code v))"
  using write_value_prefix [of al v] holds_at_appendD(1) HcsGetPrefix_holds by metis

lemma HcsGetDataTypeOffset_value:
  assumes "holds_at b p (write_value al v)" "scalar_ok v" "blob_small b"
  shows "HcsGetDataTypeOffset al b p = Some (int (value_size al v))"
proof (cases v)
  case (HString s)
  have "holds_at b (p + int (HcsAlign al 1)) (HcsOutputWriteAlign al (s @ [0]))"
    using holds_at_appendD(2) [of b p "HcsOutputWriteAlign al [20]" "HcsOutputWriteAlign al (s @ [0])"] assms(1) HString by simp
  then have "HCS_STRING_LENGTH al b (p + int (HcsAlign al 1)) = Some (int (HcsAlign al (Suc (length s))))"
    using assms(2,3) HString by (simp add: HCS_STRING_LENGTH_small)
  moreover have sz: "int (HcsAlign al (Suc (length s))) + int (HcsAlign al 1) = int (value_size al v)"
    using HString by (simp del: HcsAlign_simps(2))
  moreover have "i32 (int (value_size al v)) = int (value_size al v)"
    using holds_at_small [OF assms(1,3)] by simp
  moreover have "HcsGetPrefix al b p = Some 0x14" using prefix_of_value [OF assms(1)] HString by simp
  ultimately show ?thesis
    by (simp del: HcsAlign_simps add: HcsGetDataTypeOffset_def config_defs HCS_PREFIX_LENGTH_eq)
next
  case (HArray vs)
  with assms(2) show ?thesis by simp
qed (use prefix_of_value [OF assms(1)] in \<open>simp_all add: HcsGetDataTypeOffset_def config_defs
      HCS_PREFIX_LENGTH_def HCS_BYTE_LENGTH_def HCS_WORD_LENGTH_def HCS_DWORD_LENGTH_def HCS_QWORD_LENGTH_def\<close>)

lemma array_length_loop_values:
  assumes "holds_at b (start + off) (concat (map (write_value al) vs))" "list_all scalar_ok vs" "blob_small b"
    "0 \<le> off" "0 \<le> start"
  shows "array_length_loop al b start (length vs) off = Some (off + int (sum_list (map (value_size al) vs)))"
  using assms
proof (induction vs arbitrary: off)
  case Nil
  then show ?case by simp
next
  case (Cons v vs)
  have v: "holds_at b (start + off) (write_value al v)"
    and vs: "holds_at b (start + off + int (value_size al v)) (concat (map (write_value al) vs))"
    using holds_at_appendD [of b "start + off" "write_value al v" "concat (map (write_value al) vs)"] Cons.prems(1)
    by auto
  have "HcsGetDataTypeOffset al b (start + off) = Some (int (value_size al v))"
    using HcsGetDataTypeOffset_value [OF v] Cons.prems(2,3) by simp
  moreover have "i32 (off + int (value_size al v)) = off + int (value_size al v)"
    using holds_at_small [OF v Cons.prems(3)] Cons.prems(4,5) by simp
  ultimately show ?case
    using Cons.IH [of "off + int (value_size al v)"] vs Cons.prems(2-5) by (simp add: add.assoc)
qed

lemma HcsSwapToUint16_count:
  assumes "holds_at b p (HcsOutputWriteAlign al (le_bytes 2 (w :: uint16_t)))"
  shows "HcsSwapToUint16 al b p CONFIG_WORD = Some (Some w)"
proof (cases al)
  case True
  have "(ucast (le_word (le_bytes 2 w) :: uint32_t) :: uint16_t) = le_word (le_bytes 2 w)"
    by (rule bit_word_eqI) (simp add: le_word_bit bit_simps)
  with True assms show ?thesis
    by (simp add: HcsSwapToUint16_def read_u32_aligned le_word_le_bytes)
next
  case False
  then have "ptr_read b p 2 = Some (le_bytes 2 w)" using ptr_read_holds [OF holds_at_output [OF assms]] by simp
  with False show ?thesis by (simp add: HcsSwapToUint16_def HcsByteCodeToUint16_def le_word_le_bytes)
qed

lemma HcsGetArrayLength_value:
  assumes "holds_at b p (write_value al (HArray vs))" "value_ok (HArray vs)" "blob_small b"
  shows "HcsGetArrayLength al b p = Some (int (value_size al (HArray vs)))"
proof -
  let ?h = "HcsOutputWriteAlign al [0x04 :: uint8_t]" and ?n = "HcsOutputWriteAlign al (le_bytes 2 (of_nat (length vs) :: uint16_t))"
  have *: "holds_at b p (?h @ ?n @ concat (map (write_value al) vs))" using assms(1) by simp
  have n: "holds_at b (p + int (HcsAlign al 1)) ?n"
    and vs: "holds_at b (p + int (HcsAlign al 1) + int (HcsAlign al 2)) (concat (map (write_value al) vs))"
    using holds_at_appendD [OF holds_at_appendD(2) [OF *]] by simp_all
  have len: "unat (of_nat (length vs) :: uint16_t) = length vs" using assms(2) by (simp add: unat_of_nat_16)
  have "array_length_loop al b p (length vs) (int (HcsAlign al 1) + int (HcsAlign al 2)) =
      Some (int (HcsAlign al 1) + int (HcsAlign al 2) + int (sum_list (map (value_size al) vs)))"
    using array_length_loop_values [of b p "int (HcsAlign al 1) + int (HcsAlign al 2)" al vs] vs assms(2,3)
      holds_at_nonneg [OF *] by (simp add: add.assoc)
  then show ?thesis
    using HcsSwapToUint16_count [OF n] len
    by (simp add: HcsGetArrayLength_def HCS_PREFIX_LENGTH_eq HCS_WORD_LENGTH_eq)
qed

lemma HcsGetNodeOrAttrLength_term:
  assumes "holds_at b p (write_obj al (HTerm name v))" "obj_ok (HTerm name v)" "blob_small b"
  shows "HcsGetNodeOrAttrLength al b p = Some (int (obj_size al (HTerm name v)))"
proof -
  let ?h = "HcsOutputWriteAlign al [0x02 :: uint8_t]" and ?n = "HcsOutputWriteAlign al (name @ [0])"
  have *: "holds_at b p (?h @ ?n @ write_value al v)" using assms(1) by simp
  have h: "HcsGetPrefix al b p = Some 2" using HcsGetPrefix_holds [OF holds_at_appendD(1) [OF *]] by simp
  have n: "holds_at b (p + int (HcsAlign al 1)) ?n"
    and v: "holds_at b (p + int (HcsAlign al 1) + int (HcsAlign al (Suc (length name)))) (write_value al v)"
    using holds_at_appendD [OF holds_at_appendD(2) [OF *]] by simp_all
  let ?l = "int (HcsAlign al 1) + int (HcsAlign al (Suc (length name)))"
  have sl: "HCS_STRING_LENGTH al b (p + int (HcsAlign al 1)) = Some (int (HcsAlign al (Suc (length name))))"
    using HCS_STRING_LENGTH_small [OF n] assms(2,3) by simp
  have small: "p + ?l + int (value_size al v) < 2147483648" "0 \<le> p"
    using holds_at_small [OF v assms(3)] holds_at_nonneg [OF *] by auto
  have pv: "HcsGetPrefix al b (p + ?l) = Some (ucast (value_code v))"
    using prefix_of_value [OF v] by (simp add: add.assoc)
  have dl: "(if ucast (value_code v) \<in> {CONFIG_BYTE, CONFIG_WORD, CONFIG_DWORD, CONFIG_QWORD, CONFIG_STRING, CONFIG_REFERENCE}
       then HcsGetDataTypeOffset al b (p + ?l)
       else if ucast (value_code v) = CONFIG_ARRAY then HcsGetArrayLength al b (p + ?l) else Some (- 1))
      = Some (int (value_size al v))"
  proof (cases v)
    case (HArray vs)
    with HcsGetArrayLength_value [of b "p + ?l" al vs] v assms(2,3) show ?thesis
      by (simp add: config_defs add.assoc)
  qed (use HcsGetDataTypeOffset_value [OF v] assms(2,3) in \<open>simp_all add: config_defs add.assoc\<close>)
  have id: "i32 ?l = ?l" "i32 (int (value_size al v) + ?l) = int (value_size al v) + ?l"
    "\<not> int (value_size al v) < 0" using small by simp_all
  have "HcsGetAttrLength al b p = Some (int (value_size al v) + ?l)"
    by (simp only: HcsGetAttrLength_def HCS_PREFIX_LENGTH_eq Let_def sl pv dl id Option.bind.simps if_False)
  with h show ?thesis by (simp add: HcsGetNodeOrAttrLength_def config_defs)
qed

text \<open>For a node the length is that of its header; its size field follows the name.\<close>

definition node_header :: "bool \<Rightarrow> bytes \<Rightarrow> nat" where
  "node_header al name = HcsAlign al 1 + HcsAlign al (Suc (length name)) + 4"

lemma node_parts:
  assumes "holds_at b p (write_obj al (HNode name items))"
  shows "HcsGetPrefix al b p = Some CONFIG_NODE"
    and "holds_at b (p + int (HcsAlign al 1)) (HcsOutputWriteAlign al (name @ [0]))"
    and "holds_at b (p + int (HcsAlign al 1) + int (HcsAlign al (Suc (length name))))
           (le_bytes 4 (of_nat (obj_subSize al items) :: uint32_t))"
    and "holds_at b (p + int (node_header al name)) (concat (map (write_obj al) items))"
proof -
  let ?h = "HcsOutputWriteAlign al [0x01 :: uint8_t]" and ?n = "HcsOutputWriteAlign al (name @ [0])"
    and ?s = "HcsOutputWriteAlign al (le_bytes 4 (of_nat (obj_subSize al items) :: uint32_t))"
  have *: "holds_at b p (?h @ ?n @ ?s @ concat (map (write_obj al) items))" using assms by simp
  show "HcsGetPrefix al b p = Some CONFIG_NODE"
    using HcsGetPrefix_holds [OF holds_at_appendD(1) [OF *]] by (simp add: CONFIG_NODE_def)
  note 1 = holds_at_appendD(2) [OF *]
  show "holds_at b (p + int (HcsAlign al 1)) ?n" using holds_at_appendD(1) [OF 1] by simp
  note 2 = holds_at_appendD(2) [OF 1]
  show "holds_at b (p + int (HcsAlign al 1) + int (HcsAlign al (Suc (length name))))
      (le_bytes 4 (of_nat (obj_subSize al items) :: uint32_t))"
    using holds_at_output [OF holds_at_appendD(1) [OF 2]] by simp
  show "holds_at b (p + int (node_header al name)) (concat (map (write_obj al) items))"
    using holds_at_appendD(2) [OF 2] by (simp add: node_header_def add.assoc add.left_commute)
qed

lemma HcsGetNodeOrAttrLength_node:
  assumes "holds_at b p (write_obj al (HNode name items))" "0 \<notin> set name" "blob_small b"
  shows "HcsGetNodeOrAttrLength al b p = Some (int (node_header al name))"
proof -
  have "int (node_header al name) < 2147483648"
    using holds_at_small [OF node_parts(4) [OF assms(1)] assms(3)] holds_at_nonneg [OF assms(1)] by simp
  then show ?thesis
    using node_parts(1) [OF assms(1)] HCS_STRING_LENGTH_small [OF node_parts(2) [OF assms(1)] assms(2,3)]
    by (simp add: HcsGetNodeOrAttrLength_def HCS_PREFIX_LENGTH_eq HCS_DWORD_LENGTH_def node_header_def add.commute)
qed

lemma obj_size_node: "obj_size al (HNode name items) = node_header al name + obj_subSize al items"
  by (simp add: node_header_def obj_subSize_def)

lemma read_subSize:
  assumes "holds_at b p (write_obj al (HNode name items))" "blob_small b"
  shows "HcsByteCodeToUint32 b (p + int (HcsAlign al 1) + int (HcsAlign al (Suc (length name)))) =
           Some (of_nat (obj_subSize al items))"
    and "uint (of_nat (obj_subSize al items) :: uint32_t) = int (obj_subSize al items)"
proof -
  show "HcsByteCodeToUint32 b (p + int (HcsAlign al 1) + int (HcsAlign al (Suc (length name)))) =
      Some (of_nat (obj_subSize al items))"
    using ptr_read_holds [OF node_parts(3) [OF assms(1)]] by (simp add: HcsByteCodeToUint32_def le_word_le_bytes)
  have "int (obj_subSize al items) < 2147483648"
    using holds_at_small [OF assms, unfolded write_obj_length obj_size_node] by simp
  then show "uint (of_nat (obj_subSize al items) :: uint32_t) = int (obj_subSize al items)"
    unfolding uint_nat by (simp add: unat_of_nat_32)
qed

lemma HcsGetNodeLength_node:
  assumes "holds_at b p (write_obj al (HNode name items))" "0 \<notin> set name" "blob_small b"
  shows "HcsGetNodeLength al b p = Some (int (obj_size al (HNode name items)))"
proof -
  have "int (node_header al name) + int (obj_subSize al items) < 2147483648"
    using holds_at_small [OF assms(1,3), unfolded write_obj_length obj_size_node] by simp
  then show ?thesis
    using HcsGetNodeOrAttrLength_node [OF assms] HCS_STRING_LENGTH_small [OF node_parts(2) [OF assms(1)] assms(2,3)]
      read_subSize [OF assms(1,3)]
    by (simp del: HcsAlign_simps add: HcsGetNodeLength_def HCS_PREFIX_LENGTH_eq obj_size_node del: obj_size.simps)
qed

end
