(* ===== verification/Hcs_Tree.thy ===== *)
theory Hcs_Tree
  imports Hcs_Blob
begin

text \<open>
  Building the configuration tree from the bytecode:
  \<^verbatim>\<open>utils/src/hcs_parser/hcs_generate_tree.c\<close> and \<^verbatim>\<open>hcs_parser.c\<close>.

  The tree lives in one block of memory that a first pass over the bytecode measures.  A
  pointer to a node or an attribute is its offset in that block; the contents of the block
  are a map from offsets to nodes and a map from offsets to attributes.  Carving an object
  out of the block beyond its size is \<^const>\<open>None\<close>, as is a read outside the blob.  The
  strings of the tree are pointers into the blob.
\<close>

section \<open>State\<close>

record DeviceResourceAttr =
  ha_name :: int
  ha_value :: int
  ha_next :: "nat option"

record DeviceResourceNode =
  hn_name :: int
  hn_hashValue :: uint32_t
  hn_attrData :: "nat option"
  hn_parent :: "nat option"
  hn_child :: "nat option"
  hn_sibling :: "nat option"

definition sizeof_DeviceResourceNode :: nat where "sizeof_DeviceResourceNode = 48"
definition sizeof_DeviceResourceAttr :: nat where "sizeof_DeviceResourceAttr = 24"
definition sizeof_HbcHeader :: int where "sizeof_HbcHeader = 20"
definition TREE_STACK_MAX :: nat where "TREE_STACK_MAX = 64"

text \<open>The block: its size, the cursor \<^verbatim>\<open>*treeMem\<close>, and what has been built in it.\<close>

record hcs_mem =
  hm_size :: nat
  hm_pos :: nat
  hm_nodes :: "nat \<Rightarrow> DeviceResourceNode option"
  hm_attrs :: "nat \<Rightarrow> DeviceResourceAttr option"

record TreeStack =
  ts_offset :: int
  ts_node :: "nat option"

text \<open>
  What the two passes of \<^verbatim>\<open>GenerateCfgTree\<close> thread: the block (\<^const>\<open>None\<close> in the measuring
  pass), the stack and \<^verbatim>\<open>treeLayerOrMemLen\<close>.
\<close>

record gen_state =
  gs_mem :: "hcs_mem option"
  gs_stack :: "TreeStack list"
  gs_layer :: int

section \<open>Operations\<close>

text \<open>\<^verbatim>\<open>GetParentNode\<close>: the layer found, counting down; \<open>target\<close> is \<^verbatim>\<open>configOffset + offset\<close>.\<close>

fun parent_layer :: "TreeStack list \<Rightarrow> int \<Rightarrow> nat \<Rightarrow> nat option option" where
  "parent_layer stack target 0 = Some None"
| "parent_layer stack target (Suc l) =
     (if 0 < target then
        (if length stack \<le> Suc l then None
         else if u32 target \<le> ts_offset (stack ! Suc l) then Some (Some (Suc l))
         else parent_layer stack target l)
      else Some None)"

definition GetParentNode :: "int \<Rightarrow> TreeStack list \<Rightarrow> int \<Rightarrow> int \<Rightarrow> (nat option \<times> int) option" where
  "GetParentNode offset stack treeLayer configOffset = do {
     r \<leftarrow> parent_layer stack (i32 (configOffset + offset)) (nat treeLayer);
     Some (case r of None \<Rightarrow> (None, treeLayer) | Some l \<Rightarrow> (ts_node (stack ! l), int l))
   }"

text \<open>The loop to the last sibling of a child list.\<close>

partial_function (option) last_sibling :: "(nat \<Rightarrow> DeviceResourceNode option) \<Rightarrow> nat \<Rightarrow> nat option" where
  "last_sibling nds cur =
     (case nds cur of None \<Rightarrow> None
      | Some nd \<Rightarrow> (case hn_sibling nd of None \<Rightarrow> Some cur | Some s \<Rightarrow> last_sibling nds s))"

definition update_node ::
    "nat \<Rightarrow> (DeviceResourceNode \<Rightarrow> DeviceResourceNode) \<Rightarrow> hcs_mem \<Rightarrow> hcs_mem option" where
  "update_node p f m =
     (case hm_nodes m p of None \<Rightarrow> None
      | Some nd \<Rightarrow> Some (m\<lparr>hm_nodes := (hm_nodes m)(p \<mapsto> f nd)\<rparr>))"

text \<open>\<^verbatim>\<open>CreateTreeNode\<close>; the block was zeroed, so the fields not set are null.\<close>

definition CreateTreeNode ::
    "bool \<Rightarrow> int \<Rightarrow> int \<Rightarrow> nat option \<Rightarrow> hcs_mem \<Rightarrow> (nat \<times> hcs_mem) option" where
  "CreateTreeNode al start offset parentNode m =
     (if hm_size m < hm_pos m + sizeof_DeviceResourceNode then None
      else let newNode = hm_pos m;
               nd = \<lparr>hn_name = start + offset + HCS_PREFIX_LENGTH al,
                     hn_hashValue = of_int (offset + sizeof_HbcHeader), hn_attrData = None,
                     hn_parent = parentNode, hn_child = None, hn_sibling = None\<rparr>;
               m1 = m\<lparr>hm_pos := hm_pos m + sizeof_DeviceResourceNode, hm_nodes := (hm_nodes m)(newNode \<mapsto> nd)\<rparr>
           in case parentNode of None \<Rightarrow> Some (newNode, m1)
              | Some p \<Rightarrow>
                  (case hm_nodes m1 p of None \<Rightarrow> None
                   | Some pn \<Rightarrow>
                       (case hn_child pn of
                          None \<Rightarrow> map_option (Pair newNode) (update_node p (\<lambda>nd. nd\<lparr>hn_child := Some newNode\<rparr>) m1)
                        | Some c \<Rightarrow> do {
                            cur \<leftarrow> last_sibling (hm_nodes m1) c;
                            m2 \<leftarrow> update_node cur (\<lambda>nd. nd\<lparr>hn_sibling := Some newNode\<rparr>) m1;
                            Some (newNode, m2)
                          })))"

definition UpdateTreeStack ::
    "TreeStack list \<Rightarrow> int \<Rightarrow> nat \<Rightarrow> int \<Rightarrow> (TreeStack list \<times> int) option" where
  "UpdateTreeStack stack treeLayer newNode offset =
     (if int TREE_STACK_MAX - 1 \<le> treeLayer then None
      else Some (stack[nat (treeLayer + 1) := \<lparr>ts_offset = offset, ts_node = Some newNode\<rparr>], treeLayer + 1))"

text \<open>\<^verbatim>\<open>AddAttrInNode\<close>; the result \<^verbatim>\<open>false\<close> for a null parent is the inner \<^const>\<open>None\<close>.\<close>

definition AddAttrInNode ::
    "bool \<Rightarrow> bytes \<Rightarrow> int \<Rightarrow> nat option \<Rightarrow> hcs_mem \<Rightarrow> hcs_mem option option" where
  "AddAttrInNode al b start parentNode m =
     (case parentNode of None \<Rightarrow> Some None
      | Some p \<Rightarrow>
          if hm_size m < hm_pos m + sizeof_DeviceResourceAttr then None
          else do {
            let newAttr = hm_pos m;
            n \<leftarrow> HCS_STRING_LENGTH al b (start + HCS_PREFIX_LENGTH al);
            pn \<leftarrow> hm_nodes m p;
            let attr = \<lparr>ha_name = start + HCS_PREFIX_LENGTH al, ha_value = start + HCS_PREFIX_LENGTH al + n,
                        ha_next = hn_attrData pn\<rparr>;
            m2 \<leftarrow> update_node p (\<lambda>nd. nd\<lparr>hn_attrData := Some newAttr\<rparr>)
                    (m\<lparr>hm_pos := hm_pos m + sizeof_DeviceResourceAttr, hm_attrs := (hm_attrs m)(newAttr \<mapsto> attr)\<rparr>);
            Some (Some m2)
          })"

definition ParseByteCode ::
    "bool \<Rightarrow> bytes \<Rightarrow> int \<Rightarrow> int \<Rightarrow> gen_state \<Rightarrow> (int \<times> gen_state) option" where
  "ParseByteCode al b treeStart offset st = do {
     termOffset \<leftarrow> HcsGetNodeOrAttrLength al b (treeStart + offset);
     if termOffset \<le> 0 then Some (- 1, st)
     else do {
       prefix \<leftarrow> HcsGetPrefix al b (treeStart + offset);
       if prefix = CONFIG_NODE then
         (case gs_mem st of
            None \<Rightarrow> Some (termOffset, st\<lparr>gs_layer := i32 (gs_layer st + int sizeof_DeviceResourceNode)\<rparr>)
          | Some m \<Rightarrow> do {
              r \<leftarrow> GetParentNode offset (gs_stack st) (gs_layer st) termOffset;
              r2 \<leftarrow> CreateTreeNode al treeStart offset (fst r) m;
              n \<leftarrow> HCS_STRING_LENGTH al b (treeStart + offset + HCS_PREFIX_LENGTH al);
              sub \<leftarrow> HcsSwapToUint32 al b (treeStart + offset + n + HCS_PREFIX_LENGTH al) CONFIG_DWORD;
              newNodeOffset \<leftarrow> sub;
              (case UpdateTreeStack (gs_stack st) (snd r) (fst r2) (u32 (uint newNodeOffset + offset + termOffset)) of
                 None \<Rightarrow> Some (- 1, st\<lparr>gs_mem := Some (snd r2), gs_layer := snd r\<rparr>)
               | Some (stack, layer) \<Rightarrow>
                   Some (termOffset, st\<lparr>gs_mem := Some (snd r2), gs_stack := stack, gs_layer := layer\<rparr>))
            })
       else if prefix = CONFIG_ATTR then
         (case gs_mem st of
            None \<Rightarrow> Some (termOffset, st\<lparr>gs_layer := i32 (gs_layer st + int sizeof_DeviceResourceAttr)\<rparr>)
          | Some m \<Rightarrow> do {
              r \<leftarrow> GetParentNode offset (gs_stack st) (gs_layer st) termOffset;
              a \<leftarrow> AddAttrInNode al b (treeStart + offset) (fst r) m;
              (case a of
                 None \<Rightarrow> Some (- 1, st\<lparr>gs_layer := snd r\<rparr>)
               | Some m2 \<Rightarrow> Some (termOffset, st\<lparr>gs_mem := Some m2, gs_layer := snd r\<rparr>))
            })
       else Some (- 1, st)
     }
   }"

text \<open>The loop of \<^verbatim>\<open>GenerateCfgTree\<close>; \<open>len\<close> is its parameter \<^verbatim>\<open>length\<close>.\<close>

partial_function (option) gen_loop ::
    "bool \<Rightarrow> bytes \<Rightarrow> int \<Rightarrow> int \<Rightarrow> int \<Rightarrow> gen_state \<Rightarrow> gen_state option" where
  "gen_loop al b treeStart len offset st =
     (if offset < len \<and> 0 \<le> offset then do {
        r \<leftarrow> ParseByteCode al b treeStart offset st;
        if fst r \<le> 0 then Some ((snd r)\<lparr>gs_layer := fst r\<rparr>)
        else gen_loop al b treeStart len (i32 (offset + fst r)) (snd r)
      }
      else Some st)"

definition empty_stack :: "TreeStack list" where
  "empty_stack = replicate TREE_STACK_MAX \<lparr>ts_offset = 0, ts_node = None\<rparr>"

text \<open>
  \<^verbatim>\<open>GenerateCfgTree\<close>: the result, the root it stores (the outer \<^const>\<open>None\<close>: nothing is
  stored) and the block.
\<close>

definition GenerateCfgTree ::
    "bool \<Rightarrow> bool \<Rightarrow> bytes \<Rightarrow> int \<Rightarrow> int \<Rightarrow> hcs_mem option \<Rightarrow> (int \<times> nat option option \<times> hcs_mem option) option" where
  "GenerateCfgTree ok al b treeStart len treeMem =
     (if \<not> ok then Some (- 1, None, treeMem)
      else do {
        st \<leftarrow> gen_loop al b treeStart len 0 \<lparr>gs_mem = treeMem, gs_stack = empty_stack, gs_layer = 0\<rparr>;
        Some (gs_layer st,
              (if gs_mem st \<noteq> None \<and> 0 < gs_layer st then Some (ts_node (gs_stack st ! 1)) else None),
              gs_mem st)
      })"

definition GetHcsTreeSize :: "bool \<Rightarrow> bool \<Rightarrow> bytes \<Rightarrow> int \<Rightarrow> int \<Rightarrow> int option" where
  "GetHcsTreeSize ok al b blob nodeLength = map_option fst (GenerateCfgTree ok al b blob nodeLength None)"

text \<open>
  \<^verbatim>\<open>HcsDecompile\<close>: on success the root pointer and the block.  Three allocations: the stack
  of each pass and the block.
\<close>

definition HcsDecompile ::
    "bool \<Rightarrow> bool \<Rightarrow> bool \<Rightarrow> bool \<Rightarrow> bytes \<Rightarrow> int \<Rightarrow> (nat option \<times> hcs_mem) option option" where
  "HcsDecompile ok1 ok2 ok3 al hcsBlob offset = do {
     nodeLength \<leftarrow> HcsGetNodeLength al hcsBlob offset;
     if nodeLength < 0 then Some None
     else do {
       treeMemLength \<leftarrow> GetHcsTreeSize ok1 al hcsBlob offset nodeLength;
       if treeMemLength \<le> 0 then Some None
       else if \<not> ok2 then Some None
       else do {
         r \<leftarrow> GenerateCfgTree ok3 al hcsBlob offset nodeLength
                (Some \<lparr>hm_size = nat treeMemLength, hm_pos = 0, hm_nodes = Map.empty, hm_attrs = Map.empty\<rparr>);
         (case r of (treeLayer, root, mem) \<Rightarrow>
            if treeLayer \<le> 0 then Some None
            else (case (root, mem) of (Some rt, Some m) \<Rightarrow> Some (Some (rt, m)) | _ \<Rightarrow> None))
       }
     }
   }"

section \<open>A recursive loader\<close>

text \<open>
  What the stack machine has to do for a source object: create its node below the parent and
  load its items in order.  The positions are those of the encoder.
\<close>

fun obj_depth :: "hcs_obj \<Rightarrow> nat" where
  "obj_depth (HTerm _ _) = 0"
| "obj_depth (HNode _ items) = Suc (fold (max \<circ> obj_depth) items 0)"

definition items_depth :: "hcs_obj list \<Rightarrow> nat" where
  "items_depth items = fold (max \<circ> obj_depth) items 0"

fun obj_mem :: "hcs_obj \<Rightarrow> nat" where
  "obj_mem (HTerm _ _) = 24"
| "obj_mem (HNode _ items) = 48 + sum_list (map obj_mem items)"

definition items_mem :: "hcs_obj list \<Rightarrow> nat" where
  "items_mem items = sum_list (map obj_mem items)"

lemma fold_max_acc: "fold (max \<circ> f) xs (n :: nat) = max n (fold (max \<circ> f) xs 0)"
proof (induction xs arbitrary: n)
  case Nil
  then show ?case by simp
next
  case (Cons x xs)
  show ?case using Cons.IH [of "max (f x) n"] Cons.IH [of "max (f x) 0"] by simp
qed

lemma items_depth_simps [simp]:
  "items_depth [] = 0" "items_depth (x # xs) = max (obj_depth x) (items_depth xs)"
  using fold_max_acc [of obj_depth xs "obj_depth x"] by (auto simp: items_depth_def)

lemma obj_depth_node [simp]: "obj_depth (HNode n items) = Suc (items_depth items)"
  by (simp add: items_depth_def)

declare obj_depth.simps(2) [simp del]

lemma items_mem_simps [simp]: "items_mem [] = 0" "items_mem (x # xs) = obj_mem x + items_mem xs"
  "items_mem (xs @ ys) = items_mem xs + items_mem ys"
  by (auto simp: items_mem_def)

lemma obj_mem_node [simp]: "obj_mem (HNode n items) = 48 + items_mem items"
  by (simp add: items_mem_def)

declare obj_mem.simps(2) [simp del]

lemma obj_subSize_simps [simp]: "obj_subSize al [] = 0" "obj_subSize al (x # xs) = obj_size al x + obj_subSize al xs"
  by (auto simp: obj_subSize_def)

function (sequential) load_obj :: "bool \<Rightarrow> bytes \<Rightarrow> int \<Rightarrow> nat option \<Rightarrow> int \<Rightarrow> hcs_obj \<Rightarrow> hcs_mem \<Rightarrow> hcs_mem option"
  and load_items :: "bool \<Rightarrow> bytes \<Rightarrow> int \<Rightarrow> nat option \<Rightarrow> int \<Rightarrow> hcs_obj list \<Rightarrow> hcs_mem \<Rightarrow> hcs_mem option" where
  "load_obj al b t par pos (HTerm n v) m = Option.bind (AddAttrInNode al b (t + pos) par m) id"
| "load_obj al b t par pos (HNode n items) m =
     (case CreateTreeNode al t pos par m of None \<Rightarrow> None
      | Some (a, m1) \<Rightarrow> load_items al b t (Some a) (pos + int (node_header al n)) items m1)"
| "load_items al b t par pos [] m = Some m"
| "load_items al b t par pos (x # xs) m =
     (case load_obj al b t par pos x m of None \<Rightarrow> None
      | Some m1 \<Rightarrow> load_items al b t par (pos + int (obj_size al x)) xs m1)"
  by pat_completeness auto
termination
  by (relation "measure (\<lambda>z. case z of Inl (_, _, _, _, _, x, _) \<Rightarrow> 2 * size x
        | Inr (_, _, _, _, _, xs, _) \<Rightarrow> Suc (2 * size_list size xs))") auto

section \<open>The stack machine follows the source tree\<close>

text \<open>
  At layer \<open>l\<close> the innermost open node is \<open>par\<close>, whose bytes reach up to \<open>hi\<close> at least;
  the entries above, if any, have ended at or before the position \<open>pos\<close>.
\<close>

definition stack_at :: "gen_state \<Rightarrow> nat \<Rightarrow> nat option \<Rightarrow> int \<Rightarrow> int \<Rightarrow> bool" where
  "stack_at st l par pos hi \<longleftrightarrow>
     length (gs_stack st) = TREE_STACK_MAX \<and> 0 < l \<and> int l \<le> gs_layer st \<and> gs_layer st < 64 \<and>
     (\<forall>j. l < j \<and> int j \<le> gs_layer st \<longrightarrow> ts_offset (gs_stack st ! j) \<le> pos) \<and>
     ts_node (gs_stack st ! l) = par \<and> hi \<le> ts_offset (gs_stack st ! l)"

lemma parent_layer_finds:
  assumes "length stack = 64" "k < 64" "l \<le> k" "0 < target" "target < 4294967296"
    and "\<forall>j. l < j \<and> j \<le> k \<longrightarrow> ts_offset (stack ! j) < target"
    and "0 < l" "target \<le> ts_offset (stack ! l)"
  shows "parent_layer stack target k = Some (Some l)"
  using assms
proof (induction k)
  case 0
  then show ?case by simp
next
  case (Suc k)
  show ?case
  proof (cases "l = Suc k")
    case True
    with Suc.prems show ?thesis by simp
  next
    case False
    then have "l \<le> k" using Suc.prems(3) by simp
    moreover have "\<not> target \<le> ts_offset (stack ! Suc k)"
      using Suc.prems(6) False Suc.prems(3) by (metis le_less_Suc_eq le_refl not_le not_less_eq_eq order_le_less)
    ultimately show ?thesis using Suc by simp
  qed
qed

lemma GetParentNode_stack_at:
  assumes "stack_at st l par pos hi" "0 \<le> pos" "0 < term" "pos + term \<le> hi" "pos + term < 2147483648"
  shows "GetParentNode pos (gs_stack st) (gs_layer st) term = Some (par, int l)"
proof -
  have "parent_layer (gs_stack st) (term + pos) (nat (gs_layer st)) = Some (Some l)"
    by (rule parent_layer_finds) (use assms in \<open>auto simp: stack_at_def TREE_STACK_MAX_def\<close>)
  moreover have "i32 (term + pos) = term + pos" using assms by simp
  ultimately show ?thesis using assms(1) by (auto simp: GetParentNode_def stack_at_def)
qed

lemma gen_loop_step:
  assumes "ParseByteCode al b t pos st = Some (each, st1)" "0 < each" "0 \<le> pos" "pos + each < 2147483648" "pos < len"
  shows "gen_loop al b t len pos st = gen_loop al b t len (pos + each) st1"
  using assms by (subst gen_loop.simps) simp

text \<open>One step on a node: the bytes are read, the node is created and pushed.\<close>

lemma ParseByteCode_node:
  assumes at: "holds_at b (t + pos) (write_obj al (HNode name items))" and ok: "0 \<notin> set name" "blob_small b"
    and pos: "0 \<le> t" "0 \<le> pos"
    and mem: "gs_mem st = Some m" "CreateTreeNode al t pos par m = Some (a, m1)"
    and parent: "GetParentNode pos (gs_stack st) (gs_layer st) (int (node_header al name)) = Some (par, int l)"
    and l: "l < 63"
  shows "ParseByteCode al b t pos st = Some (int (node_header al name),
     st\<lparr>gs_mem := Some m1,
        gs_stack := (gs_stack st)[Suc l := \<lparr>ts_offset = pos + int (obj_size al (HNode name items)), ts_node = Some a\<rparr>],
        gs_layer := int (Suc l)\<rparr>)"
proof -
  have hd: "0 < int (node_header al name)" by (simp add: node_header_def)
  have small: "pos + int (node_header al name) + int (obj_subSize al items) < 2147483648"
    using holds_at_small [OF at ok(2), unfolded write_obj_length obj_size_node] pos by simp
  have off: "u32 (int (obj_subSize al items) + pos + int (node_header al name)) =
      pos + int (obj_size al (HNode name items))"
    unfolding obj_size_node using small pos hd by simp
  have P: "HCS_PREFIX_LENGTH al = int (HcsAlign al 1)" by (rule HCS_PREFIX_LENGTH_eq)
  have sl: "HCS_STRING_LENGTH al b (t + pos + HCS_PREFIX_LENGTH al) = Some (int (HcsAlign al (Suc (length name))))"
    unfolding P by (rule HCS_STRING_LENGTH_small [OF node_parts(2) [OF at] ok])
  have sub: "HcsSwapToUint32 al b (t + pos + int (HcsAlign al (Suc (length name))) + HCS_PREFIX_LENGTH al) CONFIG_DWORD =
      Some (Some (of_nat (obj_subSize al items)))"
    using read_subSize(1) [OF at ok(2)] by (simp del: HcsAlign_simps add: P HcsSwapToUint32_def add.commute add.left_commute)
  have push: "UpdateTreeStack (gs_stack st) (int l) a (pos + int (obj_size al (HNode name items))) =
      Some ((gs_stack st)[Suc l := \<lparr>ts_offset = pos + int (obj_size al (HNode name items)), ts_node = Some a\<rparr>], int (Suc l))"
    using l by (simp add: UpdateTreeStack_def TREE_STACK_MAX_def nat_add_distrib del: obj_size.simps)
  show ?thesis
    unfolding ParseByteCode_def HcsGetNodeOrAttrLength_node [OF at ok]
    using node_parts(1) [OF at] hd mem parent sl sub push off read_subSize(2) [OF at ok(2)]
    by (simp del: obj_size.simps HcsAlign_simps)
qed

lemma ParseByteCode_term:
  assumes at: "holds_at b (t + pos) (write_obj al (HTerm name v))" and ok: "obj_ok (HTerm name v)" "blob_small b"
    and pos: "0 \<le> t" "0 \<le> pos"
    and mem: "gs_mem st = Some m" "AddAttrInNode al b (t + pos) par m = Some (Some m1)"
    and parent: "GetParentNode pos (gs_stack st) (gs_layer st) (int (obj_size al (HTerm name v))) = Some (par, int l)"
  shows "ParseByteCode al b t pos st =
     Some (int (obj_size al (HTerm name v)), st\<lparr>gs_mem := Some m1, gs_layer := int l\<rparr>)"
proof -
  have "0 < obj_size al (HTerm name v)" by simp
  moreover have "HcsGetPrefix al b (t + pos) = Some CONFIG_ATTR"
    using HcsGetPrefix_holds [of b "t + pos" al 2] holds_at_appendD(1) at by (force simp: CONFIG_ATTR_def)
  ultimately show ?thesis
    unfolding ParseByteCode_def HcsGetNodeOrAttrLength_term [OF at ok]
    using mem parent by (simp del: obj_size.simps add: config_defs)
qed

lemma load_follows:
  "load_obj al b t par pos x m = Some m' \<Longrightarrow> holds_at b (t + pos) (write_obj al x) \<Longrightarrow> obj_ok x \<Longrightarrow>
   blob_small b \<Longrightarrow> 0 \<le> t \<Longrightarrow> 0 \<le> pos \<Longrightarrow> stack_at st l par pos hi \<Longrightarrow> pos + int (obj_size al x) \<le> hi \<Longrightarrow>
   gs_mem st = Some m \<Longrightarrow> l + obj_depth x \<le> 63 \<Longrightarrow> pos + int (obj_size al x) \<le> len \<Longrightarrow>
   \<exists>st'. gen_loop al b t len pos st = gen_loop al b t len (pos + int (obj_size al x)) st' \<and>
     gs_mem st' = Some m' \<and> stack_at st' l par (pos + int (obj_size al x)) hi \<and>
     take (Suc l) (gs_stack st') = take (Suc l) (gs_stack st)"
  "load_items al b t par pos xs m = Some m' \<Longrightarrow> holds_at b (t + pos) (concat (map (write_obj al) xs)) \<Longrightarrow>
   list_all obj_ok xs \<Longrightarrow> blob_small b \<Longrightarrow> 0 \<le> t \<Longrightarrow> 0 \<le> pos \<Longrightarrow> stack_at st l par pos hi \<Longrightarrow>
   pos + int (obj_subSize al xs) \<le> hi \<Longrightarrow>
   gs_mem st = Some m \<Longrightarrow> l + items_depth xs \<le> 63 \<Longrightarrow> pos + int (obj_subSize al xs) \<le> len \<Longrightarrow>
   \<exists>st'. gen_loop al b t len pos st = gen_loop al b t len (pos + int (obj_subSize al xs)) st' \<and>
     gs_mem st' = Some m' \<and> stack_at st' l par (pos + int (obj_subSize al xs)) hi \<and>
     take (Suc l) (gs_stack st') = take (Suc l) (gs_stack st)"
proof (induction al b t par pos x m and al b t par pos xs m arbitrary: m' st l hi and m' st l hi
    rule: load_obj_load_items.induct)
  case (1 al b t par pos n v m)
  let ?x = "HTerm n v"
  have pos: "0 < int (obj_size al ?x)" by simp
  have small: "pos + int (obj_size al ?x) < 2147483648"
    using holds_at_small [OF 1(2,4)] 1(5) by (simp del: write_obj.simps obj_size.simps)
  from 1(1) have add: "AddAttrInNode al b (t + pos) par m = Some (Some m')"
    by (cases "AddAttrInNode al b (t + pos) par m") auto
  have parent: "GetParentNode pos (gs_stack st) (gs_layer st) (int (obj_size al ?x)) = Some (par, int l)"
    by (rule GetParentNode_stack_at [OF 1(7) 1(6) pos 1(8) small])
  let ?st = "st\<lparr>gs_mem := Some m', gs_layer := int l\<rparr>"
  have "gen_loop al b t len pos st = gen_loop al b t len (pos + int (obj_size al ?x)) ?st"
    using gen_loop_step [OF ParseByteCode_term [OF 1(2,3,4,5,6) 1(9) add parent] pos 1(6) small] pos 1(11) by simp
  moreover have "stack_at ?st l par (pos + int (obj_size al ?x)) hi"
    using 1(7) by (auto simp: stack_at_def)
  ultimately show ?case by (intro exI [of _ ?st]) simp
next
  case (2 al b t par pos n items m)
  let ?x = "HNode n items" and ?h = "int (node_header al n)"
  have pos: "0 < ?h" by (simp add: node_header_def)
  have ok: "0 \<notin> set n" "list_all obj_ok items" using 2(4) by auto
  have size: "int (obj_size al ?x) = ?h + int (obj_subSize al items)" by (simp add: obj_size_node del: obj_size.simps)
  have small: "pos + int (obj_size al ?x) < 2147483648"
    using holds_at_small [OF 2(3,5)] 2(6) by (simp del: write_obj.simps obj_size.simps)
  from 2(2) obtain a m1 where create: "CreateTreeNode al t pos par m = Some (a, m1)"
    and items: "load_items al b t (Some a) (pos + ?h) items m1 = Some m'"
    by (auto split: option.splits prod.splits)
  have parent: "GetParentNode pos (gs_stack st) (gs_layer st) ?h = Some (par, int l)"
    by (rule GetParentNode_stack_at [OF 2(8) 2(7) pos]) (use 2(9) small size in auto)
  have l: "l < 63" using 2(11) by simp
  let ?e = "\<lparr>ts_offset = pos + int (obj_size al ?x), ts_node = Some a\<rparr>"
  let ?st = "st\<lparr>gs_mem := Some m1, gs_stack := (gs_stack st)[Suc l := ?e], gs_layer := int (Suc l)\<rparr>"
  have step: "gen_loop al b t len pos st = gen_loop al b t len (pos + ?h) ?st"
    using gen_loop_step [OF ParseByteCode_node [OF 2(3) ok(1) 2(5,6,7,10) create parent l] pos 2(7)]
      small size pos 2(12) by simp
  have top: "stack_at ?st (Suc l) (Some a) (pos + ?h) (pos + int (obj_size al ?x))"
    using 2(8) l by (auto simp: stack_at_def TREE_STACK_MAX_def)
  obtain st' where st': "gen_loop al b t len (pos + ?h) ?st =
      gen_loop al b t len (pos + ?h + int (obj_subSize al items)) st'"
    "gs_mem st' = Some m'" "stack_at st' (Suc l) (Some a) (pos + ?h + int (obj_subSize al items)) (pos + int (obj_size al ?x))"
    "take (Suc (Suc l)) (gs_stack st') = take (Suc (Suc l)) (gs_stack ?st)"
    using 2(1) [OF create refl items _ ok(2) 2(5,6) _ top] node_parts(4) [OF 2(3)] 2(7,11,12) size pos
    by (auto simp: add.assoc)
  have len: "length (gs_stack st') = 64" "length (gs_stack st) = 64"
    using st'(3) 2(8) by (auto simp: stack_at_def TREE_STACK_MAX_def)
  have low: "gs_stack st' ! j = gs_stack ?st ! j" if "j < Suc (Suc l)" for j
    using st'(4) that by (metis nth_take)
  have "take (Suc l) (gs_stack st') = take (Suc l) (take (Suc (Suc l)) (gs_stack st'))" by simp
  also have "\<dots> = take (Suc l) (gs_stack st)" unfolding st'(4) by simp
  finally have tk: "take (Suc l) (gs_stack st') = take (Suc l) (gs_stack st)" .
  have "ts_offset (gs_stack st' ! j) \<le> pos + int (obj_size al ?x)" if j: "l < j" "int j \<le> gs_layer st'" for j
  proof (cases "j = Suc l")
    case True
    then show ?thesis using low [of j] len l by simp
  next
    case False
    then show ?thesis using st'(3) j size by (simp add: stack_at_def add.assoc del: obj_size.simps)
  qed
  then have "stack_at st' l par (pos + int (obj_size al ?x)) hi"
    using st'(3) 2(8) low [of l] by (auto simp: stack_at_def)
  then show ?case using step st'(1,2) tk size by (auto simp: add.assoc simp del: obj_size.simps)
next
  case (3 al b t par pos m)
  then show ?case by auto
next
  case (4 al b t par pos x xs m)
  from 4(3) obtain m1 where m1: "load_obj al b t par pos x m = Some m1"
    "load_items al b t par (pos + int (obj_size al x)) xs m1 = Some m'"
    by (auto split: option.splits)
  have x: "holds_at b (t + pos) (write_obj al x)"
    and xs: "holds_at b (t + (pos + int (obj_size al x))) (concat (map (write_obj al) xs))"
    using holds_at_appendD [of b "t + pos" "write_obj al x" "concat (map (write_obj al) xs)"] 4(4)
    by (auto simp: add.assoc)
  have depth: "l + obj_depth x \<le> 63" "l + items_depth xs \<le> 63" using 4(12) by (auto simp: max_def split: if_splits)
  obtain st1 where st1: "gen_loop al b t len pos st = gen_loop al b t len (pos + int (obj_size al x)) st1"
    "gs_mem st1 = Some m1" "stack_at st1 l par (pos + int (obj_size al x)) hi"
    "take (Suc l) (gs_stack st1) = take (Suc l) (gs_stack st)"
    using 4(1) [OF m1(1) x _ 4(6,7,8,9) _ 4(11) depth(1)] 4(5,10,13) by auto
  obtain st' where "gen_loop al b t len (pos + int (obj_size al x)) st1 =
      gen_loop al b t len (pos + int (obj_size al x) + int (obj_subSize al xs)) st'"
    "gs_mem st' = Some m'" "stack_at st' l par (pos + int (obj_size al x) + int (obj_subSize al xs)) hi"
    "take (Suc l) (gs_stack st') = take (Suc l) (gs_stack st1)"
    using 4(2) [OF m1(1) m1(2) xs _ 4(6,7) _ st1(3) _ st1(2) depth(2)] 4(5,8,10,13) by auto
  with st1 show ?case by (auto simp: add.assoc)
qed

section \<open>What the built tree looks like\<close>

text \<open>
  The objects of a node lie in the block in preorder.  The addresses of the attributes and of
  the child nodes among the items that start at address \<open>a\<close>:
\<close>

fun term_addrs :: "hcs_obj list \<Rightarrow> nat \<Rightarrow> nat list" where
  "term_addrs [] a = []"
| "term_addrs (HTerm n v # xs) a = a # term_addrs xs (a + obj_mem (HTerm n v))"
| "term_addrs (HNode n items # xs) a = term_addrs xs (a + obj_mem (HNode n items))"

fun kids :: "hcs_obj list \<Rightarrow> nat \<Rightarrow> nat list" where
  "kids [] a = []"
| "kids (HTerm n v # xs) a = kids xs (a + obj_mem (HTerm n v))"
| "kids (HNode n items # xs) a = a # kids xs (a + obj_mem (HNode n items))"

fun attr_chain :: "(nat \<Rightarrow> DeviceResourceAttr option) \<Rightarrow> nat option \<Rightarrow> nat list \<Rightarrow> bool" where
  "attr_chain A p [] \<longleftrightarrow> p = None"
| "attr_chain A p (a # as) \<longleftrightarrow> p = Some a \<and> (case A a of None \<Rightarrow> False | Some x \<Rightarrow> attr_chain A (ha_next x) as)"

fun sib_chain :: "(nat \<Rightarrow> DeviceResourceNode option) \<Rightarrow> nat option \<Rightarrow> nat list \<Rightarrow> bool" where
  "sib_chain N p [] \<longleftrightarrow> p = None"
| "sib_chain N p (a # as) \<longleftrightarrow> p = Some a \<and> (case N a of None \<Rightarrow> False | Some x \<Rightarrow> sib_chain N (hn_sibling x) as)"

text \<open>
  The block represents a source object found at position \<open>pos\<close> of the blob, at address \<open>a\<close>:
  names and values point to the bytes of the blob, the hash is the position, and the child
  and attribute lists are those of the source, attributes in reverse order.
\<close>

function (sequential) rep_obj :: "bool \<Rightarrow> int \<Rightarrow> hcs_mem \<Rightarrow> nat option \<Rightarrow> int \<Rightarrow> hcs_obj \<Rightarrow> nat \<Rightarrow> bool"
  and rep_items :: "bool \<Rightarrow> int \<Rightarrow> hcs_mem \<Rightarrow> nat option \<Rightarrow> int \<Rightarrow> hcs_obj list \<Rightarrow> nat \<Rightarrow> bool" where
  "rep_obj al t m par pos (HTerm name v) a \<longleftrightarrow>
     (case hm_attrs m a of None \<Rightarrow> False
      | Some at \<Rightarrow> ha_name at = t + pos + int (HcsAlign al 1) \<and>
          ha_value at = t + pos + int (HcsAlign al 1) + int (HcsAlign al (Suc (length name))))"
| "rep_obj al t m par pos (HNode name items) a \<longleftrightarrow>
     (case hm_nodes m a of None \<Rightarrow> False
      | Some nd \<Rightarrow> hn_name nd = t + pos + int (HcsAlign al 1) \<and> hn_hashValue nd = of_int (pos + 20) \<and>
          hn_parent nd = par \<and>
          attr_chain (hm_attrs m) (hn_attrData nd) (rev (term_addrs items (a + 48))) \<and>
          sib_chain (hm_nodes m) (hn_child nd) (kids items (a + 48)) \<and>
          rep_items al t m (Some a) (pos + int (node_header al name)) items (a + 48))"
| "rep_items al t m par pos [] a \<longleftrightarrow> True"
| "rep_items al t m par pos (x # xs) a \<longleftrightarrow>
     rep_obj al t m par pos x a \<and> rep_items al t m par (pos + int (obj_size al x)) xs (a + obj_mem x)"
  by pat_completeness auto
termination
  by (relation "measure (\<lambda>z. case z of Inl (_, _, _, _, _, x, _) \<Rightarrow> 2 * size x
        | Inr (_, _, _, _, _, xs, _) \<Rightarrow> Suc (2 * size_list size xs))") auto

lemma obj_mem_pos: "24 \<le> obj_mem x"
  by (cases x) auto

lemma kids_range: "k \<in> set (kids xs a) \<Longrightarrow> a \<le> k \<and> k + 48 \<le> a + items_mem xs"
proof (induction xs a rule: kids.induct)
  case (2 n v xs a)
  then show ?case by fastforce
next
  case (3 n items xs a)
  then show ?case by fastforce
qed simp

lemma term_addrs_range: "k \<in> set (term_addrs xs a) \<Longrightarrow> a \<le> k \<and> k + 24 \<le> a + items_mem xs"
proof (induction xs a rule: term_addrs.induct)
  case (2 n v xs a)
  then show ?case by fastforce
next
  case (3 n items xs a)
  then show ?case by fastforce
qed simp

lemma kids_distinct: "distinct (kids xs a)"
proof (induction xs a rule: kids.induct)
  case (3 n items xs a)
  then show ?case using kids_range by fastforce
qed auto

lemma term_addrs_distinct: "distinct (term_addrs xs a)"
proof (induction xs a rule: term_addrs.induct)
  case (2 n v xs a)
  then show ?case using term_addrs_range by fastforce
qed auto

lemma kids_append: "kids (xs @ ys) a = kids xs a @ kids ys (a + items_mem xs)"
proof (induction xs a rule: kids.induct)
  case (2 n v xs a)
  then show ?case by (simp add: add.assoc)
next
  case (3 n items xs a)
  then show ?case by (simp add: add.assoc)
qed simp

lemma term_addrs_append: "term_addrs (xs @ ys) a = term_addrs xs a @ term_addrs ys (a + items_mem xs)"
proof (induction xs a rule: term_addrs.induct)
  case (2 n v xs a)
  then show ?case by (simp add: add.assoc)
next
  case (3 n items xs a)
  then show ?case by (simp add: add.assoc)
qed simp

lemma rep_items_append:
  "rep_items al t m par pos (xs @ ys) a \<longleftrightarrow>
   rep_items al t m par pos xs a \<and> rep_items al t m par (pos + int (obj_subSize al xs)) ys (a + items_mem xs)"
  by (induction xs arbitrary: pos a) (auto simp: add.assoc)

lemma attr_chain_cong:
  "\<forall>a \<in> set as. A' a = A a \<Longrightarrow> attr_chain A' p as = attr_chain A p as"
  by (induction as arbitrary: p) (auto split: option.splits)

lemma sib_chain_cong:
  "\<forall>a \<in> set as. N' a = N a \<Longrightarrow> sib_chain N' p as = sib_chain N p as"
  by (induction as arbitrary: p) (auto split: option.splits)

text \<open>Agreement up to the sibling link.\<close>

definition nosib :: "DeviceResourceNode option \<Rightarrow> DeviceResourceNode option" where
  "nosib x = map_option (\<lambda>nd. nd\<lparr>hn_sibling := None\<rparr>) x"

lemma nosib_Some:
  "nosib y = nosib (Some nd) \<Longrightarrow> \<exists>s. y = Some (nd\<lparr>hn_sibling := s\<rparr>)"
proof (cases y)
  case (Some nd')
  assume "nosib y = nosib (Some nd)"
  with Some have "nd'\<lparr>hn_sibling := None\<rparr> = nd\<lparr>hn_sibling := None\<rparr>" by (simp add: nosib_def)
  then have "nd' = nd\<lparr>hn_sibling := hn_sibling nd'\<rparr>" by (cases nd; cases nd') simp
  with Some show ?thesis by metis
qed (simp add: nosib_def)

lemma rep_cong:
  "rep_obj al t m par pos x a \<Longrightarrow> \<forall>y. a < y \<and> y < a + obj_mem x \<longrightarrow> hm_nodes m' y = hm_nodes m y \<Longrightarrow>
   \<forall>y. a \<le> y \<and> y < a + obj_mem x \<longrightarrow> hm_attrs m' y = hm_attrs m y \<Longrightarrow>
   nosib (hm_nodes m' a) = nosib (hm_nodes m a) \<Longrightarrow> rep_obj al t m' par pos x a"
  "rep_items al t m par pos xs a \<Longrightarrow>
   \<forall>y. a \<le> y \<and> y < a + items_mem xs \<and> y \<notin> set (kids xs a) \<longrightarrow> hm_nodes m' y = hm_nodes m y \<Longrightarrow>
   \<forall>y \<in> set (kids xs a). nosib (hm_nodes m' y) = nosib (hm_nodes m y) \<Longrightarrow>
   \<forall>y. a \<le> y \<and> y < a + items_mem xs \<longrightarrow> hm_attrs m' y = hm_attrs m y \<Longrightarrow> rep_items al t m' par pos xs a"
proof (induction al t m par pos x a and al t m par pos xs a rule: rep_obj_rep_items.induct)
  case (1 al t m par pos name v a)
  then show ?case by (simp split: option.splits)
next
  case (2 al t m par pos name items a)
  from 2(2) obtain nd where nd: "hm_nodes m a = Some nd"
    "hn_name nd = t + pos + int (HcsAlign al 1)" "hn_hashValue nd = of_int (pos + 20)" "hn_parent nd = par"
    "attr_chain (hm_attrs m) (hn_attrData nd) (rev (term_addrs items (a + 48)))"
    "sib_chain (hm_nodes m) (hn_child nd) (kids items (a + 48))"
    "rep_items al t m (Some a) (pos + int (node_header al name)) items (a + 48)"
    by (auto split: option.splits simp del: HcsAlign_simps)
  have inside: "a < y \<and> y < a + obj_mem (HNode name items)" if "a + 48 \<le> y" "y < a + 48 + items_mem items" for y
    using that by simp
  have kin: "hm_nodes m' y = hm_nodes m y" if "y \<in> set (kids items (a + 48))" for y
    using kids_range [OF that] 2(3) by simp
  have rep: "rep_items al t m' (Some a) (pos + int (node_header al name)) items (a + 48)"
    by (rule 2(1) [OF nd(1) nd(7)]) (use 2(3,4) inside kin in auto)
  have attrs: "attr_chain (hm_attrs m') (hn_attrData nd) (rev (term_addrs items (a + 48)))"
    using nd(5) attr_chain_cong [of "rev (term_addrs items (a + 48))" "hm_attrs m'" "hm_attrs m"] 2(4)
      term_addrs_range [of _ items "a + 48"] by fastforce
  have sibs: "sib_chain (hm_nodes m') (hn_child nd) (kids items (a + 48))"
    using nd(6) sib_chain_cong [of "kids items (a + 48)" "hm_nodes m'" "hm_nodes m"] 2(3)
      kids_range [of _ items "a + 48"] by fastforce
  obtain s where "hm_nodes m' a = Some (nd\<lparr>hn_sibling := s\<rparr>)"
    using nosib_Some [of "hm_nodes m' a" nd] 2(5) nd(1) by auto
  with nd rep attrs sibs show ?case by (simp del: HcsAlign_simps)
next
  case (3 al t m par pos a)
  then show ?case by simp
next
  case (4 al t m par pos x xs a)
  have kx: "set (kids (x # xs) a) \<subseteq> {a} \<union> {a + obj_mem x..}"
    using kids_range [of _ xs "a + obj_mem x"] by (cases x) auto
  have "rep_obj al t m' par pos x a"
  proof (rule 4(1))
    show "rep_obj al t m par pos x a" using 4(3) by simp
    show "\<forall>y. a < y \<and> y < a + obj_mem x \<longrightarrow> hm_nodes m' y = hm_nodes m y"
    proof (intro allI impI)
      fix y assume y: "a < y \<and> y < a + obj_mem x"
      then have "y \<notin> set (kids (x # xs) a)" using kx by auto
      then show "hm_nodes m' y = hm_nodes m y" using 4(4) y by simp
    qed
    show "\<forall>y. a \<le> y \<and> y < a + obj_mem x \<longrightarrow> hm_attrs m' y = hm_attrs m y" using 4(6) by simp
    show "nosib (hm_nodes m' a) = nosib (hm_nodes m a)"
      using 4(4,5) obj_mem_pos [of x] by (cases "a \<in> set (kids (x # xs) a)") auto
  qed
  moreover have "rep_items al t m' par (pos + int (obj_size al x)) xs (a + obj_mem x)"
  proof (rule 4(2))
    show "rep_items al t m par (pos + int (obj_size al x)) xs (a + obj_mem x)" using 4(3) by simp
    have k: "y \<in> set (kids (x # xs) a) \<longleftrightarrow> y \<in> set (kids xs (a + obj_mem x))" if "a + obj_mem x \<le> y" for y
      using that obj_mem_pos [of x] by (cases x) auto
    then show "\<forall>y. a + obj_mem x \<le> y \<and> y < a + obj_mem x + items_mem xs \<and> y \<notin> set (kids xs (a + obj_mem x)) \<longrightarrow>
        hm_nodes m' y = hm_nodes m y" using 4(4) by simp
    show "\<forall>y\<in>set (kids xs (a + obj_mem x)). nosib (hm_nodes m' y) = nosib (hm_nodes m y)"
      using 4(5) k kids_range [of _ xs "a + obj_mem x"] by blast
    show "\<forall>y. a + obj_mem x \<le> y \<and> y < a + obj_mem x + items_mem xs \<longrightarrow> hm_attrs m' y = hm_attrs m y"
      using 4(6) by simp
  qed
  ultimately show ?case by simp
qed

section \<open>Loading builds the represented tree\<close>

lemma sib_chain_snoc:
  assumes "sib_chain N ptr ks" "ks \<noteq> []" "distinct ks" "new \<notin> set ks" "N new = Some nn" "hn_sibling nn = None"
  shows "\<exists>c nd. ptr = Some c \<and> last_sibling N c = Some (last ks) \<and> N (last ks) = Some nd \<and>
     sib_chain (N(last ks \<mapsto> nd\<lparr>hn_sibling := Some new\<rparr>)) ptr (ks @ [new])"
  using assms
proof (induction ks arbitrary: ptr)
  case Nil
  then show ?case by simp
next
  case (Cons k ks)
  from Cons.prems(1) obtain nd where k: "ptr = Some k" "N k = Some nd" "sib_chain N (hn_sibling nd) ks"
    by (auto split: option.splits)
  show ?case
  proof (cases "ks = []")
    case True
    with k have "hn_sibling nd = None" by simp
    with k True Cons.prems(4,5,6) show ?thesis by (simp add: last_sibling.simps)
  next
    case False
    have "distinct ks" "new \<notin> set ks" using Cons.prems(3,4) by auto
    from Cons.IH [OF k(3) False this Cons.prems(5,6)] obtain c nd2 where IH:
      "hn_sibling nd = Some c" "last_sibling N c = Some (last ks)" "N (last ks) = Some nd2"
      "sib_chain (N(last ks \<mapsto> nd2\<lparr>hn_sibling := Some new\<rparr>)) (hn_sibling nd) (ks @ [new])"
      by blast
    define N' where "N' = N(last ks \<mapsto> nd2\<lparr>hn_sibling := Some new\<rparr>)"
    have "last ks \<noteq> k" using Cons.prems(3) False by auto
    then have "N' k = Some nd" using k(2) by (simp add: N'_def)
    with IH(4) k(1) have "sib_chain N' ptr ((k # ks) @ [new])" by (simp add: N'_def [symmetric])
    moreover have "last_sibling N k = Some (last ks)"
      using k(2) IH(1,2) by (subst last_sibling.simps) simp
    moreover have "last (k # ks) = last ks" using False by simp
    ultimately show ?thesis using k(1) IH(3) unfolding N'_def by metis
  qed
qed

definition node_core :: "DeviceResourceNode option \<Rightarrow> (int \<times> uint32_t \<times> nat option \<times> nat option) option" where
  "node_core x = map_option (\<lambda>nd. (hn_name nd, hn_hashValue nd, hn_parent nd, hn_sibling nd)) x"

text \<open>Node \<open>p\<close> is the last one carved out, and the items \<open>ds\<close> have been loaded into it.\<close>

definition open_at :: "bool \<Rightarrow> int \<Rightarrow> hcs_mem \<Rightarrow> nat \<Rightarrow> int \<Rightarrow> hcs_obj list \<Rightarrow> bool" where
  "open_at al t m p ipos ds \<longleftrightarrow> (\<exists>pn. hm_nodes m p = Some pn \<and>
     attr_chain (hm_attrs m) (hn_attrData pn) (rev (term_addrs ds (p + 48))) \<and>
     sib_chain (hm_nodes m) (hn_child pn) (kids ds (p + 48)) \<and>
     rep_items al t m (Some p) ipos ds (p + 48) \<and> hm_pos m = p + 48 + items_mem ds)"

definition mem_frame :: "hcs_mem \<Rightarrow> hcs_mem \<Rightarrow> nat \<Rightarrow> bool" where
  "mem_frame m m' p \<longleftrightarrow> hm_size m' = hm_size m \<and> node_core (hm_nodes m' p) = node_core (hm_nodes m p) \<and>
     (\<forall>y < p. hm_nodes m' y = hm_nodes m y \<and> hm_attrs m' y = hm_attrs m y)"

lemma mem_frame_trans: "mem_frame m1 m2 p \<Longrightarrow> mem_frame m2 m3 p \<Longrightarrow> mem_frame m1 m3 p"
  by (simp add: mem_frame_def)

lemma add_attr_open:
  assumes opn: "open_at al t m p ipos ds" and room: "hm_pos m + 24 \<le> hm_size m"
    and at: "holds_at b (t + (ipos + int (obj_subSize al ds))) (write_obj al (HTerm name v))"
    and ok: "obj_ok (HTerm name v)" "blob_small b"
  shows "\<exists>m'. AddAttrInNode al b (t + (ipos + int (obj_subSize al ds))) (Some p) m = Some (Some m') \<and>
     open_at al t m' p ipos (ds @ [HTerm name v]) \<and> mem_frame m m' p"
proof -
  let ?pos = "ipos + int (obj_subSize al ds)" and ?a = "hm_pos m"
  from opn obtain pn where pn: "hm_nodes m p = Some pn"
    "attr_chain (hm_attrs m) (hn_attrData pn) (rev (term_addrs ds (p + 48)))"
    "sib_chain (hm_nodes m) (hn_child pn) (kids ds (p + 48))"
    "rep_items al t m (Some p) ipos ds (p + 48)" and pos: "?a = p + 48 + items_mem ds"
    by (auto simp: open_at_def)
  let ?attr = "\<lparr>ha_name = t + ?pos + int (HcsAlign al 1),
      ha_value = t + ?pos + int (HcsAlign al 1) + int (HcsAlign al (Suc (length name))), ha_next = hn_attrData pn\<rparr>"
  let ?m = "m\<lparr>hm_pos := ?a + 24, hm_attrs := (hm_attrs m)(?a \<mapsto> ?attr),
      hm_nodes := (hm_nodes m)(p \<mapsto> pn\<lparr>hn_attrData := Some ?a\<rparr>)\<rparr>"
  have "HcsOutputWriteAlign al [0x02] @ HcsOutputWriteAlign al (name @ [0]) @ write_value al v = write_obj al (HTerm name v)"
    by simp
  then have n: "holds_at b (t + ?pos + int (HcsAlign al 1)) (HcsOutputWriteAlign al (name @ [0]))"
    using holds_at_appendD(1) [OF holds_at_appendD(2)] at by (metis (no_types) HcsOutputWriteAlign_length One_nat_def
        add.assoc length_Cons list.size(3))
  have sl: "HCS_STRING_LENGTH al b (t + ?pos + HCS_PREFIX_LENGTH al) = Some (int (HcsAlign al (Suc (length name))))"
    unfolding HCS_PREFIX_LENGTH_eq by (rule HCS_STRING_LENGTH_small [OF n]) (use ok in auto)
  have add: "AddAttrInNode al b (t + ?pos) (Some p) m = Some (Some ?m)"
    using room sl pn(1) by (simp del: HcsAlign_simps
        add: AddAttrInNode_def update_node_def HCS_PREFIX_LENGTH_eq sizeof_DeviceResourceAttr_def Let_def)
  have below: "k < ?a" if "k \<in> set (term_addrs ds (p + 48))" for k
    using term_addrs_range [OF that] pos by simp
  have attrs: "attr_chain (hm_attrs ?m) (hn_attrData pn) (rev (term_addrs ds (p + 48)))"
    using pn(2) attr_chain_cong [of "rev (term_addrs ds (p + 48))" "hm_attrs ?m" "hm_attrs m"] below by fastforce
  have sibs: "sib_chain (hm_nodes ?m) (hn_child pn) (kids ds (p + 48))"
    using pn(3) sib_chain_cong [of "kids ds (p + 48)" "hm_nodes ?m" "hm_nodes m"] kids_range [of _ ds "p + 48"]
    by fastforce
  have kp: "p \<notin> set (kids ds (p + 48))" using kids_range [of p ds "p + 48"] by auto
  have rep: "rep_items al t ?m (Some p) ipos ds (p + 48)"
    by (rule rep_cong(2) [OF pn(4)]) (use pos kp in auto)
  have "open_at al t ?m p ipos (ds @ [HTerm name v])"
    using attrs sibs rep pos by (simp del: HcsAlign_simps
        add: open_at_def term_addrs_append kids_append rep_items_append add.assoc)
  moreover have "mem_frame m ?m p" using pn(1) pos by (simp add: mem_frame_def node_core_def)
  ultimately show ?thesis using add by blast
qed

text \<open>Creating a child: it is open and empty, and linked as the last child of its parent.\<close>

lemma create_node_open:
  assumes opn: "open_at al t m p ipos ds" and room: "hm_pos m + 48 \<le> hm_size m"
  shows "\<exists>m1 pn1. CreateTreeNode al t pos (Some p) m = Some (hm_pos m, m1) \<and>
     open_at al t m1 (hm_pos m) jpos [] \<and> mem_frame m m1 p \<and>
     node_core (hm_nodes m1 (hm_pos m)) = Some (t + pos + int (HcsAlign al 1), of_int (pos + 20), Some p, None) \<and>
     hm_nodes m1 p = Some pn1 \<and>
     attr_chain (hm_attrs m1) (hn_attrData pn1) (rev (term_addrs ds (p + 48))) \<and>
     sib_chain (hm_nodes m1) (hn_child pn1) (kids ds (p + 48) @ [hm_pos m]) \<and>
     rep_items al t m1 (Some p) ipos ds (p + 48)"
proof -
  let ?a = "hm_pos m"
  from opn obtain pn where pn: "hm_nodes m p = Some pn"
    "attr_chain (hm_attrs m) (hn_attrData pn) (rev (term_addrs ds (p + 48)))"
    "sib_chain (hm_nodes m) (hn_child pn) (kids ds (p + 48))"
    "rep_items al t m (Some p) ipos ds (p + 48)" and pos: "?a = p + 48 + items_mem ds"
    by (auto simp: open_at_def)
  let ?nd = "\<lparr>hn_name = t + pos + HCS_PREFIX_LENGTH al, hn_hashValue = of_int (pos + 20), hn_attrData = None,
      hn_parent = Some p, hn_child = None, hn_sibling = None\<rparr>"
  let ?N = "(hm_nodes m)(?a \<mapsto> ?nd)"
  let ?m0 = "m\<lparr>hm_pos := ?a + 48, hm_nodes := ?N\<rparr>"
  have ne: "?a \<noteq> p" "p \<noteq> ?a" using pos by auto
  have kb: "k < ?a \<and> p < k" if "k \<in> set (kids ds (p + 48))" for k
    using kids_range [OF that] pos by simp
  have chain0: "sib_chain ?N (hn_child pn) (kids ds (p + 48))"
    using pn(3) sib_chain_cong [of "kids ds (p + 48)" ?N "hm_nodes m"] kb by fastforce
  show ?thesis
  proof (cases "kids ds (p + 48) = []")
    case True
    then have "hn_child pn = None" using pn(3) by simp
    let ?m1 = "?m0\<lparr>hm_nodes := ?N(p \<mapsto> pn\<lparr>hn_child := Some ?a\<rparr>)\<rparr>"
    have "CreateTreeNode al t pos (Some p) m = Some (?a, ?m1)"
      using room pn(1) ne \<open>hn_child pn = None\<close>
      by (simp add: CreateTreeNode_def update_node_def sizeof_DeviceResourceNode_def sizeof_HbcHeader_def Let_def)
    moreover have "rep_items al t ?m1 (Some p) ipos ds (p + 48)"
      by (rule rep_cong(2) [OF pn(4)]) (use pos True in auto)
    ultimately show ?thesis
      using pn(1,2) pos ne True by (simp del: HcsAlign_simps
          add: open_at_def mem_frame_def node_core_def HCS_PREFIX_LENGTH_eq)
  next
    case False
    let ?l = "last (kids ds (p + 48))"
    have l: "?l < ?a" "p < ?l" using kb [of ?l] False by auto
    obtain c ln where c: "hn_child pn = Some c" "last_sibling ?N c = Some ?l" "?N ?l = Some ln"
      "sib_chain (?N(?l \<mapsto> ln\<lparr>hn_sibling := Some ?a\<rparr>)) (hn_child pn) (kids ds (p + 48) @ [?a])"
      using sib_chain_snoc [OF chain0 False kids_distinct, of ?a ?nd] kb by fastforce
    let ?m1 = "?m0\<lparr>hm_nodes := ?N(?l \<mapsto> ln\<lparr>hn_sibling := Some ?a\<rparr>)\<rparr>"
    have "CreateTreeNode al t pos (Some p) m = Some (?a, ?m1)"
      using room pn(1) ne c(1-3) l
      by (simp add: CreateTreeNode_def update_node_def sizeof_DeviceResourceNode_def sizeof_HbcHeader_def Let_def)
    moreover have "rep_items al t ?m1 (Some p) ipos ds (p + 48)"
      by (rule rep_cong(2) [OF pn(4)]) (use pos c(3) l False kb [of ?a] in \<open>auto simp: nosib_def\<close>)
    ultimately show ?thesis
      using pn(1,2) pos ne l c(4) by (simp del: HcsAlign_simps
          add: open_at_def mem_frame_def node_core_def HCS_PREFIX_LENGTH_eq)
  qed
qed

lemma sib_chain_cong_sibling:
  "\<forall>a \<in> set as. map_option hn_sibling (N' a) = map_option hn_sibling (N a) \<Longrightarrow> sib_chain N' p as = sib_chain N p as"
proof (induction as arbitrary: p)
  case (Cons a as)
  then show ?case by (cases "N a"; cases "N' a") auto
qed simp

lemma node_core_sibling: "node_core x = node_core y \<Longrightarrow> map_option hn_sibling x = map_option hn_sibling y"
  by (cases x; cases y) (auto simp: node_core_def)

lemma load_node_open:
  assumes created: "node_core (hm_nodes m1 a) = Some (t + pos + int (HcsAlign al 1), of_int (pos + 20), Some p, None)"
      "hm_nodes m1 p = Some pn1" "attr_chain (hm_attrs m1) (hn_attrData pn1) (rev (term_addrs ds (p + 48)))"
      "sib_chain (hm_nodes m1) (hn_child pn1) (kids ds (p + 48) @ [a])"
      "rep_items al t m1 (Some p) ipos ds (p + 48)" "mem_frame m m1 p"
    and loaded: "open_at al t m' a (pos + int (node_header al name)) items" "mem_frame m1 m' a"
    and a: "a = p + 48 + items_mem ds" and pos: "pos = ipos + int (obj_subSize al ds)"
  shows "open_at al t m' p ipos (ds @ [HNode name items]) \<and> mem_frame m m' p"
proof -
  have below: "hm_nodes m' y = hm_nodes m1 y" "hm_attrs m' y = hm_attrs m1 y" if "y < a" for y
    using loaded(2) that by (auto simp: mem_frame_def)
  have core: "node_core (hm_nodes m' a) = node_core (hm_nodes m1 a)" using loaded(2) by (simp add: mem_frame_def)
  have kb: "k < a" if "k \<in> set (kids ds (p + 48))" for k using kids_range [OF that] a by simp
  have attrs: "attr_chain (hm_attrs m') (hn_attrData pn1) (rev (term_addrs ds (p + 48)))"
    using created(3) attr_chain_cong [of "rev (term_addrs ds (p + 48))" "hm_attrs m'" "hm_attrs m1"]
      below(2) term_addrs_range [of _ ds "p + 48"] a by fastforce
  have sibs: "sib_chain (hm_nodes m') (hn_child pn1) (kids ds (p + 48) @ [a])"
    using created(4) sib_chain_cong_sibling [of "kids ds (p + 48) @ [a]" "hm_nodes m'" "hm_nodes m1"]
      below(1) kb node_core_sibling [OF core] by auto
  have rep: "rep_items al t m' (Some p) ipos ds (p + 48)"
    by (rule rep_cong(2) [OF created(5)]) (use below kb a in auto)
  from loaded(1) obtain an where an: "hm_nodes m' a = Some an"
    "attr_chain (hm_attrs m') (hn_attrData an) (rev (term_addrs items (a + 48)))"
    "sib_chain (hm_nodes m') (hn_child an) (kids items (a + 48))"
    "rep_items al t m' (Some a) (pos + int (node_header al name)) items (a + 48)"
    "hm_pos m' = a + 48 + items_mem items"
    by (auto simp: open_at_def)
  have "rep_obj al t m' (Some p) pos (HNode name items) a"
    using an core [unfolded created(1)] by (simp add: node_core_def del: HcsAlign_simps)
  then have rep2: "rep_items al t m' (Some p) ipos (ds @ [HNode name items]) (p + 48)"
    using rep a pos by (simp add: rep_items_append del: rep_obj.simps)
  have pa: "p < a" using a by simp
  have "open_at al t m' p ipos (ds @ [HNode name items])"
    unfolding open_at_def
    using below(1) [OF pa] created(2) attrs sibs rep2 an(5) a
    by (intro exI [of _ pn1]) (simp del: rep_items.simps add: kids_append term_addrs_append)
  moreover have "mem_frame m m' p"
    using created(6) loaded(2) below pa by (auto simp: mem_frame_def)
  ultimately show ?thesis by simp
qed

lemma load_rep:
  "par = Some p \<Longrightarrow> open_at al t m p ipos ds \<Longrightarrow> hm_pos m + obj_mem x \<le> hm_size m \<Longrightarrow>
   pos = ipos + int (obj_subSize al ds) \<Longrightarrow> holds_at b (t + pos) (write_obj al x) \<Longrightarrow> obj_ok x \<Longrightarrow> blob_small b \<Longrightarrow>
   \<exists>m'. load_obj al b t par pos x m = Some m' \<and> open_at al t m' p ipos (ds @ [x]) \<and> mem_frame m m' p"
  "par = Some p \<Longrightarrow> open_at al t m p ipos ds \<Longrightarrow> hm_pos m + items_mem xs \<le> hm_size m \<Longrightarrow>
   pos = ipos + int (obj_subSize al ds) \<Longrightarrow> holds_at b (t + pos) (concat (map (write_obj al) xs)) \<Longrightarrow>
   list_all obj_ok xs \<Longrightarrow> blob_small b \<Longrightarrow>
   \<exists>m'. load_items al b t par pos xs m = Some m' \<and> open_at al t m' p ipos (ds @ xs) \<and> mem_frame m m' p"
proof (induction al b t par pos x m and al b t par pos xs m arbitrary: p ipos ds and p ipos ds
    rule: load_obj_load_items.induct)
  case (1 al b t par pos n v m)
  have room: "hm_pos m + 24 \<le> hm_size m" using 1(3) by simp
  from add_attr_open [OF 1(2) room _ 1(6,7)] 1(1,4,5) show ?case by auto
next
  case (2 al b t par pos n items m)
  let ?a = "hm_pos m"
  have a: "?a = p + 48 + items_mem ds" using 2(3) by (auto simp: open_at_def)
  have room: "hm_pos m + 48 \<le> hm_size m" using 2(4) by simp
  from create_node_open [OF 2(3) room, of pos "pos + int (node_header al n)"] obtain m1 pn1 where c:
    "CreateTreeNode al t pos par m = Some (?a, m1)" "open_at al t m1 ?a (pos + int (node_header al n)) []"
    "mem_frame m m1 p"
    "node_core (hm_nodes m1 ?a) = Some (t + pos + int (HcsAlign al 1), of_int (pos + 20), Some p, None)"
    "hm_nodes m1 p = Some pn1"
    "attr_chain (hm_attrs m1) (hn_attrData pn1) (rev (term_addrs ds (p + 48)))"
    "sib_chain (hm_nodes m1) (hn_child pn1) (kids ds (p + 48) @ [?a])"
    "rep_items al t m1 (Some p) ipos ds (p + 48)" unfolding 2(2) by blast
  have "hm_pos m1 = ?a + 48" using c(2) by (auto simp: open_at_def)
  moreover have "hm_size m1 = hm_size m" using c(3) by (simp add: mem_frame_def)
  ultimately have room1: "hm_pos m1 + items_mem items \<le> hm_size m1" using 2(4) by simp
  have "holds_at b (t + (pos + int (node_header al n))) (concat (map (write_obj al) items))"
    using node_parts(4) [OF 2(6)] by (simp add: add.assoc)
  with 2(1) [OF c(1) refl refl c(2) room1 _ this] 2(7,8) obtain m' where m':
    "load_items al b t (Some ?a) (pos + int (node_header al n)) items m1 = Some m'"
    "open_at al t m' ?a (pos + int (node_header al n)) items" "mem_frame m1 m' ?a"
    by auto
  from load_node_open [OF c(4-8) c(3) m'(2,3) a 2(5)] c(1) m'(1) show ?case by auto
next
  case (3 al b t par pos m)
  then show ?case by (auto simp: mem_frame_def)
next
  case (4 al b t par pos x xs m)
  have x: "holds_at b (t + pos) (write_obj al x)"
    and xs: "holds_at b (t + (pos + int (obj_size al x))) (concat (map (write_obj al) xs))"
    using holds_at_appendD [of b "t + pos" "write_obj al x" "concat (map (write_obj al) xs)"] 4(7)
    by (auto simp: add.assoc)
  have room: "hm_pos m + obj_mem x \<le> hm_size m" using 4(5) by simp
  obtain m1 where m1: "load_obj al b t par pos x m = Some m1" "open_at al t m1 p ipos (ds @ [x])" "mem_frame m m1 p"
    using 4(1) [OF 4(3,4) room 4(6) x _ 4(9)] 4(8) by auto
  have "hm_pos m1 = hm_pos m + obj_mem x" using m1(2) 4(4) by (auto simp: open_at_def)
  moreover have "hm_size m1 = hm_size m" using m1(3) by (simp add: mem_frame_def)
  ultimately have room1: "hm_pos m1 + items_mem xs \<le> hm_size m1" using 4(5) by simp
  have pos1: "pos + int (obj_size al x) = ipos + int (obj_subSize al (ds @ [x]))"
    using 4(6) by (simp add: obj_subSize_def)
  obtain m' where "load_items al b t par (pos + int (obj_size al x)) xs m1 = Some m'"
    "open_at al t m' p ipos ((ds @ [x]) @ xs)" "mem_frame m1 m' p"
    using 4(2) [OF m1(1) 4(3) m1(2) room1 pos1 xs _ 4(9)] 4(8) by auto
  with m1(1) mem_frame_trans [OF m1(3)] show ?case by auto
qed

section \<open>The measuring pass\<close>

lemma node_header_ge: "6 \<le> node_header al name"
  using HcsAlign_ge [of 1 al] HcsAlign_ge [of "Suc (length name)" al] unfolding node_header_def by linarith

lemma value_size_ge: "2 \<le> value_size al v"
proof (cases v)
  case (HString s)
  then show ?thesis using HcsAlign_ge [of "Suc (length s)" al] by auto
qed auto

lemma obj_mem_le: "obj_mem x \<le> 8 * obj_size al x"
proof (induction x)
  case (HTerm n v)
  then show ?case using HcsAlign_ge [of "Suc (length n)" al] value_size_ge [of al v] by auto
next
  case (HNode n items)
  have "items_mem items \<le> 8 * obj_subSize al items" using HNode by (induction items) fastforce+
  then show ?case using node_header_ge [of al n] by (simp add: obj_size_node del: obj_size.simps)
qed

lemma items_mem_le: "items_mem xs \<le> 8 * obj_subSize al xs"
proof (induction xs)
  case (Cons x xs)
  then show ?case using obj_mem_le [of x al] by simp
qed simp

lemma measure_follows:
  "holds_at b (t + pos) (write_obj al x) \<Longrightarrow> obj_ok x \<Longrightarrow> blob_small b \<Longrightarrow> 0 \<le> t \<Longrightarrow> 0 \<le> pos \<Longrightarrow>
   gs_mem st = None \<Longrightarrow> 0 \<le> gs_layer st \<Longrightarrow> gs_layer st + int (obj_mem x) < 2147483648 \<Longrightarrow>
   pos + int (obj_size al x) \<le> len \<Longrightarrow>
   gen_loop al b t len pos st =
   gen_loop al b t len (pos + int (obj_size al x)) (st\<lparr>gs_layer := gs_layer st + int (obj_mem x)\<rparr>)"
proof (induction x arbitrary: pos st)
  case (HTerm n v)
  let ?x = "HTerm n v"
  have pos: "0 < int (obj_size al ?x)" by simp
  have small: "pos + int (obj_size al ?x) < 2147483648"
    using holds_at_small [OF HTerm(1,3)] HTerm(4) by (simp del: write_obj.simps obj_size.simps)
  have "HcsGetPrefix al b (t + pos) = Some CONFIG_ATTR"
    using HcsGetPrefix_holds [of b "t + pos" al 2] holds_at_appendD(1) HTerm(1) by (force simp: CONFIG_ATTR_def)
  then have "ParseByteCode al b t pos st =
      Some (int (obj_size al ?x), st\<lparr>gs_layer := gs_layer st + int (obj_mem ?x)\<rparr>)"
    unfolding ParseByteCode_def HcsGetNodeOrAttrLength_term [OF HTerm(1-3)]
    using HTerm(6,7,8) pos by (simp del: obj_size.simps add: config_defs sizeof_DeviceResourceAttr_def)
  from gen_loop_step [OF this pos HTerm(5) small] HTerm(9) pos show ?case by simp
next
  case (HNode n items)
  let ?x = "HNode n items" and ?h = "int (node_header al n)"
  have pos: "0 < ?h" by (simp add: node_header_def)
  have ok: "0 \<notin> set n" "list_all obj_ok items" using HNode(3) by auto
  have size: "int (obj_size al ?x) = ?h + int (obj_subSize al items)" by (simp add: obj_size_node del: obj_size.simps)
  have small: "pos + int (obj_size al ?x) < 2147483648"
    using holds_at_small [OF HNode(2,4)] HNode(5) by (simp del: write_obj.simps obj_size.simps)
  have "ParseByteCode al b t pos st = Some (?h, st\<lparr>gs_layer := gs_layer st + 48\<rparr>)"
    unfolding ParseByteCode_def HcsGetNodeOrAttrLength_node [OF HNode(2) ok(1) HNode(4)]
    using HNode(7,8,9) pos node_parts(1) [OF HNode(2)]
    by (simp add: config_defs sizeof_DeviceResourceNode_def)
  from gen_loop_step [OF this pos HNode(6)]
  have step: "gen_loop al b t len pos st = gen_loop al b t len (pos + ?h) (st\<lparr>gs_layer := gs_layer st + 48\<rparr>)"
    using small size HNode(10) pos by simp
  have items: "gen_loop al b t len q s = gen_loop al b t len (q + int (obj_subSize al ys))
      (s\<lparr>gs_layer := gs_layer s + int (items_mem ys)\<rparr>)"
    if "set ys \<subseteq> set items" "holds_at b (t + q) (concat (map (write_obj al) ys))" "0 \<le> q" "gs_mem s = None"
      "0 \<le> gs_layer s" "gs_layer s + int (items_mem ys) < 2147483648" "q + int (obj_subSize al ys) \<le> len"
    for q s ys using that
  proof (induction ys arbitrary: q s)
    case Nil
    then show ?case by simp
  next
    case (Cons y ys)
    have y: "holds_at b (t + q) (write_obj al y)"
      and ys: "holds_at b (t + (q + int (obj_size al y))) (concat (map (write_obj al) ys))"
      using holds_at_appendD [of b "t + q" "write_obj al y" "concat (map (write_obj al) ys)"] Cons.prems(2)
      by (auto simp: add.assoc)
    have "obj_ok y" using ok(2) Cons.prems(1) by (auto simp: list_all_iff)
    have "gen_loop al b t len q s =
        gen_loop al b t len (q + int (obj_size al y)) (s\<lparr>gs_layer := gs_layer s + int (obj_mem y)\<rparr>)"
      by (rule HNode(1) [OF _ y \<open>obj_ok y\<close> HNode(4,5)]) (use Cons.prems in auto)
    also have "\<dots> = gen_loop al b t len (q + int (obj_size al y) + int (obj_subSize al ys))
        (s\<lparr>gs_layer := gs_layer s + int (obj_mem y) + int (items_mem ys)\<rparr>)"
      using Cons.IH [of "q + int (obj_size al y)" "s\<lparr>gs_layer := gs_layer s + int (obj_mem y)\<rparr>"] ys Cons.prems by simp
    finally show ?case by (simp add: add.assoc)
  qed
  have "holds_at b (t + (pos + ?h)) (concat (map (write_obj al) items))"
    using node_parts(4) [OF HNode(2)] by (simp add: add.assoc)
  with items [of items "pos + ?h" "st\<lparr>gs_layer := gs_layer st + 48\<rparr>"] step HNode(6-10) size pos
  show ?case by (simp add: add.assoc del: obj_size.simps)
qed

section \<open>Decompiling what was compiled\<close>

lemma GetParentNode_root: "GetParentNode 0 stack 0 term = Some (None, 0)"
  by (simp add: GetParentNode_def)

lemma gen_loop_end: "gen_loop al b t len len st = Some st"
  by (subst gen_loop.simps) simp

lemma CreateTreeNode_root:
  assumes "48 \<le> n"
  shows "\<exists>m1. CreateTreeNode al t 0 None \<lparr>hm_size = n, hm_pos = 0, hm_nodes = Map.empty, hm_attrs = Map.empty\<rparr> = Some (0, m1) \<and>
     open_at al t m1 0 jpos [] \<and> hm_size m1 = n \<and>
     node_core (hm_nodes m1 0) = Some (t + int (HcsAlign al 1), 20, None, None)"
  using assms
  by (simp del: HcsAlign_simps add: CreateTreeNode_def sizeof_DeviceResourceNode_def sizeof_HbcHeader_def Let_def
      open_at_def node_core_def HCS_PREFIX_LENGTH_eq)

text \<open>Both passes over a compiled root: the first returns the size the second needs.\<close>

lemma gen_passes_root:
  assumes at: "holds_at b t (write_obj al (HNode name items))" and ok: "obj_ok (HNode name items)"
    and small: "8 * int (length b) < 2147483648" and t: "0 \<le> t" and depth: "obj_depth (HNode name items) \<le> 63"
  defines "len \<equiv> int (obj_size al (HNode name items))" and "n \<equiv> obj_mem (HNode name items)"
  shows "GetHcsTreeSize True al b t len = Some (int n)"
    and "\<exists>layer m. GenerateCfgTree True al b t len
           (Some \<lparr>hm_size = n, hm_pos = 0, hm_nodes = Map.empty, hm_attrs = Map.empty\<rparr>) =
           Some (layer, Some (Some 0), Some m) \<and> 0 < layer \<and> hm_size m = n \<and> hm_pos m = n \<and>
           map_option hn_sibling (hm_nodes m 0) = Some None \<and> rep_obj al t m None 0 (HNode name items) 0"
proof -
  let ?x = "HNode name items" and ?h = "int (node_header al name)"
  have bs: "blob_small b" using small by (simp add: blob_small_def)
  have at0: "holds_at b (t + 0) (write_obj al ?x)" using at by simp
  have len_le: "len \<le> int (length b)"
    using holds_at_length [OF at] t by (simp add: len_def del: write_obj.simps obj_size.simps)
  have "int n \<le> 8 * len" using obj_mem_le [of ?x al] by (simp add: n_def len_def del: obj_size.simps)
  then have n_small: "int n < 2147483648" using small len_le by linarith
  have size: "len = ?h + int (obj_subSize al items)" by (simp add: len_def obj_size_node del: obj_size.simps)
  have pos: "0 < ?h" by (simp add: node_header_def)
  show "GetHcsTreeSize True al b t len = Some (int n)"
  proof -
    let ?st = "\<lparr>gs_mem = None, gs_stack = empty_stack, gs_layer = 0\<rparr>"
    have "gen_loop al b t len 0 ?st = gen_loop al b t len (0 + len) (?st\<lparr>gs_layer := gs_layer ?st + int n\<rparr>)"
      unfolding len_def n_def
      by (rule measure_follows [OF at0 ok bs t]) (use n_small in \<open>simp_all add: n_def len_def del: obj_size.simps\<close>)
    then show ?thesis by (simp add: GetHcsTreeSize_def GenerateCfgTree_def gen_loop_end)
  qed
  have "48 \<le> n" by (simp add: n_def)
  from CreateTreeNode_root [OF this, of al t ?h] obtain m1 where create:
    "CreateTreeNode al t 0 None \<lparr>hm_size = n, hm_pos = 0, hm_nodes = Map.empty, hm_attrs = Map.empty\<rparr> = Some (0, m1)"
    "open_at al t m1 0 ?h []" "hm_size m1 = n"
    "node_core (hm_nodes m1 0) = Some (t + int (HcsAlign al 1), 20, None, None)"
    by blast
  let ?m0 = "\<lparr>hm_size = n, hm_pos = 0, hm_nodes = Map.empty, hm_attrs = Map.empty\<rparr>"
  let ?st0 = "\<lparr>gs_mem = Some ?m0, gs_stack = empty_stack, gs_layer = 0\<rparr>"
  let ?st1 = "?st0\<lparr>gs_mem := Some m1, gs_stack := empty_stack[Suc 0 := \<lparr>ts_offset = len, ts_node = Some 0\<rparr>], gs_layer := int (Suc 0)\<rparr>"
  have ok': "0 \<notin> set name" "list_all obj_ok items" using ok by auto
  have parent: "GetParentNode 0 (gs_stack ?st0) (gs_layer ?st0) ?h = Some (None, int 0)"
    by (simp add: GetParentNode_root)
  have "ParseByteCode al b t 0 ?st0 = Some (?h, ?st1)"
    using ParseByteCode_node [OF at0 ok'(1) bs t order_refl _ create(1) parent] by (simp add: len_def del: obj_size.simps)
  from gen_loop_step [OF this pos order_refl, of len]
  have step: "gen_loop al b t len 0 ?st0 = gen_loop al b t len ?h ?st1"
    using size pos len_le small by auto
  have items: "holds_at b (t + ?h) (concat (map (write_obj al) items))" by (rule node_parts(4) [OF at])
  have "hm_pos m1 = 48" using create(2) by (auto simp: open_at_def)
  then have room: "hm_pos m1 + items_mem items \<le> hm_size m1" using create(3) by (simp add: n_def)
  obtain m' where m': "load_items al b t (Some 0) ?h items m1 = Some m'" "open_at al t m' 0 ?h items" "mem_frame m1 m' 0"
    using load_rep(2) [OF refl create(2) room _ items ok'(2) bs] by auto
  have top: "stack_at ?st1 1 (Some 0) ?h len"
    by (simp add: stack_at_def empty_stack_def TREE_STACK_MAX_def)
  obtain st' where st': "gen_loop al b t len ?h ?st1 = gen_loop al b t len (?h + int (obj_subSize al items)) st'"
    "gs_mem st' = Some m'" "stack_at st' 1 (Some 0) (?h + int (obj_subSize al items)) len"
    using load_follows(2) [OF m'(1) items ok'(2) bs t _ top] depth size by (auto simp: n_def)
  have "gen_loop al b t len 0 ?st0 = Some st'"
    using step st'(1) gen_loop_end [of al b t len st'] size by auto
  moreover have "0 < gs_layer st'" "ts_node (gs_stack st' ! 1) = Some 0" using st'(3) by (auto simp: stack_at_def)
  moreover have "hm_size m' = n" using m'(3) create(3) by (simp add: mem_frame_def)
  moreover have "hm_pos m' = n" using m'(2) by (auto simp: open_at_def n_def)
  moreover have core: "node_core (hm_nodes m' 0) = Some (t + int (HcsAlign al 1), 20, None, None)"
    using m'(3) create(4) by (simp add: mem_frame_def)
  moreover from core have "map_option hn_sibling (hm_nodes m' 0) = Some None"
    by (auto simp: node_core_def)
  moreover have "rep_obj al t m' None 0 ?x 0"
    using m'(2) core by (auto simp: open_at_def node_core_def simp del: HcsAlign_simps)
  ultimately show "\<exists>layer m. GenerateCfgTree True al b t len (Some ?m0) = Some (layer, Some (Some 0), Some m) \<and>
      0 < layer \<and> hm_size m = n \<and> hm_pos m = n \<and>
      map_option hn_sibling (hm_nodes m 0) = Some None \<and> rep_obj al t m None 0 ?x 0"
    using st'(2) by (simp add: GenerateCfgTree_def)
qed

definition hcs_blob_ok :: "hcs_obj \<Rightarrow> bool \<Rightarrow> bool" where
  "hcs_blob_ok root al \<longleftrightarrow> (\<exists>items. root = HNode HBC_ROOT_NAME items) \<and> obj_ok root \<and> obj_depth root \<le> 63 \<and>
     int (obj_size al root) + 20 \<le> HBC_BLOB_MAX_LENGTH"

lemma blob_layout:
  "HcsBytecodeOutput al major minor root =
     (le_bytes 4 HBC_MAGIC_NUMBER @ le_bytes 4 major @ le_bytes 4 minor @ le_bytes 4 (0 :: uint32_t) @
      le_bytes 4 (if al then - of_nat (obj_size al root) else of_nat (obj_size al root) :: uint32_t)) @ write_obj al root"
  by (simp add: HcsBytecodeOutput_def HcsOutputWriteAlign_def Let_def)

lemma blob_holds_root: "holds_at (HcsBytecodeOutput al major minor root) 20 (write_obj al root)"
proof -
  let ?h = "le_bytes 4 HBC_MAGIC_NUMBER @ le_bytes 4 major @ le_bytes 4 minor @ le_bytes 4 (0 :: uint32_t) @
      le_bytes 4 (if al then - of_nat (obj_size al root) else of_nat (obj_size al root) :: uint32_t)"
  show ?thesis unfolding blob_layout holds_at_def by (intro exI [of _ ?h] exI [of _ "[]"]) simp
qed

lemma blob_length: "length (HcsBytecodeOutput al major minor root) = 20 + obj_size al root"
  by (simp add: blob_layout)

lemma sint_of_nat: "n < 2147483648 \<Longrightarrow> sint (of_nat n :: 32 word) = int n"
  by (subst sint_small32) (simp_all add: unat_of_nat_32)

lemma sint_minus_of_nat: "n < 2147483648 \<Longrightarrow> sint (- of_nat n :: 32 word) = - int n"
proof -
  assume n: "n < 2147483648"
  have "(- of_nat n :: 32 word) = of_int (- int n)" by simp
  then have "sint (- of_nat n :: 32 word) = signed_take_bit 31 (- int n)"
    by (simp only: signed_of_int) simp
  then show ?thesis using n by (simp add: signed_take_bit_int_eq_self)
qed

lemma check_format_ok:
  assumes "hcs_blob_ok root al"
  shows "HcsCheckBlobFormat False (Some (HcsBytecodeOutput al major minor root))
     (int (length (HcsBytecodeOutput al major minor root))) = Some (True, al)"
proof -
  let ?b = "HcsBytecodeOutput al major minor root" and ?n = "obj_size al root"
  let ?t = "if al then - of_nat ?n else of_nat ?n :: uint32_t"
  obtain items where root: "root = HNode HBC_ROOT_NAME items" using assms by (auto simp: hcs_blob_ok_def)
  have n: "int ?n + 20 \<le> 10485760" using assms by (simp add: hcs_blob_ok_def HBC_BLOB_MAX_LENGTH_def)
  have n10: "10 \<le> ?n" using HcsAlign_ge [of 1 al] HcsAlign_ge [of "Suc (length HBC_ROOT_NAME)" al]
    unfolding root obj_size_node node_header_def by (simp add: HBC_ROOT_NAME_def del: HcsAlign_simps)
  have "holds_at ?b 0 (le_bytes 4 HBC_MAGIC_NUMBER)"
    unfolding blob_layout append_assoc holds_at_def by (intro exI [of _ "[]"] exI) (rule conjI, rule append_Nil [symmetric], simp)
  then have magic: "HcsByteCodeToUint32 ?b 0 = Some HBC_MAGIC_NUMBER"
    by (simp add: HcsByteCodeToUint32_def ptr_read_holds le_word_le_bytes)
  have "holds_at ?b 16 (le_bytes 4 ?t)"
    unfolding blob_layout holds_at_def
    by (rule exI [of _ "le_bytes 4 HBC_MAGIC_NUMBER @ le_bytes 4 major @ le_bytes 4 minor @ le_bytes 4 (0 :: uint32_t)"],
        rule exI [of _ "write_obj al root"]) simp
  then have total: "HcsByteCodeToUint32 ?b 16 = Some ?t"
    by (simp add: HcsByteCodeToUint32_def ptr_read_holds le_word_le_bytes)
  have si: "sint ?t = (if al then - int ?n else int ?n)"
  proof -
    have "?n < 2147483648" using n by simp
    from sint_of_nat [OF this] sint_minus_of_nat [OF this] show ?thesis by (cases al) simp_all
  qed
  have "hcs_string_length False (length HBC_ROOT_NAME) = 5"
    by (subst hcs_string_length_eq) (simp_all add: HBC_ROOT_NAME_def HcsAlign_def)
  moreover have "u32 (20 + int ?n) = 20 + int ?n" using n by simp
  ultimately show ?thesis
    using magic total n n10 si
    by (cases al) (simp_all add: HcsCheckBlobFormat_def CheckHcsBlobLength_def Let_def blob_length HBC_HEADER_LENGTH_def
        HBC_BLOB_MAX_LENGTH_def HCS_PREFIX_LENGTH_def HCS_DWORD_LENGTH_def)
qed

lemma decompile_compiled:
  assumes "hcs_blob_ok root al"
  shows "\<exists>m. HcsDecompile True True True al (HcsBytecodeOutput al major minor root) 20 = Some (Some (Some 0, m)) \<and>
           hm_pos m = hm_size m \<and> map_option hn_sibling (hm_nodes m 0) = Some None \<and> rep_obj al 20 m None 0 root 0"
proof -
  let ?b = "HcsBytecodeOutput al major minor root"
  obtain items where root: "root = HNode HBC_ROOT_NAME items" using assms by (auto simp: hcs_blob_ok_def)
  have at: "holds_at ?b 20 (write_obj al (HNode HBC_ROOT_NAME items))"
    unfolding root by (rule blob_holds_root)
  have ok: "obj_ok (HNode HBC_ROOT_NAME items)" "obj_depth (HNode HBC_ROOT_NAME items) \<le> 63"
    and small: "8 * int (length ?b) < 2147483648"
    using assms by (simp_all add: hcs_blob_ok_def root blob_length HBC_BLOB_MAX_LENGTH_def del: obj_size.simps)
  have "blob_small ?b" using small by (simp add: blob_small_def)
  then have len: "HcsGetNodeLength al ?b 20 = Some (int (obj_size al root))"
    using HcsGetNodeLength_node [OF at] ok(1) root by simp
  have "0 < obj_mem root" by (simp add: root)
  with gen_passes_root [OF at ok(1) small _ ok(2)] len show ?thesis
    by (auto simp: HcsDecompile_def root [symmetric] simp del: rep_obj.simps obj_size.simps obj_mem_node)
qed

text \<open>
  C1: decompiling inverts compiling.  For every configuration tree (nodes nested at most 63
  deep, at most 10 MiB of bytecode) and in both alignment modes, the blob that the bytecode
  back end of the compiler writes passes the format check, which detects the alignment mode,
  and the parser builds from it a block of exactly the measured size that represents the
  source tree: every node with its name, its parent, its children in source order, its
  attributes with their names and values, and as hash its offset in the blob.
\<close>

theorem hcs_decompile_inverts_compile:
  assumes "hcs_blob_ok root al" and "b = HcsBytecodeOutput al major minor root"
  shows "HcsCheckBlobFormat False (Some b) (int (length b)) = Some (True, al) \<and>
     (\<exists>m. HcsDecompile True True True al b 20 = Some (Some (Some 0, m)) \<and>
           hm_pos m = hm_size m \<and> rep_obj al 20 m None 0 root 0)"
proof
  show "HcsCheckBlobFormat False (Some b) (int (length b)) = Some (True, al)"
    unfolding assms(2) by (rule check_format_ok [OF assms(1)])
  show "\<exists>m. HcsDecompile True True True al b 20 = Some (Some (Some 0, m)) \<and>
      hm_pos m = hm_size m \<and> rep_obj al 20 m None 0 root 0"
    unfolding assms(2) using decompile_compiled [OF assms(1)] by blast
qed

theorem hcs_decompile_inverts_compile_witness:
  "\<exists>b m. HcsCheckBlobFormat False (Some b) (int (length b)) = Some (True, True) \<and>
     HcsDecompile True True True True b 20 = Some (Some (Some 0, m)) \<and>
     rep_obj True 20 m None 0 (HNode HBC_ROOT_NAME [HTerm [97] (HArray [HByte 1, HString [98]]), HNode [99] []]) 0"
proof -
  let ?r = "HNode HBC_ROOT_NAME [HTerm [97] (HArray [HByte 1, HString [98]]), HNode [99] []]"
  have "hcs_blob_ok ?r True"
    by (simp add: hcs_blob_ok_def HBC_ROOT_NAME_def HBC_BLOB_MAX_LENGTH_def HcsAlign_def pad4_def)
  from hcs_decompile_inverts_compile [OF this refl, of 7 0] show ?thesis by blast
qed

end
