(* ===== verification/Hcs_Query.thy ===== *)
theory Hcs_Query
  imports Hcs_Tree
begin

text \<open>
  Queries on the configuration tree: \<^verbatim>\<open>utils/src/hcs_parser/hcs_tree_if.c\<close>.

  A query takes the alignment mode \<open>al\<close>, the blob \<open>b\<close> and the block \<open>m\<close> of the tree.  Node and
  attribute pointers are options for null; a C string argument is the bytes before its
  terminator, \<^const>\<open>None\<close> for null; a value returned through a pointer is the second
  component of the result, \<^const>\<open>None\<close> when nothing is stored, and \<open>vp\<close> says whether that
  pointer is not null.
\<close>

section \<open>Attributes of a node\<close>

text \<open>Whether \<^verbatim>\<open>strcmp\<close> of the memory \<open>xs\<close> with a string is zero, reading until they differ.\<close>

fun strcmp_eq :: "bytes \<Rightarrow> bytes \<Rightarrow> bool option" where
  "strcmp_eq [] s = None"
| "strcmp_eq (x # xs) [] = Some (x = 0)"
| "strcmp_eq (x # xs) (y # ys) = (if x \<noteq> y then Some False else strcmp_eq xs ys)"

definition ptr_strcmp_eq :: "bytes \<Rightarrow> int \<Rightarrow> bytes \<Rightarrow> bool option" where
  "ptr_strcmp_eq b p s = (if p < 0 then None else strcmp_eq (drop (nat p) b) s)"

partial_function (option) attr_loop ::
    "(nat \<Rightarrow> DeviceResourceAttr option) \<Rightarrow> (DeviceResourceAttr \<Rightarrow> bool option) \<Rightarrow> nat option \<Rightarrow> nat option option" where
  "attr_loop A test p =
     (case p of None \<Rightarrow> Some None
      | Some a \<Rightarrow> do {
          attr \<leftarrow> A a;
          hit \<leftarrow> test attr;
          if hit then Some p else attr_loop A test (ha_next attr)
        })"

definition GetAttrInNode :: "bytes \<Rightarrow> hcs_mem \<Rightarrow> nat option \<Rightarrow> bytes option \<Rightarrow> nat option option" where
  "GetAttrInNode b m node attrName =
     (case (node, attrName) of
        (Some nd, Some name) \<Rightarrow> do {
          n \<leftarrow> hm_nodes m nd;
          attr_loop (hm_attrs m) (\<lambda>attr. ptr_strcmp_eq b (ha_name attr) name) (hn_attrData n)
        }
      | _ \<Rightarrow> Some None)"

text \<open>The attribute record found by a lookup, or null.\<close>

definition attr_at :: "hcs_mem \<Rightarrow> nat option \<Rightarrow> DeviceResourceAttr option option" where
  "attr_at m p = (case p of None \<Rightarrow> Some None | Some a \<Rightarrow> map_option Some (hm_attrs m a))"

definition find_attr :: "bytes \<Rightarrow> hcs_mem \<Rightarrow> nat option \<Rightarrow> bytes option \<Rightarrow> DeviceResourceAttr option option" where
  "find_attr b m node attrName = Option.bind (GetAttrInNode b m node attrName) (attr_at m)"

definition HcsGetBool :: "bool \<Rightarrow> bytes \<Rightarrow> hcs_mem \<Rightarrow> nat option \<Rightarrow> bytes option \<Rightarrow> bool option" where
  "HcsGetBool al b m node attrName = do {
     attr \<leftarrow> find_attr b m node attrName;
     (case attr of None \<Rightarrow> Some False
      | Some at \<Rightarrow> do {
          prefix \<leftarrow> HcsGetPrefix al b (ha_value at);
          r \<leftarrow> HcsSwapToUint8 al b (ha_value at + HCS_PREFIX_LENGTH al) prefix;
          Some (case r of None \<Rightarrow> False | Some v \<Rightarrow> v \<noteq> 0)
        })
   }"

type_synonym 'w swap = "bool \<Rightarrow> bytes \<Rightarrow> int \<Rightarrow> uint32_t \<Rightarrow> 'w option option"

text \<open>
  \<^verbatim>\<open>HcsGetUint8\<close> to \<^verbatim>\<open>HcsGetUint64\<close> differ in the conversion only, and so do the other
  families below; the conversion is a parameter.
\<close>

definition get_uint ::
    "'w swap \<Rightarrow> bool \<Rightarrow> bytes \<Rightarrow> hcs_mem \<Rightarrow> nat option \<Rightarrow> bytes option \<Rightarrow> bool \<Rightarrow> 'w \<Rightarrow> (HDF_STATUS \<times> 'w option) option" where
  "get_uint swap al b m node attrName vp dflt = do {
     attr \<leftarrow> find_attr b m node attrName;
     (case attr of None \<Rightarrow> Some (HDF_FAILURE, if vp then Some dflt else None)
      | Some at \<Rightarrow>
          if \<not> vp then Some (HDF_FAILURE, None)
          else do {
            prefix \<leftarrow> HcsGetPrefix al b (ha_value at);
            r \<leftarrow> swap al b (ha_value at + HCS_PREFIX_LENGTH al) prefix;
            Some (case r of None \<Rightarrow> (HDF_FAILURE, Some dflt) | Some v \<Rightarrow> (HDF_SUCCESS, Some v))
          })
   }"

definition HcsGetUint8 :: "bool \<Rightarrow> bytes \<Rightarrow> hcs_mem \<Rightarrow> nat option \<Rightarrow> bytes option \<Rightarrow> bool \<Rightarrow> uint8_t \<Rightarrow> (HDF_STATUS \<times> uint8_t option) option" where
  "HcsGetUint8 = get_uint HcsSwapToUint8"

definition HcsGetUint16 :: "bool \<Rightarrow> bytes \<Rightarrow> hcs_mem \<Rightarrow> nat option \<Rightarrow> bytes option \<Rightarrow> bool \<Rightarrow> uint16_t \<Rightarrow> (HDF_STATUS \<times> uint16_t option) option" where
  "HcsGetUint16 = get_uint HcsSwapToUint16"

definition HcsGetUint32 :: "bool \<Rightarrow> bytes \<Rightarrow> hcs_mem \<Rightarrow> nat option \<Rightarrow> bytes option \<Rightarrow> bool \<Rightarrow> uint32_t \<Rightarrow> (HDF_STATUS \<times> uint32_t option) option" where
  "HcsGetUint32 = get_uint HcsSwapToUint32"

definition HcsGetUint64 :: "bool \<Rightarrow> bytes \<Rightarrow> hcs_mem \<Rightarrow> nat option \<Rightarrow> bytes option \<Rightarrow> bool \<Rightarrow> uint64_t \<Rightarrow> (HDF_STATUS \<times> uint64_t option) option" where
  "HcsGetUint64 = get_uint HcsSwapToUint64"

section \<open>Arrays\<close>

text \<open>The loop of \<^verbatim>\<open>GetArrayElem\<close>, with the number of elements still to skip.\<close>

fun skip_elems :: "bool \<Rightarrow> bytes \<Rightarrow> int \<Rightarrow> nat \<Rightarrow> int \<Rightarrow> int option option" where
  "skip_elems al b value 0 off = Some (Some off)"
| "skip_elems al b value (Suc n) off = do {
     result \<leftarrow> HcsGetDataTypeOffset al b (value + off);
     if result < 0 then Some None else skip_elems al b value n (i32 (off + result))
   }"

definition GetArrayElem :: "bool \<Rightarrow> bytes \<Rightarrow> DeviceResourceAttr \<Rightarrow> uint32_t \<Rightarrow> int option option" where
  "GetArrayElem al b attr index = do {
     prefix \<leftarrow> HcsGetPrefix al b (ha_value attr);
     if prefix \<noteq> CONFIG_ARRAY then Some None
     else do {
       r \<leftarrow> HcsSwapToUint16 al b (ha_value attr + HCS_PREFIX_LENGTH al) CONFIG_WORD;
       (case r of None \<Rightarrow> Some None
        | Some count \<Rightarrow>
            if ucast count \<le> index then Some None
            else do {
              off \<leftarrow> skip_elems al b (ha_value attr) (unat index) (HCS_WORD_LENGTH al + HCS_PREFIX_LENGTH al);
              Some (map_option (\<lambda>o'. ha_value attr + o') off)
            })
     }
   }"

text \<open>The status for an element of the wrong type is a parameter: it differs at 64 bits.\<close>

definition get_elem ::
    "'w swap \<Rightarrow> HDF_STATUS \<Rightarrow> bool \<Rightarrow> bytes \<Rightarrow> hcs_mem \<Rightarrow> nat option \<Rightarrow> bytes option \<Rightarrow> uint32_t \<Rightarrow> bool \<Rightarrow> 'w \<Rightarrow>
     (HDF_STATUS \<times> 'w option) option" where
  "get_elem swap bad al b m node attrName index vp dflt = do {
     attr \<leftarrow> find_attr b m node attrName;
     (case attr of None \<Rightarrow> Some (HDF_FAILURE, if vp then Some dflt else None)
      | Some at \<Rightarrow>
          if \<not> vp then Some (HDF_FAILURE, None)
          else do {
            e \<leftarrow> GetArrayElem al b at index;
            (case e of None \<Rightarrow> Some (HDF_FAILURE, Some dflt)
             | Some realValue \<Rightarrow> do {
                 prefix \<leftarrow> HcsGetPrefix al b realValue;
                 r \<leftarrow> swap al b (realValue + HCS_PREFIX_LENGTH al) prefix;
                 Some (case r of None \<Rightarrow> (bad, Some dflt) | Some v \<Rightarrow> (HDF_SUCCESS, Some v))
               })
          })
   }"

definition HcsGetUint8ArrayElem :: "bool \<Rightarrow> bytes \<Rightarrow> hcs_mem \<Rightarrow> nat option \<Rightarrow> bytes option \<Rightarrow> uint32_t \<Rightarrow> bool \<Rightarrow> uint8_t \<Rightarrow> (HDF_STATUS \<times> uint8_t option) option" where
  "HcsGetUint8ArrayElem = get_elem HcsSwapToUint8 HDF_ERR_INVALID_OBJECT"

definition HcsGetUint16ArrayElem :: "bool \<Rightarrow> bytes \<Rightarrow> hcs_mem \<Rightarrow> nat option \<Rightarrow> bytes option \<Rightarrow> uint32_t \<Rightarrow> bool \<Rightarrow> uint16_t \<Rightarrow> (HDF_STATUS \<times> uint16_t option) option" where
  "HcsGetUint16ArrayElem = get_elem HcsSwapToUint16 HDF_ERR_INVALID_OBJECT"

definition HcsGetUint32ArrayElem :: "bool \<Rightarrow> bytes \<Rightarrow> hcs_mem \<Rightarrow> nat option \<Rightarrow> bytes option \<Rightarrow> uint32_t \<Rightarrow> bool \<Rightarrow> uint32_t \<Rightarrow> (HDF_STATUS \<times> uint32_t option) option" where
  "HcsGetUint32ArrayElem = get_elem HcsSwapToUint32 HDF_ERR_INVALID_OBJECT"

definition HcsGetUint64ArrayElem :: "bool \<Rightarrow> bytes \<Rightarrow> hcs_mem \<Rightarrow> nat option \<Rightarrow> bytes option \<Rightarrow> uint32_t \<Rightarrow> bool \<Rightarrow> uint64_t \<Rightarrow> (HDF_STATUS \<times> uint64_t option) option" where
  "HcsGetUint64ArrayElem = get_elem HcsSwapToUint64 HDF_FAILURE"

text \<open>
  The loops of the array readers, with the indices still to read: an element of the wrong
  type is recorded and the loop goes on, any other failure ends it.
\<close>

fun get_array_loop ::
    "(uint32_t \<Rightarrow> (HDF_STATUS \<times> 'w option) option) \<Rightarrow> uint32_t list \<Rightarrow> HDF_STATUS \<Rightarrow> (HDF_STATUS \<times> 'w option list) option" where
  "get_array_loop elem [] ret = Some (ret, [])"
| "get_array_loop elem (i # is) ret = do {
     r \<leftarrow> elem i;
     if fst r = HDF_ERR_INVALID_OBJECT
     then map_option (apsnd (Cons (snd r))) (get_array_loop elem is HDF_ERR_INVALID_OBJECT)
     else if fst r \<noteq> HDF_SUCCESS then Some (fst r, [snd r])
     else map_option (apsnd (Cons (snd r))) (get_array_loop elem is ret)
   }"

definition get_array ::
    "(uint32_t \<Rightarrow> (HDF_STATUS \<times> 'w option) option) \<Rightarrow> bool \<Rightarrow> uint32_t \<Rightarrow> (HDF_STATUS \<times> 'w option list) option" where
  "get_array elem vp len =
     (if \<not> vp \<or> len = 0 then Some (HDF_FAILURE, [])
      else get_array_loop elem (map of_nat [0..<unat len]) HDF_SUCCESS)"

definition HcsGetUint8Array :: "bool \<Rightarrow> bytes \<Rightarrow> hcs_mem \<Rightarrow> nat option \<Rightarrow> bytes option \<Rightarrow> bool \<Rightarrow> uint32_t \<Rightarrow> uint8_t \<Rightarrow> (HDF_STATUS \<times> uint8_t option list) option" where
  "HcsGetUint8Array al b m node attrName vp len dflt =
     get_array (\<lambda>i. HcsGetUint8ArrayElem al b m node attrName i True dflt) vp len"

definition HcsGetUint16Array :: "bool \<Rightarrow> bytes \<Rightarrow> hcs_mem \<Rightarrow> nat option \<Rightarrow> bytes option \<Rightarrow> bool \<Rightarrow> uint32_t \<Rightarrow> uint16_t \<Rightarrow> (HDF_STATUS \<times> uint16_t option list) option" where
  "HcsGetUint16Array al b m node attrName vp len dflt =
     get_array (\<lambda>i. HcsGetUint16ArrayElem al b m node attrName i True dflt) vp len"

definition HcsGetUint32Array :: "bool \<Rightarrow> bytes \<Rightarrow> hcs_mem \<Rightarrow> nat option \<Rightarrow> bytes option \<Rightarrow> bool \<Rightarrow> uint32_t \<Rightarrow> uint32_t \<Rightarrow> (HDF_STATUS \<times> uint32_t option list) option" where
  "HcsGetUint32Array al b m node attrName vp len dflt =
     get_array (\<lambda>i. HcsGetUint32ArrayElem al b m node attrName i True dflt) vp len"

text \<open>The 64-bit reader stops at the first failure of any kind.\<close>

fun get_array64_loop ::
    "(uint32_t \<Rightarrow> (HDF_STATUS \<times> 'w option) option) \<Rightarrow> uint32_t list \<Rightarrow> (HDF_STATUS \<times> 'w option list) option" where
  "get_array64_loop elem [] = Some (HDF_SUCCESS, [])"
| "get_array64_loop elem (i # is) = do {
     r \<leftarrow> elem i;
     if fst r \<noteq> HDF_SUCCESS then Some (fst r, [snd r])
     else map_option (apsnd (Cons (snd r))) (get_array64_loop elem is)
   }"

definition HcsGetUint64Array :: "bool \<Rightarrow> bytes \<Rightarrow> hcs_mem \<Rightarrow> nat option \<Rightarrow> bytes option \<Rightarrow> bool \<Rightarrow> uint32_t \<Rightarrow> uint64_t \<Rightarrow> (HDF_STATUS \<times> uint64_t option list) option" where
  "HcsGetUint64Array al b m node attrName vp len dflt =
     (if \<not> vp \<or> len = 0 then Some (HDF_FAILURE, [])
      else get_array64_loop (\<lambda>i. HcsGetUint64ArrayElem al b m node attrName i True dflt) (map of_nat [0..<unat len]))"

text \<open>A string result is a pointer into the blob, or the default \<open>dflt\<close> of the caller.\<close>

datatype 'd str_ref = InBlob int | Default 'd

definition HcsGetStringArrayElem ::
    "bool \<Rightarrow> bytes \<Rightarrow> hcs_mem \<Rightarrow> nat option \<Rightarrow> bytes option \<Rightarrow> uint32_t \<Rightarrow> bool \<Rightarrow> 'd \<Rightarrow> (HDF_STATUS \<times> 'd str_ref option) option" where
  "HcsGetStringArrayElem al b m node attrName index vp dflt = do {
     attr \<leftarrow> find_attr b m node attrName;
     (case attr of None \<Rightarrow> Some (HDF_FAILURE, if vp then Some (Default dflt) else None)
      | Some at \<Rightarrow>
          if \<not> vp then Some (HDF_FAILURE, None)
          else do {
            e \<leftarrow> GetArrayElem al b at index;
            (case e of None \<Rightarrow> Some (HDF_FAILURE, Some (Default dflt))
             | Some realValue \<Rightarrow> do {
                 prefix \<leftarrow> HcsGetPrefix al b realValue;
                 Some (if prefix \<noteq> CONFIG_STRING then (HDF_FAILURE, Some (Default dflt))
                       else (HDF_SUCCESS, Some (InBlob (realValue + HCS_PREFIX_LENGTH al))))
               })
          })
   }"

definition HcsGetString ::
    "bool \<Rightarrow> bytes \<Rightarrow> hcs_mem \<Rightarrow> nat option \<Rightarrow> bytes option \<Rightarrow> bool \<Rightarrow> 'd \<Rightarrow> (HDF_STATUS \<times> 'd str_ref option) option" where
  "HcsGetString al b m node attrName vp dflt = do {
     attr \<leftarrow> find_attr b m node attrName;
     (case attr of None \<Rightarrow> Some (HDF_FAILURE, if vp then Some (Default dflt) else None)
      | Some at \<Rightarrow>
          if \<not> vp then Some (HDF_FAILURE, None)
          else do {
            prefix \<leftarrow> HcsGetPrefix al b (ha_value at);
            Some (if prefix \<noteq> CONFIG_STRING then (HDF_FAILURE, Some (Default dflt))
                  else (HDF_SUCCESS, Some (InBlob (ha_value at + HCS_PREFIX_LENGTH al))))
          })
   }"

text \<open>\<^verbatim>\<open>HcsGetElemNum\<close> returns the count or the failure code.\<close>

definition HcsGetElemNum :: "bool \<Rightarrow> bytes \<Rightarrow> hcs_mem \<Rightarrow> nat option \<Rightarrow> bytes option \<Rightarrow> int option" where
  "HcsGetElemNum al b m node attrName = do {
     attr \<leftarrow> find_attr b m node attrName;
     (case attr of None \<Rightarrow> Some (hdf_status_code HDF_FAILURE)
      | Some at \<Rightarrow> do {
          prefix \<leftarrow> HcsGetPrefix al b (ha_value at);
          if prefix \<noteq> CONFIG_ARRAY then Some (hdf_status_code HDF_FAILURE)
          else do {
            r \<leftarrow> HcsSwapToUint16 al b (ha_value at + HCS_PREFIX_LENGTH al) CONFIG_WORD;
            num \<leftarrow> r;
            Some (uint num)
          }
        })
   }"

section \<open>Searching the tree\<close>

definition HCS_MATCH_ATTR :: bytes where
  "HCS_MATCH_ATTR = map of_nat [109, 97, 116, 99, 104, 95, 97, 116, 116, 114]"

definition GetAttrValueInNode :: "bool \<Rightarrow> bytes \<Rightarrow> hcs_mem \<Rightarrow> nat option \<Rightarrow> bytes option \<Rightarrow> nat option option" where
  "GetAttrValueInNode al b m node attrValue =
     (case (node, attrValue) of
        (Some nd, Some val) \<Rightarrow> do {
          n \<leftarrow> hm_nodes m nd;
          attr_loop (hm_attrs m)
            (\<lambda>attr. do {
               same \<leftarrow> ptr_strcmp_eq b (ha_value attr + HCS_PREFIX_LENGTH al) val;
               if \<not> same then Some False else ptr_strcmp_eq b (ha_name attr) HCS_MATCH_ATTR
             }) (hn_attrData n)
        }
      | _ \<Rightarrow> Some None)"

partial_function (option) climb :: "(nat \<Rightarrow> DeviceResourceNode option) \<Rightarrow> nat \<Rightarrow> nat option" where
  "climb N p =
     (case N p of None \<Rightarrow> None
      | Some nd \<Rightarrow> (case (hn_parent nd, hn_sibling nd) of (Some q, None) \<Rightarrow> climb N q | _ \<Rightarrow> Some p))"

definition TraverseTreeNode :: "hcs_mem \<Rightarrow> nat \<Rightarrow> nat option option" where
  "TraverseTreeNode m curNode = do {
     p \<leftarrow> climb (hm_nodes m) curNode;
     nd \<leftarrow> hm_nodes m p;
     Some (hn_sibling nd)
   }"

text \<open>The search loop the two lookups share, with the test each applies to a node.\<close>

partial_function (option) search_loop ::
    "hcs_mem \<Rightarrow> (nat \<Rightarrow> bool option) \<Rightarrow> nat option \<Rightarrow> nat option option" where
  "search_loop m test curNode =
     (case curNode of None \<Rightarrow> Some None
      | Some p \<Rightarrow> do {
          hit \<leftarrow> test p;
          if hit then Some curNode
          else do {
            nd \<leftarrow> hm_nodes m p;
            nextNode \<leftarrow> (case hn_child nd of Some c \<Rightarrow> Some (Some c) | None \<Rightarrow> TraverseTreeNode m p);
            search_loop m test nextNode
          }
        })"

text \<open>\<open>root\<close> is the result of \<^verbatim>\<open>GetRootNode\<close>.\<close>

definition HcsGetNodeByMatchAttr ::
    "bool \<Rightarrow> bytes \<Rightarrow> hcs_mem \<Rightarrow> nat option \<Rightarrow> nat option \<Rightarrow> bytes option \<Rightarrow> nat option option" where
  "HcsGetNodeByMatchAttr al b m root node attrValue =
     (if attrValue = None then Some None
      else search_loop m (\<lambda>p. map_option (\<lambda>r. r \<noteq> None) (GetAttrValueInNode al b m (Some p) attrValue))
             (if node \<noteq> None then node else root))"

partial_function (option) child_loop ::
    "hcs_mem \<Rightarrow> (DeviceResourceNode \<Rightarrow> bool option) \<Rightarrow> nat option \<Rightarrow> nat option option" where
  "child_loop m test p =
     (case p of None \<Rightarrow> Some None
      | Some c \<Rightarrow> do {
          nd \<leftarrow> hm_nodes m c;
          hit \<leftarrow> test nd;
          if hit then Some p else child_loop m test (hn_sibling nd)
        })"

definition HcsGetChildNode :: "bytes \<Rightarrow> hcs_mem \<Rightarrow> nat option \<Rightarrow> bytes option \<Rightarrow> nat option option" where
  "HcsGetChildNode b m node nodeName =
     (case (node, nodeName) of
        (Some nd, Some name) \<Rightarrow> do {
          n \<leftarrow> hm_nodes m nd;
          child_loop m (\<lambda>c. ptr_strcmp_eq b (hn_name c) name) (hn_child n)
        }
      | _ \<Rightarrow> Some None)"

definition HcsGetNodeByRefAttr ::
    "bool \<Rightarrow> bytes \<Rightarrow> hcs_mem \<Rightarrow> nat option \<Rightarrow> nat option \<Rightarrow> bytes option \<Rightarrow> nat option option" where
  "HcsGetNodeByRefAttr al b m root node attrName = do {
     attr \<leftarrow> find_attr b m node attrName;
     (case attr of None \<Rightarrow> Some None
      | Some at \<Rightarrow> do {
          prefix \<leftarrow> HcsGetPrefix al b (ha_value at);
          if prefix \<noteq> CONFIG_REFERENCE then Some None
          else do {
            r \<leftarrow> HcsSwapToUint32 al b (ha_value at + HCS_PREFIX_LENGTH al) CONFIG_DWORD;
            attrValue \<leftarrow> r;
            search_loop m (\<lambda>p. map_option (\<lambda>nd. hn_hashValue nd = attrValue) (hm_nodes m p)) root
          }
        })
   }"

section \<open>Lookup of an attribute\<close>

lemma strcmp_eq_string:
  "0 \<notin> set n \<Longrightarrow> 0 \<notin> set s \<Longrightarrow> strcmp_eq (n @ 0 # rest) s = Some (n = s)"
proof (induction n arbitrary: s)
  case Nil
  then show ?case by (cases s) auto
next
  case (Cons x n)
  then show ?case by (cases s) auto
qed

lemma ptr_strcmp_holds:
  "holds_at b p (n @ [0]) \<Longrightarrow> 0 \<notin> set n \<Longrightarrow> 0 \<notin> set s \<Longrightarrow> ptr_strcmp_eq b p s = Some (n = s)"
  by (auto simp: holds_at_def ptr_strcmp_eq_def strcmp_eq_string)

lemma attr_loop_chain:
  "attr_chain A p as \<Longrightarrow> \<forall>a \<in> set as. \<forall>at. A a = Some at \<longrightarrow> test at = Some (P a) \<Longrightarrow>
   attr_loop A test p = Some (List.find P as)"
proof (induction as arbitrary: p)
  case Nil
  then show ?case by (simp add: attr_loop.simps)
next
  case (Cons a as)
  then obtain at where "p = Some a" "A a = Some at" "attr_chain A (ha_next at) as" by (auto split: option.splits)
  with Cons show ?case by (subst attr_loop.simps) auto
qed

text \<open>The attributes of a node: address, name, value and position of each.\<close>

fun located_terms :: "bool \<Rightarrow> int \<Rightarrow> hcs_obj list \<Rightarrow> nat \<Rightarrow> (nat \<times> bytes \<times> hcs_value) list" where
  "located_terms al pos [] a = []"
| "located_terms al pos (HTerm n v # xs) a =
     (a, n, v) # located_terms al (pos + int (obj_size al (HTerm n v))) xs (a + obj_mem (HTerm n v))"
| "located_terms al pos (HNode n items # xs) a =
     located_terms al (pos + int (obj_size al (HNode n items))) xs (a + obj_mem (HNode n items))"

fun terms_of :: "hcs_obj list \<Rightarrow> (bytes \<times> hcs_value) list" where
  "terms_of [] = []"
| "terms_of (HTerm n v # xs) = (n, v) # terms_of xs"
| "terms_of (HNode _ _ # xs) = terms_of xs"

text \<open>What a lookup by name finds: the last attribute of that name in the source.\<close>

definition lookup_term :: "bytes \<Rightarrow> hcs_obj list \<Rightarrow> hcs_value option" where
  "lookup_term nm items = map_option snd (List.find (\<lambda>nv. fst nv = nm) (rev (terms_of items)))"

lemma map_fst_located: "map fst (located_terms al pos items a) = term_addrs items a"
  by (induction al pos items a rule: located_terms.induct) auto

lemma map_snd_located: "map snd (located_terms al pos items a) = terms_of items"
  by (induction al pos items a rule: located_terms.induct) auto

lemma located_terms_hold:
  "rep_items al t m par pos items a \<Longrightarrow> holds_at b (t + pos) (concat (map (write_obj al) items)) \<Longrightarrow>
   list_all obj_ok items \<Longrightarrow> (x, n, v) \<in> set (located_terms al pos items a) \<Longrightarrow>
   \<exists>at. hm_attrs m x = Some at \<and> holds_at b (ha_name at) (n @ [0]) \<and> 0 \<notin> set n \<and>
     holds_at b (ha_value at) (write_value al v) \<and> value_ok v"
proof (induction al pos items a rule: located_terms.induct)
  case (1 al pos a)
  then show ?case by simp
next
  case (2 al pos n' v' xs a)
  have split: "holds_at b (t + pos) (write_obj al (HTerm n' v'))"
    "holds_at b (t + (pos + int (obj_size al (HTerm n' v')))) (concat (map (write_obj al) xs))"
    using holds_at_appendD [of b "t + pos" "write_obj al (HTerm n' v')" "concat (map (write_obj al) xs)"] 2(3)
    by (auto simp: add.assoc simp del: write_obj.simps obj_size.simps)
  have parts: "HcsOutputWriteAlign al [0x02] @ HcsOutputWriteAlign al (n' @ [0]) @ write_value al v' = write_obj al (HTerm n' v')"
    by simp
  note s1 = holds_at_appendD(2) [OF split(1) [folded parts]]
  have name: "holds_at b (t + pos + int (HcsAlign al 1)) (n' @ [0])"
    using holds_at_output [OF holds_at_appendD(1) [OF s1]] by simp
  have val: "holds_at b (t + pos + int (HcsAlign al 1) + int (HcsAlign al (Suc (length n')))) (write_value al v')"
    using holds_at_appendD(2) [OF s1] by simp
  from 2(2) obtain at where at: "hm_attrs m a = Some at" "ha_name at = t + pos + int (HcsAlign al 1)"
    "ha_value at = t + pos + int (HcsAlign al 1) + int (HcsAlign al (Suc (length n')))"
    by (auto split: option.splits simp del: HcsAlign_simps)
  show ?case
  proof (cases "(x, n, v) \<in> set (located_terms al (pos + int (obj_size al (HTerm n' v'))) xs (a + obj_mem (HTerm n' v')))")
    case True
    with 2(1) [OF _ split(2) _ True] 2(2,4) show ?thesis by simp
  next
    case False
    with 2(5) have "x = a" "n = n'" "v = v'" by auto
    with at name val 2(4) show ?thesis by simp
  qed
next
  case (3 al pos n' items xs a)
  have "holds_at b (t + (pos + int (obj_size al (HNode n' items)))) (concat (map (write_obj al) xs))"
    using holds_at_appendD(2) [of b "t + pos" "write_obj al (HNode n' items)" "concat (map (write_obj al) xs)"] 3(3)
    by (simp add: add.assoc del: write_obj.simps obj_size.simps)
  with 3 show ?case by (simp del: obj_size.simps rep_obj.simps)
qed

lemma List_find_map: "List.find P (map f xs) = map_option f (List.find (P \<circ> f) xs)"
  by (induction xs) auto

lemma List_find_cong: "(\<And>x. x \<in> set xs \<Longrightarrow> P x = Q x) \<Longrightarrow> List.find P xs = List.find Q xs"
  by (induction xs) auto

lemma List_find_mem: "List.find P xs = Some x \<Longrightarrow> x \<in> set xs \<and> P x"
  by (induction xs) (auto split: if_splits)

text \<open>A represented node whose bytes lie in the blob.\<close>

definition node_in :: "bool \<Rightarrow> int \<Rightarrow> bytes \<Rightarrow> hcs_mem \<Rightarrow> nat option \<Rightarrow> int \<Rightarrow> bytes \<Rightarrow> hcs_obj list \<Rightarrow> nat \<Rightarrow> bool" where
  "node_in al t b m par pos name items a \<longleftrightarrow>
     rep_obj al t m par pos (HNode name items) a \<and> holds_at b (t + pos) (write_obj al (HNode name items)) \<and>
     obj_ok (HNode name items) \<and> blob_small b"

lemma find_attr_node:
  assumes "node_in al t b m par pos name items a" "0 \<notin> set nm"
  shows "case lookup_term nm items of
      None \<Rightarrow> find_attr b m (Some a) (Some nm) = Some None
    | Some v \<Rightarrow> \<exists>at. find_attr b m (Some a) (Some nm) = Some (Some at) \<and>
        holds_at b (ha_value at) (write_value al v) \<and> value_ok v"
proof -
  let ?q = "pos + int (node_header al name)"
  let ?ts = "located_terms al ?q items (a + 48)"
  from assms obtain nd where nd: "hm_nodes m a = Some nd"
    "attr_chain (hm_attrs m) (hn_attrData nd) (rev (term_addrs items (a + 48)))"
    "rep_items al t m (Some a) ?q items (a + 48)"
    by (auto simp: node_in_def split: option.splits)
  have bytes: "holds_at b (t + ?q) (concat (map (write_obj al) items))" and ok: "list_all obj_ok items"
    using assms(1) node_parts(4) [of b "t + pos" al name items]
    by (auto simp: node_in_def add.assoc simp del: write_obj.simps rep_obj.simps)
  note hold = located_terms_hold [OF nd(3) bytes ok]
  define P where "P x = (\<exists>n v. (x, n, v) \<in> set ?ts \<and> n = nm)" for x
  have uniq: "(x, n, v) \<in> set ?ts \<Longrightarrow> (x, n', v') \<in> set ?ts \<Longrightarrow> n' = n \<and> v' = v" for x n v n' v'
  proof -
    have "distinct (map fst ?ts)" unfolding map_fst_located by (rule term_addrs_distinct)
    then show "(x, n, v) \<in> set ?ts \<Longrightarrow> (x, n', v') \<in> set ?ts \<Longrightarrow> n' = n \<and> v' = v"
      by (metis Pair_inject eq_key_imp_eq_value)
  qed
  have test: "ptr_strcmp_eq b (ha_name at) nm = Some (P x)" if "x \<in> set (term_addrs items (a + 48))" "hm_attrs m x = Some at" for x at
  proof -
    from that(1) obtain n v where in_ts: "(x, n, v) \<in> set ?ts"
      unfolding map_fst_located [of al ?q, symmetric] by auto
    from hold [OF this] that(2) have "ptr_strcmp_eq b (ha_name at) nm = Some (n = nm)"
      using ptr_strcmp_holds assms(2) by fastforce
    moreover have "P x \<longleftrightarrow> n = nm" using in_ts uniq by (auto simp: P_def)
    ultimately show ?thesis by simp
  qed
  have get: "GetAttrInNode b m (Some a) (Some nm) = Some (List.find P (rev (term_addrs items (a + 48))))"
    using nd(1) attr_loop_chain [OF nd(2), of "\<lambda>at. ptr_strcmp_eq b (ha_name at) nm" P] test
    by (simp add: GetAttrInNode_def)
  have "List.find P (rev (term_addrs items (a + 48))) = map_option fst (List.find (P \<circ> fst) (rev ?ts))"
    unfolding map_fst_located [of al ?q, symmetric] rev_map List_find_map ..
  also have "List.find (P \<circ> fst) (rev ?ts) = List.find (\<lambda>z. fst (snd z) = nm) (rev ?ts)"
    by (rule List_find_cong) (use uniq in \<open>auto simp: P_def\<close>)
  finally have addr: "GetAttrInNode b m (Some a) (Some nm) =
      Some (map_option fst (List.find (\<lambda>z. fst (snd z) = nm) (rev ?ts)))" using get by simp
  have val: "lookup_term nm items = map_option (snd \<circ> snd) (List.find (\<lambda>z. fst (snd z) = nm) (rev ?ts))"
    unfolding lookup_term_def map_snd_located [of al ?q items "a + 48", symmetric] rev_map List_find_map
    by (simp add: comp_def option.map_comp)
  show ?thesis
  proof (cases "List.find (\<lambda>z. fst (snd z) = nm) (rev ?ts)")
    case None
    with addr val show ?thesis by (simp add: find_attr_def attr_at_def)
  next
    case (Some z)
    then have "z \<in> set ?ts" using List_find_mem [OF Some] by simp
    with hold [of "fst z" "fst (snd z)" "snd (snd z)"] Some addr val show ?thesis
      by (auto simp: find_attr_def attr_at_def)
  qed
qed

section \<open>Values\<close>

text \<open>
  What a getter of each width accepts: integers of at most that width, zero-extended.
\<close>

fun value_u8 :: "hcs_value \<Rightarrow> uint8_t option" where
  "value_u8 (HByte w) = Some w"
| "value_u8 _ = None"

fun value_u16 :: "hcs_value \<Rightarrow> uint16_t option" where
  "value_u16 (HByte w) = Some (ucast w)"
| "value_u16 (HWord w) = Some w"
| "value_u16 _ = None"

fun value_u32 :: "hcs_value \<Rightarrow> uint32_t option" where
  "value_u32 (HByte w) = Some (ucast w)"
| "value_u32 (HWord w) = Some (ucast w)"
| "value_u32 (HDword w) = Some w"
| "value_u32 _ = None"

fun value_u64 :: "hcs_value \<Rightarrow> uint64_t option" where
  "value_u64 (HByte w) = Some (ucast w)"
| "value_u64 (HWord w) = Some (ucast w)"
| "value_u64 (HDword w) = Some (ucast w)"
| "value_u64 (HQword w) = Some w"
| "value_u64 _ = None"

lemma value_body:
  assumes "holds_at b p (write_value al v)"
  shows "v = HByte w8 \<Longrightarrow> holds_at b (p + HCS_PREFIX_LENGTH al) (HcsOutputWriteAlign al (le_bytes 1 w8))"
    and "v = HWord w16 \<Longrightarrow> holds_at b (p + HCS_PREFIX_LENGTH al) (HcsOutputWriteAlign al (le_bytes 2 w16))"
    and "v = HDword w32 \<Longrightarrow> holds_at b (p + HCS_PREFIX_LENGTH al) (HcsOutputWriteAlign al (le_bytes 4 w32))"
    and "v = HQword w64 \<Longrightarrow> holds_at b (p + HCS_PREFIX_LENGTH al) (HcsOutputWriteAlign al (le_bytes 8 w64))"
    and "v = HString s \<Longrightarrow> holds_at b (p + HCS_PREFIX_LENGTH al) (HcsOutputWriteAlign al (s @ [0]))"
    and "v = HRef w32 \<Longrightarrow> holds_at b (p + HCS_PREFIX_LENGTH al) (HcsOutputWriteAlign al (le_bytes 4 w32))"
  using assms unfolding HCS_PREFIX_LENGTH_eq
  by (auto dest!: holds_at_appendD(2) simp del: le_bytes.simps)

lemma HcsSwapToUint8_byte:
  assumes "holds_at b p (HcsOutputWriteAlign al (le_bytes 1 (w :: uint8_t)))"
  shows "HcsSwapToUint8 al b p CONFIG_BYTE = Some (Some w)"
proof (cases al)
  case True
  have "(ucast (le_word (le_bytes 1 w) :: uint32_t) :: uint8_t) = le_word (le_bytes 1 w)"
    by (rule bit_word_eqI) (simp add: le_word_bit bit_simps del: le_bytes.simps)
  with True assms show ?thesis
    using le_word_le_bytes [of 1 w] by (simp add: HcsSwapToUint8_def read_u32_aligned del: le_bytes.simps)
next
  case False
  then have "ptr_read b p 1 = Some (le_bytes 1 w)"
    using ptr_read_holds [OF holds_at_output [OF assms]] by (simp del: le_bytes.simps)
  with False show ?thesis
    using le_word_le_bytes [of 1 w] by (simp add: HcsSwapToUint8_def HcsByteCodeToUint8_def del: le_bytes.simps)
qed

lemma HcsSwapToUint32_dword:
  "holds_at b p (HcsOutputWriteAlign al (le_bytes 4 w)) \<Longrightarrow> HcsSwapToUint32 al b p CONFIG_DWORD = Some (Some w)"
  using ptr_read_holds [OF holds_at_output, of b p al "le_bytes 4 w" 4] by (simp add: HcsSwapToUint32_def HcsByteCodeToUint32_def le_word_le_bytes)

lemma HcsSwapToUint64_qword:
  "holds_at b p (HcsOutputWriteAlign al (le_bytes 8 w)) \<Longrightarrow> HcsSwapToUint64 al b p CONFIG_QWORD = Some (Some w)"
  using ptr_read_holds [OF holds_at_output, of b p al "le_bytes 8 w" 8] by (simp add: HcsSwapToUint64_def HcsByteCodeToUint64_def le_word_le_bytes)

text \<open>\<open>swap\<close> reads exactly the values that \<open>f\<close> describes.\<close>

definition swap_reads :: "'w swap \<Rightarrow> (hcs_value \<Rightarrow> 'w option) \<Rightarrow> bool" where
  "swap_reads swap f \<longleftrightarrow> (\<forall>al b p v. holds_at b p (write_value al v) \<longrightarrow>
     swap al b (p + HCS_PREFIX_LENGTH al) (ucast (value_code v)) = Some (f v))"

lemma swap_reads_u8: "swap_reads HcsSwapToUint8 value_u8"
  unfolding swap_reads_def
proof (intro allI impI)
  fix al b p v assume at: "holds_at b p (write_value al v)"
  show "HcsSwapToUint8 al b (p + HCS_PREFIX_LENGTH al) (ucast (value_code v)) = Some (value_u8 v)"
    using HcsSwapToUint8_byte [OF value_body(1) [OF at]]
    by (cases v) (simp_all add: config_defs HcsSwapToUint8_def [of _ _ _ 17] HcsSwapToUint8_def [of _ _ _ 18]
        HcsSwapToUint8_def [of _ _ _ 19] HcsSwapToUint8_def [of _ _ _ 20] HcsSwapToUint8_def [of _ _ _ 3]
        HcsSwapToUint8_def [of _ _ _ 4] del: le_bytes.simps)
qed

lemma ucast_up_16_32 [simp]: "(ucast (ucast (w :: 8 word) :: 16 word) :: 32 word) = ucast w"
  by (rule bit_word_eqI) (auto simp: bit_simps dest: bit_imp_le_length)

lemma ucast_up_32_64 [simp]: "(ucast (ucast (w :: 8 word) :: 32 word) :: 64 word) = ucast w"
  by (rule bit_word_eqI) (auto simp: bit_simps dest: bit_imp_le_length)

lemma ucast_up_32_64' [simp]: "(ucast (ucast (w :: 16 word) :: 32 word) :: 64 word) = ucast w"
  by (rule bit_word_eqI) (auto simp: bit_simps dest: bit_imp_le_length)

lemma swap_reads_u16: "swap_reads HcsSwapToUint16 value_u16"
  unfolding swap_reads_def
proof (intro allI impI)
  fix al b p v assume at: "holds_at b p (write_value al v)"
  note r8 = swap_reads_u8 [unfolded swap_reads_def, rule_format, OF at]
  show "HcsSwapToUint16 al b (p + HCS_PREFIX_LENGTH al) (ucast (value_code v)) = Some (value_u16 v)"
  proof (cases v)
    case (HWord w)
    with HcsSwapToUint16_count [OF value_body(2) [OF at HWord]] show ?thesis by (simp add: config_defs)
  qed (use r8 in \<open>simp_all add: HcsSwapToUint16_def CONFIG_WORD_def\<close>)
qed

lemma swap_reads_u32: "swap_reads HcsSwapToUint32 value_u32"
  unfolding swap_reads_def
proof (intro allI impI)
  fix al b p v assume at: "holds_at b p (write_value al v)"
  note r16 = swap_reads_u16 [unfolded swap_reads_def, rule_format, OF at]
  show "HcsSwapToUint32 al b (p + HCS_PREFIX_LENGTH al) (ucast (value_code v)) = Some (value_u32 v)"
  proof (cases v)
    case (HDword w)
    with HcsSwapToUint32_dword [OF value_body(3) [OF at HDword]] show ?thesis by (simp add: config_defs)
  qed (use r16 in \<open>simp_all add: HcsSwapToUint32_def CONFIG_DWORD_def\<close>)
qed

lemma swap_reads_u64: "swap_reads HcsSwapToUint64 value_u64"
  unfolding swap_reads_def
proof (intro allI impI)
  fix al b p v assume at: "holds_at b p (write_value al v)"
  note r32 = swap_reads_u32 [unfolded swap_reads_def, rule_format, OF at]
  show "HcsSwapToUint64 al b (p + HCS_PREFIX_LENGTH al) (ucast (value_code v)) = Some (value_u64 v)"
  proof (cases v)
    case (HQword w)
    with HcsSwapToUint64_qword [OF value_body(4) [OF at HQword]] show ?thesis by (simp add: config_defs)
  qed (use r32 in \<open>simp_all add: HcsSwapToUint64_def CONFIG_QWORD_def\<close>)
qed

lemmas swap_reads_all = swap_reads_u8 swap_reads_u16 swap_reads_u32 swap_reads_u64

lemma get_uint_node:
  assumes "swap_reads swap f" "node_in al t b m par pos name items a" "0 \<notin> set nm"
  shows "get_uint swap al b m (Some a) (Some nm) True dflt =
     Some (case Option.bind (lookup_term nm items) f of
       None \<Rightarrow> (HDF_FAILURE, Some dflt) | Some w \<Rightarrow> (HDF_SUCCESS, Some w))"
proof (cases "lookup_term nm items")
  case None
  with find_attr_node [OF assms(2,3)] show ?thesis by (simp add: get_uint_def)
next
  case (Some v)
  with find_attr_node [OF assms(2,3)] obtain at where at: "find_attr b m (Some a) (Some nm) = Some (Some at)"
    "holds_at b (ha_value at) (write_value al v)" by auto
  have "swap al b (ha_value at + HCS_PREFIX_LENGTH al) (ucast (value_code v)) = Some (f v)"
    using assms(1) at(2) by (auto simp: swap_reads_def)
  with at(1) prefix_of_value [OF at(2)] Some show ?thesis by (simp add: get_uint_def split: option.splits)
qed

text \<open>Skipping elements lands on the element asked for.\<close>

lemma skip_elems_values:
  assumes "holds_at b (value + off) (concat (map (write_value al) vs))" "list_all scalar_ok vs" "blob_small b"
    "0 \<le> off" "0 \<le> value" "i < length vs"
  shows "\<exists>off'. skip_elems al b value i off = Some (Some off') \<and> holds_at b (value + off') (write_value al (vs ! i))"
  using assms
proof (induction vs arbitrary: off i)
  case Nil
  then show ?case by simp
next
  case (Cons v vs)
  have v: "holds_at b (value + off) (write_value al v)"
    and vs: "holds_at b (value + off + int (value_size al v)) (concat (map (write_value al) vs))"
    using holds_at_appendD [of b "value + off" "write_value al v" "concat (map (write_value al) vs)"] Cons.prems(1)
    by auto
  show ?case
  proof (cases i)
    case 0
    with v show ?thesis by simp
  next
    case (Suc j)
    have "HcsGetDataTypeOffset al b (value + off) = Some (int (value_size al v))"
      using HcsGetDataTypeOffset_value [OF v] Cons.prems(2,3) by simp
    moreover have "i32 (off + int (value_size al v)) = off + int (value_size al v)"
      using holds_at_small [OF v Cons.prems(3)] Cons.prems(4,5) by simp
    ultimately show ?thesis
      using Cons.IH [of "off + int (value_size al v)" j] vs Cons.prems(2-6) Suc by (simp add: add.assoc)
  qed
qed

lemma GetArrayElem_value:
  assumes at: "holds_at b (ha_value at) (write_value al v)" and ok: "value_ok v" "blob_small b"
  shows "case v of
      HArray vs \<Rightarrow> (if unat i < length vs
        then \<exists>p. GetArrayElem al b at i = Some (Some p) \<and> holds_at b p (write_value al (vs ! unat i))
        else GetArrayElem al b at i = Some None)
    | _ \<Rightarrow> GetArrayElem al b at i = Some None"
proof (cases v)
  case (HArray vs)
  let ?h = "HcsOutputWriteAlign al [0x04 :: uint8_t]" and ?n = "HcsOutputWriteAlign al (le_bytes 2 (of_nat (length vs) :: uint16_t))"
  have *: "holds_at b (ha_value at) (?h @ ?n @ concat (map (write_value al) vs))" using at HArray by simp
  have n: "holds_at b (ha_value at + int (HcsAlign al 1)) ?n"
    and vs: "holds_at b (ha_value at + (int (HcsAlign al 2) + int (HcsAlign al 1))) (concat (map (write_value al) vs))"
    using holds_at_appendD [OF holds_at_appendD(2) [OF *]] by (simp_all add: algebra_simps)
  have len: "unat (of_nat (length vs) :: uint16_t) = length vs" using ok(1) HArray by (simp add: unat_of_nat_16)
  have le: "(ucast (of_nat (length vs) :: uint16_t) \<le> i) \<longleftrightarrow> \<not> unat i < length vs"
  proof -
    have "take_bit 32 (length vs) = length vs" using ok(1) HArray by (simp add: take_bit_nat_eq_self)
    with len show ?thesis by (simp add: word_le_nat_alt unsigned_ucast_eq not_less)
  qed
  have base: "GetArrayElem al b at i = (if \<not> unat i < length vs then Some None
      else do { off \<leftarrow> skip_elems al b (ha_value at) (unat i) (int (HcsAlign al 2) + int (HcsAlign al 1));
                Some (map_option (\<lambda>o'. ha_value at + o') off) })"
    using prefix_of_value [OF at] HArray HcsSwapToUint16_count [OF n]
    by (simp del: HcsAlign_simps add: GetArrayElem_def config_defs HCS_PREFIX_LENGTH_eq HCS_WORD_LENGTH_eq le)
  show ?thesis
  proof (cases "unat i < length vs")
    case True
    have "list_all scalar_ok vs" using ok(1) HArray by simp
    from skip_elems_values [OF vs this ok(2) _ _ True] holds_at_nonneg [OF at] obtain off' where
      "skip_elems al b (ha_value at) (unat i) (int (HcsAlign al 2) + int (HcsAlign al 1)) = Some (Some off')"
      "holds_at b (ha_value at + off') (write_value al (vs ! unat i))" by auto
    with base True HArray show ?thesis by simp
  next
    case False
    with base HArray show ?thesis by simp
  qed
qed (use prefix_of_value [OF at] in \<open>simp_all add: GetArrayElem_def CONFIG_ARRAY_def\<close>)

definition array_elem :: "hcs_value \<Rightarrow> nat \<Rightarrow> hcs_value option" where
  "array_elem v i = (case v of HArray vs \<Rightarrow> (if i < length vs then Some (vs ! i) else None) | _ \<Rightarrow> None)"

lemma get_elem_node:
  assumes "swap_reads swap f" "node_in al t b m par pos name items a" "0 \<notin> set nm"
  shows "get_elem swap bad al b m (Some a) (Some nm) i True dflt =
     Some (case Option.bind (lookup_term nm items) (\<lambda>v. array_elem v (unat i)) of
       None \<Rightarrow> (HDF_FAILURE, Some dflt)
     | Some e \<Rightarrow> (case f e of None \<Rightarrow> (bad, Some dflt) | Some w \<Rightarrow> (HDF_SUCCESS, Some w)))"
proof (cases "lookup_term nm items")
  case None
  with find_attr_node [OF assms(2,3)] show ?thesis by (simp add: get_elem_def)
next
  case (Some v)
  with find_attr_node [OF assms(2,3)] obtain at where at: "find_attr b m (Some a) (Some nm) = Some (Some at)"
    "holds_at b (ha_value at) (write_value al v)" "value_ok v" by auto
  have small: "blob_small b" using assms(2) by (simp add: node_in_def)
  show ?thesis
  proof (cases "array_elem v (unat i)")
    case None
    then have "GetArrayElem al b at i = Some None"
      using GetArrayElem_value [OF at(2,3) small, of i] by (auto simp: array_elem_def split: hcs_value.splits if_splits)
    with at(1) None Some show ?thesis by (simp add: get_elem_def)
  next
    case e: (Some e)
    then obtain p where p: "GetArrayElem al b at i = Some (Some p)" "holds_at b p (write_value al e)"
      using GetArrayElem_value [OF at(2,3) small, of i] by (auto simp: array_elem_def split: hcs_value.splits if_splits)
    have "swap al b (p + HCS_PREFIX_LENGTH al) (ucast (value_code e)) = Some (f e)"
      using assms(1) p(2) by (auto simp: swap_reads_def)
    with at(1) p prefix_of_value [OF p(2)] e Some show ?thesis by (simp add: get_elem_def split: option.splits)
  qed
qed

section \<open>The search visits the tree in preorder\<close>

text \<open>The nodes of an object in preorder: address, position, name and items of each.\<close>

type_synonym located_node = "nat \<times> int \<times> bytes \<times> hcs_obj list"

function (sequential) nodes_obj :: "bool \<Rightarrow> int \<Rightarrow> hcs_obj \<Rightarrow> nat \<Rightarrow> located_node list"
  and nodes_items :: "bool \<Rightarrow> int \<Rightarrow> hcs_obj list \<Rightarrow> nat \<Rightarrow> located_node list" where
  "nodes_obj al pos (HTerm n v) a = []"
| "nodes_obj al pos (HNode n items) a = (a, pos, n, items) # nodes_items al (pos + int (node_header al n)) items (a + 48)"
| "nodes_items al pos [] a = []"
| "nodes_items al pos (x # xs) a = nodes_obj al pos x a @ nodes_items al (pos + int (obj_size al x)) xs (a + obj_mem x)"
  by pat_completeness auto
termination
  by (relation "measure (\<lambda>z. case z of Inl (_, _, x, _) \<Rightarrow> 2 * size x
        | Inr (_, _, xs, _) \<Rightarrow> Suc (2 * size_list size xs))") auto

definition after :: "hcs_mem \<Rightarrow> (nat \<Rightarrow> bool option) \<Rightarrow> (nat \<Rightarrow> bool) \<Rightarrow> located_node list \<Rightarrow> nat option \<Rightarrow> nat option option" where
  "after m test P nds nxt =
     (case List.find (\<lambda>z. P (fst z)) nds of Some z \<Rightarrow> Some (Some (fst z)) | None \<Rightarrow> search_loop m test nxt)"

lemma after_Nil [simp]: "after m test P [] nxt = search_loop m test nxt"
  by (simp add: after_def)

lemma List_find_append:
  "List.find P (xs @ ys) = (case List.find P xs of None \<Rightarrow> List.find P ys | Some x \<Rightarrow> Some x)"
  by (induction xs) auto

lemma after_append:
  "after m test P (xs @ ys) nxt =
     (case List.find (\<lambda>z. P (fst z)) xs of Some z \<Rightarrow> Some (Some (fst z)) | None \<Rightarrow> after m test P ys nxt)"
  by (auto simp: after_def List_find_append split: option.splits)

lemma TraverseTreeNode_step:
  assumes "hm_nodes m p = Some nd" "hn_parent nd = Some a"
  shows "TraverseTreeNode m p = (case hn_sibling nd of Some s \<Rightarrow> Some (Some s) | None \<Rightarrow> TraverseTreeNode m a)"
proof (cases "hn_sibling nd")
  case None
  then have "climb (hm_nodes m) p = climb (hm_nodes m) a" using assms by (subst climb.simps) simp
  with None show ?thesis by (simp add: TraverseTreeNode_def)
next
  case (Some s)
  then have "climb (hm_nodes m) p = Some p" using assms by (subst climb.simps) simp
  with Some assms show ?thesis by (simp add: TraverseTreeNode_def)
qed

lemma search_subtree:
  "rep_obj al t m par pos x a \<Longrightarrow> \<exists>n items. x = HNode n items \<Longrightarrow> TraverseTreeNode m a = Some nxt \<Longrightarrow>
   \<forall>z \<in> set (nodes_obj al pos x a). test (fst z) = Some (P (fst z)) \<Longrightarrow>
   search_loop m test (Some a) = after m test P (nodes_obj al pos x a) nxt"
  "rep_items al t m par pos xs a \<Longrightarrow> par = Some q \<Longrightarrow> sib_chain (hm_nodes m) ptr (kids xs a) \<Longrightarrow>
   TraverseTreeNode m q = Some nxt \<Longrightarrow>
   \<forall>z \<in> set (nodes_items al pos xs a). test (fst z) = Some (P (fst z)) \<Longrightarrow>
   (case ptr of None \<Rightarrow> nodes_items al pos xs a = []
    | Some k \<Rightarrow> search_loop m test ptr = after m test P (nodes_items al pos xs a) nxt)"
proof (induction al t m par pos x a and al t m par pos xs a arbitrary: nxt and nxt q ptr
    rule: rep_obj_rep_items.induct)
  case (1 al t m par pos name v a)
  then show ?case by simp
next
  case (2 al t m par pos name items a)
  from 2(2) obtain nd where nd: "hm_nodes m a = Some nd"
    "sib_chain (hm_nodes m) (hn_child nd) (kids items (a + 48))"
    "rep_items al t m (Some a) (pos + int (node_header al name)) items (a + 48)"
    by (auto split: option.splits simp del: HcsAlign_simps)
  let ?ns = "nodes_items al (pos + int (node_header al name)) items (a + 48)"
  have test: "test a = Some (P a)" "\<forall>z \<in> set ?ns. test (fst z) = Some (P (fst z))" using 2(5) by auto
  note IH = 2(1) [OF nd(1) nd(3) refl nd(2) 2(4) test(2)]
  show ?case
  proof (cases "P a")
    case True
    with test(1) show ?thesis by (subst search_loop.simps) (simp add: after_def)
  next
    case False
    have "search_loop m test (Some a) = after m test P ?ns nxt"
    proof (cases "hn_child nd")
      case None
      with IH have "?ns = []" by simp
      with None False test(1) nd(1) 2(4) show ?thesis by (subst search_loop.simps) simp
    next
      case (Some c)
      with False test(1) nd(1) have "search_loop m test (Some a) = search_loop m test (Some c)"
        by (subst search_loop.simps) simp
      with IH Some show ?thesis by simp
    qed
    with False show ?thesis by (simp add: after_def)
  qed
next
  case (3 al t m par pos a)
  then show ?case by simp
next
  case (4 al t m par pos x xs a)
  show ?case
  proof (cases x)
    case (HTerm n v)
    then have e: "nodes_items al pos (x # xs) a = nodes_items al (pos + int (obj_size al x)) xs (a + obj_mem x)"
      and k: "kids (x # xs) a = kids xs (a + obj_mem x)" by simp_all
    have "rep_items al t m par (pos + int (obj_size al x)) xs (a + obj_mem x)" using 4(3) by simp
    from 4(2) [OF this 4(4) 4(5) [unfolded k] 4(6) 4(7) [unfolded e]] show ?thesis unfolding e .
  next
    case (HNode n items)
    from 4(5) HNode obtain nd where nd: "ptr = Some a" "hm_nodes m a = Some nd"
      "sib_chain (hm_nodes m) (hn_sibling nd) (kids xs (a + obj_mem x))"
      by (auto split: option.splits)
    have par: "hn_parent nd = Some q" using 4(3,4) HNode nd(2) by simp
    let ?n1 = "nodes_obj al pos x a" and ?n2 = "nodes_items al (pos + int (obj_size al x)) xs (a + obj_mem x)"
    have rx: "rep_obj al t m par pos x a" and rxs: "rep_items al t m par (pos + int (obj_size al x)) xs (a + obj_mem x)"
      using 4(3) by auto
    have tx: "\<forall>z \<in> set ?n1. test (fst z) = Some (P (fst z))" and txs: "\<forall>z \<in> set ?n2. test (fst z) = Some (P (fst z))"
      using 4(7) by auto
    note IHxs = 4(2) [OF rxs 4(4) nd(3) 4(6) txs]
    show ?thesis
    proof (cases "hn_sibling nd")
      case None
      with IHxs have e: "?n2 = []" by simp
      have "TraverseTreeNode m a = Some nxt" using TraverseTreeNode_step [OF nd(2) par] None 4(6) by simp
      from 4(1) [OF rx _ this tx] HNode nd(1) e show ?thesis by simp
    next
      case (Some s)
      have "TraverseTreeNode m a = Some (Some s)" using TraverseTreeNode_step [OF nd(2) par] Some by simp
      from 4(1) [OF rx _ this tx] HNode have "search_loop m test (Some a) = after m test P ?n1 (Some s)" by blast
      moreover have "search_loop m test (Some s) = after m test P ?n2 nxt" using IHxs Some by simp
      ultimately have "search_loop m test (Some a) = after m test P (?n1 @ ?n2) nxt"
        unfolding after_append by (simp add: after_def split: option.splits)
      with nd(1) show ?thesis by simp
    qed
  qed
qed

text \<open>From the root the search returns the first node in preorder that passes the test.\<close>

lemma search_from_root:
  assumes "rep_obj al t m None pos (HNode n items) a" "map_option hn_sibling (hm_nodes m a) = Some None"
    and "\<forall>z \<in> set (nodes_obj al pos (HNode n items) a). test (fst z) = Some (P (fst z))"
  shows "search_loop m test (Some a) =
     Some (map_option fst (List.find (\<lambda>z. P (fst z)) (nodes_obj al pos (HNode n items) a)))"
proof -
  from assms(1,2) obtain nd where nd: "hm_nodes m a = Some nd" "hn_sibling nd = None" "hn_parent nd = None"
    by (auto split: option.splits)
  then have "climb (hm_nodes m) a = Some a" by (subst climb.simps) simp
  with nd have "TraverseTreeNode m a = Some None" by (simp add: TraverseTreeNode_def)
  from search_subtree(1) [OF assms(1) _ this assms(3)]
  have "search_loop m test (Some a) = after m test P (nodes_obj al pos (HNode n items) a) None" by blast
  then show ?thesis by (simp add: after_def search_loop.simps split: option.splits)
qed

lemma nodes_in_range:
  "z \<in> set (nodes_obj al pos x a) \<Longrightarrow> pos \<le> fst (snd z) \<and> fst (snd z) < pos + int (obj_size al x) \<and>
     a \<le> fst z \<and> fst z < a + obj_mem x"
  "z \<in> set (nodes_items al pos xs a) \<Longrightarrow> pos \<le> fst (snd z) \<and> fst (snd z) < pos + int (obj_subSize al xs) \<and>
     a \<le> fst z \<and> fst z < a + items_mem xs"
proof (induction al pos x a and al pos xs a rule: nodes_obj_nodes_items.induct)
  case (2 al pos n items a)
  then show ?case
    using node_header_ge [of al n] by (auto simp: obj_size_node simp del: obj_size.simps)
qed auto

lemma nodes_are_represented:
  "rep_obj al t m par pos x a \<Longrightarrow> holds_at b (t + pos) (write_obj al x) \<Longrightarrow> obj_ok x \<Longrightarrow> blob_small b \<Longrightarrow>
   z \<in> set (nodes_obj al pos x a) \<Longrightarrow> \<exists>par'. node_in al t b m par' (fst (snd z)) (fst (snd (snd z))) (snd (snd (snd z))) (fst z)"
  "rep_items al t m par pos xs a \<Longrightarrow> holds_at b (t + pos) (concat (map (write_obj al) xs)) \<Longrightarrow> list_all obj_ok xs \<Longrightarrow>
   blob_small b \<Longrightarrow> z \<in> set (nodes_items al pos xs a) \<Longrightarrow>
   \<exists>par'. node_in al t b m par' (fst (snd z)) (fst (snd (snd z))) (snd (snd (snd z))) (fst z)"
proof (induction al t m par pos x a and al t m par pos xs a rule: rep_obj_rep_items.induct)
  case (1 al t m par pos name v a)
  then show ?case by simp
next
  case (2 al t m par pos name items a)
  from 2(2) obtain nd where nd: "hm_nodes m a = Some nd"
    "rep_items al t m (Some a) (pos + int (node_header al name)) items (a + 48)"
    by (auto split: option.splits simp del: HcsAlign_simps)
  have bytes: "holds_at b (t + (pos + int (node_header al name))) (concat (map (write_obj al) items))"
    using node_parts(4) [OF 2(3)] by (simp add: add.assoc)
  show ?case
  proof (cases "z = (a, pos, name, items)")
    case True
    then have "node_in al t b m par (fst (snd z)) (fst (snd (snd z))) (snd (snd (snd z))) (fst z)"
      unfolding node_in_def using 2(2-5) by (simp del: rep_obj.simps write_obj.simps)
    then show ?thesis by blast
  next
    case False
    then have "z \<in> set (nodes_items al (pos + int (node_header al name)) items (a + 48))" using 2(6) by simp
    with 2(1) [OF nd bytes _ 2(5)] 2(4) show ?thesis by simp
  qed
next
  case (3 al t m par pos a)
  then show ?case by simp
next
  case (4 al t m par pos x xs a)
  have x: "holds_at b (t + pos) (write_obj al x)"
    and xs: "holds_at b (t + (pos + int (obj_size al x))) (concat (map (write_obj al) xs))"
    using holds_at_appendD [of b "t + pos" "write_obj al x" "concat (map (write_obj al) xs)"] 4(4)
    by (auto simp: add.assoc)
  have "rep_obj al t m par pos x a" "rep_items al t m par (pos + int (obj_size al x)) xs (a + obj_mem x)"
    using 4(3) by auto
  with 4(1) [OF _ x _ 4(6)] 4(2) [OF _ xs _ 4(6)] 4(5,7) show ?case by auto
qed

section \<open>Reading a compiled configuration\<close>

text \<open>The state after decompiling a compiled configuration.\<close>

definition hcs_loaded :: "hcs_obj \<Rightarrow> bool \<Rightarrow> bytes \<Rightarrow> hcs_mem \<Rightarrow> bool" where
  "hcs_loaded root al b m \<longleftrightarrow> hcs_blob_ok root al \<and> (\<exists>major minor. b = HcsBytecodeOutput al major minor root) \<and>
     HcsDecompile True True True al b 20 = Some (Some (Some 0, m))"

lemma hcs_loaded_rep:
  assumes "hcs_loaded root al b m"
  shows "rep_obj al 20 m None 0 root 0" "map_option hn_sibling (hm_nodes m 0) = Some None"
    "holds_at b 20 (write_obj al root)" "obj_ok root" "blob_small b" "\<exists>items. root = HNode HBC_ROOT_NAME items"
    "int (obj_size al root) + 20 < 4294967296"
proof -
  from assms obtain major minor where b: "b = HcsBytecodeOutput al major minor root" and ok: "hcs_blob_ok root al"
    and d: "HcsDecompile True True True al b 20 = Some (Some (Some 0, m))" by (auto simp: hcs_loaded_def)
  from decompile_compiled [OF ok, of major minor] d b
  show "rep_obj al 20 m None 0 root 0" "map_option hn_sibling (hm_nodes m 0) = Some None" by auto
  show "holds_at b 20 (write_obj al root)" unfolding b by (rule blob_holds_root)
  show "obj_ok root" "\<exists>items. root = HNode HBC_ROOT_NAME items" "int (obj_size al root) + 20 < 4294967296"
    using ok by (auto simp: hcs_blob_ok_def HBC_BLOB_MAX_LENGTH_def)
  show "blob_small b" using ok by (simp add: blob_small_def b blob_length hcs_blob_ok_def HBC_BLOB_MAX_LENGTH_def)
qed

lemma loaded_node_in:
  assumes "hcs_loaded root al b m" "(a, pos, name, items) \<in> set (nodes_obj al 0 root 0)"
  shows "\<exists>par. node_in al 20 b m par pos name items a"
  using nodes_are_represented(1) [OF hcs_loaded_rep(1) [OF assms(1)] _ _ _ assms(2)] hcs_loaded_rep [OF assms(1)]
  by simp

text \<open>
  C17: after compiling and decompiling a configuration, reading an attribute of any node as a
  32-bit integer gives the source value, zero-extended from its width, with success; an
  attribute that is missing or is not an integer of at most 32 bits gives the caller's default
  and failure.  With several attributes of one name it is the last in the source that counts.
\<close>

theorem hcs_get_uint32_of_compiled:
  assumes "hcs_loaded root al b m" and "(a, pos, name, items) \<in> set (nodes_obj al 0 root 0)" and "0 \<notin> set nm"
  shows "HcsGetUint32 al b m (Some a) (Some nm) True dflt =
     Some (case Option.bind (lookup_term nm items) value_u32 of
       None \<Rightarrow> (HDF_FAILURE, Some dflt) | Some w \<Rightarrow> (HDF_SUCCESS, Some w))"
  using loaded_node_in [OF assms(1,2)] get_uint_node [OF swap_reads_u32 _ assms(3)]
  unfolding HcsGetUint32_def by blast

text \<open>
  the same for array elements: element \<open>i\<close> of an array attribute read as 16 bits is the
  source element; an index out of range, a missing attribute or one that is no array is a
  failure, an element that is wider than 16 bits is an invalid object, and both give the
  default.
\<close>

theorem hcs_get_uint16_elem_of_compiled:
  assumes "hcs_loaded root al b m" and "(a, pos, name, items) \<in> set (nodes_obj al 0 root 0)" and "0 \<notin> set nm"
  shows "HcsGetUint16ArrayElem al b m (Some a) (Some nm) i True dflt =
     Some (case Option.bind (lookup_term nm items) (\<lambda>v. array_elem v (unat i)) of
       None \<Rightarrow> (HDF_FAILURE, Some dflt)
     | Some e \<Rightarrow> (case value_u16 e of None \<Rightarrow> (HDF_ERR_INVALID_OBJECT, Some dflt) | Some w \<Rightarrow> (HDF_SUCCESS, Some w)))"
  using loaded_node_in [OF assms(1,2)] get_elem_node [OF swap_reads_u16 _ assms(3)]
  unfolding HcsGetUint16ArrayElem_def by blast

definition sample_config :: hcs_obj where
  "sample_config = HNode HBC_ROOT_NAME
     [HTerm [109] (HWord 513), HTerm [108] (HArray [HByte 7, HDword 70000]),
      HNode [99] [HTerm [114] (HRef 20), HTerm [115] (HString [104, 105])]]"

lemma sample_loaded: "\<exists>b m. hcs_loaded sample_config False b m"
proof -
  have ok: "hcs_blob_ok sample_config False"
    by (simp add: sample_config_def hcs_blob_ok_def HBC_ROOT_NAME_def HBC_BLOB_MAX_LENGTH_def HcsAlign_def)
  from decompile_compiled [OF this, of 0 0] obtain m where
    "HcsDecompile True True True False (HcsBytecodeOutput False 0 0 sample_config) 20 = Some (Some (Some 0, m))" by blast
  with ok show ?thesis by (auto simp: hcs_loaded_def)
qed

lemma sample_root: "(0, 0, HBC_ROOT_NAME, [HTerm [109] (HWord 513), HTerm [108] (HArray [HByte 7, HDword 70000]),
    HNode [99] [HTerm [114] (HRef 20), HTerm [115] (HString [104, 105])]]) \<in> set (nodes_obj False 0 sample_config 0)"
  by (simp add: sample_config_def)

lemma sample_child: "(96, 29, [99], [HTerm [114] (HRef 20), HTerm [115] (HString [104, 105])])
    \<in> set (nodes_obj False 0 sample_config 0)"
  by (simp add: sample_config_def HBC_ROOT_NAME_def node_header_def HcsAlign_def)

theorem hcs_get_uint32_of_compiled_witness:
  "\<exists>b m. HcsGetUint32 False b m (Some 0) (Some [109]) True 9 = Some (HDF_SUCCESS, Some 513) \<and>
     HcsGetUint32 False b m (Some 0) (Some [120]) True 9 = Some (HDF_FAILURE, Some 9)"
proof -
  obtain b m where l: "hcs_loaded sample_config False b m" using sample_loaded by blast
  from hcs_get_uint32_of_compiled [OF l sample_root, of "[109]" 9] hcs_get_uint32_of_compiled [OF l sample_root, of "[120]" 9]
  show ?thesis by (auto simp: lookup_term_def)
qed

theorem hcs_get_uint16_elem_of_compiled_witness:
  "\<exists>b m. HcsGetUint16ArrayElem False b m (Some 0) (Some [108]) 0 True 9 = Some (HDF_SUCCESS, Some 7) \<and>
     HcsGetUint16ArrayElem False b m (Some 0) (Some [108]) 1 True 9 = Some (HDF_ERR_INVALID_OBJECT, Some 9)"
proof -
  obtain b m where l: "hcs_loaded sample_config False b m" using sample_loaded by blast
  from hcs_get_uint16_elem_of_compiled [OF l sample_root, of "[108]" 0 9]
    hcs_get_uint16_elem_of_compiled [OF l sample_root, of "[108]" 1 9]
  show ?thesis by (auto simp: lookup_term_def array_elem_def)
qed

lemma HcsGetString_node:
  assumes "node_in al t b m par pos name items a" "0 \<notin> set nm"
  shows "case lookup_term nm items of
      Some (HString s) \<Rightarrow> \<exists>p. HcsGetString al b m (Some a) (Some nm) True dflt = Some (HDF_SUCCESS, Some (InBlob p)) \<and>
                            ptr_str b p = Some s
    | _ \<Rightarrow> HcsGetString al b m (Some a) (Some nm) True dflt = Some (HDF_FAILURE, Some (Default dflt))"
proof (cases "lookup_term nm items")
  case None
  with find_attr_node [OF assms] show ?thesis by (simp add: HcsGetString_def)
next
  case (Some v)
  with find_attr_node [OF assms] obtain at where at: "find_attr b m (Some a) (Some nm) = Some (Some at)"
    "holds_at b (ha_value at) (write_value al v)" "value_ok v" by auto
  show ?thesis
  proof (cases v)
    case (HString s)
    from ptr_str_holds [OF holds_at_output [OF value_body(5) [OF at(2) HString]]] at(3) HString
    have "ptr_str b (ha_value at + HCS_PREFIX_LENGTH al) = Some s" by simp
    with at(1) Some HString prefix_of_value [OF at(2)] show ?thesis by (simp add: HcsGetString_def CONFIG_STRING_def)
  qed (use at(1) Some prefix_of_value [OF at(2)] in \<open>simp_all add: HcsGetString_def CONFIG_STRING_def\<close>)
qed

text \<open>
  reading a string attribute of a compiled configuration gives a pointer at which the
  blob holds the source string, terminator included; anything but a string is a failure with
  the default.
\<close>

theorem hcs_get_string_of_compiled:
  assumes "hcs_loaded root al b m" and "(a, pos, name, items) \<in> set (nodes_obj al 0 root 0)" and "0 \<notin> set nm"
  shows "case lookup_term nm items of
      Some (HString s) \<Rightarrow> \<exists>p. HcsGetString al b m (Some a) (Some nm) True dflt = Some (HDF_SUCCESS, Some (InBlob p)) \<and>
                            ptr_str b p = Some s
    | _ \<Rightarrow> HcsGetString al b m (Some a) (Some nm) True dflt = Some (HDF_FAILURE, Some (Default dflt))"
proof -
  obtain par where "node_in al 20 b m par pos name items a" using loaded_node_in [OF assms(1,2)] by auto
  from HcsGetString_node [OF this assms(3)] show ?thesis .
qed

theorem hcs_get_string_of_compiled_witness:
  "\<exists>b m p. HcsGetString False b m (Some 96) (Some [115]) True () = Some (HDF_SUCCESS, Some (InBlob p)) \<and>
     ptr_str b p = Some [104, 105]"
proof -
  obtain b m where l: "hcs_loaded sample_config False b m" using sample_loaded by blast
  from hcs_get_string_of_compiled [OF l sample_child, of "[115]" "()"] show ?thesis by (auto simp: lookup_term_def)
qed

section \<open>References\<close>

lemma positions_distinct:
  "distinct (map (\<lambda>z. fst (snd z)) (nodes_obj al pos x a))"
  "distinct (map (\<lambda>z. fst (snd z)) (nodes_items al pos xs a))"
proof (induction al pos x a and al pos xs a rule: nodes_obj_nodes_items.induct)
  case (2 al pos n items a)
  then show ?case using nodes_in_range(2) [of _ al "pos + int (node_header al n)" items "a + 48"] node_header_ge [of al n]
    by fastforce
next
  case (4 al pos x xs a)
  then show ?case
    using nodes_in_range(1) [of _ al pos x a]
      nodes_in_range(2) [of _ al "pos + int (obj_size al x)" xs "a + obj_mem x"] by fastforce
qed auto

lemma uint_of_int32: "0 \<le> x \<Longrightarrow> x < 4294967296 \<Longrightarrow> uint (of_int x :: 32 word) = x"
  by (simp add: unsigned_of_int take_bit_int_eq_self)

lemma List_find_unique:
  "x \<in> set xs \<Longrightarrow> P x \<Longrightarrow> \<forall>y \<in> set xs. P y \<longrightarrow> y = x \<Longrightarrow> List.find P xs = Some x"
proof (induction xs)
  case (Cons y xs)
  show ?case
  proof (cases "P y")
    case True
    with Cons.prems(3) have "y = x" by (meson list.set_intros(1))
    with True show ?thesis by simp
  next
    case False
    with Cons.prems(1,2) have "x \<in> set xs" by auto
    with Cons.IH Cons.prems(2,3) have "List.find P xs = Some x" by (meson list.set_intros(2))
    with False show ?thesis by simp
  qed
qed simp

text \<open>
  C4: a reference resolves to its target: the compiler writes into a reference the position
  of the target in the blob, and looking up a reference attribute of any node searches the
  whole tree and returns exactly the node compiled at that position.
\<close>

theorem hcs_reference_resolves:
  assumes "hcs_loaded root al b m" and "(a, pos, name, items) \<in> set (nodes_obj al 0 root 0)" and "0 \<notin> set nm"
    and "(a', pos', name', items') \<in> set (nodes_obj al 0 root 0)"
    and "lookup_term nm items = Some (HRef (of_int (pos' + 20)))"
  shows "HcsGetNodeByRefAttr al b m (Some 0) (Some a) (Some nm) = Some (Some a')"
proof -
  note rep = hcs_loaded_rep [OF assms(1)]
  obtain ritems where root: "root = HNode HBC_ROOT_NAME ritems" using rep(6) by auto
  obtain par where "node_in al 20 b m par pos name items a" using loaded_node_in [OF assms(1,2)] by auto
  from find_attr_node [OF this assms(3)] assms(5) obtain at where
    at: "find_attr b m (Some a) (Some nm) = Some (Some at)"
      "holds_at b (ha_value at) (write_value al (HRef (of_int (pos' + 20))))" by auto
  let ?h = "of_int (pos' + 20) :: uint32_t" and ?ns = "nodes_obj al 0 root 0"
  define P where "P p = (\<exists>nd. hm_nodes m p = Some nd \<and> hn_hashValue nd = ?h)" for p
  have node: "\<exists>nd. hm_nodes m (fst z) = Some nd \<and> hn_hashValue nd = of_int (fst (snd z) + 20)" if "z \<in> set ?ns" for z
    using loaded_node_in [OF assms(1), of "fst z" "fst (snd z)" "fst (snd (snd z))" "snd (snd (snd z))"] that
    by (auto simp: node_in_def split: option.splits)
  have test: "\<forall>z \<in> set ?ns. map_option (\<lambda>nd. hn_hashValue nd = ?h) (hm_nodes m (fst z)) = Some (P (fst z))"
    using node by (fastforce simp: P_def)
  have range: "0 \<le> fst (snd z) \<and> fst (snd z) + 20 < 4294967296" if "z \<in> set ?ns" for z
    using nodes_in_range(1) [OF that] rep(7) by simp
  have inj: "fst (snd z) = pos'" if "z \<in> set ?ns" "P (fst z)" for z
  proof -
    have "(of_int (fst (snd z) + 20) :: uint32_t) = ?h" using node [OF that(1)] that(2) by (auto simp: P_def)
    then have "uint (of_int (fst (snd z) + 20) :: uint32_t) = uint ?h" by (rule arg_cong)
    then show ?thesis using range [OF that(1)] range [OF assms(4)] by (simp del: of_int_add add: uint_of_int32)
  qed
  have "P a'" using node [OF assms(4)] by (auto simp: P_def)
  have "z = (a', pos', name', items')" if "z \<in> set ?ns" "P (fst z)" for z
  proof -
    have "inj_on (\<lambda>z. fst (snd z)) (set ?ns)" using positions_distinct(1) by (simp add: distinct_map)
    from inj_onD [OF this _ that(1) assms(4)] inj [OF that] show ?thesis by simp
  qed
  then have "List.find (\<lambda>z. P (fst z)) ?ns = Some (a', pos', name', items')"
    by (intro List_find_unique [OF assms(4)]) (use \<open>P a'\<close> in simp_all)
  then have "search_loop m (\<lambda>p. map_option (\<lambda>nd. hn_hashValue nd = ?h) (hm_nodes m p)) (Some 0) = Some (Some a')"
    using search_from_root [OF rep(1,2) [unfolded root] test [unfolded root]] by (simp add: root)
  moreover have "HcsSwapToUint32 al b (ha_value at + HCS_PREFIX_LENGTH al) CONFIG_DWORD = Some (Some ?h)"
    by (rule HcsSwapToUint32_dword [OF value_body(6) [OF at(2) refl]])
  ultimately show ?thesis
    using at(1) prefix_of_value [OF at(2)] by (simp add: HcsGetNodeByRefAttr_def CONFIG_REFERENCE_def)
qed

theorem hcs_reference_resolves_witness:
  "\<exists>b m. HcsGetNodeByRefAttr False b m (Some 0) (Some 96) (Some [114]) = Some (Some 0)"
proof -
  obtain b m where l: "hcs_loaded sample_config False b m" using sample_loaded by blast
  from hcs_reference_resolves [OF l sample_child _ sample_root, of "[114]"] show ?thesis by (auto simp: lookup_term_def)
qed

section \<open>Child nodes\<close>

fun find_child :: "bytes \<Rightarrow> hcs_obj list \<Rightarrow> nat \<Rightarrow> nat option" where
  "find_child nm [] a = None"
| "find_child nm (HTerm n v # xs) a = find_child nm xs (a + obj_mem (HTerm n v))"
| "find_child nm (HNode n items # xs) a = (if n = nm then Some a else find_child nm xs (a + obj_mem (HNode n items)))"

lemma child_loop_items:
  "rep_items al t m par pos xs a \<Longrightarrow> holds_at b (t + pos) (concat (map (write_obj al) xs)) \<Longrightarrow> list_all obj_ok xs \<Longrightarrow>
   sib_chain (hm_nodes m) ptr (kids xs a) \<Longrightarrow> 0 \<notin> set nm \<Longrightarrow>
   child_loop m (\<lambda>c. ptr_strcmp_eq b (hn_name c) nm) ptr = Some (find_child nm xs a)"
proof (induction nm xs a arbitrary: pos ptr rule: find_child.induct)
  case (1 nm a)
  then show ?case by (simp add: child_loop.simps)
next
  case (2 nm n v xs a)
  have "holds_at b (t + (pos + int (obj_size al (HTerm n v)))) (concat (map (write_obj al) xs))"
    using holds_at_appendD(2) [of b "t + pos" "write_obj al (HTerm n v)" "concat (map (write_obj al) xs)"] 2(3)
    by (simp add: add.assoc del: write_obj.simps obj_size.simps)
  from 2(1) [OF _ this _ _ 2(6)] 2(2,4,5) show ?case by (simp del: obj_size.simps rep_obj.simps)
next
  case (3 nm n items xs a)
  have x: "holds_at b (t + pos) (write_obj al (HNode n items))"
    and xs: "holds_at b (t + (pos + int (obj_size al (HNode n items)))) (concat (map (write_obj al) xs))"
    using holds_at_appendD [of b "t + pos" "write_obj al (HNode n items)" "concat (map (write_obj al) xs)"] 3(3)
    by (simp_all add: add.assoc del: write_obj.simps obj_size.simps)
  from 3(2,5) obtain nd where nd: "ptr = Some a" "hm_nodes m a = Some nd" "hn_name nd = t + pos + int (HcsAlign al 1)"
    "sib_chain (hm_nodes m) (hn_sibling nd) (kids xs (a + obj_mem (HNode n items)))"
    by (auto split: option.splits simp del: HcsAlign_simps)
  have "ptr_strcmp_eq b (hn_name nd) nm = Some (n = nm)"
    using ptr_strcmp_holds [OF holds_at_output [OF node_parts(2) [OF x]]] 3(4,6) nd(3) by simp
  moreover have "n \<noteq> nm \<Longrightarrow> child_loop m (\<lambda>c. ptr_strcmp_eq b (hn_name c) nm) (hn_sibling nd) =
      Some (find_child nm xs (a + obj_mem (HNode n items)))"
    using 3(1) [OF _ _ xs _ nd(4) 3(6)] 3(2,4) by simp
  ultimately show ?case using nd(1,2) by (subst child_loop.simps) auto
qed

text \<open>
  looking up a child by name in a compiled configuration returns the first child node of
  that name in source order, or null when there is none.
\<close>

theorem hcs_get_child_of_compiled:
  assumes "hcs_loaded root al b m" and "(a, pos, name, items) \<in> set (nodes_obj al 0 root 0)" and "0 \<notin> set nm"
  shows "HcsGetChildNode b m (Some a) (Some nm) = Some (find_child nm items (a + 48))"
proof -
  obtain par where n: "node_in al 20 b m par pos name items a" using loaded_node_in [OF assms(1,2)] by auto
  then obtain nd where nd: "hm_nodes m a = Some nd"
    "sib_chain (hm_nodes m) (hn_child nd) (kids items (a + 48))"
    "rep_items al 20 m (Some a) (pos + int (node_header al name)) items (a + 48)"
    by (auto simp: node_in_def split: option.splits)
  have "holds_at b (20 + (pos + int (node_header al name))) (concat (map (write_obj al) items))"
    "list_all obj_ok items"
    using n node_parts(4) [of b "20 + pos" al name items]
    by (auto simp: node_in_def add.assoc simp del: write_obj.simps rep_obj.simps)
  from child_loop_items [OF nd(3) this nd(2) assms(3)] nd(1) show ?thesis by (simp add: HcsGetChildNode_def)
qed

theorem hcs_get_child_of_compiled_witness:
  "\<exists>b m. HcsGetChildNode b m (Some 0) (Some [99]) = Some (Some 96) \<and> HcsGetChildNode b m (Some 0) (Some [109]) = Some None"
proof -
  obtain b m where l: "hcs_loaded sample_config False b m" using sample_loaded by blast
  from hcs_get_child_of_compiled [OF l sample_root, of "[99]"] hcs_get_child_of_compiled [OF l sample_root, of "[109]"]
  show ?thesis by auto
qed

end
