(* ===== verification/Hdf_SRef.thy ===== *)
theory Hdf_SRef
  imports Hdf_Prelude
begin

text \<open>
  Shared references and the power-state token built on them:
  \<^verbatim>\<open>utils/src/hdf_sref.c\<close> and \<^verbatim>\<open>core/host/src/power_state_token.c\<close>, with the power
  states of \<^verbatim>\<open>core/shared/include/hdf_power_state.h\<close>.

  A listener's two function pointers are functions on the object the reference is embedded in
  (type \<open>'s\<close>, what \<^verbatim>\<open>HDF_SLIST_CONTAINER_OF\<close> recovers).  \<^verbatim>\<open>OsalAtomicInc\<close> followed by
  \<^verbatim>\<open>OsalAtomicRead\<close> are two atomic steps; the last sections run them one after the other
  (\<open>HdfSRefAcquire\<close>) and interleaved between threads (\<open>sref_step\<close>).
\<close>

section \<open>hdf_sref.c\<close>

record 's IHdfSRefListener =
  OnFirstAcquire :: "('s \<Rightarrow> 's) option"
  OnLastRelease :: "('s \<Rightarrow> 's) option"

text \<open>\<open>sr_bound\<close>: the pointers \<open>Acquire\<close>, \<open>Release\<close> and \<open>Count\<close> are set.\<close>

record 's HdfSRef =
  sr_refs :: uint32_t
  sr_listener :: "'s IHdfSRefListener option"
  sr_bound :: bool

definition sref_zeroed :: "'s HdfSRef" where
  "sref_zeroed = \<lparr>sr_refs = 0, sr_listener = None, sr_bound = False\<rparr>"

definition sref_inc :: "'s HdfSRef \<Rightarrow> 's HdfSRef" where
  "sref_inc r = r\<lparr>sr_refs := sr_refs r + 1\<rparr>"

definition sref_dec :: "'s HdfSRef \<Rightarrow> 's HdfSRef" where
  "sref_dec r = r\<lparr>sr_refs := sr_refs r - 1\<rparr>"

text \<open>What the operations do once they have read the counter back.\<close>

definition sref_after_inc :: "'s HdfSRef \<Rightarrow> 's \<Rightarrow> 's" where
  "sref_after_inc r s =
     (if sr_refs r = 1 then
        case sr_listener r of
          None \<Rightarrow> s
        | Some l \<Rightarrow> (case OnFirstAcquire l of None \<Rightarrow> s | Some f \<Rightarrow> f s)
      else s)"

definition sref_after_dec :: "'s HdfSRef \<Rightarrow> 's \<Rightarrow> 's" where
  "sref_after_dec r s =
     (if sr_refs r = 0 then
        case sr_listener r of
          None \<Rightarrow> s
        | Some l \<Rightarrow> (case OnLastRelease l of None \<Rightarrow> s | Some f \<Rightarrow> f s)
      else s)"

fun HdfSRefAcquire :: "'s HdfSRef option \<Rightarrow> 's \<Rightarrow> 's HdfSRef option \<times> 's" where
  "HdfSRefAcquire None s = (None, s)"
| "HdfSRefAcquire (Some r) s = (let r' = sref_inc r in (Some r', sref_after_inc r' s))"

fun HdfSRefCount :: "'s HdfSRef option \<Rightarrow> int" where
  "HdfSRefCount None = 0"
| "HdfSRefCount (Some r) = sint (sr_refs r)"

fun HdfSRefRelease :: "'s HdfSRef option \<Rightarrow> 's \<Rightarrow> 's HdfSRef option \<times> 's" where
  "HdfSRefRelease None s = (None, s)"
| "HdfSRefRelease (Some r) s = (let r' = sref_dec r in (Some r', sref_after_dec r' s))"

fun HdfSRefConstruct ::
    "'s HdfSRef option \<Rightarrow> 's IHdfSRefListener option \<Rightarrow> 's HdfSRef option" where
  "HdfSRefConstruct (Some r) (Some l) =
     Some (r\<lparr>sr_refs := 0, sr_listener := Some l, sr_bound := True\<rparr>)"
| "HdfSRefConstruct r _ = r"

section \<open>Power states\<close>

abbreviation (input) POWER_STATE_DOZE_RESUME :: uint32_t where "POWER_STATE_DOZE_RESUME \<equiv> 0"
abbreviation (input) POWER_STATE_DOZE_SUSPEND :: uint32_t where "POWER_STATE_DOZE_SUSPEND \<equiv> 1"
abbreviation (input) POWER_STATE_RESUME :: uint32_t where "POWER_STATE_RESUME \<equiv> 2"
abbreviation (input) POWER_STATE_SUSPEND :: uint32_t where "POWER_STATE_SUSPEND \<equiv> 3"
abbreviation (input) POWER_STATE_MAX :: uint32_t where "POWER_STATE_MAX \<equiv> 4"

definition IsPowerWakeState :: "uint32_t \<Rightarrow> bool" where
  "IsPowerWakeState state \<longleftrightarrow> state = POWER_STATE_DOZE_RESUME \<or> state = POWER_STATE_RESUME"

definition IsValidPowerState :: "uint32_t \<Rightarrow> bool" where
  "IsValidPowerState state \<longleftrightarrow> state < POWER_STATE_MAX"

abbreviation (input) HDF_POWER_SYS_CTRL :: uint32_t where "HDF_POWER_SYS_CTRL \<equiv> 0"
abbreviation (input) HDF_POWER_DYNAMIC_CTRL :: uint32_t where "HDF_POWER_DYNAMIC_CTRL \<equiv> 1"
abbreviation (input) HDF_POWER_MODE_MAX :: uint32_t where "HDF_POWER_MODE_MAX \<equiv> 2"

section \<open>power_state_token.c\<close>

datatype HdfPsmState = PSM_STATE_IDLE | PSM_STATE_ACTIVE | PSM_STATE_INACTIVE

text \<open>
  A driver's listener: four optional functions that take the device object (type \<open>'d\<close>)
  and return a status, changing the object.
\<close>

record 'd IPowerEventListener =
  DozeResume :: "('d \<Rightarrow> int \<times> 'd) option"
  DozeSuspend :: "('d \<Rightarrow> int \<times> 'd) option"
  Resume :: "('d \<Rightarrow> int \<times> 'd) option"
  Suspend :: "('d \<Rightarrow> int \<times> 'd) option"

text \<open>
  The part of a token its wake reference's callbacks see, and the token: that part and the
  embedded reference.
\<close>

record 'd PowerStateToken_body =
  pt_listener :: "'d IPowerEventListener option"
  pt_deviceObject :: 'd
  pt_psmState :: HdfPsmState
  pt_mode :: uint32_t

record 'd PowerStateToken =
  pt_body :: "'d PowerStateToken_body"
  pt_wakeRef :: "'d PowerStateToken_body HdfSRef"

definition PowerStateTokenOnFirstAcquire ::
    "'d PowerStateToken_body \<Rightarrow> 'd PowerStateToken_body" where
  "PowerStateTokenOnFirstAcquire st =
     (if pt_psmState st = PSM_STATE_ACTIVE then st
      else
        let st1 =
          (if pt_psmState st = PSM_STATE_INACTIVE \<or> pt_psmState st = PSM_STATE_IDLE then
             case Option.bind (pt_listener st) Resume of
               None \<Rightarrow> st
             | Some f \<Rightarrow> st\<lparr>pt_deviceObject := snd (f (pt_deviceObject st))\<rparr>
           else st)
        in st1\<lparr>pt_psmState := PSM_STATE_ACTIVE\<rparr>)"

definition PowerStateTokenOnLastRelease ::
    "'d PowerStateToken_body \<Rightarrow> 'd PowerStateToken_body" where
  "PowerStateTokenOnLastRelease st =
     (if pt_psmState st \<noteq> PSM_STATE_ACTIVE \<and> pt_psmState st \<noteq> PSM_STATE_IDLE then st
      else
        let st1 =
          (case Option.bind (pt_listener st) Suspend of
             None \<Rightarrow> st
           | Some f \<Rightarrow> st\<lparr>pt_deviceObject := snd (f (pt_deviceObject st))\<rparr>)
        in st1\<lparr>pt_psmState := PSM_STATE_INACTIVE\<rparr>)"

text \<open>The function \<^verbatim>\<open>PowerStateChange\<close> calls for an event, when the listener has one.\<close>

definition power_event_callback ::
    "'d IPowerEventListener \<Rightarrow> uint32_t \<Rightarrow> ('d \<Rightarrow> int \<times> 'd) option" where
  "power_event_callback l pEvent =
     (if pEvent = POWER_STATE_SUSPEND then Suspend l
      else if pEvent = POWER_STATE_RESUME then Resume l
      else if pEvent = POWER_STATE_DOZE_SUSPEND then DozeSuspend l
      else if pEvent = POWER_STATE_DOZE_RESUME then DozeResume l
      else None)"

definition PowerStateChange ::
    "'d PowerStateToken option \<Rightarrow> uint32_t \<Rightarrow> int \<times> 'd PowerStateToken option" where
  "PowerStateChange stateToken pEvent =
     (case stateToken of
        None \<Rightarrow> (0, None)
      | Some t \<Rightarrow>
         (case pt_listener (pt_body t) of
            None \<Rightarrow> (0, Some t)
          | Some l \<Rightarrow>
             (if pt_mode (pt_body t) \<noteq> HDF_POWER_SYS_CTRL then (0, Some t)
              else case power_event_callback l pEvent of
                None \<Rightarrow> (0, Some t)
              | Some f \<Rightarrow>
                 (let (ret, d) = f (pt_deviceObject (pt_body t))
                  in (ret, Some (t\<lparr>pt_body := (pt_body t)\<lparr>pt_deviceObject := d\<rparr>\<rparr>))))))"

text \<open>Writing back the reference and the part of the token its callback changed.\<close>

definition token_with_ref ::
    "'d PowerStateToken \<Rightarrow> 'd PowerStateToken_body HdfSRef option \<times> 'd PowerStateToken_body
     \<Rightarrow> 'd PowerStateToken" where
  "token_with_ref t x =
     (case x of (r, b) \<Rightarrow> t\<lparr>pt_body := b, pt_wakeRef := (case r of None \<Rightarrow> pt_wakeRef t | Some w \<Rightarrow> w)\<rparr>)"

definition PowerStateTokenAcquireWakeLock ::
    "'d PowerStateToken option \<Rightarrow> 'd PowerStateToken option" where
  "PowerStateTokenAcquireWakeLock token =
     (case token of
        None \<Rightarrow> None
      | Some t \<Rightarrow>
          if pt_mode (pt_body t) \<noteq> HDF_POWER_DYNAMIC_CTRL then Some t
          else if sr_bound (pt_wakeRef t)
          then Some (token_with_ref t (HdfSRefAcquire (Some (pt_wakeRef t)) (pt_body t)))
          else Some t)"

definition PowerStateTokenReleaseWakeLock ::
    "'d PowerStateToken option \<Rightarrow> 'd PowerStateToken option" where
  "PowerStateTokenReleaseWakeLock token =
     (case token of
        None \<Rightarrow> None
      | Some t \<Rightarrow>
          if pt_mode (pt_body t) \<noteq> HDF_POWER_DYNAMIC_CTRL then Some t
          else if \<not> sr_bound (pt_wakeRef t) then Some t
          else if HdfSRefCount (Some (pt_wakeRef t)) = 0
          then Some (t\<lparr>pt_body := PowerStateTokenOnLastRelease (pt_body t)\<rparr>)
          else Some (token_with_ref t (HdfSRefRelease (Some (pt_wakeRef t)) (pt_body t))))"

definition token_sref_listener :: "'d PowerStateToken_body IHdfSRefListener" where
  "token_sref_listener =
     \<lparr>OnFirstAcquire = Some PowerStateTokenOnFirstAcquire,
      OnLastRelease = Some PowerStateTokenOnLastRelease\<rparr>"

text \<open>The allocation of the reference's listener may fail (\<open>ok\<close>).\<close>

definition PowerStateTokenConstruct ::
    "bool \<Rightarrow> 'd PowerStateToken \<Rightarrow> 'd \<Rightarrow> 'd IPowerEventListener option
     \<Rightarrow> HDF_STATUS \<times> 'd PowerStateToken" where
  "PowerStateTokenConstruct ok t deviceObject lis =
     (if \<not> ok then (HDF_ERR_MALLOC_FAIL, t)
      else
        let b = (pt_body t)\<lparr>pt_psmState := PSM_STATE_IDLE, pt_listener := lis,
                            pt_deviceObject := deviceObject\<rparr>;
            r = HdfSRefConstruct (Some (pt_wakeRef t)) (Some token_sref_listener)
        in (HDF_SUCCESS, token_with_ref t (r, b)))"

definition token_zeroed :: "'d \<Rightarrow> 'd PowerStateToken" where
  "token_zeroed d =
     \<lparr>pt_body = \<lparr>pt_listener = None, pt_deviceObject = d, pt_psmState = PSM_STATE_IDLE, pt_mode = 0\<rparr>,
      pt_wakeRef = sref_zeroed\<rparr>"

definition PowerStateTokenNewInstance ::
    "bool \<Rightarrow> bool \<Rightarrow> 'd \<Rightarrow> 'd IPowerEventListener option \<Rightarrow> 'd PowerStateToken option" where
  "PowerStateTokenNewInstance ok1 ok2 deviceObject lis =
     (if \<not> ok1 then None
      else case PowerStateTokenConstruct ok2 (token_zeroed deviceObject) deviceObject lis of
        (st, t) \<Rightarrow> if st \<noteq> HDF_SUCCESS then None else Some t)"

text \<open>
  \<^verbatim>\<open>HdfPmSetMode\<close> of \<^verbatim>\<open>core/host/src/hdf_device_object.c\<close> on the token of the device node
  (\<^const>\<open>None\<close>: no power listener was registered).
\<close>

definition HdfPmSetMode :: "'d PowerStateToken option \<Rightarrow> uint32_t \<Rightarrow> 'd PowerStateToken option" where
  "HdfPmSetMode token mode =
     (if mode > HDF_POWER_MODE_MAX then token
      else map_option (\<lambda>t. t\<lparr>pt_body := (pt_body t)\<lparr>pt_mode := mode\<rparr>\<rparr>) token)"

definition HdfPmAcquireDevice :: "'d PowerStateToken option \<Rightarrow> 'd PowerStateToken option" where
  "HdfPmAcquireDevice token =
     (case token of None \<Rightarrow> None | Some t \<Rightarrow> PowerStateTokenAcquireWakeLock (Some t))"

definition HdfPmReleaseDevice :: "'d PowerStateToken option \<Rightarrow> 'd PowerStateToken option" where
  "HdfPmReleaseDevice token =
     (case token of None \<Rightarrow> None | Some t \<Rightarrow> PowerStateTokenReleaseWakeLock (Some t))"

section \<open>Wake locks: the contract and the token that provides it\<close>

text \<open>Two neighbouring calls of a driver differ: it is never resumed or suspended twice.\<close>

fun alternating :: "'a list \<Rightarrow> bool" where
  "alternating (a # b # r) \<longleftrightarrow> a \<noteq> b \<and> alternating (b # r)"
| "alternating _ \<longleftrightarrow> True"

lemma alternating_snoc:
  "alternating (xs @ [x]) \<longleftrightarrow> alternating xs \<and> (xs = [] \<or> last xs \<noteq> x)"
  by (induction xs rule: alternating.induct) auto

text \<open>How many wake locks are held after a sequence of acquires (true) and releases.\<close>

definition wake_holds :: "bool list \<Rightarrow> nat" where
  "wake_holds ops = foldl (\<lambda>n a. if a then Suc n else n - 1) 0 ops"

lemma wake_holds_simps [simp]:
  "wake_holds [] = 0"
  "wake_holds (ops @ [a]) = (if a then Suc (wake_holds ops) else wake_holds ops - 1)"
  by (simp_all add: wake_holds_def)

lemma wake_holds_le: "wake_holds ops \<le> length ops"
  by (induction ops rule: rev_induct) auto

locale wake_lock =
  fixes acquire :: "'t \<Rightarrow> 't"
    and release :: "'t \<Rightarrow> 't"
    and good :: "'t \<Rightarrow> bool"
    and held :: "'t \<Rightarrow> nat"
    and calls :: "'t \<Rightarrow> bool list"
    and cap :: nat
  assumes acquire_good: "good t \<Longrightarrow> held t < cap \<Longrightarrow> good (acquire t)"
    and acquire_held: "good t \<Longrightarrow> held t < cap \<Longrightarrow> held (acquire t) = Suc (held t)"
    and acquire_calls: "good t \<Longrightarrow> held t < cap \<Longrightarrow>
      calls (acquire t) = calls t @ (if held t = 0 then [True] else [])"
    and release_good: "good t \<Longrightarrow> held t < cap \<Longrightarrow> good (release t)"
    and release_held: "good t \<Longrightarrow> held t < cap \<Longrightarrow> held (release t) = held t - 1"
    and release_calls: "good t \<Longrightarrow> held t < cap \<Longrightarrow>
      calls (release t) = calls t @
        (if held t \<le> 1 \<and> (calls t = [] \<or> last (calls t)) then [False] else [])"
begin

definition run :: "bool list \<Rightarrow> 't \<Rightarrow> 't" where
  "run ops t = foldl (\<lambda>t a. if a then acquire t else release t) t ops"

lemma run_snoc: "run (ops @ [a]) t = (if a then acquire (run ops t) else release (run ops t))"
  by (simp add: run_def)

lemma run_tracks:
  assumes "good t" "held t = 0" "calls t = []" "length ops < cap"
  shows "good (run ops t) \<and> held (run ops t) = wake_holds ops
    \<and> alternating (calls (run ops t))
    \<and> (calls (run ops t) = [] \<longrightarrow> wake_holds ops = 0)
    \<and> (calls (run ops t) \<noteq> [] \<longrightarrow> (last (calls (run ops t)) \<longleftrightarrow> 0 < wake_holds ops))"
  using assms(4)
proof (induction ops rule: rev_induct)
  case Nil
  then show ?case using assms by (simp add: run_def)
next
  case (snoc a ops)
  then have IH: "good (run ops t)" "held (run ops t) = wake_holds ops"
    "alternating (calls (run ops t))"
    "calls (run ops t) = [] \<longrightarrow> wake_holds ops = 0"
    "calls (run ops t) \<noteq> [] \<longrightarrow> (last (calls (run ops t)) \<longleftrightarrow> 0 < wake_holds ops)" by auto
  have cap: "held (run ops t) < cap" using IH(2) wake_holds_le [of ops] snoc.prems by simp
  show ?case
    using IH cap
    by (cases a)
      (auto simp: run_snoc acquire_good acquire_held acquire_calls release_good release_held
        release_calls alternating_snoc)
qed

end

text \<open>A driver whose callbacks record the calls they get and answer with the given statuses.\<close>

definition logging_listener ::
    "(bool list \<Rightarrow> int) \<Rightarrow> (bool list \<Rightarrow> int) \<Rightarrow> bool list IPowerEventListener" where
  "logging_listener rs ss =
     \<lparr>DozeResume = None, DozeSuspend = None,
      Resume = Some (\<lambda>d. (rs d, d @ [True])), Suspend = Some (\<lambda>d. (ss d, d @ [False]))\<rparr>"

abbreviation token_cap :: nat where
  "token_cap \<equiv> 2147483648"

definition token_good :: "bool list PowerStateToken \<Rightarrow> bool" where
  "token_good t \<longleftrightarrow>
     pt_mode (pt_body t) = HDF_POWER_DYNAMIC_CTRL \<and> sr_bound (pt_wakeRef t)
     \<and> sr_listener (pt_wakeRef t) = Some token_sref_listener
     \<and> (\<exists>rs ss. pt_listener (pt_body t) = Some (logging_listener rs ss))
     \<and> unat (sr_refs (pt_wakeRef t)) \<le> token_cap
     \<and> pt_psmState (pt_body t) =
         (if sr_refs (pt_wakeRef t) \<noteq> 0 then PSM_STATE_ACTIVE
          else if pt_deviceObject (pt_body t) = [] then PSM_STATE_IDLE else PSM_STATE_INACTIVE)
     \<and> (pt_deviceObject (pt_body t) \<noteq> [] \<longrightarrow>
          (last (pt_deviceObject (pt_body t)) \<longleftrightarrow> sr_refs (pt_wakeRef t) \<noteq> 0))
     \<and> (pt_deviceObject (pt_body t) = [] \<longrightarrow> sr_refs (pt_wakeRef t) = 0)"

definition token_acquire :: "'d PowerStateToken \<Rightarrow> 'd PowerStateToken" where
  "token_acquire t = the (PowerStateTokenAcquireWakeLock (Some t))"

definition token_release :: "'d PowerStateToken \<Rightarrow> 'd PowerStateToken" where
  "token_release t = the (PowerStateTokenReleaseWakeLock (Some t))"

definition token_held :: "'d PowerStateToken \<Rightarrow> nat" where
  "token_held t = unat (sr_refs (pt_wakeRef t))"

definition token_calls :: "bool list PowerStateToken \<Rightarrow> bool list" where
  "token_calls t = pt_deviceObject (pt_body t)"

lemmas token_defs = PowerStateTokenAcquireWakeLock_def PowerStateTokenReleaseWakeLock_def
  PowerStateTokenOnFirstAcquire_def PowerStateTokenOnLastRelease_def token_with_ref_def
  sref_after_inc_def sref_after_dec_def sref_inc_def sref_dec_def token_sref_listener_def
  logging_listener_def Let_def

lemma word32_inc:
  "unat (w :: 32 word) < token_cap \<Longrightarrow> unat (w + 1) = Suc (unat w)"
  by (simp add: unat_word_ariths)

lemma word32_dec: "(w :: 32 word) \<noteq> 0 \<Longrightarrow> unat (w - 1) = unat w - 1"
  by (metis unat_minus_one)

lemma word_add1_eq1: "(w + 1 = (1 :: 32 word)) \<longleftrightarrow> w = 0"
  by simp

lemma token_goodE:
  assumes "token_good t"
  obtains rs ss where "pt_listener (pt_body t) = Some (logging_listener rs ss)"
    "pt_mode (pt_body t) = HDF_POWER_DYNAMIC_CTRL" "sr_bound (pt_wakeRef t)"
    "sr_listener (pt_wakeRef t) = Some token_sref_listener"
  using assms by (auto simp: token_good_def)

lemma unat_1_iff: "unat (w :: 32 word) = 1 \<longleftrightarrow> w = 1"
  by (metis unat_1 unsigned_word_eqI)

lemma sint0_iff: "(sint (w :: 32 word) = 0) = (w = 0)"
  by (metis signed_0 signed_word_eqI)

lemma token_acquire_laws:
  assumes g: "token_good t" and h: "token_held t < token_cap"
  shows "token_good (token_acquire t)"
    and "token_held (token_acquire t) = Suc (token_held t)"
    and "token_calls (token_acquire t) = token_calls t @ (if token_held t = 0 then [True] else [])"
proof -
  obtain rs ss where l: "pt_listener (pt_body t) = Some (logging_listener rs ss)"
    "pt_mode (pt_body t) = HDF_POWER_DYNAMIC_CTRL" "sr_bound (pt_wakeRef t)"
    "sr_listener (pt_wakeRef t) = Some token_sref_listener"
    using token_goodE [OF g] .
  define w where "w = sr_refs (pt_wakeRef t)"
  have inc: "unat (w + 1) = Suc (unat w)"
    using h by (intro word32_inc) (simp add: token_held_def w_def)
  then have nz: "w + 1 \<noteq> 0" by (metis nat.distinct(1) unat_0)
  show "token_held (token_acquire t) = Suc (token_held t)"
    using l inc by (simp add: token_acquire_def token_held_def w_def token_defs)
  show "token_calls (token_acquire t) = token_calls t @ (if token_held t = 0 then [True] else [])"
    using g l unfolding token_acquire_def token_held_def token_calls_def token_good_def
    by (simp add: token_defs unat_eq_0)
  show "token_good (token_acquire t)"
    using g l inc nz h unfolding token_acquire_def token_good_def token_held_def
    by (auto simp: token_defs w_def)
qed

lemma token_release_laws:
  assumes g: "token_good t" and h: "token_held t < token_cap"
  shows "token_good (token_release t)"
    and "token_held (token_release t) = token_held t - 1"
    and "token_calls (token_release t) = token_calls t @
      (if token_held t \<le> 1 \<and> (token_calls t = [] \<or> last (token_calls t)) then [False] else [])"
proof -
  obtain rs ss where l: "pt_listener (pt_body t) = Some (logging_listener rs ss)"
    "pt_mode (pt_body t) = HDF_POWER_DYNAMIC_CTRL" "sr_bound (pt_wakeRef t)"
    "sr_listener (pt_wakeRef t) = Some token_sref_listener"
    using token_goodE [OF g] .
  define w where "w = sr_refs (pt_wakeRef t)"
  have dec: "w \<noteq> 0 \<Longrightarrow> unat (w - 1) = unat w - 1" by (rule word32_dec)
  have one: "unat w \<le> 1 \<longleftrightarrow> w = 0 \<or> w = 1"
    using unat_eq_0 [of w] unat_1_iff by fastforce
  show "token_held (token_release t) = token_held t - 1"
    using l dec by (cases "w = 0") (simp_all add: token_release_def token_held_def w_def token_defs sint0_iff)
  show "token_calls (token_release t) = token_calls t @
      (if token_held t \<le> 1 \<and> (token_calls t = [] \<or> last (token_calls t)) then [False] else [])"
    using g l one unfolding token_release_def token_held_def token_calls_def token_good_def
    by (auto simp: token_defs w_def sint0_iff)
  show "token_good (token_release t)"
    using g l dec h unfolding token_release_def token_good_def token_held_def
    by (auto simp: token_defs w_def sint0_iff)
qed

interpretation token_lock: wake_lock token_acquire token_release token_good token_held token_calls
    token_cap
  by unfold_locales (fact token_acquire_laws token_release_laws)+

text \<open>A device object's \<^verbatim>\<open>HdfPmAcquireDevice\<close> and \<^verbatim>\<open>HdfPmReleaseDevice\<close>, in sequence.\<close>

definition pm_run :: "bool list \<Rightarrow> 'd PowerStateToken option \<Rightarrow> 'd PowerStateToken option" where
  "pm_run ops token =
     foldl (\<lambda>t a. if a then HdfPmAcquireDevice t else HdfPmReleaseDevice t) token ops"

lemma pm_run_token: "pm_run ops (Some t) = Some (token_lock.run ops t)"
proof (induction ops rule: rev_induct)
  case Nil
  then show ?case by (simp add: pm_run_def token_lock.run_def)
next
  case (snoc a ops)
  have "PowerStateTokenAcquireWakeLock (Some u) = Some (token_acquire u)"
    "PowerStateTokenReleaseWakeLock (Some u) = Some (token_release u)" for u :: "bool list PowerStateToken"
    by (simp_all add: token_acquire_def token_release_def PowerStateTokenAcquireWakeLock_def
      PowerStateTokenReleaseWakeLock_def)
  with snoc show ?case
    by (simp add: pm_run_def token_lock.run_def HdfPmAcquireDevice_def HdfPmReleaseDevice_def)
qed

lemmas token_new_defs = PowerStateTokenNewInstance_def PowerStateTokenConstruct_def
  token_zeroed_def sref_zeroed_def HdfPmSetMode_def token_with_ref_def

text \<open>
  C33: Wake locks of a device under dynamic control.  After any sequence of fewer than $2^{31}$
  acquires and releases on a fresh token, the reference count is the number of locks held
  (releases beyond the last lock do not count), the token is active exactly while a lock is
  held, and the driver was resumed and suspended strictly in alternation, its last call being a
  resume exactly when a lock is held: it never sees two resumes or two suspends in a row.
\<close>

theorem power_token_tracks_wake_locks:
  assumes "length ops < token_cap"
    and "PowerStateTokenNewInstance True True [] (Some (logging_listener rs ss)) = Some t0"
  obtains t where "pm_run ops (HdfPmSetMode (Some t0) HDF_POWER_DYNAMIC_CTRL) = Some t"
    and "HdfSRefCount (Some (pt_wakeRef t)) = int (wake_holds ops)"
    and "pt_psmState (pt_body t) = PSM_STATE_ACTIVE \<longleftrightarrow> 0 < wake_holds ops"
    and "alternating (pt_deviceObject (pt_body t))"
    and "pt_deviceObject (pt_body t) \<noteq> [] \<longrightarrow>
      (last (pt_deviceObject (pt_body t)) \<longleftrightarrow> 0 < wake_holds ops)"
proof -
  obtain t1 where t1: "HdfPmSetMode (Some t0) HDF_POWER_DYNAMIC_CTRL = Some t1"
    and g: "token_good t1" "token_held t1 = 0" "token_calls t1 = []"
    using assms(2)
    by (fastforce simp: token_new_defs token_good_def token_held_def token_calls_def)
  define t where "t = token_lock.run ops t1"
  have r: "token_good t" "token_held t = wake_holds ops" "alternating (token_calls t)"
    "token_calls t \<noteq> [] \<longrightarrow> (last (token_calls t) \<longleftrightarrow> 0 < wake_holds ops)"
    using token_lock.run_tracks [OF g assms(1)] unfolding t_def by blast+
  have lt: "unat (sr_refs (pt_wakeRef t)) < 2147483648"
    using r(2) wake_holds_le [of ops] assms(1) by (simp add: token_held_def)
  show thesis
  proof (rule that)
    show "pm_run ops (HdfPmSetMode (Some t0) HDF_POWER_DYNAMIC_CTRL) = Some t"
      unfolding t1 t_def by (rule pm_run_token)
    show "HdfSRefCount (Some (pt_wakeRef t)) = int (wake_holds ops)"
      using sint_small32 [OF lt] r(2) by (simp only: HdfSRefCount.simps token_held_def)
    show "pt_psmState (pt_body t) = PSM_STATE_ACTIVE \<longleftrightarrow> 0 < wake_holds ops"
      using r(1) unfolding r(2) [symmetric]
      by (auto simp: token_good_def token_held_def unat_gt_0 split: if_splits)
  qed (use r(3,4) in \<open>simp_all add: token_calls_def\<close>)
qed

theorem power_token_tracks_wake_locks_witness:
  "\<exists>t. pm_run [True, True, False]
        (HdfPmSetMode (PowerStateTokenNewInstance True True [] (Some (logging_listener (\<lambda>_. 0) (\<lambda>_. 0))))
          HDF_POWER_DYNAMIC_CTRL) = Some t
      \<and> HdfSRefCount (Some (pt_wakeRef t)) = 1"
proof -
  obtain t0 where t0: "PowerStateTokenNewInstance True True []
      (Some (logging_listener (\<lambda>_. 0) (\<lambda>_. 0))) = Some t0"
    by (simp add: token_new_defs)
  have "wake_holds [True, True, False] = 1" by (simp add: wake_holds_def)
  then show ?thesis
    unfolding t0 using power_token_tracks_wake_locks [of "[True, True, False]", OF _ t0]
    by fastforce
qed

text \<open>
  The mode check of \<^verbatim>\<open>HdfPmSetMode\<close> lets the bound itself through: setting the mode
  \<^verbatim>\<open>HDF_POWER_MODE_MAX\<close> is accepted, and from then on the token is under neither control:
  wake locks change nothing and system power events do not reach the driver.
\<close>

theorem pm_set_mode_accepts_max:
  "HdfPmAcquireDevice (HdfPmSetMode (Some t) HDF_POWER_MODE_MAX) = HdfPmSetMode (Some t) HDF_POWER_MODE_MAX
   \<and> PowerStateChange (HdfPmSetMode (Some t) HDF_POWER_MODE_MAX) ev
      = (0, HdfPmSetMode (Some t) HDF_POWER_MODE_MAX)
   \<and> pt_mode (pt_body (the (HdfPmSetMode (Some t) HDF_POWER_MODE_MAX))) = HDF_POWER_MODE_MAX"
  by (simp add: HdfPmSetMode_def HdfPmAcquireDevice_def PowerStateTokenAcquireWakeLock_def
    PowerStateChange_def split: option.split)

section \<open>Acquires and releases of several threads\<close>

text \<open>
  The counter operations are atomic, the callback decision is taken on a separate read: a
  thread is between calls, or has changed the counter and still has to read it back.
\<close>

datatype sref_pc = Ready | Acquiring | Releasing

datatype sref_event = FirstAcquire | LastRelease

record sref_sys =
  sys_ref :: "sref_event list HdfSRef"
  sys_log :: "sref_event list"
  sys_pc :: "sref_pc list"
  sys_held :: "nat list"

definition sref_log_listener :: "sref_event list IHdfSRefListener" where
  "sref_log_listener =
     \<lparr>OnFirstAcquire = Some (\<lambda>l. l @ [FirstAcquire]), OnLastRelease = Some (\<lambda>l. l @ [LastRelease])\<rparr>"

definition sref_init :: "nat \<Rightarrow> sref_sys" where
  "sref_init n =
     \<lparr>sys_ref = the (HdfSRefConstruct (Some sref_zeroed) (Some sref_log_listener)),
      sys_log = [], sys_pc = replicate n Ready, sys_held = replicate n 0\<rparr>"

inductive sref_step :: "sref_sys \<Rightarrow> sref_sys \<Rightarrow> bool" where
  acquire_inc: "i < length (sys_pc s) \<Longrightarrow> sys_pc s ! i = Ready \<Longrightarrow>
    sref_step s (s\<lparr>sys_ref := sref_inc (sys_ref s), sys_pc := (sys_pc s)[i := Acquiring],
                   sys_held := (sys_held s)[i := Suc (sys_held s ! i)]\<rparr>)"
| acquire_read: "i < length (sys_pc s) \<Longrightarrow> sys_pc s ! i = Acquiring \<Longrightarrow>
    sref_step s (s\<lparr>sys_log := sref_after_inc (sys_ref s) (sys_log s),
                   sys_pc := (sys_pc s)[i := Ready]\<rparr>)"
| release_dec: "i < length (sys_pc s) \<Longrightarrow> sys_pc s ! i = Ready \<Longrightarrow> 0 < sys_held s ! i \<Longrightarrow>
    sref_step s (s\<lparr>sys_ref := sref_dec (sys_ref s), sys_pc := (sys_pc s)[i := Releasing],
                   sys_held := (sys_held s)[i := sys_held s ! i - 1]\<rparr>)"
| release_read: "i < length (sys_pc s) \<Longrightarrow> sys_pc s ! i = Releasing \<Longrightarrow>
    sref_step s (s\<lparr>sys_log := sref_after_dec (sys_ref s) (sys_log s),
                   sys_pc := (sys_pc s)[i := Ready]\<rparr>)"

inductive sref_reach :: "nat \<Rightarrow> sref_sys \<Rightarrow> bool" for n where
  start: "sref_reach n (sref_init n)"
| step: "sref_reach n s \<Longrightarrow> sref_step s s' \<Longrightarrow> sref_reach n s'"

definition sref_inv :: "nat \<Rightarrow> sref_sys \<Rightarrow> bool" where
  "sref_inv n s \<longleftrightarrow>
     length (sys_pc s) = n \<and> length (sys_held s) = n
     \<and> sr_refs (sys_ref s) = of_nat (sum_list (sys_held s))
     \<and> sr_listener (sys_ref s) = Some sref_log_listener"

lemma sum_list_dec:
  "i < length xs \<Longrightarrow> 0 < xs ! i \<Longrightarrow> Suc (sum_list (xs[i := xs ! i - 1])) = sum_list (xs :: nat list)"
proof (induction xs arbitrary: i)
  case Nil
  then show ?case by simp
next
  case (Cons a xs)
  then show ?case by (cases i) auto
qed

lemma sum_list_inc:
  "i < length xs \<Longrightarrow> sum_list (xs[i := Suc (xs ! i)]) = Suc (sum_list (xs :: nat list))"
proof (induction xs arbitrary: i)
  case Nil
  then show ?case by simp
next
  case (Cons a xs)
  then show ?case by (cases i) auto
qed

lemma sref_step_inv:
  assumes inv: "sref_inv n s" and st: "sref_step s s'"
  shows "sref_inv n s'"
  using st
proof (cases rule: sref_step.cases)
  case (acquire_inc i)
  with inv show ?thesis by (simp add: sref_inv_def sref_inc_def sum_list_inc)
next
  case (release_dec i)
  have "Suc (sum_list (sys_held s')) = sum_list (sys_held s)"
    using release_dec inv sum_list_dec [of i "sys_held s"] by (simp add: sref_inv_def)
  then have "(of_nat (sum_list (sys_held s)) :: 32 word) - 1 = of_nat (sum_list (sys_held s'))"
    by (metis add_diff_cancel_left' of_nat_Suc)
  with release_dec inv show ?thesis by (simp add: sref_inv_def sref_dec_def)
qed (use inv in \<open>simp_all add: sref_inv_def\<close>)

lemma sref_reach_inv: "sref_reach n s \<Longrightarrow> sref_inv n s"
proof (induction rule: sref_reach.induct)
  case start
  then show ?case
    by (simp add: sref_inv_def sref_init_def sref_zeroed_def sum_list_replicate)
next
  case (step s s')
  then show ?case by (blast intro: sref_step_inv)
qed

text \<open>
  However the atomic steps of the threads' acquires and releases interleave, the counter
  is at every moment the number of references the threads hold: no update is lost.
\<close>

theorem sref_interleaved_count:
  assumes "sref_reach n s" and "sum_list (sys_held s) < token_cap"
  shows "HdfSRefCount (Some (sys_ref s)) = int (sum_list (sys_held s))"
proof -
  have r: "sr_refs (sys_ref s) = of_nat (sum_list (sys_held s))"
    using sref_reach_inv [OF assms(1)] by (simp add: sref_inv_def)
  then have "unat (sr_refs (sys_ref s)) = sum_list (sys_held s)"
    using assms(2) by (simp add: unat_of_nat_32)
  then show ?thesis
    using assms(2) sint_small32 [of "sr_refs (sys_ref s)"] by (simp only: HdfSRefCount.simps)
qed

text \<open>Two threads: both increments happen before either read.\<close>

definition race1 :: sref_sys where
  "race1 = (sref_init 2)\<lparr>sys_ref := sref_inc (sys_ref (sref_init 2)), sys_pc := [Acquiring, Ready], sys_held := [1, 0]\<rparr>"

definition race2 :: sref_sys where
  "race2 = race1\<lparr>sys_ref := sref_inc (sys_ref race1), sys_pc := [Acquiring, Acquiring], sys_held := [1, 1]\<rparr>"

definition race3 :: sref_sys where
  "race3 = race2\<lparr>sys_pc := [Ready, Acquiring]\<rparr>"

definition race4 :: sref_sys where
  "race4 = race3\<lparr>sys_pc := [Ready, Ready]\<rparr>"

lemmas race_defs = race1_def race2_def race3_def race4_def sref_init_def sref_zeroed_def
  sref_inc_def sref_dec_def sref_after_inc_def

lemma race_steps:
  "sref_step (sref_init 2) race1" "sref_step race1 race2" "sref_step race2 race3"
  "sref_step race3 race4"
proof -
  have two': "replicate 2 x = [x, x]" for x :: nat by (simp add: numeral_2_eq_2)
  have twop: "replicate 2 x = [x, x]" for x :: sref_pc by (simp add: numeral_2_eq_2)
  show "sref_step (sref_init 2) race1"
    using acquire_inc [of 0 "sref_init 2"] by (simp add: race_defs two' twop)
  show "sref_step race1 race2"
    using acquire_inc [of 1 race1] by (simp add: race_defs two' twop)
  show "sref_step race2 race3"
    using acquire_read [of 0 race2] by (simp add: race_defs two' twop)
  show "sref_step race3 race4"
    using acquire_read [of 1 race3] by (simp add: race_defs two' twop)
qed

text \<open>
  Because the increment and the read of \<^verbatim>\<open>HdfSRefAcquire\<close> are two atomic operations,
  two threads that acquire a fresh reference at the same time can both read 2: a state is
  reachable in which both hold a reference, both calls have returned, and the first-acquire
  callback was never made.
\<close>

theorem sref_first_acquire_lost:
  "\<exists>s. sref_reach 2 s \<and> sys_held s = [1, 1] \<and> sys_pc s = [Ready, Ready]
     \<and> HdfSRefCount (Some (sys_ref s)) = 2 \<and> sys_log s = []"
proof (intro exI conjI)
  show "sref_reach 2 race4"
    by (rule sref_reach.step [OF sref_reach.step [OF sref_reach.step [OF sref_reach.step
      [OF sref_reach.start race_steps(1)] race_steps(2)] race_steps(3)] race_steps(4)])
qed (simp_all add: race_defs)

theorem sref_interleaved_count_witness:
  "\<exists>s. sref_reach 2 s \<and> HdfSRefCount (Some (sys_ref s)) = int (sum_list [1, 1 :: nat])"
proof -
  have r: "sref_reach 2 race4"
    by (rule sref_reach.step [OF sref_reach.step [OF sref_reach.step [OF sref_reach.step
      [OF sref_reach.start race_steps(1)] race_steps(2)] race_steps(3)] race_steps(4)])
  have h: "sys_held race4 = [1, 1]" by (simp add: race_defs)
  show ?thesis
    using sref_interleaved_count [OF r] r unfolding h by auto
qed

end
