(* ===== verification/Hdf_Observer.thy ===== *)
theory Hdf_Observer
  imports Hdf_Map
begin

text \<open>
  Service observation inside a host: \<^verbatim>\<open>core/host/src/hdf_service_subscriber.c\<close>,
  \<^verbatim>\<open>hdf_observer_record.c\<close> and \<^verbatim>\<open>hdf_service_observer.c\<close>.

  The singly linked lists of records and subscribers are HOL lists, head first; a record found
  by a search is changed in place, which is \<open>upd_first\<close>.  A pointer to a device object or to a
  published service is an identifier; a subscriber's \<^verbatim>\<open>OnServiceConnected\<close> is driver code, a
  call to it is an event of the returned trace: the callback's device object and the service it
  is given.
\<close>

section \<open>hdf_service_subscriber.c\<close>

abbreviation (input) SERVICE_POLICY_NONE :: uint16_t where "SERVICE_POLICY_NONE \<equiv> 0"
abbreviation (input) SERVICE_POLICY_PUBLIC :: uint16_t where "SERVICE_POLICY_PUBLIC \<equiv> 1"
abbreviation (input) SERVICE_POLICY_CAPACITY :: uint16_t where "SERVICE_POLICY_CAPACITY \<equiv> 2"
abbreviation (input) SERVICE_POLICY_FRIENDLY :: uint16_t where "SERVICE_POLICY_FRIENDLY \<equiv> 3"
abbreviation (input) SERVICE_POLICY_PRIVATE :: uint16_t where "SERVICE_POLICY_PRIVATE \<equiv> 4"
abbreviation (input) SERVICE_POLICY_INVALID :: uint16_t where "SERVICE_POLICY_INVALID \<equiv> 5"

type_synonym devid_t = uint32_t

datatype subscriber_state = HDF_SUBSCRIBER_STATE_PENDING | HDF_SUBSCRIBER_STATE_READY

text \<open>\<open>cb_OnServiceConnected\<close>: whether the function pointer is set.\<close>

record SubscriberCallback =
  cb_deviceObject :: "nat option"
  cb_OnServiceConnected :: bool

record HdfServiceSubscriber =
  ss_state :: subscriber_state
  ss_devId :: devid_t
  ss_callback :: SubscriberCallback

type_synonym connect_event = "nat option \<times> nat option"

definition HdfServiceSubscriberObtain ::
    "bool \<Rightarrow> SubscriberCallback \<Rightarrow> devid_t \<Rightarrow> HdfServiceSubscriber option" where
  "HdfServiceSubscriberObtain ok callback devid =
     (if ok then Some \<lparr>ss_state = HDF_SUBSCRIBER_STATE_PENDING, ss_devId = devid,
                       ss_callback = callback\<rparr>
      else None)"

section \<open>hdf_observer_record.c\<close>

record HdfServiceObserverRecord =
  or_serviceKey :: uint32_t
  or_policy :: uint16_t
  or_devId :: devid_t
  or_subscribers :: "HdfServiceSubscriber list"
  or_publisher :: "nat option"

definition HdfServiceObserverRecordObtain :: "bool \<Rightarrow> uint32_t \<Rightarrow> HdfServiceObserverRecord option" where
  "HdfServiceObserverRecordObtain ok serviceKey =
     (if ok then Some \<lparr>or_serviceKey = serviceKey, or_policy = 0, or_devId = 0,
                       or_subscribers = [], or_publisher = None\<rparr>
      else None)"

definition HdfServiceObserverRecordCompare :: "HdfServiceObserverRecord \<Rightarrow> uint32_t \<Rightarrow> bool" where
  "HdfServiceObserverRecordCompare record serviceKey \<longleftrightarrow> or_serviceKey record = serviceKey"

text \<open>The walk over the subscribers: the ones it makes ready, and the callbacks it makes.\<close>

fun notify_loop ::
    "nat option \<Rightarrow> devid_t \<Rightarrow> uint16_t \<Rightarrow> HdfServiceSubscriber list
     \<Rightarrow> HdfServiceSubscriber list \<times> connect_event list" where
  "notify_loop pub devId policy [] = ([], [])"
| "notify_loop pub devId policy (s # rest) =
     (let (rest', evs) = notify_loop pub devId policy rest in
      if devId = ss_devId s \<or> policy \<noteq> SERVICE_POLICY_PRIVATE then
        (s\<lparr>ss_state := HDF_SUBSCRIBER_STATE_READY\<rparr> # rest',
         (if cb_OnServiceConnected (ss_callback s)
          then (cb_deviceObject (ss_callback s), pub) # evs else evs))
      else (s # rest', evs))"

definition HdfServiceObserverRecordNotifySubscribers ::
    "HdfServiceObserverRecord \<Rightarrow> devid_t \<Rightarrow> uint16_t \<Rightarrow> HdfServiceObserverRecord \<times> connect_event list" where
  "HdfServiceObserverRecordNotifySubscribers record devId policy =
     (let (subs, evs) = notify_loop (or_publisher record) devId policy (or_subscribers record)
      in (record\<lparr>or_subscribers := subs\<rparr>, evs))"

section \<open>hdf_service_observer.c\<close>

record HdfServiceObserver =
  ob_services :: "HdfServiceObserverRecord list"

definition HdfServiceObserverConstruct :: "HdfServiceObserver" where
  "HdfServiceObserverConstruct = \<lparr>ob_services = []\<rparr>"

definition has_key :: "uint32_t \<Rightarrow> HdfServiceObserverRecord \<Rightarrow> bool" where
  "has_key k r \<longleftrightarrow> HdfServiceObserverRecordCompare r k"

text \<open>
  The part of \<^verbatim>\<open>HdfServiceObserverSubscribeService\<close> after the record is known: an immediate
  delivery when the service is already there and visible, then the insertion.
\<close>

definition subscribe_tail ::
    "HdfServiceObserverRecord \<Rightarrow> HdfServiceSubscriber \<Rightarrow> devid_t
     \<Rightarrow> HdfServiceObserverRecord \<times> connect_event list" where
  "subscribe_tail rec subscriber devid =
     (if or_publisher rec \<noteq> None \<and> cb_OnServiceConnected (ss_callback subscriber)
         \<and> (or_policy rec \<noteq> SERVICE_POLICY_PRIVATE \<or> or_devId rec = devid)
      then (rec\<lparr>or_subscribers :=
                  subscriber\<lparr>ss_state := HDF_SUBSCRIBER_STATE_READY\<rparr> # or_subscribers rec\<rparr>,
            [(cb_deviceObject (ss_callback subscriber), or_publisher rec)])
      else (rec\<lparr>or_subscribers := subscriber # or_subscribers rec\<rparr>, []))"

text \<open>\<open>okr\<close> and \<open>oks\<close>: whether the record and the subscriber can be allocated.\<close>

definition HdfServiceObserverSubscribeService ::
    "bool \<Rightarrow> bool \<Rightarrow> HdfServiceObserver option \<Rightarrow> bytes option \<Rightarrow> devid_t \<Rightarrow> SubscriberCallback
     \<Rightarrow> HDF_STATUS \<times> HdfServiceObserver option \<times> connect_event list" where
  "HdfServiceObserverSubscribeService okr oks observer svcName devid callback =
     (let serviceKey = HdfStringMakeHashKey svcName 0 in
      case observer of None \<Rightarrow> (HDF_FAILURE, None, [])
      | Some ob \<Rightarrow>
        if svcName = None then (HDF_FAILURE, Some ob, [])
        else case search_first (has_key serviceKey) (ob_services ob) of
          None \<Rightarrow>
            (case HdfServiceObserverRecordObtain okr serviceKey of
               None \<Rightarrow> (HDF_FAILURE, Some ob, [])
             | Some rec \<Rightarrow>
                 (case HdfServiceSubscriberObtain oks callback devid of
                    None \<Rightarrow> (HDF_FAILURE, Some ob, [])
                  | Some sub \<Rightarrow>
                      (let (rec', evs) = subscribe_tail rec sub devid
                       in (HDF_SUCCESS, Some (ob\<lparr>ob_services := rec' # ob_services ob\<rparr>), evs))))
        | Some rec \<Rightarrow>
            (case HdfServiceSubscriberObtain oks callback devid of
               None \<Rightarrow> (HDF_FAILURE, Some ob, [])
             | Some sub \<Rightarrow>
                 (let (rec', evs) = subscribe_tail rec sub devid
                  in (HDF_SUCCESS,
                      Some (ob\<lparr>ob_services :=
                        upd_first (has_key serviceKey) (\<lambda>_. rec') (ob_services ob)\<rparr>), evs))))"

definition HdfServiceObserverPublishService ::
    "bool \<Rightarrow> HdfServiceObserver option \<Rightarrow> bytes option \<Rightarrow> devid_t \<Rightarrow> uint16_t \<Rightarrow> nat option
     \<Rightarrow> HDF_STATUS \<times> HdfServiceObserver option \<times> connect_event list" where
  "HdfServiceObserverPublishService okr observer svcName devId policy service =
     (let serviceKey = HdfStringMakeHashKey svcName 0 in
      case observer of None \<Rightarrow> (HDF_FAILURE, None, [])
      | Some ob \<Rightarrow>
        if svcName = None then (HDF_FAILURE, Some ob, [])
        else case search_first (has_key serviceKey) (ob_services ob) of
          None \<Rightarrow>
            (case HdfServiceObserverRecordObtain okr serviceKey of
               None \<Rightarrow> (HDF_FAILURE, Some ob, [])
             | Some rec \<Rightarrow>
                 (HDF_SUCCESS,
                  Some (ob\<lparr>ob_services :=
                    rec\<lparr>or_publisher := service, or_devId := devId, or_policy := policy\<rparr>
                    # ob_services ob\<rparr>), []))
        | Some rec \<Rightarrow>
            (let (rec', evs) =
               HdfServiceObserverRecordNotifySubscribers (rec\<lparr>or_publisher := service\<rparr>) devId policy
             in (HDF_SUCCESS,
                 Some (ob\<lparr>ob_services :=
                   upd_first (has_key serviceKey) (\<lambda>_. rec') (ob_services ob)\<rparr>), evs)))"

definition HdfServiceObserverRemoveRecord ::
    "HdfServiceObserver option \<Rightarrow> bytes option \<Rightarrow> HdfServiceObserver option" where
  "HdfServiceObserverRemoveRecord observer svcName =
     (let serviceKey = HdfStringMakeHashKey svcName 0 in
      case observer of None \<Rightarrow> None
      | Some ob \<Rightarrow>
        if svcName = None then Some ob
        else case search_first (has_key serviceKey) (ob_services ob) of
          None \<Rightarrow> Some ob
        | Some rec \<Rightarrow> Some (ob\<lparr>ob_services := del_first (has_key serviceKey) (ob_services ob)\<rparr>))"

section \<open>Delivery\<close>

text \<open>Several subscriptions to one service, in order, with the callbacks they cause.\<close>

fun subscribe_all ::
    "bytes \<Rightarrow> (devid_t \<times> SubscriberCallback) list \<Rightarrow> HdfServiceObserver option
     \<Rightarrow> HdfServiceObserver option \<times> connect_event list" where
  "subscribe_all name [] ob = (ob, [])"
| "subscribe_all name ((d, cb) # subs) ob =
     (case HdfServiceObserverSubscribeService True True ob (Some name) d cb of
        (st, ob', evs) \<Rightarrow> (case subscribe_all name subs ob' of (ob'', evs') \<Rightarrow> (ob'', evs @ evs')))"

definition name_key :: "bytes \<Rightarrow> uint32_t" where
  "name_key name = HdfStringMakeHashKey (Some name) 0"

definition record_of :: "bytes \<Rightarrow> HdfServiceObserver option \<Rightarrow> HdfServiceObserverRecord option" where
  "record_of name ob = (case ob of None \<Rightarrow> None | Some o' \<Rightarrow> search_first (has_key (name_key name)) (ob_services o'))"

definition connected :: "SubscriberCallback \<Rightarrow> nat option \<Rightarrow> connect_event list" where
  "connected cb pub = (if cb_OnServiceConnected cb then [(cb_deviceObject cb, pub)] else [])"

lemma has_key_same [simp]:
  "has_key k (r\<lparr>or_subscribers := s\<rparr>) = has_key k r" "has_key k (r\<lparr>or_publisher := pb\<rparr>) = has_key k r"
  by (simp_all add: has_key_def HdfServiceObserverRecordCompare_def)

lemmas observer_defs = HdfServiceObserverSubscribeService_def HdfServiceObserverRecordObtain_def
  HdfServiceSubscriberObtain_def subscribe_tail_def record_of_def name_key_def connected_def
  HdfServiceObserverPublishService_def HdfServiceObserverRecordNotifySubscribers_def

text \<open>What one successful subscription does, in terms of the record of its service.\<close>

definition visible :: "HdfServiceObserverRecord \<Rightarrow> devid_t \<Rightarrow> bool" where
  "visible rec d \<longleftrightarrow> or_publisher rec \<noteq> None \<and> (or_policy rec \<noteq> SERVICE_POLICY_PRIVATE \<or> or_devId rec = d)"

lemma subscribe_step:
  assumes s: "HdfServiceObserverSubscribeService True True (Some ob) (Some name) d cb = (st, ob', evs)"
  shows "\<exists>o' rec. st = HDF_SUCCESS \<and> ob' = Some o' \<and> record_of name ob' = Some rec
    \<and> (case record_of name (Some ob) of
         None \<Rightarrow> or_publisher rec = None \<and> or_policy rec = 0 \<and> length (or_subscribers rec) = 1
           \<and> map (\<lambda>x. (ss_devId x, ss_callback x)) (or_subscribers rec) = [(d, cb)] \<and> evs = []
       | Some r \<Rightarrow> or_publisher rec = or_publisher r \<and> or_policy rec = or_policy r \<and> or_devId rec = or_devId r
           \<and> map (\<lambda>x. (ss_devId x, ss_callback x)) (or_subscribers rec)
              = (d, cb) # map (\<lambda>x. (ss_devId x, ss_callback x)) (or_subscribers r)
           \<and> evs = (if visible r d then connected cb (or_publisher r) else []))"
proof (cases "record_of name (Some ob)")
  case None
  then have n: "search_first (has_key (HdfStringMakeHashKey (Some name) 0)) (ob_services ob) = None"
    by (simp add: record_of_def name_key_def)
  show ?thesis
    unfolding None using s n
    by (auto simp: observer_defs has_key_def HdfServiceObserverRecordCompare_def)
next
  case (Some r)
  then have n: "search_first (has_key (HdfStringMakeHashKey (Some name) 0)) (ob_services ob) = Some r"
    by (simp add: record_of_def name_key_def)
  have k: "has_key (HdfStringMakeHashKey (Some name) 0) r" using search_first_Some [OF n] by simp
  show ?thesis
  proof (cases "visible r d \<and> cb_OnServiceConnected cb")
    case True
    with s n k show ?thesis
      by (fastforce simp: observer_defs Some visible_def search_upd_const [OF n])
  next
    case False
    with s n k show ?thesis
      by (fastforce simp: observer_defs Some visible_def search_upd_const [OF n])
  qed
qed

lemma subscribe_all_pending:
  assumes "record_of name (Some ob) = None \<or>
      (\<exists>r. record_of name (Some ob) = Some r \<and> or_publisher r = None \<and> or_policy r = 0)"
    and "subscribe_all name subs (Some ob) = (ob', evs)"
  shows "evs = [] \<and> (subs = [] \<longrightarrow> ob' = Some ob) \<and> (subs \<noteq> [] \<longrightarrow> (\<exists>o' r. ob' = Some o' \<and> record_of name ob' = Some r
    \<and> or_publisher r = None \<and> or_policy r = 0
    \<and> map (\<lambda>x. (ss_devId x, ss_callback x)) (or_subscribers r) = rev subs @
        (case record_of name (Some ob) of None \<Rightarrow> []
         | Some r \<Rightarrow> map (\<lambda>x. (ss_devId x, ss_callback x)) (or_subscribers r))))"
  using assms
proof (induction subs arbitrary: ob evs)
  case Nil
  then show ?case by simp
next
  case (Cons dc subs)
  obtain d cb where dc: "dc = (d, cb)" by force
  obtain st ob1 evs1 where s: "HdfServiceObserverSubscribeService True True (Some ob) (Some name) d cb = (st, ob1, evs1)"
    by (metis prod_cases3)
  obtain o1 rec where o1: "ob1 = Some o1" "record_of name ob1 = Some rec" and
    r: "or_publisher rec = None" "or_policy rec = 0" "evs1 = []"
    "map (\<lambda>x. (ss_devId x, ss_callback x)) (or_subscribers rec) = (d, cb) #
        (case record_of name (Some ob) of None \<Rightarrow> []
         | Some r \<Rightarrow> map (\<lambda>x. (ss_devId x, ss_callback x)) (or_subscribers r))"
    using subscribe_step [OF s] Cons.prems(1) by (auto split: option.splits simp: visible_def)
  obtain evs2 where all: "subscribe_all name subs (Some o1) = (ob', evs2)" and e: "evs = evs1 @ evs2"
    using Cons.prems(2) by (auto simp: dc s o1 split: prod.splits)
  have IH: "evs2 = [] \<and> (subs = [] \<longrightarrow> ob' = Some o1) \<and> (subs \<noteq> [] \<longrightarrow> (\<exists>o' r. ob' = Some o' \<and> record_of name ob' = Some r
    \<and> or_publisher r = None \<and> or_policy r = 0
    \<and> map (\<lambda>x. (ss_devId x, ss_callback x)) (or_subscribers r) = rev subs @
        (case record_of name (Some o1) of None \<Rightarrow> []
         | Some r \<Rightarrow> map (\<lambda>x. (ss_devId x, ss_callback x)) (or_subscribers r))))"
    using Cons.IH [OF _ all] o1 r by simp
  show ?case
  proof (cases "subs = []")
    case True
    with IH o1 r e show ?thesis by (simp add: dc)
  next
    case False
    with IH o1 r e show ?thesis by (auto simp: dc)
  qed
qed

lemma notify_loop_eq:
  "notify_loop pub devId policy subs =
     (map (\<lambda>s. if devId = ss_devId s \<or> policy \<noteq> SERVICE_POLICY_PRIVATE
                then s\<lparr>ss_state := HDF_SUBSCRIBER_STATE_READY\<rparr> else s) subs,
      concat (map (\<lambda>s. if devId = ss_devId s \<or> policy \<noteq> SERVICE_POLICY_PRIVATE
                then connected (ss_callback s) pub else []) subs))"
  by (induction subs) (auto simp: connected_def)

lemma publish_step:
  assumes p: "HdfServiceObserverPublishService True (Some ob) (Some name) devId policy svc = (st, ob', evs)"
  shows "\<exists>o' rec. st = HDF_SUCCESS \<and> ob' = Some o' \<and> record_of name ob' = Some rec
    \<and> or_publisher rec = svc
    \<and> (case record_of name (Some ob) of
         None \<Rightarrow> or_policy rec = policy \<and> or_devId rec = devId \<and> or_subscribers rec = [] \<and> evs = []
       | Some r \<Rightarrow> or_policy rec = or_policy r \<and> or_devId rec = or_devId r
           \<and> map (\<lambda>x. (ss_devId x, ss_callback x)) (or_subscribers rec)
              = map (\<lambda>x. (ss_devId x, ss_callback x)) (or_subscribers r)
           \<and> evs = concat (map (\<lambda>(d, cb). if devId = d \<or> policy \<noteq> SERVICE_POLICY_PRIVATE
                then connected cb svc else []) (map (\<lambda>x. (ss_devId x, ss_callback x)) (or_subscribers r))))"
proof (cases "record_of name (Some ob)")
  case None
  then have n: "search_first (has_key (HdfStringMakeHashKey (Some name) 0)) (ob_services ob) = None"
    by (simp add: record_of_def name_key_def)
  show ?thesis
    unfolding None using p n
    by (auto simp: observer_defs has_key_def HdfServiceObserverRecordCompare_def)
next
  case (Some r)
  then have n: "search_first (has_key (HdfStringMakeHashKey (Some name) 0)) (ob_services ob) = Some r"
    by (simp add: record_of_def name_key_def)
  have k: "has_key (HdfStringMakeHashKey (Some name) 0) r" using search_first_Some [OF n] by simp
  have cm: "concat (map (\<lambda>s. if devId = ss_devId s \<or> policy \<noteq> SERVICE_POLICY_PRIVATE
                then connected (ss_callback s) svc else []) (or_subscribers r))
    = concat (map (\<lambda>(d, cb). if devId = d \<or> policy \<noteq> SERVICE_POLICY_PRIVATE
                then connected cb svc else []) (map (\<lambda>x. (ss_devId x, ss_callback x)) (or_subscribers r)))"
    by (simp add: comp_def)
  show ?thesis
    unfolding Some using p n k cm
    by (auto simp: HdfServiceObserverPublishService_def HdfServiceObserverRecordNotifySubscribers_def
      notify_loop_eq record_of_def name_key_def search_upd_const [OF n])
qed

lemma subscribe_all_published:
  assumes "record_of name (Some ob) = Some r"
    and "subscribe_all name subs (Some ob) = (ob', evs)"
  shows "evs = concat (map (\<lambda>(d, cb). if visible r d then connected cb (or_publisher r) else []) subs)"
  using assms
proof (induction subs arbitrary: ob r evs)
  case Nil
  then show ?case by simp
next
  case (Cons dc subs)
  obtain d cb where dc: "dc = (d, cb)" by force
  obtain st ob1 evs1 where s: "HdfServiceObserverSubscribeService True True (Some ob) (Some name) d cb = (st, ob1, evs1)"
    by (metis prod_cases3)
  obtain o1 rec where o1: "ob1 = Some o1" "record_of name ob1 = Some rec" and
    r: "or_publisher rec = or_publisher r" "or_policy rec = or_policy r" "or_devId rec = or_devId r"
    "evs1 = (if visible r d then connected cb (or_publisher r) else [])"
    using subscribe_step [OF s] Cons.prems(1) by auto
  obtain evs2 where all: "subscribe_all name subs (Some o1) = (ob', evs2)" and e: "evs = evs1 @ evs2"
    using Cons.prems(2) by (auto simp: dc s o1 split: prod.splits)
  have v: "visible rec = visible r" using r by (simp add: visible_def fun_eq_iff)
  show ?case
    using Cons.IH [OF o1(2) [unfolded o1(1)] all] e r(4) unfolding v r(1) by (simp add: dc)
qed

text \<open>A subscriber history around one publication.\<close>

definition observed ::
    "bytes \<Rightarrow> (devid_t \<times> SubscriberCallback) list \<Rightarrow> devid_t \<Rightarrow> uint16_t \<Rightarrow> nat
     \<Rightarrow> (devid_t \<times> SubscriberCallback) list \<Rightarrow> HdfServiceObserver \<Rightarrow> connect_event list" where
  "observed name before devId policy svc after ob =
     (case subscribe_all name before (Some ob) of (ob1, e1) \<Rightarrow>
        case HdfServiceObserverPublishService True ob1 (Some name) devId policy (Some svc) of (st, ob2, e2) \<Rightarrow>
          case subscribe_all name after ob2 of (ob3, e3) \<Rightarrow> e1 @ e2 @ e3)"

lemma observed_eq:
  assumes n: "record_of name (Some ob) = None"
  shows "observed name before devId policy svc after ob =
     concat (map (\<lambda>(d, cb). if devId = d \<or> policy \<noteq> SERVICE_POLICY_PRIVATE
                then connected cb (Some svc) else []) (rev before))
     @ concat (map (\<lambda>(d, cb). if before \<noteq> [] \<or> devId = d \<or> policy \<noteq> SERVICE_POLICY_PRIVATE
                then connected cb (Some svc) else []) after)"
proof -
  obtain ob1 e1 where s1: "subscribe_all name before (Some ob) = (ob1, e1)" by force
  have p1: "e1 = [] \<and> (before = [] \<longrightarrow> ob1 = Some ob) \<and> (before \<noteq> [] \<longrightarrow> (\<exists>o' r. ob1 = Some o' \<and> record_of name ob1 = Some r
    \<and> or_publisher r = None \<and> or_policy r = 0
    \<and> map (\<lambda>x. (ss_devId x, ss_callback x)) (or_subscribers r) = rev before))"
    using subscribe_all_pending [OF disjI1 [OF n] s1] n by simp
  then obtain o1 where o1: "ob1 = Some o1" by (cases "before = []") auto
  obtain st ob2 e2 where s2: "HdfServiceObserverPublishService True (Some o1) (Some name) devId policy (Some svc) = (st, ob2, e2)"
    by (metis prod_cases3)
  obtain o2 rec where o2: "ob2 = Some o2" "record_of name ob2 = Some rec" "or_publisher rec = Some svc" and
    r: "case record_of name (Some o1) of
         None \<Rightarrow> or_policy rec = policy \<and> or_devId rec = devId \<and> e2 = []
       | Some r \<Rightarrow> or_policy rec = or_policy r
           \<and> e2 = concat (map (\<lambda>(d, cb). if devId = d \<or> policy \<noteq> SERVICE_POLICY_PRIVATE
                then connected cb (Some svc) else []) (map (\<lambda>x. (ss_devId x, ss_callback x)) (or_subscribers r)))"
    using publish_step [OF s2] by (fastforce split: option.splits)
  obtain ob3 e3 where s3: "subscribe_all name after (Some o2) = (ob3, e3)" by force
  have e3: "e3 = concat (map (\<lambda>(d, cb). if visible rec d then connected cb (Some svc) else []) after)"
    using subscribe_all_published [OF o2(2) [unfolded o2(1)] s3] unfolding o2(3) .
  have obs: "observed name before devId policy svc after ob = e1 @ e2 @ e3"
    by (simp add: observed_def s1 o1 s2 o2(1) s3)
  show ?thesis
  proof (cases "before = []")
    case True
    then have "e2 = []" "visible rec = (\<lambda>d. devId = d \<or> policy \<noteq> SERVICE_POLICY_PRIVATE)"
      using r p1 o1 n o2(3) by (auto simp: visible_def fun_eq_iff)
    then show ?thesis using True p1 obs e3 by simp
  next
    case False
    then have "e2 = concat (map (\<lambda>(d, cb). if devId = d \<or> policy \<noteq> SERVICE_POLICY_PRIVATE
                then connected cb (Some svc) else []) (rev before))" "visible rec = (\<lambda>d. True)"
      using r p1 o1 o2(3) by (auto simp: visible_def fun_eq_iff)
    then show ?thesis using False p1 obs e3 by simp
  qed
qed

text \<open>
  C30: A service that is not private reaches every subscriber exactly once, whether it subscribed
  before the publication or after it: the callbacks made are those of the earlier subscribers,
  latest first, then those of the later ones in order.
\<close>

theorem observer_connects_every_subscriber_once:
  assumes "record_of name (Some ob) = None" and "policy \<noteq> SERVICE_POLICY_PRIVATE"
    and "\<forall>s\<in>set (before @ after). cb_OnServiceConnected (snd s)"
  shows "observed name before devId policy svc after ob =
    map (\<lambda>s. (cb_deviceObject (snd s), Some svc)) (rev before @ after)"
proof -
  have "concat (map (\<lambda>(d, cb). connected cb (Some svc)) xs) = map (\<lambda>s. (cb_deviceObject (snd s), Some svc)) xs"
    if "\<forall>s\<in>set xs. cb_OnServiceConnected (snd s)" for xs :: "(devid_t \<times> SubscriberCallback) list"
    using that by (induction xs) (auto simp: connected_def)
  then show ?thesis using assms(2,3) by (simp add: observed_eq [OF assms(1)])
qed

theorem observer_connects_every_subscriber_once_witness:
  "observed [65] [(1, \<lparr>cb_deviceObject = Some 10, cb_OnServiceConnected = True\<rparr>)] 7 SERVICE_POLICY_PUBLIC 99
     [(2, \<lparr>cb_deviceObject = Some 20, cb_OnServiceConnected = True\<rparr>)] HdfServiceObserverConstruct
   = [(Some 10, Some 99), (Some 20, Some 99)]"
  by (subst observer_connects_every_subscriber_once)
    (simp_all add: record_of_def HdfServiceObserverConstruct_def)

text \<open>
  C37: Isolation of private services: when the publication creates the record, a private service
  is connected only to subscribers on the publisher's own device.
\<close>

theorem observer_private_isolated:
  assumes "record_of name (Some ob) = None"
    and "e \<in> set (observed name [] devId SERVICE_POLICY_PRIVATE svc after ob)"
  obtains cb where "(devId, cb) \<in> set after" and "e = (cb_deviceObject cb, Some svc)"
  using assms(2) that by (auto simp: observed_eq [OF assms(1)] connected_def split: if_splits)

theorem observer_private_isolated_witness:
  "\<exists>cb. (7, cb) \<in> set [(7 :: devid_t, \<lparr>cb_deviceObject = Some 10, cb_OnServiceConnected = True\<rparr>)]
     \<and> (Some 10, Some 99) = (cb_deviceObject cb, Some (99 :: nat))"
  using observer_private_isolated [of "[65]" HdfServiceObserverConstruct "(Some 10, Some 99)" 7 99
    "[(7, \<lparr>cb_deviceObject = Some 10, cb_OnServiceConnected = True\<rparr>)]"]
  by (fastforce simp: observed_eq connected_def record_of_def HdfServiceObserverConstruct_def)

text \<open>
  The isolation is lost when a subscriber came first.  Its subscription creates the record,
  and \<^verbatim>\<open>HdfServiceObserverPublishService\<close> does not store the policy and device of a service
  published on an existing record: every later subscriber, on whatever device, is connected to
  the private service, while the earlier subscribers are still filtered.
\<close>

theorem observer_private_leaks_to_late_subscriber:
  assumes "record_of name (Some ob) = None" and "d \<noteq> devId" "d' \<noteq> devId"
    and "cb_OnServiceConnected cb'"
  shows "observed name [(d, cb)] devId SERVICE_POLICY_PRIVATE svc [(d', cb')] ob
    = [(cb_deviceObject cb', Some svc)]"
  using assms(2-4) by (simp add: observed_eq [OF assms(1)] connected_def)

theorem observer_private_leaks_to_late_subscriber_witness:
  "observed [65] [(1, \<lparr>cb_deviceObject = Some 10, cb_OnServiceConnected = True\<rparr>)] 7 SERVICE_POLICY_PRIVATE 99
     [(2, \<lparr>cb_deviceObject = Some 20, cb_OnServiceConnected = True\<rparr>)] HdfServiceObserverConstruct
   = [(Some 20, Some 99)]"
  by (subst observer_private_leaks_to_late_subscriber)
    (simp_all add: record_of_def HdfServiceObserverConstruct_def)

end
