(* ===== verification/Hdf_DevSvc.thy ===== *)
theory Hdf_DevSvc
  imports Hdf_Map
begin

text \<open>
  The registry of public services: \<^verbatim>\<open>core/manager/src/devsvc_manager.c\<close> with its records
  (\<^verbatim>\<open>core/shared/src/hdf_service_record.c\<close>) and the host-side client
  \<^verbatim>\<open>core/host/src/devsvc_manager_clnt.c\<close>.

  A record maps the hash of a service name to a device object, here an identifier; the list is
  head first.  What every provider of such a registry promises is the locale
  \<open>service_registry\<close>; it is interpreted on this code at the end.
\<close>

section \<open>devsvc_manager.c\<close>

record DevSvcRecord =
  dr_key :: uint32_t
  dr_value :: nat

record DevSvcManager =
  dm_services :: "DevSvcRecord list"

definition svc_key :: "bytes option \<Rightarrow> uint32_t" where
  "svc_key svcName = HdfStringMakeHashKey svcName 0"

definition DevSvcManagerSearchService :: "DevSvcManager option \<Rightarrow> uint32_t \<Rightarrow> DevSvcRecord option" where
  "DevSvcManagerSearchService inst serviceKey =
     (case inst of None \<Rightarrow> None
      | Some m \<Rightarrow> search_first (\<lambda>record. dr_key record = serviceKey) (dm_services m))"

definition DevSvcRecordNewInstance :: "bool \<Rightarrow> DevSvcRecord option" where
  "DevSvcRecordNewInstance ok = (if ok then Some \<lparr>dr_key = 0, dr_value = 0\<rparr> else None)"

definition DevSvcManagerAddService ::
    "bool \<Rightarrow> DevSvcManager option \<Rightarrow> bytes option \<Rightarrow> nat option \<Rightarrow> HDF_STATUS \<times> DevSvcManager option" where
  "DevSvcManagerAddService ok inst svcName service =
     (case (inst, service, svcName) of
        (Some m, Some obj, Some name) \<Rightarrow>
          (case DevSvcRecordNewInstance ok of
             None \<Rightarrow> (HDF_FAILURE, inst)
           | Some record \<Rightarrow>
               (HDF_SUCCESS,
                Some (m\<lparr>dm_services :=
                  record\<lparr>dr_key := svc_key (Some name), dr_value := obj\<rparr> # dm_services m\<rparr>)))
      | _ \<Rightarrow> (HDF_FAILURE, inst))"

definition DevSvcManagerRemoveService :: "DevSvcManager option \<Rightarrow> bytes option \<Rightarrow> DevSvcManager option" where
  "DevSvcManagerRemoveService inst svcName =
     (let serviceKey = svc_key svcName in
      if svcName = None then inst
      else case inst of None \<Rightarrow> None
      | Some m \<Rightarrow>
          (case DevSvcManagerSearchService inst serviceKey of
             None \<Rightarrow> inst
           | Some record \<Rightarrow>
               Some (m\<lparr>dm_services := del_first (\<lambda>r. dr_key r = serviceKey) (dm_services m)\<rparr>)))"

definition DevSvcManagerGetObject :: "DevSvcManager option \<Rightarrow> bytes option \<Rightarrow> nat option" where
  "DevSvcManagerGetObject inst svcName =
     (let serviceKey = svc_key svcName in
      if svcName = None then None
      else map_option dr_value (DevSvcManagerSearchService inst serviceKey))"

text \<open>The \<open>service\<close> field of a device object is read through \<open>serviceOf\<close>.\<close>

definition DevSvcManagerGetService ::
    "(nat \<Rightarrow> nat option) \<Rightarrow> DevSvcManager option \<Rightarrow> bytes option \<Rightarrow> nat option" where
  "DevSvcManagerGetService serviceOf inst svcName =
     (case DevSvcManagerGetObject inst svcName of
        None \<Rightarrow> None
      | Some deviceObject \<Rightarrow> serviceOf deviceObject)"

text \<open>\<open>okm\<close>: the mutex can be created.\<close>

definition DevSvcManagerConstruct :: "bool \<Rightarrow> bool \<times> DevSvcManager" where
  "DevSvcManagerConstruct okm = (okm, \<lparr>dm_services = []\<rparr>)"

definition DevSvcManagerRelease :: "DevSvcManager option \<Rightarrow> DevSvcManager option" where
  "DevSvcManagerRelease obj = map_option (\<lambda>m. m\<lparr>dm_services := []\<rparr>) obj"

section \<open>devsvc_manager_clnt.c\<close>

text \<open>
  The client holds the manager interface, or null when the object could not be created; the
  interface's function pointers are those \<^verbatim>\<open>DevSvcManagerConstruct\<close> sets.
\<close>

definition DevSvcManagerClntAddService ::
    "bool \<Rightarrow> DevSvcManager option \<Rightarrow> bytes option \<Rightarrow> nat option \<Rightarrow> HDF_STATUS \<times> DevSvcManager option" where
  "DevSvcManagerClntAddService ok serviceManager svcName service =
     (case serviceManager of None \<Rightarrow> (HDF_FAILURE, None)
      | Some m \<Rightarrow> DevSvcManagerAddService ok (Some m) svcName service)"

definition DevSvcManagerClntGetService ::
    "(nat \<Rightarrow> nat option) \<Rightarrow> DevSvcManager option \<Rightarrow> bytes option \<Rightarrow> nat option" where
  "DevSvcManagerClntGetService serviceOf serviceManager svcName =
     (case serviceManager of None \<Rightarrow> None
      | Some m \<Rightarrow> DevSvcManagerGetService serviceOf (Some m) svcName)"

definition DevSvcManagerClntGetDeviceObject :: "DevSvcManager option \<Rightarrow> bytes option \<Rightarrow> nat option" where
  "DevSvcManagerClntGetDeviceObject serviceManager svcName =
     (case serviceManager of None \<Rightarrow> None
      | Some m \<Rightarrow> DevSvcManagerGetObject (Some m) svcName)"

text \<open>\<^verbatim>\<open>UnsubscribeService\<close> is the one pointer \<^verbatim>\<open>DevSvcManagerConstruct\<close> leaves null.\<close>

definition DevSvcManagerClntUnsubscribeService :: "DevSvcManager option \<Rightarrow> bytes option \<Rightarrow> HDF_STATUS" where
  "DevSvcManagerClntUnsubscribeService serviceManager svcName = HDF_FAILURE"

definition DevSvcManagerClntRemoveService :: "DevSvcManager option \<Rightarrow> bytes option \<Rightarrow> DevSvcManager option" where
  "DevSvcManagerClntRemoveService serviceManager svcName =
     (case serviceManager of None \<Rightarrow> None
      | Some m \<Rightarrow> DevSvcManagerRemoveService (Some m) svcName)"

section \<open>The contract of a registry\<close>

text \<open>Publishing shadows, withdrawing uncovers; names with equal keys are one entry.\<close>

locale service_registry =
  fixes add :: "'n \<Rightarrow> 'o \<Rightarrow> 'r \<Rightarrow> 'r"
    and remove :: "'n \<Rightarrow> 'r \<Rightarrow> 'r"
    and get :: "'r \<Rightarrow> 'n \<Rightarrow> 'o option"
    and same :: "'n \<Rightarrow> 'n \<Rightarrow> bool"
  assumes same_refl: "same n n"
    and same_sym: "same n m \<Longrightarrow> same m n"
    and get_add_same: "same n m \<Longrightarrow> get (add n v r) m = Some v"
    and get_add_other: "\<not> same n m \<Longrightarrow> get (add n v r) m = get r m"
    and remove_add_same: "same n m \<Longrightarrow> remove m (add n v r) = r"
    and remove_add_other: "\<not> same n m \<Longrightarrow> remove m (add n v r) = add n v (remove m r)"
begin

definition publish_all :: "('n \<times> 'o) list \<Rightarrow> 'r \<Rightarrow> 'r" where
  "publish_all svcs r = foldr (\<lambda>(n, v). add n v) svcs r"

definition withdraw_all :: "'n list \<Rightarrow> 'r \<Rightarrow> 'r" where
  "withdraw_all ns r = fold remove ns r"

fun separate :: "'n list \<Rightarrow> bool" where
  "separate [] \<longleftrightarrow> True"
| "separate (n # ns) \<longleftrightarrow> (\<forall>m\<in>set ns. \<not> same n m) \<and> separate ns"

lemma publish_all_Cons [simp]: "publish_all ((n, v) # svcs) r = add n v (publish_all svcs r)"
  by (simp add: publish_all_def)

lemma get_publish_all:
  "separate (map fst svcs) \<Longrightarrow> (n, v) \<in> set svcs \<Longrightarrow> get (publish_all svcs r) n = Some v"
proof (induction svcs)
  case Nil
  then show ?case by simp
next
  case (Cons s svcs)
  obtain m w where s: "s = (m, w)" by force
  show ?case
  proof (cases "(n, v) = s")
    case True
    then show ?thesis using s by (simp add: get_add_same same_refl)
  next
    case False
    with Cons.prems have i: "(n, v) \<in> set svcs" by simp
    then have "n \<in> fst ` set svcs" by force
    then have "\<not> same m n" using Cons.prems(1) s by auto
    then show ?thesis using Cons.IH Cons.prems(1) i s by (simp add: get_add_other)
  qed
qed

lemma remove_published:
  "separate (map fst svcs) \<Longrightarrow> (n, v) \<in> set svcs \<Longrightarrow>
     remove n (publish_all svcs r) = publish_all (filter (\<lambda>s. fst s \<noteq> n) svcs) r"
proof (induction svcs)
  case Nil
  then show ?case by simp
next
  case (Cons s svcs)
  obtain m w where s: "s = (m, w)" by force
  show ?case
  proof (cases "m = n")
    case True
    then have "filter (\<lambda>s. fst s \<noteq> n) svcs = svcs"
      using Cons.prems(1) s same_refl by (auto simp: filter_id_conv)
    then show ?thesis using True s by (simp add: remove_add_same same_refl)
  next
    case False
    with Cons.prems s have i: "(n, v) \<in> set svcs" by auto
    then have "n \<in> fst ` set svcs" by force
    then have "\<not> same m n" using Cons.prems(1) s by auto
    then show ?thesis using Cons.IH Cons.prems(1) i s False by (simp add: remove_add_other)
  qed
qed

lemma separate_filter: "separate (map fst svcs) \<Longrightarrow> separate (map fst (filter P svcs))"
  by (induction svcs) auto

lemma separate_distinct: "separate ns \<Longrightarrow> distinct ns"
  using same_refl by (induction ns) auto

lemma withdraw_published:
  "separate (map fst svcs) \<Longrightarrow> distinct ns \<Longrightarrow> set ns = fst ` set svcs \<Longrightarrow>
     withdraw_all ns (publish_all svcs r) = r"
proof (induction ns arbitrary: svcs)
  case Nil
  then show ?case by (simp add: withdraw_all_def publish_all_def)
next
  case (Cons n ns)
  then obtain v where "(n, v) \<in> set svcs" by force
  then have r: "remove n (publish_all svcs r) = publish_all (filter (\<lambda>s. fst s \<noteq> n) svcs) r"
    by (rule remove_published [OF Cons.prems(1)])
  have "set ns = fst ` set (filter (\<lambda>s. fst s \<noteq> n) svcs)"
    using Cons.prems(2,3) by auto
  then have "withdraw_all ns (publish_all (filter (\<lambda>s. fst s \<noteq> n) svcs) r) = r"
    using Cons.IH [OF separate_filter [OF Cons.prems(1)]] Cons.prems(2) by simp
  then show ?case by (simp add: withdraw_all_def r)
qed

end

section \<open>The manager as a registry\<close>

definition devsvc_add :: "bytes \<Rightarrow> nat \<Rightarrow> DevSvcManager \<Rightarrow> DevSvcManager" where
  "devsvc_add n v m = the (snd (DevSvcManagerAddService True (Some m) (Some n) (Some v)))"

definition devsvc_remove :: "bytes \<Rightarrow> DevSvcManager \<Rightarrow> DevSvcManager" where
  "devsvc_remove n m = the (DevSvcManagerRemoveService (Some m) (Some n))"

definition devsvc_get :: "DevSvcManager \<Rightarrow> bytes \<Rightarrow> nat option" where
  "devsvc_get m n = DevSvcManagerGetObject (Some m) (Some n)"

definition same_key :: "bytes \<Rightarrow> bytes \<Rightarrow> bool" where
  "same_key n m \<longleftrightarrow> svc_key (Some n) = svc_key (Some m)"

lemmas devsvc_defs = devsvc_add_def devsvc_remove_def devsvc_get_def same_key_def
  DevSvcManagerAddService_def DevSvcManagerRemoveService_def DevSvcManagerGetObject_def
  DevSvcManagerSearchService_def DevSvcRecordNewInstance_def Let_def

interpretation devsvc: service_registry devsvc_add devsvc_remove devsvc_get same_key
proof unfold_locales
  show "\<not> same_key n m \<Longrightarrow> devsvc_remove m (devsvc_add n v r) = devsvc_add n v (devsvc_remove m r)"
    for n m v r
    by (auto simp: devsvc_defs split: option.split)
qed (auto simp: devsvc_defs split: option.splits)

text \<open>Publishing several services, the last of the list first, and withdrawing names.\<close>

definition publish_services :: "(bytes \<times> nat) list \<Rightarrow> DevSvcManager \<Rightarrow> DevSvcManager" where
  "publish_services svcs m =
     foldr (\<lambda>(n, v) m. the (snd (DevSvcManagerAddService True (Some m) (Some n) (Some v)))) svcs m"

definition withdraw_services :: "bytes list \<Rightarrow> DevSvcManager \<Rightarrow> DevSvcManager" where
  "withdraw_services ns m = fold (\<lambda>n m. the (DevSvcManagerRemoveService (Some m) (Some n))) ns m"

lemma publish_services_all: "publish_services svcs m = devsvc.publish_all svcs m"
  unfolding publish_services_def devsvc.publish_all_def devsvc_add_def ..

lemma withdraw_services_all: "withdraw_services ns m = devsvc.withdraw_all ns m"
  unfolding withdraw_services_def devsvc.withdraw_all_def devsvc_remove_def ..

text \<open>The hash keys of the names differ pairwise.\<close>

definition separate_names :: "bytes list \<Rightarrow> bool" where
  "separate_names ns \<longleftrightarrow> distinct (map (\<lambda>n. svc_key (Some n)) ns)"

lemma separate_names: "separate_names ns \<Longrightarrow> devsvc.separate ns"
  by (induction ns) (auto simp: separate_names_def same_key_def image_iff)

text \<open>
  C36: Publishing and withdrawing.  When services whose names have pairwise different hash keys
  are published, each name leads to its own device object, and withdrawing them all, in any
  order, brings the registry back to what it was.
\<close>

theorem registry_publish_withdraw:
  assumes "separate_names (map fst svcs)"
  shows "(\<forall>(n, v)\<in>set svcs. DevSvcManagerGetObject (Some (publish_services svcs m)) (Some n) = Some v)
    \<and> (\<forall>ns. distinct ns \<and> set ns = fst ` set svcs \<longrightarrow>
         withdraw_services ns (publish_services svcs m) = m)"
  using devsvc.get_publish_all [OF separate_names [OF assms], of _ _ m]
    devsvc.withdraw_published [OF separate_names [OF assms], of _ m]
  by (auto simp: publish_services_all withdraw_services_all devsvc_get_def)

theorem registry_publish_withdraw_witness:
  "DevSvcManagerGetObject (Some (publish_services [([97], 1), ([98], 2)] \<lparr>dm_services = []\<rparr>)) (Some [98]) = Some 2
   \<and> withdraw_services [[97], [98]] (publish_services [([97], 1), ([98], 2)] \<lparr>dm_services = []\<rparr>)
     = \<lparr>dm_services = []\<rparr>"
proof -
  have s: "separate_names (map fst [([97], 1 :: nat), ([98], 2)])"
    by (simp add: separate_names_def svc_key_def HdfStringMakeHashKey_def char_to_uint32_def)
  have "distinct [[97 :: uint8_t], [98]]" by simp
  then show ?thesis using registry_publish_withdraw [OF s] by auto
qed

text \<open>
  Two services of one name: a second publication is accepted and hides the first, and
  withdrawing the name once withdraws only the latest; the earlier object is found again.
\<close>

theorem registry_shadowing:
  assumes "DevSvcManagerAddService True (Some m) (Some n) (Some v) = (st, Some m1)"
    and "DevSvcManagerAddService True (Some m1) (Some n) (Some w) = (st', Some m2)"
  shows "st' = HDF_SUCCESS \<and> DevSvcManagerGetObject (Some m2) (Some n) = Some w
    \<and> DevSvcManagerRemoveService (Some m2) (Some n) = Some m1
    \<and> DevSvcManagerGetObject (DevSvcManagerRemoveService (Some m2) (Some n)) (Some n) = Some v"
  using assms by (auto simp: devsvc_defs)

theorem registry_shadowing_witness:
  "\<exists>m1 m2. DevSvcManagerRemoveService (Some m2) (Some [97]) = Some m1
     \<and> DevSvcManagerGetObject (Some m2) (Some [97]) = Some 2"
  using registry_shadowing [of "\<lparr>dm_services = []\<rparr>" "[97]" 1 HDF_SUCCESS
      "\<lparr>dm_services = [\<lparr>dr_key = svc_key (Some [97]), dr_value = 1\<rparr>]\<rparr>" 2 HDF_SUCCESS
      "\<lparr>dm_services = [\<lparr>dr_key = svc_key (Some [97]), dr_value = 2\<rparr>, \<lparr>dr_key = svc_key (Some [97]), dr_value = 1\<rparr>]\<rparr>"]
  by (force simp: DevSvcManagerAddService_def DevSvcRecordNewInstance_def)

text \<open>
  The registry never compares names, only 31-bit hashes of them.  The names
  \<^verbatim>\<open>yhtetc\<close> and \<^verbatim>\<open>abcghn\<close> have the same hash: with only the first published, a
  lookup of the second succeeds with the first one's device object.
\<close>

theorem registry_confuses_colliding_names:
  "DevSvcManagerGetObject
     (snd (DevSvcManagerAddService True (Some m) (Some [121, 104, 116, 101, 116, 99]) (Some v)))
     (Some [97, 98, 99, 103, 104, 110]) = Some v"
proof -
  have "svc_key (Some [121, 104, 116, 101, 116, 99]) = svc_key (Some [97, 98, 99, 103, 104, 110])"
    by (simp add: svc_key_def HdfStringMakeHashKey_def char_to_uint32_def)
  then show ?thesis by (auto simp: devsvc_defs)
qed

end
