(* ===== verification/Hdf_Driver.thy ===== *)
theory Hdf_Driver
  imports Hdf_Prelude
begin

text \<open>
  Device information and drivers: \<^verbatim>\<open>core/shared/src/hdf_device_info.c\<close>, the device-id
  macros of \<^verbatim>\<open>core/host/include/hdf_device.h\<close>, the driver list of
  \<^verbatim>\<open>core/manager/src/driver_manager.c\<close> and the loader
  \<^verbatim>\<open>core/host/src/hdf_driver_loader.c\<close>.

  A driver entry is a static object of driver code, given by its address and read through a
  function \<open>entryOf\<close>; its three functions act on the device object (type
  \<open>'d HdfDeviceObject\<close>, with the driver's private data of type \<open>'d\<close>) and return a status,
  zero for success.
\<close>

section \<open>Device identifiers\<close>

type_synonym devid_t = uint32_t

definition HOSTID :: "devid_t \<Rightarrow> uint32_t" where
  "HOSTID devid = drop_bit 24 devid"

definition DEVICEID :: "devid_t \<Rightarrow> uint32_t" where
  "DEVICEID devid = drop_bit 8 devid AND 0xFFFF"

definition DEVNODEID :: "devid_t \<Rightarrow> uint32_t" where
  "DEVNODEID devid = devid AND 0xFF"

text \<open>The operands are promoted to \<^verbatim>\<open>int\<close>.\<close>

definition MK_DEVID :: "uint16_t \<Rightarrow> uint16_t \<Rightarrow> uint8_t \<Rightarrow> devid_t" where
  "MK_DEVID hostId deviceId devnodeId =
     push_bit 24 (ucast hostId) OR push_bit 8 (ucast deviceId) OR ucast devnodeId"

section \<open>hdf_device_info.c\<close>

abbreviation (input) DEVICE_PRELOAD_ENABLE :: uint16_t where "DEVICE_PRELOAD_ENABLE \<equiv> 0"
abbreviation (input) DEVICE_PRELOAD_ENABLE_STEP2 :: uint16_t where "DEVICE_PRELOAD_ENABLE_STEP2 \<equiv> 1"
abbreviation (input) DEVICE_PRELOAD_DISABLE :: uint16_t where "DEVICE_PRELOAD_DISABLE \<equiv> 2"
abbreviation (input) HDF_SERVICE_UNUSABLE :: uint16_t where "HDF_SERVICE_UNUSABLE \<equiv> 0"
abbreviation (input) HDF_SERVICE_USABLE :: uint16_t where "HDF_SERVICE_USABLE \<equiv> 1"
abbreviation (input) HDF_DEV_LOCAL_SERVICE :: uint16_t where "HDF_DEV_LOCAL_SERVICE \<equiv> 0"

record HdfDeviceInfo =
  di_isDynamic :: bool
  di_status :: uint16_t
  di_deviceType :: uint16_t
  di_hostId :: uint16_t
  di_deviceId :: uint16_t
  di_policy :: uint16_t
  di_priority :: uint16_t
  di_preload :: uint16_t
  di_permission :: uint16_t
  di_moduleName :: "bytes option"
  di_svcName :: "bytes option"
  di_deviceMatchAttr :: "bytes option"

definition HdfDeviceInfoConstruct :: "HdfDeviceInfo" where
  "HdfDeviceInfoConstruct =
     \<lparr>di_isDynamic = False, di_status = HDF_SERVICE_UNUSABLE, di_deviceType = HDF_DEV_LOCAL_SERVICE,
      di_hostId = 0, di_deviceId = 0, di_policy = 5, di_priority = 0,
      di_preload = DEVICE_PRELOAD_ENABLE, di_permission = 0,
      di_moduleName = None, di_svcName = None, di_deviceMatchAttr = None\<rparr>"

definition HdfDeviceInfoNewInstance :: "bool \<Rightarrow> HdfDeviceInfo option" where
  "HdfDeviceInfoNewInstance ok = (if ok then Some HdfDeviceInfoConstruct else None)"

section \<open>Driver entries\<close>

record 'd HdfDeviceObject =
  do_service :: "nat option"
  do_property :: "nat option"
  do_deviceClass :: nat
  do_priv :: 'd

record 'd HdfDriverEntry =
  de_moduleName :: "bytes option"
  de_Bind :: "('d HdfDeviceObject \<Rightarrow> int \<times> 'd HdfDeviceObject) option"
  de_Init :: "('d HdfDeviceObject \<Rightarrow> int \<times> 'd HdfDeviceObject) option"
  de_Release :: "('d HdfDeviceObject \<Rightarrow> 'd HdfDeviceObject) option"

section \<open>driver_manager.c\<close>

text \<open>A driver: its own address and that of its entry.\<close>

record HdfDriver =
  dv_self :: nat
  dv_entry :: "nat option"

type_synonym driver_list = "HdfDriver list"

definition entry_valid :: "(nat \<Rightarrow> 'd HdfDriverEntry) \<Rightarrow> nat option \<Rightarrow> bool" where
  "entry_valid entryOf entry \<longleftrightarrow> (case entry of None \<Rightarrow> False | Some e \<Rightarrow> de_moduleName (entryOf e) \<noteq> None)"

text \<open>\<open>ok\<close>: the allocation of the driver succeeds, at address \<open>addr\<close>.\<close>

definition HdfRegisterDriverEntry ::
    "(nat \<Rightarrow> 'd HdfDriverEntry) \<Rightarrow> bool \<Rightarrow> nat \<Rightarrow> nat option \<Rightarrow> driver_list \<Rightarrow> HDF_STATUS \<times> driver_list" where
  "HdfRegisterDriverEntry entryOf ok addr entry drivers =
     (if \<not> entry_valid entryOf entry then (HDF_ERR_INVALID_OBJECT, drivers)
      else if \<not> ok then (HDF_DEV_ERR_NO_MEMORY, drivers)
      else (HDF_SUCCESS, drivers @ [\<lparr>dv_self = addr, dv_entry = entry\<rparr>]))"

definition HdfUnregisterDriverEntry ::
    "(nat \<Rightarrow> 'd HdfDriverEntry) \<Rightarrow> nat option \<Rightarrow> driver_list \<Rightarrow> HDF_STATUS \<times> driver_list" where
  "HdfUnregisterDriverEntry entryOf entry drivers =
     (if \<not> entry_valid entryOf entry then (HDF_ERR_INVALID_OBJECT, drivers)
      else (HDF_SUCCESS, del_first (\<lambda>driver. dv_entry driver = entry) drivers))"

definition HdfRegisterDriver ::
    "(nat \<Rightarrow> 'd HdfDriverEntry) \<Rightarrow> HdfDriver option \<Rightarrow> driver_list \<Rightarrow> HDF_STATUS \<times> driver_list" where
  "HdfRegisterDriver entryOf driver drivers =
     (case driver of None \<Rightarrow> (HDF_ERR_INVALID_OBJECT, drivers)
      | Some d \<Rightarrow>
          if \<not> entry_valid entryOf (dv_entry d) then (HDF_ERR_INVALID_OBJECT, drivers)
          else (HDF_SUCCESS, drivers @ [d]))"

definition HdfUnregisterDriver :: "HdfDriver option \<Rightarrow> driver_list \<Rightarrow> HDF_STATUS \<times> driver_list" where
  "HdfUnregisterDriver driver drivers =
     (case driver of None \<Rightarrow> (HDF_ERR_INVALID_PARAM, drivers)
      | Some d \<Rightarrow> (HDF_SUCCESS, del_first (\<lambda>it. dv_self it = dv_self d) drivers))"

definition driver_named :: "(nat \<Rightarrow> 'd HdfDriverEntry) \<Rightarrow> bytes \<Rightarrow> HdfDriver \<Rightarrow> bool" where
  "driver_named entryOf driverName driver \<longleftrightarrow>
     (case dv_entry driver of None \<Rightarrow> False | Some e \<Rightarrow> de_moduleName (entryOf e) = Some driverName)"

definition HdfDriverManagerGetDriver ::
    "(nat \<Rightarrow> 'd HdfDriverEntry) \<Rightarrow> bytes option \<Rightarrow> driver_list \<Rightarrow> HdfDriver option" where
  "HdfDriverManagerGetDriver entryOf driverName drivers =
     (case driverName of None \<Rightarrow> None
      | Some name \<Rightarrow> search_first (driver_named entryOf name) drivers)"

section \<open>hdf_driver_loader.c\<close>

definition HdfDriverLoaderGetDriver ::
    "(nat \<Rightarrow> 'd HdfDriverEntry) \<Rightarrow> bytes option \<Rightarrow> driver_list \<Rightarrow> HdfDriver option" where
  "HdfDriverLoaderGetDriver entryOf moduleName drivers =
     (if moduleName = None then None else HdfDriverManagerGetDriver entryOf moduleName drivers)"

text \<open>
  The registration of the entries the linker collected in the driver section, an array of
  entry addresses.  The loop counter \<open>i\<close> counts down what the code counts up; \<open>addr\<close> is the
  index \<^verbatim>\<open>addrBegin\<close> points to.  The allocation of driver number \<open>n\<close> gets the \<open>n\<close>-th answer
  of the environment and that number as its address.
\<close>

fun HdfDriverEntryConstruct_loop ::
    "(nat \<Rightarrow> 'd HdfDriverEntry) \<Rightarrow> alloc_oracle \<Rightarrow> nat option list \<Rightarrow> nat \<Rightarrow> nat \<Rightarrow> driver_list \<Rightarrow> driver_list" where
  "HdfDriverEntryConstruct_loop entryOf env sect addr 0 drivers = drivers"
| "HdfDriverEntryConstruct_loop entryOf env sect addr (Suc i) drivers =
     (let (ok, env') = (if entry_valid entryOf (sect ! addr) then osal_alloc env else (True, env));
          (ret, drivers') = HdfRegisterDriverEntry entryOf ok (length drivers) (sect ! addr) drivers
      in if ret \<noteq> HDF_SUCCESS then HdfDriverEntryConstruct_loop entryOf env' sect addr i drivers'
         else HdfDriverEntryConstruct_loop entryOf env' sect (addr + 1) i drivers')"

definition HdfDriverEntryConstruct ::
    "(nat \<Rightarrow> 'd HdfDriverEntry) \<Rightarrow> alloc_oracle \<Rightarrow> nat option list \<Rightarrow> driver_list \<Rightarrow> HDF_STATUS \<times> driver_list" where
  "HdfDriverEntryConstruct entryOf env sect drivers =
     (if i32 (int (length sect)) \<le> 0 then (HDF_FAILURE, drivers)
      else (HDF_SUCCESS,
            HdfDriverEntryConstruct_loop entryOf env sect 0 (nat (i32 (int (length sect)))) drivers))"

section \<open>Lookup and registration\<close>

lemma entry_construct_loop_stuck:
  "\<not> entry_valid entryOf (sect ! addr) \<Longrightarrow>
     HdfDriverEntryConstruct_loop entryOf env sect addr i drivers = drivers"
  by (induction i) (simp_all add: HdfRegisterDriverEntry_def)

lemma entry_construct_loop_valid:
  assumes "\<forall>e\<in>set good. entry_valid entryOf e"
    and "sect = before @ good @ rest"
  shows "\<exists>drivers'. HdfDriverEntryConstruct_loop entryOf [] sect (length before) (length good + i) drivers
      = HdfDriverEntryConstruct_loop entryOf [] sect (length before + length good) i drivers'
    \<and> map dv_entry drivers' = map dv_entry drivers @ good"
  using assms
proof (induction good arbitrary: before drivers)
  case Nil
  then show ?case by auto
next
  case (Cons e good)
  have e: "sect ! length before = e" using Cons.prems(2) by simp
  let ?d = "drivers @ [\<lparr>dv_self = length drivers, dv_entry = e\<rparr>]"
  obtain drivers' where d: "HdfDriverEntryConstruct_loop entryOf [] sect (length (before @ [e])) (length good + i) ?d
      = HdfDriverEntryConstruct_loop entryOf [] sect (length (before @ [e]) + length good) i drivers'"
    "map dv_entry drivers' = map dv_entry ?d @ good"
    using Cons.IH [of "before @ [e]" ?d] Cons.prems by auto
  have "HdfDriverEntryConstruct_loop entryOf [] sect (length before) (length (e # good) + i) drivers
      = HdfDriverEntryConstruct_loop entryOf [] sect (length (before @ [e])) (length good + i) ?d"
    using Cons.prems(1) e by (simp add: HdfRegisterDriverEntry_def)
  with d show ?case by (intro exI [of _ drivers']) simp
qed

text \<open>
  Start-up registers the drivers of the linker section in the section's order, each exactly
  once, when every entry is valid and memory suffices; and when an entry is invalid, the loop
  stays on it (\<^verbatim>\<open>continue\<close> skips the increment of \<^verbatim>\<open>addrBegin\<close>): the drivers before it are
  registered, none behind it is, although the message says \<^verbatim>\<open>skip and try another\<close>, and
  success is returned.
\<close>

theorem driver_section_registered:
  assumes "\<forall>e\<in>set good. entry_valid entryOf e"
    and "rest = [] \<or> \<not> entry_valid entryOf (hd rest)"
    and "good @ rest \<noteq> []" and "length (good @ rest) < 2147483648"
  shows "fst (HdfDriverEntryConstruct entryOf [] (good @ rest) []) = HDF_SUCCESS
    \<and> map dv_entry (snd (HdfDriverEntryConstruct entryOf [] (good @ rest) [])) = good"
proof -
  have i: "i32 (int (length (good @ rest))) = int (length (good @ rest))"
    using assms(4) by simp
  have pos: "0 < int (length (good @ rest))" using assms(3) by (simp only: of_nat_0_less_iff length_greater_0_conv not_False_eq_True)
  have st: "fst (HdfDriverEntryConstruct entryOf [] (good @ rest) []) = HDF_SUCCESS"
    unfolding HdfDriverEntryConstruct_def i using pos by simp
  obtain drivers' where d: "HdfDriverEntryConstruct_loop entryOf [] (good @ rest) 0 (length good + length rest) []
      = HdfDriverEntryConstruct_loop entryOf [] (good @ rest) (length good) (length rest) drivers'"
    "map dv_entry drivers' = good"
    using entry_construct_loop_valid [OF assms(1), of "good @ rest" "[]" rest "length rest" "[]"] by auto
  have "HdfDriverEntryConstruct_loop entryOf [] (good @ rest) (length good) (length rest) drivers' = drivers'"
  proof (cases rest)
    case Nil
    then show ?thesis by simp
  next
    case (Cons b r)
    then have "\<not> entry_valid entryOf ((good @ rest) ! length good)" using assms(2) by simp
    then show ?thesis by (rule entry_construct_loop_stuck)
  qed
  then have l: "HdfDriverEntryConstruct_loop entryOf [] (good @ rest) 0 (length (good @ rest)) [] = drivers'"
    using d(1) by simp
  have "snd (HdfDriverEntryConstruct entryOf [] (good @ rest) []) = drivers'"
    unfolding HdfDriverEntryConstruct_def i nat_int l using pos by simp
  with d(2) st show ?thesis by simp
qed

definition sample_entries :: "nat \<Rightarrow> unit HdfDriverEntry" where
  "sample_entries n = \<lparr>de_moduleName = Some [of_nat n], de_Bind = None, de_Init = None, de_Release = None\<rparr>"

theorem driver_section_registered_witness:
  "map dv_entry (snd (HdfDriverEntryConstruct sample_entries [] ([Some 65, Some 66] @ [None, Some 67]) []))
     = [Some 65, Some 66]"
  by (rule driver_section_registered [THEN conjunct2]) (simp_all add: entry_valid_def sample_entries_def)

end
