(* ===== verification/Hdf_DevHost.thy ===== *)
theory Hdf_DevHost
  imports Hdf_SRef Hdf_Observer Hdf_DevSvc Hdf_Driver
begin

text \<open>
  A device host: device nodes (\<^verbatim>\<open>core/host/src/hdf_device_node.c\<close> and its extension
  \<^verbatim>\<open>core/common/src/hdf_device_node_ext.c\<close>), devices (\<^verbatim>\<open>hdf_device.c\<close>), device objects
  (\<^verbatim>\<open>hdf_device_object.c\<close>), the host service (\<^verbatim>\<open>devhost_service.c\<close>), and the side of the
  device manager a host calls: attaching and detaching device tokens
  (\<^verbatim>\<open>core/manager/src/devmgr_service.c\<close>).

  The state the hosts share is \<open>fw\<close>: the service registry, the manager's host clients, the
  device tokens in memory, the log of callbacks into drivers, the next free address, and the
  answers of the environment: every allocation and every publication of a device file consumes
  one.  A device object, token or node is named by its address.  The functions of the driver
  (bind, init, release) act on the device object they are given; what a driver does to the
  framework from inside them is a later operation of the model.
\<close>

section \<open>The shared state\<close>

record IHdfDeviceToken =
  tk_devid :: devid_t

record DevHostServiceClnt =
  hc_devices :: "nat list"
  hc_deviceInfos :: "HdfDeviceInfo list option"
  hc_hostService :: bool
  hc_devCount :: uint16_t
  hc_hostId :: uint16_t
  hc_hostPid :: int
  hc_hostName :: bytes

datatype fw_event = EvConnect connect_event | EvBind nat | EvInit nat | EvRelease nat

record fw =
  fw_registry :: DevSvcManager
  fw_hosts :: "DevHostServiceClnt list"
  fw_tokens :: "nat \<rightharpoonup> IHdfDeviceToken"
  fw_log :: "fw_event list"
  fw_next :: nat
  fw_env :: "bool list"

definition fw_ask :: "fw \<Rightarrow> bool \<times> fw" where
  "fw_ask w = (case osal_alloc (fw_env w) of (b, env) \<Rightarrow> (b, w\<lparr>fw_env := env\<rparr>))"

definition fw_say :: "fw_event \<Rightarrow> fw \<Rightarrow> fw" where
  "fw_say e w = w\<lparr>fw_log := fw_log w @ [e]\<rparr>"

definition fw_connects :: "connect_event list \<Rightarrow> fw \<Rightarrow> fw" where
  "fw_connects evs w = w\<lparr>fw_log := fw_log w @ map EvConnect evs\<rparr>"

section \<open>Attaching to the device manager\<close>

text \<open>The argument is converted to \<^verbatim>\<open>uint16_t\<close>.\<close>

definition DevmgrServiceFindDeviceHost :: "fw \<Rightarrow> uint16_t \<Rightarrow> DevHostServiceClnt option" where
  "DevmgrServiceFindDeviceHost w hostId = search_first (\<lambda>h. hc_hostId h = hostId) (fw_hosts w)"

definition DevmgrServiceUpdateStatus ::
    "DevHostServiceClnt \<Rightarrow> devid_t \<Rightarrow> uint16_t \<Rightarrow> DevHostServiceClnt" where
  "DevmgrServiceUpdateStatus hostClnt devId status =
     hostClnt\<lparr>hc_deviceInfos :=
       map_option (upd_first (\<lambda>i. ucast (di_deviceId i) = devId) (\<lambda>i. i\<lparr>di_status := status\<rparr>))
         (hc_deviceInfos hostClnt)\<rparr>"

text \<open>
  The token's memory is read; attaching a null or freed token is a fault.  The token client is
  a record that only carries the token's address.
\<close>

definition DevmgrServiceAttachDevice :: "nat option \<Rightarrow> fw \<Rightarrow> (HDF_STATUS \<times> fw) option" where
  "DevmgrServiceAttachDevice token w =
     do {
       a \<leftarrow> token;
       t \<leftarrow> fw_tokens w a;
       (case DevmgrServiceFindDeviceHost w (ucast (HOSTID (tk_devid t))) of
          None \<Rightarrow> Some (HDF_FAILURE, w)
        | Some hostClnt \<Rightarrow>
            (let (ok, w1) = fw_ask w in
             if \<not> ok then Some (HDF_FAILURE, w1)
             else
               let upd = (\<lambda>h. (DevmgrServiceUpdateStatus h (tk_devid t) HDF_SERVICE_USABLE)
                              \<lparr>hc_devices := a # hc_devices h\<rparr>)
               in Some (HDF_SUCCESS,
                        w1\<lparr>fw_hosts :=
                          upd_first (\<lambda>h. hc_hostId h = ucast (HOSTID (tk_devid t))) upd (fw_hosts w1)\<rparr>)))
     }"

text \<open>\<^verbatim>\<open>HdfSListSearch\<close> with \<^verbatim>\<open>HdfSListHostSearchDeviceTokenComparer\<close>, which reads each token.\<close>

fun token_search :: "(nat \<rightharpoonup> IHdfDeviceToken) \<Rightarrow> devid_t \<Rightarrow> nat list \<Rightarrow> nat option option" where
  "token_search m devid [] = Some None"
| "token_search m devid (a # rest) =
     (case m a of
        None \<Rightarrow> None
      | Some t \<Rightarrow> if tk_devid t = devid then Some (Some a) else token_search m devid rest)"

definition DevmgrServiceDetachDevice :: "devid_t \<Rightarrow> fw \<Rightarrow> (HDF_STATUS \<times> fw) option" where
  "DevmgrServiceDetachDevice devid w =
     (case DevmgrServiceFindDeviceHost w (ucast (HOSTID devid)) of
        None \<Rightarrow> Some (HDF_FAILURE, w)
      | Some hostClnt \<Rightarrow>
          do {
            found \<leftarrow> token_search (fw_tokens w) devid (hc_devices hostClnt);
            (case found of
               None \<Rightarrow> Some (HDF_DEV_ERR_NO_DEVICE, w)
             | Some a \<Rightarrow>
                 let upd = (\<lambda>h. (DevmgrServiceUpdateStatus h devid HDF_SERVICE_UNUSABLE)
                                \<lparr>hc_devices := del_first (\<lambda>b. b = a) (hc_devices h)\<rparr>)
                 in Some (HDF_SUCCESS,
                          w\<lparr>fw_hosts := upd_first (\<lambda>h. hc_hostId h = ucast (HOSTID devid)) upd (fw_hosts w)\<rparr>))
          })"

section \<open>Device nodes\<close>

datatype DevNodeStatus = DEVNODE_NONE | DEVNODE_INITED | DEVNODE_LAUNCHED

text \<open>
  \<open>dn_self\<close> is the node's address, which also names the device object inside it.
  \<open>dn_ioService\<close>: the extension's device file exists.
\<close>

record 'd HdfDeviceNode =
  dn_self :: nat
  dn_powerToken :: "'d HdfDeviceObject PowerStateToken option"
  dn_deviceObject :: "'d HdfDeviceObject"
  dn_token :: "nat option"
  dn_driver :: HdfDriver
  dn_servName :: "bytes option"
  dn_devId :: devid_t
  dn_policy :: uint16_t
  dn_permission :: uint16_t
  dn_devStatus :: DevNodeStatus
  dn_servStatus :: bool
  dn_ioService :: bool

record 'd HdfDevice =
  hd_devNodes :: "'d HdfDeviceNode list"
  hd_deviceId :: uint16_t
  hd_hostId :: uint16_t

record 'd DevHostService =
  hs_hostId :: uint16_t
  hs_hostName :: bytes
  hs_devices :: "'d HdfDevice list"
  hs_observer :: HdfServiceObserver

definition HdfDeviceNodePublishLocalService ::
    "'d HdfDeviceNode \<Rightarrow> HdfServiceObserver \<Rightarrow> fw \<Rightarrow> HDF_STATUS \<times> HdfServiceObserver \<times> fw" where
  "HdfDeviceNodePublishLocalService devNode ob w =
     (let rec = search_first (has_key (HdfStringMakeHashKey (dn_servName devNode) 0)) (ob_services ob);
          (ok, w1) = (if dn_servName devNode \<noteq> None \<and> rec = None then fw_ask w else (True, w));
          (st, ob', evs) = HdfServiceObserverPublishService ok (Some ob) (dn_servName devNode)
             (dn_devId devNode) (dn_policy devNode) (do_service (dn_deviceObject devNode))
      in (st, (case ob' of None \<Rightarrow> ob | Some x \<Rightarrow> x), fw_connects evs w1))"

definition HdfDeviceNodePublishPublicService ::
    "'d HdfDeviceNode \<Rightarrow> fw \<Rightarrow> HDF_STATUS \<times> 'd HdfDeviceNode \<times> fw" where
  "HdfDeviceNodePublishPublicService devNode w =
     (if do_service (dn_deviceObject devNode) = None then (HDF_FAILURE, devNode, w)
      else
        let (ok, w1) = (if dn_servName devNode = None then (True, w) else fw_ask w);
            (ret, reg) = DevSvcManagerClntAddService ok (Some (fw_registry w1)) (dn_servName devNode)
               (Some (dn_self devNode));
            w2 = w1\<lparr>fw_registry := (case reg of None \<Rightarrow> fw_registry w1 | Some r \<Rightarrow> r)\<rparr>
        in if ret = HDF_SUCCESS then (ret, devNode\<lparr>dn_servStatus := True\<rparr>, w2) else (ret, devNode, w2))"

text \<open>\<^verbatim>\<open>HdfIoServicePublish\<close> creates a device file through the platform: the environment answers.\<close>

definition DeviceNodeExtPublishService ::
    "'d HdfDeviceNode \<Rightarrow> fw \<Rightarrow> HDF_STATUS \<times> 'd HdfDeviceNode \<times> fw" where
  "DeviceNodeExtPublishService devNode w =
     (if do_service (dn_deviceObject devNode) = None then (HDF_FAILURE, devNode, w)
      else
        let (io, w1) = (if dn_policy devNode = SERVICE_POLICY_CAPACITY then fw_ask w else (dn_ioService devNode, w));
            n1 = devNode\<lparr>dn_ioService := io\<rparr>
        in if dn_policy devNode = SERVICE_POLICY_CAPACITY \<and> \<not> io then (HDF_DEV_ERR_NO_DEVICE_SERVICE, n1, w1)
           else case HdfDeviceNodePublishPublicService n1 w1 of
             (ret, n2, w2) \<Rightarrow>
               if ret \<noteq> HDF_SUCCESS then (ret, n2\<lparr>dn_ioService := False\<rparr>, w2)
               else (HDF_SUCCESS, n2, w2))"

definition HdfDeviceNodePublishService ::
    "'d HdfDeviceNode \<Rightarrow> HdfServiceObserver \<Rightarrow> fw
     \<Rightarrow> HDF_STATUS \<times> 'd HdfDeviceNode \<times> HdfServiceObserver \<times> fw" where
  "HdfDeviceNodePublishService devNode ob w =
     (if dn_policy devNode = SERVICE_POLICY_NONE \<or> dn_servName devNode = Some []
      then (HDF_SUCCESS, devNode, ob, w)
      else
        let (status, n1, w1) =
          (if dn_policy devNode = SERVICE_POLICY_PUBLIC \<or> dn_policy devNode = SERVICE_POLICY_CAPACITY
           then DeviceNodeExtPublishService devNode w else (HDF_SUCCESS, devNode, w))
        in if status = HDF_SUCCESS
           then (let (st, ob', w2) = HdfDeviceNodePublishLocalService n1 ob w1 in (st, n1, ob', w2))
           else (status, n1, ob, w1))"

text \<open>The bind step of a launch: only services visible outside the host are bound.\<close>

definition launch_bind ::
    "'d HdfDriverEntry \<Rightarrow> 'd HdfDeviceNode \<Rightarrow> fw \<Rightarrow> HDF_STATUS \<times> 'd HdfDeviceNode \<times> fw" where
  "launch_bind entry devNode w =
     (if dn_policy devNode = SERVICE_POLICY_PUBLIC \<or> dn_policy devNode = SERVICE_POLICY_CAPACITY then
        case de_Bind entry of
          None \<Rightarrow> (HDF_ERR_INVALID_OBJECT, devNode\<lparr>dn_devStatus := DEVNODE_NONE\<rparr>, w)
        | Some bindf \<Rightarrow>
            (let (ret, obj) = bindf (dn_deviceObject devNode)
             in (if ret \<noteq> 0 then HDF_DEV_ERR_DEV_INIT_FAIL else HDF_SUCCESS,
                 devNode\<lparr>dn_deviceObject := obj\<rparr>, fw_say (EvBind (dn_self devNode)) w))
      else (HDF_SUCCESS, devNode, w))"

definition HdfDeviceLaunchNode ::
    "(nat \<Rightarrow> 'd HdfDriverEntry) \<Rightarrow> 'd HdfDeviceNode \<Rightarrow> HdfServiceObserver \<Rightarrow> fw
     \<Rightarrow> (HDF_STATUS \<times> 'd HdfDeviceNode \<times> HdfServiceObserver \<times> fw) option" where
  "HdfDeviceLaunchNode entryOf devNode ob w =
     (case map_option entryOf (dv_entry (dn_driver devNode)) of
        None \<Rightarrow> Some (HDF_ERR_INVALID_PARAM, devNode, ob, w)
      | Some entry \<Rightarrow>
        (case de_Init entry of
           None \<Rightarrow> Some (HDF_ERR_INVALID_PARAM, devNode, ob, w)
         | Some initf \<Rightarrow>
           (case launch_bind entry (devNode\<lparr>dn_devStatus := DEVNODE_LAUNCHED\<rparr>) w of
              (st1, n1, w1) \<Rightarrow>
                if st1 \<noteq> HDF_SUCCESS then Some (st1, n1, ob, w1)
                else
                  let (ret, obj) = initf (dn_deviceObject n1);
                      n2 = n1\<lparr>dn_deviceObject := obj\<rparr>;
                      w2 = fw_say (EvInit (dn_self n1)) w1
                  in if ret \<noteq> 0 then Some (HDF_DEV_ERR_DEV_INIT_FAIL, n2, ob, w2)
                     else case HdfDeviceNodePublishService n2 ob w2 of
                       (st3, n3, ob3, w3) \<Rightarrow>
                         if st3 \<noteq> HDF_SUCCESS then Some (HDF_DEV_ERR_PUBLISH_FAIL, n3, ob3, w3)
                         else case DevmgrServiceAttachDevice (dn_token n3) w3 of
                           None \<Rightarrow> None
                         | Some (st4, w4) \<Rightarrow>
                             Some (if st4 \<noteq> HDF_SUCCESS then HDF_DEV_ERR_ATTACHDEV_FAIL else HDF_SUCCESS,
                                   n3, ob3, w4))))"

section \<open>Creating and releasing nodes\<close>

text \<open>
  \<^verbatim>\<open>HdfDeviceNodeConstruct\<close>: the object is constructed and a token allocated, which may
  fail and leave a null token.
\<close>

definition HdfDeviceObjectConstruct :: "'d \<Rightarrow> 'd HdfDeviceObject" where
  "HdfDeviceObjectConstruct d = \<lparr>do_service = None, do_property = None, do_deviceClass = 0, do_priv = d\<rparr>"

definition HdfDeviceTokenNewInstance :: "fw \<Rightarrow> nat option \<times> fw" where
  "HdfDeviceTokenNewInstance w =
     (let (ok, w1) = fw_ask w in
      if ok then (Some (fw_next w1), w1\<lparr>fw_tokens := (fw_tokens w1)(fw_next w1 \<mapsto> \<lparr>tk_devid = 0\<rparr>),
                                       fw_next := Suc (fw_next w1)\<rparr>)
      else (None, w1))"

definition HdfDeviceTokenFreeInstance :: "nat option \<Rightarrow> fw \<Rightarrow> fw" where
  "HdfDeviceTokenFreeInstance token w =
     (case token of None \<Rightarrow> w | Some a \<Rightarrow> w\<lparr>fw_tokens := (fw_tokens w)(a := None)\<rparr>)"

text \<open>
  \<^verbatim>\<open>HdfDeviceNodeNewInstance\<close>.  \<open>propertyOf\<close> is the configuration query by match attribute;
  \<open>d\<close> is the private data the information carries.  Outside \<^const>\<open>Some\<close>, the code writes
  through a null token; a null node means the instance could not be made.
\<close>

definition HdfDeviceNodeNewInstance ::
    "(bytes option \<Rightarrow> nat option) \<Rightarrow> 'd \<Rightarrow> HdfDeviceInfo \<Rightarrow> HdfDriver \<Rightarrow> fw
     \<Rightarrow> ('d HdfDeviceNode option \<times> fw) option" where
  "HdfDeviceNodeNewInstance propertyOf d deviceInfo driver w =
     (let (ok, w1) = fw_ask w in
      if \<not> ok then Some (None, w1)
      else
        let addr = fw_next w1;
            (token, w2) = HdfDeviceTokenNewInstance (w1\<lparr>fw_next := Suc addr\<rparr>)
        in case token of
             None \<Rightarrow> None
           | Some a \<Rightarrow>
               let devid = (ucast (di_deviceId deviceInfo) :: devid_t);
                   w3 = w2\<lparr>fw_tokens := (fw_tokens w2)(a \<mapsto> \<lparr>tk_devid = devid\<rparr>)\<rparr>;
                   (okn, w4) = (if di_svcName deviceInfo = None then (False, w3) else fw_ask w3)
               in if \<not> okn then Some (None, w4)
                  else Some (Some
                    \<lparr>dn_self = addr, dn_powerToken = None,
                     dn_deviceObject = (HdfDeviceObjectConstruct d)
                       \<lparr>do_property := propertyOf (di_deviceMatchAttr deviceInfo)\<rparr>,
                     dn_token = token, dn_driver = driver, dn_servName = di_svcName deviceInfo,
                     dn_devId = devid, dn_policy = di_policy deviceInfo,
                     dn_permission = di_permission deviceInfo, dn_devStatus = DEVNODE_INITED,
                     dn_servStatus = False, dn_ioService = False\<rparr>, w4))"

definition HdfDeviceNodeRemoveService :: "'d HdfDeviceNode \<Rightarrow> fw \<Rightarrow> 'd HdfDeviceNode \<times> fw" where
  "HdfDeviceNodeRemoveService devNode w =
     (if dn_servStatus devNode then
        (devNode\<lparr>dn_servStatus := False\<rparr>,
         w\<lparr>fw_registry :=
           (case DevSvcManagerClntRemoveService (Some (fw_registry w)) (dn_servName devNode) of
              None \<Rightarrow> fw_registry w | Some r \<Rightarrow> r)\<rparr>)
      else (devNode, w))"

definition DeviceNodeExtRemoveService :: "'d HdfDeviceNode \<Rightarrow> fw \<Rightarrow> 'd HdfDeviceNode \<times> fw" where
  "DeviceNodeExtRemoveService devNode w =
     HdfDeviceNodeRemoveService
       (if dn_policy devNode = SERVICE_POLICY_CAPACITY then devNode\<lparr>dn_ioService := False\<rparr> else devNode) w"

definition HdfDeviceReleaseNode ::
    "(nat \<Rightarrow> 'd HdfDriverEntry) \<Rightarrow> 'd HdfDeviceNode \<Rightarrow> fw \<Rightarrow> ('d HdfDeviceNode \<times> fw) option" where
  "HdfDeviceReleaseNode entryOf devNode w =
     (let (n1, w1) =
        (case map_option entryOf (dv_entry (dn_driver devNode)) of
           None \<Rightarrow> (devNode, w)
         | Some entry \<Rightarrow>
             (case de_Release entry of
                None \<Rightarrow> (devNode, w)
              | Some f \<Rightarrow> (devNode\<lparr>dn_deviceObject := f (dn_deviceObject devNode)\<rparr>,
                           fw_say (EvRelease (dn_self devNode)) w)))
      in if dn_servStatus n1 then
           (let (n2, w2) = HdfDeviceNodeRemoveService n1 w1 in
            case DevmgrServiceDetachDevice (dn_devId n2) w2 of
              None \<Rightarrow> None
            | Some (st, w3) \<Rightarrow> Some (n2, w3))
         else Some (n1, w1))"

definition HdfDeviceNodeDestruct ::
    "(nat \<Rightarrow> 'd HdfDriverEntry) \<Rightarrow> 'd HdfDeviceNode \<Rightarrow> fw \<Rightarrow> fw option" where
  "HdfDeviceNodeDestruct entryOf devNode w =
     (case dn_devStatus devNode of
        DEVNODE_LAUNCHED \<Rightarrow>
          (case HdfDeviceReleaseNode entryOf devNode w of
             None \<Rightarrow> None
           | Some (n1, w1) \<Rightarrow> Some (HdfDeviceTokenFreeInstance (dn_token n1) w1))
      | DEVNODE_INITED \<Rightarrow> Some w
      | DEVNODE_NONE \<Rightarrow> Some w)"

text \<open>
  Releasing the object of a node: \<^verbatim>\<open>DeviceNodeExtDestruct\<close> withdraws the service first.
  The memory of the power token and of the service name goes with the node.
\<close>

definition DeviceNodeExtDestruct ::
    "(nat \<Rightarrow> 'd HdfDriverEntry) \<Rightarrow> 'd HdfDeviceNode \<Rightarrow> fw \<Rightarrow> fw option" where
  "DeviceNodeExtDestruct entryOf devNode w =
     (let (n1, w1) = DeviceNodeExtRemoveService devNode w in HdfDeviceNodeDestruct entryOf n1 w1)"

definition HdfDeviceNodeFreeInstance ::
    "(nat \<Rightarrow> 'd HdfDriverEntry) \<Rightarrow> 'd HdfDeviceNode \<Rightarrow> fw \<Rightarrow> fw option" where
  "HdfDeviceNodeFreeInstance entryOf devNode w = DeviceNodeExtDestruct entryOf devNode w"

section \<open>Devices\<close>

definition HdfDeviceAttach ::
    "(nat \<Rightarrow> 'd HdfDriverEntry) \<Rightarrow> 'd HdfDevice \<Rightarrow> 'd HdfDeviceNode \<Rightarrow> HdfServiceObserver \<Rightarrow> fw
     \<Rightarrow> (HDF_STATUS \<times> 'd HdfDevice \<times> 'd HdfDeviceNode \<times> HdfServiceObserver \<times> fw) option" where
  "HdfDeviceAttach entryOf device devNode ob w =
     (case HdfDeviceLaunchNode entryOf devNode ob w of
        None \<Rightarrow> None
      | Some (ret, n1, ob1, w1) \<Rightarrow>
          Some (ret, if ret = HDF_SUCCESS then device\<lparr>hd_devNodes := hd_devNodes device @ [n1]\<rparr> else device,
                n1, ob1, w1))"

definition HdfDeviceGetDeviceNode :: "'d HdfDevice \<Rightarrow> devid_t \<Rightarrow> 'd HdfDeviceNode option" where
  "HdfDeviceGetDeviceNode device devid = search_first (\<lambda>n. dn_devId n = devid) (hd_devNodes device)"

definition HdfDeviceDetach ::
    "(nat \<Rightarrow> 'd HdfDriverEntry) \<Rightarrow> 'd HdfDevice \<Rightarrow> 'd HdfDeviceNode \<Rightarrow> fw
     \<Rightarrow> (HDF_STATUS \<times> 'd HdfDevice \<times> fw) option" where
  "HdfDeviceDetach entryOf device devNode w =
     (if (ucast (hd_deviceId device) :: uint32_t) \<noteq> DEVICEID (dn_devId devNode)
      then Some (HDF_DEV_ERR_NO_DEVICE, device, w)
      else
        let device' = device\<lparr>hd_devNodes := del_first (\<lambda>n. dn_self n = dn_self devNode) (hd_devNodes device)\<rparr>
        in case HdfDeviceNodeFreeInstance entryOf devNode w of
             None \<Rightarrow> None
           | Some w1 \<Rightarrow> Some (HDF_SUCCESS, device', w1))"

definition HdfDeviceDetachWithDevid ::
    "(nat \<Rightarrow> 'd HdfDriverEntry) \<Rightarrow> 'd HdfDevice \<Rightarrow> devid_t \<Rightarrow> fw
     \<Rightarrow> (HDF_STATUS \<times> 'd HdfDevice \<times> fw) option" where
  "HdfDeviceDetachWithDevid entryOf device devid w =
     (case HdfDeviceGetDeviceNode device devid of
        None \<Rightarrow> Some (HDF_DEV_ERR_NO_DEVICE, device, w)
      | Some devNode \<Rightarrow> HdfDeviceDetach entryOf device devNode w)"

fun HdfDeviceDestruct_loop ::
    "(nat \<Rightarrow> 'd HdfDriverEntry) \<Rightarrow> 'd HdfDeviceNode list \<Rightarrow> fw \<Rightarrow> fw option" where
  "HdfDeviceDestruct_loop entryOf [] w = Some w"
| "HdfDeviceDestruct_loop entryOf (n # ns) w =
     (case HdfDeviceNodeFreeInstance entryOf n w of
        None \<Rightarrow> None
      | Some w1 \<Rightarrow> HdfDeviceDestruct_loop entryOf ns w1)"

definition HdfDeviceDestruct :: "(nat \<Rightarrow> 'd HdfDriverEntry) \<Rightarrow> 'd HdfDevice \<Rightarrow> fw \<Rightarrow> fw option" where
  "HdfDeviceDestruct entryOf device w = HdfDeviceDestruct_loop entryOf (hd_devNodes device) w"

definition HdfDeviceFreeInstance :: "(nat \<Rightarrow> 'd HdfDriverEntry) \<Rightarrow> 'd HdfDevice \<Rightarrow> fw \<Rightarrow> fw option" where
  "HdfDeviceFreeInstance entryOf device w = HdfDeviceDestruct entryOf device w"

section \<open>The host service\<close>

definition DevHostServiceFindDevice :: "'d DevHostService \<Rightarrow> uint16_t \<Rightarrow> 'd HdfDevice option" where
  "DevHostServiceFindDevice hostService deviceId =
     search_first (\<lambda>d. hd_deviceId d = deviceId) (hs_devices hostService)"

text \<open>The device found or made is the first with its id; it is unlinked and released.\<close>

definition DevHostServiceFreeDevice ::
    "(nat \<Rightarrow> 'd HdfDriverEntry) \<Rightarrow> 'd DevHostService \<Rightarrow> 'd HdfDevice option \<Rightarrow> fw
     \<Rightarrow> ('d DevHostService \<times> fw) option" where
  "DevHostServiceFreeDevice entryOf hostService device w =
     (case device of None \<Rightarrow> Some (hostService, w)
      | Some d \<Rightarrow>
          (case HdfDeviceFreeInstance entryOf d w of
             None \<Rightarrow> None
           | Some w1 \<Rightarrow>
               Some (hostService\<lparr>hs_devices :=
                       del_first (\<lambda>x. hd_deviceId x = hd_deviceId d) (hs_devices hostService)\<rparr>, w1)))"

definition DevHostServiceQueryOrAddDevice ::
    "'d DevHostService \<Rightarrow> uint16_t \<Rightarrow> fw \<Rightarrow> 'd HdfDevice option \<times> 'd DevHostService \<times> fw" where
  "DevHostServiceQueryOrAddDevice inst deviceId w =
     (case DevHostServiceFindDevice inst deviceId of
        Some d \<Rightarrow> (Some d, inst, w)
      | None \<Rightarrow>
          (let (ok, w1) = fw_ask w in
           if \<not> ok then (None, inst, w1)
           else
             let d = \<lparr>hd_devNodes = [], hd_deviceId = deviceId, hd_hostId = hs_hostId inst\<rparr>
             in (Some d, inst\<lparr>hs_devices := d # hs_devices inst\<rparr>, w1)))"

text \<open>The error exit of \<^verbatim>\<open>DevHostServiceAddDevice\<close>; reclaiming a kernel driver does nothing.\<close>

definition add_device_error ::
    "(nat \<Rightarrow> 'd HdfDriverEntry) \<Rightarrow> HDF_STATUS \<Rightarrow> 'd DevHostService \<Rightarrow> 'd HdfDevice option \<Rightarrow> fw
     \<Rightarrow> (HDF_STATUS \<times> 'd DevHostService \<times> fw) option" where
  "add_device_error entryOf ret hostService device w =
     (case DevHostServiceFreeDevice entryOf hostService device w of
        None \<Rightarrow> None
      | Some (hs, w1) \<Rightarrow> Some (ret, hs, w1))"

definition DevHostServiceAddDevice ::
    "(nat \<Rightarrow> 'd HdfDriverEntry) \<Rightarrow> driver_list \<Rightarrow> (bytes option \<Rightarrow> nat option) \<Rightarrow> 'd
     \<Rightarrow> 'd DevHostService \<Rightarrow> HdfDeviceInfo \<Rightarrow> fw \<Rightarrow> (HDF_STATUS \<times> 'd DevHostService \<times> fw) option" where
  "DevHostServiceAddDevice entryOf drivers propertyOf d hostService deviceInfo w =
     (let (device, hs1, w1) =
        DevHostServiceQueryOrAddDevice hostService (ucast (DEVICEID (ucast (di_deviceId deviceInfo)))) w
      in case device of
        None \<Rightarrow> add_device_error entryOf HDF_DEV_ERR_NO_DEVICE hs1 None w1
      | Some dev \<Rightarrow>
        (case HdfDriverLoaderGetDriver entryOf (di_moduleName deviceInfo) drivers of
           None \<Rightarrow> add_device_error entryOf HDF_DEV_ERR_NODATA hs1 (Some dev) w1
         | Some driver \<Rightarrow>
           (case HdfDeviceNodeNewInstance propertyOf d deviceInfo driver w1 of
              None \<Rightarrow> None
            | Some (None, w2) \<Rightarrow> add_device_error entryOf HDF_DEV_ERR_NO_MEMORY hs1 (Some dev) w2
            | Some (Some devNode, w2) \<Rightarrow>
                (case HdfDeviceAttach entryOf dev devNode (hs_observer hs1) w2 of
                   None \<Rightarrow> None
                 | Some (ret, dev', n1, ob1, w3) \<Rightarrow>
                     let hs2 = hs1\<lparr>hs_observer := ob1,
                                   hs_devices := upd_first (\<lambda>x. hd_deviceId x = hd_deviceId dev) (\<lambda>_. dev')
                                     (hs_devices hs1)\<rparr>
                     in if ret \<noteq> HDF_SUCCESS then
                          (case HdfDeviceNodeFreeInstance entryOf n1 w3 of
                             None \<Rightarrow> None
                           | Some w4 \<Rightarrow> add_device_error entryOf ret hs2 (Some dev') w4)
                        else Some (HDF_SUCCESS, hs2, w3)))))"

definition DevHostServiceDelDevice ::
    "(nat \<Rightarrow> 'd HdfDriverEntry) \<Rightarrow> 'd DevHostService \<Rightarrow> devid_t \<Rightarrow> fw
     \<Rightarrow> (HDF_STATUS \<times> 'd DevHostService \<times> fw) option" where
  "DevHostServiceDelDevice entryOf hostService devId w =
     (case DevHostServiceFindDevice hostService (ucast (DEVICEID devId)) of
        None \<Rightarrow> Some (HDF_SUCCESS, hostService, w)
      | Some device \<Rightarrow>
        (case HdfDeviceGetDeviceNode device devId of
           None \<Rightarrow> Some (HDF_DEV_ERR_NO_DEVICE, hostService, w)
         | Some devNode \<Rightarrow>
           (case HdfDeviceDetach entryOf device devNode w of
              None \<Rightarrow> None
            | Some (st, device', w1) \<Rightarrow>
                let hs1 = hostService\<lparr>hs_devices :=
                      upd_first (\<lambda>x. hd_deviceId x = hd_deviceId device) (\<lambda>_. device') (hs_devices hostService)\<rparr>
                in if st \<noteq> HDF_SUCCESS then Some (HDF_FAILURE, hs1, w1)
                   else if hd_devNodes device' = [] then
                     (case DevHostServiceFreeDevice entryOf hs1 (Some device') w1 of
                        None \<Rightarrow> None
                      | Some (hs2, w2) \<Rightarrow> Some (HDF_SUCCESS, hs2, w2))
                   else Some (HDF_SUCCESS, hs1, w1))))"

section \<open>Power notification\<close>

text \<open>
  The power event reaches the token of a node; the token's device object is the node's, so it
  is passed in and written back.  The trace lists the nodes whose token got the event.
\<close>

definition node_power_change :: "uint32_t \<Rightarrow> 'd HdfDeviceNode \<Rightarrow> 'd HdfDeviceNode \<times> nat list" where
  "node_power_change state n =
     (case dn_powerToken n of
        None \<Rightarrow> (n, [])
      | Some t \<Rightarrow>
          (let b = (pt_body t)\<lparr>pt_deviceObject := dn_deviceObject n\<rparr> in
           case PowerStateChange (Some (t\<lparr>pt_body := b\<rparr>)) state of
             (ret, None) \<Rightarrow> (n, [])
           | (ret, Some t') \<Rightarrow>
               (n\<lparr>dn_powerToken := Some t', dn_deviceObject := pt_deviceObject (pt_body t')\<rparr>, [dn_self n])))"

fun power_nodes :: "uint32_t \<Rightarrow> 'd HdfDeviceNode list \<Rightarrow> 'd HdfDeviceNode list \<times> nat list" where
  "power_nodes state [] = ([], [])"
| "power_nodes state (n # ns) =
     (let (n', t) = node_power_change state n; (ns', ts) = power_nodes state ns in (n' # ns', t @ ts))"

definition ApplyDevicesPowerState ::
    "'d HdfDevice \<Rightarrow> uint32_t \<Rightarrow> HDF_STATUS \<times> 'd HdfDevice \<times> nat list" where
  "ApplyDevicesPowerState device state =
     (if IsPowerWakeState state then
        (let (ns, t) = power_nodes state (hd_devNodes device)
         in (HDF_SUCCESS, device\<lparr>hd_devNodes := ns\<rparr>, t))
      else
        (let (ns, t) = power_nodes state (rev (hd_devNodes device))
         in (HDF_SUCCESS, device\<lparr>hd_devNodes := rev ns\<rparr>, t)))"

fun power_devices ::
    "uint32_t \<Rightarrow> HDF_STATUS \<Rightarrow> 'd HdfDevice list \<Rightarrow> HDF_STATUS \<times> 'd HdfDevice list \<times> nat list" where
  "power_devices state ret [] = (ret, [], [])"
| "power_devices state ret (d # ds) =
     (case ApplyDevicesPowerState d state of
        (st, d', t) \<Rightarrow>
          case power_devices state (if st \<noteq> HDF_SUCCESS then HDF_FAILURE else ret) ds of
            (st', ds', ts) \<Rightarrow> (st', d' # ds', t @ ts))"

definition DevHostServicePmNotify ::
    "'d DevHostService \<Rightarrow> uint32_t \<Rightarrow> HDF_STATUS \<times> 'd DevHostService \<times> nat list" where
  "DevHostServicePmNotify hostService state =
     (if IsPowerWakeState state then
        (case power_devices state HDF_SUCCESS (rev (hs_devices hostService)) of
           (ret, ds, t) \<Rightarrow> (ret, hostService\<lparr>hs_devices := rev ds\<rparr>, t))
      else
        (case power_devices state HDF_SUCCESS (hs_devices hostService) of
           (ret, ds, t) \<Rightarrow> (ret, hostService\<lparr>hs_devices := ds\<rparr>, t)))"

section \<open>Frame facts\<close>

lemma fw_ask_simps [simp]:
  "fw_registry (snd (fw_ask w)) = fw_registry w" "fw_hosts (snd (fw_ask w)) = fw_hosts w"
  "fw_tokens (snd (fw_ask w)) = fw_tokens w" "fw_log (snd (fw_ask w)) = fw_log w"
  "fw_next (snd (fw_ask w)) = fw_next w"
  by (simp_all add: fw_ask_def split: prod.split)

lemma fw_ask_eqD:
  "fw_ask w = (b, w1) \<Longrightarrow> fw_registry w1 = fw_registry w \<and> fw_hosts w1 = fw_hosts w
     \<and> fw_tokens w1 = fw_tokens w \<and> fw_log w1 = fw_log w \<and> fw_next w1 = fw_next w"
  by (metis fw_ask_simps snd_conv)

lemma fw_say_simps [simp]:
  "fw_registry (fw_say e w) = fw_registry w" "fw_hosts (fw_say e w) = fw_hosts w"
  "fw_tokens (fw_say e w) = fw_tokens w" "fw_next (fw_say e w) = fw_next w"
  by (simp_all add: fw_say_def)

lemma fw_connects_simps [simp]:
  "fw_registry (fw_connects e w) = fw_registry w" "fw_hosts (fw_connects e w) = fw_hosts w"
  "fw_tokens (fw_connects e w) = fw_tokens w" "fw_next (fw_connects e w) = fw_next w"
  by (simp_all add: fw_connects_def)

text \<open>The fields of a node a launch does not touch.\<close>

definition node_id :: "'d HdfDeviceNode \<Rightarrow> nat \<times> nat option \<times> HdfDriver \<times> bytes option \<times> devid_t \<times> uint16_t" where
  "node_id n = (dn_self n, dn_token n, dn_driver n, dn_servName n, dn_devId n, dn_policy n)"

lemma node_id_upd [simp]:
  "node_id (n\<lparr>dn_deviceObject := x\<rparr>) = node_id n" "node_id (n\<lparr>dn_devStatus := s\<rparr>) = node_id n"
  "node_id (n\<lparr>dn_servStatus := b\<rparr>) = node_id n" "node_id (n\<lparr>dn_ioService := b\<rparr>) = node_id n"
  by (simp_all add: node_id_def)

text \<open>What the registry holds for a node: a record in front when it published, else nothing new.\<close>

definition registered :: "'d HdfDeviceNode \<Rightarrow> DevSvcManager \<Rightarrow> DevSvcManager \<Rightarrow> bool" where
  "registered n reg reg' \<longleftrightarrow>
     (if dn_servStatus n then
        reg' = reg\<lparr>dm_services := \<lparr>dr_key = svc_key (dn_servName n), dr_value = dn_self n\<rparr> # dm_services reg\<rparr>
        \<and> dn_servName n \<noteq> None
      else reg' = reg)"

lemma publish_public_frame:
  assumes "HdfDeviceNodePublishPublicService n w = (ret, n1, w1)" "\<not> dn_servStatus n"
  shows "node_id n1 = node_id n \<and> dn_devStatus n1 = dn_devStatus n
    \<and> fw_hosts w1 = fw_hosts w \<and> fw_tokens w1 = fw_tokens w
    \<and> registered n1 (fw_registry w) (fw_registry w1)"
proof (cases "do_service (dn_deviceObject n) = None \<or> dn_servName n = None")
  case True
  then show ?thesis
  proof (cases "do_service (dn_deviceObject n)")
    case None
    then show ?thesis
      using assms by (auto simp: HdfDeviceNodePublishPublicService_def registered_def)
  next
    case (Some svc)
    then have "dn_servName n = None" using True by simp
    then show ?thesis
      using assms Some
      by (auto simp: HdfDeviceNodePublishPublicService_def DevSvcManagerClntAddService_def
        DevSvcManagerAddService_def registered_def)
  qed
next
  case False
  then obtain svc name where c: "do_service (dn_deviceObject n) = Some svc" "dn_servName n = Some name" by auto
  obtain ok w0 where a: "fw_ask w = (ok, w0)" by force
  note f = fw_ask_eqD [OF a]
  show ?thesis
  proof (cases ok)
    case True
    then show ?thesis
      using assms c a f
      by (auto simp: HdfDeviceNodePublishPublicService_def DevSvcManagerClntAddService_def
        DevSvcManagerAddService_def DevSvcRecordNewInstance_def registered_def node_id_def)
  next
    case False
    then show ?thesis
      using assms c a f
      by (auto simp: HdfDeviceNodePublishPublicService_def DevSvcManagerClntAddService_def
        DevSvcManagerAddService_def DevSvcRecordNewInstance_def registered_def)
  qed
qed

lemma registered_none [simp]: "\<not> dn_servStatus n \<Longrightarrow> registered n r r' \<longleftrightarrow> r' = r"
  by (simp add: registered_def)

lemma registered_io [simp]: "registered (n\<lparr>dn_ioService := b\<rparr>) r r' = registered n r r'"
  by (simp add: registered_def)

lemma ext_publish_frame:
  assumes "DeviceNodeExtPublishService n w = (ret, n1, w1)" "\<not> dn_servStatus n"
  shows "node_id n1 = node_id n \<and> dn_devStatus n1 = dn_devStatus n
    \<and> fw_hosts w1 = fw_hosts w \<and> fw_tokens w1 = fw_tokens w
    \<and> registered n1 (fw_registry w) (fw_registry w1)"
proof (cases "do_service (dn_deviceObject n) = None")
  case True
  then show ?thesis using assms by (auto simp: DeviceNodeExtPublishService_def registered_def)
next
  case False
  obtain io w0 where a: "(if dn_policy n = SERVICE_POLICY_CAPACITY then fw_ask w else (dn_ioService n, w)) = (io, w0)"
    by force
  have f: "fw_registry w0 = fw_registry w \<and> fw_hosts w0 = fw_hosts w \<and> fw_tokens w0 = fw_tokens w"
    using a fw_ask_eqD [of w io w0] by (auto split: if_splits)
  obtain r2 n2 w2 where p: "HdfDeviceNodePublishPublicService (n\<lparr>dn_ioService := io\<rparr>) w0 = (r2, n2, w2)"
    by (metis prod_cases3)
  show ?thesis
    using publish_public_frame [OF p] assms False f p
    unfolding DeviceNodeExtPublishService_def Let_def a
    by (auto split: if_splits)
qed

lemma publish_local_frame:
  assumes "HdfDeviceNodePublishLocalService n ob w = (st, ob', w')"
  shows "fw_hosts w' = fw_hosts w \<and> fw_tokens w' = fw_tokens w \<and> fw_registry w' = fw_registry w"
proof -
  obtain ok w1 where a: "(if dn_servName n \<noteq> None
      \<and> search_first (has_key (HdfStringMakeHashKey (dn_servName n) 0)) (ob_services ob) = None
      then fw_ask w else (True, w)) = (ok, w1)" by force
  have f: "fw_registry w1 = fw_registry w \<and> fw_hosts w1 = fw_hosts w \<and> fw_tokens w1 = fw_tokens w"
    using a fw_ask_eqD [of w ok w1] by (auto split: if_splits)
  show ?thesis
    using assms f unfolding HdfDeviceNodePublishLocalService_def Let_def a
    by (auto split: prod.splits)
qed

lemma publish_frame:
  assumes "HdfDeviceNodePublishService n ob w = (st, n1, ob1, w1)" "\<not> dn_servStatus n"
  shows "node_id n1 = node_id n \<and> dn_devStatus n1 = dn_devStatus n
    \<and> fw_hosts w1 = fw_hosts w \<and> fw_tokens w1 = fw_tokens w
    \<and> registered n1 (fw_registry w) (fw_registry w1)"
proof (cases "dn_policy n = SERVICE_POLICY_NONE \<or> dn_servName n = Some []")
  case True
  then show ?thesis using assms by (auto simp: HdfDeviceNodePublishService_def registered_def)
next
  case False
  obtain s2 n2 w2 where a: "(if dn_policy n = SERVICE_POLICY_PUBLIC \<or> dn_policy n = SERVICE_POLICY_CAPACITY
      then DeviceNodeExtPublishService n w else (HDF_SUCCESS, n, w)) = (s2, n2, w2)"
    by (metis prod_cases3)
  have f: "node_id n2 = node_id n \<and> dn_devStatus n2 = dn_devStatus n
    \<and> fw_hosts w2 = fw_hosts w \<and> fw_tokens w2 = fw_tokens w
    \<and> registered n2 (fw_registry w) (fw_registry w2)"
    using a ext_publish_frame [of n w s2 n2 w2] assms(2)
    by (auto simp: registered_def split: if_splits)
  obtain s3 ob3 w3 where l: "HdfDeviceNodePublishLocalService n2 ob w2 = (s3, ob3, w3)"
    by (metis prod_cases3)
  show ?thesis
    using assms(1) False f l publish_local_frame [OF l]
    unfolding HdfDeviceNodePublishService_def Let_def a
    by (auto split: if_splits)
qed

text \<open>What a successful attach does to the manager's hosts.\<close>

definition attached_hosts :: "nat \<Rightarrow> devid_t \<Rightarrow> DevHostServiceClnt list \<Rightarrow> DevHostServiceClnt list" where
  "attached_hosts a devid hosts =
     upd_first (\<lambda>h. hc_hostId h = ucast (HOSTID devid))
       (\<lambda>h. (DevmgrServiceUpdateStatus h devid HDF_SERVICE_USABLE)\<lparr>hc_devices := a # hc_devices h\<rparr>) hosts"

lemma attach_success:
  assumes "DevmgrServiceAttachDevice token w = Some (HDF_SUCCESS, w1)"
  shows "\<exists>a t. token = Some a \<and> fw_tokens w a = Some t \<and> fw_tokens w1 = fw_tokens w
    \<and> fw_registry w1 = fw_registry w
    \<and> DevmgrServiceFindDeviceHost w (ucast (HOSTID (tk_devid t))) \<noteq> None
    \<and> fw_hosts w1 = attached_hosts a (tk_devid t) (fw_hosts w)"
proof -
  obtain a t where at: "token = Some a" "fw_tokens w a = Some t"
    using assms by (auto simp: DevmgrServiceAttachDevice_def bind_eq_Some_conv)
  obtain ok w0 where k: "fw_ask w = (ok, w0)" by force
  show ?thesis
    using assms at k fw_ask_eqD [OF k]
    by (auto simp: DevmgrServiceAttachDevice_def attached_hosts_def split: option.splits if_splits)
qed

lemma launch_bind_frame:
  assumes "launch_bind e n w = (st, n1, w1)"
  shows "node_id n1 = node_id n \<and> dn_servStatus n1 = dn_servStatus n
    \<and> (st = HDF_SUCCESS \<longrightarrow> dn_devStatus n1 = dn_devStatus n)
    \<and> fw_hosts w1 = fw_hosts w \<and> fw_tokens w1 = fw_tokens w \<and> fw_registry w1 = fw_registry w"
  using assms by (auto simp: launch_bind_def split: if_splits option.splits prod.splits)

lemma launch_success:
  assumes l: "HdfDeviceLaunchNode entryOf n ob w = Some (HDF_SUCCESS, n1, ob1, w1)"
    and s: "\<not> dn_servStatus n"
  shows "node_id n1 = node_id n \<and> dn_devStatus n1 = DEVNODE_LAUNCHED
    \<and> registered n1 (fw_registry w) (fw_registry w1) \<and> fw_tokens w1 = fw_tokens w
    \<and> (\<exists>a t. dn_token n = Some a \<and> fw_tokens w a = Some t
        \<and> DevmgrServiceFindDeviceHost w (ucast (HOSTID (tk_devid t))) \<noteq> None
        \<and> fw_hosts w1 = attached_hosts a (tk_devid t) (fw_hosts w))"
proof -
  obtain e initf where e: "map_option entryOf (dv_entry (dn_driver n)) = Some e" "de_Init e = Some initf"
    using l by (auto simp: HdfDeviceLaunchNode_def split: option.splits)
  obtain st2 n2 w2 where b: "launch_bind e (n\<lparr>dn_devStatus := DEVNODE_LAUNCHED\<rparr>) w = (st2, n2, w2)"
    by (metis prod_cases3)
  obtain ret obj where i: "initf (dn_deviceObject n2) = (ret, obj)" by force
  define n3 where "n3 = n2\<lparr>dn_deviceObject := obj\<rparr>"
  define w3 where "w3 = fw_say (EvInit (dn_self n2)) w2"
  have st2: "st2 = HDF_SUCCESS"
    using l by (auto simp: HdfDeviceLaunchNode_def e b split: if_splits)
  then have ret: "ret = 0"
    using l by (auto simp: HdfDeviceLaunchNode_def e b i Let_def split: if_splits)
  obtain st4 n4 ob4 w4 where p: "HdfDeviceNodePublishService n3 ob w3 = (st4, n4, ob4, w4)"
    by (metis prod_cases4)
  have st4: "st4 = HDF_SUCCESS" and att: "DevmgrServiceAttachDevice (dn_token n4) w4 = Some (HDF_SUCCESS, w1)"
    and n1: "n1 = n4"
    using l p by (auto simp: HdfDeviceLaunchNode_def e b i st2 ret n3_def w3_def Let_def
      split: if_splits option.splits prod.splits)
  note fb = launch_bind_frame [OF b]
  have "\<not> dn_servStatus n3" using fb s by (simp add: n3_def)
  note fp = publish_frame [OF p this]
  have fw4: "fw_hosts w4 = fw_hosts w" "fw_tokens w4 = fw_tokens w" "registered n4 (fw_registry w) (fw_registry w4)"
    and id4: "node_id n4 = node_id n" and ds: "dn_devStatus n4 = DEVNODE_LAUNCHED"
    using fp fb st2 by (auto simp: n3_def w3_def)
  have tok: "dn_token n4 = dn_token n" using id4 by (simp add: node_id_def)
  show ?thesis
    using attach_success [OF att] fw4 id4 ds n1 tok
    by (auto simp: DevmgrServiceFindDeviceHost_def)
qed

lemma new_node:
  assumes "HdfDeviceNodeNewInstance propertyOf d info driver w = Some (Some n, w1)"
  shows "\<exists>a. dn_token n = Some a \<and> fw_tokens w1 a = Some \<lparr>tk_devid = ucast (di_deviceId info)\<rparr>
    \<and> fw_tokens w1 = (fw_tokens w)(a \<mapsto> \<lparr>tk_devid = ucast (di_deviceId info)\<rparr>)
    \<and> dn_devId n = ucast (di_deviceId info) \<and> \<not> dn_servStatus n \<and> dn_policy n = di_policy info
    \<and> dn_devStatus n = DEVNODE_INITED \<and> dn_servName n = di_svcName info \<and> dn_driver n = driver
    \<and> fw_registry w1 = fw_registry w \<and> fw_hosts w1 = fw_hosts w \<and> dn_self n = fw_next w"
proof -
  obtain ok wa where a: "fw_ask w = (ok, wa)" by force
  obtain token wt where t: "HdfDeviceTokenNewInstance (wa\<lparr>fw_next := Suc (fw_next wa)\<rparr>) = (token, wt)" by force
  have ok: "ok" using assms a by (auto simp: HdfDeviceNodeNewInstance_def split: if_splits)
  obtain b where b: "token = Some b"
    using assms a t ok by (auto simp: HdfDeviceNodeNewInstance_def Let_def split: if_splits option.splits)
  have ft: "fw_tokens wt = (fw_tokens w)(b \<mapsto> \<lparr>tk_devid = 0\<rparr>) \<and> fw_registry wt = fw_registry w \<and> fw_hosts wt = fw_hosts w"
    using t b fw_ask_eqD [OF a] fw_ask_eqD
    by (fastforce simp: HdfDeviceTokenNewInstance_def split: if_splits prod.splits)
  define w3 where "w3 = wt\<lparr>fw_tokens := (fw_tokens wt)(b \<mapsto> \<lparr>tk_devid = ucast (di_deviceId info)\<rparr>)\<rparr>"
  have f3: "fw_tokens w3 = (fw_tokens w)(b \<mapsto> \<lparr>tk_devid = ucast (di_deviceId info)\<rparr>)
      \<and> fw_registry w3 = fw_registry w \<and> fw_hosts w3 = fw_hosts w"
    using ft by (simp add: w3_def)
  obtain okn w4 where k: "(if di_svcName info = None then (False, w3) else fw_ask w3) = (okn, w4)" by force
  have f4: "okn \<longrightarrow> fw_registry w4 = fw_registry w3 \<and> fw_hosts w4 = fw_hosts w3 \<and> fw_tokens w4 = fw_tokens w3"
    using k fw_ask_eqD [of w3 okn w4] by (auto split: if_splits)
  have "HdfDeviceNodeNewInstance propertyOf d info driver w =
      (if \<not> okn then Some (None, w4) else Some (Some
        \<lparr>dn_self = fw_next wa, dn_powerToken = None,
         dn_deviceObject = (HdfDeviceObjectConstruct d)\<lparr>do_property := propertyOf (di_deviceMatchAttr info)\<rparr>,
         dn_token = Some b, dn_driver = driver, dn_servName = di_svcName info,
         dn_devId = ucast (di_deviceId info), dn_policy = di_policy info,
         dn_permission = di_permission info, dn_devStatus = DEVNODE_INITED,
         dn_servStatus = False, dn_ioService = False\<rparr>, w4))"
    using a ok t b k unfolding HdfDeviceNodeNewInstance_def
    by (cases "di_svcName info") (simp_all add: Let_def w3_def)
  then show ?thesis
    using assms f3 f4 fw_ask_eqD [OF a] by (auto split: if_splits)
qed

section \<open>Adding and deleting a device\<close>

text \<open>The devices of a host once a launched node has joined the device with the given id.\<close>

definition join_device :: "uint16_t \<Rightarrow> 'd HdfDeviceNode \<Rightarrow> 'd DevHostService \<Rightarrow> 'd HdfDevice list" where
  "join_device did n hs =
     (case DevHostServiceFindDevice hs did of
        None \<Rightarrow> \<lparr>hd_devNodes = [n], hd_deviceId = did, hd_hostId = hs_hostId hs\<rparr> # hs_devices hs
      | Some d \<Rightarrow> upd_first (\<lambda>x. hd_deviceId x = did) (\<lambda>_. d\<lparr>hd_devNodes := hd_devNodes d @ [n]\<rparr>) (hs_devices hs))"

definition info_devid :: "HdfDeviceInfo \<Rightarrow> devid_t" where
  "info_devid info = ucast (di_deviceId info)"

definition info_did :: "HdfDeviceInfo \<Rightarrow> uint16_t" where
  "info_did info = ucast (DEVICEID (info_devid info))"

lemma query_or_add:
  assumes "DevHostServiceQueryOrAddDevice hs did w = (Some dev, hs1, w1)"
  shows "hd_deviceId dev = did \<and> hs_observer hs1 = hs_observer hs
    \<and> fw_registry w1 = fw_registry w \<and> fw_hosts w1 = fw_hosts w \<and> fw_tokens w1 = fw_tokens w
    \<and> upd_first (\<lambda>x. hd_deviceId x = did) (\<lambda>_. dev\<lparr>hd_devNodes := hd_devNodes dev @ [n]\<rparr>) (hs_devices hs1)
        = join_device did n hs"
proof (cases "DevHostServiceFindDevice hs did")
  case None
  obtain ok w0 where a: "fw_ask w = (ok, w0)" by force
  have "ok" using assms None a by (cases ok) (simp_all add: DevHostServiceQueryOrAddDevice_def)
  then have r: "dev = \<lparr>hd_devNodes = [], hd_deviceId = did, hd_hostId = hs_hostId hs\<rparr>"
    "hs1 = hs\<lparr>hs_devices := \<lparr>hd_devNodes = [], hd_deviceId = did, hd_hostId = hs_hostId hs\<rparr> # hs_devices hs\<rparr>"
    "w1 = w0"
    using assms None a by (auto simp: DevHostServiceQueryOrAddDevice_def Let_def)
  show ?thesis using fw_ask_eqD [OF a] by (simp add: r None join_device_def)
next
  case (Some d)
  then have "hd_deviceId d = did"
    unfolding DevHostServiceFindDevice_def by (auto dest: search_first_Some)
  with Some assms show ?thesis
    by (auto simp: DevHostServiceQueryOrAddDevice_def join_device_def)
qed

lemma add_device_error_not_success [simp]:
  "st \<noteq> HDF_SUCCESS \<Longrightarrow> (add_device_error entryOf st hs dev w = Some (HDF_SUCCESS, hs', w')) = False"
  by (auto simp: add_device_error_def split: option.splits)

text \<open>A successful \<^verbatim>\<open>AddDevice\<close>: the node that was launched, and everything that changed.\<close>

lemma add_device_success:
  assumes "DevHostServiceAddDevice entryOf drivers propertyOf d hs info w = Some (HDF_SUCCESS, hs1, w1)"
  shows "\<exists>n a. hs_devices hs1 = join_device (info_did info) n hs
    \<and> dn_devId n = info_devid info \<and> dn_devStatus n = DEVNODE_LAUNCHED \<and> dn_token n = Some a
    \<and> dn_servName n = di_svcName info \<and> dn_policy n = di_policy info
    \<and> Some (dn_driver n) = HdfDriverLoaderGetDriver entryOf (di_moduleName info) drivers
    \<and> registered n (fw_registry w) (fw_registry w1)
    \<and> fw_tokens w1 = (fw_tokens w)(a \<mapsto> \<lparr>tk_devid = info_devid info\<rparr>)
    \<and> DevmgrServiceFindDeviceHost w (ucast (HOSTID (info_devid info))) \<noteq> None
    \<and> fw_hosts w1 = attached_hosts a (info_devid info) (fw_hosts w)"
proof -
  obtain device hsq wq where q: "DevHostServiceQueryOrAddDevice hs (info_did info) w = (device, hsq, wq)"
    by (metis prod_cases3)
  have unf: "DevHostServiceAddDevice entryOf drivers propertyOf d hs info w =
     (case device of
        None \<Rightarrow> add_device_error entryOf HDF_DEV_ERR_NO_DEVICE hsq None wq
      | Some dev \<Rightarrow>
        (case HdfDriverLoaderGetDriver entryOf (di_moduleName info) drivers of
           None \<Rightarrow> add_device_error entryOf HDF_DEV_ERR_NODATA hsq (Some dev) wq
         | Some driver \<Rightarrow>
           (case HdfDeviceNodeNewInstance propertyOf d info driver wq of
              None \<Rightarrow> None
            | Some (None, w2) \<Rightarrow> add_device_error entryOf HDF_DEV_ERR_NO_MEMORY hsq (Some dev) w2
            | Some (Some devNode, w2) \<Rightarrow>
                (case HdfDeviceAttach entryOf dev devNode (hs_observer hsq) w2 of
                   None \<Rightarrow> None
                 | Some (ret, dev', n1, ob1, w3) \<Rightarrow>
                     let hs2 = hsq\<lparr>hs_observer := ob1,
                                   hs_devices := upd_first (\<lambda>x. hd_deviceId x = hd_deviceId dev) (\<lambda>_. dev')
                                     (hs_devices hsq)\<rparr>
                     in if ret \<noteq> HDF_SUCCESS then
                          (case HdfDeviceNodeFreeInstance entryOf n1 w3 of
                             None \<Rightarrow> None
                           | Some w4 \<Rightarrow> add_device_error entryOf ret hs2 (Some dev') w4)
                        else Some (HDF_SUCCESS, hs2, w3)))))"
    using q by (simp add: DevHostServiceAddDevice_def info_did_def info_devid_def)
  note a = assms [unfolded unf]
  obtain dev where dev: "device = Some dev"
    using a by (cases device) auto
  obtain driver where drv: "HdfDriverLoaderGetDriver entryOf (di_moduleName info) drivers = Some driver"
    using a dev
    by (cases "HdfDriverLoaderGetDriver entryOf (di_moduleName info) drivers") auto
  obtain n0 w2 where nn: "HdfDeviceNodeNewInstance propertyOf d info driver wq = Some (Some n0, w2)"
    using a dev drv
    by (auto split: option.splits)
  obtain ret dev' n1 ob1 w3 where att: "HdfDeviceAttach entryOf dev n0 (hs_observer hsq) w2 = Some (ret, dev', n1, ob1, w3)"
    using a dev drv nn by (auto split: option.splits)
  have ret: "ret = HDF_SUCCESS" and hs1: "w1 = w3"
    "hs_devices hs1 = upd_first (\<lambda>x. hd_deviceId x = hd_deviceId dev) (\<lambda>_. dev') (hs_devices hsq)"
    using a dev drv nn att
    by (auto simp: Let_def split: if_splits option.splits)
  have l: "HdfDeviceLaunchNode entryOf n0 (hs_observer hsq) w2 = Some (HDF_SUCCESS, n1, ob1, w3)"
    and dev': "dev' = dev\<lparr>hd_devNodes := hd_devNodes dev @ [n1]\<rparr>"
    using att ret by (auto simp: HdfDeviceAttach_def split: option.splits prod.splits)
  obtain b where b: "dn_token n0 = Some b" "fw_tokens w2 b = Some \<lparr>tk_devid = info_devid info\<rparr>"
    "fw_tokens w2 = (fw_tokens wq)(b \<mapsto> \<lparr>tk_devid = info_devid info\<rparr>)"
    "dn_devId n0 = info_devid info" "\<not> dn_servStatus n0" "dn_servName n0 = di_svcName info"
    "dn_driver n0 = driver" "fw_registry w2 = fw_registry wq" "fw_hosts w2 = fw_hosts wq"
    "dn_policy n0 = di_policy info"
    using new_node [OF nn] by (auto simp: info_devid_def)
  note qa = query_or_add [OF q [unfolded dev], of n1]
  note ls = launch_success [OF l b(5)]
  have id: "dn_devId n1 = info_devid info" "dn_token n1 = Some b" "dn_servName n1 = di_svcName info"
    "dn_driver n1 = driver" "dn_policy n1 = di_policy info"
    using ls b by (auto simp: node_id_def)
  show ?thesis
  proof (intro exI conjI)
    show "hs_devices hs1 = join_device (info_did info) n1 hs"
      using hs1(2) dev' qa by simp
    show "Some (dn_driver n1) = HdfDriverLoaderGetDriver entryOf (di_moduleName info) drivers"
      using id drv by simp
    show "DevmgrServiceFindDeviceHost w (ucast (HOSTID (info_devid info))) \<noteq> None"
      using ls b qa by (auto simp: DevmgrServiceFindDeviceHost_def)
    show "fw_hosts w1 = attached_hosts b (info_devid info) (fw_hosts w)"
      using ls b qa hs1(1) by auto
    show "registered n1 (fw_registry w) (fw_registry w1)" using ls b(8) qa hs1(1) by simp
    show "fw_tokens w1 = (fw_tokens w)(b \<mapsto> \<lparr>tk_devid = info_devid info\<rparr>)"
      using ls b(3) qa hs1(1) by simp
    show "dn_devStatus n1 = DEVNODE_LAUNCHED" using ls by simp
  qed (fact id)+
qed

text \<open>
  Releasing a launched node always succeeds: the extension withdraws the service first, so the
  node is no longer marked as published when \<^verbatim>\<open>HdfDeviceReleaseNode\<close> looks, and the manager
  is never told.
\<close>

lemma free_launched_node:
  assumes "dn_devStatus n = DEVNODE_LAUNCHED"
  shows "\<exists>w'. HdfDeviceNodeFreeInstance entryOf n w = Some w' \<and> fw_hosts w' = fw_hosts w
    \<and> fw_tokens w' = (case dn_token n of None \<Rightarrow> fw_tokens w | Some a \<Rightarrow> (fw_tokens w)(a := None))
    \<and> fw_registry w' = (if dn_servStatus n
        then the (DevSvcManagerRemoveService (Some (fw_registry w)) (dn_servName n)) else fw_registry w)"
proof -
  define n1 where "n1 = (if dn_policy n = SERVICE_POLICY_CAPACITY then n\<lparr>dn_ioService := False\<rparr> else n)"
  have n1: "dn_devStatus n1 = DEVNODE_LAUNCHED" "dn_servStatus n1 = dn_servStatus n"
    "dn_token n1 = dn_token n" "dn_servName n1 = dn_servName n" "dn_driver n1 = dn_driver n"
    using assms by (simp_all add: n1_def)
  have rem: "DevSvcManagerClntRemoveService (Some r) x = Some (the (DevSvcManagerRemoveService (Some r) x))" for r x
    by (auto simp: DevSvcManagerClntRemoveService_def DevSvcManagerRemoveService_def Let_def split: option.splits)
  obtain n2 w2 where r: "HdfDeviceNodeRemoveService n1 w = (n2, w2)" by force
  have n2: "dn_devStatus n2 = DEVNODE_LAUNCHED" "\<not> dn_servStatus n2" "dn_token n2 = dn_token n"
    "fw_hosts w2 = fw_hosts w" "fw_tokens w2 = fw_tokens w"
    "fw_registry w2 = (if dn_servStatus n
        then the (DevSvcManagerRemoveService (Some (fw_registry w)) (dn_servName n)) else fw_registry w)"
    using r n1 rem by (auto simp: HdfDeviceNodeRemoveService_def split: if_splits)
  obtain n3 w3 where f: "HdfDeviceReleaseNode entryOf n2 w2 = Some (n3, w3)" "dn_token n3 = dn_token n"
    "fw_hosts w3 = fw_hosts w" "fw_tokens w3 = fw_tokens w" "fw_registry w3 = fw_registry w2"
    using n2
    by (cases "dv_entry (dn_driver n2)"; cases "Option.bind (dv_entry (dn_driver n2)) (\<lambda>x. de_Release (entryOf x))")
      (auto simp: HdfDeviceReleaseNode_def)
  show ?thesis
    using r n2 f
    by (auto simp: HdfDeviceNodeFreeInstance_def DeviceNodeExtDestruct_def DeviceNodeExtRemoveService_def
      n1_def [symmetric] HdfDeviceNodeDestruct_def HdfDeviceTokenFreeInstance_def split: option.splits)
qed

lemma ucast16_32_16 [simp]: "(ucast (ucast (x :: 16 word) :: 32 word) :: 16 word) = x"
  by (rule bit_word_eqI) (simp add: bit_simps)

lemma ucast_info_did: "(ucast (info_did info) :: uint32_t) = DEVICEID (info_devid info)"
proof (rule bit_word_eqI)
  fix i assume "i < LENGTH(32)"
  have "bit (0xFFFF :: 32 word) i \<longleftrightarrow> i < 16"
  proof -
    have "(0xFFFF :: 32 word) = mask 16" by (simp add: mask_eq_exp_minus_1)
    then show ?thesis using \<open>i < LENGTH(32)\<close> by (simp only: bit_mask_iff) simp
  qed
  then show "bit (ucast (info_did info) :: uint32_t) i = bit (DEVICEID (info_devid info)) i"
    by (auto simp: info_did_def DEVICEID_def bit_simps)
qed

text \<open>A driver that binds a service and initialises, and the information of a public device.\<close>

definition demo_entry :: "nat \<Rightarrow> unit HdfDriverEntry" where
  "demo_entry e =
     \<lparr>de_moduleName = Some [of_nat e],
      de_Bind = Some (\<lambda>obj. (0, obj\<lparr>do_service := Some (1000 + e)\<rparr>)),
      de_Init = Some (\<lambda>obj. (0, obj)), de_Release = None\<rparr>"

definition demo_drivers :: driver_list where
  "demo_drivers = [\<lparr>dv_self = 0, dv_entry = Some 65\<rparr>, \<lparr>dv_self = 1, dv_entry = Some 66\<rparr>]"

definition demo_info :: "uint16_t \<Rightarrow> uint8_t \<Rightarrow> HdfDeviceInfo" where
  "demo_info devid name =
     HdfDeviceInfoConstruct\<lparr>di_deviceId := devid, di_policy := SERVICE_POLICY_PUBLIC,
       di_moduleName := Some [name], di_svcName := Some [name], di_deviceMatchAttr := Some []\<rparr>"

definition demo_hosts :: "DevHostServiceClnt list" where
  "demo_hosts =
     [\<lparr>hc_devices = [], hc_deviceInfos = Some [demo_info 256 65, demo_info 256 66],
       hc_hostService = True, hc_devCount = 2, hc_hostId = 0, hc_hostPid = 0, hc_hostName = [104]\<rparr>]"

definition demo_fw :: fw where
  "demo_fw =
     \<lparr>fw_registry = \<lparr>dm_services = []\<rparr>, fw_hosts = demo_hosts, fw_tokens = Map.empty, fw_log = [],
      fw_next = 0, fw_env = []\<rparr>"

definition demo_host :: "unit DevHostService" where
  "demo_host =
     \<lparr>hs_hostId = 0, hs_hostName = [104], hs_devices = [], hs_observer = \<lparr>ob_services = []\<rparr>\<rparr>"

lemmas demo_defs = demo_entry_def demo_drivers_def demo_info_def demo_hosts_def demo_fw_def demo_host_def
  HdfDeviceInfoConstruct_def

lemmas add_device_defs = DevHostServiceAddDevice_def DevHostServiceQueryOrAddDevice_def
  DevHostServiceFindDevice_def HdfDriverLoaderGetDriver_def HdfDriverManagerGetDriver_def driver_named_def
  HdfDeviceNodeNewInstance_def HdfDeviceTokenNewInstance_def HdfDeviceObjectConstruct_def
  HdfDeviceAttach_def HdfDeviceLaunchNode_def launch_bind_def HdfDeviceNodePublishService_def
  DeviceNodeExtPublishService_def HdfDeviceNodePublishPublicService_def
  DevSvcManagerClntAddService_def DevSvcManagerAddService_def DevSvcRecordNewInstance_def
  HdfDeviceNodePublishLocalService_def HdfServiceObserverPublishService_def
  HdfServiceObserverRecordObtain_def HdfServiceObserverRecordNotifySubscribers_def
  DevmgrServiceAttachDevice_def DevmgrServiceFindDeviceHost_def DevmgrServiceUpdateStatus_def
  fw_ask_def fw_say_def fw_connects_def Let_def HOSTID_def DEVICEID_def

lemma demo_add:
  "\<exists>hs1 w1. DevHostServiceAddDevice demo_entry demo_drivers (\<lambda>_. None) () demo_host (demo_info 256 65) demo_fw
     = Some (HDF_SUCCESS, hs1, w1)"
  by (simp add: add_device_defs demo_defs)

text \<open>
  C32: Loading and unloading one driver.  After a successful \<^verbatim>\<open>AddDevice\<close> of the first node of a
  device, \<^verbatim>\<open>DelDevice\<close> with the same information succeeds and restores the host's devices and
  the service registry exactly.  The manager, however, is not told: its token list still holds
  the node's token, whose memory has been freed, and the device's status stays usable, because
  the extension clears the published mark before \<^verbatim>\<open>HdfDeviceReleaseNode\<close> tests it.
\<close>

theorem add_then_del_device:
  assumes add: "DevHostServiceAddDevice entryOf drivers propertyOf d hs info w = Some (HDF_SUCCESS, hs1, w1)"
    and new: "DevHostServiceFindDevice hs (info_did info) = None"
  obtains hs2 w2 a where
    "DevHostServiceDelDevice entryOf hs1 (info_devid info) w1 = Some (HDF_SUCCESS, hs2, w2)"
    and "hs_devices hs2 = hs_devices hs" and "fw_registry w2 = fw_registry w"
    and "fw_hosts w2 = attached_hosts a (info_devid info) (fw_hosts w)" and "fw_tokens w2 a = None"
proof -
  obtain n a where n: "hs_devices hs1 = join_device (info_did info) n hs"
    "dn_devId n = info_devid info" "dn_devStatus n = DEVNODE_LAUNCHED" "dn_token n = Some a"
    "registered n (fw_registry w) (fw_registry w1)"
    "fw_hosts w1 = attached_hosts a (info_devid info) (fw_hosts w)"
    using add_device_success [OF add] by blast
  let ?dev = "\<lparr>hd_devNodes = [n], hd_deviceId = info_did info, hd_hostId = hs_hostId hs\<rparr>"
  have devs: "hs_devices hs1 = ?dev # hs_devices hs" using n(1) new by (simp add: join_device_def)
  obtain w2 where f: "HdfDeviceNodeFreeInstance entryOf n w1 = Some w2" "fw_hosts w2 = fw_hosts w1"
    "fw_tokens w2 = (fw_tokens w1)(a := None)"
    "fw_registry w2 = (if dn_servStatus n
        then the (DevSvcManagerRemoveService (Some (fw_registry w1)) (dn_servName n)) else fw_registry w1)"
    using free_launched_node [OF n(3), of entryOf w1] n(4) by auto
  have reg: "fw_registry w2 = fw_registry w"
    using n(5) f(4)
    by (auto simp: registered_def DevSvcManagerRemoveService_def DevSvcManagerSearchService_def Let_def
      split: if_splits)
  have det: "HdfDeviceDetach entryOf ?dev n w1 = Some (HDF_SUCCESS, ?dev\<lparr>hd_devNodes := []\<rparr>, w2)"
    using f(1) n(2) by (simp add: HdfDeviceDetach_def ucast_info_did)
  have find: "DevHostServiceFindDevice hs1 (ucast (DEVICEID (info_devid info))) = Some ?dev"
    by (simp add: DevHostServiceFindDevice_def devs info_did_def)
  define hs2 where "hs2 = hs1\<lparr>hs_devices := hs_devices hs\<rparr>"
  have "DevHostServiceDelDevice entryOf hs1 (info_devid info) w1 = Some (HDF_SUCCESS, hs2, w2)"
    using det n(2)
    by (simp add: DevHostServiceDelDevice_def find HdfDeviceGetDeviceNode_def DevHostServiceFreeDevice_def
      HdfDeviceFreeInstance_def HdfDeviceDestruct_def devs hs2_def)
  then show thesis
    by (rule that [of hs2 w2 a]) (use f(2,3) n(6) reg in \<open>simp_all add: hs2_def\<close>)
qed

theorem add_then_del_device_witness:
  "\<exists>hs1 w1 hs2 w2 a. DevHostServiceDelDevice demo_entry hs1 (info_devid (demo_info 256 65)) w1 = Some (HDF_SUCCESS, hs2, w2)
     \<and> hs_devices hs2 = [] \<and> fw_registry w2 = fw_registry demo_fw \<and> fw_tokens w2 a = None"
proof -
  obtain hs1 w1 where add: "DevHostServiceAddDevice demo_entry demo_drivers (\<lambda>_. None) () demo_host (demo_info 256 65) demo_fw
     = Some (HDF_SUCCESS, hs1, w1)" using demo_add by blast
  have new: "DevHostServiceFindDevice demo_host (info_did (demo_info 256 65)) = None"
    by (simp add: DevHostServiceFindDevice_def demo_host_def)
  have none: "hs_devices demo_host = []" by (simp add: demo_host_def)
  show ?thesis
    using add_then_del_device [OF add new] unfolding none by metis
qed

text \<open>
  \<^verbatim>\<open>HdfDeviceInfo\<close> keeps the 32-bit device id of \<^verbatim>\<open>MK_DEVID\<close> in a \<^verbatim>\<open>uint16_t\<close>: the host id in
  its top byte is lost.  Whatever host a device is added to, its token is attached to the
  manager's client of host 0, no other host's record changes, and without a host 0 the addition
  cannot succeed.
\<close>

theorem every_device_attaches_to_host_zero:
  assumes "di_deviceId info = ucast (MK_DEVID hostId deviceIdx nodeIdx)"
    and "DevHostServiceAddDevice entryOf drivers propertyOf d hs info w = Some (HDF_SUCCESS, hs1, w1)"
  shows "DevmgrServiceFindDeviceHost w 0 \<noteq> None
    \<and> length (fw_hosts w1) = length (fw_hosts w)
    \<and> (\<forall>i<length (fw_hosts w). hc_hostId (fw_hosts w ! i) \<noteq> 0 \<longrightarrow> fw_hosts w1 ! i = fw_hosts w ! i)
    \<and> hc_devices (the (DevmgrServiceFindDeviceHost w1 0)) \<noteq> hc_devices (the (DevmgrServiceFindDeviceHost w 0))"
proof -
  have z: "(ucast (HOSTID (info_devid info)) :: uint16_t) = 0"
    by (rule bit_word_eqI) (auto simp: info_devid_def HOSTID_def bit_simps dest: bit_imp_le_length)
  obtain a where f: "DevmgrServiceFindDeviceHost w 0 \<noteq> None"
    "fw_hosts w1 = attached_hosts a (info_devid info) (fw_hosts w)"
    using add_device_success [OF assms(2)] z by auto
  have len: "length (upd_first P g xs) = length xs" for P g and xs :: "DevHostServiceClnt list"
    by (induction xs) auto
  have oth: "\<forall>i<length xs. \<not> P (xs ! i) \<longrightarrow> upd_first P g xs ! i = xs ! i" for P g and xs :: "DevHostServiceClnt list"
    by (induction xs) (auto simp: nth_Cons split: nat.split)
  obtain h where h: "DevmgrServiceFindDeviceHost w 0 = Some h" using f(1) by blast
  have "DevmgrServiceFindDeviceHost w1 0 =
      Some ((DevmgrServiceUpdateStatus h (info_devid info) HDF_SERVICE_USABLE)\<lparr>hc_devices := a # hc_devices h\<rparr>)"
    using h unfolding DevmgrServiceFindDeviceHost_def f(2) attached_hosts_def z
    by (subst search_upd_first) (simp_all add: DevmgrServiceUpdateStatus_def)
  then show ?thesis
    using f h len oth [of "fw_hosts w" "\<lambda>h. hc_hostId h = 0"] by (simp add: attached_hosts_def z)
qed

theorem every_device_attaches_to_host_zero_witness:
  "\<exists>hs1 w1. DevHostServiceAddDevice demo_entry demo_drivers (\<lambda>_. None) () demo_host (demo_info 256 65) demo_fw
       = Some (HDF_SUCCESS, hs1, w1)
     \<and> hc_devices (the (DevmgrServiceFindDeviceHost w1 0)) \<noteq> hc_devices (the (DevmgrServiceFindDeviceHost demo_fw 0))"
proof -
  obtain hs1 w1 where add: "DevHostServiceAddDevice demo_entry demo_drivers (\<lambda>_. None) () demo_host (demo_info 256 65) demo_fw
     = Some (HDF_SUCCESS, hs1, w1)" using demo_add by blast
  have "di_deviceId (demo_info 256 65) = ucast (MK_DEVID 3 1 0)"
    by (simp add: demo_info_def MK_DEVID_def)
  from every_device_attaches_to_host_zero [OF this add] add show ?thesis by blast
qed

text \<open>
  Two nodes of one device get the same device id from the configuration (the node index is
  reset for every node).  When both are loaded, unloading the second by that id releases the
  first: the node that stays is the second one.
\<close>

theorem unload_releases_first_sibling:
  assumes new: "DevHostServiceFindDevice hs (info_did info) = None"
    and same: "di_deviceId info' = di_deviceId info"
    and add1: "DevHostServiceAddDevice entryOf drivers propertyOf d hs info w = Some (HDF_SUCCESS, hs1, w1)"
    and add2: "DevHostServiceAddDevice entryOf drivers propertyOf d hs1 info' w1 = Some (HDF_SUCCESS, hs2, w2)"
    and self: "\<forall>x\<in>set (hs_devices hs2). distinct (map dn_self (hd_devNodes x))"
  obtains hs3 w3 dev n where
    "DevHostServiceDelDevice entryOf hs2 (info_devid info') w2 = Some (HDF_SUCCESS, hs3, w3)"
    and "hs_devices hs3 = dev # hs_devices hs" and "hd_devNodes dev = [n]"
    and "dn_servName n = di_svcName info'"
proof -
  have idd: "info_did info' = info_did info" "info_devid info' = info_devid info"
    using same by (simp_all add: info_did_def info_devid_def)
  obtain n1 where n1: "hs_devices hs1 = join_device (info_did info) n1 hs"
    "dn_devId n1 = info_devid info" "dn_devStatus n1 = DEVNODE_LAUNCHED"
    using add_device_success [OF add1] by blast
  obtain n2 where n2: "hs_devices hs2 = join_device (info_did info) n2 hs1"
    "dn_devId n2 = info_devid info" "dn_servName n2 = di_svcName info'"
    using add_device_success [OF add2] unfolding idd by blast
  let ?dev = "\<lambda>ns. \<lparr>hd_devNodes = ns, hd_deviceId = info_did info, hd_hostId = hs_hostId hs\<rparr>"
  have d1: "hs_devices hs1 = ?dev [n1] # hs_devices hs" using n1(1) new by (simp add: join_device_def)
  have d2: "hs_devices hs2 = ?dev [n1, n2] # hs_devices hs"
    using n2(1) by (simp add: join_device_def DevHostServiceFindDevice_def d1)
  have ne: "dn_self n1 \<noteq> dn_self n2" using self by (simp add: d2)
  obtain w3 where f: "HdfDeviceNodeFreeInstance entryOf n1 w2 = Some w3"
    using free_launched_node [OF n1(3)] by blast
  have det: "HdfDeviceDetach entryOf (?dev [n1, n2]) n1 w2 = Some (HDF_SUCCESS, ?dev [n2], w3)"
    using f n1(2) ne by (simp add: HdfDeviceDetach_def ucast_info_did)
  have find: "DevHostServiceFindDevice hs2 (ucast (DEVICEID (info_devid info))) = Some (?dev [n1, n2])"
    by (simp add: DevHostServiceFindDevice_def d2 info_did_def)
  have "DevHostServiceDelDevice entryOf hs2 (info_devid info) w2
      = Some (HDF_SUCCESS, hs2\<lparr>hs_devices := ?dev [n2] # hs_devices hs\<rparr>, w3)"
    using det n1(2)
    by (simp add: DevHostServiceDelDevice_def find HdfDeviceGetDeviceNode_def d2)
  then show thesis
    unfolding idd(2) [symmetric] by (rule that [of _ _ "?dev [n2]" n2]) (use n2(3) in simp_all)
qed

theorem unload_releases_first_sibling_witness:
  "\<exists>hs2 w2 hs3 w3 dev n. DevHostServiceDelDevice demo_entry hs2 (info_devid (demo_info 256 66)) w2 = Some (HDF_SUCCESS, hs3, w3)
     \<and> hs_devices hs3 = [dev] \<and> hd_devNodes dev = [n] \<and> dn_servName n = Some [66]"
proof -
  obtain hs1 w1 hs2 w2 where add: "DevHostServiceAddDevice demo_entry demo_drivers (\<lambda>_. None) () demo_host (demo_info 256 65) demo_fw
      = Some (HDF_SUCCESS, hs1, w1)"
    "DevHostServiceAddDevice demo_entry demo_drivers (\<lambda>_. None) () hs1 (demo_info 256 66) w1
      = Some (HDF_SUCCESS, hs2, w2)"
    "\<forall>x\<in>set (hs_devices hs2). distinct (map dn_self (hd_devNodes x))"
    by (simp add: add_device_defs demo_defs svc_key_def HdfStringMakeHashKey_def char_to_uint32_def
      has_key_def HdfServiceObserverRecordCompare_def)
  have new: "DevHostServiceFindDevice demo_host (info_did (demo_info 256 65)) = None"
    and same: "di_deviceId (demo_info 256 66) = di_deviceId (demo_info 256 65)"
    and nm: "di_svcName (demo_info 256 66) = Some [66]" "hs_devices demo_host = []"
    by (simp_all add: DevHostServiceFindDevice_def demo_host_def demo_info_def)
  show ?thesis
    using unload_releases_first_sibling [OF new same add] unfolding nm by metis
qed

text \<open>Freeing a device releases each of its launched nodes.\<close>

lemma destruct_loop_launched:
  assumes "\<forall>n\<in>set ns. dn_devStatus n = DEVNODE_LAUNCHED"
  shows "\<exists>w'. HdfDeviceDestruct_loop entryOf ns w = Some w'
    \<and> (\<forall>a. fw_tokens w a = None \<longrightarrow> fw_tokens w' a = None)
    \<and> (\<forall>n\<in>set ns. \<forall>a. dn_token n = Some a \<longrightarrow> fw_tokens w' a = None)
    \<and> fw_hosts w' = fw_hosts w"
  using assms
proof (induction ns arbitrary: w)
  case Nil
  then show ?case by simp
next
  case (Cons n ns)
  have "dn_devStatus n = DEVNODE_LAUNCHED" using Cons.prems by simp
  from free_launched_node [OF this, of entryOf w]
  obtain w1 where f: "HdfDeviceNodeFreeInstance entryOf n w = Some w1" "fw_hosts w1 = fw_hosts w"
    "fw_tokens w1 = (case dn_token n of None \<Rightarrow> fw_tokens w | Some a \<Rightarrow> (fw_tokens w)(a := None))" by blast
  have t: "\<forall>a. fw_tokens w a = None \<longrightarrow> fw_tokens w1 a = None"
    "\<forall>a. dn_token n = Some a \<longrightarrow> fw_tokens w1 a = None"
    using f(3) by (auto split: option.splits)
  obtain w' where i: "HdfDeviceDestruct_loop entryOf ns w1 = Some w'"
    "\<forall>a. fw_tokens w1 a = None \<longrightarrow> fw_tokens w' a = None"
    "\<forall>n\<in>set ns. \<forall>a. dn_token n = Some a \<longrightarrow> fw_tokens w' a = None"
    "fw_hosts w' = fw_hosts w1"
    using Cons.IH [of w1] Cons.prems by auto
  show ?case
  proof (intro exI conjI)
    show "HdfDeviceDestruct_loop entryOf (n # ns) w = Some w'" using f(1) i(1) by simp
  qed (use t i f(2) in auto)
qed

text \<open>
  The error exit of \<^verbatim>\<open>AddDevice\<close> frees the whole device, not only what the call made.  When a
  further node of a running device names a driver that does not exist, the call returns
  \<^verbatim>\<open>HDF_DEV_ERR_NODATA\<close>, and the device is gone from the host with every node it had: their
  tokens are freed, while the manager still lists them.
\<close>

theorem add_device_failure_frees_siblings:
  assumes "DevHostServiceFindDevice hs (info_did info) = Some dev"
    and "\<forall>n\<in>set (hd_devNodes dev). dn_devStatus n = DEVNODE_LAUNCHED"
    and "HdfDriverLoaderGetDriver entryOf (di_moduleName info) drivers = None"
  shows "\<exists>hs' w'. DevHostServiceAddDevice entryOf drivers propertyOf d hs info w = Some (HDF_DEV_ERR_NODATA, hs', w')
    \<and> hs_devices hs' = del_first (\<lambda>x. hd_deviceId x = info_did info) (hs_devices hs)
    \<and> (\<forall>n\<in>set (hd_devNodes dev). \<forall>a. dn_token n = Some a \<longrightarrow> fw_tokens w' a = None)
    \<and> fw_hosts w' = fw_hosts w"
proof -
  have q: "DevHostServiceQueryOrAddDevice hs (info_did info) w = (Some dev, hs, w)"
    using assms(1) by (simp add: DevHostServiceQueryOrAddDevice_def)
  have did: "hd_deviceId dev = info_did info"
    using assms(1) unfolding DevHostServiceFindDevice_def by (auto dest: search_first_Some)
  obtain w' where l: "HdfDeviceDestruct_loop entryOf (hd_devNodes dev) w = Some w'"
    "\<forall>n\<in>set (hd_devNodes dev). \<forall>a. dn_token n = Some a \<longrightarrow> fw_tokens w' a = None"
    "fw_hosts w' = fw_hosts w"
    using destruct_loop_launched [OF assms(2)] by blast
  have "DevHostServiceAddDevice entryOf drivers propertyOf d hs info w
      = Some (HDF_DEV_ERR_NODATA,
          hs\<lparr>hs_devices := del_first (\<lambda>x. hd_deviceId x = info_did info) (hs_devices hs)\<rparr>, w')"
    using q assms(3) l(1) did
    by (simp add: DevHostServiceAddDevice_def info_did_def info_devid_def add_device_error_def
      DevHostServiceFreeDevice_def HdfDeviceFreeInstance_def HdfDeviceDestruct_def)
  then show ?thesis using l by auto
qed

theorem add_device_failure_frees_siblings_witness:
  "\<exists>hs1 w1 hs2 w2. DevHostServiceAddDevice demo_entry demo_drivers (\<lambda>_. None) () demo_host (demo_info 256 65) demo_fw
       = Some (HDF_SUCCESS, hs1, w1)
     \<and> DevHostServiceAddDevice demo_entry demo_drivers (\<lambda>_. None) () hs1 (demo_info 256 67) w1
       = Some (HDF_DEV_ERR_NODATA, hs2, w2)
     \<and> hs_devices hs2 = []"
proof -
  obtain hs1 w1 where add: "DevHostServiceAddDevice demo_entry demo_drivers (\<lambda>_. None) () demo_host (demo_info 256 65) demo_fw
      = Some (HDF_SUCCESS, hs1, w1)" using demo_add by blast
  obtain n where n: "hs_devices hs1 = join_device (info_did (demo_info 256 65)) n demo_host"
    "dn_devStatus n = DEVNODE_LAUNCHED"
    using add_device_success [OF add] by blast
  have did: "info_did (demo_info 256 65) = info_did (demo_info 256 67)"
    by (simp add: info_did_def info_devid_def demo_info_def)
  let ?dev = "\<lparr>hd_devNodes = [n], hd_deviceId = info_did (demo_info 256 67), hd_hostId = hs_hostId demo_host\<rparr>"
  have devs: "hs_devices hs1 = [?dev]"
    using n(1) by (simp add: join_device_def DevHostServiceFindDevice_def demo_host_def did)
  have f: "DevHostServiceFindDevice hs1 (info_did (demo_info 256 67)) = Some ?dev"
    by (simp add: DevHostServiceFindDevice_def devs)
  have l: "\<forall>x\<in>set (hd_devNodes ?dev). dn_devStatus x = DEVNODE_LAUNCHED" using n(2) by simp
  have g: "HdfDriverLoaderGetDriver demo_entry (di_moduleName (demo_info 256 67)) demo_drivers = None"
    by (simp add: HdfDriverLoaderGetDriver_def HdfDriverManagerGetDriver_def driver_named_def demo_defs)
  show ?thesis
    using add_device_failure_frees_siblings [OF f l g, of "\<lambda>_. None" "()" w1] add
    by (auto simp: devs)
qed

section \<open>Power\<close>

text \<open>The nodes an event reaches, in the order the host visits them.\<close>

definition powered :: "'d HdfDeviceNode list \<Rightarrow> nat list" where
  "powered ns = map dn_self (filter (\<lambda>n. dn_powerToken n \<noteq> None) ns)"

lemma power_change_some: "\<exists>r t'. PowerStateChange (Some t) s = (r, Some t')"
  by (simp add: PowerStateChange_def split: option.split prod.split)

lemma node_power_trace: "snd (node_power_change s n) = powered [n]"
proof (cases "dn_powerToken n")
  case None
  then show ?thesis by (simp add: node_power_change_def powered_def)
next
  case (Some t)
  then show ?thesis
    using power_change_some [of "t\<lparr>pt_body := (pt_body t)\<lparr>pt_deviceObject := dn_deviceObject n\<rparr>\<rparr>" s]
    by (auto simp: node_power_change_def powered_def)
qed

lemma power_nodes_trace: "snd (power_nodes s ns) = powered ns"
proof (induction ns)
  case Nil
  then show ?case by (simp add: powered_def)
next
  case (Cons n ns)
  obtain n1 t1 where n: "node_power_change s n = (n1, t1)" by force
  obtain ns1 t2 where ns: "power_nodes s ns = (ns1, t2)" by force
  have "powered (n # ns) = powered [n] @ powered ns" by (simp add: powered_def)
  then show ?case using node_power_trace [of s n] Cons.IH n ns by simp
qed

lemma powered_append: "powered (xs @ ys) = powered xs @ powered ys"
  by (simp add: powered_def)

lemma powered_rev: "powered (rev xs) = rev (powered xs)"
  by (simp add: powered_def rev_map rev_filter [symmetric])

lemma apply_trace:
  "ApplyDevicesPowerState d s = (st, d', t) \<Longrightarrow> st = HDF_SUCCESS
     \<and> t = (if IsPowerWakeState s then powered (hd_devNodes d) else rev (powered (hd_devNodes d)))"
  using power_nodes_trace [of s "hd_devNodes d"] power_nodes_trace [of s "rev (hd_devNodes d)"]
  by (auto simp: ApplyDevicesPowerState_def powered_rev split: prod.splits)

lemma power_devices_trace:
  "power_devices s ret ds = (ret', ds', t) \<Longrightarrow> ret' = ret
     \<and> t = concat (map (\<lambda>d. if IsPowerWakeState s then powered (hd_devNodes d) else rev (powered (hd_devNodes d))) ds)"
proof (induction ds arbitrary: ret ret' ds' t)
  case Nil
  then show ?case by simp
next
  case (Cons d ds)
  obtain st d1 t1 where a: "ApplyDevicesPowerState d s = (st, d1, t1)" by (metis prod_cases3)
  obtain r2 ds2 t2 where p: "power_devices s ret ds = (r2, ds2, t2)" by (metis prod_cases3)
  show ?case using Cons.prems Cons.IH [OF p] apply_trace [OF a] a p by auto
qed

definition host_powered :: "'d DevHostService \<Rightarrow> nat list" where
  "host_powered hs = powered (concat (map hd_devNodes (rev (hs_devices hs))))"

lemma powered_concat: "powered (concat xss) = concat (map powered xss)"
  by (induction xss) (simp_all add: powered_append powered_def)

lemma pm_notify_trace:
  "DevHostServicePmNotify hs s = (st, hs', t) \<Longrightarrow> st = HDF_SUCCESS
     \<and> t = (if IsPowerWakeState s then host_powered hs else rev (host_powered hs))"
  using power_devices_trace [of s HDF_SUCCESS "rev (hs_devices hs)"]
    power_devices_trace [of s HDF_SUCCESS "hs_devices hs"]
  by (fastforce simp: DevHostServicePmNotify_def host_powered_def powered_concat rev_concat rev_map comp_def
    split: if_splits prod.splits)

end
