(* ===== verification/Hcs_Match.thy ===== *)
theory Hcs_Match
  imports Hcs_Query
begin

text \<open>
  Searching a configuration by match attribute: what \<^verbatim>\<open>HcsGetNodeByMatchAttr\<close> of
  \<^verbatim>\<open>utils/src/hcs_parser/hcs_tree_if.c\<close> returns on a compiled configuration, and the
  traversal of a node's children that the attribute manager does by hand.
\<close>

section \<open>The test of one node\<close>

lemma strcmp_eq_total:
  "xs \<noteq> [] \<Longrightarrow> last xs = 0 \<Longrightarrow> 0 \<notin> set s \<Longrightarrow> \<exists>r. strcmp_eq xs s = Some r"
proof (induction xs s rule: strcmp_eq.induct)
  case (3 x xs y ys)
  then show ?case by (cases xs) auto
qed auto

lemma ptr_strcmp_eq_total:
  "0 \<le> p \<Longrightarrow> p < int (length b) \<Longrightarrow> last b = 0 \<Longrightarrow> 0 \<notin> set s \<Longrightarrow> \<exists>r. ptr_strcmp_eq b p s = Some r"
  using strcmp_eq_total [of "drop (nat p) b" s] by (simp add: ptr_strcmp_eq_def last_drop nat_less_iff)

lemma value_size_gt_prefix: "HcsAlign al 1 < value_size al v"
  using div_le_mono [of 4 "4 + n" 4 for n] by (cases v) (auto simp: HcsAlign_def pad4_def)

lemma value_inside:
  assumes "holds_at b p (write_value al v)"
  shows "0 \<le> p + HCS_PREFIX_LENGTH al \<and> p + HCS_PREFIX_LENGTH al < int (length b)"
proof -
  have "int (HcsAlign al 1) < int (value_size al v)" using value_size_gt_prefix by simp
  then show ?thesis
    using holds_at_nonneg [OF assms] holds_at_length [OF assms] unfolding HCS_PREFIX_LENGTH_eq by simp
qed

text \<open>A node carries the match attribute with a given value.\<close>

definition has_match :: "bytes \<Rightarrow> hcs_obj list \<Rightarrow> bool" where
  "has_match val items \<longleftrightarrow> (HCS_MATCH_ATTR, HString val) \<in> set (terms_of items)"

text \<open>
  The grammar lets \<^verbatim>\<open>match_attr\<close> have a value of any type, and the search compares the stored bytes of
  the value as if they were a string, whatever its type: the number \<^verbatim>\<open>0x00434241\<close> is found as \<^verbatim>\<open>"ABC"\<close>.
  \<open>stored_match\<close> says this of a node; for match attributes that are strings it is \<open>has_match\<close>.
\<close>

definition stored_match :: "bool \<Rightarrow> bytes \<Rightarrow> hcs_mem \<Rightarrow> bytes \<Rightarrow> located_node \<Rightarrow> bool" where
  "stored_match al b m val = (\<lambda>(a, pos, name, items).
     \<exists>(x, n, v)\<in>set (located_terms al (pos + int (node_header al name)) items (a + 48)).
       n = HCS_MATCH_ATTR \<and> (\<exists>at. hm_attrs m x = Some at \<and>
         holds_at b (ha_value at) (write_value al v) \<and>
         holds_at b (ha_value at + HCS_PREFIX_LENGTH al) (val @ [0])))"

text \<open>Every match attribute of the node is a string, as in every configuration that uses them as names.\<close>

definition match_attrs_strings :: "hcs_obj list \<Rightarrow> bool" where
  "match_attrs_strings items \<longleftrightarrow>
     (\<forall>(n, v)\<in>set (terms_of items). n = HCS_MATCH_ATTR \<longrightarrow> (\<exists>s. v = HString s))"

lemma match_attr_clean: "0 \<notin> set HCS_MATCH_ATTR"
  by (simp add: HCS_MATCH_ATTR_def)

lemma strcmp_eq_reads:
  "0 \<notin> set s \<Longrightarrow> strcmp_eq xs s = Some True \<longleftrightarrow> (\<exists>post. xs = s @ 0 # post)"
  by (induction xs s rule: strcmp_eq.induct) (auto simp: eq_commute)

lemma ptr_strcmp_eq_reads:
  assumes "0 \<le> p" "p < int (length b)" "0 \<notin> set s"
  shows "ptr_strcmp_eq b p s = Some True \<longleftrightarrow> holds_at b p (s @ [0])"
proof -
  have "(\<exists>post. drop (nat p) b = s @ 0 # post) \<longleftrightarrow> holds_at b p (s @ [0])"
  proof
    assume "\<exists>post. drop (nat p) b = s @ 0 # post"
    then obtain post where "b = take (nat p) b @ (s @ [0]) @ post"
      by (metis append_take_drop_id append.assoc append_Cons append_Nil)
    then show "holds_at b p (s @ [0])"
      unfolding holds_at_def using assms(1,2) by (intro exI [of _ "take (nat p) b"] exI [of _ post]) auto
  next
    assume "holds_at b p (s @ [0])"
    then show "\<exists>post. drop (nat p) b = s @ 0 # post" by (auto simp: holds_at_def)
  qed
  then show ?thesis using assms by (simp add: ptr_strcmp_eq_def strcmp_eq_reads)
qed

lemma node_terms_hold:
  assumes "node_in al t b m par pos name items a"
    and "(x, nm, v) \<in> set (located_terms al (pos + int (node_header al name)) items (a + 48))"
  obtains at where "hm_attrs m x = Some at" "holds_at b (ha_name at) (nm @ [0])" "0 \<notin> set nm"
    "holds_at b (ha_value at) (write_value al v)" "value_ok v"
proof -
  from assms(1) have n: "rep_items al t m (Some a) (pos + int (node_header al name)) items (a + 48)"
    by (auto simp: node_in_def split: option.splits)
  have "holds_at b (t + (pos + int (node_header al name))) (concat (map (write_obj al) items))" "list_all obj_ok items"
    using assms(1) node_parts(4) [of b "t + pos" al name items]
    by (auto simp: node_in_def add.assoc simp del: write_obj.simps rep_obj.simps)
  from located_terms_hold [OF n this assms(2)] that show thesis by blast
qed

lemma match_test:
  assumes nd: "node_in al t b m par pos name items a"
    and last: "last b = 0" and val: "0 \<notin> set val"
  shows "map_option (\<lambda>r. r \<noteq> None) (GetAttrValueInNode al b m (Some a) (Some val)) =
    Some (stored_match al b m val (a, pos, name, items))"
proof -
  let ?ts = "located_terms al (pos + int (node_header al name)) items (a + 48)"
  from nd obtain n where n: "hm_nodes m a = Some n"
    "attr_chain (hm_attrs m) (hn_attrData n) (rev (term_addrs items (a + 48)))"
    by (auto simp: node_in_def split: option.splits)
  let ?test = "\<lambda>attr. do {
       same \<leftarrow> ptr_strcmp_eq b (ha_value attr + HCS_PREFIX_LENGTH al) val;
       if \<not> same then Some False else ptr_strcmp_eq b (ha_name attr) HCS_MATCH_ATTR
     }"
  define Q where "Q z \<longleftrightarrow> fst (snd z) = HCS_MATCH_ATTR \<and> (\<exists>at. hm_attrs m (fst z) = Some at \<and>
      holds_at b (ha_value at) (write_value al (snd (snd z))) \<and>
      holds_at b (ha_value at + HCS_PREFIX_LENGTH al) (val @ [0]))" for z :: "nat \<times> bytes \<times> hcs_value"
  define P where "P x \<longleftrightarrow> (\<exists>z\<in>set ?ts. fst z = x \<and> Q z)" for x
  have "distinct (map fst ?ts)" unfolding map_fst_located by (rule term_addrs_distinct)
  then have P: "P (fst z) \<longleftrightarrow> Q z" if "z \<in> set ?ts" for z
    using that unfolding P_def by (metis (no_types, lifting) eq_key_imp_eq_value prod.collapse)
  have test: "?test at = Some (P x)" if x: "x \<in> set (term_addrs items (a + 48))" and A: "hm_attrs m x = Some at" for x at
  proof -
    from x obtain nm v where ts: "(x, nm, v) \<in> set ?ts"
      unfolding map_fst_located [of al "pos + int (node_header al name)", symmetric] by auto
    from node_terms_hold [OF nd this] A have h: "holds_at b (ha_name at) (nm @ [0])" "0 \<notin> set nm"
      "holds_at b (ha_value at) (write_value al v)" by (metis option.inject)+
    have name: "ptr_strcmp_eq b (ha_name at) HCS_MATCH_ATTR = Some (nm = HCS_MATCH_ATTR)"
      by (rule ptr_strcmp_holds [OF h(1,2) match_attr_clean])
    note inside = value_inside [OF h(3)]
    obtain r where r: "ptr_strcmp_eq b (ha_value at + HCS_PREFIX_LENGTH al) val = Some r"
      using ptr_strcmp_eq_total [OF _ _ last val] inside by blast
    have "r \<longleftrightarrow> holds_at b (ha_value at + HCS_PREFIX_LENGTH al) (val @ [0])"
      using ptr_strcmp_eq_reads [OF _ _ val, of "ha_value at + HCS_PREFIX_LENGTH al" b] inside r by simp
    then show ?thesis using r name P [OF ts] A h(3) by (cases r) (simp_all add: Q_def)
  qed
  have "GetAttrValueInNode al b m (Some a) (Some val) = Some (List.find P (rev (term_addrs items (a + 48))))"
    using n(1) attr_loop_chain [OF n(2), of ?test P] test by (simp add: GetAttrValueInNode_def)
  moreover have "(\<exists>x\<in>set (term_addrs items (a + 48)). P x) \<longleftrightarrow> stored_match al b m val (a, pos, name, items)"
  proof -
    have "(\<exists>x\<in>set (term_addrs items (a + 48)). P x) \<longleftrightarrow> (\<exists>z\<in>set ?ts. Q z)"
      unfolding P_def map_fst_located [of al "pos + int (node_header al name)" items "a + 48", symmetric] by auto
    then show ?thesis by (simp add: stored_match_def Q_def case_prod_beta)
  qed
  moreover have "List.find P xs \<noteq> None \<longleftrightarrow> (\<exists>x\<in>set xs. P x)" for xs
    by (induction xs) auto
  ultimately show ?thesis by simp
qed

lemma stored_match_strings:
  assumes nd: "node_in al t b m par pos name items a" and val: "0 \<notin> set val" and str: "match_attrs_strings items"
  shows "stored_match al b m val (a, pos, name, items) = has_match val items"
proof -
  let ?ts = "located_terms al (pos + int (node_header al name)) items (a + 48)"
  have same: "holds_at b (ha_value at + HCS_PREFIX_LENGTH al) (val @ [0]) \<longleftrightarrow> s = val"
    if "holds_at b (ha_value at) (write_value al (HString s))" "value_ok (HString s)" for at s
    using ptr_strcmp_holds [OF holds_at_output [OF value_body(5) [OF that(1) refl]] _ val]
      ptr_strcmp_eq_reads [OF _ _ val, of "ha_value at + HCS_PREFIX_LENGTH al" b] value_inside [OF that(1)] that(2) by simp
  have "stored_match al b m val (a, pos, name, items) \<longleftrightarrow> (\<exists>x. (x, HCS_MATCH_ATTR, HString val) \<in> set ?ts)"
  proof
    assume "stored_match al b m val (a, pos, name, items)"
    then obtain x v at where v: "(x, HCS_MATCH_ATTR, v) \<in> set ?ts" "hm_attrs m x = Some at"
      "holds_at b (ha_value at + HCS_PREFIX_LENGTH al) (val @ [0])" by (auto simp: stored_match_def)
    from v(1) have "(HCS_MATCH_ATTR, v) \<in> set (terms_of items)"
      unfolding map_snd_located [of al "pos + int (node_header al name)" items "a + 48", symmetric] by force
    then obtain s where s: "v = HString s" using str by (auto simp: match_attrs_strings_def)
    from node_terms_hold [OF nd v(1)] v(2) have "holds_at b (ha_value at) (write_value al v)" "value_ok v"
      by (metis option.inject)+
    then show "\<exists>x. (x, HCS_MATCH_ATTR, HString val) \<in> set ?ts" using same v s by blast
  next
    assume "\<exists>x. (x, HCS_MATCH_ATTR, HString val) \<in> set ?ts"
    then obtain x where x: "(x, HCS_MATCH_ATTR, HString val) \<in> set ?ts" by blast
    obtain at where at: "hm_attrs m x = Some at" "holds_at b (ha_value at) (write_value al (HString val))"
        "value_ok (HString val)"
      using node_terms_hold [OF nd x] by blast
    then have "holds_at b (ha_value at + HCS_PREFIX_LENGTH al) (val @ [0])" using same by blast
    with x at(1,2) show "stored_match al b m val (a, pos, name, items)"
      unfolding stored_match_def prod.case by blast
  qed
  also have "\<dots> \<longleftrightarrow> has_match val items"
    unfolding has_match_def map_snd_located [of al "pos + int (node_header al name)" items "a + 48", symmetric] by force
  finally show ?thesis .
qed

text \<open>A number is found by the text its bytes spell: here \<^verbatim>\<open>match_attr = 0x00434241\<close> by \<^verbatim>\<open>"ABC"\<close>.\<close>

lemma number_found_as_text:
  assumes nd: "node_in al t b m par pos name items a" and "(HCS_MATCH_ATTR, HDword 0x00434241) \<in> set (terms_of items)"
  shows "stored_match al b m [0x41, 0x42, 0x43] (a, pos, name, items)"
proof -
  obtain x where x: "(x, HCS_MATCH_ATTR, HDword 0x00434241) \<in>
      set (located_terms al (pos + int (node_header al name)) items (a + 48))"
    using assms(2) unfolding map_snd_located [of al "pos + int (node_header al name)" items "a + 48", symmetric] by auto
  from node_terms_hold [OF nd x] obtain at where at: "hm_attrs m x = Some at"
    "holds_at b (ha_value at) (write_value al (HDword 0x00434241))" by blast
  have "le_bytes 4 (0x00434241 :: uint32_t) = [0x41, 0x42, 0x43] @ [0]" by code_simp
  then have "\<exists>pad. HcsOutputWriteAlign al (le_bytes 4 (0x00434241 :: uint32_t)) = ([0x41, 0x42, 0x43] @ [0]) @ pad"
    by (simp add: HcsOutputWriteAlign_def)
  then have "holds_at b (ha_value at + HCS_PREFIX_LENGTH al) ([0x41, 0x42, 0x43] @ [0])"
    using value_body(3) [OF at(2) refl] by (metis holds_at_appendD(1))
  with x at show ?thesis unfolding stored_match_def prod.case by blast
qed

section \<open>Looking up a node\<close>

lemma located_node_in:
  assumes "hcs_loaded root al b m" "z \<in> set (nodes_obj al 0 root 0)"
  obtains par where "node_in al 20 b m par (fst (snd z)) (fst (snd (snd z))) (snd (snd (snd z))) (fst z)"
  using loaded_node_in [OF assms(1), of "fst z" "fst (snd z)" "fst (snd (snd z))" "snd (snd (snd z))"] assms(2) by auto

lemma match_attr_root:
  assumes "hcs_loaded root al b m" and "last b = 0" and "0 \<notin> set val"
  shows "HcsGetNodeByMatchAttr al b m (Some 0) None (Some val) =
    Some (map_option fst (List.find (stored_match al b m val) (nodes_obj al 0 root 0)))"
proof -
  note rep = hcs_loaded_rep [OF assms(1)]
  obtain ritems where root: "root = HNode HBC_ROOT_NAME ritems" using rep(6) by auto
  let ?ns = "nodes_obj al 0 root 0"
  let ?test = "\<lambda>p. map_option (\<lambda>r. r \<noteq> None) (GetAttrValueInNode al b m (Some p) (Some val))"
  define P where "P p = (?test p = Some True)" for p
  have each: "?test (fst z) = Some (stored_match al b m val z)" if "z \<in> set ?ns" for z
    using match_test [OF _ assms(2,3)] located_node_in [OF assms(1) that] by (metis prod.collapse)
  have test: "\<forall>z\<in>set ?ns. ?test (fst z) = Some (P (fst z))"
  proof
    fix z assume "z \<in> set ?ns"
    from each [OF this] show "?test (fst z) = Some (P (fst z))" unfolding P_def by (simp only: option.inject eq_True)
  qed
  have "search_loop m ?test (Some 0) = Some (map_option fst (List.find (\<lambda>z. P (fst z)) ?ns))"
    using search_from_root [OF rep(1,2) [unfolded root] test [unfolded root]] by (simp add: root)
  also have "List.find (\<lambda>z. P (fst z)) ?ns = List.find (stored_match al b m val) ?ns"
    by (rule List_find_cong) (use each in \<open>simp only: P_def option.inject eq_True\<close>)
  finally show ?thesis by (simp add: HcsGetNodeByMatchAttr_def)
qed

lemma match_attr_root_strings:
  assumes "hcs_loaded root al b m" and "last b = 0" and "0 \<notin> set val"
    and str: "\<forall>(a, pos, name, items)\<in>set (nodes_obj al 0 root 0). match_attrs_strings items"
  shows "HcsGetNodeByMatchAttr al b m (Some 0) None (Some val) =
    Some (map_option fst (List.find (\<lambda>(a, pos, name, items). has_match val items) (nodes_obj al 0 root 0)))"
proof -
  have "List.find (stored_match al b m val) (nodes_obj al 0 root 0) =
      List.find (\<lambda>(a, pos, name, items). has_match val items) (nodes_obj al 0 root 0)"
  proof (rule List_find_cong)
    fix z assume z: "z \<in> set (nodes_obj al 0 root 0)"
    show "stored_match al b m val z = (case z of (a, pos, name, items) \<Rightarrow> has_match val items)"
      using located_node_in [OF assms(1) z] stored_match_strings [OF _ assms(3)] str z
      by (metis (no_types, lifting) case_prod_beta prod.collapse)
  qed
  then show ?thesis using match_attr_root [OF assms(1-3)] by simp
qed

text \<open>
  C29: Looking up a node by match attribute, from the root of a compiled and loaded configuration,
  returns the first node in the order of the source that has a \<^verbatim>\<open>match_attr\<close> whose stored bytes, read
  as a string, are the wanted value, and null when there is none.  When every \<^verbatim>\<open>match_attr\<close> of the
  configuration is a string, this is the first node that has a \<^verbatim>\<open>match_attr\<close> of that value; the type
  is not looked at, so one with a number can be found too.  The wanted value has no zero byte, and
  the configuration's last byte is zero: the search compares every attribute's value with the wanted
  string before it looks at the attribute's name, and could run off the end otherwise.
\<close>

theorem hcs_match_attr_of_compiled:
  assumes "hcs_loaded root al b m" and "last b = 0" and "0 \<notin> set val"
  shows "HcsGetNodeByMatchAttr al b m (Some 0) None (Some val) =
      Some (map_option fst (List.find (stored_match al b m val) (nodes_obj al 0 root 0))) \<and>
    ((\<forall>(a, pos, name, items)\<in>set (nodes_obj al 0 root 0). match_attrs_strings items) \<longrightarrow>
     HcsGetNodeByMatchAttr al b m (Some 0) None (Some val) =
      Some (map_option fst (List.find (\<lambda>(a, pos, name, items). has_match val items) (nodes_obj al 0 root 0))))"
  using match_attr_root [OF assms] match_attr_root_strings [OF assms] by blast

definition match_config :: hcs_obj where
  "match_config = HNode HBC_ROOT_NAME
     [HNode [97] [HTerm [120] (HWord 513)],
      HNode [98] [HTerm HCS_MATCH_ATTR (HString [104, 105])]]"

theorem hcs_match_attr_of_compiled_witness:
  "\<exists>b m a. HcsGetNodeByMatchAttr False b m (Some 0) None (Some [104, 105]) = Some (Some a) \<and> a \<noteq> 0
     \<and> HcsGetNodeByMatchAttr False b m (Some 0) None (Some [104]) = Some None"
proof -
  have ok: "hcs_blob_ok match_config False"
    by (simp add: match_config_def hcs_blob_ok_def HBC_ROOT_NAME_def HBC_BLOB_MAX_LENGTH_def HcsAlign_def
      HCS_MATCH_ATTR_def)
  from decompile_compiled [OF this, of 0 0] obtain m where
    "HcsDecompile True True True False (HcsBytecodeOutput False 0 0 match_config) 20 = Some (Some (Some 0, m))" by blast
  with ok have l: "hcs_loaded match_config False (HcsBytecodeOutput False 0 0 match_config) m"
    by (auto simp: hcs_loaded_def)
  have z: "last (HcsBytecodeOutput False 0 0 match_config) = 0"
    by (simp add: match_config_def HcsBytecodeOutput_def HcsOutputWriteAlign_def HcsAlign_def)
  have s: "\<forall>(a, pos, name, items)\<in>set (nodes_obj False 0 match_config 0). match_attrs_strings items"
    by (simp add: match_config_def match_attrs_strings_def HCS_MATCH_ATTR_def)
  show ?thesis
    using mp [OF conjunct2 [OF hcs_match_attr_of_compiled [OF l z]] s, of "[104, 105]"]
      mp [OF conjunct2 [OF hcs_match_attr_of_compiled [OF l z]] s, of "[104]"]
    by (intro exI [of _ "HcsBytecodeOutput False 0 0 match_config"] exI [of _ m])
      (simp add: match_config_def has_match_def HCS_MATCH_ATTR_def)
qed

section \<open>The children of a node\<close>

text \<open>The child nodes of a source node, with the addresses they get.\<close>

fun child_nodes :: "bool \<Rightarrow> int \<Rightarrow> hcs_obj list \<Rightarrow> nat \<Rightarrow> located_node list" where
  "child_nodes al pos [] a = []"
| "child_nodes al pos (HTerm n v # xs) a =
     child_nodes al (pos + int (obj_size al (HTerm n v))) xs (a + obj_mem (HTerm n v))"
| "child_nodes al pos (HNode n items # xs) a =
     (a, pos, n, items) # child_nodes al (pos + int (obj_size al (HNode n items))) xs (a + obj_mem (HNode n items))"

lemma child_nodes_kids: "map fst (child_nodes al pos xs a) = kids xs a"
  by (induction al pos xs a rule: child_nodes.induct) (auto simp del: obj_size.simps)

lemma child_nodes_in_items: "set (child_nodes al pos xs a) \<subseteq> set (nodes_items al pos xs a)"
proof (induction al pos xs a rule: child_nodes.induct)
  case (1 al pos a)
  then show ?case by simp
next
  case (2 al pos n v xs a)
  then show ?case by (simp del: obj_size.simps)
next
  case (3 al pos n items xs a)
  then show ?case by (auto simp del: obj_size.simps)
qed

lemma nodes_trans:
  "(a', pos', n', items') \<in> set (nodes_obj al pos x a) \<Longrightarrow>
     set (nodes_items al (pos' + int (node_header al n')) items' (a' + 48)) \<subseteq> set (nodes_obj al pos x a)"
  "(a', pos', n', items') \<in> set (nodes_items al pos xs a) \<Longrightarrow>
     set (nodes_items al (pos' + int (node_header al n')) items' (a' + 48)) \<subseteq> set (nodes_items al pos xs a)"
proof (induction al pos x a and al pos xs a rule: nodes_obj_nodes_items.induct)
  case (2 al pos n items a)
  then show ?case by auto
next
  case (4 al pos x xs a)
  then show ?case by auto
qed auto

text \<open>The children of a loaded node, as the code reaches them: first child, then siblings.\<close>

lemma loaded_children:
  assumes l: "hcs_loaded root al b m" and n: "(a, pos, name, items) \<in> set (nodes_obj al 0 root 0)"
  shows "\<exists>nd. hm_nodes m a = Some nd
    \<and> sib_chain (hm_nodes m) (hn_child nd) (map fst (child_nodes al (pos + int (node_header al name)) items (a + 48)))
    \<and> set (child_nodes al (pos + int (node_header al name)) items (a + 48)) \<subseteq> set (nodes_obj al 0 root 0)"
proof -
  obtain par where "node_in al 20 b m par pos name items a" using loaded_node_in [OF l n] by auto
  then obtain nd where "hm_nodes m a = Some nd" "sib_chain (hm_nodes m) (hn_child nd) (kids items (a + 48))"
    by (auto simp: node_in_def split: option.splits)
  then show ?thesis
    using child_nodes_in_items nodes_trans(1) [OF n] unfolding child_nodes_kids by blast
qed

end
