(* ===== verification/Hdf_Attribute.thy ===== *)
theory Hdf_Attribute
  imports Hcs_Match Hdf_SList Hdf_Driver
begin

text \<open>
  The attribute manager \<^verbatim>\<open>core/common/src/hdf_attribute.c\<close>: the host list and the device list
  of a host, read from the decompiled configuration.  (Its operations on the manager's live
  device lists are in \<open>Hdf_DevMgr\<close>.)

  The configuration is the blob \<open>b\<close>, its byte alignment \<open>al\<close> and the tree memory \<open>m\<close>; a node is
  its address in the tree.  A string read from the configuration is its bytes.  The list a
  result is inserted into by \<^verbatim>\<open>HdfSListAddOrder\<close> is a HOL list with \<open>sl_add_order\<close>, which
  \<open>Hdf_SList\<close> proves to be what that function does; a node just allocated is never already in the
  list, so the insertion cannot be refused.  The second half proves that what is read from a
  compiled configuration is a simple function of its source.
\<close>

section \<open>The configuration tree\<close>

text \<open>
  \<^verbatim>\<open>HcsGetRootNode\<close> with the built-in configuration: the tree is built on the first call
  (\<open>g_hcsTreeRoot\<close> is \<^const>\<open>None\<close>), and the global \<open>al\<close> is set by the format check.
\<close>

definition CreateHcsToTree ::
    "bool \<Rightarrow> bool \<Rightarrow> bool \<Rightarrow> bool \<Rightarrow> bytes option \<Rightarrow> int \<Rightarrow> (bool \<times> (nat option \<times> hcs_mem) option) option" where
  "CreateHcsToTree ok1 ok2 ok3 al hcsBlob len = do {
     r \<leftarrow> HcsCheckBlobFormat al hcsBlob len;
     (case (r, hcsBlob) of
        ((True, al'), Some b) \<Rightarrow> do {
          t \<leftarrow> HcsDecompile ok1 ok2 ok3 al' b HBC_HEADER_LENGTH;
          Some (al', t)
        }
      | _ \<Rightarrow> Some (snd r, None))
   }"

definition HcsGetRootNode ::
    "bool \<Rightarrow> bool \<Rightarrow> bool \<Rightarrow> bool \<Rightarrow> bytes option \<Rightarrow> int \<Rightarrow> (nat option \<times> hcs_mem) option
     \<Rightarrow> (bool \<times> (nat option \<times> hcs_mem) option) option" where
  "HcsGetRootNode ok1 ok2 ok3 al hcsBlob len g_hcsTreeRoot =
     (case g_hcsTreeRoot of
        Some t \<Rightarrow> Some (al, Some t)
      | None \<Rightarrow> CreateHcsToTree ok1 ok2 ok3 al hcsBlob len)"

section \<open>Reading attributes\<close>

definition ATTR_HOST_NAME :: bytes where "ATTR_HOST_NAME = map of_nat [104, 111, 115, 116, 78, 97, 109, 101]"
definition ATTR_DEV_POLICY :: bytes where "ATTR_DEV_POLICY = map of_nat [112, 111, 108, 105, 99, 121]"
definition ATTR_DEV_PRIORITY :: bytes where "ATTR_DEV_PRIORITY = map of_nat [112, 114, 105, 111, 114, 105, 116, 121]"
definition ATTR_DEV_PRELOAD :: bytes where "ATTR_DEV_PRELOAD = map of_nat [112, 114, 101, 108, 111, 97, 100]"
definition ATTR_DEV_PERMISSION :: bytes where
  "ATTR_DEV_PERMISSION = map of_nat [112, 101, 114, 109, 105, 115, 115, 105, 111, 110]"
definition ATTR_DEV_MODULENAME :: bytes where
  "ATTR_DEV_MODULENAME = map of_nat [109, 111, 100, 117, 108, 101, 78, 97, 109, 101]"
definition ATTR_DEV_SVCNAME :: bytes where
  "ATTR_DEV_SVCNAME = map of_nat [115, 101, 114, 118, 105, 99, 101, 78, 97, 109, 101]"
definition ATTR_DEV_MATCHATTR :: bytes where
  "ATTR_DEV_MATCHATTR = map of_nat [100, 101, 118, 105, 99, 101, 77, 97, 116, 99, 104, 65, 116, 116, 114]"
definition MANAGER_NODE_MATCH_ATTR :: bytes where
  "MANAGER_NODE_MATCH_ATTR = map of_nat [104, 100, 102, 95, 109, 97, 110, 97, 103, 101, 114]"

definition MAX_PRIORITY_NUM :: uint16_t where "MAX_PRIORITY_NUM = 200"

lemmas attr_names = ATTR_HOST_NAME_def ATTR_DEV_POLICY_def ATTR_DEV_PRIORITY_def ATTR_DEV_PRELOAD_def
  ATTR_DEV_PERMISSION_def ATTR_DEV_MODULENAME_def ATTR_DEV_SVCNAME_def ATTR_DEV_MATCHATTR_def
  MANAGER_NODE_MATCH_ATTR_def

text \<open>
  The two ways the file reads an attribute: a string without default, and a 16-bit number; the
  inner \<^const>\<open>None\<close> is a status other than success.
\<close>

definition cfg_string :: "bool \<Rightarrow> bytes \<Rightarrow> hcs_mem \<Rightarrow> nat \<Rightarrow> bytes \<Rightarrow> bytes option option" where
  "cfg_string al b m node name = do {
     r \<leftarrow> HcsGetString al b m (Some node) (Some name) True ();
     (case r of
        (HDF_SUCCESS, Some (InBlob p)) \<Rightarrow> map_option Some (ptr_str b p)
      | _ \<Rightarrow> Some None)
   }"

definition cfg_uint16 :: "bool \<Rightarrow> bytes \<Rightarrow> hcs_mem \<Rightarrow> nat \<Rightarrow> bytes \<Rightarrow> uint16_t option option" where
  "cfg_uint16 al b m node name = do {
     r \<leftarrow> HcsGetUint16 al b m (Some node) (Some name) True 0;
     (case r of (HDF_SUCCESS, Some v) \<Rightarrow> Some (Some v) | _ \<Rightarrow> Some None)
   }"

section \<open>The host list\<close>

record HdfHostInfo =
  hi_hostId :: uint16_t
  hi_priority :: uint16_t
  hi_hostName :: bytes

definition HdfHostListCompare :: "HdfHostInfo \<Rightarrow> HdfHostInfo \<Rightarrow> bool" where
  "HdfHostListCompare attrFirst attrSecond \<longleftrightarrow> hi_priority attrFirst \<le> hi_priority attrSecond"

definition GetHdfManagerNode :: "bool \<Rightarrow> bytes \<Rightarrow> hcs_mem \<Rightarrow> nat option \<Rightarrow> nat option option" where
  "GetHdfManagerNode al b m root = HcsGetNodeByMatchAttr al b m root root (Some MANAGER_NODE_MATCH_ATTR)"

text \<open>Name and priority of a host, or nothing when the host has to be skipped.\<close>

definition GetHostInfo ::
    "bool \<Rightarrow> bytes \<Rightarrow> hcs_mem \<Rightarrow> nat \<Rightarrow> HdfHostInfo \<Rightarrow> HdfHostInfo option option" where
  "GetHostInfo al b m hostNode hostInfo = do {
     name \<leftarrow> cfg_string al b m hostNode ATTR_HOST_NAME;
     (case name of None \<Rightarrow> Some None
      | Some nm \<Rightarrow>
          if nm = [] then Some None
          else do {
            readNum \<leftarrow> cfg_uint16 al b m hostNode ATTR_DEV_PRIORITY;
            (case readNum of None \<Rightarrow> Some None
             | Some q \<Rightarrow> if q > MAX_PRIORITY_NUM then Some None
                         else Some (Some (hostInfo\<lparr>hi_hostName := nm, hi_priority := q\<rparr>)))
          })
   }"

definition HdfHostInfoNewInstance :: "bool \<Rightarrow> HdfHostInfo option" where
  "HdfHostInfoNewInstance ok = (if ok then Some \<lparr>hi_hostId = 0, hi_priority = 0, hi_hostName = []\<rparr> else None)"

partial_function (option) HdfAttributeManagerGetHostList_loop ::
    "bool \<Rightarrow> bytes \<Rightarrow> hcs_mem \<Rightarrow> nat option \<Rightarrow> uint16_t \<Rightarrow> HdfHostInfo list \<Rightarrow> alloc_oracle
     \<Rightarrow> (bool \<times> HdfHostInfo list \<times> alloc_oracle) option" where
  "HdfAttributeManagerGetHostList_loop al b m hostNode hostId hostList env =
     (case hostNode of None \<Rightarrow> Some (True, hostList, env)
      | Some p \<Rightarrow>
         (case HdfHostInfoNewInstance (fst (osal_alloc env)) of
            None \<Rightarrow> Some (False, [], snd (osal_alloc env))
          | Some hostInfo \<Rightarrow> do {
              nd \<leftarrow> hm_nodes m p;
              r \<leftarrow> GetHostInfo al b m p hostInfo;
              (case r of
                 None \<Rightarrow> HdfAttributeManagerGetHostList_loop al b m (hn_sibling nd) hostId hostList
                           (snd (osal_alloc env))
               | Some info \<Rightarrow>
                   HdfAttributeManagerGetHostList_loop al b m (hn_sibling nd) (hostId + 1)
                     (sl_add_order HdfHostListCompare (info\<lparr>hi_hostId := hostId\<rparr>) hostList)
                     (snd (osal_alloc env)))
            }))"

definition HdfAttributeManagerGetHostList ::
    "bool \<Rightarrow> bytes \<Rightarrow> hcs_mem \<Rightarrow> nat option \<Rightarrow> alloc_oracle \<Rightarrow> (bool \<times> HdfHostInfo list \<times> alloc_oracle) option" where
  "HdfAttributeManagerGetHostList al b m root env = do {
     mgr \<leftarrow> GetHdfManagerNode al b m root;
     (case mgr of None \<Rightarrow> Some (False, [], env)
      | Some a \<Rightarrow> do {
          nd \<leftarrow> hm_nodes m a;
          HdfAttributeManagerGetHostList_loop al b m (hn_child nd) 0 [] env
        })
   }"

section \<open>The device list of a host\<close>

definition HdfDeviceListCompare :: "HdfDeviceInfo \<Rightarrow> HdfDeviceInfo \<Rightarrow> bool" where
  "HdfDeviceListCompare attrFirst attrSecond \<longleftrightarrow> di_priority attrFirst \<le> di_priority attrSecond"

partial_function (option) GetHostNode_loop ::
    "bool \<Rightarrow> bytes \<Rightarrow> hcs_mem \<Rightarrow> bytes \<Rightarrow> nat option \<Rightarrow> nat option option" where
  "GetHostNode_loop al b m inHostName hostNode =
     (case hostNode of None \<Rightarrow> Some None
      | Some p \<Rightarrow> do {
          nd \<leftarrow> hm_nodes m p;
          name \<leftarrow> cfg_string al b m p ATTR_HOST_NAME;
          if name = Some inHostName then Some hostNode
          else GetHostNode_loop al b m inHostName (hn_sibling nd)
        })"

definition GetHostNode ::
    "bool \<Rightarrow> bytes \<Rightarrow> hcs_mem \<Rightarrow> nat option \<Rightarrow> bytes option \<Rightarrow> nat option option" where
  "GetHostNode al b m root inHostName =
     (case inHostName of None \<Rightarrow> Some None
      | Some name \<Rightarrow> do {
          mgr \<leftarrow> GetHdfManagerNode al b m root;
          (case mgr of None \<Rightarrow> Some None
           | Some a \<Rightarrow> do {
               nd \<leftarrow> hm_nodes m a;
               GetHostNode_loop al b m name (hn_child nd)
             })
        })"

definition CheckDeviceInfo :: "HdfDeviceInfo \<Rightarrow> bool" where
  "CheckDeviceInfo info \<longleftrightarrow>
     \<not> di_policy info > 4 \<and> \<not> di_priority info > MAX_PRIORITY_NUM \<and>
     \<not> di_preload info > DEVICE_PRELOAD_DISABLE \<and> di_moduleName info \<noteq> Some []"

definition GetDeviceNodeInfo ::
    "bool \<Rightarrow> bytes \<Rightarrow> hcs_mem \<Rightarrow> nat \<Rightarrow> HdfDeviceInfo \<Rightarrow> HdfDeviceInfo option option" where
  "GetDeviceNodeInfo al b m deviceNode info = do {
     policy \<leftarrow> cfg_uint16 al b m deviceNode ATTR_DEV_POLICY;
     (case policy of None \<Rightarrow> Some None
      | Some pol \<Rightarrow> do {
     priority \<leftarrow> cfg_uint16 al b m deviceNode ATTR_DEV_PRIORITY;
     (case priority of None \<Rightarrow> Some None
      | Some pri \<Rightarrow> do {
     preload \<leftarrow> cfg_uint16 al b m deviceNode ATTR_DEV_PRELOAD;
     (case preload of None \<Rightarrow> Some None
      | Some pre \<Rightarrow> do {
     permission \<leftarrow> cfg_uint16 al b m deviceNode ATTR_DEV_PERMISSION;
     (case permission of None \<Rightarrow> Some None
      | Some per \<Rightarrow> do {
     moduleName \<leftarrow> cfg_string al b m deviceNode ATTR_DEV_MODULENAME;
     (case moduleName of None \<Rightarrow> Some None
      | Some mod' \<Rightarrow> do {
     svcName \<leftarrow> cfg_string al b m deviceNode ATTR_DEV_SVCNAME;
     (case svcName of None \<Rightarrow> Some None
      | Some svc \<Rightarrow> do {
     matchAttr \<leftarrow> cfg_string al b m deviceNode ATTR_DEV_MATCHATTR;
     (case matchAttr of None \<Rightarrow> Some None
      | Some mat \<Rightarrow>
          let info' = info\<lparr>di_policy := pol, di_priority := pri, di_preload := pre, di_permission := per,
                           di_moduleName := Some mod', di_svcName := Some svc, di_deviceMatchAttr := Some mat\<rparr>
          in Some (if CheckDeviceInfo info' then Some info' else None))
     })})})})})})}"

text \<open>
  The walk over the nodes of one device; a failed allocation gives up the whole list
  (\<^const>\<open>None\<close> inside).  The id is stored after the insertion in the code; the order of the
  two does not matter, as the comparison reads the priority only.
\<close>

partial_function (option) HdfAttributeManagerGetDeviceList_loop2 ::
    "bool \<Rightarrow> bytes \<Rightarrow> hcs_mem \<Rightarrow> uint16_t \<Rightarrow> uint16_t \<Rightarrow> nat option \<Rightarrow> HdfDeviceInfo list \<Rightarrow> alloc_oracle
     \<Rightarrow> (HdfDeviceInfo list option \<times> alloc_oracle) option" where
  "HdfAttributeManagerGetDeviceList_loop2 al b m hostId deviceIdx deviceNode deviceList env =
     (case deviceNode of None \<Rightarrow> Some (Some deviceList, env)
      | Some p \<Rightarrow>
         (case HdfDeviceInfoNewInstance (fst (osal_alloc env)) of
            None \<Rightarrow> Some (None, snd (osal_alloc env))
          | Some new \<Rightarrow> do {
              nd \<leftarrow> hm_nodes m p;
              r \<leftarrow> GetDeviceNodeInfo al b m p (new\<lparr>di_hostId := hostId\<rparr>);
              (case r of
                 None \<Rightarrow> HdfAttributeManagerGetDeviceList_loop2 al b m hostId deviceIdx (hn_sibling nd) deviceList
                           (snd (osal_alloc env))
               | Some info \<Rightarrow>
                   let deviceNnodeIdx = 0 in
                   HdfAttributeManagerGetDeviceList_loop2 al b m hostId deviceIdx (hn_sibling nd)
                     (sl_add_order HdfDeviceListCompare
                        (info\<lparr>di_deviceId := ucast (MK_DEVID hostId deviceIdx deviceNnodeIdx)\<rparr>) deviceList)
                     (snd (osal_alloc env)))
            }))"

partial_function (option) HdfAttributeManagerGetDeviceList_loop ::
    "bool \<Rightarrow> bytes \<Rightarrow> hcs_mem \<Rightarrow> uint16_t \<Rightarrow> uint16_t \<Rightarrow> nat option \<Rightarrow> HdfDeviceInfo list \<Rightarrow> alloc_oracle
     \<Rightarrow> (HdfDeviceInfo list option \<times> alloc_oracle) option" where
  "HdfAttributeManagerGetDeviceList_loop al b m hostId deviceIdx device deviceList env =
     (case device of None \<Rightarrow> Some (Some deviceList, env)
      | Some p \<Rightarrow> do {
          nd \<leftarrow> hm_nodes m p;
          r \<leftarrow> HdfAttributeManagerGetDeviceList_loop2 al b m hostId deviceIdx (hn_child nd) deviceList env;
          (case r of
             (None, env') \<Rightarrow> Some (None, env')
           | (Some deviceList', env') \<Rightarrow>
               HdfAttributeManagerGetDeviceList_loop al b m hostId (deviceIdx + 1) (hn_sibling nd) deviceList' env')
        })"

definition HdfAttributeManagerGetDeviceList ::
    "bool \<Rightarrow> bytes \<Rightarrow> hcs_mem \<Rightarrow> nat option \<Rightarrow> uint16_t \<Rightarrow> bytes option \<Rightarrow> alloc_oracle
     \<Rightarrow> (HdfDeviceInfo list option \<times> alloc_oracle) option" where
  "HdfAttributeManagerGetDeviceList al b m root hostId hostName env = do {
     hostNode \<leftarrow> GetHostNode al b m root hostName;
     (case hostNode of None \<Rightarrow> Some (None, env)
      | Some h \<Rightarrow>
          let (ok, env1) = osal_alloc env in
          if \<not> ok then Some (None, env1)
          else do {
            nd \<leftarrow> hm_nodes m h;
            r \<leftarrow> HdfAttributeManagerGetDeviceList_loop al b m hostId 0 (hn_child nd) [] env1;
            (case r of
               (None, env2) \<Rightarrow> Some (None, env2)
             | (Some deviceList, env2) \<Rightarrow> Some (if deviceList = [] then None else Some deviceList, env2))
          })
   }"

section \<open>The same lists from the source of the configuration\<close>

definition src_string :: "bytes \<Rightarrow> hcs_obj list \<Rightarrow> bytes option" where
  "src_string name items = (case lookup_term name items of Some (HString s) \<Rightarrow> Some s | _ \<Rightarrow> None)"

definition src_uint16 :: "bytes \<Rightarrow> hcs_obj list \<Rightarrow> uint16_t option" where
  "src_uint16 name items = Option.bind (lookup_term name items) value_u16"

text \<open>The child nodes of a node: the items of each.\<close>

fun src_children :: "hcs_obj list \<Rightarrow> hcs_obj list list" where
  "src_children [] = []"
| "src_children (HTerm n v # xs) = src_children xs"
| "src_children (HNode n items # xs) = items # src_children xs"

definition src_host :: "hcs_obj list \<Rightarrow> HdfHostInfo option" where
  "src_host items = do {
     nm \<leftarrow> src_string ATTR_HOST_NAME items;
     q \<leftarrow> src_uint16 ATTR_DEV_PRIORITY items;
     if nm = [] \<or> q > MAX_PRIORITY_NUM then None
     else Some \<lparr>hi_hostId = 0, hi_priority = q, hi_hostName = nm\<rparr>
   }"

text \<open>The accepted hosts, numbered in source order.\<close>

fun number_hosts :: "uint16_t \<Rightarrow> HdfHostInfo list \<Rightarrow> HdfHostInfo list" where
  "number_hosts i [] = []"
| "number_hosts i (h # hs) = h\<lparr>hi_hostId := i\<rparr> # number_hosts (i + 1) hs"

definition src_hosts :: "hcs_obj list \<Rightarrow> HdfHostInfo list" where
  "src_hosts items = number_hosts 0 (List.map_filter src_host (src_children items))"

definition src_device :: "hcs_obj list \<Rightarrow> HdfDeviceInfo option" where
  "src_device items = do {
     pol \<leftarrow> src_uint16 ATTR_DEV_POLICY items;
     pri \<leftarrow> src_uint16 ATTR_DEV_PRIORITY items;
     pre \<leftarrow> src_uint16 ATTR_DEV_PRELOAD items;
     per \<leftarrow> src_uint16 ATTR_DEV_PERMISSION items;
     mod' \<leftarrow> src_string ATTR_DEV_MODULENAME items;
     svc \<leftarrow> src_string ATTR_DEV_SVCNAME items;
     mat \<leftarrow> src_string ATTR_DEV_MATCHATTR items;
     if pol > 4 \<or> pri > MAX_PRIORITY_NUM \<or> pre > DEVICE_PRELOAD_DISABLE \<or> mod' = [] then None
     else Some (HdfDeviceInfoConstruct\<lparr>di_policy := pol, di_priority := pri, di_preload := pre, di_permission := per,
       di_moduleName := Some mod', di_svcName := Some svc, di_deviceMatchAttr := Some mat\<rparr>)
   }"

text \<open>
  The devices of a host, and of each device its accepted nodes; every node of a device gets the
  device's id, cut to 16 bits.
\<close>

definition src_device_nodes :: "uint16_t \<Rightarrow> nat \<Rightarrow> hcs_obj list \<Rightarrow> HdfDeviceInfo list" where
  "src_device_nodes hostId i items =
     map (\<lambda>info. info\<lparr>di_hostId := hostId, di_deviceId := ucast (MK_DEVID hostId (of_nat i) 0)\<rparr>)
       (List.map_filter src_device (src_children items))"

fun src_devices :: "uint16_t \<Rightarrow> nat \<Rightarrow> hcs_obj list list \<Rightarrow> HdfDeviceInfo list" where
  "src_devices hostId i [] = []"
| "src_devices hostId i (d # ds) = src_device_nodes hostId i d @ src_devices hostId (Suc i) ds"

section \<open>Ordered insertion\<close>

lemma insert_after_insort:
  fixes key :: "'a \<Rightarrow> 'k::linorder"
  assumes "xs \<noteq> []" "\<not> key x \<le> key (hd xs)" "sorted (map key xs)"
  shows "sl_insert_after (\<lambda>a b. key a \<le> key b) x xs = insort_key key x xs"
  using assms
proof (induction "\<lambda>a b. key a \<le> key b" x xs rule: sl_insert_after.induct)
  case (3 x y z zs)
  show ?case
  proof (cases "key x \<le> key z")
    case True
    with "3.prems" show ?thesis by (auto simp: not_le)
  next
    case False
    with "3.hyps" "3.prems" show ?thesis by (auto simp: not_le)
  qed
qed auto

lemma add_order_insort:
  fixes key :: "'a \<Rightarrow> 'k::linorder"
  assumes "sorted (map key xs)"
  shows "sl_add_order (\<lambda>a b. key a \<le> key b) x xs = insort_key key x xs"
proof (cases xs)
  case Nil
  then show ?thesis by (simp add: sl_add_order_def)
next
  case (Cons y ys)
  show ?thesis
  proof (cases "key x \<le> key y")
    case True
    with Cons show ?thesis by (simp add: sl_add_order_def)
  next
    case False
    with Cons assms insert_after_insort [of xs key x] show ?thesis by (simp add: sl_add_order_def)
  qed
qed

lemma add_order_all:
  fixes key :: "'a \<Rightarrow> 'k::linorder"
  shows "sorted (map key ys) \<Longrightarrow>
    fold (sl_add_order (\<lambda>a b. key a \<le> key b)) xs ys = foldr (insort_key key) (rev xs) ys"
  by (induction xs arbitrary: ys) (simp_all add: add_order_insort sorted_insort_key)

text \<open>
  Inserting one element after the other sorts by the key, and puts elements of one key in the
  reverse of the order in which they came.
\<close>

lemma add_order_sort:
  fixes key :: "'a \<Rightarrow> 'k::linorder"
  assumes "cmp = (\<lambda>a b. key a \<le> key b)"
  shows "fold (sl_add_order cmp) xs [] = sort_key key (rev xs)"
  using add_order_all [of key "[]" xs] by (simp add: assms sort_key_def)

lemma compare_keys:
  "HdfHostListCompare = (\<lambda>a b. hi_priority a \<le> hi_priority b)"
  "HdfDeviceListCompare = (\<lambda>a b. di_priority a \<le> di_priority b)"
  by (simp_all add: fun_eq_iff HdfHostListCompare_def HdfDeviceListCompare_def)

section \<open>Reading a compiled configuration\<close>

lemma attr_names_clean:
  "0 \<notin> set ATTR_HOST_NAME" "0 \<notin> set ATTR_DEV_POLICY" "0 \<notin> set ATTR_DEV_PRIORITY"
  "0 \<notin> set ATTR_DEV_PRELOAD" "0 \<notin> set ATTR_DEV_PERMISSION" "0 \<notin> set ATTR_DEV_MODULENAME"
  "0 \<notin> set ATTR_DEV_SVCNAME" "0 \<notin> set ATTR_DEV_MATCHATTR" "0 \<notin> set MANAGER_NODE_MATCH_ATTR"
  by (simp_all add: attr_names)

lemma cfg_string_loaded:
  assumes "hcs_loaded root al b m" "(a, pos, name, items) \<in> set (nodes_obj al 0 root 0)" "0 \<notin> set nm"
  shows "cfg_string al b m a nm = Some (src_string nm items)"
proof -
  obtain par where n: "node_in al 20 b m par pos name items a" using loaded_node_in [OF assms(1,2)] by auto
  from HcsGetString_node [OF n assms(3), of "()"] show ?thesis
    by (auto simp: cfg_string_def src_string_def split: option.splits hcs_value.splits)
qed

lemma cfg_uint16_loaded:
  assumes "hcs_loaded root al b m" "(a, pos, name, items) \<in> set (nodes_obj al 0 root 0)" "0 \<notin> set nm"
  shows "cfg_uint16 al b m a nm = Some (src_uint16 nm items)"
proof -
  obtain par where n: "node_in al 20 b m par pos name items a" using loaded_node_in [OF assms(1,2)] by auto
  from get_uint_node [OF swap_reads_u16 n assms(3), of 0] show ?thesis
    by (simp add: cfg_uint16_def HcsGetUint16_def src_uint16_def split: option.split)
qed

lemma GetHostInfo_loaded:
  assumes "hcs_loaded root al b m" "(a, pos, name, items) \<in> set (nodes_obj al 0 root 0)"
  shows "GetHostInfo al b m a \<lparr>hi_hostId = 0, hi_priority = 0, hi_hostName = []\<rparr> = Some (src_host items)"
  using cfg_string_loaded [OF assms] cfg_uint16_loaded [OF assms] attr_names_clean
  by (auto simp: GetHostInfo_def src_host_def split: option.splits)

lemma GetDeviceNodeInfo_loaded:
  assumes "hcs_loaded root al b m" "(a, pos, name, items) \<in> set (nodes_obj al 0 root 0)"
  shows "GetDeviceNodeInfo al b m a (HdfDeviceInfoConstruct\<lparr>di_hostId := h\<rparr>)
    = Some (map_option (\<lambda>info. info\<lparr>di_hostId := h\<rparr>) (src_device items))"
  using attr_names_clean
  by (cases "src_uint16 ATTR_DEV_POLICY items"; cases "src_uint16 ATTR_DEV_PRIORITY items";
      cases "src_uint16 ATTR_DEV_PRELOAD items"; cases "src_uint16 ATTR_DEV_PERMISSION items";
      cases "src_string ATTR_DEV_MODULENAME items"; cases "src_string ATTR_DEV_SVCNAME items";
      cases "src_string ATTR_DEV_MATCHATTR items")
    (simp_all add: GetDeviceNodeInfo_def src_device_def cfg_string_loaded [OF assms] cfg_uint16_loaded [OF assms]
      CheckDeviceInfo_def Let_def HdfDeviceInfoConstruct_def)

lemma child_nodes_src: "map (\<lambda>z. snd (snd (snd z))) (child_nodes al pos xs a) = src_children xs"
  by (induction al pos xs a rule: child_nodes.induct) (auto simp del: obj_size.simps)

lemma map_filter_Cons [simp]:
  "List.map_filter f (x # xs) = (case f x of None \<Rightarrow> List.map_filter f xs | Some y \<Rightarrow> y # List.map_filter f xs)"
  "List.map_filter f [] = []"
  by (simp_all add: List.map_filter_def split: option.split)

lemma host_loop_loaded:
  assumes l: "hcs_loaded root al b m"
  shows "sib_chain (hm_nodes m) ptr (map fst cs) \<Longrightarrow> set cs \<subseteq> set (nodes_obj al 0 root 0) \<Longrightarrow>
    HdfAttributeManagerGetHostList_loop al b m ptr hostId hosts [] =
      Some (True, fold (sl_add_order HdfHostListCompare)
        (number_hosts hostId (List.map_filter src_host (map (\<lambda>z. snd (snd (snd z))) cs))) hosts, [])"
proof (induction cs arbitrary: ptr hostId hosts)
  case Nil
  then show ?case by (simp add: HdfAttributeManagerGetHostList_loop.simps)
next
  case (Cons c cs)
  obtain a pos nm items where c: "c = (a, pos, nm, items)" by (metis prod_cases4)
  obtain nd where nd: "ptr = Some a" "hm_nodes m a = Some nd" "sib_chain (hm_nodes m) (hn_sibling nd) (map fst cs)"
    using Cons.prems(1) c by (auto split: option.splits)
  have "(a, pos, nm, items) \<in> set (nodes_obj al 0 root 0)" using Cons.prems(2) c by simp
  note gi = GetHostInfo_loaded [OF l this]
  have sub: "set cs \<subseteq> set (nodes_obj al 0 root 0)" using Cons.prems(2) by simp
  show ?case
    unfolding nd(1) by (subst HdfAttributeManagerGetHostList_loop.simps)
      (simp add: nd(2) gi c HdfHostInfoNewInstance_def Cons.IH [OF nd(3) sub] split: option.split)
qed

lemma device_nodes_loop_loaded:
  assumes l: "hcs_loaded root al b m"
  shows "sib_chain (hm_nodes m) ptr (map fst cs) \<Longrightarrow> set cs \<subseteq> set (nodes_obj al 0 root 0) \<Longrightarrow>
    HdfAttributeManagerGetDeviceList_loop2 al b m hostId deviceIdx ptr devs [] =
      Some (Some (fold (sl_add_order HdfDeviceListCompare)
        (map (\<lambda>info. info\<lparr>di_hostId := hostId, di_deviceId := ucast (MK_DEVID hostId deviceIdx 0)\<rparr>)
          (List.map_filter src_device (map (\<lambda>z. snd (snd (snd z))) cs))) devs), [])"
proof (induction cs arbitrary: ptr devs)
  case Nil
  then show ?case by (simp add: HdfAttributeManagerGetDeviceList_loop2.simps)
next
  case (Cons c cs)
  obtain a pos nm items where c: "c = (a, pos, nm, items)" by (metis prod_cases4)
  obtain nd where nd: "ptr = Some a" "hm_nodes m a = Some nd" "sib_chain (hm_nodes m) (hn_sibling nd) (map fst cs)"
    using Cons.prems(1) c by (auto split: option.splits)
  have "(a, pos, nm, items) \<in> set (nodes_obj al 0 root 0)" using Cons.prems(2) c by simp
  note gi = GetDeviceNodeInfo_loaded [OF l this]
  have sub: "set cs \<subseteq> set (nodes_obj al 0 root 0)" using Cons.prems(2) by simp
  show ?case
    unfolding nd(1) by (subst HdfAttributeManagerGetDeviceList_loop2.simps)
      (simp add: nd(2) gi c HdfDeviceInfoNewInstance_def Cons.IH [OF nd(3) sub] Let_def split: option.split)
qed

lemma device_loop_loaded:
  assumes l: "hcs_loaded root al b m"
  shows "sib_chain (hm_nodes m) ptr (map fst cs) \<Longrightarrow> set cs \<subseteq> set (nodes_obj al 0 root 0) \<Longrightarrow>
    HdfAttributeManagerGetDeviceList_loop al b m hostId (of_nat i) ptr devs [] =
      Some (Some (fold (sl_add_order HdfDeviceListCompare)
        (src_devices hostId i (map (\<lambda>z. snd (snd (snd z))) cs)) devs), [])"
proof (induction cs arbitrary: ptr devs i)
  case Nil
  then show ?case by (simp add: HdfAttributeManagerGetDeviceList_loop.simps)
next
  case (Cons c cs)
  obtain a pos nm items where c: "c = (a, pos, nm, items)" by (metis prod_cases4)
  obtain nd where nd: "ptr = Some a" "hm_nodes m a = Some nd" "sib_chain (hm_nodes m) (hn_sibling nd) (map fst cs)"
    using Cons.prems(1) c by (auto split: option.splits)
  have n: "(a, pos, nm, items) \<in> set (nodes_obj al 0 root 0)" using Cons.prems(2) c by simp
  have sub: "set cs \<subseteq> set (nodes_obj al 0 root 0)" using Cons.prems(2) by simp
  let ?kids = "child_nodes al (pos + int (node_header al nm)) items (a + 48)"
  have k: "sib_chain (hm_nodes m) (hn_child nd) (map fst ?kids)" "set ?kids \<subseteq> set (nodes_obj al 0 root 0)"
    using loaded_children [OF l n] nd(2) by auto
  show ?case
    unfolding nd(1) using Cons.IH [OF nd(3) sub, of "Suc i"]
    by (subst HdfAttributeManagerGetDeviceList_loop.simps)
      (simp add: nd(2) c device_nodes_loop_loaded [OF l k] child_nodes_src src_device_nodes_def add.commute)
qed

lemma GetHostNode_loop_loaded:
  assumes l: "hcs_loaded root al b m"
  shows "sib_chain (hm_nodes m) ptr (map fst cs) \<Longrightarrow> set cs \<subseteq> set (nodes_obj al 0 root 0) \<Longrightarrow>
    GetHostNode_loop al b m hname ptr =
      Some (map_option fst (List.find (\<lambda>z. src_string ATTR_HOST_NAME (snd (snd (snd z))) = Some hname) cs))"
proof (induction cs arbitrary: ptr)
  case Nil
  then show ?case by (simp add: GetHostNode_loop.simps)
next
  case (Cons c cs)
  obtain a pos nm items where c: "c = (a, pos, nm, items)" by (metis prod_cases4)
  obtain nd where nd: "ptr = Some a" "hm_nodes m a = Some nd" "sib_chain (hm_nodes m) (hn_sibling nd) (map fst cs)"
    using Cons.prems(1) c by (auto split: option.splits)
  have n: "(a, pos, nm, items) \<in> set (nodes_obj al 0 root 0)" using Cons.prems(2) c by simp
  have sub: "set cs \<subseteq> set (nodes_obj al 0 root 0)" using Cons.prems(2) by simp
  show ?case
    unfolding nd(1) by (subst GetHostNode_loop.simps)
      (simp add: nd(2) c cfg_string_loaded [OF l n attr_names_clean(1)] Cons.IH [OF nd(3) sub])
qed

text \<open>
  A compiled configuration whose manager node has the given items: it decompiles to \<open>m\<close>, its
  last byte is zero and its match attributes are strings, as the lookup of the manager needs.
\<close>

definition hdf_config :: "hcs_obj \<Rightarrow> bool \<Rightarrow> bytes \<Rightarrow> hcs_mem \<Rightarrow> hcs_obj list \<Rightarrow> bool" where
  "hdf_config root al b m items \<longleftrightarrow>
     hcs_loaded root al b m \<and> last b = 0
     \<and> (\<forall>(a, pos, name, its)\<in>set (nodes_obj al 0 root 0). match_attrs_strings its)
     \<and> map_option (\<lambda>z. snd (snd (snd z)))
         (List.find (\<lambda>(a, pos, name, its). has_match MANAGER_NODE_MATCH_ATTR its) (nodes_obj al 0 root 0)) = Some items"

lemma hdf_config_manager:
  assumes "hdf_config root al b m items"
  shows "\<exists>a nd cs. GetHdfManagerNode al b m (Some 0) = Some (Some a) \<and> hm_nodes m a = Some nd
    \<and> sib_chain (hm_nodes m) (hn_child nd) (map fst cs) \<and> set cs \<subseteq> set (nodes_obj al 0 root 0)
    \<and> map (\<lambda>z. snd (snd (snd z))) cs = src_children items"
proof -
  let ?P = "\<lambda>(a, pos, name, its). has_match MANAGER_NODE_MATCH_ATTR its"
  have l: "hcs_loaded root al b m" using assms by (simp add: hdf_config_def)
  obtain a pos name where f: "List.find ?P (nodes_obj al 0 root 0) = Some (a, pos, name, items)"
    using assms by (auto simp: hdf_config_def)
  have "HcsGetNodeByMatchAttr al b m (Some 0) None (Some MANAGER_NODE_MATCH_ATTR) = Some (Some a)"
    using match_attr_root_strings [OF l _ attr_names_clean(9)] assms f by (simp add: hdf_config_def)
  then have g: "GetHdfManagerNode al b m (Some 0) = Some (Some a)"
    by (simp add: GetHdfManagerNode_def HcsGetNodeByMatchAttr_def)
  have n: "(a, pos, name, items) \<in> set (nodes_obj al 0 root 0)" using List_find_mem [OF f] by simp
  show ?thesis
    using loaded_children [OF l n] g child_nodes_src [of al "pos + int (node_header al name)" items "a + 48"] by blast
qed

text \<open>
  The host list of a compiled configuration.  The hosts with a non-empty name and a priority of
  at most 200 are numbered in the order of the source, from 0, the others are left out; the
  list is sorted by priority, hosts of one priority in reverse source order.
\<close>

theorem host_list_of_config:
  assumes "hdf_config root al b m items"
  shows "HdfAttributeManagerGetHostList al b m (Some 0) [] =
    Some (True, sort_key hi_priority (rev (src_hosts items)), [])"
proof -
  have l: "hcs_loaded root al b m" using assms by (simp add: hdf_config_def)
  obtain a nd cs where c: "GetHdfManagerNode al b m (Some 0) = Some (Some a)" "hm_nodes m a = Some nd"
    "sib_chain (hm_nodes m) (hn_child nd) (map fst cs)" "set cs \<subseteq> set (nodes_obj al 0 root 0)"
    "map (\<lambda>z. snd (snd (snd z))) cs = src_children items"
    using hdf_config_manager [OF assms] by blast
  show ?thesis
    by (simp add: HdfAttributeManagerGetHostList_def c host_loop_loaded [OF l c(3,4)] src_hosts_def
      add_order_sort [OF compare_keys(1)])
qed

text \<open>
  C23: The device list of a host of a compiled configuration is that of the first host of the name:
  the device nodes with all attributes present and policy, priority, preload and module name in
  range, sorted by priority with equal priorities in reverse source order; a node's id is made
  of the host id and the index of its device, cut to 16 bits, the same for all nodes of a
  device.  Without any such node there is no list.
\<close>

theorem device_list_of_config:
  assumes "hdf_config root al b m items"
    and "List.find (\<lambda>h. src_string ATTR_HOST_NAME h = Some hname) (src_children items) = Some hitems"
  shows "HdfAttributeManagerGetDeviceList al b m (Some 0) hostId (Some hname) [] =
    (let devs = sort_key di_priority (rev (src_devices hostId 0 (src_children hitems)))
     in Some (if devs = [] then None else Some devs, []))"
proof -
  have l: "hcs_loaded root al b m" using assms by (simp add: hdf_config_def)
  obtain a nd cs where c: "GetHdfManagerNode al b m (Some 0) = Some (Some a)" "hm_nodes m a = Some nd"
    "sib_chain (hm_nodes m) (hn_child nd) (map fst cs)" "set cs \<subseteq> set (nodes_obj al 0 root 0)"
    "map (\<lambda>z. snd (snd (snd z))) cs = src_children items"
    using hdf_config_manager [OF assms(1)] by blast
  let ?Q = "\<lambda>z :: located_node. src_string ATTR_HOST_NAME (snd (snd (snd z))) = Some hname"
  have "map_option (\<lambda>z. snd (snd (snd z))) (List.find ?Q cs) = Some hitems"
    using assms(2) unfolding c(5) [symmetric] List_find_map by (simp add: comp_def)
  then obtain ha hpos hnm where h: "List.find ?Q cs = Some (ha, hpos, hnm, hitems)" by auto
  have hn: "(ha, hpos, hnm, hitems) \<in> set (nodes_obj al 0 root 0)"
    using List_find_mem [OF h] c(4) by auto
  let ?kids = "child_nodes al (hpos + int (node_header al hnm)) hitems (ha + 48)"
  obtain hnd where k: "hm_nodes m ha = Some hnd" "sib_chain (hm_nodes m) (hn_child hnd) (map fst ?kids)"
    "set ?kids \<subseteq> set (nodes_obj al 0 root 0)"
    using loaded_children [OF l hn] by auto
  have g: "GetHostNode al b m (Some 0) (Some hname) = Some (Some ha)"
    by (simp add: GetHostNode_def c(1,2) GetHostNode_loop_loaded [OF l c(3,4)] h)
  have "HdfAttributeManagerGetDeviceList_loop al b m hostId 0 (hn_child hnd) [] [] =
      Some (Some (sort_key di_priority (rev (src_devices hostId 0 (src_children hitems)))), [])"
    using device_loop_loaded [OF l k(2,3), of hostId 0 "[]"]
    by (simp add: child_nodes_src add_order_sort [OF compare_keys(2)])
  then show ?thesis
    by (simp add: HdfAttributeManagerGetDeviceList_def g k(1) Let_def del: sort_key_simps)
qed

section \<open>A small configuration\<close>

definition node_terms :: "uint16_t \<Rightarrow> uint8_t \<Rightarrow> hcs_obj list" where
  "node_terms prio name =
     [HTerm ATTR_DEV_POLICY (HByte 1), HTerm ATTR_DEV_PRIORITY (HWord prio), HTerm ATTR_DEV_PRELOAD (HByte 0),
      HTerm ATTR_DEV_PERMISSION (HWord 436), HTerm ATTR_DEV_MODULENAME (HString [name]),
      HTerm ATTR_DEV_SVCNAME (HString [name]), HTerm ATTR_DEV_MATCHATTR (HString [])]"

definition host_terms :: "hcs_obj list" where
  "host_terms =
     [HTerm ATTR_DEV_PRIORITY (HByte 100), HTerm ATTR_HOST_NAME (HString [104]),
      HNode [68] [HNode [65] (node_terms 20 65), HNode [66] (node_terms 10 66)]]"

definition manager_terms :: "hcs_obj list" where
  "manager_terms = [HTerm HCS_MATCH_ATTR (HString MANAGER_NODE_MATCH_ATTR), HNode [72] host_terms]"

definition hdf_sample :: hcs_obj where
  "hdf_sample = HNode HBC_ROOT_NAME [HNode [77] manager_terms]"

lemmas hdf_sample_defs = hdf_sample_def manager_terms_def host_terms_def node_terms_def attr_names
  HBC_ROOT_NAME_def HCS_MATCH_ATTR_def

lemma hdf_sample_config: "\<exists>b m. hdf_config hdf_sample False b m manager_terms"
proof -
  have ok: "hcs_blob_ok hdf_sample False"
    by (simp add: hdf_sample_defs hcs_blob_ok_def HBC_BLOB_MAX_LENGTH_def HcsAlign_def)
  from decompile_compiled [OF this, of 0 0] obtain m where
    d: "HcsDecompile True True True False (HcsBytecodeOutput False 0 0 hdf_sample) 20 = Some (Some (Some 0, m))" by blast
  have "last (HcsBytecodeOutput False 0 0 hdf_sample) = 0"
    by (simp add: hdf_sample_defs HcsBytecodeOutput_def HcsOutputWriteAlign_def HcsAlign_def)
  moreover have "\<forall>(a, pos, name, its)\<in>set (nodes_obj False 0 hdf_sample 0). match_attrs_strings its"
    by (simp add: hdf_sample_defs match_attrs_strings_def)
  moreover have "map_option (\<lambda>z. snd (snd (snd z)))
      (List.find (\<lambda>(a, pos, name, its). has_match MANAGER_NODE_MATCH_ATTR its) (nodes_obj False 0 hdf_sample 0))
      = Some manager_terms"
    by (simp add: hdf_sample_defs has_match_def)
  ultimately show ?thesis using ok d by (auto simp: hdf_config_def hcs_loaded_def)
qed

theorem host_list_of_config_witness:
  "\<exists>b m. HdfAttributeManagerGetHostList False b m (Some 0) [] =
     Some (True, [\<lparr>hi_hostId = 0, hi_priority = 100, hi_hostName = [104]\<rparr>], [])"
proof -
  obtain b m where c: "hdf_config hdf_sample False b m manager_terms" using hdf_sample_config by blast
  have "sort_key hi_priority (rev (src_hosts manager_terms)) = [\<lparr>hi_hostId = 0, hi_priority = 100, hi_hostName = [104]\<rparr>]"
    by (simp add: hdf_sample_defs src_hosts_def src_host_def src_string_def src_uint16_def lookup_term_def
      MAX_PRIORITY_NUM_def)
  with host_list_of_config [OF c] show ?thesis by auto
qed

theorem device_list_of_config_witness:
  "\<exists>b m i1 i2. HdfAttributeManagerGetDeviceList False b m (Some 0) 3 (Some [104]) [] = Some (Some [i1, i2], [])
     \<and> di_svcName i1 = Some [66] \<and> di_svcName i2 = Some [65] \<and> di_deviceId i1 = 0 \<and> di_deviceId i2 = 0"
proof -
  obtain b m where c: "hdf_config hdf_sample False b m manager_terms" using hdf_sample_config by blast
  have h: "List.find (\<lambda>h. src_string ATTR_HOST_NAME h = Some [104]) (src_children manager_terms) = Some host_terms"
    by (simp add: hdf_sample_defs src_string_def lookup_term_def)
  show ?thesis
    using device_list_of_config [OF c h, of 3]
    by (intro exI [of _ b] exI [of _ m])
      (simp add: hdf_sample_defs src_device_nodes_def src_device_def src_string_def src_uint16_def
        lookup_term_def MAX_PRIORITY_NUM_def MK_DEVID_def HdfDeviceInfoConstruct_def)
qed

end
