(* ===== verification/Hdf_DevMgr.thy ===== *)
theory Hdf_DevMgr
  imports Hdf_DevHost Hdf_Attribute
begin

text \<open>
  The device manager: \<^verbatim>\<open>core/manager/src/devmgr_service.c\<close> with its host clients
  (\<^verbatim>\<open>devhost_service_clnt.c\<close>) and the installer (\<^verbatim>\<open>hdf_driver_installer.c\<close>), the start-up of
  \<^verbatim>\<open>core/common/src/devmgr_service_start.c\<close>, and the run-time registration of devices
  (\<^verbatim>\<open>HdfDeviceListAdd\<close> and \<^verbatim>\<open>HdfDeviceListDel\<close> of \<^verbatim>\<open>hdf_attribute.c\<close>,
  \<^verbatim>\<open>HdfRegisterDevice\<close> of \<^verbatim>\<open>devsvc_manager_clnt.c\<close>).

  The manager's host clients live in \<open>fw_hosts\<close> of the shared state; the host services they
  point to are found by their host id in \<open>dg_services\<close>.  A device information is named by its
  place: the index of its host and its index in that host's list, both stable while the lists
  are walked, for adding a device changes only fields of the records.  Everything the manager
  is given from outside is the context: the driver entries and the registered drivers, the
  configuration queries, the private data of new nodes, and the quick-load flag.
\<close>

section \<open>State and context\<close>

record 'd driver_ctx =
  cx_entryOf :: "nat \<Rightarrow> 'd HdfDriverEntry"
  cx_drivers :: driver_list
  cx_propertyOf :: "bytes option \<Rightarrow> nat option"
  cx_priv :: 'd
  cx_hostList :: "(bool \<times> HdfHostInfo list) option"
  cx_deviceList :: "uint16_t \<Rightarrow> bytes \<Rightarrow> HdfDeviceInfo list option option"
  cx_quickLoad :: bool

record 'd devmgr =
  dg_fw :: fw
  dg_services :: "'d DevHostService list"

definition host_service :: "uint16_t \<Rightarrow> 'd devmgr \<Rightarrow> 'd DevHostService option" where
  "host_service hostId g = search_first (\<lambda>s. hs_hostId s = hostId) (dg_services g)"

definition put_service :: "'d DevHostService \<Rightarrow> 'd devmgr \<Rightarrow> 'd devmgr" where
  "put_service s g =
     g\<lparr>dg_services := upd_first (\<lambda>x. hs_hostId x = hs_hostId s) (\<lambda>_. s) (dg_services g)\<rparr>"

definition host_infos :: "'d devmgr \<Rightarrow> nat \<Rightarrow> HdfDeviceInfo list" where
  "host_infos g i = (case hc_deviceInfos (fw_hosts (dg_fw g) ! i) of None \<Rightarrow> [] | Some infos \<Rightarrow> infos)"

definition upd_infos :: "nat \<Rightarrow> (HdfDeviceInfo list \<Rightarrow> HdfDeviceInfo list) \<Rightarrow> 'd devmgr \<Rightarrow> 'd devmgr" where
  "upd_infos i f g =
     g\<lparr>dg_fw := (dg_fw g)\<lparr>fw_hosts := (fw_hosts (dg_fw g))
        [i := (fw_hosts (dg_fw g) ! i)\<lparr>hc_deviceInfos := map_option f (hc_deviceInfos (fw_hosts (dg_fw g) ! i))\<rparr>]\<rparr>\<rparr>"

text \<open>The virtual calls \<open>AddDevice\<close> and \<open>DelDevice\<close> on the service of a host.\<close>

definition call_AddDevice ::
    "'d driver_ctx \<Rightarrow> uint16_t \<Rightarrow> HdfDeviceInfo \<Rightarrow> 'd devmgr \<Rightarrow> (HDF_STATUS \<times> 'd devmgr) option" where
  "call_AddDevice cx hostId info g = do {
     s \<leftarrow> host_service hostId g;
     r \<leftarrow> DevHostServiceAddDevice (cx_entryOf cx) (cx_drivers cx) (cx_propertyOf cx) (cx_priv cx) s info (dg_fw g);
     (case r of (st, s', w) \<Rightarrow> Some (st, (put_service s' g)\<lparr>dg_fw := w\<rparr>))
   }"

definition call_DelDevice ::
    "'d driver_ctx \<Rightarrow> uint16_t \<Rightarrow> devid_t \<Rightarrow> 'd devmgr \<Rightarrow> (HDF_STATUS \<times> 'd devmgr) option" where
  "call_DelDevice cx hostId devid g = do {
     s \<leftarrow> host_service hostId g;
     r \<leftarrow> DevHostServiceDelDevice (cx_entryOf cx) s devid (dg_fw g);
     (case r of (st, s', w) \<Rightarrow> Some (st, (put_service s' g)\<lparr>dg_fw := w\<rparr>))
   }"

section \<open>Loading and unloading\<close>

definition DevmgrServiceActiveDevice ::
    "'d driver_ctx \<Rightarrow> nat \<Rightarrow> nat \<Rightarrow> bool \<Rightarrow> 'd devmgr \<Rightarrow> (HDF_STATUS \<times> 'd devmgr) option" where
  "DevmgrServiceActiveDevice cx i j isLoad g =
     (let hostClnt = fw_hosts (dg_fw g) ! i; deviceInfo = host_infos g i ! j;
          set_preload = (\<lambda>p. upd_infos i (\<lambda>infos. infos[j := (infos ! j)\<lparr>di_preload := p\<rparr>]))
      in if \<not> hc_hostService hostClnt then Some (HDF_FAILURE, g)
         else if isLoad \<and> di_preload deviceInfo \<noteq> DEVICE_PRELOAD_ENABLE then do {
           r \<leftarrow> call_AddDevice cx (hc_hostId hostClnt) deviceInfo g;
           (case r of (ret, g1) \<Rightarrow>
              Some (ret, if ret = HDF_SUCCESS then set_preload DEVICE_PRELOAD_ENABLE g1 else g1))
         }
         else if \<not> isLoad \<and> di_preload deviceInfo \<noteq> DEVICE_PRELOAD_DISABLE then do {
           r \<leftarrow> call_DelDevice cx (hc_hostId hostClnt) (ucast (di_deviceId deviceInfo)) g;
           Some (HDF_SUCCESS, set_preload DEVICE_PRELOAD_DISABLE (snd r))
         }
         else Some (HDF_FAILURE, g))"

text \<open>The places of all device informations, in the order the nested loops visit them.\<close>

definition info_slots :: "'d devmgr \<Rightarrow> (nat \<times> nat) list" where
  "info_slots g =
     concat (map (\<lambda>i. map (Pair i) [0..<length (host_infos g i)]) [0..<length (fw_hosts (dg_fw g))])"

text \<open>\<^verbatim>\<open>strcmp\<close> of the service name of each visited information, a fault when it is null.\<close>

fun find_svc :: "'d devmgr \<Rightarrow> bytes \<Rightarrow> (nat \<times> nat) list \<Rightarrow> (nat \<times> nat) option option" where
  "find_svc g name [] = Some None"
| "find_svc g name ((i, j) # slots) =
     (case di_svcName (host_infos g i ! j) of
        None \<Rightarrow> None
      | Some nm \<Rightarrow> if nm = name then Some (Some (i, j)) else find_svc g name slots)"

definition DevmgrServiceFindAndActiveDevice ::
    "'d driver_ctx \<Rightarrow> bytes option \<Rightarrow> bool \<Rightarrow> 'd devmgr \<Rightarrow> (HDF_STATUS \<times> 'd devmgr) option" where
  "DevmgrServiceFindAndActiveDevice cx svcName isLoad g =
     (case svcName of None \<Rightarrow> Some (HDF_ERR_INVALID_PARAM, g)
      | Some name \<Rightarrow> do {
          r \<leftarrow> find_svc g name (info_slots g);
          (case r of
             None \<Rightarrow> Some (HDF_FAILURE, g)
           | Some (i, j) \<Rightarrow> DevmgrServiceActiveDevice cx i j isLoad g)
        })"

definition DevmgrServiceLoadDevice ::
    "'d driver_ctx \<Rightarrow> bytes option \<Rightarrow> 'd devmgr \<Rightarrow> (HDF_STATUS \<times> 'd devmgr) option" where
  "DevmgrServiceLoadDevice cx svcName g = DevmgrServiceFindAndActiveDevice cx svcName True g"

definition DevmgrServiceUnLoadDevice ::
    "'d driver_ctx \<Rightarrow> bytes option \<Rightarrow> 'd devmgr \<Rightarrow> (HDF_STATUS \<times> 'd devmgr) option" where
  "DevmgrServiceUnLoadDevice cx svcName g = DevmgrServiceFindAndActiveDevice cx svcName False g"

fun DevmgrServiceLoadLeftDriver_loop ::
    "'d driver_ctx \<Rightarrow> (nat \<times> nat) list \<Rightarrow> 'd devmgr \<Rightarrow> 'd devmgr option" where
  "DevmgrServiceLoadLeftDriver_loop cx [] g = Some g"
| "DevmgrServiceLoadLeftDriver_loop cx ((i, j) # slots) g =
     (if di_preload (host_infos g i ! j) = DEVICE_PRELOAD_ENABLE_STEP2 then do {
        r \<leftarrow> DevmgrServiceActiveDevice cx i j True g;
        DevmgrServiceLoadLeftDriver_loop cx slots (snd r)
      }
      else DevmgrServiceLoadLeftDriver_loop cx slots g)"

definition DevmgrServiceLoadLeftDriver ::
    "'d driver_ctx \<Rightarrow> 'd devmgr \<Rightarrow> (HDF_STATUS \<times> 'd devmgr) option" where
  "DevmgrServiceLoadLeftDriver cx g =
     map_option (Pair HDF_SUCCESS) (DevmgrServiceLoadLeftDriver_loop cx (info_slots g) g)"

definition DeviceManagerStartStep2 :: "'d driver_ctx \<Rightarrow> 'd devmgr \<Rightarrow> (HDF_STATUS \<times> 'd devmgr) option" where
  "DeviceManagerStartStep2 cx g =
     (if \<not> cx_quickLoad cx then Some (HDF_SUCCESS, g) else DevmgrServiceLoadLeftDriver cx g)"

section \<open>Starting the hosts\<close>

fun DevHostServiceClntInstallDriver_loop ::
    "'d driver_ctx \<Rightarrow> nat \<Rightarrow> nat list \<Rightarrow> 'd devmgr \<Rightarrow> 'd devmgr option" where
  "DevHostServiceClntInstallDriver_loop cx i [] g = Some g"
| "DevHostServiceClntInstallDriver_loop cx i (j # js) g =
     (let info = host_infos g i ! j in
      if di_preload info = DEVICE_PRELOAD_DISABLE
         \<or> cx_quickLoad cx \<and> di_preload info = DEVICE_PRELOAD_ENABLE_STEP2
      then DevHostServiceClntInstallDriver_loop cx i js g
      else do {
        r \<leftarrow> call_AddDevice cx (hc_hostId (fw_hosts (dg_fw g) ! i)) info g;
        DevHostServiceClntInstallDriver_loop cx i js (snd r)
      })"

definition DevHostServiceClntInstallDriver ::
    "'d driver_ctx \<Rightarrow> nat \<Rightarrow> 'd devmgr \<Rightarrow> (HDF_STATUS \<times> 'd devmgr) option" where
  "DevHostServiceClntInstallDriver cx i g =
     (if \<not> hc_hostService (fw_hosts (dg_fw g) ! i) then Some (HDF_FAILURE, g)
      else map_option (Pair HDF_SUCCESS)
             (DevHostServiceClntInstallDriver_loop cx i [0..<length (host_infos g i)] g))"

fun index_first :: "('a \<Rightarrow> bool) \<Rightarrow> 'a list \<Rightarrow> nat option" where
  "index_first P [] = None"
| "index_first P (x # xs) = (if P x then Some 0 else map_option Suc (index_first P xs))"

text \<open>\<^verbatim>\<open>HdfSListCount\<close> is stored in 16 bits.\<close>

definition DevmgrServiceAttachDeviceHost ::
    "'d driver_ctx \<Rightarrow> uint16_t \<Rightarrow> bool \<Rightarrow> 'd devmgr \<Rightarrow> (HDF_STATUS \<times> 'd devmgr) option" where
  "DevmgrServiceAttachDeviceHost cx hostId hostService g =
     (case index_first (\<lambda>h. hc_hostId h = hostId) (fw_hosts (dg_fw g)) of
        None \<Rightarrow> Some (HDF_FAILURE, g)
      | Some i \<Rightarrow>
          if \<not> hostService then Some (HDF_FAILURE, g)
          else do {
            let h = fw_hosts (dg_fw g) ! i;
            infos \<leftarrow> cx_deviceList cx (hc_hostId h) (hc_hostName h);
            let h' = h\<lparr>hc_hostService := True, hc_deviceInfos := infos,
                       hc_devCount := (case infos of None \<Rightarrow> hc_devCount h | Some l \<Rightarrow> of_nat (length l))\<rparr>;
            let g1 = g\<lparr>dg_fw := (dg_fw g)\<lparr>fw_hosts := (fw_hosts (dg_fw g))[i := h']\<rparr>\<rparr>;
            (if infos = None then Some (HDF_SUCCESS, g1) else DevHostServiceClntInstallDriver cx i g1)
          })"

definition DevHostServiceNewInstance :: "uint16_t \<Rightarrow> bytes \<Rightarrow> 'd devmgr \<Rightarrow> bool \<times> 'd devmgr" where
  "DevHostServiceNewInstance hostId hostName g =
     (let (ok, w) = fw_ask (dg_fw g) in
      if ok then (True, g\<lparr>dg_fw := w,
          dg_services := \<lparr>hs_hostId = hostId, hs_hostName = hostName, hs_devices = [],
                          hs_observer = HdfServiceObserverConstruct\<rparr> # dg_services g\<rparr>)
      else (False, g\<lparr>dg_fw := w\<rparr>))"

fun DevHostServiceDestruct_loop ::
    "(nat \<Rightarrow> 'd HdfDriverEntry) \<Rightarrow> 'd HdfDevice list \<Rightarrow> fw \<Rightarrow> fw option" where
  "DevHostServiceDestruct_loop entryOf [] w = Some w"
| "DevHostServiceDestruct_loop entryOf (d # ds) w =
     (case HdfDeviceFreeInstance entryOf d w of
        None \<Rightarrow> None
      | Some w1 \<Rightarrow> DevHostServiceDestruct_loop entryOf ds w1)"

definition DevHostServiceFreeInstance :: "'d driver_ctx \<Rightarrow> uint16_t \<Rightarrow> 'd devmgr \<Rightarrow> 'd devmgr option" where
  "DevHostServiceFreeInstance cx hostId g = do {
     s \<leftarrow> host_service hostId g;
     w \<leftarrow> DevHostServiceDestruct_loop (cx_entryOf cx) (hs_devices s) (dg_fw g);
     Some (g\<lparr>dg_fw := w, dg_services := del_first (\<lambda>x. hs_hostId x = hostId) (dg_services g)\<rparr>)
   }"

definition DriverInstallerStartDeviceHost ::
    "'d driver_ctx \<Rightarrow> uint16_t \<Rightarrow> bytes \<Rightarrow> 'd devmgr \<Rightarrow> (HDF_STATUS \<times> 'd devmgr) option" where
  "DriverInstallerStartDeviceHost cx devHostId devHostName g =
     (case DevHostServiceNewInstance devHostId devHostName g of
        (False, g1) \<Rightarrow> Some (HDF_FAILURE, g1)
      | (True, g1) \<Rightarrow> do {
          r \<leftarrow> DevmgrServiceAttachDeviceHost cx devHostId True g1;
          (case r of (ret, g2) \<Rightarrow>
             if ret \<noteq> HDF_SUCCESS then map_option (Pair ret) (DevHostServiceFreeInstance cx devHostId g2)
             else Some (ret, g2))
        })"

definition DevHostServiceClntNewInstance :: "bool \<Rightarrow> uint16_t \<Rightarrow> bytes \<Rightarrow> DevHostServiceClnt option" where
  "DevHostServiceClntNewInstance ok hostId hostName =
     (if ok then Some \<lparr>hc_devices = [], hc_deviceInfos = None, hc_hostService = False, hc_devCount = 0,
                       hc_hostId = hostId, hc_hostPid = 0, hc_hostName = hostName\<rparr>
      else None)"

text \<open>
  One accepted host: its client goes to the end of the list, and is taken out again when the
  host cannot be started.  The client's hash map of devices is never used after its
  initialisation and has no counterpart.
\<close>

fun DevmgrServiceStartDeviceHosts_loop ::
    "'d driver_ctx \<Rightarrow> HdfHostInfo list \<Rightarrow> 'd devmgr \<Rightarrow> 'd devmgr option" where
  "DevmgrServiceStartDeviceHosts_loop cx [] g = Some g"
| "DevmgrServiceStartDeviceHosts_loop cx (hostAttr # rest) g =
     (let (ok, w) = fw_ask (dg_fw g) in
      case DevHostServiceClntNewInstance ok (hi_hostId hostAttr) (hi_hostName hostAttr) of
        None \<Rightarrow> DevmgrServiceStartDeviceHosts_loop cx rest (g\<lparr>dg_fw := w\<rparr>)
      | Some hostClnt \<Rightarrow>
          let n = length (fw_hosts w);
              g1 = g\<lparr>dg_fw := w\<lparr>fw_hosts := fw_hosts w @ [hostClnt]\<rparr>\<rparr>
          in (case DriverInstallerStartDeviceHost cx (hi_hostId hostAttr) (hi_hostName hostAttr) g1 of
                None \<Rightarrow> None
              | Some (ret, g2) \<Rightarrow>
                  let hs = fw_hosts (dg_fw g2);
                      g3 = g2\<lparr>dg_fw := (dg_fw g2)\<lparr>fw_hosts :=
                        (if ret = HDF_FAILURE then take n hs @ drop (Suc n) hs
                         else hs[n := (hs ! n)\<lparr>hc_hostPid := hdf_status_code ret\<rparr>])\<rparr>\<rparr>
                  in DevmgrServiceStartDeviceHosts_loop cx rest g3))"

definition DevmgrServiceStartDeviceHosts ::
    "'d driver_ctx \<Rightarrow> 'd devmgr \<Rightarrow> (HDF_STATUS \<times> 'd devmgr) option" where
  "DevmgrServiceStartDeviceHosts cx g = do {
     r \<leftarrow> cx_hostList cx;
     (case r of
        (False, _) \<Rightarrow> Some (HDF_SUCCESS, g)
      | (True, hosts) \<Rightarrow> map_option (Pair HDF_SUCCESS) (DevmgrServiceStartDeviceHosts_loop cx hosts g))
   }"

definition DevmgrServiceStartService :: "'d driver_ctx \<Rightarrow> 'd devmgr \<Rightarrow> (HDF_STATUS \<times> 'd devmgr) option" where
  "DevmgrServiceStartService cx g = DevmgrServiceStartDeviceHosts cx g"

section \<open>Power\<close>

text \<open>
  \<^verbatim>\<open>DLIST_FOR_EACH_ENTRY\<close> visits the clients in the order they were started, its reverse
  variant in the opposite order.  The trace collects the nodes that got the event.
\<close>

fun power_hosts ::
    "uint32_t \<Rightarrow> DevHostServiceClnt list \<Rightarrow> HDF_STATUS \<Rightarrow> 'd devmgr \<Rightarrow> (HDF_STATUS \<times> 'd devmgr \<times> nat list) option"
where
  "power_hosts powerState [] result g = Some (result, g, [])"
| "power_hosts powerState (h # hs) result g =
     (if \<not> hc_hostService h then power_hosts powerState hs result g
      else case host_service (hc_hostId h) g of
        None \<Rightarrow> None
      | Some s \<Rightarrow>
          (case DevHostServicePmNotify s powerState of
             (st, s', t) \<Rightarrow>
               (case power_hosts powerState hs (if st \<noteq> HDF_SUCCESS then HDF_FAILURE else result) (put_service s' g) of
                  None \<Rightarrow> None
                | Some (r, g', ts) \<Rightarrow> Some (r, g', t @ ts))))"

definition DevmgrServicePowerStateChange ::
    "uint32_t \<Rightarrow> 'd devmgr \<Rightarrow> (HDF_STATUS \<times> 'd devmgr \<times> nat list) option" where
  "DevmgrServicePowerStateChange powerState g =
     (if \<not> IsValidPowerState powerState then Some (HDF_ERR_INVALID_PARAM, g, [])
      else if IsPowerWakeState powerState then power_hosts powerState (fw_hosts (dg_fw g)) HDF_SUCCESS g
      else power_hosts powerState (rev (fw_hosts (dg_fw g))) HDF_SUCCESS g)"

section \<open>Registering devices at run time\<close>

text \<open>
  The copy of a template: everything but the service name comes from it, and the device id is
  the number of devices of the host.
\<close>

definition dynamic_info :: "HdfDeviceInfo \<Rightarrow> uint16_t \<Rightarrow> bytes \<Rightarrow> HdfDeviceInfo" where
  "dynamic_info t devCount serviceName =
     HdfDeviceInfoConstruct\<lparr>di_hostId := di_hostId t, di_deviceId := devCount, di_policy := di_policy t,
       di_priority := di_priority t, di_preload := DEVICE_PRELOAD_DISABLE, di_permission := di_permission t,
       di_deviceMatchAttr := di_deviceMatchAttr t, di_moduleName := di_moduleName t,
       di_svcName := Some serviceName\<rparr>"

definition set_devCount :: "nat \<Rightarrow> uint16_t \<Rightarrow> 'd devmgr \<Rightarrow> 'd devmgr" where
  "set_devCount i c g =
     g\<lparr>dg_fw := (dg_fw g)\<lparr>fw_hosts := (fw_hosts (dg_fw g))[i := (fw_hosts (dg_fw g) ! i)\<lparr>hc_devCount := c\<rparr>]\<rparr>\<rparr>"

text \<open>
  The \<^verbatim>\<open>break\<close> after a failed allocation of the name leaves the inner loop only, so the
  remaining hosts are tried.
\<close>

fun HdfDeviceListAdd_loop :: "bytes \<Rightarrow> bytes \<Rightarrow> nat list \<Rightarrow> 'd devmgr \<Rightarrow> bool \<times> 'd devmgr" where
  "HdfDeviceListAdd_loop moduleName serviceName [] g = (False, g)"
| "HdfDeviceListAdd_loop moduleName serviceName (i # is) g =
     (case index_first (\<lambda>info. di_moduleName info = Some moduleName) (host_infos g i) of
        None \<Rightarrow> HdfDeviceListAdd_loop moduleName serviceName is g
      | Some j \<Rightarrow>
          let g1 = upd_infos i (\<lambda>infos. infos[j := (infos ! j)\<lparr>di_isDynamic := True\<rparr>]) g;
              (ok, w) = fw_ask (dg_fw g1);
              g2 = g1\<lparr>dg_fw := w\<rparr>;
              c = hc_devCount (fw_hosts w ! i)
          in if \<not> ok then HdfDeviceListAdd_loop moduleName serviceName is g2
             else (True, set_devCount i (c + 1)
                           (upd_infos i ((#) (dynamic_info (host_infos g2 i ! j) c serviceName)) g2)))"

definition HdfDeviceListAdd :: "bytes option \<Rightarrow> bytes option \<Rightarrow> 'd devmgr \<Rightarrow> bool \<times> 'd devmgr" where
  "HdfDeviceListAdd moduleName serviceName g =
     (case (moduleName, serviceName) of
        (Some m, Some s) \<Rightarrow>
          (let (ok, w) = fw_ask (dg_fw g); g1 = g\<lparr>dg_fw := w\<rparr> in
           if \<not> ok then (False, g1)
           else HdfDeviceListAdd_loop m s [0..<length (fw_hosts w)] g1)
      | _ \<Rightarrow> (False, g))"

fun find_dev :: "'d devmgr \<Rightarrow> bytes \<Rightarrow> bytes \<Rightarrow> (nat \<times> nat) list \<Rightarrow> (nat \<times> nat) option option" where
  "find_dev g moduleName serviceName [] = Some None"
| "find_dev g moduleName serviceName ((i, j) # slots) =
     (case di_moduleName (host_infos g i ! j) of
        None \<Rightarrow> None
      | Some m \<Rightarrow>
          if m \<noteq> moduleName then find_dev g moduleName serviceName slots
          else (case di_svcName (host_infos g i ! j) of
                  None \<Rightarrow> None
                | Some s \<Rightarrow>
                    if s = serviceName then Some (Some (i, j))
                    else find_dev g moduleName serviceName slots))"

definition HdfDeviceListDel :: "bytes option \<Rightarrow> bytes option \<Rightarrow> 'd devmgr \<Rightarrow> 'd devmgr option" where
  "HdfDeviceListDel moduleName serviceName g =
     (case (moduleName, serviceName) of
        (Some m, Some s) \<Rightarrow>
          (case find_dev g m s (info_slots g) of
             None \<Rightarrow> None
           | Some None \<Rightarrow> Some g
           | Some (Some (i, j)) \<Rightarrow>
               Some (set_devCount i (hc_devCount (fw_hosts (dg_fw g) ! i) - 1)
                       (upd_infos i (\<lambda>infos. take j infos @ drop (Suc j) infos) g)))
      | _ \<Rightarrow> Some g)"

text \<open>The result is the device object found under the service name.\<close>

definition HdfRegisterDevice ::
    "'d driver_ctx \<Rightarrow> bytes option \<Rightarrow> bytes option \<Rightarrow> 'd devmgr \<Rightarrow> (nat option \<times> 'd devmgr) option" where
  "HdfRegisterDevice cx moduleName serviceName g =
     (case HdfDeviceListAdd moduleName serviceName g of
        (False, g1) \<Rightarrow> Some (None, g1)
      | (True, g1) \<Rightarrow>
          (case DevmgrServiceLoadDevice cx serviceName g1 of
             None \<Rightarrow> None
           | Some (ret, g2) \<Rightarrow>
               if ret \<noteq> HDF_SUCCESS then map_option (Pair None) (HdfDeviceListDel moduleName serviceName g2)
               else Some (DevSvcManagerClntGetDeviceObject (Some (fw_registry (dg_fw g2))) serviceName, g2)))"

definition HdfUnregisterDevice ::
    "'d driver_ctx \<Rightarrow> bytes option \<Rightarrow> bytes option \<Rightarrow> 'd devmgr \<Rightarrow> 'd devmgr option" where
  "HdfUnregisterDevice cx moduleName serviceName g =
     (case DevmgrServiceUnLoadDevice cx serviceName g of
        None \<Rightarrow> None
      | Some (_, g1) \<Rightarrow> HdfDeviceListDel moduleName serviceName g1)"

section \<open>The order of power events\<close>

lemma node_power_keeps: "powered [fst (node_power_change s n)] = powered [n]"
  using power_change_some
  by (auto simp: node_power_change_def powered_def split: option.splits prod.splits)

lemma power_nodes_keeps: "powered (fst (power_nodes s ns)) = powered ns"
proof (induction ns)
  case (Cons n ns)
  obtain n1 t1 where n: "node_power_change s n = (n1, t1)" by force
  obtain ns1 t2 where ns: "power_nodes s ns = (ns1, t2)" by force
  show ?case
    using Cons.IH n ns node_power_keeps [of s n] powered_append [of "[n1]" ns1] powered_append [of "[n]" ns]
    by simp
qed simp

lemma apply_keeps: "ApplyDevicesPowerState d s = (st, d', t) \<Longrightarrow> powered (hd_devNodes d') = powered (hd_devNodes d)"
  using power_nodes_keeps [of s "hd_devNodes d"] power_nodes_keeps [of s "rev (hd_devNodes d)"]
  by (auto simp: ApplyDevicesPowerState_def powered_rev split: if_splits prod.splits)

lemma power_devices_keeps:
  "power_devices s ret ds = (ret', ds', t)
     \<Longrightarrow> map (\<lambda>d. powered (hd_devNodes d)) ds' = map (\<lambda>d. powered (hd_devNodes d)) ds"
proof (induction ds arbitrary: ret ret' ds' t)
  case (Cons d ds)
  obtain st d1 t1 where a: "ApplyDevicesPowerState d s = (st, d1, t1)" by (metis prod_cases3)
  obtain r2 ds2 t2 where p: "power_devices s (if st \<noteq> HDF_SUCCESS then HDF_FAILURE else ret) ds = (r2, ds2, t2)"
    by (metis prod_cases3)
  show ?case using Cons.prems Cons.IH [OF p] apply_keeps [OF a] a p by auto
qed simp

lemma host_powered_map:
  "host_powered hs = concat (rev (map (\<lambda>d. powered (hd_devNodes d)) (hs_devices hs)))"
  by (simp add: host_powered_def powered_concat rev_map comp_def)

lemma map_rev_eq: "map f xs = map f (rev ys) \<Longrightarrow> map f (rev xs) = map f ys"
  by (metis rev_map rev_rev_ident)

lemma pm_notify_keeps:
  assumes "DevHostServicePmNotify hs s = (st, hs', t)"
  shows "host_powered hs' = host_powered hs \<and> hs_hostId hs' = hs_hostId hs"
proof -
  obtain r1 d1 t1 where p1: "power_devices s HDF_SUCCESS (rev (hs_devices hs)) = (r1, d1, t1)"
    by (metis prod_cases3)
  obtain r2 d2 t2 where p2: "power_devices s HDF_SUCCESS (hs_devices hs) = (r2, d2, t2)"
    by (metis prod_cases3)
  show ?thesis
    using assms map_rev_eq [OF power_devices_keeps [OF p1]] power_devices_keeps [OF p2]
    by (auto simp: DevHostServicePmNotify_def host_powered_map p1 p2 split: if_splits)
qed

text \<open>The nodes of the running hosts, in the order of their start.\<close>

definition client_powered :: "'d devmgr \<Rightarrow> DevHostServiceClnt \<Rightarrow> nat list" where
  "client_powered g h =
     (if hc_hostService h
      then (case host_service (hc_hostId h) g of None \<Rightarrow> [] | Some s \<Rightarrow> host_powered s) else [])"

lemma put_service_keeps:
  assumes "host_service i g = Some s" "hs_hostId s' = hs_hostId s" "host_powered s' = host_powered s"
  shows "client_powered (put_service s' g) h = client_powered g h"
    and "host_service j (put_service s' g) = None \<longleftrightarrow> host_service j g = None"
proof -
  have i: "hs_hostId s = i" using assms(1) search_first_Some by (fastforce simp: host_service_def)
  have *: "host_service j (put_service s' g) = (if j = i then Some s' else host_service j g)" for j
  proof (cases "j = i")
    case True
    then show ?thesis using assms(1,2) i
      by (simp add: host_service_def put_service_def search_upd_const)
  next
    case False
    then show ?thesis using assms(2) i
      by (auto simp: host_service_def put_service_def intro!: search_upd_first_other)
  qed
  show "client_powered (put_service s' g) h = client_powered g h"
    using assms by (auto simp: client_powered_def *)
  show "host_service j (put_service s' g) = None \<longleftrightarrow> host_service j g = None"
    using assms by (auto simp: *)
qed

lemma put_service_hosts [simp]: "fw_hosts (dg_fw (put_service s g)) = fw_hosts (dg_fw g)"
  by (simp add: put_service_def)

lemma power_hosts_trace:
  assumes "power_hosts s hs r g = Some (r', g', t)"
  shows "r' = r
    \<and> t = concat (map (\<lambda>h. if IsPowerWakeState s then client_powered g h else rev (client_powered g h)) hs)
    \<and> client_powered g' = client_powered g \<and> fw_hosts (dg_fw g') = fw_hosts (dg_fw g)"
  using assms
proof (induction hs arbitrary: r r' g g' t)
  case (Cons h hs)
  show ?case
  proof (cases "hc_hostService h")
    case False
    then show ?thesis using Cons by (simp add: client_powered_def)
  next
    case True
    with Cons.prems obtain sv where sv: "host_service (hc_hostId h) g = Some sv" by (auto split: option.splits)
    obtain st s' t1 where pm: "DevHostServicePmNotify sv s = (st, s', t1)" by (metis prod_cases3)
    have st: "st = HDF_SUCCESS" and t1: "t1 = (if IsPowerWakeState s then host_powered sv else rev (host_powered sv))"
      using pm_notify_trace [OF pm] by auto
    obtain g1 t2 where ph: "power_hosts s hs r (put_service s' g) = Some (r', g1, t2)"
      and eq: "g' = g1" "t = t1 @ t2"
      using Cons.prems True sv pm st by (auto split: option.splits)
    have keep: "client_powered (put_service s' g) = client_powered g"
      using put_service_keeps(1) [OF sv] pm_notify_keeps [OF pm] by auto
    show ?thesis
      using Cons.IH [OF ph] keep True sv t1 eq by (simp add: client_powered_def)
  qed
qed simp

lemma power_hosts_some:
  assumes "\<forall>h\<in>set hs. hc_hostService h \<longrightarrow> host_service (hc_hostId h) g \<noteq> None"
  shows "\<exists>r' g' t. power_hosts s hs r g = Some (r', g', t)
    \<and> (\<forall>i. host_service i g' = None \<longleftrightarrow> host_service i g = None)"
  using assms
proof (induction hs arbitrary: r g)
  case (Cons h hs)
  show ?case
  proof (cases "hc_hostService h")
    case False
    then show ?thesis using Cons by simp
  next
    case True
    with Cons.prems obtain sv where sv: "host_service (hc_hostId h) g = Some sv" by auto
    obtain st s' t1 where pm: "DevHostServicePmNotify sv s = (st, s', t1)" by (metis prod_cases3)
    have none: "host_service i (put_service s' g) = None \<longleftrightarrow> host_service i g = None" for i
      using put_service_keeps(2) [OF sv] pm_notify_keeps [OF pm] by auto
    have "\<forall>h\<in>set hs. hc_hostService h \<longrightarrow> host_service (hc_hostId h) (put_service s' g) \<noteq> None"
      using Cons.prems none by simp
    from Cons.IH [OF this, of "if st \<noteq> HDF_SUCCESS then HDF_FAILURE else r"]
    show ?thesis using True sv pm none by auto
  qed
qed simp

text \<open>Every client that is marked running has its service.\<close>

definition hosts_running :: "'d devmgr \<Rightarrow> bool" where
  "hosts_running g \<longleftrightarrow>
     (\<forall>h\<in>set (fw_hosts (dg_fw g)). hc_hostService h \<longrightarrow> host_service (hc_hostId h) g \<noteq> None)"

text \<open>
  C31: Power events reach the device nodes in opposite orders.  When every running host has its
  service, a valid suspend event followed by a valid wake event both succeed; the suspend event
  visits exactly the nodes with a power token, last host, last device and last node first, and
  the wake event visits the same nodes in exactly the reverse order.
\<close>

theorem power_resume_reverses_suspend:
  assumes run: "hosts_running g"
    and valid: "IsValidPowerState s1" "IsValidPowerState s2"
    and kind: "\<not> IsPowerWakeState s1" "IsPowerWakeState s2"
  shows "\<exists>g1 g2 t. DevmgrServicePowerStateChange s1 g = Some (HDF_SUCCESS, g1, rev t)
    \<and> DevmgrServicePowerStateChange s2 g1 = Some (HDF_SUCCESS, g2, t)
    \<and> t = concat (map (client_powered g) (fw_hosts (dg_fw g)))"
proof -
  let ?hs = "fw_hosts (dg_fw g)"
  have "\<forall>h\<in>set (rev ?hs). hc_hostService h \<longrightarrow> host_service (hc_hostId h) g \<noteq> None"
    using run by (simp add: hosts_running_def)
  from power_hosts_some [OF this, of s1 HDF_SUCCESS] obtain r1 g1 t1
    where p1: "power_hosts s1 (rev ?hs) HDF_SUCCESS g = Some (r1, g1, t1)"
      and n1: "\<forall>i. host_service i g1 = None \<longleftrightarrow> host_service i g = None" by blast
  note tr1 = power_hosts_trace [OF p1]
  have "\<forall>h\<in>set ?hs. hc_hostService h \<longrightarrow> host_service (hc_hostId h) g1 \<noteq> None"
    using run n1 by (simp add: hosts_running_def)
  from power_hosts_some [OF this, of s2 HDF_SUCCESS] obtain r2 g2 t2
    where p2: "power_hosts s2 ?hs HDF_SUCCESS g1 = Some (r2, g2, t2)" by blast
  note tr2 = power_hosts_trace [OF p2]
  have t: "t1 = rev t2" using tr1 tr2 kind by (simp add: rev_concat rev_map comp_def)
  have "DevmgrServicePowerStateChange s1 g = Some (HDF_SUCCESS, g1, rev t2)"
    using valid kind p1 tr1 t by (simp add: DevmgrServicePowerStateChange_def)
  moreover have "DevmgrServicePowerStateChange s2 g1 = Some (HDF_SUCCESS, g2, t2)"
    using valid kind p2 tr1 tr2 by (simp add: DevmgrServicePowerStateChange_def)
  moreover have "t2 = concat (map (client_powered g) ?hs)" using tr1 tr2 kind by simp
  ultimately show ?thesis by blast
qed

section \<open>What adding and deleting devices leaves alone\<close>

text \<open>
  Everything of a client but its token list, and of a device information but its status.
\<close>

definition host_sig :: "DevHostServiceClnt \<Rightarrow> bool \<times> uint16_t \<times> uint16_t \<times> HdfDeviceInfo list option" where
  "host_sig h = (hc_hostService h, hc_hostId h, hc_devCount h,
     map_option (map (\<lambda>i. i\<lparr>di_status := 0\<rparr>)) (hc_deviceInfos h))"

definition hosts_sig :: "fw \<Rightarrow> (bool \<times> uint16_t \<times> uint16_t \<times> HdfDeviceInfo list option) list" where
  "hosts_sig w = map host_sig (fw_hosts w)"

named_theorems hosts_frame

lemma hosts_sig_cong: "fw_hosts w1 = fw_hosts w \<Longrightarrow> hosts_sig w1 = hosts_sig w"
  by (simp add: hosts_sig_def)

lemma map_upd_first: "(\<And>x. f (u x) = f x) \<Longrightarrow> map f (upd_first P u xs) = map f xs"
  by (induction xs) auto

lemma hosts_sig_upd:
  "(\<And>h. host_sig (u h) = host_sig h) \<Longrightarrow> hosts_sig (w\<lparr>fw_hosts := upd_first P u hs\<rparr>) = map host_sig hs"
  by (simp add: hosts_sig_def map_upd_first)

lemma host_sig_status:
  "host_sig ((DevmgrServiceUpdateStatus h i s)\<lparr>hc_devices := ds\<rparr>) = host_sig h"
  by (cases "hc_deviceInfos h") (simp_all add: host_sig_def DevmgrServiceUpdateStatus_def map_upd_first)

lemma ask_frame [hosts_frame]: "fw_ask w = (b, w1) \<Longrightarrow> hosts_sig w1 = hosts_sig w"
  by (drule fw_ask_eqD) (simp add: hosts_sig_def)

lemma attach_frame [hosts_frame]:
  assumes "DevmgrServiceAttachDevice token w = Some (st, w1)"
  shows "hosts_sig w1 = hosts_sig w"
proof -
  obtain ok w0 where k: "fw_ask w = (ok, w0)" by force
  show ?thesis
    using assms k fw_ask_eqD [OF k]
    by (auto simp: DevmgrServiceAttachDevice_def bind_eq_Some_conv Let_def hosts_sig_upd host_sig_status
      hosts_sig_def map_upd_first split: option.splits if_splits)
qed

lemma detach_frame [hosts_frame]:
  assumes "DevmgrServiceDetachDevice devid w = Some (st, w1)"
  shows "hosts_sig w1 = hosts_sig w"
  using assms
  by (auto simp: DevmgrServiceDetachDevice_def bind_eq_Some_conv Let_def host_sig_status
      hosts_sig_def map_upd_first split: option.splits if_splits)

lemma publish_hosts:
  assumes "HdfDeviceNodePublishService n ob w = (st, n1, ob1, w1)"
  shows "fw_hosts w1 = fw_hosts w"
proof -
  have loc: "fw_hosts (snd (snd (HdfDeviceNodePublishLocalService n ob w))) = fw_hosts w" for n ob w
    by (auto simp: HdfDeviceNodePublishLocalService_def Let_def split: prod.split if_splits dest: fw_ask_eqD)
  have pub: "fw_hosts (snd (snd (HdfDeviceNodePublishPublicService n w))) = fw_hosts w" for n :: "'a HdfDeviceNode" and w
    by (auto simp: HdfDeviceNodePublishPublicService_def Let_def split: prod.split if_splits dest: fw_ask_eqD)
  have ext: "fw_hosts (snd (snd (DeviceNodeExtPublishService n w))) = fw_hosts w" for n :: "'a HdfDeviceNode" and w
  proof -
    obtain io w0 where a: "(if dn_policy n = SERVICE_POLICY_CAPACITY then fw_ask w else (dn_ioService n, w)) = (io, w0)"
      by force
    have "fw_hosts w0 = fw_hosts w" using a by (auto split: if_splits dest: fw_ask_eqD)
    then show ?thesis
      using pub [of "n\<lparr>dn_ioService := io\<rparr>" w0]
      unfolding DeviceNodeExtPublishService_def a Let_def by (auto split: prod.split)
  qed
  show ?thesis
  proof (cases "dn_policy n = SERVICE_POLICY_NONE \<or> dn_servName n = Some []")
    case True
    then show ?thesis using assms by (auto simp: HdfDeviceNodePublishService_def)
  next
    case False
    obtain st0 n0 w0 where e: "(if dn_policy n = SERVICE_POLICY_PUBLIC \<or> dn_policy n = SERVICE_POLICY_CAPACITY
           then DeviceNodeExtPublishService n w else (HDF_SUCCESS, n, w)) = (st0, n0, w0)"
      by (metis prod_cases3)
    have w0: "fw_hosts w0 = fw_hosts w" using e ext [of n w] by (auto split: if_splits)
    obtain st2 ob2 w2 where l: "HdfDeviceNodePublishLocalService n0 ob w0 = (st2, ob2, w2)" by (metis prod_cases3)
    show ?thesis
      using assms False w0 loc [of n0 ob w0] l
      unfolding HdfDeviceNodePublishService_def e Let_def by (auto split: if_splits)
  qed
qed

lemma launch_frame [hosts_frame]:
  assumes "HdfDeviceLaunchNode entryOf n ob w = Some (st, n1, ob1, w1)"
  shows "hosts_sig w1 = hosts_sig w"
proof (cases "map_option entryOf (dv_entry (dn_driver n))")
  case None
  then show ?thesis using assms by (simp add: HdfDeviceLaunchNode_def)
next
  case e: (Some entry)
  show ?thesis
  proof (cases "de_Init entry")
    case None
    then show ?thesis using assms e by (simp add: HdfDeviceLaunchNode_def)
  next
    case i: (Some initf)
    obtain st1 n1' w1' where b: "launch_bind entry (n\<lparr>dn_devStatus := DEVNODE_LAUNCHED\<rparr>) w = (st1, n1', w1')"
      by (metis prod_cases3)
    note bf = launch_bind_frame [OF b]
    obtain ret obj where r: "initf (dn_deviceObject n1') = (ret, obj)" by force
    obtain st3 n3 ob3 w3 where p: "HdfDeviceNodePublishService (n1'\<lparr>dn_deviceObject := obj\<rparr>) ob
        (fw_say (EvInit (dn_self n1')) w1') = (st3, n3, ob3, w3)" by (metis prod_cases4)
    have w3: "hosts_sig w3 = hosts_sig w" using publish_hosts [OF p] bf by (simp add: hosts_sig_def)
    have st1: "st1 \<noteq> HDF_SUCCESS \<Longrightarrow> w1 = w1'"
      using assms by (simp add: HdfDeviceLaunchNode_def e i b)
    have ret: "st1 = HDF_SUCCESS \<Longrightarrow> ret \<noteq> 0 \<Longrightarrow> w1 = fw_say (EvInit (dn_self n1')) w1'"
      using assms by (simp add: HdfDeviceLaunchNode_def e i b r)
    have st3: "st1 = HDF_SUCCESS \<Longrightarrow> ret = 0 \<Longrightarrow> st3 \<noteq> HDF_SUCCESS \<Longrightarrow> w1 = w3"
      using assms by (simp add: HdfDeviceLaunchNode_def e i b r p)
    have ok: "st1 = HDF_SUCCESS \<Longrightarrow> ret = 0 \<Longrightarrow> st3 = HDF_SUCCESS
        \<Longrightarrow> \<exists>st4. DevmgrServiceAttachDevice (dn_token n3) w3 = Some (st4, w1)"
      using assms by (auto simp: HdfDeviceLaunchNode_def e i b r p split: option.splits)
    show ?thesis
    proof (cases "st1 = HDF_SUCCESS \<and> ret = 0 \<and> st3 = HDF_SUCCESS")
      case True
      then show ?thesis using ok w3 attach_frame by metis
    next
      case False
      then show ?thesis using st1 ret st3 bf w3
        by (cases "st1 = HDF_SUCCESS"; cases "ret = 0") (simp_all add: hosts_sig_def)
    qed
  qed
qed

lemma release_frame [hosts_frame]:
  assumes "HdfDeviceReleaseNode entryOf n w = Some (n1, w1)"
  shows "hosts_sig w1 = hosts_sig w"
proof -
  obtain n0 w0 where e: "(case map_option entryOf (dv_entry (dn_driver n)) of
           None \<Rightarrow> (n, w)
         | Some entry \<Rightarrow>
             (case de_Release entry of
                None \<Rightarrow> (n, w)
              | Some f \<Rightarrow> (n\<lparr>dn_deviceObject := f (dn_deviceObject n)\<rparr>, fw_say (EvRelease (dn_self n)) w))) = (n0, w0)"
    by force
  have w0: "hosts_sig w0 = hosts_sig w" using e by (auto simp: hosts_sig_def split: option.splits)
  obtain n2 w2 where r: "HdfDeviceNodeRemoveService n0 w0 = (n2, w2)" by force
  have w2: "hosts_sig w2 = hosts_sig w0"
    using r by (auto simp: HdfDeviceNodeRemoveService_def hosts_sig_def split: if_splits)
  show ?thesis
    using assms w0 w2 r unfolding HdfDeviceReleaseNode_def e Let_def
    by (auto split: if_splits option.splits dest: detach_frame)
qed

lemma free_node_frame [hosts_frame]:
  assumes "HdfDeviceNodeFreeInstance entryOf n w = Some w1"
  shows "hosts_sig w1 = hosts_sig w"
proof -
  obtain n0 w0 where e: "DeviceNodeExtRemoveService n w = (n0, w0)" by force
  have w0: "hosts_sig w0 = hosts_sig w"
    using e by (auto simp: DeviceNodeExtRemoveService_def HdfDeviceNodeRemoveService_def hosts_sig_def
      split: if_splits)
  have tok: "hosts_sig (HdfDeviceTokenFreeInstance t v) = hosts_sig v" for t v
    by (simp add: HdfDeviceTokenFreeInstance_def hosts_sig_def split: option.split)
  show ?thesis
    using assms e w0
    by (auto simp: HdfDeviceNodeFreeInstance_def DeviceNodeExtDestruct_def HdfDeviceNodeDestruct_def tok
      split: DevNodeStatus.splits option.splits dest: release_frame)
qed

lemma free_nodes_frame: "HdfDeviceDestruct_loop entryOf ns w = Some w1 \<Longrightarrow> hosts_sig w1 = hosts_sig w"
  by (induction ns arbitrary: w) (auto split: option.splits dest: free_node_frame)

lemma free_device_frame [hosts_frame]:
  "DevHostServiceFreeDevice entryOf hs d w = Some (hs1, w1) \<Longrightarrow> hosts_sig w1 = hosts_sig w"
  by (auto simp: DevHostServiceFreeDevice_def HdfDeviceFreeInstance_def HdfDeviceDestruct_def
    split: option.splits dest: free_nodes_frame)

lemma query_frame [hosts_frame]:
  "DevHostServiceQueryOrAddDevice hs did w = (d, hs1, w1) \<Longrightarrow> hosts_sig w1 = hosts_sig w \<and> hs_hostId hs1 = hs_hostId hs"
  by (auto simp: DevHostServiceQueryOrAddDevice_def Let_def split: option.splits if_splits prod.splits
    dest: ask_frame)

lemma new_node_frame [hosts_frame]:
  assumes "HdfDeviceNodeNewInstance propertyOf d info driver w = Some (n, w1)"
  shows "hosts_sig w1 = hosts_sig w"
proof -
  obtain ok w0 where a: "fw_ask w = (ok, w0)" by force
  show ?thesis
  proof (cases ok)
    case False
    then show ?thesis using assms a ask_frame [OF a] by (simp add: HdfDeviceNodeNewInstance_def)
  next
    case True
    obtain token w2 where t: "HdfDeviceTokenNewInstance (w0\<lparr>fw_next := Suc (fw_next w0)\<rparr>) = (token, w2)" by force
    have w2: "fw_hosts w2 = fw_hosts w0"
      using t by (auto simp: HdfDeviceTokenNewInstance_def Let_def split: if_splits prod.splits dest: fw_ask_eqD)
    obtain b where b: "token = Some b" using assms a True t by (cases token) (simp_all add: HdfDeviceNodeNewInstance_def)
    define w3 where "w3 = w2\<lparr>fw_tokens := (fw_tokens w2)(b \<mapsto> \<lparr>tk_devid = ucast (di_deviceId info)\<rparr>)\<rparr>"
    obtain okn w4 where n: "(if di_svcName info = None then (False, w3) else fw_ask w3) = (okn, w4)" by force
    have w4: "fw_hosts w4 = fw_hosts w2" using n by (auto simp: w3_def split: if_splits dest: fw_ask_eqD)
    have "w1 = w4"
      using assms a True t b n
      unfolding HdfDeviceNodeNewInstance_def Let_def by (auto simp: w3_def split: if_splits)
    then show ?thesis using w2 w4 ask_frame [OF a] by (simp add: hosts_sig_def)
  qed
qed

lemma add_error_frames:
  "add_device_error entryOf ret hs d w = Some (st, hs1, w1)
     \<Longrightarrow> hosts_sig w1 = hosts_sig w \<and> hs_hostId hs1 = hs_hostId hs"
  by (auto simp: add_device_error_def DevHostServiceFreeDevice_def HdfDeviceFreeInstance_def HdfDeviceDestruct_def
    split: option.splits dest: free_nodes_frame)

lemma add_device_frame:
  assumes "DevHostServiceAddDevice entryOf drivers propertyOf d hs info w = Some (st, hs1, w1)"
  shows "hosts_sig w1 = hosts_sig w \<and> hs_hostId hs1 = hs_hostId hs"
proof -
  obtain device hsq wq where q: "DevHostServiceQueryOrAddDevice hs (ucast (DEVICEID (ucast (di_deviceId info)))) w
      = (device, hsq, wq)" by (metis prod_cases3)
  note qf = query_frame [OF q]
  note a = assms [unfolded DevHostServiceAddDevice_def Let_def q prod.case]
  show ?thesis
  proof (cases device)
    case None
    then show ?thesis using a qf by (auto dest!: add_error_frames)
  next
    case (Some dev)
    note a1 = a [unfolded Some option.case]
    show ?thesis
    proof (cases "HdfDriverLoaderGetDriver entryOf (di_moduleName info) drivers")
      case None
      then show ?thesis using a1 qf by (auto dest!: add_error_frames)
    next
      case drv: (Some driver)
      note a2 = a1 [unfolded drv option.case]
      obtain nn w2 where nn: "HdfDeviceNodeNewInstance propertyOf d info driver wq = Some (nn, w2)"
        using a2 by (auto split: option.splits)
      note nf = new_node_frame [OF nn]
      note a3 = a2 [unfolded nn option.case prod.case]
      show ?thesis
      proof (cases nn)
        case None
        then show ?thesis using a3 nf qf by (auto dest!: add_error_frames)
      next
        case n: (Some n)
        note a4 = a3 [unfolded n option.case]
        obtain ret dev' n1 ob1 w3 where att: "HdfDeviceAttach entryOf dev n (hs_observer hsq) w2
            = Some (ret, dev', n1, ob1, w3)" using a4 by (auto split: option.splits)
        have w3: "hosts_sig w3 = hosts_sig w2"
          using att by (auto simp: HdfDeviceAttach_def split: option.splits dest: launch_frame)
        note a5 = a4 [unfolded att option.case prod.case]
        show ?thesis
        proof (cases "ret = HDF_SUCCESS")
          case True
          then show ?thesis using a5 w3 nf qf by auto
        next
          case False
          obtain w4 where w4: "HdfDeviceNodeFreeInstance entryOf n1 w3 = Some w4"
            using a5 False by (auto split: option.splits)
          show ?thesis
            using a5 False w4 w3 nf qf free_node_frame [OF w4] by (auto dest!: add_error_frames)
        qed
      qed
    qed
  qed
qed

lemma del_device_frame:
  assumes "DevHostServiceDelDevice entryOf hs devid w = Some (st, hs1, w1)"
  shows "hosts_sig w1 = hosts_sig w \<and> hs_hostId hs1 = hs_hostId hs"
proof (cases "DevHostServiceFindDevice hs (ucast (DEVICEID devid))")
  case None
  then show ?thesis using assms by (simp add: DevHostServiceDelDevice_def)
next
  case dev: (Some device)
  show ?thesis
  proof (cases "HdfDeviceGetDeviceNode device devid")
    case None
    then show ?thesis using assms dev by (simp add: DevHostServiceDelDevice_def)
  next
    case nd: (Some node)
    obtain st0 device' w0 where det: "HdfDeviceDetach entryOf device node w = Some (st0, device', w0)"
      using assms dev nd by (auto simp: DevHostServiceDelDevice_def split: option.splits)
    have w0: "hosts_sig w0 = hosts_sig w"
      using det by (auto simp: HdfDeviceDetach_def Let_def split: if_splits option.splits dest: free_node_frame)
    note a = assms [unfolded DevHostServiceDelDevice_def dev nd det option.case prod.case Let_def]
    have host: "DevHostServiceFreeDevice entryOf h d v = Some (h1, v1) \<Longrightarrow> hs_hostId h1 = hs_hostId h"
      for h :: "'a DevHostService" and d v h1 v1
      by (auto simp: DevHostServiceFreeDevice_def split: option.splits)
    show ?thesis
      using a w0 by (auto split: if_splits option.splits dest: free_device_frame host)
  qed
qed

lemma call_frame:
  assumes "call_AddDevice cx i info g = Some (st, g1) \<or> call_DelDevice cx i devid g = Some (st, g1)"
  shows "hosts_sig (dg_fw g1) = hosts_sig (dg_fw g)"
  using assms
  by (auto simp: call_AddDevice_def call_DelDevice_def bind_eq_Some_conv put_service_def hosts_sig_def
      split: prod.splits dest!: add_device_frame del_device_frame)

section \<open>Loading on demand\<close>

text \<open>What the search for a service and the preload test see of the hosts.\<close>

definition same_infos :: "'d devmgr \<Rightarrow> 'd devmgr \<Rightarrow> bool" where
  "same_infos g g1 \<longleftrightarrow>
     length (fw_hosts (dg_fw g1)) = length (fw_hosts (dg_fw g))
     \<and> (\<forall>i<length (fw_hosts (dg_fw g)).
          hc_hostService (fw_hosts (dg_fw g1) ! i) = hc_hostService (fw_hosts (dg_fw g) ! i)
          \<and> map (\<lambda>x. x\<lparr>di_status := 0, di_preload := 0\<rparr>) (host_infos g1 i)
              = map (\<lambda>x. x\<lparr>di_status := 0, di_preload := 0\<rparr>) (host_infos g i))"

definition preload_at :: "'d devmgr \<Rightarrow> nat \<Rightarrow> nat \<Rightarrow> uint16_t" where
  "preload_at g i j = di_preload (host_infos g i ! j)"

lemma map_eq_nth:
  assumes "map f xs = map f ys" "j < length ys"
  shows "f (xs ! j) = f (ys ! j)"
proof -
  have "length xs = length ys" using assms(1) by (metis length_map)
  then show ?thesis using assms by (metis nth_map)
qed

lemma same_infos_refl [simp]: "same_infos g g"
  by (simp add: same_infos_def)

lemma same_infos_trans: "same_infos g g1 \<Longrightarrow> same_infos g1 g2 \<Longrightarrow> same_infos g g2"
  unfolding same_infos_def by metis

lemma sig_infos:
  assumes "hosts_sig (dg_fw g1) = hosts_sig (dg_fw g)"
  shows "same_infos g g1"
    and "i < length (fw_hosts (dg_fw g)) \<Longrightarrow> j < length (host_infos g i) \<Longrightarrow> preload_at g1 i j = preload_at g i j"
proof -
  have len: "length (fw_hosts (dg_fw g1)) = length (fw_hosts (dg_fw g))"
    using assms unfolding hosts_sig_def by (metis length_map)
  have eq: "host_sig (fw_hosts (dg_fw g1) ! i) = host_sig (fw_hosts (dg_fw g) ! i)" if "i < length (fw_hosts (dg_fw g))" for i
    using assms that len unfolding hosts_sig_def by (metis nth_map)
  have st: "map (\<lambda>x. x\<lparr>di_status := 0\<rparr>) (host_infos g1 i) = map (\<lambda>x. x\<lparr>di_status := 0\<rparr>) (host_infos g i)"
    if "i < length (fw_hosts (dg_fw g))" for i
    using eq [OF that] by (auto simp: host_sig_def host_infos_def split: option.splits)
  have both: "map (\<lambda>x. x\<lparr>di_status := 0, di_preload := 0\<rparr>) (host_infos g1 i)
      = map (\<lambda>x. x\<lparr>di_status := 0, di_preload := 0\<rparr>) (host_infos g i)" if "i < length (fw_hosts (dg_fw g))" for i
    using arg_cong [OF st [OF that], of "map (\<lambda>x. x\<lparr>di_preload := 0\<rparr>)"] by (simp add: comp_def)
  show "same_infos g g1" using len eq both by (simp add: same_infos_def host_sig_def)
  assume i: "i < length (fw_hosts (dg_fw g))" and j: "j < length (host_infos g i)"
  have "di_preload ((host_infos g1 i ! j)\<lparr>di_status := 0\<rparr>) = di_preload ((host_infos g i ! j)\<lparr>di_status := 0\<rparr>)"
    using map_eq_nth [OF st [OF i] j] by (rule arg_cong)
  then show "preload_at g1 i j = preload_at g i j" by (simp add: preload_at_def)
qed

lemma same_infos_at:
  assumes "same_infos g g1" "i < length (fw_hosts (dg_fw g))"
  shows "length (host_infos g1 i) = length (host_infos g i)"
    and "j < length (host_infos g i) \<Longrightarrow> di_svcName (host_infos g1 i ! j) = di_svcName (host_infos g i ! j)"
proof -
  have m: "map (\<lambda>x. x\<lparr>di_status := 0, di_preload := 0\<rparr>) (host_infos g1 i)
      = map (\<lambda>x. x\<lparr>di_status := 0, di_preload := 0\<rparr>) (host_infos g i)"
    using assms by (simp add: same_infos_def)
  then show len: "length (host_infos g1 i) = length (host_infos g i)" by (metis length_map)
  assume j: "j < length (host_infos g i)"
  have "di_svcName ((host_infos g1 i ! j)\<lparr>di_status := 0, di_preload := 0\<rparr>)
      = di_svcName ((host_infos g i ! j)\<lparr>di_status := 0, di_preload := 0\<rparr>)"
    using map_eq_nth [OF m j] by (rule arg_cong)
  then show "di_svcName (host_infos g1 i ! j) = di_svcName (host_infos g i ! j)" by simp
qed

lemma info_slots_set:
  "(i, j) \<in> set (info_slots g) \<longleftrightarrow> i < length (fw_hosts (dg_fw g)) \<and> j < length (host_infos g i)"
  by (auto simp: info_slots_def image_iff)

lemma info_slots_same: "same_infos g g1 \<Longrightarrow> info_slots g1 = info_slots g"
  unfolding info_slots_def
  by (intro arg_cong [where f = concat]) (auto simp: same_infos_def same_infos_at(1) intro!: map_cong)

lemma find_svc_same:
  assumes "same_infos g g1" "set slots \<subseteq> set (info_slots g)"
  shows "find_svc g1 name slots = find_svc g name slots"
  using assms(2)
proof (induction slots)
  case (Cons s slots)
  obtain i j where s: "s = (i, j)" by force
  then have "di_svcName (host_infos g1 i ! j) = di_svcName (host_infos g i ! j)"
    using Cons.prems same_infos_at(2) [OF assms(1)] by (auto simp: info_slots_set)
  then show ?case using Cons s by (simp split: option.split)
qed simp

lemma find_svc_mem: "find_svc g name slots = Some (Some (i, j)) \<Longrightarrow> (i, j) \<in> set slots"
proof (induction slots)
  case (Cons s slots)
  then show ?case by (cases s) (auto split: option.splits if_splits)
qed simp

text \<open>Changing the preload mode of one device.\<close>

lemma set_preload_infos:
  assumes "i < length (fw_hosts (dg_fw g))" "j < length (host_infos g i)" "k < length (fw_hosts (dg_fw g))"
  shows "host_infos (upd_infos i (\<lambda>infos. infos[j := (infos ! j)\<lparr>di_preload := p\<rparr>]) g) k
    = (if k = i then (host_infos g i)[j := (host_infos g i ! j)\<lparr>di_preload := p\<rparr>] else host_infos g k)"
  using assms by (auto simp: host_infos_def upd_infos_def split: option.splits)

lemma set_preload_same:
  assumes "i < length (fw_hosts (dg_fw g))" "j < length (host_infos g i)"
  shows "same_infos g (upd_infos i (\<lambda>infos. infos[j := (infos ! j)\<lparr>di_preload := p\<rparr>]) g)"
proof -
  let ?g = "upd_infos i (\<lambda>infos. infos[j := (infos ! j)\<lparr>di_preload := p\<rparr>]) g"
  have "map (\<lambda>x. x\<lparr>di_status := 0, di_preload := 0\<rparr>) (host_infos ?g k)
      = map (\<lambda>x. x\<lparr>di_status := 0, di_preload := 0\<rparr>) (host_infos g k)" if "k < length (fw_hosts (dg_fw g))" for k
    using set_preload_infos [OF assms that, of p] assms(2)
    by (auto simp: list_eq_iff_nth_eq nth_list_update)
  moreover have "hc_hostService (fw_hosts (dg_fw ?g) ! k) = hc_hostService (fw_hosts (dg_fw g) ! k)"
    if "k < length (fw_hosts (dg_fw g))" for k
    using that by (cases "k = i") (simp_all add: upd_infos_def)
  ultimately show ?thesis by (simp add: same_infos_def upd_infos_def)
qed

lemma active_device_same:
  assumes act: "DevmgrServiceActiveDevice cx i j isLoad g = Some (st, g1)"
    and ij: "i < length (fw_hosts (dg_fw g))" "j < length (host_infos g i)"
  shows "same_infos g g1
    \<and> (\<forall>k l. k < length (fw_hosts (dg_fw g)) \<longrightarrow> l < length (host_infos g k) \<longrightarrow>
         preload_at g1 k l = (if (k, l) = (i, j) \<and> st = HDF_SUCCESS
            then (if isLoad then DEVICE_PRELOAD_ENABLE else DEVICE_PRELOAD_DISABLE) else preload_at g k l))
    \<and> (st = HDF_SUCCESS \<longrightarrow> hc_hostService (fw_hosts (dg_fw g) ! i))"
proof -
  have upd: "same_infos g (upd_infos i (\<lambda>infos. infos[j := (infos ! j)\<lparr>di_preload := p\<rparr>]) g0)
      \<and> (\<forall>k l. k < length (fw_hosts (dg_fw g)) \<longrightarrow> l < length (host_infos g k) \<longrightarrow>
           preload_at (upd_infos i (\<lambda>infos. infos[j := (infos ! j)\<lparr>di_preload := p\<rparr>]) g0) k l
             = (if (k, l) = (i, j) then p else preload_at g k l))"
    if f: "hosts_sig (dg_fw g0) = hosts_sig (dg_fw g)" for g0 p
  proof -
    note si = sig_infos [OF f]
    have ij0: "i < length (fw_hosts (dg_fw g0))" "j < length (host_infos g0 i)"
      using ij si(1) same_infos_at(1) [OF si(1)] by (auto simp: same_infos_def)
    have len: "length (fw_hosts (dg_fw g0)) = length (fw_hosts (dg_fw g))"
      using si(1) by (simp add: same_infos_def)
    show ?thesis
      using same_infos_trans [OF si(1) set_preload_same [OF ij0]] set_preload_infos [OF ij0] si(2) ij0 len
        same_infos_at(1) [OF si(1)]
      by (auto simp: preload_at_def nth_list_update)
  qed
  show ?thesis
  proof (cases "hc_hostService (fw_hosts (dg_fw g) ! i)")
    case False
    then show ?thesis using act by (simp add: DevmgrServiceActiveDevice_def Let_def)
  next
    case run: True
    consider (add) "isLoad" "di_preload (host_infos g i ! j) \<noteq> DEVICE_PRELOAD_ENABLE"
      | (del) "\<not> isLoad" "di_preload (host_infos g i ! j) \<noteq> DEVICE_PRELOAD_DISABLE"
      | (no) "isLoad \<longrightarrow> di_preload (host_infos g i ! j) = DEVICE_PRELOAD_ENABLE"
             "\<not> isLoad \<longrightarrow> di_preload (host_infos g i ! j) = DEVICE_PRELOAD_DISABLE"
      by blast
    then show ?thesis
    proof cases
      case add
      obtain ret g0 where c: "call_AddDevice cx (hc_hostId (fw_hosts (dg_fw g) ! i)) (host_infos g i ! j) g = Some (ret, g0)"
        using act run add by (auto simp: DevmgrServiceActiveDevice_def Let_def bind_eq_Some_conv)
      have f: "hosts_sig (dg_fw g0) = hosts_sig (dg_fw g)" using c call_frame by blast
      have r: "st = ret" "g1 = (if ret = HDF_SUCCESS
          then upd_infos i (\<lambda>infos. infos[j := (infos ! j)\<lparr>di_preload := DEVICE_PRELOAD_ENABLE\<rparr>]) g0 else g0)"
        using act run add c by (auto simp: DevmgrServiceActiveDevice_def Let_def)
      show ?thesis
        using upd [OF f, of DEVICE_PRELOAD_ENABLE] sig_infos [OF f] r run add by auto
    next
      case del
      obtain ret g0 where c: "call_DelDevice cx (hc_hostId (fw_hosts (dg_fw g) ! i))
          (ucast (di_deviceId (host_infos g i ! j))) g = Some (ret, g0)"
        using act run del by (auto simp: DevmgrServiceActiveDevice_def Let_def bind_eq_Some_conv)
      have f: "hosts_sig (dg_fw g0) = hosts_sig (dg_fw g)" using c call_frame by blast
      have r: "st = HDF_SUCCESS"
        "g1 = upd_infos i (\<lambda>infos. infos[j := (infos ! j)\<lparr>di_preload := DEVICE_PRELOAD_DISABLE\<rparr>]) g0"
        using act run del c by (simp_all add: DevmgrServiceActiveDevice_def Let_def)
      show ?thesis using upd [OF f, of DEVICE_PRELOAD_DISABLE] r run del by auto
    next
      case no
      then show ?thesis using act run by (auto simp: DevmgrServiceActiveDevice_def Let_def)
    qed
  qed
qed

text \<open>
  C35: Loading a driver twice.  After a successful load of a service the device is marked as
  loaded, and asking for it again fails without running any driver code or changing anything,
  until an unload has been asked for: that one is not refused.
\<close>

theorem loaded_device_not_loaded_again:
  assumes ok: "DevmgrServiceLoadDevice cx (Some nm) g = Some (HDF_SUCCESS, g1)"
  shows "DevmgrServiceLoadDevice cx (Some nm) g1 = Some (HDF_FAILURE, g1)
    \<and> (\<forall>st g2. DevmgrServiceUnLoadDevice cx (Some nm) g1 = Some (st, g2) \<longrightarrow>
         st = HDF_SUCCESS \<and> DevmgrServiceUnLoadDevice cx (Some nm) g2 = Some (HDF_FAILURE, g2))"
proof -
  obtain i j where f: "find_svc g nm (info_slots g) = Some (Some (i, j))"
    and act: "DevmgrServiceActiveDevice cx i j True g = Some (HDF_SUCCESS, g1)"
    using ok by (auto simp: DevmgrServiceLoadDevice_def DevmgrServiceFindAndActiveDevice_def bind_eq_Some_conv
      split: option.splits)
  have ij: "i < length (fw_hosts (dg_fw g))" "j < length (host_infos g i)"
    using find_svc_mem [OF f] by (auto simp: info_slots_set)
  note a = active_device_same [OF act ij]
  have f1: "find_svc g1 nm (info_slots g1) = Some (Some (i, j))"
    using a f find_svc_same [of g g1 "info_slots g" nm] info_slots_same [of g g1] by simp
  have ij1: "i < length (fw_hosts (dg_fw g1))" "j < length (host_infos g1 i)"
    using find_svc_mem [OF f1] by (auto simp: info_slots_set)
  have run: "hc_hostService (fw_hosts (dg_fw g1) ! i)" using a ij by (auto simp: same_infos_def)
  have pre: "di_preload (host_infos g1 i ! j) = DEVICE_PRELOAD_ENABLE" using a ij by (simp add: preload_at_def)
  have "DevmgrServiceLoadDevice cx (Some nm) g1 = Some (HDF_FAILURE, g1)"
    using f1 run pre
    by (simp add: DevmgrServiceLoadDevice_def DevmgrServiceFindAndActiveDevice_def DevmgrServiceActiveDevice_def Let_def)
  moreover have "st = HDF_SUCCESS \<and> DevmgrServiceUnLoadDevice cx (Some nm) g2 = Some (HDF_FAILURE, g2)"
    if u: "DevmgrServiceUnLoadDevice cx (Some nm) g1 = Some (st, g2)" for st g2
  proof -
    have act2: "DevmgrServiceActiveDevice cx i j False g1 = Some (st, g2)"
      using u f1 by (simp add: DevmgrServiceUnLoadDevice_def DevmgrServiceFindAndActiveDevice_def)
    then have st: "st = HDF_SUCCESS"
      using run pre by (auto simp: DevmgrServiceActiveDevice_def Let_def bind_eq_Some_conv)
    note a2 = active_device_same [OF act2 ij1]
    have f2: "find_svc g2 nm (info_slots g2) = Some (Some (i, j))"
      using a2 f1 find_svc_same [of g1 g2 "info_slots g1" nm] info_slots_same [of g1 g2] by simp
    have "di_preload (host_infos g2 i ! j) = DEVICE_PRELOAD_DISABLE"
      using a2 ij1 st by (simp add: preload_at_def)
    then show ?thesis
      using f2 st
      by (simp add: DevmgrServiceUnLoadDevice_def DevmgrServiceFindAndActiveDevice_def
        DevmgrServiceActiveDevice_def Let_def)
  qed
  ultimately show ?thesis by blast
qed

definition demo_cx :: "unit driver_ctx" where
  "demo_cx =
     \<lparr>cx_entryOf = demo_entry, cx_drivers = demo_drivers, cx_propertyOf = (\<lambda>_. None), cx_priv = (),
      cx_hostList = Some (True, []), cx_deviceList = (\<lambda>_ _. Some None), cx_quickLoad = True\<rparr>"

definition demo_mgr :: "unit devmgr" where
  "demo_mgr =
     \<lparr>dg_fw = demo_fw\<lparr>fw_hosts := map (\<lambda>h. h\<lparr>hc_deviceInfos :=
          Some [(demo_info 256 65)\<lparr>di_preload := DEVICE_PRELOAD_ENABLE_STEP2\<rparr>]\<rparr>) demo_hosts\<rparr>,
      dg_services = [demo_host]\<rparr>"

lemma demo_load: "\<exists>g1. DevmgrServiceLoadDevice demo_cx (Some [65]) demo_mgr = Some (HDF_SUCCESS, g1)"
  by (simp add: demo_cx_def demo_mgr_def DevmgrServiceLoadDevice_def DevmgrServiceFindAndActiveDevice_def
    info_slots_def host_infos_def DevmgrServiceActiveDevice_def call_AddDevice_def host_service_def
    put_service_def upd_infos_def add_device_defs demo_defs)

theorem loaded_device_not_loaded_again_witness:
  "\<exists>g1. DevmgrServiceLoadDevice demo_cx (Some [65]) demo_mgr = Some (HDF_SUCCESS, g1)
     \<and> DevmgrServiceLoadDevice demo_cx (Some [65]) g1 = Some (HDF_FAILURE, g1)"
  using demo_load loaded_device_not_loaded_again [of demo_cx "[65]" demo_mgr] by blast

text \<open>The devices that are postponed, in the order of the lists, and one attempt at each place of a list.\<close>

definition postponed :: "'d devmgr \<Rightarrow> (nat \<times> nat) list" where
  "postponed g = filter (\<lambda>(i, j). preload_at g i j = DEVICE_PRELOAD_ENABLE_STEP2) (info_slots g)"

fun activate_all :: "'d driver_ctx \<Rightarrow> (nat \<times> nat) list \<Rightarrow> 'd devmgr \<Rightarrow> (HDF_STATUS list \<times> 'd devmgr) option" where
  "activate_all cx [] g = Some ([], g)"
| "activate_all cx ((i, j) # slots) g = do {
     (st, g) \<leftarrow> DevmgrServiceActiveDevice cx i j True g;
     (sts, g) \<leftarrow> activate_all cx slots g;
     Some (st # sts, g)
   }"

lemma distinct_info_slots: "distinct (info_slots g)"
proof -
  have "distinct (concat (map (\<lambda>i. map (Pair i) [0..<f i]) [0..<n]))" for f :: "nat \<Rightarrow> nat" and n
    by (induction n) (auto simp: distinct_map inj_on_def)
  then show ?thesis by (simp add: info_slots_def)
qed

lemma active_device_slots:
  assumes "DevmgrServiceActiveDevice cx i j True g = Some (st, g0)" "(i, j) \<in> set (info_slots g)"
  shows "same_infos g g0" "info_slots g0 = info_slots g"
    "(k, l) \<in> set (info_slots g) \<Longrightarrow> preload_at g0 k l =
       (if (k, l) = (i, j) \<and> st = HDF_SUCCESS then DEVICE_PRELOAD_ENABLE else preload_at g k l)"
  using active_device_same [OF assms(1)] assms(2) info_slots_same [of g g0] by (auto simp: info_slots_set)

lemma load_left_attempts:
  assumes "distinct slots" "set slots \<subseteq> set (info_slots g)"
  shows "DevmgrServiceLoadLeftDriver_loop cx slots g = map_option snd
    (activate_all cx (filter (\<lambda>(i, j). preload_at g i j = DEVICE_PRELOAD_ENABLE_STEP2) slots) g)"
  using assms
proof (induction slots arbitrary: g)
  case (Cons s slots)
  obtain i j where s: "s = (i, j)" by force
  show ?case
  proof (cases "preload_at g i j = DEVICE_PRELOAD_ENABLE_STEP2 \<and> DevmgrServiceActiveDevice cx i j True g \<noteq> None")
    case False
    then consider "preload_at g i j \<noteq> DEVICE_PRELOAD_ENABLE_STEP2" | "DevmgrServiceActiveDevice cx i j True g = None"
      by blast
    then show ?thesis using Cons s by cases (simp_all add: preload_at_def)
  next
    case True
    then obtain st g0 where act: "DevmgrServiceActiveDevice cx i j True g = Some (st, g0)" by auto
    have ij: "(i, j) \<in> set (info_slots g)" using Cons.prems s by simp
    note a = active_device_slots [OF act ij]
    have keep: "preload_at g0 k l = preload_at g k l" if "(k, l) \<in> set slots" for k l
      using a(3) [of k l] that Cons.prems s by auto
    have "filter (\<lambda>(i, j). preload_at g0 i j = DEVICE_PRELOAD_ENABLE_STEP2) slots =
        filter (\<lambda>(i, j). preload_at g i j = DEVICE_PRELOAD_ENABLE_STEP2) slots"
      by (rule filter_cong) (auto simp: keep)
    moreover have "distinct slots" "set slots \<subseteq> set (info_slots g0)" using Cons.prems a(2) by auto
    ultimately show ?thesis
      using Cons.IH [of g0] True act s
      by (cases "activate_all cx (filter (\<lambda>(i, j). preload_at g i j = DEVICE_PRELOAD_ENABLE_STEP2) slots) g0")
        (auto simp: preload_at_def)
  qed
qed simp

lemma attempts_modes:
  assumes "activate_all cx slots g = Some (sts, g1)" "distinct slots" "set slots \<subseteq> set (info_slots g)"
  shows "same_infos g g1 \<and> length sts = length slots
    \<and> (\<forall>((k, l), st)\<in>set (zip slots sts).
         preload_at g1 k l = (if st = HDF_SUCCESS then DEVICE_PRELOAD_ENABLE else preload_at g k l))
    \<and> (\<forall>(k, l)\<in>set (info_slots g) - set slots. preload_at g1 k l = preload_at g k l)"
  using assms
proof (induction slots arbitrary: g sts)
  case (Cons s slots)
  obtain i j where s: "s = (i, j)" by force
  obtain st g0 sts' where act: "DevmgrServiceActiveDevice cx i j True g = Some (st, g0)"
    and rest: "activate_all cx slots g0 = Some (sts', g1)" and sts: "sts = st # sts'"
    using Cons.prems(1) s by (auto simp: bind_eq_Some_conv)
  have ij: "(i, j) \<in> set (info_slots g)" using Cons.prems s by simp
  note a = active_device_slots [OF act ij]
  have d: "distinct slots" "(i, j) \<notin> set slots" "set slots \<subseteq> set (info_slots g)" using Cons.prems s by auto
  note ih = Cons.IH [OF rest d(1), unfolded a(2), OF d(3)]
  have other: "preload_at g1 k l = preload_at g0 k l" if "(k, l) \<in> set (info_slots g)" "(k, l) \<notin> set slots" for k l
    using ih that by blast
  have head: "preload_at g1 i j = (if st = HDF_SUCCESS then DEVICE_PRELOAD_ENABLE else preload_at g i j)"
    using other [OF ij d(2)] a(3) [OF ij] by simp
  have "preload_at g1 k l = (if st' = HDF_SUCCESS then DEVICE_PRELOAD_ENABLE else preload_at g k l)"
    if "((k, l), st') \<in> set (zip slots sts')" for k l st'
  proof -
    have "(k, l) \<in> set slots" using that by (rule set_zip_leftD)
    then have "preload_at g0 k l = preload_at g k l" using a(3) [of k l] d(2,3) by auto
    then show ?thesis using ih that by fastforce
  qed
  moreover have "\<forall>(k, l)\<in>set (info_slots g) - set (s # slots). preload_at g1 k l = preload_at g k l"
    using other a(3) s by (auto split: if_splits)
  moreover have "same_infos g g1" "length sts' = length slots" using ih same_infos_trans [OF a(1)] by blast+
  ultimately show ?case using head s sts by auto
qed simp

text \<open>
  C34: The second start step.  It never changes anything unless quick loading is on.  Then it makes
  exactly one attempt (\<^verbatim>\<open>DevmgrServiceActiveDevice\<close> for loading) for each device whose preload mode
  postpones it to this step, in the order of the hosts and their lists and whatever became of the
  attempts before, and none for any other device.  The mode of a postponed device is enabled when
  its attempt succeeded and postponed as before when it failed; the mode of every other device, the
  hosts and the device lists are the same afterwards, and the step reports success in every case.
\<close>

theorem start_step2_only_promotes_step2:
  assumes "DeviceManagerStartStep2 cx g = Some (ret, g1)"
  shows "ret = HDF_SUCCESS \<and> (if \<not> cx_quickLoad cx then g1 = g else
    \<exists>sts. activate_all cx (postponed g) g = Some (sts, g1) \<and> length sts = length (postponed g) \<and> same_infos g g1
      \<and> (\<forall>((k, l), st)\<in>set (zip (postponed g) sts).
           preload_at g1 k l = (if st = HDF_SUCCESS then DEVICE_PRELOAD_ENABLE else DEVICE_PRELOAD_ENABLE_STEP2))
      \<and> (\<forall>(k, l)\<in>set (info_slots g) - set (postponed g). preload_at g1 k l = preload_at g k l))"
proof (cases "cx_quickLoad cx")
  case True
  have p: "distinct (postponed g)" "set (postponed g) \<subseteq> set (info_slots g)"
    using distinct_info_slots [of g] by (auto simp: postponed_def)
  from True assms obtain sts where sts: "ret = HDF_SUCCESS" "activate_all cx (postponed g) g = Some (sts, g1)"
    using load_left_attempts [OF distinct_info_slots order_refl, of cx g]
    by (auto simp: DeviceManagerStartStep2_def DevmgrServiceLoadLeftDriver_def postponed_def)
  have old: "preload_at g k l = DEVICE_PRELOAD_ENABLE_STEP2" if "((k, l), st) \<in> set (zip (postponed g) sts)" for k l st
    using set_zip_leftD [OF that] by (simp add: postponed_def)
  show ?thesis using True sts attempts_modes [OF sts(2) p] old by fastforce
qed (use assms in \<open>auto simp: DeviceManagerStartStep2_def\<close>)

theorem start_step2_only_promotes_step2_witness:
  "\<exists>g1. DeviceManagerStartStep2 demo_cx demo_mgr = Some (HDF_SUCCESS, g1)
     \<and> preload_at g1 0 0 = DEVICE_PRELOAD_ENABLE \<and> same_infos demo_mgr g1
     \<and> map_option snd (activate_all demo_cx [(0, 0)] demo_mgr) = Some g1"
proof -
  have "\<exists>g1. DeviceManagerStartStep2 demo_cx demo_mgr = Some (HDF_SUCCESS, g1)
     \<and> preload_at g1 0 0 = DEVICE_PRELOAD_ENABLE"
    by (simp add: demo_cx_def demo_mgr_def DeviceManagerStartStep2_def DevmgrServiceLoadLeftDriver_def
      info_slots_def host_infos_def DevmgrServiceActiveDevice_def call_AddDevice_def host_service_def
      put_service_def upd_infos_def preload_at_def add_device_defs demo_defs)
  moreover have "postponed demo_mgr = [(0, 0)]"
    by (simp add: postponed_def info_slots_def preload_at_def host_infos_def demo_mgr_def demo_defs)
  moreover have "cx_quickLoad demo_cx" by (simp add: demo_cx_def)
  ultimately show ?thesis using start_step2_only_promotes_step2 [of demo_cx demo_mgr] by fastforce
qed

text \<open>Two hosts, one with two devices, whose nodes have power tokens.\<close>

definition demo_node :: "nat \<Rightarrow> unit HdfDeviceNode" where
  "demo_node a =
     \<lparr>dn_self = a,
      dn_powerToken = Some \<lparr>pt_body = \<lparr>pt_listener = None, pt_deviceObject = HdfDeviceObjectConstruct (),
                              pt_psmState = PSM_STATE_ACTIVE, pt_mode = 0\<rparr>,
                            pt_wakeRef = sref_zeroed\<rparr>,
      dn_deviceObject = HdfDeviceObjectConstruct (), dn_token = None,
      dn_driver = \<lparr>dv_self = 0, dv_entry = None\<rparr>, dn_servName = None, dn_devId = 0, dn_policy = 0,
      dn_permission = 0, dn_devStatus = DEVNODE_LAUNCHED, dn_servStatus = False, dn_ioService = False\<rparr>"

definition demo_power :: "unit devmgr" where
  "demo_power =
     \<lparr>dg_fw = demo_fw\<lparr>fw_hosts := map (\<lambda>i. (hd demo_hosts)\<lparr>hc_hostId := i\<rparr>) [0, 1]\<rparr>,
      dg_services =
        [demo_host\<lparr>hs_hostId := 1, hs_devices :=
           [\<lparr>hd_devNodes = [demo_node 3], hd_deviceId = 2, hd_hostId = 1\<rparr>,
            \<lparr>hd_devNodes = [demo_node 1, demo_node 2], hd_deviceId = 1, hd_hostId = 1\<rparr>]\<rparr>,
         demo_host\<lparr>hs_devices := [\<lparr>hd_devNodes = [demo_node 0], hd_deviceId = 1, hd_hostId = 0\<rparr>]\<rparr>]\<rparr>"

theorem power_resume_reverses_suspend_witness:
  "\<exists>g1 g2. DevmgrServicePowerStateChange POWER_STATE_SUSPEND demo_power = Some (HDF_SUCCESS, g1, [3, 2, 1, 0])
     \<and> DevmgrServicePowerStateChange POWER_STATE_RESUME g1 = Some (HDF_SUCCESS, g2, [0, 1, 2, 3])"
proof -
  have t: "concat (map (client_powered demo_power) (fw_hosts (dg_fw demo_power))) = [0, 1, 2, 3]"
    by (simp add: demo_power_def demo_defs client_powered_def host_service_def host_powered_def powered_def
      demo_node_def)
  have run: "hosts_running demo_power"
    by (simp add: hosts_running_def demo_power_def demo_defs host_service_def)
  have "IsValidPowerState POWER_STATE_SUSPEND" "IsValidPowerState POWER_STATE_RESUME"
    "\<not> IsPowerWakeState POWER_STATE_SUSPEND" "IsPowerWakeState POWER_STATE_RESUME"
    by (simp_all add: IsValidPowerState_def IsPowerWakeState_def)
  from power_resume_reverses_suspend [OF run this] show ?thesis unfolding t by simp
qed

section \<open>Dynamic devices\<close>

text \<open>
  Devices registered at run time can share an id.  The id of a new device is the number of
  devices of its host: after adding two devices, removing the first and adding a third, the
  last two have the same id, although the host's list names three different services.  The
  mark that tells that the service name was allocated goes to the information the new one was
  copied from; the newest entry does not carry it.
\<close>

theorem dynamic_devices_share_an_id:
  assumes host: "fw_hosts (dg_fw g) = [h]" "hc_deviceInfos h = Some [t]" "di_moduleName t = Some m"
      "di_svcName t = Some s0" "fw_env (dg_fw g) = []"
    and names: "distinct [s0, s1, s2, s3]"
  shows "\<exists>g3 i3 i2 i0. HdfDeviceListDel (Some m) (Some s1)
           (snd (HdfDeviceListAdd (Some m) (Some s2) (snd (HdfDeviceListAdd (Some m) (Some s1) g)))) = Some g3
    \<and> host_infos (snd (HdfDeviceListAdd (Some m) (Some s3) g3)) 0 = [i3, i2, i0]
    \<and> map di_svcName [i3, i2, i0] = [Some s3, Some s2, Some s0]
    \<and> di_deviceId i3 = di_deviceId i2
    \<and> map di_isDynamic [i3, i2, i0] = [False, True, True]"
  using names host
  by (auto simp: HdfDeviceListAdd_def HdfDeviceListDel_def fw_ask_def host_infos_def upd_infos_def
    set_devCount_def dynamic_info_def info_slots_def HdfDeviceInfoConstruct_def Let_def)

theorem dynamic_devices_share_an_id_witness:
  "\<exists>g3 i3 i2 i0. HdfDeviceListDel (Some [65]) (Some [1])
           (snd (HdfDeviceListAdd (Some [65]) (Some [2]) (snd (HdfDeviceListAdd (Some [65]) (Some [1]) demo_mgr)))) = Some g3
    \<and> host_infos (snd (HdfDeviceListAdd (Some [65]) (Some [3]) g3)) 0 = [i3, i2, i0]
    \<and> di_deviceId i3 = di_deviceId i2"
  using dynamic_devices_share_an_id [of demo_mgr "hd (fw_hosts (dg_fw demo_mgr))"
      "(demo_info 256 65)\<lparr>di_preload := DEVICE_PRELOAD_ENABLE_STEP2\<rparr>" "[65]" "[65]" "[1]" "[2]" "[3]"]
  by (fastforce simp: demo_mgr_def demo_defs)

end
