(* ===== verification/Hdmi_Common.thy ===== *)
theory Hdmi_Common
  imports Hdf_Prelude
begin

text \<open>
  The video modes of the HDMI stack, \<^verbatim>\<open>support/platform/src/hdmi/hdmi_common.c\<close>: the tables of
  CEA and VESA modes and of the 4K modes, the searches in them, and the conversions between deep
  colour and bit depth.  Enumerations are kept at their C representation, 32 bits.
\<close>

section \<open>Constants\<close>

type_synonym c_enum = "32 word"

abbreviation (input) HDMI_4K_VIC_3840X2160_30 :: c_enum where "HDMI_4K_VIC_3840X2160_30 \<equiv> 1"
abbreviation (input) HDMI_4K_VIC_3840X2160_25 :: c_enum where "HDMI_4K_VIC_3840X2160_25 \<equiv> 2"
abbreviation (input) HDMI_4K_VIC_3840X2160_24 :: c_enum where "HDMI_4K_VIC_3840X2160_24 \<equiv> 3"
abbreviation (input) HDMI_4K_VIC_4096X2160_24 :: c_enum where "HDMI_4K_VIC_4096X2160_24 \<equiv> 4"
abbreviation (input) HDMI_DEEP_COLOR_24BITS :: c_enum where "HDMI_DEEP_COLOR_24BITS \<equiv> 0"
abbreviation (input) HDMI_DEEP_COLOR_30BITS :: c_enum where "HDMI_DEEP_COLOR_30BITS \<equiv> 1"
abbreviation (input) HDMI_DEEP_COLOR_36BITS :: c_enum where "HDMI_DEEP_COLOR_36BITS \<equiv> 2"
abbreviation (input) HDMI_DEEP_COLOR_48BITS :: c_enum where "HDMI_DEEP_COLOR_48BITS \<equiv> 3"
abbreviation (input) HDMI_DEEP_COLOR_OFF :: c_enum where "HDMI_DEEP_COLOR_OFF \<equiv> 255"
abbreviation (input) HDMI_DEEP_COLOR_BUTT :: c_enum where "HDMI_DEEP_COLOR_BUTT \<equiv> 256"
abbreviation (input) HDMI_PICTURE_ASPECT_NO_DATA :: c_enum where "HDMI_PICTURE_ASPECT_NO_DATA \<equiv> 0"
abbreviation (input) HDMI_PICTURE_ASPECT_4_3 :: c_enum where "HDMI_PICTURE_ASPECT_4_3 \<equiv> 1"
abbreviation (input) HDMI_PICTURE_ASPECT_16_9 :: c_enum where "HDMI_PICTURE_ASPECT_16_9 \<equiv> 2"
abbreviation (input) HDMI_PICTURE_ASPECT_256_135 :: c_enum where "HDMI_PICTURE_ASPECT_256_135 \<equiv> 4"
abbreviation (input) HDMI_VIC_NONE :: c_enum where "HDMI_VIC_NONE \<equiv> 0"
abbreviation (input) HDMI_VIC_640X480P60_4_3 :: c_enum where "HDMI_VIC_640X480P60_4_3 \<equiv> 1"
abbreviation (input) HDMI_VIC_720X480P60_4_3 :: c_enum where "HDMI_VIC_720X480P60_4_3 \<equiv> 2"
abbreviation (input) HDMI_VIC_720X480P60_16_9 :: c_enum where "HDMI_VIC_720X480P60_16_9 \<equiv> 3"
abbreviation (input) HDMI_VIC_1280X720P60_16_9 :: c_enum where "HDMI_VIC_1280X720P60_16_9 \<equiv> 4"
abbreviation (input) HDMI_VIC_1920X1080I60_16_9 :: c_enum where "HDMI_VIC_1920X1080I60_16_9 \<equiv> 5"
abbreviation (input) HDMI_VIC_1440X480I60_4_3 :: c_enum where "HDMI_VIC_1440X480I60_4_3 \<equiv> 6"
abbreviation (input) HDMI_VIC_1440X480I60_16_9 :: c_enum where "HDMI_VIC_1440X480I60_16_9 \<equiv> 7"
abbreviation (input) HDMI_VIC_1440X240P60_4_3 :: c_enum where "HDMI_VIC_1440X240P60_4_3 \<equiv> 8"
abbreviation (input) HDMI_VIC_1440X240P60_16_9 :: c_enum where "HDMI_VIC_1440X240P60_16_9 \<equiv> 9"
abbreviation (input) HDMI_VIC_2880X480I60_4_3 :: c_enum where "HDMI_VIC_2880X480I60_4_3 \<equiv> 10"
abbreviation (input) HDMI_VIC_2880X480I60_16_9 :: c_enum where "HDMI_VIC_2880X480I60_16_9 \<equiv> 11"
abbreviation (input) HDMI_VIC_2880X240P60_4_3 :: c_enum where "HDMI_VIC_2880X240P60_4_3 \<equiv> 12"
abbreviation (input) HDMI_VIC_2880X240P60_16_9 :: c_enum where "HDMI_VIC_2880X240P60_16_9 \<equiv> 13"
abbreviation (input) HDMI_VIC_1440X480P60_4_3 :: c_enum where "HDMI_VIC_1440X480P60_4_3 \<equiv> 14"
abbreviation (input) HDMI_VIC_1440X480P60_16_9 :: c_enum where "HDMI_VIC_1440X480P60_16_9 \<equiv> 15"
abbreviation (input) HDMI_VIC_1920X1080P60_16_9 :: c_enum where "HDMI_VIC_1920X1080P60_16_9 \<equiv> 16"
abbreviation (input) HDMI_VIC_720X576P50_4_3 :: c_enum where "HDMI_VIC_720X576P50_4_3 \<equiv> 17"
abbreviation (input) HDMI_VIC_720X576P50_16_9 :: c_enum where "HDMI_VIC_720X576P50_16_9 \<equiv> 18"
abbreviation (input) HDMI_VIC_1280X720P50_16_9 :: c_enum where "HDMI_VIC_1280X720P50_16_9 \<equiv> 19"
abbreviation (input) HDMI_VIC_1920X1080I50_16_9 :: c_enum where "HDMI_VIC_1920X1080I50_16_9 \<equiv> 20"
abbreviation (input) HDMI_VIC_1440X576I50_4_3 :: c_enum where "HDMI_VIC_1440X576I50_4_3 \<equiv> 21"
abbreviation (input) HDMI_VIC_1440X576I50_16_9 :: c_enum where "HDMI_VIC_1440X576I50_16_9 \<equiv> 22"
abbreviation (input) HDMI_VIC_1440X576P50_4_3 :: c_enum where "HDMI_VIC_1440X576P50_4_3 \<equiv> 29"
abbreviation (input) HDMI_VIC_1440X576P50_16_9 :: c_enum where "HDMI_VIC_1440X576P50_16_9 \<equiv> 30"
abbreviation (input) HDMI_VIC_1920X1080P50_16_9 :: c_enum where "HDMI_VIC_1920X1080P50_16_9 \<equiv> 31"
abbreviation (input) HDMI_VIC_1920X1080P24_16_9 :: c_enum where "HDMI_VIC_1920X1080P24_16_9 \<equiv> 32"
abbreviation (input) HDMI_VIC_1920X1080P25_16_9 :: c_enum where "HDMI_VIC_1920X1080P25_16_9 \<equiv> 33"
abbreviation (input) HDMI_VIC_1920X1080P30_16_9 :: c_enum where "HDMI_VIC_1920X1080P30_16_9 \<equiv> 34"
abbreviation (input) HDMI_VIC_3840X2160P24_16_9 :: c_enum where "HDMI_VIC_3840X2160P24_16_9 \<equiv> 93"
abbreviation (input) HDMI_VIC_3840X2160P25_16_9 :: c_enum where "HDMI_VIC_3840X2160P25_16_9 \<equiv> 94"
abbreviation (input) HDMI_VIC_3840X2160P30_16_9 :: c_enum where "HDMI_VIC_3840X2160P30_16_9 \<equiv> 95"
abbreviation (input) HDMI_VIC_3840X2160P50_16_9 :: c_enum where "HDMI_VIC_3840X2160P50_16_9 \<equiv> 96"
abbreviation (input) HDMI_VIC_3840X2160P60_16_9 :: c_enum where "HDMI_VIC_3840X2160P60_16_9 \<equiv> 97"
abbreviation (input) HDMI_VIC_4096X2160P24_256_135 :: c_enum where "HDMI_VIC_4096X2160P24_256_135 \<equiv> 98"
abbreviation (input) HDMI_VIC_4096X2160P25_256_135 :: c_enum where "HDMI_VIC_4096X2160P25_256_135 \<equiv> 99"
abbreviation (input) HDMI_VIC_4096X2160P30_256_135 :: c_enum where "HDMI_VIC_4096X2160P30_256_135 \<equiv> 100"
abbreviation (input) HDMI_VIC_4096X2160P50_256_135 :: c_enum where "HDMI_VIC_4096X2160P50_256_135 \<equiv> 101"
abbreviation (input) HDMI_VIC_4096X2160P60_256_135 :: c_enum where "HDMI_VIC_4096X2160P60_256_135 \<equiv> 102"
abbreviation (input) HDMI_VIC_3840X2160P120_16_9 :: c_enum where "HDMI_VIC_3840X2160P120_16_9 \<equiv> 118"
abbreviation (input) HDMI_VIC_7680X4320P24_16_9 :: c_enum where "HDMI_VIC_7680X4320P24_16_9 \<equiv> 194"
abbreviation (input) HDMI_VIC_7680X4320P25_16_9 :: c_enum where "HDMI_VIC_7680X4320P25_16_9 \<equiv> 195"
abbreviation (input) HDMI_VIC_7680X4320P30_16_9 :: c_enum where "HDMI_VIC_7680X4320P30_16_9 \<equiv> 196"
abbreviation (input) HDMI_VIC_4096X2160P120_256_135 :: c_enum where "HDMI_VIC_4096X2160P120_256_135 \<equiv> 219"
abbreviation (input) HDMI_VIDEO_FORMAT_NULL :: c_enum where "HDMI_VIDEO_FORMAT_NULL \<equiv> 0"
abbreviation (input) HDMI_VIDEO_BIT_DEPTH_8 :: c_enum where "HDMI_VIDEO_BIT_DEPTH_8 \<equiv> 0"
abbreviation (input) HDMI_VIDEO_TIMING_NONE :: c_enum where "HDMI_VIDEO_TIMING_NONE \<equiv> 0"
abbreviation (input) HDMI_VIDEO_TIMING_640X480P60 :: c_enum where "HDMI_VIDEO_TIMING_640X480P60 \<equiv> 1"
abbreviation (input) HDMI_VIDEO_FORMAT_PROGRESSIVE :: c_enum where "HDMI_VIDEO_FORMAT_PROGRESSIVE \<equiv> 1"
abbreviation (input) HDMI_VIDEO_BIT_DEPTH_10 :: c_enum where "HDMI_VIDEO_BIT_DEPTH_10 \<equiv> 1"
abbreviation (input) HDMI_VIDEO_BIT_DEPTH_12 :: c_enum where "HDMI_VIDEO_BIT_DEPTH_12 \<equiv> 2"
abbreviation (input) HDMI_VIDEO_FORMA_INTERLACE :: c_enum where "HDMI_VIDEO_FORMA_INTERLACE \<equiv> 2"
abbreviation (input) HDMI_VIDEO_TIMING_720X480P60 :: c_enum where "HDMI_VIDEO_TIMING_720X480P60 \<equiv> 2"
abbreviation (input) HDMI_VIDEO_BIT_DEPTH_16 :: c_enum where "HDMI_VIDEO_BIT_DEPTH_16 \<equiv> 3"
abbreviation (input) HDMI_VIDEO_BIT_DEPTH_OFF :: c_enum where "HDMI_VIDEO_BIT_DEPTH_OFF \<equiv> 4"
abbreviation (input) HDMI_VIDEO_TIMING_720X576P50 :: c_enum where "HDMI_VIDEO_TIMING_720X576P50 \<equiv> 5"
abbreviation (input) HDMI_VIDEO_TIMING_1280X720P50 :: c_enum where "HDMI_VIDEO_TIMING_1280X720P50 \<equiv> 12"
abbreviation (input) HDMI_VIDEO_TIMING_1280X720P60 :: c_enum where "HDMI_VIDEO_TIMING_1280X720P60 \<equiv> 13"
abbreviation (input) HDMI_VIDEO_TIMING_1440X240P60 :: c_enum where "HDMI_VIDEO_TIMING_1440X240P60 \<equiv> 16"
abbreviation (input) HDMI_VIDEO_TIMING_1440X480I60 :: c_enum where "HDMI_VIDEO_TIMING_1440X480I60 \<equiv> 18"
abbreviation (input) HDMI_VIDEO_TIMING_1440X480P60 :: c_enum where "HDMI_VIDEO_TIMING_1440X480P60 \<equiv> 19"
abbreviation (input) HDMI_VIDEO_TIMING_1440X576I50 :: c_enum where "HDMI_VIDEO_TIMING_1440X576I50 \<equiv> 22"
abbreviation (input) HDMI_VIDEO_TIMING_1440X576P50 :: c_enum where "HDMI_VIDEO_TIMING_1440X576P50 \<equiv> 23"
abbreviation (input) HDMI_VIDEO_TIMING_2880X480I60 :: c_enum where "HDMI_VIDEO_TIMING_2880X480I60 \<equiv> 28"
abbreviation (input) HDMI_VIDEO_TIMING_2880X240I60 :: c_enum where "HDMI_VIDEO_TIMING_2880X240I60 \<equiv> 30"
abbreviation (input) HDMI_VIDEO_TIMING_1920X1080I60 :: c_enum where "HDMI_VIDEO_TIMING_1920X1080I60 \<equiv> 49"
abbreviation (input) HDMI_VIDEO_TIMING_1920X1080P60 :: c_enum where "HDMI_VIDEO_TIMING_1920X1080P60 \<equiv> 50"
abbreviation (input) HDMI_VIDEO_TIMING_1920X1080I50 :: c_enum where "HDMI_VIDEO_TIMING_1920X1080I50 \<equiv> 51"
abbreviation (input) HDMI_VIDEO_TIMING_1920X1080P50 :: c_enum where "HDMI_VIDEO_TIMING_1920X1080P50 \<equiv> 52"
abbreviation (input) HDMI_VIDEO_TIMING_1920X1080P24 :: c_enum where "HDMI_VIDEO_TIMING_1920X1080P24 \<equiv> 53"
abbreviation (input) HDMI_VIDEO_TIMING_1920X1080P25 :: c_enum where "HDMI_VIDEO_TIMING_1920X1080P25 \<equiv> 54"
abbreviation (input) HDMI_VIDEO_TIMING_1920X1080P30 :: c_enum where "HDMI_VIDEO_TIMING_1920X1080P30 \<equiv> 55"
abbreviation (input) HDMI_VIDEO_TIMING_3840X2160P24 :: c_enum where "HDMI_VIDEO_TIMING_3840X2160P24 \<equiv> 61"
abbreviation (input) HDMI_VIDEO_TIMING_3840X2160P25 :: c_enum where "HDMI_VIDEO_TIMING_3840X2160P25 \<equiv> 62"
abbreviation (input) HDMI_VIDEO_TIMING_3840X2160P30 :: c_enum where "HDMI_VIDEO_TIMING_3840X2160P30 \<equiv> 63"
abbreviation (input) HDMI_VIDEO_TIMING_3840X2160P50 :: c_enum where "HDMI_VIDEO_TIMING_3840X2160P50 \<equiv> 65"
abbreviation (input) HDMI_VIDEO_TIMING_3840X2160P60 :: c_enum where "HDMI_VIDEO_TIMING_3840X2160P60 \<equiv> 66"
abbreviation (input) HDMI_VIDEO_TIMING_3840X2160P120 :: c_enum where "HDMI_VIDEO_TIMING_3840X2160P120 \<equiv> 68"
abbreviation (input) HDMI_VIDEO_TIMING_4096X2160P24 :: c_enum where "HDMI_VIDEO_TIMING_4096X2160P24 \<equiv> 69"
abbreviation (input) HDMI_VIDEO_TIMING_4096X2160P25 :: c_enum where "HDMI_VIDEO_TIMING_4096X2160P25 \<equiv> 70"
abbreviation (input) HDMI_VIDEO_TIMING_4096X2160P30 :: c_enum where "HDMI_VIDEO_TIMING_4096X2160P30 \<equiv> 71"
abbreviation (input) HDMI_VIDEO_TIMING_4096X2160P50 :: c_enum where "HDMI_VIDEO_TIMING_4096X2160P50 \<equiv> 73"
abbreviation (input) HDMI_VIDEO_TIMING_4096X2160P60 :: c_enum where "HDMI_VIDEO_TIMING_4096X2160P60 \<equiv> 74"
abbreviation (input) HDMI_VIDEO_TIMING_4096X2160P120 :: c_enum where "HDMI_VIDEO_TIMING_4096X2160P120 \<equiv> 76"
abbreviation (input) HDMI_VIDEO_TIMING_7680X4320P24 :: c_enum where "HDMI_VIDEO_TIMING_7680X4320P24 \<equiv> 85"
abbreviation (input) HDMI_VIDEO_TIMING_7680X4320P25 :: c_enum where "HDMI_VIDEO_TIMING_7680X4320P25 \<equiv> 86"
abbreviation (input) HDMI_VIDEO_TIMING_7680X4320P30 :: c_enum where "HDMI_VIDEO_TIMING_7680X4320P30 \<equiv> 87"
abbreviation (input) HDMI_VIDEO_TIMING_VESA_DEFINE :: c_enum where "HDMI_VIDEO_TIMING_VESA_DEFINE \<equiv> 101"
abbreviation (input) HDMI_VIDEO_TIMING_VESA_800X600_60 :: c_enum where "HDMI_VIDEO_TIMING_VESA_800X600_60 \<equiv> 102"
abbreviation (input) HDMI_VIDEO_TIMING_VESA_848X480_60 :: c_enum where "HDMI_VIDEO_TIMING_VESA_848X480_60 \<equiv> 103"
abbreviation (input) HDMI_VIDEO_TIMING_VESA_1024X768_60 :: c_enum where "HDMI_VIDEO_TIMING_VESA_1024X768_60 \<equiv> 104"
abbreviation (input) HDMI_VIDEO_TIMING_VESA_1280X720_60 :: c_enum where "HDMI_VIDEO_TIMING_VESA_1280X720_60 \<equiv> 105"
abbreviation (input) HDMI_VIDEO_TIMING_VESA_1280X768_60 :: c_enum where "HDMI_VIDEO_TIMING_VESA_1280X768_60 \<equiv> 106"
abbreviation (input) HDMI_VIDEO_TIMING_VESA_1280X768_60_RB :: c_enum where "HDMI_VIDEO_TIMING_VESA_1280X768_60_RB \<equiv> 107"
abbreviation (input) HDMI_VIDEO_TIMING_VESA_1280X800_60 :: c_enum where "HDMI_VIDEO_TIMING_VESA_1280X800_60 \<equiv> 108"
abbreviation (input) HDMI_VIDEO_TIMING_VESA_1280X800_60_RB :: c_enum where "HDMI_VIDEO_TIMING_VESA_1280X800_60_RB \<equiv> 109"
abbreviation (input) HDMI_VIDEO_TIMING_VESA_1280X960_60 :: c_enum where "HDMI_VIDEO_TIMING_VESA_1280X960_60 \<equiv> 110"
abbreviation (input) HDMI_VIDEO_TIMING_VESA_1280X1024_60 :: c_enum where "HDMI_VIDEO_TIMING_VESA_1280X1024_60 \<equiv> 111"
abbreviation (input) HDMI_VIDEO_TIMING_VESA_1360X768_60 :: c_enum where "HDMI_VIDEO_TIMING_VESA_1360X768_60 \<equiv> 112"
abbreviation (input) HDMI_VIDEO_TIMING_VESA_1680X1050_60 :: c_enum where "HDMI_VIDEO_TIMING_VESA_1680X1050_60 \<equiv> 113"
abbreviation (input) HDMI_VIDEO_TIMING_VESA_1366X768_60 :: c_enum where "HDMI_VIDEO_TIMING_VESA_1366X768_60 \<equiv> 113"
abbreviation (input) HDMI_VIDEO_TIMING_VESA_1400X1050_60 :: c_enum where "HDMI_VIDEO_TIMING_VESA_1400X1050_60 \<equiv> 114"
abbreviation (input) HDMI_VIDEO_TIMING_VESA_1680X1050_60_RB :: c_enum where "HDMI_VIDEO_TIMING_VESA_1680X1050_60_RB \<equiv> 114"
abbreviation (input) HDMI_VIDEO_TIMING_VESA_1440X900_60 :: c_enum where "HDMI_VIDEO_TIMING_VESA_1440X900_60 \<equiv> 115"
abbreviation (input) HDMI_VIDEO_TIMING_VESA_1792X1344_60 :: c_enum where "HDMI_VIDEO_TIMING_VESA_1792X1344_60 \<equiv> 115"
abbreviation (input) HDMI_VIDEO_TIMING_VESA_1440X900_60_RB :: c_enum where "HDMI_VIDEO_TIMING_VESA_1440X900_60_RB \<equiv> 116"
abbreviation (input) HDMI_VIDEO_TIMING_VESA_1856X1392_60 :: c_enum where "HDMI_VIDEO_TIMING_VESA_1856X1392_60 \<equiv> 116"
abbreviation (input) HDMI_VIDEO_TIMING_VESA_1920X1080_60 :: c_enum where "HDMI_VIDEO_TIMING_VESA_1920X1080_60 \<equiv> 117"
abbreviation (input) HDMI_VIDEO_TIMING_VESA_1440X1050_60 :: c_enum where "HDMI_VIDEO_TIMING_VESA_1440X1050_60 \<equiv> 117"
abbreviation (input) HDMI_VIDEO_TIMING_VESA_1920X1200_60 :: c_enum where "HDMI_VIDEO_TIMING_VESA_1920X1200_60 \<equiv> 118"
abbreviation (input) HDMI_VIDEO_TIMING_VESA_1440X1050_60_RB :: c_enum where "HDMI_VIDEO_TIMING_VESA_1440X1050_60_RB \<equiv> 118"
abbreviation (input) HDMI_VIDEO_TIMING_VESA_1600X900_60_RB :: c_enum where "HDMI_VIDEO_TIMING_VESA_1600X900_60_RB \<equiv> 119"
abbreviation (input) HDMI_VIDEO_TIMING_VESA_1920X1200_60_RB :: c_enum where "HDMI_VIDEO_TIMING_VESA_1920X1200_60_RB \<equiv> 119"
abbreviation (input) HDMI_VIDEO_TIMING_VESA_1600X1200_60 :: c_enum where "HDMI_VIDEO_TIMING_VESA_1600X1200_60 \<equiv> 120"
abbreviation (input) HDMI_VIDEO_TIMING_VESA_1920X1440_60 :: c_enum where "HDMI_VIDEO_TIMING_VESA_1920X1440_60 \<equiv> 120"
abbreviation (input) HDMI_VIDEO_TIMING_VESA_2048X1152_60 :: c_enum where "HDMI_VIDEO_TIMING_VESA_2048X1152_60 \<equiv> 121"
abbreviation (input) HDMI_VIDEO_TIMING_VESA_2560X1440_60_RB :: c_enum where "HDMI_VIDEO_TIMING_VESA_2560X1440_60_RB \<equiv> 122"
abbreviation (input) HDMI_VIDEO_TIMING_VESA_2560X1600_60 :: c_enum where "HDMI_VIDEO_TIMING_VESA_2560X1600_60 \<equiv> 123"
abbreviation (input) HDMI_VIDEO_TIMING_USER_DEFINE :: c_enum where "HDMI_VIDEO_TIMING_USER_DEFINE \<equiv> 125"

section \<open>Tables\<close>

record HdmiVideoDefInfo =
  vd_vic :: c_enum
  vd_pixclk :: uint32_t
  vd_rate :: uint32_t
  vd_hactive :: uint32_t
  vd_vactive :: uint32_t
  vd_hblank :: uint32_t
  vd_vblank :: uint32_t
  vd_hfront :: uint32_t
  vd_hsync :: uint32_t
  vd_hback :: uint32_t
  vd_vfront :: uint32_t
  vd_vsync :: uint32_t
  vd_vback :: uint32_t
  vd_aspect :: c_enum
  vd_timing :: c_enum
  vd_formatType :: c_enum

text \<open>One row, its fields in the order of the initialisers.\<close>

definition video_row ::
    "c_enum \<Rightarrow> uint32_t \<Rightarrow> uint32_t \<Rightarrow> uint32_t \<Rightarrow> uint32_t \<Rightarrow> uint32_t \<Rightarrow> uint32_t \<Rightarrow> uint32_t \<Rightarrow> uint32_t
     \<Rightarrow> uint32_t \<Rightarrow> uint32_t \<Rightarrow> uint32_t \<Rightarrow> uint32_t \<Rightarrow> c_enum \<Rightarrow> c_enum \<Rightarrow> c_enum \<Rightarrow> HdmiVideoDefInfo" where
  "video_row vic pixclk rate hactive vactive hblank vblank hfront hsync hback vfront vsync vback aspect timing formatType =
     \<lparr>vd_vic = vic, vd_pixclk = pixclk, vd_rate = rate, vd_hactive = hactive, vd_vactive = vactive,
      vd_hblank = hblank, vd_vblank = vblank, vd_hfront = hfront, vd_hsync = hsync, vd_hback = hback,
      vd_vfront = vfront, vd_vsync = vsync, vd_vback = vback, vd_aspect = aspect, vd_timing = timing,
      vd_formatType = formatType\<rparr>"

definition g_ceaVideoDefInfoMap :: "HdmiVideoDefInfo list" where
  "g_ceaVideoDefInfoMap =
    [video_row 0 0 0 0 0 0 0 0 0 0 0 0 0 HDMI_PICTURE_ASPECT_NO_DATA HDMI_VIDEO_TIMING_NONE HDMI_VIDEO_FORMAT_NULL,
     video_row HDMI_VIC_640X480P60_4_3 25175 59940 640 480 160 45 16 96 48 10 2 33 HDMI_PICTURE_ASPECT_4_3 HDMI_VIDEO_TIMING_640X480P60 HDMI_VIDEO_FORMAT_PROGRESSIVE,
     video_row HDMI_VIC_720X480P60_4_3 27000 59940 720 480 138 45 16 62 60 9 6 30 HDMI_PICTURE_ASPECT_4_3 HDMI_VIDEO_TIMING_720X480P60 HDMI_VIDEO_FORMAT_PROGRESSIVE,
     video_row HDMI_VIC_720X480P60_16_9 27000 59940 720 480 138 45 16 62 60 9 6 30 HDMI_PICTURE_ASPECT_16_9 HDMI_VIDEO_TIMING_720X480P60 HDMI_VIDEO_FORMAT_PROGRESSIVE,
     video_row HDMI_VIC_1280X720P60_16_9 74250 60000 1280 720 370 30 110 40 220 5 5 20 HDMI_PICTURE_ASPECT_16_9 HDMI_VIDEO_TIMING_1280X720P60 HDMI_VIDEO_FORMAT_PROGRESSIVE,
     video_row HDMI_VIC_1920X1080I60_16_9 74250 60000 1920 1080 280 22 88 44 148 2 5 15 HDMI_PICTURE_ASPECT_16_9 HDMI_VIDEO_TIMING_1920X1080I60 HDMI_VIDEO_FORMA_INTERLACE,
     video_row HDMI_VIC_1440X480I60_4_3 27000 59940 1440 480 276 22 38 124 114 4 3 15 HDMI_PICTURE_ASPECT_4_3 HDMI_VIDEO_TIMING_1440X480I60 HDMI_VIDEO_FORMA_INTERLACE,
     video_row HDMI_VIC_1440X480I60_16_9 27000 59940 1440 480 276 22 38 124 114 4 3 15 HDMI_PICTURE_ASPECT_16_9 HDMI_VIDEO_TIMING_1440X480I60 HDMI_VIDEO_FORMA_INTERLACE,
     video_row HDMI_VIC_1440X240P60_4_3 27000 60054 1440 240 276 22 38 124 114 4 3 15 HDMI_PICTURE_ASPECT_4_3 HDMI_VIDEO_TIMING_1440X240P60 HDMI_VIDEO_FORMAT_PROGRESSIVE,
     video_row HDMI_VIC_1440X240P60_16_9 27000 60054 1440 240 276 22 38 124 114 4 3 15 HDMI_PICTURE_ASPECT_16_9 HDMI_VIDEO_TIMING_1440X240P60 HDMI_VIDEO_FORMAT_PROGRESSIVE,
     video_row HDMI_VIC_2880X480I60_4_3 54000 59940 2880 480 552 22 76 248 228 4 3 15 HDMI_PICTURE_ASPECT_4_3 HDMI_VIDEO_TIMING_2880X480I60 HDMI_VIDEO_FORMA_INTERLACE,
     video_row HDMI_VIC_2880X480I60_16_9 54000 59940 2880 480 552 22 76 248 228 4 3 15 HDMI_PICTURE_ASPECT_16_9 HDMI_VIDEO_TIMING_2880X480I60 HDMI_VIDEO_FORMA_INTERLACE,
     video_row HDMI_VIC_2880X240P60_4_3 54000 60054 2880 240 552 22 76 248 228 4 3 15 HDMI_PICTURE_ASPECT_4_3 HDMI_VIDEO_TIMING_2880X240I60 HDMI_VIDEO_FORMAT_PROGRESSIVE,
     video_row HDMI_VIC_2880X240P60_16_9 54000 60054 2880 240 552 23 76 248 228 4 3 15 HDMI_PICTURE_ASPECT_16_9 HDMI_VIDEO_TIMING_2880X240I60 HDMI_VIDEO_FORMAT_PROGRESSIVE,
     video_row HDMI_VIC_1440X480P60_4_3 54000 59940 1440 480 276 45 32 124 120 9 6 30 HDMI_PICTURE_ASPECT_4_3 HDMI_VIDEO_TIMING_1440X480P60 HDMI_VIDEO_FORMAT_PROGRESSIVE,
     video_row HDMI_VIC_1440X480P60_16_9 54000 59940 1440 480 276 45 32 124 120 9 6 30 HDMI_PICTURE_ASPECT_16_9 HDMI_VIDEO_TIMING_1440X480P60 HDMI_VIDEO_FORMAT_PROGRESSIVE,
     video_row HDMI_VIC_1920X1080P60_16_9 148500 60000 1920 1080 280 45 88 44 148 4 5 36 HDMI_PICTURE_ASPECT_16_9 HDMI_VIDEO_TIMING_1920X1080P60 HDMI_VIDEO_FORMAT_PROGRESSIVE,
     video_row HDMI_VIC_720X576P50_4_3 27000 50000 720 576 144 49 12 64 68 5 5 39 HDMI_PICTURE_ASPECT_4_3 HDMI_VIDEO_TIMING_720X576P50 HDMI_VIDEO_FORMAT_PROGRESSIVE,
     video_row HDMI_VIC_720X576P50_16_9 27000 50000 720 576 144 49 12 64 68 5 5 39 HDMI_PICTURE_ASPECT_16_9 HDMI_VIDEO_TIMING_720X576P50 HDMI_VIDEO_FORMAT_PROGRESSIVE,
     video_row HDMI_VIC_1280X720P50_16_9 74250 50000 1280 720 700 30 440 40 220 5 5 20 HDMI_PICTURE_ASPECT_16_9 HDMI_VIDEO_TIMING_1280X720P50 HDMI_VIDEO_FORMAT_PROGRESSIVE,
     video_row HDMI_VIC_1920X1080I50_16_9 74250 50000 1920 1080 720 24 528 44 148 2 5 15 HDMI_PICTURE_ASPECT_16_9 HDMI_VIDEO_TIMING_1920X1080I50 HDMI_VIDEO_FORMA_INTERLACE,
     video_row HDMI_VIC_1440X576I50_4_3 27000 50000 1440 576 288 24 24 126 138 2 3 19 HDMI_PICTURE_ASPECT_4_3 HDMI_VIDEO_TIMING_1440X576I50 HDMI_VIDEO_FORMA_INTERLACE,
     video_row HDMI_VIC_1440X576I50_16_9 27000 50000 1440 576 288 24 24 126 138 2 3 19 HDMI_PICTURE_ASPECT_16_9 HDMI_VIDEO_TIMING_1440X576I50 HDMI_VIDEO_FORMA_INTERLACE,
     video_row HDMI_VIC_1440X576P50_4_3 54000 50000 1440 576 288 49 24 128 136 5 5 39 HDMI_PICTURE_ASPECT_4_3 HDMI_VIDEO_TIMING_1440X576P50 HDMI_VIDEO_FORMAT_PROGRESSIVE,
     video_row HDMI_VIC_1440X576P50_16_9 54000 50000 1440 576 288 49 24 128 136 5 5 39 HDMI_PICTURE_ASPECT_16_9 HDMI_VIDEO_TIMING_1440X576P50 HDMI_VIDEO_FORMAT_PROGRESSIVE,
     video_row HDMI_VIC_1920X1080P50_16_9 148500 50000 1920 1080 720 45 528 44 148 4 5 36 HDMI_PICTURE_ASPECT_16_9 HDMI_VIDEO_TIMING_1920X1080P50 HDMI_VIDEO_FORMAT_PROGRESSIVE,
     video_row HDMI_VIC_1920X1080P24_16_9 742500 24000 1920 1080 830 45 638 44 148 4 5 36 HDMI_PICTURE_ASPECT_16_9 HDMI_VIDEO_TIMING_1920X1080P24 HDMI_VIDEO_FORMAT_PROGRESSIVE,
     video_row HDMI_VIC_1920X1080P25_16_9 742500 25000 1920 1080 720 45 528 44 148 4 5 36 HDMI_PICTURE_ASPECT_16_9 HDMI_VIDEO_TIMING_1920X1080P25 HDMI_VIDEO_FORMAT_PROGRESSIVE,
     video_row HDMI_VIC_1920X1080P30_16_9 742500 30000 1920 1080 280 45 88 44 148 4 5 36 HDMI_PICTURE_ASPECT_16_9 HDMI_VIDEO_TIMING_1920X1080P30 HDMI_VIDEO_FORMAT_PROGRESSIVE,
     video_row HDMI_VIC_3840X2160P24_16_9 297000 24000 3840 2160 1660 90 1276 88 296 8 10 72 HDMI_PICTURE_ASPECT_16_9 HDMI_VIDEO_TIMING_3840X2160P24 HDMI_VIDEO_FORMAT_PROGRESSIVE,
     video_row HDMI_VIC_3840X2160P25_16_9 297000 25000 3840 2160 1440 90 1056 88 296 8 10 72 HDMI_PICTURE_ASPECT_16_9 HDMI_VIDEO_TIMING_3840X2160P25 HDMI_VIDEO_FORMAT_PROGRESSIVE,
     video_row HDMI_VIC_3840X2160P30_16_9 297000 30000 3840 2160 560 90 176 88 296 8 10 72 HDMI_PICTURE_ASPECT_16_9 HDMI_VIDEO_TIMING_3840X2160P30 HDMI_VIDEO_FORMAT_PROGRESSIVE,
     video_row HDMI_VIC_3840X2160P50_16_9 594000 50000 3840 2160 1440 90 1056 88 296 8 10 72 HDMI_PICTURE_ASPECT_16_9 HDMI_VIDEO_TIMING_3840X2160P50 HDMI_VIDEO_FORMAT_PROGRESSIVE,
     video_row HDMI_VIC_3840X2160P60_16_9 594000 60000 3840 2160 560 90 176 88 296 8 10 72 HDMI_PICTURE_ASPECT_16_9 HDMI_VIDEO_TIMING_3840X2160P60 HDMI_VIDEO_FORMAT_PROGRESSIVE,
     video_row HDMI_VIC_4096X2160P24_256_135 297000 24000 4096 2160 1404 90 1020 88 296 8 10 72 HDMI_PICTURE_ASPECT_256_135 HDMI_VIDEO_TIMING_4096X2160P24 HDMI_VIDEO_FORMAT_PROGRESSIVE,
     video_row HDMI_VIC_4096X2160P25_256_135 297000 25000 4096 2160 1184 90 968 88 128 8 10 72 HDMI_PICTURE_ASPECT_256_135 HDMI_VIDEO_TIMING_4096X2160P25 HDMI_VIDEO_FORMAT_PROGRESSIVE,
     video_row HDMI_VIC_4096X2160P30_256_135 297000 30000 4096 2160 304 90 88 88 128 8 10 72 HDMI_PICTURE_ASPECT_256_135 HDMI_VIDEO_TIMING_4096X2160P30 HDMI_VIDEO_FORMAT_PROGRESSIVE,
     video_row HDMI_VIC_4096X2160P50_256_135 594000 50000 4096 2160 1184 90 968 88 128 8 10 72 HDMI_PICTURE_ASPECT_256_135 HDMI_VIDEO_TIMING_4096X2160P50 HDMI_VIDEO_FORMAT_PROGRESSIVE,
     video_row HDMI_VIC_4096X2160P60_256_135 594000 60000 4096 2160 304 90 88 88 128 8 10 72 HDMI_PICTURE_ASPECT_256_135 HDMI_VIDEO_TIMING_4096X2160P60 HDMI_VIDEO_FORMAT_PROGRESSIVE,
     video_row HDMI_VIC_3840X2160P120_16_9 1188000 120000 3840 2160 560 90 176 88 296 8 10 72 HDMI_PICTURE_ASPECT_16_9 HDMI_VIDEO_TIMING_3840X2160P120 HDMI_VIDEO_FORMAT_PROGRESSIVE,
     video_row HDMI_VIC_7680X4320P24_16_9 1188000 24000 7680 4320 3320 180 2552 176 592 16 20 144 HDMI_PICTURE_ASPECT_16_9 HDMI_VIDEO_TIMING_7680X4320P24 HDMI_VIDEO_FORMAT_PROGRESSIVE,
     video_row HDMI_VIC_7680X4320P25_16_9 1188000 25000 7680 4320 3120 80 2352 176 592 16 20 44 HDMI_PICTURE_ASPECT_16_9 HDMI_VIDEO_TIMING_7680X4320P25 HDMI_VIDEO_FORMAT_PROGRESSIVE,
     video_row HDMI_VIC_7680X4320P30_16_9 1188000 30000 7680 4320 1320 80 552 176 592 16 20 44 HDMI_PICTURE_ASPECT_16_9 HDMI_VIDEO_TIMING_7680X4320P30 HDMI_VIDEO_FORMAT_PROGRESSIVE,
     video_row HDMI_VIC_4096X2160P120_256_135 1188000 120000 4096 2160 304 90 88 88 128 8 10 72 HDMI_PICTURE_ASPECT_256_135 HDMI_VIDEO_TIMING_4096X2160P120 HDMI_VIDEO_FORMAT_PROGRESSIVE]"

definition g_vesaVideoDefInfoMap :: "HdmiVideoDefInfo list" where
  "g_vesaVideoDefInfoMap =
    [video_row 0 0 0 0 0 0 0 0 0 0 0 0 0 HDMI_PICTURE_ASPECT_NO_DATA HDMI_VIDEO_TIMING_NONE HDMI_VIDEO_FORMAT_NULL,
     video_row 0 40000 60317 800 600 256 28 40 128 88 1 4 23 HDMI_PICTURE_ASPECT_16_9 HDMI_VIDEO_TIMING_VESA_800X600_60 HDMI_VIDEO_FORMAT_PROGRESSIVE,
     video_row 0 33750 60000 848 480 240 37 16 112 112 6 8 23 HDMI_PICTURE_ASPECT_16_9 HDMI_VIDEO_TIMING_VESA_848X480_60 HDMI_VIDEO_FORMAT_PROGRESSIVE,
     video_row 0 65000 60004 1024 768 320 38 24 136 160 3 6 29 HDMI_PICTURE_ASPECT_16_9 HDMI_VIDEO_TIMING_VESA_1024X768_60 HDMI_VIDEO_FORMAT_PROGRESSIVE,
     video_row 0 74250 60000 1280 720 370 30 110 40 220 5 5 20 HDMI_PICTURE_ASPECT_16_9 HDMI_VIDEO_TIMING_VESA_1280X720_60 HDMI_VIDEO_FORMAT_PROGRESSIVE,
     video_row 0 68250 59995 1280 768 160 22 48 32 80 3 7 12 HDMI_PICTURE_ASPECT_16_9 HDMI_VIDEO_TIMING_VESA_1280X768_60_RB HDMI_VIDEO_FORMAT_PROGRESSIVE,
     video_row 0 79500 59870 1280 768 384 30 64 128 192 3 7 20 HDMI_PICTURE_ASPECT_16_9 HDMI_VIDEO_TIMING_VESA_1280X768_60 HDMI_VIDEO_FORMAT_PROGRESSIVE,
     video_row 0 71001 59910 1280 800 160 23 48 32 80 3 6 14 HDMI_PICTURE_ASPECT_16_9 HDMI_VIDEO_TIMING_VESA_1280X800_60_RB HDMI_VIDEO_FORMAT_PROGRESSIVE,
     video_row 0 83500 59810 1280 800 400 31 72 128 200 3 6 22 HDMI_PICTURE_ASPECT_16_9 HDMI_VIDEO_TIMING_VESA_1280X800_60 HDMI_VIDEO_FORMAT_PROGRESSIVE,
     video_row 0 108000 60000 1280 960 520 40 96 112 312 1 3 36 HDMI_PICTURE_ASPECT_16_9 HDMI_VIDEO_TIMING_VESA_1280X960_60 HDMI_VIDEO_FORMAT_PROGRESSIVE,
     video_row 0 108000 60020 1280 1024 408 42 48 112 248 1 3 38 HDMI_PICTURE_ASPECT_16_9 HDMI_VIDEO_TIMING_VESA_1280X1024_60 HDMI_VIDEO_FORMAT_PROGRESSIVE,
     video_row 0 85500 60015 1360 768 432 27 64 112 256 3 6 18 HDMI_PICTURE_ASPECT_16_9 HDMI_VIDEO_TIMING_VESA_1360X768_60 HDMI_VIDEO_FORMAT_PROGRESSIVE,
     video_row 0 85501 59790 1366 768 426 30 70 143 213 3 3 24 HDMI_PICTURE_ASPECT_16_9 HDMI_VIDEO_TIMING_VESA_1366X768_60 HDMI_VIDEO_FORMAT_PROGRESSIVE,
     video_row 0 121749 59978 1400 1050 464 39 88 144 232 3 4 32 HDMI_PICTURE_ASPECT_16_9 HDMI_VIDEO_TIMING_VESA_1400X1050_60 HDMI_VIDEO_FORMAT_PROGRESSIVE,
     video_row 0 88749 59901 1440 900 160 26 48 32 80 3 6 17 HDMI_PICTURE_ASPECT_16_9 HDMI_VIDEO_TIMING_VESA_1440X900_60_RB HDMI_VIDEO_FORMAT_PROGRESSIVE,
     video_row 0 106499 59887 1440 900 464 34 80 152 232 3 6 25 HDMI_PICTURE_ASPECT_16_9 HDMI_VIDEO_TIMING_VESA_1440X900_60 HDMI_VIDEO_FORMAT_PROGRESSIVE,
     video_row 0 108000 60000 1440 1050 144 49 12 64 68 3 6 25 HDMI_PICTURE_ASPECT_16_9 HDMI_VIDEO_TIMING_VESA_1440X1050_60 HDMI_VIDEO_FORMAT_PROGRESSIVE,
     video_row 0 108000 60000 1440 1050 144 49 12 64 68 3 6 25 HDMI_PICTURE_ASPECT_16_9 HDMI_VIDEO_TIMING_VESA_1440X1050_60_RB HDMI_VIDEO_FORMAT_PROGRESSIVE,
     video_row 0 108000 60000 1600 900 200 100 24 80 96 1 3 96 HDMI_PICTURE_ASPECT_16_9 HDMI_VIDEO_TIMING_VESA_1600X900_60_RB HDMI_VIDEO_FORMAT_PROGRESSIVE,
     video_row 0 162000 60000 1600 1200 560 50 64 192 304 1 3 46 HDMI_PICTURE_ASPECT_16_9 HDMI_VIDEO_TIMING_VESA_1600X1200_60 HDMI_VIDEO_FORMAT_PROGRESSIVE,
     video_row 0 118999 59883 1680 1050 160 30 48 32 80 3 6 21 HDMI_PICTURE_ASPECT_16_9 HDMI_VIDEO_TIMING_VESA_1680X1050_60_RB HDMI_VIDEO_FORMAT_PROGRESSIVE,
     video_row 0 146249 59954 1680 1050 560 39 104 176 280 3 6 30 HDMI_PICTURE_ASPECT_16_9 HDMI_VIDEO_TIMING_VESA_1680X1050_60 HDMI_VIDEO_FORMAT_PROGRESSIVE,
     video_row 0 204751 60000 1792 1344 656 50 128 200 328 1 3 46 HDMI_PICTURE_ASPECT_16_9 HDMI_VIDEO_TIMING_VESA_1792X1344_60 HDMI_VIDEO_FORMAT_PROGRESSIVE,
     video_row 0 218249 59995 1856 1392 672 47 96 224 352 1 3 43 HDMI_PICTURE_ASPECT_16_9 HDMI_VIDEO_TIMING_VESA_1856X1392_60 HDMI_VIDEO_FORMAT_PROGRESSIVE,
     video_row 0 148500 60000 1920 1080 280 45 88 44 148 4 5 36 HDMI_PICTURE_ASPECT_16_9 HDMI_VIDEO_TIMING_VESA_1920X1080_60 HDMI_VIDEO_FORMAT_PROGRESSIVE,
     video_row 0 154000 59950 1920 1200 160 35 48 32 80 3 6 26 HDMI_PICTURE_ASPECT_16_9 HDMI_VIDEO_TIMING_VESA_1920X1200_60_RB HDMI_VIDEO_FORMAT_PROGRESSIVE,
     video_row 0 193251 59885 1920 1200 672 45 136 200 336 3 6 36 HDMI_PICTURE_ASPECT_16_9 HDMI_VIDEO_TIMING_VESA_1920X1200_60 HDMI_VIDEO_FORMAT_PROGRESSIVE,
     video_row 0 234000 60000 1920 1440 680 60 128 208 344 1 3 56 HDMI_PICTURE_ASPECT_16_9 HDMI_VIDEO_TIMING_VESA_1920X1440_60 HDMI_VIDEO_FORMAT_PROGRESSIVE,
     video_row 0 162000 60000 2048 1152 202 48 26 80 96 1 3 44 HDMI_PICTURE_ASPECT_16_9 HDMI_VIDEO_TIMING_VESA_2048X1152_60 HDMI_VIDEO_FORMAT_PROGRESSIVE,
     video_row 0 82500 50000 2560 1440 520 30 260 40 220 3 3 24 HDMI_PICTURE_ASPECT_16_9 HDMI_VIDEO_TIMING_VESA_2560X1440_60_RB HDMI_VIDEO_FORMAT_PROGRESSIVE,
     video_row 0 348502 59987 2560 1600 944 58 192 280 472 3 6 49 HDMI_PICTURE_ASPECT_16_9 HDMI_VIDEO_TIMING_VESA_2560X1600_60 HDMI_VIDEO_FORMAT_PROGRESSIVE]"

record HdmiVideo4kInfo =
  vk_4kVic :: c_enum
  vk_vic :: c_enum
  vk_pixclk :: uint32_t
  vk_rate :: uint32_t
  vk_hactive :: uint32_t
  vk_vactive :: uint32_t
  vk_aspect :: c_enum
  vk_timing :: c_enum
  vk_formatType :: c_enum

definition g_video4kInfoMap :: "HdmiVideo4kInfo list" where
  "g_video4kInfoMap =
    [\<lparr>vk_4kVic = HDMI_4K_VIC_3840X2160_30, vk_vic = HDMI_VIC_3840X2160P30_16_9, vk_pixclk = 296703, vk_rate = 30, vk_hactive = 3840, vk_vactive = 2160, vk_aspect = HDMI_PICTURE_ASPECT_16_9, vk_timing = HDMI_VIDEO_TIMING_3840X2160P30, vk_formatType = HDMI_VIDEO_FORMAT_PROGRESSIVE\<rparr>,
     \<lparr>vk_4kVic = HDMI_4K_VIC_3840X2160_25, vk_vic = HDMI_VIC_3840X2160P25_16_9, vk_pixclk = 297000, vk_rate = 25, vk_hactive = 3840, vk_vactive = 2160, vk_aspect = HDMI_PICTURE_ASPECT_16_9, vk_timing = HDMI_VIDEO_TIMING_3840X2160P25, vk_formatType = HDMI_VIDEO_FORMAT_PROGRESSIVE\<rparr>,
     \<lparr>vk_4kVic = HDMI_4K_VIC_3840X2160_24, vk_vic = HDMI_VIC_3840X2160P24_16_9, vk_pixclk = 296703, vk_rate = 24, vk_hactive = 3840, vk_vactive = 2160, vk_aspect = HDMI_PICTURE_ASPECT_16_9, vk_timing = HDMI_VIDEO_TIMING_3840X2160P24, vk_formatType = HDMI_VIDEO_FORMAT_PROGRESSIVE\<rparr>,
     \<lparr>vk_4kVic = HDMI_4K_VIC_4096X2160_24, vk_vic = HDMI_VIC_4096X2160P24_256_135, vk_pixclk = 297000, vk_rate = 24, vk_hactive = 4096, vk_vactive = 2160, vk_aspect = HDMI_PICTURE_ASPECT_256_135, vk_timing = HDMI_VIDEO_TIMING_4096X2160P24, vk_formatType = HDMI_VIDEO_FORMAT_PROGRESSIVE\<rparr>]"

section \<open>Conversions and searches\<close>

definition HdmiCommonDeepClolorConvertToColorDepth :: "c_enum \<Rightarrow> c_enum" where
  "HdmiCommonDeepClolorConvertToColorDepth deepColor =
     (if deepColor = HDMI_DEEP_COLOR_24BITS then HDMI_VIDEO_BIT_DEPTH_8
      else if deepColor = HDMI_DEEP_COLOR_30BITS then HDMI_VIDEO_BIT_DEPTH_10
      else if deepColor = HDMI_DEEP_COLOR_36BITS then HDMI_VIDEO_BIT_DEPTH_12
      else if deepColor = HDMI_DEEP_COLOR_48BITS then HDMI_VIDEO_BIT_DEPTH_16
      else HDMI_VIDEO_BIT_DEPTH_8)"

definition HdmiCommonColorDepthConvertToDeepClolor :: "c_enum \<Rightarrow> c_enum" where
  "HdmiCommonColorDepthConvertToDeepClolor colorDepth =
     (if colorDepth = HDMI_VIDEO_BIT_DEPTH_8 then HDMI_DEEP_COLOR_24BITS
      else if colorDepth = HDMI_VIDEO_BIT_DEPTH_10 then HDMI_DEEP_COLOR_30BITS
      else if colorDepth = HDMI_VIDEO_BIT_DEPTH_12 then HDMI_DEEP_COLOR_36BITS
      else if colorDepth = HDMI_VIDEO_BIT_DEPTH_16 then HDMI_DEEP_COLOR_48BITS
      else if colorDepth = HDMI_VIDEO_BIT_DEPTH_OFF then HDMI_DEEP_COLOR_OFF
      else HDMI_DEEP_COLOR_BUTT)"

definition HdmiCommonGetVic :: "c_enum \<Rightarrow> c_enum \<Rightarrow> bool \<Rightarrow> c_enum" where
  "HdmiCommonGetVic timing aspect enable3d =
     (let vic = (case search_first (\<lambda>r. timing = vd_timing r \<and> aspect = vd_aspect r) g_ceaVideoDefInfoMap of
                   None \<Rightarrow> 0 | Some r \<Rightarrow> vd_vic r)
      in if enable3d \<and> (vic = HDMI_VIC_3840X2160P24_16_9 \<or> vic = HDMI_VIC_3840X2160P25_16_9
            \<or> vic = HDMI_VIC_3840X2160P30_16_9 \<or> vic = HDMI_VIC_4096X2160P24_256_135)
         then HDMI_VIC_NONE else vic)"

definition HdmiCommonGetCommFormatInfo :: "c_enum \<Rightarrow> HdmiVideoDefInfo option" where
  "HdmiCommonGetCommFormatInfo vic = search_first (\<lambda>r. vic = vd_vic r) g_ceaVideoDefInfoMap"

definition HdmiCommonGetVesaFormatInfo :: "c_enum \<Rightarrow> HdmiVideoDefInfo option" where
  "HdmiCommonGetVesaFormatInfo timing = search_first (\<lambda>r. timing = vd_timing r) g_vesaVideoDefInfoMap"

definition HdmiCommonGetVideoDefInfo :: "c_enum \<Rightarrow> c_enum \<Rightarrow> bool \<Rightarrow> HdmiVideoDefInfo option" where
  "HdmiCommonGetVideoDefInfo timing aspect enable3d =
     (if timing < HDMI_VIDEO_TIMING_VESA_DEFINE
      then HdmiCommonGetCommFormatInfo (HdmiCommonGetVic timing aspect enable3d)
      else if timing < HDMI_VIDEO_TIMING_USER_DEFINE then HdmiCommonGetVesaFormatInfo timing
      else None)"

definition HdmiCommonGetVideoTiming :: "c_enum \<Rightarrow> c_enum \<Rightarrow> c_enum" where
  "HdmiCommonGetVideoTiming vic aspect =
     (case search_first (\<lambda>r. vic = vd_vic r \<and> aspect = vd_aspect r) g_ceaVideoDefInfoMap of
        None \<Rightarrow> HDMI_VIDEO_TIMING_NONE | Some r \<Rightarrow> vd_timing r)"

definition HdmiCommonGetVideo4kInfo :: "uint32_t \<Rightarrow> HdmiVideo4kInfo option" where
  "HdmiCommonGetVideo4kInfo vic4k = search_first (\<lambda>r. vic4k = vk_4kVic r) g_video4kInfoMap"

definition HdmiCommonGetVideo4kTiming :: "uint32_t \<Rightarrow> c_enum" where
  "HdmiCommonGetVideo4kTiming vic4k =
     (case search_first (\<lambda>r. vic4k = vk_4kVic r) g_video4kInfoMap of
        None \<Rightarrow> HDMI_VIDEO_TIMING_NONE | Some r \<Rightarrow> vk_timing r)"

section \<open>The table of CEA modes\<close>

text \<open>The blanking intervals of a mode are the sums of their parts.\<close>

definition blanks_ok :: "HdmiVideoDefInfo \<Rightarrow> bool" where
  "blanks_ok r \<longleftrightarrow> vd_hblank r = vd_hfront r + vd_hsync r + vd_hback r
     \<and> vd_vblank r = vd_vfront r + vd_vsync r + vd_vback r"

text \<open>
  The pixel clock (kHz) against the raster and the frame rate (mHz), within one percent; an
  interlaced frame has half the active lines.
\<close>

definition clock_ok :: "HdmiVideoDefInfo \<Rightarrow> bool" where
  "clock_ok r \<longleftrightarrow>
     (let lines = (if vd_formatType r = HDMI_VIDEO_FORMA_INTERLACE then unat (vd_vactive r) div 2
                   else unat (vd_vactive r)) + unat (vd_vblank r);
          pixels = (unat (vd_hactive r) + unat (vd_hblank r)) * lines * unat (vd_rate r)
      in 990000 * unat (vd_pixclk r) \<le> pixels \<and> pixels \<le> 1010000 * unat (vd_pixclk r))"

text \<open>The searches by timing and by code find the mode itself.\<close>

definition found_by_key :: "HdmiVideoDefInfo \<Rightarrow> bool" where
  "found_by_key r \<longleftrightarrow> HdmiCommonGetVic (vd_timing r) (vd_aspect r) False = vd_vic r
     \<and> HdmiCommonGetVideoTiming (vd_vic r) (vd_aspect r) = vd_timing r
     \<and> HdmiCommonGetVideoDefInfo (vd_timing r) (vd_aspect r) False = Some r"

lemma search_first_distinct:
  "distinct (map f xs) \<Longrightarrow> x \<in> set xs \<Longrightarrow> (\<And>r. P r \<longleftrightarrow> f x = f r) \<Longrightarrow> search_first P xs = Some x"
  by (induction xs) (auto simp: rev_image_eqI)

lemma cea_keys_distinct:
  "distinct (map (\<lambda>r. (vd_timing r, vd_aspect r)) g_ceaVideoDefInfoMap)"
  "distinct (map (\<lambda>r. (vd_vic r, vd_aspect r)) g_ceaVideoDefInfoMap)"
  by (simp_all add: g_ceaVideoDefInfoMap_def video_row_def)

lemma cea_vics_distinct: "distinct (map vd_vic g_ceaVideoDefInfoMap)"
  by (simp add: g_ceaVideoDefInfoMap_def video_row_def)

lemma cea_timings:
  "list_all (\<lambda>r. vd_timing r < HDMI_VIDEO_TIMING_VESA_DEFINE) g_ceaVideoDefInfoMap"
  by (simp add: g_ceaVideoDefInfoMap_def video_row_def)

lemma cea_found_by_key:
  assumes r: "r \<in> set g_ceaVideoDefInfoMap"
  shows "found_by_key r"
proof -
  have "search_first (\<lambda>x. vd_timing r = vd_timing x \<and> vd_aspect r = vd_aspect x) g_ceaVideoDefInfoMap = Some r"
    by (rule search_first_distinct [OF cea_keys_distinct(1) r]) simp
  moreover have "search_first (\<lambda>x. vd_vic r = vd_vic x \<and> vd_aspect r = vd_aspect x) g_ceaVideoDefInfoMap = Some r"
    by (rule search_first_distinct [OF cea_keys_distinct(2) r]) simp
  moreover have "search_first (\<lambda>x. vd_vic r = vd_vic x) g_ceaVideoDefInfoMap = Some r"
    by (rule search_first_distinct [OF cea_vics_distinct r]) simp
  moreover have "vd_timing r < HDMI_VIDEO_TIMING_VESA_DEFINE"
    using cea_timings r by (auto simp: list_all_iff)
  ultimately show ?thesis
    by (simp add: found_by_key_def HdmiCommonGetVic_def HdmiCommonGetVideoTiming_def
        HdmiCommonGetVideoDefInfo_def HdmiCommonGetCommFormatInfo_def)
qed

text \<open>
  Every mode of the CEA table is found by its timing and by its code: the code, the timing
  and the whole entry are returned.  The entries are consistent rasters - each blanking interval
  is the sum of front porch, synchronisation and back porch, and the pixel clock is the raster
  times the rate - but for five: modes 13 and 20 have a back porch one line off, and the pixel
  clock of modes 32, 33 and 34 (1080p at 24, 25 and 30 Hz) is ten times too high.
\<close>

theorem cea_modes_found_and_consistent:
  "list_all found_by_key g_ceaVideoDefInfoMap
   \<and> map vd_vic (filter (\<lambda>r. \<not> blanks_ok r) g_ceaVideoDefInfoMap) =
       [HDMI_VIC_2880X240P60_16_9, HDMI_VIC_1920X1080I50_16_9]
   \<and> map vd_vic (filter (\<lambda>r. \<not> clock_ok r) g_ceaVideoDefInfoMap) =
       [HDMI_VIC_1920X1080P24_16_9, HDMI_VIC_1920X1080P25_16_9, HDMI_VIC_1920X1080P30_16_9]"
proof (intro conjI)
  show "list_all found_by_key g_ceaVideoDefInfoMap"
    by (simp add: list_all_iff cea_found_by_key)
qed (simp_all add: g_ceaVideoDefInfoMap_def video_row_def blanks_ok_def clock_ok_def)

text \<open>The conversion of a bit depth to a deep colour and back is the identity on the four depths.\<close>

lemma deep_colour_roundtrip:
  "map (HdmiCommonDeepClolorConvertToColorDepth \<circ> HdmiCommonColorDepthConvertToDeepClolor)
     [HDMI_VIDEO_BIT_DEPTH_8, HDMI_VIDEO_BIT_DEPTH_10, HDMI_VIDEO_BIT_DEPTH_12, HDMI_VIDEO_BIT_DEPTH_16]
   = [HDMI_VIDEO_BIT_DEPTH_8, HDMI_VIDEO_BIT_DEPTH_10, HDMI_VIDEO_BIT_DEPTH_12, HDMI_VIDEO_BIT_DEPTH_16]"
  by (simp add: HdmiCommonDeepClolorConvertToColorDepth_def HdmiCommonColorDepthConvertToDeepClolor_def)

end
