(* ===== verification/Hdmi_InfoFrame.thy ===== *)
theory Hdmi_InfoFrame
  imports Hdmi_Common
begin

text \<open>
  The HDMI info frames, \<^verbatim>\<open>support/platform/src/hdmi/hdmi_infoframe.c\<close>: filling a frame from the
  attributes of the controller, encoding it into a packet of 32 bytes, and sending it through
  the controller's methods.

  A packet is a byte list; every store is checked against its length.  The four methods of the
  controller are code of the platform: whether they exist and what sending returns are
  parameters, and the calls made are the result's trace.
\<close>

section \<open>Constants\<close>

abbreviation (input) HDMI_INFOFRAME_PACKET_TYPE_VS :: c_enum where "HDMI_INFOFRAME_PACKET_TYPE_VS \<equiv> 129"
abbreviation (input) HDMI_INFOFRAME_PACKET_TYPE_AVI :: c_enum where "HDMI_INFOFRAME_PACKET_TYPE_AVI \<equiv> 130"
abbreviation (input) HDMI_INFOFRAME_PACKET_TYPE_SPD :: c_enum where "HDMI_INFOFRAME_PACKET_TYPE_SPD \<equiv> 131"
abbreviation (input) HDMI_INFOFRAME_PACKET_TYPE_AUDIO :: c_enum where "HDMI_INFOFRAME_PACKET_TYPE_AUDIO \<equiv> 132"
abbreviation (input) HDMI_INFOFRAME_PACKET_TYPE_DRM :: c_enum where "HDMI_INFOFRAME_PACKET_TYPE_DRM \<equiv> 135"
abbreviation (input) HDMI_IEEE_OUI_1_4 :: c_enum where "HDMI_IEEE_OUI_1_4 \<equiv> 3075"
abbreviation (input) HDMI_VS_VIDEO_FORMAT_NULL :: c_enum where "HDMI_VS_VIDEO_FORMAT_NULL \<equiv> 0"
abbreviation (input) HDMI_VS_VIDEO_FORMAT_4K :: c_enum where "HDMI_VS_VIDEO_FORMAT_4K \<equiv> 1"
abbreviation (input) HDMI_VS_VIDEO_FORMAT_3D :: c_enum where "HDMI_VS_VIDEO_FORMAT_3D \<equiv> 2"
abbreviation (input) HDMI_VS_VIDEO_3D_BUTT :: c_enum where "HDMI_VS_VIDEO_3D_BUTT \<equiv> 9"
abbreviation (input) HDMI_HDR_MODE_CEA_861_3 :: c_enum where "HDMI_HDR_MODE_CEA_861_3 \<equiv> 3"
abbreviation (input) HDMI_HDR_MODE_CEA_861_3_AUTHEN :: c_enum where "HDMI_HDR_MODE_CEA_861_3_AUTHEN \<equiv> 4"
abbreviation (input) HDMI_HDR_MODE_DOLBY_NORMAL :: c_enum where "HDMI_HDR_MODE_DOLBY_NORMAL \<equiv> 1"
abbreviation (input) HDMI_HDR_MODE_DOLBY_TUNNELING :: c_enum where "HDMI_HDR_MODE_DOLBY_TUNNELING \<equiv> 2"
abbreviation (input) HDMI_COLOR_SPACE_YCBCR422 :: c_enum where "HDMI_COLOR_SPACE_YCBCR422 \<equiv> 1"
abbreviation (input) HDMI_COLOR_SPACE_RGB :: c_enum where "HDMI_COLOR_SPACE_RGB \<equiv> 0"
abbreviation (input) HDMI_COLORIMETRY_EXTENDED :: c_enum where "HDMI_COLORIMETRY_EXTENDED \<equiv> 3"
abbreviation (input) HDMI_YCC_QUANTIZATION_RANGE_FULL :: c_enum where "HDMI_YCC_QUANTIZATION_RANGE_FULL \<equiv> 1"
abbreviation (input) HDMI_QUANTIZATION_RANGE_FULL :: c_enum where "HDMI_QUANTIZATION_RANGE_FULL \<equiv> 2"
abbreviation (input) HDMI_VIC_5120X2160P100_64_27 :: c_enum where "HDMI_VIC_5120X2160P100_64_27 \<equiv> 127"
abbreviation (input) HDMI_EXTENDED_COLORIMETRY_ADDITIONAL :: c_enum where "HDMI_EXTENDED_COLORIMETRY_ADDITIONAL \<equiv> 7"
abbreviation (input) HDMI_AUDIO_IF_TYPE_I2S :: c_enum where "HDMI_AUDIO_IF_TYPE_I2S \<equiv> 0"
abbreviation (input) HDMI_AUDIO_CODING_TYPE_AC3 :: c_enum where "HDMI_AUDIO_CODING_TYPE_AC3 \<equiv> 2"
abbreviation (input) HDMI_AUDIO_CODING_TYPE_DTS :: c_enum where "HDMI_AUDIO_CODING_TYPE_DTS \<equiv> 7"
abbreviation (input) HDMI_AUDIO_CODING_TYPE_EAC3 :: c_enum where "HDMI_AUDIO_CODING_TYPE_EAC3 \<equiv> 10"
abbreviation (input) HDMI_AUDIO_CODING_TYPE_DTS_HD :: c_enum where "HDMI_AUDIO_CODING_TYPE_DTS_HD \<equiv> 11"
abbreviation (input) HDMI_AUDIO_CODING_TYPE_STREAM :: c_enum where "HDMI_AUDIO_CODING_TYPE_STREAM \<equiv> 0"
abbreviation (input) HDMI_AUDIO_FORMAT_CHANNEL_3 :: c_enum where "HDMI_AUDIO_FORMAT_CHANNEL_3 \<equiv> 3"
abbreviation (input) HDMI_AUDIO_FORMAT_CHANNEL_6 :: c_enum where "HDMI_AUDIO_FORMAT_CHANNEL_6 \<equiv> 6"
abbreviation (input) HDMI_AUDIO_FORMAT_CHANNEL_8 :: c_enum where "HDMI_AUDIO_FORMAT_CHANNEL_8 \<equiv> 8"
abbreviation (input) HDMI_INFOFRAME_LEN :: nat where "HDMI_INFOFRAME_LEN \<equiv> 32"
abbreviation (input) HDMI_INFOFRAME_PACKET_HEADER_LEN :: nat where "HDMI_INFOFRAME_PACKET_HEADER_LEN \<equiv> 4"

section \<open>Frames\<close>

record HdmiInfoFrameHeader =
  ih_type :: c_enum
  ih_verNum :: uint8_t
  ih_len :: uint8_t

text \<open>
  The contents of a vendor frame are a union: the fields up to the 3D structure are common to
  the HDMI 1.4 and the user variant; behind them \<open>vs_tail\<close> holds the bytes that are the extended
  data, the metadata's type and length and the metadata of the one, and the length and the data
  of the other.
\<close>

record HdmiVsInfoFrame =
  vs_header :: HdmiInfoFrameHeader
  vs_oui :: c_enum
  vs_format :: c_enum
  vs_vic :: c_enum
  vs_3dMetaPresent :: bool
  vs_3dStruct :: c_enum
  vs_tail :: bytes

definition vsif_3dExtData :: "HdmiVsInfoFrame \<Rightarrow> c_enum" where
  "vsif_3dExtData vs = le_word (take 4 (vs_tail vs))"

definition userVsif_len :: "HdmiVsInfoFrame \<Rightarrow> uint8_t" where
  "userVsif_len vs = vs_tail vs ! 0"

definition userVsif_data :: "HdmiVsInfoFrame \<Rightarrow> bytes" where
  "userVsif_data vs = take 22 (drop 1 (vs_tail vs))"

record HdmiAviInfoFrame =
  av_header :: HdmiInfoFrameHeader
  av_scanMode :: c_enum
  av_vertBarInfoPresent :: bool
  av_horizBarInfoPresent :: bool
  av_activeFormatInformationPresent :: bool
  av_colorSpace :: c_enum
  av_activeAspect :: c_enum
  av_pictureAspect :: c_enum
  av_colorimetry :: c_enum
  av_nups :: c_enum
  av_range :: c_enum
  av_extColorimetry :: c_enum
  av_itc :: bool
  av_vic :: uint8_t
  av_pixelRepetitionFactor :: uint8_t
  av_itcType :: c_enum
  av_yccRange :: c_enum
  av_topBar :: uint16_t
  av_bottomBar :: uint16_t
  av_leftBar :: uint16_t
  av_rightBar :: uint16_t

record HdmiAudioInfoFrame =
  au_header :: HdmiInfoFrameHeader
  au_channelCount :: uint8_t
  au_codingType :: c_enum
  au_sampleSize :: c_enum
  au_sampleFreq :: c_enum
  au_codingExtType :: c_enum
  au_channelAllocation :: uint8_t
  au_playBackLevel :: c_enum
  au_levelShiftValue :: uint8_t
  au_dmInh :: bool

record HdmiSpdInfoFrame =
  sp_header :: HdmiInfoFrameHeader
  sp_vendorName :: bytes
  sp_productDescription :: bytes
  sp_sdi :: c_enum

record HdmiStaticMetadataDescriptor1st =
  displayPrimaries0X :: uint16_t
  displayPrimaries0Y :: uint16_t
  displayPrimaries1X :: uint16_t
  displayPrimaries1Y :: uint16_t
  displayPrimaries2X :: uint16_t
  displayPrimaries2Y :: uint16_t
  whitePointX :: uint16_t
  whitePointY :: uint16_t
  maxDisplayMasteringLuminance :: uint16_t
  minDisplayMasteringLuminance :: uint16_t
  maxContentLightLevel :: uint16_t
  maxFrameAverageLightLevel :: uint16_t

record HdmiDrmInfoFrame =
  dr_header :: HdmiInfoFrameHeader
  dr_eotfType :: c_enum
  dr_metadataType :: c_enum
  dr_des :: HdmiStaticMetadataDescriptor1st

datatype HdmiInfoFrameInfo =
    FrameVs HdmiVsInfoFrame | FrameAvi HdmiAviInfoFrame | FrameAudio HdmiAudioInfoFrame
  | FrameSpd HdmiSpdInfoFrame | FrameDrm HdmiDrmInfoFrame

fun info_header :: "HdmiInfoFrameInfo \<Rightarrow> HdmiInfoFrameHeader" where
  "info_header (FrameVs f) = vs_header f"
| "info_header (FrameAvi f) = av_header f"
| "info_header (FrameAudio f) = au_header f"
| "info_header (FrameSpd f) = sp_header f"
| "info_header (FrameDrm f) = dr_header f"

section \<open>Stores into a packet\<close>

datatype store = Put nat uint8_t | OrTo nat uint8_t

text \<open>The assignments to \<open>buff[i]\<close>, where \<open>buff\<close> is \<open>off\<close> bytes into the packet.\<close>

fun stores :: "nat \<Rightarrow> store list \<Rightarrow> bytes \<Rightarrow> bytes option" where
  "stores off [] d = Some d"
| "stores off (Put i v # rest) d =
     (if off + i < length d then stores off rest (d[off + i := v]) else None)"
| "stores off (OrTo i v # rest) d =
     (if off + i < length d then stores off rest (d[off + i := d ! (off + i) OR v]) else None)"

definition HdmiInfoFrameFillCheckSum :: "bytes \<Rightarrow> nat \<Rightarrow> bytes option" where
  "HdmiInfoFrameFillCheckSum data len =
     (if length data < len then None
      else let checkSum = sum_list (take len data) in
        if checkSum > 0 then stores 0 [Put 3 (256 - checkSum)] data else Some data)"

definition HdmiInfoFrameFillHeader :: "HdmiInfoFrameHeader \<Rightarrow> bytes \<Rightarrow> nat \<Rightarrow> bytes option" where
  "HdmiInfoFrameFillHeader header data len =
     (if len < HDMI_INFOFRAME_PACKET_HEADER_LEN then Some data
      else stores 0 [Put 0 (ucast (ih_type header)), Put 1 (ih_verNum header), Put 2 (ih_len header)] data)"

text \<open>\<^verbatim>\<open>memset_s (data, len, 0, len)\<close>; a packet has at least \<open>len\<close> bytes.\<close>

definition clear :: "bytes \<Rightarrow> nat \<Rightarrow> bytes option" where
  "clear data len = mem_write data 0 (replicate len 0)"

text \<open>A flag of the packet.\<close>

definition bit_if :: "bool \<Rightarrow> nat \<Rightarrow> nat \<Rightarrow> store list" where
  "bit_if b i n = (if b then [OrTo i (push_bit n 1)] else [])"

text \<open>The field of an enumeration: masked, shifted as an \<^verbatim>\<open>int\<close> and cut to a byte.\<close>

definition field :: "'a::len word \<Rightarrow> 32 word \<Rightarrow> nat \<Rightarrow> uint8_t" where
  "field v m n = ucast (push_bit n ((ucast v :: 32 word) AND m))"

section \<open>Encoding\<close>

definition HdmiInfoFramePacketVsEncoding :: "HdmiVsInfoFrame \<Rightarrow> bytes \<Rightarrow> nat \<Rightarrow> (HDF_STATUS \<times> bytes) option" where
  "HdmiInfoFramePacketVsEncoding vs data len =
     (let n = HDMI_INFOFRAME_PACKET_HEADER_LEN + unat (ih_len (vs_header vs)) in
      if len < n then Some (HDF_ERR_INVALID_PARAM, data)
      else do {
        d1 \<leftarrow> clear data len;
        d2 \<leftarrow> HdmiInfoFrameFillHeader (vs_header vs) d1 len;
        (if vs_oui vs = HDMI_IEEE_OUI_1_4 then do {
           d3 \<leftarrow> stores 0 [Put 4 0x03, Put 5 0x0C, Put 6 0x00, Put 7 (field (vs_format vs) 0x07 5)] d2;
           (if vs_format vs = HDMI_VS_VIDEO_FORMAT_4K then
              map_option (Pair HDF_SUCCESS) (stores 0 [Put 8 (ucast (vs_vic vs))] d3)
            else do {
              d4 \<leftarrow> stores 0 (if vs_format vs = HDMI_VS_VIDEO_FORMAT_3D
                              then [Put 8 (field (vs_3dStruct vs) 0x0f 4)] else []) d3;
              d5 \<leftarrow> stores 0 [Put 9 (field (ucast (vsif_3dExtData vs) :: uint8_t) 0x0f 4)] d4;
              (if \<not> vs_3dMetaPresent vs then
                 let ul = unat (userVsif_len vs) in
                 if ul = 0 \<or> ul + n > len then Some (HDF_SUCCESS, d5)
                 else do {
                   src \<leftarrow> mem_read (userVsif_data vs) 0 ul;
                   r \<leftarrow> memcpy_s d5 n (len - n) src;
                   (if \<not> fst r then Some (HDF_ERR_IO, snd r)
                    else map_option (Pair HDF_SUCCESS) (HdmiInfoFrameFillCheckSum (snd r) (n + ul)))
                 }
               else map_option (Pair HDF_SUCCESS) (HdmiInfoFrameFillCheckSum d5 n))
            })
         }
         else map_option (Pair HDF_SUCCESS) (HdmiInfoFrameFillCheckSum d2 n))
      })"

text \<open>The payload of an AVI frame, bytes PB1 to PB13.\<close>

definition avi_stores :: "HdmiAviInfoFrame \<Rightarrow> store list" where
  "avi_stores avi =
     [OrTo 0 (field (av_colorSpace avi) 0x03 5), OrTo 0 (field (av_scanMode avi) 0x03 0)]
     @ bit_if (av_activeFormatInformationPresent avi) 0 4
     @ bit_if (av_horizBarInfoPresent avi) 0 3
     @ bit_if (av_vertBarInfoPresent avi) 0 2
     @ [OrTo 1 (field (av_colorimetry avi) 0x03 6), OrTo 1 (field (av_pictureAspect avi) 0x03 4),
        OrTo 1 (field (av_activeAspect avi) 0x0f 0),
        OrTo 2 (field (av_extColorimetry avi) 0x07 4), OrTo 2 (field (av_range avi) 0x03 2),
        OrTo 2 (field (av_nups avi) 0x03 0)]
     @ bit_if (av_itc avi) 2 7
     @ [Put 3 (av_vic avi),
        OrTo 4 (field (av_yccRange avi) 0x03 6), OrTo 4 (field (ucast (av_itcType avi) :: uint8_t) 0x03 4),
        OrTo 4 (field (av_pixelRepetitionFactor avi) 0x0f 0),
        Put 5 (ucast (av_topBar avi AND 0xff)), Put 6 (ucast (drop_bit 8 (av_topBar avi) AND 0xff)),
        Put 7 (ucast (av_bottomBar avi AND 0xff)), Put 8 (ucast (drop_bit 8 (av_bottomBar avi) AND 0xff)),
        Put 9 (ucast (av_leftBar avi AND 0xff)), Put 10 (ucast (drop_bit 8 (av_leftBar avi) AND 0xff)),
        Put 11 (ucast (av_rightBar avi AND 0xff)), Put 12 (ucast (drop_bit 8 (av_rightBar avi) AND 0xff))]"

definition HdmiInfoFramePacketAviEncoding :: "HdmiAviInfoFrame \<Rightarrow> bytes \<Rightarrow> nat \<Rightarrow> (HDF_STATUS \<times> bytes) option" where
  "HdmiInfoFramePacketAviEncoding avi data len =
     (let n = HDMI_INFOFRAME_PACKET_HEADER_LEN + unat (ih_len (av_header avi)) in
      if len < n then Some (HDF_ERR_INVALID_PARAM, data)
      else do {
        d1 \<leftarrow> clear data len;
        d2 \<leftarrow> HdmiInfoFrameFillHeader (av_header avi) d1 len;
        d3 \<leftarrow> stores HDMI_INFOFRAME_PACKET_HEADER_LEN (avi_stores avi) d2;
        map_option (Pair HDF_SUCCESS) (HdmiInfoFrameFillCheckSum d3 n)
      })"

definition HdmiInfoFramePacketSpdEncoding :: "HdmiSpdInfoFrame \<Rightarrow> bytes \<Rightarrow> nat \<Rightarrow> (HDF_STATUS \<times> bytes) option" where
  "HdmiInfoFramePacketSpdEncoding spd data len =
     (let n = HDMI_INFOFRAME_PACKET_HEADER_LEN + unat (ih_len (sp_header spd)) in
      if len < n then Some (HDF_ERR_INVALID_PARAM, data)
      else do {
        d1 \<leftarrow> clear data len;
        r1 \<leftarrow> memcpy_s d1 4 (len - 4) (sp_vendorName spd);
        (if \<not> fst r1 then Some (HDF_ERR_IO, snd r1)
         else do {
           r2 \<leftarrow> memcpy_s (snd r1) 12 (len - 12) (sp_productDescription spd);
           (if \<not> fst r2 then Some (HDF_ERR_IO, snd r2)
            else do {
              d2 \<leftarrow> stores 28 [Put 0 (ucast (sp_sdi spd))] (snd r2);
              map_option (Pair HDF_SUCCESS) (HdmiInfoFrameFillCheckSum d2 n)
            })
         })
      })"

definition audio_stores :: "HdmiAudioInfoFrame \<Rightarrow> store list" where
  "audio_stores audio =
     [OrTo 0 (field (au_codingType audio) 0x0f 4), OrTo 0 (field (au_channelCount audio) 0x07 0),
      OrTo 1 (field (au_sampleFreq audio) 0x07 2), OrTo 1 (field (au_sampleSize audio) 0x03 0),
      OrTo 2 (field (ucast (au_codingExtType audio) :: uint8_t) 0x1f 0),
      OrTo 3 (au_channelAllocation audio),
      OrTo 4 (field (au_levelShiftValue audio) 0x0f 3), OrTo 4 (field (au_playBackLevel audio) 0x03 0)]
     @ bit_if (au_dmInh audio) 4 7"

definition HdmiInfoFramePacketAudioEncoding :: "HdmiAudioInfoFrame \<Rightarrow> bytes \<Rightarrow> nat \<Rightarrow> (HDF_STATUS \<times> bytes) option" where
  "HdmiInfoFramePacketAudioEncoding audio data len =
     (let n = HDMI_INFOFRAME_PACKET_HEADER_LEN + unat (ih_len (au_header audio)) in
      if len < n then Some (HDF_ERR_INVALID_PARAM, data)
      else do {
        d1 \<leftarrow> clear data len;
        d2 \<leftarrow> HdmiInfoFrameFillHeader (au_header audio) d1 len;
        d3 \<leftarrow> stores HDMI_INFOFRAME_PACKET_HEADER_LEN (audio_stores audio) d2;
        map_option (Pair HDF_SUCCESS) (HdmiInfoFrameFillCheckSum d3 n)
      })"

text \<open>
  The two bytes of a metadata value: the mask is applied to the value twice and the shift is
  made for the first value only.
\<close>

definition drm_pair :: "nat \<Rightarrow> uint16_t \<Rightarrow> store list" where
  "drm_pair i v = [Put i (ucast (v AND 0xff)), Put (i + 1) (ucast ((v AND 0xff) AND 0xff))]"

definition drm_stores :: "HdmiDrmInfoFrame \<Rightarrow> store list" where
  "drm_stores drm =
     (let des = dr_des drm in
      [Put 0 (ucast (dr_eotfType drm)), Put 1 (ucast (dr_metadataType drm)),
       Put 2 (ucast (displayPrimaries0X des AND 0xff)),
       Put 3 (ucast (drop_bit 8 (displayPrimaries0X des) AND 0xff))]
      @ drm_pair 4 (displayPrimaries0Y des) @ drm_pair 6 (displayPrimaries1X des)
      @ drm_pair 8 (displayPrimaries1Y des) @ drm_pair 10 (displayPrimaries2X des)
      @ drm_pair 12 (displayPrimaries2Y des) @ drm_pair 14 (whitePointX des) @ drm_pair 16 (whitePointY des)
      @ drm_pair 18 (maxDisplayMasteringLuminance des) @ drm_pair 20 (minDisplayMasteringLuminance des)
      @ drm_pair 22 (maxContentLightLevel des) @ drm_pair 24 (maxFrameAverageLightLevel des))"

definition HdmiInfoFramePacketDrmEncoding :: "HdmiDrmInfoFrame \<Rightarrow> bytes \<Rightarrow> nat \<Rightarrow> (HDF_STATUS \<times> bytes) option" where
  "HdmiInfoFramePacketDrmEncoding drm data len =
     (let n = HDMI_INFOFRAME_PACKET_HEADER_LEN + unat (ih_len (dr_header drm)) in
      if len < n then Some (HDF_ERR_INVALID_PARAM, data)
      else do {
        d1 \<leftarrow> clear data len;
        d2 \<leftarrow> HdmiInfoFrameFillHeader (dr_header drm) d1 len;
        d3 \<leftarrow> stores HDMI_INFOFRAME_PACKET_HEADER_LEN (drm_stores drm) d2;
        map_option (Pair HDF_SUCCESS) (HdmiInfoFrameFillCheckSum d3 n)
      })"

text \<open>
  The type in the header selects the encoder, whatever the frame is; reading one member of the
  union through another is outside the model.
\<close>

definition HdmiInfoFramePacketEncoding ::
    "HdmiInfoFrameInfo \<Rightarrow> c_enum \<Rightarrow> bytes \<Rightarrow> nat \<Rightarrow> (HDF_STATUS \<times> bytes) option" where
  "HdmiInfoFramePacketEncoding infoFrame type data len =
     (if type = HDMI_INFOFRAME_PACKET_TYPE_VS then
        (case infoFrame of FrameVs f \<Rightarrow> HdmiInfoFramePacketVsEncoding f data len | _ \<Rightarrow> None)
      else if type = HDMI_INFOFRAME_PACKET_TYPE_AVI then
        (case infoFrame of FrameAvi f \<Rightarrow> HdmiInfoFramePacketAviEncoding f data len | _ \<Rightarrow> None)
      else if type = HDMI_INFOFRAME_PACKET_TYPE_SPD then
        (case infoFrame of FrameSpd f \<Rightarrow> HdmiInfoFramePacketSpdEncoding f data len | _ \<Rightarrow> None)
      else if type = HDMI_INFOFRAME_PACKET_TYPE_AUDIO then
        (case infoFrame of FrameAudio f \<Rightarrow> HdmiInfoFramePacketAudioEncoding f data len | _ \<Rightarrow> None)
      else if type = HDMI_INFOFRAME_PACKET_TYPE_DRM then
        (case infoFrame of FrameDrm f \<Rightarrow> HdmiInfoFramePacketDrmEncoding f data len | _ \<Rightarrow> None)
      else Some (HDF_ERR_NOT_SUPPORT, data))"

section \<open>Sending\<close>

datatype info_event = InfoFrameEnable c_enum bool | InfoFrameSend c_enum bytes

text \<open>\<open>sendRet\<close>: what the platform's method returns for a packet, zero for success.\<close>

record hdmi_cntlr_ops =
  op_infoFrameEnable :: bool
  op_infoFrameSend :: "(c_enum \<Rightarrow> bytes \<Rightarrow> int) option"

definition HdmiInfoFrameSend ::
    "hdmi_cntlr_ops option \<Rightarrow> HdmiInfoFrameInfo \<Rightarrow> (int \<times> info_event list) option" where
  "HdmiInfoFrameSend ops infoFrame =
     (case ops of None \<Rightarrow> Some (hdf_status_code HDF_ERR_NOT_SUPPORT, [])
      | Some op \<Rightarrow>
          (case op_infoFrameSend op of None \<Rightarrow> Some (hdf_status_code HDF_ERR_NOT_SUPPORT, [])
           | Some sendRet \<Rightarrow>
               if \<not> op_infoFrameEnable op then Some (hdf_status_code HDF_ERR_NOT_SUPPORT, [])
               else let ty = ih_type (info_header infoFrame) in do {
                 r \<leftarrow> HdmiInfoFramePacketEncoding infoFrame ty (replicate HDMI_INFOFRAME_LEN 0) HDMI_INFOFRAME_LEN;
                 (case r of (ret, buffer) \<Rightarrow>
                    if ret \<noteq> HDF_SUCCESS then Some (hdf_status_code ret, [])
                    else let s = sendRet ty buffer in
                      if s \<noteq> 0 then Some (s, [InfoFrameEnable ty False, InfoFrameSend ty buffer])
                      else Some (0, [InfoFrameEnable ty False, InfoFrameSend ty buffer, InfoFrameEnable ty True]))
               }))"

section \<open>Filling the frames from the attributes\<close>

record HdmiVideoAttr =
  va_pixelRepeat :: uint32_t
  va_colorimetry :: c_enum
  va_extColorimetry :: c_enum
  va_quantization :: c_enum
  va_yccQuantization :: c_enum
  va_3dStruct :: c_enum
  va_timing :: c_enum
  va_aspect :: c_enum
  va_activeAspect :: c_enum
  va_nups :: c_enum
  va_xvycc :: bool

record HdmiAudioAttr =
  aa_codingType :: c_enum
  aa_ifType :: c_enum
  aa_channels :: c_enum

record HdmiHdrAttr =
  ha_mode :: c_enum
  ha_eotfType :: c_enum
  ha_metadataType :: c_enum
  ha_descriptor :: HdmiStaticMetadataDescriptor1st

record HdmiCntlrAttr =
  ca_colorSpace :: c_enum
  ca_videoAttr :: HdmiVideoAttr
  ca_audioAttr :: HdmiAudioAttr
  ca_hdrAttr :: HdmiHdrAttr

record HdmiCntlr =
  cn_ops :: "hdmi_cntlr_ops option"
  cn_attr :: HdmiCntlrAttr

text \<open>The frames of a controller; the back pointer to the controller is an argument of the operations.\<close>

record HdmiInfoFrame =
  fr_hdrSupport :: bool
  fr_vs :: HdmiVsInfoFrame
  fr_avi :: HdmiAviInfoFrame
  fr_audio :: HdmiAudioInfoFrame
  fr_spd :: HdmiSpdInfoFrame
  fr_drm :: HdmiDrmInfoFrame
  fr_userLen :: uint8_t
  fr_userData :: bytes

subsection \<open>Auxiliary video information\<close>

definition HdmiFillAviHdrInfoFrame ::
    "HdmiVideoAttr \<Rightarrow> HdmiHdrAttr \<Rightarrow> c_enum \<Rightarrow> HdmiAviInfoFrame \<Rightarrow> HdmiAviInfoFrame" where
  "HdmiFillAviHdrInfoFrame videoAttr hdrAttr colorSpace avi =
     (let xv = (if va_xvycc videoAttr then HDMI_COLORIMETRY_EXTENDED else va_colorimetry videoAttr) in
      if ha_mode hdrAttr = HDMI_HDR_MODE_CEA_861_3 \<or> ha_mode hdrAttr = HDMI_HDR_MODE_CEA_861_3_AUTHEN then
        avi\<lparr>av_colorimetry := va_colorimetry videoAttr, av_extColorimetry := va_extColorimetry videoAttr,
            av_colorSpace := (if ha_mode hdrAttr = HDMI_HDR_MODE_CEA_861_3_AUTHEN
                              then HDMI_COLOR_SPACE_YCBCR422 else colorSpace),
            av_range := va_quantization videoAttr, av_yccRange := va_yccQuantization videoAttr\<rparr>
      else if ha_mode hdrAttr = HDMI_HDR_MODE_DOLBY_NORMAL then
        avi\<lparr>av_colorSpace := HDMI_COLOR_SPACE_YCBCR422, av_colorimetry := xv,
            av_extColorimetry := va_extColorimetry videoAttr, av_range := va_quantization videoAttr,
            av_yccRange := HDMI_YCC_QUANTIZATION_RANGE_FULL\<rparr>
      else if ha_mode hdrAttr = HDMI_HDR_MODE_DOLBY_TUNNELING then
        avi\<lparr>av_colorSpace := HDMI_COLOR_SPACE_RGB, av_colorimetry := xv,
            av_extColorimetry := va_extColorimetry videoAttr, av_range := HDMI_QUANTIZATION_RANGE_FULL,
            av_yccRange := va_yccQuantization videoAttr\<rparr>
      else
        avi\<lparr>av_colorSpace := colorSpace, av_colorimetry := xv,
            av_extColorimetry := va_extColorimetry videoAttr, av_range := va_quantization videoAttr,
            av_yccRange := va_yccQuantization videoAttr\<rparr>)"

definition HdmiFillAviInfoFrameVersion :: "HdmiAviInfoFrame \<Rightarrow> HdmiAviInfoFrame" where
  "HdmiFillAviInfoFrameVersion avi =
     (let h = av_header avi in
      if av_colorSpace avi AND 0x4 > 0 \<or> (ucast (av_vic avi) :: c_enum) > HDMI_VIC_5120X2160P100_64_27
      then avi\<lparr>av_header := h\<lparr>ih_verNum := 3\<rparr>\<rparr>
      else if av_colorimetry avi = HDMI_COLORIMETRY_EXTENDED
              \<and> av_extColorimetry avi = HDMI_EXTENDED_COLORIMETRY_ADDITIONAL
      then avi\<lparr>av_header := h\<lparr>ih_verNum := 4, ih_len := ih_len h + 1\<rparr>\<rparr>
      else avi\<lparr>av_header := h\<lparr>ih_verNum := 2\<rparr>\<rparr>)"

definition HdmiFillAviInfoFrame :: "HdmiVideoAttr \<Rightarrow> HdmiHdrAttr \<Rightarrow> c_enum \<Rightarrow> HdmiAviInfoFrame" where
  "HdmiFillAviInfoFrame videoAttr hdrAttr colorSpace =
     (let enable3d = \<not> (va_3dStruct videoAttr \<ge> HDMI_VS_VIDEO_3D_BUTT);
          avi = \<lparr>av_header = \<lparr>ih_type = HDMI_INFOFRAME_PACKET_TYPE_AVI, ih_verNum = 0, ih_len = 13\<rparr>,
            av_scanMode = 0, av_vertBarInfoPresent = False, av_horizBarInfoPresent = False,
            av_activeFormatInformationPresent = True, av_colorSpace = colorSpace,
            av_activeAspect = va_activeAspect videoAttr, av_pictureAspect = va_aspect videoAttr,
            av_colorimetry = (if va_xvycc videoAttr then HDMI_COLORIMETRY_EXTENDED
                              else va_colorimetry videoAttr),
            av_nups = va_nups videoAttr, av_range = va_quantization videoAttr,
            av_extColorimetry = va_extColorimetry videoAttr, av_itc = False,
            av_vic = ucast (HdmiCommonGetVic (va_timing videoAttr) (va_aspect videoAttr) enable3d),
            av_pixelRepetitionFactor = ucast (va_pixelRepeat videoAttr), av_itcType = 0,
            av_yccRange = va_yccQuantization videoAttr,
            av_topBar = 0, av_bottomBar = 0, av_leftBar = 0, av_rightBar = 0\<rparr>
      in HdmiFillAviInfoFrameVersion (HdmiFillAviHdrInfoFrame videoAttr hdrAttr colorSpace avi))"

definition HdmiAviInfoFrameSend ::
    "HdmiCntlr option \<Rightarrow> HdmiInfoFrame \<Rightarrow> bool \<Rightarrow> (int \<times> HdmiInfoFrame \<times> info_event list) option" where
  "HdmiAviInfoFrameSend cntlr frame enable =
     (case cntlr of None \<Rightarrow> Some (hdf_status_code HDF_ERR_INVALID_PARAM, frame, [])
      | Some c \<Rightarrow>
          (case cn_ops c of None \<Rightarrow> Some (hdf_status_code HDF_ERR_NOT_SUPPORT, frame, [])
           | Some op \<Rightarrow>
               if \<not> op_infoFrameEnable op \<or> op_infoFrameSend op = None
               then Some (hdf_status_code HDF_ERR_NOT_SUPPORT, frame, [])
               else if \<not> enable then Some (0, frame, [InfoFrameEnable HDMI_INFOFRAME_PACKET_TYPE_AVI False])
               else
                 let avi = HdmiFillAviInfoFrame (ca_videoAttr (cn_attr c)) (ca_hdrAttr (cn_attr c))
                             (ca_colorSpace (cn_attr c))
                 in map_option (\<lambda>(ret, t). (ret, frame\<lparr>fr_avi := avi\<rparr>, t))
                      (HdmiInfoFrameSend (cn_ops c) (FrameAvi avi))))"

subsection \<open>Audio\<close>

definition HdmiFillAudioInfoFrame :: "HdmiAudioAttr \<Rightarrow> HdmiAudioInfoFrame" where
  "HdmiFillAudioInfoFrame audioAttr =
     \<lparr>au_header = \<lparr>ih_type = HDMI_INFOFRAME_PACKET_TYPE_AUDIO, ih_verNum = 1, ih_len = 10\<rparr>,
      au_channelCount =
        (if aa_ifType audioAttr \<noteq> HDMI_AUDIO_IF_TYPE_I2S then 0
         else if aa_channels audioAttr \<ge> 2 then ucast (aa_channels audioAttr - 1) else 0),
      au_codingType =
        (if aa_codingType audioAttr = HDMI_AUDIO_CODING_TYPE_AC3
            \<or> aa_codingType audioAttr = HDMI_AUDIO_CODING_TYPE_DTS
            \<or> aa_codingType audioAttr = HDMI_AUDIO_CODING_TYPE_EAC3
            \<or> aa_codingType audioAttr = HDMI_AUDIO_CODING_TYPE_DTS_HD
         then aa_codingType audioAttr else HDMI_AUDIO_CODING_TYPE_STREAM),
      au_sampleSize = 0, au_sampleFreq = 0, au_codingExtType = 0,
      au_channelAllocation =
        (if aa_channels audioAttr = HDMI_AUDIO_FORMAT_CHANNEL_3 then 0x01
         else if aa_channels audioAttr = HDMI_AUDIO_FORMAT_CHANNEL_6 then 0x0b
         else if aa_channels audioAttr = HDMI_AUDIO_FORMAT_CHANNEL_8 then 0x13 else 0x00),
      au_playBackLevel = 0, au_levelShiftValue = 0, au_dmInh = False\<rparr>"

definition HdmiAudioInfoFrameSend ::
    "HdmiCntlr option \<Rightarrow> HdmiInfoFrame \<Rightarrow> bool \<Rightarrow> (int \<times> HdmiInfoFrame \<times> info_event list) option" where
  "HdmiAudioInfoFrameSend cntlr frame enable =
     (case cntlr of None \<Rightarrow> Some (hdf_status_code HDF_ERR_INVALID_PARAM, frame, [])
      | Some c \<Rightarrow>
          (case cn_ops c of None \<Rightarrow> Some (hdf_status_code HDF_ERR_NOT_SUPPORT, frame, [])
           | Some op \<Rightarrow>
               if \<not> op_infoFrameEnable op then Some (hdf_status_code HDF_ERR_NOT_SUPPORT, frame, [])
               else if \<not> enable then Some (0, frame, [InfoFrameEnable HDMI_INFOFRAME_PACKET_TYPE_AUDIO False])
               else
                 let audio = HdmiFillAudioInfoFrame (ca_audioAttr (cn_attr c))
                 in map_option (\<lambda>(ret, t). (ret, frame\<lparr>fr_audio := audio\<rparr>, t))
                      (HdmiInfoFrameSend (cn_ops c) (FrameAudio audio))))"

subsection \<open>Dynamic range and mastering\<close>

definition HdmiFillDrmInfoFrame :: "HdmiHdrAttr \<Rightarrow> HdmiDrmInfoFrame" where
  "HdmiFillDrmInfoFrame hdrAttr =
     \<lparr>dr_header = \<lparr>ih_type = HDMI_INFOFRAME_PACKET_TYPE_DRM, ih_verNum = 1, ih_len = 26\<rparr>,
      dr_eotfType = ha_eotfType hdrAttr, dr_metadataType = ha_metadataType hdrAttr,
      dr_des = ha_descriptor hdrAttr\<rparr>"

definition HdmiDrmInfoFrameSend ::
    "HdmiCntlr option \<Rightarrow> HdmiInfoFrame \<Rightarrow> bool \<Rightarrow> (int \<times> HdmiInfoFrame \<times> info_event list) option" where
  "HdmiDrmInfoFrameSend cntlr frame enable =
     (case cntlr of None \<Rightarrow> Some (hdf_status_code HDF_ERR_INVALID_PARAM, frame, [])
      | Some c \<Rightarrow>
          (case cn_ops c of None \<Rightarrow> Some (hdf_status_code HDF_ERR_NOT_SUPPORT, frame, [])
           | Some op \<Rightarrow>
               if \<not> op_infoFrameEnable op then Some (hdf_status_code HDF_ERR_NOT_SUPPORT, frame, [])
               else if \<not> enable then Some (0, frame, [InfoFrameEnable HDMI_INFOFRAME_PACKET_TYPE_DRM False])
               else
                 let drm = HdmiFillDrmInfoFrame (ca_hdrAttr (cn_attr c))
                 in map_option (\<lambda>(ret, t). (ret, frame\<lparr>fr_drm := drm\<rparr>, t))
                      (HdmiInfoFrameSend (cn_ops c) (FrameDrm drm))))"

subsection \<open>Vendor specific\<close>

definition HdmiGetVsifLength :: "c_enum \<Rightarrow> bool \<Rightarrow> bool \<Rightarrow> uint8_t" where
  "HdmiGetVsifLength format dolbyEnable hdrSupport =
     (if hdrSupport then
        (if dolbyEnable then 0x18
         else if format = HDMI_VS_VIDEO_FORMAT_4K then 0x05
         else if format = HDMI_VS_VIDEO_FORMAT_3D then 0x07
         else 0x04)
      else 0x07)"

fun HdmiFill14Vsif_loop :: "nat \<Rightarrow> uint32_t \<Rightarrow> c_enum \<Rightarrow> c_enum \<Rightarrow> c_enum" where
  "HdmiFill14Vsif_loop 0 cnt timing vic = vic"
| "HdmiFill14Vsif_loop (Suc n) cnt timing vic =
     (case HdmiCommonGetVideo4kInfo cnt of
        Some info \<Rightarrow> if vk_timing info = timing then vk_4kVic info
                     else HdmiFill14Vsif_loop n (cnt + 1) timing vic
      | None \<Rightarrow> HdmiFill14Vsif_loop n (cnt + 1) timing vic)"

definition HdmiFill14Vsif :: "HdmiVideoAttr \<Rightarrow> HdmiVsInfoFrame \<Rightarrow> HdmiVsInfoFrame" where
  "HdmiFill14Vsif videoAttr vs =
     (let vic = HdmiCommonGetVic (va_timing videoAttr) (va_aspect videoAttr) False;
          vsif = vs\<lparr>vs_oui := HDMI_IEEE_OUI_1_4\<rparr>
      in if (vic = HDMI_VIC_3840X2160P24_16_9 \<or> vic = HDMI_VIC_3840X2160P25_16_9
             \<or> vic = HDMI_VIC_3840X2160P30_16_9 \<or> vic = HDMI_VIC_4096X2160P24_256_135)
            \<and> va_3dStruct videoAttr = HDMI_VS_VIDEO_3D_BUTT
         then vsif\<lparr>vs_format := HDMI_VS_VIDEO_FORMAT_4K,
                   vs_vic := HdmiFill14Vsif_loop 5 0 (va_timing videoAttr) (vs_vic vsif)\<rparr>
         else if va_3dStruct videoAttr < HDMI_VS_VIDEO_3D_BUTT
         then vsif\<lparr>vs_format := HDMI_VS_VIDEO_FORMAT_3D, vs_3dStruct := va_3dStruct videoAttr\<rparr>
         else vsif\<lparr>vs_format := HDMI_VS_VIDEO_FORMAT_NULL, vs_3dStruct := va_3dStruct videoAttr\<rparr>)"

text \<open>
  The length and the data of the user are written over the extended data; a length beyond 22
  is stored although its data are not.
\<close>

definition HdmiFillVsInfoFrame :: "HdmiInfoFrame \<Rightarrow> HdmiVideoAttr \<Rightarrow> bool \<Rightarrow> bool \<Rightarrow> HdmiVsInfoFrame option" where
  "HdmiFillVsInfoFrame frame videoAttr dolbyEnable hdrSupport =
     (let vs0 = \<lparr>vs_header = \<lparr>ih_type = HDMI_INFOFRAME_PACKET_TYPE_VS, ih_verNum = 1, ih_len = 0\<rparr>,
                 vs_oui = 0, vs_format = 0, vs_vic = 0, vs_3dMetaPresent = False, vs_3dStruct = 0,
                 vs_tail = replicate 28 0\<rparr>;
          vs1 = HdmiFill14Vsif videoAttr vs0;
          h = vs_header vs1;
          vs2 = vs1\<lparr>vs_header := h\<lparr>ih_len := HdmiGetVsifLength (vs_format vs1) dolbyEnable hdrSupport\<rparr>\<rparr>;
          t = (vs_tail vs2)[0 := fr_userLen frame];
          n = unat (fr_userLen frame)
      in if 22 < n then Some (vs2\<lparr>vs_tail := t\<rparr>)
         else do {
           src \<leftarrow> mem_read (fr_userData frame) 0 n;
           t' \<leftarrow> mem_write t 1 src;
           Some (vs2\<lparr>vs_tail := t'\<rparr>)
         })"

definition HdmiVsInfoFrameSend ::
    "HdmiCntlr option \<Rightarrow> HdmiInfoFrame \<Rightarrow> bool \<Rightarrow> bool \<Rightarrow> (int \<times> HdmiInfoFrame \<times> info_event list) option" where
  "HdmiVsInfoFrameSend cntlr frame enable dolbyEnable =
     (case cntlr of None \<Rightarrow> Some (hdf_status_code HDF_ERR_INVALID_PARAM, frame, [])
      | Some c \<Rightarrow>
          (case cn_ops c of None \<Rightarrow> Some (hdf_status_code HDF_ERR_NOT_SUPPORT, frame, [])
           | Some op \<Rightarrow>
               if \<not> op_infoFrameEnable op then Some (hdf_status_code HDF_ERR_NOT_SUPPORT, frame, [])
               else if \<not> enable then Some (0, frame, [InfoFrameEnable HDMI_INFOFRAME_PACKET_TYPE_VS False])
               else do {
                 vs \<leftarrow> HdmiFillVsInfoFrame frame (ca_videoAttr (cn_attr c)) dolbyEnable (fr_hdrSupport frame);
                 map_option (\<lambda>(ret, t). (ret, frame\<lparr>fr_vs := vs\<rparr>, t))
                      (HdmiInfoFrameSend (cn_ops c) (FrameVs vs))
               }))"

subsection \<open>Source product description\<close>

text \<open>The names are C strings, given by their characters; they fill a field of fixed size.\<close>

definition name_field :: "nat \<Rightarrow> bytes \<Rightarrow> bytes" where
  "name_field n name = take n name @ replicate (n - length name) 0"

definition HdmiFillSpdInfoFrame :: "bytes \<Rightarrow> bytes \<Rightarrow> c_enum \<Rightarrow> HdmiSpdInfoFrame" where
  "HdmiFillSpdInfoFrame vendorName productName sdi =
     \<lparr>sp_header = \<lparr>ih_type = HDMI_INFOFRAME_PACKET_TYPE_SPD, ih_verNum = 1, ih_len = 25\<rparr>,
      sp_vendorName = name_field 8 vendorName, sp_productDescription = name_field 16 productName,
      sp_sdi = sdi\<rparr>"

definition HdmiSpdInfoFrameSend ::
    "HdmiCntlr option \<Rightarrow> HdmiInfoFrame \<Rightarrow> bool \<Rightarrow> bytes \<Rightarrow> bytes \<Rightarrow> c_enum
      \<Rightarrow> (int \<times> HdmiInfoFrame \<times> info_event list) option" where
  "HdmiSpdInfoFrameSend cntlr frame enable vendorName productName sdi =
     (case cntlr of None \<Rightarrow> Some (hdf_status_code HDF_ERR_INVALID_PARAM, frame, [])
      | Some c \<Rightarrow>
          (case cn_ops c of None \<Rightarrow> Some (hdf_status_code HDF_ERR_NOT_SUPPORT, frame, [])
           | Some op \<Rightarrow>
               if \<not> op_infoFrameEnable op then Some (hdf_status_code HDF_ERR_NOT_SUPPORT, frame, [])
               else if \<not> enable then Some (0, frame, [InfoFrameEnable HDMI_INFOFRAME_PACKET_TYPE_SPD False])
               else
                 let spd = HdmiFillSpdInfoFrame vendorName productName sdi
                 in map_option (\<lambda>(ret, t). (ret, frame\<lparr>fr_spd := spd\<rparr>, t))
                      (HdmiInfoFrameSend (cn_ops c) (FrameSpd spd))))"

subsection \<open>Access to the frames\<close>

definition HdmiInfoFrameGetInfo :: "HdmiInfoFrame \<Rightarrow> c_enum \<Rightarrow> HDF_STATUS \<times> HdmiInfoFrameInfo option" where
  "HdmiInfoFrameGetInfo frame type =
     (if type = HDMI_INFOFRAME_PACKET_TYPE_VS then (HDF_SUCCESS, Some (FrameVs (fr_vs frame)))
      else if type = HDMI_INFOFRAME_PACKET_TYPE_AVI then (HDF_SUCCESS, Some (FrameAvi (fr_avi frame)))
      else if type = HDMI_INFOFRAME_PACKET_TYPE_AUDIO then (HDF_SUCCESS, Some (FrameAudio (fr_audio frame)))
      else if type = HDMI_INFOFRAME_PACKET_TYPE_DRM then (HDF_SUCCESS, Some (FrameDrm (fr_drm frame)))
      else (HDF_ERR_INVALID_PARAM, None))"

definition HdmiInfoFrameSetInfo ::
    "HdmiInfoFrame \<Rightarrow> c_enum \<Rightarrow> HdmiInfoFrameInfo \<Rightarrow> (HDF_STATUS \<times> HdmiInfoFrame) option" where
  "HdmiInfoFrameSetInfo frame type infoFrame =
     (if type = HDMI_INFOFRAME_PACKET_TYPE_VS then
        (case infoFrame of FrameVs f \<Rightarrow> Some (HDF_SUCCESS, frame\<lparr>fr_vs := f\<rparr>) | _ \<Rightarrow> None)
      else if type = HDMI_INFOFRAME_PACKET_TYPE_AVI then
        (case infoFrame of FrameAvi f \<Rightarrow> Some (HDF_SUCCESS, frame\<lparr>fr_avi := f\<rparr>) | _ \<Rightarrow> None)
      else if type = HDMI_INFOFRAME_PACKET_TYPE_AUDIO then
        (case infoFrame of FrameAudio f \<Rightarrow> Some (HDF_SUCCESS, frame\<lparr>fr_audio := f\<rparr>) | _ \<Rightarrow> None)
      else if type = HDMI_INFOFRAME_PACKET_TYPE_DRM then
        (case infoFrame of FrameDrm f \<Rightarrow> Some (HDF_SUCCESS, frame\<lparr>fr_drm := f\<rparr>) | _ \<Rightarrow> None)
      else Some (HDF_ERR_INVALID_PARAM, frame))"

section \<open>What the packets hold\<close>

text \<open>The packet of a frame: its header, the checksum of the first \<open>n\<close> bytes, the payload.\<close>

definition packet :: "HdmiInfoFrameHeader \<Rightarrow> bytes \<Rightarrow> nat \<Rightarrow> bytes" where
  "packet h pl n =
     [ucast (ih_type h), ih_verNum h, ih_len h,
      - (ucast (ih_type h) + ih_verNum h + ih_len h + sum_list (take (n - 4) pl))] @ pl"

lemma stores_shift:
  "stores (length h) ss (h @ b) = map_option ((@) h) (stores 0 ss b)"
proof (induction ss arbitrary: b)
  case Nil
  then show ?case by simp
next
  case (Cons s ss)
  then show ?case by (cases s) (auto simp: nth_append list_update_append)
qed

lemma stores_length: "stores off ss d = Some d' \<Longrightarrow> length d' = length d"
  by (induction off ss d rule: stores.induct) (auto split: if_splits)

fun store_index :: "store \<Rightarrow> nat" where
  "store_index (Put i v) = i"
| "store_index (OrTo i v) = i"

lemma stores_total:
  "list_all (\<lambda>s. off + store_index s < length d) ss \<Longrightarrow> \<exists>d'. stores off ss d = Some d'"
  by (induction off ss d rule: stores.induct) auto

lemma FillCheckSum_packet:
  assumes "4 \<le> n" "n \<le> 4 + length pl"
  shows "HdmiInfoFrameFillCheckSum ([a, b, c, 0] @ pl) n
     = Some ([a, b, c, - (a + b + c + sum_list (take (n - 4) pl))] @ pl)"
proof -
  have t: "take n ([a, b, c, 0] @ pl) = [a, b, c, 0] @ take (n - 4) pl"
    using assms by (simp add: take_Cons' numeral_eq_Suc)
  define k where "k = a + b + c + sum_list (take (n - 4) pl)"
  have k: "sum_list (take n ([a, b, c, 0] @ pl)) = k"
    unfolding t k_def by (simp add: add.assoc)
  have u: "([a, b, c, 0] @ pl)[3 := v] = [a, b, c, v] @ pl" for v
    by (simp add: numeral_eq_Suc)
  have m: "(256 :: uint8_t) - k = - k" by simp
  have l: "\<not> length ([a, b, c, 0] @ pl) < n" "3 < length ([a, b, c, 0] @ pl)"
    using assms by simp_all
  show ?thesis
    unfolding HdmiInfoFrameFillCheckSum_def k Let_def if_not_P [OF l(1)] k_def [symmetric]
    by (cases "k = 0") (simp_all only: stores.simps u m if_P [OF l(2)] add_0 word_gt_0 if_True if_False
        simp_thms minus_zero eq_commute [of 0 k])
qed

lemma packet_checked:
  assumes "4 \<le> n"
  shows "sum_list (take n (packet h pl n)) = 0"
proof -
  have "take n (packet h pl n) = take 4 (packet h pl n) @ take (n - 4) pl"
    using assms by (simp add: packet_def take_Cons' numeral_eq_Suc)
  then show ?thesis by (simp add: packet_def numeral_eq_Suc)
qed

lemma packet_encoding:
  assumes pl: "stores 0 ss (replicate 28 0) = Some pl" and d: "length d = 32"
    and n: "n = 4 + unat (ih_len h)" "n \<le> 32"
  shows "do { d1 \<leftarrow> clear d 32; d2 \<leftarrow> HdmiInfoFrameFillHeader h d1 32;
      d3 \<leftarrow> stores 4 ss d2; map_option (Pair HDF_SUCCESS) (HdmiInfoFrameFillCheckSum d3 n) }
    = Some (HDF_SUCCESS, packet h pl n)"
proof -
  let ?h = "[ucast (ih_type h), ih_verNum h, ih_len h, 0] :: bytes"
  have c: "clear d 32 = Some (replicate 32 0)"
    using d by (simp add: clear_def mem_write_def)
  have f: "HdmiInfoFrameFillHeader h (replicate 32 0) 32 = Some (?h @ replicate 28 0)"
    by (simp add: HdmiInfoFrameFillHeader_def numeral_eq_Suc)
  have s: "stores 4 ss (?h @ replicate 28 0) = Some (?h @ pl)"
    using stores_shift [of ?h ss "replicate 28 0"] pl by (simp add: numeral_eq_Suc)
  have l: "length pl = 28" using stores_length [OF pl] by simp
  show ?thesis
    unfolding c f s bind.bind_lunit
    using FillCheckSum_packet [of n pl] n l by (simp add: packet_def)
qed

lemma payload:
  "list_all (\<lambda>s. store_index s < 28) ss \<Longrightarrow> \<exists>pl. stores 0 ss (replicate 28 0) = Some pl \<and> length pl = 28"
  using stores_total [of 0 "replicate 28 0" ss] stores_length [of 0 ss "replicate 28 0"] by fastforce

lemma indices [simp]:
  "list_all (\<lambda>s. store_index s < 28) (audio_stores a)"
  "list_all (\<lambda>s. store_index s < 28) (avi_stores v)"
  "list_all (\<lambda>s. store_index s < 28) (drm_stores r)"
  by (simp_all add: audio_stores_def avi_stores_def drm_stores_def drm_pair_def bit_if_def Let_def)

text \<open>What the stores leave at one index.\<close>

fun stores_at :: "nat \<Rightarrow> store list \<Rightarrow> uint8_t \<Rightarrow> uint8_t" where
  "stores_at i [] b = b"
| "stores_at i (Put j v # ss) b = stores_at i ss (if i = j then v else b)"
| "stores_at i (OrTo j v # ss) b = stores_at i ss (if i = j then b OR v else b)"

lemma stores_at_append [simp]: "stores_at i (ss @ ts) b = stores_at i ts (stores_at i ss b)"
  by (induction i ss b rule: stores_at.induct) auto

lemma stores_at_bit_if [simp]:
  "stores_at i (bit_if c j n) b = (if c \<and> i = j then b OR push_bit n 1 else b)"
  by (simp add: bit_if_def)

lemma stores_nth: "stores 0 ss d = Some d' \<Longrightarrow> i < length d \<Longrightarrow> d' ! i = stores_at i ss (d ! i)"
  by (induction "0 :: nat" ss d rule: stores.induct) (auto simp: nth_list_update split: if_splits)

lemma field_bits:
  "bit (field v m n) k \<longleftrightarrow> k < 8 \<and> n \<le> k \<and> bit (ucast v :: 32 word) (k - n) \<and> bit m (k - n)"
  by (auto simp: field_def bit_simps)

text \<open>Sending a frame whose packet encodes to \<open>buf\<close>.\<close>

definition sent :: "(c_enum \<Rightarrow> bytes \<Rightarrow> int) \<Rightarrow> c_enum \<Rightarrow> bytes \<Rightarrow> info_event list" where
  "sent sendRet ty buf = [InfoFrameEnable ty False, InfoFrameSend ty buf]
     @ (if sendRet ty buf = 0 then [InfoFrameEnable ty True] else [])"

lemma InfoFrameSend_encoded:
  assumes "op_infoFrameEnable op" "op_infoFrameSend op = Some sendRet"
    and "ih_type (info_header f) = ty"
    and "HdmiInfoFramePacketEncoding f ty (replicate 32 0) 32 = Some (HDF_SUCCESS, buf)"
  shows "HdmiInfoFrameSend (Some op) f = Some (sendRet ty buf, sent sendRet ty buf)"
  using assms by (simp add: HdmiInfoFrameSend_def Let_def sent_def)


lemma avi_encoding:
  assumes "ih_type (av_header a) = 130" "unat (ih_len (av_header a)) \<le> 28"
  shows "\<exists>pl. HdmiInfoFramePacketEncoding (FrameAvi a) 130 (replicate 32 0) 32
      = Some (HDF_SUCCESS, packet (av_header a) pl (4 + unat (ih_len (av_header a))))
    \<and> length pl = 28 \<and> (\<forall>i < 28. pl ! i = stores_at i (avi_stores a) 0)"
proof -
  obtain pl where pl: "stores 0 (avi_stores a) (replicate 28 0) = Some pl" "length pl = 28"
    using payload [of "avi_stores a"] by auto
  have "\<forall>i < 28. pl ! i = stores_at i (avi_stores a) 0"
    using stores_nth [OF pl(1)] by simp
  with packet_encoding [OF pl(1), of "replicate 32 0" "4 + unat (ih_len (av_header a))" "av_header a"]
    pl(2) assms show ?thesis
    by (intro exI [of _ pl]) (simp add: HdmiInfoFramePacketEncoding_def HdmiInfoFramePacketAviEncoding_def Let_def)
qed

text \<open>Masks and flags, as \<open>bit_simps\<close> leaves them.\<close>

lemma mask_bits:
  "bit (3 :: int) k \<longleftrightarrow> k < 2" "bit (7 :: int) k \<longleftrightarrow> k < 3" "bit (15 :: int) k \<longleftrightarrow> k < 4"
  "bit (255 :: int) k \<longleftrightarrow> k < 8"
proof -
  have "(3 :: int) = mask 2" "(7 :: int) = mask 3" "(15 :: int) = mask 4" "(255 :: int) = mask 8"
    by (simp_all add: mask_int_def)
  then show "bit (3 :: int) k \<longleftrightarrow> k < 2" "bit (7 :: int) k \<longleftrightarrow> k < 3" "bit (15 :: int) k \<longleftrightarrow> k < 4"
  "bit (255 :: int) k \<longleftrightarrow> k < 8"
    by (simp_all only: bit_mask_iff) simp_all
qed

lemma flag_bits:
  "bit (4 :: int) k \<longleftrightarrow> k = 2" "bit (8 :: int) k \<longleftrightarrow> k = 3" "bit (16 :: int) k \<longleftrightarrow> k = 4"
  "bit (128 :: int) k \<longleftrightarrow> k = 7"
proof -
  have "(4 :: int) = 2 ^ 2" "(8 :: int) = 2 ^ 3" "(16 :: int) = 2 ^ 4" "(128 :: int) = 2 ^ 7" by simp_all
  then show "bit (4 :: int) k \<longleftrightarrow> k = 2" "bit (8 :: int) k \<longleftrightarrow> k = 3" "bit (16 :: int) k \<longleftrightarrow> k = 4"
    "bit (128 :: int) k \<longleftrightarrow> k = 7"
    by (simp_all only: bit_exp_iff) auto
qed

lemma avi_bytes:
  "stores_at 3 (avi_stores a) 0 = av_vic a"
  "drop_bit 5 (stores_at 0 (avi_stores a) 0) = ucast (av_colorSpace a AND 3)"
  "drop_bit 6 (stores_at 1 (avi_stores a) 0) = ucast (av_colorimetry a AND 3)"
  "stores_at 1 (avi_stores a) 0 AND 15 = ucast (av_activeAspect a AND 15)"
proof -
  show "stores_at 3 (avi_stores a) 0 = av_vic a" by (simp add: avi_stores_def Let_def)
  show "drop_bit 5 (stores_at 0 (avi_stores a) 0) = ucast (av_colorSpace a AND 3)"
    by (rule bit_word_eqI) (auto simp: avi_stores_def Let_def bit_simps field_bits mask_bits flag_bits)
  show "drop_bit 6 (stores_at 1 (avi_stores a) 0) = ucast (av_colorimetry a AND 3)"
    by (rule bit_word_eqI) (auto simp: avi_stores_def Let_def bit_simps field_bits mask_bits flag_bits)
  show "stores_at 1 (avi_stores a) 0 AND 15 = ucast (av_activeAspect a AND 15)"
    by (rule bit_word_eqI) (auto simp: avi_stores_def Let_def bit_simps field_bits mask_bits flag_bits)
qed

lemma fill_avi_fields:
  "av_header (HdmiFillAviInfoFrame v h cs) \<in>
    {\<lparr>ih_type = 130, ih_verNum = 2, ih_len = 13\<rparr>, \<lparr>ih_type = 130, ih_verNum = 3, ih_len = 13\<rparr>,
     \<lparr>ih_type = 130, ih_verNum = 4, ih_len = 14\<rparr>}"
  "av_vic (HdmiFillAviInfoFrame v h cs)
     = ucast (HdmiCommonGetVic (va_timing v) (va_aspect v) (va_3dStruct v < HDMI_VS_VIDEO_3D_BUTT))"
  "av_activeAspect (HdmiFillAviInfoFrame v h cs) = va_activeAspect v"
  by (simp_all add: HdmiFillAviInfoFrame_def HdmiFillAviHdrInfoFrame_def HdmiFillAviInfoFrameVersion_def
      Let_def not_le)

lemma packet_shape:
  "length (packet h pl n) = 4 + length pl"
  "take 3 (packet h pl n) = [ucast (ih_type h), ih_verNum h, ih_len h]"
  "packet h pl n ! (4 + i) = pl ! i"
  by (simp_all add: packet_def numeral_eq_Suc)

lemma packet_nth: "4 \<le> k \<Longrightarrow> packet h pl n ! k = pl ! (k - 4)"
  using packet_shape(3) [of h pl n "k - 4"] by simp

text \<open>
  C40: Sending the AVI frame of a controller that can send disables the frame, sends one packet of
  32 bytes and enables it again if and only if the sending succeeded.  The packet starts with the
  type, a version from 2 to 4 and the length (14 for version 4, else 13); all its bytes up to the
  length add up to zero modulo 256; the code of the mode, the active aspect and the colour space
  are where the specification has them.
\<close>

theorem avi_frame_sent:
  assumes op: "cn_ops c = Some op" "op_infoFrameEnable op" "op_infoFrameSend op = Some sendRet"
  shows "\<exists>buf avi.
    HdmiAviInfoFrameSend (Some c) frame True
      = Some (sendRet 130 buf, frame\<lparr>fr_avi := avi\<rparr>, sent sendRet 130 buf)
    \<and> length buf = 32 \<and> take 3 buf \<in> {[130, 2, 13], [130, 3, 13], [130, 4, 14]}
    \<and> sum_list (take (4 + unat (buf ! 2)) buf) = 0
    \<and> buf ! 7 = ucast (HdmiCommonGetVic (va_timing (ca_videoAttr (cn_attr c)))
         (va_aspect (ca_videoAttr (cn_attr c))) (va_3dStruct (ca_videoAttr (cn_attr c)) < HDMI_VS_VIDEO_3D_BUTT))
    \<and> buf ! 5 AND 15 = ucast (va_activeAspect (ca_videoAttr (cn_attr c)) AND 15)
    \<and> drop_bit 5 (buf ! 4) = ucast (av_colorSpace avi AND 3)"
proof -
  define v where "v = ca_videoAttr (cn_attr c)"
  define avi where "avi = HdmiFillAviInfoFrame v (ca_hdrAttr (cn_attr c)) (ca_colorSpace (cn_attr c))"
  let ?n = "4 + unat (ih_len (av_header avi))"
  note f = fill_avi_fields [of v "ca_hdrAttr (cn_attr c)" "ca_colorSpace (cn_attr c)", folded avi_def]
  have ty: "ih_type (av_header avi) = 130" and len: "unat (ih_len (av_header avi)) \<le> 28"
    using f(1) by auto
  obtain pl where e: "HdmiInfoFramePacketEncoding (FrameAvi avi) 130 (replicate 32 0) 32
      = Some (HDF_SUCCESS, packet (av_header avi) pl ?n)"
    and l: "length pl = 28" and nth: "\<forall>i < 28. pl ! i = stores_at i (avi_stores avi) 0"
    using avi_encoding [OF ty len] by auto
  define buf where "buf = packet (av_header avi) pl ?n"
  have "HdmiAviInfoFrameSend (Some c) frame True
      = Some (sendRet 130 buf, frame\<lparr>fr_avi := avi\<rparr>, sent sendRet 130 buf)"
    using InfoFrameSend_encoded [OF op(2,3), of "FrameAvi avi" 130 buf] e ty
    by (simp add: HdmiAviInfoFrameSend_def op Let_def v_def [symmetric] avi_def [symmetric] buf_def)
  moreover have "take 3 buf \<in> {[130, 2, 13], [130, 3, 13], [130, 4, 14]}"
    using f(1) by (auto simp: buf_def packet_shape)
  moreover have "buf ! 2 = ih_len (av_header avi)"
    by (simp add: buf_def packet_def numeral_eq_Suc)
  then have "sum_list (take (4 + unat (buf ! 2)) buf) = 0"
    using packet_checked [of ?n "av_header avi" pl] by (simp add: buf_def)
  moreover have "length buf = 32" using l by (simp add: buf_def packet_shape)
  moreover have "buf ! 7 = av_vic avi" "drop_bit 5 (buf ! 4) = ucast (av_colorSpace avi AND 3)"
    "buf ! 5 AND 15 = ucast (av_activeAspect avi AND 15)"
    using nth avi_bytes [of avi] by (simp_all add: buf_def packet_nth)
  ultimately show ?thesis
    unfolding v_def [symmetric] f(2,3) [symmetric] by blast
qed

lemma drm_payload:
  "stores 0 (drm_stores r) (replicate 28 0) = Some
    ([ucast (dr_eotfType r), ucast (dr_metadataType r),
      ucast (displayPrimaries0X (dr_des r)), ucast (drop_bit 8 (displayPrimaries0X (dr_des r)))]
     @ concat (map (\<lambda>v. [ucast v, ucast v])
        [displayPrimaries0Y (dr_des r), displayPrimaries1X (dr_des r), displayPrimaries1Y (dr_des r),
         displayPrimaries2X (dr_des r), displayPrimaries2Y (dr_des r), whitePointX (dr_des r),
         whitePointY (dr_des r), maxDisplayMasteringLuminance (dr_des r),
         minDisplayMasteringLuminance (dr_des r), maxContentLightLevel (dr_des r),
         maxFrameAverageLightLevel (dr_des r)]) @ [0, 0])"
proof -
  have m: "ucast (v AND 255 :: uint16_t) = (ucast v :: uint8_t)" for v
    by (rule bit_word_eqI) (auto simp: bit_simps mask_bits)
  show ?thesis
    by (simp add: drm_stores_def drm_pair_def Let_def numeral_eq_Suc m)
qed

definition drm_low_bytes :: "HdmiStaticMetadataDescriptor1st \<Rightarrow> bytes" where
  "drm_low_bytes d = map ucast
     [displayPrimaries0Y d, displayPrimaries1X d, displayPrimaries1Y d, displayPrimaries2X d,
      displayPrimaries2Y d, whitePointX d, whitePointY d, maxDisplayMasteringLuminance d,
      minDisplayMasteringLuminance d, maxContentLightLevel d, maxFrameAverageLightLevel d]"

text \<open>
  The packet of dynamic range and mastering metadata, sent for any attributes, is determined:
  the header, a checksum that makes the 30 bytes add up to zero, the two types, the first display
  primary with both its bytes, and then for each of the other eleven values its low byte twice.
  The high bytes of the white point, of the luminances and of the light levels are not sent.
\<close>

theorem drm_frame_sends_low_bytes_twice:
  assumes op: "cn_ops c = Some op" "op_infoFrameEnable op" "op_infoFrameSend op = Some sendRet"
  shows "\<exists>k buf. let hdr = ca_hdrAttr (cn_attr c); d = ha_descriptor hdr in
    HdmiDrmInfoFrameSend (Some c) frame True
      = Some (sendRet 135 buf, frame\<lparr>fr_drm := HdmiFillDrmInfoFrame hdr\<rparr>, sent sendRet 135 buf)
    \<and> buf = [135, 1, 26, k, ucast (ha_eotfType hdr), ucast (ha_metadataType hdr),
             ucast (displayPrimaries0X d), ucast (drop_bit 8 (displayPrimaries0X d))]
            @ concat (map (\<lambda>b. [b, b]) (drm_low_bytes d)) @ [0, 0]
    \<and> sum_list (take 30 buf) = 0"
proof -
  let ?drm = "HdmiFillDrmInfoFrame (ca_hdrAttr (cn_attr c))"
  obtain pl where pl: "stores 0 (drm_stores ?drm) (replicate 28 0) = Some pl"
    using drm_payload by blast
  note e = packet_encoding [OF pl, of "replicate 32 0" 30 "dr_header ?drm"]
  define buf where "buf = packet (dr_header ?drm) pl 30"
  have send: "HdmiDrmInfoFrameSend (Some c) frame True
      = Some (sendRet 135 buf, frame\<lparr>fr_drm := ?drm\<rparr>, sent sendRet 135 buf)"
    using InfoFrameSend_encoded [OF op(2,3), of "FrameDrm ?drm" 135 buf] e
    by (simp add: HdmiDrmInfoFrameSend_def op Let_def buf_def HdmiInfoFramePacketEncoding_def
        HdmiInfoFramePacketDrmEncoding_def HdmiFillDrmInfoFrame_def)
  have sum: "sum_list (take 30 buf) = 0"
    unfolding buf_def by (rule packet_checked) simp
  have shape: "\<exists>k. buf = [135, 1, 26, k] @ pl"
    by (simp add: buf_def packet_def HdmiFillDrmInfoFrame_def)
  show ?thesis
    using shape send sum pl [unfolded drm_payload option.inject, symmetric]
    by (auto simp: Let_def HdmiFillDrmInfoFrame_def drm_low_bytes_def)
qed

lemma fill_14_4k:
  assumes "HdmiCommonGetVic (va_timing v) (va_aspect v) False
      \<in> {HDMI_VIC_3840X2160P24_16_9, HDMI_VIC_3840X2160P25_16_9, HDMI_VIC_3840X2160P30_16_9,
         HDMI_VIC_4096X2160P24_256_135}"
    and "va_3dStruct v = HDMI_VS_VIDEO_3D_BUTT"
  shows "HdmiFill14Vsif v vs = vs\<lparr>vs_oui := HDMI_IEEE_OUI_1_4, vs_format := HDMI_VS_VIDEO_FORMAT_4K,
      vs_vic := HdmiFill14Vsif_loop 5 0 (va_timing v) (vs_vic vs)\<rparr>"
  using assms by (simp add: HdmiFill14Vsif_def Let_def)

lemma fill_14_loop:
  "HdmiFill14Vsif_loop 5 0 timing 0 \<in> {0, 1, 2, 3, 4}"
  by (simp add: HdmiCommonGetVideo4kInfo_def g_video4kInfoMap_def numeral_eq_Suc)

lemma zero_bytes:
  "replicate 32 (0 :: uint8_t) = [0, 0, 0, 0, 0, 0, 0, 0, 0, 0, 0, 0, 0, 0, 0, 0, 0, 0, 0, 0, 0, 0, 0, 0, 0, 0, 0, 0, 0, 0, 0, 0]"
  "replicate 23 (0 :: uint8_t) = [0, 0, 0, 0, 0, 0, 0, 0, 0, 0, 0, 0, 0, 0, 0, 0, 0, 0, 0, 0, 0, 0, 0]"
  by (simp_all add: numeral_eq_Suc)

lemma vs_4k_encoding:
  assumes "vs_header vs = \<lparr>ih_type = 129, ih_verNum = 1, ih_len = len\<rparr>" "len \<in> {5, 7, 24}"
    and "vs_oui vs = HDMI_IEEE_OUI_1_4" "vs_format vs = HDMI_VS_VIDEO_FORMAT_4K"
  shows "HdmiInfoFramePacketEncoding (FrameVs vs) 129 (replicate 32 0) 32
    = Some (HDF_SUCCESS, [129, 1, len, 0, 3, 12, 0, 32, ucast (vs_vic vs)] @ replicate 23 0)"
  using assms
  by (auto simp: HdmiInfoFramePacketEncoding_def HdmiInfoFramePacketVsEncoding_def Let_def clear_def
      mem_write_def HdmiInfoFrameFillHeader_def field_def zero_bytes)

lemma fill_vs_4k:
  assumes v: "HdmiCommonGetVic (va_timing v) (va_aspect v) False
      \<in> {HDMI_VIC_3840X2160P24_16_9, HDMI_VIC_3840X2160P25_16_9, HDMI_VIC_3840X2160P30_16_9,
         HDMI_VIC_4096X2160P24_256_135}"
    "va_3dStruct v = HDMI_VS_VIDEO_3D_BUTT"
    and user: "length (fr_userData frame) = 22"
  shows "\<exists>vs len. HdmiFillVsInfoFrame frame v dolby hdr = Some vs
    \<and> vs_header vs = \<lparr>ih_type = 129, ih_verNum = 1, ih_len = len\<rparr> \<and> len \<in> {5, 7, 24}
    \<and> vs_oui vs = HDMI_IEEE_OUI_1_4 \<and> vs_format vs = HDMI_VS_VIDEO_FORMAT_4K
    \<and> vs_vic vs \<in> {0, 1, 2, 3, 4}"
  using user fill_14_loop [of "va_timing v"]
  by (auto simp: HdmiFillVsInfoFrame_def Let_def fill_14_4k [OF v] HdmiGetVsifLength_def mem_write_def
      min_def)

text \<open>
  The vendor frame of a 4K mode without 3D is sent without a checksum: the encoder returns
  before it is filled in, the byte is zero and the bytes up to the length never add up to zero,
  whatever the high-dynamic-range settings.
\<close>

theorem vendor_4k_frame_unchecked:
  assumes op: "cn_ops c = Some op" "op_infoFrameEnable op" "op_infoFrameSend op = Some sendRet"
    and mode: "HdmiCommonGetVic (va_timing (ca_videoAttr (cn_attr c))) (va_aspect (ca_videoAttr (cn_attr c))) False
      \<in> {HDMI_VIC_3840X2160P24_16_9, HDMI_VIC_3840X2160P25_16_9, HDMI_VIC_3840X2160P30_16_9,
         HDMI_VIC_4096X2160P24_256_135}"
      "va_3dStruct (ca_videoAttr (cn_attr c)) = HDMI_VS_VIDEO_3D_BUTT"
    and user: "length (fr_userData frame) = 22"
  shows "\<exists>vs len vic buf.
    HdmiVsInfoFrameSend (Some c) frame True dolby
      = Some (sendRet 129 buf, frame\<lparr>fr_vs := vs\<rparr>, sent sendRet 129 buf)
    \<and> buf = [129, 1, len, 0, 3, 12, 0, 32, vic] @ replicate 23 0
    \<and> sum_list (take (4 + unat len) buf) \<noteq> 0"
proof -
  obtain vs len where fill: "HdmiFillVsInfoFrame frame (ca_videoAttr (cn_attr c)) dolby (fr_hdrSupport frame) = Some vs"
    and vs: "vs_header vs = \<lparr>ih_type = 129, ih_verNum = 1, ih_len = len\<rparr>" "len \<in> {5, 7, 24}"
      "vs_oui vs = HDMI_IEEE_OUI_1_4" "vs_format vs = HDMI_VS_VIDEO_FORMAT_4K"
    and vic: "vs_vic vs \<in> {0, 1, 2, 3, 4}"
    using fill_vs_4k [OF mode user] by blast
  define buf where "buf = [129, 1, len, 0, 3, 12, 0, 32, ucast (vs_vic vs) :: uint8_t] @ replicate 23 0"
  have "HdmiVsInfoFrameSend (Some c) frame True dolby
      = Some (sendRet 129 buf, frame\<lparr>fr_vs := vs\<rparr>, sent sendRet 129 buf)"
    using InfoFrameSend_encoded [OF op(2,3), of "FrameVs vs" 129 buf] vs_4k_encoding [OF vs] vs(1)
    by (simp add: HdmiVsInfoFrameSend_def op fill buf_def)
  moreover have "sum_list (take (4 + unat len) buf) \<noteq> 0"
    using vs(2) vic by (auto simp: buf_def zero_bytes)
  ultimately show ?thesis unfolding buf_def by blast
qed

lemma name_field_length: "length (name_field n s) = n"
  by (simp add: name_field_def)

lemma spd_encoding:
  assumes "length vn = 8" "length pd = 16"
  shows "HdmiInfoFramePacketEncoding (FrameSpd \<lparr>sp_header = \<lparr>ih_type = 131, ih_verNum = 1, ih_len = 25\<rparr>,
      sp_vendorName = vn, sp_productDescription = pd, sp_sdi = sdi\<rparr>) 131 (replicate 32 0) 32
    = Some (HDF_SUCCESS, packet \<lparr>ih_type = 0, ih_verNum = 0, ih_len = 0\<rparr> (vn @ pd @ [ucast sdi, 0, 0, 0]) 29)"
proof -
  have z: "replicate 32 (0 :: uint8_t) = [0, 0, 0, 0] @ replicate 28 0"
    "replicate 28 (0 :: uint8_t) = replicate 8 0 @ replicate 20 0"
    "replicate 20 (0 :: uint8_t) = replicate 16 0 @ replicate 4 0"
    "replicate 4 (0 :: uint8_t) = [0, 0, 0, 0]"
    by (simp_all add: numeral_eq_Suc)
  have c: "clear (replicate 32 0) 32 = Some (replicate 32 0)" by (simp add: clear_def mem_write_def)
  have m1: "memcpy_s (replicate 32 0) 4 28 vn = Some (True, [0, 0, 0, 0] @ vn @ replicate 20 0)"
    unfolding z(1) using assms by (simp add: memcpy_s_def mem_write_def)
  have m2: "memcpy_s ([0, 0, 0, 0] @ vn @ replicate 20 0) 12 20 pd = Some (True, [0, 0, 0, 0] @ vn @ pd @ [0, 0, 0, 0])"
    unfolding z(3,4) using assms by (simp add: memcpy_s_def mem_write_def)
  have s: "stores 28 [Put 0 (ucast sdi)] ([0, 0, 0, 0] @ vn @ pd @ [0, 0, 0, 0])
      = Some ([0, 0, 0, 0] @ vn @ pd @ [ucast sdi, 0, 0, 0])"
    using assms by (simp add: list_update_append)
  show ?thesis
    using FillCheckSum_packet [of 29 "vn @ pd @ [ucast sdi, 0, 0, 0]" 0 0 0] assms
    by (simp add: HdmiInfoFramePacketEncoding_def HdmiInfoFramePacketSpdEncoding_def Let_def c m1
        m2 [unfolded append.simps] s [unfolded append.simps]
        list_update_append packet_def del: replicate_Suc)
qed

text \<open>
  The frame that describes the source is sent for any names: each name is cut or padded to its
  field and the bytes add up to zero, but the three bytes that should hold the type, the version
  and the length are zero, since this encoder never fills them in.
\<close>

theorem spd_frame_without_header:
  assumes op: "cn_ops c = Some op" "op_infoFrameEnable op" "op_infoFrameSend op = Some sendRet"
  shows "\<exists>k buf.
    HdmiSpdInfoFrameSend (Some c) frame True vendor product sdi
      = Some (sendRet 131 buf, frame\<lparr>fr_spd := HdmiFillSpdInfoFrame vendor product sdi\<rparr>, sent sendRet 131 buf)
    \<and> buf = [0, 0, 0, k] @ name_field 8 vendor @ name_field 16 product @ [ucast sdi, 0, 0, 0]
    \<and> sum_list (take 29 buf) = 0"
proof -
  let ?h = "\<lparr>ih_type = 0, ih_verNum = 0, ih_len = 0\<rparr>"
  let ?pl = "name_field 8 vendor @ name_field 16 product @ [ucast sdi, 0, 0, 0]"
  have "HdmiSpdInfoFrameSend (Some c) frame True vendor product sdi
      = Some (sendRet 131 (packet ?h ?pl 29), frame\<lparr>fr_spd := HdmiFillSpdInfoFrame vendor product sdi\<rparr>,
              sent sendRet 131 (packet ?h ?pl 29))"
    using InfoFrameSend_encoded [OF op(2,3), of "FrameSpd (HdmiFillSpdInfoFrame vendor product sdi)" 131]
      spd_encoding [of "name_field 8 vendor" "name_field 16 product" sdi]
    by (simp add: HdmiSpdInfoFrameSend_def op Let_def HdmiFillSpdInfoFrame_def name_field_length)
  moreover have "sum_list (take 29 (packet ?h ?pl 29)) = 0" by (rule packet_checked) simp
  moreover have "\<exists>k. packet ?h ?pl 29 = [0, 0, 0, k] @ ?pl" by (simp add: packet_def)
  ultimately show ?thesis by metis
qed

text \<open>A controller whose sending always succeeds, for a 4K mode at 30 Hz.\<close>

definition demo_ops :: hdmi_cntlr_ops where
  "demo_ops = \<lparr>op_infoFrameEnable = True, op_infoFrameSend = Some (\<lambda>_ _. 0)\<rparr>"

definition demo_cntlr :: HdmiCntlr where
  "demo_cntlr = \<lparr>cn_ops = Some demo_ops, cn_attr = \<lparr>ca_colorSpace = 1,
     ca_videoAttr = \<lparr>va_pixelRepeat = 0, va_colorimetry = 0, va_extColorimetry = 0, va_quantization = 0,
       va_yccQuantization = 0, va_3dStruct = HDMI_VS_VIDEO_3D_BUTT, va_timing = HDMI_VIDEO_TIMING_3840X2160P30,
       va_aspect = HDMI_PICTURE_ASPECT_16_9, va_activeAspect = 8, va_nups = 0, va_xvycc = False\<rparr>,
     ca_audioAttr = \<lparr>aa_codingType = 1, aa_ifType = 0, aa_channels = 2\<rparr>,
     ca_hdrAttr = \<lparr>ha_mode = 0, ha_eotfType = 2, ha_metadataType = 0, ha_descriptor =
       \<lparr>displayPrimaries0X = 13250, displayPrimaries0Y = 34500, displayPrimaries1X = 7500,
        displayPrimaries1Y = 3000, displayPrimaries2X = 34000, displayPrimaries2Y = 16000,
        whitePointX = 15635, whitePointY = 16450, maxDisplayMasteringLuminance = 1000,
        minDisplayMasteringLuminance = 50, maxContentLightLevel = 1000,
        maxFrameAverageLightLevel = 400\<rparr>\<rparr>\<rparr>\<rparr>"

lemma demo_ops:
  "cn_ops demo_cntlr = Some demo_ops" "op_infoFrameEnable demo_ops" "op_infoFrameSend demo_ops = Some (\<lambda>_ _. 0)"
  by (simp_all add: demo_cntlr_def demo_ops_def)


lemma demo_mode:
  "HdmiCommonGetVic (va_timing (ca_videoAttr (cn_attr demo_cntlr))) (va_aspect (ca_videoAttr (cn_attr demo_cntlr))) False
    = HDMI_VIC_3840X2160P30_16_9"
  by (simp add: HdmiCommonGetVic_def demo_cntlr_def g_ceaVideoDefInfoMap_def video_row_def)

definition demo_frame :: HdmiInfoFrame where
  "demo_frame =
     (let h = \<lparr>ih_type = 0, ih_verNum = 0, ih_len = 0\<rparr>; v = ca_videoAttr (cn_attr demo_cntlr) in
      \<lparr>fr_hdrSupport = True,
       fr_vs = \<lparr>vs_header = h, vs_oui = 0, vs_format = 0, vs_vic = 0, vs_3dMetaPresent = False,
         vs_3dStruct = 0, vs_tail = replicate 28 0\<rparr>,
       fr_avi = HdmiFillAviInfoFrame v (ca_hdrAttr (cn_attr demo_cntlr)) 0,
       fr_audio = HdmiFillAudioInfoFrame (ca_audioAttr (cn_attr demo_cntlr)),
       fr_spd = HdmiFillSpdInfoFrame [] [] 0,
       fr_drm = HdmiFillDrmInfoFrame (ca_hdrAttr (cn_attr demo_cntlr)),
       fr_userLen = 0, fr_userData = replicate 22 0\<rparr>)"

theorem drm_frame_sends_low_bytes_twice_witness:
  "\<exists>k. HdmiDrmInfoFrameSend (Some demo_cntlr) demo_frame True
    = Some (0, demo_frame\<lparr>fr_drm := HdmiFillDrmInfoFrame (ca_hdrAttr (cn_attr demo_cntlr))\<rparr>,
        sent (\<lambda>_ _. 0) 135
          [135, 1, 26, k, 2, 0, 194, 51, 196, 196, 76, 76, 184, 184, 208, 208, 128, 128, 19, 19, 66, 66,
           232, 232, 50, 50, 232, 232, 144, 144, 0, 0])"
proof -
  define hdr where "hdr = ca_hdrAttr (cn_attr demo_cntlr)"
  have v: "concat (map (\<lambda>b. [b, b]) (drm_low_bytes (ha_descriptor hdr)))
      = [196, 196, 76, 76, 184, 184, 208, 208, 128, 128, 19, 19, 66, 66, 232, 232, 50, 50, 232, 232, 144, 144]"
    "ucast (ha_eotfType hdr) = (2 :: uint8_t)" "ucast (ha_metadataType hdr) = (0 :: uint8_t)"
    "ucast (displayPrimaries0X (ha_descriptor hdr)) = (194 :: uint8_t)"
    "ucast (drop_bit 8 (displayPrimaries0X (ha_descriptor hdr))) = (51 :: uint8_t)"
    by (simp_all add: hdr_def drm_low_bytes_def demo_cntlr_def)
  show ?thesis
    using drm_frame_sends_low_bytes_twice [OF demo_ops, of demo_frame]
    unfolding Let_def hdr_def [symmetric] v by auto
qed

theorem vendor_4k_frame_unchecked_witness:
  "\<exists>vs buf. HdmiVsInfoFrameSend (Some demo_cntlr) demo_frame True False
     = Some (0, demo_frame\<lparr>fr_vs := vs\<rparr>, sent (\<lambda>_ _. 0) 129 buf) \<and> buf ! 3 = 0"
proof -
  have "va_3dStruct (ca_videoAttr (cn_attr demo_cntlr)) = HDMI_VS_VIDEO_3D_BUTT"
    "length (fr_userData demo_frame) = 22"
    by (simp_all add: demo_cntlr_def demo_frame_def Let_def)
  from vendor_4k_frame_unchecked [OF demo_ops _ this, of False] show ?thesis
    by (fastforce simp: demo_mode)
qed

theorem spd_frame_without_header_witness:
  "\<exists>k. HdmiSpdInfoFrameSend (Some demo_cntlr) demo_frame True [72, 68, 70] [66] 1
    = Some (0, demo_frame\<lparr>fr_spd := HdmiFillSpdInfoFrame [72, 68, 70] [66] 1\<rparr>,
        sent (\<lambda>_ _. 0) 131 ([0, 0, 0, k, 72, 68, 70] @ replicate 5 0 @ [66] @ replicate 15 0 @ [1, 0, 0, 0]))"
  using spd_frame_without_header [OF demo_ops, of demo_frame "[72, 68, 70]" "[66]" 1]
  by (auto simp: name_field_def)

theorem avi_frame_sent_witness:
  "\<exists>avi buf. HdmiAviInfoFrameSend (Some demo_cntlr) demo_frame True
     = Some (0, demo_frame\<lparr>fr_avi := avi\<rparr>, sent (\<lambda>_ _. 0) 130 buf) \<and> length buf = 32 \<and> buf ! 5 AND 15 = 8"
  using avi_frame_sent [OF demo_ops, of demo_frame] by (fastforce simp: demo_cntlr_def)
end
