(* ===== verification/Hdmi_Edid.thy ===== *)
theory Hdmi_Edid
  imports Hdmi_Common
begin

text \<open>
  The identification data of a display, \<^verbatim>\<open>support/platform/src/hdmi/hdmi_edid.c\<close>, first part: the
  capabilities a source keeps of its sink (\<^verbatim>\<open>hdmi_edid.h\<close>), and the phases that read the first
  block of 128 bytes.

  The bytes are an array of four blocks; a pointer into it is an index, and a read behind its end
  is a fault.  The arrays of the capabilities are lists of their declared length, and a store
  outside one is a fault too.  What the display sends is arbitrary: nothing is assumed of the bytes.
\<close>

section \<open>Constants\<close>

abbreviation (input) HDMI_EDID_SINGLE_BLOCK_SIZE :: nat where "HDMI_EDID_SINGLE_BLOCK_SIZE \<equiv> 128"
abbreviation (input) HDMI_EDID_MAX_BLOCK_NUM :: nat where "HDMI_EDID_MAX_BLOCK_NUM \<equiv> 4"
abbreviation (input) HDMI_EDID_TOTAL_SIZE :: nat where "HDMI_EDID_TOTAL_SIZE \<equiv> 512"
abbreviation (input) HDMI_EDID_BLOCK_HEADER_FIELD_LEN :: nat where "HDMI_EDID_BLOCK_HEADER_FIELD_LEN \<equiv> 8"
abbreviation (input) HDMI_EDID_MANUFACRURER_NAME_MAX_LEN :: nat where "HDMI_EDID_MANUFACRURER_NAME_MAX_LEN \<equiv> 4"
abbreviation (input) HDMI_EDID_ESTABLISHED_TIMING_BUTT :: nat where "HDMI_EDID_ESTABLISHED_TIMING_BUTT \<equiv> 17"
abbreviation (input) HDMI_EDID_STANDARD_TIMING_COUNT :: nat where "HDMI_EDID_STANDARD_TIMING_COUNT \<equiv> 8"
abbreviation (input) HDMI_EDID_MAX_DETAILED_TIMING_COUNT :: nat where "HDMI_EDID_MAX_DETAILED_TIMING_COUNT \<equiv> 10"
abbreviation (input) HDMI_EDID_MONITOR_DATA_FIELD_LEN :: nat where "HDMI_EDID_MONITOR_DATA_FIELD_LEN \<equiv> 13"
abbreviation (input) HDMI_EDID_MAX_SINK_NAME_COUNT :: nat where "HDMI_EDID_MAX_SINK_NAME_COUNT \<equiv> 14"
abbreviation (input) HDMI_EDID_EXTENSION_BLOCK_ADDR :: nat where "HDMI_EDID_EXTENSION_BLOCK_ADDR \<equiv> 126"
abbreviation (input) HDMI_EDID_CHECKSUM_ADDR :: nat where "HDMI_EDID_CHECKSUM_ADDR \<equiv> 127"
abbreviation (input) HDMI_EDID_EXTENSION_AUDIO_MAX_SAMPLE_RATE_NUM :: nat where "HDMI_EDID_EXTENSION_AUDIO_MAX_SAMPLE_RATE_NUM \<equiv> 8"
abbreviation (input) HDMI_EDID_EXTENSION_AUDIO_MAX_BIT_DEPTH_NUM :: nat where "HDMI_EDID_EXTENSION_AUDIO_MAX_BIT_DEPTH_NUM \<equiv> 6"
abbreviation (input) HDMI_EDID_EXTENSION_AUDIO_CAP_COUNT :: nat where "HDMI_EDID_EXTENSION_AUDIO_CAP_COUNT \<equiv> 16"
abbreviation (input) HDMI_EDID_EXTENSION_MAX_VIC_COUNT :: nat where "HDMI_EDID_EXTENSION_MAX_VIC_COUNT \<equiv> 128"
abbreviation (input) HDMI_VS_VIDEO_3D_BUTT :: nat where "HDMI_VS_VIDEO_3D_BUTT \<equiv> 9"
abbreviation (input) HDMI_EDID_AUDIO_SPEAKER_BUTT :: nat where "HDMI_EDID_AUDIO_SPEAKER_BUTT \<equiv> 11"
abbreviation (input) HDMI_EDID_EXTENSION_SHORT_AUDIO_DESCRIPTOR_LEN :: nat where "HDMI_EDID_EXTENSION_SHORT_AUDIO_DESCRIPTOR_LEN \<equiv> 3"
abbreviation (input) HDMI_EDID_EXTENSION_MAX_SHORT_AUDIO_DESCRIPTOR_NUM :: nat where "HDMI_EDID_EXTENSION_MAX_SHORT_AUDIO_DESCRIPTOR_NUM \<equiv> 10"
abbreviation (input) HDMI_EDID_DETAILED_TIMING_DESCRIPTOR_FIELD_LEN :: nat where "HDMI_EDID_DETAILED_TIMING_DESCRIPTOR_FIELD_LEN \<equiv> 18"

section \<open>Capabilities of the sink\<close>

record HdmiEdidVendorInfo =
  vi_mfrName :: bytes
  vi_productCode :: uint16_t
  vi_serialNumber :: uint32_t
  vi_week :: uint8_t
  vi_year :: uint8_t

definition zero_HdmiEdidVendorInfo :: HdmiEdidVendorInfo where
  "zero_HdmiEdidVendorInfo = \<lparr>
     vi_mfrName = replicate HDMI_EDID_MANUFACRURER_NAME_MAX_LEN 0, vi_productCode = 0,
     vi_serialNumber = 0, vi_week = 0, vi_year = 0\<rparr>"

record HdmiEdidVersionInfo =
  ve_version :: uint8_t
  ve_revision :: uint8_t

definition zero_HdmiEdidVersionInfo :: HdmiEdidVersionInfo where
  "zero_HdmiEdidVersionInfo = \<lparr>
     ve_version = 0, ve_revision = 0\<rparr>"

record HdmiEdidBasicDispParamInfo =
  bd_width :: uint8_t
  bd_height :: uint8_t

definition zero_HdmiEdidBasicDispParamInfo :: HdmiEdidBasicDispParamInfo where
  "zero_HdmiEdidBasicDispParamInfo = \<lparr>
     bd_width = 0, bd_height = 0\<rparr>"

record HdmiEdidColorInfo =
  co_redX :: uint16_t
  co_redY :: uint16_t
  co_greenX :: uint16_t
  co_greenY :: uint16_t
  co_blueX :: uint16_t
  co_blueY :: uint16_t
  co_whiteX :: uint16_t
  co_whiteY :: uint16_t

definition zero_HdmiEdidColorInfo :: HdmiEdidColorInfo where
  "zero_HdmiEdidColorInfo = \<lparr>
     co_redX = 0, co_redY = 0, co_greenX = 0, co_greenY = 0, co_blueX = 0, co_blueY = 0,
     co_whiteX = 0, co_whiteY = 0\<rparr>"

record HdmiEdidEstablishedTimingsInfo =
  et_estTimingsNum :: uint32_t
  et_estTimings :: "uint32_t list"

definition zero_HdmiEdidEstablishedTimingsInfo :: HdmiEdidEstablishedTimingsInfo where
  "zero_HdmiEdidEstablishedTimingsInfo = \<lparr>
     et_estTimingsNum = 0, et_estTimings = replicate HDMI_EDID_ESTABLISHED_TIMING_BUTT 0\<rparr>"

record HdmiEdidStdTimingInfo =
  st_horizPixel :: uint32_t
  st_vertPixel :: uint32_t
  st_refreshRate :: uint32_t

definition zero_HdmiEdidStdTimingInfo :: HdmiEdidStdTimingInfo where
  "zero_HdmiEdidStdTimingInfo = \<lparr>
     st_horizPixel = 0, st_vertPixel = 0, st_refreshRate = 0\<rparr>"

record HdmiEdidPreferredTimingInfo =
  pt_pixelClk :: uint32_t
  pt_hActive :: uint32_t
  pt_hBackBlank :: uint32_t
  pt_hFrontBlank :: uint32_t
  pt_hSyncPluseWidth :: uint32_t
  pt_vActive :: uint32_t
  pt_vBackBlank :: uint32_t
  pt_vFrontBlank :: uint32_t
  pt_vSyncPluseWidth :: uint32_t
  pt_imageWidth :: uint32_t
  pt_imageHeight :: uint32_t
  pt_interlaceFlag :: bool
  pt_idv :: bool
  pt_ihs :: bool
  pt_ivs :: bool

definition zero_HdmiEdidPreferredTimingInfo :: HdmiEdidPreferredTimingInfo where
  "zero_HdmiEdidPreferredTimingInfo = \<lparr>
     pt_pixelClk = 0, pt_hActive = 0, pt_hBackBlank = 0, pt_hFrontBlank = 0,
     pt_hSyncPluseWidth = 0, pt_vActive = 0, pt_vBackBlank = 0, pt_vFrontBlank = 0,
     pt_vSyncPluseWidth = 0, pt_imageWidth = 0, pt_imageHeight = 0, pt_interlaceFlag = False,
     pt_idv = False, pt_ihs = False, pt_ivs = False\<rparr>"

record HdmiEdidColorSpace =
  csp_rgb444 :: bool
  csp_ycbcr422 :: bool
  csp_ycbcr444 :: bool
  csp_ycbcr420 :: bool

definition zero_HdmiEdidColorSpace :: HdmiEdidColorSpace where
  "zero_HdmiEdidColorSpace = \<lparr>
     csp_rgb444 = False, csp_ycbcr422 = False, csp_ycbcr444 = False, csp_ycbcr420 = False\<rparr>"

record HdmiEdidAudioInfo =
  ai_formatCode :: c_enum
  ai_sampleRateNum :: uint32_t
  ai_sampleRate :: "c_enum list"
  ai_bitDepthNum :: uint32_t
  ai_bitDepth :: "c_enum list"
  ai_channels :: uint8_t
  ai_maxBitRate :: uint32_t

definition zero_HdmiEdidAudioInfo :: HdmiEdidAudioInfo where
  "zero_HdmiEdidAudioInfo = \<lparr>
     ai_formatCode = 0, ai_sampleRateNum = 0,
     ai_sampleRate = replicate HDMI_EDID_EXTENSION_AUDIO_MAX_SAMPLE_RATE_NUM 0,
     ai_bitDepthNum = 0,
     ai_bitDepth = replicate HDMI_EDID_EXTENSION_AUDIO_MAX_BIT_DEPTH_NUM 0, ai_channels = 0,
     ai_maxBitRate = 0\<rparr>"

record HdmiEdidVideoInfo =
  vin_vicNum :: uint32_t
  vin_vic :: "uint32_t list"
  vin_nativeFormat :: uint32_t

definition zero_HdmiEdidVideoInfo :: HdmiEdidVideoInfo where
  "zero_HdmiEdidVideoInfo = \<lparr>
     vin_vicNum = 0, vin_vic = replicate HDMI_EDID_EXTENSION_MAX_VIC_COUNT 0,
     vin_nativeFormat = 0\<rparr>"

record HdmiEdidVsdbCecAddr =
  ca_addrValid :: bool
  ca_phyAddrA :: uint8_t
  ca_phyAddrB :: uint8_t
  ca_phyAddrC :: uint8_t
  ca_phyAddrD :: uint8_t

definition zero_HdmiEdidVsdbCecAddr :: HdmiEdidVsdbCecAddr where
  "zero_HdmiEdidVsdbCecAddr = \<lparr>
     ca_addrValid = False, ca_phyAddrA = 0, ca_phyAddrB = 0, ca_phyAddrC = 0, ca_phyAddrD = 0\<rparr>"

record HdmiEdidDeepColor =
  dpc_dcY444 :: bool
  dpc_dc30bit :: bool
  dpc_dc36bit :: bool
  dpc_dc48bit :: bool

definition zero_HdmiEdidDeepColor :: HdmiEdidDeepColor where
  "zero_HdmiEdidDeepColor = \<lparr>
     dpc_dcY444 = False, dpc_dc30bit = False, dpc_dc36bit = False, dpc_dc48bit = False\<rparr>"

record HdmiEdidExtVsdbInfo =
  xv_cecAddr :: HdmiEdidVsdbCecAddr
  xv_deepColor :: HdmiEdidDeepColor
  xv_supportAi :: bool
  xv_supportDviDual :: bool
  xv_latencyFieldsPresent :: bool
  xv_iLatencyFieldsPresent :: bool
  xv_hdmiVideoPresent :: bool
  xv_videoLatency :: uint8_t
  xv_audioLatency :: uint8_t
  xv_interlacedVideoLatency :: uint8_t
  xv_interlacedAudioLatency :: uint8_t
  xv_3dPresent :: bool
  xv_3dMultiPresent :: uint8_t
  xv_support3dType :: "bool list"

definition zero_HdmiEdidExtVsdbInfo :: HdmiEdidExtVsdbInfo where
  "zero_HdmiEdidExtVsdbInfo = \<lparr>
     xv_cecAddr = zero_HdmiEdidVsdbCecAddr, xv_deepColor = zero_HdmiEdidDeepColor,
     xv_supportAi = False, xv_supportDviDual = False, xv_latencyFieldsPresent = False,
     xv_iLatencyFieldsPresent = False, xv_hdmiVideoPresent = False, xv_videoLatency = 0,
     xv_audioLatency = 0, xv_interlacedVideoLatency = 0, xv_interlacedAudioLatency = 0,
     xv_3dPresent = False, xv_3dMultiPresent = 0,
     xv_support3dType = replicate HDMI_VS_VIDEO_3D_BUTT False\<rparr>"

record HdmiEdidExtHfVsdbDeepColor =
  hdc_dc30bit :: bool
  hdc_dc36bit :: bool
  hdc_dc48bit :: bool

definition zero_HdmiEdidExtHfVsdbDeepColor :: HdmiEdidExtHfVsdbDeepColor where
  "zero_HdmiEdidExtHfVsdbDeepColor = \<lparr>
     hdc_dc30bit = False, hdc_dc36bit = False, hdc_dc48bit = False\<rparr>"

record HdmiEdidExtHfVsdbDscInfo =
  dsc_dsc1p2 :: bool
  dsc_dscNative420 :: bool
  dsc_dscAllBpp :: bool
  dsc_dsc10bpc :: bool
  dsc_dsc20bpc :: bool
  dsc_dsc16bpc :: bool
  dsc_dscMaxSlices :: uint8_t
  dsc_dscMaxFrlRate :: uint8_t
  dsc_dscTotalChunkKBytes :: uint8_t

definition zero_HdmiEdidExtHfVsdbDscInfo :: HdmiEdidExtHfVsdbDscInfo where
  "zero_HdmiEdidExtHfVsdbDscInfo = \<lparr>
     dsc_dsc1p2 = False, dsc_dscNative420 = False, dsc_dscAllBpp = False,
     dsc_dsc10bpc = False, dsc_dsc20bpc = False, dsc_dsc16bpc = False, dsc_dscMaxSlices = 0,
     dsc_dscMaxFrlRate = 0, dsc_dscTotalChunkKBytes = 0\<rparr>"

record HdmiEdidExtHfVsdbInfo =
  hf_scdcPresent :: bool
  hf_rrCapable :: bool
  hf_lte340McscScramble :: bool
  hf_independentView :: bool
  hf_dualView :: bool
  hf_3dOsdDisparity :: bool
  hf_dc :: HdmiEdidExtHfVsdbDeepColor
  hf_maxFrlRate :: uint8_t
  hf_fapaStartLocation :: bool
  hf_allm :: bool
  hf_fva :: bool
  hf_cnmVrr :: bool
  hf_cinemaVrr :: bool
  hf_mDelta :: bool
  hf_vrrMin :: uint8_t
  hf_vrrMax :: uint16_t
  hf_dscInfo :: HdmiEdidExtHfVsdbDscInfo

definition zero_HdmiEdidExtHfVsdbInfo :: HdmiEdidExtHfVsdbInfo where
  "zero_HdmiEdidExtHfVsdbInfo = \<lparr>
     hf_scdcPresent = False, hf_rrCapable = False, hf_lte340McscScramble = False,
     hf_independentView = False, hf_dualView = False, hf_3dOsdDisparity = False,
     hf_dc = zero_HdmiEdidExtHfVsdbDeepColor, hf_maxFrlRate = 0, hf_fapaStartLocation = False,
     hf_allm = False, hf_fva = False, hf_cnmVrr = False, hf_cinemaVrr = False,
     hf_mDelta = False, hf_vrrMin = 0, hf_vrrMax = 0,
     hf_dscInfo = zero_HdmiEdidExtHfVsdbDscInfo\<rparr>"

record HdmiEdidColorimetry =
  cmy_xvYcc601 :: bool
  cmy_xvYcc709 :: bool
  cmy_sYcc601 :: bool
  cmy_opYcc601 :: bool
  cmy_opRgb :: bool
  cmy_bt2020cYcc :: bool
  cmy_bt2020Ycc :: bool
  cmy_bt2020Rgb :: bool
  cmy_dciP3 :: bool
  cmy_md :: uint8_t

definition zero_HdmiEdidColorimetry :: HdmiEdidColorimetry where
  "zero_HdmiEdidColorimetry = \<lparr>
     cmy_xvYcc601 = False, cmy_xvYcc709 = False, cmy_sYcc601 = False, cmy_opYcc601 = False,
     cmy_opRgb = False, cmy_bt2020cYcc = False, cmy_bt2020Ycc = False, cmy_bt2020Rgb = False,
     cmy_dciP3 = False, cmy_md = 0\<rparr>"

record HdmiEdidVsvdbDolbyCap =
  dol_oui :: uint32_t
  dol_version :: uint8_t
  dol_yuv422 :: bool
  dol_b2160p60 :: bool
  dol_globalDimming :: bool
  dol_redX :: uint16_t
  dol_redY :: uint16_t
  dol_greenX :: uint16_t
  dol_greenY :: uint16_t
  dol_blueX :: uint16_t
  dol_blueY :: uint16_t
  dol_whiteX :: uint16_t
  dol_whiteY :: uint16_t
  dol_minLuminance :: uint16_t
  dol_maxLuminance :: uint16_t
  dol_dMajorVer :: uint8_t
  dol_dMinorVer :: uint8_t
  dol_colorimetry :: bool
  dol_dmVer :: uint8_t

definition zero_HdmiEdidVsvdbDolbyCap :: HdmiEdidVsvdbDolbyCap where
  "zero_HdmiEdidVsvdbDolbyCap = \<lparr>
     dol_oui = 0, dol_version = 0, dol_yuv422 = False, dol_b2160p60 = False,
     dol_globalDimming = False, dol_redX = 0, dol_redY = 0, dol_greenX = 0, dol_greenY = 0,
     dol_blueX = 0, dol_blueY = 0, dol_whiteX = 0, dol_whiteY = 0, dol_minLuminance = 0,
     dol_maxLuminance = 0, dol_dMajorVer = 0, dol_dMinorVer = 0, dol_colorimetry = False,
     dol_dmVer = 0\<rparr>"

record HdmiEdidVideoCapability =
  vcp_qy :: bool
  vcp_qs :: bool

definition zero_HdmiEdidVideoCapability :: HdmiEdidVideoCapability where
  "zero_HdmiEdidVideoCapability = \<lparr>
     vcp_qy = False, vcp_qs = False\<rparr>"

record HdmiEdidHdrSmdbEotf =
  eo_sdr :: bool
  eo_hdr :: bool
  eo_smpteSt2048 :: bool
  eo_hlg :: bool

definition zero_HdmiEdidHdrSmdbEotf :: HdmiEdidHdrSmdbEotf where
  "zero_HdmiEdidHdrSmdbEotf = \<lparr>
     eo_sdr = False, eo_hdr = False, eo_smpteSt2048 = False, eo_hlg = False\<rparr>"

record HdmiEdidHdrCap =
  hdr_eotf :: HdmiEdidHdrSmdbEotf
  hdr_smType1 :: bool
  hdr_maxLuminancedata :: uint8_t
  hdr_maxFrameAverageLuminanceData :: uint8_t
  hdr_minLuminanceData :: uint8_t

definition zero_HdmiEdidHdrCap :: HdmiEdidHdrCap where
  "zero_HdmiEdidHdrCap = \<lparr>
     hdr_eotf = zero_HdmiEdidHdrSmdbEotf, hdr_smType1 = False, hdr_maxLuminancedata = 0,
     hdr_maxFrameAverageLuminanceData = 0, hdr_minLuminanceData = 0\<rparr>"

record HdmiEdidYcbcr420Cap =
  y4_onlySupportY420VicNum :: uint32_t
  y4_onlySupportY420Format :: "uint32_t list"
  y4_SupportY420VicNum :: uint32_t
  y4_SupportY420Format :: "uint32_t list"

definition zero_HdmiEdidYcbcr420Cap :: HdmiEdidYcbcr420Cap where
  "zero_HdmiEdidYcbcr420Cap = \<lparr>
     y4_onlySupportY420VicNum = 0,
     y4_onlySupportY420Format = replicate HDMI_EDID_EXTENSION_MAX_VIC_COUNT 0,
     y4_SupportY420VicNum = 0,
     y4_SupportY420Format = replicate HDMI_EDID_EXTENSION_MAX_VIC_COUNT 0\<rparr>"

record HdmiSinkDeviceCapability =
  sk_extBlockNum :: uint8_t
  sk_vendorInfo :: HdmiEdidVendorInfo
  sk_verInfo :: HdmiEdidVersionInfo
  sk_sinkDeviceName :: bytes
  sk_disp :: HdmiEdidBasicDispParamInfo
  sk_establishedTimingsInfo :: HdmiEdidEstablishedTimingsInfo
  sk_stdTimingsInfo :: "HdmiEdidStdTimingInfo list"
  sk_colorInfo :: HdmiEdidColorInfo
  sk_colorSpace :: HdmiEdidColorSpace
  sk_preTimingCnt :: uint32_t
  sk_preTimingInfo :: "HdmiEdidPreferredTimingInfo list"
  sk_audioInfoCnt :: uint32_t
  sk_audioInfo :: "HdmiEdidAudioInfo list"
  sk_videoInfo :: HdmiEdidVideoInfo
  sk_maxTmdsClk :: uint32_t
  sk_supportHdmi14 :: bool
  sk_supportHdmi20 :: bool
  sk_supportAudio :: bool
  sk_vsdbInfo :: HdmiEdidExtVsdbInfo
  sk_hfVsdbInfo :: HdmiEdidExtHfVsdbInfo
  sk_supportAudioSpeaker :: "bool list"
  sk_colorimetry :: HdmiEdidColorimetry
  sk_videoCap :: HdmiEdidVideoCapability
  sk_y420Cap :: HdmiEdidYcbcr420Cap
  sk_hdrCap :: HdmiEdidHdrCap
  sk_dolbyCap :: HdmiEdidVsvdbDolbyCap

definition zero_HdmiSinkDeviceCapability :: HdmiSinkDeviceCapability where
  "zero_HdmiSinkDeviceCapability = \<lparr>
     sk_extBlockNum = 0, sk_vendorInfo = zero_HdmiEdidVendorInfo,
     sk_verInfo = zero_HdmiEdidVersionInfo,
     sk_sinkDeviceName = replicate HDMI_EDID_MAX_SINK_NAME_COUNT 0,
     sk_disp = zero_HdmiEdidBasicDispParamInfo,
     sk_establishedTimingsInfo = zero_HdmiEdidEstablishedTimingsInfo,
     sk_stdTimingsInfo = replicate HDMI_EDID_STANDARD_TIMING_COUNT zero_HdmiEdidStdTimingInfo,
     sk_colorInfo = zero_HdmiEdidColorInfo, sk_colorSpace = zero_HdmiEdidColorSpace,
     sk_preTimingCnt = 0,
     sk_preTimingInfo = replicate HDMI_EDID_MAX_DETAILED_TIMING_COUNT zero_HdmiEdidPreferredTimingInfo,
     sk_audioInfoCnt = 0,
     sk_audioInfo = replicate HDMI_EDID_EXTENSION_AUDIO_CAP_COUNT zero_HdmiEdidAudioInfo,
     sk_videoInfo = zero_HdmiEdidVideoInfo, sk_maxTmdsClk = 0, sk_supportHdmi14 = False,
     sk_supportHdmi20 = False, sk_supportAudio = False,
     sk_vsdbInfo = zero_HdmiEdidExtVsdbInfo, sk_hfVsdbInfo = zero_HdmiEdidExtHfVsdbInfo,
     sk_supportAudioSpeaker = replicate HDMI_EDID_AUDIO_SPEAKER_BUTT False,
     sk_colorimetry = zero_HdmiEdidColorimetry, sk_videoCap = zero_HdmiEdidVideoCapability,
     sk_y420Cap = zero_HdmiEdidYcbcr420Cap, sk_hdrCap = zero_HdmiEdidHdrCap,
     sk_dolbyCap = zero_HdmiEdidVsvdbDolbyCap\<rparr>"

record HdmiEdid =
  ed_edidPhase :: bool
  ed_rawLen :: uint32_t
  ed_raw :: bytes
  ed_sinkCap :: HdmiSinkDeviceCapability

definition zero_HdmiEdid :: HdmiEdid where
  "zero_HdmiEdid = \<lparr>
     ed_edidPhase = False, ed_rawLen = 0, ed_raw = replicate HDMI_EDID_TOTAL_SIZE 0,
     ed_sinkCap = zero_HdmiSinkDeviceCapability\<rparr>"

section \<open>Access to the bytes\<close>

text \<open>The C expression \<^verbatim>\<open>(data & mark) ? true : false\<close>.\<close>

definition marked :: "uint8_t \<Rightarrow> uint8_t \<Rightarrow> bool" where
  "marked data mark \<longleftrightarrow> data AND mark \<noteq> 0"

abbreviation (input) u16 :: "uint8_t \<Rightarrow> uint16_t" where "u16 b \<equiv> ucast b"
abbreviation (input) u32b :: "uint8_t \<Rightarrow> uint32_t" where "u32b b \<equiv> ucast b"

record HdmiEdidFirstBlockInfo =
  fb_header :: bytes
  fb_vendorName :: bytes
  fb_productCode :: bytes
  fb_serialNumber :: bytes
  fb_week :: uint8_t
  fb_year :: uint8_t
  fb_version :: uint8_t
  fb_revision :: uint8_t
  fb_videoInput :: uint8_t
  fb_width :: uint8_t
  fb_height :: uint8_t
  fb_gamma :: uint8_t
  fb_features :: uint8_t
  fb_redGreenLow :: uint8_t
  fb_blueWhiteLow :: uint8_t
  fb_redX :: uint8_t
  fb_redY :: uint8_t
  fb_greenX :: uint8_t
  fb_greenY :: uint8_t
  fb_blueX :: uint8_t
  fb_blueY :: uint8_t
  fb_whiteX :: uint8_t
  fb_whiteY :: uint8_t
  fb_estTimings :: bytes
  fb_stdTiming :: bytes
  fb_detailedTiming1 :: bytes
  fb_detailedTiming2 :: bytes
  fb_detailedTiming3 :: bytes
  fb_detailedTiming4 :: bytes
  fb_extensionFlag :: uint8_t
  fb_checksum :: uint8_t

text \<open>The cast of the first 128 bytes to the structure, all of whose fields are bytes.\<close>

definition first_block :: "bytes \<Rightarrow> HdmiEdidFirstBlockInfo option" where
  "first_block raw =
     (if HDMI_EDID_SINGLE_BLOCK_SIZE \<le> length raw then Some \<lparr>
        fb_header = take 8 (drop 0 raw), fb_vendorName = take 2 (drop 8 raw),
        fb_productCode = take 2 (drop 10 raw), fb_serialNumber = take 4 (drop 12 raw),
        fb_week = raw ! 16, fb_year = raw ! 17, fb_version = raw ! 18, fb_revision = raw ! 19,
        fb_videoInput = raw ! 20, fb_width = raw ! 21, fb_height = raw ! 22,
        fb_gamma = raw ! 23, fb_features = raw ! 24, fb_redGreenLow = raw ! 25,
        fb_blueWhiteLow = raw ! 26, fb_redX = raw ! 27, fb_redY = raw ! 28,
        fb_greenX = raw ! 29, fb_greenY = raw ! 30, fb_blueX = raw ! 31, fb_blueY = raw ! 32,
        fb_whiteX = raw ! 33, fb_whiteY = raw ! 34, fb_estTimings = take 3 (drop 35 raw),
        fb_stdTiming = take 16 (drop 38 raw), fb_detailedTiming1 = take 18 (drop 54 raw),
        fb_detailedTiming2 = take 18 (drop 72 raw),
        fb_detailedTiming3 = take 18 (drop 90 raw),
        fb_detailedTiming4 = take 18 (drop 108 raw), fb_extensionFlag = raw ! 126,
        fb_checksum = raw ! 127\<rparr>
      else None)"

section \<open>Resetting and copying out\<close>

definition HdmiEdidReset :: "HdmiEdid option \<Rightarrow> HDF_STATUS \<times> HdmiEdid option" where
  "HdmiEdidReset edid =
     (case edid of None \<Rightarrow> (HDF_ERR_INVALID_PARAM, None) | Some e \<Rightarrow> (HDF_SUCCESS, Some zero_HdmiEdid))"

text \<open>The result is a length or a status code; the destination is the caller's buffer.\<close>

definition HdmiEdidGetRaw :: "HdmiEdid option \<Rightarrow> bytes option \<Rightarrow> uint32_t \<Rightarrow> (int \<times> bytes option) option" where
  "HdmiEdidGetRaw edid raw len =
     (case (edid, raw) of
        (Some e, Some dest) \<Rightarrow>
          (let length = (if len < ed_rawLen e then len else ed_rawLen e)
           in if length = 0 then Some (sint length, raw)
              else do {
                bs \<leftarrow> mem_read (ed_raw e) 0 (unat length);
                (ok, dest') \<leftarrow> memcpy_s dest 0 (unat len) bs;
                Some (if ok then (sint length, Some dest') else (hdf_status_code HDF_ERR_IO, raw))
              })
      | _ \<Rightarrow> Some (hdf_status_code HDF_ERR_INVALID_PARAM, raw))"

section \<open>The phases of the first block\<close>

type_synonym edid_phase = "HdmiEdid \<Rightarrow> (HDF_STATUS \<times> HdmiEdid) option"

definition g_edidHeader :: bytes where
  "g_edidHeader = [0x00, 0xff, 0xff, 0xff, 0xff, 0xff, 0xff, 0x00]"

definition HdmiEdidHeaderPhase :: edid_phase where
  "HdmiEdidHeaderPhase edid = do {
     block \<leftarrow> first_block (ed_raw edid);
     Some (if fb_header block \<noteq> g_edidHeader then HDF_ERR_INVALID_PARAM else HDF_SUCCESS, edid)
   }"

definition HdmiEdidBlockCheckSum :: "bytes \<Rightarrow> nat \<Rightarrow> HDF_STATUS option" where
  "HdmiEdidBlockCheckSum raw data = do {
     block \<leftarrow> mem_read raw data HDMI_EDID_SINGLE_BLOCK_SIZE;
     let checkSum = (\<Sum>b\<leftarrow>block. u32b b);
     Some (if checkSum AND 0xff = 0 then HDF_SUCCESS else HDF_FAILURE)
   }"

text \<open>One of the three letters of the manufacturer, five bits of the 16.\<close>

definition mfr_letter :: "uint16_t \<Rightarrow> bytes \<Rightarrow> nat \<Rightarrow> bytes" where
  "mfr_letter data name i =
     (let tmpData = drop_bit (5 * i) (data AND push_bit (5 * i) 0x1F)
      in if 0 < tmpData \<and> tmpData < 27 then name[2 - i := of_char (CHR ''A'') + ucast tmpData - 1] else name)"

definition HdmiEdidVendorInfoPhase :: edid_phase where
  "HdmiEdidVendorInfoPhase edid = do {
     block \<leftarrow> first_block (ed_raw edid);
     let data = push_bit 8 (u16 (fb_vendorName block ! 0)) OR u16 (fb_vendorName block ! 1);
     let cap = ed_sinkCap edid;
     let vendor = sk_vendorInfo cap;
     let vendor = vendor\<lparr>vi_mfrName := foldl (mfr_letter data) (vi_mfrName vendor) [0, 1, 2]\<rparr>;
     let vendor = vendor\<lparr>vi_productCode :=
           push_bit 8 (u16 (fb_productCode block ! 1)) OR u16 (fb_productCode block ! 0)\<rparr>;
     let vendor = vendor\<lparr>vi_serialNumber := foldl
           (\<lambda>n i. n OR push_bit (8 * i) (u32b (fb_serialNumber block ! i))) (vi_serialNumber vendor) [0, 1, 2, 3]\<rparr>;
     let vendor = vendor\<lparr>vi_week := fb_week block, vi_year := ucast (u32b (fb_year block) + 1990)\<rparr>;
     Some (HDF_SUCCESS, edid\<lparr>ed_sinkCap := cap\<lparr>sk_vendorInfo := vendor\<rparr>\<rparr>)
   }"

definition HdmiEdidVersionInfoPhase :: edid_phase where
  "HdmiEdidVersionInfoPhase edid = do {
     block \<leftarrow> first_block (ed_raw edid);
     let cap = ed_sinkCap edid;
     Some (HDF_SUCCESS, edid\<lparr>ed_sinkCap := cap\<lparr>sk_verInfo :=
       \<lparr>ve_version = fb_version block, ve_revision = fb_revision block\<rparr>\<rparr>\<rparr>)
   }"

definition HdmiEdidBasicDispPhase :: edid_phase where
  "HdmiEdidBasicDispPhase edid = do {
     block \<leftarrow> first_block (ed_raw edid);
     let cap = ed_sinkCap edid;
     Some (HDF_SUCCESS, edid\<lparr>ed_sinkCap := cap\<lparr>sk_disp :=
       \<lparr>bd_width = fb_width block, bd_height = fb_height block\<rparr>\<rparr>\<rparr>)
   }"

text \<open>A coordinate of ten bits: eight from its own byte, two from a shared one.\<close>

definition colour_coord :: "uint8_t \<Rightarrow> uint8_t \<Rightarrow> nat \<Rightarrow> uint16_t" where
  "colour_coord high low shift = push_bit 2 (u16 high) OR (drop_bit shift (u16 low) AND 0x03)"

definition HdmiEdidColorFeaturePhase :: edid_phase where
  "HdmiEdidColorFeaturePhase edid = do {
     block \<leftarrow> first_block (ed_raw edid);
     let cap = ed_sinkCap edid;
     Some (HDF_SUCCESS, edid\<lparr>ed_sinkCap := cap\<lparr>sk_colorInfo := \<lparr>
       co_redX = colour_coord (fb_redX block) (fb_redGreenLow block) 6,
       co_redY = colour_coord (fb_redY block) (fb_redGreenLow block) 4,
       co_greenX = colour_coord (fb_greenX block) (fb_redGreenLow block) 2,
       co_greenY = colour_coord (fb_greenY block) (fb_redGreenLow block) 0,
       co_blueX = colour_coord (fb_blueX block) (fb_blueWhiteLow block) 6,
       co_blueY = colour_coord (fb_blueY block) (fb_blueWhiteLow block) 4,
       co_whiteX = colour_coord (fb_whiteX block) (fb_blueWhiteLow block) 2,
       co_whiteY = colour_coord (fb_whiteY block) (fb_blueWhiteLow block) 0\<rparr>\<rparr>\<rparr>)
   }"

fun est_timings_loop :: "uint32_t \<Rightarrow> nat list \<Rightarrow> HdmiEdidEstablishedTimingsInfo \<Rightarrow>
    HdmiEdidEstablishedTimingsInfo option" where
  "est_timings_loop data [] info = Some info"
| "est_timings_loop data (i # is) info =
     (if data AND push_bit i 1 > 0 then do {
        ts \<leftarrow> arr_set (et_estTimings info) i (of_nat i);
        est_timings_loop data is (info\<lparr>et_estTimings := ts, et_estTimingsNum := et_estTimingsNum info + 1\<rparr>)
      }
      else est_timings_loop data is info)"

definition HdmiEdidEstablisedTimingPhase :: edid_phase where
  "HdmiEdidEstablisedTimingPhase edid = do {
     block \<leftarrow> first_block (ed_raw edid);
     let data = foldl (\<lambda>d i. d OR push_bit (8 * i) (u32b (fb_estTimings block ! i))) 0 [0, 1, 2];
     let cap = ed_sinkCap edid;
     info \<leftarrow> est_timings_loop data [0..<HDMI_EDID_ESTABLISHED_TIMING_BUTT] (sk_establishedTimingsInfo cap);
     Some (HDF_SUCCESS, edid\<lparr>ed_sinkCap := cap\<lparr>sk_establishedTimingsInfo := info\<rparr>\<rparr>)
   }"

definition HdmiEdidGetStandardTimingVertPixel :: "uint32_t \<Rightarrow> uint32_t \<Rightarrow> uint32_t" where
  "HdmiEdidGetStandardTimingVertPixel aspectRatio horizPixel =
     (if aspectRatio = 0 then horizPixel * 10 div 16
      else if aspectRatio = 1 then horizPixel * 4 div 5
      else if aspectRatio = 2 then horizPixel * 3 div 4
      else if aspectRatio = 3 then horizPixel * 9 div 16
      else 0)"

definition std_timing :: "uint8_t \<Rightarrow> uint8_t \<Rightarrow> HdmiEdidStdTimingInfo \<Rightarrow> HdmiEdidStdTimingInfo" where
  "std_timing d0 d1 info =
     (if d0 \<noteq> 0x01 \<or> d1 \<noteq> 0x01 then
        let horizPixel = (u32b d0 + 31) * 8
        in \<lparr>st_horizPixel = horizPixel,
            st_vertPixel = HdmiEdidGetStandardTimingVertPixel (drop_bit 6 (u32b (d1 AND 0xC0))) horizPixel,
            st_refreshRate = u32b (d1 AND 0x3F) + 60\<rparr>
      else info)"

fun std_timing_loop :: "bytes \<Rightarrow> nat list \<Rightarrow> HdmiEdidStdTimingInfo list \<Rightarrow> HdmiEdidStdTimingInfo list option" where
  "std_timing_loop data [] infos = Some infos"
| "std_timing_loop data (i # is) infos = do {
     d0 \<leftarrow> raw_at data (2 * i);
     d1 \<leftarrow> raw_at data (2 * i + 1);
     info \<leftarrow> arr_get infos i;
     infos' \<leftarrow> arr_set infos i (std_timing d0 d1 info);
     std_timing_loop data is infos'
   }"

definition HdmiEdidStandardTimingPhase :: edid_phase where
  "HdmiEdidStandardTimingPhase edid = do {
     block \<leftarrow> first_block (ed_raw edid);
     let cap = ed_sinkCap edid;
     infos \<leftarrow> std_timing_loop (fb_stdTiming block) [0..<HDMI_EDID_STANDARD_TIMING_COUNT] (sk_stdTimingsInfo cap);
     Some (HDF_SUCCESS, edid\<lparr>ed_sinkCap := cap\<lparr>sk_stdTimingsInfo := infos\<rparr>\<rparr>)
   }"

section \<open>Detailed timings\<close>

text \<open>
  A descriptor of 18 bytes at index \<open>data\<close>: a monitor descriptor when its first three bytes are
  zero, else a timing.  Only the bytes the code uses are read.
\<close>

definition HdmiEdidMonitorDescriptorPhase ::
    "bytes \<Rightarrow> HdmiSinkDeviceCapability \<Rightarrow> nat \<Rightarrow> HdmiSinkDeviceCapability option" where
  "HdmiEdidMonitorDescriptorPhase raw sinkCap data = do {
     dataTag \<leftarrow> raw_at raw (data + 3);
     if dataTag \<noteq> 0xFC then Some sinkCap
     else do {
       bs \<leftarrow> mem_read raw (data + 5) HDMI_EDID_MONITOR_DATA_FIELD_LEN;
       (ok, name) \<leftarrow> memcpy_s (sk_sinkDeviceName sinkCap) 0 HDMI_EDID_MAX_SINK_NAME_COUNT bs;
       Some (sinkCap\<lparr>sk_sinkDeviceName := name\<rparr>)
     }
   }"

definition HdmiEdidDigitalSyncSignal :: "HdmiEdidPreferredTimingInfo \<Rightarrow> uint8_t \<Rightarrow> HdmiEdidPreferredTimingInfo" where
  "HdmiEdidDigitalSyncSignal perTiming flags =
     (let signal = drop_bit 1 (flags AND 0x0E)
      in if signal = 0 \<or> signal = 1 \<or> signal = 2 \<or> signal = 3 then perTiming\<lparr>pt_ihs := False, pt_ivs := False\<rparr>
         else if signal = 4 then perTiming\<lparr>pt_ihs := False, pt_ivs := False\<rparr>
         else if signal = 5 then perTiming\<lparr>pt_ihs := True, pt_ivs := False\<rparr>
         else if signal = 6 then perTiming\<lparr>pt_ihs := False, pt_ivs := True\<rparr>
         else if signal = 7 then perTiming\<lparr>pt_ihs := True, pt_ivs := True\<rparr>
         else perTiming)"

text \<open>The structure \<^verbatim>\<open>HdmiEdidDetailedTimingBlockInfo\<close> up to its flags.\<close>

definition HdmiEdidDetailedTimingDescriptorPhase ::
    "bytes \<Rightarrow> HdmiSinkDeviceCapability \<Rightarrow> nat \<Rightarrow> HdmiSinkDeviceCapability option" where
  "HdmiEdidDetailedTimingDescriptorPhase raw cap data =
     (if unat (sk_preTimingCnt cap) \<ge> HDMI_EDID_MAX_DETAILED_TIMING_COUNT then Some cap
      else do {
        pixelClk0 \<leftarrow> raw_at raw data;
        pixelClk1 \<leftarrow> raw_at raw (data + 1);
        let pixelClock = push_bit 8 (u32b pixelClk1) OR u32b pixelClk0;
        if pixelClock = 0 then Some cap
        else do {
          perTiming \<leftarrow> arr_get (sk_preTimingInfo cap) (unat (sk_preTimingCnt cap));
          hActive \<leftarrow> raw_at raw (data + 2);
          hBlanking \<leftarrow> raw_at raw (data + 3);
          hActiveBlanking \<leftarrow> raw_at raw (data + 4);
          vActive \<leftarrow> raw_at raw (data + 5);
          vBlanking \<leftarrow> raw_at raw (data + 6);
          vActiveBlanking \<leftarrow> raw_at raw (data + 7);
          hSyncOffset \<leftarrow> raw_at raw (data + 8);
          hSyncPulseWidth \<leftarrow> raw_at raw (data + 9);
          vsOffesetPulseWidth \<leftarrow> raw_at raw (data + 10);
          hsOffsetVsOffset \<leftarrow> raw_at raw (data + 11);
          hImageSize \<leftarrow> raw_at raw (data + 12);
          vImageSize \<leftarrow> raw_at raw (data + 13);
          hvImageSize \<leftarrow> raw_at raw (data + 14);
          flags \<leftarrow> raw_at raw (data + 17);
          let perTiming = perTiming\<lparr>
            pt_pixelClk := pixelClock * 10,
            pt_hActive := u32b hActive OR push_bit 4 (u32b (hActiveBlanking AND 0xF0)),
            pt_hBackBlank := u32b hBlanking OR push_bit 8 (u32b (hActiveBlanking AND 0x0F)),
            pt_hFrontBlank := u32b hSyncOffset OR push_bit 2 (u32b (hsOffsetVsOffset AND 0xC0)),
            pt_hSyncPluseWidth := u32b hSyncPulseWidth OR push_bit 4 (u32b (hsOffsetVsOffset AND 0x30)),
            pt_vActive := u32b vActive OR push_bit 4 (u32b (vActiveBlanking AND 0xF0)),
            pt_vBackBlank := u32b vBlanking OR push_bit 8 (u32b (vActiveBlanking AND 0x0F)),
            pt_vFrontBlank := push_bit 2 (u32b (hsOffsetVsOffset AND 0x0C)) OR
              drop_bit 4 (u32b (vsOffesetPulseWidth AND 0xF0)),
            pt_vSyncPluseWidth := push_bit 4 (u32b (hsOffsetVsOffset AND 0x03)) OR
              u32b (vsOffesetPulseWidth AND 0x0F),
            pt_imageWidth := u32b hImageSize OR push_bit 4 (u32b (hvImageSize AND 0xF0)),
            pt_imageHeight := u32b vImageSize OR push_bit 8 (u32b (hvImageSize AND 0x0F)),
            pt_interlaceFlag := marked flags 0x80\<rparr>;
          let perTiming = (if marked flags 0x10 then HdmiEdidDigitalSyncSignal perTiming flags else perTiming);
          infos \<leftarrow> arr_set (sk_preTimingInfo cap) (unat (sk_preTimingCnt cap)) perTiming;
          Some (cap\<lparr>sk_preTimingInfo := infos, sk_preTimingCnt := sk_preTimingCnt cap + 1\<rparr>)
        }
      })"

text \<open>The conjunction of the tests stops at the first byte that is not zero.\<close>

fun all_zero_at :: "bytes \<Rightarrow> nat \<Rightarrow> nat \<Rightarrow> bool option" where
  "all_zero_at raw data 0 = Some True"
| "all_zero_at raw data (Suc n) = do {
     d \<leftarrow> raw_at raw data;
     if d = 0 then all_zero_at raw (Suc data) n else Some False
   }"

definition HdmiEdidDetailedTiming ::
    "bytes \<Rightarrow> HdmiSinkDeviceCapability \<Rightarrow> nat \<Rightarrow> HdmiSinkDeviceCapability option" where
  "HdmiEdidDetailedTiming raw sinkCap data = do {
     monitor \<leftarrow> all_zero_at raw data 3;
     if monitor then HdmiEdidMonitorDescriptorPhase raw sinkCap data
     else HdmiEdidDetailedTimingDescriptorPhase raw sinkCap data
   }"

text \<open>The four descriptors of the first block stand at 54, 72, 90 and 108.\<close>

definition HdmiEdidDetailedTimingPhase :: edid_phase where
  "HdmiEdidDetailedTimingPhase edid = do {
     cap \<leftarrow> HdmiEdidDetailedTiming (ed_raw edid) (ed_sinkCap edid) 54;
     cap \<leftarrow> HdmiEdidDetailedTiming (ed_raw edid) cap 72;
     cap \<leftarrow> HdmiEdidDetailedTiming (ed_raw edid) cap 90;
     cap \<leftarrow> HdmiEdidDetailedTiming (ed_raw edid) cap 108;
     Some (HDF_SUCCESS, edid\<lparr>ed_sinkCap := cap\<rparr>)
   }"

definition HdmiEdidExtBlockNumPhase :: edid_phase where
  "HdmiEdidExtBlockNumPhase edid = do {
     n \<leftarrow> raw_at (ed_raw edid) HDMI_EDID_EXTENSION_BLOCK_ADDR;
     Some (HDF_SUCCESS, edid\<lparr>ed_sinkCap := (ed_sinkCap edid)\<lparr>sk_extBlockNum := if n > 3 then 3 else n\<rparr>\<rparr>)
   }"

fun run_phases :: "edid_phase list \<Rightarrow> edid_phase" where
  "run_phases [] edid = Some (HDF_SUCCESS, edid)"
| "run_phases (f # fs) edid = do {
     (ret, edid) \<leftarrow> f edid;
     if ret \<noteq> HDF_SUCCESS then Some (ret, edid) else run_phases fs edid
   }"

definition HdmiEdidFirstBlockPhase :: edid_phase where
  "HdmiEdidFirstBlockPhase edid = do {
     ret \<leftarrow> HdmiEdidBlockCheckSum (ed_raw edid) 0;
     if ret \<noteq> HDF_SUCCESS then Some (ret, edid)
     else run_phases
       [HdmiEdidHeaderPhase, HdmiEdidVendorInfoPhase, HdmiEdidVersionInfoPhase, HdmiEdidBasicDispPhase,
        HdmiEdidColorFeaturePhase, HdmiEdidEstablisedTimingPhase, HdmiEdidStandardTimingPhase,
        HdmiEdidDetailedTimingPhase, HdmiEdidExtBlockNumPhase] edid
   }"

end
