(* ===== verification/Hdmi_EdidExt.thy ===== *)
theory Hdmi_EdidExt
  imports Hdmi_Edid
begin

text \<open>
  The identification data of a display, \<^verbatim>\<open>hdmi_edid.c\<close>, second part: the extension blocks.  An
  extension block holds a collection of data blocks, each a byte with its kind and length followed
  by its contents, and then detailed timings.  This theory has one operation per kind of data
  block, the walk over a collection, the parsing of all blocks and the reading of the bytes from
  the display.
\<close>

section \<open>Audio data block\<close>

text \<open>The test and the two statements repeated for each sample rate and each bit depth.\<close>

definition adb_rate :: "uint8_t \<Rightarrow> uint8_t \<Rightarrow> c_enum \<Rightarrow> HdmiEdidAudioInfo \<Rightarrow> HdmiEdidAudioInfo option" where
  "adb_rate data mark rate audio =
     (if marked data mark \<and> unat (ai_sampleRateNum audio) < HDMI_EDID_EXTENSION_AUDIO_MAX_SAMPLE_RATE_NUM then do {
        rs \<leftarrow> arr_set (ai_sampleRate audio) (unat (ai_sampleRateNum audio)) rate;
        Some (audio\<lparr>ai_sampleRate := rs, ai_sampleRateNum := ai_sampleRateNum audio + 1\<rparr>)
      }
      else Some audio)"

definition adb_depth :: "uint8_t \<Rightarrow> uint8_t \<Rightarrow> c_enum \<Rightarrow> HdmiEdidAudioInfo \<Rightarrow> HdmiEdidAudioInfo option" where
  "adb_depth data mark depth audio =
     (if marked data mark \<and> unat (ai_bitDepthNum audio) < HDMI_EDID_EXTENSION_AUDIO_MAX_BIT_DEPTH_NUM then do {
        ds \<leftarrow> arr_set (ai_bitDepth audio) (unat (ai_bitDepthNum audio)) depth;
        Some (audio\<lparr>ai_bitDepth := ds, ai_bitDepthNum := ai_bitDepthNum audio + 1\<rparr>)
      }
      else Some audio)"

definition HdmiEdidExtAdbSampleRatePhase ::
    "HdmiEdidAudioInfo \<Rightarrow> uint8_t \<Rightarrow> uint8_t \<Rightarrow> HdmiEdidAudioInfo option" where
  "HdmiEdidExtAdbSampleRatePhase audio data formatCode = do {
     audio \<leftarrow> adb_rate data 0x01 32000 audio;
     audio \<leftarrow> adb_rate data 0x02 44100 audio;
     audio \<leftarrow> adb_rate data 0x04 48000 audio;
     audio \<leftarrow> adb_rate data 0x08 88200 audio;
     audio \<leftarrow> adb_rate data 0x10 96000 audio;
     if 1 \<le> formatCode \<and> formatCode \<le> 14 then do {
       audio \<leftarrow> adb_rate data 0x20 176400 audio;
       adb_rate data 0x40 192000 audio
     }
     else Some audio
   }"

definition HdmiEdidExtAdbDepthAndMaxRatePhase ::
    "HdmiEdidAudioInfo \<Rightarrow> uint8_t \<Rightarrow> uint8_t \<Rightarrow> HdmiEdidAudioInfo option" where
  "HdmiEdidExtAdbDepthAndMaxRatePhase audio data formatCode =
     (if formatCode = 1 then do {
        audio \<leftarrow> adb_depth data 0x01 16 audio;
        audio \<leftarrow> adb_depth data 0x02 20 audio;
        adb_depth data 0x04 24 audio
      }
      else if 2 \<le> formatCode \<and> formatCode \<le> 8 then Some (audio\<lparr>ai_maxBitRate := u32b data * 8\<rparr>)
      else Some audio)"

text \<open>The loop's body, on the descriptor at \<open>data\<close>.\<close>

definition adb_descriptor :: "bytes \<Rightarrow> HdmiSinkDeviceCapability \<Rightarrow> nat \<Rightarrow> HdmiSinkDeviceCapability option" where
  "adb_descriptor raw sinkCap data = do {
     b0 \<leftarrow> raw_at raw data;
     let formatCode = drop_bit 3 (b0 AND 0x78);
     let n = unat (sk_audioInfoCnt sinkCap);
     audio \<leftarrow> arr_get (sk_audioInfo sinkCap) n;
     let audio = audio\<lparr>ai_formatCode := ucast formatCode, ai_channels := (b0 AND 0x07) + 1\<rparr>;
     b1 \<leftarrow> raw_at raw (data + 1);
     audio \<leftarrow> HdmiEdidExtAdbSampleRatePhase audio b1 formatCode;
     b2 \<leftarrow> raw_at raw (data + 2);
     audio \<leftarrow> HdmiEdidExtAdbDepthAndMaxRatePhase audio b2 formatCode;
     infos \<leftarrow> arr_set (sk_audioInfo sinkCap) n audio;
     Some (sinkCap\<lparr>sk_audioInfo := infos, sk_audioInfoCnt := sk_audioInfoCnt sinkCap + 1\<rparr>)
   }"

text \<open>\<open>n\<close> iterations are left; \<open>i\<close> is the loop's counter, and \<open>data\<close> moves as the code moves it.\<close>

fun adb_loop :: "bytes \<Rightarrow> HdmiSinkDeviceCapability \<Rightarrow> nat \<Rightarrow> nat \<Rightarrow> nat \<Rightarrow> HdmiSinkDeviceCapability option" where
  "adb_loop raw sinkCap data i 0 = Some sinkCap"
| "adb_loop raw sinkCap data i (Suc n) =
     (if unat (sk_audioInfoCnt sinkCap) \<ge> HDMI_EDID_EXTENSION_AUDIO_CAP_COUNT then Some sinkCap
      else do {
        let data = data + i * HDMI_EDID_EXTENSION_SHORT_AUDIO_DESCRIPTOR_LEN;
        sinkCap \<leftarrow> adb_descriptor raw sinkCap data;
        adb_loop raw sinkCap data (Suc i) n
      })"

definition HdmiEdidExtAudioDataBlockPhase ::
    "bytes \<Rightarrow> HdmiSinkDeviceCapability \<Rightarrow> nat \<Rightarrow> uint8_t \<Rightarrow> (HDF_STATUS \<times> HdmiSinkDeviceCapability) option" where
  "HdmiEdidExtAudioDataBlockPhase raw sinkCap data len =
     (if unat len > HDMI_EDID_EXTENSION_SHORT_AUDIO_DESCRIPTOR_LEN * HDMI_EDID_EXTENSION_MAX_SHORT_AUDIO_DESCRIPTOR_NUM
      then Some (HDF_ERR_INVALID_PARAM, sinkCap)
      else do {
        sinkCap \<leftarrow> adb_loop raw sinkCap data 0 (unat len div HDMI_EDID_EXTENSION_SHORT_AUDIO_DESCRIPTOR_LEN);
        Some (HDF_SUCCESS, sinkCap)
      })"

section \<open>Video data block\<close>

fun vdb_loop :: "bytes \<Rightarrow> HdmiEdidVideoInfo \<Rightarrow> uint32_t \<Rightarrow> nat \<Rightarrow> nat \<Rightarrow> (HdmiEdidVideoInfo \<times> uint32_t) option" where
  "vdb_loop raw info implicitNative data 0 = Some (info, implicitNative)"
| "vdb_loop raw info implicitNative data (Suc n) =
     (if unat (vin_vicNum info) \<ge> HDMI_EDID_EXTENSION_MAX_VIC_COUNT then Some (info, implicitNative)
      else do {
        b \<leftarrow> raw_at raw data;
        let vicAll = u32b b;
        let vicLower = vicAll AND 0x7F;
        if vicAll = 0 then vdb_loop raw info implicitNative (Suc data) n
        else do {
          let nativeVic = (vicAll AND 0x80 > 0 \<and> vicLower < 64);
          let info = (if nativeVic \<and> vin_nativeFormat info = 0 then info\<lparr>vin_nativeFormat := vicLower\<rparr> else info);
          let implicitNative = (if implicitNative = 0 then vicAll else implicitNative);
          vics \<leftarrow> arr_set (vin_vic info) (unat (vin_vicNum info)) (if nativeVic then vicLower else vicAll);
          vdb_loop raw (info\<lparr>vin_vic := vics, vin_vicNum := vin_vicNum info + 1\<rparr>) implicitNative (Suc data) n
        }
      })"

definition HdmiEdidExtVideoDataBlockPhase ::
    "bytes \<Rightarrow> HdmiSinkDeviceCapability \<Rightarrow> nat \<Rightarrow> uint8_t \<Rightarrow> (HDF_STATUS \<times> HdmiSinkDeviceCapability) option" where
  "HdmiEdidExtVideoDataBlockPhase raw sinkCap data len = do {
     (info, implicitNative) \<leftarrow> vdb_loop raw (sk_videoInfo sinkCap) 0 data (unat len);
     let info = (if vin_nativeFormat info = 0 then info\<lparr>vin_nativeFormat := implicitNative\<rparr> else info);
     Some (HDF_SUCCESS, sinkCap\<lparr>sk_videoInfo := info\<rparr>)
   }"

section \<open>Vendor-specific data blocks\<close>

text \<open>The operations below return at once what is stored; each is guarded by the length.\<close>

definition HdmiEdidVsdbCecPhyAddrPhase ::
    "bytes \<Rightarrow> HdmiSinkDeviceCapability \<Rightarrow> nat \<Rightarrow> uint8_t \<Rightarrow> HdmiSinkDeviceCapability option" where
  "HdmiEdidVsdbCecPhyAddrPhase raw sinkCap data len =
     (if len \<ge> 5 then do {
        b3 \<leftarrow> raw_at raw (data + 3);
        b4 \<leftarrow> raw_at raw (data + 4);
        let a = drop_bit 4 (b3 AND 0xf0);
        let b = b3 AND 0x0f;
        let c = drop_bit 4 (b4 AND 0xf0);
        let d = b4 AND 0x0f;
        Some (sinkCap\<lparr>sk_vsdbInfo := (sk_vsdbInfo sinkCap)\<lparr>xv_cecAddr :=
          \<lparr>ca_addrValid = (a \<noteq> 0xF \<and> b \<noteq> 0xF \<and> c \<noteq> 0xF \<and> d \<noteq> 0xF),
           ca_phyAddrA = a, ca_phyAddrB = b, ca_phyAddrC = c, ca_phyAddrD = d\<rparr>\<rparr>\<rparr>)
      }
      else Some sinkCap)"

definition HdmiEdidVsdbColorDepthPhase ::
    "bytes \<Rightarrow> HdmiSinkDeviceCapability \<Rightarrow> nat \<Rightarrow> uint8_t \<Rightarrow> HdmiSinkDeviceCapability option" where
  "HdmiEdidVsdbColorDepthPhase raw sinkCap data len =
     (if len \<ge> 6 then do {
        b5 \<leftarrow> raw_at raw (data + 5);
        Some (sinkCap\<lparr>sk_vsdbInfo := (sk_vsdbInfo sinkCap)\<lparr>
          xv_supportAi := marked b5 0x80, xv_supportDviDual := marked b5 0x01,
          xv_deepColor := \<lparr>dpc_dcY444 = marked b5 0x08, dpc_dc30bit = marked b5 0x10,
            dpc_dc36bit = marked b5 0x20, dpc_dc48bit = marked b5 0x40\<rparr>\<rparr>\<rparr>)
      }
      else Some sinkCap)"

definition set_max_tmds :: "uint8_t \<Rightarrow> HdmiSinkDeviceCapability \<Rightarrow> HdmiSinkDeviceCapability" where
  "set_max_tmds b sinkCap = sinkCap\<lparr>sk_maxTmdsClk := u32b b * 5, sk_supportHdmi20 := u32b b * 5 > 340\<rparr>"

definition HdmiEdidVsdbMaxTmdsClockPhase ::
    "bytes \<Rightarrow> HdmiSinkDeviceCapability \<Rightarrow> nat \<Rightarrow> uint8_t \<Rightarrow> HdmiSinkDeviceCapability option" where
  "HdmiEdidVsdbMaxTmdsClockPhase raw sinkCap data len =
     (if len \<ge> 7 then do {
        b6 \<leftarrow> raw_at raw (data + 6);
        Some (set_max_tmds b6 sinkCap)
      }
      else Some sinkCap)"

definition HdmiEdidVsdbSinkPresentPhase ::
    "bytes \<Rightarrow> HdmiSinkDeviceCapability \<Rightarrow> nat \<Rightarrow> uint8_t \<Rightarrow> HdmiSinkDeviceCapability option" where
  "HdmiEdidVsdbSinkPresentPhase raw sinkCap data len =
     (if len \<ge> 8 then do {
        b7 \<leftarrow> raw_at raw (data + 7);
        Some (sinkCap\<lparr>sk_vsdbInfo := (sk_vsdbInfo sinkCap)\<lparr>
          xv_latencyFieldsPresent := marked b7 0x80, xv_iLatencyFieldsPresent := marked b7 0x40,
          xv_hdmiVideoPresent := marked b7 0x20\<rparr>\<rparr>)
      }
      else Some sinkCap)"

text \<open>One of the four optional bytes.\<close>

definition latency_byte ::
    "bytes \<Rightarrow> nat \<Rightarrow> bool \<Rightarrow> (uint8_t \<Rightarrow> HdmiEdidExtVsdbInfo \<Rightarrow> HdmiEdidExtVsdbInfo) \<Rightarrow>
     HdmiEdidExtVsdbInfo \<Rightarrow> HdmiEdidExtVsdbInfo option" where
  "latency_byte raw p present store info =
     (if present then do { b \<leftarrow> raw_at raw p; Some (store b info) } else Some info)"

definition HdmiEdidVsdbSinkLatencyPhase ::
    "bytes \<Rightarrow> HdmiSinkDeviceCapability \<Rightarrow> nat \<Rightarrow> uint8_t \<Rightarrow> HdmiSinkDeviceCapability option" where
  "HdmiEdidVsdbSinkLatencyPhase raw sinkCap data len = do {
     let info = sk_vsdbInfo sinkCap;
     info \<leftarrow> latency_byte raw (data + 8) (xv_latencyFieldsPresent info \<and> len \<ge> 9) (\<lambda>b x. x\<lparr>xv_videoLatency := b\<rparr>) info;
     info \<leftarrow> latency_byte raw (data + 9) (xv_latencyFieldsPresent info \<and> len \<ge> 10) (\<lambda>b x. x\<lparr>xv_videoLatency := b\<rparr>) info;
     info \<leftarrow> latency_byte raw (data + 10) (xv_iLatencyFieldsPresent info \<and> len \<ge> 11)
       (\<lambda>b x. x\<lparr>xv_interlacedVideoLatency := b\<rparr>) info;
     info \<leftarrow> latency_byte raw (data + 11) (xv_iLatencyFieldsPresent info \<and> len \<ge> 12)
       (\<lambda>b x. x\<lparr>xv_interlacedAudioLatency := b\<rparr>) info;
     Some (sinkCap\<lparr>sk_vsdbInfo := info\<rparr>)
   }"

definition hdmi4kVic :: "c_enum list" where
  "hdmi4kVic = [0, HDMI_VIC_3840X2160P30_16_9, HDMI_VIC_3840X2160P25_16_9, HDMI_VIC_3840X2160P24_16_9,
     HDMI_VIC_4096X2160P24_256_135]"

fun HdmiEdidVsdbVicInfoPhase ::
    "bytes \<Rightarrow> HdmiEdidVideoInfo \<Rightarrow> nat \<Rightarrow> nat \<Rightarrow> uint8_t \<Rightarrow> (HdmiEdidVideoInfo \<times> uint8_t) option" where
  "HdmiEdidVsdbVicInfoPhase raw info data 0 offset = Some (info, offset)"
| "HdmiEdidVsdbVicInfoPhase raw info data (Suc n) offset =
     (if unat (vin_vicNum info) \<ge> HDMI_EDID_EXTENSION_MAX_VIC_COUNT then Some (info, offset)
      else do {
        index \<leftarrow> raw_at raw (data + unat offset);
        info \<leftarrow> (if index \<noteq> 0 \<and> unat index < length hdmi4kVic then do {
            vics \<leftarrow> arr_set (vin_vic info) (unat (vin_vicNum info)) (hdmi4kVic ! unat index);
            Some (info\<lparr>vin_vic := vics, vin_vicNum := vin_vicNum info + 1\<rparr>)
          } else Some info);
        HdmiEdidVsdbVicInfoPhase raw info data n (offset + 1)
      })"

definition HdmiEdidVsdb3dStructureInfoPhase ::
    "bytes \<Rightarrow> HdmiSinkDeviceCapability \<Rightarrow> nat \<Rightarrow> uint8_t \<Rightarrow> uint8_t \<Rightarrow> (HdmiSinkDeviceCapability \<times> uint8_t) option" where
  "HdmiEdidVsdb3dStructureInfoPhase raw sinkCap data len offset =
     (if xv_3dMultiPresent (sk_vsdbInfo sinkCap) AND 0x03 = 0 then Some (sinkCap, offset)
      else do {
        (types, offset) \<leftarrow> (if offset \<le> len then do {
            b \<leftarrow> raw_at raw (data + unat offset);
            ts \<leftarrow> arr_set (xv_support3dType (sk_vsdbInfo sinkCap)) 8 (marked b 0x01);
            Some (ts, offset + 1)
          } else Some (xv_support3dType (sk_vsdbInfo sinkCap), offset));
        (types, offset) \<leftarrow> (if offset \<le> len then do {
            b \<leftarrow> raw_at raw (data + unat offset);
            ts \<leftarrow> arr_set types 0 (marked b 0x01);
            ts \<leftarrow> arr_set ts 1 (marked b 0x02);
            ts \<leftarrow> arr_set ts 2 (marked b 0x04);
            ts \<leftarrow> arr_set ts 3 (marked b 0x08);
            ts \<leftarrow> arr_set ts 4 (marked b 0x10);
            ts \<leftarrow> arr_set ts 5 (marked b 0x20);
            ts \<leftarrow> arr_set ts 6 (marked b 0x40);
            Some (ts, offset + 1)
          } else Some (types, offset));
        Some (sinkCap\<lparr>sk_vsdbInfo := (sk_vsdbInfo sinkCap)\<lparr>xv_support3dType := types\<rparr>\<rparr>, offset)
      })"

definition HdmiEdidVsdbVicAnd3dInfoPhase ::
    "bytes \<Rightarrow> HdmiSinkDeviceCapability \<Rightarrow> nat \<Rightarrow> uint8_t \<Rightarrow> HdmiSinkDeviceCapability option" where
  "HdmiEdidVsdbVicAnd3dInfoPhase raw sinkCap data len =
     (if len < 13 then Some sinkCap
      else do {
        b12 \<leftarrow> raw_at raw (data + 12);
        let sinkCap = sinkCap\<lparr>sk_vsdbInfo := (sk_vsdbInfo sinkCap)\<lparr>
          xv_3dPresent := marked b12 0x80, xv_3dMultiPresent := drop_bit 5 (b12 AND 0x60)\<rparr>\<rparr>;
        (hdmiVicLen, hdmi3dLen) \<leftarrow> (if len \<ge> 14 then do {
            b13 \<leftarrow> raw_at raw (data + 13);
            Some (drop_bit 5 (b13 AND 0xE0), b13 AND 0x1F)
          } else Some (0, 0));
        (info, offset) \<leftarrow> (if hdmiVicLen > 0 \<and> unat hdmiVicLen + 14 + 1 \<le> unat len
          then HdmiEdidVsdbVicInfoPhase raw (sk_videoInfo sinkCap) data (unat hdmiVicLen) 14
          else Some (sk_videoInfo sinkCap, 14));
        let sinkCap = sinkCap\<lparr>sk_videoInfo := info\<rparr>;
        if hdmi3dLen > 0 \<and> xv_3dPresent (sk_vsdbInfo sinkCap) \<and> unat hdmi3dLen + unat offset + 1 \<le> unat len
        then do {
          (sinkCap, _) \<leftarrow> HdmiEdidVsdb3dStructureInfoPhase raw sinkCap data len offset;
          Some sinkCap
        }
        else Some sinkCap
      })"

definition HdmiEdidVsdbPhase ::
    "bytes \<Rightarrow> HdmiSinkDeviceCapability \<Rightarrow> nat \<Rightarrow> uint8_t \<Rightarrow> (HDF_STATUS \<times> HdmiSinkDeviceCapability) option" where
  "HdmiEdidVsdbPhase raw sinkCap data len =
     (if len < 5 then Some (HDF_SUCCESS, sinkCap)
      else do {
        sinkCap \<leftarrow> HdmiEdidVsdbCecPhyAddrPhase raw sinkCap data len;
        sinkCap \<leftarrow> HdmiEdidVsdbColorDepthPhase raw sinkCap data len;
        sinkCap \<leftarrow> HdmiEdidVsdbMaxTmdsClockPhase raw sinkCap data len;
        sinkCap \<leftarrow> HdmiEdidVsdbSinkPresentPhase raw sinkCap data len;
        sinkCap \<leftarrow> HdmiEdidVsdbSinkLatencyPhase raw sinkCap data len;
        sinkCap \<leftarrow> HdmiEdidVsdbVicAnd3dInfoPhase raw sinkCap data len;
        Some (HDF_SUCCESS, sinkCap)
      })"

definition HdmiEdidHfVsdb21Phase :: "bytes \<Rightarrow> HdmiEdidExtHfVsdbInfo \<Rightarrow> nat \<Rightarrow> HdmiEdidExtHfVsdbInfo option" where
  "HdmiEdidHfVsdb21Phase raw info data = do {
     b6 \<leftarrow> raw_at raw (data + 6);
     b7 \<leftarrow> raw_at raw (data + 7);
     b8 \<leftarrow> raw_at raw (data + 8);
     b9 \<leftarrow> raw_at raw (data + 9);
     b10 \<leftarrow> raw_at raw (data + 10);
     b11 \<leftarrow> raw_at raw (data + 11);
     b12 \<leftarrow> raw_at raw (data + 12);
     Some (info\<lparr>hf_maxFrlRate := drop_bit 4 (b6 AND 0xf0),
       hf_fapaStartLocation := marked b7 0x01, hf_allm := marked b7 0x02, hf_fva := marked b7 0x04,
       hf_cnmVrr := marked b7 0x08, hf_cinemaVrr := marked b7 0x10, hf_mDelta := marked b7 0x20,
       hf_vrrMin := b8 AND 0x3F, hf_vrrMax := push_bit 2 (u16 (b8 AND 0xC0)) OR u16 b9,
       hf_dscInfo := \<lparr>dsc_dsc1p2 = marked b10 0x80, dsc_dscNative420 = marked b10 0x40,
         dsc_dscAllBpp = marked b10 0x08, dsc_dsc10bpc = marked b10 0x04, dsc_dsc20bpc = marked b10 0x02,
         dsc_dsc16bpc = marked b10 0x01, dsc_dscMaxSlices = b11 AND 0x0f,
         dsc_dscMaxFrlRate = drop_bit 4 (b11 AND 0xf0), dsc_dscTotalChunkKBytes = b12 AND 0x3F\<rparr>\<rparr>)
   }"

definition HdmiEdidHfVsdbPhase ::
    "bytes \<Rightarrow> HdmiSinkDeviceCapability \<Rightarrow> nat \<Rightarrow> uint8_t \<Rightarrow> (HDF_STATUS \<times> HdmiSinkDeviceCapability) option" where
  "HdmiEdidHfVsdbPhase raw sinkCap data len =
     (if len < 7 then Some (HDF_SUCCESS, sinkCap)
      else do {
        b3 \<leftarrow> raw_at raw (data + 3);
        b4 \<leftarrow> raw_at raw (data + 4);
        b5 \<leftarrow> raw_at raw (data + 5);
        b6 \<leftarrow> raw_at raw (data + 6);
        let sinkCap = set_max_tmds b4 sinkCap;
        let info = (sk_hfVsdbInfo sinkCap)\<lparr>hf_scdcPresent := marked b5 0x80, hf_rrCapable := marked b5 0x40,
          hf_lte340McscScramble := marked b5 0x08, hf_independentView := marked b5 0x04,
          hf_dualView := marked b5 0x02, hf_3dOsdDisparity := marked b5 0x01,
          hf_dc := \<lparr>hdc_dc30bit = marked b6 0x01, hdc_dc36bit = marked b6 0x02, hdc_dc48bit = marked b6 0x04\<rparr>\<rparr>;
        info \<leftarrow> (if len > 7 \<and> len \<le> 31 then HdmiEdidHfVsdb21Phase raw info data else Some info);
        Some (HDF_SUCCESS, sinkCap\<lparr>sk_hfVsdbInfo := info\<rparr>)
      })"

text \<open>The three bytes of the registration number; the conjunction stops at the first that differs.\<close>

fun bytes_at :: "bytes \<Rightarrow> nat \<Rightarrow> bytes \<Rightarrow> bool option" where
  "bytes_at raw data [] = Some True"
| "bytes_at raw data (b # bs) = do {
     d \<leftarrow> raw_at raw data;
     if d = b then bytes_at raw (Suc data) bs else Some False
   }"

definition HdmiEdidExtVsDataBlockPhase ::
    "bytes \<Rightarrow> HdmiSinkDeviceCapability \<Rightarrow> nat \<Rightarrow> uint8_t \<Rightarrow> (HDF_STATUS \<times> HdmiSinkDeviceCapability) option" where
  "HdmiEdidExtVsDataBlockPhase raw sinkCap data len = do {
     vsdb \<leftarrow> (if len \<ge> 3 then bytes_at raw data [0x03, 0x0C, 0x00] else Some False);
     hfVsdb \<leftarrow> (if len \<ge> 3 then bytes_at raw data [0xD8, 0x5D, 0xC4] else Some False);
     if vsdb then HdmiEdidVsdbPhase raw (sinkCap\<lparr>sk_supportHdmi14 := True\<rparr>) data len
     else if hfVsdb then HdmiEdidHfVsdbPhase raw sinkCap data len
     else Some (HDF_SUCCESS, sinkCap)
   }"

section \<open>Speaker allocation\<close>

definition set_flag :: "uint8_t \<Rightarrow> uint8_t \<Rightarrow> nat \<Rightarrow> bool list \<Rightarrow> bool list option" where
  "set_flag b mark i flags = arr_set flags i (marked b mark)"

definition HdmiEdidExtSpeakerDataBlockPhase ::
    "bytes \<Rightarrow> HdmiSinkDeviceCapability \<Rightarrow> nat \<Rightarrow> uint8_t \<Rightarrow> (HDF_STATUS \<times> HdmiSinkDeviceCapability) option" where
  "HdmiEdidExtSpeakerDataBlockPhase raw sinkCap data len =
     (if len < 2 then Some (HDF_SUCCESS, sinkCap)
      else do {
        b0 \<leftarrow> raw_at raw data;
        b1 \<leftarrow> raw_at raw (data + 1);
        s \<leftarrow> set_flag b0 0x01 0 (sk_supportAudioSpeaker sinkCap);
        s \<leftarrow> set_flag b0 0x02 1 s;
        s \<leftarrow> set_flag b0 0x04 2 s;
        s \<leftarrow> set_flag b0 0x08 3 s;
        s \<leftarrow> set_flag b0 0x10 4 s;
        s \<leftarrow> set_flag b0 0x20 5 s;
        s \<leftarrow> set_flag b0 0x40 6 s;
        s \<leftarrow> set_flag b0 0x80 7 s;
        s \<leftarrow> set_flag b1 0x01 8 s;
        s \<leftarrow> set_flag b1 0x02 9 s;
        s \<leftarrow> set_flag b1 0x04 10 s;
        Some (HDF_SUCCESS, sinkCap\<lparr>sk_supportAudioSpeaker := s\<rparr>)
      })"

section \<open>Data blocks with an extended tag\<close>

definition HdmiEdidExtUseExtDataBlockVcdbPhase ::
    "bytes \<Rightarrow> HdmiSinkDeviceCapability \<Rightarrow> nat \<Rightarrow> uint8_t \<Rightarrow> HdmiSinkDeviceCapability option" where
  "HdmiEdidExtUseExtDataBlockVcdbPhase raw sinkCap data len =
     (if len < 2 then Some sinkCap
      else do {
        b1 \<leftarrow> raw_at raw (data + 1);
        Some (sinkCap\<lparr>sk_videoCap := \<lparr>vcp_qy = marked b1 0x80, vcp_qs = marked b1 0x40\<rparr>\<rparr>)
      })"

definition HdmiEdidExtUseExtDataBlockCdbPhase ::
    "bytes \<Rightarrow> HdmiSinkDeviceCapability \<Rightarrow> nat \<Rightarrow> uint8_t \<Rightarrow> HdmiSinkDeviceCapability option" where
  "HdmiEdidExtUseExtDataBlockCdbPhase raw sinkCap data len =
     (if len < 3 then Some sinkCap
      else do {
        b1 \<leftarrow> raw_at raw (data + 1);
        b2 \<leftarrow> raw_at raw (data + 2);
        Some (sinkCap\<lparr>sk_colorimetry := \<lparr>
          cmy_xvYcc601 = marked b1 0x01, cmy_xvYcc709 = marked b1 0x02, cmy_sYcc601 = marked b1 0x04,
          cmy_opYcc601 = marked b1 0x08, cmy_opRgb = marked b1 0x10, cmy_bt2020cYcc = marked b1 0x20,
          cmy_bt2020Ycc = marked b1 0x40, cmy_bt2020Rgb = marked b1 0x80,
          cmy_dciP3 = marked b2 0x80, cmy_md = b2 AND 0x0f\<rparr>\<rparr>)
      })"

text \<open>The statements of both 4:2:0 blocks that record a format.\<close>

definition add_only_y420 :: "uint32_t \<Rightarrow> HdmiSinkDeviceCapability \<Rightarrow> HdmiSinkDeviceCapability option" where
  "add_only_y420 vic sinkCap = do {
     let y = sk_y420Cap sinkCap;
     fs \<leftarrow> arr_set (y4_onlySupportY420Format y) (unat (y4_onlySupportY420VicNum y)) vic;
     Some (sinkCap\<lparr>sk_y420Cap := y\<lparr>y4_onlySupportY420Format := fs,
         y4_onlySupportY420VicNum := y4_onlySupportY420VicNum y + 1\<rparr>,
       sk_colorSpace := (sk_colorSpace sinkCap)\<lparr>csp_ycbcr420 := True\<rparr>\<rparr>)
   }"

definition add_y420 :: "uint32_t \<Rightarrow> HdmiSinkDeviceCapability \<Rightarrow> HdmiSinkDeviceCapability option" where
  "add_y420 vic sinkCap = do {
     let y = sk_y420Cap sinkCap;
     fs \<leftarrow> arr_set (y4_SupportY420Format y) (unat (y4_SupportY420VicNum y)) vic;
     Some (sinkCap\<lparr>sk_y420Cap := y\<lparr>y4_SupportY420Format := fs,
         y4_SupportY420VicNum := y4_SupportY420VicNum y + 1\<rparr>,
       sk_colorSpace := (sk_colorSpace sinkCap)\<lparr>csp_ycbcr420 := True\<rparr>\<rparr>)
   }"

fun y420_vdb_loop :: "bytes \<Rightarrow> HdmiSinkDeviceCapability \<Rightarrow> nat \<Rightarrow> nat \<Rightarrow> HdmiSinkDeviceCapability option" where
  "y420_vdb_loop raw sinkCap data 0 = Some sinkCap"
| "y420_vdb_loop raw sinkCap data (Suc n) =
     (if unat (y4_onlySupportY420VicNum (sk_y420Cap sinkCap)) \<ge> HDMI_EDID_EXTENSION_MAX_VIC_COUNT then Some sinkCap
      else do {
        vic \<leftarrow> raw_at raw data;
        if vic = 0 \<or> (vic \<ge> 128 \<and> vic \<le> 192) then y420_vdb_loop raw sinkCap (Suc data) n
        else do {
          sinkCap \<leftarrow> add_only_y420 (u32b vic) sinkCap;
          y420_vdb_loop raw sinkCap (Suc data) n
        }
      })"

definition HdmiEdidExtUseExtDataBlockY420VdbPhase ::
    "bytes \<Rightarrow> HdmiSinkDeviceCapability \<Rightarrow> nat \<Rightarrow> uint8_t \<Rightarrow> HdmiSinkDeviceCapability option" where
  "HdmiEdidExtUseExtDataBlockY420VdbPhase raw sinkCap data len = y420_vdb_loop raw sinkCap (data + 1) (unat len - 1)"

text \<open>All formats of the video data blocks; \<open>is\<close> are the values the counter still takes.\<close>

fun y420_all_loop :: "HdmiSinkDeviceCapability \<Rightarrow> nat list \<Rightarrow> HdmiSinkDeviceCapability option" where
  "y420_all_loop sinkCap [] = Some sinkCap"
| "y420_all_loop sinkCap (i # is) =
     (if \<not> (i < unat (vin_vicNum (sk_videoInfo sinkCap))) then Some sinkCap
      else if unat (y4_SupportY420VicNum (sk_y420Cap sinkCap)) \<ge> HDMI_EDID_EXTENSION_MAX_VIC_COUNT then Some sinkCap
      else do {
        vic \<leftarrow> arr_get (vin_vic (sk_videoInfo sinkCap)) i;
        sinkCap \<leftarrow> add_y420 vic sinkCap;
        y420_all_loop sinkCap is
      })"

fun y420_map_loop :: "bytes \<Rightarrow> HdmiSinkDeviceCapability \<Rightarrow> nat \<Rightarrow> nat list \<Rightarrow> HdmiSinkDeviceCapability option" where
  "y420_map_loop raw sinkCap data [] = Some sinkCap"
| "y420_map_loop raw sinkCap data (i # is) =
     (if \<not> (i < unat (vin_vicNum (sk_videoInfo sinkCap))) then Some sinkCap
      else if unat (y4_SupportY420VicNum (sk_y420Cap sinkCap)) \<ge> HDMI_EDID_EXTENSION_MAX_VIC_COUNT then Some sinkCap
      else do {
        b \<leftarrow> raw_at raw (data + i div 8);
        if bit b (i mod 8) then do {
          vic \<leftarrow> arr_get (vin_vic (sk_videoInfo sinkCap)) i;
          sinkCap \<leftarrow> add_y420 vic sinkCap;
          y420_map_loop raw sinkCap data is
        }
        else y420_map_loop raw sinkCap data is
      })"

definition HdmiEdidExtUseExtDataBlockY420CmdbPhase ::
    "bytes \<Rightarrow> HdmiSinkDeviceCapability \<Rightarrow> nat \<Rightarrow> uint8_t \<Rightarrow> HdmiSinkDeviceCapability option" where
  "HdmiEdidExtUseExtDataBlockY420CmdbPhase raw sinkCap data len =
     (if len = 1 then y420_all_loop sinkCap [0..<HDMI_EDID_EXTENSION_MAX_VIC_COUNT]
      else let loop = unat len * 8;
               loop = (if loop > HDMI_EDID_EXTENSION_MAX_VIC_COUNT then HDMI_EDID_EXTENSION_MAX_VIC_COUNT else loop)
           in y420_map_loop raw sinkCap (data + 1) [0..<loop])"

definition HdmiEdidExtUseExtDataBlockHdrSmdbPhase ::
    "bytes \<Rightarrow> HdmiSinkDeviceCapability \<Rightarrow> nat \<Rightarrow> uint8_t \<Rightarrow> HdmiSinkDeviceCapability option" where
  "HdmiEdidExtUseExtDataBlockHdrSmdbPhase raw sinkCap data len =
     (if len < 3 then Some sinkCap
      else do {
        b1 \<leftarrow> raw_at raw (data + 1);
        b2 \<leftarrow> raw_at raw (data + 2);
        let cap = (sk_hdrCap sinkCap)\<lparr>
          hdr_eotf := \<lparr>eo_sdr = marked b1 0x01, eo_hdr = marked b1 0x02, eo_smpteSt2048 = marked b1 0x04,
            eo_hlg = marked b1 0x04\<rparr>,
          hdr_smType1 := marked b2 0x01\<rparr>;
        cap \<leftarrow> (if len \<ge> 4 then do { b \<leftarrow> raw_at raw (data + 3); Some (cap\<lparr>hdr_maxLuminancedata := b\<rparr>) } else Some cap);
        cap \<leftarrow> (if len \<ge> 5 then do { b \<leftarrow> raw_at raw (data + 4); Some (cap\<lparr>hdr_maxFrameAverageLuminanceData := b\<rparr>) } else Some cap);
        cap \<leftarrow> (if len \<ge> 6 then do { b \<leftarrow> raw_at raw (data + 5); Some (cap\<lparr>hdr_maxFrameAverageLuminanceData := b\<rparr>) } else Some cap);
        Some (sinkCap\<lparr>sk_hdrCap := cap\<rparr>)
      })"

text \<open>A coordinate of twelve bits: four of a shared byte below eight of its own.\<close>

definition dolby_coord :: "uint8_t \<Rightarrow> uint8_t \<Rightarrow> uint16_t" where
  "dolby_coord low high = u16 low OR push_bit 4 (u16 high)"

definition HdmiEdidDolbyCapVersionZeroPhase ::
    "bytes \<Rightarrow> HdmiEdidVsvdbDolbyCap \<Rightarrow> nat \<Rightarrow> HdmiEdidVsvdbDolbyCap option" where
  "HdmiEdidDolbyCapVersionZeroPhase raw cap data = do {
     b4 \<leftarrow> raw_at raw (data + 4);
     d \<leftarrow> mem_read raw (data + 5) 16;
     let upper = (\<lambda>i. drop_bit 4 (d ! (i - 5) AND 0xf0));
     let lower = (\<lambda>i. d ! (i - 5) AND 0x0f);
     Some (cap\<lparr>dol_globalDimming := marked b4 0x04,
       dol_redX := dolby_coord (upper 5) (d ! 1), dol_redY := dolby_coord (lower 5) (d ! 2),
       dol_greenX := dolby_coord (upper 8) (d ! 4), dol_greenY := dolby_coord (lower 8) (d ! 5),
       dol_blueX := dolby_coord (upper 11) (d ! 7), dol_blueY := dolby_coord (lower 11) (d ! 8),
       dol_whiteX := dolby_coord (upper 14) (d ! 10), dol_whiteY := dolby_coord (lower 14) (d ! 11),
       dol_minLuminance := dolby_coord (upper 17) (d ! 13), dol_maxLuminance := dolby_coord (lower 17) (d ! 14),
       dol_dMajorVer := upper 20, dol_dMinorVer := lower 20\<rparr>)
   }"

definition HdmiEdidDolbyCapVersionOnePhase ::
    "bytes \<Rightarrow> HdmiEdidVsvdbDolbyCap \<Rightarrow> nat \<Rightarrow> HdmiEdidVsvdbDolbyCap option" where
  "HdmiEdidDolbyCapVersionOnePhase raw cap data = do {
     b4 \<leftarrow> raw_at raw (data + 4);
     b5 \<leftarrow> raw_at raw (data + 5);
     b6 \<leftarrow> raw_at raw (data + 6);
     d \<leftarrow> mem_read raw (data + 8) 6;
     Some (cap\<lparr>dol_dmVer := drop_bit 2 (b4 AND 0x1C),
       dol_globalDimming := marked b5 0x01, dol_maxLuminance := u16 (drop_bit 1 b5 AND 0x7F),
       dol_colorimetry := marked b6 0x01, dol_minLuminance := u16 (drop_bit 1 b6 AND 0x7F),
       dol_redX := u16 (d ! 0), dol_redY := u16 (d ! 1), dol_greenX := u16 (d ! 2),
       dol_greenY := u16 (d ! 3), dol_blueX := u16 (d ! 4), dol_blueY := u16 (d ! 5)\<rparr>)
   }"

definition HdmiEdidExtUseExtDataBlockVsvdbPhase ::
    "bytes \<Rightarrow> HdmiSinkDeviceCapability \<Rightarrow> nat \<Rightarrow> uint8_t \<Rightarrow> HdmiSinkDeviceCapability option" where
  "HdmiEdidExtUseExtDataBlockVsvdbPhase raw sinkCap data len =
     (if len \<noteq> 27 \<and> len \<noteq> 14 then Some sinkCap
      else do {
        b1 \<leftarrow> raw_at raw (data + 1);
        b2 \<leftarrow> raw_at raw (data + 2);
        b3 \<leftarrow> raw_at raw (data + 3);
        let oui = u32b b1 OR push_bit 8 (u32b b2) OR push_bit 16 (u32b b3);
        if oui \<noteq> 0x00D046 then Some sinkCap
        else do {
          b4 \<leftarrow> raw_at raw (data + 4);
          let cap = (sk_dolbyCap sinkCap)\<lparr>dol_oui := oui, dol_version := drop_bit 5 (b4 AND 0xE0),
            dol_yuv422 := marked b4 0x01, dol_b2160p60 := marked b4 0x02\<rparr>;
          cap \<leftarrow> (if dol_version cap = 0 then HdmiEdidDolbyCapVersionZeroPhase raw cap data
                  else if dol_version cap = 1 then HdmiEdidDolbyCapVersionOnePhase raw cap data
                  else Some cap);
          Some (sinkCap\<lparr>sk_dolbyCap := cap\<rparr>)
        }
      })"

definition HdmiEdidExtUseExtDataBlockPhase ::
    "bytes \<Rightarrow> HdmiSinkDeviceCapability \<Rightarrow> nat \<Rightarrow> uint8_t \<Rightarrow> (HDF_STATUS \<times> HdmiSinkDeviceCapability) option" where
  "HdmiEdidExtUseExtDataBlockPhase raw sinkCap data len = do {
     extTagCode \<leftarrow> raw_at raw data;
     sinkCap \<leftarrow>
       (if extTagCode = 0 then HdmiEdidExtUseExtDataBlockVcdbPhase raw sinkCap data len
        else if extTagCode = 1 then HdmiEdidExtUseExtDataBlockVsvdbPhase raw sinkCap data len
        else if extTagCode = 5 then HdmiEdidExtUseExtDataBlockCdbPhase raw sinkCap data len
        else if extTagCode = 6 then HdmiEdidExtUseExtDataBlockHdrSmdbPhase raw sinkCap data len
        else if extTagCode = 14 then HdmiEdidExtUseExtDataBlockY420VdbPhase raw sinkCap data len
        else if extTagCode = 15 then HdmiEdidExtUseExtDataBlockY420CmdbPhase raw sinkCap data len
        else Some sinkCap);
     Some (HDF_SUCCESS, sinkCap)
   }"

section \<open>The extension blocks\<close>

definition HdmiEdidExtDataBlockPhase ::
    "bytes \<Rightarrow> HdmiSinkDeviceCapability \<Rightarrow> nat \<Rightarrow> uint8_t \<Rightarrow> uint8_t \<Rightarrow> (HDF_STATUS \<times> HdmiSinkDeviceCapability) option" where
  "HdmiEdidExtDataBlockPhase raw sinkCap data len tag =
     (if len = 0 then Some (HDF_SUCCESS, sinkCap)
      else if tag = 1 then HdmiEdidExtAudioDataBlockPhase raw sinkCap data len
      else if tag = 2 then HdmiEdidExtVideoDataBlockPhase raw sinkCap data len
      else if tag = 3 then HdmiEdidExtVsDataBlockPhase raw sinkCap data len
      else if tag = 4 then HdmiEdidExtSpeakerDataBlockPhase raw sinkCap data len
      else if tag = 7 then HdmiEdidExtUseExtDataBlockPhase raw sinkCap data len
      else Some (HDF_SUCCESS, sinkCap))"

text \<open>
  The walk over the data blocks.  \<open>data\<close> is the index of the next header: the code's pointer with
  the length of the previous block already added, which the code does at the start of an
  iteration, or behind the loop.  The counter \<open>blkOffset\<close> has eight bits and may wrap around;
  the index only grows, so the walk ends, at the latest with a read behind the array.  The
  result tells whether the loop was left by the return.
\<close>

function data_block_loop ::
    "bytes \<Rightarrow> HdmiSinkDeviceCapability \<Rightarrow> nat \<Rightarrow> uint8_t \<Rightarrow> uint8_t \<Rightarrow>
     (bool \<times> HdmiSinkDeviceCapability \<times> nat \<times> uint8_t) option" where
  "data_block_loop raw sinkCap data blkOffset dtdOffset =
     (if \<not> (blkOffset < dtdOffset) then Some (False, sinkCap, data, blkOffset)
      else (case raw_at raw data of
          None \<Rightarrow> None
        | Some b \<Rightarrow>
            (let blkLen = b AND 0x1F;
                 dbTagCode = drop_bit 5 (b AND 0xE0)
             in (case HdmiEdidExtDataBlockPhase raw sinkCap (data + 1) blkLen dbTagCode of
                   None \<Rightarrow> None
                 | Some (ret, sinkCap) \<Rightarrow>
                     if ret \<noteq> HDF_SUCCESS then Some (True, sinkCap, data, blkOffset)
                     else data_block_loop raw sinkCap (data + 1 + unat blkLen) (blkOffset + (blkLen + 1)) dtdOffset))))"
  by pat_completeness auto
termination
  by (relation "measure (\<lambda>(raw, _, data, _). length raw - data)") (auto simp: raw_at_def split: if_splits)

text \<open>
  The detailed timings behind the data blocks.  The test is on the signed difference
  \<^verbatim>\<open>127 - blkOffset\<close>; the counter does not wrap around below 110.
\<close>

function dtd_loop :: "bytes \<Rightarrow> HdmiSinkDeviceCapability \<Rightarrow> nat \<Rightarrow> uint8_t \<Rightarrow> HdmiSinkDeviceCapability option" where
  "dtd_loop raw sinkCap data blkOffset =
     (if 127 - int (unat blkOffset) \<ge> 18
      then (case HdmiEdidDetailedTiming raw sinkCap data of
          None \<Rightarrow> None
        | Some sinkCap \<Rightarrow> dtd_loop raw sinkCap (data + 18) (blkOffset + 18))
      else Some sinkCap)"
  by pat_completeness auto
termination
proof (relation "measure (\<lambda>(_, _, _, blkOffset). 127 - unat blkOffset)")
  fix raw :: bytes and sinkCap cap :: HdmiSinkDeviceCapability and data :: nat and blkOffset :: uint8_t
  assume small: "127 - int (unat blkOffset) \<ge> 18"
  then have "unat blkOffset \<le> 109" by linarith
  then have "unat (blkOffset + 18) = unat blkOffset + 18" by (simp add: unat_word_ariths)
  with \<open>unat blkOffset \<le> 109\<close> show "((raw, cap, data + 18, blkOffset + 18), raw, sinkCap, data, blkOffset)
      \<in> measure (\<lambda>(_, _, _, blkOffset). 127 - unat blkOffset)" by auto
qed simp

definition HdmiEdidExtSeveralDataBlockPhase :: "HdmiEdid \<Rightarrow> uint8_t \<Rightarrow> HdmiEdid option" where
  "HdmiEdidExtSeveralDataBlockPhase edid blockNum = do {
     let raw = ed_raw edid;
     let data = unat blockNum * HDMI_EDID_SINGLE_BLOCK_SIZE;
     dtdOffset \<leftarrow> raw_at raw (data + 2);
     (returned, sinkCap, data, blkOffset) \<leftarrow> data_block_loop raw (ed_sinkCap edid) (data + 4) 4 dtdOffset;
     if returned then Some (edid\<lparr>ed_sinkCap := sinkCap\<rparr>)
     else do {
       sinkCap \<leftarrow> dtd_loop raw sinkCap data blkOffset;
       Some (edid\<lparr>ed_sinkCap := sinkCap\<rparr>)
     }
   }"

definition HdmiEdidExtBlockPhase :: "HdmiEdid \<Rightarrow> uint8_t \<Rightarrow> (HDF_STATUS \<times> HdmiEdid) option" where
  "HdmiEdidExtBlockPhase edid blockNum =
     (if unat blockNum \<ge> HDMI_EDID_MAX_BLOCK_NUM then Some (HDF_ERR_INVALID_PARAM, edid)
      else do {
        let raw = ed_raw edid;
        let data = unat blockNum * HDMI_EDID_SINGLE_BLOCK_SIZE;
        ret \<leftarrow> HdmiEdidBlockCheckSum raw data;
        if ret \<noteq> HDF_SUCCESS then Some (ret, edid)
        else do {
          b2 \<leftarrow> raw_at raw (data + 2);
          if b2 < 4 then Some (HDF_SUCCESS, edid)
          else do {
            b3 \<leftarrow> raw_at raw (data + 3);
            let cap = ed_sinkCap edid;
            let cap = cap\<lparr>sk_colorSpace := (sk_colorSpace cap)\<lparr>csp_rgb444 := True,
                csp_ycbcr422 := marked b3 0x10, csp_ycbcr444 := marked b3 0x20\<rparr>,
              sk_supportAudio := marked b3 0x40\<rparr>;
            edid \<leftarrow> HdmiEdidExtSeveralDataBlockPhase (edid\<lparr>ed_sinkCap := cap\<rparr>) blockNum;
            Some (HDF_SUCCESS, edid)
          }
        }
      })"

text \<open>
  The loop of \<^verbatim>\<open>HdmiEdidPhase\<close>: its bound is a field of the capabilities, which no operation of
  an extension block stores to.  Block 4 does not exist and ends the loop with an error, so the
  values from 1 to 4 are enough whatever the field holds.
\<close>

fun ext_blocks :: "nat list \<Rightarrow> HdmiEdid \<Rightarrow> (HDF_STATUS \<times> HdmiEdid) option" where
  "ext_blocks [] edid = Some (HDF_SUCCESS, edid)"
| "ext_blocks (blockNum # rest) edid =
     (if blockNum \<le> unat (sk_extBlockNum (ed_sinkCap edid)) then do {
        (ret, edid) \<leftarrow> HdmiEdidExtBlockPhase edid (of_nat blockNum);
        if ret \<noteq> HDF_SUCCESS then Some (ret, edid) else ext_blocks rest edid
      }
      else Some (HDF_SUCCESS, edid))"

definition HdmiEdidPhase :: "HdmiEdid option \<Rightarrow> (HDF_STATUS \<times> HdmiEdid option) option" where
  "HdmiEdidPhase edid =
     (case edid of
        None \<Rightarrow> Some (HDF_ERR_INVALID_PARAM, None)
      | Some e \<Rightarrow> do {
          (ret, e) \<leftarrow> HdmiEdidFirstBlockPhase e;
          if ret \<noteq> HDF_SUCCESS then Some (ret, Some e)
          else do {
            (ret, e) \<leftarrow> ext_blocks [1..<HDMI_EDID_MAX_BLOCK_NUM + 1] e;
            Some (ret, Some e)
          }
        })"

end
