(* ===== verification/Hdmi_EdidSafe.thy ===== *)
theory Hdmi_EdidSafe
  imports Hdmi_EdidExt
begin

text \<open>
  What holds of the parser of \<^verbatim>\<open>hdmi_edid.c\<close> whatever a display sends: the invariant of the
  capabilities, the operations that keep it, and the properties of the whole parser.
\<close>

section \<open>The invariant of the capabilities\<close>

definition audio_ok :: "HdmiEdidAudioInfo \<Rightarrow> bool" where
  "audio_ok a \<longleftrightarrow> length (ai_sampleRate a) = 8 \<and> length (ai_bitDepth a) = 6"

definition video_ok :: "HdmiEdidVideoInfo \<Rightarrow> bool" where
  "video_ok v \<longleftrightarrow> length (vin_vic v) = 128 \<and> vin_vicNum v \<le> 128"

definition y420_ok :: "HdmiEdidYcbcr420Cap \<Rightarrow> bool" where
  "y420_ok y \<longleftrightarrow> length (y4_onlySupportY420Format y) = 128 \<and> y4_onlySupportY420VicNum y \<le> 128 \<and>
     length (y4_SupportY420Format y) = 128 \<and> y4_SupportY420VicNum y \<le> 128"

definition sink_ok :: "HdmiSinkDeviceCapability \<Rightarrow> bool" where
  "sink_ok c \<longleftrightarrow> length (vi_mfrName (sk_vendorInfo c)) = 4 \<and> length (sk_sinkDeviceName c) = 14 \<and>
     length (et_estTimings (sk_establishedTimingsInfo c)) = 17 \<and> length (sk_stdTimingsInfo c) = 8 \<and>
     length (sk_preTimingInfo c) = 10 \<and> sk_preTimingCnt c \<le> 10 \<and>
     length (sk_audioInfo c) = 16 \<and> sk_audioInfoCnt c \<le> 16 \<and> list_all audio_ok (sk_audioInfo c) \<and>
     video_ok (sk_videoInfo c) \<and> y420_ok (sk_y420Cap c) \<and>
     length (xv_support3dType (sk_vsdbInfo c)) = 9 \<and> length (sk_supportAudioSpeaker c) = 11"

text \<open>With the number of extension blocks, which only the first block sets.\<close>

definition sink_inv :: "uint8_t \<Rightarrow> HdmiSinkDeviceCapability \<Rightarrow> bool" where
  "sink_inv n c \<longleftrightarrow> sink_ok c \<and> sk_extBlockNum c = n"

lemmas sink_defs = sink_inv_def sink_ok_def

lemma counter_below: "c \<le> of_nat k \<Longrightarrow> unat c < k \<Longrightarrow> k < 2 ^ 32 \<Longrightarrow> c + 1 \<le> (of_nat k :: uint32_t)"
  by (simp add: word_le_nat_alt unat_word_ariths unat_of_nat)

lemma counter_step: "unat c < 10 \<Longrightarrow> (c :: uint32_t) + 1 \<le> 10" "unat c < 16 \<Longrightarrow> (c :: uint32_t) + 1 \<le> 16"
    "unat c < 128 \<Longrightarrow> (c :: uint32_t) + 1 \<le> 128"
  by (simp_all add: word_le_nat_alt unat_word_ariths)

lemma list_all_update: "list_all P xs \<Longrightarrow> P x \<Longrightarrow> list_all P (xs[i := x])"
  by (simp add: list_all_iff) (metis insert_iff set_update_subset_insert subsetD)

lemma list_all_at: "list_all P xs \<Longrightarrow> i < length xs \<Longrightarrow> P (xs ! i)"
  by (simp add: list_all_length)

section \<open>Each operation keeps the invariant\<close>

lemma adb_rate_ok: "audio_ok a \<Longrightarrow> runs audio_ok (adb_rate d m r a)"
  by (simp add: adb_rate_def audio_ok_def runs_simps)

lemma adb_depth_ok: "audio_ok a \<Longrightarrow> runs audio_ok (adb_depth d m r a)"
  by (simp add: adb_depth_def audio_ok_def runs_simps)

lemma sample_rates_ok: "audio_ok a \<Longrightarrow> runs audio_ok (HdmiEdidExtAdbSampleRatePhase a d f)"
  unfolding HdmiEdidExtAdbSampleRatePhase_def runs_simps
  by (intro runs_mono [OF adb_rate_ok] conjI impI if_bool_eq_conj [THEN iffD2]; assumption)

lemma depths_ok: "audio_ok a \<Longrightarrow> runs audio_ok (HdmiEdidExtAdbDepthAndMaxRatePhase a d f)"
  unfolding HdmiEdidExtAdbDepthAndMaxRatePhase_def runs_simps
  by (intro runs_mono [OF adb_depth_ok] conjI impI if_bool_eq_conj [THEN iffD2]; simp add: audio_ok_def)

lemma adb_descriptor_ok:
  assumes "sink_inv n c" "data + 3 \<le> length raw" "unat (sk_audioInfoCnt c) < 16"
  shows "runs (sink_inv n) (adb_descriptor raw c data)"
proof -
  have old: "audio_ok (sk_audioInfo c ! unat (sk_audioInfoCnt c))" "length (sk_audioInfo c) = 16"
    using assms(1,3) by (simp_all add: sink_defs list_all_at)
  have stored: "sink_inv n (c\<lparr>sk_audioInfo := (sk_audioInfo c)[i := a], sk_audioInfoCnt := sk_audioInfoCnt c + 1\<rparr>)"
    if "audio_ok a" for a i
    using assms(1,3) that by (simp add: sink_defs list_all_update counter_step)
  have audio: "audio_ok (a\<lparr>ai_formatCode := x, ai_channels := y\<rparr>)" if "audio_ok a" for a x y
    using that by (simp add: audio_ok_def)
  show ?thesis
    unfolding adb_descriptor_def Let_def
    using assms(2,3) old
    by (simp add: runs_simps)
      (intro runs_mono [OF sample_rates_ok] runs_mono [OF depths_ok]; simp add: audio stored runs_simps old assms)
qed

lemma adb_loop_ok:
  assumes "sink_inv m c" "data + 3 * (sum id {i..<i + n}) + 3 \<le> length raw"
  shows "runs (sink_inv m) (adb_loop raw c data i n)"
  using assms
proof (induction n arbitrary: c data i)
  case (Suc n)
  have sum: "sum id {i..<i + Suc n} = i + sum id {Suc i..<Suc i + n}"
    by (simp add: sum.atLeast_Suc_lessThan)
  show ?case
    using Suc.prems unfolding sum
    by (auto simp: runs_simps Let_def intro!: runs_mono [OF adb_descriptor_ok] Suc.IH)
qed (simp add: runs_simps)

text \<open>The result of an operation with a status.\<close>

abbreviation (input) status_inv :: "uint8_t \<Rightarrow> HDF_STATUS \<times> HdmiSinkDeviceCapability \<Rightarrow> bool" where
  "status_inv n \<equiv> (\<lambda>(ret, c). sink_inv n c)"

lemma audio_block_ok:
  assumes "sink_inv m c" "data + 138 \<le> length raw"
  shows "runs (status_inv m) (HdmiEdidExtAudioDataBlockPhase raw c data len)"
proof (cases "unat len > 30")
  case False
  then have "unat len div 3 \<le> 10" by simp
  then have "sum id {0..<unat len div 3} \<le> sum id {0..<10::nat}" by (intro sum_mono2) auto
  also have "\<dots> = 45" by (simp add: numeral_eq_Suc)
  finally show ?thesis
    using assms False
    by (simp add: HdmiEdidExtAudioDataBlockPhase_def runs_simps)
      (intro runs_mono [OF adb_loop_ok]; simp)
qed (simp add: HdmiEdidExtAudioDataBlockPhase_def runs_simps assms)

lemma video_room: "video_ok v \<Longrightarrow> \<not> 128 \<le> unat (vin_vicNum v) \<Longrightarrow> unat (vin_vicNum v) < length (vin_vic v)"
  by (simp add: video_ok_def)

lemma video_stored:
  "video_ok v \<Longrightarrow> \<not> 128 \<le> unat (vin_vicNum v) \<Longrightarrow>
   video_ok (v\<lparr>vin_vic := (vin_vic v)[i := x], vin_vicNum := vin_vicNum v + 1\<rparr>)"
  by (simp add: video_ok_def counter_step)

lemma video_native: "video_ok v \<Longrightarrow> video_ok (if b then v\<lparr>vin_nativeFormat := x\<rparr> else v)"
    "vin_vicNum (if b then v\<lparr>vin_nativeFormat := x\<rparr> else v) = vin_vicNum v"
  by (simp_all add: video_ok_def)

lemma vdb_loop_ok:
  assumes "video_ok v" "data + n \<le> length raw"
  shows "runs (\<lambda>(v, _). video_ok v) (vdb_loop raw v imp data n)"
  using assms
proof (induction n arbitrary: v imp data)
  case (Suc n)
  show ?case
    using Suc.prems
    by (simp add: runs_simps Let_def video_native video_room [OF video_native(1), unfolded video_native]
        video_stored [OF video_native(1), unfolded video_native] Suc.IH del: if_split)
qed (simp add: runs_simps)

lemma video_block_ok:
  "sink_inv m c \<Longrightarrow> data + unat len \<le> length raw \<Longrightarrow>
   runs (status_inv m) (HdmiEdidExtVideoDataBlockPhase raw c data len)"
  unfolding HdmiEdidExtVideoDataBlockPhase_def runs_simps
  by (rule runs_mono [OF vdb_loop_ok]) (auto simp: sink_defs video_ok_def runs_simps)

lemma cec_ok: "sink_inv m c \<Longrightarrow> data + 32 \<le> length raw \<Longrightarrow> runs (sink_inv m) (HdmiEdidVsdbCecPhyAddrPhase raw c data len)"
  by (simp add: HdmiEdidVsdbCecPhyAddrPhase_def runs_simps sink_defs Let_def)

lemma color_depth_ok:
  "sink_inv m c \<Longrightarrow> data + 32 \<le> length raw \<Longrightarrow> runs (sink_inv m) (HdmiEdidVsdbColorDepthPhase raw c data len)"
  by (simp add: HdmiEdidVsdbColorDepthPhase_def runs_simps sink_defs)

lemma set_max_tmds_inv [simp]: "sink_inv m (set_max_tmds b c) = sink_inv m c"
  by (simp add: set_max_tmds_def sink_defs)

lemma max_tmds_ok:
  "sink_inv m c \<Longrightarrow> data + 32 \<le> length raw \<Longrightarrow> runs (sink_inv m) (HdmiEdidVsdbMaxTmdsClockPhase raw c data len)"
  by (simp add: HdmiEdidVsdbMaxTmdsClockPhase_def runs_simps)

lemma present_ok:
  "sink_inv m c \<Longrightarrow> data + 32 \<le> length raw \<Longrightarrow> runs (sink_inv m) (HdmiEdidVsdbSinkPresentPhase raw c data len)"
  by (simp add: HdmiEdidVsdbSinkPresentPhase_def runs_simps sink_defs)

lemma latency_byte_ok:
  "length (xv_support3dType x) = 9 \<Longrightarrow> p < length raw \<Longrightarrow>
   (\<And>b x. xv_support3dType (store b x) = xv_support3dType x) \<Longrightarrow>
   runs (\<lambda>x. length (xv_support3dType x) = 9) (latency_byte raw p present store x)"
  by (simp add: latency_byte_def runs_simps)

lemma latency_ok:
  "sink_inv m c \<Longrightarrow> data + 32 \<le> length raw \<Longrightarrow> runs (sink_inv m) (HdmiEdidVsdbSinkLatencyPhase raw c data len)"
  unfolding HdmiEdidVsdbSinkLatencyPhase_def Let_def runs_simps
  by (intro runs_mono [OF latency_byte_ok]; simp add: sink_defs)

lemma vic_info_ok:
  assumes "video_ok v" "data + unat off + n \<le> length raw" "unat off + n < 256"
  shows "runs (\<lambda>(v, off'). video_ok v \<and> unat off' \<le> unat off + n) (HdmiEdidVsdbVicInfoPhase raw v data n off)"
  using assms
proof (induction n arbitrary: v off)
  case (Suc n)
  have off: "unat (off + 1) = unat off + 1"
    using Suc.prems(3) by (simp add: unat_word_ariths)
  have IH: "runs (\<lambda>(v, off'). video_ok v \<and> unat off' \<le> unat off + Suc n) (HdmiEdidVsdbVicInfoPhase raw v data n (off + 1))"
    if "video_ok v" for v
    by (rule runs_mono [OF Suc.IH [OF that]]) (use Suc.prems off in auto)
  show ?case
    using Suc.prems(1,2) by (simp add: runs_simps video_room video_stored IH [simplified])
qed (simp add: runs_simps)

lemma structure_3d_ok:
  "sink_inv m c \<Longrightarrow> data + 34 \<le> length raw \<Longrightarrow> len \<le> 31 \<Longrightarrow>
   runs (\<lambda>(c, _). sink_inv m c) (HdmiEdidVsdb3dStructureInfoPhase raw c data len off)"
  by (auto simp: HdmiEdidVsdb3dStructureInfoPhase_def runs_simps sink_defs word_le_nat_alt split_def)

lemma vic_and_3d_ok:
  assumes "sink_inv m c" "data + 34 \<le> length raw" "len \<le> 31"
  shows "runs (sink_inv m) (HdmiEdidVsdbVicAnd3dInfoPhase raw c data len)"
proof -
  let ?set = "\<lambda>b. c\<lparr>sk_vsdbInfo := (sk_vsdbInfo c)\<lparr>xv_3dPresent := marked b 0x80,
      xv_3dMultiPresent := drop_bit 5 (b AND 0x60)\<rparr>\<rparr>"
  have inv: "sink_inv m (?set b\<lparr>sk_videoInfo := v\<rparr>)" if "video_ok v" for b v
    using assms(1) that by (simp add: sink_defs)
  have video: "video_ok (sk_videoInfo c)" using assms(1) by (simp add: sink_defs)
  have vics: "runs (\<lambda>(v, off). video_ok v \<and> unat off \<le> 14 + n) (HdmiEdidVsdbVicInfoPhase raw (sk_videoInfo c) data n 14)"
    if "n + 15 \<le> 31" for n
    using vic_info_ok [OF video, of data 14 n raw] that assms(2) by simp
  have last: "runs (sink_inv m) (if b then HdmiEdidVsdb3dStructureInfoPhase raw d data len off \<bind> (\<lambda>(c, _). Some c) else Some d)"
    if "sink_inv m d" for b d off
    using structure_3d_ok [OF that assms(2,3), of off] that by (simp add: runs_simps split_def)
  have parsed: "runs (\<lambda>(v, off). video_ok v)
      (if 0 < k \<and> unat k + 14 + 1 \<le> unat len then HdmiEdidVsdbVicInfoPhase raw (sk_videoInfo c) data (unat k) 14
       else Some (sk_videoInfo c, 14))" for k :: uint8_t
  proof -
    have "unat len \<le> 31" using assms(3) by (simp add: word_le_nat_alt)
    then show ?thesis
      using video by (auto simp: runs_simps intro!: runs_mono [OF vics])
  qed
  have rest: "runs (sink_inv m)
      ((if 0 < k \<and> unat k + 14 + 1 \<le> unat len then HdmiEdidVsdbVicInfoPhase raw (sk_videoInfo (?set b)) data (unat k) 14
        else Some (sk_videoInfo (?set b), 14)) \<bind>
       (\<lambda>(v, off). if k' b v off then HdmiEdidVsdb3dStructureInfoPhase raw (?set b\<lparr>sk_videoInfo := v\<rparr>) data len off
           \<bind> (\<lambda>(c, _). Some c) else Some (?set b\<lparr>sk_videoInfo := v\<rparr>)))" for b and k :: uint8_t and k'
    unfolding runs_bind
  proof (rule runs_mono)
    show "runs (\<lambda>(v, off). video_ok v) (if 0 < k \<and> unat k + 14 + 1 \<le> unat len
        then HdmiEdidVsdbVicInfoPhase raw (sk_videoInfo (?set b)) data (unat k) 14 else Some (sk_videoInfo (?set b), 14))"
      using parsed [of k] by (simp split del: if_split cong: if_cong)
  next
    fix x :: "HdmiEdidVideoInfo \<times> uint8_t"
    assume "case x of (v, off) \<Rightarrow> video_ok v"
    then obtain v off where "x = (v, off)" "video_ok v" by (cases x) simp
    then show "runs (sink_inv m) (case x of (v, off) \<Rightarrow> if k' b v off
        then HdmiEdidVsdb3dStructureInfoPhase raw (?set b\<lparr>sk_videoInfo := v\<rparr>) data len off
           \<bind> (\<lambda>(c, _). Some c) else Some (?set b\<lparr>sk_videoInfo := v\<rparr>))"
      by (simp only: prod.case) (rule last [OF inv])
  qed
  have b: "raw_at raw (data + 12) = Some (raw ! (data + 12))" "raw_at raw (data + 13) = Some (raw ! (data + 13))"
    using assms(2) by (simp_all add: raw_at_def)
  show ?thesis
    unfolding HdmiEdidVsdbVicAnd3dInfoPhase_def Let_def b Option.bind.bind_lunit
    using rest
    by (cases "len < 13"; cases "14 \<le> len")
      (simp_all only: if_True if_False runs_Some assms(1) Option.bind.bind_lunit prod.case)
qed

lemma vsdb_ok:
  assumes "sink_inv m c" "data + 34 \<le> length raw" "len \<le> 31"
  shows "runs (status_inv m) (HdmiEdidVsdbPhase raw c data len)"
proof -
  have room: "data + 32 \<le> length raw" using assms(2) by simp
  show ?thesis
    unfolding HdmiEdidVsdbPhase_def
    by (simp add: runs_simps assms(1))
      (intro impI runs_mono [OF cec_ok [OF _ room]] runs_mono [OF color_depth_ok [OF _ room]]
        runs_mono [OF max_tmds_ok [OF _ room]] runs_mono [OF present_ok [OF _ room]]
        runs_mono [OF latency_ok [OF _ room]] runs_mono [OF vic_and_3d_ok [OF _ assms(2,3)]];
        assumption?; simp add: assms)
qed

lemma hf_vsdb_ok:
  "sink_inv m c \<Longrightarrow> data + 13 \<le> length raw \<Longrightarrow> runs (status_inv m) (HdmiEdidHfVsdbPhase raw c data len)"
  by (simp add: HdmiEdidHfVsdbPhase_def HdmiEdidHfVsdb21Phase_def runs_simps Let_def)
    (simp add: sink_defs set_max_tmds_def)

lemma bytes_at_ok: "data + length bs \<le> length raw \<Longrightarrow> runs (\<lambda>_. True) (bytes_at raw data bs)"
  by (induction bs arbitrary: data) (simp_all add: runs_simps)

lemma vs_block_ok:
  assumes "sink_inv m c" "data + 34 \<le> length raw" "len \<le> 31"
  shows "runs (status_inv m) (HdmiEdidExtVsDataBlockPhase raw c data len)"
proof -
  have "sink_inv m (c\<lparr>sk_supportHdmi14 := True\<rparr>)" using assms(1) by (simp add: sink_defs)
  then show ?thesis
    unfolding HdmiEdidExtVsDataBlockPhase_def
    using vsdb_ok [OF _ assms(2,3)] hf_vsdb_ok [OF assms(1)] assms
    by (simp add: runs_simps)
qed

lemma speaker_ok:
  "sink_inv m c \<Longrightarrow> data + 2 \<le> length raw \<Longrightarrow> runs (status_inv m) (HdmiEdidExtSpeakerDataBlockPhase raw c data len)"
  by (simp add: HdmiEdidExtSpeakerDataBlockPhase_def set_flag_def runs_simps sink_defs)

lemma add_only_y420_ok:
  "sink_inv m c \<Longrightarrow> \<not> 128 \<le> unat (y4_onlySupportY420VicNum (sk_y420Cap c)) \<Longrightarrow> runs (sink_inv m) (add_only_y420 vic c)"
  by (simp add: add_only_y420_def runs_simps sink_defs y420_ok_def counter_step Let_def)

lemma add_y420_ok:
  "sink_inv m c \<Longrightarrow> \<not> 128 \<le> unat (y4_SupportY420VicNum (sk_y420Cap c)) \<Longrightarrow>
   runs (\<lambda>c'. sink_inv m c' \<and> sk_videoInfo c' = sk_videoInfo c) (add_y420 vic c)"
  by (simp add: add_y420_def runs_simps sink_defs y420_ok_def counter_step Let_def)

lemma y420_vdb_ok:
  "sink_inv m c \<Longrightarrow> data + n \<le> length raw \<Longrightarrow> runs (sink_inv m) (y420_vdb_loop raw c data n)"
  by (induction n arbitrary: c data) (auto simp: runs_simps intro!: runs_mono [OF add_only_y420_ok])

lemma vic_at: "sink_inv m c \<Longrightarrow> i < unat (vin_vicNum (sk_videoInfo c)) \<Longrightarrow> i < length (vin_vic (sk_videoInfo c))"
  by (simp add: sink_defs video_ok_def word_le_nat_alt)

lemma y420_all_ok: "sink_inv m c \<Longrightarrow> runs (sink_inv m) (y420_all_loop c is)"
  by (induction "is" arbitrary: c) (auto simp: runs_simps vic_at intro!: runs_mono [OF add_y420_ok])

lemma y420_map_ok:
  "sink_inv m c \<Longrightarrow> \<forall>i\<in>set is. data + i div 8 < length raw \<Longrightarrow> runs (sink_inv m) (y420_map_loop raw c data is)"
  by (induction "is" arbitrary: c) (auto simp: runs_simps vic_at intro!: runs_mono [OF add_y420_ok])

lemma y420_cmdb_ok:
  assumes "sink_inv m c" "data + 18 \<le> length raw"
  shows "runs (sink_inv m) (HdmiEdidExtUseExtDataBlockY420CmdbPhase raw c data len)"
proof -
  have "data + 1 + i div 8 < length raw" if "i < 128" for i
    using assms(2) div_le_mono [of i 127 8] that by simp
  then show ?thesis
    using assms(1)
    by (auto simp: HdmiEdidExtUseExtDataBlockY420CmdbPhase_def runs_simps Let_def intro!: y420_all_ok y420_map_ok)
qed

lemma ext_tag_ok:
  assumes "sink_inv m c" "data + 34 \<le> length raw" "len \<le> 31"
  shows "runs (status_inv m) (HdmiEdidExtUseExtDataBlockPhase raw c data len)"
proof -
  have vcdb: "runs (sink_inv m) (HdmiEdidExtUseExtDataBlockVcdbPhase raw c data len)"
    using assms by (simp add: HdmiEdidExtUseExtDataBlockVcdbPhase_def runs_simps sink_defs)
  have dolby: "runs (sink_inv m) (HdmiEdidExtUseExtDataBlockVsvdbPhase raw c data len)"
    using assms by (simp add: HdmiEdidExtUseExtDataBlockVsvdbPhase_def HdmiEdidDolbyCapVersionZeroPhase_def
        HdmiEdidDolbyCapVersionOnePhase_def runs_simps Let_def) (simp add: sink_defs)
  have cdb: "runs (sink_inv m) (HdmiEdidExtUseExtDataBlockCdbPhase raw c data len)"
    using assms by (simp add: HdmiEdidExtUseExtDataBlockCdbPhase_def runs_simps sink_defs)
  have hdr: "runs (sink_inv m) (HdmiEdidExtUseExtDataBlockHdrSmdbPhase raw c data len)"
    using assms by (simp add: HdmiEdidExtUseExtDataBlockHdrSmdbPhase_def runs_simps Let_def) (simp add: sink_defs)
  have "unat len \<le> 31" using assms(3) by (simp add: word_le_nat_alt)
  then have vdb: "runs (sink_inv m) (HdmiEdidExtUseExtDataBlockY420VdbPhase raw c data len)"
    using assms by (simp add: HdmiEdidExtUseExtDataBlockY420VdbPhase_def y420_vdb_ok)
  have cmdb: "runs (sink_inv m) (HdmiEdidExtUseExtDataBlockY420CmdbPhase raw c data len)"
    using assms by (simp add: y420_cmdb_ok)
  show ?thesis
    unfolding HdmiEdidExtUseExtDataBlockPhase_def
    using assms vcdb dolby cdb hdr vdb cmdb by (simp add: runs_simps)
qed

lemma data_block_ok:
  assumes "sink_inv m c" "data + 138 \<le> length raw" "len \<le> 31"
  shows "runs (status_inv m) (HdmiEdidExtDataBlockPhase raw c data len tag)"
proof -
  have "unat len \<le> 31" using assms(3) by (simp add: word_le_nat_alt)
  then show ?thesis
    unfolding HdmiEdidExtDataBlockPhase_def
    using assms
    by (simp add: runs_simps audio_block_ok video_block_ok vs_block_ok speaker_ok ext_tag_ok)
qed

section \<open>Descriptors and blocks\<close>

declare dtd_loop.simps [simp del] data_block_loop.simps [simp del]

lemma runs_all_zero: "data + n \<le> length raw \<Longrightarrow> runs (\<lambda>_. True) (all_zero_at raw data n)"
  by (induction n arbitrary: data) (simp_all add: runs_simps)

lemma monitor_ok:
  assumes "sink_inv m c" "data + 18 \<le> length raw"
  shows "runs (sink_inv m) (HdmiEdidMonitorDescriptorPhase raw c data)"
proof -
  have "length (sk_sinkDeviceName c) = 14" using assms(1) by (simp add: sink_defs)
  then show ?thesis
    using assms
    by (simp add: HdmiEdidMonitorDescriptorPhase_def runs_simps memcpy_s_def mem_write_def) (simp add: sink_defs)
qed

lemma descriptor_ok:
  assumes "sink_inv m c" "data + 18 \<le> length raw"
  shows "runs (sink_inv m) (HdmiEdidDetailedTimingDescriptorPhase raw c data)"
proof -
  have "length (sk_preTimingInfo c) = 10" using assms(1) by (simp add: sink_defs)
  moreover have "sink_inv m (c\<lparr>sk_preTimingInfo := (sk_preTimingInfo c)[i := t], sk_preTimingCnt := sk_preTimingCnt c + 1\<rparr>)"
    if "\<not> 10 \<le> unat (sk_preTimingCnt c)" for i t
    using assms(1) that by (simp add: sink_defs counter_step)
  ultimately show ?thesis
    using assms by (simp add: HdmiEdidDetailedTimingDescriptorPhase_def runs_simps Let_def)
qed

lemma timing_ok:
  assumes "sink_inv m c" "data + 18 \<le> length raw"
  shows "runs (sink_inv m) (HdmiEdidDetailedTiming raw c data)"
  unfolding HdmiEdidDetailedTiming_def runs_bind
  by (rule runs_mono [OF runs_all_zero]) (use assms in \<open>auto simp: monitor_ok descriptor_ok\<close>)

lemma dtd_loop_ok:
  "sink_inv m c \<Longrightarrow> data + 127 \<le> length raw + unat off \<Longrightarrow> runs (sink_inv m) (dtd_loop raw c data off)"
proof (induction raw c data off rule: dtd_loop.induct)
  case (1 raw c data off)
  show ?case
  proof (cases "127 - int (unat off) \<ge> 18")
    case True
    then have "unat off \<le> 109" by linarith
    moreover from this have "unat (off + 18) = unat off + 18" by (simp add: unat_word_ariths)
    ultimately obtain c' where "HdmiEdidDetailedTiming raw c data = Some c'" "sink_inv m c'"
      using timing_ok [of m c data raw] 1 by (auto simp: runs_iff)
    with True 1 \<open>unat (off + 18) = unat off + 18\<close> show ?thesis
      by (subst dtd_loop.simps) simp
  qed (use 1 in \<open>simp add: dtd_loop.simps [of raw c data off] runs_simps\<close>)
qed

text \<open>
  The walk stays inside the array if the offset of the detailed timings lies in the block, whatever
  the lengths of the data blocks: the counter then cannot wrap around.
\<close>

lemma data_blocks_ok:
  assumes "dtd \<le> 127" "base + 265 \<le> length raw"
  shows "sink_inv m c \<Longrightarrow> data = base + unat off \<Longrightarrow> unat off \<le> 158 \<Longrightarrow>
    runs (\<lambda>(_, c, data, off). sink_inv m c \<and> data = base + unat off \<and> unat off \<le> 158)
      (data_block_loop raw c data off dtd)"
  using assms
proof (induction raw c data off dtd rule: data_block_loop.induct)
  case (1 raw c data off dtd)
  show ?case
  proof (cases "off < dtd")
    case True
    then have off: "unat off \<le> 126" using 1(5) by (simp add: word_less_nat_alt word_le_nat_alt)
    let ?b = "raw ! data"
    have len: "?b AND 0x1F \<le> 31" by (simp add: word_and_le1)
    then have nlen: "unat (?b AND 0x1F) \<le> 31" by (simp add: word_le_nat_alt)
    have b: "raw_at raw data = Some ?b" using 1 off by (simp add: raw_at_def)
    have room: "data + 1 + 138 \<le> length raw" using 1(3,6) off by simp
    obtain ret c' where phase:
        "HdmiEdidExtDataBlockPhase raw c (data + 1) (?b AND 0x1F) (drop_bit 5 (?b AND 0xE0)) = Some (ret, c')"
        "sink_inv m c'"
      using data_block_ok [OF 1(2) room len, of "drop_bit 5 (?b AND 0xE0)"] by (auto simp: runs_iff)
    have next_off: "unat (off + (?b AND 0x1F) + 1) = unat off + unat (?b AND 0x1F) + 1"
      using off nlen by (simp add: unat_word_ariths)
    show ?thesis
    proof (cases "ret = HDF_SUCCESS")
      case True
      with 1(1) [OF _ b refl refl phase(1) refl] 1(3-6) phase(2) off nlen next_off \<open>off < dtd\<close> b phase(1)
      show ?thesis
        by (subst data_block_loop.simps) (simp add: Let_def ac_simps)
    qed (use True 1(2-6) b phase in \<open>subst data_block_loop.simps, simp add: Let_def runs_simps\<close>)
  qed (use 1(2-6) in \<open>subst data_block_loop.simps, simp add: runs_simps\<close>)
qed

text \<open>The parser's state: the array has its length, the capabilities keep their invariant.\<close>

definition edid_ok :: "HdmiEdid \<Rightarrow> bool" where
  "edid_ok e \<longleftrightarrow> length (ed_raw e) = HDMI_EDID_TOTAL_SIZE \<and> sink_ok (ed_sinkCap e)"

lemma zero_edid_ok: "edid_ok zero_HdmiEdid"
  by (simp add: edid_ok_def zero_HdmiEdid_def sink_ok_def zero_HdmiSinkDeviceCapability_def
      zero_HdmiEdidVendorInfo_def zero_HdmiEdidEstablishedTimingsInfo_def zero_HdmiEdidVideoInfo_def video_ok_def
      zero_HdmiEdidYcbcr420Cap_def y420_ok_def zero_HdmiEdidExtVsdbInfo_def audio_ok_def zero_HdmiEdidAudioInfo_def
      list_all_iff)

abbreviation (input) keeps_edid :: "bytes \<Rightarrow> HDF_STATUS \<times> HdmiEdid \<Rightarrow> bool" where
  "keeps_edid raw \<equiv> (\<lambda>(ret, e). ed_raw e = raw \<and> edid_ok e)"

lemma several_ok:
  assumes "ed_raw e = raw" "length raw = 512" "sink_inv m (ed_sinkCap e)" "n = 1" "raw ! 130 \<le> 127"
  shows "runs (\<lambda>e. ed_raw e = raw \<and> sink_inv m (ed_sinkCap e)) (HdmiEdidExtSeveralDataBlockPhase e n)"
proof -
  have dtd: "raw_at raw 130 = Some (raw ! 130)" using assms(2) by (simp add: raw_at_def)
  have "runs (\<lambda>(_, c, data, off). sink_inv m c \<and> data = 128 + unat off \<and> unat off \<le> 158)
      (data_block_loop raw (ed_sinkCap e) 132 4 (raw ! 130))"
    by (rule data_blocks_ok) (use assms in simp_all)
  then obtain r c data off where walk: "data_block_loop raw (ed_sinkCap e) 132 4 (raw ! 130) = Some (r, c, data, off)"
      "sink_inv m c" "data = 128 + unat off"
    by (auto simp: runs_iff)
  have "runs (sink_inv m) (dtd_loop raw c data off)"
    by (rule dtd_loop_ok) (use walk assms in simp_all)
  then show ?thesis
    using walk assms(1,4) by (auto simp: HdmiEdidExtSeveralDataBlockPhase_def Let_def dtd runs_iff)
qed

lemma check_sum_runs: "data + 128 \<le> length raw \<Longrightarrow> \<exists>ret. HdmiEdidBlockCheckSum raw data = Some ret"
  by (simp add: HdmiEdidBlockCheckSum_def Let_def)

lemma ext_block_ok:
  assumes "ed_raw e = raw" "length raw = 512" "sink_inv m (ed_sinkCap e)" "raw ! 130 \<le> 127"
  shows "runs (\<lambda>(_, e). ed_raw e = raw \<and> sink_inv m (ed_sinkCap e)) (HdmiEdidExtBlockPhase e 1)"
proof -
  obtain ret where sum: "HdmiEdidBlockCheckSum raw 128 = Some ret"
    using check_sum_runs [of 128 raw] assms(2) by auto
  have several: "runs (\<lambda>e. ed_raw e = raw \<and> sink_inv m (ed_sinkCap e))
      (HdmiEdidExtSeveralDataBlockPhase (e\<lparr>ed_sinkCap := c\<rparr>) 1)" if "sink_inv m c" for c
    by (rule several_ok) (use assms that in simp_all)
  have inv: "sink_inv m ((ed_sinkCap e)\<lparr>sk_colorSpace := s, sk_supportAudio := a\<rparr>)" for s a
    using assms(3) by (simp add: sink_defs)
  show ?thesis
    unfolding HdmiEdidExtBlockPhase_def Let_def
    using assms sum by (simp add: runs_simps several [OF inv])
qed

lemma ext_blocks_ok:
  assumes "ed_raw e = raw" "length raw = 512" "sink_inv m (ed_sinkCap e)" "m \<le> 1" "raw ! 130 \<le> 127"
  shows "runs (\<lambda>(_, e). ed_raw e = raw \<and> sink_inv m (ed_sinkCap e)) (ext_blocks [1, 2, 3, 4] e)"
proof -
  have m: "sk_extBlockNum (ed_sinkCap e) = m" using assms(3) by (simp add: sink_inv_def)
  have stop: "ext_blocks [2, 3, 4] e' = Some (HDF_SUCCESS, e')" if "sink_inv m (ed_sinkCap e')" for e'
    using that assms(4) by (simp add: sink_inv_def word_le_nat_alt)
  obtain ret e' where one: "HdmiEdidExtBlockPhase e 1 = Some (ret, e')" "ed_raw e' = raw" "sink_inv m (ed_sinkCap e')"
    using ext_block_ok [OF assms(1-3,5)] by (auto simp: runs_iff)
  show ?thesis
    unfolding ext_blocks.simps(2) [of 1]
    using assms(1,3) one stop [OF one(3)] by (simp add: m runs_simps del: ext_blocks.simps)
qed

section \<open>The first block\<close>

lemma mfr_letter_length [simp]: "length (mfr_letter d name i) = length name"
  by (simp add: mfr_letter_def Let_def)

lemma est_timings_ok:
  "length (et_estTimings t) = 17 \<Longrightarrow> \<forall>i\<in>set is. i < 17 \<Longrightarrow>
   runs (\<lambda>t. length (et_estTimings t) = 17) (est_timings_loop d is t)"
  by (induction "is" arbitrary: t) (simp_all add: runs_simps)

lemma std_timings_ok:
  "length ts = 8 \<Longrightarrow> length d = 16 \<Longrightarrow> \<forall>i\<in>set is. i < 8 \<Longrightarrow> runs (\<lambda>ts. length ts = 8) (std_timing_loop d is ts)"
  by (induction "is" arbitrary: ts) (simp_all add: runs_simps)

definition phase_ok :: "edid_phase \<Rightarrow> bool" where
  "phase_ok f \<longleftrightarrow> (\<forall>e. edid_ok e \<longrightarrow> runs (\<lambda>(_, e'). ed_raw e' = ed_raw e \<and> edid_ok e') (f e))"

lemma run_phases_ok: "list_all phase_ok fs \<Longrightarrow> phase_ok (run_phases fs)"
proof (induction fs)
  case (Cons f fs)
  show ?case
    unfolding phase_ok_def
  proof (intro allI impI)
    fix e assume e: "edid_ok e"
    then obtain ret e1 where f: "f e = Some (ret, e1)" "ed_raw e1 = ed_raw e" "edid_ok e1"
      using Cons.prems by (auto simp: phase_ok_def runs_iff)
    show "runs (\<lambda>(_, e'). ed_raw e' = ed_raw e \<and> edid_ok e') (run_phases (f # fs) e)"
      using Cons f by (auto simp: runs_simps phase_ok_def)
  qed
qed (simp add: phase_ok_def runs_simps)

lemmas block_defs = phase_ok_def edid_ok_def sink_ok_def first_block_def runs_simps Let_def

lemma first_phases_ok:
  "list_all phase_ok [HdmiEdidHeaderPhase, HdmiEdidVendorInfoPhase, HdmiEdidVersionInfoPhase, HdmiEdidBasicDispPhase,
     HdmiEdidColorFeaturePhase, HdmiEdidEstablisedTimingPhase, HdmiEdidStandardTimingPhase,
     HdmiEdidDetailedTimingPhase, HdmiEdidExtBlockNumPhase]"
proof -
  have 1: "phase_ok HdmiEdidHeaderPhase" "phase_ok HdmiEdidVersionInfoPhase" "phase_ok HdmiEdidBasicDispPhase"
      "phase_ok HdmiEdidColorFeaturePhase" "phase_ok HdmiEdidExtBlockNumPhase" "phase_ok HdmiEdidVendorInfoPhase"
    by (simp_all add: HdmiEdidHeaderPhase_def HdmiEdidVersionInfoPhase_def HdmiEdidBasicDispPhase_def
        HdmiEdidColorFeaturePhase_def HdmiEdidExtBlockNumPhase_def HdmiEdidVendorInfoPhase_def block_defs)
  have 2: "phase_ok HdmiEdidEstablisedTimingPhase"
    by (auto simp: HdmiEdidEstablisedTimingPhase_def block_defs intro!: runs_mono [OF est_timings_ok])
  have 3: "phase_ok HdmiEdidStandardTimingPhase"
    by (auto simp: HdmiEdidStandardTimingPhase_def block_defs intro!: runs_mono [OF std_timings_ok])
  have 4: "phase_ok HdmiEdidDetailedTimingPhase"
    unfolding phase_ok_def
  proof (intro allI impI)
    fix e assume e: "edid_ok e"
    let ?n = "sk_extBlockNum (ed_sinkCap e)"
    have "sink_inv ?n (ed_sinkCap e)" "length (ed_raw e) = 512" using e by (simp_all add: edid_ok_def sink_inv_def)
    then show "runs (\<lambda>(_, e'). ed_raw e' = ed_raw e \<and> edid_ok e') (HdmiEdidDetailedTimingPhase e)"
      unfolding HdmiEdidDetailedTimingPhase_def runs_bind
      by (intro runs_mono [OF timing_ok]; (assumption | auto simp: runs_simps edid_ok_def sink_inv_def))
  qed
  show ?thesis using 1 2 3 4 by simp
qed

lemma first_block_ok:
  assumes "edid_ok e"
  shows "runs (\<lambda>(_, e'). ed_raw e' = ed_raw e \<and> edid_ok e') (HdmiEdidFirstBlockPhase e)"
proof -
  obtain ret where "HdmiEdidBlockCheckSum (ed_raw e) 0 = Some ret"
    using check_sum_runs [of 0 "ed_raw e"] assms by (auto simp: edid_ok_def)
  then show ?thesis
    using run_phases_ok [OF first_phases_ok] assms
    by (simp add: HdmiEdidFirstBlockPhase_def runs_simps phase_ok_def del: run_phases.simps)
qed

lemma run_phases_last:
  "run_phases (fs @ [g]) e = Some (HDF_SUCCESS, e') \<Longrightarrow> \<exists>e1. g e1 = Some (HDF_SUCCESS, e')"
  by (induction fs arbitrary: e) (auto split: if_splits Option.bind_splits)

lemma first_block_count:
  assumes "HdmiEdidFirstBlockPhase e = Some (HDF_SUCCESS, e')"
  shows "raw_at (ed_raw e') 126 \<noteq> None \<and>
    sk_extBlockNum (ed_sinkCap e') = (if the (raw_at (ed_raw e') 126) > 3 then 3 else the (raw_at (ed_raw e') 126))"
proof -
  have "run_phases ([HdmiEdidHeaderPhase, HdmiEdidVendorInfoPhase, HdmiEdidVersionInfoPhase, HdmiEdidBasicDispPhase,
      HdmiEdidColorFeaturePhase, HdmiEdidEstablisedTimingPhase, HdmiEdidStandardTimingPhase,
      HdmiEdidDetailedTimingPhase] @ [HdmiEdidExtBlockNumPhase]) e = Some (HDF_SUCCESS, e')"
    using assms by (auto simp: HdmiEdidFirstBlockPhase_def simp del: run_phases.simps split: if_splits Option.bind_splits)
  then obtain e1 where "HdmiEdidExtBlockNumPhase e1 = Some (HDF_SUCCESS, e')" using run_phases_last by blast
  then show ?thesis by (auto simp: HdmiEdidExtBlockNumPhase_def split: Option.bind_splits)
qed

section \<open>The standard encoding of a detailed timing\<close>

text \<open>
  The encoding of a detailed timing by the standard (VESA E-EDID, 3.10.2): low bytes, shared
  nibbles and bit pairs, the flags of a digital separate synchronisation.
\<close>

definition shared_nibbles :: "uint32_t \<Rightarrow> uint32_t \<Rightarrow> uint8_t" where
  "shared_nibbles a b = ucast (push_bit 4 (drop_bit 8 a)) OR ucast (drop_bit 8 b)"

definition shared_pairs :: "uint32_t \<Rightarrow> uint32_t \<Rightarrow> uint32_t \<Rightarrow> uint32_t \<Rightarrow> uint8_t" where
  "shared_pairs hf hs vf vs = ucast (push_bit 6 (drop_bit 8 hf)) OR ucast (push_bit 4 (drop_bit 8 hs)) OR
     ucast (push_bit 2 (drop_bit 4 vf)) OR ucast (drop_bit 4 vs)"

definition low_nibbles :: "uint32_t \<Rightarrow> uint32_t \<Rightarrow> uint8_t" where
  "low_nibbles a b = ucast (push_bit 4 (take_bit 4 a)) OR ucast (take_bit 4 b)"

definition timing_flags :: "HdmiEdidPreferredTimingInfo \<Rightarrow> uint8_t" where
  "timing_flags t = (if pt_interlaceFlag t then 0x80 else 0) OR 0x18 OR (if pt_ivs t then 0x04 else 0) OR
     (if pt_ihs t then 0x02 else 0)"

definition dtd_bytes :: "HdmiEdidPreferredTimingInfo \<Rightarrow> bytes" where
  "dtd_bytes t =
     [ucast (pt_pixelClk t div 10), ucast (drop_bit 8 (pt_pixelClk t div 10)),
      ucast (pt_hActive t), ucast (pt_hBackBlank t), shared_nibbles (pt_hActive t) (pt_hBackBlank t),
      ucast (pt_vActive t), ucast (pt_vBackBlank t), shared_nibbles (pt_vActive t) (pt_vBackBlank t),
      ucast (pt_hFrontBlank t), ucast (pt_hSyncPluseWidth t), low_nibbles (pt_vFrontBlank t) (pt_vSyncPluseWidth t),
      shared_pairs (pt_hFrontBlank t) (pt_hSyncPluseWidth t) (pt_vFrontBlank t) (pt_vSyncPluseWidth t),
      ucast (pt_imageWidth t), ucast (pt_imageHeight t), shared_nibbles (pt_imageWidth t) (pt_imageHeight t),
      0, 0, timing_flags t]"

definition dtd_encodable :: "HdmiEdidPreferredTimingInfo \<Rightarrow> bool" where
  "dtd_encodable t \<longleftrightarrow> 10 dvd unat (pt_pixelClk t) \<and> 0 < unat (pt_pixelClk t) \<and> unat (pt_pixelClk t) < 10 * 2 ^ 16 \<and>
     unat (pt_hActive t) < 2 ^ 12 \<and> unat (pt_hBackBlank t) < 2 ^ 12 \<and>
     unat (pt_hFrontBlank t) < 2 ^ 10 \<and> unat (pt_hSyncPluseWidth t) < 2 ^ 10 \<and>
     unat (pt_vActive t) < 2 ^ 12 \<and> unat (pt_vBackBlank t) < 2 ^ 12 \<and>
     unat (pt_vFrontBlank t) < 2 ^ 6 \<and> unat (pt_vSyncPluseWidth t) < 2 ^ 6 \<and>
     unat (pt_imageWidth t) < 2 ^ 12 \<and> unat (pt_imageHeight t) < 2 ^ 12"

lemma below_bits: "unat a < 2 ^ k \<Longrightarrow> bit (a :: uint32_t) n \<Longrightarrow> n < k"
proof -
  assume small: "unat a < 2 ^ k" and bit: "bit a n"
  from bit have "bit (unat a) n" by (simp add: bit_unsigned_iff)
  then have "odd (unat a div 2 ^ n)" by (simp add: bit_iff_odd)
  then have "unat a div 2 ^ n \<noteq> 0" by (metis even_zero)
  then have "2 ^ n \<le> unat a" using div_less by (metis not_less)
  then have "(2::nat) ^ n < 2 ^ k" using small(1) by (rule le_less_trans)
  then show "n < k" by simp
qed

lemma mark_shapes: "(0xF0 :: uint8_t) = push_bit 4 (mask 4)" "(0x0F :: uint8_t) = mask 4"
    "(0xC0 :: uint8_t) = push_bit 6 (mask 2)" "(0x30 :: uint8_t) = push_bit 4 (mask 2)"
    "(0x0C :: uint8_t) = push_bit 2 (mask 2)" "(0x03 :: uint8_t) = mask 2"
  by (simp_all add: mask_eq_exp_minus_1)

lemma high_bits: "unat a < 2 ^ k \<Longrightarrow> k \<le> n \<Longrightarrow> \<not> bit (a :: uint32_t) n"
  using below_bits [of a k n] by auto

lemma eq_by_bits: "list_all (\<lambda>n. bit a n = bit b n) [0..<32] \<Longrightarrow> a = (b :: uint32_t)"
  by (rule bit_word_eqI) (auto simp: list_all_iff)

lemma upt_32: "[0..<32] = [0, 1, 2, 3, 4, 5, 6, 7, 8, 9, 10, 11, 12, 13, 14, 15, 16, 17, 18, 19, 20, 21, 22, 23, 24,
    25, 26, 27, 28, 29, 30, 31 :: nat]"
  by (simp add: upt_rec)

lemma nibble_fields:
  assumes "unat a < 2 ^ 12" "unat b < 2 ^ 12"
  shows "u32b (ucast a) OR push_bit 4 (u32b (shared_nibbles a b AND 0xF0)) = a"
    and "u32b (ucast b) OR push_bit 8 (u32b (shared_nibbles a b AND 0x0F)) = b"
  by (rule eq_by_bits; simp add: upt_32 mark_shapes shared_nibbles_def bit_simps high_bits [OF assms(1)] high_bits [OF assms(2)])+

lemma pair_fields:
  assumes "unat hf < 2 ^ 10" "unat hs < 2 ^ 10" "unat vf < 2 ^ 6" "unat vs < 2 ^ 6"
  shows "u32b (ucast hf) OR push_bit 2 (u32b (shared_pairs hf hs vf vs AND 0xC0)) = hf"
    and "u32b (ucast hs) OR push_bit 4 (u32b (shared_pairs hf hs vf vs AND 0x30)) = hs"
    and "push_bit 2 (u32b (shared_pairs hf hs vf vs AND 0x0C)) OR drop_bit 4 (u32b (low_nibbles vf vs AND 0xF0)) = vf"
    and "push_bit 4 (u32b (shared_pairs hf hs vf vs AND 0x03)) OR u32b (low_nibbles vf vs AND 0x0F) = vs"
  by (rule eq_by_bits; simp add: upt_32 mark_shapes shared_pairs_def low_nibbles_def bit_simps
      high_bits [OF assms(1)] high_bits [OF assms(2)] high_bits [OF assms(3)] high_bits [OF assms(4)])+

lemma pixel_field:
  assumes "unat p < 2 ^ 16"
  shows "push_bit 8 (u32b (ucast (drop_bit 8 p))) OR u32b (ucast p) = p"
  by (rule eq_by_bits) (simp add: upt_32 bit_simps high_bits [OF assms])

lemma flags_fields:
  "marked (timing_flags t) 0x80 = pt_interlaceFlag t"
  "marked (timing_flags t) 0x10"
  "HdmiEdidDigitalSyncSignal x (timing_flags t) = x\<lparr>pt_ihs := pt_ihs t, pt_ivs := pt_ivs t\<rparr>"
  by (cases "pt_interlaceFlag t"; cases "pt_ihs t"; cases "pt_ivs t";
      simp add: timing_flags_def marked_def HdmiEdidDigitalSyncSignal_def Let_def)+

lemma mem_read_nth:
  assumes "mem_read raw p n = Some bs" "i < n"
  shows "raw_at raw (p + i) = Some (bs ! i)"
  using assms by (auto simp: mem_read_eq_Some_iff raw_at_def)

lemma pixel_clock_units:
  assumes "10 dvd unat c"
  shows "c div 10 * 10 = (c :: uint32_t)"
proof -
  have "unat c div 10 < 2 ^ 32" using unat32_lt [of c] by simp
  then show ?thesis
    using assms unat32_lt [of c] by (intro word_unat_eq_iff [THEN iffD2]) (simp add: unat_word_ariths unat_div)
qed

definition full_hd_timing :: HdmiEdidPreferredTimingInfo where
  "full_hd_timing = \<lparr>pt_pixelClk = 148500, pt_hActive = 1920, pt_hBackBlank = 280, pt_hFrontBlank = 88,
     pt_hSyncPluseWidth = 44, pt_vActive = 1080, pt_vBackBlank = 45, pt_vFrontBlank = 4, pt_vSyncPluseWidth = 5,
     pt_imageWidth = 527, pt_imageHeight = 296, pt_interlaceFlag = False, pt_idv = False, pt_ihs = True, pt_ivs = True\<rparr>"

section \<open>Where audio descriptors are read\<close>

text \<open>The index of the descriptor read in iteration \<open>i\<close>, relative to the first.\<close>

fun opt_fold :: "('s \<Rightarrow> 'a \<Rightarrow> 's option) \<Rightarrow> 's \<Rightarrow> 'a list \<Rightarrow> 's option" where
  "opt_fold f s [] = Some s"
| "opt_fold f s (x # xs) = do { s \<leftarrow> f s x; opt_fold f s xs }"

lemma adb_descriptor_count:
  "adb_descriptor raw c d = Some c' \<Longrightarrow> sk_audioInfoCnt c' = sk_audioInfoCnt c + 1"
  by (auto simp: adb_descriptor_def Let_def split: Option.bind_splits)

definition drift :: "nat \<Rightarrow> nat" where
  "drift i = 3 * (i * (i + 1) div 2)"

lemma drift_Suc: "drift (Suc i) = drift i + 3 * Suc i"
proof -
  have "Suc i * (Suc i + 1) div 2 = (i * (i + 1) + 2 * Suc i) div 2" by (simp add: algebra_simps)
  also have "\<dots> = i * (i + 1) div 2 + Suc i" by (simp del: mult_Suc mult_Suc_right)
  finally show ?thesis by (simp only: drift_def distrib_left)
qed

lemma adb_loop_drift:
  assumes "d + 3 * i = data + drift i" "unat (sk_audioInfoCnt c) + n \<le> 16"
  shows "adb_loop raw c d i n = opt_fold (\<lambda>c i. adb_descriptor raw c (data + drift i)) c [i..<i + n]"
  using assms
proof (induction n arbitrary: c d i)
  case (Suc n)
  show ?case
  proof (cases "adb_descriptor raw c (data + drift i)")
    case None
    then show ?thesis using Suc.prems by (simp add: upt_conv_Cons mult.commute del: upt_Suc)
  next
    case (Some c')
    have cnt: "unat (sk_audioInfoCnt c') + n \<le> 16"
      using Suc.prems(2) adb_descriptor_count [OF Some] by (simp add: unat_word_ariths)
    have "d + 3 * i + 3 * Suc i = data + drift (Suc i)" using Suc.prems(1) by (simp add: drift_Suc)
    from Suc.IH [OF this cnt] Some Suc.prems show ?thesis
      by (simp add: upt_conv_Cons mult.commute del: upt_Suc)
  qed
qed simp

text \<open>The loop ends in a fault exactly when one of its reads leaves the data, and then the last one does.\<close>

lemma opt_fold_append: "opt_fold f s (xs @ ys) = opt_fold f s xs \<bind> (\<lambda>s. opt_fold f s ys)"
  by (induction xs arbitrary: s) (auto split: Option.bind_splits)

lemma adb_descriptor_outside:
  assumes "length raw < d + 3" shows "adb_descriptor raw c d = None"
proof -
  have "raw_at raw d = None \<or> raw_at raw (d + 1) = None \<or> raw_at raw (d + 2) = None"
    using assms by (auto simp: raw_at_def arr_get_def)
  then show ?thesis by (auto simp: adb_descriptor_def Let_def split: Option.bind_splits)
qed

lemma drift_mono: "i \<le> j \<Longrightarrow> drift i \<le> drift j"
  unfolding drift_def by (intro mult_le_mono2 div_le_mono mult_le_mono) simp_all

lemma descriptors_inside:
  assumes "sink_inv m c" "unat (sk_audioInfoCnt c) + n \<le> 16" "\<forall>i<n. data + drift i + 3 \<le> length raw"
  shows "runs (\<lambda>c'. sink_inv m c' \<and> unat (sk_audioInfoCnt c') = unat (sk_audioInfoCnt c) + n)
    (opt_fold (\<lambda>c i. adb_descriptor raw c (data + drift i)) c [0..<n])"
  using assms
proof (induction n)
  case (Suc n)
  then obtain c1 where c1: "opt_fold (\<lambda>c i. adb_descriptor raw c (data + drift i)) c [0..<n] = Some c1"
    "sink_inv m c1" "unat (sk_audioInfoCnt c1) = unat (sk_audioInfoCnt c) + n" by (auto simp: runs_iff)
  obtain c2 where c2: "adb_descriptor raw c1 (data + drift n) = Some c2" "sink_inv m c2"
    using adb_descriptor_ok [OF c1(2), of "data + drift n" raw] c1(3) Suc.prems(2,3) by (auto simp: runs_iff)
  have "unat (sk_audioInfoCnt c2) = Suc (unat (sk_audioInfoCnt c1))"
    using adb_descriptor_count [OF c2(1)] c1(3) Suc.prems(2) by (simp add: unat_word_ariths)
  then show ?case using c1 c2 by (simp add: opt_fold_append runs_iff)
qed (simp add: runs_iff)

lemma descriptors_fault:
  assumes "sink_inv m c" "unat (sk_audioInfoCnt c) + n \<le> 16"
  shows "opt_fold (\<lambda>c i. adb_descriptor raw c (data + drift i)) c [0..<n] = None \<longleftrightarrow>
    0 < n \<and> length raw < data + drift (n - 1) + 3"
proof (cases n)
  case (Suc k)
  show ?thesis
  proof (cases "length raw < data + drift k + 3")
    case True
    then show ?thesis using Suc adb_descriptor_outside [OF True]
      by (simp add: opt_fold_append split: Option.bind_splits)
  next
    case False
    have "\<forall>i<n. data + drift i + 3 \<le> length raw"
    proof (intro allI impI)
      fix i assume "i < n"
      then have "drift i \<le> drift k" using Suc by (intro drift_mono) simp
      then show "data + drift i + 3 \<le> length raw" using False by simp
    qed
    then show ?thesis using descriptors_inside [OF assms, of data raw] False Suc by (auto simp: runs_iff)
  qed
qed simp

section \<open>Properties\<close>

text \<open>
  C8: Whatever bytes a display with at most one extension block sends, as long as the offset of its
  detailed timings lies in the block, \<^verbatim>\<open>HdmiEdidPhase\<close> ends, reads only inside the array of the
  bytes, stores only inside the arrays of the capabilities, and leaves them within their bounds.
  Lengths and tags of the data blocks, the counters of formats and the checksums are arbitrary.
\<close>

theorem edid_one_extension_safe:
  assumes "edid_ok e" "ed_raw e ! 126 \<le> 1" "ed_raw e ! 130 \<le> 127"
  shows "\<exists>ret e'. HdmiEdidPhase (Some e) = Some (ret, Some e') \<and> edid_ok e' \<and> ed_raw e' = ed_raw e"
proof -
  have len: "length (ed_raw e) = 512" using assms(1) by (simp add: edid_ok_def)
  obtain ret e1 where first: "HdmiEdidFirstBlockPhase e = Some (ret, e1)" "ed_raw e1 = ed_raw e" "edid_ok e1"
    using first_block_ok [OF assms(1)] by (auto simp: runs_iff)
  show ?thesis
  proof (cases "ret = HDF_SUCCESS")
    case True
    then have "sk_extBlockNum (ed_sinkCap e1) = ed_raw e ! 126"
      using first_block_count [of e e1] first assms(2) len by (simp add: raw_at_def word_le_nat_alt word_less_nat_alt)
    then have "runs (\<lambda>(_, e'). ed_raw e' = ed_raw e \<and> sink_inv (ed_raw e ! 126) (ed_sinkCap e')) (ext_blocks [1, 2, 3, 4] e1)"
      by (intro ext_blocks_ok) (use first assms(2,3) len in \<open>auto simp: sink_inv_def edid_ok_def\<close>)
    moreover have "[1..<HDMI_EDID_MAX_BLOCK_NUM + 1] = [1, 2, 3, 4]" by (simp add: upt_rec)
    ultimately show ?thesis
      unfolding HdmiEdidPhase_def
      using first True len by (auto simp: runs_iff edid_ok_def sink_inv_def simp del: ext_blocks.simps)
  qed (use first in \<open>simp add: HdmiEdidPhase_def\<close>)
qed

text \<open>
  C16: Decoding inverts the standard encoding of a detailed timing: reading the 18 bytes of an encodable
  timing stores exactly that timing in the next free slot, and counts it.
\<close>

theorem detailed_timing_roundtrip:
  assumes "mem_read raw data 18 = Some (dtd_bytes t)" "dtd_encodable t"
    and "unat (sk_preTimingCnt c) < 10" "length (sk_preTimingInfo c) = 10"
    and "pt_idv (sk_preTimingInfo c ! unat (sk_preTimingCnt c)) = pt_idv t"
  shows "HdmiEdidDetailedTiming raw c data =
    Some (c\<lparr>sk_preTimingInfo := (sk_preTimingInfo c)[unat (sk_preTimingCnt c) := t],
      sk_preTimingCnt := sk_preTimingCnt c + 1\<rparr>)"
proof -
  let ?p = "pt_pixelClk t div 10"
  have at: "raw_at raw (data + i) = Some (dtd_bytes t ! i)" if "i < 18" for i
    using mem_read_nth [OF assms(1) that] .
  have at0: "raw_at raw data = Some (dtd_bytes t ! 0)" "raw_at raw (Suc data) = Some (dtd_bytes t ! 1)"
      "raw_at raw (Suc (Suc data)) = Some (dtd_bytes t ! 2)"
    using at [of 0] at [of 1] at [of 2] by simp_all
  have p: "unat ?p < 2 ^ 16" "?p \<noteq> 0" "?p * 10 = pt_pixelClk t"
    using assms(2) pixel_clock_units [of "pt_pixelClk t"]
    by (auto simp: dtd_encodable_def unat_div word_unat_eq_iff)
  have clock: "push_bit 8 (u32b (dtd_bytes t ! 1)) OR u32b (dtd_bytes t ! 0) = ?p"
    using pixel_field [OF p(1)] by (simp add: dtd_bytes_def)
  then have "\<not> (dtd_bytes t ! 0 = 0 \<and> dtd_bytes t ! 1 = 0)"
    using p(2) by auto
  then have timing: "all_zero_at raw data 3 = Some False"
    by (auto simp: numeral_3_eq_3 at0)
  have slot: "x\<lparr>pt_pixelClk := pt_pixelClk t, pt_hActive := pt_hActive t, pt_hBackBlank := pt_hBackBlank t,
      pt_hFrontBlank := pt_hFrontBlank t, pt_hSyncPluseWidth := pt_hSyncPluseWidth t, pt_vActive := pt_vActive t,
      pt_vBackBlank := pt_vBackBlank t, pt_vFrontBlank := pt_vFrontBlank t, pt_vSyncPluseWidth := pt_vSyncPluseWidth t,
      pt_imageWidth := pt_imageWidth t, pt_imageHeight := pt_imageHeight t, pt_interlaceFlag := pt_interlaceFlag t,
      pt_ihs := pt_ihs t, pt_ivs := pt_ivs t\<rparr> = t" if "pt_idv x = pt_idv t" for x
    using that by simp
  show ?thesis
    using assms(2-5) p clock
    by (simp add: HdmiEdidDetailedTiming_def timing HdmiEdidDetailedTimingDescriptorPhase_def at at0 arr_get_def Let_def)
      (simp add: dtd_bytes_def arr_set_def flags_fields dtd_encodable_def nibble_fields pair_fields slot)
qed

text \<open>
  C38: Of the descriptors of an audio data block, iteration \<open>i\<close> reads the one at \<open>3 * (i * (i + 1) div 2)\<close>
  bytes, not at \<open>3 * i\<close>: the pointer is moved by the distance from the first descriptor, each time.
  The third iteration skips a descriptor, and later ones read other data blocks or behind them.
\<close>

theorem audio_descriptors_drift:
  assumes "n \<le> 10" "unat (sk_audioInfoCnt c) + n \<le> 16"
  shows "HdmiEdidExtAudioDataBlockPhase raw c data (of_nat (3 * n)) =
    map_option (Pair HDF_SUCCESS)
      (opt_fold (\<lambda>c i. adb_descriptor raw c (data + 3 * (i * (i + 1) div 2))) c [0..<n])"
proof -
  have len: "unat (of_nat (3 * n) :: uint8_t) = 3 * n" using assms(1) by (simp add: unat_of_nat del: of_nat_mult)
  have "adb_loop raw c data 0 n = opt_fold (\<lambda>c i. adb_descriptor raw c (data + drift i)) c [0..<0 + n]"
    by (rule adb_loop_drift) (use assms(2) in \<open>simp_all add: drift_def\<close>)
  then show ?thesis
    using assms(1) by (simp only: HdmiEdidExtAudioDataBlockPhase_def len) (simp add: drift_def map_option_case split: option.splits)
qed

text \<open>
  C39: When the parser reads behind the data.  Parsing an audio data block of \<open>n\<close> descriptors (at most ten,
  with room for them in a well-formed table of capabilities) faults exactly when the descriptor the drifting
  pointer reaches in the last iteration, \<open>3 * (n * (n - 1) div 2)\<close> bytes behind the first one, ends behind
  the data, and otherwise ends in success.  The block itself ends after \<open>3 * n\<close> bytes, so from three
  descriptors on the parser leaves the data on blocks that lie well inside it: ten descriptors take 30
  bytes, and 138 bytes have to follow the block's header.
\<close>

theorem edid_reads_behind_well_formed_data:
  assumes "sink_inv m c" "unat (sk_audioInfoCnt c) + n \<le> 16" "n \<le> 10"
  shows "(HdmiEdidExtAudioDataBlockPhase raw c data (of_nat (3 * n)) = None \<longleftrightarrow>
      0 < n \<and> length raw < data + 3 * (n * (n - 1) div 2) + 3) \<and>
    (\<forall>ret c'. HdmiEdidExtAudioDataBlockPhase raw c data (of_nat (3 * n)) = Some (ret, c') \<longrightarrow> ret = HDF_SUCCESS)"
proof -
  have len: "unat (of_nat (3 * n) :: uint8_t) = 3 * n" using assms(3) by (simp add: unat_of_nat del: of_nat_mult)
  have loop: "adb_loop raw c data 0 n = opt_fold (\<lambda>c i. adb_descriptor raw c (data + drift i)) c [0..<n]"
    using adb_loop_drift [of data 0 data c n raw] assms(2) by (simp add: drift_def)
  have "drift (n - 1) = 3 * (n * (n - 1) div 2)" if "0 < n" using that by (cases n) (simp_all add: drift_def mult.commute)
  then show ?thesis
    using descriptors_fault [OF assms(1,2), of raw data] assms(3) loop unfolding HdmiEdidExtAudioDataBlockPhase_def len
    by (auto split: Option.bind_splits)
qed

text \<open>
  Three extension blocks with right checksums; the last one holds one audio data block with ten
  descriptors, which ends where the detailed timings begin: well-formed data on which the whole parser
  reads behind the 512 bytes.
\<close>

definition audio_in_last_block :: bytes where
  "audio_in_last_block =
     g_edidHeader @ replicate 118 0 @ [3, 3] @
     [2, 3, 0, 0] @ replicate 123 0 @ [251] @ [2, 3, 0, 0] @ replicate 123 0 @ [251] @
     [2, 3, 35, 0x40, 0x3E] @ concat (replicate 10 [9, 7, 7]) @ replicate 92 0 @ [116]"

lemma audio_in_last_block_length: "length audio_in_last_block = HDMI_EDID_TOTAL_SIZE"
  by (simp add: audio_in_last_block_def g_edidHeader_def length_concat sum_list_replicate)

lemma audio_in_last_block_parsed:
  "map (HdmiEdidBlockCheckSum audio_in_last_block) [0, 128, 256, 384] = replicate 4 (Some HDF_SUCCESS)"
  "audio_in_last_block ! 386 = 4 + 1 + (audio_in_last_block ! 388 AND 0x1F)"
  "HdmiEdidPhase (Some (zero_HdmiEdid\<lparr>ed_raw := audio_in_last_block\<rparr>)) = None"
  by code_simp+

section \<open>Witnesses\<close>

text \<open>A display with one extension: an audio data block with three descriptors, video and speakers.\<close>

definition sample_display :: HdmiEdid where
  "sample_display = zero_HdmiEdid\<lparr>ed_raw :=
     g_edidHeader @ replicate 118 0 @ [1, 5] @
     [2, 3, 23, 0x70, 0x29, 9, 7, 7, 0x15, 7, 80, 0x3D, 0x1E, 192, 0x43, 0x90, 4, 16, 0x83, 1, 0, 0, 0x80] @
     replicate 104 0 @ [194] @ replicate 256 0\<rparr>"

theorem detailed_timing_roundtrip_witness:
  "HdmiEdidDetailedTiming (dtd_bytes full_hd_timing) zero_HdmiSinkDeviceCapability 0 =
     Some (zero_HdmiSinkDeviceCapability\<lparr>sk_preTimingInfo := full_hd_timing # replicate 9 zero_HdmiEdidPreferredTimingInfo,
       sk_preTimingCnt := 1\<rparr>)"
proof -
  have "dtd_encodable full_hd_timing"
    by (simp add: dtd_encodable_def full_hd_timing_def)
  moreover have "mem_read (dtd_bytes full_hd_timing) 0 18 = Some (dtd_bytes full_hd_timing)"
    by (simp add: dtd_bytes_def mem_read_def)
  ultimately show ?thesis
    using detailed_timing_roundtrip [of "dtd_bytes full_hd_timing" 0 full_hd_timing zero_HdmiSinkDeviceCapability]
    by (simp add: zero_HdmiSinkDeviceCapability_def zero_HdmiEdidPreferredTimingInfo_def full_hd_timing_def numeral_eq_Suc)
qed

theorem edid_one_extension_safe_witness:
  "\<exists>ret e'. HdmiEdidPhase (Some sample_display) = Some (ret, Some e') \<and> edid_ok e' \<and> ed_raw e' = ed_raw sample_display"
proof (rule edid_one_extension_safe)
  show "edid_ok sample_display"
    using zero_edid_ok by (simp add: edid_ok_def sample_display_def g_edidHeader_def)
qed code_simp+

theorem edid_reads_behind_well_formed_data_witness:
  "HdmiEdidExtAudioDataBlockPhase audio_in_last_block zero_HdmiSinkDeviceCapability 389 30 = None \<and> 389 + 30 < (512::nat) \<and>
   HdmiEdidExtAudioDataBlockPhase audio_in_last_block zero_HdmiSinkDeviceCapability 374 30 \<noteq> None"
proof -
  have "sink_inv (sk_extBlockNum zero_HdmiSinkDeviceCapability) zero_HdmiSinkDeviceCapability"
    using zero_edid_ok by (simp add: edid_ok_def sink_inv_def zero_HdmiEdid_def)
  from edid_reads_behind_well_formed_data [OF this, of 10] show ?thesis
    by (simp add: audio_in_last_block_length zero_HdmiSinkDeviceCapability_def)
qed

theorem audio_descriptors_drift_witness:
  "HdmiEdidExtAudioDataBlockPhase [9, 7, 7, 0x15, 7, 80, 0x3D, 0x1E, 192, 0, 0, 0] zero_HdmiSinkDeviceCapability 0 9 =
    map_option (Pair HDF_SUCCESS)
      (opt_fold (\<lambda>c i. adb_descriptor [9, 7, 7, 0x15, 7, 80, 0x3D, 0x1E, 192, 0, 0, 0] c (0 + 3 * (i * (i + 1) div 2)))
        zero_HdmiSinkDeviceCapability [0..<3])"
  using audio_descriptors_drift [of 3 zero_HdmiSinkDeviceCapability _ 0]
  by (simp add: zero_HdmiSinkDeviceCapability_def)

end
