(* ===== verification/Hcs_Ast.thy ===== *)
theory Hcs_Ast
  imports Hdf_Prelude
begin

text \<open>
  The syntax tree of the configuration compiler, \<^verbatim>\<open>tools/leagecy/hc-gen/src/hcs_ast.c\<close>.

  An object is an address of a heap; \<open>0\<close> is \<^verbatim>\<open>NULL\<close>.  Its links \<open>parent\<close>, \<open>next\<close> and \<open>child\<close> are
  addresses, and so is the string or the node its value may point to: strings that are values are
  shared and freed, so they have a heap of their own, and so are the lists of instances of a
  template.  Names and paths are never shared and are kept by value.  Reading, writing or freeing an address that is not allocated is \<^const>\<open>None\<close>, and
  so is a walk that does not end.
\<close>

section \<open>Objects\<close>

type_synonym addr = nat

abbreviation (input) NOERR :: int where "NOERR \<equiv> 0"
abbreviation (input) EFAIL :: int where "EFAIL \<equiv> 1"
abbreviation (input) EOOM :: int where "EOOM \<equiv> 2"
abbreviation (input) EINVALARG :: int where "EINVALARG \<equiv> 6"
abbreviation (input) EASTWALKBREAK :: int where "EASTWALKBREAK \<equiv> 9"

abbreviation (input) PARSEROP_UINT8 :: uint32_t where "PARSEROP_UINT8 \<equiv> 1"
abbreviation (input) PARSEROP_UINT16 :: uint32_t where "PARSEROP_UINT16 \<equiv> 2"
abbreviation (input) PARSEROP_UINT32 :: uint32_t where "PARSEROP_UINT32 \<equiv> 3"
abbreviation (input) PARSEROP_UINT64 :: uint32_t where "PARSEROP_UINT64 \<equiv> 4"
abbreviation (input) PARSEROP_STRING :: uint32_t where "PARSEROP_STRING \<equiv> 5"
abbreviation (input) PARSEROP_CONFNODE :: uint32_t where "PARSEROP_CONFNODE \<equiv> 6"
abbreviation (input) PARSEROP_CONFTERM :: uint32_t where "PARSEROP_CONFTERM \<equiv> 7"
abbreviation (input) PARSEROP_ARRAY :: uint32_t where "PARSEROP_ARRAY \<equiv> 8"
abbreviation (input) PARSEROP_NODEREF :: uint32_t where "PARSEROP_NODEREF \<equiv> 9"
abbreviation (input) PARSEROP_DELETE :: uint32_t where "PARSEROP_DELETE \<equiv> 10"
abbreviation (input) PARSEROP_COUNT :: uint32_t where "PARSEROP_COUNT \<equiv> 11"

abbreviation (input) CONFIG_NODE_NOREF :: uint32_t where "CONFIG_NODE_NOREF \<equiv> 0"
abbreviation (input) CONFIG_NODE_COPY :: uint32_t where "CONFIG_NODE_COPY \<equiv> 1"
abbreviation (input) CONFIG_NODE_REF :: uint32_t where "CONFIG_NODE_REF \<equiv> 2"
abbreviation (input) CONFIG_NODE_DELETE :: uint32_t where "CONFIG_NODE_DELETE \<equiv> 3"
abbreviation (input) CONFIG_NODE_TEMPLATE :: uint32_t where "CONFIG_NODE_TEMPLATE \<equiv> 4"
abbreviation (input) CONFIG_NODE_INHERIT :: uint32_t where "CONFIG_NODE_INHERIT \<equiv> 5"

abbreviation (input) PARSER_OBJ_IDLE :: uint32_t where "PARSER_OBJ_IDLE \<equiv> 0"
abbreviation (input) PARSER_OBJ_PROCESSING :: uint32_t where "PARSER_OBJ_PROCESSING \<equiv> 1"

text \<open>The union of integer, string and pointer to an object; \<open>VNum 0\<close> is also the null pointer.\<close>

datatype pvalue = VNum uint64_t | VStr addr | VObj addr

text \<open>\<open>po_src\<close> stands for the pointer to the name of the source file.\<close>

record ParserObject =
  po_type :: uint32_t
  po_status :: uint32_t
  po_name :: "bytes option"
  po_parent :: addr
  po_next :: addr
  po_child :: addr
  po_lineno :: uint32_t
  po_src :: nat
  po_opCode :: uint8_t
  po_size :: uint32_t
  po_subSize :: uint32_t
  po_hash :: uint32_t
  po_value :: pvalue
  po_refNodePath :: "bytes option"
  po_nodeType :: uint32_t
  po_inheritNode :: addr
  po_inheritIndex :: uint32_t
  po_inheritCount :: uint32_t
  po_subClasses :: addr

definition zero_obj :: ParserObject where
  "zero_obj = \<lparr>po_type = 0, po_status = 0, po_name = None, po_parent = 0, po_next = 0, po_child = 0,
     po_lineno = 0, po_src = 0, po_opCode = 0, po_size = 0, po_subSize = 0, po_hash = 0, po_value = VNum 0, po_refNodePath = None, po_nodeType = 0,
     po_inheritNode = 0, po_inheritIndex = 0, po_inheritCount = 0, po_subClasses = 0\<rparr>"

text \<open>
  The state of the compiler: the heaps of objects, of strings and of the lists of instances of
  templates, a list under the address of its first cell; the next addresses of the allocator and its
  answers, \<open>g_parserRoot\<close>, the position in the sources, and whether text output and aligned bytecode
  are wanted; and the output: the bytes in the file if one is open, \<open>g_outputWriteCount\<close>,
  \<open>g_dummyOutput\<close>, and the answers of the file system.
\<close>

record ast =
  as_heap :: "addr \<rightharpoonup> ParserObject"
  as_str :: "addr \<rightharpoonup> bytes"
  as_inst :: "addr \<rightharpoonup> addr list"
  as_brk :: addr
  as_sbrk :: addr
  as_ibrk :: addr
  as_env :: alloc_oracle
  as_root :: addr
  as_src :: nat
  as_line :: uint32_t
  as_text :: bool
  as_align :: bool
  as_out :: "bytes option"
  as_count :: uint32_t
  as_dummy :: bool
  as_fenv :: alloc_oracle

definition rd :: "ast \<Rightarrow> addr \<Rightarrow> ParserObject option" where
  "rd s p = (if p = 0 then None else as_heap s p)"

definition upd :: "addr \<Rightarrow> (ParserObject \<Rightarrow> ParserObject) \<Rightarrow> ast \<Rightarrow> ast option" where
  "upd p f s = (case rd s p of None \<Rightarrow> None | Some o1 \<Rightarrow> Some (s\<lparr>as_heap := (as_heap s)(p \<mapsto> f o1)\<rparr>))"

definition rd_name :: "ast \<Rightarrow> addr \<Rightarrow> bytes option" where
  "rd_name s p = do { o1 \<leftarrow> rd s p; po_name o1 }"

text \<open>A string that is a value, and freeing it; null is ignored.\<close>

definition rd_str :: "ast \<Rightarrow> pvalue \<Rightarrow> bytes option" where
  "rd_str s v = (case v of VStr a \<Rightarrow> as_str s a | _ \<Rightarrow> None)"

definition free_str :: "pvalue \<Rightarrow> ast \<Rightarrow> ast option" where
  "free_str v s =
     (case v of
        VNum n \<Rightarrow> if n = 0 then Some s else None
      | VStr a \<Rightarrow> if as_str s a = None then None else Some (s\<lparr>as_str := (as_str s)(a := None)\<rparr>)
      | VObj _ \<Rightarrow> None)"

text \<open>\<^verbatim>\<open>strdup\<close> of a string value, and of a name or path, which is kept by value.\<close>

definition dup_str :: "bytes \<Rightarrow> ast \<Rightarrow> pvalue \<times> ast" where
  "dup_str b s =
     (case osal_alloc (as_env s) of (ok, env) \<Rightarrow>
        if ok then (VStr (as_sbrk s), s\<lparr>as_str := (as_str s)(as_sbrk s \<mapsto> b), as_sbrk := as_sbrk s + 1, as_env := env\<rparr>)
        else (VNum 0, s\<lparr>as_env := env\<rparr>))"

definition dup_name :: "ast \<Rightarrow> bool \<times> ast" where
  "dup_name s = (case osal_alloc (as_env s) of (ok, env) \<Rightarrow> (ok, s\<lparr>as_env := env\<rparr>))"

definition ANONYMOUS_OBJECT_NAME :: bytes where "ANONYMOUS_OBJECT_NAME = [124, 95]"

definition HcsIsAnonymousObject :: "ast \<Rightarrow> addr \<Rightarrow> bool option" where
  "HcsIsAnonymousObject s p = do { n \<leftarrow> rd_name s p; Some (n = ANONYMOUS_OBJECT_NAME) }"

subsection \<open>Tests of \<^verbatim>\<open>hcs_parser.c\<close>\<close>

definition HcsIsNumberObject :: "ast \<Rightarrow> addr \<Rightarrow> bool option" where
  "HcsIsNumberObject s p = do { o1 \<leftarrow> rd s p; Some (PARSEROP_UINT8 \<le> po_type o1 \<and> po_type o1 \<le> PARSEROP_UINT64) }"

definition HcsIsStringObject :: "ast \<Rightarrow> addr \<Rightarrow> bool option" where
  "HcsIsStringObject s p = do { o1 \<leftarrow> rd s p; Some (po_type o1 = PARSEROP_STRING) }"

definition HcsIsSameTypeObject :: "ast \<Rightarrow> addr \<Rightarrow> addr \<Rightarrow> bool option" where
  "HcsIsSameTypeObject s cs ct = do {
     num \<leftarrow> HcsIsNumberObject s cs;
     (if num then HcsIsNumberObject s ct
      else do {
        c \<leftarrow> rd s cs;
        t \<leftarrow> rd s ct;
        (if po_type c = PARSEROP_CONFTERM \<or> po_type c = PARSEROP_ARRAY then
           if po_type t \<noteq> po_type c then Some False
           else do {
             cc \<leftarrow> rd s (po_child c);
             tc \<leftarrow> rd s (po_child t);
             Some (po_type cc = po_type tc)
           }
         else Some (po_type t = po_type c))
      })
   }"

section \<open>Creating objects\<close>

definition HcsAllocParserObject :: "ast \<Rightarrow> addr \<times> ast" where
  "HcsAllocParserObject s =
     (case osal_alloc (as_env s) of (ok, env) \<Rightarrow>
        if ok then
          (as_brk s, s\<lparr>as_heap := (as_heap s)(as_brk s \<mapsto> zero_obj\<lparr>po_src := as_src s, po_lineno := as_line s\<rparr>),
                       as_brk := as_brk s + 1, as_env := env\<rparr>)
        else (0, s\<lparr>as_env := env\<rparr>))"

definition HcsNewConfigNode :: "bytes option \<Rightarrow> uint32_t \<Rightarrow> bytes option \<Rightarrow> ast \<Rightarrow> (addr \<times> ast) option" where
  "HcsNewConfigNode nodeName nodeType refName s =
     (case HcsAllocParserObject s of (p, s1) \<Rightarrow>
        if p = 0 then Some (0, s1)
        else do {
          s2 \<leftarrow> upd p (\<lambda>o1. o1\<lparr>po_name := nodeName, po_type := PARSEROP_CONFNODE\<rparr>) s1;
          s3 \<leftarrow> (if nodeType \<noteq> 0 then upd p (\<lambda>o1. o1\<lparr>po_nodeType := nodeType, po_refNodePath := refName\<rparr>) s2
                 else Some s2);
          Some (p, s3)
        })"

definition HcsGetParserRoot :: "ast \<Rightarrow> (addr \<times> ast) option" where
  "HcsGetParserRoot s =
     (if as_root s \<noteq> 0 then Some (as_root s, s)
      else case dup_name s of (ok, s1) \<Rightarrow>
        if \<not> ok then Some (0, s1)
        else do {
          r \<leftarrow> HcsNewConfigNode (Some [114, 111, 111, 116]) CONFIG_NODE_NOREF None s1;
          (case r of (p, s2) \<Rightarrow> Some (p, s2\<lparr>as_root := p\<rparr>))
        })"

definition HcsSetParserRoot :: "addr \<Rightarrow> ast \<Rightarrow> ast" where
  "HcsSetParserRoot newRoot s = s\<lparr>as_root := newRoot\<rparr>"

definition HcsFitIntegerValueType :: "uint64_t \<Rightarrow> uint32_t" where
  "HcsFitIntegerValueType v =
     (if v \<le> 0xFF then PARSEROP_UINT8 else if v \<le> 0xFFFF then PARSEROP_UINT16
      else if v \<le> 0xFFFFFFFF then PARSEROP_UINT32 else PARSEROP_UINT64)"

text \<open>Setting the parent of an object and its right siblings.\<close>

partial_function (option) set_parents :: "addr \<Rightarrow> addr \<Rightarrow> ast \<Rightarrow> ast option" where
  "set_parents parent p s =
     (if p = 0 then Some s
      else do {
        s1 \<leftarrow> upd p (\<lambda>o1. o1\<lparr>po_parent := parent\<rparr>) s;
        o1 \<leftarrow> rd s1 p;
        set_parents parent (po_next o1) s1
      })"

definition HcsNewConfigTerm :: "bytes option \<Rightarrow> addr \<Rightarrow> ast \<Rightarrow> (addr \<times> ast) option" where
  "HcsNewConfigTerm name value s =
     (if name = None \<or> value = 0 then Some (0, s)
      else case HcsAllocParserObject s of (p, s1) \<Rightarrow>
        if p = 0 then Some (0, s1)
        else do {
          s2 \<leftarrow> upd p (\<lambda>o1. o1\<lparr>po_name := name, po_type := PARSEROP_CONFTERM, po_child := value\<rparr>) s1;
          s3 \<leftarrow> set_parents p value s2;
          Some (p, s3)
        })"

definition HcsNewParserObject :: "bytes option \<Rightarrow> uint32_t \<Rightarrow> pvalue \<Rightarrow> ast \<Rightarrow> (addr \<times> ast) option" where
  "HcsNewParserObject name type v s =
     (if PARSEROP_COUNT \<le> type then Some (0, s)
      else case HcsAllocParserObject s of (p, s1) \<Rightarrow>
        if p = 0 then Some (0, s1)
        else case (if name = None then dup_name s1 else (True, s1)) of (ok, s2) \<Rightarrow>
          if \<not> ok then Some (0, s2\<lparr>as_heap := (as_heap s2)(p := None)\<rparr>)
          else do {
            s3 \<leftarrow> upd p (\<lambda>o1. o1\<lparr>po_name := Some (case name of None \<Rightarrow> ANONYMOUS_OBJECT_NAME | Some n \<Rightarrow> n),
                        po_value := v,
                        po_type := (if PARSEROP_UINT8 \<le> type \<and> type \<le> PARSEROP_UINT64
                                    then HcsFitIntegerValueType (case v of VNum n \<Rightarrow> n | VStr a \<Rightarrow> of_nat a | VObj a \<Rightarrow> of_nat a)
                                    else type)\<rparr>) s2;
            Some (p, s3)
          })"

section \<open>Links\<close>

partial_function (option) HcsAstAddPeer_loop :: "ast \<Rightarrow> addr \<Rightarrow> addr option" where
  "HcsAstAddPeer_loop s lastNode = do {
     o1 \<leftarrow> rd s lastNode;
     (if po_next o1 \<noteq> 0 then HcsAstAddPeer_loop s (po_next o1) else Some lastNode)
   }"

definition HcsAstAddPeer :: "addr \<Rightarrow> addr \<Rightarrow> ast \<Rightarrow> (addr \<times> ast) option" where
  "HcsAstAddPeer forward peer s =
     (if forward = 0 \<and> peer = 0 then Some (forward, s)
      else if forward = 0 then Some (peer, s)
      else if peer = 0 then Some (forward, s)
      else if forward = peer then Some (0, s)
      else do {
        lastNode \<leftarrow> HcsAstAddPeer_loop s forward;
        s1 \<leftarrow> upd lastNode (\<lambda>o1. o1\<lparr>po_next := peer\<rparr>) s;
        f \<leftarrow> rd s1 forward;
        s2 \<leftarrow> set_parents (po_parent f) peer s1;
        Some (forward, s2)
      })"

definition HcsAstAddChild :: "addr \<Rightarrow> addr \<Rightarrow> ast \<Rightarrow> (addr \<times> ast) option" where
  "HcsAstAddChild parent child s =
     (if child = 0 then Some (parent, s)
      else do {
        p \<leftarrow> rd s parent;
        (if po_child p = 0 then do {
           s1 \<leftarrow> upd parent (\<lambda>o1. o1\<lparr>po_child := child\<rparr>) s;
           s2 \<leftarrow> set_parents parent child s1;
           Some (parent, s2)
         }
         else do {
           r \<leftarrow> HcsAstAddPeer (po_child p) child s;
           Some (parent, snd r)
         })
      })"

partial_function (option) HcsAstRemoveChildLink_loop :: "addr \<Rightarrow> addr \<Rightarrow> ast \<Rightarrow> ast option" where
  "HcsAstRemoveChildLink_loop child pre s =
     (if pre = 0 then Some s
      else do {
        o1 \<leftarrow> rd s pre;
        (if po_next o1 = child then do {
           c \<leftarrow> rd s child;
           upd pre (\<lambda>o2. o2\<lparr>po_next := po_next c\<rparr>) s
         }
         else HcsAstRemoveChildLink_loop child (po_next o1) s)
      })"

definition HcsAstRemoveChildLink :: "addr \<Rightarrow> addr \<Rightarrow> ast \<Rightarrow> ast option" where
  "HcsAstRemoveChildLink parent child s =
     (if parent = 0 \<or> child = 0 then Some s
      else do {
        c \<leftarrow> rd s child;
        (if po_parent c \<noteq> parent then Some s
         else do {
           s1 \<leftarrow> upd child (\<lambda>o1. o1\<lparr>po_parent := 0\<rparr>) s;
           p \<leftarrow> rd s1 parent;
           (if po_child p = child then do {
              s2 \<leftarrow> upd parent (\<lambda>o1. o1\<lparr>po_child := po_next c\<rparr>) s1;
              upd child (\<lambda>o1. o1\<lparr>po_next := 0\<rparr>) s2
            }
            else do {
              s2 \<leftarrow> HcsAstRemoveChildLink_loop child (po_child p) s1;
              upd child (\<lambda>o1. o1\<lparr>po_next := 0\<rparr>) s2
            })
         })
      })"

text \<open>The first object of a sibling list that has a name; peers must also be nodes.\<close>

partial_function (option) lookup_loop :: "bool \<Rightarrow> ast \<Rightarrow> bytes \<Rightarrow> addr \<Rightarrow> addr option" where
  "lookup_loop nodesOnly s name peer =
     (if peer = 0 then Some 0
      else do {
        o1 \<leftarrow> rd s peer;
        (if nodesOnly \<and> po_type o1 \<noteq> PARSEROP_CONFNODE then lookup_loop nodesOnly s name (po_next o1)
         else do {
           n \<leftarrow> po_name o1;
           (if n = name then Some peer else lookup_loop nodesOnly s name (po_next o1))
         })
      })"

definition HcsAstLookupObjectInPeers :: "ast \<Rightarrow> addr \<Rightarrow> bytes \<Rightarrow> addr option" where
  "HcsAstLookupObjectInPeers s current name = do {
     c \<leftarrow> rd s current;
     p \<leftarrow> rd s (po_parent c);
     lookup_loop True s name (po_child p)
   }"

definition HcsAstLookupObjectInChildren :: "ast \<Rightarrow> addr \<Rightarrow> bytes \<Rightarrow> addr option" where
  "HcsAstLookupObjectInChildren s current name =
     (if current = 0 then Some 0
      else do { c \<leftarrow> rd s current; lookup_loop False s name (po_child c) })"

section \<open>Freeing one object\<close>

definition free_obj :: "addr \<Rightarrow> ast \<Rightarrow> ast option" where
  "free_obj p s = (if rd s p = None then None else Some (s\<lparr>as_heap := (as_heap s)(p := None)\<rparr>))"

definition free_instances :: "addr \<Rightarrow> ast \<Rightarrow> ast option" where
  "free_instances l s =
     (if l = 0 then Some s
      else if as_inst s l = None then None else Some (s\<lparr>as_inst := (as_inst s)(l := None)\<rparr>))"

definition HcsAstFreeObject :: "addr \<Rightarrow> ast \<Rightarrow> ast option" where
  "HcsAstFreeObject object s =
     (if object = 0 then Some s
      else do {
        o1 \<leftarrow> rd s object;
        s0 \<leftarrow> (if po_type o1 = PARSEROP_CONFNODE then free_instances (po_subClasses o1) s else Some s);
        s1 \<leftarrow> HcsAstRemoveChildLink (po_parent o1) object s0;
        s2 \<leftarrow> (if po_type o1 = PARSEROP_STRING then free_str (po_value o1) s1 else Some s1);
        free_obj object s2
      })"

section \<open>Walks\<close>

text \<open>A callback gets the object and the depth, and may change the state.\<close>

type_synonym walk_cb = "addr \<Rightarrow> int \<Rightarrow> ast \<Rightarrow> (int \<times> ast) option"

partial_function (option) HcsForwardWalkAst_loop ::
    "walk_cb \<Rightarrow> addr \<Rightarrow> addr \<Rightarrow> int \<Rightarrow> bool \<Rightarrow> ast \<Rightarrow> (int \<times> ast) option" where
  "HcsForwardWalkAst_loop callback startObj obj walkDepth preVisited s =
     (if obj = 0 then Some (NOERR, s)
      else do {
        r \<leftarrow> (if preVisited then Some (EASTWALKBREAK, s) else callback obj walkDepth s);
        (case r of (ret, s1) \<Rightarrow>
           if ret \<noteq> 0 \<and> ret \<noteq> EASTWALKBREAK then Some (EINVALARG, s1)
           else do {
             down \<leftarrow> (if ret = 0 then map_option po_child (rd s1 obj) else Some 0);
             (if down \<noteq> 0 then HcsForwardWalkAst_loop callback startObj down (walkDepth + 1) False s1
              else if obj = startObj then Some (NOERR, s1)
              else do {
                o1 \<leftarrow> rd s1 obj;
                (if po_next o1 \<noteq> 0
                 then HcsForwardWalkAst_loop callback startObj (po_next o1) walkDepth False s1
                 else HcsForwardWalkAst_loop callback startObj (po_parent o1) (walkDepth - 1) True s1)
              })
           })
      })"

definition HcsForwardWalkAst :: "addr \<Rightarrow> walk_cb \<Rightarrow> ast \<Rightarrow> (int \<times> ast) option" where
  "HcsForwardWalkAst start callback s = HcsForwardWalkAst_loop callback start start 0 False s"

text \<open>The sibling and the parent are read before the callback, which may free the object.\<close>

partial_function (option) HcsBackwardWalkAst_loop ::
    "walk_cb \<Rightarrow> addr \<Rightarrow> addr \<Rightarrow> int \<Rightarrow> bool \<Rightarrow> ast \<Rightarrow> (int \<times> ast) option" where
  "HcsBackwardWalkAst_loop callback startObj obj walkDepth preVisited s =
     (if obj = 0 then Some (NOERR, s)
      else do {
        o1 \<leftarrow> rd s obj;
        (if po_child o1 = 0 \<or> preVisited then do {
           r \<leftarrow> callback obj walkDepth s;
           (case r of (ret, s1) \<Rightarrow>
              if ret \<noteq> 0 then Some (EINVALARG, s1)
              else if obj = startObj then Some (NOERR, s1)
              else if po_next o1 \<noteq> 0
              then HcsBackwardWalkAst_loop callback startObj (po_next o1) walkDepth False s1
              else HcsBackwardWalkAst_loop callback startObj (po_parent o1) (walkDepth - 1) True s1)
         }
         else HcsBackwardWalkAst_loop callback startObj (po_child o1) (walkDepth + 1) False s)
      })"

definition HcsBackwardWalkAst :: "addr \<Rightarrow> walk_cb \<Rightarrow> ast \<Rightarrow> (int \<times> ast) option" where
  "HcsBackwardWalkAst start callback s = HcsBackwardWalkAst_loop callback start start 0 False s"

partial_function (option) HcsRoundWalkAst_loop ::
    "walk_cb \<Rightarrow> walk_cb \<Rightarrow> addr \<Rightarrow> addr \<Rightarrow> int \<Rightarrow> bool \<Rightarrow> ast \<Rightarrow> (int \<times> ast) option" where
  "HcsRoundWalkAst_loop forwardCallback backwardCallback startObj obj walkDepth preVisited s =
     (if obj = 0 then Some (NOERR, s)
      else do {
        r \<leftarrow> (if preVisited then backwardCallback obj walkDepth s else forwardCallback obj walkDepth s);
        (case r of (ret, s1) \<Rightarrow>
           if (if preVisited then ret \<noteq> 0 else ret \<noteq> 0 \<and> ret \<noteq> EASTWALKBREAK) then Some (EFAIL, s1)
           else do {
             down \<leftarrow> (if \<not> preVisited \<and> ret = 0 then map_option po_child (rd s1 obj) else Some 0);
             (if down \<noteq> 0
              then HcsRoundWalkAst_loop forwardCallback backwardCallback startObj down (walkDepth + 1) False s1
              else if obj = startObj then Some (NOERR, s1)
              else do {
                o1 \<leftarrow> rd s1 obj;
                (if po_next o1 \<noteq> 0
                 then HcsRoundWalkAst_loop forwardCallback backwardCallback startObj (po_next o1) walkDepth False s1
                 else HcsRoundWalkAst_loop forwardCallback backwardCallback startObj (po_parent o1) (walkDepth - 1) True s1)
              })
           })
      })"

definition HcsRoundWalkAst :: "addr \<Rightarrow> walk_cb \<Rightarrow> walk_cb \<Rightarrow> ast \<Rightarrow> (int \<times> ast) option" where
  "HcsRoundWalkAst start forwardCallback backwardCallback s =
     HcsRoundWalkAst_loop forwardCallback backwardCallback start start 0 False s"

definition AstWalkCallBackDefault :: walk_cb where
  "AstWalkCallBackDefault current walkDepth s = Some (NOERR, s)"

abbreviation (input) AST_WALK_FORWARD :: uint32_t where "AST_WALK_FORWARD \<equiv> 1"
abbreviation (input) AST_WALK_BACKEND :: uint32_t where "AST_WALK_BACKEND \<equiv> 2"
abbreviation (input) AST_WALK_ROUND :: uint32_t where "AST_WALK_ROUND \<equiv> 3"

definition HcsWalkAst ::
    "addr \<Rightarrow> uint32_t \<Rightarrow> walk_cb option \<Rightarrow> walk_cb option \<Rightarrow> ast \<Rightarrow> (int \<times> ast) option" where
  "HcsWalkAst start walkDirection forwardCallback backwardCallback s =
     (let f = (case forwardCallback of None \<Rightarrow> AstWalkCallBackDefault | Some cb \<Rightarrow> cb);
          b = (case backwardCallback of None \<Rightarrow> AstWalkCallBackDefault | Some cb \<Rightarrow> cb);
          startObj = (if start \<noteq> 0 then start else as_root s)
      in if walkDirection = AST_WALK_FORWARD then HcsForwardWalkAst startObj f s
         else if walkDirection = AST_WALK_BACKEND then HcsBackwardWalkAst startObj b s
         else if walkDirection = AST_WALK_ROUND then HcsRoundWalkAst startObj f b s
         else Some (EINVALARG, s))"

section \<open>Freeing trees\<close>

definition HcsAstWalkFreeObjectCallback :: walk_cb where
  "HcsAstWalkFreeObjectCallback object walkDepth s = map_option (Pair NOERR) (HcsAstFreeObject object s)"

definition HcsAstFreeObjectAndSubtree :: "addr \<Rightarrow> ast \<Rightarrow> ast option" where
  "HcsAstFreeObjectAndSubtree object s =
     map_option snd (HcsWalkAst object AST_WALK_BACKEND None (Some HcsAstWalkFreeObjectCallback) s)"

definition HcsDeleteParserObjectTree :: "addr \<Rightarrow> ast \<Rightarrow> ast option" where
  "HcsDeleteParserObjectTree object s =
     (if object = 0 then Some s else HcsAstFreeObjectAndSubtree object s)"

partial_function (option) HcsAstFreeSubTree_loop :: "addr \<Rightarrow> addr \<Rightarrow> ast \<Rightarrow> ast option" where
  "HcsAstFreeSubTree_loop object child s =
     (if child = 0 then Some s
      else do {
        c \<leftarrow> rd s child;
        s1 \<leftarrow> HcsAstRemoveChildLink object child s;
        s2 \<leftarrow> HcsAstFreeObjectAndSubtree child s1;
        HcsAstFreeSubTree_loop object (po_next c) s2
      })"

definition HcsAstFreeSubTree :: "addr \<Rightarrow> ast \<Rightarrow> ast option" where
  "HcsAstFreeSubTree object s = do { o1 \<leftarrow> rd s object; HcsAstFreeSubTree_loop object (po_child o1) s }"

section \<open>Copying\<close>

definition HcsParserObjectClone :: "addr \<Rightarrow> ast \<Rightarrow> (addr \<times> ast) option" where
  "HcsParserObjectClone object s =
     (if object = 0 then Some (0, s)
      else case HcsAllocParserObject s of (clone, s1) \<Rightarrow>
        if clone = 0 then Some (0, s1)
        else do {
          o1 \<leftarrow> rd s1 object;
          s2 \<leftarrow> upd clone (\<lambda>_. o1\<lparr>po_refNodePath := None, po_name := None, po_child := 0, po_next := 0, po_parent := 0\<rparr>) s1;
          r \<leftarrow> (if po_type o1 = PARSEROP_STRING then do {
                   b \<leftarrow> rd_str s2 (po_value o1);
                   (case dup_str b s2 of (v, s3) \<Rightarrow> do {
                      s4 \<leftarrow> upd clone (\<lambda>c. c\<lparr>po_value := v\<rparr>) s3;
                      Some (v \<noteq> VNum 0, s4) })
                 }
                else Some (True, s2));
          (if \<not> fst r then do { s5 \<leftarrow> HcsAstFreeObject clone (snd r); Some (0, s5) }
           else case (if po_refNodePath o1 \<noteq> None then dup_name (snd r) else (True, snd r)) of (ok, s5) \<Rightarrow>
             if \<not> ok then do { s6 \<leftarrow> HcsAstFreeObject clone s5; Some (0, s6) }
             else do {
               s6 \<leftarrow> upd clone (\<lambda>c. c\<lparr>po_refNodePath := po_refNodePath o1\<rparr>) s5;
               n \<leftarrow> po_name o1;
               (case dup_name s6 of (ok2, s7) \<Rightarrow>
                  if \<not> ok2 then do { s8 \<leftarrow> HcsAstFreeObject clone s7; Some (0, s8) }
                  else do { s8 \<leftarrow> upd clone (\<lambda>c. c\<lparr>po_name := Some n\<rparr>) s7; Some (clone, s8) })
             })
        })"

definition HcsIsEmptyArray :: "ast \<Rightarrow> addr \<Rightarrow> bool option" where
  "HcsIsEmptyArray s src = do { o1 \<leftarrow> rd s src; Some (po_child o1 = 0) }"

partial_function (option) HcsAstCopyArray_loop :: "addr \<Rightarrow> addr \<Rightarrow> ast \<Rightarrow> (int \<times> ast) option" where
  "HcsAstCopyArray_loop dst arrayElement s =
     (if arrayElement = 0 then Some (NOERR, s)
      else do {
        r \<leftarrow> HcsParserObjectClone arrayElement s;
        (if fst r = 0 then Some (EOOM, snd r)
         else do {
           r2 \<leftarrow> HcsAstAddChild dst (fst r) (snd r);
           e \<leftarrow> rd (snd r2) arrayElement;
           HcsAstCopyArray_loop dst (po_next e) (snd r2)
         })
      })"

definition HcsAstCopyArray :: "addr \<Rightarrow> addr \<Rightarrow> ast \<Rightarrow> (int \<times> ast) option" where
  "HcsAstCopyArray src dst s =
     (if src = 0 \<or> dst = 0 then Some (NOERR, s)
      else do {
        e \<leftarrow> HcsIsEmptyArray s src;
        (if e then Some (NOERR, s)
         else do {
           ed \<leftarrow> HcsIsEmptyArray s dst;
           so \<leftarrow> rd s src;
           do1 \<leftarrow> rd s dst;
           same \<leftarrow> (if ed then Some True else HcsIsSameTypeObject s (po_child so) (po_child do1));
           (if \<not> same then Some (EINVALARG, s)
            else do {
              s1 \<leftarrow> HcsAstFreeSubTree dst s;
              s2 \<leftarrow> upd dst (\<lambda>o1. o1\<lparr>po_child := 0\<rparr>) s1;
              so2 \<leftarrow> rd s2 src;
              HcsAstCopyArray_loop dst (po_child so2) s2
            })
         })
      })"

definition HcsCopyObject :: "addr \<Rightarrow> addr \<Rightarrow> ast \<Rightarrow> (int \<times> ast) option" where
  "HcsCopyObject src dst s = do {
     same \<leftarrow> HcsIsSameTypeObject s src dst;
     (if \<not> same then Some (EINVALARG, s)
      else do {
        so \<leftarrow> rd s src;
        do1 \<leftarrow> rd s dst;
        num \<leftarrow> HcsIsNumberObject s src;
        (if num then do { s1 \<leftarrow> upd dst (\<lambda>o1. o1\<lparr>po_value := po_value so\<rparr>) s; Some (NOERR, s1) }
         else if po_type so = PARSEROP_STRING then do {
           s1 \<leftarrow> free_str (po_value do1) s;
           b \<leftarrow> rd_str s1 (po_value so);
           (case dup_str b s1 of (v, s2) \<Rightarrow> do {
              s3 \<leftarrow> upd dst (\<lambda>o1. o1\<lparr>po_value := v\<rparr>) s2;
              Some (if v = VNum 0 then EOOM else NOERR, s3) })
         }
         else if po_type so = PARSEROP_ARRAY then HcsAstCopyArray src dst s
         else Some (NOERR, s))
      })
   }"

abbreviation (input) AST_COPY_SRC_OVER_DST :: uint32_t where "AST_COPY_SRC_OVER_DST \<equiv> 0"
abbreviation (input) AST_COPY_DST_OVER_SRC :: uint32_t where "AST_COPY_DST_OVER_SRC \<equiv> 1"

text \<open>
  \<^verbatim>\<open>HcsAstCopyTree\<close> and the loop over the children that it and \<^verbatim>\<open>HcsAstCopySubTree\<close> run are mutually
  recursive: one function with a flag, true for the loop.  What the first does before its loop
  is a status and, unless it returns, the object the children are copied to.
\<close>

definition HcsAstCopyTree_head ::
    "addr \<Rightarrow> addr \<Rightarrow> uint32_t \<Rightarrow> ast \<Rightarrow> (int \<times> addr option \<times> ast) option" where
  "HcsAstCopyTree_head src dstTree overWriteFlag s = do {
     so \<leftarrow> rd s src;
     n \<leftarrow> po_name so;
     exist \<leftarrow> HcsAstLookupObjectInChildren s dstTree n;
     (if exist = 0 then do {
        r \<leftarrow> HcsParserObjectClone src s;
        r2 \<leftarrow> HcsAstAddChild dstTree (fst r) (snd r);
        (if po_type so = PARSEROP_ARRAY then do {
           r3 \<leftarrow> HcsAstCopyArray src (fst r) (snd r2);
           Some (fst r3, None, snd r3)
         }
         else Some (NOERR, Some (fst r), snd r2))
      }
      else if overWriteFlag = AST_COPY_SRC_OVER_DST then do {
        r \<leftarrow> HcsCopyObject src exist s;
        (if fst r \<noteq> 0 \<or> po_type so = PARSEROP_ARRAY then Some (fst r, None, snd r)
         else Some (NOERR, Some exist, snd r))
      }
      else do {
        num \<leftarrow> HcsIsNumberObject s src;
        eo \<leftarrow> rd s exist;
        s1 \<leftarrow> (if as_text s \<and> num \<and> po_type so < po_type eo
               then upd src (\<lambda>o1. o1\<lparr>po_type := po_type eo\<rparr>) s else Some s);
        Some (NOERR, Some exist, s1)
      })
   }"

partial_function (option) HcsAstCopyTree_loop ::
    "bool \<Rightarrow> addr \<Rightarrow> addr \<Rightarrow> uint32_t \<Rightarrow> ast \<Rightarrow> (int \<times> ast) option" where
  "HcsAstCopyTree_loop children src dstTree overWriteFlag s =
     (if children then
        if src = 0 then Some (NOERR, s)
        else do {
          r \<leftarrow> HcsAstCopyTree_loop False src dstTree overWriteFlag s;
          (if fst r \<noteq> 0 then Some r
           else do {
             o1 \<leftarrow> rd (snd r) src;
             HcsAstCopyTree_loop True (po_next o1) dstTree overWriteFlag (snd r)
           })
        }
      else if src = 0 \<or> dstTree = 0 then Some (NOERR, s)
      else do {
        r \<leftarrow> HcsAstCopyTree_head src dstTree overWriteFlag s;
        (case r of (ret, dst, s1) \<Rightarrow>
           (case dst of None \<Rightarrow> Some (ret, s1)
            | Some dstObject \<Rightarrow> do {
                o1 \<leftarrow> rd s1 src;
                HcsAstCopyTree_loop True (po_child o1) dstObject overWriteFlag s1
              }))
      })"

definition HcsAstCopyTree :: "addr \<Rightarrow> addr \<Rightarrow> uint32_t \<Rightarrow> ast \<Rightarrow> (int \<times> ast) option" where
  "HcsAstCopyTree src dstTree overWriteFlag s = HcsAstCopyTree_loop False src dstTree overWriteFlag s"

definition HcsAstCopySubTree :: "addr \<Rightarrow> addr \<Rightarrow> uint32_t \<Rightarrow> ast \<Rightarrow> (int \<times> ast) option" where
  "HcsAstCopySubTree src dst overWriteFlag s =
     (if src = 0 \<or> dst = 0 then Some (NOERR, s)
      else do {
        same \<leftarrow> HcsIsSameTypeObject s src dst;
        (if \<not> same then Some (EINVALARG, s)
         else do {
           so \<leftarrow> rd s src;
           HcsAstCopyTree_loop True (po_child so) dst overWriteFlag s
         })
      })"

section \<open>Small queries\<close>

definition HcsGetTermType :: "ast \<Rightarrow> addr \<Rightarrow> uint16_t option" where
  "HcsGetTermType s object = do {
     o1 \<leftarrow> rd s object;
     (if po_type o1 \<noteq> PARSEROP_CONFTERM \<or> po_child o1 = 0 then Some 0
      else do { c \<leftarrow> rd s (po_child o1); Some (ucast (po_type c)) })
   }"

partial_function (option) HcsCountArraySize_loop :: "ast \<Rightarrow> addr \<Rightarrow> uint16_t \<Rightarrow> uint16_t option" where
  "HcsCountArraySize_loop s child size1 =
     (if child = 0 then Some size1
      else do { c \<leftarrow> rd s child; HcsCountArraySize_loop s (po_next c) (size1 + 1) })"

definition HcsCountArraySize :: "ast \<Rightarrow> addr \<Rightarrow> uint16_t option" where
  "HcsCountArraySize s arrayObj =
     (if arrayObj = 0 then Some 0 else do { o1 \<leftarrow> rd s arrayObj; HcsCountArraySize_loop s (po_child o1) 0 })"

text \<open>\<open>VNum 0\<close> is the null pointer; the name is the string of \<open>module\<close> under the root.\<close>

definition HcsGetModuleName :: "ast \<Rightarrow> (pvalue \<times> ast) option" where
  "HcsGetModuleName s = do {
     r \<leftarrow> HcsGetParserRoot s;
     (if fst r = 0 then Some (VNum 0, snd r)
      else do {
        m \<leftarrow> HcsAstLookupObjectInChildren (snd r) (fst r) [109, 111, 100, 117, 108, 101];
        (if m = 0 then Some (VNum 0, snd r)
         else do {
           mo \<leftarrow> rd (snd r) m;
           c \<leftarrow> rd (snd r) (po_child mo);
           Some (po_value c, snd r)
         })
      })
   }"

text \<open>The equations of the partial functions compute.\<close>

declare
  set_parents.simps [code]
  HcsAstAddPeer_loop.simps [code]
  HcsAstRemoveChildLink_loop.simps [code]
  lookup_loop.simps [code]
  HcsForwardWalkAst_loop.simps [code]
  HcsBackwardWalkAst_loop.simps [code]
  HcsRoundWalkAst_loop.simps [code]
  HcsAstFreeSubTree_loop.simps [code]
  HcsAstCopyArray_loop.simps [code]
  HcsAstCopyTree_loop.simps [code]
  HcsCountArraySize_loop.simps [code]

end
