(* ===== verification/Hcs_Middle.thy ===== *)
theory Hcs_Middle
  imports Hcs_Ast
begin

text \<open>
  The middle end of the configuration compiler, \<^verbatim>\<open>tools/leagecy/hc-gen/src/hcs_middle.c\<close>: the check
  for redefinitions, merging the trees of several files, deleting, expanding references, copies
  and inheritance, over the heap of \<^theory_text>\<open>Hcs_Ast\<close>.
\<close>

section \<open>Paths\<close>

text \<open>The tokens \<^verbatim>\<open>strtok\<close> finds between dots: the empty ones are skipped.\<close>

fun path_tokens :: "bytes \<Rightarrow> bytes \<Rightarrow> bytes list" where
  "path_tokens acc [] = (if acc = [] then [] else [acc])"
| "path_tokens acc (b # bs) =
     (if b = 46 then (if acc = [] then path_tokens [] bs else acc # path_tokens [] bs)
      else path_tokens (acc @ [b]) bs)"

fun HcsLookupAstObject_loop :: "ast \<Rightarrow> addr \<Rightarrow> bytes list \<Rightarrow> addr option" where
  "HcsLookupAstObject_loop s object [] = Some object"
| "HcsLookupAstObject_loop s object (nodeName # rest) = do {
     o1 \<leftarrow> HcsAstLookupObjectInChildren s object nodeName;
     (if o1 = 0 then Some 0 else HcsLookupAstObject_loop s o1 rest)
   }"

definition HcsLookupAstObject :: "addr \<Rightarrow> bytes option \<Rightarrow> ast \<Rightarrow> (addr \<times> ast) option" where
  "HcsLookupAstObject current path s =
     (case path of None \<Rightarrow> None
      | Some p \<Rightarrow>
          if 46 \<notin> set p then map_option (\<lambda>o1. (o1, s)) (HcsAstLookupObjectInPeers s current p)
          else case dup_name s of (ok, s1) \<Rightarrow>
            if \<not> ok then Some (0, s1)
            else (case path_tokens [] p of
                    [] \<Rightarrow> Some (0, s1)
                  | first # rest \<Rightarrow>
                      if first \<noteq> [114, 111, 111, 116] then Some (0, s1)
                      else do {
                        r \<leftarrow> HcsGetParserRoot s1;
                        o1 \<leftarrow> HcsLookupAstObject_loop (snd r) (fst r) rest;
                        Some (o1, snd r)
                      }))"

section \<open>Expanding one object\<close>

definition HcsProcessDelete :: "addr \<Rightarrow> ast \<Rightarrow> (bool \<times> ast) option" where
  "HcsProcessDelete current s = do {
     o1 \<leftarrow> rd s current;
     (if po_type o1 = PARSEROP_CONFNODE then
        if po_nodeType o1 = CONFIG_NODE_DELETE
        then map_option (Pair True) (HcsDeleteParserObjectTree current s) else Some (False, s)
      else if po_type o1 = PARSEROP_CONFTERM then do {
        c \<leftarrow> rd s (po_child o1);
        (if po_type c = PARSEROP_DELETE
         then map_option (Pair True) (HcsDeleteParserObjectTree current s) else Some (False, s))
      }
      else Some (False, s))
   }"

text \<open>Whether \<open>copyNode\<close> is the object \<open>p\<close> or one of its ancestors.\<close>

partial_function (option) copy_parent_loop :: "ast \<Rightarrow> addr \<Rightarrow> addr \<Rightarrow> bool option" where
  "copy_parent_loop s copyNode p =
     (if p = 0 then Some False
      else if p = copyNode then Some True
      else do { o1 \<leftarrow> rd s p; copy_parent_loop s copyNode (po_parent o1) })"

partial_function (option) has_node_child :: "ast \<Rightarrow> addr \<Rightarrow> bool option" where
  "has_node_child s p =
     (if p = 0 then Some False
      else do {
        o1 \<leftarrow> rd s p;
        (if po_type o1 = PARSEROP_CONFNODE then Some True else has_node_child s (po_next o1))
      })"

definition HcsExpandNodeCopy :: "addr \<Rightarrow> ast \<Rightarrow> (int \<times> ast) option" where
  "HcsExpandNodeCopy object s = do {
     s1 \<leftarrow> upd object (\<lambda>o1. o1\<lparr>po_nodeType := CONFIG_NODE_NOREF\<rparr>) s;
     o1 \<leftarrow> rd s1 object;
     r \<leftarrow> HcsLookupAstObject object (po_refNodePath o1) s1;
     (case r of (copyNode, s2) \<Rightarrow>
        if copyNode = 0 then Some (EINVALARG, s2)
        else do {
          loop \<leftarrow> copy_parent_loop s2 copyNode (po_parent o1);
          (if loop then Some (EINVALARG, s2)
           else do {
             c \<leftarrow> rd s2 copyNode;
             bad \<leftarrow> (if as_text s2 then has_node_child s2 (po_child c) else Some False);
             (if bad then Some (EINVALARG, s2)
              else HcsAstCopySubTree copyNode object AST_COPY_DST_OVER_SRC s2)
           })
        })
   }"

definition HcsNodeRefAssembling :: "addr \<Rightarrow> ast \<Rightarrow> (int \<times> ast) option" where
  "HcsNodeRefAssembling current s = do {
     c \<leftarrow> rd s current;
     path \<leftarrow> rd_str s (po_value c);
     r \<leftarrow> HcsLookupAstObject (po_parent c) (Some path) s;
     (case r of (refNode, s1) \<Rightarrow>
        if refNode = 0 then Some (EINVALARG, s1)
        else do {
          o1 \<leftarrow> rd s1 refNode;
          (if po_type o1 \<noteq> PARSEROP_CONFNODE then Some (EINVALARG, s1)
           else if po_nodeType o1 = CONFIG_NODE_REF then Some (EINVALARG, s1)
           else do {
             s2 \<leftarrow> free_str (po_value c) s1;
             s3 \<leftarrow> upd current (\<lambda>o2. o2\<lparr>po_value := VObj refNode\<rparr>) s2;
             Some (NOERR, s3)
           })
        })
   }"

text \<open>\<^verbatim>\<open>HcsExpandNodeRef\<close> before and after it expands the node it refers to.\<close>

definition HcsExpandNodeRef_target :: "addr \<Rightarrow> ast \<Rightarrow> (addr \<times> ast) option" where
  "HcsExpandNodeRef_target object s = do {
     o1 \<leftarrow> rd s object;
     r \<leftarrow> HcsLookupAstObject object (po_refNodePath o1) s;
     (if fst r = 0 then Some r
      else do {
        t \<leftarrow> rd (snd r) (fst r);
        (if po_status t \<noteq> PARSER_OBJ_IDLE then Some (0, snd r) else Some r)
      })
   }"

definition HcsExpandNodeRef_merge :: "addr \<Rightarrow> addr \<Rightarrow> ast \<Rightarrow> (int \<times> ast) option" where
  "HcsExpandNodeRef_merge object refNode s = do {
     o1 \<leftarrow> rd s object;
     (if po_child o1 = 0 then Some (NOERR, s)
      else do {
        r \<leftarrow> HcsAstCopySubTree object refNode AST_COPY_SRC_OVER_DST s;
        (if fst r \<noteq> 0 then Some r
         else map_option (Pair NOERR) (HcsDeleteParserObjectTree object (snd r)))
      })
   }"

partial_function (option) HcsNodeExpand :: "addr \<Rightarrow> ast \<Rightarrow> (int \<times> ast) option" where
  "HcsNodeExpand current s = do {
     del \<leftarrow> HcsProcessDelete current s;
     (case del of (deleted, s0) \<Rightarrow>
        if deleted then Some (NOERR, s0)
        else do {
          o1 \<leftarrow> rd s0 current;
          (if po_type o1 = PARSEROP_CONFNODE then do {
             s1 \<leftarrow> upd current (\<lambda>o2. o2\<lparr>po_status := PARSER_OBJ_PROCESSING\<rparr>) s0;
             (if po_nodeType o1 = CONFIG_NODE_REF then do {
                t \<leftarrow> HcsExpandNodeRef_target current s1;
                (case t of (refNode, s2) \<Rightarrow>
                   if refNode = 0 then Some (EINVALARG, s2)
                   else do {
                     res \<leftarrow> HcsNodeExpand refNode s2;
                     (if fst res \<noteq> 0 then Some res
                      else HcsExpandNodeRef_merge current refNode (snd res))
                   })
              }
              else do {
                r \<leftarrow> (if po_nodeType o1 = CONFIG_NODE_COPY then HcsExpandNodeCopy current s1
                     else Some (NOERR, s1));
                s2 \<leftarrow> upd current (\<lambda>o2. o2\<lparr>po_status := PARSER_OBJ_IDLE\<rparr>) (snd r);
                Some (fst r, s2)
              })
           }
           else if po_type o1 = PARSEROP_NODEREF then HcsNodeRefAssembling current s0
           else Some (NOERR, s0))
        })
   }"

definition HcsExpandNodeRef :: "addr \<Rightarrow> ast \<Rightarrow> (int \<times> ast) option" where
  "HcsExpandNodeRef object s = do {
     t \<leftarrow> HcsExpandNodeRef_target object s;
     (case t of (refNode, s2) \<Rightarrow>
        if refNode = 0 then Some (EINVALARG, s2)
        else do {
          res \<leftarrow> HcsNodeExpand refNode s2;
          (if fst res \<noteq> 0 then Some res else HcsExpandNodeRef_merge object refNode (snd res))
        })
   }"

section \<open>Inheritance\<close>

text \<open>The recursive call is the last step of the loop: it leaves the loop.\<close>

partial_function (option) HcsInheritNodeCompareWithBase_loop :: "addr \<Rightarrow> addr \<Rightarrow> ast \<Rightarrow> (int \<times> ast) option" where
  "HcsInheritNodeCompareWithBase_loop objChild base s =
     (if objChild = 0 then Some (NOERR, s)
      else do {
        c \<leftarrow> rd s objChild;
        (if po_type c = PARSEROP_CONFNODE \<and> po_nodeType c = CONFIG_NODE_INHERIT then do {
           r \<leftarrow> HcsLookupAstObject objChild (po_refNodePath c) s;
           (if fst r = 0 then Some (EFAIL, snd r)
            else do {
              t \<leftarrow> rd (snd r) (fst r);
              n \<leftarrow> po_name t;
              r2 \<leftarrow> HcsLookupAstObject objChild (Some n) (snd r);
              (if fst r \<noteq> fst r2 then Some (EFAIL, snd r2)
               else HcsInheritNodeCompareWithBase_loop (po_next c) base (snd r2))
            })
         }
         else do {
           n \<leftarrow> po_name c;
           objInBase \<leftarrow> HcsAstLookupObjectInChildren s base n;
           (if objInBase = 0 then Some (EFAIL, s)
            else if po_type c = PARSEROP_CONFNODE
            then HcsInheritNodeCompareWithBase_loop (po_child c) objInBase s
            else HcsInheritNodeCompareWithBase_loop (po_next c) base s)
         })
      })"

definition HcsInheritNodeCompareWithBase :: "addr \<Rightarrow> addr \<Rightarrow> ast \<Rightarrow> (int \<times> ast) option" where
  "HcsInheritNodeCompareWithBase obj base s = do {
     o1 \<leftarrow> rd s obj;
     HcsInheritNodeCompareWithBase_loop (po_child o1) base s
   }"

definition HcsAddInstanceToTemplate :: "addr \<Rightarrow> addr \<Rightarrow> ast \<Rightarrow> (int \<times> ast) option" where
  "HcsAddInstanceToTemplate instanceNode template s =
     (case dup_name s of (ok, s1) \<Rightarrow>
        if \<not> ok then Some (EOOM, s1)
        else do {
          t \<leftarrow> rd s1 template;
          s2 \<leftarrow> (if po_subClasses t = 0 then
                   upd template (\<lambda>o1. o1\<lparr>po_subClasses := as_ibrk s1\<rparr>)
                     (s1\<lparr>as_inst := (as_inst s1)(as_ibrk s1 \<mapsto> [instanceNode]), as_ibrk := as_ibrk s1 + 1\<rparr>)
                 else (case as_inst s1 (po_subClasses t) of None \<Rightarrow> None
                       | Some l \<Rightarrow> Some (s1\<lparr>as_inst := (as_inst s1)(po_subClasses t \<mapsto> l @ [instanceNode])\<rparr>)));
          s3 \<leftarrow> upd template (\<lambda>o1. o1\<lparr>po_inheritCount := po_inheritCount o1 + 1\<rparr>) s2;
          s4 \<leftarrow> upd instanceNode (\<lambda>o1. o1\<lparr>po_inheritIndex := po_inheritCount t\<rparr>) s3;
          Some (NOERR, s4)
        })"

definition HcsNodeInheritExpand :: "addr \<Rightarrow> ast \<Rightarrow> (int \<times> ast) option" where
  "HcsNodeInheritExpand obj s = do {
     o1 \<leftarrow> rd s obj;
     r \<leftarrow> HcsLookupAstObject obj (po_refNodePath o1) s;
     (case r of (base, s1) \<Rightarrow>
        if base = 0 then Some (EFAIL, s1)
        else do {
          b \<leftarrow> rd s1 base;
          (if po_type b \<noteq> PARSEROP_CONFNODE \<or> po_nodeType b \<noteq> CONFIG_NODE_TEMPLATE then Some (EFAIL, s1)
           else do {
             s2 \<leftarrow> upd obj (\<lambda>o2. o2\<lparr>po_inheritNode := base\<rparr>) s1;
             c \<leftarrow> HcsAstCopySubTree base obj AST_COPY_DST_OVER_SRC s2;
             (if fst c \<noteq> 0 then Some c
              else do {
                d \<leftarrow> HcsInheritNodeCompareWithBase obj base (snd c);
                (if fst d \<noteq> 0 then Some d else HcsAddInstanceToTemplate obj base (snd d))
              })
           })
        })
   }"

section \<open>Redefinitions\<close>

partial_function (option) redefined_by :: "ast \<Rightarrow> ParserObject \<Rightarrow> addr \<Rightarrow> bool option" where
  "redefined_by s child next =
     (if next = 0 then Some False
      else do {
        n \<leftarrow> rd s next;
        nn \<leftarrow> po_name n;
        (if nn = ANONYMOUS_OBJECT_NAME then redefined_by s child (po_next n)
         else do {
           cn \<leftarrow> po_name child;
           (if cn = nn \<and> po_src child = po_src n then Some True
            else redefined_by s child (po_next n))
         })
      })"

partial_function (option) HcsRedefineCheck_loop :: "ast \<Rightarrow> addr \<Rightarrow> addr \<Rightarrow> int option" where
  "HcsRedefineCheck_loop s object child =
     (if child = 0 then Some NOERR
      else do {
        c \<leftarrow> rd s child;
        anon \<leftarrow> HcsIsAnonymousObject s object;
        again \<leftarrow> (if anon then Some False else redefined_by s c (po_next c));
        (if again then Some EINVALARG else HcsRedefineCheck_loop s object (po_next c))
      })"

definition HcsRedefineCheck :: "ast \<Rightarrow> addr \<Rightarrow> int option" where
  "HcsRedefineCheck s object = do {
     o1 \<leftarrow> rd s object;
     (if po_child o1 = 0 then Some NOERR else HcsRedefineCheck_loop s object (po_child o1))
   }"

definition HcsMiddleRedefineCheckCallback :: walk_cb where
  "HcsMiddleRedefineCheckCallback current walkDepth s = map_option (\<lambda>r. (r, s)) (HcsRedefineCheck s current)"

definition HcsMiddleInheritExpandCallback :: walk_cb where
  "HcsMiddleInheritExpandCallback current walkDepth s = do {
     o1 \<leftarrow> rd s current;
     (if po_type o1 = PARSEROP_CONFNODE \<and> po_nodeType o1 = CONFIG_NODE_INHERIT
      then HcsNodeInheritExpand current s else Some (NOERR, s))
   }"

definition HcsMiddleProcessCallback :: walk_cb where
  "HcsMiddleProcessCallback current walkDepth s = HcsNodeExpand current s"

section \<open>Merging\<close>

definition is_delete :: "ast \<Rightarrow> addr \<Rightarrow> bool option" where
  "is_delete s p = do {
     o1 \<leftarrow> rd s p;
     (if po_type o1 = PARSEROP_CONFNODE then Some (po_nodeType o1 = CONFIG_NODE_DELETE)
      else if po_type o1 = PARSEROP_CONFTERM
      then do { c \<leftarrow> rd s (po_child o1); Some (po_type c = PARSEROP_DELETE) }
      else Some False)
   }"

definition HcsApplyDelete :: "addr \<Rightarrow> addr \<Rightarrow> ast \<Rightarrow> (bool \<times> ast) option" where
  "HcsApplyDelete dst src s = do {
     warn \<leftarrow> is_delete s dst;
     d \<leftarrow> is_delete s src;
     (if d then do {
        s1 \<leftarrow> HcsDeleteParserObjectTree dst s;
        s2 \<leftarrow> HcsDeleteParserObjectTree src s1;
        Some (True, s2)
      }
      else Some (False, s))
   }"

text \<open>
  What \<^verbatim>\<open>HcsMergeTree\<close> does before its loop: a status, and whether the loop is run.
\<close>

definition HcsMergeTree_head :: "addr \<Rightarrow> addr \<Rightarrow> ast \<Rightarrow> (int \<times> bool \<times> ast) option" where
  "HcsMergeTree_head dst src s = do {
     so \<leftarrow> rd s src;
     do1 \<leftarrow> rd s dst;
     sn \<leftarrow> po_name so;
     dn \<leftarrow> po_name do1;
     (if sn \<noteq> dn then Some (EINVALARG, False, s)
      else if po_type so \<noteq> po_type do1 then Some (EINVALARG, False, s)
      else do {
        d \<leftarrow> HcsApplyDelete dst src s;
        (case d of (deleted, s1) \<Rightarrow>
           if deleted then Some (NOERR, False, s1)
           else do {
             s2 \<leftarrow> upd dst (\<lambda>o1. o1\<lparr>po_src := po_src so, po_lineno := po_lineno so\<rparr>) s1;
             num \<leftarrow> HcsIsNumberObject s2 src;
             (if po_type so = PARSEROP_STRING then do {
                s3 \<leftarrow> free_str (po_value do1) s2;
                s4 \<leftarrow> upd dst (\<lambda>o1. o1\<lparr>po_value := po_value so\<rparr>) s3;
                s5 \<leftarrow> upd src (\<lambda>o1. o1\<lparr>po_value := VNum 0\<rparr>) s4;
                Some (NOERR, True, s5)
              }
              else if num then do {
                s3 \<leftarrow> upd dst (\<lambda>o1. o1\<lparr>po_value := po_value so\<rparr>) s2;
                Some (NOERR, True, s3)
              }
              else Some (NOERR, True, s2))
           })
      })
   }"

text \<open>The function and its loop, which is run when the flag is true, with \<open>src\<close> the child \<open>childSrc\<close>.\<close>

partial_function (option) HcsMergeTree_loop :: "bool \<Rightarrow> addr \<Rightarrow> addr \<Rightarrow> ast \<Rightarrow> (int \<times> ast) option" where
  "HcsMergeTree_loop children dst src s =
     (if children then
        if src = 0 then Some (NOERR, s)
        else do {
          c \<leftarrow> rd s src;
          n \<leftarrow> po_name c;
          childDst \<leftarrow> HcsAstLookupObjectInChildren s dst n;
          (if childDst = 0 then do {
             s1 \<leftarrow> HcsAstRemoveChildLink (po_parent c) src s;
             r \<leftarrow> HcsAstAddChild dst src s1;
             HcsMergeTree_loop True dst (po_next c) (snd r)
           }
           else do {
             d \<leftarrow> rd s childDst;
             (if po_type c \<noteq> po_type d then Some (EINVALARG, s)
              else if po_type d = PARSEROP_ARRAY then HcsAstCopyArray src childDst s
              else do {
                r \<leftarrow> HcsMergeTree_loop False childDst src s;
                (if fst r \<noteq> 0 then Some r else HcsMergeTree_loop True dst (po_next c) (snd r))
              })
           })
        }
      else do {
        r \<leftarrow> HcsMergeTree_head dst src s;
        (case r of (ret, run, s1) \<Rightarrow>
           if \<not> run then Some (ret, s1)
           else do {
             so \<leftarrow> rd s1 src;
             HcsMergeTree_loop True dst (po_child so) s1
           })
      })"

definition HcsMergeTree :: "addr \<Rightarrow> addr \<Rightarrow> ast \<Rightarrow> (int \<times> ast) option" where
  "HcsMergeTree dst src s = HcsMergeTree_loop False dst src s"

partial_function (option) HcsOrderForest_loop :: "addr \<Rightarrow> addr \<Rightarrow> ast \<Rightarrow> (addr \<times> ast) option" where
  "HcsOrderForest_loop pre next s =
     (if next = 0 then Some (pre, s)
      else do {
        n \<leftarrow> rd s next;
        s1 \<leftarrow> upd next (\<lambda>o1. o1\<lparr>po_next := pre\<rparr>) s;
        HcsOrderForest_loop next (po_next n) s1
      })"

definition HcsOrderForest :: "addr \<Rightarrow> ast \<Rightarrow> ast option" where
  "HcsOrderForest root s = do {
     r \<leftarrow> rd s root;
     (if po_child r = 0 then Some s
      else do {
        c \<leftarrow> rd s (po_child r);
        l \<leftarrow> HcsOrderForest_loop (po_child r) (po_next c) s;
        s1 \<leftarrow> upd (po_child r) (\<lambda>o1. o1\<lparr>po_next := 0\<rparr>) (snd l);
        upd root (\<lambda>o1. o1\<lparr>po_child := fst l\<rparr>) s1
      })
   }"

partial_function (option) HcsMiddleMerge_loop :: "addr \<Rightarrow> ast \<Rightarrow> (int \<times> ast) option" where
  "HcsMiddleMerge_loop peer s = do {
     p \<leftarrow> rd s peer;
     (if po_next p = 0 then Some (NOERR, s)
      else do {
        r \<leftarrow> HcsMergeTree peer (po_next p) s;
        (if fst r \<noteq> 0 then Some r
         else do {
           s1 \<leftarrow> HcsDeleteParserObjectTree (po_next p) (snd r);
           HcsMiddleMerge_loop peer s1
         })
      })
   }"

text \<open>The merged root is also the result of \<^verbatim>\<open>HcsMiddleMerge\<close> on success.\<close>

definition HcsMiddleMerge :: "ast \<Rightarrow> (int \<times> addr \<times> ast) option" where
  "HcsMiddleMerge s = do {
     g \<leftarrow> HcsGetParserRoot s;
     s1 \<leftarrow> HcsOrderForest (fst g) (snd g);
     r \<leftarrow> rd s1 (fst g);
     m \<leftarrow> HcsMiddleMerge_loop (po_child r) s1;
     (if fst m \<noteq> 0 then Some (fst m, fst g, snd m)
      else do {
        p \<leftarrow> rd (snd m) (po_child r);
        s2 \<leftarrow> HcsAstRemoveChildLink (po_parent p) (po_child r) (snd m);
        Some (NOERR, po_child r, HcsSetParserRoot (po_child r) s2)
      })
   }"

section \<open>The middle end\<close>

definition HcsDoOptimize :: "ast \<Rightarrow> (int \<times> ast) option" where
  "HcsDoOptimize s = do {
     g \<leftarrow> HcsGetParserRoot s;
     (if fst g = 0 then Some (EINVALARG, snd g)
      else do {
        r1 \<leftarrow> HcsWalkAst (fst g) AST_WALK_BACKEND None (Some HcsMiddleRedefineCheckCallback) (snd g);
        (if fst r1 \<noteq> 0 then Some r1
         else do {
           r2 \<leftarrow> HcsMiddleMerge (snd r1);
           (case r2 of (ret, root, s2) \<Rightarrow>
              if ret \<noteq> 0 then Some (ret, s2)
              else do {
                m \<leftarrow> HcsGetModuleName s2;
                (if fst m = VNum 0 then Some (EINVALARG, snd m)
                 else do {
                   r3 \<leftarrow> HcsWalkAst root AST_WALK_BACKEND None (Some HcsMiddleProcessCallback) (snd m);
                   (if fst r3 \<noteq> 0 then Some r3
                    else HcsWalkAst root AST_WALK_FORWARD (Some HcsMiddleInheritExpandCallback) None (snd r3))
                 })
              })
         })
      })
   }"

text \<open>What \<^verbatim>\<open>ParserCleanUp\<close> of \<^verbatim>\<open>hcs_parser.c\<close> does to the tree.\<close>

definition ParserCleanUp :: "ast \<Rightarrow> ast option" where
  "ParserCleanUp s = do { g \<leftarrow> HcsGetParserRoot s; HcsDeleteParserObjectTree (fst g) (snd g) }"

text \<open>The equations of the partial functions compute.\<close>

declare
  copy_parent_loop.simps [code]
  has_node_child.simps [code]
  HcsNodeExpand.simps [code]
  HcsInheritNodeCompareWithBase_loop.simps [code]
  redefined_by.simps [code]
  HcsRedefineCheck_loop.simps [code]
  HcsMergeTree_loop.simps [code]
  HcsOrderForest_loop.simps [code]
  HcsMiddleMerge_loop.simps [code]

end
