(* ===== verification/Hcs_AstTree.thy ===== *)
theory Hcs_AstTree
  imports Hcs_Ast
begin

text \<open>
  The heap of the configuration compiler as trees: what it means that the objects linked from an
  address form a list of trees, and what the operations of \<^verbatim>\<open>hcs_ast.c\<close> do to such a list.
\<close>

section \<open>Trees in the heap\<close>

text \<open>A tree of objects: address, contents without links, and children.\<close>

datatype tree = Tree (root_of: addr) (obj_of: ParserObject) (kids_of: "tree list")

definition unlinked :: "ParserObject \<Rightarrow> ParserObject" where
  "unlinked o1 = o1\<lparr>po_parent := 0, po_next := 0, po_child := 0\<rparr>"

lemma unlinked_sel [simp]:
  "po_type (unlinked o1) = po_type o1" "po_name (unlinked o1) = po_name o1" "po_value (unlinked o1) = po_value o1"
  "po_nodeType (unlinked o1) = po_nodeType o1" "po_subClasses (unlinked o1) = po_subClasses o1"
  "po_opCode (unlinked o1) = po_opCode o1" "po_size (unlinked o1) = po_size o1"
  "po_subSize (unlinked o1) = po_subSize o1" "po_hash (unlinked o1) = po_hash o1"
  by (simp_all add: unlinked_def)

text \<open>The addresses and the nodes of a list of trees, in the order of a forward walk.\<close>

fun addrs :: "tree list \<Rightarrow> addr list" where
  "addrs [] = []"
| "addrs (Tree a d ks # ts) = a # addrs ks @ addrs ts"

fun nodes :: "tree list \<Rightarrow> (addr \<times> ParserObject) list" where
  "nodes [] = []"
| "nodes (Tree a d ks # ts) = (a, d) # nodes ks @ nodes ts"

text \<open>The links from \<open>p\<close> are those of the trees, siblings below \<open>par\<close>.\<close>

fun linked :: "(addr \<rightharpoonup> ParserObject) \<Rightarrow> addr \<Rightarrow> addr \<Rightarrow> tree list \<Rightarrow> bool" where
  "linked H par p [] \<longleftrightarrow> p = 0"
| "linked H par p (Tree a d ks # ts) \<longleftrightarrow>
     p = a \<and> a \<noteq> 0 \<and> (\<exists>o1. H a = Some o1 \<and> po_parent o1 = par
       \<and> linked H a (po_child o1) ks \<and> linked H par (po_next o1) ts)"

definition holds_data :: "(addr \<rightharpoonup> ParserObject) \<Rightarrow> tree list \<Rightarrow> bool" where
  "holds_data H ts \<longleftrightarrow> (\<forall>a d. (a, d) \<in> set (nodes ts) \<longrightarrow> map_option unlinked (H a) = Some d)"

text \<open>Siblings below \<open>par\<close>, all addresses distinct.\<close>

definition forest :: "(addr \<rightharpoonup> ParserObject) \<Rightarrow> addr \<Rightarrow> addr \<Rightarrow> tree list \<Rightarrow> bool" where
  "forest H par p ts \<longleftrightarrow> linked H par p ts \<and> holds_data H ts \<and> distinct (addrs ts)"

lemma addrs_append [simp]: "addrs (ts @ us) = addrs ts @ addrs us"
  by (induction ts rule: addrs.induct) auto

lemma nodes_append [simp]: "nodes (ts @ us) = nodes ts @ nodes us"
  by (induction ts rule: nodes.induct) auto

lemma map_fst_nodes [simp]: "map fst (nodes ts) = addrs ts"
  by (induction ts rule: nodes.induct) auto

lemma set_addrs: "set (addrs ts) = fst ` set (nodes ts)"
  by (metis map_fst_nodes list.set_map)

lemma linked_addrs: "linked H par p ts \<Longrightarrow> a \<in> set (addrs ts) \<Longrightarrow> a \<noteq> 0 \<and> H a \<noteq> None"
  by (induction H par p ts rule: linked.induct) auto

lemma linked_zero: "linked H par p ts \<Longrightarrow> 0 \<notin> set (addrs ts)"
  using linked_addrs by blast

lemma linked_empty_iff: "linked H par p ts \<Longrightarrow> (p = 0 \<longleftrightarrow> ts = [])"
  by (cases "(H, par, p, ts)" rule: linked.cases) auto

lemma linked_head: "linked H par p ts \<Longrightarrow> ts \<noteq> [] \<Longrightarrow> p = root_of (hd ts) \<and> p \<in> set (addrs ts)"
  by (cases "(H, par, p, ts)" rule: linked.cases) auto

text \<open>What a list of trees depends on.\<close>

definition same_links :: "(addr \<rightharpoonup> ParserObject) \<Rightarrow> (addr \<rightharpoonup> ParserObject) \<Rightarrow> addr \<Rightarrow> bool" where
  "same_links H H' a \<longleftrightarrow>
     map_option (\<lambda>o1. (po_parent o1, po_next o1, po_child o1)) (H' a)
     = map_option (\<lambda>o1. (po_parent o1, po_next o1, po_child o1)) (H a)"

lemma linked_cong:
  "linked H par p ts \<Longrightarrow> (\<And>a. a \<in> set (addrs ts) \<Longrightarrow> same_links H H' a) \<Longrightarrow> linked H' par p ts"
proof (induction H par p ts rule: linked.induct)
  case (2 H par p a d ks ts)
  then obtain o1 where o1: "p = a" "a \<noteq> 0" "H a = Some o1" "po_parent o1 = par"
    "linked H a (po_child o1) ks" "linked H par (po_next o1) ts" by auto
  from "2.prems"(2) [of a] o1(3) obtain o2 where o2: "H' a = Some o2" "po_parent o2 = po_parent o1"
    "po_next o2 = po_next o1" "po_child o2 = po_child o1"
    by (cases "H' a") (auto simp: same_links_def)
  have "linked H' a (po_child o1) ks" "linked H' par (po_next o1) ts"
    using "2.IH"(1) [OF o1(5)] "2.IH"(2) [OF o1(6)] "2.prems"(2) by auto
  with o1 o2 show ?case by auto
qed auto

lemma linked_cong_eq:
  "linked H par p ts \<Longrightarrow> (\<And>a. a \<in> set (addrs ts) \<Longrightarrow> H' a = H a) \<Longrightarrow> linked H' par p ts"
  by (rule linked_cong) (auto simp: same_links_def)

lemma holds_data_cong:
  "holds_data H ts \<Longrightarrow> (\<And>a. a \<in> set (addrs ts) \<Longrightarrow> H' a = H a) \<Longrightarrow> holds_data H' ts"
  by (fastforce simp: holds_data_def set_addrs)

lemma forest_cong:
  "forest H par p ts \<Longrightarrow> (\<And>a. a \<in> set (addrs ts) \<Longrightarrow> H' a = H a) \<Longrightarrow> forest H' par p ts"
  unfolding forest_def by (blast intro: linked_cong_eq holds_data_cong)

lemma linked_upd [simp]:
  "a \<notin> set (addrs ts) \<Longrightarrow> linked (H(a := v)) par p ts \<longleftrightarrow> linked H par p ts"
  by (auto elim: linked_cong_eq)

lemma holds_data_append [simp]: "holds_data H (ts @ us) \<longleftrightarrow> holds_data H ts \<and> holds_data H us"
  by (auto simp: holds_data_def)

lemma holds_data_Nil [simp]: "holds_data H []"
  by (simp add: holds_data_def)

lemma holds_data_Cons [simp]:
  "holds_data H (Tree a d ks # ts) \<longleftrightarrow>
     map_option unlinked (H a) = Some d \<and> holds_data H ks \<and> holds_data H ts"
  by (auto simp: holds_data_def)

lemma forest_Nil [simp]: "forest H par p [] \<longleftrightarrow> p = 0"
  by (simp add: forest_def)

lemma forest_Cons:
  "forest H par p (Tree a d ks # ts) \<longleftrightarrow>
     p = a \<and> a \<noteq> 0 \<and> a \<notin> set (addrs ks) \<and> a \<notin> set (addrs ts) \<and> set (addrs ks) \<inter> set (addrs ts) = {}
     \<and> (\<exists>o1. H a = Some o1 \<and> po_parent o1 = par \<and> unlinked o1 = d
            \<and> forest H a (po_child o1) ks \<and> forest H par (po_next o1) ts)"
  by (auto simp: forest_def)

lemma forest_linked: "forest H par p ts \<Longrightarrow> linked H par p ts"
  by (simp add: forest_def)

section \<open>Walks that leave the links alone\<close>

definition keeps_links :: "walk_cb \<Rightarrow> bool" where
  "keeps_links cb \<longleftrightarrow>
     (\<forall>a depth s r. cb a depth s = Some r \<longrightarrow> (\<forall>x. same_links (as_heap s) (as_heap (snd r)) x))"

lemma same_links_refl [simp]: "same_links H H a"
  by (simp add: same_links_def)

lemma same_links_trans: "same_links H1 H2 a \<Longrightarrow> same_links H2 H3 a \<Longrightarrow> same_links H1 H3 a"
  by (simp add: same_links_def)

lemma same_linksE:
  assumes "same_links H H' a" "H a = Some o1"
  obtains o2 where "H' a = Some o2" "po_parent o2 = po_parent o1" "po_next o2 = po_next o1"
    "po_child o2 = po_child o1"
  using assms by (cases "H' a") (auto simp: same_links_def)

lemma keeps_linksD:
  "keeps_links cb \<Longrightarrow> cb a depth s = Some r \<Longrightarrow> same_links (as_heap s) (as_heap (snd r)) x"
  unfolding keeps_links_def by blast

lemma keeps_links_default: "keeps_links AstWalkCallBackDefault"
  by (auto simp: keeps_links_def AstWalkCallBackDefault_def intro!: same_links_refl)

text \<open>
  The visits of a walk as a recursion over trees: \<open>pre\<close> before the children, which are skipped when
  it asks to break, \<open>post\<close> behind them, also on objects without children if \<open>leaf\<close>; any other
  status ends the walk with the error \<open>e\<close>.
\<close>

definition after_children :: "walk_cb \<Rightarrow> int \<Rightarrow> addr \<Rightarrow> int \<Rightarrow> ast \<Rightarrow> (int \<times> ast) option" where
  "after_children post e a depth s =
     map_option (\<lambda>r. (if fst r \<noteq> 0 then e else NOERR, snd r)) (post a depth s)"

fun walk_run :: "walk_cb \<Rightarrow> walk_cb \<Rightarrow> bool \<Rightarrow> int \<Rightarrow> int \<Rightarrow> tree list \<Rightarrow> ast \<Rightarrow> (int \<times> ast) option" where
  "walk_run pre post leaf e depth [] s = Some (NOERR, s)"
| "walk_run pre post leaf e depth (Tree a d ks # ts) s = do {
     r \<leftarrow> pre a depth s;
     (if fst r \<noteq> 0 \<and> fst r \<noteq> EASTWALKBREAK then Some (e, snd r)
      else do {
        r2 \<leftarrow> (if fst r = 0 \<and> ks \<noteq> [] then do {
                   r1 \<leftarrow> walk_run pre post leaf e (depth + 1) ks (snd r);
                   (if fst r1 \<noteq> 0 then Some r1 else after_children post e a depth (snd r1))
                 }
               else if leaf then after_children post e a depth (snd r)
               else Some (NOERR, snd r));
        (if fst r2 \<noteq> 0 then Some r2 else walk_run pre post leaf e depth ts (snd r2))
      })
   }"

text \<open>Continuing behind a result, unless it is an error.\<close>

definition go_on :: "(int \<times> ast) option \<Rightarrow> (ast \<Rightarrow> (int \<times> ast) option) \<Rightarrow> (int \<times> ast) option" where
  "go_on m k = do { r \<leftarrow> m; (if fst r \<noteq> 0 then Some r else k (snd r)) }"

lemma go_on_simps [simp]:
  "go_on None k = None" "fst r \<noteq> 0 \<Longrightarrow> go_on (Some r) k = Some r" "go_on (Some (0, s)) k = k s"
  "fst r = 0 \<Longrightarrow> go_on (Some r) k = k (snd r)"
  by (simp_all add: go_on_def)

lemma go_on_assoc: "go_on (go_on m f) g = go_on m (\<lambda>s. go_on (f s) g)"
  by (cases m) (auto simp: go_on_def)

lemma go_on_cong:
  "(\<And>r. m = Some r \<Longrightarrow> fst r = 0 \<Longrightarrow> f (snd r) = g (snd r)) \<Longrightarrow> go_on m f = go_on m g"
  by (cases m) (auto simp: go_on_def)

text \<open>
  What a walk does at one object: \<open>W st a depth False\<close> enters the object \<open>a\<close>, \<open>W st a depth True\<close>
  comes back to it from its children.
\<close>

locale tree_walk =
  fixes W :: "addr \<Rightarrow> addr \<Rightarrow> int \<Rightarrow> bool \<Rightarrow> ast \<Rightarrow> (int \<times> ast) option"
    and pre :: walk_cb and post :: walk_cb and leaf :: bool and e :: int
  assumes error: "e \<noteq> 0"
    and enter: "keeps_links pre \<Longrightarrow> keeps_links post \<Longrightarrow> as_heap s a = Some o1 \<Longrightarrow> a \<noteq> 0 \<Longrightarrow>
      W st a depth False s = do {
        r \<leftarrow> pre a depth s;
        (if fst r \<noteq> 0 \<and> fst r \<noteq> EASTWALKBREAK then Some (e, snd r)
         else if fst r = 0 \<and> po_child o1 \<noteq> 0 then W st (po_child o1) (depth + 1) False (snd r)
         else go_on (if leaf then after_children post e a depth (snd r) else Some (NOERR, snd r))
           (\<lambda>s2. if a = st then Some (NOERR, s2)
                 else if po_next o1 \<noteq> 0 then W st (po_next o1) depth False s2
                 else W st (po_parent o1) (depth - 1) True s2))
      }"
    and come_back: "keeps_links pre \<Longrightarrow> keeps_links post \<Longrightarrow> as_heap s a = Some o1 \<Longrightarrow> a \<noteq> 0 \<Longrightarrow>
      W st a depth True s = go_on (after_children post e a depth s)
           (\<lambda>s2. if a = st then Some (NOERR, s2)
                 else if po_next o1 \<noteq> 0 then W st (po_next o1) depth False s2
                 else W st (po_parent o1) (depth - 1) True s2)"
begin

lemma after_children_keeps:
  "keeps_links post \<Longrightarrow> after_children post e a depth s = Some r \<Longrightarrow> same_links (as_heap s) (as_heap (snd r)) x"
  by (auto simp: after_children_def dest: keeps_linksD)

text \<open>The part of \<^const>\<open>walk_run\<close> at one object, without its siblings.\<close>

definition run_here :: "addr \<Rightarrow> int \<Rightarrow> tree list \<Rightarrow> ast \<Rightarrow> (int \<times> ast) option" where
  "run_here a depth ks s = do {
     r \<leftarrow> pre a depth s;
     (if fst r \<noteq> 0 \<and> fst r \<noteq> EASTWALKBREAK then Some (e, snd r)
      else if fst r = 0 \<and> ks \<noteq> []
      then go_on (walk_run pre post leaf e (depth + 1) ks (snd r)) (after_children post e a depth)
      else if leaf then after_children post e a depth (snd r) else Some (NOERR, snd r))
   }"

lemma walk_run_Cons:
  "walk_run pre post leaf e depth (Tree a d ks # ts) s =
     go_on (run_here a depth ks s) (walk_run pre post leaf e depth ts)"
  using error by (auto simp: run_here_def go_on_def Option.bind_assoc intro!: Option.bind_cong)

declare walk_run.simps(2) [simp del]

lemma run_here_keeps:
  assumes "keeps_links pre" "keeps_links post"
    and "\<And>depth s r. walk_run pre post leaf e depth ks s = Some r \<Longrightarrow> same_links (as_heap s) (as_heap (snd r)) x"
    and "run_here a depth ks s = Some r"
  shows "same_links (as_heap s) (as_heap (snd r)) x"
proof -
  obtain r1 where r1: "pre a depth s = Some r1" using assms(4) by (cases "pre a depth s") (auto simp: run_here_def)
  have s1: "same_links (as_heap s) (as_heap (snd r1)) x" by (rule keeps_linksD [OF assms(1) r1])
  have below: "same_links (as_heap s1) (as_heap (snd r)) x"
    if h: "go_on (walk_run pre post leaf e (depth + 1) ks s1) (after_children post e a depth) = Some r" for s1
  proof -
    obtain r2 where r2: "walk_run pre post leaf e (depth + 1) ks s1 = Some r2"
      using h by (cases "walk_run pre post leaf e (depth + 1) ks s1") auto
    have "r = r2 \<or> after_children post e a depth (snd r2) = Some r"
      using h r2 by (cases "fst r2 = 0") auto
    then show ?thesis
      using assms(3) [OF r2] after_children_keeps [OF assms(2)] by (blast intro: same_links_trans)
  qed
  have "same_links (as_heap (snd r1)) (as_heap (snd r)) x"
    using assms(4) r1 below [of "snd r1"] after_children_keeps [OF assms(2)]
    by (auto simp: run_here_def split: if_splits)
  with s1 show ?thesis by (rule same_links_trans)
qed

lemma walk_run_keeps:
  assumes "keeps_links pre" "keeps_links post"
  shows "walk_run pre post leaf e depth ts s = Some r \<Longrightarrow> same_links (as_heap s) (as_heap (snd r)) x"
proof (induction ts arbitrary: depth s r rule: addrs.induct)
  case 1
  then show ?case by auto
next
  case (2 a d ks ts)
  obtain r1 where r1: "run_here a depth ks s = Some r1"
    using "2.prems" by (cases "run_here a depth ks s") (auto simp: walk_run_Cons)
  have "same_links (as_heap s) (as_heap (snd r1)) x"
    by (rule run_here_keeps [OF assms "2.IH"(1) r1])
  moreover have "r = r1 \<or> walk_run pre post leaf e depth ts (snd r1) = Some r"
    using "2.prems" r1 by (cases "fst r1 = 0") (auto simp: walk_run_Cons)
  ultimately show ?case using "2.IH"(2) by (blast intro: same_links_trans)
qed

text \<open>
  A walk that enters a list of siblings visits them as the recursion does and comes back to their
  parent.
\<close>

lemma walk_list:
  assumes "keeps_links pre" "keeps_links post"
  shows "linked (as_heap s) par p ts \<Longrightarrow> ts \<noteq> [] \<Longrightarrow> st \<notin> set (addrs ts) \<Longrightarrow>
    W st p depth False s = go_on (walk_run pre post leaf e depth ts s) (W st par (depth - 1) True)"
proof (induction ts arbitrary: p par depth s rule: addrs.induct)
  case 1
  then show ?case by simp
next
  case (2 a d ks ts)
  obtain o1 where o1: "p = a" "a \<noteq> 0" "as_heap s a = Some o1" "po_parent o1 = par"
    "linked (as_heap s) a (po_child o1) ks" "linked (as_heap s) par (po_next o1) ts"
    using "2.prems"(1) by auto
  have st: "a \<noteq> st" "st \<notin> set (addrs ks)" "st \<notin> set (addrs ts)" using "2.prems"(3) by auto
  define up where "up s2 = (if po_next o1 \<noteq> 0 then W st (po_next o1) depth False s2
      else W st par (depth - 1) True s2)" for s2
  have up: "(\<lambda>s2. if a = st then Some (NOERR, s2)
                 else if po_next o1 \<noteq> 0 then W st (po_next o1) depth False s2
                 else W st (po_parent o1) (depth - 1) True s2) = up"
    using st(1) o1(4) by (auto simp: up_def)
  have here: "W st p depth False s = go_on (run_here a depth ks s) up"
  proof (cases "pre a depth s")
    case None
    then show ?thesis using enter [OF assms o1(3,2)] o1(1) by (simp add: run_here_def)
  next
    case r1: (Some r1)
    have l1: "same_links (as_heap s) (as_heap (snd r1)) x" for x by (rule keeps_linksD [OF assms(1) r1])
    have ks: "linked (as_heap (snd r1)) a (po_child o1) ks" using o1(5) l1 by (blast intro: linked_cong)
    have below: "W st (po_child o1) (depth + 1) False (snd r1)
        = go_on (go_on (walk_run pre post leaf e (depth + 1) ks (snd r1)) (after_children post e a depth)) up"
      if "ks \<noteq> []"
    proof -
      have "W st (po_child o1) (depth + 1) False (snd r1)
          = go_on (walk_run pre post leaf e (depth + 1) ks (snd r1)) (W st a depth True)"
        using "2.IH"(1) [OF ks that st(2), of "depth + 1"] by simp
      also have "\<dots> = go_on (walk_run pre post leaf e (depth + 1) ks (snd r1))
          (\<lambda>s2. go_on (after_children post e a depth s2) up)"
      proof (rule go_on_cong)
        fix r2 assume "walk_run pre post leaf e (depth + 1) ks (snd r1) = Some r2" "fst r2 = 0"
        from same_linksE [OF same_links_trans [OF l1 walk_run_keeps [OF assms this(1)]] o1(3)]
        obtain o2 where "as_heap (snd r2) a = Some o2" "po_parent o2 = par" "po_next o2 = po_next o1"
          using o1(4) by metis
        then show "W st a depth True (snd r2) = go_on (after_children post e a depth (snd r2)) up"
          using come_back [OF assms _ o1(2)] st(1) unfolding up_def by (simp cong: if_cong)
      qed
      finally show ?thesis by (simp add: go_on_assoc)
    qed
    show ?thesis
      using enter [OF assms o1(3,2), of st depth, unfolded up] o1(1) r1 below linked_empty_iff [OF ks] error
      by (auto simp: run_here_def)
  qed
  also have "\<dots> = go_on (run_here a depth ks s)
      (\<lambda>s2. go_on (walk_run pre post leaf e depth ts s2) (W st par (depth - 1) True))"
  proof (rule go_on_cong)
    fix r2 assume r2: "run_here a depth ks s = Some r2" "fst r2 = 0"
    have l2: "same_links (as_heap s) (as_heap (snd r2)) x" for x
      by (rule run_here_keeps [OF assms walk_run_keeps [OF assms] r2(1)])
    have ts: "linked (as_heap (snd r2)) par (po_next o1) ts" using o1(6) l2 by (blast intro: linked_cong)
    show "up (snd r2) = go_on (walk_run pre post leaf e depth ts (snd r2)) (W st par (depth - 1) True)"
      using "2.IH"(2) [OF ts _ st(3), of depth] linked_empty_iff [OF ts]
      by (cases "ts = []") (auto simp: up_def)
  qed
  finally show ?case by (simp add: walk_run_Cons go_on_assoc)
qed

text \<open>Started at the root of a tree, the walk is the recursion on that tree.\<close>

lemma walk_tree:
  assumes "keeps_links pre" "keeps_links post"
    and p: "as_heap s p = Some o1" "p \<noteq> 0" "linked (as_heap s) p (po_child o1) ks" "p \<notin> set (addrs ks)"
  shows "W p p depth False s = walk_run pre post leaf e depth [Tree p d ks] s"
proof (cases "pre p depth s")
  case None
  then show ?thesis using enter [OF assms(1,2) p(1,2)] by (simp add: walk_run_Cons run_here_def)
next
  case r1: (Some r1)
  have l1: "same_links (as_heap s) (as_heap (snd r1)) x" for x by (rule keeps_linksD [OF assms(1) r1])
  have ks: "linked (as_heap (snd r1)) p (po_child o1) ks" using p(3) l1 by (blast intro: linked_cong)
  have below: "W p (po_child o1) (depth + 1) False (snd r1)
      = go_on (walk_run pre post leaf e (depth + 1) ks (snd r1)) (after_children post e p depth)" if "ks \<noteq> []"
  proof -
    have "W p (po_child o1) (depth + 1) False (snd r1)
        = go_on (walk_run pre post leaf e (depth + 1) ks (snd r1)) (W p p depth True)"
      using walk_list [OF assms(1,2) ks that p(4), of "depth + 1"] by simp
    also have "\<dots> = go_on (walk_run pre post leaf e (depth + 1) ks (snd r1)) (after_children post e p depth)"
    proof (rule go_on_cong)
      fix r2 assume "walk_run pre post leaf e (depth + 1) ks (snd r1) = Some r2" "fst r2 = 0"
      from same_linksE [OF same_links_trans [OF l1 walk_run_keeps [OF assms(1,2) this(1)]] p(1)]
      obtain o2 where "as_heap (snd r2) p = Some o2" by metis
      then show "W p p depth True (snd r2) = after_children post e p depth (snd r2)"
        using come_back [OF assms(1,2) _ p(2)]
        by (cases "after_children post e p depth (snd r2)") (auto simp: go_on_def)
    qed
    finally show ?thesis .
  qed
  have here: "W p p depth False s = run_here p depth ks s"
    using enter [OF assms(1,2) p(1,2), of p depth] r1 below linked_empty_iff [OF ks]
    by (cases "after_children post e p depth (snd r1)") (auto simp: run_here_def go_on_def)
  show ?thesis unfolding here
    by (cases "run_here p depth ks s") (auto simp: walk_run_Cons go_on_def)
qed

end

lemma after_children_default [simp]:
  "after_children AstWalkCallBackDefault e a depth s = Some (NOERR, s)"
  by (simp add: after_children_def AstWalkCallBackDefault_def)

interpretation forward_walk: tree_walk "HcsForwardWalkAst_loop cb" cb AstWalkCallBackDefault False EINVALARG
  for cb
proof
  fix s :: ast and a o1 st depth
  assume cb: "keeps_links cb" and a: "as_heap s a = Some o1" "a \<noteq> 0"
  show "HcsForwardWalkAst_loop cb st a depth False s = do {
      r \<leftarrow> cb a depth s;
      (if fst r \<noteq> 0 \<and> fst r \<noteq> EASTWALKBREAK then Some (EINVALARG, snd r)
       else if fst r = 0 \<and> po_child o1 \<noteq> 0 then HcsForwardWalkAst_loop cb st (po_child o1) (depth + 1) False (snd r)
       else go_on (if False then after_children AstWalkCallBackDefault EINVALARG a depth (snd r) else Some (NOERR, snd r))
         (\<lambda>s2. if a = st then Some (NOERR, s2)
               else if po_next o1 \<noteq> 0 then HcsForwardWalkAst_loop cb st (po_next o1) depth False s2
               else HcsForwardWalkAst_loop cb st (po_parent o1) (depth - 1) True s2)) }"
  proof (cases "cb a depth s")
    case None
    then show ?thesis using a by (subst HcsForwardWalkAst_loop.simps) simp
  next
    case (Some r1)
    from same_linksE [OF keeps_linksD [OF cb Some] a(1)] obtain o2 where o2: "as_heap (snd r1) a = Some o2"
      "po_parent o2 = po_parent o1" "po_next o2 = po_next o1" "po_child o2 = po_child o1" by metis
    then show ?thesis
      using a Some by (subst HcsForwardWalkAst_loop.simps) (simp add: case_prod_beta rd_def)
  qed
next
  fix s :: ast and a o1 st depth
  assume "as_heap s a = Some o1" "a \<noteq> 0"
  then show "HcsForwardWalkAst_loop cb st a depth True s =
      go_on (after_children AstWalkCallBackDefault EINVALARG a depth s)
         (\<lambda>s2. if a = st then Some (NOERR, s2)
               else if po_next o1 \<noteq> 0 then HcsForwardWalkAst_loop cb st (po_next o1) depth False s2
               else HcsForwardWalkAst_loop cb st (po_parent o1) (depth - 1) True s2)"
    by (subst HcsForwardWalkAst_loop.simps) (simp add: rd_def)
qed simp

interpretation backward_walk: tree_walk "HcsBackwardWalkAst_loop cb" AstWalkCallBackDefault cb True EINVALARG
  for cb
proof
  fix s :: ast and a o1 st depth
  assume a: "as_heap s a = Some o1" "a \<noteq> 0"
  show "HcsBackwardWalkAst_loop cb st a depth False s = do {
      r \<leftarrow> AstWalkCallBackDefault a depth s;
      (if fst r \<noteq> 0 \<and> fst r \<noteq> EASTWALKBREAK then Some (EINVALARG, snd r)
       else if fst r = 0 \<and> po_child o1 \<noteq> 0 then HcsBackwardWalkAst_loop cb st (po_child o1) (depth + 1) False (snd r)
       else go_on (if True then after_children cb EINVALARG a depth (snd r) else Some (NOERR, snd r))
         (\<lambda>s2. if a = st then Some (NOERR, s2)
               else if po_next o1 \<noteq> 0 then HcsBackwardWalkAst_loop cb st (po_next o1) depth False s2
               else HcsBackwardWalkAst_loop cb st (po_parent o1) (depth - 1) True s2)) }"
    using a by (subst HcsBackwardWalkAst_loop.simps, cases "cb a depth s")
      (auto simp: rd_def AstWalkCallBackDefault_def after_children_def go_on_def)
  show "HcsBackwardWalkAst_loop cb st a depth True s =
      go_on (after_children cb EINVALARG a depth s)
         (\<lambda>s2. if a = st then Some (NOERR, s2)
               else if po_next o1 \<noteq> 0 then HcsBackwardWalkAst_loop cb st (po_next o1) depth False s2
               else HcsBackwardWalkAst_loop cb st (po_parent o1) (depth - 1) True s2)"
    using a by (subst HcsBackwardWalkAst_loop.simps, cases "cb a depth s")
      (auto simp: rd_def after_children_def go_on_def)
qed simp

interpretation round_walk: tree_walk "HcsRoundWalkAst_loop f b" f b False EFAIL
  for f b
proof
  fix s :: ast and a o1 st depth
  assume f: "keeps_links f" and b: "keeps_links b" and a: "as_heap s a = Some o1" "a \<noteq> 0"
  show "HcsRoundWalkAst_loop f b st a depth False s = do {
      r \<leftarrow> f a depth s;
      (if fst r \<noteq> 0 \<and> fst r \<noteq> EASTWALKBREAK then Some (EFAIL, snd r)
       else if fst r = 0 \<and> po_child o1 \<noteq> 0 then HcsRoundWalkAst_loop f b st (po_child o1) (depth + 1) False (snd r)
       else go_on (if False then after_children b EFAIL a depth (snd r) else Some (NOERR, snd r))
         (\<lambda>s2. if a = st then Some (NOERR, s2)
               else if po_next o1 \<noteq> 0 then HcsRoundWalkAst_loop f b st (po_next o1) depth False s2
               else HcsRoundWalkAst_loop f b st (po_parent o1) (depth - 1) True s2)) }"
  proof (cases "f a depth s")
    case None
    then show ?thesis using a by (subst HcsRoundWalkAst_loop.simps) simp
  next
    case (Some r1)
    from same_linksE [OF keeps_linksD [OF f Some] a(1)] obtain o2 where o2: "as_heap (snd r1) a = Some o2"
      "po_parent o2 = po_parent o1" "po_next o2 = po_next o1" "po_child o2 = po_child o1" by metis
    then show ?thesis
      using a Some by (subst HcsRoundWalkAst_loop.simps) (simp add: case_prod_beta rd_def)
  qed
  show "HcsRoundWalkAst_loop f b st a depth True s =
      go_on (after_children b EFAIL a depth s)
         (\<lambda>s2. if a = st then Some (NOERR, s2)
               else if po_next o1 \<noteq> 0 then HcsRoundWalkAst_loop f b st (po_next o1) depth False s2
               else HcsRoundWalkAst_loop f b st (po_parent o1) (depth - 1) True s2)"
  proof (cases "b a depth s")
    case None
    then show ?thesis using a by (subst HcsRoundWalkAst_loop.simps) (simp add: after_children_def)
  next
    case (Some r1)
    from same_linksE [OF keeps_linksD [OF b Some] a(1)] obtain o2 where o2: "as_heap (snd r1) a = Some o2"
      "po_parent o2 = po_parent o1" "po_next o2 = po_next o1" "po_child o2 = po_child o1" by metis
    then show ?thesis
      using a Some by (subst HcsRoundWalkAst_loop.simps)
        (auto simp: case_prod_beta rd_def after_children_def go_on_def)
  qed
qed simp

text \<open>
  C7: The compiler walks its syntax tree with a loop that keeps no stack and finds its way back by
  the parent pointers.  On every tree in the heap, for callbacks that leave the links alone, each
  of the three walks terminates, reads no unallocated object and makes exactly the visits of the
  recursion over the tree: forward in pre-order, skipping the children when the callback asks to
  break; backward in post-order; around, before the children and behind them, behind only where there
  are children.  It stops with the error of its direction at the first failing callback, and never
  leaves the tree it started from.
\<close>

theorem walks_follow_the_tree:
  assumes tree: "p \<noteq> 0" "as_heap s p = Some o1" "linked (as_heap s) p (po_child o1) ks" "p \<notin> set (addrs ks)"
    and cb: "keeps_links f" "keeps_links b"
  shows "HcsWalkAst p AST_WALK_FORWARD (Some f) unused s
      = walk_run f AstWalkCallBackDefault False EINVALARG 0 [Tree p d ks] s
    \<and> HcsWalkAst p AST_WALK_BACKEND unused (Some b) s
      = walk_run AstWalkCallBackDefault b True EINVALARG 0 [Tree p d ks] s
    \<and> HcsWalkAst p AST_WALK_ROUND (Some f) (Some b) s = walk_run f b False EFAIL 0 [Tree p d ks] s"
  using forward_walk.walk_tree [OF cb(1) keeps_links_default tree(2,1,3,4)]
    backward_walk.walk_tree [OF keeps_links_default cb(2) tree(2,1,3,4)]
    round_walk.walk_tree [OF cb tree(2,1,3,4)] tree(1)
  by (simp add: HcsWalkAst_def HcsForwardWalkAst_def HcsBackwardWalkAst_def HcsRoundWalkAst_def)

text \<open>A root with two children, and callbacks that note the object and how they got there.\<close>

definition three_objects :: ast where
  "three_objects =
     \<lparr>as_heap = [1 \<mapsto> zero_obj\<lparr>po_child := 2\<rparr>, 2 \<mapsto> zero_obj\<lparr>po_parent := 1, po_next := 3\<rparr>,
                3 \<mapsto> zero_obj\<lparr>po_parent := 1\<rparr>],
      as_str = Map.empty, as_inst = Map.empty, as_brk = 4, as_sbrk = 1, as_ibrk = 1, as_env = [], as_root = 1, as_src = 0, as_line = 0,
      as_text = False, as_align = False, as_out = None, as_count = 0, as_dummy = False, as_fenv = []\<rparr>"

definition note_visit :: "uint32_t \<Rightarrow> walk_cb" where
  "note_visit mark object walkDepth s =
     Some (NOERR, s\<lparr>as_line := as_line s * 10 + mark + of_nat object\<rparr>)"

theorem walks_follow_the_tree_witness:
  "map_option (\<lambda>r. (fst r, as_line (snd r))) (HcsWalkAst 1 AST_WALK_FORWARD (Some (note_visit 0)) None three_objects)
     = Some (NOERR, 123)
   \<and> map_option (\<lambda>r. (fst r, as_line (snd r))) (HcsWalkAst 1 AST_WALK_BACKEND None (Some (note_visit 0)) three_objects)
     = Some (NOERR, 231)
   \<and> map_option (\<lambda>r. (fst r, as_line (snd r)))
       (HcsWalkAst 1 AST_WALK_ROUND (Some (note_visit 0)) (Some (note_visit 5)) three_objects) = Some (NOERR, 1236)"
proof -
  let ?o = "zero_obj\<lparr>po_child := 2\<rparr>"
  let ?ks = "[Tree 2 (unlinked (zero_obj\<lparr>po_parent := 1, po_next := 3\<rparr>)) [],
              Tree 3 (unlinked (zero_obj\<lparr>po_parent := 1\<rparr>)) []]"
  have root: "(1::addr) \<noteq> 0" "as_heap three_objects 1 = Some ?o"
    "linked (as_heap three_objects) 1 (po_child ?o) ?ks" "(1::addr) \<notin> set (addrs ?ks)"
    by (simp_all add: three_objects_def zero_obj_def)
  have cb: "keeps_links (note_visit m)" for m
    by (auto simp: keeps_links_def note_visit_def intro!: same_links_refl)
  have line: "as_line three_objects = 0" by (simp add: three_objects_def)
  note run = walks_follow_the_tree [OF root cb [of 0] cb [of 0], where d = "unlinked ?o" and unused = None]
    walks_follow_the_tree [OF root cb [of 0] cb [of 5], where d = "unlinked ?o" and unused = None]
  note forward = conjunct1 [OF run(1)] and backend = conjunct1 [OF conjunct2 [OF run(1)]]
    and round = conjunct2 [OF conjunct2 [OF run(2)]]
  show ?thesis unfolding forward backend round
    by (simp add: walk_run.simps(2) note_visit_def AstWalkCallBackDefault_def after_children_def line)
qed

end
