(* ===== verification/Hcs_Compile.thy ===== *)
theory Hcs_Compile
  imports Hcs_Middle Hcs_AstTree Hcs_Blob
begin

text \<open>
  The configuration compiler from parsed sources to bytecode.

  The input is what the lexer and the parser generated from \<^verbatim>\<open>hcs_compiler.y\<close> recognise; building the
  syntax tree is the grammar's actions.  Then \<^verbatim>\<open>HcsDoCompile\<close> of \<^verbatim>\<open>hcs_parser.c\<close> merges and
  expands (\<^theory_text>\<open>Hcs_Middle\<close>), and \<^verbatim>\<open>hcs_bytecode_gen.c\<close> with \<^verbatim>\<open>hcs_opcode.c\<close> and the output functions of
  \<^verbatim>\<open>hcs_file.c\<close> writes the bytes, all on the heap.
\<close>

section \<open>The parser's actions\<close>

datatype src_value = SNum uint64_t | SStr bytes | SRef bytes | SDelete | SNums "uint64_t list" | SStrs "bytes list"

text \<open>A node has the kind written behind its name and, for some kinds, a path.\<close>

datatype src_item = STerm bytes src_value | SNode bytes uint32_t "bytes option" "src_item list"

text \<open>
  The address of what a rule builds; the outer \<^const>\<open>None\<close> is a fault, the inner one \<^verbatim>\<open>YYABORT\<close>.
\<close>

type_synonym built = "(addr option \<times> ast) option"

definition or_abort :: "(addr \<times> ast) option \<Rightarrow> built" where
  "or_abort m = map_option (\<lambda>r. (if fst r = 0 then None else Some (fst r), snd r)) m"

definition unless_abort :: "built \<Rightarrow> (addr \<Rightarrow> ast \<Rightarrow> built) \<Rightarrow> built" where
  "unless_abort m k = do { r \<leftarrow> m; (case fst r of None \<Rightarrow> Some r | Some p \<Rightarrow> k p (snd r)) }"

text \<open>The lexer duplicates a word; a quoted string is accessed even when that fails.\<close>

definition lex_word :: "bytes \<Rightarrow> ast \<Rightarrow> bytes option \<times> ast" where
  "lex_word b s = (case dup_name s of (ok, s1) \<Rightarrow> (if ok then Some b else None, s1))"

definition lex_string :: "bytes \<Rightarrow> ast \<Rightarrow> (pvalue \<times> ast) option" where
  "lex_string b s = (case dup_str b s of (v, s1) \<Rightarrow> if v = VNum 0 then None else Some (v, s1))"

definition new_string :: "bytes \<Rightarrow> ast \<Rightarrow> (addr \<times> ast) option" where
  "new_string b s = do { r \<leftarrow> lex_string b s; HcsNewParserObject None PARSEROP_STRING (fst r) (snd r) }"

definition new_number :: "uint64_t \<Rightarrow> ast \<Rightarrow> (addr \<times> ast) option" where
  "new_number n s = HcsNewParserObject None PARSEROP_UINT64 (VNum n) s"

text \<open>\<^verbatim>\<open>NumberList\<close> and \<^verbatim>\<open>ConstStringList\<close>: right recursive, so built from the end.\<close>

fun build_list :: "('v \<Rightarrow> ast \<Rightarrow> (addr \<times> ast) option) \<Rightarrow> 'v list \<Rightarrow> ast \<Rightarrow> built" where
  "build_list new [] s = Some (None, s)"
| "build_list new [v] s = or_abort (new v s)"
| "build_list new (v # vs) s =
     unless_abort (build_list new vs s) (\<lambda>rest s1.
       unless_abort (or_abort (new v s1)) (\<lambda>obj s2.
         map_option (\<lambda>r. (Some (fst r), snd r)) (HcsAstAddPeer obj rest s2)))"

definition new_term :: "bytes option \<Rightarrow> addr \<Rightarrow> ast \<Rightarrow> built" where
  "new_term name obj s = or_abort (HcsNewConfigTerm name obj s)"

definition build_array :: "('v \<Rightarrow> ast \<Rightarrow> (addr \<times> ast) option) \<Rightarrow> bytes option \<Rightarrow> 'v list \<Rightarrow> ast \<Rightarrow> built" where
  "build_array new name vs s =
     unless_abort (build_list new vs s) (\<lambda>l s1.
       unless_abort (or_abort (HcsNewParserObject None PARSEROP_ARRAY (VNum 0) s1)) (\<lambda>obj s2. do {
         r \<leftarrow> HcsAstAddChild obj l s2;
         new_term name (fst r) (snd r) }))"

text \<open>\<^verbatim>\<open>ConfigTerm\<close>.  The action of a deletion does not abort.\<close>

fun build_term :: "bytes option \<Rightarrow> src_value \<Rightarrow> ast \<Rightarrow> built" where
  "build_term name (SStr b) s = do { r \<leftarrow> new_string b s; new_term name (fst r) (snd r) }"
| "build_term name (SNum n) s = do { r \<leftarrow> new_number n s; new_term name (fst r) (snd r) }"
| "build_term name (SNums ns) s = build_array new_number name ns s"
| "build_term name (SStrs bs) s = build_array new_string name bs s"
| "build_term name (SRef path) s =
     (case dup_str path s of (v, s1) \<Rightarrow>
        unless_abort (or_abort (HcsNewParserObject None PARSEROP_NODEREF v s1)) (new_term name))"
| "build_term name SDelete s = do {
     r \<leftarrow> HcsNewParserObject None PARSEROP_DELETE (VNum 0) s;
     r2 \<leftarrow> HcsNewConfigTerm name (fst r) (snd r);
     Some (Some (fst r2), snd r2)
   }"

text \<open>\<^verbatim>\<open>ConfigNode\<close>, \<^verbatim>\<open>NodeTemplate\<close> and \<^verbatim>\<open>ConfigTermList\<close>.\<close>

fun build_item :: "src_item \<Rightarrow> ast \<Rightarrow> built"
  and build_items :: "src_item list \<Rightarrow> ast \<Rightarrow> built" where
  "build_item (STerm n v) s = (case lex_word n s of (name, s1) \<Rightarrow> build_term name v s1)"
| "build_item (SNode n kind path items) s =
     (case lex_word n s of (name, s1) \<Rightarrow>
        case (case path of None \<Rightarrow> (None, s1) | Some p \<Rightarrow> lex_word p s1) of (refName, s2) \<Rightarrow>
          unless_abort (or_abort (HcsNewConfigNode name kind refName s2)) (\<lambda>p s3.
            unless_abort (build_items items s3) (\<lambda>l s4.
              map_option (\<lambda>r. (Some (fst r), snd r)) (HcsAstAddChild p l s4))))"
| "build_items [] s = Some (Some 0, s)"
| "build_items (x # xs) s =
     unless_abort (build_item x s) (\<lambda>p s1.
       unless_abort (build_items xs s1) (\<lambda>l s2.
         map_option (\<lambda>r. (Some (fst r), snd r)) (HcsAstAddPeer p l s2)))"

text \<open>
  \<^verbatim>\<open>HcsCompilerparse\<close> on a file: its root node, if it has one; true is success.
\<close>

definition HcsCompilerparse :: "src_item list option \<Rightarrow> ast \<Rightarrow> (bool \<times> ast) option" where
  "HcsCompilerparse file s =
     (case file of None \<Rightarrow> Some (True, s)
      | Some items \<Rightarrow> do {
          r \<leftarrow> unless_abort (or_abort (HcsGetParserRoot s)) (\<lambda>root s1.
            unless_abort (build_items items s1) (\<lambda>l s2.
              map_option (\<lambda>r. (Some (fst r), snd r)) (HcsAstAddChild root l s2)));
          Some (fst r \<noteq> None, snd r)
        })"

section \<open>Output\<close>

abbreviation (input) EOUTPUT :: int where "EOUTPUT \<equiv> 8"
abbreviation (input) EINVALF :: int where "EINVALF \<equiv> 5"

text \<open>Opening the file; its name and the name's suffix are left out.\<close>

definition HcsOpenOutputFile :: "ast \<Rightarrow> ast" where
  "HcsOpenOutputFile s =
     (case osal_alloc (as_fenv s) of (ok, env) \<Rightarrow>
        if \<not> ok then s\<lparr>as_out := None, as_fenv := env\<rparr>
        else case osal_alloc (as_env s) of (mem, env2) \<Rightarrow>
          if mem then s\<lparr>as_out := Some [], as_count := 0, as_fenv := env, as_env := env2\<rparr>
          else s\<lparr>as_out := None, as_fenv := env, as_env := env2\<rparr>)"

definition HcsCloseOutput :: "ast \<Rightarrow> ast" where
  "HcsCloseOutput s = (if as_out s = None then s else s\<lparr>as_count := 0\<rparr>)"

text \<open>What a write that fails leaves in the file is not modelled: nothing.\<close>

definition HcsOutputWrite :: "bytes \<Rightarrow> ast \<Rightarrow> (int \<times> ast) option" where
  "HcsOutputWrite buffer s =
     (let s1 = s\<lparr>as_count := as_count s + of_nat (length buffer)\<rparr>
      in if as_dummy s1 \<or> buffer = [] then Some (NOERR, s1)
         else (case as_out s1 of None \<Rightarrow> None
               | Some b \<Rightarrow>
                   (case osal_alloc (as_fenv s1) of (ok, env) \<Rightarrow>
                      if ok then Some (NOERR, s1\<lparr>as_out := Some (b @ buffer), as_fenv := env\<rparr>)
                      else Some (EOUTPUT, s1\<lparr>as_fenv := env\<rparr>))))"

definition HcsOutputWriteAlign_file :: "bytes \<Rightarrow> ast \<Rightarrow> (int \<times> ast) option" where
  "HcsOutputWriteAlign_file buffer s = do {
     r \<leftarrow> HcsOutputWrite buffer s;
     (if fst r \<noteq> 0 then Some r
      else (let appendSize = HcsAlign (as_align s) (length buffer) - length buffer
            in if appendSize \<noteq> 0 then HcsOutputWrite (replicate appendSize 0) (snd r) else Some r))
   }"

section \<open>Bytecode\<close>

abbreviation (input) HCS_NODE_OP :: uint8_t where "HCS_NODE_OP \<equiv> 0x01"
abbreviation (input) HCS_TERM_OP :: uint8_t where "HCS_TERM_OP \<equiv> 0x02"
abbreviation (input) HCS_NODEREF_OP :: uint8_t where "HCS_NODEREF_OP \<equiv> 0x03"
abbreviation (input) HCS_ARRAY_OP :: uint8_t where "HCS_ARRAY_OP \<equiv> 0x04"
abbreviation (input) HCS_BYTE_OP :: uint8_t where "HCS_BYTE_OP \<equiv> 0x10"
abbreviation (input) HCS_WORD_OP :: uint8_t where "HCS_WORD_OP \<equiv> 0x11"
abbreviation (input) HCS_DWORD_OP :: uint8_t where "HCS_DWORD_OP \<equiv> 0x12"
abbreviation (input) HCS_QWORD_OP :: uint8_t where "HCS_QWORD_OP \<equiv> 0x13"
abbreviation (input) HCS_STRING_OP :: uint8_t where "HCS_STRING_OP \<equiv> 0x14"

text \<open>The table gives a code and a size to each type; its entries for types it does not list are zero.\<close>

definition g_byteCodeMap :: "uint32_t \<Rightarrow> uint8_t \<times> nat" where
  "g_byteCodeMap type =
     (if type = PARSEROP_UINT8 then (HCS_BYTE_OP, 1)
      else if type = PARSEROP_UINT16 then (HCS_WORD_OP, 2)
      else if type = PARSEROP_UINT32 then (HCS_DWORD_OP, 4)
      else if type = PARSEROP_UINT64 then (HCS_QWORD_OP, 8)
      else if type = PARSEROP_STRING then (HCS_STRING_OP, 0)
      else if type = PARSEROP_ARRAY then (HCS_ARRAY_OP, 2)
      else if type = PARSEROP_CONFNODE then (HCS_NODE_OP, 4)
      else if type = PARSEROP_CONFTERM then (HCS_TERM_OP, 0)
      else if type = PARSEROP_NODEREF then (HCS_NODEREF_OP, 4)
      else (0, 0))"

definition HcsParserObjectTypeToByteCode :: "uint32_t \<Rightarrow> (uint8_t \<times> nat) option" where
  "HcsParserObjectTypeToByteCode objectType =
     (if objectType \<ge> PARSEROP_COUNT then None else Some (g_byteCodeMap objectType))"

partial_function (option) children_size :: "ast \<Rightarrow> addr \<Rightarrow> uint32_t \<Rightarrow> uint32_t option" where
  "children_size s child subSize =
     (if child = 0 then Some subSize
      else do { c \<leftarrow> rd s child; children_size s (po_next c) (subSize + po_size c) })"

definition HcsCalculateOpcodeSize :: "addr \<Rightarrow> ast \<Rightarrow> ast option" where
  "HcsCalculateOpcodeSize object s = do {
     o1 \<leftarrow> rd s object;
     text1 \<leftarrow> (if po_opCode o1 = HCS_NODE_OP \<or> po_opCode o1 = HCS_TERM_OP
             then map_option (\<lambda>n. HcsAlign (as_align s) (length n + 1)) (po_name o1)
             else if po_opCode o1 = HCS_STRING_OP
             then map_option (\<lambda>b. HcsAlign (as_align s) (length b + 1)) (rd_str s (po_value o1))
             else Some 0);
     sub \<leftarrow> children_size s (po_child o1) 0;
     upd object (\<lambda>o2. o2\<lparr>po_size := po_size o1 + (sub + of_nat (HcsAlign (as_align s) 1
         + HcsAlign (as_align s) (snd (g_byteCodeMap (po_type o1))) + text1)), po_subSize := sub\<rparr>) s
   }"

definition ByteCodeConvert :: walk_cb where
  "ByteCodeConvert current walkDepth s = do {
     o1 \<leftarrow> rd s current;
     (if po_type o1 = PARSEROP_CONFNODE \<and> po_nodeType o1 = CONFIG_NODE_TEMPLATE then do {
        s1 \<leftarrow> HcsAstRemoveChildLink (po_parent o1) current s;
        s2 \<leftarrow> HcsDeleteParserObjectTree current s1;
        Some (NOERR, s2)
      }
      else (case HcsParserObjectTypeToByteCode (po_type o1) of
              None \<Rightarrow> Some (EFAIL, s)
            | Some entry \<Rightarrow> do {
                s1 \<leftarrow> upd current (\<lambda>o2. o2\<lparr>po_opCode := fst entry\<rparr>) s;
                s2 \<leftarrow> HcsCalculateOpcodeSize current s1;
                Some (NOERR, s2)
              }))
   }"

text \<open>The bytes of an integer value; a pointer is taken for its address.\<close>

definition value_bits :: "pvalue \<Rightarrow> uint64_t" where
  "value_bits v = (case v of VNum n \<Rightarrow> n | VStr a \<Rightarrow> of_nat a | VObj a \<Rightarrow> of_nat a)"

definition ByteCodeWriteWalk :: walk_cb where
  "ByteCodeWriteWalk current walkDepth s = do {
     s0 \<leftarrow> upd current (\<lambda>o1. o1\<lparr>po_hash := as_count s\<rparr>) s;
     o1 \<leftarrow> rd s0 current;
     r \<leftarrow> HcsOutputWriteAlign_file [po_opCode o1] s0;
     (if fst r \<noteq> 0 then Some (EOUTPUT, snd r)
      else if po_opCode o1 \<in> {HCS_BYTE_OP, HCS_WORD_OP, HCS_DWORD_OP, HCS_QWORD_OP}
      then HcsOutputWriteAlign_file (le_bytes (snd (g_byteCodeMap (po_type o1))) (value_bits (po_value o1))) (snd r)
      else if po_opCode o1 = HCS_STRING_OP then do {
        b \<leftarrow> rd_str (snd r) (po_value o1);
        HcsOutputWriteAlign_file (b @ [0]) (snd r)
      }
      else if po_opCode o1 = HCS_TERM_OP then do {
        n \<leftarrow> po_name o1;
        HcsOutputWriteAlign_file (n @ [0]) (snd r)
      }
      else if po_opCode o1 = HCS_NODE_OP then do {
        n \<leftarrow> po_name o1;
        r2 \<leftarrow> HcsOutputWriteAlign_file (n @ [0]) (snd r);
        (if fst r2 \<noteq> 0 then Some (EOUTPUT, snd r2)
         else HcsOutputWriteAlign_file (le_bytes 4 (po_subSize o1)) (snd r2))
      }
      else if po_opCode o1 = HCS_ARRAY_OP then do {
        size1 \<leftarrow> HcsCountArraySize (snd r) current;
        HcsOutputWriteAlign_file (le_bytes 2 size1) (snd r)
      }
      else if po_opCode o1 = HCS_NODEREF_OP then
        (case po_value o1 of VObj ref \<Rightarrow> do {
             t \<leftarrow> rd (snd r) ref;
             HcsOutputWriteAlign_file (le_bytes 4 (po_hash t)) (snd r)
           }
         | _ \<Rightarrow> None)
      else Some (NOERR, snd r))
   }"

abbreviation (input) HCS_COMPILER_VERSION_MAJOR :: uint32_t where "HCS_COMPILER_VERSION_MAJOR \<equiv> 0"
abbreviation (input) HCS_COMPILER_VERSION_MINOR :: uint32_t where "HCS_COMPILER_VERSION_MINOR \<equiv> 66"

definition HbcHeader_bytes :: "bool \<Rightarrow> uint32_t \<Rightarrow> bytes" where
  "HbcHeader_bytes al size1 =
     le_bytes 4 HBC_MAGIC_NUMBER @ le_bytes 4 HCS_COMPILER_VERSION_MAJOR @ le_bytes 4 HCS_COMPILER_VERSION_MINOR
     @ le_bytes 4 (0 :: uint32_t) @ le_bytes 4 (if al then - size1 else size1)"

definition HcsBytecodeOutput_ast :: "ast \<Rightarrow> (int \<times> ast) option" where
  "HcsBytecodeOutput_ast s = do {
     g \<leftarrow> HcsGetParserRoot s;
     (if fst g = 0 then Some (EFAIL, snd g)
      else do {
        r1 \<leftarrow> HcsWalkAst (fst g) AST_WALK_BACKEND None (Some ByteCodeConvert) (snd g);
        (if fst r1 \<noteq> 0 then Some r1
         else do {
           root \<leftarrow> rd (HcsOpenOutputFile (snd r1)) (fst g);
           (let s1 = HcsOpenOutputFile (snd r1);
                header = HbcHeader_bytes (as_align s1) (po_size root)
            in do {
             w1 \<leftarrow> HcsOutputWriteAlign_file header (s1\<lparr>as_dummy := True\<rparr>);
             (if fst w1 \<noteq> 0 then Some (EOUTPUT, HcsCloseOutput (snd w1))
              else do {
                r2 \<leftarrow> HcsWalkAst (fst g) AST_WALK_FORWARD (Some ByteCodeWriteWalk) None (snd w1);
                (if fst r2 \<noteq> 0 then Some (fst r2, HcsCloseOutput (snd r2))
                 else do {
                   w2 \<leftarrow> HcsOutputWriteAlign_file header ((snd r2)\<lparr>as_count := 0, as_dummy := False\<rparr>);
                   (if fst w2 \<noteq> 0 then Some (EOUTPUT, HcsCloseOutput (snd w2))
                    else do {
                      r3 \<leftarrow> HcsWalkAst (fst g) AST_WALK_FORWARD (Some ByteCodeWriteWalk) None (snd w2);
                      b \<leftarrow> as_out (snd r3);
                      Some (if int (length b)
                              \<noteq> 20 + \<bar>sint (if as_align s1 then - po_size root else po_size root)\<bar>
                            then EOUTPUT else fst r3, HcsCloseOutput (snd r3))
                    })
                 })
              })
           })
         })
      })
   }"

section \<open>The compiler\<close>

text \<open>The files in the order in which the queue of sources delivers them.\<close>

fun HcsDoCompile_files :: "src_item list option list \<Rightarrow> addr \<Rightarrow> ast \<Rightarrow> (int \<times> ast) option" where
  "HcsDoCompile_files [] astForest s = Some (NOERR, s)"
| "HcsDoCompile_files (file # files) astForest s = do {
     r \<leftarrow> HcsCompilerparse file s;
     g \<leftarrow> HcsGetParserRoot (snd r);
     (if \<not> fst r then Some (EFAIL, snd g)
      else do {
        r2 \<leftarrow> HcsAstAddChild astForest (fst g) (snd g);
        HcsDoCompile_files files astForest ((HcsSetParserRoot 0 (snd r2))\<lparr>as_src := as_src s + 1\<rparr>)
      })
   }"

text \<open>
  The result is the status, the bytes in the file, and the heap when the compiler is done.  The text
  output is a parameter.  The code asks for byte code with a second option; that one is on unless
  the text output was asked for (\<^verbatim>\<open>hcs_option.c\<close>), so its test succeeds whenever it is reached.
\<close>

definition HcsDoCompile :: "(ast \<Rightarrow> (int \<times> ast) option) \<Rightarrow> src_item list option list \<Rightarrow> ast \<Rightarrow> (int \<times> ast) option" where
  "HcsDoCompile textOutput files s =
     (case dup_name s of (ok, s0) \<Rightarrow>
        if \<not> ok then Some (EOOM, s0)
        else do {
          f \<leftarrow> HcsNewParserObject (Some [70, 111, 114, 101, 115, 116, 82, 111, 111, 116]) PARSEROP_CONFNODE (VNum 0) s0;
          (if fst f = 0 then Some (EFAIL, snd f)
           else do {
             p \<leftarrow> HcsDoCompile_files files (fst f) (snd f);
             r \<leftarrow> (if fst p \<noteq> 0 then Some p
                  else do {
                    m \<leftarrow> HcsDoOptimize (HcsSetParserRoot (fst f) (snd p));
                    (if fst m \<noteq> 0 then Some m
                     else if as_text (snd m) then textOutput (snd m) else HcsBytecodeOutput_ast (snd m))
                  });
             s1 \<leftarrow> ParserCleanUp (snd r);
             g \<leftarrow> HcsGetParserRoot s1;
             s2 \<leftarrow> (if fst g \<noteq> fst f then HcsDeleteParserObjectTree (fst f) (snd g) else Some (snd g));
             Some (fst r, s2)
           })
        })"

declare children_size.simps [code]

end
