(* ===== verification/Hcs_AstOps.thy ===== *)
theory Hcs_AstOps
  imports Hcs_AstTree
begin

text \<open>
  The operations of \<^verbatim>\<open>hcs_ast.c\<close> that change links, as operations on lists of trees: freeing a tree,
  adding and removing children, looking up by name.
\<close>

section \<open>What a tree owns\<close>

text \<open>Besides its objects: the strings that are values, and the instance lists of templates.\<close>

definition own_strs :: "ParserObject \<Rightarrow> addr list" where
  "own_strs d = (if po_type d = PARSEROP_STRING then case po_value d of VStr x \<Rightarrow> [x] | _ \<Rightarrow> [] else [])"

definition own_insts :: "ParserObject \<Rightarrow> addr list" where
  "own_insts d = (if po_type d = PARSEROP_CONFNODE \<and> po_subClasses d \<noteq> 0 then [po_subClasses d] else [])"

definition strs :: "tree list \<Rightarrow> addr list" where
  "strs ts = concat (map (\<lambda>n. own_strs (snd n)) (nodes ts))"

definition insts :: "tree list \<Rightarrow> addr list" where
  "insts ts = concat (map (\<lambda>n. own_insts (snd n)) (nodes ts))"

definition string_values_ok :: "tree list \<Rightarrow> bool" where
  "string_values_ok ts \<longleftrightarrow>
     (\<forall>(a, d) \<in> set (nodes ts). po_type d = PARSEROP_STRING \<longrightarrow> po_value d = VNum 0 \<or> own_strs d \<noteq> [])"

definition owns :: "ast \<Rightarrow> tree list \<Rightarrow> bool" where
  "owns s ts \<longleftrightarrow> string_values_ok ts \<and> distinct (strs ts) \<and> set (strs ts) \<subseteq> dom (as_str s)
     \<and> distinct (insts ts) \<and> set (insts ts) \<subseteq> dom (as_inst s)"

lemma own_unlinked [simp]: "own_strs (unlinked o1) = own_strs o1" "own_insts (unlinked o1) = own_insts o1"
  by (simp_all add: own_strs_def own_insts_def unlinked_def)

lemma strs_simps [simp]:
  "strs [] = []" "strs (Tree a d ks # ts) = own_strs d @ strs ks @ strs ts" "strs (ts @ us) = strs ts @ strs us"
  by (simp_all add: strs_def)

lemma insts_simps [simp]:
  "insts [] = []" "insts (Tree a d ks # ts) = own_insts d @ insts ks @ insts ts" "insts (ts @ us) = insts ts @ insts us"
  by (simp_all add: insts_def)

lemma string_values_ok_simps [simp]:
  "string_values_ok []"
  "string_values_ok (Tree a d ks # ts) \<longleftrightarrow> (po_type d = PARSEROP_STRING \<longrightarrow> po_value d = VNum 0 \<or> own_strs d \<noteq> [])
     \<and> string_values_ok ks \<and> string_values_ok ts"
  "string_values_ok (ts @ us) \<longleftrightarrow> string_values_ok ts \<and> string_values_ok us"
  by (auto simp: string_values_ok_def)

section \<open>Freeing a tree\<close>

text \<open>The state without some trees and what they own, and with another first child of an object.\<close>

definition without :: "tree list \<Rightarrow> ast \<Rightarrow> ast" where
  "without ts s = s\<lparr>as_heap := as_heap s |` (- set (addrs ts)), as_str := as_str s |` (- set (strs ts)),
                     as_inst := as_inst s |` (- set (insts ts))\<rparr>"

definition with_child :: "addr \<Rightarrow> addr \<Rightarrow> ast \<Rightarrow> ast" where
  "with_child p c s = s\<lparr>as_heap := (as_heap s)(p := map_option (\<lambda>o1. o1\<lparr>po_child := c\<rparr>) (as_heap s p))\<rparr>"

lemma restrict_map_UNIV [simp]: "m |` UNIV = m"
  by (simp add: restrict_map_def)

lemma without_Nil [simp]: "without [] s = s"
  by (simp add: without_def)

lemma map_restrict_twice: "m |` A |` B = m |` (A \<inter> B)"
  by (simp add: restrict_map_def fun_eq_iff)

lemma without_twice: "without ts (without us s) = without (us @ ts) s"
  by (simp add: without_def)

lemma without_Tree: "without (Tree a d ks # ts) s = without ts (without [Tree a d []] (without ks s))"
  by (simp add: without_twice) (simp add: without_def Int_ac Un_ac insert_commute)

lemma with_child_twice [simp]: "with_child p c (with_child p c' s) = with_child p c s"
  by (simp add: with_child_def option.map_comp comp_def)

lemma without_with_child:
  "p \<notin> set (addrs ts) \<Longrightarrow> without ts (with_child p c s) = with_child p c (without ts s)"
  by (auto simp: without_def with_child_def restrict_map_def fun_eq_iff)

lemma as_heap_with_child: "as_heap (with_child p c s) a
    = (if a = p then map_option (\<lambda>o1. o1\<lparr>po_child := c\<rparr>) (as_heap s p) else as_heap s a)"
  by (simp add: with_child_def)

lemma as_heap_without [simp]: "as_heap (without ts s) a = (if a \<in> set (addrs ts) then None else as_heap s a)"
  by (simp add: without_def restrict_map_def)

lemma heap_other [simp]:
  "as_str (with_child p c s) = as_str s" "as_inst (with_child p c s) = as_inst s"
  "as_str (without ts s) = as_str s |` (- set (strs ts))" "as_inst (without ts s) = as_inst s |` (- set (insts ts))"
  by (simp_all add: with_child_def without_def)

text \<open>Freeing the first child of an object.\<close>

lemma remove_first_child:
  assumes "as_heap s a = Some o1" "a \<noteq> 0" "po_parent o1 = par" "par \<noteq> 0" "a \<noteq> par" "as_heap s par = Some q"
    "po_child q = a"
  shows "HcsAstRemoveChildLink par a s
    = Some (s\<lparr>as_heap := (as_heap s)(par \<mapsto> q\<lparr>po_child := po_next o1\<rparr>, a \<mapsto> o1\<lparr>po_parent := 0, po_next := 0\<rparr>)\<rparr>)"
  using assms by (simp add: HcsAstRemoveChildLink_def rd_def upd_def fun_upd_twist)

lemma restrict_without1: "m |` (- {x}) = m(x := None)"
  by (auto simp: restrict_map_def)

lemma free_own_inst:
  "owns s [Tree a (unlinked o1) []] \<Longrightarrow>
   (if po_type o1 = PARSEROP_CONFNODE then free_instances (po_subClasses o1) s else Some s)
     = Some (s\<lparr>as_inst := as_inst s |` (- set (own_insts o1))\<rparr>)"
  by (auto simp: free_instances_def own_insts_def owns_def restrict_without1)

lemma free_own_str:
  "owns s [Tree a (unlinked o1) []] \<Longrightarrow> as_str s1 = as_str s \<Longrightarrow>
   (if po_type o1 = PARSEROP_STRING then free_str (po_value o1) s1 else Some s1)
     = Some (s1\<lparr>as_str := as_str s1 |` (- set (own_strs o1))\<rparr>)"
  by (cases "po_value o1"; cases "po_type o1 = PARSEROP_STRING")
    (simp_all add: free_str_def own_strs_def owns_def restrict_without1 domIff)

lemma free_first_child:
  assumes "as_heap s a = Some o1" "a \<noteq> 0" "po_parent o1 = par" "par \<noteq> 0" "a \<noteq> par" "as_heap s par = Some q"
    "po_child q = a" "owns s [Tree a (unlinked o1) []]"
  shows "HcsAstFreeObject a s = Some (without [Tree a (unlinked o1) []] (with_child par (po_next o1) s))"
proof -
  note str = free_own_str [OF assms(8)] and inst = free_own_inst [OF assms(8)]
  show ?thesis
    using remove_first_child [of "s\<lparr>as_inst := as_inst s |` (- set (own_insts o1))\<rparr>" a o1 par q] assms(1-7)
    by (simp add: HcsAstFreeObject_def rd_def inst str free_obj_def without_def with_child_def restrict_map_def fun_eq_iff)
qed

lemma without_child [simp]:
  "without [Tree a d []] (with_child a c s) = without [Tree a d []] s"
  by (auto simp: without_def with_child_def restrict_map_def fun_eq_iff)

lemma owns_with_child [simp]: "owns (with_child p c s) ts \<longleftrightarrow> owns s ts"
  by (simp add: owns_def)

lemma owns_Tree: "owns s (Tree a d ks # ts) \<Longrightarrow>
    owns s ks \<and> owns (without ks s) [Tree a d []] \<and> owns (without [Tree a d ks] s) ts"
  by (auto simp: owns_def)

lemma with_child_same: "as_heap s a = Some o1 \<Longrightarrow> po_child o1 = c \<Longrightarrow> with_child a c s = s"
  by (cases s) (simp add: with_child_def fun_upd_idem)

text \<open>The callback at an object whose children are gone.\<close>

lemma free_callback:
  assumes "as_heap s a = Some o1" "a \<noteq> 0" "po_parent o1 = par" "par \<noteq> 0" "a \<noteq> par" "as_heap s par = Some q"
    "po_child q = a" "a \<notin> set (addrs ks)" "par \<notin> set (addrs ks)" "owns s (Tree a (unlinked o1) ks # ts)"
  shows "HcsAstWalkFreeObjectCallback a depth (without ks (with_child a 0 s))
    = Some (NOERR, without [Tree a (unlinked o1) ks] (with_child par (po_next o1) s))"
proof -
  let ?s1 = "without ks (with_child a 0 s)"
  have "as_heap ?s1 a = Some (o1\<lparr>po_child := 0\<rparr>)" "as_heap ?s1 par = Some q"
    using assms by (auto simp: as_heap_with_child)
  moreover have "owns ?s1 [Tree a (unlinked (o1\<lparr>po_child := 0\<rparr>)) []]"
    using owns_Tree [of s a "unlinked o1" ks ts] assms(10)
    by (simp add: without_with_child [OF assms(8)] unlinked_def)
  ultimately have "HcsAstFreeObject a ?s1
      = Some (without [Tree a (unlinked (o1\<lparr>po_child := 0\<rparr>)) []] (with_child par (po_next o1) ?s1))"
    using free_first_child [of ?s1 a "o1\<lparr>po_child := 0\<rparr>" par q] assms(2-7) by simp
  also have "with_child par (po_next o1) ?s1 = without ks (with_child a 0 (with_child par (po_next o1) s))"
    using assms(5,9) by (simp add: without_with_child [symmetric]) (simp add: with_child_def fun_upd_twist)
  finally show ?thesis
    using without_Tree [of a "unlinked o1" ks "[]" "with_child par (po_next o1) s"]
    by (simp add: HcsAstWalkFreeObjectCallback_def without_with_child [OF assms(8)] unlinked_def)
qed

text \<open>The backward walk with the freeing callback frees a list of siblings and clears their parent's link.\<close>

lemma free_list:
  "forest (as_heap s) par p ts \<Longrightarrow> ts \<noteq> [] \<Longrightarrow> st \<notin> set (addrs ts) \<Longrightarrow> par \<noteq> 0 \<Longrightarrow> par \<notin> set (addrs ts) \<Longrightarrow>
   as_heap s par = Some q \<Longrightarrow> po_child q = p \<Longrightarrow> owns s ts \<Longrightarrow>
   HcsBackwardWalkAst_loop HcsAstWalkFreeObjectCallback st p depth False s =
     HcsBackwardWalkAst_loop HcsAstWalkFreeObjectCallback st par (depth - 1) True (without ts (with_child par 0 s))"
proof (induction ts arbitrary: p par q depth s rule: addrs.induct)
  case 1
  then show ?case by simp
next
  case (2 a d ks ts)
  let ?W = "HcsBackwardWalkAst_loop HcsAstWalkFreeObjectCallback st"
  obtain o1 where o1: "p = a" "a \<noteq> 0" "as_heap s a = Some o1" "po_parent o1 = par" "unlinked o1 = d"
    "forest (as_heap s) a (po_child o1) ks" "forest (as_heap s) par (po_next o1) ts"
    and new: "a \<notin> set (addrs ks)" "a \<notin> set (addrs ts)" "set (addrs ks) \<inter> set (addrs ts) = {}"
    using "2.prems"(1) by (auto simp: forest_Cons)
  have ne: "a \<noteq> st" "a \<noteq> par" "st \<notin> set (addrs ks)" "st \<notin> set (addrs ts)" "par \<notin> set (addrs ks)"
    "par \<notin> set (addrs ts)"
    using "2.prems"(3,5) by auto
  have own: "owns s ks" "owns (without [Tree a d ks] s) ts" using owns_Tree "2.prems"(8) by blast+
  let ?s1 = "without ks (with_child a 0 s)" and ?s2 = "without [Tree a d ks] (with_child par (po_next o1) s)"
  have cb: "HcsAstWalkFreeObjectCallback a depth ?s1 = Some (NOERR, ?s2)"
    using free_callback [of s a o1 par q ks ts depth] o1 "2.prems"(4,6-8) ne(2,5) new(1) by simp
  have up: "?W a depth True ?s1 = (if po_next o1 \<noteq> 0 then ?W (po_next o1) depth False ?s2
      else ?W par (depth - 1) True ?s2)"
    using o1(1-4) ne(1) new(1) cb
    by (subst HcsBackwardWalkAst_loop.simps) (simp add: rd_def as_heap_with_child)
  have "?W a depth False s = ?W a depth True ?s1"
  proof (cases "ks = []")
    case True
    then have "po_child o1 = 0" using o1(6) by simp
    with True o1(2,3) show ?thesis
      by (subst (1 2) HcsBackwardWalkAst_loop.simps) (simp add: rd_def with_child_same)
  next
    case False
    then have "po_child o1 \<noteq> 0" using o1(6) linked_empty_iff forest_linked by blast
    then have "?W a depth False s = ?W (po_child o1) (depth + 1) False s"
      using o1(2,3) by (subst HcsBackwardWalkAst_loop.simps) (simp add: rd_def)
    with "2.IH"(1) [OF o1(6) False ne(3) o1(2) new(1) o1(3) refl own(1), of "depth + 1"]
    show ?thesis by simp
  qed
  also have "\<dots> = ?W par (depth - 1) True (without ts (with_child par 0 ?s2))"
  proof (cases "ts = []")
    case True
    then have "po_next o1 = 0" using o1(7) by simp
    moreover from this have "with_child par 0 ?s2 = ?s2"
      using without_with_child [of par "[Tree a d ks]" 0] ne(2,5) by simp
    ultimately show ?thesis using True up by simp
  next
    case False
    have next_ne: "po_next o1 \<noteq> 0" using False o1(7) linked_empty_iff forest_linked by blast
    have ts: "forest (as_heap ?s2) par (po_next o1) ts"
      using o1(7) new ne(6) by (auto elim!: forest_cong simp: as_heap_with_child)
    have q: "as_heap ?s2 par = Some (q\<lparr>po_child := po_next o1\<rparr>)"
      using "2.prems"(6) ne(2,5) by (simp add: as_heap_with_child)
    have "owns ?s2 ts" using own(2) ne(2,5) by (simp add: without_with_child)
    from "2.IH"(2) [OF ts False ne(4) "2.prems"(4) ne(6) q _ this, of depth] up next_ne
    show ?thesis by simp
  qed
  also have "without ts (with_child par 0 ?s2) = without (Tree a d ks # ts) (with_child par 0 s)"
    using ne by (simp add: without_with_child without_twice)
  finally show ?case using o1(1) by simp
qed

section \<open>Sibling lists\<close>

text \<open>Siblings below \<open>par\<close> from \<open>p\<close> up to, but without, \<open>r\<close>.\<close>

fun seg :: "(addr \<rightharpoonup> ParserObject) \<Rightarrow> addr \<Rightarrow> addr \<Rightarrow> tree list \<Rightarrow> addr \<Rightarrow> bool" where
  "seg H par p [] r \<longleftrightarrow> p = r"
| "seg H par p (Tree a d ks # ts) r \<longleftrightarrow>
     p = a \<and> a \<noteq> 0 \<and> (\<exists>o1. H a = Some o1 \<and> po_parent o1 = par
       \<and> linked H a (po_child o1) ks \<and> seg H par (po_next o1) ts r)"

lemma linked_seg: "linked H par p ts \<longleftrightarrow> seg H par p ts 0"
  by (induction H par p ts rule: linked.induct) auto

lemma seg_append: "seg H par p (us @ vs) r \<longleftrightarrow> (\<exists>m. seg H par p us m \<and> seg H par m vs r)"
  by (induction us arbitrary: p rule: addrs.induct) auto

lemma seg_cong:
  "seg H par p ts r \<Longrightarrow> (\<And>a. a \<in> set (addrs ts) \<Longrightarrow> H' a = H a) \<Longrightarrow> seg H' par p ts r"
proof (induction ts arbitrary: p rule: addrs.induct)
  case (2 a d ks ts)
  then obtain o1 where o1: "p = a" "a \<noteq> 0" "H a = Some o1" "po_parent o1 = par" "linked H a (po_child o1) ks"
    "seg H par (po_next o1) ts r"
    by auto
  have "H' a = Some o1" "linked H' a (po_child o1) ks" "seg H' par (po_next o1) ts r"
    using o1(3) "2.IH"(2) [OF o1(6)] "2.prems"(2) by (auto intro: linked_cong_eq [OF o1(5)])
  with o1 show ?case by auto
qed auto

lemma seg_roots: "seg H par p ts r \<Longrightarrow> a \<in> set (map root_of ts) \<Longrightarrow> \<exists>o1. H a = Some o1 \<and> po_parent o1 = par \<and> a \<noteq> 0"
  by (induction ts arbitrary: p rule: addrs.induct) auto

lemma roots_addrs: "set (map root_of ts) \<subseteq> set (addrs ts)"
  by (induction ts rule: addrs.induct) auto

lemma last_root: "ts \<noteq> [] \<Longrightarrow> root_of (last ts) \<in> set (addrs ts)"
  using roots_addrs [of ts] by auto

text \<open>Changing one object.\<close>

definition change :: "addr \<Rightarrow> (ParserObject \<Rightarrow> ParserObject) \<Rightarrow> ast \<Rightarrow> ast" where
  "change a f s = s\<lparr>as_heap := (as_heap s)(a := map_option f (as_heap s a))\<rparr>"

lemma upd_change: "rd s a \<noteq> None \<Longrightarrow> upd a f s = Some (change a f s)"
  by (auto simp: upd_def rd_def change_def split: if_splits)

lemma as_heap_change: "as_heap (change a f s) x = (if x = a then map_option f (as_heap s a) else as_heap s x)"
  by (simp add: change_def)

lemma change_other [simp]:
  "as_str (change a f s) = as_str s" "as_inst (change a f s) = as_inst s" "as_env (change a f s) = as_env s"
  "as_brk (change a f s) = as_brk s" "as_sbrk (change a f s) = as_sbrk s" "as_root (change a f s) = as_root s"
  by (simp_all add: change_def)

text \<open>The list ends elsewhere when the link of its last object changes.\<close>

lemma seg_redirect:
  "seg H par p ts r \<Longrightarrow> ts \<noteq> [] \<Longrightarrow> distinct (addrs ts) \<Longrightarrow>
   H' (root_of (last ts)) = map_option (\<lambda>o1. o1\<lparr>po_next := r'\<rparr>) (H (root_of (last ts))) \<Longrightarrow>
   (\<And>a. a \<in> set (addrs ts) \<Longrightarrow> a \<noteq> root_of (last ts) \<Longrightarrow> H' a = H a) \<Longrightarrow> seg H' par p ts r'"
proof (induction ts arbitrary: p rule: addrs.induct)
  case (2 a d ks ts)
  obtain o1 where o1: "p = a" "a \<noteq> 0" "H a = Some o1" "po_parent o1 = par" "linked H a (po_child o1) ks"
    "seg H par (po_next o1) ts r"
    using "2.prems"(1) by auto
  show ?case
  proof (cases "ts = []")
    case True
    have "linked H' a (po_child o1) ks"
      using "2.prems"(3,5) True by (intro linked_cong_eq [OF o1(5)]) auto
    with True o1 "2.prems"(4) show ?thesis by simp
  next
    case False
    then have l: "root_of (last (Tree a d ks # ts)) = root_of (last ts)" by simp
    have "root_of (last ts) \<in> set (addrs ts)" using last_root [OF False] by simp
    then have ne: "root_of (last ts) \<noteq> a" "root_of (last ts) \<notin> set (addrs ks)" using "2.prems"(3) by auto
    then have "linked H' a (po_child o1) ks"
      using "2.prems"(5) l by (intro linked_cong_eq [OF o1(5)]) auto
    moreover have "H' a = Some o1" using "2.prems"(5) [of a] ne(1) l o1(3) by simp
    moreover have "seg H' par (po_next o1) ts r'"
      using "2.IH"(2) [OF o1(6) False] "2.prems"(3-5) l by simp
    ultimately show ?thesis using o1 by simp
  qed
qed simp

text \<open>Taking an object out of the children of its parent.\<close>

definition unlink :: "tree list \<Rightarrow> addr \<Rightarrow> addr \<Rightarrow> addr \<Rightarrow> ast \<Rightarrow> ast" where
  "unlink us par a n s =
     change a (\<lambda>o1. o1\<lparr>po_parent := 0, po_next := 0\<rparr>)
       (if us = [] then with_child par n s else change (root_of (last us)) (\<lambda>o1. o1\<lparr>po_next := n\<rparr>) s)"

lemma remove_loop:
  "seg (as_heap s) par p us child \<Longrightarrow> us \<noteq> [] \<Longrightarrow> child \<notin> set (addrs us) \<Longrightarrow> rd s child = Some c \<Longrightarrow>
   HcsAstRemoveChildLink_loop child p s = Some (change (root_of (last us)) (\<lambda>o1. o1\<lparr>po_next := po_next c\<rparr>) s)"
proof (induction us arbitrary: p rule: addrs.induct)
  case (2 a d ks ts)
  then obtain o1 where o1: "p = a" "a \<noteq> 0" "as_heap s a = Some o1" "seg (as_heap s) par (po_next o1) ts child"
    by auto
  show ?case
  proof (cases "ts = []")
    case True
    with o1 "2.prems"(4) show ?thesis
      by (subst HcsAstRemoveChildLink_loop.simps) (simp add: rd_def upd_change)
  next
    case False
    then have "po_next o1 \<noteq> child"
      using o1(4) "2.prems"(3) by (cases ts rule: addrs.cases) auto
    with o1 "2.IH"(2) [OF o1(4) False _ "2.prems"(4)] "2.prems"(3) False show ?thesis
      by (subst HcsAstRemoveChildLink_loop.simps) (simp add: rd_def)
  qed
qed simp

lemma remove_child_link:
  assumes par: "par \<noteq> 0" "as_heap s par = Some q" "par \<notin> set (addrs us)" "par \<noteq> a"
    and us: "seg (as_heap s) par (po_child q) us a" "a \<notin> set (addrs us)"
    and a: "a \<noteq> 0" "as_heap s a = Some o1" "po_parent o1 = par"
  shows "HcsAstRemoveChildLink par a s = Some (unlink us par a (po_next o1) s)"
proof (cases "us = []")
  case True
  then have "po_child q = a" using us(1) by simp
  with True par a show ?thesis
    by (simp add: remove_first_child unlink_def change_def with_child_def fun_upd_twist)
next
  case False
  let ?s1 = "change a (\<lambda>o2. o2\<lparr>po_parent := 0\<rparr>) s"
  have "po_child q \<noteq> a" using False us by (cases us rule: addrs.cases) auto
  moreover have "seg (as_heap ?s1) par (po_child q) us a"
    using us(2) by (auto intro: seg_cong [OF us(1)] simp: as_heap_change)
  moreover have "rd ?s1 a = Some (o1\<lparr>po_parent := 0\<rparr>)" using a by (simp add: rd_def as_heap_change)
  moreover have "root_of (last us) \<noteq> a" using last_root [OF False] us(2) by auto
  ultimately show ?thesis
    using remove_loop [of ?s1 par "po_child q" us a "o1\<lparr>po_parent := 0\<rparr>"] False us(2) par a
    by (simp add: HcsAstRemoveChildLink_def rd_def upd_change as_heap_change unlink_def)
      (simp add: change_def fun_upd_twist option.map_comp comp_def)
qed

lemma forest_seg: "forest H par p ts \<longleftrightarrow> seg H par p ts 0 \<and> holds_data H ts \<and> distinct (addrs ts)"
  by (simp add: forest_def linked_seg)

lemma holds_data_same:
  "holds_data H ts \<Longrightarrow> (\<And>a. a \<in> set (addrs ts) \<Longrightarrow> map_option unlinked (H' a) = map_option unlinked (H a)) \<Longrightarrow> holds_data H' ts"
  by (fastforce simp: holds_data_def set_addrs)

lemma unlinked_links [simp]:
  "unlinked (o1\<lparr>po_next := n\<rparr>) = unlinked o1" "unlinked (o1\<lparr>po_child := n\<rparr>) = unlinked o1"
  "unlinked (o1\<lparr>po_parent := n\<rparr>) = unlinked o1"
  by (simp_all add: unlinked_def)

lemma map_unlinked_change:
  "(\<And>o1. unlinked (f o1) = unlinked o1) \<Longrightarrow> map_option unlinked (as_heap (change a f s) x) = map_option unlinked (as_heap s x)"
  by (cases "as_heap s a") (auto simp: as_heap_change)

text \<open>Behind the removal the siblings are linked without the object, which stands alone.\<close>

lemma unlink_heap:
  "as_heap (unlink us par a n s) x =
     (let h = (if us = [] then as_heap (with_child par n s) else as_heap (change (root_of (last us)) (\<lambda>o1. o1\<lparr>po_next := n\<rparr>) s))
      in if x = a then map_option (\<lambda>o1. o1\<lparr>po_parent := 0, po_next := 0\<rparr>) (h a) else h x)"
  by (simp add: unlink_def as_heap_change)

lemma unlink_other [simp]: "as_str (unlink us par a n s) = as_str s" "as_inst (unlink us par a n s) = as_inst s"
  "owns (unlink us par a n s) ts \<longleftrightarrow> owns s ts"
  by (simp_all add: unlink_def owns_def)

lemma unlink_frame:
  "x \<noteq> a \<Longrightarrow> x \<noteq> par \<Longrightarrow> x \<notin> set (map root_of us) \<Longrightarrow> as_heap (unlink us par a n s) x = as_heap s x"
  using last_in_set [of us] by (auto simp: unlink_heap Let_def as_heap_change as_heap_with_child)

lemma with_child_change: "with_child p c s = change p (\<lambda>o1. o1\<lparr>po_child := c\<rparr>) s"
  by (simp add: with_child_def change_def)

lemma unlinked_links2: "unlinked (o1\<lparr>po_parent := m, po_next := n\<rparr>) = unlinked o1"
  by (simp add: unlinked_def)

lemma unlink_data: "map_option unlinked (as_heap (unlink us par a n s) x) = map_option unlinked (as_heap s x)"
  by (simp add: unlink_def with_child_change map_unlinked_change unlinked_links2)

lemma unlink_forest:
  assumes par: "as_heap s par = Some q" "par \<notin> set (addrs (us @ Tree a d ks # vs))"
    and f: "forest (as_heap s) par (po_child q) (us @ Tree a d ks # vs)" and a: "as_heap s a = Some o1"
  obtains q' where "as_heap (unlink us par a (po_next o1) s) par = Some q'" "unlinked q' = unlinked q"
    "po_parent q' = po_parent q" "po_next q' = po_next q"
    "forest (as_heap (unlink us par a (po_next o1) s)) par (po_child q') (us @ vs)"
    "forest (as_heap (unlink us par a (po_next o1) s)) 0 a [Tree a d ks]"
proof -
  let ?s = "unlink us par a (po_next o1) s"
  have data: "holds_data (as_heap s) (us @ Tree a d ks # vs)" and dist: "distinct (addrs (us @ Tree a d ks # vs))"
    and "seg (as_heap s) par (po_child q) (us @ Tree a d ks # vs) 0"
    using f by (simp_all add: forest_seg)
  from this(3) have segs: "seg (as_heap s) par (po_child q) us a" "seg (as_heap s) par (po_next o1) vs 0" "a \<noteq> 0"
    "linked (as_heap s) a (po_child o1) ks"
    using a by (auto simp: seg_append)
  have same: "as_heap ?s x = as_heap s x" if "x \<in> set (addrs (ks @ vs))" for x
    using that dist par(2) roots_addrs [of us] by (intro unlink_frame) auto
  have vs: "seg (as_heap ?s) par (po_next o1) vs 0" by (rule seg_cong [OF segs(2)]) (use same in auto)
  have here: "as_heap ?s a = Some (o1\<lparr>po_parent := 0, po_next := 0\<rparr>)"
    using a par dist last_root [of us] by (auto simp: unlink_heap Let_def as_heap_change as_heap_with_child)
  have "linked (as_heap ?s) a (po_child o1) ks" by (rule linked_cong_eq [OF segs(4)]) (use same in auto)
  with here segs(3) have alone: "linked (as_heap ?s) 0 a [Tree a d ks]" by simp
  have keep: "holds_data (as_heap ?s) (us @ Tree a d ks # vs)"
    by (rule holds_data_same [OF data unlink_data])
  obtain q' where q': "as_heap ?s par = Some q'" "unlinked q' = unlinked q" "po_parent q' = po_parent q"
    "po_next q' = po_next q" "seg (as_heap ?s) par (po_child q') us (po_next o1)"
  proof (cases "us = []")
    case True
    with par that [of "q\<lparr>po_child := po_next o1\<rparr>"] show ?thesis
      by (simp add: unlink_heap Let_def as_heap_with_child)
  next
    case False
    have l: "root_of (last us) \<in> set (addrs us)" by (rule last_root [OF False])
    then have "root_of (last us) \<noteq> par" "root_of (last us) \<noteq> a" using par(2) dist by auto
    moreover have "seg (as_heap ?s) par (po_child q) us (po_next o1)"
    proof (rule seg_redirect [OF segs(1) False])
      show "as_heap ?s (root_of (last us)) = map_option (\<lambda>o2. o2\<lparr>po_next := po_next o1\<rparr>) (as_heap s (root_of (last us)))"
        using calculation False by (simp add: unlink_heap Let_def as_heap_change)
      show "as_heap ?s x = as_heap s x" if "x \<in> set (addrs us)" "x \<noteq> root_of (last us)" for x
        using that False dist by (auto simp: unlink_heap Let_def as_heap_change)
    qed (use dist in simp)
    ultimately show ?thesis
      using that [of q] par False by (simp add: unlink_heap Let_def as_heap_change)
  qed
  show ?thesis
  proof (rule that [OF q'(1-4)])
    show "forest (as_heap ?s) par (po_child q') (us @ vs)"
      using q'(5) vs keep dist by (auto simp: forest_seg seg_append)
    show "forest (as_heap ?s) 0 a [Tree a d ks]"
      using alone keep dist by (auto simp: forest_def)
  qed
qed

section \<open>Deleting a tree\<close>

lemma delete_walk:
  assumes p: "p \<noteq> 0" "as_heap s p = Some o1" "forest (as_heap s) p (po_child o1) ks" "p \<notin> set (addrs ks)" "owns s ks"
    and free: "HcsAstFreeObject p (without ks (with_child p 0 s)) = Some s'"
  shows "HcsDeleteParserObjectTree p s = Some s'"
proof -
  let ?W = "HcsBackwardWalkAst_loop HcsAstWalkFreeObjectCallback p" and ?s1 = "without ks (with_child p 0 s)"
  have "?W p 0 True ?s1 = Some (NOERR, s')"
    using p free by (subst HcsBackwardWalkAst_loop.simps)
      (simp add: rd_def as_heap_with_child HcsAstWalkFreeObjectCallback_def)
  moreover have "?W p 0 False s = ?W p 0 True ?s1"
  proof (cases "ks = []")
    case True
    then have "po_child o1 = 0" using p(3) by simp
    with True p(1,2) show ?thesis
      by (subst (1 2) HcsBackwardWalkAst_loop.simps) (simp add: rd_def with_child_same)
  next
    case False
    then have "po_child o1 \<noteq> 0" using p(3) linked_empty_iff forest_linked by blast
    then have "?W p 0 False s = ?W (po_child o1) 1 False s"
      using p(1,2) by (subst HcsBackwardWalkAst_loop.simps) (simp add: rd_def)
    with free_list [OF p(3) False p(4,1,4,2) refl p(5), of 1] show ?thesis by simp
  qed
  ultimately show ?thesis
    using p(1) by (simp add: HcsDeleteParserObjectTree_def HcsAstFreeObjectAndSubtree_def HcsWalkAst_def
        HcsBackwardWalkAst_def)
qed

lemma free_object:
  assumes "as_heap s a = Some o1" "a \<noteq> 0" "owns s [Tree a (unlinked o1) []]"
    and "HcsAstRemoveChildLink (po_parent o1) a (s\<lparr>as_inst := as_inst s |` (- set (own_insts o1))\<rparr>)
      = Some (s1\<lparr>as_inst := as_inst s |` (- set (own_insts o1))\<rparr>)"
    and "as_str s1 = as_str s" "as_inst s1 = as_inst s" "as_heap s1 a \<noteq> None"
  shows "HcsAstFreeObject a s = Some (without [Tree a (unlinked o1) []] s1)"
proof -
  note str = free_own_str [OF assms(3)] and inst = free_own_inst [OF assms(3)]
  show ?thesis
    using assms(1,2,4-7)
    by (simp add: HcsAstFreeObject_def rd_def inst str free_obj_def without_def restrict_map_def fun_eq_iff)
qed

lemma unlink_inst: "(unlink us par a n s)\<lparr>as_inst := i\<rparr> = unlink us par a n (s\<lparr>as_inst := i\<rparr>)"
  by (simp add: unlink_def change_def with_child_def)

text \<open>A tree without a parent is freed and nothing else.\<close>

lemma delete_detached:
  assumes p: "p \<noteq> 0" "as_heap s p = Some o1" "po_parent o1 = 0" "forest (as_heap s) p (po_child o1) ks"
    "p \<notin> set (addrs ks)" "owns s [Tree p (unlinked o1) ks]"
  shows "HcsDeleteParserObjectTree p s = Some (without [Tree p (unlinked o1) ks] s)"
proof (rule delete_walk [OF p(1,2,4,5)])
  show "owns s ks" using owns_Tree [OF p(6)] by simp
  let ?s1 = "without ks (with_child p 0 s)"
  have "owns ?s1 [Tree p (unlinked (o1\<lparr>po_child := 0\<rparr>)) []]"
    using owns_Tree [OF p(6)] by (simp add: without_with_child [OF p(5)])
  then have "HcsAstFreeObject p ?s1 = Some (without [Tree p (unlinked (o1\<lparr>po_child := 0\<rparr>)) []] ?s1)"
    using p(2,3,5) by (intro free_object) (simp_all add: p(1) as_heap_with_child HcsAstRemoveChildLink_def)
  then show "HcsAstFreeObject p ?s1 = Some (without [Tree p (unlinked o1) ks] s)"
    using without_Tree [of p "unlinked o1" ks "[]" s] by (simp add: without_with_child [OF p(5)])
qed

text \<open>The state in which the freeing walk comes back to the root of the tree.\<close>

lemma freed_below:
  assumes p: "as_heap s p = Some o1" "po_parent o1 = par" "par \<noteq> 0" "as_heap s par = Some q"
    "par \<notin> set (addrs (us @ Tree p d ks # vs))"
    and f: "forest (as_heap s) par (po_child q) (us @ Tree p d ks # vs)" and own: "owns s [Tree p d ks]"
  defines "s1 \<equiv> without ks (with_child p 0 s)"
  shows "as_heap s1 p = Some (o1\<lparr>po_child := 0\<rparr>)" "as_heap s1 par = Some q" "unlinked o1 = d"
    "forest (as_heap s1) par (po_child q) (us @ Tree p d [] # vs)" "owns s1 [Tree p d []]"
    "p \<noteq> 0" "forest (as_heap s) p (po_child o1) ks" "seg (as_heap s1) par (po_child q) us p"
proof -
  have data: "unlinked o1 = d" "holds_data (as_heap s) us" "holds_data (as_heap s) ks" "holds_data (as_heap s) vs"
    and dist: "distinct (addrs (us @ Tree p d ks # vs))"
    and segs: "seg (as_heap s) par (po_child q) us p" "seg (as_heap s) par (po_next o1) vs 0" "p \<noteq> 0"
      "linked (as_heap s) p (po_child o1) ks"
    using f p(1) by (auto simp: forest_seg seg_append)
  show h: "as_heap s1 p = Some (o1\<lparr>po_child := 0\<rparr>)" "as_heap s1 par = Some q" "unlinked o1 = d" "p \<noteq> 0"
    "forest (as_heap s) p (po_child o1) ks"
    using p dist data segs by (auto simp: s1_def as_heap_with_child forest_def)
  show us: "seg (as_heap s1) par (po_child q) us p"
    by (rule seg_cong [OF segs(1)]) (use dist in \<open>auto simp: s1_def as_heap_with_child\<close>)
  show "owns s1 [Tree p d []]"
    using owns_Tree [OF own] dist by (simp add: s1_def without_with_child)
  have "seg (as_heap s1) par (po_next o1) vs 0"
    by (rule seg_cong [OF segs(2)]) (use dist in \<open>auto simp: s1_def as_heap_with_child\<close>)
  moreover have "holds_data (as_heap s1) us \<and> holds_data (as_heap s1) vs"
    using dist data(2,4) by (auto simp: s1_def as_heap_with_child elim!: holds_data_cong)
  ultimately have "holds_data (as_heap s1) (us @ Tree p d [] # vs)
      \<and> seg (as_heap s1) par (po_child q) (us @ Tree p d [] # vs) 0"
    using us h(1,3,4) p(2) by (auto simp: seg_append)
  then show "forest (as_heap s1) par (po_child q) (us @ Tree p d [] # vs)"
    using dist by (auto simp: forest_seg)
qed

lemma delete_child_run:
  assumes p: "as_heap s p = Some o1" "po_parent o1 = par" "par \<noteq> 0" "as_heap s par = Some q"
    "par \<notin> set (addrs (us @ Tree p d ks # vs))"
    and f: "forest (as_heap s) par (po_child q) (us @ Tree p d ks # vs)" and own: "owns s [Tree p d ks]"
  shows "HcsDeleteParserObjectTree p s
    = Some (without [Tree p d []] (unlink us par p (po_next o1) (without ks (with_child p 0 s))))"
proof -
  let ?s1 = "without ks (with_child p 0 s)" and ?o1 = "o1\<lparr>po_child := 0\<rparr>"
  let ?s2 = "unlink us par p (po_next o1) ?s1" and ?i = "as_inst ?s1 |` (- set (own_insts o1))"
  note h = freed_below [OF assms]
  have ne: "par \<notin> set (addrs us)" "par \<noteq> p" "p \<notin> set (addrs us)" "p \<notin> set (addrs ks)"
    using p(5) f by (auto simp: forest_seg)
  have "HcsAstFreeObject p ?s1 = Some (without [Tree p (unlinked ?o1) []] ?s2)"
  proof (rule free_object [OF h(1,6)])
    show "owns ?s1 [Tree p (unlinked ?o1) []]" using h(3,5) by simp
    have "HcsAstRemoveChildLink par p (?s1\<lparr>as_inst := ?i\<rparr>)
        = Some (unlink us par p (po_next ?o1) (?s1\<lparr>as_inst := ?i\<rparr>))"
      using p h ne by (intro remove_child_link) simp_all
    then show "HcsAstRemoveChildLink (po_parent ?o1) p (?s1\<lparr>as_inst := as_inst ?s1 |` (- set (own_insts ?o1))\<rparr>)
        = Some (?s2\<lparr>as_inst := as_inst ?s1 |` (- set (own_insts ?o1))\<rparr>)"
      using p(2) by (simp add: unlink_inst own_insts_def)
    show "as_heap ?s2 p \<noteq> None"
      using unlink_data [of us par p "po_next o1" ?s1 p] h(1) by auto
  qed simp_all
  with h(3) show ?thesis
    using owns_Tree [OF own] by (intro delete_walk [OF h(6) p(1) h(7) ne(4)]) simp_all
qed

text \<open>
  C6: Deleting a subtree of the syntax tree frees every object in it, the string values and instance
  lists these own, each exactly once, and nothing else; the other children of its parent stay
  linked in their order, and no object but the parent and the preceding sibling changes.  The
  loop deletes while it walks, over links it has just cut.
\<close>

theorem delete_frees_exactly_the_tree:
  assumes p: "as_heap s p = Some o1" "po_parent o1 = par"
    and par: "par \<noteq> 0" "as_heap s par = Some q" "par \<notin> set (addrs (us @ Tree p d ks # vs))"
    and f: "forest (as_heap s) par (po_child q) (us @ Tree p d ks # vs)"
    and own: "owns s [Tree p d ks]"
  shows "\<exists>s' q'. HcsDeleteParserObjectTree p s = Some s'
    \<and> as_heap s' par = Some q' \<and> unlinked q' = unlinked q \<and> forest (as_heap s') par (po_child q') (us @ vs)
    \<and> (\<forall>x \<in> set (addrs [Tree p d ks]). as_heap s' x = None)
    \<and> (\<forall>x. x \<notin> set (addrs [Tree p d ks]) \<and> x \<noteq> par \<and> x \<notin> set (map root_of us) \<longrightarrow> as_heap s' x = as_heap s x)
    \<and> as_str s' = as_str s |` (- set (strs [Tree p d ks])) \<and> as_inst s' = as_inst s |` (- set (insts [Tree p d ks]))"
proof -
  let ?s1 = "without ks (with_child p 0 s)"
  let ?s2 = "unlink us par p (po_next o1) ?s1"
  let ?s' = "without [Tree p d []] ?s2"
  note h = freed_below [OF p par f own]
  have dist: "distinct (addrs (us @ Tree p d ks # vs))" using f by (simp add: forest_seg)
  have "par \<notin> set (addrs (us @ Tree p d [] # vs))" "par \<noteq> p" using par(3) by auto
  from unlink_forest [OF h(2) this(1) h(4,1)] obtain q' where q': "as_heap ?s2 par = Some q'"
    "unlinked q' = unlinked q" "forest (as_heap ?s2) par (po_child q') (us @ vs)"
    by (auto simp del: as_heap_without)
  have "forest (as_heap ?s') par (po_child q') (us @ vs)"
    by (rule forest_cong [OF q'(3)]) (use dist in auto)
  moreover have "as_heap ?s' x = as_heap s x"
    if "x \<notin> set (addrs [Tree p d ks])" "x \<noteq> par" "x \<notin> set (map root_of us)" for x
    using that unlink_frame [of x p par us "po_next o1" ?s1] by (simp add: as_heap_with_child)
  moreover have "as_heap ?s' x = None" if "x \<in> set (addrs [Tree p d ks])" for x
  proof (cases "x = p")
    case False
    then have x: "x \<in> set (addrs ks)" using that by simp
    then have "x \<notin> set (map root_of us)" "x \<noteq> par" using dist par(3) roots_addrs [of us] by auto
    with x False show ?thesis using unlink_frame [of x p par us "po_next o1" ?s1] by simp
  qed simp
  moreover have "as_str ?s' = as_str s |` (- set (strs [Tree p d ks]))"
    "as_inst ?s' = as_inst s |` (- set (insts [Tree p d ks]))"
    by (simp_all add: Int_commute)
  ultimately show ?thesis
    using delete_child_run [OF p par f own] q'(1,2) \<open>par \<noteq> p\<close>
    by (intro exI [of _ ?s'] exI [of _ q']) simp
qed

definition three_deep :: ast where
  "three_deep = three_objects\<lparr>
     as_heap := [1 \<mapsto> zero_obj\<lparr>po_child := 2\<rparr>, 2 \<mapsto> zero_obj\<lparr>po_parent := 1, po_next := 3\<rparr>,
                 3 \<mapsto> zero_obj\<lparr>po_parent := 1, po_child := 4\<rparr>,
                 4 \<mapsto> zero_obj\<lparr>po_parent := 3, po_type := PARSEROP_STRING, po_value := VStr 1\<rparr>],
     as_str := [1 \<mapsto> [104], 2 \<mapsto> [105]]\<rparr>"

theorem delete_frees_exactly_the_tree_witness:
  "\<exists>s'. HcsDeleteParserObjectTree 3 three_deep = Some s' \<and> as_heap s' 3 = None \<and> as_heap s' 4 = None
     \<and> as_str s' 1 = None \<and> as_str s' 2 = Some [105]"
proof -
  let ?four = "Tree 4 (unlinked (zero_obj\<lparr>po_parent := 3, po_type := PARSEROP_STRING, po_value := VStr 1\<rparr>)) []"
    and ?d2 = "unlinked (zero_obj\<lparr>po_parent := 1, po_next := 3\<rparr>)"
    and ?o3 = "zero_obj\<lparr>po_parent := 1, po_child := 4\<rparr>"
  have "\<exists>s' q'. HcsDeleteParserObjectTree 3 three_deep = Some s'
    \<and> as_heap s' 1 = Some q' \<and> unlinked q' = unlinked (zero_obj\<lparr>po_child := 2\<rparr>)
    \<and> forest (as_heap s') 1 (po_child q') ([Tree 2 ?d2 []] @ [])
    \<and> (\<forall>x \<in> set (addrs [Tree 3 (unlinked ?o3) [?four]]). as_heap s' x = None)
    \<and> (\<forall>x. x \<notin> set (addrs [Tree 3 (unlinked ?o3) [?four]]) \<and> x \<noteq> 1 \<and> x \<notin> set (map root_of [Tree 2 ?d2 []])
         \<longrightarrow> as_heap s' x = as_heap three_deep x)
    \<and> as_str s' = as_str three_deep |` (- set (strs [Tree 3 (unlinked ?o3) [?four]]))
    \<and> as_inst s' = as_inst three_deep |` (- set (insts [Tree 3 (unlinked ?o3) [?four]]))"
    by (rule delete_frees_exactly_the_tree [where q = "zero_obj\<lparr>po_child := 2\<rparr>" and ?o1.0 = ?o3])
      (simp_all add: three_deep_def three_objects_def forest_Cons owns_def own_strs_def own_insts_def zero_obj_def unlinked_def)
  then obtain s' where "HcsDeleteParserObjectTree 3 three_deep = Some s'"
    "\<forall>x \<in> set (addrs [Tree 3 (unlinked ?o3) [?four]]). as_heap s' x = None"
    "as_str s' = as_str three_deep |` (- set (strs [Tree 3 (unlinked ?o3) [?four]]))"
    by (elim exE conjE)
  then show ?thesis
    by (intro exI [of _ s']) (simp add: three_deep_def own_strs_def zero_obj_def)
qed

end
