(* ===== verification/Hcs_Bytecode.thy ===== *)
theory Hcs_Bytecode
  imports Hcs_Compile Hcs_AstOps Hcs_Tree
begin

text \<open>
  What \<^verbatim>\<open>hcs_bytecode_gen.c\<close> writes for a syntax tree in the heap is the bytecode of the configuration
  the tree stands for: three walks of the tree - sizes, then the offsets references need, then the
  bytes - are one recursive function of the configuration.
\<close>

section \<open>The configuration a tree stands for\<close>

text \<open>\<open>pos\<close> gives the offset of each object in the output, \<open>S\<close> the strings.\<close>

fun all_some :: "'a option list \<Rightarrow> 'a list option" where
  "all_some [] = Some []"
| "all_some (x # xs) = do { v \<leftarrow> x; vs \<leftarrow> all_some xs; Some (v # vs) }"

lemma all_some_map_iff: "all_some (map f xs) = Some ys \<longleftrightarrow> map f xs = map Some ys"
proof (induction xs arbitrary: ys)
  case (Cons x xs)
  show ?case
    by (cases ys; cases "f x"; cases "all_some (map f xs)") (auto simp: Cons.IH[symmetric] dest: Cons.IH [THEN iffD2])
qed auto

definition number_of :: "ParserObject \<Rightarrow> uint64_t option" where
  "number_of d = (case po_value d of VNum n \<Rightarrow> Some n | _ \<Rightarrow> None)"

fun value_of :: "(addr \<Rightarrow> uint32_t) \<Rightarrow> (addr \<rightharpoonup> bytes) \<Rightarrow> tree \<Rightarrow> hcs_value option" where
  "value_of pos S (Tree a d ks) =
     (if po_type d = PARSEROP_ARRAY then map_option HArray (all_some (map (value_of pos S) ks))
      else if ks \<noteq> [] then None
      else if po_type d = PARSEROP_UINT8 then map_option (\<lambda>n. HByte (ucast n)) (number_of d)
      else if po_type d = PARSEROP_UINT16 then map_option (\<lambda>n. HWord (ucast n)) (number_of d)
      else if po_type d = PARSEROP_UINT32 then map_option (\<lambda>n. HDword (ucast n)) (number_of d)
      else if po_type d = PARSEROP_UINT64 then map_option HQword (number_of d)
      else if po_type d = PARSEROP_STRING
      then (case po_value d of VStr x \<Rightarrow> map_option HString (S x) | _ \<Rightarrow> None)
      else if po_type d = PARSEROP_NODEREF
      then (case po_value d of VObj r \<Rightarrow> Some (HRef (pos r)) | _ \<Rightarrow> None)
      else None)"

fun conf_of :: "(addr \<Rightarrow> uint32_t) \<Rightarrow> (addr \<rightharpoonup> bytes) \<Rightarrow> tree \<Rightarrow> hcs_obj option" where
  "conf_of pos S (Tree a d ks) =
     (case po_name d of None \<Rightarrow> None
      | Some n \<Rightarrow>
          if po_type d = PARSEROP_CONFTERM
          then (case ks of [v] \<Rightarrow> map_option (HTerm n) (value_of pos S v) | _ \<Rightarrow> None)
          else if po_type d = PARSEROP_CONFNODE \<and> po_nodeType d \<noteq> CONFIG_NODE_TEMPLATE
          then map_option (HNode n) (all_some (map (conf_of pos S) ks))
          else None)"

text \<open>What an object adds to the output before its children.\<close>

definition own_bytes :: "bool \<Rightarrow> (addr \<Rightarrow> uint32_t) \<Rightarrow> (addr \<rightharpoonup> bytes) \<Rightarrow> uint32_t \<Rightarrow> nat \<Rightarrow> ParserObject \<Rightarrow> bytes" where
  "own_bytes al pos S sub n d =
     HcsOutputWriteAlign al [fst (g_byteCodeMap (po_type d))] @
     (if po_type d \<in> {PARSEROP_UINT8, PARSEROP_UINT16, PARSEROP_UINT32, PARSEROP_UINT64}
      then HcsOutputWriteAlign al (le_bytes (snd (g_byteCodeMap (po_type d))) (value_bits (po_value d)))
      else if po_type d = PARSEROP_STRING
      then HcsOutputWriteAlign al ((case po_value d of VStr x \<Rightarrow> the (S x) | _ \<Rightarrow> []) @ [0])
      else if po_type d = PARSEROP_CONFTERM then HcsOutputWriteAlign al (the (po_name d) @ [0])
      else if po_type d = PARSEROP_CONFNODE
      then HcsOutputWriteAlign al (the (po_name d) @ [0]) @ HcsOutputWriteAlign al (le_bytes 4 sub)
      else if po_type d = PARSEROP_ARRAY then HcsOutputWriteAlign al (le_bytes 2 (of_nat n :: uint16_t))
      else HcsOutputWriteAlign al (le_bytes 4 (case po_value d of VObj r \<Rightarrow> pos r | _ \<Rightarrow> 0)))"

text \<open>The size of a tree as \<^verbatim>\<open>HcsCalculateOpcodeSize\<close> adds it up.\<close>

definition text_size :: "bool \<Rightarrow> (addr \<rightharpoonup> bytes) \<Rightarrow> ParserObject \<Rightarrow> nat" where
  "text_size al S d =
     (if po_type d \<in> {PARSEROP_CONFNODE, PARSEROP_CONFTERM} then HcsAlign al (length (the (po_name d)) + 1)
      else if po_type d = PARSEROP_STRING
      then HcsAlign al (length (case po_value d of VStr x \<Rightarrow> the (S x) | _ \<Rightarrow> []) + 1)
      else 0)"

definition own_size :: "bool \<Rightarrow> (addr \<rightharpoonup> bytes) \<Rightarrow> ParserObject \<Rightarrow> nat" where
  "own_size al S d = HcsAlign al 1 + HcsAlign al (snd (g_byteCodeMap (po_type d))) + text_size al S d"

fun trees_size :: "bool \<Rightarrow> (addr \<rightharpoonup> bytes) \<Rightarrow> tree list \<Rightarrow> nat" where
  "trees_size al S [] = 0"
| "trees_size al S (Tree a d ks # ts) = own_size al S d + trees_size al S ks + trees_size al S ts"

fun trees_bytes :: "bool \<Rightarrow> (addr \<Rightarrow> uint32_t) \<Rightarrow> (addr \<rightharpoonup> bytes) \<Rightarrow> tree list \<Rightarrow> bytes" where
  "trees_bytes al pos S [] = []"
| "trees_bytes al pos S (Tree a d ks # ts) =
     own_bytes al pos S (of_nat (trees_size al S ks)) (length ks) d @ trees_bytes al pos S ks @ trees_bytes al pos S ts"

text \<open>An object the back end knows: its type, and what must be present for it.\<close>

definition encodable :: "(addr \<rightharpoonup> bytes) \<Rightarrow> ParserObject \<Rightarrow> bool" where
  "encodable S d \<longleftrightarrow>
     po_type d \<in> {PARSEROP_UINT8, PARSEROP_UINT16, PARSEROP_UINT32, PARSEROP_UINT64, PARSEROP_STRING,
       PARSEROP_ARRAY, PARSEROP_NODEREF, PARSEROP_CONFTERM, PARSEROP_CONFNODE}
     \<and> (po_type d \<in> {PARSEROP_CONFTERM, PARSEROP_CONFNODE} \<longrightarrow> po_name d \<noteq> None)
     \<and> (po_type d = PARSEROP_CONFNODE \<longrightarrow> po_nodeType d \<noteq> CONFIG_NODE_TEMPLATE)
     \<and> (po_type d = PARSEROP_STRING \<longrightarrow> (\<exists>x b. po_value d = VStr x \<and> S x = Some b))
     \<and> (po_type d = PARSEROP_NODEREF \<longrightarrow> (\<exists>r. po_value d = VObj r))"

definition all_encodable :: "(addr \<rightharpoonup> bytes) \<Rightarrow> tree list \<Rightarrow> bool" where
  "all_encodable S ts \<longleftrightarrow> (\<forall>(a, d) \<in> set (nodes ts). encodable S d)"

lemma all_encodable_simps [simp]:
  "all_encodable S []" "all_encodable S (Tree a d ks # ts) \<longleftrightarrow> encodable S d \<and> all_encodable S ks \<and> all_encodable S ts"
  by (auto simp: all_encodable_def)

lemma own_bytes_length: "encodable S d \<Longrightarrow> length (own_bytes al pos S sub n d) = own_size al S d"
  by (auto simp: own_bytes_def own_size_def text_size_def g_byteCodeMap_def encodable_def)

lemma trees_bytes_length: "all_encodable S ts \<Longrightarrow> length (trees_bytes al pos S ts) = trees_size al S ts"
  by (induction ts rule: addrs.induct) (simp_all add: own_bytes_length)


section \<open>The bytes of a tree are the bytes of its configuration\<close>

lemma trees_append:
  "trees_size al S (ts @ us) = trees_size al S ts + trees_size al S us"
  "trees_bytes al pos S (ts @ us) = trees_bytes al pos S ts @ trees_bytes al pos S us"
  by (induction ts rule: addrs.induct) simp_all

lemma nodes_as_concat: "nodes ts = concat (map (\<lambda>t. nodes [t]) ts)"
  by (induction ts rule: nodes.induct) simp_all

lemma trees_size_list: "trees_size al S ts = sum_list (map (\<lambda>t. trees_size al S [t]) ts)"
  by (induction ts rule: addrs.induct) simp_all

lemma trees_bytes_list: "trees_bytes al pos S ts = concat (map (\<lambda>t. trees_bytes al pos S [t]) ts)"
  by (induction ts rule: addrs.induct) simp_all

lemma all_encodable_list: "all_encodable S ts \<longleftrightarrow> (\<forall>t \<in> set ts. all_encodable S [t])"
  by (induction ts rule: addrs.induct) auto

lemma le_bytes_ucast:
  "le_bytes 1 (ucast (n :: uint64_t) :: uint8_t) = le_bytes 1 n"
  "le_bytes 2 (ucast n :: uint16_t) = le_bytes 2 n"
  "le_bytes 4 (ucast n :: uint32_t) = le_bytes 4 n"
  by (auto simp: numeral_eq_Suc intro!: bit_word_eqI simp: bit_simps)

text \<open>All trees of a list, each with its image.\<close>

lemma map_some_list_all2: "map f xs = map Some ys \<longleftrightarrow> list_all2 (\<lambda>x y. f x = Some y) xs ys"
  by (induction xs arbitrary: ys) (auto simp: Cons_eq_map_conv list_all2_Cons1)

lemma list_images:
  assumes "list_all2 R ts ys" "\<And>t y. t \<in> set ts \<Longrightarrow> R t y \<Longrightarrow> trees_bytes al pos S [t] = w y
      \<and> trees_size al S [t] = z y \<and> all_encodable S [t]"
  shows "trees_bytes al pos S ts = concat (map w ys) \<and> trees_size al S ts = sum_list (map z ys)
    \<and> all_encodable S ts \<and> length ts = length ys"
  using assms
proof (induction rule: list_all2_induct)
  case (Cons t ts y ys)
  then have "trees_bytes al pos S [t] = w y \<and> trees_size al S [t] = z y \<and> all_encodable S [t]" by simp
  moreover have "trees_bytes al pos S ts = concat (map w ys) \<and> trees_size al S ts = sum_list (map z ys)
    \<and> all_encodable S ts \<and> length ts = length ys"
    using Cons.IH Cons.prems by simp
  moreover have "trees_bytes al pos S (t # ts) = trees_bytes al pos S [t] @ trees_bytes al pos S ts"
    "trees_size al S (t # ts) = trees_size al S [t] + trees_size al S ts"
    "all_encodable S (t # ts) \<longleftrightarrow> all_encodable S [t] \<and> all_encodable S ts"
    by (cases t; simp)+
  ultimately show ?case by simp
qed simp

lemma value_of_bytes:
  "value_of pos S t = Some v \<Longrightarrow>
   trees_bytes al pos S [t] = write_value al v \<and> trees_size al S [t] = value_size al v \<and> all_encodable S [t]"
proof (induction t arbitrary: v)
  case (Tree a d ks)
  show ?case
  proof (cases "po_type d = PARSEROP_ARRAY")
    case True
    then obtain vs where v: "v = HArray vs" and vs: "list_all2 (\<lambda>k y. value_of pos S k = Some y) ks vs"
      using Tree.prems by (auto simp: all_some_map_iff map_some_list_all2)
    from list_images [OF vs] Tree.IH
    have "trees_bytes al pos S ks = concat (map (write_value al) vs) \<and> trees_size al S ks = sum_list (map (value_size al) vs)
        \<and> all_encodable S ks \<and> length ks = length vs" by blast
    with True v show ?thesis
      by (simp add: own_bytes_def own_size_def text_size_def g_byteCodeMap_def encodable_def)
  next
    case False
    then show ?thesis
      using Tree.prems
      by (auto split: if_splits pvalue.splits simp: number_of_def own_bytes_def own_size_def text_size_def
          g_byteCodeMap_def encodable_def value_bits_def le_bytes_ucast)
  qed
qed

lemma conf_of_bytes:
  "conf_of pos S t = Some c \<Longrightarrow>
   trees_bytes al pos S [t] = write_obj al c \<and> trees_size al S [t] = obj_size al c \<and> all_encodable S [t]"
proof (induction t arbitrary: c)
  case (Tree a d ks)
  obtain n where n: "po_name d = Some n" using Tree.prems by (cases "po_name d") auto
  show ?case
  proof (cases "po_type d = PARSEROP_CONFTERM")
    case True
    then obtain t v where v: "ks = [t]" "value_of pos S t = Some v" "c = HTerm n v"
      using Tree.prems n by (auto split: list.splits)
    from value_of_bytes [OF v(2), of al] True n v(1,3) show ?thesis
      by (cases t) (simp add: own_bytes_def own_size_def text_size_def g_byteCodeMap_def encodable_def)
  next
    case False
    then obtain cs where c: "po_type d = PARSEROP_CONFNODE" "po_nodeType d \<noteq> CONFIG_NODE_TEMPLATE" "c = HNode n cs"
      and cs: "list_all2 (\<lambda>k y. conf_of pos S k = Some y) ks cs"
      using Tree.prems n by (auto simp: all_some_map_iff map_some_list_all2 split: if_splits)
    from list_images [OF cs] Tree.IH
    have "trees_bytes al pos S ks = concat (map (write_obj al) cs) \<and> trees_size al S ks = sum_list (map (obj_size al) cs)
        \<and> all_encodable S ks" by blast
    with c n show ?thesis
      by (simp add: own_bytes_def own_size_def text_size_def g_byteCodeMap_def encodable_def obj_subSize_def)
  qed
qed


section \<open>The first walk: codes and sizes\<close>

text \<open>The walks of the back end as recursions.\<close>

lemma backward_run_Cons:
  "e \<noteq> 0 \<Longrightarrow> walk_run AstWalkCallBackDefault b True e depth (Tree a d ks # ts) s =
     go_on (go_on (walk_run AstWalkCallBackDefault b True e (depth + 1) ks s) (after_children b e a depth))
       (walk_run AstWalkCallBackDefault b True e depth ts)"
  by (auto simp: walk_run.simps(2) AstWalkCallBackDefault_def go_on_def)

lemma forward_run_Cons:
  "f a depth s = Some (NOERR, s1) \<Longrightarrow> walk_run f AstWalkCallBackDefault False e depth (Tree a d ks # ts) s =
     go_on (walk_run f AstWalkCallBackDefault False e (depth + 1) ks s1) (walk_run f AstWalkCallBackDefault False e depth ts)"
  by (auto simp: walk_run.simps(2) go_on_def Option.bind_assoc intro!: Option.bind_cong)

text \<open>What the first walk leaves in each object.\<close>

definition mark :: "bool \<Rightarrow> (addr \<rightharpoonup> bytes) \<Rightarrow> ParserObject \<Rightarrow> tree list \<Rightarrow> ParserObject" where
  "mark al S d ks = d\<lparr>po_opCode := fst (g_byteCodeMap (po_type d)),
     po_size := of_nat (own_size al S d + trees_size al S ks), po_subSize := of_nat (trees_size al S ks)\<rparr>"

fun marks :: "bool \<Rightarrow> (addr \<rightharpoonup> bytes) \<Rightarrow> tree list \<Rightarrow> tree list" where
  "marks al S [] = []"
| "marks al S (Tree a d ks # ts) = Tree a (mark al S d ks) (marks al S ks) # marks al S ts"

definition no_sizes :: "tree list \<Rightarrow> bool" where
  "no_sizes ts \<longleftrightarrow> (\<forall>(a, d) \<in> set (nodes ts). po_size d = 0)"

lemma no_sizes_simps [simp]:
  "no_sizes []" "no_sizes (Tree a d ks # ts) \<longleftrightarrow> po_size d = 0 \<and> no_sizes ks \<and> no_sizes ts"
  by (auto simp: no_sizes_def)

lemma addrs_marks [simp]: "addrs (marks al S ts) = addrs ts"
  by (induction ts rule: addrs.induct) simp_all

lemma linked_marks: "linked H par p (marks al S ts) \<longleftrightarrow> linked H par p ts"
  by (induction ts arbitrary: par p rule: addrs.induct) simp_all

lemma marks_Nil_iff [simp]: "marks al S ts = [] \<longleftrightarrow> ts = []"
  by (cases ts rule: addrs.cases) simp_all

lemma children_size_marks:
  "linked (as_heap s) par p ts \<Longrightarrow> holds_data (as_heap s) (marks al S ts) \<Longrightarrow>
   children_size s p acc = Some (acc + of_nat (trees_size al S ts))"
proof (induction ts arbitrary: p acc rule: addrs.induct)
  case 1
  then show ?case by (subst children_size.simps) simp
next
  case (2 a d ks ts)
  then obtain o1 where o1: "p = a" "a \<noteq> 0" "as_heap s a = Some o1" "linked (as_heap s) par (po_next o1) ts"
    "unlinked o1 = mark al S d ks" by auto
  have "po_size (unlinked o1) = of_nat (own_size al S d + trees_size al S ks)"
    unfolding o1(5) by (simp add: mark_def)
  then have "po_size o1 = of_nat (own_size al S d + trees_size al S ks)" by simp
  with o1 "2.IH"(2) [OF o1(4)] "2.prems"(2) show ?case
    by (subst children_size.simps) (simp add: rd_def algebra_simps)
qed


text \<open>
  The callback, but a fault at templates: there it would cut links.  Where this one succeeds, so does
  the original.
\<close>

definition ByteCodeConvert_kept :: walk_cb where
  "ByteCodeConvert_kept a depth s =
     (case rd s a of None \<Rightarrow> None
      | Some o1 \<Rightarrow> if po_type o1 = PARSEROP_CONFNODE \<and> po_nodeType o1 = CONFIG_NODE_TEMPLATE then None
                  else ByteCodeConvert a depth s)"

lemma upd_links:
  "upd a f s = Some s' \<Longrightarrow> (\<And>o1. po_parent (f o1) = po_parent o1 \<and> po_next (f o1) = po_next o1 \<and> po_child (f o1) = po_child o1) \<Longrightarrow>
   same_links (as_heap s) (as_heap s') x"
  by (auto simp: upd_def rd_def same_links_def split: option.splits if_splits)

lemma upd_links_run:
  "upd a f s = Some s' \<Longrightarrow> (\<And>o1. po_parent (f o1) = po_parent o1 \<and> po_next (f o1) = po_next o1 \<and> po_child (f o1) = po_child o1) \<Longrightarrow>
   same_links H (as_heap s) x \<Longrightarrow> same_links H (as_heap s') x"
  using upd_links same_links_trans by blast

lemma calculate_links: "HcsCalculateOpcodeSize a s = Some s' \<Longrightarrow> same_links (as_heap s) (as_heap s') x"
  unfolding HcsCalculateOpcodeSize_def by (auto simp: bind_eq_Some_conv intro: upd_links)

lemma keeps_links_convert: "keeps_links ByteCodeConvert_kept"
  unfolding keeps_links_def
proof (intro allI impI)
  fix a depth s r x
  assume "ByteCodeConvert_kept a depth s = Some r"
  then obtain o1 where "rd s a = Some o1" and r: "ByteCodeConvert a depth s = Some r"
    and nt: "\<not> (po_type o1 = PARSEROP_CONFNODE \<and> po_nodeType o1 = CONFIG_NODE_TEMPLATE)"
    by (auto simp: ByteCodeConvert_kept_def split: option.splits if_splits)
  then consider "snd r = s"
    | entry :: "uint8_t \<times> nat" and s1 where "upd a (\<lambda>o2. o2\<lparr>po_opCode := fst entry\<rparr>) s = Some s1" "HcsCalculateOpcodeSize a s1 = Some (snd r)"
    unfolding ByteCodeConvert_def by (cases r) (auto simp: bind_eq_Some_conv split: option.splits)
  then show "same_links (as_heap s) (as_heap (snd r)) x"
  proof cases
    case 2
    from upd_links [OF 2(1)] have "same_links (as_heap s) (as_heap s1) x" by simp
    with calculate_links [OF 2(2)] show ?thesis by (blast intro: same_links_trans)
  qed simp
qed

lemma text_size_run:
  "encodable (as_str s) o1 \<Longrightarrow> po_opCode o2 = fst (g_byteCodeMap (po_type o1)) \<Longrightarrow> po_name o2 = po_name o1 \<Longrightarrow>
   po_value o2 = po_value o1 \<Longrightarrow>
   (if po_opCode o2 = HCS_NODE_OP \<or> po_opCode o2 = HCS_TERM_OP
    then map_option (\<lambda>n. HcsAlign (as_align s) (length n + 1)) (po_name o2)
    else if po_opCode o2 = HCS_STRING_OP
    then map_option (\<lambda>b. HcsAlign (as_align s) (length b + 1)) (rd_str s (po_value o2))
    else Some 0) = Some (text_size (as_align s) (as_str s) o1)"
  unfolding encodable_def g_byteCodeMap_def text_size_def rd_str_def
  by (elim conjE insertE) auto

lemma encodable_type:
  "encodable S d \<Longrightarrow> \<not> PARSEROP_COUNT \<le> po_type d
     \<and> \<not> (po_type d = PARSEROP_CONFNODE \<and> po_nodeType d = CONFIG_NODE_TEMPLATE)"
  unfolding encodable_def by (elim conjE insertE) (simp_all add: word_le_nat_alt)

lemma calculate_size:
  assumes a: "as_heap s a = Some o1" "a \<noteq> 0" "encodable (as_str s) o1" "po_size o1 = 0"
    and ks: "linked (as_heap s) a (po_child o1) ks" "holds_data (as_heap s) (marks (as_align s) (as_str s) ks)"
      "a \<notin> set (addrs ks)"
  shows "ByteCodeConvert_kept a depth s = Some (NOERR, s\<lparr>as_heap := (as_heap s)(a \<mapsto> mark (as_align s) (as_str s) o1 ks)\<rparr>)"
proof -
  let ?o2 = "o1\<lparr>po_opCode := fst (g_byteCodeMap (po_type o1))\<rparr>"
  let ?s = "s\<lparr>as_heap := (as_heap s)(a \<mapsto> ?o2)\<rparr>"
  have c1: "linked (as_heap ?s) a (po_child o1) ks"
    by (rule linked_cong_eq [OF ks(1)]) (use ks(3) in auto)
  have c2: "holds_data (as_heap ?s) (marks (as_align s) (as_str s) ks)"
    by (rule holds_data_cong [OF ks(2)]) (use ks(3) in auto)
  have kids: "children_size ?s (po_child o1) 0 = Some (of_nat (trees_size (as_align s) (as_str s) ks))"
    using children_size_marks [OF c1 c2, of 0] by (simp only: add_0_left)
  have types: "HcsParserObjectTypeToByteCode (po_type o1) = Some (g_byteCodeMap (po_type o1))"
    "\<not> (po_type o1 = PARSEROP_CONFNODE \<and> po_nodeType o1 = CONFIG_NODE_TEMPLATE)"
    using encodable_type [OF a(3)] by (simp_all add: HcsParserObjectTypeToByteCode_def)
  have rd: "rd ?s a = Some ?o2" "rd s a = Some o1" using a by (simp_all add: rd_def)
  have "HcsCalculateOpcodeSize a ?s = Some (s\<lparr>as_heap := (as_heap s)(a \<mapsto> mark (as_align s) (as_str s) o1 ks)\<rparr>)"
    unfolding HcsCalculateOpcodeSize_def
    using text_size_run [of ?s o1 ?o2] a kids rd(1)
    by (simp add: upd_def mark_def own_size_def algebra_simps)
  with types rd(2) show ?thesis
    by (cases "po_type o1 = PARSEROP_CONFNODE") (simp_all add: ByteCodeConvert_kept_def ByteCodeConvert_def upd_def)
qed


lemma without_links: "(mark al S (unlinked o1) ks) = unlinked (mark al S o1 ks)"
  by (simp add: mark_def unlinked_def own_size_def text_size_def)

lemma encodable_unlinked [simp]: "encodable S (unlinked o1) \<longleftrightarrow> encodable S o1"
  by (simp add: encodable_def)

lemma mark_links [simp]:
  "po_parent (mark al S o1 ks) = po_parent o1" "po_next (mark al S o1 ks) = po_next o1"
  "po_child (mark al S o1 ks) = po_child o1"
  by (simp_all add: mark_def)

text \<open>The first walk marks every object of a list of trees and changes nothing else.\<close>

lemma convert_run:
  "forest (as_heap s) par p ts \<Longrightarrow> all_encodable (as_str s) ts \<Longrightarrow> no_sizes ts \<Longrightarrow>
   \<exists>H. walk_run AstWalkCallBackDefault ByteCodeConvert_kept True EINVALARG depth ts s = Some (NOERR, s\<lparr>as_heap := H\<rparr>)
     \<and> forest H par p (marks (as_align s) (as_str s) ts) \<and> (\<forall>x. x \<notin> set (addrs ts) \<longrightarrow> H x = as_heap s x)"
proof (induction ts arbitrary: p par depth s rule: addrs.induct)
  case 1
  then show ?case by (intro exI [of _ "as_heap s"]) simp
next
  case (2 a d ks ts)
  let ?m = "marks (as_align s) (as_str s)"
  obtain o1 where o1: "p = a" "a \<noteq> 0" "as_heap s a = Some o1" "po_parent o1 = par" "unlinked o1 = d"
    "forest (as_heap s) a (po_child o1) ks" "forest (as_heap s) par (po_next o1) ts"
    and new: "a \<notin> set (addrs ks)" "a \<notin> set (addrs ts)" "set (addrs ks) \<inter> set (addrs ts) = {}"
    using "2.prems"(1) by (auto simp: forest_Cons)
  have enc: "encodable (as_str s) o1" "po_size o1 = 0" "all_encodable (as_str s) ks" "all_encodable (as_str s) ts"
    "no_sizes ks" "no_sizes ts"
    using "2.prems"(2,3) o1(5) by auto
  from "2.IH"(1) [OF o1(6) enc(3,5), of "depth + 1"] obtain H1 where H1:
    "walk_run AstWalkCallBackDefault ByteCodeConvert_kept True EINVALARG (depth + 1) ks s = Some (NOERR, s\<lparr>as_heap := H1\<rparr>)"
    "forest H1 a (po_child o1) (?m ks)" "\<And>x. x \<notin> set (addrs ks) \<Longrightarrow> H1 x = as_heap s x" by blast
  define H2 where "H2 = H1(a \<mapsto> mark (as_align s) (as_str s) o1 ks)"
  have step: "ByteCodeConvert_kept a depth (s\<lparr>as_heap := H1\<rparr>) = Some (NOERR, s\<lparr>as_heap := H2\<rparr>)"
    unfolding H2_def
    using calculate_size [of "s\<lparr>as_heap := H1\<rparr>" a o1 ks depth] H1(2,3) new(1) o1(2,3,6) enc(1,2)
    by (simp add: forest_def linked_marks)
  have H2: "H2 x = as_heap s x" if "x \<notin> set (addrs ks)" "x \<noteq> a" for x using that H1(3) by (simp add: H2_def)
  have "forest (as_heap (s\<lparr>as_heap := H2\<rparr>)) par (po_next o1) ts"
    using new by (auto intro!: forest_cong [OF o1(7)] H2)
  from "2.IH"(2) [OF this _ enc(6), of depth] enc(4) obtain H3 where H3:
    "walk_run AstWalkCallBackDefault ByteCodeConvert_kept True EINVALARG depth ts (s\<lparr>as_heap := H2\<rparr>) = Some (NOERR, s\<lparr>as_heap := H3\<rparr>)"
    "forest H3 par (po_next o1) (?m ts)" "\<And>x. x \<notin> set (addrs ts) \<Longrightarrow> H3 x = H2 x" by auto
  have "walk_run AstWalkCallBackDefault ByteCodeConvert_kept True EINVALARG depth (Tree a d ks # ts) s
      = Some (NOERR, s\<lparr>as_heap := H3\<rparr>)"
    using H1(1) step H3(1) by (simp add: backward_run_Cons after_children_def)
  moreover have "forest H3 a (po_child o1) (?m ks)"
  proof (rule forest_cong [OF H1(2)])
    fix x assume "x \<in> set (addrs (?m ks))"
    then have "x \<notin> set (addrs ts)" "x \<noteq> a" using new by auto
    then show "H3 x = H1 x" by (simp add: H3(3) H2_def)
  qed
  then have "forest H3 par p (?m (Tree a d ks # ts))"
    using o1 H3(2,3) new by (auto simp: forest_Cons H2_def without_links)
  moreover have "H3 x = as_heap s x" if "x \<notin> set (addrs (Tree a d ks # ts))" for x
    using that H3(3) H2 by simp
  ultimately show ?case by blast
qed


text \<open>A callback that faults less often does not change a walk that succeeds.\<close>

lemma backward_walk_extends:
  "HcsBackwardWalkAst_loop f st a depth vis s = Some r \<Longrightarrow>
   (\<And>a depth s r. f a depth s = Some r \<Longrightarrow> g a depth s = Some r) \<Longrightarrow>
   HcsBackwardWalkAst_loop g st a depth vis s = Some r"
proof (induction arbitrary: g rule: HcsBackwardWalkAst_loop.raw_induct [rotated, consumes 1, case_names step])
  case (step W f st a depth vis s r)
  note IH = step.IH [OF _ step.prems]
  show ?case
  proof (cases "a = 0")
    case True
    with step.hyps show ?thesis by (subst HcsBackwardWalkAst_loop.simps) simp
  next
    case False
    then obtain o1 where o1: "rd s a = Some o1" using step.hyps by (auto simp: bind_eq_Some_conv)
    show ?thesis
    proof (cases "po_child o1 = 0 \<or> vis")
      case True
      then obtain q where q: "f a depth s = Some q"
        using step.hyps False o1 by (auto simp: bind_eq_Some_conv)
      show ?thesis
        using step.hyps False o1 True q step.prems [OF q] IH
        by (subst HcsBackwardWalkAst_loop.simps) (auto split: prod.splits if_splits)
    next
      case no: False
      with step.hyps False o1 IH show ?thesis by (subst HcsBackwardWalkAst_loop.simps) auto
    qed
  qed
qed


section \<open>The writing walks\<close>

text \<open>All writes succeed from here on, and a file is open unless the output is a dummy.\<close>

definition writable :: "ast \<Rightarrow> bool" where
  "writable s \<longleftrightarrow> as_fenv s = [] \<and> (as_dummy s \<or> as_out s \<noteq> None)"

definition wrote :: "bytes \<Rightarrow> ast \<Rightarrow> ast" where
  "wrote bs s = s\<lparr>as_count := as_count s + of_nat (length bs),
     as_out := (if as_dummy s then as_out s else map_option (\<lambda>b. b @ bs) (as_out s))\<rparr>"

lemma wrote_Nil [simp]: "wrote [] s = s"
  by (cases s) (simp add: wrote_def option.map_ident)

lemma wrote_wrote [simp]: "wrote ys (wrote xs s) = wrote (xs @ ys) s"
  by (simp add: wrote_def option.map_comp comp_def add.assoc)

lemma wrote_sel [simp]:
  "as_count (wrote bs s) = as_count s + of_nat (length bs)"
  "as_heap (wrote bs s) = as_heap s" "as_str (wrote bs s) = as_str s" "as_align (wrote bs s) = as_align s"
  "as_dummy (wrote bs s) = as_dummy s" "as_fenv (wrote bs s) = as_fenv s" "writable (wrote bs s) = writable s"
  "rd (wrote bs s) = rd s" "rd_str (wrote bs s) v = rd_str s v" "as_root (wrote bs s) = as_root s"
  by (simp_all add: wrote_def writable_def rd_def rd_str_def fun_eq_iff split: pvalue.split)

lemma write_succeeds: "writable s \<Longrightarrow> HcsOutputWrite bs s = Some (NOERR, wrote bs s)"
  by (auto simp: HcsOutputWrite_def wrote_def writable_def Let_def option.map_ident)

lemma write_align_succeeds:
  "writable s \<Longrightarrow> HcsOutputWriteAlign_file bs s = Some (NOERR, wrote (HcsOutputWriteAlign (as_align s) bs) s)"
  by (auto simp: HcsOutputWriteAlign_file_def write_succeeds HcsOutputWriteAlign_def Let_def)

lemma count_array_loop:
  "linked (as_heap s) par p ts \<Longrightarrow> HcsCountArraySize_loop s p n = Some (n + of_nat (length ts))"
  by (induction ts arbitrary: p n rule: addrs.induct)
    (subst HcsCountArraySize_loop.simps; auto simp: rd_def algebra_simps)+

text \<open>One object is written: its hash is its offset, and its own bytes are added.\<close>

definition hash_in :: "(addr \<rightharpoonup> ParserObject) \<Rightarrow> addr \<Rightarrow> uint32_t" where
  "hash_in H r = (case H r of Some t \<Rightarrow> po_hash t | None \<Rightarrow> 0)"

definition ref_ok :: "(addr \<rightharpoonup> ParserObject) \<Rightarrow> ParserObject \<Rightarrow> bool" where
  "ref_ok H d \<longleftrightarrow> (\<forall>r. po_type d = PARSEROP_NODEREF \<and> po_value d = VObj r \<longrightarrow> r \<noteq> 0 \<and> H r \<noteq> None)"

lemma write_object:
  fixes s :: ast and o1 :: ParserObject and a :: addr
  defines "H \<equiv> (as_heap s)(a \<mapsto> o1\<lparr>po_hash := as_count s\<rparr>)"
  assumes a: "as_heap s a = Some o1" "a \<noteq> 0" "encodable (as_str s) o1" "ref_ok (as_heap s) o1"
    and code: "po_opCode o1 = fst (g_byteCodeMap (po_type o1))" "po_subSize o1 = sub"
    and ks: "linked (as_heap s) a (po_child o1) ks" "a \<notin> set (addrs ks)" and w: "writable s"
  shows "ByteCodeWriteWalk a depth s
    = Some (NOERR, wrote (own_bytes (as_align s) (hash_in H) (as_str s) sub (length ks) o1) (s\<lparr>as_heap := H\<rparr>))"
proof -
  let ?s = "s\<lparr>as_heap := H\<rparr>" and ?o = "o1\<lparr>po_hash := as_count s\<rparr>"
  have up: "upd a (\<lambda>o1. o1\<lparr>po_hash := as_count s\<rparr>) s = Some ?s" "rd ?s a = Some ?o"
    using a by (simp_all add: upd_def rd_def H_def)
  have w': "writable ?s" using w by (simp add: writable_def)
  have "linked H a (po_child o1) ks"
    by (rule linked_cong_eq [OF ks(1)]) (use ks(2) in \<open>auto simp: H_def\<close>)
  then have "HcsCountArraySize (wrote bs ?s) a = Some (of_nat (length ks))" for bs
    using up(2) a(2) count_array_loop [of "wrote bs ?s" a "po_child o1" ks 0]
    by (simp add: HcsCountArraySize_def)
  moreover have "rd_str ?s v = rd_str s v" for v by (simp add: rd_str_def split: pvalue.split)
  moreover have "rd ?s r = Some t \<Longrightarrow> po_hash t = hash_in H r" for r t
    by (auto simp: rd_def hash_in_def split: if_splits)
  moreover have "\<exists>t. rd ?s r = Some t" if "po_type o1 = PARSEROP_NODEREF" "po_value o1 = VObj r" for r
    using a(4) that by (auto simp: rd_def H_def ref_ok_def)
  ultimately show ?thesis
    using a(3) unfolding ByteCodeWriteWalk_def encodable_def own_bytes_def g_byteCodeMap_def
    by (elim conjE insertE)
      (auto simp: up w' write_align_succeeds code g_byteCodeMap_def rd_str_def)
qed


text \<open>The offsets of the objects, when the first of them is at \<open>n\<close>.\<close>

fun hashed :: "bool \<Rightarrow> (addr \<rightharpoonup> bytes) \<Rightarrow> uint32_t \<Rightarrow> tree list \<Rightarrow> tree list" where
  "hashed al S n [] = []"
| "hashed al S n (Tree a d ks # ts) =
     Tree a (d\<lparr>po_hash := n\<rparr>) (hashed al S (n + of_nat (own_size al S d)) ks)
     # hashed al S (n + of_nat (own_size al S d) + of_nat (trees_size al S ks)) ts"

fun offsets :: "bool \<Rightarrow> (addr \<rightharpoonup> bytes) \<Rightarrow> uint32_t \<Rightarrow> tree list \<Rightarrow> (addr \<times> uint32_t) list" where
  "offsets al S n [] = []"
| "offsets al S n (Tree a d ks # ts) =
     (a, n) # offsets al S (n + of_nat (own_size al S d)) ks
     @ offsets al S (n + of_nat (own_size al S d) + of_nat (trees_size al S ks)) ts"

text \<open>Trees marked by the first walk.\<close>

fun coded :: "bool \<Rightarrow> (addr \<rightharpoonup> bytes) \<Rightarrow> tree list \<Rightarrow> bool" where
  "coded al S [] \<longleftrightarrow> True"
| "coded al S (Tree a d ks # ts) \<longleftrightarrow> po_opCode d = fst (g_byteCodeMap (po_type d))
     \<and> po_subSize d = of_nat (trees_size al S ks) \<and> coded al S ks \<and> coded al S ts"

lemma own_size_fields [simp]:
  "own_size al S (mark al S d ks) = own_size al S d" "own_size al S (d\<lparr>po_hash := n\<rparr>) = own_size al S d"
  "own_size al S (unlinked d) = own_size al S d"
  by (simp_all add: mark_def own_size_def text_size_def)

lemma trees_size_marks [simp]: "trees_size al S (marks al S ts) = trees_size al S ts"
  by (induction ts rule: addrs.induct) simp_all

lemma trees_size_hashed [simp]: "trees_size al S (hashed al S n ts) = trees_size al S ts"
  by (induction ts arbitrary: n rule: addrs.induct) simp_all

lemma coded_marks [simp]: "coded al S (marks al S ts)"
  by (induction ts rule: addrs.induct) (simp_all add: mark_def)

lemma coded_hashed [simp]: "coded al S (hashed al S n ts) = coded al S ts"
  by (induction ts arbitrary: n rule: addrs.induct) simp_all

lemma encodable_fields [simp]:
  "encodable S (mark al S d ks) = encodable S d" "encodable S (d\<lparr>po_hash := n\<rparr>) = encodable S d"
  by (simp_all add: mark_def encodable_def)

lemma all_encodable_marks [simp]: "all_encodable S (marks al S ts) = all_encodable S ts"
  by (induction ts rule: addrs.induct) simp_all

lemma all_encodable_hashed [simp]: "all_encodable S (hashed al S n ts) = all_encodable S ts"
  by (induction ts arbitrary: n rule: addrs.induct) simp_all

lemma addrs_hashed [simp]: "addrs (hashed al S n ts) = addrs ts"
  by (induction ts arbitrary: n rule: addrs.induct) simp_all

lemma hashed_hashed [simp]: "hashed al S n (hashed al S n ts) = hashed al S n ts"
  by (induction ts arbitrary: n rule: addrs.induct) simp_all

lemma length_hashed [simp]: "length (hashed al S n ts) = length ts"
  by (induction ts arbitrary: n rule: addrs.induct) simp_all

lemma length_marks [simp]: "length (marks al S ts) = length ts"
  by (induction ts rule: addrs.induct) simp_all

lemma own_bytes_fields [simp]:
  "own_bytes al pos S sub n (mark al S d ks) = own_bytes al pos S sub n d"
  "own_bytes al pos S sub n (d\<lparr>po_hash := h\<rparr>) = own_bytes al pos S sub n d"
  "own_bytes al pos S sub n (unlinked d) = own_bytes al pos S sub n d"
  by (simp_all add: own_bytes_def mark_def cong: if_cong)

lemma trees_bytes_marks [simp]: "trees_bytes al pos S (marks al S ts) = trees_bytes al pos S ts"
  by (induction ts rule: addrs.induct) simp_all

lemma trees_bytes_hashed [simp]: "trees_bytes al pos S (hashed al S n ts) = trees_bytes al pos S ts"
  by (induction ts arbitrary: n rule: addrs.induct) simp_all

lemma map_fst_offsets [simp]: "map fst (offsets al S n ts) = addrs ts"
  by (induction ts arbitrary: n rule: addrs.induct) simp_all

lemma hash_offsets: "map (\<lambda>(a, d). (a, po_hash d)) (nodes (hashed al S n ts)) = offsets al S n ts"
  by (induction ts arbitrary: n rule: addrs.induct) simp_all

text \<open>Targets of references.\<close>

definition targets :: "tree list \<Rightarrow> addr set" where
  "targets ts = {r. \<exists>(a, d) \<in> set (nodes ts). po_type d = PARSEROP_NODEREF \<and> po_value d = VObj r}"

lemma targets_simps [simp]:
  "targets [] = {}"
  "targets (Tree a d ks # ts) = {r. po_type d = PARSEROP_NODEREF \<and> po_value d = VObj r} \<union> targets ks \<union> targets ts"
  by (auto simp: targets_def)

lemma targets_marks [simp]: "targets (marks al S ts) = targets ts"
  by (induction ts rule: addrs.induct) (simp_all add: mark_def)

lemma targets_hashed [simp]: "targets (hashed al S n ts) = targets ts"
  by (induction ts arbitrary: n rule: addrs.induct) simp_all


lemma wrote_dummy: "as_dummy s \<Longrightarrow> wrote bs s = s\<lparr>as_count := as_count s + of_nat (length bs)\<rparr>"
  by (cases s) (simp add: wrote_def)

lemma ref_ok_targets:
  "ref_ok H d \<longleftrightarrow> {r. po_type d = PARSEROP_NODEREF \<and> po_value d = VObj r} \<subseteq> {r. r \<noteq> 0 \<and> H r \<noteq> None}"
  by (auto simp: ref_ok_def)

lemma ref_ok_unlinked [simp]: "ref_ok H (unlinked d) = ref_ok H d"
  by (simp add: ref_ok_def)

lemma unlinked_hash: "unlinked (o1\<lparr>po_hash := n\<rparr>) = (unlinked o1)\<lparr>po_hash := n\<rparr>"
  by (simp add: unlinked_def)

text \<open>The dummy pass only sets the hashes and counts.\<close>

lemma dummy_run:
  "forest (as_heap s) par p ts \<Longrightarrow> all_encodable (as_str s) ts \<Longrightarrow> coded (as_align s) (as_str s) ts \<Longrightarrow>
   targets ts \<subseteq> {r. r \<noteq> 0 \<and> as_heap s r \<noteq> None} \<Longrightarrow> writable s \<Longrightarrow> as_dummy s \<Longrightarrow>
   \<exists>H. walk_run ByteCodeWriteWalk AstWalkCallBackDefault False e depth ts s
       = Some (NOERR, s\<lparr>as_heap := H, as_count := as_count s + of_nat (trees_size (as_align s) (as_str s) ts)\<rparr>)
     \<and> forest H par p (hashed (as_align s) (as_str s) (as_count s) ts)
     \<and> (\<forall>x. x \<notin> set (addrs ts) \<longrightarrow> H x = as_heap s x) \<and> (\<forall>x. H x = None \<longleftrightarrow> as_heap s x = None)"
proof (induction ts arbitrary: p par depth s rule: addrs.induct)
  case 1
  then show ?case by (intro exI [of _ "as_heap s"]) simp
next
  case (2 a d ks ts)
  let ?al = "as_align s" and ?S = "as_str s" and ?W = "walk_run ByteCodeWriteWalk AstWalkCallBackDefault False e"
  obtain o1 where o1: "p = a" "a \<noteq> 0" "as_heap s a = Some o1" "po_parent o1 = par" "unlinked o1 = d"
    "forest (as_heap s) a (po_child o1) ks" "forest (as_heap s) par (po_next o1) ts"
    and new: "a \<notin> set (addrs ks)" "a \<notin> set (addrs ts)" "set (addrs ks) \<inter> set (addrs ts) = {}"
    using "2.prems"(1) by (auto simp: forest_Cons)
  have enc: "encodable ?S o1" "all_encodable ?S ks" "all_encodable ?S ts" "ref_ok (as_heap s) o1"
    "coded ?al ?S ks" "coded ?al ?S ts" "po_opCode o1 = fst (g_byteCodeMap (po_type o1))"
    "po_subSize o1 = of_nat (trees_size ?al ?S ks)"
    "targets ks \<subseteq> {r. r \<noteq> 0 \<and> as_heap s r \<noteq> None}" "targets ts \<subseteq> {r. r \<noteq> 0 \<and> as_heap s r \<noteq> None}"
    using "2.prems"(2-4) o1(5) by (auto simp: ref_ok_targets)
  define H1 where "H1 = (as_heap s)(a \<mapsto> o1\<lparr>po_hash := as_count s\<rparr>)"
  define s1 where "s1 = s\<lparr>as_heap := H1, as_count := as_count s + of_nat (own_size ?al ?S o1)\<rparr>"
  have s1: "as_heap s1 = H1" "as_align s1 = ?al" "as_str s1 = ?S" "writable s1" "as_dummy s1"
    "as_count s1 = as_count s + of_nat (own_size ?al ?S o1)"
    using "2.prems"(5,6) by (simp_all add: s1_def writable_def)
  have step: "ByteCodeWriteWalk a depth s = Some (NOERR, s1)"
    using write_object [OF o1(3,2) enc(1,4,7,8) forest_linked [OF o1(6)] new(1) "2.prems"(5), of depth] "2.prems"(6)
    by (simp add: wrote_dummy own_bytes_length enc(1) s1_def H1_def)
  have alive: "H1 x = None \<longleftrightarrow> as_heap s x = None" for x using o1(3) by (simp add: H1_def)
  have "forest (as_heap s1) a (po_child o1) ks"
    unfolding s1 by (rule forest_cong [OF o1(6)]) (use new in \<open>auto simp: H1_def\<close>)
  from "2.IH"(1) [OF this, unfolded s1, OF enc(2,5) _ s1(4,5), of "depth + 1"] enc(9) alive
  obtain H2 where H2: "?W (depth + 1) ks s1
      = Some (NOERR, s1\<lparr>as_heap := H2, as_count := as_count s1 + of_nat (trees_size ?al ?S ks)\<rparr>)"
    "forest H2 a (po_child o1) (hashed ?al ?S (as_count s1) ks)" "\<And>x. x \<notin> set (addrs ks) \<Longrightarrow> H2 x = H1 x"
    "\<And>x. H2 x = None \<longleftrightarrow> H1 x = None"
    by (auto simp: s1)
  define s2 where "s2 = s1\<lparr>as_heap := H2, as_count := as_count s1 + of_nat (trees_size ?al ?S ks)\<rparr>"
  have s2: "as_heap s2 = H2" "as_align s2 = ?al" "as_str s2 = ?S" "writable s2" "as_dummy s2"
    "as_count s2 = as_count s1 + of_nat (trees_size ?al ?S ks)"
    using s1 by (simp_all add: s2_def writable_def)
  have "forest (as_heap s2) par (po_next o1) ts"
    unfolding s2
  proof (rule forest_cong [OF o1(7)])
    fix x assume "x \<in> set (addrs ts)"
    then have "x \<notin> set (addrs ks)" "x \<noteq> a" using new by auto
    then show "H2 x = as_heap s x" by (simp add: H2(3) H1_def)
  qed
  from "2.IH"(2) [OF this, unfolded s2, OF enc(3,6) _ s2(4,5), of depth] enc(10) alive H2(4)
  obtain H3 where H3: "?W depth ts s2
      = Some (NOERR, s2\<lparr>as_heap := H3, as_count := as_count s2 + of_nat (trees_size ?al ?S ts)\<rparr>)"
    "forest H3 par (po_next o1) (hashed ?al ?S (as_count s2) ts)" "\<And>x. x \<notin> set (addrs ts) \<Longrightarrow> H3 x = H2 x"
    "\<And>x. H3 x = None \<longleftrightarrow> H2 x = None"
    by (auto simp: s2)
  have "?W depth (Tree a d ks # ts) s = Some (NOERR, s\<lparr>as_heap := H3,
      as_count := as_count s + of_nat (trees_size ?al ?S (Tree a d ks # ts))\<rparr>)"
    using forward_run_Cons [where f = ByteCodeWriteWalk, OF step, of e d ks ts] H2(1) H3(1) o1(5)
    by (auto simp: s2_def [symmetric]) (simp add: s2_def s1_def add.assoc)
  moreover have "forest H3 a (po_child o1) (hashed ?al ?S (as_count s1) ks)"
  proof (rule forest_cong [OF H2(2)])
    fix x assume "x \<in> set (addrs (hashed ?al ?S (as_count s1) ks))"
    then have "x \<notin> set (addrs ts)" using new by auto
    then show "H3 x = H2 x" by (rule H3(3))
  qed
  then have "forest H3 par p (hashed ?al ?S (as_count s) (Tree a d ks # ts))"
    using o1 H3(2,3) H2(3) new s1(6) s2(6) by (auto simp: forest_Cons H1_def unlinked_hash)
  moreover have "H3 x = as_heap s x" if "x \<notin> set (addrs (Tree a d ks # ts))" for x
    using that H3(3) H2(3) by (simp add: H1_def)
  moreover have "H3 x = None \<longleftrightarrow> as_heap s x = None" for x using H3(4) H2(4) alive by simp
  ultimately show ?case by blast
qed


text \<open>The second pass writes; when the hashes are right it leaves the heap as it is.\<close>

lemma own_bytes_cong:
  "encodable S' d \<Longrightarrow> (\<And>r. po_type d = PARSEROP_NODEREF \<Longrightarrow> po_value d = VObj r \<Longrightarrow> pos r = pos' r) \<Longrightarrow>
   own_bytes al pos S sub n d = own_bytes al pos' S sub n d"
  unfolding encodable_def own_bytes_def by (elim conjE insertE) auto

lemma real_run:
  "forest (as_heap s) par p ts \<Longrightarrow> all_encodable (as_str s) ts \<Longrightarrow> coded (as_align s) (as_str s) ts \<Longrightarrow>
   hashed (as_align s) (as_str s) (as_count s) ts = ts \<Longrightarrow>
   (\<And>r. r \<in> targets ts \<Longrightarrow> r \<noteq> 0 \<and> as_heap s r \<noteq> None \<and> hash_in (as_heap s) r = pos r) \<Longrightarrow> writable s \<Longrightarrow>
   walk_run ByteCodeWriteWalk AstWalkCallBackDefault False e depth ts s
     = Some (NOERR, wrote (trees_bytes (as_align s) pos (as_str s) ts) s)"
proof (induction ts arbitrary: p par depth s rule: addrs.induct)
  case 1
  then show ?case by simp
next
  case (2 a d ks ts)
  let ?al = "as_align s" and ?S = "as_str s" and ?W = "walk_run ByteCodeWriteWalk AstWalkCallBackDefault False e"
  obtain o1 where o1: "p = a" "a \<noteq> 0" "as_heap s a = Some o1" "po_parent o1 = par" "unlinked o1 = d"
    "forest (as_heap s) a (po_child o1) ks" "forest (as_heap s) par (po_next o1) ts"
    and new: "a \<notin> set (addrs ks)"
    using "2.prems"(1) by (auto simp: forest_Cons)
  have enc: "encodable ?S o1" "all_encodable ?S ks" "all_encodable ?S ts"
    "coded ?al ?S ks" "coded ?al ?S ts" "po_opCode o1 = fst (g_byteCodeMap (po_type o1))"
    "po_subSize o1 = of_nat (trees_size ?al ?S ks)"
    using "2.prems"(2,3) o1(5) by auto
  have ref: "ref_ok (as_heap s) o1" using "2.prems"(5) o1(5) by (force simp: ref_ok_def)
  have hash: "d\<lparr>po_hash := as_count s\<rparr> = d"
    "hashed ?al ?S (as_count s + of_nat (own_size ?al ?S o1)) ks = ks"
    "hashed ?al ?S (as_count s + of_nat (own_size ?al ?S o1) + of_nat (trees_size ?al ?S ks)) ts = ts"
    using "2.prems"(4) o1(5) by auto
  have "po_hash o1 = as_count s" using arg_cong [OF hash(1), of po_hash] o1(5) by auto
  then have same: "(as_heap s)(a \<mapsto> o1\<lparr>po_hash := as_count s\<rparr>) = as_heap s" "s\<lparr>as_heap := as_heap s\<rparr> = s"
    using o1(3) by auto
  have own: "own_bytes ?al (hash_in (as_heap s)) ?S (of_nat (trees_size ?al ?S ks)) (length ks) o1
      = own_bytes ?al pos ?S (of_nat (trees_size ?al ?S ks)) (length ks) d"
    unfolding o1(5) [symmetric] own_bytes_fields
    by (rule own_bytes_cong [OF enc(1)]) (use "2.prems"(5) o1(5) in auto)
  let ?b = "own_bytes ?al pos ?S (of_nat (trees_size ?al ?S ks)) (length ks) d"
  have step: "ByteCodeWriteWalk a depth s = Some (NOERR, wrote ?b s)"
    using write_object [OF o1(3,2) enc(1) ref enc(6,7) forest_linked [OF o1(6)] new "2.prems"(6), of depth]
    by (simp add: same own)
  have len: "length ?b = own_size ?al ?S o1" "length (trees_bytes ?al pos ?S ks) = trees_size ?al ?S ks"
    using own_bytes_length [of ?S d] enc(1,2) o1(5) by (auto simp: trees_bytes_length)
  have t: "r \<noteq> 0 \<and> as_heap s r \<noteq> None \<and> hash_in (as_heap s) r = pos r" if "r \<in> targets ks \<or> r \<in> targets ts" for r
    using "2.prems"(5) that by auto
  have "?W (depth + 1) ks (wrote ?b s) = Some (NOERR, wrote (?b @ trees_bytes ?al pos ?S ks) s)"
    using "2.IH"(1) [of "wrote ?b s" a "po_child o1" "depth + 1"] o1(6) enc(2,4) hash(2) t "2.prems"(6) len
    by simp
  moreover have "?W depth ts (wrote (?b @ trees_bytes ?al pos ?S ks) s)
      = Some (NOERR, wrote (?b @ trees_bytes ?al pos ?S ks @ trees_bytes ?al pos ?S ts) s)"
    using "2.IH"(2) [of "wrote (?b @ trees_bytes ?al pos ?S ks) s" par "po_next o1" depth] o1(7) enc(3,5) hash(3) t
      "2.prems"(6) len
    by (simp add: add.assoc)
  ultimately show ?case
    using forward_run_Cons [where f = ByteCodeWriteWalk, OF step, of e d ks ts] by simp
qed


section \<open>The back end\<close>

text \<open>The three walks, started at the root of a tree of its own.\<close>

lemma forest_single:
  "forest H 0 p [Tree a d ks] \<longleftrightarrow> p = a \<and> a \<noteq> 0 \<and> a \<notin> set (addrs ks) \<and> (\<exists>o1. H a = Some o1 \<and> po_parent o1 = 0
     \<and> unlinked o1 = d \<and> po_next o1 = 0 \<and> forest H a (po_child o1) ks)"
  by (auto simp: forest_Cons)

lemma convert_walk:
  assumes t: "forest (as_heap s) 0 p [t]" "all_encodable (as_str s) [t]" "no_sizes [t]"
  obtains H where "HcsWalkAst p AST_WALK_BACKEND None (Some ByteCodeConvert) s = Some (NOERR, s\<lparr>as_heap := H\<rparr>)"
    "forest H 0 p (marks (as_align s) (as_str s) [t])"
proof -
  obtain a d ks where tree: "t = Tree a d ks" by (cases t)
  then obtain o1 where o1: "p = a" "p \<noteq> 0" "as_heap s p = Some o1" "p \<notin> set (addrs ks)"
    "forest (as_heap s) p (po_child o1) ks"
    using t(1) by (auto simp: forest_single)
  from convert_run [OF t, of 0] obtain H where H:
    "walk_run AstWalkCallBackDefault ByteCodeConvert_kept True EINVALARG 0 [t] s = Some (NOERR, s\<lparr>as_heap := H\<rparr>)"
    "forest H 0 p (marks (as_align s) (as_str s) [t])" by blast
  have "HcsBackwardWalkAst_loop ByteCodeConvert_kept p p 0 False s = Some (NOERR, s\<lparr>as_heap := H\<rparr>)"
    using backward_walk.walk_tree [OF keeps_links_default keeps_links_convert o1(3,2) forest_linked [OF o1(5)] o1(4), of 0 d]
      H(1) tree o1(1) by simp
  then have "HcsBackwardWalkAst_loop ByteCodeConvert p p 0 False s = Some (NOERR, s\<lparr>as_heap := H\<rparr>)"
    by (rule backward_walk_extends) (auto simp: ByteCodeConvert_kept_def split: option.splits if_splits)
  with H(2) o1(2) that show ?thesis by (simp add: HcsWalkAst_def HcsBackwardWalkAst_def)
qed

lemma keeps_links_write: "keeps_links ByteCodeWriteWalk"
  unfolding keeps_links_def
proof (intro allI impI)
  fix a depth s r x
  assume r: "ByteCodeWriteWalk a depth s = Some r"
  have w: "HcsOutputWrite bs s = Some q \<Longrightarrow> as_heap (snd q) = as_heap s" for bs s q
    by (auto simp: HcsOutputWrite_def Let_def split: if_splits option.splits prod.splits)
  have wa: "HcsOutputWriteAlign_file bs s = Some q \<Longrightarrow> as_heap (snd q) = as_heap s" for bs s q
    by (auto simp: HcsOutputWriteAlign_file_def Let_def bind_eq_Some_conv dest!: w split: if_splits)
  from r obtain s0 where s0: "upd a (\<lambda>o1. o1\<lparr>po_hash := as_count s\<rparr>) s = Some s0" "as_heap (snd r) = as_heap s0"
    unfolding ByteCodeWriteWalk_def
    by (auto simp: bind_eq_Some_conv dest!: wa split: if_splits pvalue.splits)
  from upd_links [OF s0(1)] s0(2) show "same_links (as_heap s) (as_heap (snd r)) x" by simp
qed

lemma write_walk:
  assumes "forest (as_heap s) 0 p [t]"
  shows "HcsWalkAst p AST_WALK_FORWARD (Some ByteCodeWriteWalk) None s
    = walk_run ByteCodeWriteWalk AstWalkCallBackDefault False EINVALARG 0 [t] s"
proof -
  obtain a d ks where "t = Tree a d ks" by (cases t)
  moreover from this obtain o1 where o1: "p = a" "p \<noteq> 0" "as_heap s p = Some o1" "p \<notin> set (addrs ks)"
    "forest (as_heap s) p (po_child o1) ks"
    using assms by (auto simp: forest_single)
  ultimately show ?thesis
    using forward_walk.walk_tree [OF keeps_links_write keeps_links_default o1(3,2) forest_linked [OF o1(5)] o1(4), of 0 d]
    by (simp add: HcsWalkAst_def HcsForwardWalkAst_def)
qed


text \<open>Each object's offset in the output.\<close>

definition offset_of :: "bool \<Rightarrow> (addr \<rightharpoonup> bytes) \<Rightarrow> tree \<Rightarrow> addr \<Rightarrow> uint32_t" where
  "offset_of al S t r = the (map_of (offsets al S 20 [t]) r)"

lemma offsets_marks [simp]: "offsets al S n (marks al S ts) = offsets al S n ts"
  by (induction ts arbitrary: n rule: addrs.induct) simp_all

lemma hash_of_offset:
  assumes "forest H 0 p (hashed al S 20 (marks al S [t]))" "r \<in> set (addrs [t])"
  shows "r \<noteq> 0 \<and> H r \<noteq> None \<and> hash_in H r = offset_of al S t r"
proof -
  let ?ts = "hashed al S 20 (marks al S [t])"
  have l: "linked H 0 p ?ts" and hd: "holds_data H ?ts" and dist: "distinct (map fst (offsets al S 20 [t]))"
    using assms(1) by (auto simp: forest_def)
  have "r \<in> set (addrs ?ts)" using assms(2) by simp
  then obtain d where d: "(r, d) \<in> set (nodes ?ts)" unfolding set_addrs by auto
  then have "(r, po_hash d) \<in> set (map (\<lambda>(a, d). (a, po_hash d)) (nodes ?ts))" by force
  then have "(r, po_hash d) \<in> set (offsets al S 20 [t])" unfolding hash_offsets offsets_marks .
  then have "map_of (offsets al S 20 [t]) r = Some (po_hash d)" using dist by (simp add: map_of_is_SomeI)
  moreover obtain o1 where "H r = Some o1" "unlinked o1 = d" using hd d by (auto simp: holds_data_def)
  moreover have "r \<noteq> 0" using linked_addrs [OF l] assms(2) by auto
  ultimately show ?thesis by (auto simp: hash_in_def offset_of_def)
qed

lemma HbcHeader_wrote: "length (HcsOutputWriteAlign al (HbcHeader_bytes al n)) = 20"
  by (simp add: HbcHeader_bytes_def)

text \<open>Everything behind the first walk: both writing walks and the check of the size.\<close>

lemma write_passes:
  fixes s :: ast and t :: tree
  defines "al \<equiv> as_align s" and "S \<equiv> as_str s"
  assumes f: "forest (as_heap s) 0 p (marks al S [t])" and enc: "all_encodable S [t]"
    and ref: "targets [t] \<subseteq> set (addrs [t])" and w: "as_fenv s = []" "as_out s = Some []" "as_count s = 0"
  shows "\<exists>H. (let s1 = wrote (HcsOutputWriteAlign al header) (s\<lparr>as_dummy := True\<rparr>);
              s2 = s\<lparr>as_heap := H, as_count := 20 + of_nat (trees_size al S [t]), as_dummy := True\<rparr>;
              s3 = wrote (HcsOutputWriteAlign al header) (s2\<lparr>as_count := 0, as_dummy := False\<rparr>)
           in length (HcsOutputWriteAlign al header) = 20 \<longrightarrow>
              HcsWalkAst p AST_WALK_FORWARD (Some ByteCodeWriteWalk) None s1 = Some (NOERR, s2)
            \<and> HcsWalkAst p AST_WALK_FORWARD (Some ByteCodeWriteWalk) None s3
              = Some (NOERR, wrote (trees_bytes al (offset_of al S t) S [t]) s3))"
proof -
  let ?h = "HcsOutputWriteAlign al header" and ?ts = "marks al S [t]"
  let ?s1 = "wrote ?h (s\<lparr>as_dummy := True\<rparr>)"
  show ?thesis
  proof (cases "length ?h = 20")
    case False
    then show ?thesis by (simp add: Let_def)
  next
    case True
    obtain t1 where t1: "?ts = [t1]" by (cases t) simp
    have s1: "as_heap ?s1 = as_heap s" "as_align ?s1 = al" "as_str ?s1 = S" "writable ?s1" "as_dummy ?s1" "as_count ?s1 = 20"
      using w True by (simp_all add: al_def S_def writable_def)
    have alive: "targets ?ts \<subseteq> {r. r \<noteq> 0 \<and> as_heap s r \<noteq> None}"
      using ref linked_addrs [OF forest_linked [OF f]] by auto
    from dummy_run [of ?s1 0 p ?ts EINVALARG 0, unfolded s1] f enc alive s1(4,5) obtain H where H:
      "walk_run ByteCodeWriteWalk AstWalkCallBackDefault False EINVALARG 0 ?ts ?s1
        = Some (NOERR, ?s1\<lparr>as_heap := H, as_count := 20 + of_nat (trees_size al S [t])\<rparr>)"
      "forest H 0 p (hashed al S 20 ?ts)"
      by auto
    let ?s2 = "s\<lparr>as_heap := H, as_count := 20 + of_nat (trees_size al S [t]), as_dummy := True\<rparr>"
    let ?s3 = "wrote ?h (?s2\<lparr>as_count := 0, as_dummy := False\<rparr>)"
    have run1: "HcsWalkAst p AST_WALK_FORWARD (Some ByteCodeWriteWalk) None ?s1 = Some (NOERR, ?s2)"
      using write_walk [of ?s1 p t1] f t1 H(1) s1(1) by (simp add: wrote_def)
    obtain t2 where t2: "hashed al S 20 ?ts = [t2]" by (simp add: t1) (cases t1, simp)
    have "writable (?s2\<lparr>as_count := 0, as_dummy := False\<rparr>)" using w by (simp add: writable_def)
    then have s3: "as_heap ?s3 = H" "as_align ?s3 = al" "as_str ?s3 = S" "writable ?s3" "as_count ?s3 = 20"
      using w True by (simp_all add: al_def S_def)
    have "walk_run ByteCodeWriteWalk AstWalkCallBackDefault False EINVALARG 0 (hashed al S 20 ?ts) ?s3
        = Some (NOERR, wrote (trees_bytes al (offset_of al S t) S (hashed al S 20 ?ts)) ?s3)"
      using real_run [of ?s3 0 p "hashed al S 20 ?ts" "offset_of al S t" EINVALARG 0, unfolded s3] H(2) enc
        hash_of_offset [OF H(2)] ref s3(4) by auto
    moreover have "trees_bytes al (offset_of al S t) S [t2] = trees_bytes al (offset_of al S t) S [t]"
      unfolding t2 [symmetric] by (simp only: trees_bytes_hashed trees_bytes_marks)
    ultimately have "HcsWalkAst p AST_WALK_FORWARD (Some ByteCodeWriteWalk) None ?s3
        = Some (NOERR, wrote (trees_bytes al (offset_of al S t) S [t]) ?s3)"
      using write_walk [of ?s3 p t2] H(2) t2 s3(1) by simp
    with run1 True show ?thesis by (intro exI [of _ H]) (simp add: Let_def)
  qed
qed


text \<open>
  C5: The bytecode back end keeps its promise on the heap: for a syntax tree that stands alone, whose
  objects all are of kinds the back end encodes and whose references point into the tree, the three
  walks - sizes computed behind the children, a dummy run that records each object's offset, the real
  run - end without a fault and the file holds exactly the bytecode of the configuration the tree
  stands for, with every reference resolved to the offset of its target, the header included.  If that
  configuration is within the limits of the format, the parser of the run-time library rebuilds
  from the file a tree that represents it.
\<close>

theorem bytecode_of_tree:
  assumes root: "as_root s = p" "p \<noteq> 0" "forest (as_heap s) 0 p [t]" "no_sizes [t]"
    and ref: "targets [t] \<subseteq> set (addrs [t])"
    and env: "as_env s = []" "as_fenv s = []"
    and conf: "conf_of (offset_of (as_align s) (as_str s) t) (as_str s) t = Some c"
    and fits: "obj_size (as_align s) c < 2147483648"
  shows "\<exists>s'. HcsBytecodeOutput_ast s = Some (NOERR, s')
    \<and> as_out s' = Some (HcsBytecodeOutput (as_align s) HCS_COMPILER_VERSION_MAJOR HCS_COMPILER_VERSION_MINOR c)
    \<and> (hcs_blob_ok c (as_align s) \<longrightarrow>
         (\<exists>m. HcsDecompile True True True (as_align s) (the (as_out s')) 20 = Some (Some (Some 0, m))
            \<and> rep_obj (as_align s) 20 m None 0 c 0))"
proof -
  let ?al = "as_align s" and ?S = "as_str s" and ?n = "obj_size (as_align s) c"
  have c: "trees_bytes ?al (offset_of ?al ?S t) ?S [t] = write_obj ?al c" "trees_size ?al ?S [t] = ?n"
    "all_encodable ?S [t]"
    using conf_of_bytes [OF conf, of ?al] by auto
  from convert_walk [OF root(3) c(3) root(4)] obtain H where H:
    "HcsWalkAst p AST_WALK_BACKEND None (Some ByteCodeConvert) s = Some (NOERR, s\<lparr>as_heap := H\<rparr>)"
    "forest H 0 p (marks ?al ?S [t])" .
  obtain a d ks where t: "t = Tree a d ks" by (cases t)
  then obtain o1 where o1: "H p = Some o1" "unlinked o1 = mark ?al ?S d ks"
    using H(2) by (auto simp: forest_single)
  have "po_size (unlinked o1) = of_nat ?n" unfolding o1(2) c(2) [symmetric] by (simp add: mark_def t)
  then have size1: "po_size o1 = of_nat ?n" by simp
  let ?so = "s\<lparr>as_heap := H, as_out := Some [], as_count := 0, as_fenv := [], as_env := []\<rparr>"
  have opened: "HcsOpenOutputFile (s\<lparr>as_heap := H\<rparr>) = ?so"
    using env by (simp add: HcsOpenOutputFile_def)
  define header where "header = HbcHeader_bytes ?al (of_nat ?n)"
  let ?h = "HcsOutputWriteAlign ?al header"
  have len: "length ?h = 20" unfolding header_def by (rule HbcHeader_wrote)
  let ?s1 = "wrote ?h (?so\<lparr>as_dummy := True\<rparr>)"
  from write_passes [of ?so p t header] H(2) c ref len obtain H2 where
    "let s2 = ?so\<lparr>as_heap := H2, as_count := 20 + of_nat ?n, as_dummy := True\<rparr>;
         s3 = wrote ?h (s2\<lparr>as_count := 0, as_dummy := False\<rparr>)
     in HcsWalkAst p AST_WALK_FORWARD (Some ByteCodeWriteWalk) None ?s1 = Some (NOERR, s2)
      \<and> HcsWalkAst p AST_WALK_FORWARD (Some ByteCodeWriteWalk) None s3 = Some (NOERR, wrote (write_obj ?al c) s3)"
    by (auto simp: Let_def)
  then obtain s2 s3 where runs: "HcsWalkAst p AST_WALK_FORWARD (Some ByteCodeWriteWalk) None ?s1 = Some (NOERR, s2)"
    "HcsWalkAst p AST_WALK_FORWARD (Some ByteCodeWriteWalk) None s3 = Some (NOERR, wrote (write_obj ?al c) s3)"
    and s2: "s2 = ?so\<lparr>as_heap := H2, as_count := 20 + of_nat ?n, as_dummy := True\<rparr>"
    and s3: "s3 = wrote ?h (s2\<lparr>as_count := 0, as_dummy := False\<rparr>)"
    by (auto simp: Let_def)
  have heads: "HcsOutputWriteAlign_file header (?so\<lparr>as_dummy := True\<rparr>) = Some (NOERR, ?s1)"
    "HcsOutputWriteAlign_file header (s2\<lparr>as_count := 0, as_dummy := False\<rparr>) = Some (NOERR, s3)"
    using s3 by (simp_all add: write_align_succeeds writable_def s2)
  have out: "as_out (wrote (write_obj ?al c) s3) = Some (?h @ write_obj ?al c)"
    by (simp add: s3 s2 wrote_def)
  have magnitude: "20 + \<bar>sint (if ?al then - po_size o1 else po_size o1)\<bar> = int (length (?h @ write_obj ?al c))"
    unfolding size1 using sint_of_nat [OF fits] sint_minus_of_nat [OF fits] len by (cases ?al) simp_all
  have "HcsBytecodeOutput_ast s = Some (NOERR, HcsCloseOutput (wrote (write_obj ?al c) s3))"
    using root(1,2) H(1) opened o1(1) size1 heads runs out magnitude
    by (simp add: HcsBytecodeOutput_ast_def HcsGetParserRoot_def rd_def header_def [symmetric] Let_def
        split del: if_split)
  moreover have "as_out (HcsCloseOutput (wrote (write_obj ?al c) s3)) = Some (HcsBytecodeOutput ?al 0 66 c)"
    using out by (simp add: HcsCloseOutput_def HcsBytecodeOutput_def header_def HbcHeader_bytes_def Let_def)
  ultimately show ?thesis using decompile_compiled [of c ?al 0 66] by auto
qed

text \<open>A root with a reference to its second node.\<close>

definition small_tree :: tree where
  "small_tree =
     Tree 1 (zero_obj\<lparr>po_type := PARSEROP_CONFNODE, po_name := Some HBC_ROOT_NAME\<rparr>)
       [Tree 2 (zero_obj\<lparr>po_type := PARSEROP_CONFTERM, po_name := Some [114]\<rparr>)
          [Tree 3 (zero_obj\<lparr>po_type := PARSEROP_NODEREF, po_value := VObj 4\<rparr>) []],
        Tree 4 (zero_obj\<lparr>po_type := PARSEROP_CONFNODE, po_name := Some [110]\<rparr>) []]"

definition small_state :: ast where
  "small_state = three_objects\<lparr>
     as_heap := [1 \<mapsto> zero_obj\<lparr>po_type := PARSEROP_CONFNODE, po_name := Some HBC_ROOT_NAME, po_child := 2\<rparr>,
                 2 \<mapsto> zero_obj\<lparr>po_type := PARSEROP_CONFTERM, po_name := Some [114], po_parent := 1, po_next := 4, po_child := 3\<rparr>,
                 3 \<mapsto> zero_obj\<lparr>po_type := PARSEROP_NODEREF, po_value := VObj 4, po_parent := 2\<rparr>,
                 4 \<mapsto> zero_obj\<lparr>po_type := PARSEROP_CONFNODE, po_name := Some [110], po_parent := 1\<rparr>]\<rparr>"

theorem bytecode_of_tree_witness:
  "\<exists>s' m. HcsBytecodeOutput_ast small_state = Some (NOERR, s')
     \<and> HcsDecompile True True True False (the (as_out s')) 20 = Some (Some (Some 0, m))
     \<and> rep_obj False 20 m None 0 (HNode HBC_ROOT_NAME [HTerm [114] (HRef 38), HNode [110] []]) 0"
proof -
  let ?c = "HNode HBC_ROOT_NAME [HTerm [114] (HRef 38), HNode [110] []]"
  have st: "as_root small_state = 1" "as_env small_state = []" "as_fenv small_state = []"
    "as_align small_state = False" "as_str small_state = Map.empty"
    by (simp_all add: small_state_def three_objects_def)
  have f: "forest (as_heap small_state) 0 1 [small_tree]"
    by (simp add: small_state_def three_objects_def small_tree_def forest_Cons zero_obj_def unlinked_def)
  have t: "no_sizes [small_tree]" "targets [small_tree] \<subseteq> set (addrs [small_tree])"
    by (simp_all add: small_tree_def zero_obj_def)
  have conf: "conf_of (offset_of False Map.empty small_tree) Map.empty small_tree = Some ?c"
    by (simp add: small_tree_def zero_obj_def offset_of_def own_size_def text_size_def g_byteCodeMap_def
        HBC_ROOT_NAME_def HcsAlign_def)
  have ok: "obj_size False ?c < 2147483648" "hcs_blob_ok ?c False"
    by (simp_all add: hcs_blob_ok_def HBC_ROOT_NAME_def HBC_BLOB_MAX_LENGTH_def HcsAlign_def)
  from bytecode_of_tree [OF st(1) _ f t st(2,3), unfolded st(4,5), OF _ conf ok(1)] ok(2) show ?thesis by auto
qed

end
