(* ===== verification/Hdmi_Cec.thy ===== *)
theory Hdmi_Cec
  imports Hdf_Prelude
begin

text \<open>
  The messages of the HDMI control bus, \<^verbatim>\<open>hdmi_cec.c\<close>, first part: the encoders.  A message is a
  header with the addresses of initiator and destination, an operation code and operands, in an
  array of 20 bytes of which \<open>len\<close> are used.  Each encoder fills a message that its caller has set to
  zero but for the header; a store outside the array is a fault.  The second half of this theory
  states the frame that each encoder has to produce and proves that it does.
\<close>

section \<open>Constants and data\<close>

abbreviation (input) HDMI_CEC_OPCODE_ACTIVE_SOURCE where "HDMI_CEC_OPCODE_ACTIVE_SOURCE \<equiv> 0x82"
abbreviation (input) HDMI_CEC_ACTIVE_SOURCE_MSG_PARAM_LEN where "HDMI_CEC_ACTIVE_SOURCE_MSG_PARAM_LEN \<equiv> 2"
abbreviation (input) HDMI_CEC_OPCODE_IMAGE_VIEW_ON where "HDMI_CEC_OPCODE_IMAGE_VIEW_ON \<equiv> 4"
abbreviation (input) HDMI_CEC_OPCODE_TEXT_VIEW_ON where "HDMI_CEC_OPCODE_TEXT_VIEW_ON \<equiv> 0xd"
abbreviation (input) HDMI_CEC_OPCODE_INACTIVE_SOURCE where "HDMI_CEC_OPCODE_INACTIVE_SOURCE \<equiv> 0x9d"
abbreviation (input) HDMI_CEC_INACTIVE_SOURCE_MSG_PARAM_LEN where "HDMI_CEC_INACTIVE_SOURCE_MSG_PARAM_LEN \<equiv> 2"
abbreviation (input) HDMI_CEC_OPCODE_REQUEST_ACTIVE_SOURCE where "HDMI_CEC_OPCODE_REQUEST_ACTIVE_SOURCE \<equiv> 0x85"
abbreviation (input) HDMI_CEC_OPCODE_ROUTING_CHANGE where "HDMI_CEC_OPCODE_ROUTING_CHANGE \<equiv> 0x80"
abbreviation (input) HDMI_CEC_ROUTING_CHANGE_MSG_PARAM_LEN where "HDMI_CEC_ROUTING_CHANGE_MSG_PARAM_LEN \<equiv> 4"
abbreviation (input) HDMI_CEC_OPCODE_ROUTING_INFORMATION where "HDMI_CEC_OPCODE_ROUTING_INFORMATION \<equiv> 0x81"
abbreviation (input) HDMI_CEC_ROUTING_INFORMATIO_MSG_PARAM_LEN where "HDMI_CEC_ROUTING_INFORMATIO_MSG_PARAM_LEN \<equiv> 2"
abbreviation (input) HDMI_CEC_OPCODE_SET_STREAM_PATH where "HDMI_CEC_OPCODE_SET_STREAM_PATH \<equiv> 0x86"
abbreviation (input) HDMI_CEC_SET_STREAM_PATH_MSG_PARAM_LEN where "HDMI_CEC_SET_STREAM_PATH_MSG_PARAM_LEN \<equiv> 2"
abbreviation (input) HDMI_CEC_OPCODE_STANDBY where "HDMI_CEC_OPCODE_STANDBY \<equiv> 0x36"
abbreviation (input) HDMI_CEC_OPCODE_RECORD_OFF where "HDMI_CEC_OPCODE_RECORD_OFF \<equiv> 0xb"
abbreviation (input) HDMI_CEC_OPCODE_RECORD_ON where "HDMI_CEC_OPCODE_RECORD_ON \<equiv> 9"
abbreviation (input) HDMI_CEC_RECORD_SOURCE_TYPE_LEN where "HDMI_CEC_RECORD_SOURCE_TYPE_LEN \<equiv> 1"
abbreviation (input) HDMI_CEC_DIGITAL_SERVICE_ID_LEN where "HDMI_CEC_DIGITAL_SERVICE_ID_LEN \<equiv> 7"
abbreviation (input) HDMI_CEC_SERVICE_ID_METHOD_BY_CHANNEL where "HDMI_CEC_SERVICE_ID_METHOD_BY_CHANNEL \<equiv> 1"
abbreviation (input) HDMI_CEC_CHANNEL_IDENTIFIER_LEN where "HDMI_CEC_CHANNEL_IDENTIFIER_LEN \<equiv> 4"
abbreviation (input) HDMI_CEC_RECORD_ON_DIGITAL_MSG_PARAM_LEN where "HDMI_CEC_RECORD_ON_DIGITAL_MSG_PARAM_LEN \<equiv> 8"
abbreviation (input) HDMI_CEC_RECORD_ON_ANALOG_MSG_PARAM_LEN where "HDMI_CEC_RECORD_ON_ANALOG_MSG_PARAM_LEN \<equiv> 5"
abbreviation (input) HDMI_CEC_RECORD_ON_EXT_PLUG_MSG_PARAM_LEN where "HDMI_CEC_RECORD_ON_EXT_PLUG_MSG_PARAM_LEN \<equiv> 2"
abbreviation (input) HDMI_CEC_RECORD_ON_EXT_PHY_ADDR_MSG_PARAM_LEN where "HDMI_CEC_RECORD_ON_EXT_PHY_ADDR_MSG_PARAM_LEN \<equiv> 3"
abbreviation (input) HDMI_CEC_OPCODE_RECORD_STATUS where "HDMI_CEC_OPCODE_RECORD_STATUS \<equiv> 0xa"
abbreviation (input) HDMI_CEC_RECORD_STATUS_MSG_PARAM_LEN where "HDMI_CEC_RECORD_STATUS_MSG_PARAM_LEN \<equiv> 1"
abbreviation (input) HDMI_CEC_OPCODE_RECORD_TV_SCREEN where "HDMI_CEC_OPCODE_RECORD_TV_SCREEN \<equiv> 0xf"
abbreviation (input) HDMI_CEC_OPCODE_CLEAR_ANALOGUE_TIMER where "HDMI_CEC_OPCODE_CLEAR_ANALOGUE_TIMER \<equiv> 0x33"
abbreviation (input) HDMI_CEC_OPCODE_CLEAR_DIGITAL_TIMER where "HDMI_CEC_OPCODE_CLEAR_DIGITAL_TIMER \<equiv> 0x99"
abbreviation (input) HDMI_CEC_OPCODE_CLEAR_EXTERNAL_TIMER where "HDMI_CEC_OPCODE_CLEAR_EXTERNAL_TIMER \<equiv> 0xa1"
abbreviation (input) HDMI_CEC_OPCODE_SET_ANALOGUE_TIMER where "HDMI_CEC_OPCODE_SET_ANALOGUE_TIMER \<equiv> 0x34"
abbreviation (input) HDMI_CEC_ANALOGUE_TIMER_INFO_LEN where "HDMI_CEC_ANALOGUE_TIMER_INFO_LEN \<equiv> 11"
abbreviation (input) HDMI_CEC_COMM_TIMER_INFO_LEN where "HDMI_CEC_COMM_TIMER_INFO_LEN \<equiv> 7"
abbreviation (input) HDMI_CEC_OPCODE_SET_DIGITAL_TIMER where "HDMI_CEC_OPCODE_SET_DIGITAL_TIMER \<equiv> 0x97"
abbreviation (input) HDMI_CEC_DIGITAL_TIMER_INFO_LEN where "HDMI_CEC_DIGITAL_TIMER_INFO_LEN \<equiv> 14"
abbreviation (input) HDMI_CEC_OPCODE_SET_EXTERNAL_TIMER where "HDMI_CEC_OPCODE_SET_EXTERNAL_TIMER \<equiv> 0xa2"
abbreviation (input) HDMI_CEC_EXTERNAL_TIMER_INFO_LEN where "HDMI_CEC_EXTERNAL_TIMER_INFO_LEN \<equiv> 11"
abbreviation (input) HDMI_CEC_OPCODE_SET_TIMER_PROGRAM_TITLE where "HDMI_CEC_OPCODE_SET_TIMER_PROGRAM_TITLE \<equiv> 0x67"
abbreviation (input) HDMI_CEC_PROGRAM_TITLE_STR_MIN_LEN where "HDMI_CEC_PROGRAM_TITLE_STR_MIN_LEN \<equiv> 1"
abbreviation (input) HDMI_CEC_PROGRAM_TITLE_STR_MAX_LEN where "HDMI_CEC_PROGRAM_TITLE_STR_MAX_LEN \<equiv> 14"
abbreviation (input) HDMI_CEC_OPCODE_TIMER_CLEARED_STATUS where "HDMI_CEC_OPCODE_TIMER_CLEARED_STATUS \<equiv> 0x43"
abbreviation (input) HDMI_CEC_TIMER_CLEARED_STATUS_MSG_PARAM_LEN where "HDMI_CEC_TIMER_CLEARED_STATUS_MSG_PARAM_LEN \<equiv> 1"
abbreviation (input) HDMI_CEC_OPCODE_TIMER_STATUS where "HDMI_CEC_OPCODE_TIMER_STATUS \<equiv> 0x35"
abbreviation (input) HDMI_CEC_TIMER_STATUS_DATA_MIN_LEN where "HDMI_CEC_TIMER_STATUS_DATA_MIN_LEN \<equiv> 1"
abbreviation (input) HDMI_CEC_TIMER_STATUS_DATA_MAX_LEN where "HDMI_CEC_TIMER_STATUS_DATA_MAX_LEN \<equiv> 3"
abbreviation (input) HDMI_CEC_OPCODE_CEC_VERSION where "HDMI_CEC_OPCODE_CEC_VERSION \<equiv> 0x9e"
abbreviation (input) HDMI_CEC_CEC_VERSION_MSG_PARAM_LEN where "HDMI_CEC_CEC_VERSION_MSG_PARAM_LEN \<equiv> 1"
abbreviation (input) HDMI_CEC_OPCODE_GET_CEC_VERSION where "HDMI_CEC_OPCODE_GET_CEC_VERSION \<equiv> 0x9f"
abbreviation (input) HDMI_CEC_OPCODE_GIVE_PHYSICAL_ADDRESS where "HDMI_CEC_OPCODE_GIVE_PHYSICAL_ADDRESS \<equiv> 0x83"
abbreviation (input) HDMI_CEC_OPCODE_GET_MENU_LANGUAGE where "HDMI_CEC_OPCODE_GET_MENU_LANGUAGE \<equiv> 0x91"
abbreviation (input) HDMI_CEC_OPCODE_REPORT_PHYSICAL_ADDRESS where "HDMI_CEC_OPCODE_REPORT_PHYSICAL_ADDRESS \<equiv> 0x84"
abbreviation (input) HDMI_CEC_REPORT_PHYSICAL_ADDRESS_MSG_PARAM_LEN where "HDMI_CEC_REPORT_PHYSICAL_ADDRESS_MSG_PARAM_LEN \<equiv> 3"
abbreviation (input) HDMI_CEC_OPCODE_SET_MENU_LANGUAGE where "HDMI_CEC_OPCODE_SET_MENU_LANGUAGE \<equiv> 0x32"
abbreviation (input) HDMI_CEC_SET_MENU_LANGUAGE_MSG_PARAM_LEN where "HDMI_CEC_SET_MENU_LANGUAGE_MSG_PARAM_LEN \<equiv> 3"
abbreviation (input) HDMI_CEC_OPCODE_REPORT_FEATURES where "HDMI_CEC_OPCODE_REPORT_FEATURES \<equiv> 0xa6"
abbreviation (input) HDMI_CEC_RC_PROFILE_MAX_NUM where "HDMI_CEC_RC_PROFILE_MAX_NUM \<equiv> 6"
abbreviation (input) HDMI_CEC_RC_PROFILE_EXTERNSION_MARK where "HDMI_CEC_RC_PROFILE_EXTERNSION_MARK \<equiv> 0x80"
abbreviation (input) HDMI_CEC_DEVICE_FEATURES_MAX_NUM where "HDMI_CEC_DEVICE_FEATURES_MAX_NUM \<equiv> 6"
abbreviation (input) HDMI_CEC_DEVICE_FEATURES_EXTERNSION_MARK where "HDMI_CEC_DEVICE_FEATURES_EXTERNSION_MARK \<equiv> 0x80"
abbreviation (input) HDMI_CEC_OPCODE_GIVE_FEATURES where "HDMI_CEC_OPCODE_GIVE_FEATURES \<equiv> 0xa5"
abbreviation (input) HDMI_CEC_OPCODE_DECK_CONTROL where "HDMI_CEC_OPCODE_DECK_CONTROL \<equiv> 0x42"
abbreviation (input) HDMI_CEC_DECK_CONTROL_MSG_PARAM_LEN where "HDMI_CEC_DECK_CONTROL_MSG_PARAM_LEN \<equiv> 1"
abbreviation (input) HDMI_CEC_OPCODE_DECK_STATUS where "HDMI_CEC_OPCODE_DECK_STATUS \<equiv> 0x1b"
abbreviation (input) HDMI_CEC_DECK_STATUS_MSG_PARAM_LEN where "HDMI_CEC_DECK_STATUS_MSG_PARAM_LEN \<equiv> 1"
abbreviation (input) HDMI_CEC_OPCODE_GIVE_DECK_STATUS where "HDMI_CEC_OPCODE_GIVE_DECK_STATUS \<equiv> 0x1a"
abbreviation (input) HDMI_CEC_GIVE_DECK_STATUS_MSG_PARAM_LEN where "HDMI_CEC_GIVE_DECK_STATUS_MSG_PARAM_LEN \<equiv> 1"
abbreviation (input) HDMI_CEC_OPCODE_PLAY where "HDMI_CEC_OPCODE_PLAY \<equiv> 0x41"
abbreviation (input) HDMI_CEC_PLAY_MSG_PARAM_LEN where "HDMI_CEC_PLAY_MSG_PARAM_LEN \<equiv> 1"
abbreviation (input) HDMI_CEC_OPCODE_GIVE_TUNER_DEVICE_STATUS where "HDMI_CEC_OPCODE_GIVE_TUNER_DEVICE_STATUS \<equiv> 8"
abbreviation (input) HDMI_CEC_GIVE_TUNER_DEVICE_STATU_MSG_PARAM_LEN where "HDMI_CEC_GIVE_TUNER_DEVICE_STATU_MSG_PARAM_LEN \<equiv> 1"
abbreviation (input) HDMI_CEC_OPCODE_SELECT_ANALOGUE_SERVICE where "HDMI_CEC_OPCODE_SELECT_ANALOGUE_SERVICE \<equiv> 0x92"
abbreviation (input) HDMI_CEC_SELECT_ANALOGUE_SERVICE_MSG_PARAM_LEN where "HDMI_CEC_SELECT_ANALOGUE_SERVICE_MSG_PARAM_LEN \<equiv> 4"
abbreviation (input) HDMI_CEC_OPCODE_SELECT_DIGITAL_SERVICE where "HDMI_CEC_OPCODE_SELECT_DIGITAL_SERVICE \<equiv> 0x93"
abbreviation (input) HDMI_CEC_SELECT_DIGITAL_SERVICE_MSG_PARAM_LEN where "HDMI_CEC_SELECT_DIGITAL_SERVICE_MSG_PARAM_LEN \<equiv> 7"
abbreviation (input) HDMI_CEC_OPCODE_TUNER_DEVICE_STATUS where "HDMI_CEC_OPCODE_TUNER_DEVICE_STATUS \<equiv> 7"
abbreviation (input) HDMI_CEC_TUNER_DEVICE_STATUS_MSG_ANA_PARAM_LEN where "HDMI_CEC_TUNER_DEVICE_STATUS_MSG_ANA_PARAM_LEN \<equiv> 5"
abbreviation (input) HDMI_CEC_TUNER_DEVICE_STATUS_MSG_DIG_PARAM_LEN where "HDMI_CEC_TUNER_DEVICE_STATUS_MSG_DIG_PARAM_LEN \<equiv> 8"
abbreviation (input) HDMI_CEC_OPCODE_TUNER_STEP_DECREMENT where "HDMI_CEC_OPCODE_TUNER_STEP_DECREMENT \<equiv> 6"
abbreviation (input) HDMI_CEC_OPCODE_TUNER_STEP_INCREMENT where "HDMI_CEC_OPCODE_TUNER_STEP_INCREMENT \<equiv> 5"
abbreviation (input) HDMI_CEC_OPCODE_DEVICE_VENDOR_ID where "HDMI_CEC_OPCODE_DEVICE_VENDOR_ID \<equiv> 0x87"
abbreviation (input) HDMI_CEC_DEVICE_VENDOR_ID_MSG_PARAM_LEN where "HDMI_CEC_DEVICE_VENDOR_ID_MSG_PARAM_LEN \<equiv> 3"
abbreviation (input) HDMI_CEC_OPCODE_GIVE_DEVICE_VENDOR_ID where "HDMI_CEC_OPCODE_GIVE_DEVICE_VENDOR_ID \<equiv> 0x8c"
abbreviation (input) HDMI_CEC_OPCODE_VENDOR_COMMAND where "HDMI_CEC_OPCODE_VENDOR_COMMAND \<equiv> 0x89"
abbreviation (input) HDMI_CEC_VENDOR_SPECIFIC_DATA_MAX_LEN where "HDMI_CEC_VENDOR_SPECIFIC_DATA_MAX_LEN \<equiv> 14"
abbreviation (input) HDMI_CEC_OPCODE_VENDOR_COMMAND_WITH_ID where "HDMI_CEC_OPCODE_VENDOR_COMMAND_WITH_ID \<equiv> 0xa0"
abbreviation (input) HDMI_CEC_VENDOR_ID_LEN where "HDMI_CEC_VENDOR_ID_LEN \<equiv> 3"
abbreviation (input) HDMI_CEC_VENDOR_SPECIFIC_DATA_WITH_ID_MAX_LEN where "HDMI_CEC_VENDOR_SPECIFIC_DATA_WITH_ID_MAX_LEN \<equiv> 11"
abbreviation (input) HDMI_CEC_OPCODE_VENDOR_REMOTE_BUTTON_DOWN where "HDMI_CEC_OPCODE_VENDOR_REMOTE_BUTTON_DOWN \<equiv> 0x8a"
abbreviation (input) HDMI_CEC_VENDOR_SPECIFIC_RC_CODE_MAX_LEN where "HDMI_CEC_VENDOR_SPECIFIC_RC_CODE_MAX_LEN \<equiv> 14"
abbreviation (input) HDMI_CEC_OPCODE_VENDOR_REMOTE_BUTTON_UP where "HDMI_CEC_OPCODE_VENDOR_REMOTE_BUTTON_UP \<equiv> 0x8b"
abbreviation (input) HDMI_CEC_OPCODE_SET_OSD_STRING where "HDMI_CEC_OPCODE_SET_OSD_STRING \<equiv> 0x64"
abbreviation (input) HDMI_CEC_DISPLAY_CONTROL_LEN where "HDMI_CEC_DISPLAY_CONTROL_LEN \<equiv> 1"
abbreviation (input) HDMI_CEC_OSD_STRING_MAX_LEN where "HDMI_CEC_OSD_STRING_MAX_LEN \<equiv> 13"
abbreviation (input) HDMI_CEC_OPCODE_GIVE_OSD_NAME where "HDMI_CEC_OPCODE_GIVE_OSD_NAME \<equiv> 0x46"
abbreviation (input) HDMI_CEC_OPCODE_SET_OSD_NAME where "HDMI_CEC_OPCODE_SET_OSD_NAME \<equiv> 0x47"
abbreviation (input) HDMI_CEC_OSD_NAME_MAX_LEN where "HDMI_CEC_OSD_NAME_MAX_LEN \<equiv> 14"
abbreviation (input) HDMI_CEC_OPCODE_MENU_REQUEST where "HDMI_CEC_OPCODE_MENU_REQUEST \<equiv> 0x8d"
abbreviation (input) HDMI_CEC_MENU_REQUEST_MSG_PARAM_LEN where "HDMI_CEC_MENU_REQUEST_MSG_PARAM_LEN \<equiv> 1"
abbreviation (input) HDMI_CEC_OPCODE_MENU_STATUS where "HDMI_CEC_OPCODE_MENU_STATUS \<equiv> 0x8e"
abbreviation (input) HDMI_CEC_MENU_STATUS_MSG_PARAM_LEN where "HDMI_CEC_MENU_STATUS_MSG_PARAM_LEN \<equiv> 1"
abbreviation (input) HDMI_CEC_OPCODE_USER_CONTROL_PRESSED where "HDMI_CEC_OPCODE_USER_CONTROL_PRESSED \<equiv> 0x44"
abbreviation (input) HDMI_CEC_UI_COMMAND_LEN where "HDMI_CEC_UI_COMMAND_LEN \<equiv> 1"
abbreviation (input) HDMI_CEC_OPCODE_USER_CONTROL_RELEASED where "HDMI_CEC_OPCODE_USER_CONTROL_RELEASED \<equiv> 0x45"
abbreviation (input) HDMI_CEC_OPCODE_GIVE_DEVICE_POWER_STATUS where "HDMI_CEC_OPCODE_GIVE_DEVICE_POWER_STATUS \<equiv> 0x8f"
abbreviation (input) HDMI_CEC_OPCODE_REPORT_POWER_STATUS where "HDMI_CEC_OPCODE_REPORT_POWER_STATUS \<equiv> 0x90"
abbreviation (input) HDMI_CEC_REPORT_POWER_STATUS_MSG_PARA_LEN where "HDMI_CEC_REPORT_POWER_STATUS_MSG_PARA_LEN \<equiv> 1"
abbreviation (input) HDMI_CEC_OPCODE_FEATURE_ABORT where "HDMI_CEC_OPCODE_FEATURE_ABORT \<equiv> 0"
abbreviation (input) HDMI_CEC_FEATURE_ABORT_MSG_PARA_LEN where "HDMI_CEC_FEATURE_ABORT_MSG_PARA_LEN \<equiv> 2"
abbreviation (input) HDMI_CEC_OPCODE_ABORT where "HDMI_CEC_OPCODE_ABORT \<equiv> 0xff"
abbreviation (input) HDMI_CEC_OPCODE_GIVE_AUDIO_STATUS where "HDMI_CEC_OPCODE_GIVE_AUDIO_STATUS \<equiv> 0x71"
abbreviation (input) HDMI_CEC_OPCODE_GIVE_SYSTEM_AUDIO_MODE_STATUS where "HDMI_CEC_OPCODE_GIVE_SYSTEM_AUDIO_MODE_STATUS \<equiv> 0x7d"
abbreviation (input) HDMI_CEC_OPCODE_REPORT_AUDIO_STATUS where "HDMI_CEC_OPCODE_REPORT_AUDIO_STATUS \<equiv> 0x7a"
abbreviation (input) HDMI_CEC_REPORT_AUDIO_STATUSMSG_PARAM_LEN where "HDMI_CEC_REPORT_AUDIO_STATUSMSG_PARAM_LEN \<equiv> 1"
abbreviation (input) HDMI_CEC_OPCODE_REPORT_SHORT_AUDIO_DESCRIPTOR where "HDMI_CEC_OPCODE_REPORT_SHORT_AUDIO_DESCRIPTOR \<equiv> 0xa3"
abbreviation (input) HDMI_CEC_SHORT_AUDIO_DESCRIPTOR_LEN where "HDMI_CEC_SHORT_AUDIO_DESCRIPTOR_LEN \<equiv> 3"
abbreviation (input) HDMI_CEC_MAX_SHORT_AUDIO_DESCRIPTOR_NUM where "HDMI_CEC_MAX_SHORT_AUDIO_DESCRIPTOR_NUM \<equiv> 4"
abbreviation (input) HDMI_CEC_OPCODE_REQUEST_SHORT_AUDIO_DESCRIPTOR where "HDMI_CEC_OPCODE_REQUEST_SHORT_AUDIO_DESCRIPTOR \<equiv> 0xa4"
abbreviation (input) HDMI_CEC_AUDIO_FORMAT_LEN where "HDMI_CEC_AUDIO_FORMAT_LEN \<equiv> 1"
abbreviation (input) HDMI_CEC_MAX_AUDIO_FORMAT_NUM where "HDMI_CEC_MAX_AUDIO_FORMAT_NUM \<equiv> 4"
abbreviation (input) HDMI_CEC_OPCODE_SET_SYSTEM_AUDIO_MODE where "HDMI_CEC_OPCODE_SET_SYSTEM_AUDIO_MODE \<equiv> 0x72"
abbreviation (input) HDMI_CEC_SYSTEM_AUDIO_STATUS_LEN where "HDMI_CEC_SYSTEM_AUDIO_STATUS_LEN \<equiv> 1"
abbreviation (input) HDMI_CEC_OPCODE_SYSTEM_AUDIO_MODE_REQUEST where "HDMI_CEC_OPCODE_SYSTEM_AUDIO_MODE_REQUEST \<equiv> 0x70"
abbreviation (input) HDMI_CEC_SYSTEM_AUDIO_MODE_REQUEST_PARAM_LEN where "HDMI_CEC_SYSTEM_AUDIO_MODE_REQUEST_PARAM_LEN \<equiv> 2"
abbreviation (input) HDMI_CEC_OPCODE_SYSTEM_AUDIO_MODE_STATUS where "HDMI_CEC_OPCODE_SYSTEM_AUDIO_MODE_STATUS \<equiv> 0x7e"
abbreviation (input) HDMI_CEC_OPCODE_SET_AUDIO_RATE where "HDMI_CEC_OPCODE_SET_AUDIO_RATE \<equiv> 0x9a"
abbreviation (input) HDMI_CEC_SET_AUDIO_RATE_PARAM_LEN where "HDMI_CEC_SET_AUDIO_RATE_PARAM_LEN \<equiv> 1"
abbreviation (input) HDMI_CEC_OPCODE_INITIATE_ARC where "HDMI_CEC_OPCODE_INITIATE_ARC \<equiv> 0xc0"
abbreviation (input) HDMI_CEC_OPCODE_REPORT_ARC_INITIATED where "HDMI_CEC_OPCODE_REPORT_ARC_INITIATED \<equiv> 0xc1"
abbreviation (input) HDMI_CEC_OPCODE_REPORT_ARC_TERMINATION where "HDMI_CEC_OPCODE_REPORT_ARC_TERMINATION \<equiv> 0xc2"
abbreviation (input) HDMI_CEC_OPCODE_REQUEST_ARC_INITIATION where "HDMI_CEC_OPCODE_REQUEST_ARC_INITIATION \<equiv> 0xc3"
abbreviation (input) HDMI_CEC_OPCODE_REQUEST_ARC_TERMINATION where "HDMI_CEC_OPCODE_REQUEST_ARC_TERMINATION \<equiv> 0xc4"
abbreviation (input) HDMI_CEC_OPCODE_TERMINATE_ARC where "HDMI_CEC_OPCODE_TERMINATE_ARC \<equiv> 0xc5"
abbreviation (input) HDMI_CEC_OPCODE_CDC_MESSAGE where "HDMI_CEC_OPCODE_CDC_MESSAGE \<equiv> 0xf8"
abbreviation (input) HDMI_CEC_OPCODE_REQUEST_CURRENT_LATENCY where "HDMI_CEC_OPCODE_REQUEST_CURRENT_LATENCY \<equiv> 0xa7"
abbreviation (input) HDMI_CEC_REQUEST_CURRENT_LATENCY_MSG_LEN where "HDMI_CEC_REQUEST_CURRENT_LATENCY_MSG_LEN \<equiv> 2"
abbreviation (input) HDMI_CEC_OPCODE_REPORT_CURRENT_LATENCY where "HDMI_CEC_OPCODE_REPORT_CURRENT_LATENCY \<equiv> 0xa8"
abbreviation (input) HDMI_CEC_REPORT_CURRENT_LATENCY_MSG_PARAM_MIN_LEN where "HDMI_CEC_REPORT_CURRENT_LATENCY_MSG_PARAM_MIN_LEN \<equiv> 4"
abbreviation (input) HDMI_CEC_AUDIO_OUTPUT_COMPENSATED_PARTIAL_DELAY where "HDMI_CEC_AUDIO_OUTPUT_COMPENSATED_PARTIAL_DELAY \<equiv> 3"
abbreviation (input) HDMI_CDC_HEC_INQUIRE_STATE where "HDMI_CDC_HEC_INQUIRE_STATE \<equiv> 0"
abbreviation (input) HDMI_CDC_HEC_INQUIRE_STATE_MSG_PARAM_LEN where "HDMI_CDC_HEC_INQUIRE_STATE_MSG_PARAM_LEN \<equiv> 4"
abbreviation (input) HDMI_CDC_HEC_REPORT_STATE where "HDMI_CDC_HEC_REPORT_STATE \<equiv> 1"
abbreviation (input) HDMI_CDC_HEC_REPORT_STATE_MSG_PARAM_MAX_LEN where "HDMI_CDC_HEC_REPORT_STATE_MSG_PARAM_MAX_LEN \<equiv> 5"
abbreviation (input) HDMI_CDC_HEC_REPORT_STATE_MSG_PARAM_MIN_LEN where "HDMI_CDC_HEC_REPORT_STATE_MSG_PARAM_MIN_LEN \<equiv> 3"
abbreviation (input) HDMI_CDC_HEC_SET_STATE_ADJACENT where "HDMI_CDC_HEC_SET_STATE_ADJACENT \<equiv> 2"
abbreviation (input) HDMI_CDC_HEC_SET_STATE_ADJACENT_MSG_PARAM_LEN where "HDMI_CDC_HEC_SET_STATE_ADJACENT_MSG_PARAM_LEN \<equiv> 3"
abbreviation (input) HDMI_CDC_HEC_SET_STATE where "HDMI_CDC_HEC_SET_STATE \<equiv> 3"
abbreviation (input) HDMI_CDC_HEC_SET_STATE_MSG_MIN_LEN where "HDMI_CDC_HEC_SET_STATE_MSG_MIN_LEN \<equiv> 5"
abbreviation (input) HDMI_CDC_HEC_SET_STATE_MSG_OPTIONAL_PA_MAX_NUM where "HDMI_CDC_HEC_SET_STATE_MSG_OPTIONAL_PA_MAX_NUM \<equiv> 3"
abbreviation (input) HDMI_CDC_HEC_REQUEST_DEACTIVATION where "HDMI_CDC_HEC_REQUEST_DEACTIVATION \<equiv> 4"
abbreviation (input) HDMI_CDC_HEC_REQUEST_DEACTIVATION_MSG_PHY_ADDR_NUM where "HDMI_CDC_HEC_REQUEST_DEACTIVATION_MSG_PHY_ADDR_NUM \<equiv> 3"
abbreviation (input) HDMI_CDC_HEC_NOTIFY_ALIVE where "HDMI_CDC_HEC_NOTIFY_ALIVE \<equiv> 5"
abbreviation (input) HDMI_CDC_HEC_DISCOVER where "HDMI_CDC_HEC_DISCOVER \<equiv> 6"
abbreviation (input) HDMI_CDC_HPD_SET_STATE where "HDMI_CDC_HPD_SET_STATE \<equiv> 0x10"
abbreviation (input) HDMI_CDC_HPD_SET_STATE_MSG_LEN where "HDMI_CDC_HPD_SET_STATE_MSG_LEN \<equiv> 1"
abbreviation (input) CEC_MSG_CDC_HPD_REPORT_STATE where "CEC_MSG_CDC_HPD_REPORT_STATE \<equiv> 0x11"
abbreviation (input) HDMI_CDC_HPD_REPORT_STATE_MSG_LEN where "HDMI_CDC_HPD_REPORT_STATE_MSG_LEN \<equiv> 1"
abbreviation (input) HDMI_CEC_MSG_MAX_LEN where "HDMI_CEC_MSG_MAX_LEN \<equiv> 20"
abbreviation (input) HDMI_CEC_INVALID_PHY_ADDR where "HDMI_CEC_INVALID_PHY_ADDR \<equiv> 0xffff"
abbreviation (input) HDMI_CEC_RECORD_SRC_OWN where "HDMI_CEC_RECORD_SRC_OWN \<equiv> 1"
abbreviation (input) HDMI_CEC_RECORD_SRC_DIGITAL where "HDMI_CEC_RECORD_SRC_DIGITAL \<equiv> 2"
abbreviation (input) HDMI_CEC_RECORD_SRC_ANALOG where "HDMI_CEC_RECORD_SRC_ANALOG \<equiv> 3"
abbreviation (input) HDMI_CEC_RECORD_SRC_EXT_PLUG where "HDMI_CEC_RECORD_SRC_EXT_PLUG \<equiv> 4"
abbreviation (input) HDMI_CEC_RECORD_SRC_EXT_PHY_ADDR where "HDMI_CEC_RECORD_SRC_EXT_PHY_ADDR \<equiv> 5"
abbreviation (input) HDMI_CEC_DIG_SERVICE_BCAST_SYSTEM_ARIB_GEN where "HDMI_CEC_DIG_SERVICE_BCAST_SYSTEM_ARIB_GEN \<equiv> 0"
abbreviation (input) HDMI_CEC_DIG_SERVICE_BCAST_SYSTEM_ATSC_GEN where "HDMI_CEC_DIG_SERVICE_BCAST_SYSTEM_ATSC_GEN \<equiv> 1"
abbreviation (input) HDMI_CEC_DIG_SERVICE_BCAST_SYSTEM_DVB_GEN where "HDMI_CEC_DIG_SERVICE_BCAST_SYSTEM_DVB_GEN \<equiv> 2"
abbreviation (input) HDMI_CEC_DIG_SERVICE_BCAST_SYSTEM_ARIB_BS where "HDMI_CEC_DIG_SERVICE_BCAST_SYSTEM_ARIB_BS \<equiv> 8"
abbreviation (input) HDMI_CEC_DIG_SERVICE_BCAST_SYSTEM_ARIB_CS where "HDMI_CEC_DIG_SERVICE_BCAST_SYSTEM_ARIB_CS \<equiv> 9"
abbreviation (input) HDMI_CEC_DIG_SERVICE_BCAST_SYSTEM_ARIB_T where "HDMI_CEC_DIG_SERVICE_BCAST_SYSTEM_ARIB_T \<equiv> 0xa"
abbreviation (input) HDMI_CEC_DIG_SERVICE_BCAST_SYSTEM_ATSC_CABLE where "HDMI_CEC_DIG_SERVICE_BCAST_SYSTEM_ATSC_CABLE \<equiv> 0x10"
abbreviation (input) HDMI_CEC_DIG_SERVICE_BCAST_SYSTEM_ATSC_SATELLITE where "HDMI_CEC_DIG_SERVICE_BCAST_SYSTEM_ATSC_SATELLITE \<equiv> 0x11"
abbreviation (input) HDMI_CEC_DIG_SERVICE_BCAST_SYSTEM_ATSC_TERRESTRIAL where "HDMI_CEC_DIG_SERVICE_BCAST_SYSTEM_ATSC_TERRESTRIAL \<equiv> 0x12"
abbreviation (input) HDMI_CEC_DIG_SERVICE_BCAST_SYSTEM_DVB_C where "HDMI_CEC_DIG_SERVICE_BCAST_SYSTEM_DVB_C \<equiv> 0x18"
abbreviation (input) HDMI_CEC_DIG_SERVICE_BCAST_SYSTEM_DVB_S where "HDMI_CEC_DIG_SERVICE_BCAST_SYSTEM_DVB_S \<equiv> 0x19"
abbreviation (input) HDMI_CEC_DIG_SERVICE_BCAST_SYSTEM_DVB_S2 where "HDMI_CEC_DIG_SERVICE_BCAST_SYSTEM_DVB_S2 \<equiv> 0x1a"
abbreviation (input) HDMI_CEC_DIG_SERVICE_BCAST_SYSTEM_DVB_T where "HDMI_CEC_DIG_SERVICE_BCAST_SYSTEM_DVB_T \<equiv> 0x1b"
abbreviation (input) HDMI_CEC_PROGRAMMED_INFO_NOT_ENOUGH_SPAC where "HDMI_CEC_PROGRAMMED_INFO_NOT_ENOUGH_SPAC \<equiv> 9"
abbreviation (input) HDMI_CEC_PROGRAMMED_INFO_MIGHT_NOT_BE_ENOUGH_SPACE where "HDMI_CEC_PROGRAMMED_INFO_MIGHT_NOT_BE_ENOUGH_SPACE \<equiv> 0xb"
abbreviation (input) HDMI_CEC_NOT_PROG_ERR_DUPLICATE where "HDMI_CEC_NOT_PROG_ERR_DUPLICATE \<equiv> 0xe"
abbreviation (input) HDMI_CEC_UI_CMD_SELECT_BROADCAST_TYPE where "HDMI_CEC_UI_CMD_SELECT_BROADCAST_TYPE \<equiv> 0x56"
abbreviation (input) HDMI_CEC_UI_CMD_SELECT_SOUND_PRESENTATION where "HDMI_CEC_UI_CMD_SELECT_SOUND_PRESENTATION \<equiv> 0x57"
abbreviation (input) HDMI_CEC_UI_CMD_PLAY_FUNCTION where "HDMI_CEC_UI_CMD_PLAY_FUNCTION \<equiv> 0x60"
abbreviation (input) HDMI_CEC_UI_CMD_TUNE_FUNCTION where "HDMI_CEC_UI_CMD_TUNE_FUNCTION \<equiv> 0x67"
abbreviation (input) HDMI_CEC_UI_CMD_SELECT_MEDIA_FUNCTION where "HDMI_CEC_UI_CMD_SELECT_MEDIA_FUNCTION \<equiv> 0x68"
abbreviation (input) HDMI_CEC_UI_CMD_SELECT_AV_INPUT_FUNCTION where "HDMI_CEC_UI_CMD_SELECT_AV_INPUT_FUNCTION \<equiv> 0x69"
abbreviation (input) HDMI_CEC_UI_CMD_SELECT_AUDIO_INPUT_FUNCTION where "HDMI_CEC_UI_CMD_SELECT_AUDIO_INPUT_FUNCTION \<equiv> 0x6a"
abbreviation (input) HDMI_CEC_LOG_ADDR_UNREGISTERED_OR_BROADCAST where "HDMI_CEC_LOG_ADDR_UNREGISTERED_OR_BROADCAST \<equiv> 0xf"

record HdmiCecDigitalServiceAribData =
  arib_transportId :: uint16_t
  arib_serviceId :: uint16_t
  arib_orgNetworkId :: uint16_t

record HdmiCecDigitalServiceAtscData =
  atsc_transportId :: uint16_t
  atsc_programNumber :: uint16_t

record HdmiCecDigitalServiceDvbData =
  dvb_transportId :: uint16_t
  dvb_serviceId :: uint16_t
  dvb_orgNetworkId :: uint16_t

record HdmiCecChannelIdentifier =
  chid_format :: uint8_t
  chid_major :: uint16_t
  chid_minor :: uint16_t

record HdmiCecCommTimerInfo =
  cti_data :: uint8_t
  cti_month :: uint8_t
  cti_startHour :: uint8_t
  cti_startMinute :: uint8_t
  cti_durationHour :: uint8_t
  cti_durationMinute :: uint8_t
  cti_recordingSeq :: uint8_t

record HdmiCecAnalogueTimerInfo =
  ati_commInfo :: HdmiCecCommTimerInfo
  ati_anaBcastType :: uint8_t
  ati_anaFreq :: uint16_t
  ati_bcstSystem :: uint8_t

record HdmiCecExternalTimerInfo =
  eti_commInfo :: HdmiCecCommTimerInfo
  eti_extSrcSpec :: uint8_t
  eti_extPlug :: uint8_t
  eti_extPhyAddr :: uint16_t

record HdmiCecTimerProgremmedInfo =
  tpi_indicator :: uint8_t
  tpi_info :: uint8_t
  tpi_durationHour :: uint8_t
  tpi_durationMinute :: uint8_t

record HdmiCecTimerStatusData =
  tsd_timerOverlap :: uint8_t
  tsd_mediaInfo :: uint8_t
  tsd_progInfo :: HdmiCecTimerProgremmedInfo

record HdmiCecLatencyInfo =
  li_videoLatency :: uint8_t
  li_lowLatencyMode :: uint8_t
  li_audioOutputCompensated :: uint8_t
  li_audioOutputDelay :: uint8_t

record HdmiCdcHecState =
  hst_hecFuncState :: uint8_t
  hst_hostFuncState :: uint8_t
  hst_encFuncState :: uint8_t
  hst_cdcErrCode :: uint8_t
  hst_haveHecField :: bool
  hst_hecField :: uint16_t

record HemiCdcHecStateInfo =
  hsi_phyAddr1 :: uint16_t
  hsi_phyAddr2 :: uint16_t
  hsi_hecSetState :: uint8_t
  hsi_phyAddr :: "uint16_t list"
  hsi_phyAddrLen :: uint32_t

text \<open>
  A union is a datatype with a constructor per member.  Its tag is kept outside it; a member that
  was not stored is not read (\<^const>\<open>None\<close>).
\<close>

datatype HdmiCecServiceData =
    ServiceArib HdmiCecDigitalServiceAribData
  | ServiceAtsc HdmiCecDigitalServiceAtscData
  | ServiceDvb HdmiCecDigitalServiceDvbData
  | ServiceChannel HdmiCecChannelIdentifier

record HdmiCecDigitalServiceId =
  dsi_method :: uint8_t
  dsi_system :: uint8_t
  dsi_systemData :: HdmiCecServiceData

record HdmiCecDigitalTimerInfo =
  dti_commInfo :: HdmiCecCommTimerInfo
  dti_id :: HdmiCecDigitalServiceId

datatype HdmiCecRecordData =
    RecordOwn
  | RecordId HdmiCecDigitalServiceId
  | RecordAnalog uint8_t uint16_t uint8_t
  | RecordExtPlug uint8_t
  | RecordExtPhyAddr uint16_t

record HdmiCecRecordSource =
  rsa_type :: uint8_t
  rsa_data :: HdmiCecRecordData

datatype HdmiCecTunerData =
    TunerDigital HdmiCecDigitalServiceId
  | TunerAnalog uint8_t uint16_t uint8_t

record HdmiCecTunerDeviceInfo =
  tdi_recordingFlag :: uint8_t
  tdi_dispInfo :: uint8_t
  tdi_isAnalogService :: bool
  tdi_data :: HdmiCecTunerData

datatype HdmiCecUiOperands =
    UiByte uint8_t
  | UiChannel HdmiCecChannelIdentifier

record HdmiCecUiCmd =
  ucm_cmdType :: uint8_t
  ucm_hasAddOp :: bool
  ucm_addOperands :: HdmiCecUiOperands

record HdmiCecInfo =
  ci_logAddr :: uint8_t
  ci_logAddrType :: uint8_t
  ci_logAddrMask :: uint16_t
  ci_primaryDeviceType :: uint8_t
  ci_cecVersion :: uint8_t
  ci_phyAddr :: uint16_t
  ci_vendorId :: uint32_t
  ci_flags :: uint32_t
  ci_osdName :: bytes
  ci_osdNameLen :: uint8_t
  ci_allDeviceType :: uint8_t
  ci_rcProfile :: bytes
  ci_devFeatures :: bytes
  ci_isWaitingResponse :: bool
  ci_response :: uint8_t

record HdmiCecMsg =
  cm_len :: uint32_t
  cm_data :: bytes
  cm_rspMsg :: uint8_t
  cm_response :: bool
  cm_timeout :: uint32_t

definition zero_HdmiCecMsg :: HdmiCecMsg where
  "zero_HdmiCecMsg = \<lparr>cm_len = 0, cm_data = replicate HDMI_CEC_MSG_MAX_LEN 0, cm_rspMsg = 0,
     cm_response = False, cm_timeout = 0\<rparr>"

definition HDMI_CEC_GET_MSG_LEN :: "uint32_t \<Rightarrow> uint32_t" where
  "HDMI_CEC_GET_MSG_LEN len = 1 + 1 + len"

definition HDMI_CDC_GET_MSG_LEN :: "uint32_t \<Rightarrow> uint32_t" where
  "HDMI_CDC_GET_MSG_LEN len = 1 + 1 + 2 + 1 + len"

definition HDMI_CEC_BCD_FORMAT_TIME :: "uint8_t \<Rightarrow> uint8_t" where
  "HDMI_CEC_BCD_FORMAT_TIME t = push_bit 4 (t div 10) OR (t mod 10)"

text \<open>\<^verbatim>\<open>msg->data[i] = b\<close>, \<^verbatim>\<open>msg->data[i] |= b\<close>, and \<^verbatim>\<open>memcpy_s (&(msg->data[i]), destMax, src, count)\<close>.\<close>

definition cec_put :: "nat \<Rightarrow> uint8_t \<Rightarrow> HdmiCecMsg \<Rightarrow> HdmiCecMsg option" where
  "cec_put i b msg = do {
     d \<leftarrow> arr_set (cm_data msg) i b;
     Some (msg\<lparr>cm_data := d\<rparr>)
   }"

definition cec_put_or :: "nat \<Rightarrow> uint8_t \<Rightarrow> HdmiCecMsg \<Rightarrow> HdmiCecMsg option" where
  "cec_put_or i b msg = do {
     c \<leftarrow> arr_get (cm_data msg) i;
     cec_put i (c OR b) msg
   }"

definition cec_copy :: "nat \<Rightarrow> uint32_t \<Rightarrow> bytes \<Rightarrow> uint32_t \<Rightarrow> HdmiCecMsg \<Rightarrow> HdmiCecMsg option" where
  "cec_copy i destMax src count msg = do {
     bs \<leftarrow> mem_read src 0 (unat count);
     (ok, d) \<leftarrow> memcpy_s (cm_data msg) i (unat destMax) bs;
     Some (msg\<lparr>cm_data := d\<rparr>)
   }"

section \<open>The encoders\<close>

subsection \<open>One touch play, routing and standby\<close>

definition HdmiCecEncodingActiveSourceMsg ::
    "HdmiCecMsg \<Rightarrow> uint16_t \<Rightarrow> HdmiCecMsg option" where
  "HdmiCecEncodingActiveSourceMsg msg phyAddr = do {
     let msg = msg\<lparr>cm_len := HDMI_CEC_GET_MSG_LEN HDMI_CEC_ACTIVE_SOURCE_MSG_PARAM_LEN\<rparr>;
     msg \<leftarrow> cec_put_or 0 HDMI_CEC_LOG_ADDR_UNREGISTERED_OR_BROADCAST msg;
     msg \<leftarrow> cec_put 1 HDMI_CEC_OPCODE_ACTIVE_SOURCE msg;
     msg \<leftarrow> cec_put 2 (ucast (drop_bit 8 phyAddr)) msg;
     msg \<leftarrow> cec_put 3 (ucast (phyAddr AND 0xFF)) msg;
     Some msg
   }"

definition HdmiCecEncodingImageViewOnMsg :: "HdmiCecMsg \<Rightarrow> HdmiCecMsg option" where
  "HdmiCecEncodingImageViewOnMsg msg = do {
     let msg = msg\<lparr>cm_len := HDMI_CEC_GET_MSG_LEN 0\<rparr>;
     msg \<leftarrow> cec_put 1 HDMI_CEC_OPCODE_IMAGE_VIEW_ON msg;
     Some msg
   }"

definition HdmiCecEncodingTextViewOnMsg :: "HdmiCecMsg \<Rightarrow> HdmiCecMsg option" where
  "HdmiCecEncodingTextViewOnMsg msg = do {
     let msg = msg\<lparr>cm_len := HDMI_CEC_GET_MSG_LEN 0\<rparr>;
     msg \<leftarrow> cec_put 1 HDMI_CEC_OPCODE_TEXT_VIEW_ON msg;
     Some msg
   }"

definition HdmiCecEncodingInactiveSourceMsg ::
    "HdmiCecMsg \<Rightarrow> uint16_t \<Rightarrow> HdmiCecMsg option" where
  "HdmiCecEncodingInactiveSourceMsg msg phyAddr = do {
     let msg = msg\<lparr>cm_len := HDMI_CEC_GET_MSG_LEN HDMI_CEC_INACTIVE_SOURCE_MSG_PARAM_LEN\<rparr>;
     msg \<leftarrow> cec_put 1 HDMI_CEC_OPCODE_INACTIVE_SOURCE msg;
     msg \<leftarrow> cec_put 2 (ucast (drop_bit 8 phyAddr)) msg;
     msg \<leftarrow> cec_put 3 (ucast (phyAddr AND 0xFF)) msg;
     Some msg
   }"

definition HdmiCecEncodingRequestActiveSourceMsg ::
    "HdmiCecMsg \<Rightarrow> bool \<Rightarrow> HdmiCecMsg option" where
  "HdmiCecEncodingRequestActiveSourceMsg msg response = do {
     let msg = msg\<lparr>cm_len := HDMI_CEC_GET_MSG_LEN 0\<rparr>;
     msg \<leftarrow> cec_put_or 0 HDMI_CEC_LOG_ADDR_UNREGISTERED_OR_BROADCAST msg;
     msg \<leftarrow> cec_put 1 HDMI_CEC_OPCODE_REQUEST_ACTIVE_SOURCE msg;
     Some (if response then msg\<lparr>cm_rspMsg := HDMI_CEC_OPCODE_ACTIVE_SOURCE\<rparr> else msg)
   }"

definition HdmiCecEncodingRoutingChangeMsg ::
    "HdmiCecMsg \<Rightarrow> uint16_t \<Rightarrow> uint16_t \<Rightarrow> bool \<Rightarrow> HdmiCecMsg option" where
  "HdmiCecEncodingRoutingChangeMsg msg orgAddr newAddr response = do {
     let msg = msg\<lparr>cm_len := HDMI_CEC_GET_MSG_LEN HDMI_CEC_ROUTING_CHANGE_MSG_PARAM_LEN\<rparr>;
     msg \<leftarrow> cec_put_or 0 HDMI_CEC_LOG_ADDR_UNREGISTERED_OR_BROADCAST msg;
     msg \<leftarrow> cec_put 1 HDMI_CEC_OPCODE_ROUTING_CHANGE msg;
     msg \<leftarrow> cec_put 2 (ucast (drop_bit 8 orgAddr)) msg;
     msg \<leftarrow> cec_put 3 (ucast (orgAddr AND 0xFF)) msg;
     msg \<leftarrow> cec_put 4 (ucast (drop_bit 8 newAddr)) msg;
     msg \<leftarrow> cec_put 5 (ucast (newAddr AND 0xFF)) msg;
     Some (if response then msg\<lparr>cm_rspMsg := HDMI_CEC_OPCODE_ROUTING_INFORMATION\<rparr> else msg)
   }"

definition HdmiCecEncodingRoutingInfomationMsg ::
    "HdmiCecMsg \<Rightarrow> uint16_t \<Rightarrow> HdmiCecMsg option" where
  "HdmiCecEncodingRoutingInfomationMsg msg phyAddr = do {
     let msg = msg\<lparr>cm_len := HDMI_CEC_GET_MSG_LEN HDMI_CEC_ROUTING_INFORMATIO_MSG_PARAM_LEN\<rparr>;
     msg \<leftarrow> cec_put_or 0 HDMI_CEC_LOG_ADDR_UNREGISTERED_OR_BROADCAST msg;
     msg \<leftarrow> cec_put 1 HDMI_CEC_OPCODE_ROUTING_INFORMATION msg;
     msg \<leftarrow> cec_put 2 (ucast (drop_bit 8 phyAddr)) msg;
     msg \<leftarrow> cec_put 3 (ucast (phyAddr AND 0xFF)) msg;
     Some msg
   }"

definition HdmiCecEncodingSetStreamPathMsg ::
    "HdmiCecMsg \<Rightarrow> uint16_t \<Rightarrow> HdmiCecMsg option" where
  "HdmiCecEncodingSetStreamPathMsg msg phyAddr = do {
     let msg = msg\<lparr>cm_len := HDMI_CEC_GET_MSG_LEN HDMI_CEC_SET_STREAM_PATH_MSG_PARAM_LEN\<rparr>;
     msg \<leftarrow> cec_put_or 0 HDMI_CEC_LOG_ADDR_UNREGISTERED_OR_BROADCAST msg;
     msg \<leftarrow> cec_put 1 HDMI_CEC_OPCODE_SET_STREAM_PATH msg;
     msg \<leftarrow> cec_put 2 (ucast (drop_bit 8 phyAddr)) msg;
     msg \<leftarrow> cec_put 3 (ucast (phyAddr AND 0xFF)) msg;
     Some msg
   }"

definition HdmiCecEncodingStandbyMsg :: "HdmiCecMsg \<Rightarrow> HdmiCecMsg option" where
  "HdmiCecEncodingStandbyMsg msg = do {
     let msg = msg\<lparr>cm_len := HDMI_CEC_GET_MSG_LEN 0\<rparr>;
     msg \<leftarrow> cec_put 1 HDMI_CEC_OPCODE_STANDBY msg;
     Some msg
   }"

subsection \<open>Recording\<close>

definition HdmiCecEncodingRecordOffMsg ::
    "HdmiCecMsg \<Rightarrow> bool \<Rightarrow> HdmiCecMsg option" where
  "HdmiCecEncodingRecordOffMsg msg response = do {
     let msg = msg\<lparr>cm_len := HDMI_CEC_GET_MSG_LEN 0\<rparr>;
     msg \<leftarrow> cec_put 1 HDMI_CEC_OPCODE_RECORD_OFF msg;
     Some (if response then msg\<lparr>cm_rspMsg := HDMI_CEC_OPCODE_RECORD_STATUS\<rparr> else msg)
   }"

definition HdmiCecEncodingRecordOnOwn :: "HdmiCecMsg \<Rightarrow> HdmiCecMsg option" where
  "HdmiCecEncodingRecordOnOwn msg = do {
     let msg = msg\<lparr>cm_len := HDMI_CEC_GET_MSG_LEN HDMI_CEC_RECORD_SOURCE_TYPE_LEN\<rparr>;
     msg \<leftarrow> cec_put 1 HDMI_CEC_OPCODE_RECORD_ON msg;
     msg \<leftarrow> cec_put 2 HDMI_CEC_RECORD_SRC_OWN msg;
     Some msg
   }"

definition HdmiCecEncodingDigitalServiceId ::
    "HdmiCecMsg \<Rightarrow> nat \<Rightarrow> uint8_t \<Rightarrow> HdmiCecDigitalServiceId \<Rightarrow> HdmiCecMsg option" where
  "HdmiCecEncodingDigitalServiceId msg data len digital =
     (if len < HDMI_CEC_DIGITAL_SERVICE_ID_LEN then Some msg
      else do {
        msg \<leftarrow> cec_put data (push_bit 7 (dsi_method digital) OR dsi_system digital) msg;
        if dsi_method digital = HDMI_CEC_SERVICE_ID_METHOD_BY_CHANNEL then
          (case dsi_systemData digital of
             ServiceChannel ch \<Rightarrow> do {
               msg \<leftarrow> cec_put (data + 1) (push_bit 2 (chid_format ch) OR ucast (drop_bit 8 (chid_major ch))) msg;
               msg \<leftarrow> cec_put (data + 2) (ucast (chid_major ch AND 0xFF)) msg;
               msg \<leftarrow> cec_put (data + 3) (ucast (drop_bit 8 (chid_minor ch))) msg;
               cec_put (data + 4) (ucast (chid_minor ch AND 0xFF)) msg
             }
           | _ \<Rightarrow> None)
        else if dsi_system digital \<in> {HDMI_CEC_DIG_SERVICE_BCAST_SYSTEM_ARIB_GEN,
            HDMI_CEC_DIG_SERVICE_BCAST_SYSTEM_ARIB_BS, HDMI_CEC_DIG_SERVICE_BCAST_SYSTEM_ARIB_CS,
            HDMI_CEC_DIG_SERVICE_BCAST_SYSTEM_ARIB_T} then
          (case dsi_systemData digital of
             ServiceArib arib \<Rightarrow> do {
               msg \<leftarrow> cec_put (data + 1) (ucast (drop_bit 8 (arib_transportId arib))) msg;
               msg \<leftarrow> cec_put (data + 2) (ucast (arib_transportId arib AND 0xFF)) msg;
               msg \<leftarrow> cec_put (data + 3) (ucast (drop_bit 8 (arib_serviceId arib))) msg;
               msg \<leftarrow> cec_put (data + 4) (ucast (arib_serviceId arib AND 0xFF)) msg;
               msg \<leftarrow> cec_put (data + 5) (ucast (drop_bit 8 (arib_orgNetworkId arib))) msg;
               cec_put (data + 6) (ucast (arib_orgNetworkId arib AND 0xFF)) msg
             }
           | _ \<Rightarrow> None)
        else if dsi_system digital \<in> {HDMI_CEC_DIG_SERVICE_BCAST_SYSTEM_ATSC_GEN,
            HDMI_CEC_DIG_SERVICE_BCAST_SYSTEM_ATSC_CABLE, HDMI_CEC_DIG_SERVICE_BCAST_SYSTEM_ATSC_SATELLITE,
            HDMI_CEC_DIG_SERVICE_BCAST_SYSTEM_ATSC_TERRESTRIAL} then
          (case dsi_systemData digital of
             ServiceAtsc atsc \<Rightarrow> do {
               msg \<leftarrow> cec_put (data + 1) (ucast (drop_bit 8 (atsc_transportId atsc))) msg;
               msg \<leftarrow> cec_put (data + 2) (ucast (atsc_transportId atsc AND 0xFF)) msg;
               msg \<leftarrow> cec_put (data + 3) (ucast (drop_bit 8 (atsc_programNumber atsc))) msg;
               cec_put (data + 4) (ucast (atsc_programNumber atsc AND 0xFF)) msg
             }
           | _ \<Rightarrow> None)
        else if dsi_system digital \<in> {HDMI_CEC_DIG_SERVICE_BCAST_SYSTEM_DVB_GEN,
            HDMI_CEC_DIG_SERVICE_BCAST_SYSTEM_DVB_C, HDMI_CEC_DIG_SERVICE_BCAST_SYSTEM_DVB_S,
            HDMI_CEC_DIG_SERVICE_BCAST_SYSTEM_DVB_S2, HDMI_CEC_DIG_SERVICE_BCAST_SYSTEM_DVB_T} then
          (case dsi_systemData digital of
             ServiceDvb dvb \<Rightarrow> do {
               msg \<leftarrow> cec_put (data + 1) (ucast (drop_bit 8 (dvb_transportId dvb))) msg;
               msg \<leftarrow> cec_put (data + 2) (ucast (dvb_transportId dvb AND 0xFF)) msg;
               msg \<leftarrow> cec_put (data + 3) (ucast (drop_bit 8 (dvb_serviceId dvb))) msg;
               msg \<leftarrow> cec_put (data + 4) (ucast (dvb_serviceId dvb AND 0xFF)) msg;
               msg \<leftarrow> cec_put (data + 5) (ucast (drop_bit 8 (dvb_orgNetworkId dvb))) msg;
               cec_put (data + 6) (ucast (dvb_orgNetworkId dvb AND 0xFF)) msg
             }
           | _ \<Rightarrow> None)
        else Some msg
      })"

definition HdmiCecEncodingRecordOnDigital :: "HdmiCecMsg \<Rightarrow> HdmiCecDigitalServiceId \<Rightarrow> HdmiCecMsg option" where
  "HdmiCecEncodingRecordOnDigital msg digital = do {
     let msg = msg\<lparr>cm_len := HDMI_CEC_GET_MSG_LEN HDMI_CEC_RECORD_ON_DIGITAL_MSG_PARAM_LEN\<rparr>;
     msg \<leftarrow> cec_put 1 HDMI_CEC_OPCODE_RECORD_ON msg;
     msg \<leftarrow> cec_put 2 HDMI_CEC_RECORD_SRC_DIGITAL msg;
     HdmiCecEncodingDigitalServiceId msg 3 HDMI_CEC_DIGITAL_SERVICE_ID_LEN digital
   }"

definition HdmiCecEncodingRecordOnAnalog ::
    "HdmiCecMsg \<Rightarrow> uint8_t \<Rightarrow> uint16_t \<Rightarrow> uint8_t \<Rightarrow> HdmiCecMsg option" where
  "HdmiCecEncodingRecordOnAnalog msg anaBcastType anaFreq bcstSystem = do {
     let msg = msg\<lparr>cm_len := HDMI_CEC_GET_MSG_LEN HDMI_CEC_RECORD_ON_ANALOG_MSG_PARAM_LEN\<rparr>;
     msg \<leftarrow> cec_put 1 HDMI_CEC_OPCODE_RECORD_ON msg;
     msg \<leftarrow> cec_put 2 HDMI_CEC_RECORD_SRC_ANALOG msg;
     msg \<leftarrow> cec_put 3 anaBcastType msg;
     msg \<leftarrow> cec_put 4 (ucast (drop_bit 8 anaFreq)) msg;
     msg \<leftarrow> cec_put 5 (ucast (anaFreq AND 0xFF)) msg;
     msg \<leftarrow> cec_put 6 bcstSystem msg;
     Some msg
   }"

definition HdmiCecEncodingRecordOnExtPlug ::
    "HdmiCecMsg \<Rightarrow> uint8_t \<Rightarrow> HdmiCecMsg option" where
  "HdmiCecEncodingRecordOnExtPlug msg extPlug = do {
     let msg = msg\<lparr>cm_len := HDMI_CEC_GET_MSG_LEN HDMI_CEC_RECORD_ON_EXT_PLUG_MSG_PARAM_LEN\<rparr>;
     msg \<leftarrow> cec_put 1 HDMI_CEC_OPCODE_RECORD_ON msg;
     msg \<leftarrow> cec_put 2 HDMI_CEC_RECORD_SRC_EXT_PLUG msg;
     msg \<leftarrow> cec_put 3 extPlug msg;
     Some msg
   }"

definition HdmiCecEncodingRecordOnExtPhyAddr ::
    "HdmiCecMsg \<Rightarrow> uint16_t \<Rightarrow> HdmiCecMsg option" where
  "HdmiCecEncodingRecordOnExtPhyAddr msg extPhyAddr = do {
     let msg = msg\<lparr>cm_len := HDMI_CEC_GET_MSG_LEN HDMI_CEC_RECORD_ON_EXT_PHY_ADDR_MSG_PARAM_LEN\<rparr>;
     msg \<leftarrow> cec_put 1 HDMI_CEC_OPCODE_RECORD_ON msg;
     msg \<leftarrow> cec_put 2 HDMI_CEC_RECORD_SRC_EXT_PHY_ADDR msg;
     msg \<leftarrow> cec_put 3 (ucast (drop_bit 8 extPhyAddr)) msg;
     msg \<leftarrow> cec_put 4 (ucast (extPhyAddr AND 0xFF)) msg;
     Some msg
   }"

definition HdmiCecEncodingRecordOnMsg :: "HdmiCecMsg \<Rightarrow> HdmiCecRecordSource \<Rightarrow> bool \<Rightarrow> HdmiCecMsg option" where
  "HdmiCecEncodingRecordOnMsg msg src response = do {
     msg \<leftarrow> (if rsa_type src = HDMI_CEC_RECORD_SRC_OWN then HdmiCecEncodingRecordOnOwn msg
       else if rsa_type src = HDMI_CEC_RECORD_SRC_DIGITAL then
         (case rsa_data src of RecordId digital \<Rightarrow> HdmiCecEncodingRecordOnDigital msg digital | _ \<Rightarrow> None)
       else if rsa_type src = HDMI_CEC_RECORD_SRC_ANALOG then
         (case rsa_data src of RecordAnalog anaBcastType anaFreq bcstSystem \<Rightarrow>
            HdmiCecEncodingRecordOnAnalog msg anaBcastType anaFreq bcstSystem | _ \<Rightarrow> None)
       else if rsa_type src = HDMI_CEC_RECORD_SRC_EXT_PLUG then
         (case rsa_data src of RecordExtPlug extPlug \<Rightarrow> HdmiCecEncodingRecordOnExtPlug msg extPlug | _ \<Rightarrow> None)
       else if rsa_type src = HDMI_CEC_RECORD_SRC_EXT_PHY_ADDR then
         (case rsa_data src of RecordExtPhyAddr addr \<Rightarrow> HdmiCecEncodingRecordOnExtPhyAddr msg addr | _ \<Rightarrow> None)
       else Some msg);
     Some (if response then msg\<lparr>cm_rspMsg := HDMI_CEC_OPCODE_RECORD_STATUS\<rparr> else msg)
   }"

definition HdmiCecEncodingRecordStatusMsg ::
    "HdmiCecMsg \<Rightarrow> uint8_t \<Rightarrow> HdmiCecMsg option" where
  "HdmiCecEncodingRecordStatusMsg msg recordStatusInfo = do {
     let msg = msg\<lparr>cm_len := HDMI_CEC_GET_MSG_LEN HDMI_CEC_RECORD_STATUS_MSG_PARAM_LEN\<rparr>;
     msg \<leftarrow> cec_put 1 HDMI_CEC_OPCODE_RECORD_STATUS msg;
     msg \<leftarrow> cec_put 2 recordStatusInfo msg;
     Some msg
   }"

definition HdmiCecEncodingRecordTvScreenMsg ::
    "HdmiCecMsg \<Rightarrow> bool \<Rightarrow> HdmiCecMsg option" where
  "HdmiCecEncodingRecordTvScreenMsg msg response = do {
     let msg = msg\<lparr>cm_len := HDMI_CEC_GET_MSG_LEN 0\<rparr>;
     msg \<leftarrow> cec_put 1 HDMI_CEC_OPCODE_RECORD_TV_SCREEN msg;
     Some (if response then msg\<lparr>cm_rspMsg := HDMI_CEC_OPCODE_RECORD_ON\<rparr> else msg)
   }"

subsection \<open>Timers\<close>

definition HdmiCecEncodingCommTimerInfo ::
    "HdmiCecMsg \<Rightarrow> nat \<Rightarrow> uint8_t \<Rightarrow> HdmiCecCommTimerInfo \<Rightarrow> HdmiCecMsg option" where
  "HdmiCecEncodingCommTimerInfo msg data len info =
     (if len < HDMI_CEC_COMM_TIMER_INFO_LEN then Some msg
      else do {
        msg \<leftarrow> cec_put data (cti_data info) msg;
        msg \<leftarrow> cec_put (data + 1) (cti_month info) msg;
        msg \<leftarrow> cec_put (data + 2) (HDMI_CEC_BCD_FORMAT_TIME (cti_startHour info)) msg;
        msg \<leftarrow> cec_put (data + 3) (HDMI_CEC_BCD_FORMAT_TIME (cti_startMinute info)) msg;
        msg \<leftarrow> cec_put (data + 4) (HDMI_CEC_BCD_FORMAT_TIME (cti_durationHour info)) msg;
        msg \<leftarrow> cec_put (data + 5) (HDMI_CEC_BCD_FORMAT_TIME (cti_durationMinute info)) msg;
        cec_put (data + 6) (cti_recordingSeq info) msg
      })"

definition HdmiCecEncodingAnalogueTimerInfo ::
    "HdmiCecMsg \<Rightarrow> nat \<Rightarrow> uint8_t \<Rightarrow> HdmiCecAnalogueTimerInfo \<Rightarrow> HdmiCecMsg option" where
  "HdmiCecEncodingAnalogueTimerInfo msg data len info =
     (if len < HDMI_CEC_ANALOGUE_TIMER_INFO_LEN then Some msg
      else do {
        msg \<leftarrow> HdmiCecEncodingCommTimerInfo msg data HDMI_CEC_COMM_TIMER_INFO_LEN (ati_commInfo info);
        msg \<leftarrow> cec_put (data + 7) (ati_anaBcastType info) msg;
        msg \<leftarrow> cec_put (data + 8) (ucast (drop_bit 8 (ati_anaFreq info))) msg;
        msg \<leftarrow> cec_put (data + 9) (ucast (ati_anaFreq info AND 0xFF)) msg;
        cec_put (data + 10) (ati_bcstSystem info) msg
      })"

definition HdmiCecEncodingClearAnalogueTimerMsg ::
    "HdmiCecMsg \<Rightarrow> HdmiCecAnalogueTimerInfo \<Rightarrow> bool \<Rightarrow> HdmiCecMsg option" where
  "HdmiCecEncodingClearAnalogueTimerMsg msg info response = do {
     let msg = msg\<lparr>cm_len := HDMI_CEC_GET_MSG_LEN HDMI_CEC_ANALOGUE_TIMER_INFO_LEN\<rparr>;
     msg \<leftarrow> cec_put 1 HDMI_CEC_OPCODE_CLEAR_ANALOGUE_TIMER msg;
     msg \<leftarrow> HdmiCecEncodingAnalogueTimerInfo msg 2 HDMI_CEC_ANALOGUE_TIMER_INFO_LEN info;
     Some (if response then msg\<lparr>cm_rspMsg := HDMI_CEC_OPCODE_TIMER_CLEARED_STATUS\<rparr> else msg)
   }"

definition HdmiCecEncodingDigitalTimerInfo ::
    "HdmiCecMsg \<Rightarrow> nat \<Rightarrow> uint8_t \<Rightarrow> HdmiCecDigitalTimerInfo \<Rightarrow> HdmiCecMsg option" where
  "HdmiCecEncodingDigitalTimerInfo msg data len info =
     (if len < HDMI_CEC_DIGITAL_TIMER_INFO_LEN then Some msg
      else do {
        msg \<leftarrow> HdmiCecEncodingCommTimerInfo msg data HDMI_CEC_COMM_TIMER_INFO_LEN (dti_commInfo info);
        HdmiCecEncodingDigitalServiceId msg (data + 7) (len - HDMI_CEC_COMM_TIMER_INFO_LEN) (dti_id info)
      })"

definition HdmiCecEncodingClearDigitalTimerMsg ::
    "HdmiCecMsg \<Rightarrow> HdmiCecDigitalTimerInfo \<Rightarrow> bool \<Rightarrow> HdmiCecMsg option" where
  "HdmiCecEncodingClearDigitalTimerMsg msg info response = do {
     let msg = msg\<lparr>cm_len := HDMI_CEC_GET_MSG_LEN HDMI_CEC_DIGITAL_TIMER_INFO_LEN\<rparr>;
     msg \<leftarrow> cec_put 1 HDMI_CEC_OPCODE_CLEAR_DIGITAL_TIMER msg;
     msg \<leftarrow> HdmiCecEncodingDigitalTimerInfo msg 2 HDMI_CEC_DIGITAL_TIMER_INFO_LEN info;
     Some (if response then msg\<lparr>cm_rspMsg := HDMI_CEC_OPCODE_TIMER_CLEARED_STATUS\<rparr> else msg)
   }"

definition HdmiCecEncodingExternalTimerInfo ::
    "HdmiCecMsg \<Rightarrow> nat \<Rightarrow> uint8_t \<Rightarrow> HdmiCecExternalTimerInfo \<Rightarrow> HdmiCecMsg option" where
  "HdmiCecEncodingExternalTimerInfo msg data len info =
     (if len < HDMI_CEC_EXTERNAL_TIMER_INFO_LEN then Some msg
      else do {
        msg \<leftarrow> HdmiCecEncodingCommTimerInfo msg data HDMI_CEC_COMM_TIMER_INFO_LEN (eti_commInfo info);
        msg \<leftarrow> cec_put (data + 7) (eti_extSrcSpec info) msg;
        msg \<leftarrow> cec_put (data + 8) (eti_extPlug info) msg;
        msg \<leftarrow> cec_put (data + 9) (ucast (drop_bit 8 (eti_extPhyAddr info))) msg;
        cec_put (data + 10) (ucast (eti_extPhyAddr info AND 0xFF)) msg
      })"

definition HdmiCecEncodingClearExternalTimerMsg ::
    "HdmiCecMsg \<Rightarrow> HdmiCecExternalTimerInfo \<Rightarrow> bool \<Rightarrow> HdmiCecMsg option" where
  "HdmiCecEncodingClearExternalTimerMsg msg info response = do {
     let msg = msg\<lparr>cm_len := HDMI_CEC_GET_MSG_LEN HDMI_CEC_EXTERNAL_TIMER_INFO_LEN\<rparr>;
     msg \<leftarrow> cec_put 1 HDMI_CEC_OPCODE_CLEAR_EXTERNAL_TIMER msg;
     msg \<leftarrow> HdmiCecEncodingExternalTimerInfo msg 2 HDMI_CEC_EXTERNAL_TIMER_INFO_LEN info;
     Some (if response then msg\<lparr>cm_rspMsg := HDMI_CEC_OPCODE_TIMER_CLEARED_STATUS\<rparr> else msg)
   }"

definition HdmiCecEncodingSetAnalogueTimerMsg ::
    "HdmiCecMsg \<Rightarrow> HdmiCecAnalogueTimerInfo \<Rightarrow> bool \<Rightarrow> HdmiCecMsg option" where
  "HdmiCecEncodingSetAnalogueTimerMsg msg info response = do {
     let msg = msg\<lparr>cm_len := HDMI_CEC_GET_MSG_LEN HDMI_CEC_ANALOGUE_TIMER_INFO_LEN\<rparr>;
     msg \<leftarrow> cec_put 1 HDMI_CEC_OPCODE_SET_ANALOGUE_TIMER msg;
     msg \<leftarrow> HdmiCecEncodingAnalogueTimerInfo msg 2 HDMI_CEC_ANALOGUE_TIMER_INFO_LEN info;
     Some (if response then msg\<lparr>cm_rspMsg := HDMI_CEC_OPCODE_TIMER_STATUS\<rparr> else msg)
   }"

definition HdmiCecEncodingSetDigitalTimerMsg ::
    "HdmiCecMsg \<Rightarrow> HdmiCecDigitalTimerInfo \<Rightarrow> bool \<Rightarrow> HdmiCecMsg option" where
  "HdmiCecEncodingSetDigitalTimerMsg msg info response = do {
     let msg = msg\<lparr>cm_len := HDMI_CEC_GET_MSG_LEN HDMI_CEC_DIGITAL_TIMER_INFO_LEN\<rparr>;
     msg \<leftarrow> cec_put 1 HDMI_CEC_OPCODE_SET_DIGITAL_TIMER msg;
     msg \<leftarrow> HdmiCecEncodingDigitalTimerInfo msg 2 HDMI_CEC_DIGITAL_TIMER_INFO_LEN info;
     Some (if response then msg\<lparr>cm_rspMsg := HDMI_CEC_OPCODE_TIMER_STATUS\<rparr> else msg)
   }"

definition HdmiCecEncodingSetExternalTimerMsg ::
    "HdmiCecMsg \<Rightarrow> HdmiCecExternalTimerInfo \<Rightarrow> bool \<Rightarrow> HdmiCecMsg option" where
  "HdmiCecEncodingSetExternalTimerMsg msg info response = do {
     let msg = msg\<lparr>cm_len := HDMI_CEC_GET_MSG_LEN HDMI_CEC_EXTERNAL_TIMER_INFO_LEN\<rparr>;
     msg \<leftarrow> cec_put 1 HDMI_CEC_OPCODE_SET_EXTERNAL_TIMER msg;
     msg \<leftarrow> HdmiCecEncodingExternalTimerInfo msg 2 HDMI_CEC_EXTERNAL_TIMER_INFO_LEN info;
     Some (if response then msg\<lparr>cm_rspMsg := HDMI_CEC_OPCODE_TIMER_STATUS\<rparr> else msg)
   }"

definition HdmiCecEncodingSetTimerProgramTitleMsg ::
    "HdmiCecMsg \<Rightarrow> bytes option \<Rightarrow> uint32_t \<Rightarrow> HdmiCecMsg option" where
  "HdmiCecEncodingSetTimerProgramTitleMsg msg title len =
     (case title of None \<Rightarrow> Some msg
      | Some title \<Rightarrow>
          if len < HDMI_CEC_PROGRAM_TITLE_STR_MIN_LEN then Some msg
          else do {
            let length = (if len \<le> HDMI_CEC_PROGRAM_TITLE_STR_MAX_LEN then len else HDMI_CEC_PROGRAM_TITLE_STR_MAX_LEN);
            let msg = msg\<lparr>cm_len := HDMI_CEC_GET_MSG_LEN length\<rparr>;
            msg \<leftarrow> cec_put 1 HDMI_CEC_OPCODE_SET_TIMER_PROGRAM_TITLE msg;
            cec_copy 2 (cm_len msg - 2) title length msg
          })"

definition HdmiCecEncodingTimerClearedStatusMsg ::
    "HdmiCecMsg \<Rightarrow> uint8_t \<Rightarrow> HdmiCecMsg option" where
  "HdmiCecEncodingTimerClearedStatusMsg msg status = do {
     let msg = msg\<lparr>cm_len := HDMI_CEC_GET_MSG_LEN HDMI_CEC_TIMER_CLEARED_STATUS_MSG_PARAM_LEN\<rparr>;
     msg \<leftarrow> cec_put 1 HDMI_CEC_OPCODE_TIMER_CLEARED_STATUS msg;
     msg \<leftarrow> cec_put 2 status msg;
     Some msg
   }"

definition HdmiCecEncodingTimerStatusMsg :: "HdmiCecMsg \<Rightarrow> HdmiCecTimerStatusData \<Rightarrow> HdmiCecMsg option" where
  "HdmiCecEncodingTimerStatusMsg msg status = do {
     let info = tsd_progInfo status;
     let msg = msg\<lparr>cm_len := HDMI_CEC_GET_MSG_LEN HDMI_CEC_TIMER_STATUS_DATA_MIN_LEN\<rparr>;
     msg \<leftarrow> cec_put 1 HDMI_CEC_OPCODE_TIMER_STATUS msg;
     msg \<leftarrow> cec_put_or 2 (push_bit 7 (tsd_timerOverlap status)) msg;
     msg \<leftarrow> cec_put_or 2 (push_bit 5 (tsd_mediaInfo status)) msg;
     msg \<leftarrow> cec_put_or 2 (push_bit 4 (tpi_indicator info)) msg;
     msg \<leftarrow> cec_put_or 2 (tpi_info info) msg;
     let duration = (if tpi_indicator info > 0
       then tpi_info info = HDMI_CEC_PROGRAMMED_INFO_NOT_ENOUGH_SPAC \<or>
         tpi_info info = HDMI_CEC_PROGRAMMED_INFO_MIGHT_NOT_BE_ENOUGH_SPACE
       else tpi_info info = HDMI_CEC_NOT_PROG_ERR_DUPLICATE);
     if duration then do {
       let msg = msg\<lparr>cm_len := HDMI_CEC_GET_MSG_LEN HDMI_CEC_TIMER_STATUS_DATA_MAX_LEN\<rparr>;
       msg \<leftarrow> cec_put 3 (HDMI_CEC_BCD_FORMAT_TIME (tpi_durationHour info)) msg;
       cec_put 4 (HDMI_CEC_BCD_FORMAT_TIME (tpi_durationMinute info)) msg
     }
     else Some msg
   }"

subsection \<open>System information\<close>

definition HdmiCecEncodingCecVersionMsg ::
    "HdmiCecMsg \<Rightarrow> uint8_t \<Rightarrow> HdmiCecMsg option" where
  "HdmiCecEncodingCecVersionMsg msg version = do {
     let msg = msg\<lparr>cm_len := HDMI_CEC_GET_MSG_LEN HDMI_CEC_CEC_VERSION_MSG_PARAM_LEN\<rparr>;
     msg \<leftarrow> cec_put 1 HDMI_CEC_OPCODE_CEC_VERSION msg;
     msg \<leftarrow> cec_put 2 version msg;
     Some msg
   }"

definition HdmiCecEncodingGetCecVersionMsg ::
    "HdmiCecMsg \<Rightarrow> bool \<Rightarrow> HdmiCecMsg option" where
  "HdmiCecEncodingGetCecVersionMsg msg response = do {
     let msg = msg\<lparr>cm_len := HDMI_CEC_GET_MSG_LEN 0\<rparr>;
     msg \<leftarrow> cec_put 1 HDMI_CEC_OPCODE_GET_CEC_VERSION msg;
     Some (if response then msg\<lparr>cm_rspMsg := HDMI_CEC_OPCODE_CEC_VERSION\<rparr> else msg)
   }"

definition HdmiCecEncodingGetPhyAddressMsg ::
    "HdmiCecMsg \<Rightarrow> bool \<Rightarrow> HdmiCecMsg option" where
  "HdmiCecEncodingGetPhyAddressMsg msg response = do {
     let msg = msg\<lparr>cm_len := HDMI_CEC_GET_MSG_LEN 0\<rparr>;
     msg \<leftarrow> cec_put 1 HDMI_CEC_OPCODE_GIVE_PHYSICAL_ADDRESS msg;
     Some (if response then msg\<lparr>cm_rspMsg := HDMI_CEC_OPCODE_REPORT_PHYSICAL_ADDRESS\<rparr> else msg)
   }"

definition HdmiCecEncodingGetMenuLanguageMsg ::
    "HdmiCecMsg \<Rightarrow> bool \<Rightarrow> HdmiCecMsg option" where
  "HdmiCecEncodingGetMenuLanguageMsg msg response = do {
     let msg = msg\<lparr>cm_len := HDMI_CEC_GET_MSG_LEN 0\<rparr>;
     msg \<leftarrow> cec_put 1 HDMI_CEC_OPCODE_GET_MENU_LANGUAGE msg;
     Some (if response then msg\<lparr>cm_rspMsg := HDMI_CEC_OPCODE_SET_MENU_LANGUAGE\<rparr> else msg)
   }"

definition HdmiCecEncodingReportPhyAddressMsg ::
    "HdmiCecMsg \<Rightarrow> uint16_t \<Rightarrow> uint8_t \<Rightarrow> HdmiCecMsg option" where
  "HdmiCecEncodingReportPhyAddressMsg msg phyAddr deviceType = do {
     let msg = msg\<lparr>cm_len := HDMI_CEC_GET_MSG_LEN HDMI_CEC_REPORT_PHYSICAL_ADDRESS_MSG_PARAM_LEN\<rparr>;
     msg \<leftarrow> cec_put_or 0 HDMI_CEC_LOG_ADDR_UNREGISTERED_OR_BROADCAST msg;
     msg \<leftarrow> cec_put 1 HDMI_CEC_OPCODE_REPORT_PHYSICAL_ADDRESS msg;
     msg \<leftarrow> cec_put 2 (ucast (drop_bit 8 phyAddr)) msg;
     msg \<leftarrow> cec_put 3 (ucast (phyAddr AND 0xFF)) msg;
     msg \<leftarrow> cec_put 4 deviceType msg;
     Some msg
   }"

definition HdmiCecEncodingSetMenuLanguageMsg ::
    "HdmiCecMsg \<Rightarrow> bytes option \<Rightarrow> uint32_t \<Rightarrow> HdmiCecMsg option" where
  "HdmiCecEncodingSetMenuLanguageMsg msg language len =
     (case language of None \<Rightarrow> Some msg
      | Some language \<Rightarrow>
          if len \<noteq> HDMI_CEC_SET_MENU_LANGUAGE_MSG_PARAM_LEN then Some msg
          else do {
            let msg = msg\<lparr>cm_len := HDMI_CEC_GET_MSG_LEN len\<rparr>;
            msg \<leftarrow> cec_put_or 0 HDMI_CEC_LOG_ADDR_UNREGISTERED_OR_BROADCAST msg;
            msg \<leftarrow> cec_put 1 HDMI_CEC_OPCODE_SET_MENU_LANGUAGE msg;
            cec_copy 2 (cm_len msg - 2) language len msg
          })"

text \<open>
  Both loops over the profile and the features: a byte is stored and the length counted up until a
  byte without the extension bit, at most \<open>n\<close> times.
\<close>

fun features_loop :: "bytes \<Rightarrow> nat \<Rightarrow> nat \<Rightarrow> uint8_t \<Rightarrow> HdmiCecMsg \<Rightarrow> HdmiCecMsg option" where
  "features_loop arr i 0 mark msg = Some msg"
| "features_loop arr i (Suc n) mark msg = do {
     b \<leftarrow> arr_get arr i;
     msg \<leftarrow> cec_put (unat (cm_len msg)) b msg;
     let msg = msg\<lparr>cm_len := cm_len msg + 1\<rparr>;
     if b AND mark = 0 then Some msg else features_loop arr (Suc i) n mark msg
   }"

definition HdmiCecEncodingReportFeaturesMsg :: "HdmiCecMsg \<Rightarrow> HdmiCecInfo \<Rightarrow> HdmiCecMsg option" where
  "HdmiCecEncodingReportFeaturesMsg msg info = do {
     let msg = msg\<lparr>cm_len := HDMI_CEC_GET_MSG_LEN 0\<rparr>;
     msg \<leftarrow> cec_put_or 0 HDMI_CEC_LOG_ADDR_UNREGISTERED_OR_BROADCAST msg;
     msg \<leftarrow> cec_put 1 HDMI_CEC_OPCODE_REPORT_FEATURES msg;
     msg \<leftarrow> cec_put 2 (ci_cecVersion info) msg;
     let msg = msg\<lparr>cm_len := cm_len msg + 1\<rparr>;
     msg \<leftarrow> cec_put 3 (ci_allDeviceType info) msg;
     let msg = msg\<lparr>cm_len := cm_len msg + 1\<rparr>;
     msg \<leftarrow> features_loop (ci_rcProfile info) 0 HDMI_CEC_RC_PROFILE_MAX_NUM HDMI_CEC_RC_PROFILE_EXTERNSION_MARK msg;
     features_loop (ci_devFeatures info) 0 HDMI_CEC_DEVICE_FEATURES_MAX_NUM HDMI_CEC_DEVICE_FEATURES_EXTERNSION_MARK msg
   }"

definition HdmiCecEncodingGiveFeaturesMsg ::
    "HdmiCecMsg \<Rightarrow> bool \<Rightarrow> HdmiCecMsg option" where
  "HdmiCecEncodingGiveFeaturesMsg msg response = do {
     let msg = msg\<lparr>cm_len := HDMI_CEC_GET_MSG_LEN 0\<rparr>;
     msg \<leftarrow> cec_put 1 HDMI_CEC_OPCODE_GIVE_FEATURES msg;
     Some (if response then msg\<lparr>cm_rspMsg := HDMI_CEC_OPCODE_SET_MENU_LANGUAGE\<rparr> else msg)
   }"

subsection \<open>Decks and tuners\<close>

definition HdmiCecEncodingDeckControlMsg ::
    "HdmiCecMsg \<Rightarrow> uint8_t \<Rightarrow> HdmiCecMsg option" where
  "HdmiCecEncodingDeckControlMsg msg mode = do {
     let msg = msg\<lparr>cm_len := HDMI_CEC_GET_MSG_LEN HDMI_CEC_DECK_CONTROL_MSG_PARAM_LEN\<rparr>;
     msg \<leftarrow> cec_put 1 HDMI_CEC_OPCODE_DECK_CONTROL msg;
     msg \<leftarrow> cec_put 2 mode msg;
     Some msg
   }"

definition HdmiCecEncodingDeckStatusMsg ::
    "HdmiCecMsg \<Rightarrow> uint8_t \<Rightarrow> HdmiCecMsg option" where
  "HdmiCecEncodingDeckStatusMsg msg info = do {
     let msg = msg\<lparr>cm_len := HDMI_CEC_GET_MSG_LEN HDMI_CEC_DECK_STATUS_MSG_PARAM_LEN\<rparr>;
     msg \<leftarrow> cec_put 1 HDMI_CEC_OPCODE_DECK_STATUS msg;
     msg \<leftarrow> cec_put 2 info msg;
     Some msg
   }"

definition HdmiCecEncodingGiveDeckStatusMsg ::
    "HdmiCecMsg \<Rightarrow> uint8_t \<Rightarrow> bool \<Rightarrow> HdmiCecMsg option" where
  "HdmiCecEncodingGiveDeckStatusMsg msg statusReq response = do {
     let msg = msg\<lparr>cm_len := HDMI_CEC_GET_MSG_LEN HDMI_CEC_GIVE_DECK_STATUS_MSG_PARAM_LEN\<rparr>;
     msg \<leftarrow> cec_put 1 HDMI_CEC_OPCODE_GIVE_DECK_STATUS msg;
     msg \<leftarrow> cec_put 2 statusReq msg;
     Some (if response then msg\<lparr>cm_rspMsg := HDMI_CEC_OPCODE_DECK_STATUS\<rparr> else msg)
   }"

definition HdmiCecEncodingPlayMsg ::
    "HdmiCecMsg \<Rightarrow> uint8_t \<Rightarrow> HdmiCecMsg option" where
  "HdmiCecEncodingPlayMsg msg playMode = do {
     let msg = msg\<lparr>cm_len := HDMI_CEC_GET_MSG_LEN HDMI_CEC_PLAY_MSG_PARAM_LEN\<rparr>;
     msg \<leftarrow> cec_put 1 HDMI_CEC_OPCODE_PLAY msg;
     msg \<leftarrow> cec_put 2 playMode msg;
     Some msg
   }"

definition HdmiCecEncodingGiveTunerDeviceStatusMsg ::
    "HdmiCecMsg \<Rightarrow> uint8_t \<Rightarrow> bool \<Rightarrow> HdmiCecMsg option" where
  "HdmiCecEncodingGiveTunerDeviceStatusMsg msg statusReq response = do {
     let msg = msg\<lparr>cm_len := HDMI_CEC_GET_MSG_LEN HDMI_CEC_GIVE_TUNER_DEVICE_STATU_MSG_PARAM_LEN\<rparr>;
     msg \<leftarrow> cec_put 1 HDMI_CEC_OPCODE_GIVE_TUNER_DEVICE_STATUS msg;
     msg \<leftarrow> cec_put 2 statusReq msg;
     Some (if response then msg\<lparr>cm_rspMsg := HDMI_CEC_OPCODE_TUNER_DEVICE_STATUS\<rparr> else msg)
   }"

definition HdmiCecEncodingSelectAnalogueServiceMsg ::
    "HdmiCecMsg \<Rightarrow> uint8_t \<Rightarrow> uint16_t \<Rightarrow> uint8_t \<Rightarrow> HdmiCecMsg option" where
  "HdmiCecEncodingSelectAnalogueServiceMsg msg anaBcastType anaFreq bcstSystem = do {
     let msg = msg\<lparr>cm_len := HDMI_CEC_GET_MSG_LEN HDMI_CEC_SELECT_ANALOGUE_SERVICE_MSG_PARAM_LEN\<rparr>;
     msg \<leftarrow> cec_put 1 HDMI_CEC_OPCODE_SELECT_ANALOGUE_SERVICE msg;
     msg \<leftarrow> cec_put 2 anaBcastType msg;
     msg \<leftarrow> cec_put 3 (ucast (drop_bit 8 anaFreq)) msg;
     msg \<leftarrow> cec_put 4 (ucast (anaFreq AND 0xFF)) msg;
     msg \<leftarrow> cec_put 5 bcstSystem msg;
     Some msg
   }"

definition HdmiCecEncodingSelectDigitalServiceMsg ::
    "HdmiCecMsg \<Rightarrow> HdmiCecDigitalServiceId \<Rightarrow> HdmiCecMsg option" where
  "HdmiCecEncodingSelectDigitalServiceMsg msg digital = do {
     let msg = msg\<lparr>cm_len := HDMI_CEC_GET_MSG_LEN HDMI_CEC_SELECT_DIGITAL_SERVICE_MSG_PARAM_LEN\<rparr>;
     msg \<leftarrow> cec_put 1 HDMI_CEC_OPCODE_SELECT_DIGITAL_SERVICE msg;
     HdmiCecEncodingDigitalServiceId msg 2 HDMI_CEC_SELECT_DIGITAL_SERVICE_MSG_PARAM_LEN digital
   }"

definition HdmiCecEncodingTunerDeviceStatusMsg :: "HdmiCecMsg \<Rightarrow> HdmiCecTunerDeviceInfo \<Rightarrow> HdmiCecMsg option" where
  "HdmiCecEncodingTunerDeviceStatusMsg msg info = do {
     msg \<leftarrow> cec_put 1 HDMI_CEC_OPCODE_TUNER_DEVICE_STATUS msg;
     msg \<leftarrow> cec_put 2 (push_bit 7 (tdi_recordingFlag info) OR tdi_dispInfo info) msg;
     if tdi_isAnalogService info then
       (case tdi_data info of
          TunerAnalog anaBcastType anaFreq bcstSystem \<Rightarrow> do {
            let msg = msg\<lparr>cm_len := HDMI_CEC_GET_MSG_LEN HDMI_CEC_TUNER_DEVICE_STATUS_MSG_ANA_PARAM_LEN\<rparr>;
            msg \<leftarrow> cec_put 3 anaBcastType msg;
            msg \<leftarrow> cec_put 4 (ucast (drop_bit 8 anaFreq)) msg;
            msg \<leftarrow> cec_put 5 (ucast (anaFreq AND 0xFF)) msg;
            cec_put 6 bcstSystem msg
          }
        | _ \<Rightarrow> None)
     else
       (case tdi_data info of
          TunerDigital digital \<Rightarrow>
            let msg = msg\<lparr>cm_len := HDMI_CEC_GET_MSG_LEN HDMI_CEC_TUNER_DEVICE_STATUS_MSG_DIG_PARAM_LEN\<rparr>
            in HdmiCecEncodingDigitalServiceId msg 3 HDMI_CEC_SELECT_DIGITAL_SERVICE_MSG_PARAM_LEN digital
        | _ \<Rightarrow> None)
   }"

definition HdmiCecEncodingTunerStepDecrementMsg :: "HdmiCecMsg \<Rightarrow> HdmiCecMsg option" where
  "HdmiCecEncodingTunerStepDecrementMsg msg = do {
     let msg = msg\<lparr>cm_len := HDMI_CEC_GET_MSG_LEN 0\<rparr>;
     msg \<leftarrow> cec_put 1 HDMI_CEC_OPCODE_TUNER_STEP_DECREMENT msg;
     Some msg
   }"

definition HdmiCecEncodingTunerStepIncrementMsg :: "HdmiCecMsg \<Rightarrow> HdmiCecMsg option" where
  "HdmiCecEncodingTunerStepIncrementMsg msg = do {
     let msg = msg\<lparr>cm_len := HDMI_CEC_GET_MSG_LEN 0\<rparr>;
     msg \<leftarrow> cec_put 1 HDMI_CEC_OPCODE_TUNER_STEP_INCREMENT msg;
     Some msg
   }"

subsection \<open>Vendor-specific messages\<close>

definition HdmiCecEncodingDeviceVendorIdMsg ::
    "HdmiCecMsg \<Rightarrow> uint32_t \<Rightarrow> HdmiCecMsg option" where
  "HdmiCecEncodingDeviceVendorIdMsg msg devVendorId = do {
     let msg = msg\<lparr>cm_len := HDMI_CEC_GET_MSG_LEN HDMI_CEC_DEVICE_VENDOR_ID_MSG_PARAM_LEN\<rparr>;
     msg \<leftarrow> cec_put 1 HDMI_CEC_OPCODE_DEVICE_VENDOR_ID msg;
     msg \<leftarrow> cec_put 2 (ucast (drop_bit 16 devVendorId AND 0xff)) msg;
     msg \<leftarrow> cec_put 3 (ucast (drop_bit 8 devVendorId AND 0xff)) msg;
     msg \<leftarrow> cec_put 4 (ucast (devVendorId AND 0xFF)) msg;
     Some msg
   }"

definition HdmiCecEncodingGiveDeviceVendorIdMsg ::
    "HdmiCecMsg \<Rightarrow> bool \<Rightarrow> HdmiCecMsg option" where
  "HdmiCecEncodingGiveDeviceVendorIdMsg msg response = do {
     let msg = msg\<lparr>cm_len := HDMI_CEC_GET_MSG_LEN 0\<rparr>;
     msg \<leftarrow> cec_put 1 HDMI_CEC_OPCODE_GIVE_DEVICE_VENDOR_ID msg;
     Some (if response then msg\<lparr>cm_rspMsg := HDMI_CEC_OPCODE_DEVICE_VENDOR_ID\<rparr> else msg)
   }"

definition HdmiCecEncodingVendorCommandMsg ::
    "HdmiCecMsg \<Rightarrow> bytes option \<Rightarrow> uint32_t \<Rightarrow> HdmiCecMsg option" where
  "HdmiCecEncodingVendorCommandMsg msg data len =
     (case data of None \<Rightarrow> Some msg
      | Some data \<Rightarrow>
          if len = 0 then Some msg
          else do {
            let length = (if len > HDMI_CEC_VENDOR_SPECIFIC_DATA_MAX_LEN then HDMI_CEC_VENDOR_SPECIFIC_DATA_MAX_LEN else len);
            let msg = msg\<lparr>cm_len := HDMI_CEC_GET_MSG_LEN length\<rparr>;
            msg \<leftarrow> cec_put 1 HDMI_CEC_OPCODE_VENDOR_COMMAND msg;
            cec_copy 2 (cm_len msg - 2) data length msg
          })"

definition HdmiCecEncodingVendorCommandWithIdMsg ::
    "HdmiCecMsg \<Rightarrow> uint32_t \<Rightarrow> bytes option \<Rightarrow> uint32_t \<Rightarrow> HdmiCecMsg option" where
  "HdmiCecEncodingVendorCommandWithIdMsg msg vendorId data len =
     (case data of None \<Rightarrow> Some msg
      | Some data \<Rightarrow>
          if len = 0 then Some msg
          else do {
            let length = (if len > HDMI_CEC_VENDOR_SPECIFIC_DATA_WITH_ID_MAX_LEN
              then HDMI_CEC_VENDOR_SPECIFIC_DATA_WITH_ID_MAX_LEN else len);
            let msg = msg\<lparr>cm_len := HDMI_CEC_GET_MSG_LEN (HDMI_CEC_VENDOR_ID_LEN + length)\<rparr>;
            msg \<leftarrow> cec_put 1 HDMI_CEC_OPCODE_VENDOR_COMMAND_WITH_ID msg;
            msg \<leftarrow> cec_put 2 (ucast (drop_bit 16 vendorId AND 0xff)) msg;
            msg \<leftarrow> cec_put 3 (ucast (drop_bit 8 vendorId AND 0xff)) msg;
            msg \<leftarrow> cec_put 4 (ucast (vendorId AND 0xff)) msg;
            cec_copy 5 (cm_len msg - 5) data length msg
          })"

definition HdmiCecEncodingVendorRemoteButtonDownMsg ::
    "HdmiCecMsg \<Rightarrow> bytes option \<Rightarrow> uint32_t \<Rightarrow> HdmiCecMsg option" where
  "HdmiCecEncodingVendorRemoteButtonDownMsg msg rcCode len =
     (case rcCode of None \<Rightarrow> Some msg
      | Some rcCode \<Rightarrow>
          if len = 0 then Some msg
          else do {
            let length = (if len > HDMI_CEC_VENDOR_SPECIFIC_RC_CODE_MAX_LEN then HDMI_CEC_VENDOR_SPECIFIC_RC_CODE_MAX_LEN else len);
            let msg = msg\<lparr>cm_len := HDMI_CEC_GET_MSG_LEN length\<rparr>;
            msg \<leftarrow> cec_put 1 HDMI_CEC_OPCODE_VENDOR_REMOTE_BUTTON_DOWN msg;
            cec_copy 2 (cm_len msg - 2) rcCode length msg
          })"

definition HdmiCecEncodingVendorRemoteButtonUpMsg :: "HdmiCecMsg \<Rightarrow> HdmiCecMsg option" where
  "HdmiCecEncodingVendorRemoteButtonUpMsg msg = do {
     let msg = msg\<lparr>cm_len := HDMI_CEC_GET_MSG_LEN 0\<rparr>;
     msg \<leftarrow> cec_put 1 HDMI_CEC_OPCODE_VENDOR_REMOTE_BUTTON_UP msg;
     Some msg
   }"

subsection \<open>On-screen display, menus and the remote control\<close>

definition HdmiCecEncodingSetOsdStringMsg ::
    "HdmiCecMsg \<Rightarrow> uint8_t \<Rightarrow> bytes option \<Rightarrow> uint32_t \<Rightarrow> HdmiCecMsg option" where
  "HdmiCecEncodingSetOsdStringMsg msg dispControl str len =
     (case str of None \<Rightarrow> Some msg
      | Some str \<Rightarrow>
          if len = 0 then Some msg
          else do {
            let length = (if len > HDMI_CEC_OSD_STRING_MAX_LEN then HDMI_CEC_OSD_STRING_MAX_LEN else len);
            let msg = msg\<lparr>cm_len := HDMI_CEC_GET_MSG_LEN (length + HDMI_CEC_DISPLAY_CONTROL_LEN)\<rparr>;
            msg \<leftarrow> cec_put 1 HDMI_CEC_OPCODE_SET_OSD_STRING msg;
            msg \<leftarrow> cec_put 2 dispControl msg;
            cec_copy 3 (cm_len msg - 3) str length msg
          })"

definition HdmiCecEncodingGiveOsdNameMsg ::
    "HdmiCecMsg \<Rightarrow> bool \<Rightarrow> HdmiCecMsg option" where
  "HdmiCecEncodingGiveOsdNameMsg msg response = do {
     let msg = msg\<lparr>cm_len := HDMI_CEC_GET_MSG_LEN 0\<rparr>;
     msg \<leftarrow> cec_put 1 HDMI_CEC_OPCODE_GIVE_OSD_NAME msg;
     Some (if response then msg\<lparr>cm_rspMsg := HDMI_CEC_OPCODE_SET_OSD_NAME\<rparr> else msg)
   }"

definition HdmiCecEncodingSetOsdNameMsg ::
    "HdmiCecMsg \<Rightarrow> bytes option \<Rightarrow> uint32_t \<Rightarrow> HdmiCecMsg option" where
  "HdmiCecEncodingSetOsdNameMsg msg name len =
     (case name of None \<Rightarrow> Some msg
      | Some name \<Rightarrow>
          if len = 0 then Some msg
          else do {
            let length = (if len > HDMI_CEC_OSD_NAME_MAX_LEN then HDMI_CEC_OSD_NAME_MAX_LEN else len);
            let msg = msg\<lparr>cm_len := HDMI_CEC_GET_MSG_LEN length\<rparr>;
            msg \<leftarrow> cec_put 1 HDMI_CEC_OPCODE_SET_OSD_NAME msg;
            cec_copy 2 (cm_len msg - 2) name length msg
          })"

definition HdmiCecEncodingMenuRequestMsg ::
    "HdmiCecMsg \<Rightarrow> uint8_t \<Rightarrow> bool \<Rightarrow> HdmiCecMsg option" where
  "HdmiCecEncodingMenuRequestMsg msg menuReq response = do {
     let msg = msg\<lparr>cm_len := HDMI_CEC_GET_MSG_LEN HDMI_CEC_MENU_REQUEST_MSG_PARAM_LEN\<rparr>;
     msg \<leftarrow> cec_put 1 HDMI_CEC_OPCODE_MENU_REQUEST msg;
     msg \<leftarrow> cec_put 2 menuReq msg;
     Some (if response then msg\<lparr>cm_rspMsg := HDMI_CEC_OPCODE_MENU_STATUS\<rparr> else msg)
   }"

definition HdmiCecEncodingMenuStatusMsg ::
    "HdmiCecMsg \<Rightarrow> uint8_t \<Rightarrow> HdmiCecMsg option" where
  "HdmiCecEncodingMenuStatusMsg msg menuStatus = do {
     let msg = msg\<lparr>cm_len := HDMI_CEC_GET_MSG_LEN HDMI_CEC_MENU_STATUS_MSG_PARAM_LEN\<rparr>;
     msg \<leftarrow> cec_put 1 HDMI_CEC_OPCODE_MENU_STATUS msg;
     msg \<leftarrow> cec_put 2 menuStatus msg;
     Some msg
   }"

definition HdmiCecEncodingUserControlPrtessedMsg :: "HdmiCecMsg \<Rightarrow> HdmiCecUiCmd option \<Rightarrow> HdmiCecMsg option" where
  "HdmiCecEncodingUserControlPrtessedMsg msg cmd =
     (case cmd of None \<Rightarrow> Some msg
      | Some cmd \<Rightarrow> do {
          let msg = msg\<lparr>cm_len := HDMI_CEC_GET_MSG_LEN HDMI_CEC_UI_COMMAND_LEN\<rparr>;
          msg \<leftarrow> cec_put 1 HDMI_CEC_OPCODE_USER_CONTROL_PRESSED msg;
          msg \<leftarrow> cec_put 2 (ucm_cmdType cmd) msg;
          if \<not> ucm_hasAddOp cmd then Some msg
          else if ucm_cmdType cmd \<in> {HDMI_CEC_UI_CMD_SELECT_BROADCAST_TYPE, HDMI_CEC_UI_CMD_SELECT_SOUND_PRESENTATION,
              HDMI_CEC_UI_CMD_PLAY_FUNCTION, HDMI_CEC_UI_CMD_SELECT_MEDIA_FUNCTION,
              HDMI_CEC_UI_CMD_SELECT_AV_INPUT_FUNCTION, HDMI_CEC_UI_CMD_SELECT_AUDIO_INPUT_FUNCTION} then
            (case ucm_addOperands cmd of
               UiByte b \<Rightarrow> cec_put 3 b (msg\<lparr>cm_len := cm_len msg + 1\<rparr>)
             | _ \<Rightarrow> None)
          else if ucm_cmdType cmd = HDMI_CEC_UI_CMD_TUNE_FUNCTION then
            (case ucm_addOperands cmd of
               UiChannel ch \<Rightarrow> do {
                 let msg = msg\<lparr>cm_len := cm_len msg + HDMI_CEC_CHANNEL_IDENTIFIER_LEN\<rparr>;
                 msg \<leftarrow> cec_put 3 (push_bit 2 (chid_format ch) OR ucast (drop_bit 8 (chid_major ch))) msg;
                 msg \<leftarrow> cec_put 4 (ucast (chid_major ch AND 0xFF)) msg;
                 msg \<leftarrow> cec_put 5 (ucast (drop_bit 8 (chid_minor ch))) msg;
                 cec_put 6 (ucast (chid_minor ch AND 0xFF)) msg
               }
             | _ \<Rightarrow> None)
          else Some msg
        })"

definition HdmiCecEncodingUserControlReleasedMsg :: "HdmiCecMsg \<Rightarrow> HdmiCecMsg option" where
  "HdmiCecEncodingUserControlReleasedMsg msg = do {
     let msg = msg\<lparr>cm_len := HDMI_CEC_GET_MSG_LEN 0\<rparr>;
     msg \<leftarrow> cec_put 1 HDMI_CEC_OPCODE_USER_CONTROL_RELEASED msg;
     Some msg
   }"

subsection \<open>Power and general protocol\<close>

definition HdmiCecEncodingGiveDevicePowerStatusMsg ::
    "HdmiCecMsg \<Rightarrow> bool \<Rightarrow> HdmiCecMsg option" where
  "HdmiCecEncodingGiveDevicePowerStatusMsg msg response = do {
     let msg = msg\<lparr>cm_len := HDMI_CEC_GET_MSG_LEN 0\<rparr>;
     msg \<leftarrow> cec_put 1 HDMI_CEC_OPCODE_GIVE_DEVICE_POWER_STATUS msg;
     Some (if response then msg\<lparr>cm_rspMsg := HDMI_CEC_OPCODE_REPORT_POWER_STATUS\<rparr> else msg)
   }"

definition HdmiCecEncodingReportDevicePowerStatusMsg ::
    "HdmiCecMsg \<Rightarrow> uint8_t \<Rightarrow> HdmiCecMsg option" where
  "HdmiCecEncodingReportDevicePowerStatusMsg msg powerStatus = do {
     let msg = msg\<lparr>cm_len := HDMI_CEC_GET_MSG_LEN HDMI_CEC_REPORT_POWER_STATUS_MSG_PARA_LEN\<rparr>;
     msg \<leftarrow> cec_put 1 HDMI_CEC_OPCODE_REPORT_POWER_STATUS msg;
     msg \<leftarrow> cec_put 2 powerStatus msg;
     Some msg
   }"

definition HdmiCecEncodingFeatureAbortMsg ::
    "HdmiCecMsg \<Rightarrow> uint8_t \<Rightarrow> uint8_t \<Rightarrow> HdmiCecMsg option" where
  "HdmiCecEncodingFeatureAbortMsg msg opcode reason = do {
     let msg = msg\<lparr>cm_len := HDMI_CEC_GET_MSG_LEN HDMI_CEC_FEATURE_ABORT_MSG_PARA_LEN\<rparr>;
     msg \<leftarrow> cec_put 1 HDMI_CEC_OPCODE_FEATURE_ABORT msg;
     msg \<leftarrow> cec_put 2 opcode msg;
     msg \<leftarrow> cec_put 3 reason msg;
     Some msg
   }"

definition HdmiCecEncodingAbortMsg :: "HdmiCecMsg \<Rightarrow> HdmiCecMsg option" where
  "HdmiCecEncodingAbortMsg msg = do {
     let msg = msg\<lparr>cm_len := HDMI_CEC_GET_MSG_LEN 0\<rparr>;
     msg \<leftarrow> cec_put 1 HDMI_CEC_OPCODE_ABORT msg;
     Some msg
   }"

subsection \<open>Audio\<close>

definition HdmiCecEncodingGiveAudioStatusMsg ::
    "HdmiCecMsg \<Rightarrow> bool \<Rightarrow> HdmiCecMsg option" where
  "HdmiCecEncodingGiveAudioStatusMsg msg response = do {
     let msg = msg\<lparr>cm_len := HDMI_CEC_GET_MSG_LEN 0\<rparr>;
     msg \<leftarrow> cec_put 1 HDMI_CEC_OPCODE_GIVE_AUDIO_STATUS msg;
     Some (if response then msg\<lparr>cm_rspMsg := HDMI_CEC_OPCODE_REPORT_AUDIO_STATUS\<rparr> else msg)
   }"

definition HdmiCecEncodingGiveSystemAudioModeMsg ::
    "HdmiCecMsg \<Rightarrow> bool \<Rightarrow> HdmiCecMsg option" where
  "HdmiCecEncodingGiveSystemAudioModeMsg msg response = do {
     let msg = msg\<lparr>cm_len := HDMI_CEC_GET_MSG_LEN 0\<rparr>;
     msg \<leftarrow> cec_put 1 HDMI_CEC_OPCODE_GIVE_SYSTEM_AUDIO_MODE_STATUS msg;
     Some (if response then msg\<lparr>cm_rspMsg := HDMI_CEC_OPCODE_SYSTEM_AUDIO_MODE_STATUS\<rparr> else msg)
   }"

definition HdmiCecEncodingReportAudioStatusMsg ::
    "HdmiCecMsg \<Rightarrow> uint8_t \<Rightarrow> uint8_t \<Rightarrow> HdmiCecMsg option" where
  "HdmiCecEncodingReportAudioStatusMsg msg audioMuteStatus audioVolumeStatus = do {
     let msg = msg\<lparr>cm_len := HDMI_CEC_GET_MSG_LEN HDMI_CEC_REPORT_AUDIO_STATUSMSG_PARAM_LEN\<rparr>;
     msg \<leftarrow> cec_put 1 HDMI_CEC_OPCODE_REPORT_AUDIO_STATUS msg;
     msg \<leftarrow> cec_put 2 ((push_bit 7 audioMuteStatus) OR (audioVolumeStatus AND 0x7F)) msg;
     Some msg
   }"

fun audio_formats_loop :: "bytes \<Rightarrow> bytes \<Rightarrow> nat list \<Rightarrow> HdmiCecMsg \<Rightarrow> HdmiCecMsg option" where
  "audio_formats_loop ids codes [] msg = Some msg"
| "audio_formats_loop ids codes (i # is) msg = do {
     d \<leftarrow> arr_get ids i;
     c \<leftarrow> arr_get codes i;
     msg \<leftarrow> cec_put (2 + i) (push_bit 6 d OR (c AND 0x3F)) msg;
     audio_formats_loop ids codes is msg
   }"

definition HdmiCecEncodingRequestShortAudioDescriptorMsg ::
    "HdmiCecMsg \<Rightarrow> bytes option \<Rightarrow> bytes option \<Rightarrow> uint32_t \<Rightarrow> bool \<Rightarrow> HdmiCecMsg option" where
  "HdmiCecEncodingRequestShortAudioDescriptorMsg msg ids codes len response =
     (case (ids, codes) of
        (Some ids, Some codes) \<Rightarrow>
          if len = 0 then Some msg
          else do {
            let num = (if len > HDMI_CEC_MAX_AUDIO_FORMAT_NUM then HDMI_CEC_MAX_AUDIO_FORMAT_NUM else len);
            let msg = msg\<lparr>cm_len := HDMI_CEC_GET_MSG_LEN (num * HDMI_CEC_AUDIO_FORMAT_LEN)\<rparr>;
            msg \<leftarrow> cec_put 1 HDMI_CEC_OPCODE_REQUEST_SHORT_AUDIO_DESCRIPTOR msg;
            msg \<leftarrow> audio_formats_loop ids codes [0..<unat num] msg;
            Some (if response then msg\<lparr>cm_rspMsg := HDMI_CEC_OPCODE_REPORT_SHORT_AUDIO_DESCRIPTOR\<rparr> else msg)
          }
      | _ \<Rightarrow> Some msg)"

fun descriptors_loop :: "uint32_t list \<Rightarrow> nat list \<Rightarrow> HdmiCecMsg \<Rightarrow> HdmiCecMsg option" where
  "descriptors_loop descriptor [] msg = Some msg"
| "descriptors_loop descriptor (i # is) msg = do {
     d \<leftarrow> arr_get descriptor i;
     msg \<leftarrow> cec_put (2 + i * 3) (ucast (drop_bit 16 d AND 0xFF)) msg;
     msg \<leftarrow> cec_put (3 + i * 3) (ucast (drop_bit 8 d AND 0xFF)) msg;
     msg \<leftarrow> cec_put (4 + i * 3) (ucast (d AND 0xFF)) msg;
     descriptors_loop descriptor is msg
   }"

definition HdmiCecEncodingReportShortAudioDescriptorMsg ::
    "HdmiCecMsg \<Rightarrow> uint32_t list option \<Rightarrow> uint32_t \<Rightarrow> HdmiCecMsg option" where
  "HdmiCecEncodingReportShortAudioDescriptorMsg msg descriptor len =
     (case descriptor of None \<Rightarrow> Some msg
      | Some descriptor \<Rightarrow>
          if len = 0 then Some msg
          else do {
            let num = (if len > HDMI_CEC_MAX_SHORT_AUDIO_DESCRIPTOR_NUM then HDMI_CEC_MAX_SHORT_AUDIO_DESCRIPTOR_NUM else len);
            let msg = msg\<lparr>cm_len := HDMI_CEC_GET_MSG_LEN (HDMI_CEC_SHORT_AUDIO_DESCRIPTOR_LEN * num)\<rparr>;
            msg \<leftarrow> cec_put 1 HDMI_CEC_OPCODE_REPORT_SHORT_AUDIO_DESCRIPTOR msg;
            descriptors_loop descriptor [0..<unat num] msg
          })"

definition HdmiCecEncodingSetSystemAudioModeMsg ::
    "HdmiCecMsg \<Rightarrow> uint8_t \<Rightarrow> HdmiCecMsg option" where
  "HdmiCecEncodingSetSystemAudioModeMsg msg status = do {
     let msg = msg\<lparr>cm_len := HDMI_CEC_GET_MSG_LEN HDMI_CEC_SYSTEM_AUDIO_STATUS_LEN\<rparr>;
     msg \<leftarrow> cec_put 1 HDMI_CEC_OPCODE_SET_SYSTEM_AUDIO_MODE msg;
     msg \<leftarrow> cec_put 2 status msg;
     Some msg
   }"

definition HdmiCecEncodingSystemAudioModeRequestMsg ::
    "HdmiCecMsg \<Rightarrow> uint16_t \<Rightarrow> bool \<Rightarrow> HdmiCecMsg option" where
  "HdmiCecEncodingSystemAudioModeRequestMsg msg phyAddr response = do {
     let msg = msg\<lparr>cm_len := HDMI_CEC_GET_MSG_LEN HDMI_CEC_SYSTEM_AUDIO_MODE_REQUEST_PARAM_LEN\<rparr>;
     msg \<leftarrow> cec_put 1 HDMI_CEC_OPCODE_SYSTEM_AUDIO_MODE_REQUEST msg;
     msg \<leftarrow> cec_put 2 (ucast (drop_bit 8 phyAddr)) msg;
     msg \<leftarrow> cec_put 3 (ucast (phyAddr AND 0xFF)) msg;
     Some (if response then msg\<lparr>cm_rspMsg := HDMI_CEC_OPCODE_SET_SYSTEM_AUDIO_MODE\<rparr> else msg)
   }"

definition HdmiCecEncodingSystemAudioModeStatusMsg ::
    "HdmiCecMsg \<Rightarrow> uint8_t \<Rightarrow> HdmiCecMsg option" where
  "HdmiCecEncodingSystemAudioModeStatusMsg msg status = do {
     let msg = msg\<lparr>cm_len := HDMI_CEC_GET_MSG_LEN HDMI_CEC_SYSTEM_AUDIO_STATUS_LEN\<rparr>;
     msg \<leftarrow> cec_put 1 HDMI_CEC_OPCODE_SYSTEM_AUDIO_MODE_STATUS msg;
     msg \<leftarrow> cec_put 2 status msg;
     Some msg
   }"

definition HdmiCecEncodingSetAudioRateMsg ::
    "HdmiCecMsg \<Rightarrow> uint8_t \<Rightarrow> HdmiCecMsg option" where
  "HdmiCecEncodingSetAudioRateMsg msg rate = do {
     let msg = msg\<lparr>cm_len := HDMI_CEC_GET_MSG_LEN HDMI_CEC_SET_AUDIO_RATE_PARAM_LEN\<rparr>;
     msg \<leftarrow> cec_put 1 HDMI_CEC_OPCODE_SET_AUDIO_RATE msg;
     msg \<leftarrow> cec_put 2 rate msg;
     Some msg
   }"

definition HdmiCecEncodingInitiateArcMsg ::
    "HdmiCecMsg \<Rightarrow> bool \<Rightarrow> HdmiCecMsg option" where
  "HdmiCecEncodingInitiateArcMsg msg response = do {
     let msg = msg\<lparr>cm_len := HDMI_CEC_GET_MSG_LEN 0\<rparr>;
     msg \<leftarrow> cec_put 1 HDMI_CEC_OPCODE_INITIATE_ARC msg;
     Some (if response then msg\<lparr>cm_rspMsg := HDMI_CEC_OPCODE_REPORT_ARC_INITIATED\<rparr> else msg)
   }"

definition HdmiCecEncodingReportArcInitiatedMsg :: "HdmiCecMsg \<Rightarrow> HdmiCecMsg option" where
  "HdmiCecEncodingReportArcInitiatedMsg msg = do {
     let msg = msg\<lparr>cm_len := HDMI_CEC_GET_MSG_LEN 0\<rparr>;
     msg \<leftarrow> cec_put 1 HDMI_CEC_OPCODE_REPORT_ARC_INITIATED msg;
     Some msg
   }"

definition HdmiCecEncodingReportArcTerminationMsg :: "HdmiCecMsg \<Rightarrow> HdmiCecMsg option" where
  "HdmiCecEncodingReportArcTerminationMsg msg = do {
     let msg = msg\<lparr>cm_len := HDMI_CEC_GET_MSG_LEN 0\<rparr>;
     msg \<leftarrow> cec_put 1 HDMI_CEC_OPCODE_REPORT_ARC_TERMINATION msg;
     Some msg
   }"

definition HdmiCecEncodingRequestArcInitiationMsg ::
    "HdmiCecMsg \<Rightarrow> bool \<Rightarrow> HdmiCecMsg option" where
  "HdmiCecEncodingRequestArcInitiationMsg msg response = do {
     let msg = msg\<lparr>cm_len := HDMI_CEC_GET_MSG_LEN 0\<rparr>;
     msg \<leftarrow> cec_put 1 HDMI_CEC_OPCODE_REQUEST_ARC_INITIATION msg;
     Some (if response then msg\<lparr>cm_rspMsg := HDMI_CEC_OPCODE_INITIATE_ARC\<rparr> else msg)
   }"

definition HdmiCecEncodingRequestArcTerminationMsg ::
    "HdmiCecMsg \<Rightarrow> bool \<Rightarrow> HdmiCecMsg option" where
  "HdmiCecEncodingRequestArcTerminationMsg msg response = do {
     let msg = msg\<lparr>cm_len := HDMI_CEC_GET_MSG_LEN 0\<rparr>;
     msg \<leftarrow> cec_put 1 HDMI_CEC_OPCODE_REQUEST_ARC_TERMINATION msg;
     Some (if response then msg\<lparr>cm_rspMsg := HDMI_CEC_OPCODE_TERMINATE_ARC\<rparr> else msg)
   }"

definition HdmiCecEncodingTerminateArcMsg ::
    "HdmiCecMsg \<Rightarrow> bool \<Rightarrow> HdmiCecMsg option" where
  "HdmiCecEncodingTerminateArcMsg msg response = do {
     let msg = msg\<lparr>cm_len := HDMI_CEC_GET_MSG_LEN 0\<rparr>;
     msg \<leftarrow> cec_put 1 HDMI_CEC_OPCODE_TERMINATE_ARC msg;
     Some (if response then msg\<lparr>cm_rspMsg := HDMI_CEC_OPCODE_REPORT_ARC_TERMINATION\<rparr> else msg)
   }"

definition HdmiCecEncodingRequestCurrentLatencyMsg ::
    "HdmiCecMsg \<Rightarrow> uint16_t \<Rightarrow> bool \<Rightarrow> HdmiCecMsg option" where
  "HdmiCecEncodingRequestCurrentLatencyMsg msg phyAddr response = do {
     let msg = msg\<lparr>cm_len := HDMI_CEC_GET_MSG_LEN HDMI_CEC_REQUEST_CURRENT_LATENCY_MSG_LEN\<rparr>;
     msg \<leftarrow> cec_put_or 0 HDMI_CEC_LOG_ADDR_UNREGISTERED_OR_BROADCAST msg;
     msg \<leftarrow> cec_put 1 HDMI_CEC_OPCODE_REQUEST_CURRENT_LATENCY msg;
     msg \<leftarrow> cec_put 2 (ucast (drop_bit 8 phyAddr)) msg;
     msg \<leftarrow> cec_put 3 (ucast (phyAddr AND 0xFF)) msg;
     Some (if response then msg\<lparr>cm_rspMsg := HDMI_CEC_OPCODE_REPORT_CURRENT_LATENCY\<rparr> else msg)
   }"

definition HdmiCecEncodingReportCurrentLatencyMsg ::
    "HdmiCecMsg \<Rightarrow> uint16_t \<Rightarrow> HdmiCecLatencyInfo \<Rightarrow> HdmiCecMsg option" where
  "HdmiCecEncodingReportCurrentLatencyMsg msg phyAddr info = do {
     let msg = msg\<lparr>cm_len := HDMI_CEC_GET_MSG_LEN HDMI_CEC_REPORT_CURRENT_LATENCY_MSG_PARAM_MIN_LEN\<rparr>;
     msg \<leftarrow> cec_put_or 0 HDMI_CEC_LOG_ADDR_UNREGISTERED_OR_BROADCAST msg;
     msg \<leftarrow> cec_put 1 HDMI_CEC_OPCODE_REPORT_CURRENT_LATENCY msg;
     msg \<leftarrow> cec_put 2 (ucast (drop_bit 8 phyAddr)) msg;
     msg \<leftarrow> cec_put 3 (ucast (phyAddr AND 0xFF)) msg;
     msg \<leftarrow> cec_put 4 (li_videoLatency info) msg;
     msg \<leftarrow> cec_put 5 (push_bit 2 (li_lowLatencyMode info) OR li_audioOutputCompensated info) msg;
     if li_audioOutputCompensated info = HDMI_CEC_AUDIO_OUTPUT_COMPENSATED_PARTIAL_DELAY
     then cec_put 6 (li_audioOutputDelay info) (msg\<lparr>cm_len := cm_len msg + 1\<rparr>)
     else Some msg
   }"

subsection \<open>Capability discovery and control\<close>

definition HdmiCdcEncodingHecInquireStateMsg ::
    "HdmiCecMsg \<Rightarrow> uint16_t \<Rightarrow> uint16_t \<Rightarrow> uint16_t \<Rightarrow> bool \<Rightarrow> HdmiCecMsg option" where
  "HdmiCdcEncodingHecInquireStateMsg msg initiatorPhyAddr phyAddr1 phyAddr2 response = do {
     let msg = msg\<lparr>cm_len := HDMI_CDC_GET_MSG_LEN HDMI_CDC_HEC_INQUIRE_STATE_MSG_PARAM_LEN\<rparr>;
     msg \<leftarrow> cec_put_or 0 HDMI_CEC_LOG_ADDR_UNREGISTERED_OR_BROADCAST msg;
     msg \<leftarrow> cec_put 1 HDMI_CEC_OPCODE_CDC_MESSAGE msg;
     msg \<leftarrow> cec_put 2 (ucast (drop_bit 8 initiatorPhyAddr)) msg;
     msg \<leftarrow> cec_put 3 (ucast (initiatorPhyAddr AND 0xFF)) msg;
     msg \<leftarrow> cec_put 4 HDMI_CDC_HEC_INQUIRE_STATE msg;
     msg \<leftarrow> cec_put 5 (ucast (drop_bit 8 phyAddr1)) msg;
     msg \<leftarrow> cec_put 6 (ucast (phyAddr1 AND 0xFF)) msg;
     msg \<leftarrow> cec_put 7 (ucast (drop_bit 8 phyAddr2)) msg;
     msg \<leftarrow> cec_put 8 (ucast (phyAddr2 AND 0xFF)) msg;
     Some (if response then msg\<lparr>cm_rspMsg := HDMI_CDC_HEC_REPORT_STATE\<rparr> else msg)
   }"

definition HdmiCdcEncodingHecReportStateMsg ::
    "HdmiCecMsg \<Rightarrow> uint16_t \<Rightarrow> uint16_t \<Rightarrow> HdmiCdcHecState \<Rightarrow> HdmiCecMsg option" where
  "HdmiCdcEncodingHecReportStateMsg msg initiatorPhyAddr phyAddr state = do {
     let msg = msg\<lparr>cm_len := HDMI_CDC_GET_MSG_LEN HDMI_CDC_HEC_REPORT_STATE_MSG_PARAM_MIN_LEN\<rparr>;
     msg \<leftarrow> cec_put_or 0 HDMI_CEC_LOG_ADDR_UNREGISTERED_OR_BROADCAST msg;
     msg \<leftarrow> cec_put 1 HDMI_CEC_OPCODE_CDC_MESSAGE msg;
     msg \<leftarrow> cec_put 2 (ucast (drop_bit 8 initiatorPhyAddr)) msg;
     msg \<leftarrow> cec_put 3 (ucast (initiatorPhyAddr AND 0xFF)) msg;
     msg \<leftarrow> cec_put 4 HDMI_CDC_HEC_REPORT_STATE msg;
     msg \<leftarrow> cec_put 5 (ucast (drop_bit 8 phyAddr)) msg;
     msg \<leftarrow> cec_put 6 (ucast (phyAddr AND 0xFF)) msg;
     msg \<leftarrow> cec_put 7 ((push_bit 6 (hst_hecFuncState state)) OR (push_bit 4 (hst_hostFuncState state)) OR
       (push_bit 2 (hst_encFuncState state)) OR (hst_cdcErrCode state)) msg;
     if hst_haveHecField state then do {
       let msg = msg\<lparr>cm_len := HDMI_CDC_GET_MSG_LEN HDMI_CDC_HEC_REPORT_STATE_MSG_PARAM_MAX_LEN\<rparr>;
       msg \<leftarrow> cec_put 8 (ucast (drop_bit 8 (hst_hecField state))) msg;
       msg \<leftarrow> cec_put 9 (ucast (hst_hecField state AND 0xFF)) msg;
       Some msg
     }
     else Some msg
   }"

definition HdmiCdcEncodingHecSetStateAdjacentMsg ::
    "HdmiCecMsg \<Rightarrow> uint16_t \<Rightarrow> uint16_t \<Rightarrow> uint8_t \<Rightarrow> bool \<Rightarrow> HdmiCecMsg option" where
  "HdmiCdcEncodingHecSetStateAdjacentMsg msg initiatorPhyAddr phyAddr hecSetState response = do {
     let msg = msg\<lparr>cm_len := HDMI_CDC_GET_MSG_LEN HDMI_CDC_HEC_SET_STATE_ADJACENT_MSG_PARAM_LEN\<rparr>;
     msg \<leftarrow> cec_put_or 0 HDMI_CEC_LOG_ADDR_UNREGISTERED_OR_BROADCAST msg;
     msg \<leftarrow> cec_put 1 HDMI_CEC_OPCODE_CDC_MESSAGE msg;
     msg \<leftarrow> cec_put 2 (ucast (drop_bit 8 initiatorPhyAddr)) msg;
     msg \<leftarrow> cec_put 3 (ucast (initiatorPhyAddr AND 0xFF)) msg;
     msg \<leftarrow> cec_put 4 HDMI_CDC_HEC_SET_STATE_ADJACENT msg;
     msg \<leftarrow> cec_put 5 (ucast (drop_bit 8 phyAddr)) msg;
     msg \<leftarrow> cec_put 6 (ucast (phyAddr AND 0xFF)) msg;
     msg \<leftarrow> cec_put 7 hecSetState msg;
     Some (if response then msg\<lparr>cm_rspMsg := HDMI_CDC_HEC_REPORT_STATE\<rparr> else msg)
   }"

text \<open>\<open>n\<close> iterations are left, at most three and at most the length; both loops over addresses store a pair of bytes.\<close>

definition cec_append_addr :: "uint16_t \<Rightarrow> HdmiCecMsg \<Rightarrow> HdmiCecMsg option" where
  "cec_append_addr addr msg = do {
     msg \<leftarrow> cec_put (unat (cm_len msg)) (ucast (drop_bit 8 addr)) msg;
     let msg = msg\<lparr>cm_len := cm_len msg + 1\<rparr>;
     msg \<leftarrow> cec_put (unat (cm_len msg)) (ucast (addr AND 0xFF)) msg;
     Some (msg\<lparr>cm_len := cm_len msg + 1\<rparr>)
   }"

fun set_state_loop :: "uint16_t list \<Rightarrow> nat \<Rightarrow> nat \<Rightarrow> HdmiCecMsg \<Rightarrow> HdmiCecMsg option" where
  "set_state_loop phyAddr i 0 msg = Some msg"
| "set_state_loop phyAddr i (Suc n) msg = do {
     addr \<leftarrow> arr_get phyAddr i;
     if addr = HDMI_CEC_INVALID_PHY_ADDR then Some msg
     else do {
       msg \<leftarrow> cec_append_addr addr msg;
       set_state_loop phyAddr (Suc i) n msg
     }
   }"

definition HdmiCdcEncodingHecSetStateMsg ::
    "HdmiCecMsg \<Rightarrow> uint16_t \<Rightarrow> HemiCdcHecStateInfo \<Rightarrow> bool \<Rightarrow> HdmiCecMsg option" where
  "HdmiCdcEncodingHecSetStateMsg msg initiatorPhyAddr info response = do {
     let msg = msg\<lparr>cm_len := HDMI_CDC_GET_MSG_LEN HDMI_CDC_HEC_SET_STATE_MSG_MIN_LEN\<rparr>;
     msg \<leftarrow> cec_put_or 0 HDMI_CEC_LOG_ADDR_UNREGISTERED_OR_BROADCAST msg;
     msg \<leftarrow> cec_put 1 HDMI_CEC_OPCODE_CDC_MESSAGE msg;
     msg \<leftarrow> cec_put 2 (ucast (drop_bit 8 initiatorPhyAddr)) msg;
     msg \<leftarrow> cec_put 3 (ucast (initiatorPhyAddr AND 0xFF)) msg;
     msg \<leftarrow> cec_put 4 HDMI_CDC_HEC_SET_STATE msg;
     msg \<leftarrow> cec_put 5 (ucast (drop_bit 8 (hsi_phyAddr1 info))) msg;
     msg \<leftarrow> cec_put 6 (ucast (hsi_phyAddr1 info AND 0xFF)) msg;
     msg \<leftarrow> cec_put 7 (ucast (drop_bit 8 (hsi_phyAddr2 info))) msg;
     msg \<leftarrow> cec_put 8 (ucast (hsi_phyAddr2 info AND 0xFF)) msg;
     msg \<leftarrow> cec_put 9 (hsi_hecSetState info) msg;
     msg \<leftarrow> set_state_loop (hsi_phyAddr info) 0
       (min (unat (hsi_phyAddrLen info)) HDMI_CDC_HEC_SET_STATE_MSG_OPTIONAL_PA_MAX_NUM) msg;
     Some (if response then msg\<lparr>cm_rspMsg := HDMI_CDC_HEC_REPORT_STATE\<rparr> else msg)
   }"

fun deactivation_loop :: "uint16_t list \<Rightarrow> nat list \<Rightarrow> HdmiCecMsg \<Rightarrow> HdmiCecMsg option" where
  "deactivation_loop phyAddr [] msg = Some msg"
| "deactivation_loop phyAddr (i # is) msg = do {
     addr \<leftarrow> arr_get phyAddr i;
     msg \<leftarrow> cec_append_addr addr msg;
     deactivation_loop phyAddr is msg
   }"

definition HdmiCdcEncodingHecRequestDeactivationMsg ::
    "HdmiCecMsg \<Rightarrow> uint16_t \<Rightarrow> uint16_t list option \<Rightarrow> uint32_t \<Rightarrow> bool \<Rightarrow> HdmiCecMsg option" where
  "HdmiCdcEncodingHecRequestDeactivationMsg msg initiatorPhyAddr phyAddr len response =
     (case phyAddr of None \<Rightarrow> Some msg
      | Some phyAddr \<Rightarrow>
          if len \<noteq> HDMI_CDC_HEC_REQUEST_DEACTIVATION_MSG_PHY_ADDR_NUM then Some msg
          else do {
            let msg = msg\<lparr>cm_len := HDMI_CDC_GET_MSG_LEN 0\<rparr>;
            msg \<leftarrow> cec_put_or 0 HDMI_CEC_LOG_ADDR_UNREGISTERED_OR_BROADCAST msg;
            msg \<leftarrow> cec_put 1 HDMI_CEC_OPCODE_CDC_MESSAGE msg;
            msg \<leftarrow> cec_put 2 (ucast (drop_bit 8 initiatorPhyAddr)) msg;
            msg \<leftarrow> cec_put 3 (ucast (initiatorPhyAddr AND 0xFF)) msg;
            msg \<leftarrow> cec_put 4 HDMI_CDC_HEC_REQUEST_DEACTIVATION msg;
            msg \<leftarrow> deactivation_loop phyAddr [0..<unat len] msg;
            Some (if response then msg\<lparr>cm_rspMsg := HDMI_CDC_HEC_REPORT_STATE\<rparr> else msg)
          })"

definition HdmiCdcEncodingHecNotifyAliveMsg ::
    "HdmiCecMsg \<Rightarrow> uint16_t \<Rightarrow> HdmiCecMsg option" where
  "HdmiCdcEncodingHecNotifyAliveMsg msg initiatorPhyAddr = do {
     let msg = msg\<lparr>cm_len := HDMI_CDC_GET_MSG_LEN 0\<rparr>;
     msg \<leftarrow> cec_put_or 0 HDMI_CEC_LOG_ADDR_UNREGISTERED_OR_BROADCAST msg;
     msg \<leftarrow> cec_put 1 HDMI_CEC_OPCODE_CDC_MESSAGE msg;
     msg \<leftarrow> cec_put 2 (ucast (drop_bit 8 initiatorPhyAddr)) msg;
     msg \<leftarrow> cec_put 3 (ucast (initiatorPhyAddr AND 0xFF)) msg;
     msg \<leftarrow> cec_put 4 HDMI_CDC_HEC_NOTIFY_ALIVE msg;
     Some msg
   }"

definition HdmiCdcEncodingHecDiscoverMsg ::
    "HdmiCecMsg \<Rightarrow> uint16_t \<Rightarrow> bool \<Rightarrow> HdmiCecMsg option" where
  "HdmiCdcEncodingHecDiscoverMsg msg initiatorPhyAddr response = do {
     let msg = msg\<lparr>cm_len := HDMI_CDC_GET_MSG_LEN 0\<rparr>;
     msg \<leftarrow> cec_put_or 0 HDMI_CEC_LOG_ADDR_UNREGISTERED_OR_BROADCAST msg;
     msg \<leftarrow> cec_put 1 HDMI_CEC_OPCODE_CDC_MESSAGE msg;
     msg \<leftarrow> cec_put 2 (ucast (drop_bit 8 initiatorPhyAddr)) msg;
     msg \<leftarrow> cec_put 3 (ucast (initiatorPhyAddr AND 0xFF)) msg;
     msg \<leftarrow> cec_put 4 HDMI_CDC_HEC_DISCOVER msg;
     Some (if response then msg\<lparr>cm_rspMsg := HDMI_CDC_HEC_REPORT_STATE\<rparr> else msg)
   }"

definition HdmiCdcEncodingHpdSetStateMsg ::
    "HdmiCecMsg \<Rightarrow> uint16_t \<Rightarrow> uint8_t \<Rightarrow> uint8_t \<Rightarrow> bool \<Rightarrow> HdmiCecMsg option" where
  "HdmiCdcEncodingHpdSetStateMsg msg initiatorPhyAddr portNum hpdState response = do {
     let msg = msg\<lparr>cm_len := HDMI_CDC_GET_MSG_LEN HDMI_CDC_HPD_SET_STATE_MSG_LEN\<rparr>;
     msg \<leftarrow> cec_put_or 0 HDMI_CEC_LOG_ADDR_UNREGISTERED_OR_BROADCAST msg;
     msg \<leftarrow> cec_put 1 HDMI_CEC_OPCODE_CDC_MESSAGE msg;
     msg \<leftarrow> cec_put 2 (ucast (drop_bit 8 initiatorPhyAddr)) msg;
     msg \<leftarrow> cec_put 3 (ucast (initiatorPhyAddr AND 0xFF)) msg;
     msg \<leftarrow> cec_put 4 HDMI_CDC_HPD_SET_STATE msg;
     msg \<leftarrow> cec_put 5 ((push_bit 4 portNum) OR hpdState) msg;
     Some (if response then msg\<lparr>cm_rspMsg := CEC_MSG_CDC_HPD_REPORT_STATE\<rparr> else msg)
   }"

definition HdmiCdcEncodingHpdReportStateMsg ::
    "HdmiCecMsg \<Rightarrow> uint16_t \<Rightarrow> uint8_t \<Rightarrow> uint8_t \<Rightarrow> HdmiCecMsg option" where
  "HdmiCdcEncodingHpdReportStateMsg msg initiatorPhyAddr hpdState errCode = do {
     let msg = msg\<lparr>cm_len := HDMI_CDC_GET_MSG_LEN HDMI_CDC_HPD_REPORT_STATE_MSG_LEN\<rparr>;
     msg \<leftarrow> cec_put_or 0 HDMI_CEC_LOG_ADDR_UNREGISTERED_OR_BROADCAST msg;
     msg \<leftarrow> cec_put 1 HDMI_CEC_OPCODE_CDC_MESSAGE msg;
     msg \<leftarrow> cec_put 2 (ucast (drop_bit 8 initiatorPhyAddr)) msg;
     msg \<leftarrow> cec_put 3 (ucast (initiatorPhyAddr AND 0xFF)) msg;
     msg \<leftarrow> cec_put 4 CEC_MSG_CDC_HPD_REPORT_STATE msg;
     msg \<leftarrow> cec_put 5 ((push_bit 4 hpdState) OR errCode) msg;
     Some msg
   }"

end
