(* ===== verification/Hdmi_CecSpec.thy ===== *)
theory Hdmi_CecSpec
  imports Hdmi_Cec
begin

text \<open>
  What the encoders of \<^verbatim>\<open>hdmi_cec.c\<close> have to produce.  \<open>cec_encodes\<close> is a table: for every encoder
  and its arguments the frame that \<^verbatim>\<open>hdmi_cec.h\<close> describes, with 16-bit fields in network order; a
  row that needs something of the arguments (a service that fits its method, arrays as long as the
  length says) carries it as a condition.  \<open>cec_deviates\<close> lists the two encoders whose frame is not
  the documented one, with both frames.  The refinement theorem says that an encoder, called on a
  message that is zero but for the header, produces its frame and stays inside the array.
\<close>

section \<open>Frames\<close>

text \<open>Broadcast or directed, operation code, operands, and the answer that is waited for.\<close>

datatype cec_frame =
  Frame (frame_broadcast: bool) (frame_opcode: uint8_t) (frame_operands: bytes) (frame_reply: "uint8_t option")

definition be16 :: "uint16_t \<Rightarrow> bytes" where
  "be16 x = [ucast (drop_bit 8 x), ucast x]"

definition be24 :: "uint32_t \<Rightarrow> bytes" where
  "be24 x = [ucast (drop_bit 16 x), ucast (drop_bit 8 x), ucast x]"

text \<open>Two decimal digits in a byte.\<close>

definition bcd :: "uint8_t \<Rightarrow> uint8_t" where
  "bcd t = push_bit 4 (t div 10) OR t mod 10"

definition awaits :: "bool \<Rightarrow> uint8_t \<Rightarrow> uint8_t option" where
  "awaits response opcode = (if response then Some opcode else None)"

definition wire :: "uint8_t \<Rightarrow> cec_frame \<Rightarrow> bytes" where
  "wire header f = (if frame_broadcast f then header OR 15 else header) # frame_opcode f # frame_operands f"

definition fresh :: "uint8_t \<Rightarrow> HdmiCecMsg \<Rightarrow> bool" where
  "fresh header msg \<longleftrightarrow> cm_data msg = header # replicate 19 0 \<and> cm_rspMsg msg = 0"

text \<open>The CEC bus carries at most 16 bytes.\<close>

definition carries :: "uint8_t \<Rightarrow> cec_frame \<Rightarrow> HdmiCecMsg \<Rightarrow> bool" where
  "carries header f msg \<longleftrightarrow> length (cm_data msg) = 20 \<and> cm_len msg \<le> 16 \<and>
     unat (cm_len msg) = length (wire header f) \<and>
     take (unat (cm_len msg)) (cm_data msg) = wire header f \<and>
     cm_rspMsg msg = (case frame_reply f of None \<Rightarrow> 0 | Some r \<Rightarrow> r)"

section \<open>Operands made of several fields\<close>

definition channel_bytes :: "HdmiCecChannelIdentifier \<Rightarrow> bytes" where
  "channel_bytes ch = [push_bit 2 (chid_format ch) OR ucast (drop_bit 8 (chid_major ch)), ucast (chid_major ch)] @
     be16 (chid_minor ch)"

fun service_bytes :: "HdmiCecServiceData \<Rightarrow> bytes" where
  "service_bytes (ServiceArib a) = be16 (arib_transportId a) @ be16 (arib_serviceId a) @ be16 (arib_orgNetworkId a)"
| "service_bytes (ServiceAtsc a) = be16 (atsc_transportId a) @ be16 (atsc_programNumber a) @ [0, 0]"
| "service_bytes (ServiceDvb a) = be16 (dvb_transportId a) @ be16 (dvb_serviceId a) @ be16 (dvb_orgNetworkId a)"
| "service_bytes (ServiceChannel ch) = channel_bytes ch @ [0, 0]"

definition service_id_bytes :: "HdmiCecDigitalServiceId \<Rightarrow> bytes" where
  "service_id_bytes d = (push_bit 7 (dsi_method d) OR dsi_system d) # service_bytes (dsi_systemData d)"

text \<open>The member of the union that is stored is the one that method and system select.\<close>

definition service_ok :: "HdmiCecDigitalServiceId \<Rightarrow> bool" where
  "service_ok d \<longleftrightarrow> (case dsi_systemData d of
       ServiceChannel _ \<Rightarrow> dsi_method d = 1
     | ServiceArib _ \<Rightarrow> dsi_method d = 0 \<and> dsi_system d \<in> {0, 8, 9, 10}
     | ServiceAtsc _ \<Rightarrow> dsi_method d = 0 \<and> dsi_system d \<in> {1, 16, 17, 18}
     | ServiceDvb _ \<Rightarrow> dsi_method d = 0 \<and> dsi_system d \<in> {2, 24, 25, 26, 27})"

definition timer_bytes :: "HdmiCecCommTimerInfo \<Rightarrow> bytes" where
  "timer_bytes i = [cti_data i, cti_month i, bcd (cti_startHour i), bcd (cti_startMinute i),
     bcd (cti_durationHour i), bcd (cti_durationMinute i), cti_recordingSeq i]"

definition analogue_timer_bytes :: "HdmiCecAnalogueTimerInfo \<Rightarrow> bytes" where
  "analogue_timer_bytes i = timer_bytes (ati_commInfo i) @ [ati_anaBcastType i] @ be16 (ati_anaFreq i) @ [ati_bcstSystem i]"

definition digital_timer_bytes :: "HdmiCecDigitalTimerInfo \<Rightarrow> bytes" where
  "digital_timer_bytes i = timer_bytes (dti_commInfo i) @ service_id_bytes (dti_id i)"

definition external_timer_bytes :: "HdmiCecExternalTimerInfo \<Rightarrow> bytes" where
  "external_timer_bytes i = timer_bytes (eti_commInfo i) @ [eti_extSrcSpec i, eti_extPlug i] @ be16 (eti_extPhyAddr i)"

text \<open>The status of a timer; two digits of hours and minutes follow when the remaining space matters.\<close>

definition timer_status_bytes :: "HdmiCecTimerStatusData \<Rightarrow> bytes" where
  "timer_status_bytes s = (let p = tsd_progInfo s;
       b = push_bit 7 (tsd_timerOverlap s) OR push_bit 5 (tsd_mediaInfo s) OR push_bit 4 (tpi_indicator p) OR tpi_info p;
       more = (if tpi_indicator p = 0 then tpi_info p = 14 else tpi_info p = 9 \<or> tpi_info p = 11)
     in b # (if more then [bcd (tpi_durationHour p), bcd (tpi_durationMinute p)] else []))"

definition timer_status_ok :: "HdmiCecTimerStatusData \<Rightarrow> bool" where
  "timer_status_ok s \<longleftrightarrow> tsd_timerOverlap s < 2 \<and> tsd_mediaInfo s < 4 \<and>
     tpi_indicator (tsd_progInfo s) < 2 \<and> tpi_info (tsd_progInfo s) < 16"

text \<open>A profile ends with the first byte whose top bit is clear; at most six bytes are sent.\<close>

fun until_last :: "bytes \<Rightarrow> bytes" where
  "until_last [] = []"
| "until_last (b # bs) = (if bit b 7 then b # until_last bs else [b])"

definition ui_bytes :: "HdmiCecUiCmd \<Rightarrow> bytes" where
  "ui_bytes c = ucm_cmdType c # (if ucm_hasAddOp c
     then (case ucm_addOperands c of UiByte b \<Rightarrow> [b] | UiChannel ch \<Rightarrow> channel_bytes ch) else [])"

definition ui_ok :: "HdmiCecUiCmd \<Rightarrow> bool" where
  "ui_ok c \<longleftrightarrow> (ucm_hasAddOp c \<longrightarrow> (case ucm_addOperands c of
       UiByte _ \<Rightarrow> ucm_cmdType c \<in> {HDMI_CEC_UI_CMD_SELECT_BROADCAST_TYPE, HDMI_CEC_UI_CMD_SELECT_SOUND_PRESENTATION,
         HDMI_CEC_UI_CMD_PLAY_FUNCTION, HDMI_CEC_UI_CMD_SELECT_MEDIA_FUNCTION,
         HDMI_CEC_UI_CMD_SELECT_AV_INPUT_FUNCTION, HDMI_CEC_UI_CMD_SELECT_AUDIO_INPUT_FUNCTION}
     | UiChannel _ \<Rightarrow> ucm_cmdType c = HDMI_CEC_UI_CMD_TUNE_FUNCTION))"

definition latency_bytes :: "HdmiCecLatencyInfo \<Rightarrow> bytes" where
  "latency_bytes i = [li_videoLatency i, push_bit 2 (li_lowLatencyMode i) OR li_audioOutputCompensated i] @
     (if li_audioOutputCompensated i = 3 then [li_audioOutputDelay i] else [])"

definition hec_state_bytes :: "HdmiCdcHecState \<Rightarrow> bytes" where
  "hec_state_bytes s = (push_bit 6 (hst_hecFuncState s) OR push_bit 4 (hst_hostFuncState s) OR
       push_bit 2 (hst_encFuncState s) OR hst_cdcErrCode s) #
     (if hst_haveHecField s then be16 (hst_hecField s) else [])"

fun until_invalid :: "uint16_t list \<Rightarrow> uint16_t list" where
  "until_invalid [] = []"
| "until_invalid (a # as) = (if a = 0xFFFF then [] else a # until_invalid as)"

section \<open>The table\<close>

inductive cec_encodes :: "(HdmiCecMsg \<Rightarrow> HdmiCecMsg option) \<Rightarrow> cec_frame \<Rightarrow> bool" where
  "cec_encodes (\<lambda>m. HdmiCecEncodingActiveSourceMsg m a) (Frame True HDMI_CEC_OPCODE_ACTIVE_SOURCE (be16 a) None)"
| "cec_encodes HdmiCecEncodingImageViewOnMsg (Frame False HDMI_CEC_OPCODE_IMAGE_VIEW_ON [] None)"
| "cec_encodes HdmiCecEncodingTextViewOnMsg (Frame False HDMI_CEC_OPCODE_TEXT_VIEW_ON [] None)"
| "cec_encodes (\<lambda>m. HdmiCecEncodingInactiveSourceMsg m a) (Frame False HDMI_CEC_OPCODE_INACTIVE_SOURCE (be16 a) None)"
| "cec_encodes (\<lambda>m. HdmiCecEncodingRequestActiveSourceMsg m r)
     (Frame True HDMI_CEC_OPCODE_REQUEST_ACTIVE_SOURCE [] (awaits r HDMI_CEC_OPCODE_ACTIVE_SOURCE))"
| routing_change: "cec_encodes (\<lambda>m. HdmiCecEncodingRoutingChangeMsg m a b r)
     (Frame True HDMI_CEC_OPCODE_ROUTING_CHANGE (be16 a @ be16 b) (awaits r HDMI_CEC_OPCODE_ROUTING_INFORMATION))"
| "cec_encodes (\<lambda>m. HdmiCecEncodingRoutingInfomationMsg m a) (Frame True HDMI_CEC_OPCODE_ROUTING_INFORMATION (be16 a) None)"
| "cec_encodes (\<lambda>m. HdmiCecEncodingSetStreamPathMsg m a) (Frame True HDMI_CEC_OPCODE_SET_STREAM_PATH (be16 a) None)"
| "cec_encodes HdmiCecEncodingStandbyMsg (Frame False HDMI_CEC_OPCODE_STANDBY [] None)"
| "cec_encodes (\<lambda>m. HdmiCecEncodingRecordOffMsg m r)
     (Frame False HDMI_CEC_OPCODE_RECORD_OFF [] (awaits r HDMI_CEC_OPCODE_RECORD_STATUS))"
| "cec_encodes (\<lambda>m. HdmiCecEncodingRecordOnMsg m \<lparr>rsa_type = 1, rsa_data = RecordOwn\<rparr> r)
     (Frame False HDMI_CEC_OPCODE_RECORD_ON [1] (awaits r HDMI_CEC_OPCODE_RECORD_STATUS))"
| "service_ok d \<Longrightarrow> cec_encodes (\<lambda>m. HdmiCecEncodingRecordOnMsg m \<lparr>rsa_type = 2, rsa_data = RecordId d\<rparr> r)
     (Frame False HDMI_CEC_OPCODE_RECORD_ON (2 # service_id_bytes d) (awaits r HDMI_CEC_OPCODE_RECORD_STATUS))"
| "cec_encodes (\<lambda>m. HdmiCecEncodingRecordOnMsg m \<lparr>rsa_type = 3, rsa_data = RecordAnalog t f s\<rparr> r)
     (Frame False HDMI_CEC_OPCODE_RECORD_ON ([3, t] @ be16 f @ [s]) (awaits r HDMI_CEC_OPCODE_RECORD_STATUS))"
| "cec_encodes (\<lambda>m. HdmiCecEncodingRecordOnMsg m \<lparr>rsa_type = 4, rsa_data = RecordExtPlug p\<rparr> r)
     (Frame False HDMI_CEC_OPCODE_RECORD_ON [4, p] (awaits r HDMI_CEC_OPCODE_RECORD_STATUS))"
| "cec_encodes (\<lambda>m. HdmiCecEncodingRecordOnMsg m \<lparr>rsa_type = 5, rsa_data = RecordExtPhyAddr a\<rparr> r)
     (Frame False HDMI_CEC_OPCODE_RECORD_ON (5 # be16 a) (awaits r HDMI_CEC_OPCODE_RECORD_STATUS))"
| "cec_encodes (\<lambda>m. HdmiCecEncodingRecordStatusMsg m x) (Frame False HDMI_CEC_OPCODE_RECORD_STATUS [x] None)"
| "cec_encodes (\<lambda>m. HdmiCecEncodingRecordTvScreenMsg m r)
     (Frame False HDMI_CEC_OPCODE_RECORD_TV_SCREEN [] (awaits r HDMI_CEC_OPCODE_RECORD_ON))"
| "cec_encodes (\<lambda>m. HdmiCecEncodingClearAnalogueTimerMsg m ai r)
     (Frame False HDMI_CEC_OPCODE_CLEAR_ANALOGUE_TIMER (analogue_timer_bytes ai) (awaits r HDMI_CEC_OPCODE_TIMER_CLEARED_STATUS))"
| "service_ok (dti_id di) \<Longrightarrow> cec_encodes (\<lambda>m. HdmiCecEncodingClearDigitalTimerMsg m di r)
     (Frame False HDMI_CEC_OPCODE_CLEAR_DIGITAL_TIMER (digital_timer_bytes di) (awaits r HDMI_CEC_OPCODE_TIMER_CLEARED_STATUS))"
| "cec_encodes (\<lambda>m. HdmiCecEncodingClearExternalTimerMsg m ei r)
     (Frame False HDMI_CEC_OPCODE_CLEAR_EXTERNAL_TIMER (external_timer_bytes ei) (awaits r HDMI_CEC_OPCODE_TIMER_CLEARED_STATUS))"
| "cec_encodes (\<lambda>m. HdmiCecEncodingSetAnalogueTimerMsg m ai r)
     (Frame False HDMI_CEC_OPCODE_SET_ANALOGUE_TIMER (analogue_timer_bytes ai) (awaits r HDMI_CEC_OPCODE_TIMER_STATUS))"
| "service_ok (dti_id di) \<Longrightarrow> cec_encodes (\<lambda>m. HdmiCecEncodingSetDigitalTimerMsg m di r)
     (Frame False HDMI_CEC_OPCODE_SET_DIGITAL_TIMER (digital_timer_bytes di) (awaits r HDMI_CEC_OPCODE_TIMER_STATUS))"
| "cec_encodes (\<lambda>m. HdmiCecEncodingSetExternalTimerMsg m ei r)
     (Frame False HDMI_CEC_OPCODE_SET_EXTERNAL_TIMER (external_timer_bytes ei) (awaits r HDMI_CEC_OPCODE_TIMER_STATUS))"
| "1 \<le> l \<Longrightarrow> unat l \<le> length bs \<Longrightarrow> cec_encodes (\<lambda>m. HdmiCecEncodingSetTimerProgramTitleMsg m (Some bs) l)
     (Frame False HDMI_CEC_OPCODE_SET_TIMER_PROGRAM_TITLE (take (min 14 (unat l)) bs) None)"
| "cec_encodes (\<lambda>m. HdmiCecEncodingTimerClearedStatusMsg m x) (Frame False HDMI_CEC_OPCODE_TIMER_CLEARED_STATUS [x] None)"
| "timer_status_ok ts \<Longrightarrow> cec_encodes (\<lambda>m. HdmiCecEncodingTimerStatusMsg m ts)
     (Frame False HDMI_CEC_OPCODE_TIMER_STATUS (timer_status_bytes ts) None)"
| version: "cec_encodes (\<lambda>m. HdmiCecEncodingCecVersionMsg m x) (Frame False HDMI_CEC_OPCODE_CEC_VERSION [x] None)"
| "cec_encodes (\<lambda>m. HdmiCecEncodingGetCecVersionMsg m r)
     (Frame False HDMI_CEC_OPCODE_GET_CEC_VERSION [] (awaits r HDMI_CEC_OPCODE_CEC_VERSION))"
| "cec_encodes (\<lambda>m. HdmiCecEncodingGetPhyAddressMsg m r)
     (Frame False HDMI_CEC_OPCODE_GIVE_PHYSICAL_ADDRESS [] (awaits r HDMI_CEC_OPCODE_REPORT_PHYSICAL_ADDRESS))"
| "cec_encodes (\<lambda>m. HdmiCecEncodingGetMenuLanguageMsg m r)
     (Frame False HDMI_CEC_OPCODE_GET_MENU_LANGUAGE [] (awaits r HDMI_CEC_OPCODE_SET_MENU_LANGUAGE))"
| phys_addr: "cec_encodes (\<lambda>m. HdmiCecEncodingReportPhyAddressMsg m a x)
     (Frame True HDMI_CEC_OPCODE_REPORT_PHYSICAL_ADDRESS (be16 a @ [x]) None)"
| "3 \<le> length bs \<Longrightarrow> cec_encodes (\<lambda>m. HdmiCecEncodingSetMenuLanguageMsg m (Some bs) 3)
     (Frame True HDMI_CEC_OPCODE_SET_MENU_LANGUAGE (take 3 bs) None)"
| features: "length (ci_rcProfile info) = 6 \<Longrightarrow> length (ci_devFeatures info) = 6 \<Longrightarrow>
     cec_encodes (\<lambda>m. HdmiCecEncodingReportFeaturesMsg m info) (Frame True HDMI_CEC_OPCODE_REPORT_FEATURES
       ([ci_cecVersion info, ci_allDeviceType info] @ until_last (ci_rcProfile info) @ until_last (ci_devFeatures info)) None)"
| "cec_encodes (\<lambda>m. HdmiCecEncodingGiveFeaturesMsg m False) (Frame False HDMI_CEC_OPCODE_GIVE_FEATURES [] None)"
| "cec_encodes (\<lambda>m. HdmiCecEncodingDeckControlMsg m x) (Frame False HDMI_CEC_OPCODE_DECK_CONTROL [x] None)"
| "cec_encodes (\<lambda>m. HdmiCecEncodingDeckStatusMsg m x) (Frame False HDMI_CEC_OPCODE_DECK_STATUS [x] None)"
| "cec_encodes (\<lambda>m. HdmiCecEncodingGiveDeckStatusMsg m x r)
     (Frame False HDMI_CEC_OPCODE_GIVE_DECK_STATUS [x] (awaits r HDMI_CEC_OPCODE_DECK_STATUS))"
| "cec_encodes (\<lambda>m. HdmiCecEncodingPlayMsg m x) (Frame False HDMI_CEC_OPCODE_PLAY [x] None)"
| "cec_encodes (\<lambda>m. HdmiCecEncodingGiveTunerDeviceStatusMsg m x r)
     (Frame False HDMI_CEC_OPCODE_GIVE_TUNER_DEVICE_STATUS [x] (awaits r HDMI_CEC_OPCODE_TUNER_DEVICE_STATUS))"
| "cec_encodes (\<lambda>m. HdmiCecEncodingSelectAnalogueServiceMsg m t f s)
     (Frame False HDMI_CEC_OPCODE_SELECT_ANALOGUE_SERVICE ([t] @ be16 f @ [s]) None)"
| "service_ok d \<Longrightarrow> cec_encodes (\<lambda>m. HdmiCecEncodingSelectDigitalServiceMsg m d)
     (Frame False HDMI_CEC_OPCODE_SELECT_DIGITAL_SERVICE (service_id_bytes d) None)"
| "cec_encodes (\<lambda>m. HdmiCecEncodingTunerDeviceStatusMsg m \<lparr>tdi_recordingFlag = x, tdi_dispInfo = y,
       tdi_isAnalogService = True, tdi_data = TunerAnalog t f s\<rparr>)
     (Frame False HDMI_CEC_OPCODE_TUNER_DEVICE_STATUS ([push_bit 7 x OR y, t] @ be16 f @ [s]) None)"
| "service_ok d \<Longrightarrow> cec_encodes (\<lambda>m. HdmiCecEncodingTunerDeviceStatusMsg m \<lparr>tdi_recordingFlag = x, tdi_dispInfo = y,
       tdi_isAnalogService = False, tdi_data = TunerDigital d\<rparr>)
     (Frame False HDMI_CEC_OPCODE_TUNER_DEVICE_STATUS ((push_bit 7 x OR y) # service_id_bytes d) None)"
| "cec_encodes HdmiCecEncodingTunerStepDecrementMsg (Frame False HDMI_CEC_OPCODE_TUNER_STEP_DECREMENT [] None)"
| "cec_encodes HdmiCecEncodingTunerStepIncrementMsg (Frame False HDMI_CEC_OPCODE_TUNER_STEP_INCREMENT [] None)"
| "cec_encodes (\<lambda>m. HdmiCecEncodingGiveDeviceVendorIdMsg m r)
     (Frame False HDMI_CEC_OPCODE_GIVE_DEVICE_VENDOR_ID [] (awaits r HDMI_CEC_OPCODE_DEVICE_VENDOR_ID))"
| "l \<noteq> 0 \<Longrightarrow> unat l \<le> length bs \<Longrightarrow> cec_encodes (\<lambda>m. HdmiCecEncodingVendorCommandMsg m (Some bs) l)
     (Frame False HDMI_CEC_OPCODE_VENDOR_COMMAND (take (min 14 (unat l)) bs) None)"
| "l \<noteq> 0 \<Longrightarrow> unat l \<le> length bs \<Longrightarrow> cec_encodes (\<lambda>m. HdmiCecEncodingVendorCommandWithIdMsg m v (Some bs) l)
     (Frame False HDMI_CEC_OPCODE_VENDOR_COMMAND_WITH_ID (be24 v @ take (min 11 (unat l)) bs) None)"
| "l \<noteq> 0 \<Longrightarrow> unat l \<le> length bs \<Longrightarrow> cec_encodes (\<lambda>m. HdmiCecEncodingVendorRemoteButtonDownMsg m (Some bs) l)
     (Frame False HDMI_CEC_OPCODE_VENDOR_REMOTE_BUTTON_DOWN (take (min 14 (unat l)) bs) None)"
| "cec_encodes HdmiCecEncodingVendorRemoteButtonUpMsg (Frame False HDMI_CEC_OPCODE_VENDOR_REMOTE_BUTTON_UP [] None)"
| "l \<noteq> 0 \<Longrightarrow> unat l \<le> length bs \<Longrightarrow> cec_encodes (\<lambda>m. HdmiCecEncodingSetOsdStringMsg m x (Some bs) l)
     (Frame False HDMI_CEC_OPCODE_SET_OSD_STRING (x # take (min 13 (unat l)) bs) None)"
| "cec_encodes (\<lambda>m. HdmiCecEncodingGiveOsdNameMsg m r)
     (Frame False HDMI_CEC_OPCODE_GIVE_OSD_NAME [] (awaits r HDMI_CEC_OPCODE_SET_OSD_NAME))"
| osd_name: "l \<noteq> 0 \<Longrightarrow> unat l \<le> length bs \<Longrightarrow> cec_encodes (\<lambda>m. HdmiCecEncodingSetOsdNameMsg m (Some bs) l)
     (Frame False HDMI_CEC_OPCODE_SET_OSD_NAME (take (min 14 (unat l)) bs) None)"
| "cec_encodes (\<lambda>m. HdmiCecEncodingMenuRequestMsg m x r)
     (Frame False HDMI_CEC_OPCODE_MENU_REQUEST [x] (awaits r HDMI_CEC_OPCODE_MENU_STATUS))"
| "cec_encodes (\<lambda>m. HdmiCecEncodingMenuStatusMsg m x) (Frame False HDMI_CEC_OPCODE_MENU_STATUS [x] None)"
| "ui_ok c \<Longrightarrow> cec_encodes (\<lambda>m. HdmiCecEncodingUserControlPrtessedMsg m (Some c))
     (Frame False HDMI_CEC_OPCODE_USER_CONTROL_PRESSED (ui_bytes c) None)"
| "cec_encodes HdmiCecEncodingUserControlReleasedMsg (Frame False HDMI_CEC_OPCODE_USER_CONTROL_RELEASED [] None)"
| "cec_encodes (\<lambda>m. HdmiCecEncodingGiveDevicePowerStatusMsg m r)
     (Frame False HDMI_CEC_OPCODE_GIVE_DEVICE_POWER_STATUS [] (awaits r HDMI_CEC_OPCODE_REPORT_POWER_STATUS))"
| "cec_encodes (\<lambda>m. HdmiCecEncodingReportDevicePowerStatusMsg m x) (Frame False HDMI_CEC_OPCODE_REPORT_POWER_STATUS [x] None)"
| feature_abort: "cec_encodes (\<lambda>m. HdmiCecEncodingFeatureAbortMsg m x y) (Frame False HDMI_CEC_OPCODE_FEATURE_ABORT [x, y] None)"
| "cec_encodes HdmiCecEncodingAbortMsg (Frame False HDMI_CEC_OPCODE_ABORT [] None)"
| "cec_encodes (\<lambda>m. HdmiCecEncodingGiveAudioStatusMsg m r)
     (Frame False HDMI_CEC_OPCODE_GIVE_AUDIO_STATUS [] (awaits r HDMI_CEC_OPCODE_REPORT_AUDIO_STATUS))"
| "cec_encodes (\<lambda>m. HdmiCecEncodingGiveSystemAudioModeMsg m r)
     (Frame False HDMI_CEC_OPCODE_GIVE_SYSTEM_AUDIO_MODE_STATUS [] (awaits r HDMI_CEC_OPCODE_SYSTEM_AUDIO_MODE_STATUS))"
| "cec_encodes (\<lambda>m. HdmiCecEncodingReportAudioStatusMsg m x y)
     (Frame False HDMI_CEC_OPCODE_REPORT_AUDIO_STATUS [push_bit 7 x OR (y AND 0x7F)] None)"
| "l \<noteq> 0 \<Longrightarrow> unat l \<le> length xs \<Longrightarrow> unat l \<le> length ys \<Longrightarrow>
     cec_encodes (\<lambda>m. HdmiCecEncodingRequestShortAudioDescriptorMsg m (Some xs) (Some ys) l r)
     (Frame False HDMI_CEC_OPCODE_REQUEST_SHORT_AUDIO_DESCRIPTOR
       (take (min 4 (unat l)) (map2 (\<lambda>x y. push_bit 6 x OR (y AND 0x3F)) xs ys))
       (awaits r HDMI_CEC_OPCODE_REPORT_SHORT_AUDIO_DESCRIPTOR))"
| "l \<noteq> 0 \<Longrightarrow> unat l \<le> length ws \<Longrightarrow> cec_encodes (\<lambda>m. HdmiCecEncodingReportShortAudioDescriptorMsg m (Some ws) l)
     (Frame False HDMI_CEC_OPCODE_REPORT_SHORT_AUDIO_DESCRIPTOR (concat (map be24 (take (min 4 (unat l)) ws))) None)"
| "cec_encodes (\<lambda>m. HdmiCecEncodingSetSystemAudioModeMsg m x) (Frame False HDMI_CEC_OPCODE_SET_SYSTEM_AUDIO_MODE [x] None)"
| "cec_encodes (\<lambda>m. HdmiCecEncodingSystemAudioModeRequestMsg m a r)
     (Frame False HDMI_CEC_OPCODE_SYSTEM_AUDIO_MODE_REQUEST (be16 a) (awaits r HDMI_CEC_OPCODE_SET_SYSTEM_AUDIO_MODE))"
| "cec_encodes (\<lambda>m. HdmiCecEncodingSystemAudioModeStatusMsg m x) (Frame False HDMI_CEC_OPCODE_SYSTEM_AUDIO_MODE_STATUS [x] None)"
| "cec_encodes (\<lambda>m. HdmiCecEncodingSetAudioRateMsg m x) (Frame False HDMI_CEC_OPCODE_SET_AUDIO_RATE [x] None)"
| "cec_encodes (\<lambda>m. HdmiCecEncodingInitiateArcMsg m r)
     (Frame False HDMI_CEC_OPCODE_INITIATE_ARC [] (awaits r HDMI_CEC_OPCODE_REPORT_ARC_INITIATED))"
| "cec_encodes HdmiCecEncodingReportArcInitiatedMsg (Frame False HDMI_CEC_OPCODE_REPORT_ARC_INITIATED [] None)"
| "cec_encodes HdmiCecEncodingReportArcTerminationMsg (Frame False HDMI_CEC_OPCODE_REPORT_ARC_TERMINATION [] None)"
| "cec_encodes (\<lambda>m. HdmiCecEncodingRequestArcInitiationMsg m r)
     (Frame False HDMI_CEC_OPCODE_REQUEST_ARC_INITIATION [] (awaits r HDMI_CEC_OPCODE_INITIATE_ARC))"
| "cec_encodes (\<lambda>m. HdmiCecEncodingRequestArcTerminationMsg m r)
     (Frame False HDMI_CEC_OPCODE_REQUEST_ARC_TERMINATION [] (awaits r HDMI_CEC_OPCODE_TERMINATE_ARC))"
| "cec_encodes (\<lambda>m. HdmiCecEncodingTerminateArcMsg m r)
     (Frame False HDMI_CEC_OPCODE_TERMINATE_ARC [] (awaits r HDMI_CEC_OPCODE_REPORT_ARC_TERMINATION))"
| "cec_encodes (\<lambda>m. HdmiCecEncodingRequestCurrentLatencyMsg m a r)
     (Frame True HDMI_CEC_OPCODE_REQUEST_CURRENT_LATENCY (be16 a) (awaits r HDMI_CEC_OPCODE_REPORT_CURRENT_LATENCY))"
| "cec_encodes (\<lambda>m. HdmiCecEncodingReportCurrentLatencyMsg m a li)
     (Frame True HDMI_CEC_OPCODE_REPORT_CURRENT_LATENCY (be16 a @ latency_bytes li) None)"
| "cec_encodes (\<lambda>m. HdmiCdcEncodingHecInquireStateMsg m a b c r)
     (Frame True HDMI_CEC_OPCODE_CDC_MESSAGE (be16 a @ [HDMI_CDC_HEC_INQUIRE_STATE] @ be16 b @ be16 c)
       (awaits r HDMI_CDC_HEC_REPORT_STATE))"
| "cec_encodes (\<lambda>m. HdmiCdcEncodingHecReportStateMsg m a b hs)
     (Frame True HDMI_CEC_OPCODE_CDC_MESSAGE (be16 a @ [HDMI_CDC_HEC_REPORT_STATE] @ be16 b @ hec_state_bytes hs) None)"
| "cec_encodes (\<lambda>m. HdmiCdcEncodingHecSetStateAdjacentMsg m a b x r)
     (Frame True HDMI_CEC_OPCODE_CDC_MESSAGE (be16 a @ [HDMI_CDC_HEC_SET_STATE_ADJACENT] @ be16 b @ [x])
       (awaits r HDMI_CDC_HEC_REPORT_STATE))"
| "length (hsi_phyAddr si) = 3 \<Longrightarrow> cec_encodes (\<lambda>m. HdmiCdcEncodingHecSetStateMsg m a si r)
     (Frame True HDMI_CEC_OPCODE_CDC_MESSAGE (be16 a @ [HDMI_CDC_HEC_SET_STATE] @ be16 (hsi_phyAddr1 si) @
         be16 (hsi_phyAddr2 si) @ [hsi_hecSetState si] @
         concat (map be16 (until_invalid (take (unat (hsi_phyAddrLen si)) (hsi_phyAddr si)))))
       (awaits r HDMI_CDC_HEC_REPORT_STATE))"
| "3 \<le> length as \<Longrightarrow> cec_encodes (\<lambda>m. HdmiCdcEncodingHecRequestDeactivationMsg m a (Some as) 3 r)
     (Frame True HDMI_CEC_OPCODE_CDC_MESSAGE (be16 a @ [HDMI_CDC_HEC_REQUEST_DEACTIVATION] @ concat (map be16 (take 3 as)))
       (awaits r HDMI_CDC_HEC_REPORT_STATE))"
| "cec_encodes (\<lambda>m. HdmiCdcEncodingHecNotifyAliveMsg m a)
     (Frame True HDMI_CEC_OPCODE_CDC_MESSAGE (be16 a @ [HDMI_CDC_HEC_NOTIFY_ALIVE]) None)"
| "cec_encodes (\<lambda>m. HdmiCdcEncodingHecDiscoverMsg m a r)
     (Frame True HDMI_CEC_OPCODE_CDC_MESSAGE (be16 a @ [HDMI_CDC_HEC_DISCOVER]) (awaits r HDMI_CDC_HEC_REPORT_STATE))"
| "cec_encodes (\<lambda>m. HdmiCdcEncodingHpdSetStateMsg m a x y r)
     (Frame True HDMI_CEC_OPCODE_CDC_MESSAGE (be16 a @ [HDMI_CDC_HPD_SET_STATE, push_bit 4 x OR y])
       (awaits r CEC_MSG_CDC_HPD_REPORT_STATE))"
| "cec_encodes (\<lambda>m. HdmiCdcEncodingHpdReportStateMsg m a x y)
     (Frame True HDMI_CEC_OPCODE_CDC_MESSAGE (be16 a @ [CEC_MSG_CDC_HPD_REPORT_STATE, push_bit 4 x OR y]) None)"

text \<open>
  The encoders that do not produce the documented frame: the vendor identifier is documented as a
  broadcast message but keeps the address in the header, and a request for the features waits for
  the answer of another request.  The first frame is the documented one, the second the one produced.
\<close>

inductive cec_deviates :: "(HdmiCecMsg \<Rightarrow> HdmiCecMsg option) \<Rightarrow> cec_frame \<Rightarrow> cec_frame \<Rightarrow> bool" where
  vendor_id: "cec_deviates (\<lambda>m. HdmiCecEncodingDeviceVendorIdMsg m v)
     (Frame True HDMI_CEC_OPCODE_DEVICE_VENDOR_ID (be24 v) None)
     (Frame False HDMI_CEC_OPCODE_DEVICE_VENDOR_ID (be24 v) None)"
| give_features: "cec_deviates (\<lambda>m. HdmiCecEncodingGiveFeaturesMsg m True)
     (Frame False HDMI_CEC_OPCODE_GIVE_FEATURES [] (Some HDMI_CEC_OPCODE_REPORT_FEATURES))
     (Frame False HDMI_CEC_OPCODE_GIVE_FEATURES [] (Some HDMI_CEC_OPCODE_SET_MENU_LANGUAGE))"

section \<open>Stores into a message\<close>


lemma update_Cons_numeral [simp]: "(x # xs)[numeral n := y] = x # xs[pred_numeral n := y]"
  by (simp add: numeral_eq_Suc)

lemma low_byte [simp]:
  fixes x :: "'a::len word"
  shows "(ucast (x AND 255) :: uint8_t) = ucast x"
proof -
  have m: "(255 :: 'a word) = mask 8" by (simp add: mask_eq_exp_minus_1)
  show ?thesis unfolding m by (auto simp: bit_simps intro!: bit_word_eqI dest: bit_imp_le_length)
qed

named_theorems cec_runs

lemma runs_put [cec_runs]: "i < length (cm_data msg) \<Longrightarrow> runs P (cec_put i b msg) = P (msg\<lparr>cm_data := (cm_data msg)[i := b]\<rparr>)"
  by (simp add: cec_put_def runs_simps)

lemma runs_put_or [cec_runs]:
  "i < length (cm_data msg) \<Longrightarrow> runs P (cec_put_or i b msg) = P (msg\<lparr>cm_data := (cm_data msg)[i := cm_data msg ! i OR b]\<rparr>)"
  by (simp add: cec_put_or_def runs_simps cec_runs)

lemma freshD: "fresh h msg \<Longrightarrow> cm_data msg = [h, 0, 0, 0, 0, 0, 0, 0, 0, 0, 0, 0, 0, 0, 0, 0, 0, 0, 0, 0] \<and> cm_rspMsg msg = 0"
  by (simp add: fresh_def numeral_eq_Suc)

lemmas len_defs = HDMI_CEC_GET_MSG_LEN_def HDMI_CDC_GET_MSG_LEN_def HDMI_CEC_BCD_FORMAT_TIME_def bcd_def

lemmas spec_defs = carries_def wire_def be16_def be24_def awaits_def


lemma runs_copy [cec_runs]:
  "i + unat count \<le> length (cm_data msg) \<Longrightarrow> count \<le> destMax \<Longrightarrow> unat count \<le> length src \<Longrightarrow>
   runs P (cec_copy i destMax src count msg) =
     P (msg\<lparr>cm_data := take i (cm_data msg) @ take (unat count) src @ drop (i + unat count) (cm_data msg)\<rparr>)"
  by (simp add: cec_copy_def runs_simps memcpy_s_def mem_write_def word_le_nat_alt)

text \<open>Storing a run of bytes: in place, and at the end with the length counted up.\<close>

definition cec_splice :: "nat \<Rightarrow> bytes \<Rightarrow> HdmiCecMsg \<Rightarrow> HdmiCecMsg" where
  "cec_splice i bs msg = msg\<lparr>cm_data := take i (cm_data msg) @ bs @ drop (i + length bs) (cm_data msg)\<rparr>"

definition append_bytes :: "bytes \<Rightarrow> HdmiCecMsg \<Rightarrow> HdmiCecMsg" where
  "append_bytes bs msg = (cec_splice (unat (cm_len msg)) bs msg)\<lparr>cm_len := cm_len msg + of_nat (length bs)\<rparr>"

lemma splice_fields [simp]:
  "cm_len (cec_splice i bs msg) = cm_len msg" "cm_rspMsg (cec_splice i bs msg) = cm_rspMsg msg"
  by (simp_all add: cec_splice_def)

lemma splice_length [simp]:
  "i + length bs \<le> length (cm_data msg) \<Longrightarrow> length (cm_data (cec_splice i bs msg)) = length (cm_data msg)"
  by (simp add: cec_splice_def)

lemma splice_splice:
  "i + length bs \<le> length (cm_data msg) \<Longrightarrow> cec_splice (i + length bs) cs (cec_splice i bs msg) = cec_splice i (bs @ cs) msg"
  by (simp add: cec_splice_def ac_simps)

lemma splice_Nil [simp]: "cec_splice i [] msg = msg"
  by (simp add: cec_splice_def)

lemma put_splice: "i < length (cm_data msg) \<Longrightarrow> cec_put i b msg = Some (cec_splice i [b] msg)"
  by (simp add: cec_put_def arr_set_def cec_splice_def upd_conv_take_nth_drop)

lemma splice_carries:
  assumes "length (cm_data msg) = 20" "take i (cm_data msg) = wire h (Frame br op ops r)"
    and "i = 2 + length ops" "i + length bs \<le> 16" "unat (cm_len msg) = i + length bs"
    and "cm_rspMsg msg = (case r of None \<Rightarrow> 0 | Some x \<Rightarrow> x)"
  shows "carries h (Frame br op (ops @ bs) r) (cec_splice i bs msg)"
proof -
  have "cm_len msg \<le> 16" using assms by (simp add: word_le_nat_alt)
  then show ?thesis using assms by (auto simp: carries_def cec_splice_def wire_def)
qed

lemma append_carries:
  assumes "carries h (Frame br op ops r) msg" "length ops + length bs \<le> 14"
  shows "carries h (Frame br op (ops @ bs) r) (append_bytes bs msg)"
proof -
  have u: "unat (cm_len msg) = 2 + length ops" using assms by (simp add: carries_def wire_def)
  have n: "unat (cm_len msg + of_nat (length bs)) = 2 + length ops + length bs"
    using u assms(2) by (simp add: unat_word_ariths unat_of_nat)
  have "cm_len msg + of_nat (length bs) \<le> 16" using n assms(2) by (simp add: word_le_nat_alt)
  then show ?thesis
    using assms u n by (auto simp: carries_def append_bytes_def cec_splice_def wire_def)
qed

lemma append_bytes_Nil [simp]: "append_bytes [] msg = msg"
  by (simp add: append_bytes_def)

lemma append_append:
  assumes "unat (cm_len msg) + length bs + length cs \<le> length (cm_data msg)" "length (cm_data msg) = 20"
  shows "append_bytes cs (append_bytes bs msg) = append_bytes (bs @ cs) msg"
proof -
  have "unat (cm_len msg + of_nat (length bs)) = unat (cm_len msg) + length bs"
    using assms by (simp add: unat_word_ariths unat_of_nat)
  then show ?thesis
    using assms by (simp add: append_bytes_def cec_splice_def ac_simps)
qed

lemma append_length [simp]:
  "unat (cm_len msg) + length bs \<le> length (cm_data msg) \<Longrightarrow>
   length (cm_data (append_bytes bs msg)) = length (cm_data msg)"
  by (simp add: append_bytes_def)

lemma append_len:
  "unat (cm_len msg) + length bs \<le> 20 \<Longrightarrow> unat (cm_len (append_bytes bs msg)) = unat (cm_len msg) + length bs"
  by (simp add: append_bytes_def unat_word_ariths unat_of_nat)

lemma until_last_length: "length (until_last bs) \<le> length bs"
  by (induction bs) auto

lemma until_invalid_length: "length (until_invalid as) \<le> length as"
  by (induction as) auto

lemma top_bit: "(b :: uint8_t) AND 128 = 0 \<longleftrightarrow> \<not> bit b 7"
proof -
  have "(128 :: uint8_t) = push_bit 7 1" by simp
  then show ?thesis by (simp only: and_exp_eq_0_iff_not_bit push_bit_of_1)
qed

lemma features_loop_appends:
  assumes "i + n = length arr" "unat (cm_len msg) + n \<le> 20" "length (cm_data msg) = 20"
  shows "features_loop arr i n 0x80 msg = Some (append_bytes (until_last (drop i arr)) msg)"
  using assms
proof (induction n arbitrary: i msg)
  case 0
  then show ?case by simp
next
  case (Suc n)
  have i: "i < length arr" and d: "drop i arr = arr ! i # drop (Suc i) arr"
    using Suc.prems by (simp_all add: Cons_nth_drop_Suc)
  let ?m = "append_bytes [arr ! i] msg"
  have m: "length (cm_data ?m) = 20" "unat (cm_len ?m) + n \<le> 20"
    using Suc.prems by (simp_all add: append_len)
  have t: "append_bytes (until_last (drop (Suc i) arr)) ?m =
      append_bytes (arr ! i # until_last (drop (Suc i) arr)) msg"
    using Suc.prems until_last_length[of "drop (Suc i) arr"] by (subst append_append) auto
  show ?case
    using Suc.prems i d Suc.IH[OF _ m(2,1)] t
    by (simp add: arr_get_def put_splice top_bit append_bytes_def)
qed

lemma append_addr:
  assumes "unat (cm_len msg) + 2 \<le> 20" "length (cm_data msg) = 20"
  shows "cec_append_addr a msg = Some (append_bytes (be16 a) msg)"
proof -
  have "cec_append_addr a msg = Some (append_bytes [ucast a] (append_bytes [ucast (drop_bit 8 a)] msg))"
    using assms append_len[of msg "[ucast (drop_bit 8 a)]"]
    by (simp add: cec_append_addr_def put_splice append_bytes_def)
  then show ?thesis using assms by (simp add: append_append be16_def)
qed

lemma be16_length [simp]: "length (be16 a) = 2"
  by (simp add: be16_def)

lemma be24_length [simp]: "length (be24 a) = 3"
  by (simp add: be24_def)

lemma concat_be16_length [simp]: "length (concat (map be16 as)) = 2 * length as"
  by (induction as) auto

lemma set_state_loop_appends:
  assumes "i + n \<le> length as" "unat (cm_len msg) + 2 * n \<le> 20" "length (cm_data msg) = 20"
  shows "set_state_loop as i n msg =
    Some (append_bytes (concat (map be16 (until_invalid (take n (drop i as))))) msg)"
  using assms
proof (induction n arbitrary: i msg)
  case 0
  then show ?case by simp
next
  case (Suc n)
  have d: "drop i as = as ! i # drop (Suc i) as" using Suc.prems by (simp add: Cons_nth_drop_Suc)
  let ?m = "append_bytes (be16 (as ! i)) msg" and ?t = "until_invalid (take n (drop (Suc i) as))"
  have m: "length (cm_data ?m) = 20" "unat (cm_len ?m) + 2 * n \<le> 20"
    using Suc.prems by (simp_all add: append_len)
  have "2 * length ?t \<le> 2 * n" using until_invalid_length[of "take n (drop (Suc i) as)"] by simp
  then have t: "append_bytes (concat (map be16 ?t)) ?m = append_bytes (be16 (as ! i) @ concat (map be16 ?t)) msg"
    using Suc.prems by (subst append_append) auto
  show ?case
    using Suc.prems d Suc.IH[OF _ m(2,1)] t by (simp add: arr_get_def append_addr)
qed

lemma deactivation_loop_appends:
  assumes "i + n \<le> length as" "unat (cm_len msg) + 2 * n \<le> 20" "length (cm_data msg) = 20"
  shows "deactivation_loop as [i..<i + n] msg = Some (append_bytes (concat (map be16 (take n (drop i as)))) msg)"
  using assms
proof (induction n arbitrary: i msg)
  case 0
  then show ?case by simp
next
  case (Suc n)
  have d: "drop i as = as ! i # drop (Suc i) as" using Suc.prems by (simp add: Cons_nth_drop_Suc)
  have u: "[i..<Suc (i + n)] = i # [Suc i..<Suc (i + n)]" by (simp add: upt_conv_Cons del: upt_Suc)
  let ?m = "append_bytes (be16 (as ! i)) msg"
  have m: "length (cm_data ?m) = 20" "unat (cm_len ?m) + 2 * n \<le> 20"
    using Suc.prems by (simp_all add: append_len)
  have t: "append_bytes (concat (map be16 (take n (drop (Suc i) as)))) ?m =
      append_bytes (be16 (as ! i) @ concat (map be16 (take n (drop (Suc i) as)))) msg"
    using Suc.prems by (subst append_append) auto
  show ?case
    using Suc.prems d Suc.IH[of "Suc i", OF _ m(2,1)] t by (simp add: u arr_get_def append_addr del: upt_Suc)
qed

lemma audio_formats_splice:
  assumes "k + n \<le> length xs" "k + n \<le> length ys" "2 + k + n \<le> length (cm_data msg)"
  shows "audio_formats_loop xs ys [k..<k + n] msg =
    Some (cec_splice (2 + k) (take n (drop k (map2 (\<lambda>x y. push_bit 6 x OR (y AND 0x3F)) xs ys))) msg)"
  using assms
proof (induction n arbitrary: k msg)
  case 0
  then show ?case by simp
next
  case (Suc n)
  let ?zs = "map2 (\<lambda>x y. push_bit 6 x OR (y AND 0x3F)) xs ys"
  have d: "drop k ?zs = (push_bit 6 (xs ! k) OR (ys ! k AND 0x3F)) # drop (Suc k) ?zs"
    using Suc.prems by (simp add: Cons_nth_drop_Suc[symmetric])
  have u: "[k..<Suc (k + n)] = k # [Suc k..<Suc (k + n)]" by (simp add: upt_conv_Cons del: upt_Suc)
  show ?case
    using Suc.prems Suc.IH[of "Suc k"] d splice_splice[of "2 + k" "[push_bit 6 (xs ! k) OR (ys ! k AND 0x3F)]" msg]
    by (simp add: u arr_get_def put_splice del: upt_Suc)
qed

lemma concat_be24_length [simp]: "length (concat (map be24 as)) = 3 * length as"
  by (induction as) auto

lemma descriptors_splice:
  assumes "k + n \<le> length ws" "2 + 3 * (k + n) \<le> length (cm_data msg)"
  shows "descriptors_loop ws [k..<k + n] msg =
    Some (cec_splice (2 + 3 * k) (concat (map be24 (take n (drop k ws)))) msg)"
  using assms
proof (induction n arbitrary: k msg)
  case 0
  then show ?case by simp
next
  case (Suc n)
  have d: "drop k ws = ws ! k # drop (Suc k) ws" using Suc.prems by (simp add: Cons_nth_drop_Suc)
  have u: "[k..<Suc (k + n)] = k # [Suc k..<Suc (k + n)]" by (simp add: upt_conv_Cons del: upt_Suc)
  let ?w = "ws ! k"
  have s1: "cec_splice (3 + k * 3) [ucast (drop_bit 8 ?w)] (cec_splice (2 + k * 3) [ucast (drop_bit 16 ?w)] msg) =
      cec_splice (2 + k * 3) [ucast (drop_bit 16 ?w), ucast (drop_bit 8 ?w)] msg"
    using Suc.prems splice_splice[of "2 + k * 3" "[ucast (drop_bit 16 ?w)]" msg "[ucast (drop_bit 8 ?w)]"]
    by (simp add: numeral_eq_Suc)
  have s2: "cec_splice (4 + k * 3) [ucast ?w] (cec_splice (2 + k * 3) [ucast (drop_bit 16 ?w), ucast (drop_bit 8 ?w)] msg) =
      cec_splice (2 + 3 * k) (be24 ?w) msg"
    using Suc.prems splice_splice[of "2 + k * 3" "[ucast (drop_bit 16 ?w), ucast (drop_bit 8 ?w)]" msg "[ucast ?w]"]
    by (simp add: be24_def mult.commute numeral_eq_Suc)
  show ?case
    using Suc.prems Suc.IH[of "Suc k" "cec_splice (2 + 3 * k) (be24 ?w) msg"] d s1 s2
      splice_splice[of "2 + 3 * k" "be24 ?w" msg "concat (map be24 (take n (drop (Suc k) ws)))"]
    by (simp add: u arr_get_def put_splice ac_simps del: upt_Suc)
qed

subsection \<open>Service identifications\<close>

lemma splice_append:
  assumes "cm_data msg = pre @ zs @ post" "length zs = length bs"
  shows "cec_splice (length pre) bs msg = msg\<lparr>cm_data := pre @ bs @ post\<rparr>"
  using assms by (simp add: cec_splice_def)

lemma service_id_splice:
  assumes ok: "service_ok d" and z: "take 7 (drop off (cm_data msg)) = [0, 0, 0, 0, 0, 0, 0]"
    and len: "7 \<le> len"
  shows "HdmiCecEncodingDigitalServiceId msg off len d = Some (cec_splice off (service_id_bytes d) msg)"
proof -
  have "7 \<le> length (drop off (cm_data msg))" using arg_cong[OF z, of length] by simp
  then have off: "off + 7 \<le> length (cm_data msg)" by simp
  obtain pre post where dat: "cm_data msg = pre @ [0, 0, 0, 0, 0, 0, 0] @ post" and pre: "length pre = off"
    using off z append_take_drop_id[of off "cm_data msg"] append_take_drop_id[of 7 "drop off (cm_data msg)"]
    by (metis le_add1 length_take min.absorb2 order_trans)
  have l: "\<not> len < 7" using len by simp
  have r: "cec_splice off (service_id_bytes d) msg = msg\<lparr>cm_data := pre @ service_id_bytes d @ post\<rparr>"
    using splice_append[of msg pre _ post "service_id_bytes d"] dat pre
    by (cases "dsi_systemData d") (auto simp: service_id_bytes_def channel_bytes_def be16_def)
  show ?thesis
    unfolding r using ok dat pre l
    by (cases "dsi_systemData d")
      (auto simp: HdmiCecEncodingDigitalServiceId_def service_ok_def cec_put_def arr_set_def list_update_append
        service_id_bytes_def channel_bytes_def be16_def)
qed

lemmas cec_encoder_defs =
  HdmiCecEncodingActiveSourceMsg_def HdmiCecEncodingImageViewOnMsg_def HdmiCecEncodingTextViewOnMsg_def
  HdmiCecEncodingInactiveSourceMsg_def HdmiCecEncodingRequestActiveSourceMsg_def
  HdmiCecEncodingRoutingChangeMsg_def HdmiCecEncodingRoutingInfomationMsg_def
  HdmiCecEncodingSetStreamPathMsg_def HdmiCecEncodingStandbyMsg_def HdmiCecEncodingRecordOffMsg_def
  HdmiCecEncodingRecordOnOwn_def HdmiCecEncodingRecordOnDigital_def HdmiCecEncodingRecordOnAnalog_def
  HdmiCecEncodingRecordOnExtPlug_def HdmiCecEncodingRecordOnExtPhyAddr_def HdmiCecEncodingRecordOnMsg_def
  HdmiCecEncodingRecordStatusMsg_def HdmiCecEncodingRecordTvScreenMsg_def HdmiCecEncodingCommTimerInfo_def
  HdmiCecEncodingAnalogueTimerInfo_def HdmiCecEncodingClearAnalogueTimerMsg_def
  HdmiCecEncodingDigitalTimerInfo_def HdmiCecEncodingClearDigitalTimerMsg_def
  HdmiCecEncodingExternalTimerInfo_def HdmiCecEncodingClearExternalTimerMsg_def
  HdmiCecEncodingSetAnalogueTimerMsg_def HdmiCecEncodingSetDigitalTimerMsg_def
  HdmiCecEncodingSetExternalTimerMsg_def HdmiCecEncodingTimerClearedStatusMsg_def
  HdmiCecEncodingCecVersionMsg_def HdmiCecEncodingGetCecVersionMsg_def HdmiCecEncodingGetPhyAddressMsg_def
  HdmiCecEncodingGetMenuLanguageMsg_def HdmiCecEncodingReportPhyAddressMsg_def
  HdmiCecEncodingSetMenuLanguageMsg_def HdmiCecEncodingGiveFeaturesMsg_def
  HdmiCecEncodingDeckControlMsg_def HdmiCecEncodingDeckStatusMsg_def HdmiCecEncodingGiveDeckStatusMsg_def
  HdmiCecEncodingPlayMsg_def HdmiCecEncodingGiveTunerDeviceStatusMsg_def
  HdmiCecEncodingSelectAnalogueServiceMsg_def HdmiCecEncodingSelectDigitalServiceMsg_def
  HdmiCecEncodingTunerDeviceStatusMsg_def HdmiCecEncodingTunerStepDecrementMsg_def
  HdmiCecEncodingTunerStepIncrementMsg_def HdmiCecEncodingDeviceVendorIdMsg_def
  HdmiCecEncodingGiveDeviceVendorIdMsg_def HdmiCecEncodingVendorRemoteButtonUpMsg_def
  HdmiCecEncodingGiveOsdNameMsg_def HdmiCecEncodingMenuRequestMsg_def HdmiCecEncodingMenuStatusMsg_def
  HdmiCecEncodingUserControlReleasedMsg_def HdmiCecEncodingGiveDevicePowerStatusMsg_def
  HdmiCecEncodingReportDevicePowerStatusMsg_def HdmiCecEncodingFeatureAbortMsg_def
  HdmiCecEncodingAbortMsg_def HdmiCecEncodingGiveAudioStatusMsg_def
  HdmiCecEncodingGiveSystemAudioModeMsg_def HdmiCecEncodingReportAudioStatusMsg_def
  HdmiCecEncodingSetSystemAudioModeMsg_def HdmiCecEncodingSystemAudioModeRequestMsg_def
  HdmiCecEncodingSystemAudioModeStatusMsg_def HdmiCecEncodingSetAudioRateMsg_def
  HdmiCecEncodingInitiateArcMsg_def HdmiCecEncodingReportArcInitiatedMsg_def
  HdmiCecEncodingReportArcTerminationMsg_def HdmiCecEncodingRequestArcInitiationMsg_def
  HdmiCecEncodingRequestArcTerminationMsg_def HdmiCecEncodingTerminateArcMsg_def
  HdmiCecEncodingRequestCurrentLatencyMsg_def HdmiCecEncodingReportCurrentLatencyMsg_def
  HdmiCdcEncodingHecInquireStateMsg_def HdmiCdcEncodingHecReportStateMsg_def
  HdmiCdcEncodingHecSetStateAdjacentMsg_def HdmiCdcEncodingHecNotifyAliveMsg_def
  HdmiCdcEncodingHecDiscoverMsg_def HdmiCdcEncodingHpdSetStateMsg_def HdmiCdcEncodingHpdReportStateMsg_def

lemma runs_service [cec_runs]:
  "service_ok d \<Longrightarrow> take 7 (drop off (cm_data msg)) = [0, 0, 0, 0, 0, 0, 0] \<Longrightarrow> 7 \<le> len \<Longrightarrow>
   runs P (HdmiCecEncodingDigitalServiceId msg off len d) = P (cec_splice off (service_id_bytes d) msg)"
  by (simp add: service_id_splice runs_simps)

lemma service_id_length [simp]: "length (service_id_bytes d) = 7"
  by (cases "dsi_systemData d") (auto simp: service_id_bytes_def channel_bytes_def)

lemmas frame_defs = timer_bytes_def analogue_timer_bytes_def digital_timer_bytes_def external_timer_bytes_def
  latency_bytes_def hec_state_bytes_def


lemma len_plus:
  fixes l :: uint32_t
  assumes "unat l \<le> 14"
  shows "unat (2 + l) = 2 + unat l" "unat (3 + l) = 3 + unat l" "unat (5 + l) = 5 + unat l"
  using assms by (simp_all add: unat_word_ariths)

lemma plus_Suc:
  "(3::nat) + n = Suc (Suc (Suc n))" "(5::nat) + n = Suc (Suc (Suc (Suc (Suc n))))"
  by simp_all

lemmas string_simps = plus_Suc spec_defs len_defs len_plus word_le_nat_alt word_less_nat_alt min_def

subsection \<open>Encoders of texts and lists\<close>

lemma title_frame:
  assumes "fresh h msg" "1 \<le> l" "unat l \<le> length bs"
  shows "runs (carries h (Frame False HDMI_CEC_OPCODE_SET_TIMER_PROGRAM_TITLE (take (min 14 (unat l)) bs) None)) (HdmiCecEncodingSetTimerProgramTitleMsg msg (Some bs) l)"
  using assms(2,3) freshD[OF assms(1)]
  by (cases "unat l \<le> 14") (simp_all add: HdmiCecEncodingSetTimerProgramTitleMsg_def runs_simps cec_runs string_simps)

lemma vendor_command_frame:
  assumes "fresh h msg" "l \<noteq> 0" "unat l \<le> length bs"
  shows "runs (carries h (Frame False HDMI_CEC_OPCODE_VENDOR_COMMAND (take (min 14 (unat l)) bs) None)) (HdmiCecEncodingVendorCommandMsg msg (Some bs) l)"
  using assms(2,3) freshD[OF assms(1)]
  by (cases "unat l \<le> 14") (simp_all add: HdmiCecEncodingVendorCommandMsg_def runs_simps cec_runs string_simps)

lemma vendor_command_id_frame:
  assumes "fresh h msg" "l \<noteq> 0" "unat l \<le> length bs"
  shows "runs (carries h (Frame False HDMI_CEC_OPCODE_VENDOR_COMMAND_WITH_ID (be24 v @ take (min 11 (unat l)) bs) None)) (HdmiCecEncodingVendorCommandWithIdMsg msg v (Some bs) l)"
  using assms(2,3) freshD[OF assms(1)]
  by (cases "unat l \<le> 11") (simp_all add: HdmiCecEncodingVendorCommandWithIdMsg_def runs_simps cec_runs string_simps)

lemma vendor_button_frame:
  assumes "fresh h msg" "l \<noteq> 0" "unat l \<le> length bs"
  shows "runs (carries h (Frame False HDMI_CEC_OPCODE_VENDOR_REMOTE_BUTTON_DOWN (take (min 14 (unat l)) bs) None)) (HdmiCecEncodingVendorRemoteButtonDownMsg msg (Some bs) l)"
  using assms(2,3) freshD[OF assms(1)]
  by (cases "unat l \<le> 14") (simp_all add: HdmiCecEncodingVendorRemoteButtonDownMsg_def runs_simps cec_runs string_simps)

lemma osd_string_frame:
  assumes "fresh h msg" "l \<noteq> 0" "unat l \<le> length bs"
  shows "runs (carries h (Frame False HDMI_CEC_OPCODE_SET_OSD_STRING (x # take (min 13 (unat l)) bs) None)) (HdmiCecEncodingSetOsdStringMsg msg x (Some bs) l)"
  using assms(2,3) freshD[OF assms(1)]
  by (cases "unat l \<le> 13") (simp_all add: HdmiCecEncodingSetOsdStringMsg_def runs_simps cec_runs string_simps)

lemma osd_name_frame:
  assumes "fresh h msg" "l \<noteq> 0" "unat l \<le> length bs"
  shows "runs (carries h (Frame False HDMI_CEC_OPCODE_SET_OSD_NAME (take (min 14 (unat l)) bs) None)) (HdmiCecEncodingSetOsdNameMsg msg (Some bs) l)"
  using assms(2,3) freshD[OF assms(1)]
  by (cases "unat l \<le> 14") (simp_all add: HdmiCecEncodingSetOsdNameMsg_def runs_simps cec_runs string_simps)

lemma timer_status_frame:
  assumes "fresh h msg"
  shows "runs (carries h (Frame False HDMI_CEC_OPCODE_TIMER_STATUS (timer_status_bytes ts) None))
    (HdmiCecEncodingTimerStatusMsg msg ts)"
  using freshD[OF assms]
  by (simp add: HdmiCecEncodingTimerStatusMsg_def timer_status_bytes_def Let_def runs_simps cec_runs spec_defs len_defs
      word_neq_0_conv[symmetric] or.assoc)

lemma ui_frame:
  assumes "fresh h msg" "ui_ok c"
  shows "runs (carries h (Frame False HDMI_CEC_OPCODE_USER_CONTROL_PRESSED (ui_bytes c) None))
    (HdmiCecEncodingUserControlPrtessedMsg msg (Some c))"
  using freshD[OF assms(1)] assms(2)
  by (cases "ucm_hasAddOp c"; cases "ucm_addOperands c")
    (auto simp: HdmiCecEncodingUserControlPrtessedMsg_def ui_ok_def ui_bytes_def channel_bytes_def Let_def
      runs_simps cec_runs spec_defs len_defs cong: if_cong)

lemma features_frame:
  assumes "fresh h msg" "length (ci_rcProfile info) = 6" "length (ci_devFeatures info) = 6"
  shows "runs (carries h (Frame True HDMI_CEC_OPCODE_REPORT_FEATURES
       ([ci_cecVersion info, ci_allDeviceType info] @ until_last (ci_rcProfile info) @ until_last (ci_devFeatures info)) None))
     (HdmiCecEncodingReportFeaturesMsg msg info)"
proof -
  let ?m = "msg\<lparr>cm_data := [h OR 15, 0xA6, ci_cecVersion info, ci_allDeviceType info,
    0, 0, 0, 0, 0, 0, 0, 0, 0, 0, 0, 0, 0, 0, 0, 0], cm_len := 4\<rparr>"
  let ?rc = "until_last (ci_rcProfile info)" and ?df = "until_last (ci_devFeatures info)"
  have l: "length ?rc \<le> 6" "length ?df \<le> 6"
    using until_last_length[of "ci_rcProfile info"] until_last_length[of "ci_devFeatures info"] assms(2,3) by simp_all
  have "carries h (Frame True 0xA6 [ci_cecVersion info, ci_allDeviceType info] None) ?m"
    using freshD[OF assms(1)] by (simp add: spec_defs)
  then have "carries h (Frame True 0xA6 ([ci_cecVersion info, ci_allDeviceType info] @ ?rc @ ?df) None)
      (append_bytes (?rc @ ?df) ?m)"
    using l by (intro append_carries) auto
  moreover have "HdmiCecEncodingReportFeaturesMsg msg info = Some (append_bytes (?rc @ ?df) ?m)"
    using freshD[OF assms(1)] assms(2,3) l
    by (simp add: HdmiCecEncodingReportFeaturesMsg_def cec_put_def cec_put_or_def arr_set_def arr_get_def len_defs
        features_loop_appends append_append append_len)
  ultimately show ?thesis by (simp add: runs_simps)
qed

lemma audio_request_frame:
  assumes "fresh h msg" "l \<noteq> 0" "unat l \<le> length xs" "unat l \<le> length ys"
  shows "runs (carries h (Frame False HDMI_CEC_OPCODE_REQUEST_SHORT_AUDIO_DESCRIPTOR
       (take (min 4 (unat l)) (map2 (\<lambda>x y. push_bit 6 x OR (y AND 0x3F)) xs ys))
       (awaits r HDMI_CEC_OPCODE_REPORT_SHORT_AUDIO_DESCRIPTOR)))
     (HdmiCecEncodingRequestShortAudioDescriptorMsg msg (Some xs) (Some ys) l r)"
  using assms(2-) freshD[OF assms(1)] audio_formats_splice[of 0 "min 4 (unat l)" xs ys]
  by (cases "unat l \<le> 4") (simp_all add: HdmiCecEncodingRequestShortAudioDescriptorMsg_def runs_simps cec_runs
      string_simps cec_splice_def)

lemma audio_report_frame:
  assumes "fresh h msg" "l \<noteq> 0" "unat l \<le> length ws"
  shows "runs (carries h (Frame False HDMI_CEC_OPCODE_REPORT_SHORT_AUDIO_DESCRIPTOR
       (concat (map be24 (take (min 4 (unat l)) ws))) None))
     (HdmiCecEncodingReportShortAudioDescriptorMsg msg (Some ws) l)"
proof -
  define n where "n = (if l > 4 then 4 else l)"
  have n: "unat n = min 4 (unat l)" "unat n \<le> 4"
    by (simp_all add: n_def word_less_nat_alt min_def)
  have u: "unat (2 + 3 * n) = 2 + 3 * unat n" using n(2) by (simp add: unat_word_ariths)
  let ?m = "msg\<lparr>cm_len := 2 + 3 * n, cm_data := [h, 0xA3, 0, 0, 0, 0, 0, 0, 0, 0, 0, 0, 0, 0, 0, 0, 0, 0, 0, 0]\<rparr>"
  have "HdmiCecEncodingReportShortAudioDescriptorMsg msg (Some ws) l = descriptors_loop ws [0..<unat n] ?m"
    using assms(2) freshD[OF assms(1)]
    by (simp add: HdmiCecEncodingReportShortAudioDescriptorMsg_def n_def[symmetric] cec_put_def arr_set_def len_defs Let_def)
  also have "\<dots> = Some (cec_splice 2 (concat (map be24 (take (unat n) ws))) ?m)"
    using descriptors_splice[of 0 "unat n" ws ?m] assms(3) n by simp
  finally show ?thesis
    using splice_carries[of ?m 2 h False "0xA3" "[]" None "concat (map be24 (take (unat n) ws))"]
      freshD[OF assms(1)] n u assms(3) by (simp add: runs_simps wire_def)
qed

lemma carries_awaits:
  "carries h (Frame br op ops None) m \<Longrightarrow>
   carries h (Frame br op ops (awaits r x)) (if r then m\<lparr>cm_rspMsg := x\<rparr> else m)"
  by (auto simp: carries_def awaits_def wire_def)

lemma deactivation_frame:
  assumes "fresh h msg" "3 \<le> length as"
  shows "runs (carries h (Frame True HDMI_CEC_OPCODE_CDC_MESSAGE
       (be16 a @ [HDMI_CDC_HEC_REQUEST_DEACTIVATION] @ concat (map be16 (take 3 as)))
       (awaits r HDMI_CDC_HEC_REPORT_STATE)))
     (HdmiCdcEncodingHecRequestDeactivationMsg msg a (Some as) 3 r)"
proof -
  let ?m = "msg\<lparr>cm_len := 5, cm_data := [h OR 15, 0xF8, ucast (drop_bit 8 a), ucast a, 4,
    0, 0, 0, 0, 0, 0, 0, 0, 0, 0, 0, 0, 0, 0, 0]\<rparr>"
  let ?bs = "concat (map be16 (take 3 as))"
  have c: "carries h (Frame True 0xF8 (be16 a @ [4]) None) ?m"
    using freshD[OF assms(1)] by (simp add: spec_defs)
  have "carries h (Frame True 0xF8 ((be16 a @ [4]) @ ?bs) None) (append_bytes ?bs ?m)"
    using assms(2) by (intro append_carries[OF c]) simp
  note c = carries_awaits[OF this, of r HDMI_CDC_HEC_REPORT_STATE]
  have "deactivation_loop as [0..<3] ?m = Some (append_bytes ?bs ?m)"
    using deactivation_loop_appends[of 0 3 as ?m] assms(2) by simp
  then have "HdmiCdcEncodingHecRequestDeactivationMsg msg a (Some as) 3 r =
      Some (if r then (append_bytes ?bs ?m)\<lparr>cm_rspMsg := 1\<rparr> else append_bytes ?bs ?m)"
    using freshD[OF assms(1)]
    by (simp add: HdmiCdcEncodingHecRequestDeactivationMsg_def cec_put_def cec_put_or_def arr_set_def arr_get_def
        len_defs del: upt_rec_numeral)
  with c show ?thesis by (simp only: runs_Some append_assoc)
qed

lemma set_state_frame:
  assumes "fresh h msg" "length (hsi_phyAddr si) = 3"
  shows "runs (carries h (Frame True HDMI_CEC_OPCODE_CDC_MESSAGE
       (be16 a @ [HDMI_CDC_HEC_SET_STATE] @ be16 (hsi_phyAddr1 si) @ be16 (hsi_phyAddr2 si) @ [hsi_hecSetState si] @
         concat (map be16 (until_invalid (take (unat (hsi_phyAddrLen si)) (hsi_phyAddr si)))))
       (awaits r HDMI_CDC_HEC_REPORT_STATE)))
     (HdmiCdcEncodingHecSetStateMsg msg a si r)"
proof -
  let ?ops = "be16 a @ [3] @ be16 (hsi_phyAddr1 si) @ be16 (hsi_phyAddr2 si) @ [hsi_hecSetState si]"
  let ?m = "msg\<lparr>cm_len := 10, cm_data := (h OR 15) # 0xF8 # ?ops @ [0, 0, 0, 0, 0, 0, 0, 0, 0, 0]\<rparr>"
  let ?n = "min (unat (hsi_phyAddrLen si)) 3"
  let ?bs = "concat (map be16 (until_invalid (take ?n (hsi_phyAddr si))))"
  have t: "take ?n (hsi_phyAddr si) = take (unat (hsi_phyAddrLen si)) (hsi_phyAddr si)"
    using assms(2) by (metis min.commute take_all_iff order_refl take_take)
  have c: "carries h (Frame True 0xF8 ?ops None) ?m"
    using freshD[OF assms(1)] by (simp add: spec_defs)
  have l: "length (until_invalid (take ?n (hsi_phyAddr si))) \<le> 3"
    using until_invalid_length[of "take ?n (hsi_phyAddr si)"] by simp
  have "carries h (Frame True 0xF8 (?ops @ ?bs) None) (append_bytes ?bs ?m)"
    using l by (intro append_carries[OF c]) simp
  note c = carries_awaits[OF this, of r HDMI_CDC_HEC_REPORT_STATE]
  have "set_state_loop (hsi_phyAddr si) 0 ?n ?m = Some (append_bytes ?bs ?m)"
    using set_state_loop_appends[of 0 ?n "hsi_phyAddr si" ?m] assms(2) by simp
  then have "HdmiCdcEncodingHecSetStateMsg msg a si r =
      Some (if r then (append_bytes ?bs ?m)\<lparr>cm_rspMsg := 1\<rparr> else append_bytes ?bs ?m)"
    using freshD[OF assms(1)]
    by (simp add: HdmiCdcEncodingHecSetStateMsg_def cec_put_def cec_put_or_def arr_set_def arr_get_def
        len_defs be16_def)
  with c show ?thesis by (simp only: runs_Some append_assoc t)
qed

lemmas long_frames = title_frame timer_status_frame features_frame vendor_command_frame vendor_command_id_frame
  vendor_button_frame osd_string_frame osd_name_frame ui_frame audio_request_frame audio_report_frame
  set_state_frame deactivation_frame

lemma cec_frame_of_encoder:
  assumes "cec_encodes enc f" "fresh h msg"
  shows "runs (carries h f) (enc msg)"
  using assms
  by (cases, simp_all only:)
    ((rule long_frames; assumption)
      | (drule freshD, simp add: cec_encoder_defs runs_simps cec_runs spec_defs len_defs frame_defs cec_splice_def))+

lemma cec_frame_produced:
  assumes "cec_deviates enc documented f" "fresh h msg"
  shows "runs (carries h f) (enc msg)"
  using assms
  by (cases, simp_all only:)
    (drule freshD, simp add: cec_encoder_defs runs_simps cec_runs spec_defs len_defs frame_defs cec_splice_def)+

text \<open>On a directed header the frame produced is not the documented one.\<close>

lemma deviation_visible:
  assumes "cec_deviates enc documented f" "carries h f msg" "h OR 15 \<noteq> h"
  shows "\<not> carries h documented msg"
  using assms by (cases) (auto simp: carries_def wire_def)

section \<open>Refinement\<close>

text \<open>
  C10: On a message whose array is zero but for the header and that awaits no answer yet, an encoder
  produces the frame the table \<open>cec_encodes\<close> gives for it: it stays inside the array, uses at most
  16 bytes, writes the broadcast address for the frames that are always broadcast and keeps the
  address of the caller for all others (those that may be sent either way included), and records the
  code of the answer that is waited for.  The table covers the arguments an encoder is written for:
  a service identifier whose data fits its method, a timer status and a user command whose operand
  fits the code, texts, lists and arrays that are there, are not empty and have at least the length
  passed (exactly three for a menu language and for the addresses of a deactivation), profile arrays
  of six bytes, and a record source whose data fits its type.  The two encoders of \<open>cec_deviates\<close>
  produce, instead of the documented frame, the other one of that table, and on a header that is not
  a broadcast one this is not the documented frame: Device Vendor ID is not sent as a broadcast, and
  Give Features waits for Set Menu Language.
\<close>

theorem cec_encoders_refine_frames:
  assumes "cec_encodes enc f \<or> cec_deviates enc documented f" "fresh header msg"
  shows "\<exists>msg'. enc msg = Some msg' \<and> cm_len msg' \<le> 16 \<and>
    take (unat (cm_len msg')) (cm_data msg') = wire header f \<and>
    cm_rspMsg msg' = (case frame_reply f of None \<Rightarrow> 0 | Some r \<Rightarrow> r) \<and>
    (cec_deviates enc documented f \<and> header OR 15 \<noteq> header \<longrightarrow> \<not> carries header documented msg')"
proof -
  have "runs (carries header f) (enc msg)"
    using assms cec_frame_of_encoder cec_frame_produced by blast
  then show ?thesis using deviation_visible by (fastforce simp: runs_iff carries_def)
qed

theorem cec_encoders_refine_frames_witness:
  "(\<exists>msg'. HdmiCecEncodingRoutingChangeMsg (zero_HdmiCecMsg\<lparr>cm_data := 0x40 # replicate 19 0\<rparr>) 0x1000 0x2100 True = Some msg' \<and>
    take (unat (cm_len msg')) (cm_data msg') = [0x4F, 0x80, 0x10, 0x00, 0x21, 0x00] \<and> cm_rspMsg msg' = 0x81) \<and>
   (\<exists>msg'. HdmiCecEncodingDeviceVendorIdMsg (zero_HdmiCecMsg\<lparr>cm_data := 0x40 # replicate 19 0\<rparr>) 0x123456 = Some msg' \<and>
    take (unat (cm_len msg')) (cm_data msg') = [0x40, 0x87, 0x12, 0x34, 0x56] \<and>
    \<not> carries 0x40 (Frame True HDMI_CEC_OPCODE_DEVICE_VENDOR_ID (be24 0x123456) None) msg')"
proof -
  have fr: "fresh 0x40 (zero_HdmiCecMsg\<lparr>cm_data := 0x40 # replicate 19 0\<rparr>)"
    by (simp add: fresh_def zero_HdmiCecMsg_def)
  have h: "(0x40 :: uint8_t) OR 15 \<noteq> 0x40" by code_simp
  have "\<exists>msg'. HdmiCecEncodingRoutingChangeMsg (zero_HdmiCecMsg\<lparr>cm_data := 0x40 # replicate 19 0\<rparr>) 0x1000 0x2100 True = Some msg' \<and>
    take (unat (cm_len msg')) (cm_data msg') = [0x4F, 0x80, 0x10, 0x00, 0x21, 0x00] \<and> cm_rspMsg msg' = 0x81"
    using cec_encoders_refine_frames[where documented = "Frame True 0 [] None",
        OF disjI1[OF cec_encodes.routing_change[of "0x1000" "0x2100" True]] fr]
    by (auto simp: wire_def be16_def awaits_def)
  moreover have "\<exists>msg'. HdmiCecEncodingDeviceVendorIdMsg (zero_HdmiCecMsg\<lparr>cm_data := 0x40 # replicate 19 0\<rparr>) 0x123456 = Some msg' \<and>
    take (unat (cm_len msg')) (cm_data msg') = [0x40, 0x87, 0x12, 0x34, 0x56] \<and>
    \<not> carries 0x40 (Frame True HDMI_CEC_OPCODE_DEVICE_VENDOR_ID (be24 0x123456) None) msg'"
    using cec_encoders_refine_frames[OF disjI2[OF cec_deviates.vendor_id[of "0x123456"]] fr] h
      cec_deviates.vendor_id[of "0x123456"]
    by (fastforce simp: wire_def be24_def)
  ultimately show ?thesis by blast
qed

end
