(* ===== verification/Hdmi_CecRx.thy ===== *)
theory Hdmi_CecRx
  imports Hdmi_CecSpec
begin

text \<open>
  The messages of the HDMI control bus, \<^verbatim>\<open>hdmi_cec.c\<close>, second part: checking, dispatching and
  answering a message that the platform has received.  The platform's method that sends a message
  is a parameter; a sent message is appended to a trace.  The controller's lock is left out.
\<close>

section \<open>Data\<close>

abbreviation (input) HDMI_CEC_MSG_BROADCAST where "HDMI_CEC_MSG_BROADCAST \<equiv> 3"
abbreviation (input) HDMI_CEC_MSG_DIRECTED where "HDMI_CEC_MSG_DIRECTED \<equiv> 4"
abbreviation (input) HDMI_CEC_REPORT_FEATURES_MSG_PARAM_MIN_LEN where "HDMI_CEC_REPORT_FEATURES_MSG_PARAM_MIN_LEN \<equiv> 4"
abbreviation (input) HDMI_CEC_MSG_ALL where "HDMI_CEC_MSG_ALL \<equiv> 7"
abbreviation (input) HDMI_CEC_MSG_DIRECTED_OR_BROADCAST_2_0 where "HDMI_CEC_MSG_DIRECTED_OR_BROADCAST_2_0 \<equiv> 6"
abbreviation (input) HDMI_CEC_DEVICE_TYPE_PURE_CEC_SWITCH where "HDMI_CEC_DEVICE_TYPE_PURE_CEC_SWITCH \<equiv> 6"
abbreviation (input) HDMI_CEC_ABORT_UNRECOGNIZED_OPCODE where "HDMI_CEC_ABORT_UNRECOGNIZED_OPCODE \<equiv> 0"
abbreviation (input) HDMI_CEC_ABORT_REFUSED where "HDMI_CEC_ABORT_REFUSED \<equiv> 4"
abbreviation (input) HDMI_CEC_VERSION_2_0 where "HDMI_CEC_VERSION_2_0 \<equiv> 6"
abbreviation (input) HDMI_CEC_VENDOR_ID_UNKNOWN where "HDMI_CEC_VENDOR_ID_UNKNOWN \<equiv> 0xffffffff"
abbreviation (input) HDMI_CEC_WAIT_RESPONSE_MSG_MAX_TIME where "HDMI_CEC_WAIT_RESPONSE_MSG_MAX_TIME \<equiv> 0x3e8"
abbreviation (input) HDMI_CEC_MSG_MIN_LEN where "HDMI_CEC_MSG_MIN_LEN \<equiv> 2"
abbreviation (input) HDMI_CEC_MSG_BROADCAST_1_4 where "HDMI_CEC_MSG_BROADCAST_1_4 \<equiv> 1"

record HdmiCecMsgLenInfo =
  mli_opcode :: uint8_t
  mli_minLen :: uint8_t
  mli_type :: uint8_t

text \<open>
  The parts of the controller that this file reads: two bits of the capabilities, the information
  about the own device, the platform's method (\<^const>\<open>None\<close> when it is absent), and the messages
  that were handed to it.
\<close>

record HdmiCecCntlr =
  hc_cap_cec :: bool
  hc_cap_cecRc :: bool
  hc_cec :: HdmiCecInfo
  hc_cecMsgSend :: "(HdmiCecMsg \<Rightarrow> int) option"
  hc_sent :: "HdmiCecMsg list"

definition HdmiCecIsBroadcastMsg :: "HdmiCecMsg \<Rightarrow> bool option" where
  "HdmiCecIsBroadcastMsg msg = do {
     b \<leftarrow> arr_get (cm_data msg) 0;
     Some (b AND 0x0F = HDMI_CEC_LOG_ADDR_UNREGISTERED_OR_BROADCAST)
   }"

definition HdmiCecGetMsgInitiator :: "HdmiCecMsg \<Rightarrow> uint8_t option" where
  "HdmiCecGetMsgInitiator msg = do {
     b \<leftarrow> arr_get (cm_data msg) 0;
     Some (drop_bit 4 (b AND 0xF0))
   }"

definition HdmiCecGetMsgDestination :: "HdmiCecMsg \<Rightarrow> uint8_t option" where
  "HdmiCecGetMsgDestination msg = do {
     b \<leftarrow> arr_get (cm_data msg) 0;
     Some (b AND 0x0F)
   }"

definition HdmiCecLogAddrValid :: "HdmiCecInfo \<Rightarrow> uint8_t \<Rightarrow> bool" where
  "HdmiCecLogAddrValid info logAddr \<longleftrightarrow> (ucast (ci_logAddr info) :: uint32_t) AND push_bit (unat logAddr) 1 \<noteq> 0"

definition HdmiCecIsCdcOnlyDevice :: "HdmiCecInfo \<Rightarrow> bool" where
  "HdmiCecIsCdcOnlyDevice info \<longleftrightarrow> ci_logAddr info = HDMI_CEC_LOG_ADDR_UNREGISTERED_OR_BROADCAST \<and>
     ci_primaryDeviceType info = HDMI_CEC_DEVICE_TYPE_PURE_CEC_SWITCH"

definition HdmiCecFillMsgHeader :: "HdmiCecMsg \<Rightarrow> HdmiCecMsg \<Rightarrow> HdmiCecMsg option" where
  "HdmiCecFillMsgHeader destMsg srcMsg = do {
     d \<leftarrow> HdmiCecGetMsgDestination srcMsg;
     i \<leftarrow> HdmiCecGetMsgInitiator srcMsg;
     cec_put 0 (push_bit 4 d OR i) destMsg
   }"

section \<open>Checking the length\<close>

definition msg_len_info :: "uint8_t \<Rightarrow> uint32_t \<Rightarrow> uint8_t \<Rightarrow> HdmiCecMsgLenInfo" where
  "msg_len_info opcode minLen ty = \<lparr>mli_opcode = opcode, mli_minLen = ucast minLen, mli_type = ty\<rparr>"

definition g_cecMsg :: "HdmiCecMsgLenInfo list" where
  "g_cecMsg = [
    msg_len_info HDMI_CEC_OPCODE_ACTIVE_SOURCE (HDMI_CEC_GET_MSG_LEN HDMI_CEC_ACTIVE_SOURCE_MSG_PARAM_LEN) HDMI_CEC_MSG_BROADCAST,
    msg_len_info HDMI_CEC_OPCODE_IMAGE_VIEW_ON (HDMI_CEC_GET_MSG_LEN 0) HDMI_CEC_MSG_DIRECTED,
    msg_len_info HDMI_CEC_OPCODE_TEXT_VIEW_ON (HDMI_CEC_GET_MSG_LEN 0) HDMI_CEC_MSG_DIRECTED,
    msg_len_info HDMI_CEC_OPCODE_INACTIVE_SOURCE (HDMI_CEC_GET_MSG_LEN HDMI_CEC_INACTIVE_SOURCE_MSG_PARAM_LEN) HDMI_CEC_MSG_DIRECTED,
    msg_len_info HDMI_CEC_OPCODE_REQUEST_ACTIVE_SOURCE (HDMI_CEC_GET_MSG_LEN 0) HDMI_CEC_MSG_BROADCAST,
    msg_len_info HDMI_CEC_OPCODE_ROUTING_CHANGE (HDMI_CEC_GET_MSG_LEN HDMI_CEC_ROUTING_CHANGE_MSG_PARAM_LEN) HDMI_CEC_MSG_BROADCAST,
    msg_len_info HDMI_CEC_OPCODE_ROUTING_INFORMATION (HDMI_CEC_GET_MSG_LEN HDMI_CEC_ROUTING_INFORMATIO_MSG_PARAM_LEN) HDMI_CEC_MSG_BROADCAST,
    msg_len_info HDMI_CEC_OPCODE_SET_STREAM_PATH (HDMI_CEC_GET_MSG_LEN HDMI_CEC_SET_STREAM_PATH_MSG_PARAM_LEN) HDMI_CEC_MSG_BROADCAST,
    msg_len_info HDMI_CEC_OPCODE_STANDBY (HDMI_CEC_GET_MSG_LEN 0) HDMI_CEC_MSG_DIRECTED,
    msg_len_info HDMI_CEC_OPCODE_RECORD_OFF (HDMI_CEC_GET_MSG_LEN 0) HDMI_CEC_MSG_DIRECTED,
    msg_len_info HDMI_CEC_OPCODE_RECORD_ON (HDMI_CEC_GET_MSG_LEN HDMI_CEC_RECORD_SOURCE_TYPE_LEN) HDMI_CEC_MSG_DIRECTED,
    msg_len_info HDMI_CEC_OPCODE_RECORD_STATUS (HDMI_CEC_GET_MSG_LEN HDMI_CEC_RECORD_STATUS_MSG_PARAM_LEN) HDMI_CEC_MSG_DIRECTED,
    msg_len_info HDMI_CEC_OPCODE_RECORD_TV_SCREEN (HDMI_CEC_GET_MSG_LEN 0) HDMI_CEC_MSG_DIRECTED,
    msg_len_info HDMI_CEC_OPCODE_CLEAR_ANALOGUE_TIMER (HDMI_CEC_GET_MSG_LEN HDMI_CEC_ANALOGUE_TIMER_INFO_LEN) HDMI_CEC_MSG_DIRECTED,
    msg_len_info HDMI_CEC_OPCODE_CLEAR_DIGITAL_TIMER (HDMI_CEC_GET_MSG_LEN HDMI_CEC_DIGITAL_TIMER_INFO_LEN) HDMI_CEC_MSG_DIRECTED,
    msg_len_info HDMI_CEC_OPCODE_CLEAR_EXTERNAL_TIMER (HDMI_CEC_GET_MSG_LEN HDMI_CEC_EXTERNAL_TIMER_INFO_LEN) HDMI_CEC_MSG_DIRECTED,
    msg_len_info HDMI_CEC_OPCODE_SET_ANALOGUE_TIMER (HDMI_CEC_GET_MSG_LEN HDMI_CEC_ANALOGUE_TIMER_INFO_LEN) HDMI_CEC_MSG_DIRECTED,
    msg_len_info HDMI_CEC_OPCODE_SET_DIGITAL_TIMER (HDMI_CEC_GET_MSG_LEN HDMI_CEC_DIGITAL_TIMER_INFO_LEN) HDMI_CEC_MSG_DIRECTED,
    msg_len_info HDMI_CEC_OPCODE_SET_EXTERNAL_TIMER (HDMI_CEC_GET_MSG_LEN HDMI_CEC_EXTERNAL_TIMER_INFO_LEN) HDMI_CEC_MSG_DIRECTED,
    msg_len_info HDMI_CEC_OPCODE_SET_TIMER_PROGRAM_TITLE (HDMI_CEC_GET_MSG_LEN 0) HDMI_CEC_MSG_DIRECTED,
    msg_len_info HDMI_CEC_OPCODE_TIMER_CLEARED_STATUS (HDMI_CEC_GET_MSG_LEN HDMI_CEC_TIMER_CLEARED_STATUS_MSG_PARAM_LEN) HDMI_CEC_MSG_DIRECTED,
    msg_len_info HDMI_CEC_OPCODE_TIMER_STATUS (HDMI_CEC_GET_MSG_LEN HDMI_CEC_TIMER_STATUS_DATA_MIN_LEN) HDMI_CEC_MSG_DIRECTED,
    msg_len_info HDMI_CEC_OPCODE_CEC_VERSION (HDMI_CEC_GET_MSG_LEN HDMI_CEC_CEC_VERSION_MSG_PARAM_LEN) HDMI_CEC_MSG_DIRECTED,
    msg_len_info HDMI_CEC_OPCODE_GET_CEC_VERSION (HDMI_CEC_GET_MSG_LEN 0) HDMI_CEC_MSG_DIRECTED,
    msg_len_info HDMI_CEC_OPCODE_GIVE_PHYSICAL_ADDRESS (HDMI_CEC_GET_MSG_LEN 0) HDMI_CEC_MSG_DIRECTED,
    msg_len_info HDMI_CEC_OPCODE_GET_MENU_LANGUAGE (HDMI_CEC_GET_MSG_LEN 0) HDMI_CEC_MSG_DIRECTED,
    msg_len_info HDMI_CEC_OPCODE_REPORT_PHYSICAL_ADDRESS (HDMI_CEC_GET_MSG_LEN HDMI_CEC_REPORT_PHYSICAL_ADDRESS_MSG_PARAM_LEN) HDMI_CEC_MSG_BROADCAST,
    msg_len_info HDMI_CEC_OPCODE_SET_MENU_LANGUAGE (HDMI_CEC_GET_MSG_LEN HDMI_CEC_SET_MENU_LANGUAGE_MSG_PARAM_LEN) HDMI_CEC_MSG_BROADCAST,
    msg_len_info HDMI_CEC_OPCODE_REPORT_FEATURES (HDMI_CEC_GET_MSG_LEN HDMI_CEC_REPORT_FEATURES_MSG_PARAM_MIN_LEN) HDMI_CEC_MSG_BROADCAST,
    msg_len_info HDMI_CEC_OPCODE_GIVE_FEATURES (HDMI_CEC_GET_MSG_LEN 0) HDMI_CEC_MSG_DIRECTED,
    msg_len_info HDMI_CEC_OPCODE_DECK_CONTROL (HDMI_CEC_GET_MSG_LEN HDMI_CEC_DECK_CONTROL_MSG_PARAM_LEN) HDMI_CEC_MSG_DIRECTED,
    msg_len_info HDMI_CEC_OPCODE_DECK_STATUS (HDMI_CEC_GET_MSG_LEN HDMI_CEC_DECK_STATUS_MSG_PARAM_LEN) HDMI_CEC_MSG_DIRECTED,
    msg_len_info HDMI_CEC_OPCODE_GIVE_DECK_STATUS (HDMI_CEC_GET_MSG_LEN HDMI_CEC_GIVE_DECK_STATUS_MSG_PARAM_LEN) HDMI_CEC_MSG_DIRECTED,
    msg_len_info HDMI_CEC_OPCODE_PLAY (HDMI_CEC_GET_MSG_LEN HDMI_CEC_PLAY_MSG_PARAM_LEN) HDMI_CEC_MSG_DIRECTED,
    msg_len_info HDMI_CEC_OPCODE_GIVE_TUNER_DEVICE_STATUS (HDMI_CEC_GET_MSG_LEN HDMI_CEC_GIVE_TUNER_DEVICE_STATU_MSG_PARAM_LEN) HDMI_CEC_MSG_DIRECTED,
    msg_len_info HDMI_CEC_OPCODE_SELECT_ANALOGUE_SERVICE (HDMI_CEC_GET_MSG_LEN HDMI_CEC_SELECT_ANALOGUE_SERVICE_MSG_PARAM_LEN) HDMI_CEC_MSG_DIRECTED,
    msg_len_info HDMI_CEC_OPCODE_SELECT_DIGITAL_SERVICE (HDMI_CEC_GET_MSG_LEN HDMI_CEC_SELECT_DIGITAL_SERVICE_MSG_PARAM_LEN) HDMI_CEC_MSG_DIRECTED,
    msg_len_info HDMI_CEC_OPCODE_TUNER_DEVICE_STATUS (HDMI_CEC_GET_MSG_LEN HDMI_CEC_TUNER_DEVICE_STATUS_MSG_ANA_PARAM_LEN) HDMI_CEC_MSG_DIRECTED,
    msg_len_info HDMI_CEC_OPCODE_TUNER_STEP_DECREMENT (HDMI_CEC_GET_MSG_LEN 0) HDMI_CEC_MSG_DIRECTED,
    msg_len_info HDMI_CEC_OPCODE_TUNER_STEP_INCREMENT (HDMI_CEC_GET_MSG_LEN 0) HDMI_CEC_MSG_DIRECTED,
    msg_len_info HDMI_CEC_OPCODE_DEVICE_VENDOR_ID (HDMI_CEC_GET_MSG_LEN HDMI_CEC_DEVICE_VENDOR_ID_MSG_PARAM_LEN) HDMI_CEC_MSG_DIRECTED,
    msg_len_info HDMI_CEC_OPCODE_GIVE_DEVICE_VENDOR_ID (HDMI_CEC_GET_MSG_LEN 0) HDMI_CEC_MSG_DIRECTED,
    msg_len_info HDMI_CEC_OPCODE_VENDOR_COMMAND (HDMI_CEC_GET_MSG_LEN 0) HDMI_CEC_MSG_DIRECTED,
    msg_len_info HDMI_CEC_OPCODE_VENDOR_COMMAND_WITH_ID (HDMI_CEC_GET_MSG_LEN HDMI_CEC_VENDOR_ID_LEN) HDMI_CEC_MSG_ALL,
    msg_len_info HDMI_CEC_OPCODE_VENDOR_REMOTE_BUTTON_DOWN (HDMI_CEC_GET_MSG_LEN 0) HDMI_CEC_MSG_ALL,
    msg_len_info HDMI_CEC_OPCODE_VENDOR_REMOTE_BUTTON_UP (HDMI_CEC_GET_MSG_LEN 0) HDMI_CEC_MSG_ALL,
    msg_len_info HDMI_CEC_OPCODE_SET_OSD_STRING (HDMI_CEC_GET_MSG_LEN HDMI_CEC_DISPLAY_CONTROL_LEN) HDMI_CEC_MSG_DIRECTED,
    msg_len_info HDMI_CEC_OPCODE_GIVE_OSD_NAME (HDMI_CEC_GET_MSG_LEN 0) HDMI_CEC_MSG_DIRECTED,
    msg_len_info HDMI_CEC_OPCODE_SET_OSD_NAME (HDMI_CEC_GET_MSG_LEN 0) HDMI_CEC_MSG_DIRECTED,
    msg_len_info HDMI_CEC_OPCODE_MENU_REQUEST (HDMI_CEC_GET_MSG_LEN HDMI_CEC_MENU_REQUEST_MSG_PARAM_LEN) HDMI_CEC_MSG_DIRECTED,
    msg_len_info HDMI_CEC_OPCODE_MENU_STATUS (HDMI_CEC_GET_MSG_LEN HDMI_CEC_MENU_STATUS_MSG_PARAM_LEN) HDMI_CEC_MSG_DIRECTED,
    msg_len_info HDMI_CEC_OPCODE_USER_CONTROL_PRESSED (HDMI_CEC_GET_MSG_LEN HDMI_CEC_UI_COMMAND_LEN) HDMI_CEC_MSG_DIRECTED,
    msg_len_info HDMI_CEC_OPCODE_USER_CONTROL_RELEASED (HDMI_CEC_GET_MSG_LEN 0) HDMI_CEC_MSG_DIRECTED,
    msg_len_info HDMI_CEC_OPCODE_GIVE_DEVICE_POWER_STATUS (HDMI_CEC_GET_MSG_LEN 0) HDMI_CEC_MSG_DIRECTED,
    msg_len_info HDMI_CEC_OPCODE_REPORT_POWER_STATUS (HDMI_CEC_GET_MSG_LEN HDMI_CEC_REPORT_POWER_STATUS_MSG_PARA_LEN) HDMI_CEC_MSG_DIRECTED_OR_BROADCAST_2_0,
    msg_len_info HDMI_CEC_OPCODE_FEATURE_ABORT (HDMI_CEC_GET_MSG_LEN HDMI_CEC_FEATURE_ABORT_MSG_PARA_LEN) HDMI_CEC_MSG_DIRECTED,
    msg_len_info HDMI_CEC_OPCODE_ABORT (HDMI_CEC_GET_MSG_LEN 0) HDMI_CEC_MSG_DIRECTED,
    msg_len_info HDMI_CEC_OPCODE_GIVE_AUDIO_STATUS (HDMI_CEC_GET_MSG_LEN 0) HDMI_CEC_MSG_DIRECTED,
    msg_len_info HDMI_CEC_OPCODE_GIVE_SYSTEM_AUDIO_MODE_STATUS (HDMI_CEC_GET_MSG_LEN 0) HDMI_CEC_MSG_DIRECTED,
    msg_len_info HDMI_CEC_OPCODE_REPORT_AUDIO_STATUS (HDMI_CEC_GET_MSG_LEN HDMI_CEC_REPORT_AUDIO_STATUSMSG_PARAM_LEN) HDMI_CEC_MSG_DIRECTED,
    msg_len_info HDMI_CEC_OPCODE_REPORT_SHORT_AUDIO_DESCRIPTOR (HDMI_CEC_GET_MSG_LEN 0) HDMI_CEC_MSG_DIRECTED,
    msg_len_info HDMI_CEC_OPCODE_REQUEST_SHORT_AUDIO_DESCRIPTOR (HDMI_CEC_GET_MSG_LEN 0) HDMI_CEC_MSG_DIRECTED,
    msg_len_info HDMI_CEC_OPCODE_SET_SYSTEM_AUDIO_MODE (HDMI_CEC_GET_MSG_LEN HDMI_CEC_SYSTEM_AUDIO_STATUS_LEN) HDMI_CEC_MSG_DIRECTED,
    msg_len_info HDMI_CEC_OPCODE_SYSTEM_AUDIO_MODE_REQUEST (HDMI_CEC_GET_MSG_LEN HDMI_CEC_SYSTEM_AUDIO_MODE_REQUEST_PARAM_LEN) HDMI_CEC_MSG_DIRECTED,
    msg_len_info HDMI_CEC_OPCODE_SYSTEM_AUDIO_MODE_STATUS (HDMI_CEC_GET_MSG_LEN HDMI_CEC_SYSTEM_AUDIO_STATUS_LEN) HDMI_CEC_MSG_DIRECTED,
    msg_len_info HDMI_CEC_OPCODE_SET_AUDIO_RATE (HDMI_CEC_GET_MSG_LEN HDMI_CEC_SET_AUDIO_RATE_PARAM_LEN) HDMI_CEC_MSG_DIRECTED,
    msg_len_info HDMI_CEC_OPCODE_INITIATE_ARC (HDMI_CEC_GET_MSG_LEN 0) HDMI_CEC_MSG_DIRECTED,
    msg_len_info HDMI_CEC_OPCODE_REPORT_ARC_INITIATED (HDMI_CEC_GET_MSG_LEN 0) HDMI_CEC_MSG_DIRECTED,
    msg_len_info HDMI_CEC_OPCODE_REPORT_ARC_TERMINATION (HDMI_CEC_GET_MSG_LEN 0) HDMI_CEC_MSG_DIRECTED,
    msg_len_info HDMI_CEC_OPCODE_REQUEST_ARC_INITIATION (HDMI_CEC_GET_MSG_LEN 0) HDMI_CEC_MSG_DIRECTED,
    msg_len_info HDMI_CEC_OPCODE_REQUEST_ARC_TERMINATION (HDMI_CEC_GET_MSG_LEN 0) HDMI_CEC_MSG_DIRECTED,
    msg_len_info HDMI_CEC_OPCODE_TERMINATE_ARC (HDMI_CEC_GET_MSG_LEN 0) HDMI_CEC_MSG_DIRECTED,
    msg_len_info HDMI_CEC_OPCODE_CDC_MESSAGE (HDMI_CEC_GET_MSG_LEN 0) HDMI_CEC_MSG_BROADCAST,
    msg_len_info HDMI_CEC_OPCODE_REQUEST_CURRENT_LATENCY (HDMI_CEC_GET_MSG_LEN HDMI_CEC_REQUEST_CURRENT_LATENCY_MSG_LEN) HDMI_CEC_MSG_BROADCAST,
    msg_len_info HDMI_CEC_OPCODE_REPORT_CURRENT_LATENCY (HDMI_CEC_GET_MSG_LEN HDMI_CEC_REPORT_CURRENT_LATENCY_MSG_PARAM_MIN_LEN) HDMI_CEC_MSG_BROADCAST
   ]"

definition HdmiCecGetMsgLenInfo :: "uint8_t \<Rightarrow> HdmiCecMsgLenInfo option" where
  "HdmiCecGetMsgLenInfo opcode = search_first (\<lambda>i. opcode = mli_opcode i) g_cecMsg"

definition HdmiCecCheckTimerStatusMsgLen :: "HdmiCecMsg \<Rightarrow> bool option" where
  "HdmiCecCheckTimerStatusMsgLen msg = do {
     b \<leftarrow> arr_get (cm_data msg) 2;
     let info = b AND 0xf;
     if b AND 0x10 > 0 then
       Some (\<not> ((info = HDMI_CEC_PROGRAMMED_INFO_NOT_ENOUGH_SPAC \<or>
           info = HDMI_CEC_PROGRAMMED_INFO_MIGHT_NOT_BE_ENOUGH_SPACE) \<and>
         cm_len msg < HDMI_CEC_GET_MSG_LEN HDMI_CEC_TIMER_STATUS_DATA_MAX_LEN))
     else if info = HDMI_CEC_NOT_PROG_ERR_DUPLICATE then
       Some (\<not> cm_len msg < HDMI_CEC_GET_MSG_LEN HDMI_CEC_TIMER_STATUS_DATA_MAX_LEN)
     else Some True
   }"

definition HdmiCecCheckRecordOnMsgLen :: "HdmiCecMsg \<Rightarrow> bool option" where
  "HdmiCecCheckRecordOnMsgLen msg = do {
     src \<leftarrow> arr_get (cm_data msg) 2;
     Some (if src = HDMI_CEC_RECORD_SRC_OWN then True
       else if src = HDMI_CEC_RECORD_SRC_DIGITAL then
         \<not> cm_len msg < HDMI_CEC_GET_MSG_LEN HDMI_CEC_RECORD_ON_DIGITAL_MSG_PARAM_LEN
       else if src = HDMI_CEC_RECORD_SRC_ANALOG then
         \<not> cm_len msg < HDMI_CEC_GET_MSG_LEN HDMI_CEC_RECORD_ON_ANALOG_MSG_PARAM_LEN
       else if src = HDMI_CEC_RECORD_SRC_EXT_PLUG then
         \<not> cm_len msg < HDMI_CEC_GET_MSG_LEN HDMI_CEC_RECORD_ON_EXT_PLUG_MSG_PARAM_LEN
       else if src = HDMI_CEC_RECORD_SRC_EXT_PHY_ADDR then
         \<not> cm_len msg < HDMI_CEC_GET_MSG_LEN HDMI_CEC_RECORD_ON_EXT_PHY_ADDR_MSG_PARAM_LEN
       else True)
   }"

definition HdmiCecCheckSomeSpecialfMsgLen :: "HdmiCecMsg \<Rightarrow> uint8_t \<Rightarrow> bool option" where
  "HdmiCecCheckSomeSpecialfMsgLen msg opcode =
     (if opcode = HDMI_CEC_OPCODE_TIMER_STATUS then HdmiCecCheckTimerStatusMsgLen msg
      else if opcode = HDMI_CEC_OPCODE_RECORD_ON then HdmiCecCheckRecordOnMsgLen msg
      else Some True)"

definition HdmiCecCheckMsgLen :: "HdmiCecInfo \<Rightarrow> HdmiCecMsg \<Rightarrow> uint8_t \<Rightarrow> bool option" where
  "HdmiCecCheckMsgLen cec msg opcode =
     (case HdmiCecGetMsgLenInfo opcode of None \<Rightarrow> Some False
      | Some info \<Rightarrow>
          if cm_len msg < ucast (mli_minLen info) then Some False
          else do {
            broadcast \<leftarrow> HdmiCecIsBroadcastMsg msg;
            if broadcast \<and> mli_type info AND HDMI_CEC_MSG_BROADCAST = 0 then Some False
            else if \<not> broadcast \<and> mli_type info AND HDMI_CEC_MSG_BROADCAST > 0 then Some False
            else if broadcast \<and> mli_type info AND HDMI_CEC_MSG_BROADCAST_1_4 > 0 \<and>
              ci_cecVersion cec < HDMI_CEC_VERSION_2_0 then Some False
            else HdmiCecCheckSomeSpecialfMsgLen msg opcode
          })"

section \<open>Answering\<close>

definition HdmiCecSendMsg :: "HdmiCecCntlr \<Rightarrow> HdmiCecMsg \<Rightarrow> int \<times> HdmiCecCntlr" where
  "HdmiCecSendMsg cntlr msg =
     (case hc_cecMsgSend cntlr of None \<Rightarrow> (hdf_status_code HDF_ERR_NOT_SUPPORT, cntlr)
      | Some cecMsgSend \<Rightarrow>
          let msg = (if cm_response msg then msg\<lparr>cm_timeout := HDMI_CEC_WAIT_RESPONSE_MSG_MAX_TIME\<rparr> else msg)
          in (cecMsgSend msg, cntlr\<lparr>hc_sent := hc_sent cntlr @ [msg]\<rparr>))"

definition HdmiCecMsgIgnore :: "uint8_t \<Rightarrow> bool \<Rightarrow> bool \<Rightarrow> bool" where
  "HdmiCecMsgIgnore opcode unregistered broadcast =
     (if opcode \<in> {HDMI_CEC_OPCODE_GET_CEC_VERSION, HDMI_CEC_OPCODE_ABORT,
          HDMI_CEC_OPCODE_GIVE_DEVICE_POWER_STATUS, HDMI_CEC_OPCODE_GIVE_OSD_NAME} then unregistered \<or> broadcast
      else if opcode \<in> {HDMI_CEC_OPCODE_GIVE_DEVICE_VENDOR_ID, HDMI_CEC_OPCODE_GIVE_FEATURES,
          HDMI_CEC_OPCODE_GIVE_PHYSICAL_ADDRESS} then broadcast
      else if opcode \<in> {HDMI_CEC_OPCODE_USER_CONTROL_PRESSED, HDMI_CEC_OPCODE_USER_CONTROL_RELEASED}
        then unregistered \<or> broadcast
      else if opcode = HDMI_CEC_OPCODE_REPORT_PHYSICAL_ADDRESS then \<not> broadcast
      else False)"

type_synonym cec_handler = "HdmiCecCntlr \<Rightarrow> HdmiCecMsg \<Rightarrow> HdmiCecMsg \<Rightarrow> HdmiCecCntlr option"

text \<open>These three read the message or the capabilities and log; nothing is sent or stored.\<close>

definition HdmiCecHandleReportPhyAddressMsg :: cec_handler where
  "HdmiCecHandleReportPhyAddressMsg cntlr msg txMsg = do {
     hi \<leftarrow> arr_get (cm_data msg) 2;
     lo \<leftarrow> arr_get (cm_data msg) 3;
     initiator \<leftarrow> HdmiCecGetMsgInitiator msg;
     Some cntlr
   }"

definition HdmiCecHandleUserControlPrtessedMsg :: cec_handler where
  "HdmiCecHandleUserControlPrtessedMsg cntlr msg txMsg =
     (if \<not> hc_cap_cecRc cntlr then Some cntlr else Some cntlr)"

definition HdmiCecHandleUserControlReleasedMsg :: cec_handler where
  "HdmiCecHandleUserControlReleasedMsg cntlr msg txMsg =
     (if \<not> hc_cap_cecRc cntlr then Some cntlr else Some cntlr)"

definition HdmiCecHandleGetCecVersionMsg :: cec_handler where
  "HdmiCecHandleGetCecVersionMsg cntlr msg txMsg = do {
     txMsg \<leftarrow> HdmiCecEncodingCecVersionMsg txMsg (ci_cecVersion (hc_cec cntlr));
     Some (snd (HdmiCecSendMsg cntlr txMsg))
   }"

definition HdmiCecHandleGivePhyAddressMsg :: cec_handler where
  "HdmiCecHandleGivePhyAddressMsg cntlr msg txMsg = do {
     destination \<leftarrow> HdmiCecGetMsgDestination msg;
     if ci_primaryDeviceType (hc_cec cntlr) = HDMI_CEC_DEVICE_TYPE_PURE_CEC_SWITCH \<and>
        destination = HDMI_CEC_LOG_ADDR_UNREGISTERED_OR_BROADCAST then Some cntlr
     else do {
       txMsg \<leftarrow> HdmiCecEncodingReportPhyAddressMsg txMsg (ci_phyAddr (hc_cec cntlr)) (ci_primaryDeviceType (hc_cec cntlr));
       Some (snd (HdmiCecSendMsg cntlr txMsg))
     }
   }"

definition HdmiCecHandleGiveDeviceVendorIdMsg :: cec_handler where
  "HdmiCecHandleGiveDeviceVendorIdMsg cntlr msg txMsg =
     (if ci_vendorId (hc_cec cntlr) = HDMI_CEC_VENDOR_ID_UNKNOWN then do {
        opcode \<leftarrow> arr_get (cm_data msg) 1;
        txMsg \<leftarrow> HdmiCecEncodingFeatureAbortMsg txMsg opcode HDMI_CEC_ABORT_UNRECOGNIZED_OPCODE;
        Some (snd (HdmiCecSendMsg cntlr txMsg))
      }
      else do {
        txMsg \<leftarrow> HdmiCecEncodingDeviceVendorIdMsg txMsg (ci_vendorId (hc_cec cntlr));
        Some (snd (HdmiCecSendMsg cntlr txMsg))
      })"

definition HdmiCecHandleAbortMsg :: cec_handler where
  "HdmiCecHandleAbortMsg cntlr msg txMsg =
     (if ci_primaryDeviceType (hc_cec cntlr) = HDMI_CEC_DEVICE_TYPE_PURE_CEC_SWITCH then Some cntlr
      else do {
        opcode \<leftarrow> arr_get (cm_data msg) 1;
        txMsg \<leftarrow> HdmiCecEncodingFeatureAbortMsg txMsg opcode HDMI_CEC_ABORT_REFUSED;
        Some (snd (HdmiCecSendMsg cntlr txMsg))
      })"

definition HdmiCecHandleGiveOsdNameMsg :: cec_handler where
  "HdmiCecHandleGiveOsdNameMsg cntlr msg txMsg = do {
     c \<leftarrow> arr_get (ci_osdName (hc_cec cntlr)) 0;
     if c = 0 then do {
       opcode \<leftarrow> arr_get (cm_data msg) 1;
       txMsg \<leftarrow> HdmiCecEncodingFeatureAbortMsg txMsg opcode HDMI_CEC_ABORT_UNRECOGNIZED_OPCODE;
       Some (snd (HdmiCecSendMsg cntlr txMsg))
     }
     else do {
       txMsg \<leftarrow> HdmiCecEncodingSetOsdNameMsg txMsg (Some (ci_osdName (hc_cec cntlr))) (ucast (ci_osdNameLen (hc_cec cntlr)));
       Some (snd (HdmiCecSendMsg cntlr txMsg))
     }
   }"

definition HdmiCecHandleGiveFeaturesMsg :: cec_handler where
  "HdmiCecHandleGiveFeaturesMsg cntlr msg txMsg =
     (if ci_cecVersion (hc_cec cntlr) < HDMI_CEC_VERSION_2_0 then do {
        opcode \<leftarrow> arr_get (cm_data msg) 1;
        txMsg \<leftarrow> HdmiCecEncodingFeatureAbortMsg txMsg opcode HDMI_CEC_ABORT_UNRECOGNIZED_OPCODE;
        Some (snd (HdmiCecSendMsg cntlr txMsg))
      }
      else do {
        txMsg \<leftarrow> HdmiCecEncodingReportFeaturesMsg txMsg (hc_cec cntlr);
        Some (snd (HdmiCecSendMsg cntlr txMsg))
      })"

definition HdmiCecMsgDefaultHandle :: cec_handler where
  "HdmiCecMsgDefaultHandle cntlr msg txMsg = do {
     broadcast \<leftarrow> HdmiCecIsBroadcastMsg msg;
     opcode \<leftarrow> arr_get (cm_data msg) 1;
     let isResponse = (ci_isWaitingResponse (hc_cec cntlr) \<and> ci_response (hc_cec cntlr) = opcode);
     if broadcast \<or> isResponse then Some cntlr
     else if opcode \<noteq> HDMI_CEC_OPCODE_FEATURE_ABORT then Some cntlr
     else do {
       txMsg \<leftarrow> HdmiCecEncodingFeatureAbortMsg txMsg opcode HDMI_CEC_ABORT_UNRECOGNIZED_OPCODE;
       Some (snd (HdmiCecSendMsg cntlr txMsg))
     }
   }"

definition cec_funcMap :: "(uint8_t \<times> cec_handler) list" where
  "cec_funcMap = [
     (HDMI_CEC_OPCODE_GET_CEC_VERSION, HdmiCecHandleGetCecVersionMsg),
     (HDMI_CEC_OPCODE_REPORT_PHYSICAL_ADDRESS, HdmiCecHandleReportPhyAddressMsg),
     (HDMI_CEC_OPCODE_USER_CONTROL_PRESSED, HdmiCecHandleUserControlPrtessedMsg),
     (HDMI_CEC_OPCODE_USER_CONTROL_RELEASED, HdmiCecHandleUserControlReleasedMsg),
     (HDMI_CEC_OPCODE_GIVE_PHYSICAL_ADDRESS, HdmiCecHandleGivePhyAddressMsg),
     (HDMI_CEC_OPCODE_GIVE_DEVICE_VENDOR_ID, HdmiCecHandleGiveDeviceVendorIdMsg),
     (HDMI_CEC_OPCODE_ABORT, HdmiCecHandleAbortMsg),
     (HDMI_CEC_OPCODE_GIVE_OSD_NAME, HdmiCecHandleGiveOsdNameMsg),
     (HDMI_CEC_OPCODE_GIVE_FEATURES, HdmiCecHandleGiveFeaturesMsg)]"

definition HdmiCecMsgHandle :: "HdmiCecCntlr \<Rightarrow> HdmiCecMsg \<Rightarrow> HdmiCecMsg \<Rightarrow> uint8_t \<Rightarrow> HdmiCecCntlr option" where
  "HdmiCecMsgHandle cntlr msg txMsg opcode =
     (case search_first (\<lambda>e. opcode = fst e) cec_funcMap of
        Some e \<Rightarrow> snd e cntlr msg txMsg
      | None \<Rightarrow> HdmiCecMsgDefaultHandle cntlr msg txMsg)"

definition HdmiCecUpdateResponseFlag :: "HdmiCecCntlr \<Rightarrow> uint8_t \<Rightarrow> HdmiCecCntlr" where
  "HdmiCecUpdateResponseFlag cntlr opcode =
     (let info = hc_cec cntlr
      in if ci_isWaitingResponse info \<and> ci_response info = opcode
         then cntlr\<lparr>hc_cec := info\<lparr>ci_isWaitingResponse := False, ci_response := 0\<rparr>\<rparr>
         else cntlr)"

definition HdmiCecReceivedMsgHandle :: "HdmiCecCntlr \<Rightarrow> HdmiCecMsg \<Rightarrow> HdmiCecCntlr option" where
  "HdmiCecReceivedMsgHandle cntlr msg = do {
     opcode \<leftarrow> arr_get (cm_data msg) 1;
     broadcast \<leftarrow> HdmiCecIsBroadcastMsg msg;
     initiator \<leftarrow> HdmiCecGetMsgInitiator msg;
     let unregistered = (initiator = HDMI_CEC_LOG_ADDR_UNREGISTERED_OR_BROADCAST);
     if HdmiCecMsgIgnore opcode unregistered broadcast then Some (HdmiCecUpdateResponseFlag cntlr opcode)
     else do {
       txMsg \<leftarrow> HdmiCecFillMsgHeader zero_HdmiCecMsg msg;
       cntlr \<leftarrow> HdmiCecMsgHandle cntlr msg txMsg opcode;
       Some (HdmiCecUpdateResponseFlag cntlr opcode)
     }
   }"

text \<open>The controller is reached through the \<open>priv\<close> pointer of \<open>cec\<close> and points back to it; \<open>cntlr\<close> is both.\<close>

definition HdmiCecReceivedMsg ::
    "HdmiCecCntlr option \<Rightarrow> HdmiCecMsg option \<Rightarrow> (HDF_STATUS \<times> HdmiCecCntlr option) option" where
  "HdmiCecReceivedMsg cec msg =
     (case (cec, msg) of
        (Some cntlr, Some msg) \<Rightarrow>
          if \<not> hc_cap_cec cntlr then Some (HDF_ERR_NOT_SUPPORT, cec)
          else if cm_len msg < HDMI_CEC_MSG_MIN_LEN then Some (HDF_ERR_INVALID_PARAM, cec)
          else do {
            initiator \<leftarrow> HdmiCecGetMsgInitiator msg;
            destination \<leftarrow> HdmiCecGetMsgDestination msg;
            opcode \<leftarrow> arr_get (cm_data msg) 1;
            broadcast \<leftarrow> HdmiCecIsBroadcastMsg msg;
            if initiator \<noteq> HDMI_CEC_LOG_ADDR_UNREGISTERED_OR_BROADCAST \<and> HdmiCecLogAddrValid (hc_cec cntlr) initiator
            then Some (HDF_ERR_INVALID_PARAM, cec)
            else if \<not> broadcast \<and> \<not> HdmiCecLogAddrValid (hc_cec cntlr) destination
            then Some (HDF_ERR_INVALID_PARAM, cec)
            else if ci_logAddrMask (hc_cec cntlr) = 0 then Some (HDF_ERR_NOT_SUPPORT, cec)
            else if HdmiCecIsCdcOnlyDevice (hc_cec cntlr) \<and> opcode \<noteq> HDMI_CEC_OPCODE_CDC_MESSAGE
            then Some (HDF_ERR_NOT_SUPPORT, cec)
            else do {
              ok \<leftarrow> HdmiCecCheckMsgLen (hc_cec cntlr) msg opcode;
              if \<not> ok then Some (HDF_ERR_INVALID_PARAM, cec)
              else do {
                cntlr \<leftarrow> HdmiCecReceivedMsgHandle cntlr msg;
                Some (HDF_SUCCESS, Some cntlr)
              }
            }
          }
      | _ \<Rightarrow> Some (HDF_ERR_INVALID_PARAM, cec))"

section \<open>What is answered\<close>

text \<open>
  The answer to a message, as the code gives it: nothing, or a frame, which is a broadcast for the
  reports of the physical address and of the features and goes back to the initiator otherwise.
  \<open>broadcast\<close> and \<open>unregistered\<close> are taken from the addresses of the message; the first four
  opcodes are answered also when the initiator is unregistered.
\<close>

definition cec_reply :: "HdmiCecInfo \<Rightarrow> bool \<Rightarrow> bool \<Rightarrow> uint8_t \<Rightarrow> cec_frame option" where
  "cec_reply info broadcast unregistered opcode =
     (let abort = (\<lambda>reason. Some (Frame False HDMI_CEC_OPCODE_FEATURE_ABORT [opcode, reason] None))
      in if broadcast then None
      else if opcode = HDMI_CEC_OPCODE_GIVE_PHYSICAL_ADDRESS then
        Some (Frame True HDMI_CEC_OPCODE_REPORT_PHYSICAL_ADDRESS (be16 (ci_phyAddr info) @ [ci_primaryDeviceType info]) None)
      else if opcode = HDMI_CEC_OPCODE_GIVE_DEVICE_VENDOR_ID then
        (if ci_vendorId info = HDMI_CEC_VENDOR_ID_UNKNOWN then abort HDMI_CEC_ABORT_UNRECOGNIZED_OPCODE
         else Some (Frame False HDMI_CEC_OPCODE_DEVICE_VENDOR_ID (be24 (ci_vendorId info)) None))
      else if opcode = HDMI_CEC_OPCODE_GIVE_FEATURES then
        (if ci_cecVersion info < HDMI_CEC_VERSION_2_0 then abort HDMI_CEC_ABORT_UNRECOGNIZED_OPCODE
         else Some (Frame True HDMI_CEC_OPCODE_REPORT_FEATURES ([ci_cecVersion info, ci_allDeviceType info] @
           until_last (ci_rcProfile info) @ until_last (ci_devFeatures info)) None))
      else if opcode = HDMI_CEC_OPCODE_FEATURE_ABORT then
        (if ci_isWaitingResponse info \<and> ci_response info = opcode then None
         else abort HDMI_CEC_ABORT_UNRECOGNIZED_OPCODE)
      else if unregistered then None
      else if opcode = HDMI_CEC_OPCODE_GET_CEC_VERSION then
        Some (Frame False HDMI_CEC_OPCODE_CEC_VERSION [ci_cecVersion info] None)
      else if opcode = HDMI_CEC_OPCODE_ABORT then
        (if ci_primaryDeviceType info = HDMI_CEC_DEVICE_TYPE_PURE_CEC_SWITCH then None else abort HDMI_CEC_ABORT_REFUSED)
      else if opcode = HDMI_CEC_OPCODE_GIVE_OSD_NAME then
        (if ci_osdName info ! 0 = 0 then abort HDMI_CEC_ABORT_UNRECOGNIZED_OPCODE
         else Some (Frame False HDMI_CEC_OPCODE_SET_OSD_NAME (take (min 14 (unat (ci_osdNameLen info))) (ci_osdName info)) None))
      else None)"

text \<open>The arrays of the information have their sizes, and a name that is set has a length.\<close>

definition cec_info_ok :: "HdmiCecInfo \<Rightarrow> bool" where
  "cec_info_ok info \<longleftrightarrow> length (ci_osdName info) = 15 \<and> length (ci_rcProfile info) = 6 \<and>
     length (ci_devFeatures info) = 6 \<and> unat (ci_osdNameLen info) \<le> 15 \<and>
     (ci_osdName info ! 0 \<noteq> 0 \<longrightarrow> ci_osdNameLen info \<noteq> 0)"

definition reply_header :: "uint8_t \<Rightarrow> uint8_t" where
  "reply_header h = push_bit 4 (h AND 0x0F) OR drop_bit 4 (h AND 0xF0)"

definition answered :: "HdmiCecCntlr \<Rightarrow> uint8_t \<Rightarrow> cec_frame \<Rightarrow> HdmiCecCntlr option \<Rightarrow> bool" where
  "answered c h f res \<longleftrightarrow> (\<exists>m. res = Some (c\<lparr>hc_sent := hc_sent c @ [m]\<rparr>) \<and> carries h f m)"

lemma answered_send:
  assumes "cec_encodes enc f \<or> cec_deviates enc documented f" "fresh h tx" "hc_cecMsgSend c = Some send"
  shows "answered c h f (enc tx \<bind> (\<lambda>tx. Some (snd (HdmiCecSendMsg c tx))))"
proof -
  obtain m where m: "enc tx = Some m" "carries h f m"
    using cec_frame_of_encoder cec_frame_produced assms(1,2) by (fastforce simp: runs_iff)
  have "carries h f (if cm_response m then m\<lparr>cm_timeout := HDMI_CEC_WAIT_RESPONSE_MSG_MAX_TIME\<rparr> else m)"
    using m(2) by (auto simp: carries_def)
  then show ?thesis
    using m assms(3) by (auto simp: answered_def HdmiCecSendMsg_def Let_def)
qed

lemma ucast_widen:
  "unat (ucast (l::8 word) :: 32 word) = unat l" "(ucast l :: 32 word) = 0 \<longleftrightarrow> l = 0"
proof -
  show len: "unat (ucast l :: 32 word) = unat l"
    using unat_lt[of l] by (simp add: unsigned_ucast_eq take_bit_nat_eq_self)
  show "(ucast l :: 32 word) = 0 \<longleftrightarrow> l = 0"
    by (metis len unat_eq_zero)
qed

lemma fill_header:
  assumes "length (cm_data msg) = 20"
  shows "HdmiCecFillMsgHeader zero_HdmiCecMsg msg =
    Some (zero_HdmiCecMsg\<lparr>cm_data := reply_header (cm_data msg ! 0) # replicate 19 0\<rparr>)"
proof -
  have "replicate 20 (0::uint8_t) = 0 # replicate 19 0" by (simp add: numeral_eq_Suc)
  then show ?thesis
    using assms by (simp add: HdmiCecFillMsgHeader_def HdmiCecGetMsgDestination_def HdmiCecGetMsgInitiator_def
        arr_get_def arr_set_def cec_put_def zero_HdmiCecMsg_def reply_header_def)
qed

lemma dispatch:
  "HdmiCecMsgHandle c msg tx opcode =
    (if opcode = HDMI_CEC_OPCODE_GET_CEC_VERSION then HdmiCecHandleGetCecVersionMsg c msg tx
     else if opcode = HDMI_CEC_OPCODE_REPORT_PHYSICAL_ADDRESS then HdmiCecHandleReportPhyAddressMsg c msg tx
     else if opcode = HDMI_CEC_OPCODE_USER_CONTROL_PRESSED then HdmiCecHandleUserControlPrtessedMsg c msg tx
     else if opcode = HDMI_CEC_OPCODE_USER_CONTROL_RELEASED then HdmiCecHandleUserControlReleasedMsg c msg tx
     else if opcode = HDMI_CEC_OPCODE_GIVE_PHYSICAL_ADDRESS then HdmiCecHandleGivePhyAddressMsg c msg tx
     else if opcode = HDMI_CEC_OPCODE_GIVE_DEVICE_VENDOR_ID then HdmiCecHandleGiveDeviceVendorIdMsg c msg tx
     else if opcode = HDMI_CEC_OPCODE_ABORT then HdmiCecHandleAbortMsg c msg tx
     else if opcode = HDMI_CEC_OPCODE_GIVE_OSD_NAME then HdmiCecHandleGiveOsdNameMsg c msg tx
     else if opcode = HDMI_CEC_OPCODE_GIVE_FEATURES then HdmiCecHandleGiveFeaturesMsg c msg tx
     else HdmiCecMsgDefaultHandle c msg tx)"
  by (simp add: HdmiCecMsgHandle_def cec_funcMap_def)

definition reply_given :: "HdmiCecCntlr \<Rightarrow> uint8_t \<Rightarrow> cec_frame option \<Rightarrow> HdmiCecCntlr option \<Rightarrow> bool" where
  "reply_given c h reply res \<longleftrightarrow> (case reply of None \<Rightarrow> res = Some c | Some f \<Rightarrow> answered c h f res)"

lemma message_handled:
  assumes len: "length (cm_data msg) = 20" and ok: "cec_info_ok (hc_cec c)" and send: "hc_cecMsgSend c = Some send"
    and fr: "fresh h tx" and op: "cm_data msg ! 1 = opcode"
    and bc: "broadcast \<longleftrightarrow> cm_data msg ! 0 AND 0x0F = 15" and un: "\<not> HdmiCecMsgIgnore opcode unregistered broadcast"
  shows "reply_given c h (cec_reply (hc_cec c) broadcast unregistered opcode) (HdmiCecMsgHandle c msg tx opcode)"
proof -
  note sent = answered_send[OF disjI1 fr send]
  note sents = sent[OF cec_encodes.version, of "ci_cecVersion (hc_cec c)"] sent[OF cec_encodes.phys_addr]
    sent[OF cec_encodes.features] answered_send[OF disjI2[OF cec_deviates.vendor_id] fr send]
    sent[OF cec_encodes.osd_name] sent[OF cec_encodes.feature_abort]
  have get: "arr_get (cm_data msg) 0 = Some (cm_data msg ! 0)" "arr_get (cm_data msg) (Suc 0) = Some opcode"
      "arr_get (cm_data msg) 2 = Some (cm_data msg ! 2)" "arr_get (cm_data msg) 3 = Some (cm_data msg ! 3)"
      "arr_get (ci_osdName (hc_cec c)) 0 = Some (ci_osdName (hc_cec c) ! 0)"
    using len op ok by (simp_all add: arr_get_def cec_info_ok_def)
  note defs = get cec_reply_def HdmiCecMsgIgnore_def Let_def reply_given_def cec_info_ok_def
  consider "opcode = 0x9F" | "opcode = 0x84 \<or> opcode = 0x44 \<or> opcode = 0x45" | "opcode = 0x83" | "opcode = 0x8C"
    | "opcode = 0xFF" | "opcode = 0x46" | "opcode = 0xA5"
    | "opcode \<notin> {0x9F, 0x84, 0x44, 0x45, 0x83, 0x8C, 0xFF, 0x46, 0xA5}" by blast
  then show ?thesis
  proof cases
    case 1
    then show ?thesis using un sents(1) by (simp add: dispatch HdmiCecHandleGetCecVersionMsg_def defs)
  next
    case 2
    then show ?thesis using un
      by (auto simp: dispatch HdmiCecHandleReportPhyAddressMsg_def HdmiCecHandleUserControlPrtessedMsg_def
          HdmiCecHandleUserControlReleasedMsg_def HdmiCecGetMsgInitiator_def defs)
  next
    case 3
    then show ?thesis using un bc sents(2)
      by (simp add: dispatch HdmiCecHandleGivePhyAddressMsg_def HdmiCecGetMsgDestination_def defs)
  next
    case 4
    then show ?thesis using un sents(4,6) by (simp add: dispatch HdmiCecHandleGiveDeviceVendorIdMsg_def defs)
  next
    case 5
    then show ?thesis using un sents(6) by (simp add: dispatch HdmiCecHandleAbortMsg_def defs)
  next
    case 6
    have len: "unat (ucast (ci_osdNameLen (hc_cec c)) :: uint32_t) = unat (ci_osdNameLen (hc_cec c))"
      and nz: "(ucast (ci_osdNameLen (hc_cec c)) :: uint32_t) = 0 \<longleftrightarrow> ci_osdNameLen (hc_cec c) = 0"
      by (simp_all add: ucast_widen)
    from 6 show ?thesis using un ok sents(5)[of "ucast (ci_osdNameLen (hc_cec c))" "ci_osdName (hc_cec c)"] sents(6)
      by (simp add: dispatch HdmiCecHandleGiveOsdNameMsg_def defs len nz)
  next
    case 7
    then show ?thesis using un ok sents(3,6) by (simp add: dispatch HdmiCecHandleGiveFeaturesMsg_def defs)
  next
    case 8
    then show ?thesis using bc sents(6)
      by (simp add: dispatch HdmiCecMsgDefaultHandle_def HdmiCecIsBroadcastMsg_def defs)
  qed
qed

lemma length_checked:
  assumes "length (cm_data msg) = 20"
  obtains ok where "HdmiCecCheckMsgLen info msg opcode = Some ok"
proof -
  have get: "arr_get (cm_data msg) 0 = Some (cm_data msg ! 0)" "arr_get (cm_data msg) 2 = Some (cm_data msg ! 2)"
    using assms by (simp_all add: arr_get_def)
  have "\<exists>ok. HdmiCecCheckMsgLen info msg opcode = Some ok"
    by (auto simp: HdmiCecCheckMsgLen_def HdmiCecIsBroadcastMsg_def HdmiCecCheckSomeSpecialfMsgLen_def
        HdmiCecCheckTimerStatusMsgLen_def HdmiCecCheckRecordOnMsgLen_def get Let_def split: option.split)
  then show thesis using that by blast
qed

text \<open>A message is ignored only when nothing is owed to its sender.\<close>

lemma ignored_no_reply:
  assumes "HdmiCecMsgIgnore opcode unregistered broadcast" shows "cec_reply info broadcast unregistered opcode = None"
  using assms by (auto simp: HdmiCecMsgIgnore_def cec_reply_def Let_def split: if_splits)

lemma received_handled:
  assumes len: "length (cm_data msg) = 20" and ok: "cec_info_ok (hc_cec c)" and send: "hc_cecMsgSend c = Some send"
  defines "reply \<equiv> cec_reply (hc_cec c) (cm_data msg ! 0 AND 0x0F = 15) (drop_bit 4 (cm_data msg ! 0 AND 0xF0) = 15)
    (cm_data msg ! 1)"
  shows "\<exists>c'. reply_given c (reply_header (cm_data msg ! 0)) reply (Some c') \<and>
    HdmiCecReceivedMsgHandle c msg = Some (HdmiCecUpdateResponseFlag c' (cm_data msg ! 1))"
proof -
  have get: "arr_get (cm_data msg) 0 = Some (cm_data msg ! 0)" "arr_get (cm_data msg) (Suc 0) = Some (cm_data msg ! 1)"
    using len by (simp_all add: arr_get_def)
  let ?b = "cm_data msg ! 0 AND 0x0F = 15" and ?u = "drop_bit 4 (cm_data msg ! 0 AND 0xF0) = 15"
  note defs = HdmiCecReceivedMsgHandle_def get HdmiCecIsBroadcastMsg_def HdmiCecGetMsgInitiator_def
  show ?thesis
  proof (cases "HdmiCecMsgIgnore (cm_data msg ! 1) ?u ?b")
    case True
    then have "reply = None" by (simp add: reply_def ignored_no_reply)
    with True show ?thesis by (simp add: defs reply_given_def)
  next
    case False
    have fr: "fresh (reply_header (cm_data msg ! 0))
        (zero_HdmiCecMsg\<lparr>cm_data := reply_header (cm_data msg ! 0) # replicate 19 0\<rparr>)"
      by (simp add: fresh_def zero_HdmiCecMsg_def)
    have "reply_given c (reply_header (cm_data msg ! 0)) reply (HdmiCecMsgHandle c msg
        (zero_HdmiCecMsg\<lparr>cm_data := reply_header (cm_data msg ! 0) # replicate 19 0\<rparr>) (cm_data msg ! 1))"
      unfolding reply_def using message_handled[OF len ok send fr refl refl False] .
    moreover obtain c' where "HdmiCecMsgHandle c msg
        (zero_HdmiCecMsg\<lparr>cm_data := reply_header (cm_data msg ! 0) # replicate 19 0\<rparr>) (cm_data msg ! 1) = Some c'"
      using calculation by (auto simp: reply_given_def answered_def split: option.splits)
    ultimately show ?thesis using False by (auto simp: defs fill_header[OF len])
  qed
qed

text \<open>
  C9: On a controller whose host can send, whose information has arrays of their declared sizes
  and, when an OSD name is set, a name length between 1 and 15, receiving any message (an array of
  20 bytes, whatever they are) never faults.  A refused message changes nothing.  An accepted one
  is answered exactly as \<open>cec_reply\<close> says, and then the note that a response is awaited is cleared
  when this opcode was awaited.  Nothing is sent for a message addressed to everybody.  Give Physical
  Address and Give Features (from version 2.0) are answered by the broadcast frames Report Physical
  Address and Report Features; every other answer is one frame directed back to the initiator: the
  vendor identifier if one is set, the version, the OSD name if one is set, and otherwise a Feature
  Abort, which is also what a Feature Abort that was not awaited gets (a pure switch does not answer
  an Abort).  Give Physical Address, Give
  Device Vendor ID, Give Features and Feature Abort are answered whoever sent them, the
  unregistered address (to which a directed answer then goes as to everybody) included; Get CEC
  Version, Abort and Give OSD Name only for registered initiators, and no other opcode is answered.
\<close>

theorem cec_replies_refine:
  assumes "length (cm_data msg) = 20" "cec_info_ok (hc_cec c)" "hc_cecMsgSend c = Some send"
  shows "\<exists>ret c'. HdmiCecReceivedMsg (Some c) (Some msg) = Some (ret, Some c') \<and>
    (if ret = HDF_SUCCESS
     then \<exists>c1. c' = HdmiCecUpdateResponseFlag c1 (cm_data msg ! 1) \<and>
       reply_given c (reply_header (cm_data msg ! 0))
         (cec_reply (hc_cec c) (cm_data msg ! 0 AND 0x0F = 15) (drop_bit 4 (cm_data msg ! 0 AND 0xF0) = 15)
           (cm_data msg ! 1)) (Some c1)
     else c' = c)"
proof -
  have get: "arr_get (cm_data msg) 0 = Some (cm_data msg ! 0)" "arr_get (cm_data msg) (Suc 0) = Some (cm_data msg ! 1)"
    using assms(1) by (simp_all add: arr_get_def)
  obtain ok where "HdmiCecCheckMsgLen (hc_cec c) msg (cm_data msg ! 1) = Some ok"
    using length_checked[OF assms(1)] .
  moreover obtain c' where "HdmiCecReceivedMsgHandle c msg = Some (HdmiCecUpdateResponseFlag c' (cm_data msg ! 1))"
      "reply_given c (reply_header (cm_data msg ! 0)) (cec_reply (hc_cec c) (cm_data msg ! 0 AND 0x0F = 15)
        (drop_bit 4 (cm_data msg ! 0 AND 0xF0) = 15) (cm_data msg ! 1)) (Some c')"
    using received_handled[OF assms] by blast
  ultimately show ?thesis
    by (auto simp: HdmiCecReceivedMsg_def HdmiCecGetMsgInitiator_def HdmiCecGetMsgDestination_def
        HdmiCecIsBroadcastMsg_def get)
qed


definition example_cntlr :: HdmiCecCntlr where
  "example_cntlr =
     \<lparr>hc_cap_cec = True, hc_cap_cecRc = False,
      hc_cec = \<lparr>ci_logAddr = 4, ci_logAddrType = 3, ci_logAddrMask = 0x10, ci_primaryDeviceType = 4, ci_cecVersion = 5,
        ci_phyAddr = 0x1000, ci_vendorId = HDMI_CEC_VENDOR_ID_UNKNOWN, ci_flags = 0, ci_osdName = replicate 15 0,
        ci_osdNameLen = 0, ci_allDeviceType = 0x10, ci_rcProfile = replicate 6 0, ci_devFeatures = replicate 6 0,
        ci_isWaitingResponse = False, ci_response = 0\<rparr>,
      hc_cecMsgSend = Some (\<lambda>_. 0), hc_sent = []\<rparr>"

definition example_msg :: "uint8_t \<Rightarrow> uint8_t \<Rightarrow> HdmiCecMsg" where
  "example_msg header opcode = zero_HdmiCecMsg\<lparr>cm_len := 2, cm_data := header # opcode # replicate 18 0\<rparr>"

theorem cec_replies_refine_witness:
  "\<exists>c' m. HdmiCecReceivedMsg (Some example_cntlr) (Some (example_msg 0x02 HDMI_CEC_OPCODE_GIVE_PHYSICAL_ADDRESS)) =
      Some (HDF_SUCCESS, Some c') \<and> hc_sent c' = [m] \<and>
    take (unat (cm_len m)) (cm_data m) = [0x2F, HDMI_CEC_OPCODE_REPORT_PHYSICAL_ADDRESS, 0x10, 0x00, 4]"
proof -
  let ?msg = "example_msg 0x02 HDMI_CEC_OPCODE_GIVE_PHYSICAL_ADDRESS"
  have ok: "length (cm_data ?msg) = 20" "cec_info_ok (hc_cec example_cntlr)" "hc_cecMsgSend example_cntlr = Some (\<lambda>_. 0)"
    by (simp_all add: example_msg_def example_cntlr_def cec_info_ok_def)
  have "map_option fst (HdmiCecReceivedMsg (Some example_cntlr) (Some ?msg)) = Some HDF_SUCCESS" by code_simp
  moreover have "cm_data ?msg ! 0 = 2" "cm_data ?msg ! 1 = 0x83" "hc_sent example_cntlr = []"
      "ci_primaryDeviceType (hc_cec example_cntlr) = 4" "ci_phyAddr (hc_cec example_cntlr) = 0x1000"
    by (simp_all add: example_msg_def example_cntlr_def)
  ultimately show ?thesis
    using cec_replies_refine[OF ok]
    by (auto simp: reply_given_def cec_reply_def answered_def carries_def wire_def be16_def reply_header_def
        HdmiCecUpdateResponseFlag_def Let_def)
qed

section \<open>Who is addressed\<close>

lemma log_addr_valid:
  assumes "unat a < 16"
  shows "HdmiCecLogAddrValid info a \<longleftrightarrow> bit (ci_logAddr info) (unat a)"
proof -
  have "w AND push_bit n 1 \<noteq> 0 \<longleftrightarrow> bit w n" if "n < 32" for w :: uint32_t and n
    using that by (simp add: and_exp_eq_0_iff_not_bit push_bit_eq_mult)
  then show ?thesis using assms by (simp add: HdmiCecLogAddrValid_def bit_ucast_iff)
qed

lemma own_bit: "\<not> bit (w :: 'a::len word) (unat w)"
  proof -
  have "unat w div 2 ^ unat w = 0" by (rule div_less) (rule less_exp)
  then have "\<not> bit (unat w) (unat w)" by (simp only: bit_iff_odd even_zero not_True_eq_False not_False_eq_True)
  moreover have "bit (unat w) (unat w) \<longleftrightarrow> bit w (unat w)" by (auto simp: bit_unsigned_iff dest: bit_imp_le_length)
  ultimately show ?thesis by blast
qed

text \<open>
  A message directed to the device's own logical address is refused: the check of the destination
  tests a bit of the address where the mask of addresses was meant, and no number has the bit set
  whose position is the number itself.
\<close>

theorem cec_own_address_rejected:
  assumes "length (cm_data msg) = 20" "HDMI_CEC_MSG_MIN_LEN \<le> cm_len msg" "hc_cap_cec c"
    and dest: "cm_data msg ! 0 AND 0x0F = ci_logAddr (hc_cec c)" "ci_logAddr (hc_cec c) < 15"
  shows "HdmiCecReceivedMsg (Some c) (Some msg) = Some (HDF_ERR_INVALID_PARAM, Some c)"
proof -
  have get: "arr_get (cm_data msg) 0 = Some (cm_data msg ! 0)" "arr_get (cm_data msg) (Suc 0) = Some (cm_data msg ! 1)"
    using assms(1) by (simp_all add: arr_get_def)
  have "unat (ci_logAddr (hc_cec c)) < 16" using dest(2) by (simp add: word_less_nat_alt)
  then have "\<not> HdmiCecLogAddrValid (hc_cec c) (ci_logAddr (hc_cec c))" by (simp add: log_addr_valid own_bit)
  then show ?thesis using assms
    by (auto simp: HdmiCecReceivedMsg_def HdmiCecGetMsgInitiator_def HdmiCecGetMsgDestination_def
        HdmiCecIsBroadcastMsg_def get not_less)
qed

theorem cec_own_address_rejected_witness:
  "HdmiCecReceivedMsg (Some example_cntlr) (Some (example_msg 0x04 HDMI_CEC_OPCODE_GIVE_PHYSICAL_ADDRESS)) =
     Some (HDF_ERR_INVALID_PARAM, Some example_cntlr)"
  by (rule cec_own_address_rejected) (simp_all add: example_msg_def example_cntlr_def)

end
