(* ===== verification/Mmc_Base.thy ===== *)
theory Mmc_Base
  imports Hdf_Prelude
begin

text \<open>
  The storage stack for memory cards, first part: data, the methods of the host controller, and the
  operations of \<^verbatim>\<open>mmc_core.c\<close> that call them.  The code that drives the controller's hardware is
  not under \<^verbatim>\<open>src/\<close>: its methods are parameters, functions of the trace of everything that was
  asked of the hardware before, so an answer may depend on the whole history.  Each call is appended
  to the trace.

  A status is an \<^typ>\<open>int\<close>, as a method may return any; \<open>st\<close> gives the number of a status code.  The
  controller that an operation is given exists; whether a card's device is attached to it is part of
  the state, and every use of an absent device is a fault.  Delays and locks are left out.  A union
  of a word and single bits is a record of truth values where the code uses the bits.
\<close>

unbundle bit_operations_syntax

section \<open>Constants\<close>

abbreviation (input) st :: "HDF_STATUS \<Rightarrow> int" where "st \<equiv> hdf_status_code"

abbreviation (input) HDF_PLT_ERR_NO_DEV :: int where "HDF_PLT_ERR_NO_DEV \<equiv> -105"
abbreviation (input) HDF_PLT_ERR_DEV_TYPE :: int where "HDF_PLT_ERR_DEV_TYPE \<equiv> -106"
abbreviation (input) HDF_PLT_ERR_DEV_GET :: int where "HDF_PLT_ERR_DEV_GET \<equiv> -107"
abbreviation (input) HDF_PLT_ERR_OS_API :: int where "HDF_PLT_ERR_OS_API \<equiv> -102"
abbreviation (input) HDF_MMC_ERR_SWITCH_FAIL :: int where "HDF_MMC_ERR_SWITCH_FAIL \<equiv> -151"

abbreviation (input) MMC_CMD_RESP_SIZE where "MMC_CMD_RESP_SIZE \<equiv> 4"
abbreviation (input) EMMC_EXT_CSD_SEC_CNT_BYTES where "EMMC_EXT_CSD_SEC_CNT_BYTES \<equiv> 4"
abbreviation (input) CID_PNM_LEN where "CID_PNM_LEN \<equiv> 8"
abbreviation (input) CID_LEN where "CID_LEN \<equiv> 4"
abbreviation (input) CSD_LEN where "CSD_LEN \<equiv> 4"
abbreviation (input) SCR_LEN where "SCR_LEN \<equiv> 2"
abbreviation (input) SDIO_MAX_FUNCTION_NUMBER where "SDIO_MAX_FUNCTION_NUMBER \<equiv> 7"
abbreviation (input) MMC_OCR_MAX_VOLTAGE_BIT where "MMC_OCR_MAX_VOLTAGE_BIT \<equiv> 23"
abbreviation (input) MMC_OCR_MAX_SHIFT_BITS where "MMC_OCR_MAX_SHIFT_BITS \<equiv> 3"
abbreviation (input) MMC_POWER_MODE_POWER_UP where "MMC_POWER_MODE_POWER_UP \<equiv> 1"
abbreviation (input) BUS_WIDTH1 where "BUS_WIDTH1 \<equiv> 0"
abbreviation (input) BUS_TIMING_MMC_DS where "BUS_TIMING_MMC_DS \<equiv> 0"
abbreviation (input) MMC_POWER_MODE_POWER_ON where "MMC_POWER_MODE_POWER_ON \<equiv> 2"
abbreviation (input) MMC_POWER_MODE_POWER_OFF where "MMC_POWER_MODE_POWER_OFF \<equiv> 0"
abbreviation (input) MMC_DEV_SDIO where "MMC_DEV_SDIO \<equiv> 2"
abbreviation (input) MMC_DEV_COMBO where "MMC_DEV_COMBO \<equiv> 3"
abbreviation (input) MMC_DEV_SD where "MMC_DEV_SD \<equiv> 1"
abbreviation (input) MMC_DEV_EMMC where "MMC_DEV_EMMC \<equiv> 0"
abbreviation (input) SD_SCR_SET_BLOCK_COUNT_SUPPORT where "SD_SCR_SET_BLOCK_COUNT_SUPPORT \<equiv> 2"
abbreviation (input) MMC_CSD_CCC_BLOCK_READ where "MMC_CSD_CCC_BLOCK_READ \<equiv> 4"
abbreviation (input) MMC_CSD_CCC_BLOCK_WRITE where "MMC_CSD_CCC_BLOCK_WRITE \<equiv> 16"
abbreviation (input) MMC_DEV_INVALID where "MMC_DEV_INVALID \<equiv> 4"
abbreviation (input) MMC_SEC_SIZE where "MMC_SEC_SIZE \<equiv> 0x200"

section \<open>Commands and data\<close>

text \<open>Of the stop command inside a data descriptor only the code and the kind of response are used.\<close>

record MmcStopCmd =
  stc_cmdCode :: uint32_t
  stc_respType :: uint32_t

record MmcData =
  dat_blockSize :: uint32_t
  dat_blockNum :: uint32_t
  dat_returnError :: int
  dat_dataBuffer :: "bytes option"
  dat_scatter :: "bytes option"
  dat_scatterLen :: uint32_t
  dat_dataFlags :: uint32_t
  dat_stopCmd :: MmcStopCmd
  dat_sendStopCmd :: bool

record MmcCmd =
  cmd_cmdCode :: uint32_t
  cmd_argument :: uint32_t
  cmd_resp :: "uint32_t list"
  cmd_respType :: uint32_t
  cmd_returnError :: int
  cmd_data :: "MmcData option"

definition zero_MmcData :: MmcData where
  "zero_MmcData = \<lparr>dat_blockSize = 0, dat_blockNum = 0, dat_returnError = 0, dat_dataBuffer = None, dat_scatter = None,
     dat_scatterLen = 0, dat_dataFlags = 0, dat_stopCmd = \<lparr>stc_cmdCode = 0, stc_respType = 0\<rparr>, dat_sendStopCmd = False\<rparr>"

definition zero_MmcCmd :: MmcCmd where
  "zero_MmcCmd = \<lparr>cmd_cmdCode = 0, cmd_argument = 0, cmd_resp = replicate MMC_CMD_RESP_SIZE 0, cmd_respType = 0,
     cmd_returnError = 0, cmd_data = None\<rparr>"

record MmcRwData =
  rwd_buf :: bytes
  rwd_writeFlag :: bool
  rwd_startSector :: size_t
  rwd_sectors :: size_t

section \<open>Registers of a card\<close>

record MmcCid =
  cid_mid :: uint32_t
  cid_pnm :: bytes
  cid_psn :: uint32_t
  cid_oid :: uint16_t
  cid_year :: uint16_t
  cid_month :: uint8_t
  cid_hwPrv :: uint8_t
  cid_fwPrv :: uint8_t

record MmcCsd =
  csd_structure :: uint8_t
  csd_specVers :: uint8_t
  csd_ccc :: uint16_t
  csd_taccClks :: uint16_t
  csd_taccNs :: uint32_t
  csd_cSize :: uint32_t
  csd_r2wFactor :: uint32_t
  csd_maxDtr :: uint32_t
  csd_eraseSize :: uint32_t
  csd_readBlkLen :: uint32_t
  csd_writeBlkLen :: uint32_t
  csd_capacity :: uint32_t
  csd_rdPartial :: bool
  csd_rdMisalign :: bool
  csd_wrPartial :: bool
  csd_wrMisalign :: bool

record MmcRegister =
  reg_ocr :: uint32_t
  reg_rca :: uint32_t
  reg_rawCid :: "uint32_t list"
  reg_rawCsd :: "uint32_t list"
  reg_cid :: MmcCid
  reg_csd :: MmcCsd

record EmmcExtCsd =
  ecsd_rev :: uint8_t
  ecsd_eraseGroupDef :: uint8_t
  ecsd_secFeatureSupport :: uint8_t
  ecsd_relWrSecorCount :: uint8_t
  ecsd_wrRelParam :: uint8_t
  ecsd_partConfig :: uint8_t
  ecsd_partSwitchTime :: uint32_t
  ecsd_saTimeout :: uint32_t
  ecsd_hsMaxDtr :: uint32_t
  ecsd_sectors :: uint32_t
  ecsd_cardType :: uint32_t
  ecsd_hcEraseSize :: uint32_t
  ecsd_hcEraseTimeout :: uint32_t
  ecsd_secTrimMult :: uint32_t
  ecsd_secEraseMult :: uint32_t
  ecsd_trimTimeout :: uint32_t
  ecsd_enhAreaEnable :: bool
  ecsd_enhAreaOffset :: uint64_t
  ecsd_enhAreaSize :: uint32_t
  ecsd_cache_size :: uint32_t
  ecsd_hpiEnable :: bool
  ecsd_hpi :: bool
  ecsd_hpiCmd :: uint32_t
  ecsd_dataSectorSize :: uint32_t
  ecsd_data_tag_unit_size :: uint32_t
  ecsd_boot_ro_lock :: uint32_t
  ecsd_bootSize :: uint32_t
  ecsd_pwrClF52V195 :: uint8_t
  ecsd_pwrClF26V195 :: uint8_t
  ecsd_pwrClF52V360 :: uint8_t
  ecsd_pwrClF26V360 :: uint8_t
  ecsd_pwrClF200V195 :: uint8_t
  ecsd_pwrClF200V360 :: uint8_t
  ecsd_pwrClDdrF52V195 :: uint8_t
  ecsd_pwrClDdrF52V360 :: uint8_t
  ecsd_rawPartitionSupport :: uint8_t
  ecsd_rawErasedMemCount :: uint8_t
  ecsd_strobeSupport :: uint8_t
  ecsd_rawCsdStructure :: uint8_t
  ecsd_rawCardType :: uint8_t
  ecsd_outOfInterruptTime :: uint8_t
  ecsd_rawSaTimeout :: uint8_t
  ecsd_rawHcWpGrpSize :: uint8_t
  ecsd_rawEraseTimeoutMult :: uint8_t
  ecsd_rawHcEraseGrpSize :: uint8_t
  ecsd_rawSecTrimMult :: uint8_t
  ecsd_rawSecEraseMult :: uint8_t
  ecsd_rawSecFeatureSupport :: uint8_t
  ecsd_rawTrimMult :: uint8_t
  ecsd_rawSectors :: bytes

definition zero_EmmcExtCsd :: EmmcExtCsd where
  "zero_EmmcExtCsd = \<lparr>
     ecsd_rev = 0, ecsd_eraseGroupDef = 0, ecsd_secFeatureSupport = 0, 
     ecsd_relWrSecorCount = 0, ecsd_wrRelParam = 0, ecsd_partConfig = 0, 
     ecsd_partSwitchTime = 0, ecsd_saTimeout = 0, ecsd_hsMaxDtr = 0, ecsd_sectors = 0, 
     ecsd_cardType = 0, ecsd_hcEraseSize = 0, ecsd_hcEraseTimeout = 0, ecsd_secTrimMult = 0, 
     ecsd_secEraseMult = 0, ecsd_trimTimeout = 0, ecsd_enhAreaEnable = False, 
     ecsd_enhAreaOffset = 0, ecsd_enhAreaSize = 0, ecsd_cache_size = 0, 
     ecsd_hpiEnable = False, ecsd_hpi = False, ecsd_hpiCmd = 0, ecsd_dataSectorSize = 0, 
     ecsd_data_tag_unit_size = 0, ecsd_boot_ro_lock = 0, ecsd_bootSize = 0, 
     ecsd_pwrClF52V195 = 0, ecsd_pwrClF26V195 = 0, ecsd_pwrClF52V360 = 0, 
     ecsd_pwrClF26V360 = 0, ecsd_pwrClF200V195 = 0, ecsd_pwrClF200V360 = 0, 
     ecsd_pwrClDdrF52V195 = 0, ecsd_pwrClDdrF52V360 = 0, ecsd_rawPartitionSupport = 0, 
     ecsd_rawErasedMemCount = 0, ecsd_strobeSupport = 0, ecsd_rawCsdStructure = 0, 
     ecsd_rawCardType = 0, ecsd_outOfInterruptTime = 0, ecsd_rawSaTimeout = 0, 
     ecsd_rawHcWpGrpSize = 0, ecsd_rawEraseTimeoutMult = 0, ecsd_rawHcEraseGrpSize = 0, 
     ecsd_rawSecTrimMult = 0, ecsd_rawSecEraseMult = 0, ecsd_rawSecFeatureSupport = 0, 
     ecsd_rawTrimMult = 0, ecsd_rawSectors = replicate EMMC_EXT_CSD_SEC_CNT_BYTES 0\<rparr>"

record SdScr =
  scr_sdSpec :: uint8_t
  scr_sdSpec3 :: uint8_t
  scr_sdBusWidths :: uint8_t
  scr_cmdSupport :: uint8_t

record SdSsr =
  ssr_speedClass :: uint8_t
  ssr_auSize :: uint8_t
  ssr_eraseSize :: uint16_t
  ssr_eraseTimeout :: uint8_t
  ssr_eraseOffset :: uint8_t
  ssr_uhsSpeedGrade :: uint8_t
  ssr_auValue :: uint32_t

text \<open>The bus modes are kept as the word of the union; its bits are read with \<^const>\<open>bit\<close>.\<close>

record SdSwitchCaps =
  swc_hsMaxDtr :: uint32_t
  swc_uhsMaxDtr :: uint32_t
  swc_sdSpec3BusMode :: uint32_t
  swc_sdSpec3DrvType :: uint32_t
  swc_sdSpec3CurrLimit :: uint32_t

record SdRegister =
  sdr_rawScr :: "uint32_t list"
  sdr_scr :: SdScr
  sdr_ssr :: SdSsr
  sdr_swCaps :: SdSwitchCaps

record SdioCccr =
  cccr_sdioRev :: uint32_t
  cccr_sdRev :: uint32_t
  cccr_multiBlock :: bool
  cccr_lowSpeed :: bool
  cccr_lowSpeed4Bit :: bool
  cccr_highPower :: bool
  cccr_highSpeed :: bool
  cccr_disableCd :: bool

record SdioCis =
  cis_vendorId :: uint16_t
  cis_deviceId :: uint16_t
  cis_blkSize :: uint16_t
  cis_maxDtr :: uint32_t

record SdioFunction =
  sfn_maxBlkSize :: uint32_t
  sfn_curBlkSize :: uint32_t
  sfn_funcNum :: uint32_t
  sfn_funcClass :: uint8_t
  sfn_vendorId :: uint16_t
  sfn_deviceId :: uint16_t
  sfn_timeOut :: uint32_t
  sfn_irqHandler :: bool

definition zero_SdioFunction :: SdioFunction where
  "zero_SdioFunction = \<lparr>sfn_maxBlkSize = 0, sfn_curBlkSize = 0, sfn_funcNum = 0, sfn_funcClass = 0, sfn_vendorId = 0,
     sfn_deviceId = 0, sfn_timeOut = 0, sfn_irqHandler = False\<rparr>"

section \<open>Devices\<close>

text \<open>
  The structures of the three kinds of device begin with the common one.  A device here has the
  common fields, and the rest as optional parts that are present when the object was allocated large
  enough for them; a cast of the current device to a kind it was not allocated for is a fault.
  A pointer to a function of an SDIO card is its index; of a handler of interrupts only its presence
  is kept.  The semaphore of the thread for interrupts is its count, \<^const>\<open>None\<close> before it is made and
  after it is destroyed.
\<close>

record MmcDeviceWorkParam =
  wp_clock :: uint32_t
  wp_width :: uint32_t
  wp_timing :: uint32_t

record MmcDevState =
  dst_present :: bool
  dst_readonly :: bool
  dst_highSpeed :: bool
  dst_blockAddr :: bool
  dst_ddrMode :: bool
  dst_uhs :: bool
  dst_sdxc :: bool
  dst_hs200 :: bool
  dst_removeable :: bool
  dst_hs400 :: bool
  dst_hs400es :: bool

record SdPart =
  sdp_busSpeedMode :: uint32_t
  sdp_reg :: SdRegister

record SdioPart =
  sdio_cccr :: SdioCccr
  sdio_cis :: SdioCis
  sdio_functions :: uint32_t
  sdio_sdioFunc :: "SdioFunction option list"
  sdio_curFunction :: "nat option"
  sdio_sem :: "nat option"
  sdio_irqPending :: bool
  sdio_threadRunning :: bool
  sdio_opsSet :: bool

record EmmcPart =
  emmc_extCsd :: EmmcExtCsd
  emmc_opsSet :: bool

record MmcBlock =
  mmb_secSize :: size_t
  mmb_capacity :: size_t
  mmb_removeable :: bool

record MmcDevice =
  dev_reg :: MmcRegister
  dev_workPara :: MmcDeviceWorkParam
  dev_state :: MmcDevState
  dev_type :: uint32_t
  dev_secSize :: size_t
  dev_capacity :: size_t
  dev_eraseSize :: size_t
  dev_mb :: "MmcBlock option"
  dev_emmc :: "EmmcPart option"
  dev_sd :: "SdPart option"
  dev_sdio :: "SdioPart option"

definition zero_MmcCid :: MmcCid where
  "zero_MmcCid = \<lparr>cid_mid = 0, cid_pnm = replicate CID_PNM_LEN 0, cid_psn = 0, cid_oid = 0, cid_year = 0,
     cid_month = 0, cid_hwPrv = 0, cid_fwPrv = 0\<rparr>"

definition zero_MmcCsd :: MmcCsd where
  "zero_MmcCsd = \<lparr>csd_structure = 0, csd_specVers = 0, csd_ccc = 0, csd_taccClks = 0, csd_taccNs = 0, csd_cSize = 0,
     csd_r2wFactor = 0, csd_maxDtr = 0, csd_eraseSize = 0, csd_readBlkLen = 0, csd_writeBlkLen = 0, csd_capacity = 0,
     csd_rdPartial = False, csd_rdMisalign = False, csd_wrPartial = False, csd_wrMisalign = False\<rparr>"

definition zero_MmcRegister :: MmcRegister where
  "zero_MmcRegister = \<lparr>reg_ocr = 0, reg_rca = 0, reg_rawCid = replicate CID_LEN 0, reg_rawCsd = replicate CSD_LEN 0,
     reg_cid = zero_MmcCid, reg_csd = zero_MmcCsd\<rparr>"

definition zero_MmcDevState :: MmcDevState where
  "zero_MmcDevState = \<lparr>dst_present = False, dst_readonly = False, dst_highSpeed = False, dst_blockAddr = False,
     dst_ddrMode = False, dst_uhs = False, dst_sdxc = False, dst_hs200 = False, dst_removeable = False,
     dst_hs400 = False, dst_hs400es = False\<rparr>"

definition zero_SdPart :: SdPart where
  "zero_SdPart = \<lparr>sdp_busSpeedMode = 0, sdp_reg = \<lparr>sdr_rawScr = replicate SCR_LEN 0,
     sdr_scr = \<lparr>scr_sdSpec = 0, scr_sdSpec3 = 0, scr_sdBusWidths = 0, scr_cmdSupport = 0\<rparr>,
     sdr_ssr = \<lparr>ssr_speedClass = 0, ssr_auSize = 0, ssr_eraseSize = 0, ssr_eraseTimeout = 0, ssr_eraseOffset = 0,
       ssr_uhsSpeedGrade = 0, ssr_auValue = 0\<rparr>,
     sdr_swCaps = \<lparr>swc_hsMaxDtr = 0, swc_uhsMaxDtr = 0, swc_sdSpec3BusMode = 0, swc_sdSpec3DrvType = 0,
       swc_sdSpec3CurrLimit = 0\<rparr>\<rparr>\<rparr>"

definition zero_SdioPart :: SdioPart where
  "zero_SdioPart = \<lparr>sdio_cccr = \<lparr>cccr_sdioRev = 0, cccr_sdRev = 0, cccr_multiBlock = False, cccr_lowSpeed = False,
       cccr_lowSpeed4Bit = False, cccr_highPower = False, cccr_highSpeed = False, cccr_disableCd = False\<rparr>,
     sdio_cis = \<lparr>cis_vendorId = 0, cis_deviceId = 0, cis_blkSize = 0, cis_maxDtr = 0\<rparr>, sdio_functions = 0,
     sdio_sdioFunc = replicate SDIO_MAX_FUNCTION_NUMBER None, sdio_curFunction = None, sdio_sem = None, sdio_irqPending = False,
     sdio_threadRunning = False, sdio_opsSet = False\<rparr>"

definition zero_EmmcPart :: EmmcPart where
  "zero_EmmcPart = \<lparr>emmc_extCsd = zero_EmmcExtCsd, emmc_opsSet = False\<rparr>"

definition zero_MmcDevice :: MmcDevice where
  "zero_MmcDevice = \<lparr>dev_reg = zero_MmcRegister, dev_workPara = \<lparr>wp_clock = 0, wp_width = 0, wp_timing = 0\<rparr>,
     dev_state = zero_MmcDevState, dev_type = 0, dev_secSize = 0, dev_capacity = 0, dev_eraseSize = 0, dev_mb = None,
     dev_emmc = None, dev_sd = None, dev_sdio = None\<rparr>"

section \<open>The controller\<close>

record MmcCaps =
  cap_cap4Bit :: bool
  cap_cap8Bit :: bool
  cap_highSpeed :: bool
  cap_sdioIrq :: bool
  cap_nonremovable :: bool
  cap_ddr1v8 :: bool
  cap_ddr1v2 :: bool
  cap_uhsSdr12 :: bool
  cap_uhsSdr25 :: bool
  cap_uhsSdr50 :: bool
  cap_uhsSdr104 :: bool
  cap_uhsDdr50 :: bool
  cap_xpc330 :: bool
  cap_xpc300 :: bool
  cap_xpc180 :: bool
  cap_maxCurrentLimit200 :: bool
  cap_maxCurrentLimit400 :: bool
  cap_maxCurrentLimit600 :: bool
  cap_maxCurrentLimit800 :: bool
  cap_hardwareReset :: bool
  cap_sdSupportProtocol3 :: bool
  cap_cmdStop :: bool

record MmcCaps2 =
  cap2_hs200Sdr1v8 :: bool
  cap2_hs200Sdr1v2 :: bool
  cap2_hs400Support1v8 :: bool
  cap2_hs400Support1v2 :: bool
  cap2_hs400EnhancedStrobe :: bool

text \<open>What is asked of the hardware and of the platform.\<close>

datatype mmc_event =
    EvRequest MmcCmd
  | EvSetClock uint32_t
  | EvSetPowerMode uint32_t
  | EvSetBusWidth uint32_t
  | EvSetBusTiming uint32_t
  | EvSetSdioIrq bool
  | EvHardwareReset
  | EvSystemInit
  | EvSetEnhanceSrobe bool
  | EvSwitchVoltage uint32_t
  | EvDevReadOnly
  | EvDevPluged
  | EvDevBusy
  | EvTune uint32_t
  | EvCntlrGet
  | EvCntlrPut
  | EvDeviceAdd
  | EvDeviceDel
  | EvDeviceGet
  | EvDevicePut
  | EvBlockOsInit
  | EvBlockOsUninit
  | EvSemInit
  | EvSemDestroy
  | EvThreadCreate
  | EvThreadStart
  | EvThreadDestroy
  | EvIrqHandler uint32_t

text \<open>A message of the controller's queue.\<close>

datatype mmc_msg = MsgRequest MmcCmd | MsgPlug | MsgUnplug | MsgSdioRescan

text \<open>
  The methods of \<open>struct MmcCntlrOps\<close>; of a method whose result is never used only the presence
  matters.  The last two are operations of the platform and of the operating system.
\<close>

record MmcCntlrOps =
  mop_request :: "(mmc_event list \<Rightarrow> MmcCmd \<Rightarrow> int \<times> MmcCmd) option"
  mop_setClock :: bool
  mop_setPowerMode :: bool
  mop_setBusWidth :: bool
  mop_setBusTiming :: bool
  mop_setSdioIrq :: bool
  mop_hardwareReset :: bool
  mop_systemInit :: "(mmc_event list \<Rightarrow> int) option"
  mop_setEnhanceSrobe :: bool
  mop_switchVoltage :: "(mmc_event list \<Rightarrow> uint32_t \<Rightarrow> int) option"
  mop_devReadOnly :: "(mmc_event list \<Rightarrow> bool) option"
  mop_devPluged :: "(mmc_event list \<Rightarrow> bool) option"
  mop_devBusy :: "(mmc_event list \<Rightarrow> bool) option"
  mop_tune :: "(mmc_event list \<Rightarrow> uint32_t \<Rightarrow> int) option"

record MmcCntlr =
  mc_devType :: uint32_t
  mc_curDev :: "MmcDevice option"
  mc_ops :: "MmcCntlrOps option"
  mc_voltDef :: uint16_t
  mc_vddBit :: uint32_t
  mc_freqMin :: uint32_t
  mc_freqMax :: uint32_t
  mc_freqDef :: uint32_t
  mc_ocrDef :: uint32_t
  mc_caps :: MmcCaps
  mc_caps2 :: MmcCaps2
  mc_maxBlkNum :: uint32_t
  mc_maxBlkSize :: uint32_t
  mc_maxReqSize :: uint32_t
  mc_devPluged :: bool
  mc_detecting :: bool
  mc_msgs :: "mmc_msg list"
  mc_trace :: "mmc_event list"
  mc_mem :: alloc_oracle
  mc_deviceAdd :: "mmc_event list \<Rightarrow> int"
  mc_blockOsInit :: "mmc_event list \<Rightarrow> int"
  mc_osal :: "mmc_event list \<Rightarrow> int"

definition mc_log :: "mmc_event \<Rightarrow> MmcCntlr \<Rightarrow> MmcCntlr" where
  "mc_log e c = c\<lparr>mc_trace := mc_trace c @ [e]\<rparr>"

text \<open>Access through \<open>cntlr->curDev\<close>, and through its casts.\<close>

definition upd_dev :: "(MmcDevice \<Rightarrow> MmcDevice) \<Rightarrow> MmcCntlr \<Rightarrow> MmcCntlr option" where
  "upd_dev f c = do {
     d \<leftarrow> mc_curDev c;
     Some (c\<lparr>mc_curDev := Some (f d)\<rparr>)
   }"

definition dev_of :: "(MmcDevice \<Rightarrow> 'a) \<Rightarrow> MmcCntlr \<Rightarrow> 'a option" where
  "dev_of f c = map_option f (mc_curDev c)"

definition sd_of :: "(SdPart \<Rightarrow> 'a) \<Rightarrow> MmcCntlr \<Rightarrow> 'a option" where
  "sd_of f c = mc_curDev c \<bind> (\<lambda>d. map_option f (dev_sd d))"

definition sdio_of :: "(SdioPart \<Rightarrow> 'a) \<Rightarrow> MmcCntlr \<Rightarrow> 'a option" where
  "sdio_of f c = mc_curDev c \<bind> (\<lambda>d. map_option f (dev_sdio d))"

definition ecsd_of :: "(EmmcExtCsd \<Rightarrow> 'a) \<Rightarrow> MmcCntlr \<Rightarrow> 'a option" where
  "ecsd_of f c = mc_curDev c \<bind> (\<lambda>d. map_option (\<lambda>e. f (emmc_extCsd e)) (dev_emmc d))"

definition upd_sd :: "(SdPart \<Rightarrow> SdPart) \<Rightarrow> MmcCntlr \<Rightarrow> MmcCntlr option" where
  "upd_sd f c = do {
     d \<leftarrow> mc_curDev c;
     p \<leftarrow> dev_sd d;
     Some (c\<lparr>mc_curDev := Some (d\<lparr>dev_sd := Some (f p)\<rparr>)\<rparr>)
   }"

definition upd_sdio :: "(SdioPart \<Rightarrow> SdioPart) \<Rightarrow> MmcCntlr \<Rightarrow> MmcCntlr option" where
  "upd_sdio f c = do {
     d \<leftarrow> mc_curDev c;
     p \<leftarrow> dev_sdio d;
     Some (c\<lparr>mc_curDev := Some (d\<lparr>dev_sdio := Some (f p)\<rparr>)\<rparr>)
   }"

definition upd_ecsd :: "(EmmcExtCsd \<Rightarrow> EmmcExtCsd) \<Rightarrow> MmcCntlr \<Rightarrow> MmcCntlr option" where
  "upd_ecsd f c = do {
     d \<leftarrow> mc_curDev c;
     p \<leftarrow> dev_emmc d;
     Some (c\<lparr>mc_curDev := Some (d\<lparr>dev_emmc := Some (p\<lparr>emmc_extCsd := f (emmc_extCsd p)\<rparr>)\<rparr>)\<rparr>)
   }"

abbreviation upd_state :: "(MmcDevState \<Rightarrow> MmcDevState) \<Rightarrow> MmcCntlr \<Rightarrow> MmcCntlr option" where
  "upd_state f \<equiv> upd_dev (\<lambda>d. d\<lparr>dev_state := f (dev_state d)\<rparr>)"

abbreviation upd_reg :: "(MmcRegister \<Rightarrow> MmcRegister) \<Rightarrow> MmcCntlr \<Rightarrow> MmcCntlr option" where
  "upd_reg f \<equiv> upd_dev (\<lambda>d. d\<lparr>dev_reg := f (dev_reg d)\<rparr>)"

abbreviation upd_csd :: "(MmcCsd \<Rightarrow> MmcCsd) \<Rightarrow> MmcCntlr \<Rightarrow> MmcCntlr option" where
  "upd_csd f \<equiv> upd_reg (\<lambda>r. r\<lparr>reg_csd := f (reg_csd r)\<rparr>)"

text \<open>The pattern \<open>if (err != HDF_SUCCESS) return err;\<close> after a call.\<close>

definition on_success :: "(int \<times> MmcCntlr) option \<Rightarrow> (MmcCntlr \<Rightarrow> (int \<times> MmcCntlr) option) \<Rightarrow> (int \<times> MmcCntlr) option" where
  "on_success m k = do {
     (err, c) \<leftarrow> m;
     if err \<noteq> st HDF_SUCCESS then Some (err, c) else k c
   }"

section \<open>The host controller\<close>

text \<open>
  The descriptor of the data is the caller's object: a method may change its contents, not whether
  there is one.
\<close>

definition answered_cmd :: "MmcCmd \<Rightarrow> MmcCmd \<Rightarrow> MmcCmd" where
  "answered_cmd cmd cmd' = cmd'\<lparr>cmd_data := (case (cmd_data cmd, cmd_data cmd') of
     (None, _) \<Rightarrow> None | (Some d, None) \<Rightarrow> Some d | (Some _, Some d') \<Rightarrow> Some d')\<rparr>"

definition MmcCntlrDoRequest :: "MmcCntlr \<Rightarrow> MmcCmd \<Rightarrow> int \<times> MmcCmd \<times> MmcCntlr" where
  "MmcCntlrDoRequest cntlr cmd =
     (case mc_ops cntlr \<bind> mop_request of
        None \<Rightarrow> (st HDF_ERR_NOT_SUPPORT, cmd, cntlr)
      | Some request \<Rightarrow> case request (mc_trace cntlr) cmd of (ret, cmd') \<Rightarrow> (ret, answered_cmd cmd cmd', mc_log (EvRequest cmd) cntlr))"

definition has_method :: "(MmcCntlrOps \<Rightarrow> bool) \<Rightarrow> MmcCntlr \<Rightarrow> bool" where
  "has_method m cntlr \<longleftrightarrow> (case mc_ops cntlr of None \<Rightarrow> False | Some ops \<Rightarrow> m ops)"

definition MmcCntlrSetClock :: "MmcCntlr \<Rightarrow> uint32_t \<Rightarrow> MmcCntlr option" where
  "MmcCntlrSetClock cntlr clock =
     (if \<not> has_method mop_setClock cntlr then Some cntlr
      else do {
        cntlr \<leftarrow> upd_dev (\<lambda>d. d\<lparr>dev_workPara := (dev_workPara d)\<lparr>wp_clock := clock\<rparr>\<rparr>) cntlr;
        Some (mc_log (EvSetClock clock) cntlr)
      })"

definition MmcCntlrSetBusWidth :: "MmcCntlr \<Rightarrow> uint32_t \<Rightarrow> MmcCntlr option" where
  "MmcCntlrSetBusWidth cntlr width =
     (if \<not> has_method mop_setBusWidth cntlr then Some cntlr
      else do {
        cntlr \<leftarrow> upd_dev (\<lambda>d. d\<lparr>dev_workPara := (dev_workPara d)\<lparr>wp_width := width\<rparr>\<rparr>) cntlr;
        Some (mc_log (EvSetBusWidth width) cntlr)
      })"

definition MmcCntlrSetBusTiming :: "MmcCntlr \<Rightarrow> uint32_t \<Rightarrow> MmcCntlr option" where
  "MmcCntlrSetBusTiming cntlr timing =
     (if \<not> has_method mop_setBusTiming cntlr then Some cntlr
      else do {
        cntlr \<leftarrow> upd_dev (\<lambda>d. d\<lparr>dev_workPara := (dev_workPara d)\<lparr>wp_timing := timing\<rparr>\<rparr>) cntlr;
        Some (mc_log (EvSetBusTiming timing) cntlr)
      })"

definition MmcCntlrSetEnhanceSrobe :: "MmcCntlr \<Rightarrow> bool \<Rightarrow> MmcCntlr" where
  "MmcCntlrSetEnhanceSrobe cntlr enable =
     (if \<not> has_method mop_setEnhanceSrobe cntlr then cntlr else mc_log (EvSetEnhanceSrobe enable) cntlr)"

definition MmcCntlrSwitchVoltage :: "MmcCntlr \<Rightarrow> uint32_t \<Rightarrow> int \<times> MmcCntlr" where
  "MmcCntlrSwitchVoltage cntlr voltage =
     (case mc_ops cntlr \<bind> mop_switchVoltage of
        None \<Rightarrow> (st HDF_ERR_INVALID_PARAM, cntlr)
      | Some switchVoltage \<Rightarrow> (switchVoltage (mc_trace cntlr) voltage, mc_log (EvSwitchVoltage voltage) cntlr))"

definition MmcCntlrDevReadOnly :: "MmcCntlr \<Rightarrow> bool \<times> MmcCntlr" where
  "MmcCntlrDevReadOnly cntlr =
     (case mc_ops cntlr \<bind> mop_devReadOnly of
        None \<Rightarrow> (False, cntlr)
      | Some devReadOnly \<Rightarrow> (devReadOnly (mc_trace cntlr), mc_log EvDevReadOnly cntlr))"

definition MmcCntlrDevPluged :: "MmcCntlr \<Rightarrow> bool \<times> MmcCntlr" where
  "MmcCntlrDevPluged cntlr =
     (case mc_ops cntlr \<bind> mop_devPluged of
        None \<Rightarrow> (False, cntlr)
      | Some devPluged \<Rightarrow>
          if cap_nonremovable (mc_caps cntlr) then (True, cntlr)
          else (devPluged (mc_trace cntlr), mc_log EvDevPluged cntlr))"

definition MmcCntlrDevBusy :: "MmcCntlr \<Rightarrow> bool \<times> MmcCntlr" where
  "MmcCntlrDevBusy cntlr =
     (case mc_ops cntlr \<bind> mop_devBusy of
        None \<Rightarrow> (True, cntlr)
      | Some devBusy \<Rightarrow> (devBusy (mc_trace cntlr), mc_log EvDevBusy cntlr))"

definition MmcCntlrTune :: "MmcCntlr \<Rightarrow> uint32_t \<Rightarrow> int \<times> MmcCntlr" where
  "MmcCntlrTune cntlr cmdCode =
     (case mc_ops cntlr \<bind> mop_tune of
        None \<Rightarrow> (st HDF_ERR_INVALID_PARAM, cntlr)
      | Some tune \<Rightarrow> (tune (mc_trace cntlr) cmdCode, mc_log (EvTune cmdCode) cntlr))"

text \<open>
  The range of voltages both sides support.  The loop looks for the lowest common bit; its counter
  is 24 when there is none.  A bit field of the union is a bit of the word.
\<close>

fun lowest_bit_loop :: "uint32_t \<Rightarrow> nat \<Rightarrow> nat \<Rightarrow> nat" where
  "lowest_bit_loop tmpOcr i 0 = i"
| "lowest_bit_loop tmpOcr i (Suc n) = (if tmpOcr AND push_bit i 1 > 0 then i else lowest_bit_loop tmpOcr (Suc i) n)"

definition MmcCntlrSelectWorkVoltage :: "MmcCntlr \<Rightarrow> uint32_t \<Rightarrow> (uint32_t \<times> MmcCntlr) option" where
  "MmcCntlrSelectWorkVoltage cntlr ocr = do {
     let ocr = (if ocr AND 0x7F > 0 then ocr AND NOT 0x7F else ocr);
     let ocr = (if \<not> bit (mc_ocrDef cntlr) 7 then unset_bit 7 ocr else ocr);
     let tmpOcr = ocr AND mc_ocrDef cntlr;
     let i = lowest_bit_loop tmpOcr 0 (Suc MMC_OCR_MAX_VOLTAGE_BIT);
     let (tmpOcr, cntlr) = (if i > 0 \<and> i \<le> MMC_OCR_MAX_VOLTAGE_BIT
       then (tmpOcr AND push_bit i MMC_OCR_MAX_SHIFT_BITS, cntlr\<lparr>mc_vddBit := of_nat i\<rparr>)
       else (0, cntlr));
     cntlr \<leftarrow> upd_reg (\<lambda>r. r\<lparr>reg_ocr := tmpOcr\<rparr>) cntlr;
     Some (ocr, cntlr)
   }"

definition log_if :: "bool \<Rightarrow> mmc_event \<Rightarrow> MmcCntlr \<Rightarrow> MmcCntlr" where
  "log_if b e c = (if b then mc_log e c else c)"

text \<open>The result of \<open>switchVoltage\<close> is not used here.\<close>

definition MmcCntlrPowerUp :: "MmcCntlr \<Rightarrow> MmcCntlr" where
  "MmcCntlrPowerUp cntlr =
     (case mc_ops cntlr of None \<Rightarrow> cntlr
      | Some ops \<Rightarrow>
          let cntlr = log_if (mop_setEnhanceSrobe ops) (EvSetEnhanceSrobe False) cntlr;
              cntlr = log_if (mop_setClock ops) (EvSetClock 0) cntlr;
              cntlr = log_if (mop_setPowerMode ops) (EvSetPowerMode MMC_POWER_MODE_POWER_UP) cntlr;
              cntlr = log_if (mop_setBusWidth ops) (EvSetBusWidth BUS_WIDTH1) cntlr;
              cntlr = log_if (mop_setBusTiming ops) (EvSetBusTiming BUS_TIMING_MMC_DS) cntlr;
              cntlr = log_if (mop_setClock ops) (EvSetClock (mc_freqDef cntlr)) cntlr;
              cntlr = log_if (mop_setPowerMode ops) (EvSetPowerMode MMC_POWER_MODE_POWER_ON) cntlr;
              cntlr = log_if (mop_hardwareReset ops \<and> cap_hardwareReset (mc_caps cntlr)) EvHardwareReset cntlr
          in log_if (mop_switchVoltage ops \<noteq> None) (EvSwitchVoltage (ucast (mc_voltDef cntlr))) cntlr)"

definition MmcCntlrPowerOff :: "MmcCntlr \<Rightarrow> MmcCntlr" where
  "MmcCntlrPowerOff cntlr =
     (case mc_ops cntlr of None \<Rightarrow> cntlr
      | Some ops \<Rightarrow>
          let cntlr = log_if (mop_setClock ops) (EvSetClock 0) cntlr;
              cntlr = log_if (mop_setPowerMode ops) (EvSetPowerMode MMC_POWER_MODE_POWER_OFF) cntlr
          in log_if (mop_setBusWidth ops) (EvSetBusWidth BUS_WIDTH1) cntlr)"

definition MmcCntlrAllocDev :: "MmcCntlr \<Rightarrow> uint32_t \<Rightarrow> int \<times> MmcCntlr" where
  "MmcCntlrAllocDev cntlr devType =
     (let dev =
        (if devType = MMC_DEV_SDIO \<or> devType = MMC_DEV_COMBO
         then Some (zero_MmcDevice\<lparr>dev_sd := Some zero_SdPart, dev_sdio := Some zero_SdioPart\<rparr>)
         else if devType = MMC_DEV_SD then Some (zero_MmcDevice\<lparr>dev_sd := Some zero_SdPart\<rparr>)
         else if devType = MMC_DEV_EMMC then Some (zero_MmcDevice\<lparr>dev_emmc := Some zero_EmmcPart\<rparr>)
         else None)
      in case dev of
           None \<Rightarrow> (st HDF_ERR_INVALID_PARAM, cntlr)
         | Some mmc \<Rightarrow>
             let (ok, mem) = osal_alloc (mc_mem cntlr);
                 cntlr = cntlr\<lparr>mc_mem := mem\<rparr>
             in if \<not> ok then (st HDF_ERR_MALLOC_FAIL, cntlr)
                else (0, cntlr\<lparr>mc_curDev := Some (mmc\<lparr>dev_type := devType\<rparr>)\<rparr>))"

definition MmcCntlrFreeDev :: "MmcCntlr \<Rightarrow> MmcCntlr" where
  "MmcCntlrFreeDev cntlr = cntlr\<lparr>mc_curDev := None\<rparr>"

definition MmcCntlrSupportUhs :: "MmcCntlr \<Rightarrow> bool" where
  "MmcCntlrSupportUhs cntlr \<longleftrightarrow>
     cap_uhsSdr12 (mc_caps cntlr) \<or> cap_uhsSdr25 (mc_caps cntlr) \<or> cap_uhsSdr50 (mc_caps cntlr) \<or>
     cap_uhsSdr104 (mc_caps cntlr) \<or> cap_uhsDdr50 (mc_caps cntlr)"

definition MmcCntlrSupportHighSpeed400EnhancedStrobe :: "MmcCntlr \<Rightarrow> bool" where
  "MmcCntlrSupportHighSpeed400EnhancedStrobe cntlr \<longleftrightarrow>
     cap2_hs400EnhancedStrobe (mc_caps2 cntlr) \<and> cap_cap8Bit (mc_caps cntlr) \<and>
     cap2_hs400Support1v2 (mc_caps2 cntlr) \<and> cap2_hs400Support1v8 (mc_caps2 cntlr)"

definition MmcCntlrSupportHighSpeed400 :: "MmcCntlr \<Rightarrow> bool" where
  "MmcCntlrSupportHighSpeed400 cntlr \<longleftrightarrow>
     cap_cap8Bit (mc_caps cntlr) \<and> cap2_hs400Support1v2 (mc_caps2 cntlr) \<and> cap2_hs400Support1v8 (mc_caps2 cntlr)"

definition MmcCntlrSupportHighSpeed200 :: "MmcCntlr \<Rightarrow> bool" where
  "MmcCntlrSupportHighSpeed200 cntlr \<longleftrightarrow> cap2_hs200Sdr1v8 (mc_caps2 cntlr) \<or> cap2_hs200Sdr1v2 (mc_caps2 cntlr)"

definition MmcCntlrSdSupportCmd23 :: "MmcCntlr \<Rightarrow> bool option" where
  "MmcCntlrSdSupportCmd23 cntlr =
     (case mc_curDev cntlr of None \<Rightarrow> Some False
      | Some d \<Rightarrow>
          if dev_type d \<noteq> MMC_DEV_SD \<and> dev_type d \<noteq> MMC_DEV_COMBO then Some False
          else do {
            support \<leftarrow> sd_of (\<lambda>p. scr_cmdSupport (sdr_scr (sdp_reg p))) cntlr;
            Some (support AND SD_SCR_SET_BLOCK_COUNT_SUPPORT > 0)
          })"

definition MmcCntlrEmmcSupportCmd23 :: "MmcCntlr \<Rightarrow> bool" where
  "MmcCntlrEmmcSupportCmd23 cntlr =
     (case mc_curDev cntlr of None \<Rightarrow> False
      | Some d \<Rightarrow>
          if dev_type d \<noteq> MMC_DEV_EMMC then False
          else csd_ccc (reg_csd (dev_reg d)) AND MMC_CSD_CCC_BLOCK_READ > 0 \<or>
            csd_ccc (reg_csd (dev_reg d)) AND MMC_CSD_CCC_BLOCK_WRITE > 0)"

section \<open>Adding and removing a device\<close>

definition MmcBlockInit :: "MmcCntlr \<Rightarrow> (int \<times> MmcCntlr) option" where
  "MmcBlockInit cntlr = do {
     mmcDevice \<leftarrow> mc_curDev cntlr;
     let cntlr = mc_log EvDeviceGet cntlr;
     let (ok, mem) = osal_alloc (mc_mem cntlr);
     let cntlr = cntlr\<lparr>mc_mem := mem\<rparr>;
     if \<not> ok then Some (st HDF_ERR_MALLOC_FAIL, mc_log EvDevicePut cntlr)
     else do {
       cntlr \<leftarrow> upd_dev (\<lambda>d. d\<lparr>dev_mb := Some \<lparr>mmb_secSize = dev_secSize d, mmb_capacity = dev_capacity d,
         mmb_removeable = dst_removeable (dev_state d)\<rparr>\<rparr>) cntlr;
       let ret = mc_blockOsInit cntlr (mc_trace cntlr);
       let cntlr = mc_log EvBlockOsInit cntlr;
       if ret \<noteq> st HDF_SUCCESS then Some (ret, mc_log EvDevicePut cntlr)
       else Some (st HDF_SUCCESS, cntlr)
     }
   }"

definition MmcBlockUninit :: "MmcCntlr \<Rightarrow> MmcCntlr option" where
  "MmcBlockUninit cntlr = do {
     let cntlr = mc_log EvBlockOsUninit cntlr;
     cntlr \<leftarrow> upd_dev (\<lambda>d. d\<lparr>dev_mb := None\<rparr>) cntlr;
     Some (mc_log EvDevicePut cntlr)
   }"

definition block_device :: "MmcDevice \<Rightarrow> bool" where
  "block_device d \<longleftrightarrow> dev_type d = MMC_DEV_EMMC \<or> dev_type d = MMC_DEV_SD \<or> dev_type d = MMC_DEV_COMBO"

definition MmcDeviceAdd :: "MmcCntlr \<Rightarrow> (int \<times> MmcCntlr) option" where
  "MmcDeviceAdd cntlr =
     (case mc_curDev cntlr of None \<Rightarrow> Some (st HDF_ERR_INVALID_OBJECT, cntlr)
      | Some mmc \<Rightarrow>
          if dev_type mmc \<ge> MMC_DEV_INVALID then Some (HDF_PLT_ERR_DEV_TYPE, cntlr)
          else if dev_secSize mmc \<noteq> 0 then Some (st HDF_ERR_INVALID_PARAM, cntlr)
          else do {
            cntlr \<leftarrow> upd_dev (\<lambda>d. d\<lparr>dev_secSize := MMC_SEC_SIZE\<rparr>) cntlr;
            if dev_type mmc \<noteq> MMC_DEV_SDIO \<and> dev_capacity mmc = 0 then Some (st HDF_ERR_INVALID_PARAM, cntlr)
            else if dev_type mmc \<noteq> MMC_DEV_SDIO \<and> dev_eraseSize mmc = 0 then Some (st HDF_ERR_INVALID_PARAM, cntlr)
            else do {
              let cntlr = mc_log EvCntlrGet cntlr;
              let ret = mc_deviceAdd cntlr (mc_trace cntlr);
              let cntlr = mc_log EvDeviceAdd cntlr;
              if ret \<noteq> st HDF_SUCCESS then Some (ret, mc_log EvCntlrPut cntlr)
              else if block_device mmc then do {
                (ret, cntlr) \<leftarrow> MmcBlockInit cntlr;
                if ret \<noteq> st HDF_SUCCESS then Some (ret, mc_log EvDeviceDel (mc_log EvCntlrPut cntlr))
                else Some (st HDF_SUCCESS, cntlr)
              }
              else Some (st HDF_SUCCESS, cntlr)
            }
          })"

definition MmcDeviceRemove :: "MmcCntlr \<Rightarrow> MmcCntlr option" where
  "MmcDeviceRemove cntlr =
     (case mc_curDev cntlr of None \<Rightarrow> Some cntlr
      | Some mmc \<Rightarrow> do {
          cntlr \<leftarrow> (if block_device mmc then MmcBlockUninit cntlr else Some cntlr);
          Some (mc_log EvCntlrPut (mc_log EvDeviceDel cntlr))
        })"

end
