(* ===== verification/Mmc_Cmd.thy ===== *)
theory Mmc_Cmd
  imports Mmc_Base
begin

text \<open>
  The storage stack, second part: reading bit fields of the registers, and the commands of
  \<^verbatim>\<open>mmc_protocol.c\<close> that the three kinds of card share.  An operation that sends a command gives
  back the command with the answer, next to the status and the controller.
\<close>

abbreviation (input) BITS_NUMBER_OF_4_BYTES where "BITS_NUMBER_OF_4_BYTES \<equiv> 32"
abbreviation (input) GO_IDLE_STATE where "GO_IDLE_STATE \<equiv> 0"
abbreviation (input) MMC_RESP_SPI_R1 where "MMC_RESP_SPI_R1 \<equiv> 128"
abbreviation (input) MMC_RESP_NONE where "MMC_RESP_NONE \<equiv> 0"
abbreviation (input) MMC_CMD_TYPE_BC where "MMC_CMD_TYPE_BC \<equiv> 64"
abbreviation (input) MMC_CARD_BUSY_STATUS where "MMC_CARD_BUSY_STATUS \<equiv> 0x80000000"
abbreviation (input) SEND_OP_COND where "SEND_OP_COND \<equiv> 1"
abbreviation (input) MMC_RESP_R3 where "MMC_RESP_R3 \<equiv> 1"
abbreviation (input) MMC_CMD_TYPE_BCR where "MMC_CMD_TYPE_BCR \<equiv> 96"
abbreviation (input) INIT_CMD_RETRY_TIMES where "INIT_CMD_RETRY_TIMES \<equiv> 100"
abbreviation (input) ALL_SEND_CID where "ALL_SEND_CID \<equiv> 2"
abbreviation (input) MMC_RESP_R2 where "MMC_RESP_R2 \<equiv> 7"
abbreviation (input) MMC_CMD_DEFAULT_RETRY_TIMES where "MMC_CMD_DEFAULT_RETRY_TIMES \<equiv> 3"
abbreviation (input) SET_RELATIVE_ADDR where "SET_RELATIVE_ADDR \<equiv> 3"
abbreviation (input) MMC_RESP_R1 where "MMC_RESP_R1 \<equiv> 21"
abbreviation (input) MMC_CMD_TYPE_AC where "MMC_CMD_TYPE_AC \<equiv> 0"
abbreviation (input) SELECT_CARD where "SELECT_CARD \<equiv> 7"
abbreviation (input) SEND_CSD where "SEND_CSD \<equiv> 9"
abbreviation (input) SEND_STATUS where "SEND_STATUS \<equiv> 13"
abbreviation (input) MMC_RESP_SPI_R2 where "MMC_RESP_SPI_R2 \<equiv> 384"
abbreviation (input) READY_FOR_DATA where "READY_FOR_DATA \<equiv> 0x100"
abbreviation (input) SWITCH where "SWITCH \<equiv> 6"
abbreviation (input) EMMC_EXT_CSD_WRITE_BYTE where "EMMC_EXT_CSD_WRITE_BYTE \<equiv> 3"
abbreviation (input) MMC_RESP_SPI_R1B where "MMC_RESP_SPI_R1B \<equiv> 1152"
abbreviation (input) MMC_RESP_R1B where "MMC_RESP_R1B \<equiv> 29"
abbreviation (input) SWITCH_ERROR where "SWITCH_ERROR \<equiv> 128"
abbreviation (input) SD_ACMD_OP_COND where "SD_ACMD_OP_COND \<equiv> 41"
abbreviation (input) APP_CMD where "APP_CMD \<equiv> 55"
abbreviation (input) IS_APP_CMD where "IS_APP_CMD \<equiv> 32"
abbreviation (input) STATE_PRG where "STATE_PRG \<equiv> 7"
abbreviation (input) SEND_STATUS_CMD_RETRY_TIMES where "SEND_STATUS_CMD_RETRY_TIMES \<equiv> 100"
abbreviation (input) STOP_TRANSMISSION where "STOP_TRANSMISSION \<equiv> 12"
abbreviation (input) STOP_TRANSMISSION_CMD_RETRY_TIMES where "STOP_TRANSMISSION_CMD_RETRY_TIMES \<equiv> 5"
abbreviation (input) SEND_EXT_CSD where "SEND_EXT_CSD \<equiv> 8"
abbreviation (input) MMC_CMD_TYPE_ADTC where "MMC_CMD_TYPE_ADTC \<equiv> 32"
abbreviation (input) DATA_READ where "DATA_READ \<equiv> 2"
abbreviation (input) BUS_WIDTH4 where "BUS_WIDTH4 \<equiv> 2"
abbreviation (input) BUS_WIDTH8 where "BUS_WIDTH8 \<equiv> 3"
abbreviation (input) MMC_MAX_BLOCKSIZE_SHIFT where "MMC_MAX_BLOCKSIZE_SHIFT \<equiv> 9"
abbreviation (input) SD_CMD_ERASE_WR_BLK_START where "SD_CMD_ERASE_WR_BLK_START \<equiv> 32"
abbreviation (input) ERASE_GROUP_START where "ERASE_GROUP_START \<equiv> 35"
abbreviation (input) SD_CMD_ERASE_WR_BLK_END where "SD_CMD_ERASE_WR_BLK_END \<equiv> 33"
abbreviation (input) ERASE_GROUP_END where "ERASE_GROUP_END \<equiv> 36"
abbreviation (input) MMC_ERASE where "MMC_ERASE \<equiv> 38"
abbreviation (input) MMC_CSD_CCC_ERASE where "MMC_CSD_CCC_ERASE \<equiv> 32"
abbreviation (input) BYTES_PER_BLOCK where "BYTES_PER_BLOCK \<equiv> 0x200"
abbreviation (input) DATA_WRITE where "DATA_WRITE \<equiv> 1"
abbreviation (input) WRITE_MULTIPLE_BLOCK where "WRITE_MULTIPLE_BLOCK \<equiv> 25"
abbreviation (input) WRITE_BLOCK where "WRITE_BLOCK \<equiv> 24"
abbreviation (input) READ_MULTIPLE_BLOCK where "READ_MULTIPLE_BLOCK \<equiv> 18"
abbreviation (input) READ_SINGLE_BLOCK where "READ_SINGLE_BLOCK \<equiv> 17"

section \<open>Bit fields\<close>

definition g_tranSpeedUnit :: "uint32_t list" where
  "g_tranSpeedUnit = [10000, 100000, 1000000, 10000000, 0, 0, 0, 0]"

definition g_taccUnit :: "uint32_t list" where
  "g_taccUnit = [1, 10, 100, 1000, 10000, 100000, 1000000, 10000000]"

definition g_commFactor :: "uint32_t list" where
  "g_commFactor = [0, 10, 12, 13, 15, 20, 25, 30, 35, 40, 45, 50, 55, 60, 70, 80]"

definition MmcEndianConversion :: "uint32_t \<Rightarrow> uint32_t" where
  "MmcEndianConversion x =
     push_bit 24 (x AND 0x000000ff) OR push_bit 8 (x AND 0x0000ff00) OR
     drop_bit 8 (x AND 0x00ff0000) OR drop_bit 24 (x AND 0xff000000)"

definition MmcParseBits :: "uint32_t list \<Rightarrow> uint32_t \<Rightarrow> uint32_t \<Rightarrow> uint32_t \<Rightarrow> uint32_t option" where
  "MmcParseBits data bitsLen start sz =
     (if start \<ge> bitsLen \<or> sz = 0 then Some 0
      else if sz > BITS_NUMBER_OF_4_BYTES then Some 0
      else do {
        let index = bitsLen div BITS_NUMBER_OF_4_BYTES - start div BITS_NUMBER_OF_4_BYTES - 1;
        let shift = start AND (BITS_NUMBER_OF_4_BYTES - 1);
        w \<leftarrow> arr_get data (unat index);
        let ret = drop_bit (unat shift) w;
        ret \<leftarrow> (if sz + shift > BITS_NUMBER_OF_4_BYTES then do {
                  w \<leftarrow> arr_get data (unat (index - 1));
                  Some (ret OR push_bit (unat (BITS_NUMBER_OF_4_BYTES - shift)) w)
                } else Some ret);
        Some (if sz < BITS_NUMBER_OF_4_BYTES then ret AND (push_bit (unat sz) 1 - 1) else ret AND 0xFFFFFFFF)
      })"

text \<open>A shift by the width of the word or more is undefined in C.\<close>

definition shl32 :: "uint32_t \<Rightarrow> uint32_t \<Rightarrow> uint32_t option" where
  "shl32 w n = (if n < 32 then Some (push_bit (unat n) w) else None)"

section \<open>Sending a command\<close>

definition mk_cmd :: "uint32_t \<Rightarrow> uint32_t \<Rightarrow> uint32_t \<Rightarrow> MmcCmd" where
  "mk_cmd code arg respType =
     zero_MmcCmd\<lparr>cmd_cmdCode := code, cmd_argument := arg, cmd_respType := respType\<rparr>"

definition resp0 :: "MmcCmd \<Rightarrow> uint32_t option" where
  "resp0 cmd = arr_get (cmd_resp cmd) 0"

definition resp_all :: "MmcCmd \<Rightarrow> uint32_t list option" where
  "resp_all cmd = (if length (cmd_resp cmd) = MMC_CMD_RESP_SIZE then Some (cmd_resp cmd) else None)"

definition data_error :: "MmcCmd \<Rightarrow> int" where
  "data_error cmd = (case cmd_data cmd of None \<Rightarrow> st HDF_SUCCESS | Some d \<Rightarrow> dat_returnError d)"

fun send_loop :: "nat \<Rightarrow> MmcCmd \<Rightarrow> MmcCntlr \<Rightarrow> MmcCmd \<times> MmcCntlr" where
  "send_loop 0 cmd cntlr = (cmd, cntlr)"
| "send_loop (Suc n) cmd cntlr =
     (case MmcCntlrDoRequest cntlr cmd of (ret, cmd, cntlr) \<Rightarrow>
        if ret \<noteq> st HDF_SUCCESS then send_loop n cmd cntlr
        else if cmd_returnError cmd \<noteq> st HDF_SUCCESS then send_loop n cmd cntlr
        else if data_error cmd \<noteq> st HDF_SUCCESS then send_loop n cmd cntlr
        else (cmd, cntlr))"

definition MmcSendCmd :: "MmcCntlr \<Rightarrow> MmcCmd \<Rightarrow> MmcData option \<Rightarrow> nat \<Rightarrow> int \<times> MmcCmd \<times> MmcCntlr" where
  "MmcSendCmd cntlr cmd data retryTimes =
     (if retryTimes = 0 then (st HDF_ERR_INVALID_PARAM, cmd, cntlr)
      else if \<not> has_method (\<lambda>ops. mop_request ops \<noteq> None) cntlr then (st HDF_ERR_NOT_SUPPORT, cmd, cntlr)
      else let (cmd, cntlr) = send_loop retryTimes (cmd\<lparr>cmd_data := data\<rparr>) cntlr
           in (if cmd_returnError cmd \<noteq> st HDF_SUCCESS then cmd_returnError cmd else data_error cmd, cmd, cntlr))"

section \<open>Commands without data\<close>

definition MmcGoIdleState :: "MmcCntlr \<Rightarrow> MmcCntlr" where
  "MmcGoIdleState cntlr =
     (let cmd = mk_cmd GO_IDLE_STATE 0 (MMC_RESP_SPI_R1 OR MMC_RESP_NONE OR MMC_CMD_TYPE_BC)
      in snd (snd (MmcSendCmd cntlr cmd None 1)))"

text \<open>
  The loops that poll a card until it has finished its initialisation differ only in how the command
  is sent.
\<close>

fun op_cond_loop ::
    "(MmcCntlr \<Rightarrow> MmcCmd \<Rightarrow> (int \<times> MmcCmd \<times> MmcCntlr) option) \<Rightarrow> uint32_t \<Rightarrow> nat \<Rightarrow> int \<Rightarrow> MmcCmd \<Rightarrow> MmcCntlr \<Rightarrow>
      (int \<times> MmcCmd \<times> MmcCntlr) option" where
  "op_cond_loop send arg 0 err cmd cntlr = Some (err, cmd, cntlr)"
| "op_cond_loop send arg (Suc n) err cmd cntlr = do {
     (err, cmd, cntlr) \<leftarrow> send cntlr cmd;
     if err \<noteq> st HDF_SUCCESS then Some (err, cmd, cntlr)
     else do {
       r \<leftarrow> resp0 cmd;
       if arg = 0 \<or> r AND MMC_CARD_BUSY_STATUS > 0 then Some (err, cmd, cntlr)
       else op_cond_loop send arg n (st HDF_ERR_TIMEOUT) cmd cntlr
     }
   }"

definition MmcSendOpCond :: "MmcCntlr \<Rightarrow> uint32_t \<Rightarrow> (int \<times> uint32_t \<times> MmcCntlr) option" where
  "MmcSendOpCond cntlr arg = do {
     let cmd = mk_cmd SEND_OP_COND arg (MMC_RESP_SPI_R1 OR MMC_RESP_R3 OR MMC_CMD_TYPE_BCR);
     (err, cmd, cntlr) \<leftarrow> op_cond_loop (\<lambda>cntlr cmd. Some (MmcSendCmd cntlr cmd None 1)) arg INIT_CMD_RETRY_TIMES 0 cmd cntlr;
     ocr \<leftarrow> resp0 cmd;
     Some (err, ocr, cntlr)
   }"

definition MmcAllSendCid :: "MmcCntlr \<Rightarrow> (int \<times> MmcCntlr) option" where
  "MmcAllSendCid cntlr =
     (case mc_curDev cntlr of None \<Rightarrow> Some (st HDF_ERR_INVALID_OBJECT, cntlr)
      | Some _ \<Rightarrow> do {
          let cmd = mk_cmd ALL_SEND_CID 0 (MMC_RESP_R2 OR MMC_CMD_TYPE_BCR);
          let (err, cmd, cntlr) = MmcSendCmd cntlr cmd None MMC_CMD_DEFAULT_RETRY_TIMES;
          if err \<noteq> st HDF_SUCCESS then Some (err, cntlr)
          else do {
            resp \<leftarrow> resp_all cmd;
            cntlr \<leftarrow> upd_reg (\<lambda>r. r\<lparr>reg_rawCid := resp\<rparr>) cntlr;
            Some (err, cntlr)
          }
        })"

definition MmcSetRelativeAddr :: "MmcCntlr \<Rightarrow> int \<times> MmcCntlr" where
  "MmcSetRelativeAddr cntlr =
     (case mc_curDev cntlr of None \<Rightarrow> (st HDF_ERR_INVALID_OBJECT, cntlr)
      | Some d \<Rightarrow>
          let cmd = mk_cmd SET_RELATIVE_ADDR (push_bit 16 (reg_rca (dev_reg d))) (MMC_RESP_R1 OR MMC_CMD_TYPE_AC);
              (err, cmd, cntlr) = MmcSendCmd cntlr cmd None MMC_CMD_DEFAULT_RETRY_TIMES
          in (err, cntlr))"

definition MmcSelectCard :: "MmcCntlr \<Rightarrow> int \<times> MmcCntlr" where
  "MmcSelectCard cntlr =
     (case mc_curDev cntlr of None \<Rightarrow> (st HDF_ERR_INVALID_OBJECT, cntlr)
      | Some d \<Rightarrow>
          let cmd = mk_cmd SELECT_CARD (push_bit 16 (reg_rca (dev_reg d))) (MMC_RESP_R1 OR MMC_CMD_TYPE_AC);
              (err, cmd, cntlr) = MmcSendCmd cntlr cmd None MMC_CMD_DEFAULT_RETRY_TIMES
          in (err, cntlr))"

definition MmcSendCsd :: "MmcCntlr \<Rightarrow> (int \<times> MmcCntlr) option" where
  "MmcSendCsd cntlr =
     (case mc_curDev cntlr of None \<Rightarrow> Some (st HDF_ERR_INVALID_OBJECT, cntlr)
      | Some d \<Rightarrow> do {
          let cmd = mk_cmd SEND_CSD (push_bit 16 (reg_rca (dev_reg d))) (MMC_RESP_R2 OR MMC_CMD_TYPE_AC);
          let (err, cmd, cntlr) = MmcSendCmd cntlr cmd None MMC_CMD_DEFAULT_RETRY_TIMES;
          if err \<noteq> st HDF_SUCCESS then Some (err, cntlr)
          else do {
            resp \<leftarrow> resp_all cmd;
            cntlr \<leftarrow> upd_reg (\<lambda>r. r\<lparr>reg_rawCsd := resp\<rparr>) cntlr;
            Some (err, cntlr)
          }
        })"

text \<open>The status that is returned is meaningful only on success.\<close>

definition MmcSendStatus :: "MmcCntlr \<Rightarrow> (int \<times> uint32_t \<times> MmcCntlr) option" where
  "MmcSendStatus cntlr =
     (case mc_curDev cntlr of None \<Rightarrow> Some (st HDF_ERR_INVALID_OBJECT, 0, cntlr)
      | Some d \<Rightarrow> do {
          let cmd = mk_cmd SEND_STATUS (push_bit 16 (reg_rca (dev_reg d))) (MMC_RESP_SPI_R2 OR MMC_RESP_R1 OR MMC_CMD_TYPE_AC);
          let (error, cmd, cntlr) = MmcSendCmd cntlr cmd None MMC_CMD_DEFAULT_RETRY_TIMES;
          if error \<noteq> st HDF_SUCCESS then Some (error, 0, cntlr)
          else do {
            status \<leftarrow> resp0 cmd;
            Some (error, status, cntlr)
          }
        })"

text \<open>The loop after a switch has no bound: it ends when the card is ready and the line is free.\<close>

partial_function (option) switch_wait_loop :: "MmcCntlr \<Rightarrow> (int \<times> uint32_t \<times> MmcCntlr) option" where
  "switch_wait_loop cntlr = do {
     (error, status, cntlr) \<leftarrow> MmcSendStatus cntlr;
     if error \<noteq> st HDF_SUCCESS then Some (error, status, cntlr)
     else if status AND READY_FOR_DATA = 0 then switch_wait_loop cntlr
     else
       let (busy, cntlr) = MmcCntlrDevBusy cntlr
       in if busy then switch_wait_loop cntlr else Some (error, status, cntlr)
   }"

declare switch_wait_loop.simps [code]

definition MmcSwitch :: "MmcCntlr \<Rightarrow> uint8_t \<Rightarrow> uint8_t \<Rightarrow> uint8_t \<Rightarrow> (int \<times> MmcCntlr) option" where
  "MmcSwitch cntlr cmdSet index value = do {
     let cmd = mk_cmd SWITCH
       (push_bit 24 EMMC_EXT_CSD_WRITE_BYTE OR push_bit 16 (ucast index) OR push_bit 8 (ucast value) OR ucast cmdSet)
       (MMC_RESP_SPI_R1B OR MMC_RESP_R1B OR MMC_CMD_TYPE_AC);
     let (error, cmd, cntlr) = MmcSendCmd cntlr cmd None MMC_CMD_DEFAULT_RETRY_TIMES;
     if error \<noteq> st HDF_SUCCESS then Some (error, cntlr)
     else do {
       (error, status, cntlr) \<leftarrow> switch_wait_loop cntlr;
       if error \<noteq> st HDF_SUCCESS then Some (error, cntlr)
       else if status AND SWITCH_ERROR > 0 then Some (HDF_MMC_ERR_SWITCH_FAIL, cntlr)
       else Some (error, cntlr)
     }
   }"

definition MmcAppCmd :: "MmcCntlr \<Rightarrow> uint32_t \<Rightarrow> (int \<times> MmcCntlr) option" where
  "MmcAppCmd cntlr acmd =
     (case mc_curDev cntlr of None \<Rightarrow> Some (st HDF_ERR_INVALID_OBJECT, cntlr)
      | Some d \<Rightarrow> do {
          let cmd = (if acmd \<noteq> SD_ACMD_OP_COND
            then mk_cmd APP_CMD (push_bit 16 (reg_rca (dev_reg d))) (MMC_RESP_R1 OR MMC_CMD_TYPE_AC)
            else mk_cmd APP_CMD 0 (MMC_RESP_R1 OR MMC_CMD_TYPE_BCR));
          let (err, cmd, cntlr) = MmcSendCmd cntlr cmd None 1;
          if err \<noteq> st HDF_SUCCESS then Some (err, cntlr)
          else do {
            r \<leftarrow> resp0 cmd;
            if r AND IS_APP_CMD = 0 then Some (st HDF_FAILURE, cntlr) else Some (err, cntlr)
          }
        })"

text \<open>The counter of retries runs from 100 to -1; \<open>n\<close> is the number of rounds it allows.\<close>

fun wait_ready_loop :: "nat \<Rightarrow> MmcCntlr \<Rightarrow> (int \<times> MmcCntlr) option" where
  "wait_ready_loop n cntlr = do {
     (error, status, cntlr) \<leftarrow> MmcSendStatus cntlr;
     if error \<noteq> st HDF_SUCCESS then Some (error, cntlr)
     else case n of 0 \<Rightarrow> Some (st HDF_ERR_TIMEOUT, cntlr)
     | Suc n \<Rightarrow>
         if status AND READY_FOR_DATA = 0 \<or> drop_bit 9 (status AND 0x00001E00) = STATE_PRG
         then wait_ready_loop n cntlr else Some (error, cntlr)
   }"

declare wait_ready_loop.simps [simp del]

definition MmcWaitCardReady :: "MmcCntlr \<Rightarrow> (int \<times> MmcCntlr) option" where
  "MmcWaitCardReady cntlr = wait_ready_loop (Suc SEND_STATUS_CMD_RETRY_TIMES) cntlr"

text \<open>The second component of the result is \<open>*stopStatus\<close>, \<^const>\<open>None\<close> when it is not written.\<close>

definition MmcStopTransmission :: "MmcCntlr \<Rightarrow> bool \<Rightarrow> (int \<times> uint32_t option \<times> MmcCntlr) option" where
  "MmcStopTransmission cntlr writeFlag = do {
     let cmd = mk_cmd STOP_TRANSMISSION 0
       (if writeFlag then MMC_RESP_R1B OR MMC_CMD_TYPE_AC else MMC_RESP_R1 OR MMC_CMD_TYPE_AC);
     let (err, cmd, cntlr) = MmcSendCmd cntlr cmd None STOP_TRANSMISSION_CMD_RETRY_TIMES;
     if err \<noteq> st HDF_SUCCESS then Some (err, None, cntlr)
     else do {
       stopStatus \<leftarrow> resp0 cmd;
       if \<not> writeFlag then Some (err, Some stopStatus, cntlr)
       else do {
         (err, cntlr) \<leftarrow> MmcWaitCardReady cntlr;
         Some (err, Some stopStatus, cntlr)
       }
     }
   }"

section \<open>Commands with data\<close>

definition data_buffer :: "MmcCmd \<Rightarrow> bytes option" where
  "data_buffer cmd = cmd_data cmd \<bind> dat_dataBuffer"

definition MmcSendExtCsd :: "MmcCntlr \<Rightarrow> bytes \<Rightarrow> (int \<times> bytes \<times> MmcCntlr) option" where
  "MmcSendExtCsd cntlr extCsd = do {
     let cmd = mk_cmd SEND_EXT_CSD 0 (MMC_RESP_SPI_R1 OR MMC_RESP_R1 OR MMC_CMD_TYPE_ADTC);
     let data = zero_MmcData\<lparr>dat_blockSize := of_nat (length extCsd), dat_blockNum := 1, dat_dataFlags := DATA_READ,
       dat_dataBuffer := Some extCsd\<rparr>;
     let (err, cmd, cntlr) = MmcSendCmd cntlr cmd (Some data) 1;
     let buf = (case data_buffer cmd of None \<Rightarrow> extCsd | Some b \<Rightarrow> b);
     Some (err, buf, cntlr)
   }"

definition tuningBlk4bit :: bytes where
  "tuningBlk4bit = [
    0xff, 0x0f, 0xff, 0x00, 0xff, 0xcc, 0xc3, 0xcc, 0xc3, 0x3c, 0xcc, 0xff, 0xfe, 0xff, 0xfe, 0xef, 0xff,
    0xdf, 0xff, 0xdd, 0xff, 0xfb, 0xff, 0xfb, 0xbf, 0xff, 0x7f, 0xff, 0x77, 0xf7, 0xbd, 0xef, 0xff, 0xf0,
    0xff, 0xf0, 0x0f, 0xfc, 0xcc, 0x3c, 0xcc, 0x33, 0xcc, 0xcf, 0xff, 0xef, 0xff, 0xee, 0xff, 0xfd, 0xff,
    0xfd, 0xdf, 0xff, 0xbf, 0xff, 0xbb, 0xff, 0xf7, 0xff, 0xf7, 0x7f, 0x7b, 0xde]"

definition tuningBlk8bit :: bytes where
  "tuningBlk8bit = [
    0xff, 0xff, 0x00, 0xff, 0xff, 0xff, 0x00, 0x00, 0xff, 0xff, 0xcc, 0xcc, 0xcc, 0x33, 0xcc, 0xcc, 0xcc,
    0x33, 0x33, 0xcc, 0xcc, 0xcc, 0xff, 0xff, 0xff, 0xee, 0xff, 0xff, 0xff, 0xee, 0xee, 0xff, 0xff, 0xff,
    0xdd, 0xff, 0xff, 0xff, 0xdd, 0xdd, 0xff, 0xff, 0xff, 0xbb, 0xff, 0xff, 0xff, 0xbb, 0xbb, 0xff, 0xff,
    0xff, 0x77, 0xff, 0xff, 0xff, 0x77, 0x77, 0xff, 0x77, 0xbb, 0xdd, 0xee, 0xff, 0xff, 0xff, 0xff, 0x00,
    0xff, 0xff, 0xff, 0x00, 0x00, 0xff, 0xff, 0xcc, 0xcc, 0xcc, 0x33, 0xcc, 0xcc, 0xcc, 0x33, 0x33, 0xcc,
    0xcc, 0xcc, 0xff, 0xff, 0xff, 0xee, 0xff, 0xff, 0xff, 0xee, 0xee, 0xff, 0xff, 0xff, 0xdd, 0xff, 0xff,
    0xff, 0xdd, 0xdd, 0xff, 0xff, 0xff, 0xbb, 0xff, 0xff, 0xff, 0xbb, 0xbb, 0xff, 0xff, 0xff, 0x77, 0xff,
    0xff, 0xff, 0x77, 0x77, 0xff, 0x77, 0xbb, 0xdd, 0xee]"

definition MmcSendTuning :: "MmcCntlr \<Rightarrow> uint32_t \<Rightarrow> bool \<Rightarrow> int \<times> MmcCntlr" where
  "MmcSendTuning cntlr cmdCode sendStop =
     (case mc_curDev cntlr of None \<Rightarrow> (st HDF_ERR_INVALID_OBJECT, cntlr)
      | Some d \<Rightarrow>
          let cmd = mk_cmd cmdCode 0 (MMC_RESP_R1 OR MMC_CMD_TYPE_ADTC);
              pattern =
                (if wp_width (dev_workPara d) = BUS_WIDTH4 then Some tuningBlk4bit
                 else if wp_width (dev_workPara d) = BUS_WIDTH8 then Some tuningBlk8bit else None)
          in case pattern of None \<Rightarrow> (st HDF_FAILURE, cntlr)
             | Some blk \<Rightarrow>
                 let data = zero_MmcData\<lparr>dat_blockSize := of_nat (length blk), dat_dataBuffer := Some blk,
                       dat_blockNum := 1, dat_dataFlags := DATA_READ\<rparr>;
                     data = (if sendStop then data\<lparr>dat_sendStopCmd := True,
                         dat_stopCmd := \<lparr>stc_cmdCode = STOP_TRANSMISSION, stc_respType = MMC_RESP_R1B OR MMC_CMD_TYPE_AC\<rparr>\<rparr>
                       else data);
                     (err, cmd, cntlr) = MmcSendCmd cntlr cmd (Some data) 1
                 in (err, cntlr))"

section \<open>Erasing\<close>

definition byte_or_sector :: "MmcDevice \<Rightarrow> uint32_t \<Rightarrow> uint32_t" where
  "byte_or_sector dev arg = (if \<not> dst_blockAddr (dev_state dev) then push_bit MMC_MAX_BLOCKSIZE_SHIFT arg else arg)"

definition MmcSendEraseStartCmd :: "MmcCntlr \<Rightarrow> uint32_t \<Rightarrow> int \<times> MmcCntlr" where
  "MmcSendEraseStartCmd cntlr arg =
     (case mc_curDev cntlr of None \<Rightarrow> (st HDF_ERR_INVALID_OBJECT, cntlr)
      | Some dev \<Rightarrow>
          let cmd = mk_cmd (if dev_type dev = MMC_DEV_SD then SD_CMD_ERASE_WR_BLK_START else ERASE_GROUP_START)
                (byte_or_sector dev arg) (MMC_RESP_R1 OR MMC_CMD_TYPE_AC);
              (err, cmd, cntlr) = MmcSendCmd cntlr cmd None 1
          in (err, cntlr))"

definition MmcSendEraseEndCmd :: "MmcCntlr \<Rightarrow> uint32_t \<Rightarrow> int \<times> MmcCntlr" where
  "MmcSendEraseEndCmd cntlr arg =
     (case mc_curDev cntlr of None \<Rightarrow> (st HDF_ERR_INVALID_OBJECT, cntlr)
      | Some dev \<Rightarrow>
          let cmd = mk_cmd (if dev_type dev = MMC_DEV_SD then SD_CMD_ERASE_WR_BLK_END else ERASE_GROUP_END)
                (byte_or_sector dev arg) (MMC_RESP_R1 OR MMC_CMD_TYPE_AC);
              (err, cmd, cntlr) = MmcSendCmd cntlr cmd None 1
          in (err, cntlr))"

definition MmcSendEraseCmd :: "MmcCntlr \<Rightarrow> uint32_t \<Rightarrow> int \<times> MmcCntlr" where
  "MmcSendEraseCmd cntlr arg =
     (case mc_curDev cntlr of None \<Rightarrow> (st HDF_ERR_INVALID_OBJECT, cntlr)
      | Some dev \<Rightarrow>
          let cmd = mk_cmd MMC_ERASE arg (MMC_RESP_R1 OR MMC_CMD_TYPE_AC);
              (err, cmd, cntlr) = MmcSendCmd cntlr cmd None 1
          in (err, cntlr))"

text \<open>The sizes are of type \<open>size_t\<close>; what is stored into a variable of 32 bits is cut off.\<close>

definition MmcAlignEraseSize ::
    "MmcCntlr \<Rightarrow> uint32_t \<Rightarrow> uint32_t \<Rightarrow> uint32_t \<Rightarrow> (int \<times> uint32_t \<times> uint32_t) option" where
  "MmcAlignEraseSize cntlr start end sz = do {
     eraseSize \<leftarrow> dev_of dev_eraseSize cntlr;
     if eraseSize = 0 then Some (st HDF_ERR_NOT_SUPPORT, start, end)
     else do {
       let tmp = (ucast (ucast start mod eraseSize) :: uint32_t);
       let (ok, start, curSize) =
         (if tmp > 0 then
            let tmp = (ucast (eraseSize - ucast tmp) :: uint32_t);
                start = start + tmp
            in if sz > tmp then (True, start, sz - tmp) else (False, start, sz)
          else (True, start, sz));
       if \<not> ok then Some (st HDF_ERR_NOT_SUPPORT, start, end)
       else do {
         let tmp = (ucast (ucast curSize mod eraseSize) :: uint32_t);
         let curSize = (if tmp > 0 then curSize - tmp else curSize);
         if curSize = 0 then Some (st HDF_ERR_NOT_SUPPORT, start, end)
         else Some (st HDF_SUCCESS, start, start + curSize)
       }
     }
   }"

definition MmcSendErase :: "MmcCntlr \<Rightarrow> uint32_t \<Rightarrow> uint32_t \<Rightarrow> (int \<times> MmcCntlr) option" where
  "MmcSendErase cntlr startSec nSec =
     (case mc_curDev cntlr of None \<Rightarrow> Some (st HDF_ERR_INVALID_OBJECT, cntlr)
      | Some dev \<Rightarrow>
          if dev_eraseSize dev = 0 \<or> csd_ccc (reg_csd (dev_reg dev)) AND MMC_CSD_CCC_ERASE = 0
          then Some (st HDF_ERR_NOT_SUPPORT, cntlr)
          else do {
            (ret, start, end) \<leftarrow> MmcAlignEraseSize cntlr startSec (startSec + nSec) nSec;
            if ret \<noteq> st HDF_SUCCESS then Some (st HDF_SUCCESS, cntlr)
            else
              on_success (Some (MmcSendEraseStartCmd cntlr start)) (\<lambda>cntlr.
              on_success (Some (MmcSendEraseEndCmd cntlr end)) (\<lambda>cntlr.
              on_success (Some (MmcSendEraseCmd cntlr 0)) MmcWaitCardReady))
          })"

section \<open>Reading and writing blocks\<close>

definition MmcSetupReadWriteBlocksCmd :: "MmcCntlr \<Rightarrow> MmcDevice \<Rightarrow> MmcCmd \<Rightarrow> MmcRwData \<Rightarrow> MmcCmd option" where
  "MmcSetupReadWriteBlocksCmd cntlr mmc cmd info = do {
     data \<leftarrow> cmd_data cmd;
     let data = data\<lparr>dat_blockSize := BYTES_PER_BLOCK, dat_blockNum := ucast (rwd_sectors info),
       dat_dataBuffer := Some (rwd_buf info)\<rparr>;
     let cmd = cmd\<lparr>cmd_respType := MMC_RESP_R1 OR MMC_CMD_TYPE_ADTC,
       cmd_argument := byte_or_sector mmc (ucast (rwd_startSector info))\<rparr>;
     let (data, code) =
       (if rwd_writeFlag info
        then (data\<lparr>dat_dataFlags := DATA_WRITE\<rparr>, if rwd_sectors info > 1 then WRITE_MULTIPLE_BLOCK else WRITE_BLOCK)
        else (data\<lparr>dat_dataFlags := DATA_READ\<rparr>, if rwd_sectors info > 1 then READ_MULTIPLE_BLOCK else READ_SINGLE_BLOCK));
     let data = (if rwd_sectors info > 1 \<and> cap_cmdStop (mc_caps cntlr)
       then data\<lparr>dat_stopCmd := (dat_stopCmd data)\<lparr>stc_cmdCode := STOP_TRANSMISSION\<rparr>, dat_sendStopCmd := True\<rparr>
       else data);
     Some (cmd\<lparr>cmd_cmdCode := code, cmd_data := Some data\<rparr>)
   }"

definition MmcSendReadWriteBlocks :: "MmcCntlr \<Rightarrow> MmcRwData \<Rightarrow> (int \<times> MmcCmd \<times> MmcCntlr) option" where
  "MmcSendReadWriteBlocks cntlr info =
     (case mc_curDev cntlr of None \<Rightarrow> Some (st HDF_ERR_INVALID_OBJECT, zero_MmcCmd, cntlr)
      | Some mmc \<Rightarrow> do {
          cmd \<leftarrow> MmcSetupReadWriteBlocksCmd cntlr mmc (zero_MmcCmd\<lparr>cmd_data := Some zero_MmcData\<rparr>) info;
          Some (MmcSendCmd cntlr cmd (cmd_data cmd) 1)
        })"

end
