(* ===== verification/Mmc_Emmc.thy ===== *)
theory Mmc_Emmc
  imports Mmc_Cmd
begin

text \<open>
  The storage stack, third part: embedded multimedia cards.  Decoding the registers CSD, CID and
  EXT_CSD, choosing the bus width, timing and power class, and the whole sequence of initialisation
  of \<^verbatim>\<open>mmc_protocol.c\<close>.
\<close>

abbreviation (input) CSD_BITS where "CSD_BITS \<equiv> 128"
abbreviation (input) CID_BITS where "CID_BITS \<equiv> 128"
abbreviation (input) MMC_CSD_SPEC_VER_4 where "MMC_CSD_SPEC_VER_4 \<equiv> 4"
abbreviation (input) MMC_CSD_SPEC_VER_0 where "MMC_CSD_SPEC_VER_0 \<equiv> 0"
abbreviation (input) MMC_CSD_SPEC_VER_1 where "MMC_CSD_SPEC_VER_1 \<equiv> 1"
abbreviation (input) EMMC_EXT_CSD_CARD_TYPE_MASK where "EMMC_EXT_CSD_CARD_TYPE_MASK \<equiv> 63"
abbreviation (input) EMMC_EXT_CSD_CARD_TYPE_SDR_ALL where "EMMC_EXT_CSD_CARD_TYPE_SDR_ALL \<equiv> 51"
abbreviation (input) EMMC_EXT_CSD_CARD_TYPE_SDR_ALL_DDR_1_8V where "EMMC_EXT_CSD_CARD_TYPE_SDR_ALL_DDR_1_8V \<equiv> 55"
abbreviation (input) EMMC_EXT_CSD_CARD_TYPE_SDR_ALL_DDR_1_2V where "EMMC_EXT_CSD_CARD_TYPE_SDR_ALL_DDR_1_2V \<equiv> 59"
abbreviation (input) EMMC_EXT_CSD_CARD_TYPE_SDR_ALL_DDR_52 where "EMMC_EXT_CSD_CARD_TYPE_SDR_ALL_DDR_52 \<equiv> 63"
abbreviation (input) EMMC_EXT_CSD_HIGH_SPEED_200 where "EMMC_EXT_CSD_HIGH_SPEED_200 \<equiv> 0xbebc200"
abbreviation (input) EMMC_EXT_CSD_CARD_TYPE_SDR_200 where "EMMC_EXT_CSD_CARD_TYPE_SDR_200 \<equiv> 48"
abbreviation (input) EMMC_EXT_CSD_CARD_TYPE_SDR_1_2V_ALL where "EMMC_EXT_CSD_CARD_TYPE_SDR_1_2V_ALL \<equiv> 35"
abbreviation (input) EMMC_EXT_CSD_CARD_TYPE_SDR_1_2V_ALL_DDR_1_8V where "EMMC_EXT_CSD_CARD_TYPE_SDR_1_2V_ALL_DDR_1_8V \<equiv> 39"
abbreviation (input) EMMC_EXT_CSD_CARD_TYPE_SDR_1_2V_ALL_DDR_1_2V where "EMMC_EXT_CSD_CARD_TYPE_SDR_1_2V_ALL_DDR_1_2V \<equiv> 43"
abbreviation (input) EMMC_EXT_CSD_CARD_TYPE_SDR_1_2V_ALL_DDR_52 where "EMMC_EXT_CSD_CARD_TYPE_SDR_1_2V_ALL_DDR_52 \<equiv> 47"
abbreviation (input) EMMC_EXT_CSD_CARD_TYPE_SDR_1_2V where "EMMC_EXT_CSD_CARD_TYPE_SDR_1_2V \<equiv> 32"
abbreviation (input) EMMC_EXT_CSD_CARD_TYPE_SDR_1_8V_ALL where "EMMC_EXT_CSD_CARD_TYPE_SDR_1_8V_ALL \<equiv> 19"
abbreviation (input) EMMC_EXT_CSD_CARD_TYPE_SDR_1_8V_ALL_DDR_1_8V where "EMMC_EXT_CSD_CARD_TYPE_SDR_1_8V_ALL_DDR_1_8V \<equiv> 23"
abbreviation (input) EMMC_EXT_CSD_CARD_TYPE_SDR_1_8V_ALL_DDR_1_2V where "EMMC_EXT_CSD_CARD_TYPE_SDR_1_8V_ALL_DDR_1_2V \<equiv> 27"
abbreviation (input) EMMC_EXT_CSD_CARD_TYPE_SDR_1_8V_ALL_DDR_52 where "EMMC_EXT_CSD_CARD_TYPE_SDR_1_8V_ALL_DDR_52 \<equiv> 31"
abbreviation (input) EMMC_EXT_CSD_CARD_TYPE_SDR_1_8V where "EMMC_EXT_CSD_CARD_TYPE_SDR_1_8V \<equiv> 16"
abbreviation (input) EMMC_EXT_CSD_CARD_TYPE_DDR_52 where "EMMC_EXT_CSD_CARD_TYPE_DDR_52 \<equiv> 12"
abbreviation (input) EMMC_EXT_CSD_CARD_TYPE_52 where "EMMC_EXT_CSD_CARD_TYPE_52 \<equiv> 2"
abbreviation (input) EMMC_EXT_CSD_CARD_TYPE_26 where "EMMC_EXT_CSD_CARD_TYPE_26 \<equiv> 1"
abbreviation (input) EMMC_EXT_CSD_HIGH_SPEED_52 where "EMMC_EXT_CSD_HIGH_SPEED_52 \<equiv> 0x3197500"
abbreviation (input) EMMC_EXT_CSD_CARD_TYPE_DDR_1_2V where "EMMC_EXT_CSD_CARD_TYPE_DDR_1_2V \<equiv> 8"
abbreviation (input) EMMC_EXT_CSD_CARD_TYPE_DDR_1_8V where "EMMC_EXT_CSD_CARD_TYPE_DDR_1_8V \<equiv> 4"
abbreviation (input) EMMC_EXT_CSD_HIGH_SPEED_26 where "EMMC_EXT_CSD_HIGH_SPEED_26 \<equiv> 0x18cba80"
abbreviation (input) EMMC_EXT_CSD_S_A_TIMEOUT where "EMMC_EXT_CSD_S_A_TIMEOUT \<equiv> 217"
abbreviation (input) EMMC_EXT_CSD_ERASE_GROUP_DEF where "EMMC_EXT_CSD_ERASE_GROUP_DEF \<equiv> 175"
abbreviation (input) EMMC_EXT_CSD_PARTITION_CONFIG where "EMMC_EXT_CSD_PARTITION_CONFIG \<equiv> 179"
abbreviation (input) EMMC_EXT_CSD_PARTITION_SWITCH_TIME where "EMMC_EXT_CSD_PARTITION_SWITCH_TIME \<equiv> 199"
abbreviation (input) MAX_S_A_TIMEOUT_VALUE where "MAX_S_A_TIMEOUT_VALUE \<equiv> 23"
abbreviation (input) EMMC_EXT_CSD_REL_WR_SEC_C where "EMMC_EXT_CSD_REL_WR_SEC_C \<equiv> 222"
abbreviation (input) EMMC_EXT_CSD_ERASE_TIMEOUT_MULT where "EMMC_EXT_CSD_ERASE_TIMEOUT_MULT \<equiv> 223"
abbreviation (input) EMMC_EXT_CSD_BOOT_MULTI where "EMMC_EXT_CSD_BOOT_MULTI \<equiv> 226"
abbreviation (input) EMMC_EXT_CSD_ENH_START_ADDR where "EMMC_EXT_CSD_ENH_START_ADDR \<equiv> 136"
abbreviation (input) EMMC_EXT_CSD_ENH_START_ADDR_BYTES where "EMMC_EXT_CSD_ENH_START_ADDR_BYTES \<equiv> 4"
abbreviation (input) EMMC_EXT_CSD_ENH_SIZE_MULT where "EMMC_EXT_CSD_ENH_SIZE_MULT \<equiv> 140"
abbreviation (input) EMMC_EXT_CSD_ENH_SIZE_MULT_BYTES where "EMMC_EXT_CSD_ENH_SIZE_MULT_BYTES \<equiv> 3"
abbreviation (input) EMMC_EXT_CSD_HC_WP_GRP_SIZE where "EMMC_EXT_CSD_HC_WP_GRP_SIZE \<equiv> 221"
abbreviation (input) EMMC_EXT_CSD_PWR_CL_52_195 where "EMMC_EXT_CSD_PWR_CL_52_195 \<equiv> 200"
abbreviation (input) EMMC_EXT_CSD_PWR_CL_26_195 where "EMMC_EXT_CSD_PWR_CL_26_195 \<equiv> 201"
abbreviation (input) EMMC_EXT_CSD_PWR_CL_52_360 where "EMMC_EXT_CSD_PWR_CL_52_360 \<equiv> 202"
abbreviation (input) EMMC_EXT_CSD_PWR_CL_26_360 where "EMMC_EXT_CSD_PWR_CL_26_360 \<equiv> 203"
abbreviation (input) EMMC_EXT_CSD_PWR_CL_200_195 where "EMMC_EXT_CSD_PWR_CL_200_195 \<equiv> 236"
abbreviation (input) EMMC_EXT_CSD_PWR_CL_200_360 where "EMMC_EXT_CSD_PWR_CL_200_360 \<equiv> 237"
abbreviation (input) EMMC_EXT_CSD_PWR_CL_DDR_52_195 where "EMMC_EXT_CSD_PWR_CL_DDR_52_195 \<equiv> 238"
abbreviation (input) EMMC_EXT_CSD_PWR_CL_DDR_52_360 where "EMMC_EXT_CSD_PWR_CL_DDR_52_360 \<equiv> 239"
abbreviation (input) EMMC_EXT_CSD_PARTITIONING_SUPPORT where "EMMC_EXT_CSD_PARTITIONING_SUPPORT \<equiv> 160"
abbreviation (input) EMMC_EXT_CSD_PARTITIONS_ATTRIBUTE where "EMMC_EXT_CSD_PARTITIONS_ATTRIBUTE \<equiv> 156"
abbreviation (input) PARTITIONING_SUPPORT_ENH_ATTRIBUTE_EN where "PARTITIONING_SUPPORT_ENH_ATTRIBUTE_EN \<equiv> 2"
abbreviation (input) PARTITIONS_ATTRIBUTE_ENH_USR where "PARTITIONS_ATTRIBUTE_ENH_USR \<equiv> 1"
abbreviation (input) EMMC_EXT_CSD_HPI_FEATURES where "EMMC_EXT_CSD_HPI_FEATURES \<equiv> 503"
abbreviation (input) EMMC_EXT_CSD_HPI_SUPPORT where "EMMC_EXT_CSD_HPI_SUPPORT \<equiv> 1"
abbreviation (input) EMMC_EXT_CSD_OUT_OF_INTERRUPT_TIME where "EMMC_EXT_CSD_OUT_OF_INTERRUPT_TIME \<equiv> 198"
abbreviation (input) EMMC_EXT_CSD_HPI_IMPLEMENTATION where "EMMC_EXT_CSD_HPI_IMPLEMENTATION \<equiv> 2"
abbreviation (input) EMMC_EXT_CSD_WR_REL_PARAM where "EMMC_EXT_CSD_WR_REL_PARAM \<equiv> 166"
abbreviation (input) EMMC_EXT_CSD_STRUCTURE where "EMMC_EXT_CSD_STRUCTURE \<equiv> 194"
abbreviation (input) MMC_CSD_STRUCTURE_VER_OTHER where "MMC_CSD_STRUCTURE_VER_OTHER \<equiv> 3"
abbreviation (input) EMMC_EXT_CSD_STRUCTURE_VER_1_2 where "EMMC_EXT_CSD_STRUCTURE_VER_1_2 \<equiv> 2"
abbreviation (input) EMMC_EXT_CSD_REV where "EMMC_EXT_CSD_REV \<equiv> 192"
abbreviation (input) EMMC_EXT_CSD_SEC_CNT where "EMMC_EXT_CSD_SEC_CNT \<equiv> 212"
abbreviation (input) EMMC_EXT_CSD_REV_1_2 where "EMMC_EXT_CSD_REV_1_2 \<equiv> 2"
abbreviation (input) EMMC_EXT_CSD_STROBE_SUPPORT where "EMMC_EXT_CSD_STROBE_SUPPORT \<equiv> 184"
abbreviation (input) EMMC_EXT_CSD_CARD_TYPE where "EMMC_EXT_CSD_CARD_TYPE \<equiv> 196"
abbreviation (input) EMMC_EXT_CSD_HC_ERASE_GRP_SIZE where "EMMC_EXT_CSD_HC_ERASE_GRP_SIZE \<equiv> 224"
abbreviation (input) EMMC_EXT_CSD_REV_1_3 where "EMMC_EXT_CSD_REV_1_3 \<equiv> 3"
abbreviation (input) EMMC_EXT_CSD_SEC_TRIM_MULT where "EMMC_EXT_CSD_SEC_TRIM_MULT \<equiv> 229"
abbreviation (input) EMMC_EXT_CSD_SEC_ERASE_MULT where "EMMC_EXT_CSD_SEC_ERASE_MULT \<equiv> 230"
abbreviation (input) EMMC_EXT_CSD_SEC_FEATURE_SUPPORT where "EMMC_EXT_CSD_SEC_FEATURE_SUPPORT \<equiv> 231"
abbreviation (input) EMMC_EXT_CSD_TRIM_MULT where "EMMC_EXT_CSD_TRIM_MULT \<equiv> 232"
abbreviation (input) EMMC_EXT_CSD_REV_1_4 where "EMMC_EXT_CSD_REV_1_4 \<equiv> 4"
abbreviation (input) EMMC_EXT_CSD_REV_1_5 where "EMMC_EXT_CSD_REV_1_5 \<equiv> 5"
abbreviation (input) EXT_CSD_BYTES_LEN where "EXT_CSD_BYTES_LEN \<equiv> 0x200"
abbreviation (input) VOLT_1V2 where "VOLT_1V2 \<equiv> 2"
abbreviation (input) VOLT_1V8 where "VOLT_1V8 \<equiv> 1"
abbreviation (input) EMMC_EXT_CSD_CMD_SET_NORMAL where "EMMC_EXT_CSD_CMD_SET_NORMAL \<equiv> 1"
abbreviation (input) EMMC_EXT_CSD_BUS_WIDTH where "EMMC_EXT_CSD_BUS_WIDTH \<equiv> 183"
abbreviation (input) EMMC_EXT_CSD_BUS_WIDTH_8 where "EMMC_EXT_CSD_BUS_WIDTH_8 \<equiv> 2"
abbreviation (input) EMMC_EXT_CSD_BUS_WIDTH_4 where "EMMC_EXT_CSD_BUS_WIDTH_4 \<equiv> 1"
abbreviation (input) EMMC_EXT_CSD_HS_TIMING where "EMMC_EXT_CSD_HS_TIMING \<equiv> 185"
abbreviation (input) EMMC_EXT_CSD_BUS_TIMING_HS where "EMMC_EXT_CSD_BUS_TIMING_HS \<equiv> 1"
abbreviation (input) BUS_TIMING_MMC_HS where "BUS_TIMING_MMC_HS \<equiv> 1"
abbreviation (input) EMMC_EXT_CSD_DDR_BUS_WIDTH_8 where "EMMC_EXT_CSD_DDR_BUS_WIDTH_8 \<equiv> 6"
abbreviation (input) EMMC_EXT_CSD_BUS_TIMING_HS400 where "EMMC_EXT_CSD_BUS_TIMING_HS400 \<equiv> 3"
abbreviation (input) BUS_TIMING_MMC_HS400 where "BUS_TIMING_MMC_HS400 \<equiv> 10"
abbreviation (input) EMMC_EXT_CSD_BUS_WIDTH_STROBE where "EMMC_EXT_CSD_BUS_WIDTH_STROBE \<equiv> 128"
abbreviation (input) EMMC_EXT_CSD_BUS_TIMING_HS200 where "EMMC_EXT_CSD_BUS_TIMING_HS200 \<equiv> 2"
abbreviation (input) BUS_TIMING_MMC_HS200 where "BUS_TIMING_MMC_HS200 \<equiv> 9"
abbreviation (input) MMC_OCR_1V65_1V95 where "MMC_OCR_1V65_1V95 \<equiv> 128"
abbreviation (input) MMC_OCR_2V7_2V8 where "MMC_OCR_2V7_2V8 \<equiv> 0x8000"
abbreviation (input) MMC_OCR_3V5_3V6 where "MMC_OCR_3V5_3V6 \<equiv> 0x800000"
abbreviation (input) EMMC_EXT_CSD_PWR_CL_8BIT_SHIFT where "EMMC_EXT_CSD_PWR_CL_8BIT_SHIFT \<equiv> 4"
abbreviation (input) EMMC_EXT_CSD_PWR_CL_8BIT_MASK where "EMMC_EXT_CSD_PWR_CL_8BIT_MASK \<equiv> 240"
abbreviation (input) EMMC_EXT_CSD_PWR_CL_4BIT_SHIFT where "EMMC_EXT_CSD_PWR_CL_4BIT_SHIFT \<equiv> 0"
abbreviation (input) EMMC_EXT_CSD_PWR_CL_4BIT_MASK where "EMMC_EXT_CSD_PWR_CL_4BIT_MASK \<equiv> 15"
abbreviation (input) EMMC_EXT_CSD_POWER_CLASS where "EMMC_EXT_CSD_POWER_CLASS \<equiv> 187"
abbreviation (input) SEND_TUNING_BLOCK_HS200 where "SEND_TUNING_BLOCK_HS200 \<equiv> 21"
abbreviation (input) EMMC_EXT_CSD_CARD_TYPE_HS400 where "EMMC_EXT_CSD_CARD_TYPE_HS400 \<equiv> 192"
abbreviation (input) MMC_1_8V_DDR_MODE where "MMC_1_8V_DDR_MODE \<equiv> 2"
abbreviation (input) MMC_1_2V_DDR_MODE where "MMC_1_2V_DDR_MODE \<equiv> 1"
abbreviation (input) MMC_BUS_MODE_NULL where "MMC_BUS_MODE_NULL \<equiv> 0"
abbreviation (input) BUS_TIMING_UHS_DDR50 where "BUS_TIMING_UHS_DDR50 \<equiv> 7"
abbreviation (input) EMMC_EXT_CSD_DDR_BUS_WIDTH_4 where "EMMC_EXT_CSD_DDR_BUS_WIDTH_4 \<equiv> 5"
abbreviation (input) EMMC_EXT_CSD_BUS_WIDTH_1 where "EMMC_EXT_CSD_BUS_WIDTH_1 \<equiv> 0"
abbreviation (input) EMMC_EXT_CSD_HPI_MGMT where "EMMC_EXT_CSD_HPI_MGMT \<equiv> 161"
abbreviation (input) EMMC_EXT_CSD_PART_CONFIG_ACCESS_MASK where "EMMC_EXT_CSD_PART_CONFIG_ACCESS_MASK \<equiv> 7"

section \<open>Registers\<close>

definition tran_speed :: "uint32_t list \<Rightarrow> uint32_t option" where
  "tran_speed rawCsd = do {
     factor \<leftarrow> MmcParseBits rawCsd CSD_BITS 99 4;
     unit \<leftarrow> MmcParseBits rawCsd CSD_BITS 96 3;
     u \<leftarrow> arr_get g_tranSpeedUnit (unat unit);
     f \<leftarrow> arr_get g_commFactor (unat factor);
     Some (u * f)
   }"

definition tacc_ns :: "uint32_t list \<Rightarrow> uint32_t option" where
  "tacc_ns rawCsd = do {
     factor \<leftarrow> MmcParseBits rawCsd CSD_BITS 115 4;
     unit \<leftarrow> MmcParseBits rawCsd CSD_BITS 112 3;
     u \<leftarrow> arr_get g_taccUnit (unat unit);
     f \<leftarrow> arr_get g_commFactor (unat factor);
     Some ((u * f + 9) div 10)
   }"

definition EmmcDecodeCsd_fields :: "MmcCsd \<Rightarrow> uint32_t list \<Rightarrow> (int \<times> MmcCsd) option" where
  "EmmcDecodeCsd_fields csd rawCsd = do {
     v \<leftarrow> MmcParseBits rawCsd CSD_BITS 126 2;
     let csd = csd\<lparr>csd_structure := ucast v\<rparr>;
     if csd_structure csd = 0 then Some (st HDF_ERR_INVALID_PARAM, csd)
     else do {
       v \<leftarrow> MmcParseBits rawCsd CSD_BITS 122 4;
       let csd = csd\<lparr>csd_specVers := ucast v\<rparr>;
       v \<leftarrow> tacc_ns rawCsd;
       let csd = csd\<lparr>csd_taccNs := v\<rparr>;
       v \<leftarrow> MmcParseBits rawCsd CSD_BITS 104 8;
       let csd = csd\<lparr>csd_taccClks := ucast (v * 100)\<rparr>;
       v \<leftarrow> tran_speed rawCsd;
       let csd = csd\<lparr>csd_maxDtr := v\<rparr>;
       v \<leftarrow> MmcParseBits rawCsd CSD_BITS 84 12;
       let csd = csd\<lparr>csd_ccc := ucast v\<rparr>;
       factor \<leftarrow> MmcParseBits rawCsd CSD_BITS 62 12;
       unit \<leftarrow> MmcParseBits rawCsd CSD_BITS 47 3;
       v \<leftarrow> shl32 (1 + factor) (unit + 2);
       let csd = csd\<lparr>csd_capacity := v\<rparr>;
       v \<leftarrow> MmcParseBits rawCsd CSD_BITS 80 4;
       let csd = csd\<lparr>csd_readBlkLen := v\<rparr>;
       v \<leftarrow> MmcParseBits rawCsd CSD_BITS 79 1;
       let csd = csd\<lparr>csd_rdPartial := bit v 0\<rparr>;
       v \<leftarrow> MmcParseBits rawCsd CSD_BITS 78 1;
       let csd = csd\<lparr>csd_wrMisalign := bit v 0\<rparr>;
       v \<leftarrow> MmcParseBits rawCsd CSD_BITS 77 1;
       let csd = csd\<lparr>csd_rdMisalign := bit v 0\<rparr>;
       v \<leftarrow> MmcParseBits rawCsd CSD_BITS 26 3;
       let csd = csd\<lparr>csd_r2wFactor := v\<rparr>;
       v \<leftarrow> MmcParseBits rawCsd CSD_BITS 22 4;
       let csd = csd\<lparr>csd_writeBlkLen := v\<rparr>;
       v \<leftarrow> MmcParseBits rawCsd CSD_BITS 21 1;
       let csd = csd\<lparr>csd_wrPartial := bit v 0\<rparr>;
       csd \<leftarrow> (if csd_writeBlkLen csd \<ge> MMC_MAX_BLOCKSIZE_SHIFT then do {
           unit \<leftarrow> MmcParseBits rawCsd CSD_BITS 42 5;
           factor \<leftarrow> MmcParseBits rawCsd CSD_BITS 37 5;
           v \<leftarrow> shl32 ((unit + 1) * (factor + 1)) (csd_writeBlkLen csd - MMC_MAX_BLOCKSIZE_SHIFT);
           Some (csd\<lparr>csd_eraseSize := v\<rparr>)
         } else Some csd);
       Some (st HDF_SUCCESS, csd)
     }
   }"

definition EmmcDecodeCsd :: "MmcCntlr \<Rightarrow> (int \<times> MmcCntlr) option" where
  "EmmcDecodeCsd cntlr =
     (case mc_curDev cntlr of None \<Rightarrow> Some (st HDF_ERR_INVALID_PARAM, cntlr)
      | Some d \<Rightarrow> do {
          (err, csd) \<leftarrow> EmmcDecodeCsd_fields (reg_csd (dev_reg d)) (reg_rawCsd (dev_reg d));
          cntlr \<leftarrow> upd_csd (\<lambda>_. csd) cntlr;
          Some (err, cntlr)
        })"

text \<open>The characters of the product name, from index \<open>i\<close> on; both kinds of card have the loop.\<close>

fun pnm_loop :: "uint32_t list \<Rightarrow> nat \<Rightarrow> nat \<Rightarrow> bytes \<Rightarrow> bytes option" where
  "pnm_loop rawCid i 0 pnm = Some pnm"
| "pnm_loop rawCid i (Suc n) pnm = do {
     v \<leftarrow> MmcParseBits rawCid CID_BITS (96 - of_nat i * 8) 8;
     pnm \<leftarrow> arr_set pnm i (ucast v);
     pnm_loop rawCid (Suc i) n pnm
   }"

definition EmmcDecodeCid :: "MmcCntlr \<Rightarrow> (int \<times> MmcCntlr) option" where
  "EmmcDecodeCid cntlr =
     (case mc_curDev cntlr of None \<Rightarrow> Some (st HDF_ERR_INVALID_PARAM, cntlr)
      | Some d \<Rightarrow>
          let rawCid = reg_rawCid (dev_reg d);
              cid = reg_cid (dev_reg d);
              specVers = csd_specVers (reg_csd (dev_reg d))
          in if specVers > MMC_CSD_SPEC_VER_4 then Some (st HDF_ERR_NOT_SUPPORT, cntlr)
          else do {
            v \<leftarrow> MmcParseBits rawCid CID_BITS 12 4;
            let cid = cid\<lparr>cid_month := ucast v\<rparr>;
            v \<leftarrow> MmcParseBits rawCid CID_BITS 8 4;
            let cid = cid\<lparr>cid_year := ucast (v + 1997)\<rparr>;
            if specVers = MMC_CSD_SPEC_VER_0 \<or> specVers = MMC_CSD_SPEC_VER_1 then do {
              v \<leftarrow> MmcParseBits rawCid CID_BITS 104 24;
              let cid = cid\<lparr>cid_mid := v\<rparr>;
              pnm \<leftarrow> pnm_loop rawCid 0 7 (cid_pnm cid);
              pnm \<leftarrow> arr_set pnm 7 0;
              let cid = cid\<lparr>cid_pnm := pnm\<rparr>;
              v \<leftarrow> MmcParseBits rawCid CID_BITS 44 4;
              let cid = cid\<lparr>cid_hwPrv := ucast v\<rparr>;
              v \<leftarrow> MmcParseBits rawCid CID_BITS 40 4;
              let cid = cid\<lparr>cid_fwPrv := ucast v\<rparr>;
              v \<leftarrow> MmcParseBits rawCid CID_BITS 16 24;
              let cid = cid\<lparr>cid_psn := v\<rparr>;
              cntlr \<leftarrow> upd_reg (\<lambda>r. r\<lparr>reg_cid := cid\<rparr>) cntlr;
              Some (st HDF_SUCCESS, cntlr)
            }
            else do {
              v \<leftarrow> MmcParseBits rawCid CID_BITS 120 8;
              let cid = cid\<lparr>cid_mid := v\<rparr>;
              v \<leftarrow> MmcParseBits rawCid CID_BITS 104 16;
              let cid = cid\<lparr>cid_oid := ucast v\<rparr>;
              pnm \<leftarrow> pnm_loop rawCid 0 6 (cid_pnm cid);
              pnm \<leftarrow> arr_set pnm 6 0;
              let cid = cid\<lparr>cid_pnm := pnm\<rparr>;
              v \<leftarrow> MmcParseBits rawCid CID_BITS 16 32;
              let cid = cid\<lparr>cid_psn := v\<rparr>;
              cntlr \<leftarrow> upd_reg (\<lambda>r. r\<lparr>reg_cid := cid\<rparr>) cntlr;
              cbx \<leftarrow> MmcParseBits rawCid CID_BITS 112 2;
              cntlr \<leftarrow> (if cbx = 0 then upd_state (\<lambda>s. s\<lparr>dst_removeable := True\<rparr>) cntlr else Some cntlr);
              Some (st HDF_SUCCESS, cntlr)
            }
          })"

section \<open>The extended register\<close>

fun le_loop :: "(nat \<Rightarrow> uint8_t option) \<Rightarrow> nat \<Rightarrow> nat \<Rightarrow> 'a::len word \<Rightarrow> 'a word option" where
  "le_loop get i 0 acc = Some acc"
| "le_loop get i (Suc n) acc = do {
     b \<leftarrow> get i;
     le_loop get (Suc i) n (acc OR push_bit (8 * i) (ucast b))
   }"

definition EmmcDecodeExtCsdSector :: "bool \<Rightarrow> EmmcExtCsd \<Rightarrow> (bool \<times> EmmcExtCsd) option" where
  "EmmcDecodeExtCsdSector blockAddr extCsd = do {
     sectors \<leftarrow> le_loop (arr_get (ecsd_rawSectors extCsd)) 0 EMMC_EXT_CSD_SEC_CNT_BYTES 0;
     let extCsd = extCsd\<lparr>ecsd_sectors := sectors\<rparr>;
     Some (blockAddr \<or> sectors > 2 * 1024 * 1024 * 1024 div 512, extCsd)
   }"

definition EmmcDecodeExtCsdCardType :: "EmmcExtCsd \<Rightarrow> EmmcExtCsd" where
  "EmmcDecodeExtCsdCardType extCsd =
     (let cardType = ecsd_rawCardType extCsd AND EMMC_EXT_CSD_CARD_TYPE_MASK
      in if cardType \<in> {EMMC_EXT_CSD_CARD_TYPE_SDR_ALL, EMMC_EXT_CSD_CARD_TYPE_SDR_ALL_DDR_1_8V,
           EMMC_EXT_CSD_CARD_TYPE_SDR_ALL_DDR_1_2V, EMMC_EXT_CSD_CARD_TYPE_SDR_ALL_DDR_52}
         then extCsd\<lparr>ecsd_hsMaxDtr := EMMC_EXT_CSD_HIGH_SPEED_200, ecsd_cardType := EMMC_EXT_CSD_CARD_TYPE_SDR_200\<rparr>
      else if cardType \<in> {EMMC_EXT_CSD_CARD_TYPE_SDR_1_2V_ALL, EMMC_EXT_CSD_CARD_TYPE_SDR_1_2V_ALL_DDR_1_8V,
           EMMC_EXT_CSD_CARD_TYPE_SDR_1_2V_ALL_DDR_1_2V, EMMC_EXT_CSD_CARD_TYPE_SDR_1_2V_ALL_DDR_52}
         then extCsd\<lparr>ecsd_hsMaxDtr := EMMC_EXT_CSD_HIGH_SPEED_200, ecsd_cardType := EMMC_EXT_CSD_CARD_TYPE_SDR_1_2V\<rparr>
      else if cardType \<in> {EMMC_EXT_CSD_CARD_TYPE_SDR_1_8V_ALL, EMMC_EXT_CSD_CARD_TYPE_SDR_1_8V_ALL_DDR_1_8V,
           EMMC_EXT_CSD_CARD_TYPE_SDR_1_8V_ALL_DDR_1_2V, EMMC_EXT_CSD_CARD_TYPE_SDR_1_8V_ALL_DDR_52}
         then extCsd\<lparr>ecsd_hsMaxDtr := EMMC_EXT_CSD_HIGH_SPEED_200, ecsd_cardType := EMMC_EXT_CSD_CARD_TYPE_SDR_1_8V\<rparr>
      else if cardType = EMMC_EXT_CSD_CARD_TYPE_DDR_52 OR EMMC_EXT_CSD_CARD_TYPE_52 OR EMMC_EXT_CSD_CARD_TYPE_26
         then extCsd\<lparr>ecsd_hsMaxDtr := EMMC_EXT_CSD_HIGH_SPEED_52, ecsd_cardType := EMMC_EXT_CSD_CARD_TYPE_DDR_52\<rparr>
      else if cardType = EMMC_EXT_CSD_CARD_TYPE_DDR_1_2V OR EMMC_EXT_CSD_CARD_TYPE_52 OR EMMC_EXT_CSD_CARD_TYPE_26
         then extCsd\<lparr>ecsd_hsMaxDtr := EMMC_EXT_CSD_HIGH_SPEED_52, ecsd_cardType := EMMC_EXT_CSD_CARD_TYPE_DDR_1_2V\<rparr>
      else if cardType = EMMC_EXT_CSD_CARD_TYPE_DDR_1_8V OR EMMC_EXT_CSD_CARD_TYPE_52 OR EMMC_EXT_CSD_CARD_TYPE_26
         then extCsd\<lparr>ecsd_hsMaxDtr := EMMC_EXT_CSD_HIGH_SPEED_52, ecsd_cardType := EMMC_EXT_CSD_CARD_TYPE_DDR_1_8V\<rparr>
      else if cardType = EMMC_EXT_CSD_CARD_TYPE_52 OR EMMC_EXT_CSD_CARD_TYPE_26
         then extCsd\<lparr>ecsd_hsMaxDtr := EMMC_EXT_CSD_HIGH_SPEED_52\<rparr>
      else if cardType = EMMC_EXT_CSD_CARD_TYPE_26 then extCsd\<lparr>ecsd_hsMaxDtr := EMMC_EXT_CSD_HIGH_SPEED_26\<rparr>
      else extCsd)"

definition EmmcDecodeExtCsdRev13Field :: "EmmcExtCsd \<Rightarrow> bytes \<Rightarrow> EmmcExtCsd option" where
  "EmmcDecodeExtCsdRev13Field extCsd rawExtCsd = do {
     shift \<leftarrow> arr_get rawExtCsd EMMC_EXT_CSD_S_A_TIMEOUT;
     eraseGroupDef \<leftarrow> arr_get rawExtCsd EMMC_EXT_CSD_ERASE_GROUP_DEF;
     partConfig \<leftarrow> arr_get rawExtCsd EMMC_EXT_CSD_PARTITION_CONFIG;
     partSwitchTime \<leftarrow> arr_get rawExtCsd EMMC_EXT_CSD_PARTITION_SWITCH_TIME;
     let extCsd = extCsd\<lparr>ecsd_eraseGroupDef := eraseGroupDef, ecsd_partConfig := partConfig,
       ecsd_partSwitchTime := 10 * ucast partSwitchTime\<rparr>;
     let extCsd = (if shift > 0 \<and> shift \<le> MAX_S_A_TIMEOUT_VALUE
       then extCsd\<lparr>ecsd_saTimeout := push_bit (unat shift) 1\<rparr> else extCsd);
     relWr \<leftarrow> arr_get rawExtCsd EMMC_EXT_CSD_REL_WR_SEC_C;
     eraseTimeout \<leftarrow> arr_get rawExtCsd EMMC_EXT_CSD_ERASE_TIMEOUT_MULT;
     boot \<leftarrow> arr_get rawExtCsd EMMC_EXT_CSD_BOOT_MULTI;
     Some (extCsd\<lparr>ecsd_relWrSecorCount := relWr, ecsd_hcEraseTimeout := 300 * ucast eraseTimeout,
       ecsd_hcEraseSize := push_bit 10 (ucast (ecsd_rawHcEraseGrpSize extCsd)), ecsd_bootSize := push_bit 17 (ucast boot)\<rparr>)
   }"

definition EmmcDecodeExtCsdEnhanceArea :: "bool \<Rightarrow> EmmcExtCsd \<Rightarrow> bytes \<Rightarrow> EmmcExtCsd option" where
  "EmmcDecodeExtCsdEnhanceArea blockAddr extCsd rawExtCsd = do {
     offset \<leftarrow> le_loop (\<lambda>i. arr_get rawExtCsd (EMMC_EXT_CSD_ENH_START_ADDR + i)) 0 EMMC_EXT_CSD_ENH_START_ADDR_BYTES 0;
     let offset = (if blockAddr then push_bit MMC_MAX_BLOCKSIZE_SHIFT offset else offset);
     areaSize \<leftarrow> le_loop (\<lambda>i. arr_get rawExtCsd (EMMC_EXT_CSD_ENH_SIZE_MULT + i)) 0 EMMC_EXT_CSD_ENH_SIZE_MULT_BYTES 0;
     wpGrp \<leftarrow> arr_get rawExtCsd EMMC_EXT_CSD_HC_WP_GRP_SIZE;
     let areaSize = areaSize * (ucast (ecsd_rawHcEraseGrpSize extCsd) * ucast wpGrp);
     Some (extCsd\<lparr>ecsd_enhAreaEnable := True, ecsd_enhAreaOffset := offset,
       ecsd_enhAreaSize := push_bit MMC_MAX_BLOCKSIZE_SHIFT areaSize\<rparr>)
   }"

definition EmmcDecodeExtCsdPowerClassValue :: "EmmcExtCsd \<Rightarrow> bytes \<Rightarrow> EmmcExtCsd option" where
  "EmmcDecodeExtCsdPowerClassValue extCsd rawExtCsd = do {
     c52_195 \<leftarrow> arr_get rawExtCsd EMMC_EXT_CSD_PWR_CL_52_195;
     c26_195 \<leftarrow> arr_get rawExtCsd EMMC_EXT_CSD_PWR_CL_26_195;
     c52_360 \<leftarrow> arr_get rawExtCsd EMMC_EXT_CSD_PWR_CL_52_360;
     c26_360 \<leftarrow> arr_get rawExtCsd EMMC_EXT_CSD_PWR_CL_26_360;
     c200_195 \<leftarrow> arr_get rawExtCsd EMMC_EXT_CSD_PWR_CL_200_195;
     c200_360 \<leftarrow> arr_get rawExtCsd EMMC_EXT_CSD_PWR_CL_200_360;
     d52_195 \<leftarrow> arr_get rawExtCsd EMMC_EXT_CSD_PWR_CL_DDR_52_195;
     d52_360 \<leftarrow> arr_get rawExtCsd EMMC_EXT_CSD_PWR_CL_DDR_52_360;
     Some (extCsd\<lparr>ecsd_pwrClF52V195 := c52_195, ecsd_pwrClF26V195 := c26_195, ecsd_pwrClF52V360 := c52_360,
       ecsd_pwrClF26V360 := c26_360, ecsd_pwrClF200V195 := c200_195, ecsd_pwrClF200V360 := c200_360,
       ecsd_pwrClDdrF52V195 := d52_195, ecsd_pwrClDdrF52V360 := d52_360\<rparr>)
   }"

definition EmmcDecodeExtCsdRev14Field :: "bool \<Rightarrow> EmmcExtCsd \<Rightarrow> bytes \<Rightarrow> EmmcExtCsd option" where
  "EmmcDecodeExtCsdRev14Field blockAddr extCsd rawExtCsd = do {
     support \<leftarrow> arr_get rawExtCsd EMMC_EXT_CSD_PARTITIONING_SUPPORT;
     attribute \<leftarrow> arr_get rawExtCsd EMMC_EXT_CSD_PARTITIONS_ATTRIBUTE;
     extCsd \<leftarrow> (if support AND PARTITIONING_SUPPORT_ENH_ATTRIBUTE_EN > 0 \<and> attribute AND PARTITIONS_ATTRIBUTE_ENH_USR > 0
       then EmmcDecodeExtCsdEnhanceArea blockAddr extCsd rawExtCsd else Some extCsd);
     EmmcDecodeExtCsdPowerClassValue
       (extCsd\<lparr>ecsd_secTrimMult := ucast (ecsd_rawSecTrimMult extCsd), ecsd_secEraseMult := ucast (ecsd_rawSecEraseMult extCsd),
         ecsd_trimTimeout := 300 * ucast (ecsd_rawTrimMult extCsd)\<rparr>) rawExtCsd
   }"

text \<open>The time is stored in a byte.\<close>

definition EmmcDecodeExtCsdRev15Field :: "EmmcExtCsd \<Rightarrow> bytes \<Rightarrow> EmmcExtCsd option" where
  "EmmcDecodeExtCsdRev15Field extCsd rawExtCsd = do {
     features \<leftarrow> arr_get rawExtCsd EMMC_EXT_CSD_HPI_FEATURES;
     extCsd \<leftarrow> (if features AND EMMC_EXT_CSD_HPI_SUPPORT > 0 then do {
         time \<leftarrow> arr_get rawExtCsd EMMC_EXT_CSD_OUT_OF_INTERRUPT_TIME;
         Some (extCsd\<lparr>ecsd_hpi := True,
           ecsd_hpiCmd := (if features AND EMMC_EXT_CSD_HPI_IMPLEMENTATION > 0 then STOP_TRANSMISSION else SEND_STATUS),
           ecsd_outOfInterruptTime := time * 10\<rparr>)
       } else Some extCsd);
     wrRel \<leftarrow> arr_get rawExtCsd EMMC_EXT_CSD_WR_REL_PARAM;
     Some (extCsd\<lparr>ecsd_wrRelParam := wrRel\<rparr>)
   }"

text \<open>The decoding of the register, on its own: \<open>blockAddr\<close> is the bit of the device's state.\<close>

definition EmmcDecodeExtCsd_fields :: "uint8_t \<Rightarrow> bool \<Rightarrow> EmmcExtCsd \<Rightarrow> bytes \<Rightarrow> (int \<times> bool \<times> EmmcExtCsd) option" where
  "EmmcDecodeExtCsd_fields structure blockAddr extCsd rawExtCsd = do {
     v \<leftarrow> arr_get rawExtCsd EMMC_EXT_CSD_STRUCTURE;
     let extCsd = extCsd\<lparr>ecsd_rawCsdStructure := v\<rparr>;
     if structure = MMC_CSD_STRUCTURE_VER_OTHER \<and> ecsd_rawCsdStructure extCsd > EMMC_EXT_CSD_STRUCTURE_VER_1_2
     then Some (st HDF_ERR_INVALID_PARAM, blockAddr, extCsd)
     else do {
       v \<leftarrow> arr_get rawExtCsd EMMC_EXT_CSD_REV;
       let extCsd = extCsd\<lparr>ecsd_rev := v\<rparr>;
       raw \<leftarrow> mem_read rawExtCsd EMMC_EXT_CSD_SEC_CNT EMMC_EXT_CSD_SEC_CNT_BYTES;
       let extCsd = extCsd\<lparr>ecsd_rawSectors := raw\<rparr>;
       (blockAddr, extCsd) \<leftarrow> (if ecsd_rev extCsd \<ge> EMMC_EXT_CSD_REV_1_2 then EmmcDecodeExtCsdSector blockAddr extCsd
         else Some (blockAddr, extCsd));
       strobe \<leftarrow> arr_get rawExtCsd EMMC_EXT_CSD_STROBE_SUPPORT;
       cardType \<leftarrow> arr_get rawExtCsd EMMC_EXT_CSD_CARD_TYPE;
       let extCsd = EmmcDecodeExtCsdCardType (extCsd\<lparr>ecsd_strobeSupport := strobe, ecsd_rawCardType := cardType\<rparr>);
       saTimeout \<leftarrow> arr_get rawExtCsd EMMC_EXT_CSD_S_A_TIMEOUT;
       eraseTimeout \<leftarrow> arr_get rawExtCsd EMMC_EXT_CSD_ERASE_TIMEOUT_MULT;
       eraseGrp \<leftarrow> arr_get rawExtCsd EMMC_EXT_CSD_HC_ERASE_GRP_SIZE;
       let extCsd = extCsd\<lparr>ecsd_rawSaTimeout := saTimeout, ecsd_rawEraseTimeoutMult := eraseTimeout,
         ecsd_rawHcEraseGrpSize := eraseGrp\<rparr>;
       extCsd \<leftarrow> (if ecsd_rev extCsd \<ge> EMMC_EXT_CSD_REV_1_3 then EmmcDecodeExtCsdRev13Field extCsd rawExtCsd else Some extCsd);
       secTrim \<leftarrow> arr_get rawExtCsd EMMC_EXT_CSD_SEC_TRIM_MULT;
       secErase \<leftarrow> arr_get rawExtCsd EMMC_EXT_CSD_SEC_ERASE_MULT;
       secFeature \<leftarrow> arr_get rawExtCsd EMMC_EXT_CSD_SEC_FEATURE_SUPPORT;
       trim \<leftarrow> arr_get rawExtCsd EMMC_EXT_CSD_TRIM_MULT;
       let extCsd = extCsd\<lparr>ecsd_rawSecTrimMult := secTrim, ecsd_rawSecEraseMult := secErase,
         ecsd_rawSecFeatureSupport := secFeature, ecsd_rawTrimMult := trim\<rparr>;
       extCsd \<leftarrow> (if ecsd_rev extCsd \<ge> EMMC_EXT_CSD_REV_1_4 then EmmcDecodeExtCsdRev14Field blockAddr extCsd rawExtCsd
         else Some extCsd);
       extCsd \<leftarrow> (if ecsd_rev extCsd \<ge> EMMC_EXT_CSD_REV_1_5 then EmmcDecodeExtCsdRev15Field extCsd rawExtCsd
         else Some extCsd);
       Some (st HDF_SUCCESS, blockAddr, extCsd)
     }
   }"

definition EmmcDecodeExtCsd :: "MmcCntlr \<Rightarrow> bytes \<Rightarrow> (int \<times> MmcCntlr) option" where
  "EmmcDecodeExtCsd cntlr rawExtCsd = do {
     extCsd \<leftarrow> ecsd_of id cntlr;
     structure \<leftarrow> dev_of (\<lambda>d. csd_structure (reg_csd (dev_reg d))) cntlr;
     blockAddr \<leftarrow> dev_of (\<lambda>d. dst_blockAddr (dev_state d)) cntlr;
     (err, blockAddr, extCsd) \<leftarrow> EmmcDecodeExtCsd_fields structure blockAddr extCsd rawExtCsd;
     cntlr \<leftarrow> upd_ecsd (\<lambda>_. extCsd) cntlr;
     cntlr \<leftarrow> upd_state (\<lambda>s. s\<lparr>dst_blockAddr := blockAddr\<rparr>) cntlr;
     Some (err, cntlr)
   }"

definition shl64 :: "uint64_t \<Rightarrow> uint32_t \<Rightarrow> uint64_t option" where
  "shl64 w n = (if n < 64 then Some (push_bit (unat n) w) else None)"

definition EmmcSetBlockCapacity :: "MmcCntlr \<Rightarrow> MmcCntlr option" where
  "EmmcSetBlockCapacity cntlr = do {
     extCsd \<leftarrow> ecsd_of id cntlr;
     csd \<leftarrow> dev_of (\<lambda>d. reg_csd (dev_reg d)) cntlr;
     blockAddr \<leftarrow> dev_of (\<lambda>d. dst_blockAddr (dev_state d)) cntlr;
     let eraseSize = (if ecsd_eraseGroupDef extCsd = 1 then ecsd_hcEraseSize extCsd else csd_eraseSize csd);
     cntlr \<leftarrow> upd_dev (\<lambda>d. d\<lparr>dev_eraseSize := ucast eraseSize\<rparr>) cntlr;
     capacity \<leftarrow> (if blockAddr then Some (ucast (ecsd_sectors extCsd))
       else shl64 (ucast (csd_capacity csd)) (csd_readBlkLen csd - MMC_MAX_BLOCKSIZE_SHIFT));
     upd_dev (\<lambda>d. d\<lparr>dev_capacity := capacity\<rparr>) cntlr
   }"

section \<open>Bus width, timing and power\<close>

definition EmmcCheckExtCsd :: "MmcCntlr \<Rightarrow> uint32_t \<Rightarrow> (int \<times> MmcCntlr) option" where
  "EmmcCheckExtCsd cntlr width =
     (if width = BUS_WIDTH1 then Some (0, cntlr)
      else do {
        (err, _, cntlr) \<leftarrow> MmcSendExtCsd cntlr (replicate EXT_CSD_BYTES_LEN 0);
        Some (err, cntlr)
      })"

definition EmmcSwitchVoltage :: "MmcCntlr \<Rightarrow> (int \<times> MmcCntlr) option" where
  "EmmcSwitchVoltage cntlr = do {
     cardType \<leftarrow> ecsd_of ecsd_cardType cntlr;
     let cntlr = (if cap2_hs200Sdr1v2 (mc_caps2 cntlr) \<and> cardType AND EMMC_EXT_CSD_CARD_TYPE_SDR_1_2V > 0
       then snd (MmcCntlrSwitchVoltage cntlr VOLT_1V2) else cntlr);
     let cntlr = (if cap2_hs200Sdr1v8 (mc_caps2 cntlr) \<and> cardType AND EMMC_EXT_CSD_CARD_TYPE_SDR_1_8V > 0
       then snd (MmcCntlrSwitchVoltage cntlr VOLT_1V8) else cntlr);
     Some (st HDF_SUCCESS, cntlr)
   }"

definition try_width :: "uint8_t \<Rightarrow> uint32_t \<Rightarrow> uint32_t \<Rightarrow> MmcCntlr \<Rightarrow> (int \<times> uint32_t \<times> MmcCntlr) option" where
  "try_width widthBit busWidth width cntlr = do {
     (err, cntlr) \<leftarrow> MmcSwitch cntlr EMMC_EXT_CSD_CMD_SET_NORMAL EMMC_EXT_CSD_BUS_WIDTH widthBit;
     if err \<noteq> st HDF_SUCCESS then Some (err, width, cntlr)
     else do {
       cntlr \<leftarrow> MmcCntlrSetBusWidth cntlr busWidth;
       Some (err, busWidth, cntlr)
     }
   }"

definition EmmcSelectHighSpeedBusWidth :: "MmcCntlr \<Rightarrow> (int \<times> MmcCntlr) option" where
  "EmmcSelectHighSpeedBusWidth cntlr = do {
     (err, width, cntlr) \<leftarrow> (if cap_cap8Bit (mc_caps cntlr)
       then try_width EMMC_EXT_CSD_BUS_WIDTH_8 BUS_WIDTH8 BUS_WIDTH1 cntlr
       else Some (st HDF_FAILURE, BUS_WIDTH1, cntlr));
     (err, width, cntlr) \<leftarrow> (if err \<noteq> st HDF_SUCCESS
       then try_width EMMC_EXT_CSD_BUS_WIDTH_4 BUS_WIDTH4 width cntlr else Some (err, width, cntlr));
     if err \<noteq> st HDF_SUCCESS then Some (err, cntlr) else EmmcCheckExtCsd cntlr width
   }"

definition EmmcCheckSwitchStatus :: "MmcCntlr \<Rightarrow> (int \<times> MmcCntlr) option" where
  "EmmcCheckSwitchStatus cntlr = do {
     (err, status, cntlr) \<leftarrow> MmcSendStatus cntlr;
     if err \<noteq> st HDF_SUCCESS then Some (err, cntlr)
     else if status AND SWITCH_ERROR > 0 then Some (HDF_MMC_ERR_SWITCH_FAIL, cntlr)
     else Some (st HDF_SUCCESS, cntlr)
   }"

definition EmmcSwitchHighSpeed :: "MmcCntlr \<Rightarrow> (int \<times> MmcCntlr) option" where
  "EmmcSwitchHighSpeed cntlr =
     on_success (MmcSwitch cntlr EMMC_EXT_CSD_CMD_SET_NORMAL EMMC_EXT_CSD_HS_TIMING EMMC_EXT_CSD_BUS_TIMING_HS) (\<lambda>cntlr. do {
       cntlr \<leftarrow> MmcCntlrSetClock cntlr EMMC_EXT_CSD_HIGH_SPEED_52;
       cntlr \<leftarrow> MmcCntlrSetBusTiming cntlr BUS_TIMING_MMC_HS;
       Some (st HDF_SUCCESS, cntlr)
     })"

definition EmmcSelectHs400 :: "MmcCntlr \<Rightarrow> (int \<times> MmcCntlr) option" where
  "EmmcSelectHs400 cntlr =
     on_success (EmmcSwitchHighSpeed cntlr) (\<lambda>cntlr.
     on_success (MmcSwitch cntlr EMMC_EXT_CSD_CMD_SET_NORMAL EMMC_EXT_CSD_BUS_WIDTH EMMC_EXT_CSD_DDR_BUS_WIDTH_8) (\<lambda>cntlr.
     on_success (MmcSwitch cntlr EMMC_EXT_CSD_CMD_SET_NORMAL EMMC_EXT_CSD_HS_TIMING EMMC_EXT_CSD_BUS_TIMING_HS400) (\<lambda>cntlr. do {
       cntlr \<leftarrow> MmcCntlrSetClock cntlr EMMC_EXT_CSD_HIGH_SPEED_200;
       cntlr \<leftarrow> MmcCntlrSetBusTiming cntlr BUS_TIMING_MMC_HS400;
       EmmcCheckSwitchStatus cntlr
     })))"

definition EmmcSelectHs400es :: "MmcCntlr \<Rightarrow> (int \<times> MmcCntlr) option" where
  "EmmcSelectHs400es cntlr =
     on_success (EmmcSwitchVoltage cntlr) (\<lambda>cntlr.
     on_success (EmmcSelectHighSpeedBusWidth cntlr) (\<lambda>cntlr.
     on_success (EmmcSwitchHighSpeed cntlr) (\<lambda>cntlr.
     on_success (MmcSwitch cntlr EMMC_EXT_CSD_CMD_SET_NORMAL EMMC_EXT_CSD_BUS_WIDTH
         (EMMC_EXT_CSD_DDR_BUS_WIDTH_8 OR EMMC_EXT_CSD_BUS_WIDTH_STROBE)) (\<lambda>cntlr.
     on_success (MmcSwitch cntlr EMMC_EXT_CSD_CMD_SET_NORMAL EMMC_EXT_CSD_HS_TIMING EMMC_EXT_CSD_BUS_TIMING_HS400) (\<lambda>cntlr. do {
       cntlr \<leftarrow> MmcCntlrSetClock cntlr EMMC_EXT_CSD_HIGH_SPEED_200;
       cntlr \<leftarrow> MmcCntlrSetBusTiming cntlr BUS_TIMING_MMC_HS400;
       EmmcCheckSwitchStatus (MmcCntlrSetEnhanceSrobe cntlr True)
     })))))"

definition EmmcSelectHs200 :: "MmcCntlr \<Rightarrow> (int \<times> MmcCntlr) option" where
  "EmmcSelectHs200 cntlr =
     on_success (EmmcSwitchVoltage cntlr) (\<lambda>cntlr.
     on_success (EmmcSelectHighSpeedBusWidth cntlr) (\<lambda>cntlr.
     on_success (MmcSwitch cntlr EMMC_EXT_CSD_CMD_SET_NORMAL EMMC_EXT_CSD_HS_TIMING EMMC_EXT_CSD_BUS_TIMING_HS200) (\<lambda>cntlr. do {
       cntlr \<leftarrow> MmcCntlrSetBusTiming cntlr BUS_TIMING_MMC_HS200;
       EmmcCheckSwitchStatus cntlr
     })))"

definition EmmcGetPowerClassValue :: "MmcCntlr \<Rightarrow> uint32_t option" where
  "EmmcGetPowerClassValue cntlr = do {
     extCsd \<leftarrow> ecsd_of id cntlr;
     work \<leftarrow> dev_of dev_workPara cntlr;
     let busWidthBit = (if wp_width work = BUS_WIDTH8 then EMMC_EXT_CSD_BUS_WIDTH_8 else EMMC_EXT_CSD_BUS_WIDTH_4 :: uint32_t);
     vdd \<leftarrow> shl32 1 (mc_vddBit cntlr);
     let clock = wp_clock work;
     let val =
       (if vdd = MMC_OCR_1V65_1V95 then
          Some (if clock \<le> EMMC_EXT_CSD_HIGH_SPEED_26 then ecsd_pwrClF26V195 extCsd
            else if clock \<le> EMMC_EXT_CSD_HIGH_SPEED_52 then ecsd_pwrClF52V195 extCsd
            else if clock \<le> EMMC_EXT_CSD_HIGH_SPEED_200 then ecsd_pwrClF200V195 extCsd else 0)
        else if vdd \<ge> MMC_OCR_2V7_2V8 \<and> vdd \<le> MMC_OCR_3V5_3V6 then
          Some (if clock \<le> EMMC_EXT_CSD_HIGH_SPEED_26 then ecsd_pwrClF26V360 extCsd
            else if clock \<le> EMMC_EXT_CSD_HIGH_SPEED_52 then ecsd_pwrClF52V360 extCsd
            else if clock \<le> EMMC_EXT_CSD_HIGH_SPEED_200 then ecsd_pwrClF200V360 extCsd else 0)
        else None);
     Some (case val of None \<Rightarrow> 0
       | Some v \<Rightarrow>
           if busWidthBit = EMMC_EXT_CSD_BUS_WIDTH_8
           then drop_bit EMMC_EXT_CSD_PWR_CL_8BIT_SHIFT (ucast v AND EMMC_EXT_CSD_PWR_CL_8BIT_MASK)
           else drop_bit EMMC_EXT_CSD_PWR_CL_4BIT_SHIFT (ucast v AND EMMC_EXT_CSD_PWR_CL_4BIT_MASK))
   }"

definition EmmcSelectPowerClass :: "MmcCntlr \<Rightarrow> (int \<times> MmcCntlr) option" where
  "EmmcSelectPowerClass cntlr = do {
     specVers \<leftarrow> dev_of (\<lambda>d. csd_specVers (reg_csd (dev_reg d))) cntlr;
     if specVers < MMC_CSD_SPEC_VER_4 then Some (st HDF_SUCCESS, cntlr)
     else do {
       val \<leftarrow> EmmcGetPowerClassValue cntlr;
       if val > 0 then MmcSwitch cntlr EMMC_EXT_CSD_CMD_SET_NORMAL EMMC_EXT_CSD_POWER_CLASS (ucast val)
       else Some (0, cntlr)
     }
   }"

definition EmmcSelectActivateHighSpeed :: "MmcCntlr \<Rightarrow> (int \<times> MmcCntlr) option" where
  "EmmcSelectActivateHighSpeed cntlr = do {
     hsMaxDtr \<leftarrow> ecsd_of ecsd_hsMaxDtr cntlr;
     if hsMaxDtr > 0 then do {
       (error, cntlr) \<leftarrow>
         (if MmcCntlrSupportHighSpeed200 cntlr \<and> hsMaxDtr > EMMC_EXT_CSD_HIGH_SPEED_52 then do {
            (error, cntlr) \<leftarrow> EmmcSelectHs200 cntlr;
            cntlr \<leftarrow> (if error = st HDF_SUCCESS then upd_state (\<lambda>s. s\<lparr>dst_hs200 := True\<rparr>) cntlr else Some cntlr);
            Some (error, cntlr)
          }
          else if cap_highSpeed (mc_caps cntlr) then do {
            (error, cntlr) \<leftarrow> MmcSwitch cntlr EMMC_EXT_CSD_CMD_SET_NORMAL EMMC_EXT_CSD_HS_TIMING EMMC_EXT_CSD_BUS_TIMING_HS;
            cntlr \<leftarrow> (if error = st HDF_SUCCESS then do {
                cntlr \<leftarrow> upd_state (\<lambda>s. s\<lparr>dst_highSpeed := True\<rparr>) cntlr;
                MmcCntlrSetBusTiming cntlr BUS_TIMING_MMC_HS
              } else Some cntlr);
            Some (error, cntlr)
          }
          else Some (st HDF_SUCCESS, cntlr));
       if error \<noteq> st HDF_SUCCESS \<and> error \<noteq> HDF_MMC_ERR_SWITCH_FAIL then Some (error, cntlr)
       else Some (st HDF_SUCCESS, cntlr)
     }
     else Some (st HDF_SUCCESS, cntlr)
   }"

definition EmmcSelectBusSpeedMode_clock :: "MmcCntlr \<Rightarrow> (int \<times> MmcCntlr) option" where
  "EmmcSelectBusSpeedMode_clock cntlr = do {
     strobeSupport \<leftarrow> ecsd_of ecsd_strobeSupport cntlr;
     if strobeSupport > 0 \<and> MmcCntlrSupportHighSpeed400EnhancedStrobe cntlr then
       on_success (EmmcSelectHs400es cntlr) (\<lambda>cntlr. do {
         cntlr \<leftarrow> upd_state (\<lambda>s. s\<lparr>dst_hs400es := True\<rparr>) cntlr;
         Some (st HDF_SUCCESS, cntlr)
       })
     else
       on_success (EmmcSelectActivateHighSpeed cntlr) (\<lambda>cntlr. do {
         state \<leftarrow> dev_of dev_state cntlr;
         hsMaxDtr \<leftarrow> ecsd_of ecsd_hsMaxDtr cntlr;
         maxDtr \<leftarrow> dev_of (\<lambda>d. csd_maxDtr (reg_csd (dev_reg d))) cntlr;
         cntlr \<leftarrow> (if dst_hs200 state \<or> dst_highSpeed state
           then (if hsMaxDtr > 0 then MmcCntlrSetClock cntlr hsMaxDtr else Some cntlr)
           else if maxDtr > 0 then MmcCntlrSetClock cntlr maxDtr else Some cntlr);
         Some (st HDF_SUCCESS, cntlr)
       })
   }"

definition EmmcSelectBusSpeedMode_power :: "MmcCntlr \<Rightarrow> (int \<times> MmcCntlr) option" where
  "EmmcSelectBusSpeedMode_power cntlr = do {
     state \<leftarrow> dev_of dev_state cntlr;
     if dst_hs400es state then do {
       (_, cntlr) \<leftarrow> EmmcSelectPowerClass cntlr;
       Some (st HDF_SUCCESS, cntlr)
     }
     else if dst_hs200 state then
       on_success (Some (if cap2_hs200Sdr1v8 (mc_caps2 cntlr) \<or> cap2_hs200Sdr1v2 (mc_caps2 cntlr)
           then MmcCntlrTune cntlr SEND_TUNING_BLOCK_HS200 else (st HDF_SUCCESS, cntlr))) (\<lambda>cntlr. do {
         rawCardType \<leftarrow> ecsd_of ecsd_rawCardType cntlr;
         on_success (if rawCardType AND EMMC_EXT_CSD_CARD_TYPE_HS400 > 0 \<and> MmcCntlrSupportHighSpeed400 cntlr
           then on_success (EmmcSelectHs400 cntlr) (\<lambda>cntlr. do {
               cntlr \<leftarrow> upd_state (\<lambda>s. s\<lparr>dst_hs400 := True, dst_hs200 := False\<rparr>) cntlr;
               Some (st HDF_SUCCESS, cntlr)
             })
           else Some (st HDF_SUCCESS, cntlr)) (\<lambda>cntlr. do {
           (_, cntlr) \<leftarrow> EmmcSelectPowerClass cntlr;
           Some (st HDF_SUCCESS, cntlr)
         })
       })
     else Some (st HDF_SUCCESS, cntlr)
   }"

definition EmmcSelectBusSpeedMode :: "MmcCntlr \<Rightarrow> (int \<times> MmcCntlr) option" where
  "EmmcSelectBusSpeedMode cntlr = on_success (EmmcSelectBusSpeedMode_clock cntlr) EmmcSelectBusSpeedMode_power"

definition EmmcGetDdrMode :: "MmcCntlr \<Rightarrow> uint32_t option" where
  "EmmcGetDdrMode cntlr = do {
     state \<leftarrow> dev_of dev_state cntlr;
     cardType \<leftarrow> ecsd_of ecsd_cardType cntlr;
     Some (if dst_highSpeed state then
         if cardType AND EMMC_EXT_CSD_CARD_TYPE_DDR_1_8V > 0 \<and> cap_ddr1v8 (mc_caps cntlr) \<and> cap_uhsDdr50 (mc_caps cntlr)
         then MMC_1_8V_DDR_MODE
         else if cardType AND EMMC_EXT_CSD_CARD_TYPE_DDR_1_2V > 0 \<and> cap_ddr1v2 (mc_caps cntlr) then MMC_1_2V_DDR_MODE
         else MMC_BUS_MODE_NULL
       else MMC_BUS_MODE_NULL)
   }"

definition EmmcSwitchDdrMode :: "MmcCntlr \<Rightarrow> uint32_t \<Rightarrow> uint32_t \<Rightarrow> uint8_t \<Rightarrow> (int \<times> MmcCntlr) option" where
  "EmmcSwitchDdrMode cntlr ddrMode width widthBit =
     on_success (MmcSwitch cntlr EMMC_EXT_CSD_CMD_SET_NORMAL EMMC_EXT_CSD_BUS_WIDTH widthBit) (\<lambda>cntlr.
     on_success (Some (if ddrMode = MMC_1_2V_DDR_MODE then MmcCntlrSwitchVoltage cntlr VOLT_1V2
         else (st HDF_SUCCESS, cntlr))) (\<lambda>cntlr. do {
       cntlr \<leftarrow> upd_state (\<lambda>s. s\<lparr>dst_ddrMode := True\<rparr>) cntlr;
       cntlr \<leftarrow> MmcCntlrSetBusTiming cntlr BUS_TIMING_UHS_DDR50;
       cntlr \<leftarrow> MmcCntlrSetBusWidth cntlr width;
       Some (st HDF_SUCCESS, cntlr)
     }))"

text \<open>
  The loop over the bus widths, from index on: the list has the widths that are left with their two
  codes.  It gives the last status, the mode, the width it stopped at and that width's second code.
\<close>

fun ddr_width_loop :: "(uint32_t \<times> uint8_t \<times> uint8_t) list \<Rightarrow> int \<Rightarrow> uint32_t \<Rightarrow> uint32_t \<Rightarrow> uint8_t \<Rightarrow> MmcCntlr \<Rightarrow>
    (int \<times> uint32_t \<times> uint32_t \<times> uint8_t \<times> MmcCntlr) option" where
  "ddr_width_loop [] error ddrMode width ddrBit cntlr = Some (error, ddrMode, width, ddrBit, cntlr)"
| "ddr_width_loop ((width, widthBit, ddrBit) # rest) _ ddrMode _ _ cntlr = do {
     let ddrMode = (if width = BUS_WIDTH1 then MMC_BUS_MODE_NULL else ddrMode);
     (error, cntlr) \<leftarrow> MmcSwitch cntlr EMMC_EXT_CSD_CMD_SET_NORMAL EMMC_EXT_CSD_BUS_WIDTH widthBit;
     if error \<noteq> st HDF_SUCCESS then ddr_width_loop rest error ddrMode width ddrBit cntlr
     else do {
       cntlr \<leftarrow> MmcCntlrSetBusWidth cntlr width;
       (error, cntlr) \<leftarrow> EmmcCheckExtCsd cntlr width;
       if error = st HDF_SUCCESS then Some (error, ddrMode, width, ddrBit, cntlr)
       else ddr_width_loop rest error ddrMode width ddrBit cntlr
     }
   }"

definition ddr_widths :: "(uint32_t \<times> uint8_t \<times> uint8_t) list" where
  "ddr_widths = [
     (BUS_WIDTH8, EMMC_EXT_CSD_BUS_WIDTH_8, EMMC_EXT_CSD_DDR_BUS_WIDTH_8),
     (BUS_WIDTH4, EMMC_EXT_CSD_BUS_WIDTH_4, EMMC_EXT_CSD_DDR_BUS_WIDTH_4),
     (BUS_WIDTH1, EMMC_EXT_CSD_BUS_WIDTH_1, EMMC_EXT_CSD_BUS_WIDTH_1)]"

definition EmmcSelectSwitchDdrMode :: "MmcCntlr \<Rightarrow> (int \<times> MmcCntlr) option" where
  "EmmcSelectSwitchDdrMode cntlr = do {
     ddrMode \<leftarrow> EmmcGetDdrMode cntlr;
     state \<leftarrow> dev_of dev_state cntlr;
     specVers \<leftarrow> dev_of (\<lambda>d. csd_specVers (reg_csd (dev_reg d))) cntlr;
     if \<not> dst_hs400es state \<and> \<not> dst_hs400 state \<and> \<not> dst_hs200 state \<and> specVers \<ge> MMC_CSD_SPEC_VER_4 \<and>
       (cap_cap4Bit (mc_caps cntlr) \<or> cap_cap8Bit (mc_caps cntlr))
     then do {
       let index = (if cap_cap8Bit (mc_caps cntlr) then 0 else 1);
       (error, ddrMode, width, ddrBit, cntlr) \<leftarrow> ddr_width_loop (drop index ddr_widths) 0 ddrMode 0 0 cntlr;
       if error = st HDF_SUCCESS \<and> ddrMode > MMC_BUS_MODE_NULL then EmmcSwitchDdrMode cntlr ddrMode width ddrBit
       else Some (error, cntlr)
     }
     else Some (st HDF_SUCCESS, cntlr)
   }"

definition EmmcActivateHpiMechanism :: "MmcCntlr \<Rightarrow> (int \<times> MmcCntlr) option" where
  "EmmcActivateHpiMechanism cntlr = do {
     hpi \<leftarrow> ecsd_of ecsd_hpi cntlr;
     if hpi then do {
       (error, cntlr) \<leftarrow> MmcSwitch cntlr EMMC_EXT_CSD_CMD_SET_NORMAL EMMC_EXT_CSD_HPI_MGMT 1;
       if error = st HDF_SUCCESS then do {
         cntlr \<leftarrow> upd_ecsd (\<lambda>e. e\<lparr>ecsd_hpiEnable := True\<rparr>) cntlr;
         Some (st HDF_SUCCESS, cntlr)
       }
       else if error \<noteq> HDF_MMC_ERR_SWITCH_FAIL then Some (error, cntlr)
       else Some (st HDF_SUCCESS, cntlr)
     }
     else Some (st HDF_SUCCESS, cntlr)
   }"

definition EmmcSwitchOperationMode_erase :: "MmcCntlr \<Rightarrow> (int \<times> MmcCntlr) option" where
  "EmmcSwitchOperationMode_erase cntlr = do {
     enhAreaEnable \<leftarrow> ecsd_of ecsd_enhAreaEnable cntlr;
     if enhAreaEnable then do {
       (error, cntlr) \<leftarrow> MmcSwitch cntlr EMMC_EXT_CSD_CMD_SET_NORMAL EMMC_EXT_CSD_ERASE_GROUP_DEF 1;
       if error = st HDF_SUCCESS then do {
         cntlr \<leftarrow> upd_ecsd (\<lambda>e. e\<lparr>ecsd_eraseGroupDef := 1\<rparr>) cntlr;
         Some (st HDF_SUCCESS, cntlr)
       }
       else if error \<noteq> HDF_MMC_ERR_SWITCH_FAIL then Some (error, cntlr)
       else Some (st HDF_SUCCESS, cntlr)
     }
     else Some (st HDF_SUCCESS, cntlr)
   }"

definition EmmcSwitchOperationMode_partition :: "MmcCntlr \<Rightarrow> (int \<times> MmcCntlr) option" where
  "EmmcSwitchOperationMode_partition cntlr = do {
     partConfig \<leftarrow> ecsd_of ecsd_partConfig cntlr;
     if partConfig AND EMMC_EXT_CSD_PART_CONFIG_ACCESS_MASK > 0 then do {
       let partConfig = partConfig AND NOT EMMC_EXT_CSD_PART_CONFIG_ACCESS_MASK;
       cntlr \<leftarrow> upd_ecsd (\<lambda>e. e\<lparr>ecsd_partConfig := partConfig\<rparr>) cntlr;
       (error, cntlr) \<leftarrow> MmcSwitch cntlr EMMC_EXT_CSD_CMD_SET_NORMAL EMMC_EXT_CSD_PARTITION_CONFIG partConfig;
       if error \<noteq> st HDF_SUCCESS \<and> error \<noteq> HDF_MMC_ERR_SWITCH_FAIL then Some (error, cntlr)
       else Some (st HDF_SUCCESS, cntlr)
     }
     else Some (st HDF_SUCCESS, cntlr)
   }"

definition EmmcSwitchOperationMode :: "MmcCntlr \<Rightarrow> (int \<times> MmcCntlr) option" where
  "EmmcSwitchOperationMode cntlr =
     on_success (EmmcSwitchOperationMode_erase cntlr) (\<lambda>cntlr.
     on_success (EmmcSwitchOperationMode_partition cntlr) (\<lambda>cntlr.
     on_success (EmmcSelectBusSpeedMode cntlr) (\<lambda>cntlr.
     on_success (EmmcSelectSwitchDdrMode cntlr) EmmcActivateHpiMechanism)))"

section \<open>Initialisation\<close>

definition EmmcReadExtCsd :: "MmcCntlr \<Rightarrow> (int \<times> MmcCntlr) option" where
  "EmmcReadExtCsd cntlr = do {
     specVers \<leftarrow> dev_of (\<lambda>d. csd_specVers (reg_csd (dev_reg d))) cntlr;
     if specVers < MMC_CSD_SPEC_VER_4 then Some (st HDF_SUCCESS, cntlr)
     else do {
       (error, extCsd, cntlr) \<leftarrow> MmcSendExtCsd cntlr (replicate EXT_CSD_BYTES_LEN 0);
       if error \<noteq> st HDF_SUCCESS then Some (error, cntlr) else EmmcDecodeExtCsd cntlr extCsd
     }
   }"

definition EmmcSelect :: "MmcCntlr \<Rightarrow> uint32_t \<Rightarrow> (int \<times> MmcCntlr) option" where
  "EmmcSelect cntlr ocr = do {
     let cntlr = MmcGoIdleState cntlr;
     let ocr = set_bit 30 ocr;
     (error, curOcr, cntlr) \<leftarrow> MmcSendOpCond cntlr ocr;
     on_success (Some (error, cntlr)) (\<lambda>cntlr.
     on_success (MmcAllSendCid cntlr) (\<lambda>cntlr. do {
       cntlr \<leftarrow> upd_reg (\<lambda>r. r\<lparr>reg_rca := 1\<rparr>) cntlr;
       on_success (Some (MmcSetRelativeAddr cntlr)) (\<lambda>cntlr.
       on_success (MmcSendCsd cntlr) (\<lambda>cntlr.
       on_success (EmmcDecodeCsd cntlr) (\<lambda>cntlr.
       on_success (EmmcDecodeCid cntlr) (\<lambda>cntlr.
       on_success (Some (MmcSelectCard cntlr)) (\<lambda>cntlr.
       on_success (EmmcReadExtCsd cntlr) EmmcSwitchOperationMode)))))
     }))
   }"

definition EmmcDeviceAdd :: "MmcCntlr \<Rightarrow> (int \<times> MmcCntlr) option" where
  "EmmcDeviceAdd cntlr = do {
     cntlr \<leftarrow> EmmcSetBlockCapacity cntlr;
     (ret, cntlr) \<leftarrow> MmcDeviceAdd cntlr;
     if ret \<noteq> st HDF_SUCCESS then Some (st HDF_FAILURE, cntlr)
     else do {
       cntlr \<leftarrow> upd_state (\<lambda>s. s\<lparr>dst_present := True\<rparr>) cntlr;
       Some (st HDF_SUCCESS, cntlr)
     }
   }"

definition EmmcInit :: "MmcCntlr \<Rightarrow> (int \<times> MmcCntlr) option" where
  "EmmcInit cntlr = do {
     (error, ocr, cntlr) \<leftarrow> MmcSendOpCond cntlr 0;
     if error \<noteq> st HDF_SUCCESS then Some (error, cntlr)
     else do {
       (ocr, cntlr) \<leftarrow> MmcCntlrSelectWorkVoltage cntlr ocr;
       ocr \<leftarrow> dev_of (\<lambda>d. reg_ocr (dev_reg d)) cntlr;
       if ocr = 0 then Some (st HDF_ERR_INVALID_PARAM, cntlr)
       else
         let cntlr = (if bit ocr 7 then snd (MmcCntlrSwitchVoltage cntlr VOLT_1V8) else cntlr)
         in on_success (EmmcSelect cntlr ocr) EmmcDeviceAdd
     }
   }"

definition EmmcDetect :: "MmcCntlr \<Rightarrow> (int \<times> MmcCntlr) option" where
  "EmmcDetect cntlr = EmmcInit (MmcGoIdleState cntlr)"

end
