(* ===== verification/Mmc_Sd.thy ===== *)
theory Mmc_Sd
  imports Mmc_Emmc
begin

text \<open>
  The storage stack, fourth part: SD memory cards.  Application commands, the registers SCR, SSR,
  CSD and CID of an SD card, the choice of voltage and bus speed, and the whole sequence of
  initialisation of \<^verbatim>\<open>mmc_protocol.c\<close>.
\<close>

abbreviation (input) SD_ACMD_SD_STATUS where "SD_ACMD_SD_STATUS \<equiv> 13"
abbreviation (input) SSR_BYTES_LEN where "SSR_BYTES_LEN \<equiv> 64"
abbreviation (input) SD_ACMD_SEND_SCR where "SD_ACMD_SEND_SCR \<equiv> 51"
abbreviation (input) SCR_BYTES_LEN where "SCR_BYTES_LEN \<equiv> 8"
abbreviation (input) SD_ACMD_SET_BUS_WIDTH where "SD_ACMD_SET_BUS_WIDTH \<equiv> 6"
abbreviation (input) SD_CMD_SEND_IF_COND where "SD_CMD_SEND_IF_COND \<equiv> 8"
abbreviation (input) MMC_RESP_SPI_R7 where "MMC_RESP_SPI_R7 \<equiv> 640"
abbreviation (input) MMC_RESP_R7 where "MMC_RESP_R7 \<equiv> 21"
abbreviation (input) SD_CMD_SEND_RELATIVE_ADDR where "SD_CMD_SEND_RELATIVE_ADDR \<equiv> 3"
abbreviation (input) MMC_RESP_R6 where "MMC_RESP_R6 \<equiv> 21"
abbreviation (input) SD_CMD_SWITCH_VOLTAGE where "SD_CMD_SWITCH_VOLTAGE \<equiv> 11"
abbreviation (input) GENERAL_ERROR where "GENERAL_ERROR \<equiv> 0x80000"
abbreviation (input) SD_CMD_SWITCH_FUNC where "SD_CMD_SWITCH_FUNC \<equiv> 6"
abbreviation (input) SCR_BITS where "SCR_BITS \<equiv> 64"
abbreviation (input) SD_SCR_SPEC_2 where "SD_SCR_SPEC_2 \<equiv> 2"
abbreviation (input) SSR_BITS where "SSR_BITS \<equiv> 0x200"
abbreviation (input) MMC_CSD_CCC_APP_SPEC where "MMC_CSD_CCC_APP_SPEC \<equiv> 0x100"
abbreviation (input) SD_SWITCH_FUNC_MODE_CHECK where "SD_SWITCH_FUNC_MODE_CHECK \<equiv> 0"
abbreviation (input) SD_SWITCH_FUNC_GROUP_3 where "SD_SWITCH_FUNC_GROUP_3 \<equiv> 2"
abbreviation (input) SD_SWITCH_FUNC_GROUP_4 where "SD_SWITCH_FUNC_GROUP_4 \<equiv> 3"
abbreviation (input) SD_SCR_SPEC_1 where "SD_SCR_SPEC_1 \<equiv> 1"
abbreviation (input) MMC_CSD_CCC_SWITCH where "MMC_CSD_CCC_SWITCH \<equiv> 0x400"
abbreviation (input) SD_SWITCH_FUNC_GROUP_1 where "SD_SWITCH_FUNC_GROUP_1 \<equiv> 0"
abbreviation (input) SD_SWITCH_FUNCTION_STATUS_BYTES_LEN where "SD_SWITCH_FUNCTION_STATUS_BYTES_LEN \<equiv> 64"
abbreviation (input) SD_BUS_SPEED_MODE_HS where "SD_BUS_SPEED_MODE_HS \<equiv> 1"
abbreviation (input) SD_HIGH_SPEED_MAX_DTR where "SD_HIGH_SPEED_MAX_DTR \<equiv> 0x2faf080"
abbreviation (input) SD_BUS_SPEED_MODE_DS where "SD_BUS_SPEED_MODE_DS \<equiv> 0"
abbreviation (input) SD_BUS_SPEED_MODE_UHS_SDR104 where "SD_BUS_SPEED_MODE_UHS_SDR104 \<equiv> 3"
abbreviation (input) SD_BUS_SPEED_MODE_UHS_DDR50 where "SD_BUS_SPEED_MODE_UHS_DDR50 \<equiv> 4"
abbreviation (input) SD_BUS_SPEED_MODE_UHS_SDR50 where "SD_BUS_SPEED_MODE_UHS_SDR50 \<equiv> 2"
abbreviation (input) SD_BUS_SPEED_MODE_UHS_SDR25 where "SD_BUS_SPEED_MODE_UHS_SDR25 \<equiv> 1"
abbreviation (input) SD_BUS_SPEED_MODE_UHS_SDR12 where "SD_BUS_SPEED_MODE_UHS_SDR12 \<equiv> 0"
abbreviation (input) SD_CMD_SEND_TUNING_BLOCK where "SD_CMD_SEND_TUNING_BLOCK \<equiv> 19"
abbreviation (input) SD_MAX_CURRENT_LIMIT_800 where "SD_MAX_CURRENT_LIMIT_800 \<equiv> 8"
abbreviation (input) SD_MAX_CURRENT_LIMIT_800_VALUE where "SD_MAX_CURRENT_LIMIT_800_VALUE \<equiv> 3"
abbreviation (input) SD_MAX_CURRENT_LIMIT_600 where "SD_MAX_CURRENT_LIMIT_600 \<equiv> 4"
abbreviation (input) SD_MAX_CURRENT_LIMIT_600_VALUE where "SD_MAX_CURRENT_LIMIT_600_VALUE \<equiv> 2"
abbreviation (input) SD_MAX_CURRENT_LIMIT_400 where "SD_MAX_CURRENT_LIMIT_400 \<equiv> 2"
abbreviation (input) SD_MAX_CURRENT_LIMIT_400_VALUE where "SD_MAX_CURRENT_LIMIT_400_VALUE \<equiv> 1"
abbreviation (input) SD_MAX_CURRENT_LIMIT_200 where "SD_MAX_CURRENT_LIMIT_200 \<equiv> 1"
abbreviation (input) SD_MAX_CURRENT_LIMIT_200_VALUE where "SD_MAX_CURRENT_LIMIT_200_VALUE \<equiv> 0"
abbreviation (input) SD_SWITCH_FUNC_MODE_SET where "SD_SWITCH_FUNC_MODE_SET \<equiv> 1"
abbreviation (input) BUS_TIMING_UHS_SDR104 where "BUS_TIMING_UHS_SDR104 \<equiv> 6"
abbreviation (input) SD_UHS_SDR104_MAX_DTR where "SD_UHS_SDR104_MAX_DTR \<equiv> 0xc65d400"
abbreviation (input) SD_UHS_DDR50_MAX_DTR where "SD_UHS_DDR50_MAX_DTR \<equiv> 0x2faf080"
abbreviation (input) BUS_TIMING_UHS_SDR50 where "BUS_TIMING_UHS_SDR50 \<equiv> 5"
abbreviation (input) SD_UHS_SDR50_MAX_DTR where "SD_UHS_SDR50_MAX_DTR \<equiv> 0x5f5e100"
abbreviation (input) BUS_TIMING_UHS_SDR25 where "BUS_TIMING_UHS_SDR25 \<equiv> 4"
abbreviation (input) SD_UHS_SDR25_MAX_DTR where "SD_UHS_SDR25_MAX_DTR \<equiv> 0x2faf080"
abbreviation (input) BUS_TIMING_UHS_SDR12 where "BUS_TIMING_UHS_SDR12 \<equiv> 3"
abbreviation (input) SD_UHS_SDR12_MAX_DTR where "SD_UHS_SDR12_MAX_DTR \<equiv> 0x17d7840"
abbreviation (input) SD_SCR_BUS_WIDTHS_4 where "SD_SCR_BUS_WIDTHS_4 \<equiv> 4"
abbreviation (input) BUS_TIMING_SD_HS where "BUS_TIMING_SD_HS \<equiv> 2"

section \<open>Commands\<close>

fun app_cmd_loop :: "MmcData option \<Rightarrow> nat \<Rightarrow> int \<Rightarrow> MmcCmd \<Rightarrow> MmcCntlr \<Rightarrow> (int \<times> MmcCmd \<times> MmcCntlr) option" where
  "app_cmd_loop data 0 err cmd cntlr = Some (err, cmd, cntlr)"
| "app_cmd_loop data (Suc n) err cmd cntlr = do {
     (err, cntlr) \<leftarrow> MmcAppCmd cntlr (cmd_cmdCode cmd);
     if err \<noteq> st HDF_SUCCESS then app_cmd_loop data n err cmd cntlr
     else
       let (err, cmd, cntlr) = MmcSendCmd cntlr cmd data 1
       in if err = st HDF_SUCCESS then Some (err, cmd, cntlr) else app_cmd_loop data n err cmd cntlr
   }"

definition SdSendAppCmd :: "MmcCntlr \<Rightarrow> MmcCmd \<Rightarrow> MmcData option \<Rightarrow> nat \<Rightarrow> (int \<times> MmcCmd \<times> MmcCntlr) option" where
  "SdSendAppCmd cntlr cmd data retryTimes =
     (if retryTimes = 0 then Some (st HDF_ERR_INVALID_PARAM, cmd, cntlr)
      else app_cmd_loop data (Suc retryTimes) 0 cmd cntlr)"

definition SdAcmdOpCond :: "MmcCntlr \<Rightarrow> uint32_t \<Rightarrow> (int \<times> uint32_t \<times> MmcCntlr) option" where
  "SdAcmdOpCond cntlr arg = do {
     let cmd = mk_cmd SD_ACMD_OP_COND arg (MMC_RESP_R3 OR MMC_CMD_TYPE_BCR);
     (err, cmd, cntlr) \<leftarrow> op_cond_loop (\<lambda>cntlr cmd. SdSendAppCmd cntlr cmd None MMC_CMD_DEFAULT_RETRY_TIMES) arg
       INIT_CMD_RETRY_TIMES 0 cmd cntlr;
     ocr \<leftarrow> resp0 cmd;
     Some (err, ocr, cntlr)
   }"

text \<open>Words of a little-endian host over a buffer of bytes.\<close>

fun le_words :: "bytes \<Rightarrow> uint32_t list" where
  "le_words (a # b # c # d # bs) =
     (ucast a OR push_bit 8 (ucast b) OR push_bit 16 (ucast c) OR push_bit 24 (ucast d)) # le_words bs"
| "le_words _ = []"

definition read_app_register :: "MmcCntlr \<Rightarrow> uint32_t \<Rightarrow> uint32_t \<Rightarrow> nat \<Rightarrow> (int \<times> uint32_t list \<times> MmcCntlr) option" where
  "read_app_register cntlr code respType len = do {
     let cmd = mk_cmd code 0 respType;
     let data = zero_MmcData\<lparr>dat_blockSize := of_nat len, dat_blockNum := 1, dat_dataFlags := DATA_READ,
       dat_dataBuffer := Some (replicate len 0)\<rparr>;
     (error, cmd, cntlr) \<leftarrow> SdSendAppCmd cntlr cmd (Some data) 1;
     if error \<noteq> st HDF_SUCCESS then Some (error, [], cntlr)
     else do {
       buf \<leftarrow> data_buffer cmd;
       raw \<leftarrow> mem_read buf 0 len;
       Some (error, map MmcEndianConversion (le_words raw), cntlr)
     }
   }"

definition SdAcmdSdStatus :: "MmcCntlr \<Rightarrow> (int \<times> uint32_t list \<times> MmcCntlr) option" where
  "SdAcmdSdStatus cntlr =
     read_app_register cntlr SD_ACMD_SD_STATUS (MMC_RESP_SPI_R2 OR MMC_RESP_R1 OR MMC_CMD_TYPE_ADTC) SSR_BYTES_LEN"

definition SdAppSendScr :: "MmcCntlr \<Rightarrow> (int \<times> uint32_t list \<times> MmcCntlr) option" where
  "SdAppSendScr cntlr = read_app_register cntlr SD_ACMD_SEND_SCR (MMC_RESP_R1 OR MMC_CMD_TYPE_ADTC) SCR_BYTES_LEN"

definition SdAcmdSetBusWidth :: "MmcCntlr \<Rightarrow> uint32_t \<Rightarrow> (int \<times> MmcCntlr) option" where
  "SdAcmdSetBusWidth cntlr width = do {
     let cmd = mk_cmd SD_ACMD_SET_BUS_WIDTH width (MMC_RESP_R1 OR MMC_CMD_TYPE_AC);
     (err, cmd, cntlr) \<leftarrow> SdSendAppCmd cntlr cmd None MMC_CMD_DEFAULT_RETRY_TIMES;
     Some (err, cntlr)
   }"

definition SdCmdSendIfCond :: "MmcCntlr \<Rightarrow> uint32_t \<Rightarrow> (int \<times> MmcCntlr) option" where
  "SdCmdSendIfCond cntlr ocr = do {
     let vhs = (if ocr AND 0xFF8000 > 0 then 1 else 0);
     let cmd = mk_cmd SD_CMD_SEND_IF_COND (push_bit 8 vhs OR 0xAA) (MMC_RESP_SPI_R7 OR MMC_RESP_R7 OR MMC_CMD_TYPE_BCR);
     let (err, cmd, cntlr) = MmcSendCmd cntlr cmd None 1;
     if err \<noteq> st HDF_SUCCESS then Some (err, cntlr)
     else do {
       r \<leftarrow> resp0 cmd;
       if r AND 0xFF \<noteq> 0xAA then Some (st HDF_ERR_IO, cntlr) else Some (st HDF_SUCCESS, cntlr)
     }
   }"

text \<open>The second component is the address that the card publishes, \<^const>\<open>None\<close> when it is not stored.\<close>

definition SdCmdSendRelativeAddr :: "MmcCntlr \<Rightarrow> (int \<times> MmcCntlr) option" where
  "SdCmdSendRelativeAddr cntlr = do {
     let cmd = mk_cmd SD_CMD_SEND_RELATIVE_ADDR 0 (MMC_RESP_R6 OR MMC_CMD_TYPE_BCR);
     let (error, cmd, cntlr) = MmcSendCmd cntlr cmd None MMC_CMD_DEFAULT_RETRY_TIMES;
     if error \<noteq> st HDF_SUCCESS then Some (error, cntlr)
     else do {
       r \<leftarrow> resp0 cmd;
       cntlr \<leftarrow> upd_reg (\<lambda>reg. reg\<lparr>reg_rca := drop_bit 16 r\<rparr>) cntlr;
       Some (error, cntlr)
     }
   }"

definition SdCmdSwitchVoltage :: "MmcCntlr \<Rightarrow> (int \<times> MmcCntlr) option" where
  "SdCmdSwitchVoltage cntlr = do {
     let cmd = mk_cmd SD_CMD_SWITCH_VOLTAGE 0 (MMC_RESP_R1 OR MMC_CMD_TYPE_AC);
     let (error, cmd, cntlr) = MmcSendCmd cntlr cmd None 1;
     if error \<noteq> st HDF_SUCCESS then Some (error, cntlr)
     else do {
       r \<leftarrow> resp0 cmd;
       if r AND GENERAL_ERROR \<noteq> 0 then Some (st HDF_ERR_IO, cntlr) else Some (st HDF_SUCCESS, cntlr)
     }
   }"

record SdSwitchFuncParam =
  sfp_mode :: uint32_t
  sfp_group :: uint32_t
  sfp_value :: uint32_t

definition switch_func_arg :: "SdSwitchFuncParam \<Rightarrow> uint32_t" where
  "switch_func_arg param =
     (let sh = unat (sfp_group param * 4)
      in (push_bit 31 (sfp_mode param) OR 0x00FFFFFF) AND NOT (push_bit sh 0xF) OR push_bit sh (sfp_value param AND 0xF))"

definition SdCmdSwitchFunc :: "MmcCntlr \<Rightarrow> SdSwitchFuncParam \<Rightarrow> bytes \<Rightarrow> int \<times> bytes \<times> MmcCntlr" where
  "SdCmdSwitchFunc cntlr param status =
     (let cmd = mk_cmd SD_CMD_SWITCH_FUNC (switch_func_arg param) (MMC_RESP_SPI_R1 OR MMC_RESP_R1 OR MMC_CMD_TYPE_ADTC);
          data = zero_MmcData\<lparr>dat_blockSize := of_nat (length status), dat_blockNum := 1, dat_dataFlags := DATA_READ,
            dat_dataBuffer := Some status\<rparr>;
          (err, cmd, cntlr) = MmcSendCmd cntlr cmd (Some data) 1
      in (err, case data_buffer cmd of None \<Rightarrow> status | Some b \<Rightarrow> b, cntlr))"

section \<open>Registers\<close>

definition SdDecodeScr_fields :: "SdScr \<Rightarrow> uint32_t list \<Rightarrow> (int \<times> SdScr) option" where
  "SdDecodeScr_fields scr rawScr = do {
     scrStruct \<leftarrow> MmcParseBits rawScr SCR_BITS 60 4;
     if (ucast scrStruct :: uint8_t) \<noteq> 0 then Some (st HDF_ERR_INVALID_PARAM, scr)
     else do {
       v \<leftarrow> MmcParseBits rawScr SCR_BITS 56 4;
       let scr = scr\<lparr>scr_sdSpec := ucast v\<rparr>;
       scr \<leftarrow> (if scr_sdSpec scr = SD_SCR_SPEC_2 then do {
           v \<leftarrow> MmcParseBits rawScr SCR_BITS 47 1;
           Some (scr\<lparr>scr_sdSpec3 := ucast v\<rparr>)
         } else Some scr);
       v \<leftarrow> MmcParseBits rawScr SCR_BITS 48 4;
       let scr = scr\<lparr>scr_sdBusWidths := ucast v\<rparr>;
       v \<leftarrow> MmcParseBits rawScr SCR_BITS 32 2;
       Some (st HDF_SUCCESS, scr\<lparr>scr_cmdSupport := ucast v\<rparr>)
     }
   }"

definition SdDecodeScr :: "MmcCntlr \<Rightarrow> (int \<times> MmcCntlr) option" where
  "SdDecodeScr cntlr =
     (case mc_curDev cntlr of None \<Rightarrow> Some (st HDF_ERR_INVALID_PARAM, cntlr)
      | Some _ \<Rightarrow> do {
          reg \<leftarrow> sd_of sdp_reg cntlr;
          (err, scr) \<leftarrow> SdDecodeScr_fields (sdr_scr reg) (sdr_rawScr reg);
          cntlr \<leftarrow> upd_sd (\<lambda>p. p\<lparr>sdp_reg := (sdp_reg p)\<lparr>sdr_scr := scr\<rparr>\<rparr>) cntlr;
          Some (err, cntlr)
        })"

text \<open>Two of the times are cut to a byte.\<close>

definition SdDecodeSSr_fields :: "SdSsr \<Rightarrow> SdScr \<Rightarrow> uint32_t list \<Rightarrow> SdSsr option" where
  "SdDecodeSSr_fields ssr scr rawSsr = do {
     v \<leftarrow> MmcParseBits rawSsr SSR_BITS 440 8;
     let ssr = ssr\<lparr>ssr_speedClass := ucast v\<rparr>;
     v \<leftarrow> MmcParseBits rawSsr SSR_BITS 428 4;
     let ssr = ssr\<lparr>ssr_auSize := ucast v\<rparr>;
     ssr \<leftarrow> (if ssr_auSize ssr > 0 \<and> (ssr_auSize ssr \<le> MMC_MAX_BLOCKSIZE_SHIFT \<or> scr_sdSpec3 scr > 0) then do {
         v \<leftarrow> shl32 1 (ucast (ssr_auSize ssr) + 4);
         let ssr = ssr\<lparr>ssr_auValue := v\<rparr>;
         eraseSize \<leftarrow> MmcParseBits rawSsr SSR_BITS 408 16;
         eraseTimeout \<leftarrow> MmcParseBits rawSsr SSR_BITS 402 6;
         if eraseSize > 0 then do {
           v \<leftarrow> MmcParseBits rawSsr SSR_BITS 400 2;
           Some (ssr\<lparr>ssr_eraseTimeout := ucast (eraseTimeout * 1000 div eraseSize), ssr_eraseOffset := ucast (1000 * v)\<rparr>)
         }
         else Some ssr
       } else Some ssr);
     v \<leftarrow> MmcParseBits rawSsr SSR_BITS 396 4;
     Some (ssr\<lparr>ssr_uhsSpeedGrade := ucast v\<rparr>)
   }"

definition SdDecodeSSr :: "MmcCntlr \<Rightarrow> uint32_t list \<Rightarrow> (int \<times> MmcCntlr) option" where
  "SdDecodeSSr cntlr rawSsr =
     (case mc_curDev cntlr of None \<Rightarrow> Some (st HDF_ERR_INVALID_PARAM, cntlr)
      | Some _ \<Rightarrow> do {
          reg \<leftarrow> sd_of sdp_reg cntlr;
          ssr \<leftarrow> SdDecodeSSr_fields (sdr_ssr reg) (sdr_scr reg) rawSsr;
          cntlr \<leftarrow> upd_sd (\<lambda>p. p\<lparr>sdp_reg := (sdp_reg p)\<lparr>sdr_ssr := ssr\<rparr>\<rparr>) cntlr;
          Some (st HDF_SUCCESS, cntlr)
        })"

definition SdDecodeCid :: "MmcCntlr \<Rightarrow> MmcCntlr option" where
  "SdDecodeCid cntlr =
     (case mc_curDev cntlr of None \<Rightarrow> Some cntlr
      | Some d \<Rightarrow> do {
          let rawCid = reg_rawCid (dev_reg d);
          let cid = reg_cid (dev_reg d);
          v \<leftarrow> MmcParseBits rawCid CID_BITS 120 8;
          let cid = cid\<lparr>cid_mid := v\<rparr>;
          v \<leftarrow> MmcParseBits rawCid CID_BITS 104 16;
          let cid = cid\<lparr>cid_oid := ucast v\<rparr>;
          pnm \<leftarrow> pnm_loop rawCid 0 5 (cid_pnm cid);
          pnm \<leftarrow> arr_set pnm 5 0;
          let cid = cid\<lparr>cid_pnm := pnm\<rparr>;
          v \<leftarrow> MmcParseBits rawCid CID_BITS 60 4;
          let cid = cid\<lparr>cid_hwPrv := ucast v\<rparr>;
          v \<leftarrow> MmcParseBits rawCid CID_BITS 56 4;
          let cid = cid\<lparr>cid_fwPrv := ucast v\<rparr>;
          v \<leftarrow> MmcParseBits rawCid CID_BITS 24 32;
          let cid = cid\<lparr>cid_psn := v\<rparr>;
          v \<leftarrow> MmcParseBits rawCid CID_BITS 12 8;
          let cid = cid\<lparr>cid_year := ucast (v + 2000)\<rparr>;
          v \<leftarrow> MmcParseBits rawCid CID_BITS 8 4;
          let cid = cid\<lparr>cid_month := ucast v\<rparr>;
          upd_reg (\<lambda>r. r\<lparr>reg_cid := cid\<rparr>) cntlr
        })"

text \<open>The shift is done in 32 bits before the result is widened.\<close>

definition SdSetBlockCapacity :: "MmcCntlr \<Rightarrow> MmcCntlr option" where
  "SdSetBlockCapacity cntlr = do {
     _ \<leftarrow> sd_of id cntlr;
     csd \<leftarrow> dev_of (\<lambda>d. reg_csd (dev_reg d)) cntlr;
     cntlr \<leftarrow> upd_dev (\<lambda>d. d\<lparr>dev_eraseSize := ucast (csd_eraseSize csd)\<rparr>) cntlr;
     capacity \<leftarrow> shl32 (csd_capacity csd) (csd_readBlkLen csd - MMC_MAX_BLOCKSIZE_SHIFT);
     upd_dev (\<lambda>d. d\<lparr>dev_capacity := ucast capacity\<rparr>) cntlr
   }"

definition SdDecodeCsdRev1Field :: "MmcCsd \<Rightarrow> uint32_t list \<Rightarrow> MmcCsd option" where
  "SdDecodeCsdRev1Field csd rawCsd = do {
     v \<leftarrow> tacc_ns rawCsd;
     let csd = csd\<lparr>csd_taccNs := v\<rparr>;
     v \<leftarrow> MmcParseBits rawCsd CSD_BITS 104 8;
     let csd = csd\<lparr>csd_taccClks := ucast (v * 100)\<rparr>;
     v \<leftarrow> tran_speed rawCsd;
     let csd = csd\<lparr>csd_maxDtr := v\<rparr>;
     v \<leftarrow> MmcParseBits rawCsd CSD_BITS 84 12;
     let csd = csd\<lparr>csd_ccc := ucast v\<rparr>;
     unit \<leftarrow> MmcParseBits rawCsd CSD_BITS 62 12;
     factor \<leftarrow> MmcParseBits rawCsd CSD_BITS 47 3;
     v \<leftarrow> shl32 (1 + unit) (factor + 2);
     let csd = csd\<lparr>csd_capacity := v\<rparr>;
     v \<leftarrow> MmcParseBits rawCsd CSD_BITS 80 4;
     let csd = csd\<lparr>csd_readBlkLen := v\<rparr>;
     v \<leftarrow> MmcParseBits rawCsd CSD_BITS 79 1;
     let csd = csd\<lparr>csd_rdPartial := bit v 0\<rparr>;
     v \<leftarrow> MmcParseBits rawCsd CSD_BITS 78 1;
     let csd = csd\<lparr>csd_wrMisalign := bit v 0\<rparr>;
     v \<leftarrow> MmcParseBits rawCsd CSD_BITS 77 1;
     let csd = csd\<lparr>csd_rdMisalign := bit v 0\<rparr>;
     v \<leftarrow> MmcParseBits rawCsd CSD_BITS 26 3;
     let csd = csd\<lparr>csd_r2wFactor := v\<rparr>;
     v \<leftarrow> MmcParseBits rawCsd CSD_BITS 22 4;
     let csd = csd\<lparr>csd_writeBlkLen := v\<rparr>;
     v \<leftarrow> MmcParseBits rawCsd CSD_BITS 21 1;
     let csd = csd\<lparr>csd_wrPartial := bit v 0\<rparr>;
     eraseBlkEn \<leftarrow> MmcParseBits rawCsd CSD_BITS 46 1;
     if eraseBlkEn = 1 then Some (csd\<lparr>csd_eraseSize := 1\<rparr>)
     else if csd_writeBlkLen csd \<ge> MMC_MAX_BLOCKSIZE_SHIFT then do {
       v \<leftarrow> MmcParseBits rawCsd CSD_BITS 39 7;
       v \<leftarrow> shl32 (v + 1) (csd_writeBlkLen csd - MMC_MAX_BLOCKSIZE_SHIFT);
       Some (csd\<lparr>csd_eraseSize := v\<rparr>)
     }
     else Some csd
   }"

text \<open>The first component of the result says whether the card is of extended capacity.\<close>

definition SdDecodeCsdRev2Field :: "MmcCsd \<Rightarrow> uint32_t list \<Rightarrow> (bool \<times> MmcCsd) option" where
  "SdDecodeCsdRev2Field csd rawCsd = do {
     maxDtr \<leftarrow> tran_speed rawCsd;
     ccc \<leftarrow> MmcParseBits rawCsd CSD_BITS 84 12;
     cSize \<leftarrow> MmcParseBits rawCsd CSD_BITS 48 22;
     Some (cSize \<ge> 0xFFFF, csd\<lparr>csd_maxDtr := maxDtr, csd_ccc := ucast ccc, csd_cSize := cSize,
       csd_capacity := push_bit 10 (1 + cSize), csd_taccNs := 0, csd_taccClks := 0, csd_rdPartial := False,
       csd_readBlkLen := MMC_MAX_BLOCKSIZE_SHIFT, csd_rdMisalign := False, csd_wrMisalign := False,
       csd_writeBlkLen := MMC_MAX_BLOCKSIZE_SHIFT, csd_wrPartial := False, csd_r2wFactor := 2, csd_eraseSize := 1\<rparr>)
   }"

definition SdDecodeCsd :: "MmcCntlr \<Rightarrow> (int \<times> MmcCntlr) option" where
  "SdDecodeCsd cntlr =
     (case mc_curDev cntlr of None \<Rightarrow> Some (st HDF_ERR_INVALID_PARAM, cntlr)
      | Some d \<Rightarrow> do {
          let rawCsd = reg_rawCsd (dev_reg d);
          v \<leftarrow> MmcParseBits rawCsd CSD_BITS 126 2;
          let csd = (reg_csd (dev_reg d))\<lparr>csd_structure := ucast v\<rparr>;
          if csd_structure csd = 0 then do {
            csd \<leftarrow> SdDecodeCsdRev1Field csd rawCsd;
            cntlr \<leftarrow> upd_csd (\<lambda>_. csd) cntlr;
            Some (st HDF_SUCCESS, cntlr)
          }
          else if csd_structure csd = 1 then do {
            (sdxc, csd) \<leftarrow> SdDecodeCsdRev2Field csd rawCsd;
            cntlr \<leftarrow> upd_csd (\<lambda>_. csd) cntlr;
            cntlr \<leftarrow> upd_state (\<lambda>s. s\<lparr>dst_blockAddr := True, dst_sdxc := dst_sdxc s \<or> sdxc\<rparr>) cntlr;
            Some (st HDF_SUCCESS, cntlr)
          }
          else do {
            cntlr \<leftarrow> upd_csd (\<lambda>_. csd) cntlr;
            Some (st HDF_ERR_NOT_SUPPORT, cntlr)
          }
        })"

section \<open>Selecting a card\<close>

definition SdGetMaxClock :: "MmcCntlr \<Rightarrow> uint32_t option" where
  "SdGetMaxClock cntlr = do {
     mmcDev \<leftarrow> mc_curDev cntlr;
     clock \<leftarrow>
       (if dst_highSpeed (dev_state mmcDev) then do {
          hsMaxDtr \<leftarrow> sd_of (\<lambda>p. swc_hsMaxDtr (sdr_swCaps (sdp_reg p))) cntlr;
          Some (if hsMaxDtr > 0 then hsMaxDtr else 0xFFFFFFFF)
        }
        else Some (if csd_maxDtr (reg_csd (dev_reg mmcDev)) > 0 then csd_maxDtr (reg_csd (dev_reg mmcDev)) else 0xFFFFFFFF));
     Some (if clock > mc_freqMax cntlr then mc_freqMax cntlr else clock)
   }"

text \<open>
  The loop has no bound: a card that always offers 1.8 V and always refuses to switch to it keeps it
  running.  The bits of \<open>union MmcOcr\<close> are 24 (\<open>s18r\<close>), 28 (\<open>sdXpc\<close>) and 30 (\<open>hcs\<close>).  The
  result is the status and the answer of the last command for the operating conditions.
\<close>

partial_function (option) SdSelect_loop :: "bool \<Rightarrow> uint32_t \<Rightarrow> MmcCntlr \<Rightarrow> (int \<times> uint32_t \<times> MmcCntlr) option" where
  "SdSelect_loop retry ocr cntlr = do {
     let cntlr = MmcGoIdleState cntlr;
     devOcr \<leftarrow> dev_of (\<lambda>d. reg_ocr (dev_reg d)) cntlr;
     (err, cntlr) \<leftarrow> SdCmdSendIfCond cntlr devOcr;
     let ocr = (if err = st HDF_SUCCESS then set_bit 30 ocr else ocr);
     let ocr = (if cap_xpc330 (mc_caps cntlr) \<or> cap_xpc300 (mc_caps cntlr) \<or> cap_xpc180 (mc_caps cntlr)
       then set_bit 28 ocr else ocr);
     let ocr = (if MmcCntlrSupportUhs cntlr \<and> \<not> retry then set_bit 24 ocr else ocr);
     (err, rocr, cntlr) \<leftarrow> SdAcmdOpCond cntlr ocr;
     if err \<noteq> st HDF_SUCCESS then Some (err, rocr, cntlr)
     else if \<not> cap_sdSupportProtocol3 (mc_caps cntlr) then Some (err, rocr, cntlr)
     else if rocr AND 0x41000000 = 0x41000000 then do {
       (err, cntlr) \<leftarrow> SdCmdSwitchVoltage cntlr;
       let (err, cntlr) = (if err = st HDF_SUCCESS then MmcCntlrSwitchVoltage cntlr VOLT_1V8 else (err, cntlr));
       if err \<noteq> st HDF_SUCCESS then SdSelect_loop True (unset_bit 24 ocr) cntlr
       else Some (err, rocr, cntlr)
     }
     else Some (err, rocr, cntlr)
   }"

declare SdSelect_loop.simps [code]

definition SdSelect :: "MmcCntlr \<Rightarrow> (int \<times> uint32_t \<times> MmcCntlr) option" where
  "SdSelect cntlr = do {
     ocr \<leftarrow> dev_of (\<lambda>d. reg_ocr (dev_reg d)) cntlr;
     (err, rocr, cntlr) \<leftarrow> SdSelect_loop False ocr cntlr;
     if err \<noteq> st HDF_SUCCESS then Some (err, rocr, cntlr)
     else do {
       (err, cntlr) \<leftarrow> MmcAllSendCid cntlr;
       if err \<noteq> st HDF_SUCCESS then Some (err, rocr, cntlr)
       else do {
         cntlr \<leftarrow> SdDecodeCid cntlr;
         Some (err, rocr, cntlr)
       }
     }
   }"

section \<open>Reading the registers\<close>

definition SdReadCsd :: "MmcCntlr \<Rightarrow> (int \<times> MmcCntlr) option" where
  "SdReadCsd cntlr = on_success (MmcSendCsd cntlr) SdDecodeCsd"

definition SdReadScr :: "MmcCntlr \<Rightarrow> (int \<times> MmcCntlr) option" where
  "SdReadScr cntlr = do {
     (error, raw, cntlr) \<leftarrow> SdAppSendScr cntlr;
     if error \<noteq> st HDF_SUCCESS then Some (error, cntlr)
     else do {
       cntlr \<leftarrow> upd_sd (\<lambda>p. p\<lparr>sdp_reg := (sdp_reg p)\<lparr>sdr_rawScr := raw\<rparr>\<rparr>) cntlr;
       SdDecodeScr cntlr
     }
   }"

definition SdReadSsr :: "MmcCntlr \<Rightarrow> (int \<times> MmcCntlr) option" where
  "SdReadSsr cntlr = do {
     ccc \<leftarrow> dev_of (\<lambda>d. csd_ccc (reg_csd (dev_reg d))) cntlr;
     if ccc AND MMC_CSD_CCC_APP_SPEC = 0 then Some (st HDF_SUCCESS, cntlr)
     else do {
       (err, rawSsr, cntlr) \<leftarrow> SdAcmdSdStatus cntlr;
       if err \<noteq> st HDF_SUCCESS then Some (err, cntlr) else SdDecodeSSr cntlr rawSsr
     }
   }"

abbreviation upd_swCaps :: "(SdSwitchCaps \<Rightarrow> SdSwitchCaps) \<Rightarrow> MmcCntlr \<Rightarrow> MmcCntlr option" where
  "upd_swCaps f \<equiv> upd_sd (\<lambda>p. p\<lparr>sdp_reg := (sdp_reg p)\<lparr>sdr_swCaps := f (sdr_swCaps (sdp_reg p))\<rparr>\<rparr>)"

text \<open>The part of the function for cards of version 3 of the physical layer.\<close>

definition SdReadSwitchCapbility_spec3 :: "MmcCntlr \<Rightarrow> bytes \<Rightarrow> (int \<times> MmcCntlr) option" where
  "SdReadSwitchCapbility_spec3 cntlr status = do {
     v \<leftarrow> arr_get status 13;
     cntlr \<leftarrow> upd_swCaps (\<lambda>s. s\<lparr>swc_sdSpec3BusMode := ucast v\<rparr>) cntlr;
     let (err, status, cntlr) = SdCmdSwitchFunc cntlr
       \<lparr>sfp_mode = SD_SWITCH_FUNC_MODE_CHECK, sfp_group = SD_SWITCH_FUNC_GROUP_3, sfp_value = 1\<rparr> status;
     if err \<noteq> st HDF_SUCCESS then Some (err, cntlr)
     else do {
       v \<leftarrow> arr_get status 9;
       cntlr \<leftarrow> upd_swCaps (\<lambda>s. s\<lparr>swc_sdSpec3DrvType := ucast v\<rparr>) cntlr;
       let (err, status, cntlr) = SdCmdSwitchFunc cntlr
         \<lparr>sfp_mode = SD_SWITCH_FUNC_MODE_CHECK, sfp_group = SD_SWITCH_FUNC_GROUP_4, sfp_value = 1\<rparr> status;
       if err \<noteq> st HDF_SUCCESS then Some (err, cntlr)
       else do {
         v \<leftarrow> arr_get status 7;
         cntlr \<leftarrow> upd_swCaps (\<lambda>s. s\<lparr>swc_sdSpec3CurrLimit := ucast v\<rparr>) cntlr;
         Some (st HDF_SUCCESS, cntlr)
       }
     }
   }"

definition SdReadSwitchCapbility :: "MmcCntlr \<Rightarrow> (int \<times> MmcCntlr) option" where
  "SdReadSwitchCapbility cntlr = do {
     scr \<leftarrow> sd_of (\<lambda>p. sdr_scr (sdp_reg p)) cntlr;
     ccc \<leftarrow> dev_of (\<lambda>d. csd_ccc (reg_csd (dev_reg d))) cntlr;
     if scr_sdSpec scr < SD_SCR_SPEC_1 then Some (st HDF_SUCCESS, cntlr)
     else if ccc AND MMC_CSD_CCC_SWITCH = 0 then Some (st HDF_SUCCESS, cntlr)
     else do {
       let (err, status, cntlr) = SdCmdSwitchFunc cntlr
         \<lparr>sfp_mode = SD_SWITCH_FUNC_MODE_CHECK, sfp_group = SD_SWITCH_FUNC_GROUP_1, sfp_value = 1\<rparr>
         (replicate SD_SWITCH_FUNCTION_STATUS_BYTES_LEN 0);
       if err \<noteq> st HDF_SUCCESS then Some (err, cntlr)
       else do {
         v \<leftarrow> arr_get status 13;
         cntlr \<leftarrow> (if v AND SD_BUS_SPEED_MODE_HS > 0
           then upd_swCaps (\<lambda>s. s\<lparr>swc_hsMaxDtr := SD_HIGH_SPEED_MAX_DTR\<rparr>) cntlr else Some cntlr);
         if scr_sdSpec3 scr = 1 then SdReadSwitchCapbility_spec3 cntlr status
         else Some (st HDF_SUCCESS, cntlr)
       }
     }
   }"

text \<open>
  The fastest mode that the host and the card support; when there is none of the five the mode stays
  what it was.  The bits of \<open>union SdSpec3BusMode\<close> are 0 (SDR12), 1 (SDR25), 2 (SDR50), 3 (SDR104)
  and 4 (DDR50).
\<close>

definition SdFillBusSpeedMode :: "MmcCntlr \<Rightarrow> MmcCntlr option" where
  "SdFillBusSpeedMode cntlr = do {
     reg \<leftarrow> sd_of sdp_reg cntlr;
     let caps = mc_caps cntlr;
     let mode = swc_sdSpec3BusMode (sdr_swCaps reg);
     upd_sd (\<lambda>p. p\<lparr>sdp_busSpeedMode :=
       (if \<not> MmcCntlrSupportUhs cntlr \<or> scr_sdSpec3 (sdr_scr reg) = 0 then SD_BUS_SPEED_MODE_DS
        else if cap_uhsSdr104 caps \<and> bit mode 3 then SD_BUS_SPEED_MODE_UHS_SDR104
        else if cap_uhsDdr50 caps \<and> bit mode 4 then SD_BUS_SPEED_MODE_UHS_DDR50
        else if (cap_uhsSdr104 caps \<or> cap_uhsSdr50 caps) \<and> bit mode 2 then SD_BUS_SPEED_MODE_UHS_SDR50
        else if (cap_uhsSdr104 caps \<or> cap_uhsSdr50 caps \<or> cap_uhsSdr25 caps) \<and> bit mode 1
          then SD_BUS_SPEED_MODE_UHS_SDR25
        else if (cap_uhsSdr104 caps \<or> cap_uhsSdr50 caps \<or> cap_uhsSdr25 caps \<or> cap_uhsSdr12 caps) \<and> bit mode 0
          then SD_BUS_SPEED_MODE_UHS_SDR12
        else sdp_busSpeedMode p)\<rparr>) cntlr
   }"

definition SdReadRegisters :: "MmcCntlr \<Rightarrow> (int \<times> MmcCntlr) option" where
  "SdReadRegisters cntlr =
     on_success (SdReadScr cntlr) (\<lambda>cntlr.
     on_success (SdReadSsr cntlr) (\<lambda>cntlr.
     on_success (SdReadSwitchCapbility cntlr) (\<lambda>cntlr. do {
       let (ro, cntlr) = MmcCntlrDevReadOnly cntlr;
       cntlr \<leftarrow> (if ro then upd_state (\<lambda>s. s\<lparr>dst_readonly := True\<rparr>) cntlr else Some cntlr);
       cntlr \<leftarrow> SdFillBusSpeedMode cntlr;
       Some (st HDF_SUCCESS, cntlr)
     })))"

section \<open>Speed, current and width of the bus\<close>

definition SdExecuteTuning :: "MmcCntlr \<Rightarrow> (int \<times> MmcCntlr) option" where
  "SdExecuteTuning cntlr = do {
     mode \<leftarrow> sd_of sdp_busSpeedMode cntlr;
     Some (if mode = SD_BUS_SPEED_MODE_UHS_DDR50 then MmcCntlrTune cntlr SD_CMD_SWITCH_FUNC
       else if mode = SD_BUS_SPEED_MODE_UHS_SDR104 \<or> mode = SD_BUS_SPEED_MODE_UHS_SDR50
       then MmcCntlrTune cntlr SD_CMD_SEND_TUNING_BLOCK
       else (st HDF_SUCCESS, cntlr))
   }"

definition SdGetDevMaxCurrentLimitValue :: "uint32_t \<Rightarrow> uint32_t" where
  "SdGetDevMaxCurrentLimitValue devCap =
     (if devCap = SD_MAX_CURRENT_LIMIT_800 then SD_MAX_CURRENT_LIMIT_800_VALUE
      else if devCap = SD_MAX_CURRENT_LIMIT_600 then SD_MAX_CURRENT_LIMIT_600_VALUE
      else if devCap = SD_MAX_CURRENT_LIMIT_400 then SD_MAX_CURRENT_LIMIT_400_VALUE
      else if devCap = SD_MAX_CURRENT_LIMIT_200 then SD_MAX_CURRENT_LIMIT_200_VALUE
      else 0)"

definition SdGetMaxCurrentLimitValue :: "MmcCaps \<Rightarrow> uint32_t \<Rightarrow> uint32_t" where
  "SdGetMaxCurrentLimitValue hostCap devCap =
     (let currentLimit = SdGetDevMaxCurrentLimitValue devCap
      in if cap_maxCurrentLimit800 hostCap
         then (if currentLimit < SD_MAX_CURRENT_LIMIT_800_VALUE then currentLimit else SD_MAX_CURRENT_LIMIT_800_VALUE)
         else if cap_maxCurrentLimit600 hostCap
         then (if currentLimit < SD_MAX_CURRENT_LIMIT_600_VALUE then currentLimit else SD_MAX_CURRENT_LIMIT_600_VALUE)
         else if cap_maxCurrentLimit400 hostCap
         then (if currentLimit < SD_MAX_CURRENT_LIMIT_400_VALUE then currentLimit else SD_MAX_CURRENT_LIMIT_400_VALUE)
         else if cap_maxCurrentLimit200 hostCap
         then (if currentLimit < SD_MAX_CURRENT_LIMIT_200_VALUE then currentLimit else SD_MAX_CURRENT_LIMIT_200_VALUE)
         else currentLimit)"

text \<open>A status of the card that does not confirm the limit is only logged.\<close>

definition SdSetMaxCurrentLimit :: "MmcCntlr \<Rightarrow> (int \<times> MmcCntlr) option" where
  "SdSetMaxCurrentLimit cntlr = do {
     mode \<leftarrow> sd_of sdp_busSpeedMode cntlr;
     devCap \<leftarrow> sd_of (\<lambda>p. swc_sdSpec3CurrLimit (sdr_swCaps (sdp_reg p))) cntlr;
     let currentLimit =
       (if mode = SD_BUS_SPEED_MODE_UHS_SDR104 \<or> mode = SD_BUS_SPEED_MODE_UHS_DDR50 \<or> mode = SD_BUS_SPEED_MODE_UHS_SDR50
        then SdGetMaxCurrentLimitValue (mc_caps cntlr) devCap
        else SD_MAX_CURRENT_LIMIT_200_VALUE);
     let (err, status, cntlr) = SdCmdSwitchFunc cntlr
       \<lparr>sfp_mode = SD_SWITCH_FUNC_MODE_SET, sfp_group = SD_SWITCH_FUNC_GROUP_4, sfp_value = currentLimit\<rparr>
       (replicate SD_SWITCH_FUNCTION_STATUS_BYTES_LEN 0);
     if err \<noteq> st HDF_SUCCESS then Some (err, cntlr)
     else do {
       _ \<leftarrow> arr_get status 15;
       Some (st HDF_SUCCESS, cntlr)
     }
   }"

definition uhs_timing :: "uint32_t \<Rightarrow> (uint32_t \<times> uint32_t) option" where
  "uhs_timing mode =
     (if mode = SD_BUS_SPEED_MODE_UHS_SDR104 then Some (BUS_TIMING_UHS_SDR104, SD_UHS_SDR104_MAX_DTR)
      else if mode = SD_BUS_SPEED_MODE_UHS_DDR50 then Some (BUS_TIMING_UHS_DDR50, SD_UHS_DDR50_MAX_DTR)
      else if mode = SD_BUS_SPEED_MODE_UHS_SDR50 then Some (BUS_TIMING_UHS_SDR50, SD_UHS_SDR50_MAX_DTR)
      else if mode = SD_BUS_SPEED_MODE_UHS_SDR25 then Some (BUS_TIMING_UHS_SDR25, SD_UHS_SDR25_MAX_DTR)
      else if mode = SD_BUS_SPEED_MODE_UHS_SDR12 then Some (BUS_TIMING_UHS_SDR12, SD_UHS_SDR12_MAX_DTR)
      else None)"

definition SdSetBusSpeedMode :: "MmcCntlr \<Rightarrow> (int \<times> MmcCntlr) option" where
  "SdSetBusSpeedMode cntlr = do {
     mode \<leftarrow> sd_of sdp_busSpeedMode cntlr;
     case uhs_timing mode of None \<Rightarrow> Some (st HDF_SUCCESS, cntlr)
     | Some (timing, maxDtr) \<Rightarrow> do {
         cntlr \<leftarrow> upd_swCaps (\<lambda>s. s\<lparr>swc_uhsMaxDtr := maxDtr\<rparr>) cntlr;
         let (err, status, cntlr) = SdCmdSwitchFunc cntlr
           \<lparr>sfp_mode = SD_SWITCH_FUNC_MODE_SET, sfp_group = SD_SWITCH_FUNC_GROUP_1, sfp_value = mode\<rparr>
           (replicate SD_SWITCH_FUNCTION_STATUS_BYTES_LEN 0);
         if err \<noteq> st HDF_SUCCESS then Some (err, cntlr)
         else do {
           v \<leftarrow> arr_get status 16;
           if ucast (v AND 0xF) \<noteq> mode then Some (st HDF_SUCCESS, cntlr)
           else do {
             cntlr \<leftarrow> MmcCntlrSetBusTiming cntlr timing;
             cntlr \<leftarrow> MmcCntlrSetClock cntlr maxDtr;
             Some (st HDF_SUCCESS, cntlr)
           }
         }
       }
   }"

definition SdSwitch4BitBusWidth :: "MmcCntlr \<Rightarrow> (int \<times> MmcCntlr) option" where
  "SdSwitch4BitBusWidth cntlr = do {
     widths \<leftarrow> sd_of (\<lambda>p. scr_sdBusWidths (sdr_scr (sdp_reg p))) cntlr;
     if widths AND SD_SCR_BUS_WIDTHS_4 > 0 \<and> cap_cap4Bit (mc_caps cntlr) then
       on_success (SdAcmdSetBusWidth cntlr BUS_WIDTH4) (\<lambda>cntlr. do {
         cntlr \<leftarrow> MmcCntlrSetBusWidth cntlr BUS_WIDTH4;
         Some (st HDF_SUCCESS, cntlr)
       })
     else Some (st HDF_SUCCESS, cntlr)
   }"

section \<open>Initialisation\<close>

definition SdUltraHighSpeedDevInit :: "MmcCntlr \<Rightarrow> (int \<times> MmcCntlr) option" where
  "SdUltraHighSpeedDevInit cntlr = do {
     spec3 \<leftarrow> sd_of (\<lambda>p. scr_sdSpec3 (sdr_scr (sdp_reg p))) cntlr;
     ccc \<leftarrow> dev_of (\<lambda>d. csd_ccc (reg_csd (dev_reg d))) cntlr;
     if spec3 = 0 then Some (st HDF_SUCCESS, cntlr)
     else if ccc AND MMC_CSD_CCC_SWITCH = 0 then Some (st HDF_SUCCESS, cntlr)
     else
       on_success (SdSwitch4BitBusWidth cntlr) (\<lambda>cntlr.
       on_success (SdSetMaxCurrentLimit cntlr) (\<lambda>cntlr.
       on_success (SdSetBusSpeedMode cntlr) SdExecuteTuning))
   }"

definition SdSwitchHighSpeed :: "MmcCntlr \<Rightarrow> (int \<times> MmcCntlr) option" where
  "SdSwitchHighSpeed cntlr = do {
     reg \<leftarrow> sd_of sdp_reg cntlr;
     ccc \<leftarrow> dev_of (\<lambda>d. csd_ccc (reg_csd (dev_reg d))) cntlr;
     if swc_hsMaxDtr (sdr_swCaps reg) = 0 then Some (st HDF_ERR_NOT_SUPPORT, cntlr)
     else if scr_sdSpec (sdr_scr reg) < SD_SCR_SPEC_1 then Some (st HDF_ERR_NOT_SUPPORT, cntlr)
     else if \<not> cap_highSpeed (mc_caps cntlr) then Some (st HDF_ERR_NOT_SUPPORT, cntlr)
     else if ccc AND MMC_CSD_CCC_SWITCH = 0 then Some (st HDF_ERR_NOT_SUPPORT, cntlr)
     else do {
       let (err, status, cntlr) = SdCmdSwitchFunc cntlr
         \<lparr>sfp_mode = SD_SWITCH_FUNC_MODE_SET, sfp_group = SD_SWITCH_FUNC_GROUP_1, sfp_value = SD_BUS_SPEED_MODE_HS\<rparr>
         (replicate SD_SWITCH_FUNCTION_STATUS_BYTES_LEN 0);
       if err \<noteq> st HDF_SUCCESS then Some (err, cntlr)
       else do {
         v \<leftarrow> arr_get status 16;
         Some (if v AND 0xF \<noteq> SD_BUS_SPEED_MODE_HS then st HDF_ERR_NOT_SUPPORT else st HDF_SUCCESS, cntlr)
       }
     }
   }"

definition SdHighSpeedDevInit :: "MmcCntlr \<Rightarrow> (int \<times> MmcCntlr) option" where
  "SdHighSpeedDevInit cntlr = do {
     (err, cntlr) \<leftarrow> SdSwitchHighSpeed cntlr;
     cntlr \<leftarrow> (if err = st HDF_SUCCESS then do {
         cntlr \<leftarrow> upd_state (\<lambda>s. s\<lparr>dst_highSpeed := True\<rparr>) cntlr;
         MmcCntlrSetBusTiming cntlr BUS_TIMING_SD_HS
       } else Some cntlr);
     if err \<noteq> st HDF_SUCCESS \<and> err \<noteq> st HDF_ERR_NOT_SUPPORT then Some (err, cntlr)
     else do {
       clock \<leftarrow> SdGetMaxClock cntlr;
       cntlr \<leftarrow> MmcCntlrSetClock cntlr clock;
       SdSwitch4BitBusWidth cntlr
     }
   }"

definition SdDeviceAdd :: "MmcCntlr \<Rightarrow> (int \<times> MmcCntlr) option" where
  "SdDeviceAdd cntlr = do {
     cntlr \<leftarrow> upd_state (\<lambda>s. s\<lparr>dst_removeable := True\<rparr>) cntlr;
     cntlr \<leftarrow> SdSetBlockCapacity cntlr;
     (ret, cntlr) \<leftarrow> MmcDeviceAdd cntlr;
     if ret \<noteq> st HDF_SUCCESS then Some (st HDF_FAILURE, cntlr)
     else do {
       cntlr \<leftarrow> upd_state (\<lambda>s. s\<lparr>dst_present := True\<rparr>) cntlr;
       Some (st HDF_SUCCESS, cntlr)
     }
   }"

definition SdInit :: "MmcCntlr \<Rightarrow> (int \<times> MmcCntlr) option" where
  "SdInit cntlr = do {
     (error, ocr, cntlr) \<leftarrow> SdAcmdOpCond cntlr 0;
     if error \<noteq> st HDF_SUCCESS then Some (error, cntlr)
     else do {
       (_, cntlr) \<leftarrow> MmcCntlrSelectWorkVoltage cntlr ocr;
       ocr \<leftarrow> dev_of (\<lambda>d. reg_ocr (dev_reg d)) cntlr;
       if ocr = 0 then Some (st HDF_ERR_INVALID_PARAM, cntlr)
       else do {
         (error, rocr, cntlr) \<leftarrow> SdSelect cntlr;
         on_success (Some (error, cntlr)) (\<lambda>cntlr.
         on_success (SdCmdSendRelativeAddr cntlr) (\<lambda>cntlr.
         on_success (SdReadCsd cntlr) (\<lambda>cntlr.
         on_success (Some (MmcSelectCard cntlr)) (\<lambda>cntlr.
         on_success (SdReadRegisters cntlr) (\<lambda>cntlr.
         on_success (if bit rocr 24
           then on_success (SdUltraHighSpeedDevInit cntlr) (\<lambda>cntlr. do {
             cntlr \<leftarrow> upd_state (\<lambda>s. s\<lparr>dst_uhs := True\<rparr>) cntlr;
             Some (st HDF_SUCCESS, cntlr)
           })
           else SdHighSpeedDevInit cntlr) SdDeviceAdd)))))
       }
     }
   }"

definition SdDetect :: "MmcCntlr \<Rightarrow> (int \<times> MmcCntlr) option" where
  "SdDetect cntlr = do {
     let cntlr = MmcGoIdleState cntlr;
     (_, cntlr) \<leftarrow> SdCmdSendIfCond cntlr (mc_ocrDef cntlr);
     SdInit cntlr
   }"

end
