(* ===== verification/Mmc_Sdio.thy ===== *)
theory Mmc_Sdio
  imports Mmc_Sd
begin

text \<open>
  The storage stack, fifth part: SDIO cards.  Access to the registers of a card with the two commands
  for input and output, the common control registers (CCCR), the registers of a function (FBR) and
  the chain of tuples that describes a card (CIS), and the sequence of initialisation of
  \<^verbatim>\<open>mmc_protocol.c\<close>.  A function that has been allocated and is not yet part of the device is a value
  that is passed on.
\<close>

abbreviation (input) SDIO_SEND_OP_COND where "SDIO_SEND_OP_COND \<equiv> 5"
abbreviation (input) MMC_RESP_R4 where "MMC_RESP_R4 \<equiv> 1"
abbreviation (input) SDIO_R5_ERROR where "SDIO_R5_ERROR \<equiv> 0x800"
abbreviation (input) SDIO_R5_OUT_OF_RANGE where "SDIO_R5_OUT_OF_RANGE \<equiv> 0x100"
abbreviation (input) SDIO_R5_FUNCTION_NUMBER where "SDIO_R5_FUNCTION_NUMBER \<equiv> 0x200"
abbreviation (input) SDIO_RW_DIRECT where "SDIO_RW_DIRECT \<equiv> 52"
abbreviation (input) MMC_RESP_SPI_R5 where "MMC_RESP_SPI_R5 \<equiv> 384"
abbreviation (input) MMC_RESP_R5 where "MMC_RESP_R5 \<equiv> 21"
abbreviation (input) SDIO_RW_EXTENDED where "SDIO_RW_EXTENDED \<equiv> 53"
abbreviation (input) IO_ABORT where "IO_ABORT \<equiv> 6"
abbreviation (input) SDIO_CCCR_RES where "SDIO_CCCR_RES \<equiv> 8"
abbreviation (input) SDIO_BLOCK_TRANSFER_MAX_BLKNUM where "SDIO_BLOCK_TRANSFER_MAX_BLKNUM \<equiv> 511"
abbreviation (input) BUS_INTERFACE_CONTROL where "BUS_INTERFACE_CONTROL \<equiv> 7"
abbreviation (input) SDIO_CCCR_CD_DISABLE where "SDIO_CCCR_CD_DISABLE \<equiv> 128"
abbreviation (input) CCCR_SDIO_REVISION where "CCCR_SDIO_REVISION \<equiv> 0"
abbreviation (input) SDIO_CCCR_VERSION_3_00 where "SDIO_CCCR_VERSION_3_00 \<equiv> 3"
abbreviation (input) CARD_CAPBILITY where "CARD_CAPBILITY \<equiv> 8"
abbreviation (input) SDIO_CCCR_CAP_4BLS where "SDIO_CCCR_CAP_4BLS \<equiv> 128"
abbreviation (input) SDIO_CCCR_CAP_LSC where "SDIO_CCCR_CAP_LSC \<equiv> 64"
abbreviation (input) SDIO_CCCR_CAP_SMB where "SDIO_CCCR_CAP_SMB \<equiv> 2"
abbreviation (input) POWER_CONTROL where "POWER_CONTROL \<equiv> 18"
abbreviation (input) SDIO_CCCR_POWER_SMPC where "SDIO_CCCR_POWER_SMPC \<equiv> 1"
abbreviation (input) BUS_SPEED_SELECT where "BUS_SPEED_SELECT \<equiv> 19"
abbreviation (input) SDIO_CCCR_BUS_SPEED_SHS where "SDIO_CCCR_BUS_SPEED_SHS \<equiv> 1"
abbreviation (input) IO_ENABLE where "IO_ENABLE \<equiv> 2"
abbreviation (input) IO_READY where "IO_READY \<equiv> 3"
abbreviation (input) INT_PENDING where "INT_PENDING \<equiv> 5"
abbreviation (input) INT_ENABLE where "INT_ENABLE \<equiv> 4"
abbreviation (input) SDIO_CCCR_VERSION_1_10 where "SDIO_CCCR_VERSION_1_10 \<equiv> 1"
abbreviation (input) SDIO_CCCR_VERSION_1_20 where "SDIO_CCCR_VERSION_1_20 \<equiv> 2"
abbreviation (input) SDIO_CCCR_BUS_SPEED_EHS where "SDIO_CCCR_BUS_SPEED_EHS \<equiv> 2"
abbreviation (input) SDIO_CCCR_WIDTH_4BIT where "SDIO_CCCR_WIDTH_4BIT \<equiv> 2"
abbreviation (input) SDIO_CIS_TPL_MANFID_MIN_SIZE where "SDIO_CIS_TPL_MANFID_MIN_SIZE \<equiv> 4"
abbreviation (input) SDIO_CIS_TPL_FUNCE_COMMON_MIN_SIZE where "SDIO_CIS_TPL_FUNCE_COMMON_MIN_SIZE \<equiv> 4"
abbreviation (input) SDIO_CCCR_SDIO_REV_1_00 where "SDIO_CCCR_SDIO_REV_1_00 \<equiv> 0"
abbreviation (input) SDIO_CIS_TPL_FUNCE_FUNCTION_PC_MIN_SIZE where "SDIO_CIS_TPL_FUNCE_FUNCTION_PC_MIN_SIZE \<equiv> 28"
abbreviation (input) SDIO_CIS_TPL_FUNCE_FUNCTION_PC_MAX_SIZE where "SDIO_CIS_TPL_FUNCE_FUNCTION_PC_MAX_SIZE \<equiv> 42"
abbreviation (input) SDIO_CIS_TPLFE_ENABLE_TIMEOUT_VAL_DEF where "SDIO_CIS_TPLFE_ENABLE_TIMEOUT_VAL_DEF \<equiv> 100"
abbreviation (input) SDIO_CIS_TPL_FUNCE_COMMON where "SDIO_CIS_TPL_FUNCE_COMMON \<equiv> 0"
abbreviation (input) SDIO_CIS_TPL_FUNCE_FUNCTION_PC where "SDIO_CIS_TPL_FUNCE_FUNCTION_PC \<equiv> 1"
abbreviation (input) SDIO_CIS_TPL_MANFID where "SDIO_CIS_TPL_MANFID \<equiv> 32"
abbreviation (input) SDIO_CIS_TPL_FUNCE where "SDIO_CIS_TPL_FUNCE \<equiv> 34"
abbreviation (input) SDIO_CIS_TPL_END where "SDIO_CIS_TPL_END \<equiv> 255"
abbreviation (input) SDIO_CIS_TPL_NULL where "SDIO_CIS_TPL_NULL \<equiv> 0"
abbreviation (input) SDIO_FBR_POINTER_CIS where "SDIO_FBR_POINTER_CIS \<equiv> 9"
abbreviation (input) BITS_PER_BYTE where "BITS_PER_BYTE \<equiv> 8"
abbreviation (input) SDIO_CCCR_CIS_START_ADDR_BYTES where "SDIO_CCCR_CIS_START_ADDR_BYTES \<equiv> 3"
abbreviation (input) SDIO_FBR_STD_FUNCTION_INTERFACE_CODE where "SDIO_FBR_STD_FUNCTION_INTERFACE_CODE \<equiv> 0"
abbreviation (input) SDIO_FBR_STD_SDIO_IF where "SDIO_FBR_STD_SDIO_IF \<equiv> 15"
abbreviation (input) SDIO_FBR_EXT_STD_FUNCTION_INTERFACE_CODE where "SDIO_FBR_EXT_STD_FUNCTION_INTERFACE_CODE \<equiv> 1"
abbreviation (input) SDIO_FBR_IO_BLOCK_SIZE where "SDIO_FBR_IO_BLOCK_SIZE \<equiv> 16"
abbreviation (input) SDIO_R4_MEMORY_PRESENT where "SDIO_R4_MEMORY_PRESENT \<equiv> 0x8000000"

section \<open>Reading and writing registers\<close>

definition SdioSendOpCond :: "MmcCntlr \<Rightarrow> uint32_t \<Rightarrow> (int \<times> uint32_t \<times> MmcCntlr) option" where
  "SdioSendOpCond cntlr arg = do {
     let cmd = mk_cmd SDIO_SEND_OP_COND arg (MMC_RESP_R4 OR MMC_CMD_TYPE_BCR);
     (err, cmd, cntlr) \<leftarrow> op_cond_loop (\<lambda>cntlr cmd. Some (MmcSendCmd cntlr cmd None MMC_CMD_DEFAULT_RETRY_TIMES)) arg
       INIT_CMD_RETRY_TIMES 0 cmd cntlr;
     ocr \<leftarrow> resp0 cmd;
     Some (err, ocr, cntlr)
   }"

definition SdioRespR5Check :: "MmcCmd \<Rightarrow> int option" where
  "SdioRespR5Check cmd = do {
     r \<leftarrow> resp0 cmd;
     Some (if r AND SDIO_R5_ERROR \<noteq> 0 then st HDF_ERR_IO
       else if r AND SDIO_R5_OUT_OF_RANGE \<noteq> 0 then st HDF_ERR_INVALID_PARAM
       else if r AND SDIO_R5_FUNCTION_NUMBER \<noteq> 0 then st HDF_ERR_INVALID_PARAM
       else st HDF_SUCCESS)
   }"

record SdioCmdParam =
  scp_funcNum :: uint32_t
  scp_regAddr :: uint32_t
  scp_writeData :: uint8_t
  scp_incrAddrFlag :: bool
  scp_writeflag :: bool
  scp_scatterFlag :: bool
  scp_scatterLen :: uint32_t

definition zero_SdioCmdParam :: SdioCmdParam where
  "zero_SdioCmdParam = \<lparr>scp_funcNum = 0, scp_regAddr = 0, scp_writeData = 0, scp_incrAddrFlag = False,
     scp_writeflag = False, scp_scatterFlag = False, scp_scatterLen = 0\<rparr>"

text \<open>The second component of the result is \<open>*out\<close>, \<^const>\<open>None\<close> when it is not written.\<close>

definition SdioRwDirect :: "MmcCntlr \<Rightarrow> SdioCmdParam \<Rightarrow> (int \<times> uint8_t option \<times> MmcCntlr) option" where
  "SdioRwDirect cntlr param = do {
     let argument = (if scp_writeflag param then 0x80000000 else 0) OR push_bit 28 (scp_funcNum param) OR
       push_bit 9 (scp_regAddr param) OR ucast (scp_writeData param);
     let cmd = mk_cmd SDIO_RW_DIRECT argument (MMC_RESP_SPI_R5 OR MMC_RESP_R5 OR MMC_CMD_TYPE_AC);
     let (err, cmd, cntlr) = MmcSendCmd cntlr cmd None 1;
     if err \<noteq> st HDF_SUCCESS then Some (err, None, cntlr)
     else do {
       err \<leftarrow> SdioRespR5Check cmd;
       if err \<noteq> st HDF_SUCCESS then Some (err, None, cntlr)
       else do {
         r \<leftarrow> resp0 cmd;
         Some (st HDF_SUCCESS, Some (ucast (r AND 0xFF)), cntlr)
       }
     }
   }"

definition rw_extended_arg :: "SdioCmdParam \<Rightarrow> uint32_t \<Rightarrow> uint32_t \<Rightarrow> uint32_t" where
  "rw_extended_arg param blockNum blockSize =
     (if scp_writeflag param then 0x80000000 else 0) OR push_bit 28 (scp_funcNum param) OR
     (if scp_incrAddrFlag param then 0x04000000 else 0) OR push_bit 9 (scp_regAddr param) OR
     (if blockNum = 1 \<and> blockSize \<le> 512 then (if blockSize = 512 then 0 else blockSize) else 0x08000000 OR blockNum)"

text \<open>The buffer is handed over and comes back with what the host has put into it.\<close>

definition SdioRwExtended ::
    "MmcCntlr \<Rightarrow> SdioCmdParam \<Rightarrow> bytes \<Rightarrow> uint32_t \<Rightarrow> uint32_t \<Rightarrow> (int \<times> bytes \<times> MmcCntlr) option" where
  "SdioRwExtended cntlr param buf blockNum blockSize =
     (if scp_regAddr param \<noteq> scp_regAddr param AND 0x1FFFF then Some (st HDF_ERR_INVALID_PARAM, buf, cntlr)
      else do {
        let cmd = mk_cmd SDIO_RW_EXTENDED (rw_extended_arg param blockNum blockSize)
          (MMC_RESP_SPI_R5 OR MMC_RESP_R5 OR MMC_CMD_TYPE_ADTC);
        let data = zero_MmcData\<lparr>dat_blockSize := blockSize, dat_blockNum := blockNum,
          dat_dataFlags := (if scp_writeflag param then DATA_WRITE else DATA_READ)\<rparr>;
        let data = (if \<not> scp_scatterFlag param then data\<lparr>dat_dataBuffer := Some buf\<rparr>
          else data\<lparr>dat_scatter := Some buf, dat_scatterLen := scp_scatterLen param\<rparr>);
        let (err, cmd, cntlr) = MmcSendCmd cntlr cmd (Some data) 1;
        let result = (case cmd_data cmd \<bind> (\<lambda>d. if \<not> scp_scatterFlag param then dat_dataBuffer d else dat_scatter d) of
          None \<Rightarrow> buf | Some b \<Rightarrow> b);
        if err \<noteq> st HDF_SUCCESS then Some (err, result, cntlr)
        else do {
          err \<leftarrow> SdioRespR5Check cmd;
          Some (err, result, cntlr)
        }
      })"

text \<open>The patterns of the functions below: one register is read, and perhaps written back with changes.\<close>

definition with_register ::
    "MmcCntlr \<Rightarrow> uint32_t \<Rightarrow> (uint8_t \<Rightarrow> MmcCntlr \<Rightarrow> (int \<times> MmcCntlr) option) \<Rightarrow> (int \<times> MmcCntlr) option" where
  "with_register cntlr addr k = do {
     (err, out, cntlr) \<leftarrow> SdioRwDirect cntlr (zero_SdioCmdParam\<lparr>scp_regAddr := addr\<rparr>);
     if err \<noteq> st HDF_SUCCESS then Some (err, cntlr)
     else do {
       v \<leftarrow> out;
       k v cntlr
     }
   }"

definition write_register :: "MmcCntlr \<Rightarrow> uint32_t \<Rightarrow> uint8_t \<Rightarrow> (int \<times> MmcCntlr) option" where
  "write_register cntlr addr v = do {
     (err, _, cntlr) \<leftarrow> SdioRwDirect cntlr (zero_SdioCmdParam\<lparr>scp_regAddr := addr, scp_writeflag := True, scp_writeData := v\<rparr>);
     Some (err, cntlr)
   }"

definition modify_register :: "MmcCntlr \<Rightarrow> uint32_t \<Rightarrow> (uint8_t \<Rightarrow> uint8_t) \<Rightarrow> (int \<times> MmcCntlr) option" where
  "modify_register cntlr addr f = with_register cntlr addr (\<lambda>v cntlr. write_register cntlr addr (f v))"

definition SdioIoReset :: "MmcCntlr \<Rightarrow> MmcCntlr option" where
  "SdioIoReset cntlr = do {
     (error, out, cntlr) \<leftarrow> SdioRwDirect cntlr (zero_SdioCmdParam\<lparr>scp_regAddr := IO_ABORT\<rparr>);
     let v = (case out of None \<Rightarrow> 0 | Some v \<Rightarrow> v);
     let v = (if error < 0 then SDIO_CCCR_RES else v OR SDIO_CCCR_RES);
     (_, cntlr) \<leftarrow> write_register cntlr IO_ABORT v;
     Some cntlr
   }"

definition SdioReadWriteByte :: "MmcCntlr \<Rightarrow> bool \<Rightarrow> uint32_t \<Rightarrow> uint32_t \<Rightarrow> uint8_t \<Rightarrow> (int \<times> uint8_t \<times> MmcCntlr) option" where
  "SdioReadWriteByte cntlr writeFlag funcNum addr data = do {
     let param = zero_SdioCmdParam\<lparr>scp_regAddr := addr, scp_funcNum := funcNum\<rparr>;
     if writeFlag then do {
       (err, _, cntlr) \<leftarrow> SdioRwDirect cntlr (param\<lparr>scp_writeflag := True, scp_writeData := data\<rparr>);
       Some (err, data, cntlr)
     }
     else do {
       (err, out, cntlr) \<leftarrow> SdioRwDirect cntlr param;
       Some (err, case out of None \<Rightarrow> data | Some v \<Rightarrow> v, cntlr)
     }
   }"

section \<open>Transfers\<close>

definition cur_function :: "MmcCntlr \<Rightarrow> SdioFunction option" where
  "cur_function cntlr = do {
     i \<leftarrow> sdio_of sdio_curFunction cntlr \<bind> (\<lambda>f. f);
     funcs \<leftarrow> sdio_of sdio_sdioFunc cntlr;
     f \<leftarrow> arr_get funcs i;
     f
   }"

text \<open>
  The loops keep the whole buffer and the position that the code's pointer has reached.  A transfer
  in bytes makes progress with every command, as no size is zero.
\<close>

function SdioReadWriteRemainBytes_loop ::
    "uint32_t \<Rightarrow> SdioCmdParam \<Rightarrow> bytes \<Rightarrow> nat \<Rightarrow> uint32_t \<Rightarrow> uint32_t \<Rightarrow> MmcCntlr \<Rightarrow> (int \<times> bytes \<times> MmcCntlr) option" where
  "SdioReadWriteRemainBytes_loop maxBlkSize param buf pos remLen curAddr cntlr =
     (if remLen = 0 \<or> maxBlkSize = 0 then Some (st HDF_SUCCESS, buf, cntlr)
      else do {
        let curSize = min remLen maxBlkSize;
        (err, b, cntlr) \<leftarrow> SdioRwExtended cntlr (param\<lparr>scp_regAddr := curAddr\<rparr>) (drop pos buf) 1 curSize;
        let buf = take pos buf @ b;
        if err \<noteq> st HDF_SUCCESS then Some (err, buf, cntlr)
        else SdioReadWriteRemainBytes_loop maxBlkSize param buf (pos + unat curSize) (remLen - curSize)
          (if scp_incrAddrFlag param then curAddr + curSize else curAddr) cntlr
      })"
  by pat_completeness auto
termination
  by (relation "measure (\<lambda>(m, p, b, pos, remLen, a, c). unat remLen)")
     (simp_all add: unat_sub min_le_iff_disj word_less_nat_alt unat_gt_0 min_def word_le_nat_alt)

declare SdioReadWriteRemainBytes_loop.simps [simp del]

definition SdioReadWriteRemainBytes ::
    "MmcCntlr \<Rightarrow> SdioCmdParam \<Rightarrow> bytes \<Rightarrow> nat \<Rightarrow> uint32_t \<Rightarrow> uint32_t \<Rightarrow> (int \<times> bytes \<times> MmcCntlr) option" where
  "SdioReadWriteRemainBytes cntlr param buf pos sz addr = do {
     func \<leftarrow> cur_function cntlr;
     let maxBlkSize = min (min (mc_maxBlkSize cntlr) (sfn_maxBlkSize func)) BYTES_PER_BLOCK;
     if maxBlkSize = 0 then Some (st HDF_ERR_INVALID_PARAM, buf, cntlr)
     else SdioReadWriteRemainBytes_loop maxBlkSize param buf pos sz addr cntlr
   }"

record SdioRwBlockInfo =
  rbi_addr :: uint32_t
  rbi_buf :: bytes
  rbi_size :: uint32_t
  rbi_scatterLen :: uint32_t
  rbi_writeFlag :: bool
  rbi_incrAddrFlag :: bool
  rbi_scatterFlag :: bool

definition SdioFillRwExtendedCmdParam :: "SdioFunction \<Rightarrow> SdioRwBlockInfo \<Rightarrow> SdioCmdParam" where
  "SdioFillRwExtendedCmdParam curFunction info =
     (let param = zero_SdioCmdParam\<lparr>scp_funcNum := sfn_funcNum curFunction, scp_incrAddrFlag := rbi_incrAddrFlag info,
            scp_writeflag := rbi_writeFlag info\<rparr>
      in if rbi_scatterFlag info
         then param\<lparr>scp_scatterFlag := True, scp_scatterLen := rbi_scatterLen info, scp_regAddr := rbi_addr info\<rparr>
         else param)"

text \<open>
  Whole blocks are sent while more than one block is left.  When a request of the host is smaller
  than a block no block fits: then nothing is sent, and the loop does not end.
\<close>

partial_function (option) SdioReadWriteBlock_loop ::
    "uint32_t \<Rightarrow> uint32_t \<Rightarrow> SdioCmdParam \<Rightarrow> bytes \<Rightarrow> nat \<Rightarrow> uint32_t \<Rightarrow> uint32_t \<Rightarrow> MmcCntlr \<Rightarrow>
      (int \<times> bytes \<times> nat \<times> uint32_t \<times> uint32_t \<times> MmcCntlr) option" where
  "SdioReadWriteBlock_loop curBlkSize maxBlkNum param buf pos remLen curAddr cntlr =
     (if \<not> remLen > curBlkSize then Some (st HDF_SUCCESS, buf, pos, remLen, curAddr, cntlr)
      else do {
        let curblkNum = min (remLen div curBlkSize) maxBlkNum;
        let curSize = curblkNum * curBlkSize;
        (err, b, cntlr) \<leftarrow> SdioRwExtended cntlr (param\<lparr>scp_regAddr := curAddr\<rparr>) (drop pos buf) curblkNum curBlkSize;
        let buf = take pos buf @ b;
        if err \<noteq> st HDF_SUCCESS then Some (err, buf, pos, remLen, curAddr, cntlr)
        else SdioReadWriteBlock_loop curBlkSize maxBlkNum param buf (pos + unat curSize) (remLen - curSize)
          (if scp_incrAddrFlag param then curAddr + curSize else curAddr) cntlr
      })"

declare SdioReadWriteBlock_loop.simps [code]

definition SdioReadWriteBlock :: "MmcCntlr \<Rightarrow> SdioRwBlockInfo \<Rightarrow> (int \<times> bytes \<times> MmcCntlr) option" where
  "SdioReadWriteBlock cntlr info =
     (if mc_curDev cntlr = None then Some (st HDF_ERR_INVALID_OBJECT, rbi_buf info, cntlr)
      else do {
        curFunction \<leftarrow> sdio_of sdio_curFunction cntlr;
        if curFunction = None then Some (st HDF_ERR_INVALID_OBJECT, rbi_buf info, cntlr)
        else do {
          func \<leftarrow> cur_function cntlr;
          let maxBlkSize = min (min (mc_maxBlkSize cntlr) (sfn_maxBlkSize func)) BYTES_PER_BLOCK;
          if maxBlkSize = 0 then Some (st HDF_ERR_INVALID_PARAM, rbi_buf info, cntlr)
          else if sfn_curBlkSize func = 0 \<or> mc_maxBlkNum cntlr = 0 then Some (st HDF_ERR_INVALID_PARAM, rbi_buf info, cntlr)
          else do {
            let param = SdioFillRwExtendedCmdParam func info;
            let remLen = rbi_size info;
            if rbi_scatterFlag info then
              SdioRwExtended cntlr param (rbi_buf info) (max 1 (remLen div maxBlkSize)) (min remLen maxBlkSize)
            else do {
              multiBlock \<leftarrow> sdio_of (\<lambda>p. cccr_multiBlock (sdio_cccr p)) cntlr;
              (err, buf, pos, remLen, curAddr, cntlr) \<leftarrow>
                (if multiBlock \<and> remLen > maxBlkSize then
                   let maxBlkNum = min (min (mc_maxReqSize cntlr div sfn_curBlkSize func) (mc_maxBlkNum cntlr))
                         SDIO_BLOCK_TRANSFER_MAX_BLKNUM
                   in SdioReadWriteBlock_loop (sfn_curBlkSize func) maxBlkNum param (rbi_buf info) 0 remLen (rbi_addr info) cntlr
                 else Some (st HDF_SUCCESS, rbi_buf info, 0, remLen, rbi_addr info, cntlr));
              if err \<noteq> st HDF_SUCCESS then Some (err, buf, cntlr)
              else SdioReadWriteRemainBytes cntlr param buf pos remLen curAddr
            }
          }
        }
      })"

section \<open>The common control registers\<close>

definition SdioCdDisable :: "MmcCntlr \<Rightarrow> (int \<times> MmcCntlr) option" where
  "SdioCdDisable cntlr = modify_register cntlr BUS_INTERFACE_CONTROL (\<lambda>ctrl. ctrl OR SDIO_CCCR_CD_DISABLE)"

abbreviation upd_cccr :: "(SdioCccr \<Rightarrow> SdioCccr) \<Rightarrow> MmcCntlr \<Rightarrow> MmcCntlr option" where
  "upd_cccr f \<equiv> upd_sdio (\<lambda>p. p\<lparr>sdio_cccr := f (sdio_cccr p)\<rparr>)"

text \<open>The second component of the result is the revision of the registers, written on success.\<close>

definition SdioReadCccrSdioRev :: "MmcCntlr \<Rightarrow> (int \<times> uint8_t option \<times> MmcCntlr) option" where
  "SdioReadCccrSdioRev cntlr = do {
     (err, out, cntlr) \<leftarrow> SdioRwDirect cntlr (zero_SdioCmdParam\<lparr>scp_regAddr := CCCR_SDIO_REVISION\<rparr>);
     if err \<noteq> st HDF_SUCCESS then Some (err, None, cntlr)
     else do {
       data \<leftarrow> out;
       let cccrRev = data AND 0x0f;
       if cccrRev > SDIO_CCCR_VERSION_3_00 then Some (st HDF_FAILURE, Some cccrRev, cntlr)
       else do {
         cntlr \<leftarrow> upd_cccr (\<lambda>r. r\<lparr>cccr_sdioRev := ucast (drop_bit 4 (data AND 0xf0))\<rparr>) cntlr;
         Some (st HDF_SUCCESS, Some cccrRev, cntlr)
       }
     }
   }"

definition SdioReadCccrCapbility :: "MmcCntlr \<Rightarrow> (int \<times> MmcCntlr) option" where
  "SdioReadCccrCapbility cntlr = with_register cntlr CARD_CAPBILITY (\<lambda>cap cntlr. do {
     cntlr \<leftarrow> upd_cccr (\<lambda>r. r\<lparr>
       cccr_lowSpeed4Bit := cccr_lowSpeed4Bit r \<or> cap AND SDIO_CCCR_CAP_4BLS > 0,
       cccr_lowSpeed := cccr_lowSpeed r \<or> cap AND SDIO_CCCR_CAP_LSC > 0,
       cccr_multiBlock := cccr_multiBlock r \<or> cap AND SDIO_CCCR_CAP_SMB > 0\<rparr>) cntlr;
     Some (st HDF_SUCCESS, cntlr)
   })"

definition SdioReadCccrPowerControl :: "MmcCntlr \<Rightarrow> (int \<times> MmcCntlr) option" where
  "SdioReadCccrPowerControl cntlr = with_register cntlr POWER_CONTROL (\<lambda>ctrl cntlr. do {
     cntlr \<leftarrow> upd_cccr (\<lambda>r. r\<lparr>cccr_highPower := cccr_highPower r \<or> ctrl AND SDIO_CCCR_POWER_SMPC > 0\<rparr>) cntlr;
     Some (st HDF_SUCCESS, cntlr)
   })"

definition SdioReadCccrBusSpeed :: "MmcCntlr \<Rightarrow> (int \<times> MmcCntlr) option" where
  "SdioReadCccrBusSpeed cntlr = with_register cntlr BUS_SPEED_SELECT (\<lambda>speed cntlr. do {
     cntlr \<leftarrow> upd_cccr (\<lambda>r. r\<lparr>cccr_highSpeed := cccr_highSpeed r \<or> speed AND SDIO_CCCR_BUS_SPEED_SHS > 0\<rparr>) cntlr;
     Some (st HDF_SUCCESS, cntlr)
   })"

definition SdioReadCccrIoEnable :: "MmcCntlr \<Rightarrow> (int \<times> uint8_t option \<times> MmcCntlr) option" where
  "SdioReadCccrIoEnable cntlr = SdioRwDirect cntlr (zero_SdioCmdParam\<lparr>scp_regAddr := IO_ENABLE\<rparr>)"

definition SdioReadCccrIoReady :: "MmcCntlr \<Rightarrow> (int \<times> uint8_t option \<times> MmcCntlr) option" where
  "SdioReadCccrIoReady cntlr = SdioRwDirect cntlr (zero_SdioCmdParam\<lparr>scp_regAddr := IO_READY\<rparr>)"

definition SdioReadCccrIntPending :: "MmcCntlr \<Rightarrow> (int \<times> uint8_t option \<times> MmcCntlr) option" where
  "SdioReadCccrIntPending cntlr = SdioRwDirect cntlr (zero_SdioCmdParam\<lparr>scp_regAddr := INT_PENDING\<rparr>)"

text \<open>
  The guards and the number of the current function; \<open>1 << funcNum\<close> is defined only below the width
  of an integer, and is cut to a byte.
\<close>

definition for_cur_function :: "MmcCntlr \<Rightarrow> (uint8_t \<Rightarrow> (int \<times> MmcCntlr) option) \<Rightarrow> (int \<times> MmcCntlr) option" where
  "for_cur_function cntlr k =
     (if mc_curDev cntlr = None then Some (st HDF_ERR_INVALID_OBJECT, cntlr)
      else do {
        curFunction \<leftarrow> sdio_of sdio_curFunction cntlr;
        if curFunction = None then Some (st HDF_ERR_INVALID_OBJECT, cntlr)
        else do {
          func \<leftarrow> cur_function cntlr;
          mask \<leftarrow> shl32 1 (sfn_funcNum func);
          k (ucast mask)
        }
      })"

definition SdioCccrIoEnable :: "MmcCntlr \<Rightarrow> (int \<times> MmcCntlr) option" where
  "SdioCccrIoEnable cntlr = for_cur_function cntlr (\<lambda>mask. modify_register cntlr IO_ENABLE (\<lambda>data. data OR mask))"

definition SdioCccrIoDisable :: "MmcCntlr \<Rightarrow> (int \<times> MmcCntlr) option" where
  "SdioCccrIoDisable cntlr = for_cur_function cntlr (\<lambda>mask. modify_register cntlr IO_ENABLE (\<lambda>data. data AND NOT mask))"

definition SdioCccrIntEnable :: "MmcCntlr \<Rightarrow> (int \<times> MmcCntlr) option" where
  "SdioCccrIntEnable cntlr = for_cur_function cntlr (\<lambda>mask. modify_register cntlr INT_ENABLE (\<lambda>val. val OR 1 OR mask))"

definition SdioCccrIntDisable :: "MmcCntlr \<Rightarrow> (int \<times> MmcCntlr) option" where
  "SdioCccrIntDisable cntlr = for_cur_function cntlr (\<lambda>mask. modify_register cntlr INT_ENABLE (\<lambda>val.
     let val = val AND NOT mask in if val AND 0xFE = 0 then 0 else val))"

definition SdioReadCccr :: "MmcCntlr \<Rightarrow> (int \<times> MmcCntlr) option" where
  "SdioReadCccr cntlr =
     (if mc_curDev cntlr = None then Some (st HDF_ERR_INVALID_PARAM, cntlr)
      else do {
        (ret, rev, cntlr) \<leftarrow> SdioReadCccrSdioRev cntlr;
        on_success (Some (ret, cntlr)) (\<lambda>cntlr.
        on_success (SdioReadCccrCapbility cntlr) (\<lambda>cntlr. do {
          cccrRev \<leftarrow> rev;
          on_success (if cccrRev \<ge> SDIO_CCCR_VERSION_1_10 then SdioReadCccrPowerControl cntlr
            else Some (st HDF_SUCCESS, cntlr)) (\<lambda>cntlr.
          if cccrRev \<ge> SDIO_CCCR_VERSION_1_20 then SdioReadCccrBusSpeed cntlr else Some (st HDF_SUCCESS, cntlr))
        }))
      })"

definition SdioBusSpeedSelect :: "MmcCntlr \<Rightarrow> bool \<Rightarrow> (int \<times> MmcCntlr) option" where
  "SdioBusSpeedSelect cntlr enableHighSpeed = modify_register cntlr BUS_SPEED_SELECT (\<lambda>speed.
     if enableHighSpeed then speed OR SDIO_CCCR_BUS_SPEED_EHS else speed AND NOT SDIO_CCCR_BUS_SPEED_EHS)"

definition SdioSwitchHighSpeed :: "MmcCntlr \<Rightarrow> (int \<times> MmcCntlr) option" where
  "SdioSwitchHighSpeed cntlr =
     (if mc_curDev cntlr = None then Some (st HDF_ERR_INVALID_PARAM, cntlr)
      else do {
        highSpeed \<leftarrow> sdio_of (\<lambda>p. cccr_highSpeed (sdio_cccr p)) cntlr;
        if \<not> cap_highSpeed (mc_caps cntlr) \<or> \<not> highSpeed then Some (st HDF_ERR_NOT_SUPPORT, cntlr)
        else SdioBusSpeedSelect cntlr True
      })"

definition SdioEnableHighSpeed :: "MmcCntlr \<Rightarrow> (int \<times> MmcCntlr) option" where
  "SdioEnableHighSpeed cntlr = do {
     (err, cntlr) \<leftarrow> SdioSwitchHighSpeed cntlr;
     typ \<leftarrow> dev_of dev_type cntlr;
     if typ = MMC_DEV_SDIO \<or> err \<noteq> st HDF_SUCCESS then Some (err, cntlr)
     else do {
       (err, cntlr) \<leftarrow> SdSwitchHighSpeed cntlr;
       if err = st HDF_SUCCESS then Some (err, cntlr)
       else do {
         (_, cntlr) \<leftarrow> SdioBusSpeedSelect cntlr False;
         Some (err, cntlr)
       }
     }
   }"

definition SdioSetBusWidth :: "MmcCntlr \<Rightarrow> uint8_t \<Rightarrow> (int \<times> MmcCntlr) option" where
  "SdioSetBusWidth cntlr width = modify_register cntlr BUS_INTERFACE_CONTROL (\<lambda>data. data OR width)"

definition SdioSwitch4BitBusWidth :: "MmcCntlr \<Rightarrow> (int \<times> MmcCntlr) option" where
  "SdioSwitch4BitBusWidth cntlr =
     (if mc_curDev cntlr = None then Some (st HDF_ERR_INVALID_PARAM, cntlr)
      else if \<not> cap_cap4Bit (mc_caps cntlr) then Some (st HDF_ERR_NOT_SUPPORT, cntlr)
      else do {
        cccr \<leftarrow> sdio_of sdio_cccr cntlr;
        if cccr_lowSpeed cccr \<and> \<not> cccr_lowSpeed4Bit cccr then Some (st HDF_ERR_NOT_SUPPORT, cntlr)
        else SdioSetBusWidth cntlr SDIO_CCCR_WIDTH_4BIT
      })"

definition SdioEnable4BitBusWidth :: "MmcCntlr \<Rightarrow> (int \<times> MmcCntlr) option" where
  "SdioEnable4BitBusWidth cntlr = do {
     (error, cntlr) \<leftarrow> SdioSwitch4BitBusWidth cntlr;
     typ \<leftarrow> dev_of dev_type cntlr;
     if typ = MMC_DEV_SDIO \<or> error \<noteq> st HDF_SUCCESS then Some (error, cntlr)
     else do {
       widths \<leftarrow> sd_of (\<lambda>p. scr_sdBusWidths (sdr_scr (sdp_reg p))) cntlr;
       if widths AND SD_SCR_BUS_WIDTHS_4 > 0 \<and> cap_cap4Bit (mc_caps cntlr) then SdAcmdSetBusWidth cntlr BUS_WIDTH4
       else Some (error, cntlr)
     }
   }"

section \<open>The chain of tuples\<close>

record SdioCisTuple =
  tpl_tplCode :: uint8_t
  tpl_tplLink :: uint8_t
  tpl_tplBody :: bytes

definition SdioReadCisTplField :: "MmcCntlr \<Rightarrow> uint32_t \<Rightarrow> (int \<times> uint8_t option \<times> MmcCntlr) option" where
  "SdioReadCisTplField cntlr addr = SdioRwDirect cntlr (zero_SdioCmdParam\<lparr>scp_regAddr := addr\<rparr>)"

definition tpl_word :: "SdioCisTuple \<Rightarrow> nat \<Rightarrow> uint32_t option" where
  "tpl_word tuple i = do {
     lo \<leftarrow> arr_get (tpl_tplBody tuple) i;
     hi \<leftarrow> arr_get (tpl_tplBody tuple) (i + 1);
     Some (push_bit 8 (ucast hi) OR ucast lo)
   }"

definition SdioDecodeCisTplManfId ::
    "MmcCntlr \<Rightarrow> SdioFunction option \<Rightarrow> SdioCisTuple \<Rightarrow> (SdioFunction option \<times> MmcCntlr) option" where
  "SdioDecodeCisTplManfId cntlr function tuple =
     (if tpl_tplLink tuple < SDIO_CIS_TPL_MANFID_MIN_SIZE then Some (function, cntlr)
      else do {
        vendorId \<leftarrow> tpl_word tuple 0;
        deviceId \<leftarrow> tpl_word tuple 2;
        case function of
          Some f \<Rightarrow> Some (Some (f\<lparr>sfn_deviceId := ucast deviceId, sfn_vendorId := ucast vendorId\<rparr>), cntlr)
        | None \<Rightarrow> do {
            cntlr \<leftarrow> upd_sdio (\<lambda>p. p\<lparr>sdio_cis := (sdio_cis p)\<lparr>cis_deviceId := ucast deviceId,
              cis_vendorId := ucast vendorId\<rparr>\<rparr>) cntlr;
            Some (None, cntlr)
          }
      })"

definition SdioDecodeCisTplFunceCommon :: "MmcCntlr \<Rightarrow> SdioCisTuple \<Rightarrow> MmcCntlr option" where
  "SdioDecodeCisTplFunceCommon cntlr tuple =
     (if tpl_tplLink tuple < SDIO_CIS_TPL_FUNCE_COMMON_MIN_SIZE then Some cntlr
      else do {
        blkSize \<leftarrow> tpl_word tuple 1;
        speed \<leftarrow> arr_get (tpl_tplBody tuple) 3;
        unit \<leftarrow> arr_get g_tranSpeedUnit (unat (speed AND 7));
        factor \<leftarrow> arr_get g_commFactor (unat (drop_bit 3 speed AND 15));
        upd_sdio (\<lambda>p. p\<lparr>sdio_cis := (sdio_cis p)\<lparr>cis_blkSize := ucast blkSize, cis_maxDtr := unit * factor\<rparr>\<rparr>) cntlr
      })"

definition SdioDecodeCisTplFunceFunction :: "MmcCntlr \<Rightarrow> SdioFunction \<Rightarrow> SdioCisTuple \<Rightarrow> SdioFunction option" where
  "SdioDecodeCisTplFunceFunction cntlr function tuple = do {
     sdioRev \<leftarrow> sdio_of (\<lambda>p. cccr_sdioRev (sdio_cccr p)) cntlr;
     let minSize = (if sdioRev = SDIO_CCCR_SDIO_REV_1_00 then SDIO_CIS_TPL_FUNCE_FUNCTION_PC_MIN_SIZE
       else SDIO_CIS_TPL_FUNCE_FUNCTION_PC_MAX_SIZE);
     if tpl_tplLink tuple < minSize then Some function
     else do {
       maxBlkSize \<leftarrow> tpl_word tuple 12;
       timeOut \<leftarrow> (if sdioRev > SDIO_CCCR_SDIO_REV_1_00 then map_option (\<lambda>w. w * 10) (tpl_word tuple 28)
         else Some SDIO_CIS_TPLFE_ENABLE_TIMEOUT_VAL_DEF);
       Some (function\<lparr>sfn_maxBlkSize := maxBlkSize, sfn_timeOut := timeOut\<rparr>)
     }
   }"

definition SdioDecodeCisTplFunce ::
    "MmcCntlr \<Rightarrow> SdioFunction option \<Rightarrow> SdioCisTuple \<Rightarrow> (SdioFunction option \<times> MmcCntlr) option" where
  "SdioDecodeCisTplFunce cntlr function tuple = do {
     kind \<leftarrow> arr_get (tpl_tplBody tuple) 0;
     if kind = SDIO_CIS_TPL_FUNCE_COMMON then
       (case function of Some _ \<Rightarrow> Some (function, cntlr)
        | None \<Rightarrow> do {
            cntlr \<leftarrow> SdioDecodeCisTplFunceCommon cntlr tuple;
            Some (None, cntlr)
          })
     else if kind = SDIO_CIS_TPL_FUNCE_FUNCTION_PC then
       (case function of None \<Rightarrow> Some (None, cntlr)
        | Some f \<Rightarrow> do {
            f \<leftarrow> SdioDecodeCisTplFunceFunction cntlr f tuple;
            Some (Some f, cntlr)
          })
     else Some (function, cntlr)
   }"

definition SdioDecodeCisTplField ::
    "MmcCntlr \<Rightarrow> SdioFunction option \<Rightarrow> SdioCisTuple \<Rightarrow> (SdioFunction option \<times> MmcCntlr) option" where
  "SdioDecodeCisTplField cntlr function tuple =
     (if tpl_tplCode tuple = SDIO_CIS_TPL_MANFID then SdioDecodeCisTplManfId cntlr function tuple
      else if tpl_tplCode tuple = SDIO_CIS_TPL_FUNCE then SdioDecodeCisTplFunce cntlr function tuple
      else Some (function, cntlr))"

fun SdioFillTplInfo_loop :: "nat \<Rightarrow> nat \<Rightarrow> bytes \<Rightarrow> uint32_t \<Rightarrow> MmcCntlr \<Rightarrow> (int \<times> bytes \<times> uint32_t \<times> MmcCntlr) option" where
  "SdioFillTplInfo_loop i 0 body addr cntlr = Some (st HDF_SUCCESS, body, addr, cntlr)"
| "SdioFillTplInfo_loop i (Suc n) body addr cntlr = do {
     let addr = addr + 1;
     (ret, out, cntlr) \<leftarrow> SdioReadCisTplField cntlr addr;
     if ret \<noteq> st HDF_SUCCESS then Some (ret, body, addr, cntlr)
     else do {
       v \<leftarrow> out;
       body \<leftarrow> arr_set body i v;
       SdioFillTplInfo_loop (Suc i) n body addr cntlr
     }
   }"

definition SdioFillTplInfo ::
    "MmcCntlr \<Rightarrow> uint32_t \<Rightarrow> uint8_t \<Rightarrow> uint8_t \<Rightarrow> (int \<times> SdioCisTuple \<times> uint32_t \<times> MmcCntlr) option" where
  "SdioFillTplInfo cntlr addr tplCode tplLink = do {
     (ret, body, addr, cntlr) \<leftarrow> SdioFillTplInfo_loop 0 (unat tplLink) (replicate (unat tplLink) 0) addr cntlr;
     Some (ret, \<lparr>tpl_tplCode = tplCode, tpl_tplLink = tplLink, tpl_tplBody = body\<rparr>, addr, cntlr)
   }"

text \<open>
  An empty tuple leaves the address on its own link byte, which is then read as the code of a null
  tuple and ends the chain.  The chain has no bound.
\<close>

definition SdioDecodeCis_step ::
    "MmcCntlr \<Rightarrow> SdioFunction option \<Rightarrow> uint32_t \<Rightarrow>
      ((int \<times> SdioFunction option \<times> MmcCntlr) + (SdioFunction option \<times> uint32_t \<times> MmcCntlr)) option" where
  "SdioDecodeCis_step cntlr function addr = do {
     (ret, out, cntlr) \<leftarrow> SdioReadCisTplField cntlr addr;
     if ret \<noteq> st HDF_SUCCESS then Some (Inl (ret, function, cntlr))
     else do {
       tplCode \<leftarrow> out;
       if tplCode = SDIO_CIS_TPL_END \<or> tplCode = SDIO_CIS_TPL_NULL then Some (Inl (st HDF_SUCCESS, function, cntlr))
       else do {
         let addr = addr + 1;
         (ret, out, cntlr) \<leftarrow> SdioReadCisTplField cntlr addr;
         if ret \<noteq> st HDF_SUCCESS then Some (Inl (ret, function, cntlr))
         else do {
           tplLink \<leftarrow> out;
           if tplLink = SDIO_CIS_TPL_END then Some (Inl (st HDF_SUCCESS, function, cntlr))
           else if tplLink = SDIO_CIS_TPL_NULL then Some (Inr (function, addr, cntlr))
           else do {
             let (ok, mem) = osal_alloc (mc_mem cntlr);
             let cntlr = cntlr\<lparr>mc_mem := mem\<rparr>;
             if \<not> ok then Some (Inl (st HDF_ERR_MALLOC_FAIL, function, cntlr))
             else do {
               (ret, tuple, addr, cntlr) \<leftarrow> SdioFillTplInfo cntlr addr tplCode tplLink;
               if ret \<noteq> st HDF_SUCCESS then Some (Inl (ret, function, cntlr))
               else do {
                 (function, cntlr) \<leftarrow> SdioDecodeCisTplField cntlr function tuple;
                 Some (Inr (function, addr + 1, cntlr))
               }
             }
           }
         }
       }
     }
   }"

partial_function (option) SdioDecodeCis ::
    "MmcCntlr \<Rightarrow> SdioFunction option \<Rightarrow> uint32_t \<Rightarrow> (int \<times> SdioFunction option \<times> MmcCntlr) option" where
  "SdioDecodeCis cntlr function addr =
     SdioDecodeCis_step cntlr function addr \<bind> (\<lambda>r. case r of Inl res \<Rightarrow> Some res
       | Inr (function, addr, cntlr) \<Rightarrow> SdioDecodeCis cntlr function addr)"

declare SdioDecodeCis.simps [code]

fun SdioReadCis_loop :: "uint32_t \<Rightarrow> nat \<Rightarrow> nat \<Rightarrow> uint32_t \<Rightarrow> MmcCntlr \<Rightarrow> (int \<times> uint32_t \<times> MmcCntlr) option" where
  "SdioReadCis_loop funcNum i 0 cisStartAddr cntlr = Some (st HDF_SUCCESS, cisStartAddr, cntlr)"
| "SdioReadCis_loop funcNum i (Suc n) cisStartAddr cntlr = do {
     (ret, out, cntlr) \<leftarrow> SdioRwDirect cntlr
       (zero_SdioCmdParam\<lparr>scp_regAddr := funcNum * 0x100 + SDIO_FBR_POINTER_CIS + of_nat i\<rparr>);
     if ret \<noteq> st HDF_SUCCESS then Some (ret, cisStartAddr, cntlr)
     else do {
       data \<leftarrow> out;
       SdioReadCis_loop funcNum (Suc i) n (cisStartAddr OR push_bit (i * BITS_PER_BYTE) (ucast data)) cntlr
     }
   }"

definition SdioReadCis :: "MmcCntlr \<Rightarrow> SdioFunction option \<Rightarrow> (int \<times> SdioFunction option \<times> MmcCntlr) option" where
  "SdioReadCis cntlr function = do {
     let funcNum = (case function of None \<Rightarrow> 0 | Some f \<Rightarrow> sfn_funcNum f);
     (ret, cisStartAddr, cntlr) \<leftarrow> SdioReadCis_loop funcNum 0 SDIO_CCCR_CIS_START_ADDR_BYTES 0 cntlr;
     if ret \<noteq> st HDF_SUCCESS then Some (ret, function, cntlr)
     else SdioDecodeCis cntlr function cisStartAddr
   }"

section \<open>Functions\<close>

definition SdioReadFbr :: "MmcCntlr \<Rightarrow> SdioFunction \<Rightarrow> (int \<times> SdioFunction \<times> MmcCntlr) option" where
  "SdioReadFbr cntlr func = do {
     let base = sfn_funcNum func * 0x100;
     (error, out, cntlr) \<leftarrow> SdioRwDirect cntlr
       (zero_SdioCmdParam\<lparr>scp_regAddr := base + SDIO_FBR_STD_FUNCTION_INTERFACE_CODE\<rparr>);
     if error \<noteq> st HDF_SUCCESS then Some (error, func, cntlr)
     else do {
       v \<leftarrow> out;
       let data = v AND 0x0f;
       if data = SDIO_FBR_STD_SDIO_IF then do {
         (error, out, cntlr) \<leftarrow> SdioRwDirect cntlr
           (zero_SdioCmdParam\<lparr>scp_regAddr := base + SDIO_FBR_EXT_STD_FUNCTION_INTERFACE_CODE\<rparr>);
         if error \<noteq> st HDF_SUCCESS then Some (error, func, cntlr)
         else do {
           data \<leftarrow> out;
           Some (st HDF_SUCCESS, func\<lparr>sfn_funcClass := data\<rparr>, cntlr)
         }
       }
       else Some (st HDF_SUCCESS, func\<lparr>sfn_funcClass := data\<rparr>, cntlr)
     }
   }"

definition SdioSetFbrIoBlockSize :: "MmcCntlr \<Rightarrow> uint32_t \<Rightarrow> (int \<times> MmcCntlr) option" where
  "SdioSetFbrIoBlockSize cntlr blkSize =
     (if mc_curDev cntlr = None then Some (st HDF_ERR_INVALID_OBJECT, cntlr)
      else do {
        curFunction \<leftarrow> sdio_of sdio_curFunction cntlr;
        if curFunction = None then Some (st HDF_ERR_INVALID_OBJECT, cntlr)
        else do {
          func \<leftarrow> cur_function cntlr;
          let addr = sfn_funcNum func * 0x100 + SDIO_FBR_IO_BLOCK_SIZE;
          on_success (write_register cntlr addr (ucast (blkSize AND 0xff))) (\<lambda>cntlr.
          write_register cntlr (addr + 1) (ucast (drop_bit BITS_PER_BYTE blkSize AND 0xff)))
        }
      })"

definition SdioGetMaxClock :: "MmcCntlr \<Rightarrow> uint32_t option" where
  "SdioGetMaxClock cntlr = do {
     mmcDev \<leftarrow> mc_curDev cntlr;
     clock \<leftarrow> (if dst_highSpeed (dev_state mmcDev) then Some 50000000
       else sdio_of (\<lambda>p. cis_maxDtr (sdio_cis p)) cntlr);
     clock \<leftarrow> (if dev_type mmcDev = MMC_DEV_COMBO then do {
         sd \<leftarrow> SdGetMaxClock cntlr;
         Some (if clock < sd then clock else sd)
       } else Some clock);
     Some (if clock > mc_freqMax cntlr then mc_freqMax cntlr else clock)
   }"

definition SdioAllocFunction :: "MmcCntlr \<Rightarrow> uint32_t \<Rightarrow> SdioFunction option \<times> MmcCntlr" where
  "SdioAllocFunction cntlr funcNum =
     (let (ok, mem) = osal_alloc (mc_mem cntlr);
          cntlr = cntlr\<lparr>mc_mem := mem\<rparr>
      in (if ok then Some (zero_SdioFunction\<lparr>sfn_funcNum := funcNum\<rparr>) else None, cntlr))"

text \<open>What a function does not say of itself is taken from the common information of the card.\<close>

definition inherit_common :: "SdioCis \<Rightarrow> SdioFunction \<Rightarrow> SdioFunction" where
  "inherit_common cis f =
     (let f = (if sfn_vendorId f = 0 then f\<lparr>sfn_vendorId := cis_vendorId cis, sfn_deviceId := cis_deviceId cis\<rparr> else f)
      in if sfn_maxBlkSize f = 0 then f\<lparr>sfn_maxBlkSize := ucast (cis_blkSize cis)\<rparr> else f)"

fun SdioAddFunctions_loop :: "nat \<Rightarrow> nat \<Rightarrow> MmcCntlr \<Rightarrow> (int \<times> MmcCntlr) option" where
  "SdioAddFunctions_loop i 0 cntlr = Some (st HDF_SUCCESS, cntlr)"
| "SdioAddFunctions_loop i (Suc n) cntlr =
     (case SdioAllocFunction cntlr (of_nat (i + 1)) of
        (None, cntlr) \<Rightarrow> Some (st HDF_ERR_MALLOC_FAIL, cntlr)
      | (Some function, cntlr) \<Rightarrow> do {
          (ret, function, cntlr) \<leftarrow> SdioReadFbr cntlr function;
          if ret \<noteq> st HDF_SUCCESS then Some (ret, cntlr)
          else do {
            (ret, function, cntlr) \<leftarrow> SdioReadCis cntlr (Some function);
            if ret \<noteq> st HDF_SUCCESS then Some (ret, cntlr)
            else do {
              function \<leftarrow> function;
              cis \<leftarrow> sdio_of sdio_cis cntlr;
              funcs \<leftarrow> sdio_of sdio_sdioFunc cntlr;
              funcs \<leftarrow> arr_set funcs i (Some (inherit_common cis function));
              cntlr \<leftarrow> upd_sdio (\<lambda>p. p\<lparr>sdio_sdioFunc := funcs, sdio_functions := sdio_functions p + 1\<rparr>) cntlr;
              SdioAddFunctions_loop (Suc i) n cntlr
            }
          }
        })"

definition SdioAddFunctions :: "MmcCntlr \<Rightarrow> uint32_t \<Rightarrow> (int \<times> MmcCntlr) option" where
  "SdioAddFunctions cntlr funcs = do {
     cntlr \<leftarrow> upd_sdio (\<lambda>p. p\<lparr>sdio_functions := 0\<rparr>) cntlr;
     SdioAddFunctions_loop 0 (unat funcs) cntlr
   }"

fun SdioDelete_loop :: "nat \<Rightarrow> nat \<Rightarrow> SdioFunction option list \<Rightarrow> SdioFunction option list option" where
  "SdioDelete_loop i 0 funcs = Some funcs"
| "SdioDelete_loop i (Suc n) funcs = do {
     funcs \<leftarrow> arr_set funcs i None;
     SdioDelete_loop (Suc i) n funcs
   }"

definition SdioDelete :: "MmcCntlr \<Rightarrow> MmcCntlr option" where
  "SdioDelete cntlr = do {
     sdioDev \<leftarrow> sdio_of id cntlr;
     funcs \<leftarrow> SdioDelete_loop 0 (unat (sdio_functions sdioDev)) (sdio_sdioFunc sdioDev);
     upd_sdio (\<lambda>p. p\<lparr>sdio_sdioFunc := funcs\<rparr>) cntlr
   }"

section \<open>Initialisation\<close>

definition SdioDeviceAdd :: "MmcCntlr \<Rightarrow> (int \<times> MmcCntlr) option" where
  "SdioDeviceAdd cntlr = do {
     (ret, cntlr) \<leftarrow> MmcDeviceAdd cntlr;
     if ret \<noteq> st HDF_SUCCESS then Some (st HDF_FAILURE, cntlr)
     else do {
       cntlr \<leftarrow> upd_state (\<lambda>s. s\<lparr>dst_present := True\<rparr>) cntlr;
       Some (st HDF_SUCCESS, cntlr)
     }
   }"

text \<open>
  The word with the conditions is the answer to the command for SDIO cards, and is overwritten with the
  answer of the memory part when the card has one.
\<close>

definition SdioSelect_combo :: "MmcCntlr \<Rightarrow> uint32_t \<Rightarrow> (uint32_t \<times> MmcCntlr) option" where
  "SdioSelect_combo cntlr rocr =
     (if rocr AND SDIO_R4_MEMORY_PRESENT > 0 then do {
        (err, rocr, cntlr) \<leftarrow> SdSelect cntlr;
        cntlr \<leftarrow> (if err = 0 then upd_dev (\<lambda>d. d\<lparr>dev_type := MMC_DEV_COMBO\<rparr>) cntlr else Some cntlr);
        Some (rocr, cntlr)
      }
      else Some (rocr, cntlr))"

definition SdioSelect_registers :: "MmcCntlr \<Rightarrow> (int \<times> MmcCntlr) option" where
  "SdioSelect_registers cntlr = do {
     typ \<leftarrow> dev_of dev_type cntlr;
     if typ = MMC_DEV_COMBO then do {
       (error, cntlr) \<leftarrow> SdReadRegisters cntlr;
       if error \<noteq> st HDF_SUCCESS then do {
         cntlr \<leftarrow> upd_dev (\<lambda>d. d\<lparr>dev_type := MMC_DEV_SDIO\<rparr>) (MmcGoIdleState cntlr);
         Some (st HDF_SUCCESS, cntlr)
       }
       else Some (st HDF_SUCCESS, cntlr)
     }
     else Some (st HDF_SUCCESS, cntlr)
   }"

definition SdioSelect :: "MmcCntlr \<Rightarrow> (int \<times> uint32_t \<times> MmcCntlr) option" where
  "SdioSelect cntlr = do {
     ocr \<leftarrow> dev_of (\<lambda>d. reg_ocr (dev_reg d)) cntlr;
     (error, rocr, cntlr) \<leftarrow> SdioSendOpCond cntlr ocr;
     if error \<noteq> st HDF_SUCCESS then Some (error, rocr, cntlr)
     else do {
       (rocr, cntlr) \<leftarrow> SdioSelect_combo cntlr rocr;
       (error, cntlr) \<leftarrow>
         on_success (SdCmdSendRelativeAddr cntlr) (\<lambda>cntlr. do {
           typ \<leftarrow> dev_of dev_type cntlr;
           on_success (if typ = MMC_DEV_COMBO then SdReadCsd cntlr else Some (st HDF_SUCCESS, cntlr)) (\<lambda>cntlr.
           on_success (Some (MmcSelectCard cntlr)) (\<lambda>cntlr.
           on_success (SdioReadCccr cntlr) (\<lambda>cntlr.
           on_success (map_option (\<lambda>(err, _, cntlr). (err, cntlr)) (SdioReadCis cntlr None)) SdioSelect_registers)))
         });
       Some (error, rocr, cntlr)
     }
   }"

text \<open>The calls for speed and width whose lack of support is not an error.\<close>

definition SdioInit_speed :: "MmcCntlr \<Rightarrow> (int \<times> MmcCntlr) option" where
  "SdioInit_speed cntlr = do {
     (error, cntlr) \<leftarrow> SdioEnableHighSpeed cntlr;
     if error = st HDF_SUCCESS then do {
       cntlr \<leftarrow> upd_state (\<lambda>s. s\<lparr>dst_highSpeed := True\<rparr>) cntlr;
       cntlr \<leftarrow> MmcCntlrSetBusTiming cntlr BUS_TIMING_SD_HS;
       Some (st HDF_SUCCESS, cntlr)
     }
     else if error \<noteq> st HDF_ERR_NOT_SUPPORT then Some (error, cntlr)
     else Some (st HDF_SUCCESS, cntlr)
   }"

definition SdioInit_width :: "MmcCntlr \<Rightarrow> (int \<times> MmcCntlr) option" where
  "SdioInit_width cntlr = do {
     (error, cntlr) \<leftarrow> SdioEnable4BitBusWidth cntlr;
     if error = st HDF_SUCCESS then do {
       cntlr \<leftarrow> MmcCntlrSetBusWidth cntlr BUS_WIDTH4;
       Some (st HDF_SUCCESS, cntlr)
     }
     else if error \<noteq> st HDF_ERR_NOT_SUPPORT then Some (error, cntlr)
     else Some (st HDF_SUCCESS, cntlr)
   }"

definition set_max_clock :: "MmcCntlr \<Rightarrow> (int \<times> MmcCntlr) option" where
  "set_max_clock cntlr = do {
     clock \<leftarrow> SdioGetMaxClock cntlr;
     cntlr \<leftarrow> MmcCntlrSetClock cntlr clock;
     Some (st HDF_SUCCESS, cntlr)
   }"

definition SdioInit :: "MmcCntlr \<Rightarrow> (int \<times> MmcCntlr) option" where
  "SdioInit cntlr = do {
     (error, ocr, cntlr) \<leftarrow> SdioSendOpCond cntlr 0;
     if error \<noteq> st HDF_SUCCESS then Some (error, cntlr)
     else do {
       (_, cntlr) \<leftarrow> MmcCntlrSelectWorkVoltage cntlr ocr;
       ocr \<leftarrow> dev_of (\<lambda>d. reg_ocr (dev_reg d)) cntlr;
       if ocr = 0 then Some (st HDF_ERR_INVALID_PARAM, cntlr)
       else do {
         (error, rocr, cntlr) \<leftarrow> SdioSelect cntlr;
         on_success (Some (error, cntlr)) (\<lambda>cntlr.
         on_success (SdioCdDisable cntlr) (\<lambda>cntlr.
         on_success (SdioInit_speed cntlr) (\<lambda>cntlr.
         on_success (set_max_clock cntlr) (\<lambda>cntlr.
         on_success (SdioInit_width cntlr) (\<lambda>cntlr.
         on_success (SdioAddFunctions cntlr (drop_bit 28 rocr AND SDIO_MAX_FUNCTION_NUMBER)) SdioDeviceAdd)))))
       }
     }
   }"

definition SdioReinit :: "MmcCntlr \<Rightarrow> (int \<times> MmcCntlr) option" where
  "SdioReinit cntlr = do {
     let cntlr = MmcGoIdleState cntlr;
     cntlr \<leftarrow> MmcCntlrSetClock cntlr (mc_freqMin cntlr);
     (error, _, cntlr) \<leftarrow> SdioSendOpCond cntlr 0;
     if error \<noteq> st HDF_SUCCESS then Some (error, cntlr)
     else do {
       ocr \<leftarrow> dev_of (\<lambda>d. reg_ocr (dev_reg d)) cntlr;
       (error, _, cntlr) \<leftarrow> SdioSendOpCond cntlr ocr;
       on_success (Some (error, cntlr)) (\<lambda>cntlr.
       on_success (SdCmdSendRelativeAddr cntlr) (\<lambda>cntlr.
       on_success (Some (MmcSelectCard cntlr)) (\<lambda>cntlr.
       on_success (SdioEnableHighSpeed cntlr) (\<lambda>cntlr.
       on_success (set_max_clock cntlr) (\<lambda>cntlr. do {
         (error, cntlr) \<leftarrow> SdioEnable4BitBusWidth cntlr;
         cntlr \<leftarrow> (if error = st HDF_SUCCESS then MmcCntlrSetBusWidth cntlr BUS_WIDTH4 else Some cntlr);
         Some (error, cntlr)
       })))))
     }
   }"

definition SdioDetect :: "MmcCntlr \<Rightarrow> (int \<times> MmcCntlr) option" where
  "SdioDetect cntlr = do {
     cntlr \<leftarrow> SdioIoReset cntlr;
     let cntlr = MmcGoIdleState cntlr;
     (err, cntlr) \<leftarrow> SdioInit cntlr;
     if err = st HDF_SUCCESS then Some (st HDF_SUCCESS, cntlr)
     else do {
       cntlr \<leftarrow> SdioDelete cntlr;
       Some (err, cntlr)
     }
   }"

end
