(* ===== verification/Mmc_SdioDev.thy ===== *)
theory Mmc_SdioDev
  imports Mmc_Sdio
begin

text \<open>
  The storage stack, sixth part: the operations that the driver of an SDIO card calls
  (\<^verbatim>\<open>mmc_sdio.c\<close>) and the thread for its interrupts (\<^verbatim>\<open>mmc_core.c\<close>).  The device that a driver
  holds is the current device of the controller; the only table of operations that is ever attached
  to it is the default one.  The answers of the operating system for semaphores and threads depend on
  the trace.
\<close>

abbreviation (input) SDIO_FUNC_INFO where "SDIO_FUNC_INFO \<equiv> 0"

definition SDIO_READ_IO_READY_RETRY_TIMES :: nat where "SDIO_READ_IO_READY_RETRY_TIMES = 10000"

section \<open>The thread for interrupts\<close>

definition irq_capable :: "MmcCntlr \<Rightarrow> bool" where
  "irq_capable cntlr \<longleftrightarrow> cap_sdioIrq (mc_caps cntlr) \<and> has_method mop_setSdioIrq cntlr"

definition osal_call :: "mmc_event \<Rightarrow> MmcCntlr \<Rightarrow> int \<times> MmcCntlr" where
  "osal_call e cntlr = (mc_osal cntlr (mc_trace cntlr), mc_log e cntlr)"

text \<open>One round of the loop that calls the handlers of the functions whose interrupt is pending.\<close>

fun SdioHandlePendingIrq_loop :: "nat \<Rightarrow> nat \<Rightarrow> uint8_t \<Rightarrow> SdioFunction option list \<Rightarrow> MmcCntlr \<Rightarrow> MmcCntlr option" where
  "SdioHandlePendingIrq_loop i 0 val funcs cntlr = Some cntlr"
| "SdioHandlePendingIrq_loop i (Suc n) val funcs cntlr =
     (if val AND push_bit (i + 1) 1 = 0 then SdioHandlePendingIrq_loop (Suc i) n val funcs cntlr
      else do {
        func \<leftarrow> arr_get funcs i;
        case func of None \<Rightarrow> SdioHandlePendingIrq_loop (Suc i) n val funcs cntlr
        | Some f \<Rightarrow>
            if \<not> sfn_irqHandler f then SdioHandlePendingIrq_loop (Suc i) n val funcs cntlr
            else SdioHandlePendingIrq_loop (Suc i) n val funcs (mc_log (EvIrqHandler (sfn_funcNum f)) cntlr)
      })"

definition SdioHandlePendingIrq :: "MmcCntlr \<Rightarrow> MmcCntlr option" where
  "SdioHandlePendingIrq cntlr = do {
     dev \<leftarrow> sdio_of id cntlr;
     if sdio_curFunction dev = None then Some cntlr
     else do {
       func \<leftarrow> cur_function cntlr;
       if sdio_irqPending dev \<and> sfn_irqHandler func then Some (mc_log (EvIrqHandler (sfn_funcNum func)) cntlr)
       else do {
         (ret, val, cntlr) \<leftarrow> SdioReadCccrIntPending cntlr;
         if ret \<noteq> st HDF_SUCCESS then Some cntlr
         else do {
           val \<leftarrow> val;
           SdioHandlePendingIrq_loop 0 SDIO_MAX_FUNCTION_NUMBER val (sdio_sdioFunc dev) cntlr
         }
       }
     }
   }"

text \<open>One round of the thread, for one count of the semaphore.\<close>

definition SdioIrqThreadWorker_step :: "MmcCntlr \<Rightarrow> MmcCntlr option" where
  "SdioIrqThreadWorker_step cntlr = do {
     sem \<leftarrow> sdio_of sdio_sem cntlr;
     n \<leftarrow> sem;
     if n = 0 then Some cntlr
     else do {
       cntlr \<leftarrow> upd_sdio (\<lambda>p. p\<lparr>sdio_sem := Some (n - 1)\<rparr>) cntlr;
       cntlr \<leftarrow> SdioHandlePendingIrq cntlr;
       cntlr \<leftarrow> upd_sdio (\<lambda>p. p\<lparr>sdio_irqPending := False\<rparr>) cntlr;
       Some (log_if (irq_capable cntlr) (EvSetSdioIrq True) cntlr)
     }
   }"

definition MmcCntlrCreatSdioIrqThread :: "MmcCntlr \<Rightarrow> (int \<times> MmcCntlr) option" where
  "MmcCntlrCreatSdioIrqThread cntlr =
     (if mc_curDev cntlr = None then Some (st HDF_ERR_INVALID_OBJECT, cntlr)
      else do {
        _ \<leftarrow> sdio_of id cntlr;
        let (ret, cntlr) = osal_call EvSemInit cntlr;
        if ret \<noteq> st HDF_SUCCESS then Some (ret, cntlr)
        else do {
          cntlr \<leftarrow> upd_sdio (\<lambda>p. p\<lparr>sdio_sem := Some 0\<rparr>) cntlr;
          let (ret, cntlr) = osal_call EvThreadCreate cntlr;
          if ret \<noteq> st HDF_SUCCESS then do {
            cntlr \<leftarrow> upd_sdio (\<lambda>p. p\<lparr>sdio_sem := None\<rparr>) cntlr;
            Some (ret, snd (osal_call EvSemDestroy cntlr))
          }
          else do {
            let (ret, cntlr) = osal_call EvThreadStart cntlr;
            if ret \<noteq> st HDF_SUCCESS then do {
              let cntlr = snd (osal_call EvThreadDestroy cntlr);
              cntlr \<leftarrow> upd_sdio (\<lambda>p. p\<lparr>sdio_sem := None\<rparr>) cntlr;
              Some (ret, snd (osal_call EvSemDestroy cntlr))
            }
            else do {
              cntlr \<leftarrow> upd_sdio (\<lambda>p. p\<lparr>sdio_threadRunning := True\<rparr>) cntlr;
              Some (st HDF_SUCCESS, log_if (irq_capable cntlr) (EvSetSdioIrq True) cntlr)
            }
          }
        }
      })"

text \<open>The flag is set here too, although the thread and its semaphore are gone.\<close>

definition MmcCntlrDestroySdioIrqThread :: "MmcCntlr \<Rightarrow> MmcCntlr option" where
  "MmcCntlrDestroySdioIrqThread cntlr =
     (if mc_curDev cntlr = None then Some cntlr
      else do {
        _ \<leftarrow> sdio_of id cntlr;
        let cntlr = snd (osal_call EvThreadDestroy cntlr);
        let cntlr = snd (osal_call EvSemDestroy cntlr);
        upd_sdio (\<lambda>p. p\<lparr>sdio_sem := None, sdio_threadRunning := True\<rparr>) cntlr
      })"

text \<open>To post a semaphore that is destroyed is undefined.\<close>

definition MmcCntlrNotifySdioIrqThread :: "MmcCntlr \<Rightarrow> MmcCntlr option" where
  "MmcCntlrNotifySdioIrqThread cntlr =
     (case mc_curDev cntlr of None \<Rightarrow> Some cntlr
      | Some d \<Rightarrow>
          if dev_type d \<noteq> MMC_DEV_SDIO \<and> dev_type d \<noteq> MMC_DEV_COMBO then Some cntlr
          else do {
            dev \<leftarrow> dev_sdio d;
            if sdio_threadRunning dev then do {
              n \<leftarrow> sdio_sem dev;
              upd_sdio (\<lambda>p. p\<lparr>sdio_irqPending := True, sdio_sem := Some (n + 1)\<rparr>) cntlr
            }
            else Some cntlr
          })"

section \<open>The default operations\<close>

text \<open>Each begins by checking that a function has been chosen.\<close>

definition guard_function :: "MmcCntlr \<Rightarrow> 'a \<Rightarrow> (SdioFunction \<Rightarrow> (int \<times> 'a \<times> MmcCntlr) option) \<Rightarrow> (int \<times> 'a \<times> MmcCntlr) option" where
  "guard_function cntlr x k = do {
     curFunction \<leftarrow> sdio_of sdio_curFunction cntlr;
     if curFunction = None then Some (st HDF_ERR_INVALID_OBJECT, x, cntlr)
     else do {
       func \<leftarrow> cur_function cntlr;
       k func
     }
   }"

definition incr_addr_bytes :: "bool \<Rightarrow> MmcCntlr \<Rightarrow> bytes \<Rightarrow> uint32_t \<Rightarrow> uint32_t \<Rightarrow> (int \<times> bytes \<times> MmcCntlr) option" where
  "incr_addr_bytes writeFlag cntlr data addr sz = guard_function cntlr data (\<lambda>func.
     if sz = 1 then do {
       b \<leftarrow> arr_get data 0;
       (ret, b, cntlr) \<leftarrow> SdioReadWriteByte cntlr writeFlag (sfn_funcNum func) addr b;
       Some (ret, b # tl data, cntlr)
     }
     else if sz > 1 then
       SdioReadWriteBlock cntlr \<lparr>rbi_addr = addr, rbi_buf = data, rbi_size = sz, rbi_scatterLen = 0,
         rbi_writeFlag = writeFlag, rbi_incrAddrFlag = True, rbi_scatterFlag = False\<rparr>
     else Some (st HDF_ERR_INVALID_PARAM, data, cntlr))"

definition SdioDeviceDefaultIncrAddrReadBytes ::
    "MmcCntlr \<Rightarrow> bytes \<Rightarrow> uint32_t \<Rightarrow> uint32_t \<Rightarrow> (int \<times> bytes \<times> MmcCntlr) option" where
  "SdioDeviceDefaultIncrAddrReadBytes = incr_addr_bytes False"

definition SdioDeviceDefaultIncrAddrWriteBytes ::
    "MmcCntlr \<Rightarrow> bytes \<Rightarrow> uint32_t \<Rightarrow> uint32_t \<Rightarrow> (int \<times> bytes \<times> MmcCntlr) option" where
  "SdioDeviceDefaultIncrAddrWriteBytes = incr_addr_bytes True"

definition fixed_addr_bytes ::
    "bool \<Rightarrow> MmcCntlr \<Rightarrow> bytes \<Rightarrow> uint32_t \<Rightarrow> uint32_t \<Rightarrow> uint32_t \<Rightarrow> (int \<times> bytes \<times> MmcCntlr) option" where
  "fixed_addr_bytes writeFlag cntlr data addr sz scatterLen = guard_function cntlr data (\<lambda>func.
     if sz = 0 then Some (st HDF_ERR_INVALID_PARAM, data, cntlr)
     else SdioReadWriteBlock cntlr \<lparr>rbi_addr = addr, rbi_buf = data, rbi_size = sz,
       rbi_scatterLen = (if scatterLen > 0 then scatterLen else 0), rbi_writeFlag = writeFlag,
       rbi_incrAddrFlag = False, rbi_scatterFlag = scatterLen > 0\<rparr>)"

definition SdioDeviceDefaultFixedAddrReadBytes ::
    "MmcCntlr \<Rightarrow> bytes \<Rightarrow> uint32_t \<Rightarrow> uint32_t \<Rightarrow> uint32_t \<Rightarrow> (int \<times> bytes \<times> MmcCntlr) option" where
  "SdioDeviceDefaultFixedAddrReadBytes = fixed_addr_bytes False"

definition SdioDeviceDefaultFixedAddrWriteBytes ::
    "MmcCntlr \<Rightarrow> bytes \<Rightarrow> uint32_t \<Rightarrow> uint32_t \<Rightarrow> uint32_t \<Rightarrow> (int \<times> bytes \<times> MmcCntlr) option" where
  "SdioDeviceDefaultFixedAddrWriteBytes = fixed_addr_bytes True"

fun func0_loop :: "bool \<Rightarrow> nat \<Rightarrow> nat \<Rightarrow> uint32_t \<Rightarrow> bytes \<Rightarrow> MmcCntlr \<Rightarrow> (int \<times> bytes \<times> MmcCntlr) option" where
  "func0_loop writeFlag i 0 addr data cntlr = Some (st HDF_SUCCESS, data, cntlr)"
| "func0_loop writeFlag i (Suc n) addr data cntlr = do {
     b \<leftarrow> arr_get data i;
     (ret, b, cntlr) \<leftarrow> SdioReadWriteByte cntlr writeFlag 0 (addr + of_nat i) b;
     data \<leftarrow> arr_set data i b;
     if ret \<noteq> st HDF_SUCCESS then Some (ret, data, cntlr)
     else func0_loop writeFlag (Suc i) n addr data cntlr
   }"

definition SdioDeviceDefaultFunc0ReadBytes ::
    "MmcCntlr \<Rightarrow> bytes \<Rightarrow> uint32_t \<Rightarrow> uint32_t \<Rightarrow> (int \<times> bytes \<times> MmcCntlr) option" where
  "SdioDeviceDefaultFunc0ReadBytes cntlr data addr sz = guard_function cntlr data (\<lambda>func.
     func0_loop False 0 (unat sz) addr data cntlr)"

definition SdioDeviceDefaultFunc0WriteBytes ::
    "MmcCntlr \<Rightarrow> bytes \<Rightarrow> uint32_t \<Rightarrow> uint32_t \<Rightarrow> (int \<times> bytes \<times> MmcCntlr) option" where
  "SdioDeviceDefaultFunc0WriteBytes cntlr data addr sz = guard_function cntlr data (\<lambda>func.
     func0_loop True 0 (unat sz) addr data cntlr)"

definition upd_cur_function :: "(SdioFunction \<Rightarrow> SdioFunction) \<Rightarrow> MmcCntlr \<Rightarrow> MmcCntlr option" where
  "upd_cur_function f cntlr = do {
     i \<leftarrow> sdio_of sdio_curFunction cntlr \<bind> (\<lambda>f. f);
     funcs \<leftarrow> sdio_of sdio_sdioFunc cntlr;
     func \<leftarrow> cur_function cntlr;
     funcs \<leftarrow> arr_set funcs i (Some (f func));
     upd_sdio (\<lambda>p. p\<lparr>sdio_sdioFunc := funcs\<rparr>) cntlr
   }"

definition with_function :: "MmcCntlr \<Rightarrow> (SdioFunction \<Rightarrow> (int \<times> MmcCntlr) option) \<Rightarrow> (int \<times> MmcCntlr) option" where
  "with_function cntlr k =
     map_option (\<lambda>(ret, _, cntlr). (ret, cntlr))
       (guard_function cntlr () (\<lambda>func. map_option (\<lambda>(ret, cntlr). (ret, (), cntlr)) (k func)))"

definition SdioDeviceDefaultSetBlockSize :: "MmcCntlr \<Rightarrow> uint32_t \<Rightarrow> (int \<times> MmcCntlr) option" where
  "SdioDeviceDefaultSetBlockSize cntlr blkSize = with_function cntlr (\<lambda>func. do {
     let blockSize = (if blkSize = 0
       then (if sfn_maxBlkSize func < mc_maxBlkSize cntlr then sfn_maxBlkSize func else mc_maxBlkSize cntlr)
       else blkSize);
     let blockSize = min blockSize MMC_SEC_SIZE;
     (ret, cntlr) \<leftarrow> SdioSetFbrIoBlockSize cntlr blockSize;
     cntlr \<leftarrow> (if ret = st HDF_SUCCESS then upd_cur_function (\<lambda>f. f\<lparr>sfn_curBlkSize := blockSize\<rparr>) cntlr else Some cntlr);
     Some (ret, cntlr)
   })"

record SdioFuncInfo =
  sfi_maxBlockNum :: uint32_t
  sfi_maxBlockSize :: uint32_t
  sfi_maxRequestSize :: uint32_t
  sfi_enTimeout :: uint32_t
  sfi_funcNum :: uint32_t
  sfi_irqCap :: uint32_t

text \<open>Of the kinds of information only the one about a function is supported.\<close>

definition SdioDeviceDefaultGetCommonInfo :: "MmcCntlr \<Rightarrow> uint32_t \<Rightarrow> (int \<times> SdioFuncInfo option \<times> MmcCntlr) option" where
  "SdioDeviceDefaultGetCommonInfo cntlr infoType = guard_function cntlr None (\<lambda>func.
     if infoType \<noteq> SDIO_FUNC_INFO then Some (st HDF_ERR_NOT_SUPPORT, None, cntlr)
     else Some (st HDF_SUCCESS, Some \<lparr>sfi_maxBlockNum = mc_maxBlkNum cntlr, sfi_maxBlockSize = mc_maxBlkSize cntlr,
       sfi_maxRequestSize = mc_maxReqSize cntlr, sfi_enTimeout = sfn_timeOut func, sfi_funcNum = sfn_funcNum func,
       sfi_irqCap = (if cap_sdioIrq (mc_caps cntlr) then 1 else 0)\<rparr>, cntlr))"

definition SdioDeviceDefaultSetCommonInfo :: "MmcCntlr \<Rightarrow> SdioFuncInfo \<Rightarrow> uint32_t \<Rightarrow> (int \<times> MmcCntlr) option" where
  "SdioDeviceDefaultSetCommonInfo cntlr info infoType = with_function cntlr (\<lambda>func.
     if infoType \<noteq> SDIO_FUNC_INFO then Some (st HDF_ERR_NOT_SUPPORT, cntlr)
     else do {
       cntlr \<leftarrow> upd_cur_function (\<lambda>f. f\<lparr>sfn_timeOut := sfi_enTimeout info, sfn_funcNum := sfi_funcNum info\<rparr>) cntlr;
       Some (st HDF_SUCCESS, cntlr\<lparr>mc_maxBlkNum := sfi_maxBlockNum info, mc_maxBlkSize := sfi_maxBlockSize info,
         mc_maxReqSize := sfi_maxRequestSize info\<rparr>)
     })"

definition SdioDeviceDefaultFlushData :: "MmcCntlr \<Rightarrow> (int \<times> MmcCntlr) option" where
  "SdioDeviceDefaultFlushData cntlr = SdioReinit cntlr"

fun SdioDeviceDefaultEnableFunc_loop :: "uint32_t \<Rightarrow> nat \<Rightarrow> MmcCntlr \<Rightarrow> (int \<times> MmcCntlr) option" where
  "SdioDeviceDefaultEnableFunc_loop funcNum 0 cntlr = Some (st HDF_ERR_TIMEOUT, cntlr)"
| "SdioDeviceDefaultEnableFunc_loop funcNum (Suc n) cntlr = do {
     (ret, val, cntlr) \<leftarrow> SdioReadCccrIoReady cntlr;
     if ret \<noteq> st HDF_SUCCESS then Some (ret, cntlr)
     else do {
       val \<leftarrow> val;
       mask \<leftarrow> shl32 1 funcNum;
       if ucast val AND mask > 0 then Some (st HDF_SUCCESS, cntlr)
       else SdioDeviceDefaultEnableFunc_loop funcNum n cntlr
     }
   }"

definition SdioDeviceDefaultEnableFunc :: "MmcCntlr \<Rightarrow> (int \<times> MmcCntlr) option" where
  "SdioDeviceDefaultEnableFunc cntlr = with_function cntlr (\<lambda>func.
     on_success (SdioCccrIoEnable cntlr)
       (SdioDeviceDefaultEnableFunc_loop (sfn_funcNum func) SDIO_READ_IO_READY_RETRY_TIMES))"

definition SdioDeviceDefaultDisableFunc :: "MmcCntlr \<Rightarrow> (int \<times> MmcCntlr) option" where
  "SdioDeviceDefaultDisableFunc cntlr = with_function cntlr (\<lambda>func. SdioCccrIoDisable cntlr)"

definition SdioDeviceDefaultClaimIrq :: "MmcCntlr \<Rightarrow> bool \<Rightarrow> (int \<times> MmcCntlr) option" where
  "SdioDeviceDefaultClaimIrq cntlr irqHandler = with_function cntlr (\<lambda>func.
     if sfn_irqHandler func then Some (st HDF_ERR_DEVICE_BUSY, cntlr)
     else if \<not> irqHandler then Some (st HDF_ERR_INVALID_PARAM, cntlr)
     else
       on_success (SdioCccrIntEnable cntlr) (\<lambda>cntlr. do {
         cntlr \<leftarrow> upd_cur_function (\<lambda>f. f\<lparr>sfn_irqHandler := True\<rparr>) cntlr;
         if cap_sdioIrq (mc_caps cntlr) then MmcCntlrCreatSdioIrqThread cntlr else Some (st HDF_SUCCESS, cntlr)
       }))"

definition SdioDeviceDefaultReleaseIrq :: "MmcCntlr \<Rightarrow> (int \<times> MmcCntlr) option" where
  "SdioDeviceDefaultReleaseIrq cntlr = with_function cntlr (\<lambda>func. do {
     cntlr \<leftarrow> (if sfn_irqHandler func then do {
         cntlr \<leftarrow> upd_cur_function (\<lambda>f. f\<lparr>sfn_irqHandler := False\<rparr>) cntlr;
         MmcCntlrDestroySdioIrqThread cntlr
       } else Some cntlr);
     SdioCccrIntDisable (log_if (irq_capable cntlr) (EvSetSdioIrq False) cntlr)
   })"

record SdioFunctionConfig =
  sfc_funcNr :: uint32_t
  sfc_vendorId :: uint16_t
  sfc_deviceId :: uint16_t

fun SdioDeviceDefaultFindFunc_loop :: "SdioFunctionConfig \<Rightarrow> SdioFunction option list \<Rightarrow> nat \<Rightarrow> nat \<Rightarrow> nat option option" where
  "SdioDeviceDefaultFindFunc_loop cfg funcs i 0 = Some None"
| "SdioDeviceDefaultFindFunc_loop cfg funcs i (Suc n) = do {
     func \<leftarrow> arr_get funcs i;
     case func of None \<Rightarrow> SdioDeviceDefaultFindFunc_loop cfg funcs (Suc i) n
     | Some f \<Rightarrow>
         if sfc_deviceId cfg = sfn_deviceId f \<and> sfc_vendorId cfg = sfn_vendorId f \<and> sfc_funcNr cfg = sfn_funcNum f
         then Some (Some i)
         else SdioDeviceDefaultFindFunc_loop cfg funcs (Suc i) n
   }"

definition SdioDeviceDefaultFindFunc :: "MmcCntlr \<Rightarrow> SdioFunctionConfig \<Rightarrow> (int \<times> MmcCntlr) option" where
  "SdioDeviceDefaultFindFunc cntlr cfg = do {
     dev \<leftarrow> sdio_of id cntlr;
     if sdio_functions dev > SDIO_MAX_FUNCTION_NUMBER then Some (st HDF_ERR_INVALID_PARAM, cntlr)
     else do {
       found \<leftarrow> SdioDeviceDefaultFindFunc_loop cfg (sdio_sdioFunc dev) 0 (unat (sdio_functions dev));
       case found of None \<Rightarrow> Some (st HDF_FAILURE, cntlr)
       | Some i \<Rightarrow> do {
           cntlr \<leftarrow> upd_sdio (\<lambda>p. p\<lparr>sdio_curFunction := Some i\<rparr>) cntlr;
           Some (st HDF_SUCCESS, cntlr)
         }
     }
   }"

section \<open>The interface\<close>

definition SdioDeviceAddOps :: "MmcCntlr \<Rightarrow> MmcCntlr option" where
  "SdioDeviceAddOps cntlr = upd_sdio (\<lambda>p. p\<lparr>sdio_opsSet := True\<rparr>) cntlr"

definition with_ops :: "MmcCntlr \<Rightarrow> 'a \<Rightarrow> (int \<times> 'a \<times> MmcCntlr) option \<Rightarrow> (int \<times> 'a \<times> MmcCntlr) option" where
  "with_ops cntlr x m = do {
     opsSet \<leftarrow> sdio_of sdio_opsSet cntlr;
     if \<not> opsSet then Some (st HDF_ERR_INVALID_OBJECT, x, cntlr) else m
   }"

definition with_ops0 :: "MmcCntlr \<Rightarrow> (int \<times> MmcCntlr) option \<Rightarrow> (int \<times> MmcCntlr) option" where
  "with_ops0 cntlr m = do {
     opsSet \<leftarrow> sdio_of sdio_opsSet cntlr;
     if \<not> opsSet then Some (st HDF_ERR_INVALID_OBJECT, cntlr) else m
   }"

definition SdioDeviceFindFunction :: "MmcCntlr \<Rightarrow> SdioFunctionConfig \<Rightarrow> (int \<times> MmcCntlr) option" where
  "SdioDeviceFindFunction cntlr config = with_ops0 cntlr (SdioDeviceDefaultFindFunc cntlr config)"

definition SdioDeviceIncrAddrReadBytes :: "MmcCntlr \<Rightarrow> bytes \<Rightarrow> uint32_t \<Rightarrow> uint32_t \<Rightarrow> (int \<times> bytes \<times> MmcCntlr) option" where
  "SdioDeviceIncrAddrReadBytes cntlr data addr sz =
     with_ops cntlr data (SdioDeviceDefaultIncrAddrReadBytes cntlr data addr sz)"

definition SdioDeviceIncrAddrWriteBytes :: "MmcCntlr \<Rightarrow> bytes \<Rightarrow> uint32_t \<Rightarrow> uint32_t \<Rightarrow> (int \<times> bytes \<times> MmcCntlr) option" where
  "SdioDeviceIncrAddrWriteBytes cntlr data addr sz =
     with_ops cntlr data (SdioDeviceDefaultIncrAddrWriteBytes cntlr data addr sz)"

definition SdioDeviceFixedAddrReadBytes ::
    "MmcCntlr \<Rightarrow> bytes \<Rightarrow> uint32_t \<Rightarrow> uint32_t \<Rightarrow> uint32_t \<Rightarrow> (int \<times> bytes \<times> MmcCntlr) option" where
  "SdioDeviceFixedAddrReadBytes cntlr data addr sz scatterLen =
     with_ops cntlr data (SdioDeviceDefaultFixedAddrReadBytes cntlr data addr sz scatterLen)"

definition SdioDeviceFixedAddrWriteBytes ::
    "MmcCntlr \<Rightarrow> bytes \<Rightarrow> uint32_t \<Rightarrow> uint32_t \<Rightarrow> uint32_t \<Rightarrow> (int \<times> bytes \<times> MmcCntlr) option" where
  "SdioDeviceFixedAddrWriteBytes cntlr data addr sz scatterLen =
     with_ops cntlr data (SdioDeviceDefaultFixedAddrWriteBytes cntlr data addr sz scatterLen)"

definition SdioDeviceFunc0ReadBytes :: "MmcCntlr \<Rightarrow> bytes \<Rightarrow> uint32_t \<Rightarrow> uint32_t \<Rightarrow> (int \<times> bytes \<times> MmcCntlr) option" where
  "SdioDeviceFunc0ReadBytes cntlr data addr sz =
     with_ops cntlr data (SdioDeviceDefaultFunc0ReadBytes cntlr data addr sz)"

definition SdioDeviceFunc0WriteBytes :: "MmcCntlr \<Rightarrow> bytes \<Rightarrow> uint32_t \<Rightarrow> uint32_t \<Rightarrow> (int \<times> bytes \<times> MmcCntlr) option" where
  "SdioDeviceFunc0WriteBytes cntlr data addr sz =
     with_ops cntlr data (SdioDeviceDefaultFunc0WriteBytes cntlr data addr sz)"

definition SdioDeviceSetBlockSize :: "MmcCntlr \<Rightarrow> uint32_t \<Rightarrow> (int \<times> MmcCntlr) option" where
  "SdioDeviceSetBlockSize cntlr blockSize = with_ops0 cntlr (SdioDeviceDefaultSetBlockSize cntlr blockSize)"

definition SdioDeviceGetCommonInfo :: "MmcCntlr \<Rightarrow> uint32_t \<Rightarrow> (int \<times> SdioFuncInfo option \<times> MmcCntlr) option" where
  "SdioDeviceGetCommonInfo cntlr infoType = with_ops cntlr None (SdioDeviceDefaultGetCommonInfo cntlr infoType)"

definition SdioDeviceSetCommonInfo :: "MmcCntlr \<Rightarrow> SdioFuncInfo \<Rightarrow> uint32_t \<Rightarrow> (int \<times> MmcCntlr) option" where
  "SdioDeviceSetCommonInfo cntlr info infoType = with_ops0 cntlr (SdioDeviceDefaultSetCommonInfo cntlr info infoType)"

definition SdioDeviceFlushData :: "MmcCntlr \<Rightarrow> (int \<times> MmcCntlr) option" where
  "SdioDeviceFlushData cntlr = with_ops0 cntlr (SdioDeviceDefaultFlushData cntlr)"

definition SdioDeviceEnableFunc :: "MmcCntlr \<Rightarrow> (int \<times> MmcCntlr) option" where
  "SdioDeviceEnableFunc cntlr = with_ops0 cntlr (SdioDeviceDefaultEnableFunc cntlr)"

definition SdioDeviceDisableFunc :: "MmcCntlr \<Rightarrow> (int \<times> MmcCntlr) option" where
  "SdioDeviceDisableFunc cntlr = with_ops0 cntlr (SdioDeviceDefaultDisableFunc cntlr)"

definition SdioDeviceClaimIrq :: "MmcCntlr \<Rightarrow> bool \<Rightarrow> (int \<times> MmcCntlr) option" where
  "SdioDeviceClaimIrq cntlr irqHandler = with_ops0 cntlr (SdioDeviceDefaultClaimIrq cntlr irqHandler)"

definition SdioDeviceReleaseIrq :: "MmcCntlr \<Rightarrow> (int \<times> MmcCntlr) option" where
  "SdioDeviceReleaseIrq cntlr = with_ops0 cntlr (SdioDeviceDefaultReleaseIrq cntlr)"

end
