(* ===== verification/Mmc_Core.thy ===== *)
theory Mmc_Core
  imports Mmc_SdioDev
begin

text \<open>
  The storage stack, seventh part: detection and removal of a card (\<^verbatim>\<open>mmc_protocol.c\<close>), the
  messages of the controller's queue, and the requests of the block device (\<^verbatim>\<open>mmc_core.c\<close>).

  The queue holds the messages in order.  The thread of \<^verbatim>\<open>platform_queue.c\<close> takes them out one by one,
  and drops what the handler returns.  Who posts a message with the flag \<open>block\<close> waits until it has
  been handled, that is, until the thread has handled all that were before it and the message; the wait
  itself does not fail.  The others only leave their message in the queue.
\<close>

abbreviation (input) MMC_REQUEST_RETRY where "MMC_REQUEST_RETRY \<equiv> 3"
abbreviation (input) MMC_DETECET_RETRY where "MMC_DETECET_RETRY \<equiv> 5"
abbreviation (input) MMC_MAX_SECTOR_NUM where "MMC_MAX_SECTOR_NUM \<equiv> 0x800"
abbreviation (input) MMC_MAX_ERASE_SECTOR where "MMC_MAX_ERASE_SECTOR \<equiv> 0x100000"

section \<open>Detection\<close>

definition MmcDeleteDev :: "MmcCntlr \<Rightarrow> MmcCntlr option" where
  "MmcDeleteDev cntlr =
     (case mc_curDev cntlr of None \<Rightarrow> Some cntlr
      | Some d \<Rightarrow>
          if \<not> dst_present (dev_state d) then Some cntlr
          else do {
            cntlr \<leftarrow> upd_state (\<lambda>s. s\<lparr>dst_present := False\<rparr>) cntlr;
            cntlr \<leftarrow> (if dev_type d = MMC_DEV_SDIO \<or> dev_type d = MMC_DEV_COMBO then SdioDelete cntlr else Some cntlr);
            cntlr \<leftarrow> MmcDeviceRemove cntlr;
            Some (MmcCntlrFreeDev cntlr)
          })"

definition MmcDoDetect :: "MmcCntlr \<Rightarrow> (int \<times> MmcCntlr) option" where
  "MmcDoDetect cntlr = do {
     let devType = mc_devType cntlr;
     if devType \<ge> MMC_DEV_COMBO then Some (st HDF_ERR_INVALID_PARAM, cntlr)
     else do {
       let (ret, cntlr) = MmcCntlrAllocDev cntlr devType;
       if ret \<noteq> st HDF_SUCCESS then Some (st HDF_ERR_INVALID_PARAM, cntlr)
       else do {
         let cntlr = MmcCntlrPowerUp cntlr;
         (error, cntlr) \<leftarrow>
           (if devType = MMC_DEV_SDIO then SdioDetect cntlr
            else if devType = MMC_DEV_SD then SdDetect cntlr
            else EmmcDetect cntlr);
         if error = st HDF_SUCCESS then Some (error, cntlr)
         else Some (error, MmcCntlrPowerOff (MmcCntlrFreeDev cntlr))
       }
     }
   }"

section \<open>Operations of the device\<close>

definition EmmcDeviceAddOps :: "MmcCntlr \<Rightarrow> MmcCntlr option" where
  "EmmcDeviceAddOps cntlr = do {
     d \<leftarrow> mc_curDev cntlr;
     p \<leftarrow> dev_emmc d;
     Some (cntlr\<lparr>mc_curDev := Some (d\<lparr>dev_emmc := Some (p\<lparr>emmc_opsSet := True\<rparr>)\<rparr>)\<rparr>)
   }"

definition MmcDeviceAddOps :: "MmcCntlr \<Rightarrow> MmcCntlr option" where
  "MmcDeviceAddOps cntlr = do {
     typ \<leftarrow> dev_of dev_type cntlr;
     if typ \<ge> MMC_DEV_INVALID then Some cntlr
     else if typ = MMC_DEV_SDIO \<or> typ = MMC_DEV_COMBO then SdioDeviceAddOps cntlr
     else if typ = MMC_DEV_EMMC then EmmcDeviceAddOps cntlr
     else Some cntlr
   }"

text \<open>The words of a register as the bytes of a little-endian host; the copy fails when it does not fit.\<close>

definition le_bytes :: "uint32_t \<Rightarrow> bytes" where
  "le_bytes w = [ucast w, ucast (drop_bit 8 w), ucast (drop_bit 16 w), ucast (drop_bit 24 w)]"

definition EmmcDeviceDefaultGetCid :: "MmcCntlr \<Rightarrow> bytes \<Rightarrow> uint32_t \<Rightarrow> (int \<times> bytes) option" where
  "EmmcDeviceDefaultGetCid cntlr cid len = do {
     rawCid \<leftarrow> dev_of (\<lambda>d. reg_rawCid (dev_reg d)) cntlr;
     let raw = concat (map le_bytes rawCid);
     if len < of_nat (length raw) then Some (st HDF_FAILURE, replicate (unat len) 0 @ drop (unat len) cid)
     else Some (st HDF_SUCCESS, raw @ drop (length raw) cid)
   }"

definition EmmcDeviceGetCid :: "MmcCntlr \<Rightarrow> bytes \<Rightarrow> uint32_t \<Rightarrow> (int \<times> bytes) option" where
  "EmmcDeviceGetCid cntlr cid len =
     (if len = 0 then Some (st HDF_ERR_INVALID_PARAM, cid)
      else do {
        d \<leftarrow> mc_curDev cntlr;
        p \<leftarrow> dev_emmc d;
        if \<not> emmc_opsSet p then Some (st HDF_ERR_INVALID_OBJECT, cid)
        else EmmcDeviceDefaultGetCid cntlr cid len
      })"

section \<open>The handlers of the messages\<close>

text \<open>The status of the last request is the result, whatever the command says of its outcome.\<close>

fun MmcCntlrExecRequest_loop :: "nat \<Rightarrow> int \<Rightarrow> MmcCmd \<Rightarrow> MmcCntlr \<Rightarrow> int \<times> MmcCmd \<times> MmcCntlr" where
  "MmcCntlrExecRequest_loop 0 ret cmd cntlr = (ret, cmd, cntlr)"
| "MmcCntlrExecRequest_loop (Suc n) _ cmd cntlr =
     (case MmcCntlrDoRequest cntlr cmd of (ret, cmd, cntlr) \<Rightarrow>
        if ret \<noteq> st HDF_SUCCESS then MmcCntlrExecRequest_loop n ret cmd cntlr
        else if cmd_returnError cmd \<noteq> st HDF_SUCCESS then MmcCntlrExecRequest_loop n ret cmd cntlr
        else if data_error cmd \<noteq> st HDF_SUCCESS then MmcCntlrExecRequest_loop n ret cmd cntlr
        else (ret, cmd, cntlr))"

definition MmcCntlrExecRequest :: "MmcCntlr \<Rightarrow> MmcCmd \<Rightarrow> int \<times> MmcCmd \<times> MmcCntlr" where
  "MmcCntlrExecRequest cntlr cmd = MmcCntlrExecRequest_loop MMC_REQUEST_RETRY 0 cmd cntlr"

fun MmcCntlrPlug_loop :: "nat \<Rightarrow> MmcCntlr \<Rightarrow> (int \<times> MmcCntlr) option" where
  "MmcCntlrPlug_loop 0 cntlr = Some (st HDF_FAILURE, cntlr\<lparr>mc_detecting := False\<rparr>)"
| "MmcCntlrPlug_loop (Suc n) cntlr = do {
     (ret, cntlr) \<leftarrow> MmcDoDetect (cntlr\<lparr>mc_detecting := True\<rparr>);
     if ret = st HDF_SUCCESS then do {
       cntlr \<leftarrow> MmcDeviceAddOps cntlr;
       Some (st HDF_SUCCESS, cntlr\<lparr>mc_detecting := False\<rparr>)
     }
     else MmcCntlrPlug_loop n cntlr
   }"

definition systemInit :: "MmcCntlr \<Rightarrow> int \<times> MmcCntlr" where
  "systemInit cntlr =
     (case mc_ops cntlr \<bind> mop_systemInit of None \<Rightarrow> (st HDF_SUCCESS, cntlr)
      | Some f \<Rightarrow> (f (mc_trace cntlr), mc_log EvSystemInit cntlr))"

definition MmcCntlrPlug :: "MmcCntlr \<Rightarrow> (int \<times> MmcCntlr) option" where
  "MmcCntlrPlug cntlr = do {
     let (pluged, cntlr) = MmcCntlrDevPluged cntlr;
     if \<not> pluged then Some (st HDF_SUCCESS, cntlr)
     else do {
       cntlr \<leftarrow> MmcDeleteDev cntlr;
       let (ret, cntlr) = systemInit cntlr;
       if ret \<noteq> st HDF_SUCCESS then Some (st HDF_FAILURE, cntlr)
       else MmcCntlrPlug_loop MMC_DETECET_RETRY cntlr
     }
   }"

definition MmcCntlrUnplug :: "MmcCntlr \<Rightarrow> (int \<times> MmcCntlr) option" where
  "MmcCntlrUnplug cntlr = map_option (\<lambda>cntlr. (st HDF_SUCCESS, cntlr)) (MmcDeleteDev cntlr)"

definition rescan_result :: "MmcCntlr \<Rightarrow> int \<times> MmcCntlr" where
  "rescan_result cntlr = (if mc_curDev cntlr = None then st HDF_ERR_DEVICE_BUSY else st HDF_SUCCESS, cntlr)"

definition MmcCntlrSdioRescanHandle :: "MmcCntlr \<Rightarrow> (int \<times> MmcCntlr) option" where
  "MmcCntlrSdioRescanHandle cntlr =
     (case mc_curDev cntlr of
        Some d \<Rightarrow>
          if dst_present (dev_state d) then
            (if dev_type d = MMC_DEV_SDIO \<or> dev_type d = MMC_DEV_COMBO then do {
               (error, _, cntlr) \<leftarrow> SdioReadCccrIoEnable cntlr;
               if error \<noteq> st HDF_SUCCESS then do {
                 (_, cntlr) \<leftarrow> MmcCntlrPlug cntlr;
                 Some (rescan_result cntlr)
               }
               else Some (st HDF_SUCCESS, cntlr)
             }
             else Some (rescan_result cntlr))
          else do {
            (_, cntlr) \<leftarrow> MmcCntlrPlug cntlr;
            Some (rescan_result cntlr)
          }
      | None \<Rightarrow> do {
          (_, cntlr) \<leftarrow> MmcCntlrPlug cntlr;
          Some (rescan_result cntlr)
        })"

section \<open>The queue\<close>

text \<open>The result has the command of the message as the handler has left it.\<close>

fun MmcMsgHandleDefault :: "MmcCntlr \<Rightarrow> mmc_msg \<Rightarrow> (int \<times> mmc_msg \<times> MmcCntlr) option" where
  "MmcMsgHandleDefault cntlr MsgPlug = map_option (\<lambda>(ret, cntlr). (ret, MsgPlug, cntlr)) (MmcCntlrPlug cntlr)"
| "MmcMsgHandleDefault cntlr MsgUnplug = map_option (\<lambda>(ret, cntlr). (ret, MsgUnplug, cntlr)) (MmcCntlrUnplug cntlr)"
| "MmcMsgHandleDefault cntlr (MsgRequest cmd) =
     (case MmcCntlrExecRequest cntlr cmd of (ret, cmd, cntlr) \<Rightarrow> Some (ret, MsgRequest cmd, cntlr))"
| "MmcMsgHandleDefault cntlr MsgSdioRescan =
     map_option (\<lambda>(ret, cntlr). (ret, MsgSdioRescan, cntlr)) (MmcCntlrSdioRescanHandle cntlr)"

definition PlatformQueueAddMsg :: "MmcCntlr \<Rightarrow> mmc_msg \<Rightarrow> MmcCntlr" where
  "PlatformQueueAddMsg cntlr msg = cntlr\<lparr>mc_msgs := mc_msgs cntlr @ [msg]\<rparr>"

text \<open>One round of the thread: the first message is taken out and handled, its result dropped.\<close>

definition PlatformQueueThreadWorker_step :: "MmcCntlr \<Rightarrow> (mmc_msg option \<times> MmcCntlr) option" where
  "PlatformQueueThreadWorker_step cntlr =
     (case mc_msgs cntlr of [] \<Rightarrow> Some (None, cntlr)
      | msg # msgs \<Rightarrow> do {
          (_, msg, cntlr) \<leftarrow> MmcMsgHandleDefault (cntlr\<lparr>mc_msgs := msgs\<rparr>) msg;
          Some (Some msg, cntlr)
        })"

fun wait_handled :: "nat \<Rightarrow> mmc_msg \<Rightarrow> MmcCntlr \<Rightarrow> (mmc_msg \<times> MmcCntlr) option" where
  "wait_handled 0 msg cntlr = Some (msg, cntlr)"
| "wait_handled (Suc n) msg cntlr = do {
     (handled, cntlr) \<leftarrow> PlatformQueueThreadWorker_step cntlr;
     wait_handled n (case handled of None \<Rightarrow> msg | Some m \<Rightarrow> m) cntlr
   }"

definition MmcCntlrPostMsg :: "MmcCntlr \<Rightarrow> mmc_msg \<Rightarrow> bool \<Rightarrow> (int \<times> mmc_msg \<times> MmcCntlr) option" where
  "MmcCntlrPostMsg cntlr msg block = do {
     let cntlr = PlatformQueueAddMsg cntlr msg;
     if \<not> block then Some (st HDF_SUCCESS, msg, cntlr)
     else do {
       (msg, cntlr) \<leftarrow> wait_handled (length (mc_msgs cntlr)) msg cntlr;
       Some (st HDF_SUCCESS, msg, cntlr)
     }
   }"

definition MmcCntlrAddMsgToQueue :: "MmcCntlr \<Rightarrow> mmc_msg \<Rightarrow> bool \<Rightarrow> (int \<times> mmc_msg \<times> MmcCntlr) option" where
  "MmcCntlrAddMsgToQueue cntlr msg block =
     (let (ok, mem) = osal_alloc (mc_mem cntlr);
          cntlr = cntlr\<lparr>mc_mem := mem\<rparr>
      in if \<not> ok then Some (st HDF_ERR_MALLOC_FAIL, msg, cntlr)
         else MmcCntlrPostMsg cntlr msg block)"

text \<open>Here the method of the host is asked itself, also for a card that cannot be removed.\<close>

definition dev_pluged_method :: "MmcCntlr \<Rightarrow> (bool option \<times> MmcCntlr)" where
  "dev_pluged_method cntlr =
     (case mc_ops cntlr \<bind> mop_devPluged of None \<Rightarrow> (None, cntlr)
      | Some f \<Rightarrow> (Some (f (mc_trace cntlr)), mc_log EvDevPluged cntlr))"

definition MmcCntlrAddRequestMsgToQueue :: "MmcCntlr \<Rightarrow> MmcCmd \<Rightarrow> (int \<times> MmcCmd \<times> MmcCntlr) option" where
  "MmcCntlrAddRequestMsgToQueue cntlr cmd =
     (case dev_pluged_method cntlr of
        (Some True, cntlr) \<Rightarrow> do {
          (ret, msg, cntlr) \<leftarrow> MmcCntlrAddMsgToQueue cntlr (MsgRequest cmd) True;
          Some (ret, case msg of MsgRequest cmd \<Rightarrow> cmd | _ \<Rightarrow> cmd, cntlr)
        }
      | (_, cntlr) \<Rightarrow> Some (HDF_PLT_ERR_NO_DEV, cmd, cntlr))"

definition MmcCntlrAddDetectMsgToQueue :: "MmcCntlr \<Rightarrow> (int \<times> MmcCntlr) option" where
  "MmcCntlrAddDetectMsgToQueue cntlr =
     (case dev_pluged_method cntlr of
        (Some True, cntlr) \<Rightarrow> do {
          (ret, _, cntlr) \<leftarrow> MmcCntlrAddMsgToQueue (cntlr\<lparr>mc_devPluged := True\<rparr>) MsgPlug False;
          Some (ret, cntlr)
        }
      | (_, cntlr) \<Rightarrow> Some (HDF_PLT_ERR_NO_DEV, cntlr))"

definition MmcCntlrAddPlugMsgToQueue :: "MmcCntlr \<Rightarrow> (int \<times> MmcCntlr) option" where
  "MmcCntlrAddPlugMsgToQueue cntlr =
     (case dev_pluged_method cntlr of
        (None, cntlr) \<Rightarrow> Some (HDF_PLT_ERR_NO_DEV, cntlr)
      | (Some curStatus, cntlr) \<Rightarrow>
          if curStatus = mc_devPluged cntlr then Some (st HDF_SUCCESS, cntlr)
          else do {
            (ret, _, cntlr) \<leftarrow> MmcCntlrAddMsgToQueue (cntlr\<lparr>mc_devPluged := curStatus\<rparr>)
              (if curStatus then MsgPlug else MsgUnplug) False;
            Some (ret, cntlr)
          })"

definition MmcCntlrAddSdioRescanMsgToQueue :: "MmcCntlr \<Rightarrow> (int \<times> MmcCntlr) option" where
  "MmcCntlrAddSdioRescanMsgToQueue cntlr =
     (if mc_devType cntlr \<noteq> MMC_DEV_SDIO then Some (st HDF_FAILURE, cntlr)
      else do {
        (ret, _, cntlr) \<leftarrow> MmcCntlrAddMsgToQueue cntlr MsgSdioRescan True;
        Some (ret, cntlr)
      })"

section \<open>Reading, writing and erasing\<close>

definition MmcDeviceFillRwInfo :: "bytes \<Rightarrow> bool \<Rightarrow> size_t \<Rightarrow> size_t \<Rightarrow> MmcRwData" where
  "MmcDeviceFillRwInfo buf writeFlag startSec nSec =
     \<lparr>rwd_buf = buf, rwd_writeFlag = writeFlag, rwd_startSector = startSec, rwd_sectors = nSec\<rparr>"

text \<open>
  One chunk.  While a card is being detected the request goes to the host at once, otherwise through
  the queue; the command of the latter is kept from one chunk to the next.
\<close>

definition rw_chunk :: "bool \<Rightarrow> MmcCmd \<Rightarrow> bytes \<Rightarrow> size_t \<Rightarrow> size_t \<Rightarrow> MmcCntlr \<Rightarrow> (int \<times> bytes \<times> MmcCmd \<times> MmcCntlr) option" where
  "rw_chunk writeFlag cmd buf startSec nSec cntlr = do {
     let info = MmcDeviceFillRwInfo buf writeFlag startSec nSec;
     let result = (\<lambda>c. case data_buffer c of None \<Rightarrow> buf | Some b \<Rightarrow> b);
     if mc_detecting cntlr then do {
       (ret, c, cntlr) \<leftarrow> MmcSendReadWriteBlocks cntlr info;
       Some (ret, result c, cmd, cntlr)
     }
     else do {
       mmc \<leftarrow> mc_curDev cntlr;
       cmd \<leftarrow> MmcSetupReadWriteBlocksCmd cntlr mmc cmd info;
       (ret, cmd, cntlr) \<leftarrow> MmcCntlrAddRequestMsgToQueue cntlr cmd;
       Some (ret, result cmd, cmd, cntlr)
     }
   }"

text \<open>The body is executed at least once, so a request for no sector is sent as one.\<close>

function rw_loop :: "bool \<Rightarrow> MmcCmd \<Rightarrow> bytes \<Rightarrow> nat \<Rightarrow> size_t \<Rightarrow> size_t \<Rightarrow> MmcCntlr \<Rightarrow> (int \<times> bytes \<times> MmcCntlr) option" where
  "rw_loop writeFlag cmd buf pos curStartSec curSec cntlr = do {
     let n = (if curSec \<ge> MMC_MAX_SECTOR_NUM then MMC_MAX_SECTOR_NUM else curSec);
     (ret, b, cmd, cntlr) \<leftarrow> rw_chunk writeFlag cmd (drop pos buf) curStartSec n cntlr;
     let buf = take pos buf @ b;
     if ret \<noteq> st HDF_SUCCESS then Some (ret, buf, cntlr)
     else if curSec - n > 0 then
       rw_loop writeFlag cmd buf (pos + unat n * BYTES_PER_BLOCK) (curStartSec + n) (curSec - n) cntlr
     else Some (st HDF_SUCCESS, buf, cntlr)
   }"
  by pat_completeness auto
termination
  by (relation "measure (\<lambda>(w, c, b, p, s, n, k). unat n)")
     (auto simp: unat_sub word_less_nat_alt word_le_nat_alt split: if_splits)

declare rw_loop.simps [simp del]

definition MmcDeviceRead :: "MmcCntlr \<Rightarrow> bytes \<Rightarrow> size_t \<Rightarrow> size_t \<Rightarrow> (int \<times> bytes \<times> MmcCntlr) option" where
  "MmcDeviceRead cntlr buf startSec nSec = do {
     (ret, buf, cntlr) \<leftarrow> rw_loop False (zero_MmcCmd\<lparr>cmd_data := Some zero_MmcData\<rparr>) buf 0 startSec nSec cntlr;
     Some (if ret \<noteq> st HDF_SUCCESS then ret else sint nSec, buf, cntlr)
   }"

definition MmcDeviceWrite :: "MmcCntlr \<Rightarrow> bytes \<Rightarrow> size_t \<Rightarrow> size_t \<Rightarrow> (int \<times> bytes \<times> MmcCntlr) option" where
  "MmcDeviceWrite cntlr buf startSec nSec = do {
     (ret, buf, cntlr) \<leftarrow> rw_loop True (zero_MmcCmd\<lparr>cmd_data := Some zero_MmcData\<rparr>) buf 0 startSec nSec cntlr;
     Some (if ret \<noteq> st HDF_SUCCESS then ret else sint nSec, buf, cntlr)
   }"

function MmcDeviceErase :: "MmcCntlr \<Rightarrow> size_t \<Rightarrow> size_t \<Rightarrow> (int \<times> MmcCntlr) option" where
  "MmcDeviceErase cntlr curStartSec curSec = do {
     let eraseSec = (if curSec > MMC_MAX_ERASE_SECTOR then MMC_MAX_ERASE_SECTOR else curSec);
     (ret, cntlr) \<leftarrow> MmcSendErase cntlr (ucast curStartSec) (ucast eraseSec);
     if ret \<noteq> st HDF_SUCCESS then Some (ret, cntlr)
     else if curSec - eraseSec > 0 then MmcDeviceErase cntlr (curStartSec + eraseSec) (curSec - eraseSec)
     else Some (st HDF_SUCCESS, cntlr)
   }"
  by pat_completeness auto
termination
  by (relation "measure (\<lambda>(c, s, n). unat n)")
     (auto simp: unat_sub word_less_nat_alt word_le_nat_alt split: if_splits)

declare MmcDeviceErase.simps [simp del]

end
