(* ===== verification/Mmc_Inv.thy ===== *)
theory Mmc_Inv
  imports Mmc_Core
begin

text \<open>
  The storage stack: what a detection leaves behind.  The \<open>shape\<close> of a controller is what no step of an
  initialisation changes: its methods, its queue, and of the attached device the parts that it was
  allocated with and its kind (an SDIO card may turn out to have memory too).  One lemma per operation
  says so; they are collected in \<open>mmc_shape\<close>.  From them follows the invariant of the queue's thread
  and of the controller's clients.
\<close>

named_theorems mmc_shape

section \<open>The shape of a controller\<close>


definition card_class :: "uint32_t \<Rightarrow> uint32_t" where
  "card_class t = (if t = MMC_DEV_COMBO then MMC_DEV_SDIO else t)"

definition dev_shape :: "MmcDevice \<Rightarrow> uint32_t \<times> bool \<times> bool \<times> bool" where
  "dev_shape d = (card_class (dev_type d), dev_emmc d \<noteq> None, dev_sd d \<noteq> None, dev_sdio d \<noteq> None)"

definition shape :: "MmcCntlr \<Rightarrow> _" where
  "shape c = (mc_devType c, mc_ops c, mc_msgs c, mc_detecting c, map_option dev_shape (mc_curDev c))"

lemma shape_simps [simp]:
  "shape (mc_log e c) = shape c" "shape (c\<lparr>mc_mem := m\<rparr>) = shape c" "shape (c\<lparr>mc_vddBit := v\<rparr>) = shape c"
  "shape (c\<lparr>mc_trace := t\<rparr>) = shape c" "shape (log_if b e c) = shape c"
  by (simp_all add: shape_def mc_log_def log_if_def)

lemma shape_upd [simp]:
  "mc_curDev c = Some d \<Longrightarrow> dev_shape d' = dev_shape d \<Longrightarrow> shape (c\<lparr>mc_curDev := Some d'\<rparr>) = shape c"
  by (simp add: shape_def)

lemma dev_shape_simps [simp]:
  "dev_shape (d\<lparr>dev_reg := r\<rparr>) = dev_shape d" "dev_shape (d\<lparr>dev_workPara := w\<rparr>) = dev_shape d"
  "dev_shape (d\<lparr>dev_state := s\<rparr>) = dev_shape d" "dev_shape (d\<lparr>dev_secSize := n\<rparr>) = dev_shape d"
  "dev_shape (d\<lparr>dev_capacity := n\<rparr>) = dev_shape d" "dev_shape (d\<lparr>dev_eraseSize := n\<rparr>) = dev_shape d"
  "dev_shape (d\<lparr>dev_mb := b\<rparr>) = dev_shape d"
  by (simp_all add: dev_shape_def)

lemma dev_shape_part [simp]:
  "dev_emmc d = Some p \<Longrightarrow> dev_shape (d\<lparr>dev_emmc := Some q\<rparr>) = dev_shape d"
  "dev_sd d = Some p' \<Longrightarrow> dev_shape (d\<lparr>dev_sd := Some q'\<rparr>) = dev_shape d"
  "dev_sdio d = Some p'' \<Longrightarrow> dev_shape (d\<lparr>dev_sdio := Some q''\<rparr>) = dev_shape d"
  by (simp_all add: dev_shape_def)

lemma upd_iff:
  "upd_dev f c = Some c' \<longleftrightarrow> (\<exists>d. mc_curDev c = Some d \<and> c' = c\<lparr>mc_curDev := Some (f d)\<rparr>)"
  "upd_sd f1 c = Some c' \<longleftrightarrow> (\<exists>d p. mc_curDev c = Some d \<and> dev_sd d = Some p \<and> c' = c\<lparr>mc_curDev := Some (d\<lparr>dev_sd := Some (f1 p)\<rparr>)\<rparr>)"
  "upd_sdio f2 c = Some c' \<longleftrightarrow> (\<exists>d p. mc_curDev c = Some d \<and> dev_sdio d = Some p \<and> c' = c\<lparr>mc_curDev := Some (d\<lparr>dev_sdio := Some (f2 p)\<rparr>)\<rparr>)"
  "upd_ecsd f3 c = Some c' \<longleftrightarrow> (\<exists>d p. mc_curDev c = Some d \<and> dev_emmc d = Some p \<and>
     c' = c\<lparr>mc_curDev := Some (d\<lparr>dev_emmc := Some (p\<lparr>emmc_extCsd := f3 (emmc_extCsd p)\<rparr>)\<rparr>)\<rparr>)"
  by (auto simp: upd_dev_def upd_sd_def upd_sdio_def upd_ecsd_def Option.bind_eq_Some_conv)

lemma on_successE:
  "on_success m k = Some (e, c') \<Longrightarrow> (m = Some (e, c') \<Longrightarrow> e \<noteq> 0 \<Longrightarrow> P) \<Longrightarrow> (\<And>c1. m = Some (0, c1) \<Longrightarrow> k c1 = Some (e, c') \<Longrightarrow> P) \<Longrightarrow> P"
  by (auto simp: on_success_def Option.bind_eq_Some_conv split: if_splits)

lemma if_eqE: "(if b then x else y) = z \<Longrightarrow> (b \<Longrightarrow> x = z \<Longrightarrow> P) \<Longrightarrow> (\<not> b \<Longrightarrow> y = z \<Longrightarrow> P) \<Longrightarrow> P"
  by (simp split: if_splits)

lemma prod_eqE: "(case p of (a, b) \<Rightarrow> f a b) = z \<Longrightarrow> (\<And>a b. p = (a, b) \<Longrightarrow> f a b = z \<Longrightarrow> P) \<Longrightarrow> P"
  by (cases p) simp

lemma option_eqE:
  "(case m of None \<Rightarrow> x | Some a \<Rightarrow> f a) = z \<Longrightarrow> (m = None \<Longrightarrow> x = z \<Longrightarrow> P) \<Longrightarrow> (\<And>a. m = Some a \<Longrightarrow> f a = z \<Longrightarrow> P) \<Longrightarrow> P"
  by (cases m) simp_all

lemma sum_eqE:
  "(case m of Inl a \<Rightarrow> f a | Inr b \<Rightarrow> g b) = z \<Longrightarrow> (\<And>a. m = Inl a \<Longrightarrow> f a = z \<Longrightarrow> P) \<Longrightarrow> (\<And>b. m = Inr b \<Longrightarrow> g b = z \<Longrightarrow> P) \<Longrightarrow> P"
  by (cases m) simp_all

lemmas run_E = sum_eqE on_successE if_eqE prod_eqE option_eqE

lemmas run_iff = Option.bind_eq_Some_conv upd_iff Let_def

section \<open>Operations that keep the shape\<close>

lemma shape_DoRequest [mmc_shape]: "MmcCntlrDoRequest c cmd = (e, cmd', c') \<Longrightarrow> shape c' = shape c"
  by (auto simp: MmcCntlrDoRequest_def split: option.splits prod.splits)

lemma shape_SetClock [mmc_shape]: "MmcCntlrSetClock c x = Some c' \<Longrightarrow> shape c' = shape c"
  by (auto simp: MmcCntlrSetClock_def run_iff split: if_splits)
lemma shape_SetBusWidth [mmc_shape]: "MmcCntlrSetBusWidth c x = Some c' \<Longrightarrow> shape c' = shape c"
  by (auto simp: MmcCntlrSetBusWidth_def run_iff split: if_splits)
lemma shape_SetBusTiming [mmc_shape]: "MmcCntlrSetBusTiming c x = Some c' \<Longrightarrow> shape c' = shape c"
  by (auto simp: MmcCntlrSetBusTiming_def run_iff split: if_splits)
lemma shape_SetEnhanceSrobe [simp]: "shape (MmcCntlrSetEnhanceSrobe c b) = shape c"
  by (auto simp: MmcCntlrSetEnhanceSrobe_def)
lemma shape_SwitchVoltage [mmc_shape]: "MmcCntlrSwitchVoltage c b = (e, c') \<Longrightarrow> shape c' = shape c"
  by (auto simp: MmcCntlrSwitchVoltage_def split: option.splits)
lemma shape_SwitchVoltage2 [simp]: "shape (snd (MmcCntlrSwitchVoltage c b)) = shape c"
  by (auto simp: MmcCntlrSwitchVoltage_def split: option.splits)
lemma shape_SwitchVoltage_if [simp]: "shape (if b then snd (MmcCntlrSwitchVoltage c v) else c) = shape c"
  by simp
lemma shape_DevReadOnly [mmc_shape]: "MmcCntlrDevReadOnly c = (e, c') \<Longrightarrow> shape c' = shape c"
  by (auto simp: MmcCntlrDevReadOnly_def split: option.splits)
lemma shape_DevPluged [mmc_shape]: "MmcCntlrDevPluged c = (e, c') \<Longrightarrow> shape c' = shape c"
  by (auto simp: MmcCntlrDevPluged_def split: option.splits if_splits)
lemma shape_DevBusy [mmc_shape]: "MmcCntlrDevBusy c = (e, c') \<Longrightarrow> shape c' = shape c"
  by (auto simp: MmcCntlrDevBusy_def split: option.splits)
lemma shape_Tune [mmc_shape]: "MmcCntlrTune c b = (e, c') \<Longrightarrow> shape c' = shape c"
  by (auto simp: MmcCntlrTune_def split: option.splits)
lemma shape_SelectWorkVoltage [mmc_shape]: "MmcCntlrSelectWorkVoltage c b = Some (e, c') \<Longrightarrow> shape c' = shape c"
  by (auto simp: MmcCntlrSelectWorkVoltage_def run_iff split: if_splits)
lemma shape_PowerUp [simp]: "shape (MmcCntlrPowerUp c) = shape c"
  by (simp add: MmcCntlrPowerUp_def Let_def split: option.splits)
lemma shape_PowerOff [simp]: "shape (MmcCntlrPowerOff c) = shape c"
  by (simp add: MmcCntlrPowerOff_def Let_def split: option.splits)
lemma shape_BlockInit [mmc_shape]: "MmcBlockInit c = Some (e, c') \<Longrightarrow> shape c' = shape c"
  by (auto simp: MmcBlockInit_def run_iff elim!: run_E)
lemma shape_DeviceAdd [mmc_shape]: "MmcDeviceAdd c = Some (e, c') \<Longrightarrow> shape c' = shape c"
  by (auto simp: MmcDeviceAdd_def run_iff elim!: run_E dest!: mmc_shape)

lemma shape_send_loop [mmc_shape]: "send_loop n cmd c = (cmd', c') \<Longrightarrow> shape c' = shape c"
  by (induction n cmd c rule: send_loop.induct) (auto split: prod.splits if_splits dest!: mmc_shape)
lemma shape_SendCmd [mmc_shape]: "MmcSendCmd c cmd d n = (e, cmd', c') \<Longrightarrow> shape c' = shape c"
  by (auto simp: MmcSendCmd_def Let_def split: prod.splits if_splits dest!: mmc_shape)
lemma shape_GoIdle [simp]: "shape (MmcGoIdleState c) = shape c"
  by (cases "MmcSendCmd c (mk_cmd GO_IDLE_STATE 0 (MMC_RESP_SPI_R1 OR MMC_RESP_NONE OR MMC_CMD_TYPE_BC)) None 1")
     (auto simp: MmcGoIdleState_def Let_def dest!: mmc_shape)
lemma shape_op_cond_loop:
  "op_cond_loop send arg n err cmd c = Some (e, cmd', c') \<Longrightarrow>
   (\<And>c cmd e cmd' c'. send c cmd = Some (e, cmd', c') \<Longrightarrow> shape c' = shape c) \<Longrightarrow> shape c' = shape c"
  by (induction send arg n err cmd c rule: op_cond_loop.induct) (fastforce simp: run_iff split: if_splits)+
lemma shape_SendOpCond [mmc_shape]: "MmcSendOpCond c a = Some (e, o', c') \<Longrightarrow> shape c' = shape c"
  by (auto simp: MmcSendOpCond_def run_iff split: if_splits elim!: shape_op_cond_loop dest: shape_SendCmd)
lemma shape_AllSendCid [mmc_shape]: "MmcAllSendCid c = Some (e, c') \<Longrightarrow> shape c' = shape c"
  by (auto simp: MmcAllSendCid_def run_iff split: if_splits option.splits prod.splits dest!: mmc_shape)
lemma shape_SetRelativeAddr [mmc_shape]: "MmcSetRelativeAddr c = (e, c') \<Longrightarrow> shape c' = shape c"
  by (auto simp: MmcSetRelativeAddr_def run_iff split: if_splits option.splits prod.splits dest!: mmc_shape)
lemma shape_SelectCard [mmc_shape]: "MmcSelectCard c = (e, c') \<Longrightarrow> shape c' = shape c"
  by (auto simp: MmcSelectCard_def run_iff split: if_splits option.splits prod.splits dest!: mmc_shape)
lemma shape_SendCsd [mmc_shape]: "MmcSendCsd c = Some (e, c') \<Longrightarrow> shape c' = shape c"
  by (auto simp: MmcSendCsd_def run_iff split: if_splits option.splits prod.splits dest!: mmc_shape)
lemma shape_SendStatus [mmc_shape]: "MmcSendStatus c = Some (e, s, c') \<Longrightarrow> shape c' = shape c"
  by (auto simp: MmcSendStatus_def run_iff split: if_splits option.splits prod.splits dest!: mmc_shape)
lemma shape_AppCmd [mmc_shape]: "MmcAppCmd c a = Some (e, c') \<Longrightarrow> shape c' = shape c"
  by (auto simp: MmcAppCmd_def run_iff split: if_splits option.splits prod.splits dest!: mmc_shape)
lemma shape_SendExtCsd [mmc_shape]: "MmcSendExtCsd c a = Some (e, x, c') \<Longrightarrow> shape c' = shape c"
  by (auto simp: MmcSendExtCsd_def run_iff split: if_splits option.splits prod.splits dest!: mmc_shape)
lemma shape_SendTuning [mmc_shape]: "MmcSendTuning c a b = (e, c') \<Longrightarrow> shape c' = shape c"
  by (auto simp: MmcSendTuning_def run_iff split: if_splits option.splits prod.splits dest!: mmc_shape)
lemma shape_switch_wait_aux: "switch_wait_loop c = Some r \<Longrightarrow> shape (snd (snd r)) = shape c"
  by (erule switch_wait_loop.raw_induct [rotated])
     (fastforce simp: run_iff elim!: run_E dest!: mmc_shape)
lemma shape_switch_wait_loop [mmc_shape]: "switch_wait_loop c = Some (e, s, c') \<Longrightarrow> shape c' = shape c"
  using shape_switch_wait_aux by fastforce
lemma shape_Switch [mmc_shape]: "MmcSwitch c a b v = Some (e, c') \<Longrightarrow> shape c' = shape c"
  by (auto simp: MmcSwitch_def run_iff split: if_splits option.splits prod.splits dest!: mmc_shape)









lemma shape_EmmcDecodeCsd [mmc_shape]: "EmmcDecodeCsd c = Some (e0, c') \<Longrightarrow> shape c' = shape c"
  by (auto simp: EmmcDecodeCsd_def run_iff elim!: run_E dest!: mmc_shape)

lemma shape_EmmcDecodeCid [mmc_shape]: "EmmcDecodeCid c = Some (e0, c') \<Longrightarrow> shape c' = shape c"
  by (auto simp: EmmcDecodeCid_def run_iff elim!: run_E dest!: mmc_shape)

lemma shape_EmmcDecodeExtCsd [mmc_shape]: "EmmcDecodeExtCsd c x1 = Some (e0, c') \<Longrightarrow> shape c' = shape c"
  by (auto simp: EmmcDecodeExtCsd_def run_iff elim!: run_E dest!: mmc_shape)

lemma shape_EmmcSetBlockCapacity [mmc_shape]: "EmmcSetBlockCapacity c = Some c' \<Longrightarrow> shape c' = shape c"
  by (auto simp: EmmcSetBlockCapacity_def run_iff elim!: run_E dest!: mmc_shape)

lemma shape_EmmcCheckExtCsd [mmc_shape]: "EmmcCheckExtCsd c x1 = Some (e0, c') \<Longrightarrow> shape c' = shape c"
  by (auto simp: EmmcCheckExtCsd_def run_iff elim!: run_E dest!: mmc_shape)

lemma shape_EmmcSwitchVoltage [mmc_shape]: "EmmcSwitchVoltage c = Some (e0, c') \<Longrightarrow> shape c' = shape c"
  by (auto simp: EmmcSwitchVoltage_def run_iff elim!: run_E dest!: mmc_shape)

lemma shape_try_width [mmc_shape]: "try_width x1 x2 x3 c = Some (e0, e1, c') \<Longrightarrow> shape c' = shape c"
  by (auto simp: try_width_def run_iff elim!: run_E dest!: mmc_shape)

lemma shape_EmmcSelectHighSpeedBusWidth [mmc_shape]: "EmmcSelectHighSpeedBusWidth c = Some (e0, c') \<Longrightarrow> shape c' = shape c"
  by (auto simp: EmmcSelectHighSpeedBusWidth_def run_iff elim!: run_E dest!: mmc_shape)

lemma shape_EmmcCheckSwitchStatus [mmc_shape]: "EmmcCheckSwitchStatus c = Some (e0, c') \<Longrightarrow> shape c' = shape c"
  by (auto simp: EmmcCheckSwitchStatus_def run_iff elim!: run_E dest!: mmc_shape)

lemma shape_EmmcSwitchHighSpeed [mmc_shape]: "EmmcSwitchHighSpeed c = Some (e0, c') \<Longrightarrow> shape c' = shape c"
  by (auto simp: EmmcSwitchHighSpeed_def run_iff elim!: run_E dest!: mmc_shape)

lemma shape_EmmcSelectHs400 [mmc_shape]: "EmmcSelectHs400 c = Some (e0, c') \<Longrightarrow> shape c' = shape c"
  by (auto simp: EmmcSelectHs400_def run_iff elim!: run_E dest!: mmc_shape)

lemma shape_EmmcSelectHs400es [mmc_shape]: "EmmcSelectHs400es c = Some (e0, c') \<Longrightarrow> shape c' = shape c"
  by (auto simp: EmmcSelectHs400es_def run_iff elim!: run_E dest!: mmc_shape)

lemma shape_EmmcSelectHs200 [mmc_shape]: "EmmcSelectHs200 c = Some (e0, c') \<Longrightarrow> shape c' = shape c"
  by (auto simp: EmmcSelectHs200_def run_iff elim!: run_E dest!: mmc_shape)

lemma shape_EmmcSelectPowerClass [mmc_shape]: "EmmcSelectPowerClass c = Some (e0, c') \<Longrightarrow> shape c' = shape c"
  by (auto simp: EmmcSelectPowerClass_def run_iff elim!: run_E dest!: mmc_shape)

lemma shape_EmmcSelectActivateHighSpeed [mmc_shape]: "EmmcSelectActivateHighSpeed c = Some (e0, c') \<Longrightarrow> shape c' = shape c"
  by (auto simp: EmmcSelectActivateHighSpeed_def run_iff elim!: run_E dest!: mmc_shape)

lemma shape_EmmcSelectBusSpeedMode_clock [mmc_shape]: "EmmcSelectBusSpeedMode_clock c = Some (e0, c') \<Longrightarrow> shape c' = shape c"
  by (auto simp: EmmcSelectBusSpeedMode_clock_def run_iff elim!: run_E dest!: mmc_shape)

lemma shape_EmmcSelectBusSpeedMode_power [mmc_shape]: "EmmcSelectBusSpeedMode_power c = Some (e0, c') \<Longrightarrow> shape c' = shape c"
  by (auto simp: EmmcSelectBusSpeedMode_power_def run_iff elim!: run_E dest!: mmc_shape)

lemma shape_EmmcSelectBusSpeedMode [mmc_shape]: "EmmcSelectBusSpeedMode c = Some (e0, c') \<Longrightarrow> shape c' = shape c"
  by (auto simp: EmmcSelectBusSpeedMode_def run_iff elim!: run_E dest!: mmc_shape)

lemma shape_EmmcSwitchDdrMode [mmc_shape]: "EmmcSwitchDdrMode c x1 x2 x3 = Some (e0, c') \<Longrightarrow> shape c' = shape c"
  by (auto simp: EmmcSwitchDdrMode_def run_iff elim!: run_E dest!: mmc_shape)

lemma shape_ddr_width_loop [mmc_shape]: "ddr_width_loop x1 x2 x3 x4 x5 c = Some (e0, e1, e2, e3, c') \<Longrightarrow> shape c' = shape c"
proof (induction x1 arbitrary: x2 x3 x4 x5 c e0 e1 e2 e3 c')
  case (Cons a x1)
  note [mmc_shape] = Cons.IH
  from Cons.prems show ?case
    by (cases a) (auto simp: run_iff elim!: run_E dest!: mmc_shape)
qed simp

lemma shape_EmmcSelectSwitchDdrMode [mmc_shape]: "EmmcSelectSwitchDdrMode c = Some (e0, c') \<Longrightarrow> shape c' = shape c"
  by (auto simp: EmmcSelectSwitchDdrMode_def run_iff elim!: run_E dest!: mmc_shape)

lemma shape_EmmcActivateHpiMechanism [mmc_shape]: "EmmcActivateHpiMechanism c = Some (e0, c') \<Longrightarrow> shape c' = shape c"
  by (auto simp: EmmcActivateHpiMechanism_def run_iff elim!: run_E dest!: mmc_shape)

lemma shape_EmmcSwitchOperationMode_erase [mmc_shape]: "EmmcSwitchOperationMode_erase c = Some (e0, c') \<Longrightarrow> shape c' = shape c"
  by (auto simp: EmmcSwitchOperationMode_erase_def run_iff elim!: run_E dest!: mmc_shape)

lemma shape_EmmcSwitchOperationMode_partition [mmc_shape]: "EmmcSwitchOperationMode_partition c = Some (e0, c') \<Longrightarrow> shape c' = shape c"
  by (auto simp: EmmcSwitchOperationMode_partition_def run_iff elim!: run_E dest!: mmc_shape)

lemma shape_EmmcSwitchOperationMode [mmc_shape]: "EmmcSwitchOperationMode c = Some (e0, c') \<Longrightarrow> shape c' = shape c"
  by (auto simp: EmmcSwitchOperationMode_def run_iff elim!: run_E dest!: mmc_shape)

lemma shape_EmmcReadExtCsd [mmc_shape]: "EmmcReadExtCsd c = Some (e0, c') \<Longrightarrow> shape c' = shape c"
  by (auto simp: EmmcReadExtCsd_def run_iff elim!: run_E dest!: mmc_shape)

lemma shape_EmmcSelect [mmc_shape]: "EmmcSelect c x1 = Some (e0, c') \<Longrightarrow> shape c' = shape c"
  by (auto simp: EmmcSelect_def run_iff elim!: run_E dest!: mmc_shape)

lemma shape_EmmcDeviceAdd [mmc_shape]: "EmmcDeviceAdd c = Some (e0, c') \<Longrightarrow> shape c' = shape c"
  by (auto simp: EmmcDeviceAdd_def run_iff elim!: run_E dest!: mmc_shape)

lemma shape_EmmcInit [mmc_shape]: "EmmcInit c = Some (e0, c') \<Longrightarrow> shape c' = shape c"
  by (auto simp: EmmcInit_def run_iff elim!: run_E dest!: mmc_shape)

lemma shape_EmmcDetect [mmc_shape]: "EmmcDetect c = Some (e0, c') \<Longrightarrow> shape c' = shape c"
  by (auto simp: EmmcDetect_def run_iff elim!: run_E dest!: mmc_shape)

lemma shape_app_cmd_loop [mmc_shape]: "app_cmd_loop x1 x2 x3 x4 c = Some (e0, e1, c') \<Longrightarrow> shape c' = shape c"
proof (induction x2 arbitrary: x3 x4 c e0 e1 c')
  case (Suc n)
  note [mmc_shape] = Suc.IH
  from Suc.prems show ?case
    by (auto simp: run_iff elim!: run_E dest!: mmc_shape)
qed (simp_all add: run_iff)

lemma shape_SdSendAppCmd [mmc_shape]: "SdSendAppCmd c x1 x2 x3 = Some (e0, e1, c') \<Longrightarrow> shape c' = shape c"
  by (auto simp: SdSendAppCmd_def run_iff elim!: run_E dest!: mmc_shape)

lemma shape_SdAcmdOpCond [mmc_shape]: "SdAcmdOpCond c x1 = Some (e0, e1, c') \<Longrightarrow> shape c' = shape c"
  by (auto simp: SdAcmdOpCond_def run_iff elim!: run_E shape_op_cond_loop dest!: mmc_shape)

lemma shape_read_app_register [mmc_shape]: "read_app_register c x1 x2 x3 = Some (e0, e1, c') \<Longrightarrow> shape c' = shape c"
  by (auto simp: read_app_register_def run_iff elim!: run_E dest!: mmc_shape)

lemma shape_SdAcmdSdStatus [mmc_shape]: "SdAcmdSdStatus c = Some (e0, e1, c') \<Longrightarrow> shape c' = shape c"
  by (auto simp: SdAcmdSdStatus_def run_iff elim!: run_E dest!: mmc_shape)

lemma shape_SdAppSendScr [mmc_shape]: "SdAppSendScr c = Some (e0, e1, c') \<Longrightarrow> shape c' = shape c"
  by (auto simp: SdAppSendScr_def run_iff elim!: run_E dest!: mmc_shape)

lemma shape_SdAcmdSetBusWidth [mmc_shape]: "SdAcmdSetBusWidth c x1 = Some (e0, c') \<Longrightarrow> shape c' = shape c"
  by (auto simp: SdAcmdSetBusWidth_def run_iff elim!: run_E dest!: mmc_shape)

lemma shape_SdCmdSendIfCond [mmc_shape]: "SdCmdSendIfCond c x1 = Some (e0, c') \<Longrightarrow> shape c' = shape c"
  by (auto simp: SdCmdSendIfCond_def run_iff elim!: run_E dest!: mmc_shape)

lemma shape_SdCmdSendRelativeAddr [mmc_shape]: "SdCmdSendRelativeAddr c = Some (e0, c') \<Longrightarrow> shape c' = shape c"
  by (auto simp: SdCmdSendRelativeAddr_def run_iff elim!: run_E dest!: mmc_shape)

lemma shape_SdCmdSwitchVoltage [mmc_shape]: "SdCmdSwitchVoltage c = Some (e0, c') \<Longrightarrow> shape c' = shape c"
  by (auto simp: SdCmdSwitchVoltage_def run_iff elim!: run_E dest!: mmc_shape)

lemma shape_SdCmdSwitchFunc [mmc_shape]: "SdCmdSwitchFunc c x1 x2 = (e0, e1, c') \<Longrightarrow> shape c' = shape c"
  by (auto simp: SdCmdSwitchFunc_def run_iff elim!: run_E dest!: mmc_shape)

lemma shape_SdDecodeScr [mmc_shape]: "SdDecodeScr c = Some (e0, c') \<Longrightarrow> shape c' = shape c"
  by (auto simp: SdDecodeScr_def run_iff elim!: run_E dest!: mmc_shape)

lemma shape_SdDecodeSSr [mmc_shape]: "SdDecodeSSr c x1 = Some (e0, c') \<Longrightarrow> shape c' = shape c"
  by (auto simp: SdDecodeSSr_def run_iff elim!: run_E dest!: mmc_shape)

lemma shape_SdDecodeCid [mmc_shape]: "SdDecodeCid c = Some c' \<Longrightarrow> shape c' = shape c"
  by (auto simp: SdDecodeCid_def run_iff elim!: run_E dest!: mmc_shape)

lemma shape_SdSetBlockCapacity [mmc_shape]: "SdSetBlockCapacity c = Some c' \<Longrightarrow> shape c' = shape c"
  by (auto simp: SdSetBlockCapacity_def run_iff elim!: run_E dest!: mmc_shape)

lemma shape_SdDecodeCsd [mmc_shape]: "SdDecodeCsd c = Some (e0, c') \<Longrightarrow> shape c' = shape c"
  by (auto simp: SdDecodeCsd_def run_iff elim!: run_E dest!: mmc_shape)

lemma shape_SdSelect_aux: "SdSelect_loop b x c = Some r \<Longrightarrow> shape (snd (snd r)) = shape c"
proof (erule SdSelect_loop.raw_induct [rotated], goal_cases)
  case (1 f b x c r)
  from 1(2) show ?case
    by (auto simp: run_iff elim!: run_E dest!: mmc_shape 1(1))
qed

lemma shape_SdSelect_loop [mmc_shape]: "SdSelect_loop b x c = Some (e0, e1, c') \<Longrightarrow> shape c' = shape c"
  using shape_SdSelect_aux by fastforce

lemma shape_SdSelect [mmc_shape]: "SdSelect c = Some (e0, e1, c') \<Longrightarrow> shape c' = shape c"
  by (auto simp: SdSelect_def run_iff elim!: run_E dest!: mmc_shape)

lemma shape_SdReadCsd [mmc_shape]: "SdReadCsd c = Some (e0, c') \<Longrightarrow> shape c' = shape c"
  by (auto simp: SdReadCsd_def run_iff elim!: run_E dest!: mmc_shape)

lemma shape_SdReadScr [mmc_shape]: "SdReadScr c = Some (e0, c') \<Longrightarrow> shape c' = shape c"
  by (auto simp: SdReadScr_def run_iff elim!: run_E dest!: mmc_shape)

lemma shape_SdReadSsr [mmc_shape]: "SdReadSsr c = Some (e0, c') \<Longrightarrow> shape c' = shape c"
  by (auto simp: SdReadSsr_def run_iff elim!: run_E dest!: mmc_shape)

lemma shape_SdReadSwitchCapbility_spec3 [mmc_shape]: "SdReadSwitchCapbility_spec3 c x1 = Some (e0, c') \<Longrightarrow> shape c' = shape c"
  by (auto simp: SdReadSwitchCapbility_spec3_def run_iff elim!: run_E dest!: mmc_shape)

lemma shape_SdReadSwitchCapbility [mmc_shape]: "SdReadSwitchCapbility c = Some (e0, c') \<Longrightarrow> shape c' = shape c"
  by (auto simp: SdReadSwitchCapbility_def run_iff elim!: run_E dest!: mmc_shape)

lemma shape_SdFillBusSpeedMode [mmc_shape]: "SdFillBusSpeedMode c = Some c' \<Longrightarrow> shape c' = shape c"
  by (auto simp: SdFillBusSpeedMode_def run_iff elim!: run_E dest!: mmc_shape)

lemma shape_SdReadRegisters [mmc_shape]: "SdReadRegisters c = Some (e0, c') \<Longrightarrow> shape c' = shape c"
  by (auto simp: SdReadRegisters_def run_iff elim!: run_E dest!: mmc_shape)

lemma shape_SdExecuteTuning [mmc_shape]: "SdExecuteTuning c = Some (e0, c') \<Longrightarrow> shape c' = shape c"
  by (auto simp: SdExecuteTuning_def run_iff elim!: run_E dest!: mmc_shape)

lemma shape_SdSetMaxCurrentLimit [mmc_shape]: "SdSetMaxCurrentLimit c = Some (e0, c') \<Longrightarrow> shape c' = shape c"
  by (auto simp: SdSetMaxCurrentLimit_def run_iff elim!: run_E dest!: mmc_shape)

lemma shape_SdSetBusSpeedMode [mmc_shape]: "SdSetBusSpeedMode c = Some (e0, c') \<Longrightarrow> shape c' = shape c"
  by (auto simp: SdSetBusSpeedMode_def run_iff elim!: run_E dest!: mmc_shape)

lemma shape_SdSwitch4BitBusWidth [mmc_shape]: "SdSwitch4BitBusWidth c = Some (e0, c') \<Longrightarrow> shape c' = shape c"
  by (auto simp: SdSwitch4BitBusWidth_def run_iff elim!: run_E dest!: mmc_shape)

lemma shape_SdUltraHighSpeedDevInit [mmc_shape]: "SdUltraHighSpeedDevInit c = Some (e0, c') \<Longrightarrow> shape c' = shape c"
  by (auto simp: SdUltraHighSpeedDevInit_def run_iff elim!: run_E dest!: mmc_shape)

lemma shape_SdSwitchHighSpeed [mmc_shape]: "SdSwitchHighSpeed c = Some (e0, c') \<Longrightarrow> shape c' = shape c"
  by (auto simp: SdSwitchHighSpeed_def run_iff elim!: run_E dest!: mmc_shape)

lemma shape_SdHighSpeedDevInit [mmc_shape]: "SdHighSpeedDevInit c = Some (e0, c') \<Longrightarrow> shape c' = shape c"
  by (auto simp: SdHighSpeedDevInit_def run_iff elim!: run_E dest!: mmc_shape)

lemma shape_SdDeviceAdd [mmc_shape]: "SdDeviceAdd c = Some (e0, c') \<Longrightarrow> shape c' = shape c"
  by (auto simp: SdDeviceAdd_def run_iff elim!: run_E dest!: mmc_shape)

lemma shape_SdInit [mmc_shape]: "SdInit c = Some (e0, c') \<Longrightarrow> shape c' = shape c"
  by (auto simp: SdInit_def run_iff elim!: run_E dest!: mmc_shape)

lemma shape_SdDetect [mmc_shape]: "SdDetect c = Some (e0, c') \<Longrightarrow> shape c' = shape c"
  by (auto simp: SdDetect_def run_iff elim!: run_E dest!: mmc_shape)

lemma shape_SdioSendOpCond [mmc_shape]: "SdioSendOpCond c x1 = Some (e0, e1, c') \<Longrightarrow> shape c' = shape c"
  by (auto simp: SdioSendOpCond_def run_iff elim!: run_E shape_op_cond_loop dest!: mmc_shape)

lemma shape_SdioRwDirect [mmc_shape]: "SdioRwDirect c x1 = Some (e0, e1, c') \<Longrightarrow> shape c' = shape c"
  by (auto simp: SdioRwDirect_def run_iff elim!: run_E dest!: mmc_shape)


lemma shape_write_register [mmc_shape]: "write_register c x1 x2 = Some (e0, c') \<Longrightarrow> shape c' = shape c"
  by (auto simp: write_register_def run_iff elim!: run_E dest!: mmc_shape)

lemma shape_with_register:
  "with_register c a k = Some (e, c') \<Longrightarrow> (\<And>v c1 e c'. k v c1 = Some (e, c') \<Longrightarrow> shape c' = shape c1) \<Longrightarrow> shape c' = shape c"
  by (fastforce simp: with_register_def run_iff elim!: run_E dest!: mmc_shape)

lemma shape_modify_register [mmc_shape]: "modify_register c x1 x2 = Some (e0, c') \<Longrightarrow> shape c' = shape c"
  by (auto simp: modify_register_def run_iff elim!: run_E shape_with_register dest!: mmc_shape)

lemma shape_SdioIoReset [mmc_shape]: "SdioIoReset c = Some c' \<Longrightarrow> shape c' = shape c"
  by (auto simp: SdioIoReset_def run_iff elim!: run_E dest!: mmc_shape)







lemma shape_SdioCdDisable [mmc_shape]: "SdioCdDisable c = Some (e0, c') \<Longrightarrow> shape c' = shape c"
  by (auto simp: SdioCdDisable_def run_iff elim!: run_E dest!: mmc_shape)

lemma shape_SdioReadCccrSdioRev [mmc_shape]: "SdioReadCccrSdioRev c = Some (e0, e1, c') \<Longrightarrow> shape c' = shape c"
  by (auto simp: SdioReadCccrSdioRev_def run_iff elim!: run_E dest!: mmc_shape)

lemma shape_SdioReadCccrCapbility [mmc_shape]: "SdioReadCccrCapbility c = Some (e0, c') \<Longrightarrow> shape c' = shape c"
  by (auto simp: SdioReadCccrCapbility_def run_iff elim!: run_E shape_with_register dest!: mmc_shape)

lemma shape_SdioReadCccrPowerControl [mmc_shape]: "SdioReadCccrPowerControl c = Some (e0, c') \<Longrightarrow> shape c' = shape c"
  by (auto simp: SdioReadCccrPowerControl_def run_iff elim!: run_E shape_with_register dest!: mmc_shape)

lemma shape_SdioReadCccrBusSpeed [mmc_shape]: "SdioReadCccrBusSpeed c = Some (e0, c') \<Longrightarrow> shape c' = shape c"
  by (auto simp: SdioReadCccrBusSpeed_def run_iff elim!: run_E shape_with_register dest!: mmc_shape)

lemma shape_SdioReadCccrIoEnable [mmc_shape]: "SdioReadCccrIoEnable c = Some (e0, e1, c') \<Longrightarrow> shape c' = shape c"
  by (auto simp: SdioReadCccrIoEnable_def run_iff elim!: run_E dest!: mmc_shape)







lemma shape_SdioReadCccr [mmc_shape]: "SdioReadCccr c = Some (e0, c') \<Longrightarrow> shape c' = shape c"
  by (auto simp: SdioReadCccr_def run_iff elim!: run_E dest!: mmc_shape)

lemma shape_SdioBusSpeedSelect [mmc_shape]: "SdioBusSpeedSelect c x1 = Some (e0, c') \<Longrightarrow> shape c' = shape c"
  by (auto simp: SdioBusSpeedSelect_def run_iff elim!: run_E dest!: mmc_shape)

lemma shape_SdioSwitchHighSpeed [mmc_shape]: "SdioSwitchHighSpeed c = Some (e0, c') \<Longrightarrow> shape c' = shape c"
  by (auto simp: SdioSwitchHighSpeed_def run_iff elim!: run_E dest!: mmc_shape)

lemma shape_SdioEnableHighSpeed [mmc_shape]: "SdioEnableHighSpeed c = Some (e0, c') \<Longrightarrow> shape c' = shape c"
  by (auto simp: SdioEnableHighSpeed_def run_iff elim!: run_E dest!: mmc_shape)

lemma shape_SdioSetBusWidth [mmc_shape]: "SdioSetBusWidth c x1 = Some (e0, c') \<Longrightarrow> shape c' = shape c"
  by (auto simp: SdioSetBusWidth_def run_iff elim!: run_E dest!: mmc_shape)

lemma shape_SdioSwitch4BitBusWidth [mmc_shape]: "SdioSwitch4BitBusWidth c = Some (e0, c') \<Longrightarrow> shape c' = shape c"
  by (auto simp: SdioSwitch4BitBusWidth_def run_iff elim!: run_E dest!: mmc_shape)

lemma shape_SdioEnable4BitBusWidth [mmc_shape]: "SdioEnable4BitBusWidth c = Some (e0, c') \<Longrightarrow> shape c' = shape c"
  by (auto simp: SdioEnable4BitBusWidth_def run_iff elim!: run_E dest!: mmc_shape)

lemma shape_SdioReadCisTplField [mmc_shape]: "SdioReadCisTplField c x1 = Some (e0, e1, c') \<Longrightarrow> shape c' = shape c"
  by (auto simp: SdioReadCisTplField_def run_iff elim!: run_E dest!: mmc_shape)

lemma shape_SdioDecodeCisTplManfId [mmc_shape]: "SdioDecodeCisTplManfId c x1 x2 = Some (e0, c') \<Longrightarrow> shape c' = shape c"
  by (auto simp: SdioDecodeCisTplManfId_def run_iff elim!: run_E dest!: mmc_shape)

lemma shape_SdioDecodeCisTplFunceCommon [mmc_shape]: "SdioDecodeCisTplFunceCommon c x1 = Some c' \<Longrightarrow> shape c' = shape c"
  by (auto simp: SdioDecodeCisTplFunceCommon_def run_iff elim!: run_E dest!: mmc_shape)

lemma shape_SdioDecodeCisTplFunce [mmc_shape]: "SdioDecodeCisTplFunce c x1 x2 = Some (e0, c') \<Longrightarrow> shape c' = shape c"
  by (auto simp: SdioDecodeCisTplFunce_def run_iff elim!: run_E dest!: mmc_shape)

lemma shape_SdioDecodeCisTplField [mmc_shape]: "SdioDecodeCisTplField c x1 x2 = Some (e0, c') \<Longrightarrow> shape c' = shape c"
  by (auto simp: SdioDecodeCisTplField_def run_iff elim!: run_E dest!: mmc_shape)

lemma shape_SdioFillTplInfo_loop [mmc_shape]: "SdioFillTplInfo_loop x1 x2 x3 x4 c = Some (e0, e1, e2, c') \<Longrightarrow> shape c' = shape c"
proof (induction x2 arbitrary: x1 x3 x4 c e0 e1 e2 c')
  case (Suc n)
  note [mmc_shape] = Suc.IH
  from Suc.prems show ?case
    by (auto simp: run_iff elim!: run_E dest!: mmc_shape)
qed (simp_all add: run_iff)

lemma shape_SdioFillTplInfo [mmc_shape]: "SdioFillTplInfo c x1 x2 x3 = Some (e0, e1, e2, c') \<Longrightarrow> shape c' = shape c"
  by (auto simp: SdioFillTplInfo_def run_iff elim!: run_E dest!: mmc_shape)

lemma shape_SdioReadCis_loop [mmc_shape]: "SdioReadCis_loop x1 x2 x3 x4 c = Some (e0, e1, c') \<Longrightarrow> shape c' = shape c"
proof (induction x3 arbitrary: x1 x2 x4 c e0 e1 c')
  case (Suc n)
  note [mmc_shape] = Suc.IH
  from Suc.prems show ?case
    by (auto simp: run_iff elim!: run_E dest!: mmc_shape)
qed (simp_all add: run_iff)

definition step_shape :: "(int \<times> SdioFunction option \<times> MmcCntlr) + (SdioFunction option \<times> uint32_t \<times> MmcCntlr) \<Rightarrow> _" where
  "step_shape r = (case r of Inl (_, _, c) \<Rightarrow> shape c | Inr (_, _, c) \<Rightarrow> shape c)"

lemma shape_SdioDecodeCis_step: "SdioDecodeCis_step c x1 x2 = Some r \<Longrightarrow> step_shape r = shape c"
  by (auto simp: SdioDecodeCis_step_def step_shape_def run_iff elim!: run_E dest!: mmc_shape)

lemma shape_SdioDecodeCis_aux: "SdioDecodeCis c x1 x2 = Some r \<Longrightarrow> shape (snd (snd r)) = shape c"
proof (erule SdioDecodeCis.raw_induct [rotated], goal_cases)
  case (1 f c x1 x2 r)
  from 1(2) show ?case
    by (auto simp: run_iff step_shape_def elim!: run_E dest!: 1(1) shape_SdioDecodeCis_step)
qed

lemma shape_SdioDecodeCis [mmc_shape]: "SdioDecodeCis c x1 x2 = Some (e0, e1, c') \<Longrightarrow> shape c' = shape c"
  using shape_SdioDecodeCis_aux by fastforce

lemma shape_SdioReadCis [mmc_shape]: "SdioReadCis c x1 = Some (e0, e1, c') \<Longrightarrow> shape c' = shape c"
  by (auto simp: SdioReadCis_def run_iff elim!: run_E dest!: mmc_shape)

lemma shape_SdioReadFbr [mmc_shape]: "SdioReadFbr c x1 = Some (e0, e1, c') \<Longrightarrow> shape c' = shape c"
  by (auto simp: SdioReadFbr_def run_iff elim!: run_E dest!: mmc_shape)


lemma shape_SdioAllocFunction [mmc_shape]: "SdioAllocFunction c x1 = (e0, c') \<Longrightarrow> shape c' = shape c"
  by (auto simp: SdioAllocFunction_def run_iff elim!: run_E dest!: mmc_shape)

lemma shape_SdioAddFunctions_loop [mmc_shape]: "SdioAddFunctions_loop x1 x2 c = Some (e0, c') \<Longrightarrow> shape c' = shape c"
proof (induction x2 arbitrary: x1 c e0 c')
  case (Suc n)
  note [mmc_shape] = Suc.IH
  from Suc.prems show ?case
    by (auto simp: run_iff elim!: run_E dest!: mmc_shape)
qed (simp_all add: run_iff)

lemma shape_SdioAddFunctions [mmc_shape]: "SdioAddFunctions c x1 = Some (e0, c') \<Longrightarrow> shape c' = shape c"
  by (auto simp: SdioAddFunctions_def run_iff elim!: run_E dest!: mmc_shape)

lemma shape_SdioDelete [mmc_shape]: "SdioDelete c = Some c' \<Longrightarrow> shape c' = shape c"
  by (auto simp: SdioDelete_def run_iff elim!: run_E dest!: mmc_shape)

lemma shape_SdioDeviceAdd [mmc_shape]: "SdioDeviceAdd c = Some (e0, c') \<Longrightarrow> shape c' = shape c"
  by (auto simp: SdioDeviceAdd_def run_iff elim!: run_E dest!: mmc_shape)

lemma shape_SdioInit_speed [mmc_shape]: "SdioInit_speed c = Some (e0, c') \<Longrightarrow> shape c' = shape c"
  by (auto simp: SdioInit_speed_def run_iff elim!: run_E dest!: mmc_shape)

lemma shape_SdioInit_width [mmc_shape]: "SdioInit_width c = Some (e0, c') \<Longrightarrow> shape c' = shape c"
  by (auto simp: SdioInit_width_def run_iff elim!: run_E dest!: mmc_shape)

lemma shape_set_max_clock [mmc_shape]: "set_max_clock c = Some (e0, c') \<Longrightarrow> shape c' = shape c"
  by (auto simp: set_max_clock_def run_iff elim!: run_E dest!: mmc_shape)



section \<open>What a detection leaves behind\<close>

text \<open>A device has the parts that the casts of the code rely on.\<close>

definition has_parts :: "MmcDevice \<Rightarrow> bool" where
  "has_parts d \<longleftrightarrow>
     (dev_type d = MMC_DEV_EMMC \<and> dev_emmc d \<noteq> None) \<or>
     (dev_type d = MMC_DEV_SD \<and> dev_sd d \<noteq> None) \<or>
     ((dev_type d = MMC_DEV_SDIO \<or> dev_type d = MMC_DEV_COMBO) \<and> dev_sd d \<noteq> None \<and> dev_sdio d \<noteq> None)"

definition parts_shape :: "uint32_t \<times> bool \<times> bool \<times> bool \<Rightarrow> bool" where
  "parts_shape s = (case s of (t, e, d, i) \<Rightarrow>
     t = MMC_DEV_EMMC \<and> e \<or> t = MMC_DEV_SD \<and> d \<or> t = MMC_DEV_SDIO \<and> d \<and> i)"

lemma has_parts_shape: "has_parts d \<longleftrightarrow> parts_shape (dev_shape d)"
  by (auto simp: has_parts_def parts_shape_def dev_shape_def card_class_def)

definition sdio_kind :: "MmcCntlr \<Rightarrow> bool" where
  "sdio_kind c \<longleftrightarrow> (\<exists>d. mc_curDev c = Some d \<and> card_class (dev_type d) = MMC_DEV_SDIO)"

definition sdio_shape :: "'a \<times> 'b \<times> 'c \<times> 'd \<times> (uint32_t \<times> 'e) option \<Rightarrow> bool" where
  "sdio_shape s = (case s of (_, _, _, _, d) \<Rightarrow> map_option fst d = Some MMC_DEV_SDIO)"

lemma sdio_kind_shape: "sdio_kind c \<longleftrightarrow> sdio_shape (shape c)"
  by (auto simp: sdio_kind_def shape_def dev_shape_def sdio_shape_def)

lemma shape_type_sdio:
  "sdio_kind c \<Longrightarrow> mc_curDev c = Some d \<Longrightarrow> t = MMC_DEV_SDIO \<or> t = MMC_DEV_COMBO \<Longrightarrow>
   shape (c\<lparr>mc_curDev := Some (d\<lparr>dev_type := t\<rparr>)\<rparr>) = shape c"
  by (auto simp: shape_def dev_shape_def sdio_kind_def card_class_def)

lemma shape_SdioSelect_combo: "SdioSelect_combo c x = Some (r, c') \<Longrightarrow> sdio_kind c \<Longrightarrow> shape c' = shape c"
  by (auto simp: SdioSelect_combo_def run_iff shape_type_sdio sdio_kind_shape elim!: run_E dest!: mmc_shape)

lemma shape_SdioSelect_registers: "SdioSelect_registers c = Some (e, c') \<Longrightarrow> sdio_kind c \<Longrightarrow> shape c' = shape c"
  by (auto simp: SdioSelect_registers_def run_iff shape_type_sdio sdio_kind_shape elim!: run_E dest!: mmc_shape)

lemma shape_SdioSelect: "SdioSelect c = Some (e, r, c') \<Longrightarrow> sdio_kind c \<Longrightarrow> shape c' = shape c"
  by (auto simp: SdioSelect_def run_iff sdio_kind_shape elim!: run_E
      dest!: mmc_shape shape_SdioSelect_combo shape_SdioSelect_registers)

lemma shape_SdioInit: "SdioInit c = Some (e, c') \<Longrightarrow> sdio_kind c \<Longrightarrow> shape c' = shape c"
  by (auto simp: SdioInit_def run_iff sdio_kind_shape elim!: run_E dest!: mmc_shape shape_SdioSelect)

lemma shape_SdioDetect: "SdioDetect c = Some (e, c') \<Longrightarrow> sdio_kind c \<Longrightarrow> shape c' = shape c"
  by (auto simp: SdioDetect_def run_iff sdio_kind_shape elim!: run_E dest!: mmc_shape shape_SdioInit)

text \<open>Each sequence of initialisation ends by marking the device as present.\<close>

definition present :: "MmcCntlr \<Rightarrow> bool" where
  "present c \<longleftrightarrow> (\<exists>d. mc_curDev c = Some d \<and> dst_present (dev_state d))"

lemma present_DeviceAdd:
  "SdDeviceAdd c = Some (0, c') \<Longrightarrow> present c'"
  "SdioDeviceAdd c = Some (0, c') \<Longrightarrow> present c'"
  "EmmcDeviceAdd c = Some (0, c') \<Longrightarrow> present c'"
  by (auto simp: SdDeviceAdd_def SdioDeviceAdd_def EmmcDeviceAdd_def present_def run_iff elim!: run_E)

lemma present_Detect:
  "SdDetect c = Some (0, c') \<Longrightarrow> present c'"
  "SdioDetect c = Some (0, c') \<Longrightarrow> present c'"
  "EmmcDetect c = Some (0, c') \<Longrightarrow> present c'"
  by (auto simp: SdDetect_def SdInit_def SdioDetect_def SdioInit_def EmmcDetect_def EmmcInit_def run_iff
      elim!: run_E dest!: present_DeviceAdd)

definition attached :: "MmcCntlr \<Rightarrow> bool" where
  "attached c \<longleftrightarrow> (\<forall>d. mc_curDev c = Some d \<longrightarrow> dst_present (dev_state d) \<and> has_parts d)"

lemma attached_of_shape:
  "present c' \<Longrightarrow> shape c' = shape c \<Longrightarrow> mc_curDev c = Some d \<Longrightarrow> has_parts d \<Longrightarrow>
   \<exists>d'. mc_curDev c' = Some d' \<and> dst_present (dev_state d') \<and> has_parts d' \<and> card_class (dev_type d') = card_class (dev_type d)"
  by (auto simp: present_def has_parts_shape shape_def) (auto simp: dev_shape_def)

lemma alloc_dev:
  "MmcCntlrAllocDev c t = (0, c') \<Longrightarrow> t < MMC_DEV_COMBO \<Longrightarrow>
   \<exists>d. mc_curDev c' = Some d \<and> has_parts d \<and> dev_type d = t"
  by (auto simp: MmcCntlrAllocDev_def has_parts_def Let_def split: if_splits prod.splits)

lemma PowerUp_curDev [simp]: "mc_curDev (MmcCntlrPowerUp c) = mc_curDev c"
  by (simp add: MmcCntlrPowerUp_def mc_log_def log_if_def Let_def split: option.splits)

lemma PowerOff_curDev [simp]: "mc_curDev (MmcCntlrPowerOff c) = mc_curDev c"
  by (simp add: MmcCntlrPowerOff_def mc_log_def log_if_def Let_def split: option.splits)

lemma do_detect_outcome:
  assumes run: "MmcDoDetect c = Some (e, c')" and none: "mc_curDev c = None"
  shows "if e = 0 then \<exists>d. mc_curDev c' = Some d \<and> dst_present (dev_state d) \<and> has_parts d \<and> card_class (dev_type d) = mc_devType c
    else mc_curDev c' = None"
proof (cases "mc_devType c \<ge> MMC_DEV_COMBO \<or> fst (MmcCntlrAllocDev c (mc_devType c)) \<noteq> 0")
  case True
  with run none show ?thesis
    by (auto simp: MmcDoDetect_def MmcCntlrAllocDev_def Let_def run_iff split: if_splits prod.splits)
next
  case False
  define t where "t = mc_devType c"
  from False obtain c1 where alloc: "MmcCntlrAllocDev c t = (0, c1)" and t: "t < MMC_DEV_COMBO"
    by (cases "MmcCntlrAllocDev c t") (auto simp: t_def)
  from alloc_dev [OF alloc t] obtain d where d: "mc_curDev c1 = Some d" "has_parts d" "dev_type d = t" by blast
  define c2 where "c2 = MmcCntlrPowerUp c1"
  define m where "m = (if t = MMC_DEV_SDIO then SdioDetect c2 else if t = MMC_DEV_SD then SdDetect c2 else EmmcDetect c2)"
  from run alloc t obtain c3 where m: "m = Some (e, c3)" and c': "c' = (if e = 0 then c3 else MmcCntlrPowerOff (MmcCntlrFreeDev c3))"
    by (auto simp: MmcDoDetect_def t_def [symmetric] c2_def m_def run_iff split: if_splits)
  have "sdio_kind c2" if "t = MMC_DEV_SDIO"
    using that d by (simp add: c2_def sdio_kind_def card_class_def)
  then have sh: "shape c3 = shape c1"
    using m by (auto simp: m_def c2_def split: if_splits dest!: shape_SdioDetect mmc_shape)
  have "card_class t = t" using t by (auto simp: card_class_def)
  moreover have "present c3" if "e = 0"
    using m that by (auto simp: m_def split: if_splits dest!: present_Detect)
  ultimately show ?thesis
    using attached_of_shape [OF _ sh d(1,2)] d(3) by (auto simp: c' t_def MmcCntlrFreeDev_def)
qed


section \<open>The messages of the queue\<close>


definition quiet :: "MmcCntlr \<Rightarrow> MmcDevice option \<times> bool" where
  "quiet c = (mc_curDev c, mc_detecting c)"

lemma quiet_simps [simp]:
  "quiet (mc_log e c) = quiet c" "quiet (c\<lparr>mc_mem := m\<rparr>) = quiet c" "quiet (c\<lparr>mc_msgs := q\<rparr>) = quiet c"
  "quiet (c\<lparr>mc_devPluged := b\<rparr>) = quiet c"
  by (simp_all add: quiet_def mc_log_def)

named_theorems mmc_quiet

lemma quiet_DoRequest [mmc_quiet]: "MmcCntlrDoRequest c cmd = (e, cmd', c') \<Longrightarrow> quiet c' = quiet c"
  by (auto simp: MmcCntlrDoRequest_def elim!: run_E)

lemma quiet_send_loop [mmc_quiet]: "send_loop n cmd c = (cmd', c') \<Longrightarrow> quiet c' = quiet c"
  by (induction n cmd c rule: send_loop.induct) (auto split: prod.splits if_splits dest!: mmc_quiet)

lemma quiet_SendCmd [mmc_quiet]: "MmcSendCmd c cmd d n = (e, cmd', c') \<Longrightarrow> quiet c' = quiet c"
  by (auto simp: MmcSendCmd_def Let_def split: prod.splits if_splits dest!: mmc_quiet)

lemma quiet_SendStatus [mmc_quiet]: "MmcSendStatus c = Some (e, s, c') \<Longrightarrow> quiet c' = quiet c"
  by (auto simp: MmcSendStatus_def run_iff elim!: run_E dest!: mmc_quiet)

lemma quiet_wait_ready_loop [mmc_quiet]: "wait_ready_loop n c = Some (e, c') \<Longrightarrow> quiet c' = quiet c"
proof (induction n arbitrary: c e c')
  case 0
  then show ?case
    by (subst (asm) wait_ready_loop.simps) (auto simp: run_iff elim!: run_E dest!: mmc_quiet)
next
  case (Suc n)
  note [mmc_quiet] = Suc.IH
  from Suc.prems show ?case
    by (subst (asm) wait_ready_loop.simps) (auto simp: run_iff simp del: wait_ready_loop.simps elim!: run_E dest!: mmc_quiet)
qed

lemma quiet_WaitCardReady [mmc_quiet]: "MmcWaitCardReady c = Some (e, c') \<Longrightarrow> quiet c' = quiet c"
  by (auto simp: MmcWaitCardReady_def simp del: wait_ready_loop.simps dest!: mmc_quiet)

lemma quiet_SendErase [mmc_quiet]: "MmcSendErase c x n = Some (e, c') \<Longrightarrow> quiet c' = quiet c"
  by (auto simp: MmcSendErase_def MmcSendEraseStartCmd_def MmcSendEraseEndCmd_def MmcSendEraseCmd_def run_iff
      elim!: run_E dest!: mmc_quiet)

lemma quiet_RwDirect [mmc_quiet]: "SdioRwDirect c x = Some (e, r, c') \<Longrightarrow> quiet c' = quiet c"
  by (auto simp: SdioRwDirect_def run_iff elim!: run_E dest!: mmc_quiet)

lemma quiet_ExecRequest_loop [mmc_quiet]: "MmcCntlrExecRequest_loop n r cmd c = (e, cmd', c') \<Longrightarrow> quiet c' = quiet c"
  by (induction n r cmd c rule: MmcCntlrExecRequest_loop.induct) (auto split: prod.splits if_splits dest!: mmc_quiet)

lemma quiet_ExecRequest [mmc_quiet]: "MmcCntlrExecRequest c cmd = (e, cmd', c') \<Longrightarrow> quiet c' = quiet c"
  by (auto simp: MmcCntlrExecRequest_def dest!: mmc_quiet)

lemma quiet_DevPluged [mmc_quiet]: "MmcCntlrDevPluged c = (b, c') \<Longrightarrow> quiet c' = quiet c"
  by (auto simp: MmcCntlrDevPluged_def elim!: run_E)

lemma quiet_pluged_method [mmc_quiet]: "dev_pluged_method c = (b, c') \<Longrightarrow> quiet c' = quiet c"
  by (auto simp: dev_pluged_method_def elim!: run_E)

lemma quiet_systemInit [mmc_quiet]: "systemInit c = (e, c') \<Longrightarrow> quiet c' = quiet c"
  by (auto simp: systemInit_def elim!: run_E)

text \<open>Between two messages no detection is running, and what is attached is complete.\<close>

definition settled :: "MmcCntlr \<Rightarrow> bool" where
  "settled c \<longleftrightarrow> \<not> mc_detecting c \<and> attached c"

definition settled_q :: "MmcDevice option \<times> bool \<Rightarrow> bool" where
  "settled_q q \<longleftrightarrow> \<not> snd q \<and> (\<forall>d. fst q = Some d \<longrightarrow> dst_present (dev_state d) \<and> has_parts d)"

lemma settled_quiet: "settled c \<longleftrightarrow> settled_q (quiet c)"
  by (simp add: settled_def attached_def quiet_def settled_q_def)

lemma shape_DeviceRemove: "MmcDeviceRemove c = Some c' \<Longrightarrow> shape c' = shape c"
  by (auto simp: MmcDeviceRemove_def MmcBlockUninit_def run_iff elim!: run_E)

lemma shape_detecting: "shape c' = shape c \<Longrightarrow> mc_detecting c' = mc_detecting c"
  by (simp add: shape_def)

lemma delete_dev:
  assumes "MmcDeleteDev c = Some c'" and "settled c"
  shows "mc_curDev c' = None \<and> \<not> mc_detecting c'"
  using assms
  by (auto simp: MmcDeleteDev_def MmcCntlrFreeDev_def settled_def attached_def run_iff
      elim!: run_E dest!: shape_DeviceRemove mmc_shape shape_detecting)

lemma settled_AddOps:
  assumes run: "MmcDeviceAddOps c = Some c'" and att: "attached c"
  shows "settled (c'\<lparr>mc_detecting := False\<rparr>)"
proof -
  from run obtain d where d: "mc_curDev c = Some d"
    by (auto simp: MmcDeviceAddOps_def dev_of_def run_iff)
  from run d have "\<exists>d'. mc_curDev c' = Some d' \<and> dev_state d' = dev_state d \<and> dev_shape d' = dev_shape d"
    by (auto simp: MmcDeviceAddOps_def SdioDeviceAddOps_def EmmcDeviceAddOps_def run_iff elim!: run_E)
  then show ?thesis using att d by (auto simp: settled_def attached_def has_parts_shape)
qed

lemma settled_Plug_loop:
  "MmcCntlrPlug_loop n c = Some (e, c') \<Longrightarrow> mc_curDev c = None \<Longrightarrow> settled c'"
proof (induction n arbitrary: c)
  case 0
  then show ?case by (auto simp: settled_def attached_def)
next
  case (Suc n)
  from Suc.prems(1) obtain r c1 where det: "MmcDoDetect (c\<lparr>mc_detecting := True\<rparr>) = Some (r, c1)"
    and rest: "if r = 0 then \<exists>c2. MmcDeviceAddOps c1 = Some c2 \<and> c' = c2\<lparr>mc_detecting := False\<rparr> else MmcCntlrPlug_loop n c1 = Some (e, c')"
    by (auto simp: run_iff split: if_splits)
  from do_detect_outcome [OF det] Suc.prems(2)
  have "if r = 0 then attached c1 else mc_curDev c1 = None" by (auto simp: attached_def split: if_splits)
  with rest Suc.IH show ?case by (auto split: if_splits intro: settled_AddOps)
qed

lemma settled_Plug:
  assumes run: "MmcCntlrPlug c = Some (e, c')" and ok: "settled c"
  shows "settled c'"
proof -
  obtain b c1 where pl: "MmcCntlrDevPluged c = (b, c1)" by fastforce
  then have ok1: "settled c1" using ok by (auto simp: settled_quiet dest!: mmc_quiet)
  show ?thesis
  proof (cases b)
    case False
    then show ?thesis using run pl ok1 by (auto simp: MmcCntlrPlug_def)
  next
    case True
    with run pl obtain c2 where del: "MmcDeleteDev c1 = Some c2"
      by (auto simp: MmcCntlrPlug_def run_iff)
    obtain r c3 where sys: "systemInit c2 = (r, c3)" by fastforce
    from run pl True del sys have rest: "if r \<noteq> 0 then c' = c3 else MmcCntlrPlug_loop MMC_DETECET_RETRY c3 = Some (e, c')"
      by (auto simp: MmcCntlrPlug_def)
    from delete_dev [OF del ok1] quiet_systemInit [OF sys]
    have "mc_curDev c3 = None" "\<not> mc_detecting c3" by (auto simp: quiet_def)
    with rest show ?thesis by (auto simp: settled_def attached_def split: if_splits dest!: settled_Plug_loop)
  qed
qed

lemma settled_Unplug: "MmcCntlrUnplug c = Some (e, c') \<Longrightarrow> settled c \<Longrightarrow> settled c'"
  by (auto simp: MmcCntlrUnplug_def settled_def [of c'] attached_def [of c'] dest!: delete_dev)

lemma settled_Rescan: "MmcCntlrSdioRescanHandle c = Some (e, c') \<Longrightarrow> settled c \<Longrightarrow> settled c'"
  by (auto simp: MmcCntlrSdioRescanHandle_def SdioReadCccrIoEnable_def rescan_result_def run_iff
      elim!: run_E dest!: settled_Plug) (auto simp: settled_quiet dest!: mmc_quiet)

lemma settled_simps [simp]:
  "settled (mc_log e c) = settled c" "settled (c\<lparr>mc_mem := m\<rparr>) = settled c" "settled (c\<lparr>mc_msgs := q\<rparr>) = settled c"
  "settled (c\<lparr>mc_devPluged := b\<rparr>) = settled c"
  by (simp_all add: settled_quiet)

lemma settled_of_quiet: "quiet c' = quiet c \<Longrightarrow> settled c \<Longrightarrow> settled c'"
  by (simp add: settled_quiet)

lemma settled_handle:
  assumes "MmcMsgHandleDefault c m = Some (e, m', c')" and "settled c"
  shows "settled c'"
proof (cases m)
  case (MsgRequest cmd)
  with assms show ?thesis by (auto elim!: run_E settled_of_quiet dest!: quiet_ExecRequest)
qed (use assms in \<open>auto dest: settled_Plug settled_Unplug settled_Rescan\<close>)

lemma settled_worker: "PlatformQueueThreadWorker_step c = Some (m, c') \<Longrightarrow> settled c \<Longrightarrow> settled c'"
  by (auto simp: PlatformQueueThreadWorker_step_def run_iff split: list.splits dest!: settled_handle)

lemma settled_wait: "wait_handled n m c = Some (m', c') \<Longrightarrow> settled c \<Longrightarrow> settled c'"
  by (induction n arbitrary: m c) (auto simp: run_iff dest: settled_worker)

lemma settled_AddMsg:
  assumes "MmcCntlrAddMsgToQueue c m b = Some (e, m', c')" and "settled c"
  shows "settled c'"
  using assms
  by (auto simp: MmcCntlrAddMsgToQueue_def MmcCntlrPostMsg_def PlatformQueueAddMsg_def run_iff
      simp del: wait_handled.simps elim!: run_E dest!: settled_wait)

text \<open>
  What may happen to a controller: its thread, the host's notices, and the clients' requests to read,
  write and erase.  The operations that a driver of an SDIO card calls are not among the steps.
\<close>

inductive mmc_step :: "MmcCntlr \<Rightarrow> MmcCntlr \<Rightarrow> bool" where
  worker: "PlatformQueueThreadWorker_step c = Some (m, c') \<Longrightarrow> mmc_step c c'"
| detect: "MmcCntlrAddDetectMsgToQueue c = Some (e, c') \<Longrightarrow> mmc_step c c'"
| plug: "MmcCntlrAddPlugMsgToQueue c = Some (e, c') \<Longrightarrow> mmc_step c c'"
| rescan: "MmcCntlrAddSdioRescanMsgToQueue c = Some (e, c') \<Longrightarrow> mmc_step c c'"
| reading: "MmcDeviceRead c buf s n = Some (e, buf', c') \<Longrightarrow> mmc_step c c'"
| writing: "MmcDeviceWrite c buf s n = Some (e, buf', c') \<Longrightarrow> mmc_step c c'"
| erasing: "MmcDeviceErase c s n = Some (e, c') \<Longrightarrow> mmc_step c c'"

lemma settled_pluged: "dev_pluged_method c = (b, c') \<Longrightarrow> settled c' \<longleftrightarrow> settled c"
  by (auto simp: settled_quiet dest!: quiet_pluged_method)

lemma settled_AddRequest: "MmcCntlrAddRequestMsgToQueue c cmd = Some (e, cmd', c') \<Longrightarrow> settled c \<Longrightarrow> settled c'"
  by (auto simp: MmcCntlrAddRequestMsgToQueue_def run_iff elim!: run_E
      dest!: settled_AddMsg settled_pluged split: bool.splits)

lemma settled_chunk: "rw_chunk w cmd buf s n c = Some (e, b, cmd', c') \<Longrightarrow> settled c \<Longrightarrow> settled c'"
  by (cases "mc_detecting c") (auto simp: rw_chunk_def settled_def [of c] run_iff elim!: run_E intro: settled_AddRequest [unfolded settled_def [of c]])

lemma chunk_smaller: "\<lbrakk>m = (if n \<ge> MMC_MAX_SECTOR_NUM then MMC_MAX_SECTOR_NUM else n); n - m > 0\<rbrakk> \<Longrightarrow> unat (n - m) < unat (n :: size_t)"
  by (auto simp: unat_sub word_less_nat_alt word_le_nat_alt split: if_splits)

lemma settled_rw_loop: "rw_loop w cmd buf p s n c = Some (e, b, c') \<Longrightarrow> settled c \<Longrightarrow> settled c'"
proof (induction "unat n" arbitrary: cmd buf p s n c rule: less_induct)
  case less
  define m where "m = (if n \<ge> MMC_MAX_SECTOR_NUM then MMC_MAX_SECTOR_NUM else n)"
  from less.prems(1) obtain r b1 cmd1 c1 where ch: "rw_chunk w cmd (drop p buf) s m c = Some (r, b1, cmd1, c1)"
    and rest: "c' = c1 \<or> n - m > 0 \<and> rw_loop w cmd1 (take p buf @ b1) (p + unat m * BYTES_PER_BLOCK) (s + m) (n - m) c1 = Some (e, b, c')"
    by (subst (asm) rw_loop.simps) (auto simp: run_iff m_def [symmetric] simp del: rw_loop.simps elim!: run_E)
  from rest show ?case
    using settled_chunk [OF ch less.prems(2)] less.hyps [OF chunk_smaller [OF m_def]] by blast
qed

lemma erase_smaller: "\<lbrakk>m = (if n > MMC_MAX_ERASE_SECTOR then MMC_MAX_ERASE_SECTOR else n); n - m > 0\<rbrakk> \<Longrightarrow> unat (n - m) < unat (n :: size_t)"
  by (auto simp: unat_sub word_less_nat_alt word_le_nat_alt split: if_splits)

lemma settled_erase: "MmcDeviceErase c s n = Some (e, c') \<Longrightarrow> settled c \<Longrightarrow> settled c'"
proof (induction "unat n" arbitrary: s n c rule: less_induct)
  case less
  define m where "m = (if n > MMC_MAX_ERASE_SECTOR then MMC_MAX_ERASE_SECTOR else n)"
  from less.prems(1) obtain r c1 where er: "MmcSendErase c (ucast s) (ucast m) = Some (r, c1)"
    and rest: "c' = c1 \<or> n - m > 0 \<and> MmcDeviceErase c1 (s + m) (n - m) = Some (e, c')"
    by (subst (asm) MmcDeviceErase.simps) (auto simp: run_iff m_def [symmetric] simp del: MmcDeviceErase.simps elim!: run_E)
  from rest show ?case
    using settled_of_quiet [OF quiet_SendErase [OF er] less.prems(2)] less.hyps [OF erase_smaller [OF m_def]] by blast
qed

lemma settled_step: "mmc_step c c' \<Longrightarrow> settled c \<Longrightarrow> settled c'"
proof (induction rule: mmc_step.induct)
  case (detect c e c')
  then show ?case
    by (auto simp: MmcCntlrAddDetectMsgToQueue_def run_iff elim!: run_E dest!: settled_AddMsg settled_pluged split: bool.splits)
next
  case (plug c e c')
  then show ?case
    by (auto simp: MmcCntlrAddPlugMsgToQueue_def run_iff elim!: run_E dest!: settled_AddMsg settled_pluged)
qed (auto simp: MmcCntlrAddSdioRescanMsgToQueue_def MmcDeviceRead_def MmcDeviceWrite_def run_iff simp del: rw_loop.simps
    elim!: run_E dest: settled_worker settled_AddMsg settled_rw_loop settled_erase)

text \<open>
  C11: The type invariant of the storage controller.  From a controller without a device, whatever its
  thread, the host's notices of plugging and the clients' reads, writes and erases do in whatever order, a device that is
  attached between two steps has been initialised to the end (it is marked present) and has the parts
  that its type promises, those to which the code casts it; and no detection is left running.  A failed
  attempt therefore never leaves a half-initialised device behind.
\<close>

theorem attached_device_is_complete:
  assumes "mmc_step\<^sup>*\<^sup>* c c'" and "mc_curDev c = None" and "\<not> mc_detecting c" and "mc_curDev c' = Some d"
  shows "dst_present (dev_state d) \<and> has_parts d \<and> \<not> mc_detecting c'"
proof -
  from assms(1) have "settled c'"
    by (induction rule: rtranclp_induct) (auto simp: settled_def [of c] attached_def assms(2,3) dest: settled_step)
  with assms(4) show ?thesis by (auto simp: settled_def attached_def)
qed

text \<open>A host with an eMMC card of 1 GB that answers every command at once.\<close>

definition demo_request :: "mmc_event list \<Rightarrow> MmcCmd \<Rightarrow> int \<times> MmcCmd" where
  "demo_request t cmd = (0, cmd\<lparr>cmd_resp :=
     (if cmd_cmdCode cmd = 9 then [0x40000032, 0x0F5903FF, 0xC0038000, 0x02400000] else [0x80FF8000, 0, 0, 0])\<rparr>)"

definition demo_ops :: MmcCntlrOps where
  "demo_ops = \<lparr>mop_request = Some demo_request, mop_setClock = True, mop_setPowerMode = True, mop_setBusWidth = True,
     mop_setBusTiming = True, mop_setSdioIrq = False, mop_hardwareReset = False, mop_systemInit = None,
     mop_setEnhanceSrobe = False, mop_switchVoltage = None, mop_devReadOnly = None, mop_devPluged = Some (\<lambda>_. True),
     mop_devBusy = None, mop_tune = None\<rparr>"

definition no_caps :: MmcCaps where
  "no_caps = \<lparr>cap_cap4Bit = False, cap_cap8Bit = False, cap_highSpeed = False, cap_sdioIrq = False,
     cap_nonremovable = False, cap_ddr1v8 = False, cap_ddr1v2 = False, cap_uhsSdr12 = False, cap_uhsSdr25 = False,
     cap_uhsSdr50 = False, cap_uhsSdr104 = False, cap_uhsDdr50 = False, cap_xpc330 = False, cap_xpc300 = False,
     cap_xpc180 = False, cap_maxCurrentLimit200 = False, cap_maxCurrentLimit400 = False, cap_maxCurrentLimit600 = False,
     cap_maxCurrentLimit800 = False, cap_hardwareReset = False, cap_sdSupportProtocol3 = False, cap_cmdStop = True\<rparr>"

definition demo_cntlr :: MmcCntlr where
  "demo_cntlr = \<lparr>mc_devType = MMC_DEV_EMMC, mc_curDev = None, mc_ops = Some demo_ops, mc_voltDef = 0, mc_vddBit = 0,
     mc_freqMin = 400000, mc_freqMax = 50000000, mc_freqDef = 400000, mc_ocrDef = 0x00FF8000, mc_caps = no_caps,
     mc_caps2 = \<lparr>cap2_hs200Sdr1v8 = False, cap2_hs200Sdr1v2 = False, cap2_hs400Support1v8 = False,
       cap2_hs400Support1v2 = False, cap2_hs400EnhancedStrobe = False\<rparr>, mc_maxBlkNum = 2048, mc_maxBlkSize = 512,
     mc_maxReqSize = 0x100000, mc_devPluged = False, mc_detecting = False, mc_msgs = [], mc_trace = [], mc_mem = [],
     mc_deviceAdd = (\<lambda>_. 0), mc_blockOsInit = (\<lambda>_. 0), mc_osal = (\<lambda>_. 0)\<rparr>"


definition demo_posted :: MmcCntlr where
  "demo_posted = snd (the (MmcCntlrAddDetectMsgToQueue demo_cntlr))"

definition demo_plugged :: MmcCntlr where
  "demo_plugged = snd (the (PlatformQueueThreadWorker_step demo_posted))"

lemma demo_steps: "mmc_step\<^sup>*\<^sup>* demo_cntlr demo_plugged"
proof -
  have "MmcCntlrAddDetectMsgToQueue demo_cntlr \<noteq> None" by code_simp
  then have "mmc_step demo_cntlr demo_posted"
    by (metis demo_posted_def mmc_step.detect option.exhaust_sel prod.collapse)
  moreover have "PlatformQueueThreadWorker_step demo_posted \<noteq> None" by code_simp
  then have "mmc_step demo_posted demo_plugged"
    by (metis demo_plugged_def mmc_step.worker option.exhaust_sel prod.collapse)
  ultimately show ?thesis by simp
qed

theorem attached_device_is_complete_witness:
  "\<exists>d. mc_curDev demo_plugged = Some d \<and> dev_capacity d = 0x200000 \<and> dst_present (dev_state d) \<and> has_parts d"
proof -
  have "map_option dev_capacity (mc_curDev demo_plugged) = Some 0x200000" by code_simp
  then obtain d where d: "mc_curDev demo_plugged = Some d" and cap: "dev_capacity d = 0x200000" by auto
  have "mc_curDev demo_cntlr = None" "\<not> mc_detecting demo_cntlr" by (simp_all add: demo_cntlr_def)
  from attached_device_is_complete [OF demo_steps this d] d cap show ?thesis by blast
qed

end
