(* ===== verification/Mmc_Fields.thy ===== *)
theory Mmc_Fields
  imports Mmc_Inv
begin

text \<open>
  The storage stack: the fields of a card's registers as parts of one big number, and the capacity of an
  SD card that follows from them.
\<close>

section \<open>Bit fields\<close>

text \<open>The number that a register holds: its words, the most significant first.\<close>

fun reg_value :: "uint32_t list \<Rightarrow> nat" where
  "reg_value [] = 0"
| "reg_value (w # ws) = unat w * 2 ^ (32 * length ws) + reg_value ws"

lemma reg_value_less: "reg_value ws < 2 ^ (32 * length ws)"
proof (induction ws)
  case (Cons w ws)
  have "unat w < 2 ^ LENGTH(32)" by (rule unsigned_less)
  then have "unat w + 1 \<le> 2 ^ 32" by simp
  then have le: "(unat w + 1) * 2 ^ (32 * length ws) \<le> 2 ^ 32 * 2 ^ (32 * length ws)" by (rule mult_le_mono1)
  have "reg_value (w # ws) < (unat w + 1) * 2 ^ (32 * length ws)" using Cons.IH by simp
  also note le
  finally show ?case by (simp add: power_add)
qed simp

lemma bit_reg_value:
  "k < 32 * length ws \<Longrightarrow> bit (reg_value ws) k \<longleftrightarrow> bit (ws ! (length ws - k div 32 - 1)) (k mod 32)"
proof (induction ws)
  case (Cons w ws)
  let ?m = "32 * length ws"
  show ?case
  proof (cases "k < ?m")
    case True
    then have kl: "k div 32 < length ws" by (simp add: div_less_iff_less_mult mult.commute)
    have "bit (reg_value (w # ws)) k = bit (take_bit ?m (reg_value (w # ws))) k"
      using True by (simp add: bit_take_bit_iff)
    also have "take_bit ?m (reg_value (w # ws)) = reg_value ws"
      using reg_value_less [of ws] by (simp add: take_bit_eq_mod)
    moreover have "length (w # ws) - k div 32 - 1 = Suc (length ws - k div 32 - 1)" using kl by simp
    ultimately show ?thesis using Cons.IH [OF True] by (simp only: nth_Cons_Suc)
  next
    case False
    define r where "r = k - ?m"
    have k: "k = ?m + r" and r: "r < 32" using False Cons.prems by (auto simp: r_def)
    have dm: "k div 32 = length ws" "k mod 32 = r" using r by (simp_all add: k)
    have "bit (reg_value (w # ws)) k = bit (drop_bit ?m (reg_value (w # ws))) r"
      by (simp add: bit_drop_bit_eq k)
    also have "drop_bit ?m (reg_value (w # ws)) = unat w"
      using reg_value_less [of ws] by (simp add: drop_bit_eq_div)
    finally show ?thesis using r by (simp add: dm bit_unsigned_iff)
  qed
qed simp

lemma parse_bits_value:
  assumes bl: "bitsLen = of_nat (32 * length data)" and len: "32 * length data < 2 ^ 32"
    and sz: "0 < sz" "sz \<le> 32" and fit: "unat start + unat sz \<le> 32 * length data"
  shows "MmcParseBits data bitsLen start sz = Some (of_nat (reg_value data div 2 ^ unat start mod 2 ^ unat sz))"
proof -
  define n where "n = length data"
  define s where "s = unat start"
  define z where "z = unat sz"
  have z: "0 < z" "z \<le> 32" using sz by (auto simp: z_def unat_gt_0 word_le_nat_alt)
  have fit': "s + z \<le> 32 * n" using fit by (simp add: s_def z_def n_def)
  have ul: "unat bitsLen = 32 * n" unfolding bl n_def using len by (simp only: unat_of_nat) simp
  have lt: "start < bitsLen" using fit' z by (simp add: word_less_nat_alt ul s_def [symmetric])
  have q: "s div 32 < n" using fit' z by (simp add: div_less_iff_less_mult)
  define idx where "idx = bitsLen div 32 - start div 32 - 1"
  have ud: "unat (bitsLen div 32) = n" "unat (start div 32) = s div 32"
    by (simp_all add: unat_div_distrib ul s_def)
  have "start div 32 \<le> bitsLen div 32" using q by (simp add: word_le_nat_alt ud)
  then have u1: "unat (bitsLen div 32 - start div 32) = n - s div 32" by (simp add: unat_sub ud)
  then have "1 \<le> bitsLen div 32 - start div 32" using q by (simp add: word_le_nat_alt)
  then have idx: "unat idx = n - s div 32 - 1" unfolding idx_def by (simp add: unat_sub u1)
  have sh: "unat (start AND (32 - 1)) = s mod 32"
  proof -
    have "start AND (32 - 1) = take_bit 5 start" by (simp add: take_bit_eq_mask mask_eq_exp_minus_1)
    then show ?thesis by (simp add: s_def take_bit_eq_mod unat_mod_distrib)
  qed
  define \<sigma> where "\<sigma> = s mod 32"
  have \<sigma>: "\<sigma> < 32" by (simp add: \<sigma>_def)
  have uadd: "unat (sz + (start AND (32 - 1))) = z + \<sigma>"
    using z \<sigma> sh by (simp add: unat_word_ariths z_def \<sigma>_def)
  have ush: "unat (32 - (start AND (32 - 1))) = 32 - \<sigma>"
    using \<sigma> sh by (simp add: unat_sub word_le_nat_alt \<sigma>_def)
  have cut: "(if sz < 32 then ret AND (push_bit (unat sz) 1 - 1) else ret AND 0xFFFFFFFF) = take_bit z ret" for ret :: uint32_t
  proof (cases "sz < 32")
    case True
    then show ?thesis by (simp add: take_bit_eq_mask mask_eq_exp_minus_1 push_bit_eq_mult z_def)
  next
    case False
    then have "z = 32" using z by (simp add: z_def word_less_nat_alt)
    then show ?thesis using False by (simp add: take_bit_eq_mask mask_eq_exp_minus_1)
  qed
  define w1 where "w1 = data ! (n - s div 32 - 1)"
  define w2 where "w2 = data ! (n - s div 32 - 1 - 1)"
  have g1: "arr_get data (unat idx) = Some w1" using q by (simp add: idx w1_def arr_get_def n_def)
  have R: "bit (reg_value data) (s + j) \<longleftrightarrow> (if \<sigma> + j < 32 then bit w1 (\<sigma> + j) else bit w2 (\<sigma> + j - 32))" if "j < z" for j
  proof -
    define q where "q = s div 32"
    have sj: "s + j = (\<sigma> + j) + 32 * q" by (simp add: \<sigma>_def q_def)
    have "(s + j) div 32 = q + (\<sigma> + j) div 32 \<and> (s + j) mod 32 = (\<sigma> + j) mod 32"
      unfolding sj by simp
    moreover have "(\<sigma> + j) div 32 = (if \<sigma> + j < 32 then 0 else 1)"
      "(\<sigma> + j) mod 32 = (if \<sigma> + j < 32 then \<sigma> + j else \<sigma> + j - 32)"
      using that z \<sigma> by (auto simp: le_div_geq le_mod_geq)
    ultimately have dm: "(s + j) div 32 = (if \<sigma> + j < 32 then s div 32 else s div 32 + 1)"
      "(s + j) mod 32 = (if \<sigma> + j < 32 then \<sigma> + j else \<sigma> + j - 32)"
      by (auto simp: q_def)
    show ?thesis
      using bit_reg_value [of "s + j" data] fit' that by (simp add: dm w1_def w2_def n_def)
  qed
  have val: "take_bit z ret = of_nat (reg_value data div 2 ^ s mod 2 ^ z)"
    if "\<And>j. j < z \<Longrightarrow> bit ret j \<longleftrightarrow> bit (reg_value data) (s + j)" for ret :: uint32_t
  proof (rule bit_word_eqI)
    fix j :: nat assume j: "j < LENGTH(32)"
    have "bit (of_nat (reg_value data div 2 ^ s mod 2 ^ z) :: uint32_t) j \<longleftrightarrow> j < z \<and> bit (reg_value data) (s + j)"
      using j by (simp add: bit_of_nat_iff flip: take_bit_eq_mod drop_bit_eq_div) (auto simp: bit_simps)
    then show "bit (take_bit z ret) j = bit (of_nat (reg_value data div 2 ^ s mod 2 ^ z) :: uint32_t) j"
      using that [of j] by (auto simp: bit_take_bit_iff)
  qed
  show ?thesis
  proof (cases "z + \<sigma> > 32")
    case False
    then have nb: "\<not> sz + (start AND (32 - 1)) > 32"
      unfolding word_less_nat_alt uadd by simp
    have "take_bit z (drop_bit \<sigma> w1) = of_nat (reg_value data div 2 ^ s mod 2 ^ z)"
      by (rule val) (use False R z in \<open>auto simp: bit_simps\<close>)
    then show ?thesis
      unfolding MmcParseBits_def Let_def idx_def [symmetric] cut
      using lt sz nb by (simp add: g1 sh sh [simplified] \<sigma>_def s_def z_def not_le)
  next
    case True
    then have b: "sz + (start AND (32 - 1)) > 32"
      unfolding word_less_nat_alt uadd by simp
    have q1: "s div 32 + 1 < n" using True fit' div_mult_mod_eq [of s 32] unfolding \<sigma>_def by linarith
    then have "1 \<le> idx" by (simp add: word_le_nat_alt idx)
    then have "unat (idx - 1) = n - s div 32 - 1 - 1" by (simp add: unat_sub idx)
    then have g2: "arr_get data (unat (idx - 1)) = Some w2" using q1 by (simp add: w2_def arr_get_def n_def)
    have "take_bit z (drop_bit \<sigma> w1 OR push_bit (32 - \<sigma>) w2) = of_nat (reg_value data div 2 ^ s mod 2 ^ z)"
    proof (rule val)
      fix j assume j: "j < z"
      have "\<not> bit w1 (\<sigma> + j)" if "\<not> \<sigma> + j < 32" using that bit_imp_le_length [of w1 "\<sigma> + j"] by auto
      then show "bit (drop_bit \<sigma> w1 OR push_bit (32 - \<sigma>) w2) j = bit (reg_value data) (s + j)"
        using R [OF j] j z \<sigma> by (auto simp: bit_simps add.commute)
    qed
    then show ?thesis
      unfolding MmcParseBits_def Let_def idx_def [symmetric] cut
      using lt sz b by (simp add: g1 g2 sh ush sh [simplified] ush [simplified] \<sigma>_def s_def z_def not_le)
  qed
qed


text \<open>
  C14: The bit fields of the registers of a card.  For a register of any number of words and a field of
  1 to 32 bits inside it, the value that the code cuts out of one or two words is the field of the number
  that the whole register holds: the register shifted down to the field's first bit, modulo two to the
  field's width.
\<close>

theorem parse_bits_reads_the_register:
  assumes "bitsLen = of_nat (32 * length data)" and "32 * length data < 2 ^ 32"
    and "0 < sz" and "sz \<le> 32" and "unat start + unat sz \<le> 32 * length data"
  shows "MmcParseBits data bitsLen start sz = Some (of_nat (reg_value data div 2 ^ unat start mod 2 ^ unat sz))"
  using assms by (rule parse_bits_value)

theorem parse_bits_reads_the_register_witness:
  "MmcParseBits [0x12345678, 0x9ABCDEF0, 0x0F1E2D3C, 0x4B5A6978] 128 60 12 = Some 0xF00"
  using parse_bits_reads_the_register [of 128 "[0x12345678, 0x9ABCDEF0, 0x0F1E2D3C, 0x4B5A6978]" 12 60] by simp

section \<open>The capacity of an SD card\<close>

lemma parse_bits_4:
  assumes "length raw = 4" and "0 < sz" "sz \<le> 32" "unat start + unat sz \<le> 128"
  shows "MmcParseBits raw 128 start sz = Some (of_nat (reg_value raw div 2 ^ unat start mod 2 ^ unat sz))"
  using assms by (intro parse_bits_value) simp_all

lemma unat_of_mod: "0 < n \<Longrightarrow> n \<le> 2 ^ 32 \<Longrightarrow> unat (of_nat (x mod n) :: uint32_t) = x mod n"
  by (simp add: unat_of_nat) (meson mod_less mod_less_divisor order_less_le_trans)

lemma tran_speed_some:
  assumes "length raw = 4"
  shows "\<exists>v. tran_speed raw = Some v"
proof -
  have len: "length g_tranSpeedUnit = 8" "length g_commFactor = 16"
    by (simp_all add: g_tranSpeedUnit_def g_commFactor_def)
  show ?thesis
    using assms by (simp add: tran_speed_def parse_bits_4 arr_get_def len unat_of_mod)
qed

text \<open>
  C27: The capacity of an SD card of high or extended capacity (version 2 of its CSD).  Reading the CSD and
  computing the capacity gives a thousand and twenty-four sectors for each unit of the field C_SIZE plus
  one, modulo two to the 32: the sum is exact for every card of less than 2 TB, and for a card of 2 TB,
  whose field is 0x3FFFFF, it is zero, so that the card is refused as empty.
\<close>

theorem sd_capacity_of_csd:
  assumes dev: "mc_curDev c = Some d" and sd: "dev_sd d = Some p" and len: "length (reg_rawCsd (dev_reg d)) = 4"
    and v2: "reg_value (reg_rawCsd (dev_reg d)) div 2 ^ 126 mod 4 = 1"
    and cs: "cs = reg_value (reg_rawCsd (dev_reg d)) div 2 ^ 48 mod 2 ^ 22"
  shows "\<exists>c1 c2. SdDecodeCsd c = Some (0, c1) \<and> SdSetBlockCapacity c1 = Some c2 \<and>
    map_option dev_capacity (mc_curDev c2) = Some (if cs = 0x3FFFFF then 0 else of_nat (1024 * (cs + 1)))"
proof -
  let ?raw = "reg_rawCsd (dev_reg d)"
  obtain v where v: "tran_speed ?raw = Some v" using tran_speed_some [OF len] by blast
  have b: "MmcParseBits ?raw 128 126 2 = Some 1" "MmcParseBits ?raw 128 48 22 = Some (of_nat cs)"
    "MmcParseBits ?raw 128 84 12 = Some (of_nat (reg_value ?raw div 2 ^ 84 mod 2 ^ 12))"
    using v2 cs by (simp_all add: parse_bits_4 [OF len])
  have "cs < 2 ^ 22" by (simp add: cs)
  have "ucast (push_bit 10 (1 + of_nat cs :: uint32_t)) = (if cs = 0x3FFFFF then 0 else of_nat (1024 * (cs + 1)) :: size_t)"
  proof -
    have "push_bit 10 (1 + of_nat cs :: uint32_t) = of_nat (1024 * (cs + 1))"
      by (simp add: push_bit_eq_mult algebra_simps)
    then have "ucast (push_bit 10 (1 + of_nat cs :: uint32_t)) = (of_nat (1024 * (cs + 1) mod 2 ^ 32) :: size_t)"
      by (simp only: unsigned_of_nat take_bit_eq_mod) simp
    then show ?thesis using \<open>cs < 2 ^ 22\<close> by (auto simp: mod_less)
  qed
  then show ?thesis
    using dev sd v b
    by (auto simp: SdDecodeCsd_def SdDecodeCsdRev2Field_def SdSetBlockCapacity_def upd_dev_def dev_of_def sd_of_def shl32_def)
qed


definition demo_sd :: MmcDevice where
  "demo_sd = zero_MmcDevice\<lparr>dev_type := MMC_DEV_SD, dev_sd := Some zero_SdPart,
     dev_reg := zero_MmcRegister\<lparr>reg_rawCsd := [0x40000032, 0x5B59003F, 0xFFFF7F80, 0x0A400000]\<rparr>\<rparr>"

theorem sd_capacity_of_csd_witness:
  "\<exists>c1 c2. SdDecodeCsd (demo_cntlr\<lparr>mc_curDev := Some demo_sd\<rparr>) = Some (0, c1) \<and> SdSetBlockCapacity c1 = Some c2 \<and>
     map_option dev_capacity (mc_curDev c2) = Some 0"
  using sd_capacity_of_csd [of "demo_cntlr\<lparr>mc_curDev := Some demo_sd\<rparr>" demo_sd zero_SdPart "0x3FFFFF"]
  by (simp add: demo_sd_def)

end
