(* ===== verification/Mmc_Transfer.thy ===== *)
theory Mmc_Transfer
  imports Mmc_Inv
begin

text \<open>
  Commands and transfers of a memory card: what \<^verbatim>\<open>MmcSendCmd\<close> reports of a host that refuses it, what the
  requests posted to the controller's queue report, and, for a host that carries out its requests, which
  sectors \<^verbatim>\<open>MmcDeviceWrite\<close> and \<^verbatim>\<open>MmcDeviceRead\<close> transfer.  The card that the last theorem uses is a function
  of the trace: the block last written to a sector is what a later read of the sector delivers.
\<close>

section \<open>Commands\<close>


lemma send_loop_refused:
  assumes ops: "mc_ops c = Some ops" "mop_request ops = Some (\<lambda>t cmd. (f t, cmd))" and f: "\<And>t. f t \<noteq> 0"
  shows "\<exists>c'. send_loop n cmd c = (cmd, c') \<and> mc_trace c' = mc_trace c @ replicate n (EvRequest cmd)"
  using ops
proof (induction n arbitrary: c)
  case (Suc n)
  have a: "answered_cmd cmd cmd = cmd" by (simp add: answered_cmd_def split: option.splits)
  have "MmcCntlrDoRequest c cmd = (f (mc_trace c), cmd, mc_log (EvRequest cmd) c)"
    using Suc.prems by (simp add: MmcCntlrDoRequest_def a)
  moreover obtain c' where "send_loop n cmd (mc_log (EvRequest cmd) c) = (cmd, c')"
    "mc_trace c' = mc_trace c @ [EvRequest cmd] @ replicate n (EvRequest cmd)"
    using Suc.IH [of "mc_log (EvRequest cmd) c"] Suc.prems by (auto simp: mc_log_def)
  ultimately show ?case using f by simp
qed simp

text \<open>
  C28: A host that refuses every request, and does not touch the command, is reported as success.  The
  command is sent as often as the number of tries allows, and the result is the error that the command
  carries, which is none; the status of the requests themselves is lost.
\<close>

theorem refused_command_reported_as_success:
  assumes ops: "mc_ops c = Some ops" "mop_request ops = Some (\<lambda>t cmd. (f t, cmd))" and f: "\<And>t. f t \<noteq> 0"
    and n: "n > 0" and clean: "cmd_returnError cmd = 0" "data = None \<or> (\<exists>d. data = Some d \<and> dat_returnError d = 0)"
  shows "\<exists>c'. MmcSendCmd c cmd data n = (0, cmd\<lparr>cmd_data := data\<rparr>, c') \<and>
    mc_trace c' = mc_trace c @ replicate n (EvRequest (cmd\<lparr>cmd_data := data\<rparr>))"
proof -
  obtain c' where "send_loop n (cmd\<lparr>cmd_data := data\<rparr>) c = (cmd\<lparr>cmd_data := data\<rparr>, c')"
    "mc_trace c' = mc_trace c @ replicate n (EvRequest (cmd\<lparr>cmd_data := data\<rparr>))"
    using send_loop_refused [OF ops f, of n "cmd\<lparr>cmd_data := data\<rparr>"] by blast
  then show ?thesis
    using n clean ops by (auto simp: MmcSendCmd_def has_method_def data_error_def)
qed

section \<open>Requests through the queue\<close>

text \<open>
  An idle host: nothing queued and no detection in progress, an attached device whose card is reported as
  plugged whenever the host is asked, and memory for every message (an empty list of allocation results
  stands for allocations that succeed).
\<close>

definition idle_host :: "MmcCntlr \<Rightarrow> bool" where
  "idle_host c \<longleftrightarrow> \<not> mc_detecting c \<and> mc_msgs c = [] \<and> mc_mem c = [] \<and> mc_curDev c \<noteq> None \<and>
     (\<exists>ops. mc_ops c = Some ops \<and> mop_devPluged ops = Some (\<lambda>_. True))"

definition rest_of :: "MmcCntlr \<Rightarrow> MmcCntlr" where
  "rest_of c = c\<lparr>mc_trace := []\<rparr>"

lemma rest_DoRequest: "MmcCntlrDoRequest c cmd = (r, cmd', c') \<Longrightarrow> rest_of c' = rest_of c \<and> (cmd_data cmd' = None \<longleftrightarrow> cmd_data cmd = None)"
  by (auto simp: MmcCntlrDoRequest_def rest_of_def mc_log_def answered_cmd_def split: option.splits prod.splits)

lemma rest_ExecRequest_loop:
  "MmcCntlrExecRequest_loop n r cmd c = (r', cmd', c') \<Longrightarrow> rest_of c' = rest_of c \<and> (cmd_data cmd' = None \<longleftrightarrow> cmd_data cmd = None)"
  by (induction n r cmd c rule: MmcCntlrExecRequest_loop.induct)
     (auto split: prod.splits if_splits dest!: rest_DoRequest)

lemma idle_rest: "rest_of c' = rest_of c \<Longrightarrow> idle_host c' = idle_host c"
  unfolding rest_of_def idle_host_def by (cases c; cases c') simp

lemma add_request_idle:
  assumes "idle_host c"
  shows "\<exists>cmd' c'. MmcCntlrAddRequestMsgToQueue c cmd = Some (0, cmd', c') \<and> rest_of c' = rest_of c \<and>
    (cmd_data cmd' = None \<longleftrightarrow> cmd_data cmd = None) \<and>
    (\<exists>r. MmcCntlrExecRequest_loop 3 0 cmd (mc_log EvDevPluged c) = (r, cmd', c'))"
proof -
  obtain r cmd' c' where ex: "MmcCntlrExecRequest_loop 3 0 cmd (mc_log EvDevPluged c) = (r, cmd', c')"
    by (cases "MmcCntlrExecRequest_loop 3 0 cmd (mc_log EvDevPluged c)") auto
  have same: "c\<lparr>mc_trace := mc_trace c @ [EvDevPluged], mc_mem := [], mc_msgs := []\<rparr> = c\<lparr>mc_trace := mc_trace c @ [EvDevPluged]\<rparr>"
    using assms by (cases c) (simp add: idle_host_def mc_log_def)
  show ?thesis
    using assms rest_ExecRequest_loop [OF ex] ex
    by (auto simp: idle_host_def MmcCntlrAddRequestMsgToQueue_def dev_pluged_method_def MmcCntlrAddMsgToQueue_def
        MmcCntlrPostMsg_def PlatformQueueAddMsg_def PlatformQueueThreadWorker_step_def MmcCntlrExecRequest_def
        same rest_of_def mc_log_def split: prod.splits)
qed


lemma setup_cmd:
  assumes "cmd_data cmd = Some d"
  shows "\<exists>cmd' d'. MmcSetupReadWriteBlocksCmd c mmc cmd (MmcDeviceFillRwInfo buf w s n) = Some cmd' \<and>
    cmd_data cmd' = Some d' \<and> dat_blockNum d' = ucast n \<and> dat_dataBuffer d' = Some buf \<and>
    dat_returnError d' = dat_returnError d \<and> cmd_returnError cmd' = cmd_returnError cmd \<and>
    cmd_argument cmd' = byte_or_sector mmc (ucast s) \<and>
    cmd_cmdCode cmd' = (if w then if n > 1 then WRITE_MULTIPLE_BLOCK else WRITE_BLOCK
                        else if n > 1 then READ_MULTIPLE_BLOCK else READ_SINGLE_BLOCK)"
  using assms by (cases w; cases "n > 1"; cases "cap_cmdStop (mc_caps c)")
    (simp_all add: MmcSetupReadWriteBlocksCmd_def MmcDeviceFillRwInfo_def Let_def)

lemma chunk_idle:
  assumes idle: "idle_host c" and cur: "mc_curDev c = Some mmc" and d: "cmd_data cmd = Some d"
  obtains q qd r cmd' c' where
    "MmcSetupReadWriteBlocksCmd c mmc cmd (MmcDeviceFillRwInfo buf w s n) = Some q" "cmd_data q = Some qd"
    "dat_blockNum qd = ucast n" "dat_dataBuffer qd = Some buf"
    "dat_returnError qd = dat_returnError d" "cmd_returnError q = cmd_returnError cmd"
    "cmd_argument q = byte_or_sector mmc (ucast s)"
    "cmd_cmdCode q = (if w then if n > 1 then WRITE_MULTIPLE_BLOCK else WRITE_BLOCK
                      else if n > 1 then READ_MULTIPLE_BLOCK else READ_SINGLE_BLOCK)"
    "MmcCntlrExecRequest_loop 3 0 q (mc_log EvDevPluged c) = (r, cmd', c')" "cmd_data cmd' \<noteq> None"
    "rest_of c' = rest_of c"
    "rw_chunk w cmd buf s n c = Some (0, case data_buffer cmd' of None \<Rightarrow> buf | Some b \<Rightarrow> b, cmd', c')"
proof -
  obtain q qd where q: "MmcSetupReadWriteBlocksCmd c mmc cmd (MmcDeviceFillRwInfo buf w s n) = Some q"
    "cmd_data q = Some qd" "dat_blockNum qd = ucast n" "dat_dataBuffer qd = Some buf"
    "dat_returnError qd = dat_returnError d" "cmd_returnError q = cmd_returnError cmd"
    "cmd_argument q = byte_or_sector mmc (ucast s)"
    "cmd_cmdCode q = (if w then if n > 1 then WRITE_MULTIPLE_BLOCK else WRITE_BLOCK
                      else if n > 1 then READ_MULTIPLE_BLOCK else READ_SINGLE_BLOCK)"
    using setup_cmd [OF d] by blast
  obtain r cmd' c' where ex: "MmcCntlrAddRequestMsgToQueue c q = Some (0, cmd', c')" "rest_of c' = rest_of c"
    "cmd_data cmd' \<noteq> None" "MmcCntlrExecRequest_loop 3 0 q (mc_log EvDevPluged c) = (r, cmd', c')"
    using add_request_idle [OF idle, of q] q(2) by auto
  have "rw_chunk w cmd buf s n c = Some (0, case data_buffer cmd' of None \<Rightarrow> buf | Some b \<Rightarrow> b, cmd', c')"
    using idle cur q(1) ex(1) by (simp add: rw_chunk_def idle_host_def Let_def)
  then show thesis using that q ex by blast
qed

lemma rest_curDev: "rest_of c' = rest_of c \<Longrightarrow> mc_curDev c' = mc_curDev c \<and> mc_ops c' = mc_ops c"
  unfolding rest_of_def by (cases c; cases c') simp

lemma rw_loop_chunk:
  assumes m: "m = (if n \<ge> MMC_MAX_SECTOR_NUM then MMC_MAX_SECTOR_NUM else n)"
    and ch: "rw_chunk w cmd (drop pos buf) s m c = Some (0, b, cmd', c')"
  shows "rw_loop w cmd buf pos s n c =
    (if n - m > 0 then rw_loop w cmd' (take pos buf @ b) (pos + unat m * BYTES_PER_BLOCK) (s + m) (n - m) c'
     else Some (0, take pos buf @ b, c'))"
  by (subst rw_loop.simps, unfold m [symmetric] Let_def ch) simp

lemma rw_loop_idle:
  assumes "idle_host c" and "cmd_data cmd \<noteq> None"
  shows "\<exists>b c'. rw_loop w cmd buf pos s n c = Some (0, b, c') \<and> rest_of c' = rest_of c"
  using assms
proof (induction "unat n" arbitrary: cmd buf pos s n c rule: less_induct)
  case less
  define m where "m = (if n \<ge> MMC_MAX_SECTOR_NUM then MMC_MAX_SECTOR_NUM else n)"
  obtain mmc d where "mc_curDev c = Some mmc" "cmd_data cmd = Some d"
    using less.prems by (auto simp: idle_host_def)
  then obtain b cmd' c' where ch: "rw_chunk w cmd (drop pos buf) s m c = Some (0, b, cmd', c')"
    "cmd_data cmd' \<noteq> None" "rest_of c' = rest_of c"
    using chunk_idle [OF less.prems(1)] by metis
  show ?case
  proof (cases "n - m > 0")
    case True
    have "\<exists>b' c''. rw_loop w cmd' (take pos buf @ b) (pos + unat m * BYTES_PER_BLOCK) (s + m) (n - m) c' = Some (0, b', c'') \<and>
        rest_of c'' = rest_of c'"
      using less.hyps [OF chunk_smaller [OF m_def True]] ch(2) idle_rest [OF ch(3)] less.prems(1) by blast
    then show ?thesis using True ch unfolding rw_loop_chunk [OF m_def ch(1)] by simp
  next
    case False
    then show ?thesis using ch unfolding rw_loop_chunk [OF m_def ch(1)] by simp
  qed
qed

text \<open>
  C25: Transfers through the queue.  Let the host be idle: a device is attached, no detection is in progress, no
  message waits in the queue, memory can be allocated, and the host's \<open>devPluged\<close> method reports a plugged card
  each time it is asked (an unplugged one would be refused before the request).  Then \<^verbatim>\<open>MmcDeviceWrite\<close> and
  \<^verbatim>\<open>MmcDeviceRead\<close> return the number of sectors asked for, whatever the host answers to the requests: a host
  that refuses every one of them, or whose card reports an error every time, is reported as a complete
  transfer.  The queue's thread drops the result of the handler that sent the request.
\<close>

theorem queued_transfer_reports_success:
  assumes "idle_host c"
  shows "(\<exists>b c'. MmcDeviceWrite c buf s n = Some (sint n, b, c')) \<and>
    (\<exists>b c'. MmcDeviceRead c buf s n = Some (sint n, b, c'))"
proof -
  have "\<exists>b c'. rw_loop w (zero_MmcCmd\<lparr>cmd_data := Some zero_MmcData\<rparr>) buf 0 s n c = Some (0, b, c')" for w
    using rw_loop_idle [OF assms, of "zero_MmcCmd\<lparr>cmd_data := Some zero_MmcData\<rparr>"] by fastforce
  from this [of True] this [of False] show ?thesis
    by (auto simp: MmcDeviceWrite_def MmcDeviceRead_def)
qed


section \<open>Which sectors a transfer touches\<close>

text \<open>
  The sectors of a command, for cards that are addressed by sector (unit 1) and by byte (unit 512), and what
  the requests of a trace write.
\<close>

definition addr_unit :: "MmcDevice \<Rightarrow> nat" where
  "addr_unit mmc = (if dst_blockAddr (dev_state mmc) then 1 else 512)"

definition first_sector :: "nat \<Rightarrow> MmcCmd \<Rightarrow> nat" where
  "first_sector u cmd = unat (cmd_argument cmd) div u"

definition cmd_blocks :: "MmcCmd \<Rightarrow> nat" where
  "cmd_blocks cmd = (if cmd_cmdCode cmd \<in> {WRITE_BLOCK, READ_SINGLE_BLOCK} then 1
     else case cmd_data cmd of None \<Rightarrow> 0 | Some d \<Rightarrow> unat (dat_blockNum d))"

definition block_at :: "bytes \<Rightarrow> nat \<Rightarrow> bytes" where
  "block_at b i = take 512 (drop (512 * i) b)"

fun written :: "nat \<Rightarrow> mmc_event \<Rightarrow> (nat \<times> bytes) list" where
  "written u (EvRequest cmd) =
     (if cmd_cmdCode cmd \<in> {WRITE_BLOCK, WRITE_MULTIPLE_BLOCK}
      then map (\<lambda>i. (first_sector u cmd + i, block_at (case data_buffer cmd of None \<Rightarrow> [] | Some b \<Rightarrow> b) i)) [0..<cmd_blocks cmd]
      else [])"
| "written u _ = []"

definition trace_written :: "nat \<Rightarrow> mmc_event list \<Rightarrow> (nat \<times> bytes) list" where
  "trace_written u t = concat (map (written u) t)"

text \<open>A host that carries out every request: no error, and it fills in answers only.\<close>

definition accepts :: "(mmc_event list \<Rightarrow> MmcCmd \<Rightarrow> int \<times> MmcCmd) \<Rightarrow> bool" where
  "accepts f \<longleftrightarrow> (\<forall>t q. fst (f t q) = 0 \<and> cmd_returnError (snd (f t q)) = cmd_returnError q \<and>
     data_error (snd (f t q)) = data_error q \<and> (cmd_data (snd (f t q)) = None \<longleftrightarrow> cmd_data q = None) \<and>
     (cmd_cmdCode q \<in> {WRITE_BLOCK, WRITE_MULTIPLE_BLOCK} \<longrightarrow> data_buffer (snd (f t q)) = data_buffer q))"

lemma acceptsD:
  assumes "accepts f"
  shows "fst (f t q) = 0" "cmd_returnError (snd (f t q)) = cmd_returnError q" "data_error (snd (f t q)) = data_error q"
    "cmd_data (snd (f t q)) = None \<longleftrightarrow> cmd_data q = None"
    "cmd_cmdCode q \<in> {WRITE_BLOCK, WRITE_MULTIPLE_BLOCK} \<Longrightarrow> data_buffer (snd (f t q)) = data_buffer q"
  using assms unfolding accepts_def by blast+

lemma exec_accepted:
  assumes "mc_ops c = Some ops" "mop_request ops = Some f" "accepts f" "cmd_returnError q = 0" "cmd_data q = Some qd" "dat_returnError qd = 0"
  shows "MmcCntlrExecRequest_loop 3 0 q c = (0, snd (f (mc_trace c) q), mc_log (EvRequest q) c)"
proof -
  obtain q' where f: "f (mc_trace c) q = (0, q')" "cmd_returnError q' = 0" "data_error q' = 0" "cmd_data q' \<noteq> None"
    using acceptsD(1-4) [OF assms(3), of "mc_trace c" q] assms by (cases "f (mc_trace c) q") (auto simp: data_error_def)
  then have "answered_cmd q q' = q'" using assms(5) by (auto simp: answered_cmd_def)
  then have "MmcCntlrDoRequest c q = (0, q', mc_log (EvRequest q) c)"
    using assms f by (simp add: MmcCntlrDoRequest_def)
  then show ?thesis using f by (simp add: numeral_3_eq_3)
qed

lemma chunk_accepted:
  assumes idle: "idle_host c" and cur: "mc_curDev c = Some mmc" and ops: "mc_ops c = Some ops" "mop_request ops = Some f" and acc: "accepts f"
    and d: "cmd_data cmd = Some d" "dat_returnError d = 0" "cmd_returnError cmd = 0"
  obtains q qd cmd' d' c' where
    "cmd_data q = Some qd" "dat_blockNum qd = ucast n" "dat_dataBuffer qd = Some buf"
    "cmd_argument q = byte_or_sector mmc (ucast s)"
    "cmd_cmdCode q = (if w then if n > 1 then WRITE_MULTIPLE_BLOCK else WRITE_BLOCK
                      else if n > 1 then READ_MULTIPLE_BLOCK else READ_SINGLE_BLOCK)"
    "cmd' = snd (f (mc_trace c @ [EvDevPluged]) q)" "cmd_data cmd' = Some d'" "dat_returnError d' = 0" "cmd_returnError cmd' = 0"
    "mc_trace c' = mc_trace c @ [EvDevPluged, EvRequest q]" "rest_of c' = rest_of c"
    "rw_chunk w cmd buf s n c = Some (0, case data_buffer cmd' of None \<Rightarrow> buf | Some b \<Rightarrow> b, cmd', c')"
proof -
  obtain q qd r cmd' c' where q: "cmd_data q = Some qd" "dat_blockNum qd = ucast n" "dat_dataBuffer qd = Some buf"
    "dat_returnError qd = 0" "cmd_returnError q = 0"
    "cmd_argument q = byte_or_sector mmc (ucast s)"
    "cmd_cmdCode q = (if w then if n > 1 then WRITE_MULTIPLE_BLOCK else WRITE_BLOCK
                      else if n > 1 then READ_MULTIPLE_BLOCK else READ_SINGLE_BLOCK)"
    and ex: "MmcCntlrExecRequest_loop 3 0 q (mc_log EvDevPluged c) = (r, cmd', c')"
    and rest: "rest_of c' = rest_of c" and ch: "rw_chunk w cmd buf s n c = Some (0, case data_buffer cmd' of None \<Rightarrow> buf | Some b \<Rightarrow> b, cmd', c')"
    using chunk_idle [OF idle cur d(1), of buf w s n] d by metis
  have c1: "mc_ops (mc_log EvDevPluged c) = Some ops" using ops by (simp add: mc_log_def)
  have e: "cmd' = snd (f (mc_trace c @ [EvDevPluged]) q)" "mc_trace c' = mc_trace c @ [EvDevPluged, EvRequest q]"
    using ex exec_accepted [OF c1 ops(2) acc q(5,1,4)] by (auto simp: mc_log_def)
  have "data_error q = 0" using q by (simp add: data_error_def)
  then have "cmd_data cmd' \<noteq> None" "data_error cmd' = 0" "cmd_returnError cmd' = 0"
    using q unfolding e by (simp_all add: acceptsD [OF acc])
  then obtain d' where "cmd_data cmd' = Some d'" "dat_returnError d' = 0" by (auto simp: data_error_def)
  then show thesis using that q e rest ch \<open>cmd_returnError cmd' = 0\<close> by blast
qed


lemma first_sector_of_command:
  assumes "cmd_argument q = byte_or_sector mmc (ucast (s :: size_t))" and "Suc (unat s) * addr_unit mmc \<le> 2 ^ 32"
  shows "first_sector (addr_unit mmc) q = unat s"
proof -
  have u: "addr_unit mmc = 1 \<or> addr_unit mmc = 512" by (simp add: addr_unit_def)
  have b: "unat s * addr_unit mmc < 2 ^ 32" using assms(2) u by auto
  have s32: "unat s < 2 ^ 32" using b u by auto
  have us: "unat (ucast s :: uint32_t) = unat s" using s32 by (simp add: unsigned_ucast_eq take_bit_nat_eq_self)
  have "unat (cmd_argument q) = unat s * addr_unit mmc"
    using b us by (auto simp: assms(1) byte_or_sector_def addr_unit_def push_bit_eq_mult unat_word_ariths)
  then show ?thesis using u by (auto simp: first_sector_def)
qed

lemma block_at_drop: "block_at (drop (p + 512 * m) b) i = block_at (drop p b) (m + i)"
  by (simp add: block_at_def algebra_simps)

lemma upt_split: "m \<le> n \<Longrightarrow> map g [0..<n] = map g [0..<m] @ map (\<lambda>i. g (m + i)) [0..<n - m]" for n :: nat
proof -
  assume "m \<le> n"
  then have "[0..<n] = [0..<m] @ map (\<lambda>i. m + i) [0..<n - m]"
    by (intro nth_equalityI) (simp_all add: nth_append)
  then show ?thesis by (simp add: comp_def)
qed

lemma chunk_size:
  assumes "m = (if n \<ge> MMC_MAX_SECTOR_NUM then MMC_MAX_SECTOR_NUM else (n :: size_t))"
  shows "unat m \<le> unat n" "unat m \<le> 2048" "unat (ucast m :: uint32_t) = unat m" "unat (n - m) = unat n - unat m"
    "n - m > 0 \<Longrightarrow> 0 < unat m" "\<not> n - m > 0 \<Longrightarrow> unat m = unat n"
proof -
  show m: "unat m \<le> unat n" "unat m \<le> 2048"
    using assms by (auto simp: word_le_nat_alt split: if_splits)
  then show "unat (ucast m :: uint32_t) = unat m" by (simp add: unsigned_ucast_eq take_bit_nat_eq_self)
  show d: "unat (n - m) = unat n - unat m" using m by (simp add: unat_sub word_le_nat_alt)
  show "n - m > 0 \<Longrightarrow> 0 < unat m" using assms by (auto split: if_splits)
  show "\<not> n - m > 0 \<Longrightarrow> unat m = unat n" using m(1) d by (simp add: word_less_nat_alt)
qed

text \<open>A command for no sector is one for a single block.\<close>

lemma cmd_blocks_of_chunk:
  assumes "unat (ucast (m :: size_t) :: uint32_t) = unat m"
    and "cmd_cmdCode q = (if w then if m > 1 then WRITE_MULTIPLE_BLOCK else WRITE_BLOCK
                      else if m > 1 then READ_MULTIPLE_BLOCK else READ_SINGLE_BLOCK)"
    and "cmd_data q = Some qd" "dat_blockNum qd = ucast m"
  shows "cmd_blocks q = max 1 (unat m)"
  using assms by (auto simp: cmd_blocks_def word_less_nat_alt)

lemma write_loop_covers:
  assumes "idle_host c" "mc_curDev c = Some mmc" "mc_ops c = Some ops" "mop_request ops = Some f" "accepts f"
    and "cmd_data cmd = Some d" "dat_returnError d = 0" "cmd_returnError cmd = 0"
    and "(unat s + max 1 (unat n)) * addr_unit mmc \<le> 2 ^ 32"
  shows "\<exists>c' t. rw_loop True cmd buf pos s n c = Some (0, buf, c') \<and> rest_of c' = rest_of c \<and> mc_trace c' = mc_trace c @ t \<and>
    trace_written (addr_unit mmc) t = map (\<lambda>i. (unat s + i, block_at (drop pos buf) i)) [0..<max 1 (unat n)]"
  using assms
proof (induction "unat n" arbitrary: cmd d pos s n c rule: less_induct)
  case less
  note prems = less.prems
  define m where "m = (if n \<ge> MMC_MAX_SECTOR_NUM then MMC_MAX_SECTOR_NUM else n)"
  note size = chunk_size [OF m_def]
  obtain q qd cmd' d' c' where q: "cmd_data q = Some qd" "dat_blockNum qd = ucast m" "dat_dataBuffer qd = Some (drop pos buf)"
    "cmd_argument q = byte_or_sector mmc (ucast s)"
    "cmd_cmdCode q = (if True then if m > 1 then WRITE_MULTIPLE_BLOCK else WRITE_BLOCK
                      else if m > 1 then READ_MULTIPLE_BLOCK else READ_SINGLE_BLOCK)"
    and cmd': "cmd' = snd (f (mc_trace c @ [EvDevPluged]) q)" "cmd_data cmd' = Some d'" "dat_returnError d' = 0" "cmd_returnError cmd' = 0"
    and c': "mc_trace c' = mc_trace c @ [EvDevPluged, EvRequest q]" "rest_of c' = rest_of c"
    and ch: "rw_chunk True cmd (drop pos buf) s m c =
      Some (0, case data_buffer cmd' of None \<Rightarrow> drop pos buf | Some b \<Rightarrow> b, cmd', c')"
    using chunk_accepted [OF prems(1-8), of m "drop pos buf" s True] by metis
  have "data_buffer cmd' = data_buffer q" unfolding cmd'(1) by (rule acceptsD [OF prems(5)]) (simp add: q)
  then have buf: "data_buffer cmd' = Some (drop pos buf)" using q by (simp add: data_buffer_def)
  have u: "addr_unit mmc = 1 \<or> addr_unit mmc = 512" by (simp add: addr_unit_def)
  have "Suc (unat s) * addr_unit mmc \<le> (unat s + max 1 (unat n)) * addr_unit mmc"
    by (intro mult_right_mono) simp_all
  then have first: "first_sector (addr_unit mmc) q = unat s"
    using first_sector_of_command [OF q(4)] prems(9) by simp
  have blocks: "cmd_blocks q = max 1 (unat m)" by (rule cmd_blocks_of_chunk [OF size(3) q(5,1,2)])
  have w: "trace_written (addr_unit mmc) [EvDevPluged, EvRequest q] =
      map (\<lambda>i. (unat s + i, block_at (drop pos buf) i)) [0..<max 1 (unat m)]"
    using q by (simp add: trace_written_def first blocks data_buffer_def)
  show ?case
  proof (cases "n - m > 0")
    case True
    have one: "max 1 (unat n) = unat n" "max 1 (unat m) = unat m" "max 1 (unat (n - m)) = unat (n - m)"
      using size(5) [OF True] size(1) True by (simp_all add: word_less_nat_alt)
    have small: "unat (n - m) < unat n" by (rule chunk_smaller [OF m_def True])
    have sm: "unat (s + m) = unat s + unat m"
    proof -
      have "unat s + unat m \<le> (unat s + unat n) * addr_unit mmc" using size(1) u by auto
      then have "unat s + unat m < 2 ^ 64" using prems(9) one by simp
      then show ?thesis by (simp add: unat_word_ariths)
    qed
    have fit: "(unat (s + m) + max 1 (unat (n - m))) * addr_unit mmc \<le> 2 ^ 32" using prems(9) size(1,4) sm one by simp
    have r: "mc_curDev c' = Some mmc" "mc_ops c' = Some ops" "idle_host c'"
      using rest_curDev [OF c'(2)] idle_rest [OF c'(2)] prems by simp_all
    from less.hyps [OF small r(3,1,2) prems(4,5) cmd'(2-4) fit, of "pos + unat m * BYTES_PER_BLOCK"]
    obtain c'' t where t: "rw_loop True cmd' buf (pos + unat m * BYTES_PER_BLOCK) (s + m) (n - m) c' = Some (0, buf, c'')"
      "rest_of c'' = rest_of c'" "mc_trace c'' = mc_trace c' @ t"
      "trace_written (addr_unit mmc) t =
        map (\<lambda>i. (unat (s + m) + i, block_at (drop (pos + unat m * BYTES_PER_BLOCK) buf) i)) [0..<unat (n - m)]"
      unfolding one by blast
    have "rw_loop True cmd buf pos s n c = Some (0, buf, c'')"
      using t(1) True buf unfolding rw_loop_chunk [OF m_def ch] by simp
    moreover have "trace_written (addr_unit mmc) ([EvDevPluged, EvRequest q] @ t) =
        map (\<lambda>i. (unat s + i, block_at (drop pos buf) i)) [0..<unat n]"
      unfolding upt_split [OF size(1), of "\<lambda>i. (unat s + i, block_at (drop pos buf) i)"]
      using w t(4) size(4) sm one(2) block_at_drop [of pos "unat m" buf]
      by (simp add: trace_written_def mult.commute add.assoc)
    ultimately show ?thesis using t c' one(1) by (intro exI [of _ c''] exI [of _ "[EvDevPluged, EvRequest q] @ t"]) simp
  next
    case False
    then have "unat m = unat n" by (rule size(6))
    moreover have "rw_loop True cmd buf pos s n c = Some (0, buf, c')"
      using False buf unfolding rw_loop_chunk [OF m_def ch] by simp
    ultimately show ?thesis using c' w by (intro exI [of _ c'] exI [of _ "[EvDevPluged, EvRequest q]"]) simp
  qed
qed


text \<open>
  C15: Writing sectors.  Take an idle host with a plugged card (\<open>idle_host\<close>: no message waiting, no detection in
  progress, memory available) that carries out its requests, and a range whose addresses, in the card's unit
  (sectors or bytes), fit the 32 bits of the command's argument.  Then \<^verbatim>\<open>MmcDeviceWrite\<close> cuts a transfer of any
  number of sectors into requests that write exactly the sectors asked for, each once and in order, sector
  \<open>s + i\<close> with the \<open>i\<close>-th block of the caller's buffer; the buffer is unchanged and the number of sectors is
  returned.  The one exception is stated too: for a transfer of no sectors a single-block command is sent
  (the loop's body runs once), so one sector is written although 0 is returned.
\<close>

theorem write_covers_the_range_once:
  assumes "idle_host c" "mc_curDev c = Some mmc" "mc_ops c = Some ops" "mop_request ops = Some f" "accepts f"
    and "(unat s + max 1 (unat n)) * addr_unit mmc \<le> 2 ^ 32"
  shows "\<exists>c' t. MmcDeviceWrite c buf s n = Some (sint n, buf, c') \<and> mc_trace c' = mc_trace c @ t \<and>
    trace_written (addr_unit mmc) t = map (\<lambda>i. (unat s + i, block_at buf i)) [0..<max 1 (unat n)]"
  using write_loop_covers [OF assms(1-5) _ _ _ assms(6), of "zero_MmcCmd\<lparr>cmd_data := Some zero_MmcData\<rparr>" zero_MmcData buf 0]
  by (auto simp: MmcDeviceWrite_def zero_MmcCmd_def zero_MmcData_def)

section \<open>A card\<close>

text \<open>
  The card keeps the block last written to each sector, blocks of zeros elsewhere; its host answers a request
  to read with the contents of the sectors.
\<close>

definition card_block :: "nat \<Rightarrow> mmc_event list \<Rightarrow> nat \<Rightarrow> bytes" where
  "card_block u t a = (case map_of (rev (trace_written u t)) a of None \<Rightarrow> replicate 512 0 | Some b \<Rightarrow> take 512 (b @ replicate 512 0))"

definition card_request :: "nat \<Rightarrow> mmc_event list \<Rightarrow> MmcCmd \<Rightarrow> int \<times> MmcCmd" where
  "card_request u t cmd = (0,
     if cmd_cmdCode cmd \<in> {READ_SINGLE_BLOCK, READ_MULTIPLE_BLOCK}
     then cmd\<lparr>cmd_data := map_option (\<lambda>d. d\<lparr>dat_dataBuffer := map_option (\<lambda>b.
         concat (map (\<lambda>i. card_block u t (first_sector u cmd + i)) [0..<cmd_blocks cmd]) @ drop (512 * cmd_blocks cmd) b)
         (dat_dataBuffer d)\<rparr>) (cmd_data cmd)\<rparr>
     else cmd)"

lemma accepts_card: "accepts (card_request u)"
  by (auto simp: accepts_def card_request_def data_error_def data_buffer_def split: option.splits)

lemma length_card_block [simp]: "length (card_block u t a) = 512"
  by (auto simp: card_block_def min_def split: option.splits)

lemma length_concat_blocks [simp]: "length (concat (map (\<lambda>i. card_block u t (g i)) [0..<k])) = 512 * k"
  by (induction k) simp_all

lemma trace_written_append: "trace_written u (t0 @ t) = trace_written u t0 @ trace_written u t"
  by (simp add: trace_written_def)

lemma card_block_append: "trace_written u t = [] \<Longrightarrow> card_block u (t0 @ t) a = card_block u t0 a"
  by (simp add: card_block_def trace_written_append)

lemma read_loop_reads:
  assumes "idle_host c" "mc_curDev c = Some mmc" "mc_ops c = Some ops" "mop_request ops = Some (card_request (addr_unit mmc))"
    and "cmd_data cmd = Some d" "dat_returnError d = 0" "cmd_returnError cmd = 0"
    and "(unat s + max 1 (unat n)) * addr_unit mmc \<le> 2 ^ 32" "pos \<le> length buf"
  shows "\<exists>c'. rw_loop False cmd buf pos s n c = Some (0, take pos buf @
      concat (map (\<lambda>i. card_block (addr_unit mmc) (mc_trace c) (unat s + i)) [0..<max 1 (unat n)]) @
      drop (pos + 512 * max 1 (unat n)) buf, c')"
  using assms
proof (induction "unat n" arbitrary: cmd d pos s n c buf rule: less_induct)
  case less
  note prems = less.prems
  define m where "m = (if n \<ge> MMC_MAX_SECTOR_NUM then MMC_MAX_SECTOR_NUM else n)"
  note size = chunk_size [OF m_def]
  let ?u = "addr_unit mmc"
  let ?k = "max 1 (unat m)"
  let ?blk = "\<lambda>i. card_block ?u (mc_trace c) (unat s + i)"
  obtain q qd cmd' d' c' where q: "cmd_data q = Some qd" "dat_blockNum qd = ucast m" "dat_dataBuffer qd = Some (drop pos buf)"
    "cmd_argument q = byte_or_sector mmc (ucast s)"
    "cmd_cmdCode q = (if False then if m > 1 then WRITE_MULTIPLE_BLOCK else WRITE_BLOCK
                      else if m > 1 then READ_MULTIPLE_BLOCK else READ_SINGLE_BLOCK)"
    and cmd': "cmd' = snd (card_request ?u (mc_trace c @ [EvDevPluged]) q)" "cmd_data cmd' = Some d'" "dat_returnError d' = 0" "cmd_returnError cmd' = 0"
    and c': "mc_trace c' = mc_trace c @ [EvDevPluged, EvRequest q]" "rest_of c' = rest_of c"
    and ch: "rw_chunk False cmd (drop pos buf) s m c =
      Some (0, case data_buffer cmd' of None \<Rightarrow> drop pos buf | Some b \<Rightarrow> b, cmd', c')"
    using chunk_accepted [OF prems(1-4) accepts_card prems(5-7), of m "drop pos buf" s False] by metis
  have u: "?u = 1 \<or> ?u = 512" by (simp add: addr_unit_def)
  have "Suc (unat s) * ?u \<le> (unat s + max 1 (unat n)) * ?u"
    by (intro mult_right_mono) simp_all
  then have first: "first_sector ?u q = unat s" using first_sector_of_command [OF q(4)] prems(8) by simp
  have blocks: "cmd_blocks q = max 1 (unat m)" by (rule cmd_blocks_of_chunk [OF size(3) q(5,1,2)])
  have none: "trace_written ?u [EvDevPluged, EvRequest q] = []" "trace_written ?u [EvDevPluged] = []"
    using q by (auto simp: trace_written_def)
  have "data_buffer cmd' = Some (concat (map ?blk [0..<?k]) @ drop (512 * ?k) (drop pos buf))"
    using q by (auto simp: cmd'(1) card_request_def data_buffer_def first blocks card_block_append none)
  then have buf: "data_buffer cmd' = Some (concat (map ?blk [0..<?k]) @ drop (pos + 512 * ?k) buf)"
    by (simp add: add.commute)
  define nb where "nb = take pos buf @ concat (map ?blk [0..<?k]) @ drop (pos + 512 * ?k) buf"
  have loop: "rw_loop False cmd buf pos s n c =
      (if n - m > 0 then rw_loop False cmd' nb (pos + unat m * BYTES_PER_BLOCK) (s + m) (n - m) c' else Some (0, nb, c'))"
    using rw_loop_chunk [OF m_def ch] unfolding buf nb_def by simp
  show ?case
  proof (cases "n - m > 0")
    case True
    have one: "max 1 (unat n) = unat n" "max 1 (unat m) = unat m" "max 1 (unat (n - m)) = unat (n - m)"
      using size(5) [OF True] size(1) True by (simp_all add: word_less_nat_alt)
    have small: "unat (n - m) < unat n" by (rule chunk_smaller [OF m_def True])
    have sm: "unat (s + m) = unat s + unat m"
    proof -
      have "unat s + unat m \<le> (unat s + unat n) * ?u" using size(1) u by auto
      then have "unat s + unat m < 2 ^ 64" using prems(8) one by simp
      then show ?thesis by (simp add: unat_word_ariths)
    qed
    have fit: "(unat (s + m) + max 1 (unat (n - m))) * ?u \<le> 2 ^ 32" using prems(8) size(1,4) sm one by simp
    have r: "mc_curDev c' = Some mmc" "mc_ops c' = Some ops" "idle_host c'"
      using rest_curDev [OF c'(2)] idle_rest [OF c'(2)] prems by simp_all
    have pos': "pos + unat m * BYTES_PER_BLOCK \<le> length nb" using prems(9) one(2) by (simp add: nb_def)
    from less.hyps [OF small r(3,1,2) prems(4) cmd'(2-4) fit pos']
    obtain c'' where t: "rw_loop False cmd' nb (pos + unat m * BYTES_PER_BLOCK) (s + m) (n - m) c' =
      Some (0, take (pos + unat m * BYTES_PER_BLOCK) nb @
        concat (map (\<lambda>i. card_block ?u (mc_trace c') (unat (s + m) + i)) [0..<unat (n - m)]) @
        drop (pos + unat m * BYTES_PER_BLOCK + 512 * unat (n - m)) nb, c'')" unfolding one by blast
    have 1: "take (pos + unat m * BYTES_PER_BLOCK) nb = take pos buf @ concat (map ?blk [0..<unat m])"
      using prems(9) one(2) by (simp add: nb_def)
    have 2: "drop (pos + unat m * BYTES_PER_BLOCK + 512 * unat (n - m)) nb = drop (pos + 512 * unat n) buf"
      using prems(9) size(1,4) one(2) by (simp add: nb_def algebra_simps)
    have 3: "concat (map ?blk [0..<unat n]) = concat (map ?blk [0..<unat m]) @
        concat (map (\<lambda>i. card_block ?u (mc_trace c') (unat (s + m) + i)) [0..<unat (n - m)])"
      unfolding upt_split [OF size(1), of ?blk] c'(1) by (simp add: card_block_append none sm size(4) add.assoc)
    show ?thesis using loop True t unfolding 1 2 one(1) 3 by simp
  next
    case False
    then have "unat m = unat n" by (rule size(6))
    then show ?thesis using False loop by (simp add: nb_def)
  qed
qed

text \<open>
  C12: What is written is read back.  On an idle host with a plugged card that keeps its blocks, sectors
  written by \<^verbatim>\<open>MmcDeviceWrite\<close> and read by \<^verbatim>\<open>MmcDeviceRead\<close>, in transfers of any number of sectors, come back as
  the bytes that were written; the rest of the reader's buffer is left as it was.  The range's addresses
  have to fit the 32 bits of a command's argument, in the card's unit, and the writer's buffer has to hold
  the blocks that are sent.  A transfer of no sectors counts as one of a single sector here: the code sends
  single-block commands for it, which overwrite one sector and 512 bytes of the reader's buffer.
\<close>

theorem written_sectors_read_back:
  assumes "idle_host c" "mc_curDev c = Some mmc" "mc_ops c = Some ops" "mop_request ops = Some (card_request (addr_unit mmc))"
    and "(unat s + max 1 (unat n)) * addr_unit mmc \<le> 2 ^ 32" "512 * max 1 (unat n) \<le> length buf"
  shows "\<exists>c1 c2. MmcDeviceWrite c buf s n = Some (sint n, buf, c1) \<and>
    MmcDeviceRead c1 buf2 s n = Some (sint n, take (512 * max 1 (unat n)) buf @ drop (512 * max 1 (unat n)) buf2, c2)"
proof -
  let ?u = "addr_unit mmc" and ?n = "max 1 (unat n)" and ?cmd = "zero_MmcCmd\<lparr>cmd_data := Some zero_MmcData\<rparr>"
  have z: "cmd_data ?cmd = Some zero_MmcData" "dat_returnError zero_MmcData = 0" "cmd_returnError ?cmd = 0"
    by (simp_all add: zero_MmcCmd_def zero_MmcData_def)
  obtain c1 t where w: "rw_loop True ?cmd buf 0 s n c = Some (0, buf, c1)" "rest_of c1 = rest_of c" "mc_trace c1 = mc_trace c @ t"
    and tr: "trace_written ?u t = map (\<lambda>i. (unat s + i, block_at buf i)) [0..<?n]"
    using write_loop_covers [OF assms(1-4) accepts_card z assms(5), of buf 0] by auto
  have r: "mc_curDev c1 = Some mmc" "mc_ops c1 = Some ops" "idle_host c1"
    using rest_curDev [OF w(2)] idle_rest [OF w(2)] assms by simp_all
  have blk: "card_block ?u (mc_trace c1) (unat s + i) = block_at buf i" if "i < ?n" for i
  proof -
    have "map_of (rev (trace_written ?u t)) (unat s + i) = Some (block_at buf i)"
      unfolding tr by (rule map_of_is_SomeI) (use that in \<open>auto simp: rev_map [symmetric] distinct_map inj_on_def\<close>)
    moreover have "length (block_at buf i) = 512" using that assms(6) by (simp add: block_at_def)
    ultimately show ?thesis by (simp add: card_block_def w(3) trace_written_append map_add_def)
  qed
  have "concat (map (\<lambda>i. block_at buf i) [0..<k]) = take (512 * k) buf" if "512 * k \<le> length buf" for k
    using that by (induction k) (simp_all add: block_at_def flip: take_add, simp add: add.commute)
  note all = this
  have all: "concat (map (\<lambda>i. card_block ?u (mc_trace c1) (unat s + i)) [0..<?n]) = take (512 * ?n) buf"
    unfolding all [OF assms(6), symmetric] by (rule arg_cong [where f=concat]) (auto intro: blk)
  obtain c2 where "rw_loop False ?cmd buf2 0 s n c1 = Some (0, take (512 * ?n) buf @ drop (512 * ?n) buf2, c2)"
    using read_loop_reads [OF r(3,1,2) assms(4) z assms(5), of 0 buf2] all by auto
  then show ?thesis using w(1) by (simp add: MmcDeviceWrite_def MmcDeviceRead_def)
qed


definition demo_host :: "(mmc_event list \<Rightarrow> MmcCmd \<Rightarrow> int \<times> MmcCmd) \<Rightarrow> MmcCntlr" where
  "demo_host f = demo_cntlr\<lparr>mc_curDev := Some zero_MmcDevice, mc_ops := Some (demo_ops\<lparr>mop_request := Some f\<rparr>)\<rparr>"

lemma demo_host_idle:
  "idle_host (demo_host f)" "mc_curDev (demo_host f) = Some zero_MmcDevice"
  "mc_ops (demo_host f) = Some (demo_ops\<lparr>mop_request := Some f\<rparr>)" "addr_unit zero_MmcDevice = 512"
  by (simp_all add: idle_host_def demo_host_def demo_cntlr_def demo_ops_def addr_unit_def zero_MmcDevice_def zero_MmcDevState_def)

theorem refused_command_reported_as_success_witness:
  "\<exists>c'. MmcSendCmd (demo_host (\<lambda>_ cmd. (-1, cmd))) zero_MmcCmd None 3 = (0, zero_MmcCmd\<lparr>cmd_data := None\<rparr>, c')"
  using refused_command_reported_as_success [OF demo_host_idle(3) [of "\<lambda>_ cmd. (-1, cmd)"], where f="\<lambda>_. -1" and n=3 and cmd=zero_MmcCmd and data=None]
  by (auto simp: zero_MmcCmd_def)

theorem queued_transfer_reports_success_witness:
  "\<exists>b c'. MmcDeviceWrite (demo_host (\<lambda>_ cmd. (-1, cmd))) [] 7 5000 = Some (5000, b, c')"
  using queued_transfer_reports_success [OF demo_host_idle(1), of "\<lambda>_ cmd. (-1, cmd)" "[]" 7 5000] by simp

theorem write_covers_the_range_once_witness:
  "\<exists>c' t. MmcDeviceWrite (demo_host demo_request) (replicate 2560000 1) 7 5000 = Some (5000, replicate 2560000 1, c') \<and>
    mc_trace c' = t \<and> trace_written 512 t = map (\<lambda>i. (7 + i, block_at (replicate 2560000 1) i)) [0..<5000]"
proof -
  have "accepts demo_request" by (simp add: accepts_def demo_request_def data_error_def data_buffer_def)
  from write_covers_the_range_once [OF demo_host_idle(1-3) [of demo_request] _ this, where n=5000 and s=7 and buf="replicate 2560000 1"]
  show ?thesis by (simp add: demo_host_idle(4)) (simp add: demo_host_def demo_cntlr_def)
qed

theorem written_sectors_read_back_witness:
  "\<exists>c1 c2. MmcDeviceWrite (demo_host (card_request 512)) (replicate 2560000 1) 7 5000 = Some (5000, replicate 2560000 1, c1) \<and>
    MmcDeviceRead c1 (replicate 2560001 0) 7 5000 = Some (5000, replicate 2560000 1 @ [0], c2)"
  using written_sectors_read_back [OF demo_host_idle(1-3) [of "card_request 512"],
      where n=5000 and s=7 and buf="replicate 2560000 1" and ?buf2.0="replicate 2560001 0"]
  by (simp add: demo_host_idle(4))

section \<open>Switching a mode\<close>

lemma rest_send_loop: "send_loop n cmd c = (cmd', c') \<Longrightarrow> rest_of c' = rest_of c"
  by (induction n cmd c rule: send_loop.induct) (auto split: prod.splits if_splits dest!: rest_DoRequest)

lemma rest_SendCmd: "MmcSendCmd c cmd d n = (e, cmd', c') \<Longrightarrow> rest_of c' = rest_of c"
  by (auto simp: MmcSendCmd_def Let_def split: prod.splits if_splits dest!: rest_send_loop)

lemma rest_SendStatus: "MmcSendStatus c = Some (e, s, c') \<Longrightarrow> rest_of c' = rest_of c"
  by (auto simp: MmcSendStatus_def run_iff elim!: run_E dest!: rest_SendCmd)

lemma switch_wait_without_devBusy:
  "switch_wait_loop c = Some r \<Longrightarrow> mc_ops c = Some ops \<longrightarrow> mop_devBusy ops = None \<longrightarrow> fst r \<noteq> 0"
proof (erule switch_wait_loop.raw_induct [rotated], goal_cases)
  case (1 self c r)
  then obtain e s c1 where st: "MmcSendStatus c = Some (e, s, c1)" by (auto simp: run_iff)
  show ?case
  proof (intro impI)
    assume ops: "mc_ops c = Some ops" "mop_devBusy ops = None"
    then have "mc_ops c1 = Some ops" using rest_curDev [OF rest_SendStatus [OF st]] by simp
    then show "fst r \<noteq> 0" using 1(2) st 1(1) ops by (auto simp: MmcCntlrDevBusy_def Let_def split: if_splits)
  qed
qed

text \<open>
  C26: Switching a mode of an eMMC device.  \<^verbatim>\<open>MmcSwitch\<close> waits until the host says that the device is no longer
  busy; a host without that method is taken to say that it always is.  So with such a host no switch ever
  succeeds: either a command fails, or the loop does not end.
\<close>

theorem switch_needs_the_busy_method:
  assumes "mc_ops c = Some ops" and "mop_devBusy ops = None"
  shows "MmcSwitch c cmdSet index val \<noteq> Some (0, c')"
proof
  assume s: "MmcSwitch c cmdSet index val = Some (0, c')"
  then obtain cmd cmd' c1 st' c2 where cmd: "MmcSendCmd c cmd None 3 = (0, cmd', c1)"
    and loop: "switch_wait_loop c1 = Some (0, st', c2)"
    by (auto simp: MmcSwitch_def Let_def run_iff split: prod.splits if_splits)
  have "mc_ops c1 = Some ops" using rest_curDev [OF rest_SendCmd [OF cmd]] assms by simp
  then show False using switch_wait_without_devBusy [OF loop, of ops] assms(2) by simp
qed

theorem switch_needs_the_busy_method_witness:
  "\<forall>c'. MmcSwitch (demo_host demo_request) 0 175 1 \<noteq> Some (0, c')"
  by (intro allI switch_needs_the_busy_method [OF demo_host_idle(3)]) (simp add: demo_ops_def)

end
