(* ===== verification/Mmc_SdioSpec.thy ===== *)
theory Mmc_SdioSpec
  imports Mmc_Transfer
begin

text \<open>
  The common control registers of an SDIO card, for a card that is a file of registers: a direct write sets one
  byte, a direct read delivers it.  The registers that enable the functions and their interrupts are sets of
  functions, and the operations on them are operations on these sets.
\<close>

section \<open>A card of registers\<close>

type_synonym regs = "uint32_t \<times> uint32_t \<Rightarrow> uint8_t"

definition reg_key :: "uint32_t \<Rightarrow> uint32_t \<times> uint32_t" where
  "reg_key arg = (drop_bit 28 arg AND 7, drop_bit 9 arg AND 0x1FFFF)"

fun reg_effect :: "mmc_event \<Rightarrow> regs \<Rightarrow> regs" where
  "reg_effect (EvRequest cmd) R =
     (if cmd_cmdCode cmd = SDIO_RW_DIRECT \<and> bit (cmd_argument cmd) 31
      then R(reg_key (cmd_argument cmd) := ucast (cmd_argument cmd)) else R)"
| "reg_effect _ R = R"

definition card_regs :: "regs \<Rightarrow> mmc_event list \<Rightarrow> regs" where
  "card_regs R0 t = fold reg_effect t R0"

definition reg_request :: "regs \<Rightarrow> mmc_event list \<Rightarrow> MmcCmd \<Rightarrow> int \<times> MmcCmd" where
  "reg_request R0 t cmd = (0, if cmd_cmdCode cmd = SDIO_RW_DIRECT
     then cmd\<lparr>cmd_resp := (cmd_resp cmd)[0 := ucast (card_regs R0 (t @ [EvRequest cmd]) (reg_key (cmd_argument cmd)))]\<rparr> else cmd)"

definition reg_card :: "regs \<Rightarrow> MmcCntlr \<Rightarrow> bool" where
  "reg_card R0 c \<longleftrightarrow> (\<exists>ops. mc_ops c = Some ops \<and> mop_request ops = Some (reg_request R0))"

lemma card_regs_snoc: "card_regs R0 (t @ [e]) = reg_effect e (card_regs R0 t)"
  by (simp add: card_regs_def)

lemma reg_card_rest: "rest_of c' = rest_of c \<Longrightarrow> reg_card R0 c' = reg_card R0 c"
  using rest_curDev [of c' c] by (auto simp: reg_card_def)

section \<open>One register\<close>

definition direct_arg :: "bool \<Rightarrow> uint32_t \<Rightarrow> uint8_t \<Rightarrow> uint32_t" where
  "direct_arg w addr v = (if w then 0x80000000 else 0) OR push_bit 28 0 OR push_bit 9 addr OR ucast v"

lemma bit_direct:
  "bit (direct_arg w addr v) k \<longleftrightarrow> w \<and> k = 31 \<or> k < 32 \<and> 9 \<le> k \<and> bit addr (k - 9) \<or> bit v k"
proof -
  have "bit (0x80000000 :: uint32_t) k \<longleftrightarrow> k = 31" using bit_exp_iff [where 'a=uint32_t, of 31 k] by auto
  then show ?thesis by (auto simp: direct_arg_def bit_simps dest: bit_imp_le_length)
qed

lemma addr_bits: "addr \<le> 0x1FFFF \<Longrightarrow> bit (addr :: uint32_t) k \<Longrightarrow> k < 17"
proof -
  assume "addr \<le> 0x1FFFF" and b: "bit addr k"
  then have "unat addr < 2 ^ 17" by (simp add: word_le_nat_alt)
  then have "take_bit 17 addr = addr" by (simp add: unat_arith_simps take_bit_eq_mod unat_mod)
  then have "bit (take_bit 17 addr) k" using b by simp
  then show "k < 17" by (simp add: bit_take_bit_iff)
qed

lemma key_direct_arg: "addr \<le> 0x1FFFF \<Longrightarrow> reg_key (direct_arg w addr v) = (0, addr)"
proof -
  assume a: "addr \<le> 0x1FFFF"
  have m: "(7 :: uint32_t) = mask 3" "(0x1FFFF :: uint32_t) = mask 17" by (simp_all add: mask_eq_exp_minus_1)
  have v: "\<not> bit v k" if "8 \<le> k" for k using that bit_imp_le_length [of v k] by auto
  have "drop_bit 28 (direct_arg w addr v) AND mask 3 = 0"
    by (rule bit_word_eqI) (auto simp: bit_simps bit_direct v dest: addr_bits [OF a])
  moreover have "drop_bit 9 (direct_arg w addr v) AND mask 17 = addr"
    by (rule bit_word_eqI) (auto simp: bit_simps bit_direct v dest: addr_bits [OF a])
  ultimately show ?thesis unfolding reg_key_def m by simp
qed

lemma bit_direct_arg: "addr \<le> 0x1FFFF \<Longrightarrow> bit (direct_arg w addr v) 31 = w"
  using bit_imp_le_length [of v 31] by (auto simp: bit_direct dest: addr_bits)

lemma ucast_direct_arg: "ucast (direct_arg w addr v) = v"
  by (rule bit_word_eqI) (auto simp: bit_simps bit_direct)

lemma answered_r5:
  fixes b :: uint8_t
  shows "ucast b AND (0xFF :: uint32_t) = ucast b" "ucast b AND (0x0800 :: uint32_t) = 0"
    "ucast b AND (0x0100 :: uint32_t) = 0" "ucast b AND (0x0200 :: uint32_t) = 0"
proof -
  have v: "\<not> bit b k" if "8 \<le> k" for k using that bit_imp_le_length [of b k] by auto
  have high: "ucast b AND x = 0" if "\<And>k. bit x k \<Longrightarrow> 8 \<le> k" for x :: uint32_t
    by (rule bit_word_eqI) (auto simp: bit_simps v dest: that)
  show "ucast b AND (0x0800 :: uint32_t) = 0"
    by (rule high) (use bit_exp_iff [where 'a=uint32_t, of 11] in simp)
  show "ucast b AND (0x0100 :: uint32_t) = 0"
    by (rule high) (use bit_exp_iff [where 'a=uint32_t, of 8] in simp)
  show "ucast b AND (0x0200 :: uint32_t) = 0"
    by (rule high) (use bit_exp_iff [where 'a=uint32_t, of 9] in simp)
  have "(0xFF :: uint32_t) = mask 8" by (simp add: mask_eq_exp_minus_1)
  moreover have "ucast b AND mask 8 = (ucast b :: uint32_t)"
    by (rule bit_word_eqI) (auto simp: bit_simps v not_le [symmetric])
  ultimately show "ucast b AND (0xFF :: uint32_t) = ucast b" by simp
qed

lemma direct_on_card:
  assumes "reg_card R0 c" and "addr \<le> 0x1FFFF"
  shows "\<exists>c' b. SdioRwDirect c (zero_SdioCmdParam\<lparr>scp_regAddr := addr, scp_writeflag := w, scp_writeData := v\<rparr>) = Some (0, Some b, c') \<and>
    rest_of c' = rest_of c \<and>
    (if w then card_regs R0 (mc_trace c') = (card_regs R0 (mc_trace c))((0, addr) := v)
     else b = card_regs R0 (mc_trace c) (0, addr) \<and> card_regs R0 (mc_trace c') = card_regs R0 (mc_trace c))"
proof -
  obtain ops where ops: "mc_ops c = Some ops" "mop_request ops = Some (reg_request R0)"
    using assms(1) by (auto simp: reg_card_def)
  define q where "q = (mk_cmd SDIO_RW_DIRECT (direct_arg w addr v) (MMC_RESP_SPI_R5 OR MMC_RESP_R5 OR MMC_CMD_TYPE_AC))"
  have q: "cmd_cmdCode q = SDIO_RW_DIRECT" "cmd_argument q = direct_arg w addr v" "cmd_data q = None" "cmd_returnError q = 0"
    "cmd_resp q = [0, 0, 0, 0]"
    by (simp_all add: q_def mk_cmd_def zero_MmcCmd_def numeral_eq_Suc)
  define b where "b = card_regs R0 (mc_trace c @ [EvRequest q]) (0, addr)"
  have r: "reg_request R0 (mc_trace c) q = (0, q\<lparr>cmd_resp := [ucast b, 0, 0, 0]\<rparr>)"
    using q by (simp add: reg_request_def b_def key_direct_arg [OF assms(2)])
  have same: "q\<lparr>cmd_data := None\<rparr> = q" using q(3) by (cases q) simp
  have "MmcSendCmd c q None 1 = (0, q\<lparr>cmd_resp := [ucast b, 0, 0, 0]\<rparr>, mc_log (EvRequest q) c)"
    using ops q r by (simp add: MmcSendCmd_def has_method_def MmcCntlrDoRequest_def answered_cmd_def data_error_def same)
  moreover have "SdioRespR5Check (q\<lparr>cmd_resp := [ucast b, 0, 0, 0]\<rparr>) = Some 0"
    using answered_r5 [of b] by (simp add: SdioRespR5Check_def resp0_def arr_get_def)
  moreover have "ucast (ucast b :: uint32_t) = b" by (rule bit_word_eqI) (auto simp: bit_simps)
  ultimately have run: "SdioRwDirect c (zero_SdioCmdParam\<lparr>scp_regAddr := addr, scp_writeflag := w, scp_writeData := v\<rparr>) =
      Some (0, Some b, mc_log (EvRequest q) c)"
    by (cases w) (simp_all add: SdioRwDirect_def zero_SdioCmdParam_def direct_arg_def q_def resp0_def arr_get_def answered_r5)
  show ?thesis
    by (intro exI, rule conjI, rule run)
       (simp add: rest_of_def mc_log_def card_regs_snoc b_def q key_direct_arg [OF assms(2)] bit_direct_arg [OF assms(2)] ucast_direct_arg)
qed

lemma modify_register_on_card:
  assumes "reg_card R0 c" and "addr \<le> 0x1FFFF"
  shows "\<exists>c'. modify_register c addr f = Some (0, c') \<and> rest_of c' = rest_of c \<and>
    card_regs R0 (mc_trace c') = (card_regs R0 (mc_trace c))((0, addr) := f (card_regs R0 (mc_trace c) (0, addr)))"
proof -
  obtain c1 b where rd: "SdioRwDirect c (zero_SdioCmdParam\<lparr>scp_regAddr := addr, scp_writeflag := False, scp_writeData := 0\<rparr>) = Some (0, Some b, c1)"
    "rest_of c1 = rest_of c" "b = card_regs R0 (mc_trace c) (0, addr)" "card_regs R0 (mc_trace c1) = card_regs R0 (mc_trace c)"
    using direct_on_card [OF assms, where w=False and v=0] by auto
  have z: "zero_SdioCmdParam\<lparr>scp_regAddr := addr, scp_writeflag := False, scp_writeData := 0\<rparr> = zero_SdioCmdParam\<lparr>scp_regAddr := addr\<rparr>"
    by (simp add: zero_SdioCmdParam_def)
  obtain c2 b2 where wr: "SdioRwDirect c1 (zero_SdioCmdParam\<lparr>scp_regAddr := addr, scp_writeflag := True, scp_writeData := f b\<rparr>) = Some (0, Some b2, c2)"
    "rest_of c2 = rest_of c1" "card_regs R0 (mc_trace c2) = (card_regs R0 (mc_trace c1))((0, addr) := f b)"
    using direct_on_card [OF _ assms(2), where c=c1 and ?R0.0=R0 and w=True and v="f b"] reg_card_rest [OF rd(2)] assms(1) by auto
  show ?thesis
    using rd wr unfolding z by (simp add: modify_register_def with_register_def write_register_def)
qed


section \<open>The functions of a card\<close>

text \<open>The function the device works on, and a register that stands for the set of its bits.\<close>

definition on_function :: "nat \<Rightarrow> MmcCntlr \<Rightarrow> bool" where
  "on_function n c \<longleftrightarrow> mc_curDev c \<noteq> None \<and> (\<exists>i. sdio_of sdio_curFunction c = Some (Some i)) \<and>
     (\<exists>func. cur_function c = Some func \<and> unat (sfn_funcNum func) = n)"

definition only_differs_at :: "uint32_t \<Rightarrow> regs \<Rightarrow> regs \<Rightarrow> bool" where
  "only_differs_at a R R' \<longleftrightarrow> (\<forall>k. k \<noteq> (0, a) \<longrightarrow> R' k = R k)"

lemma for_cur_function_mask:
  assumes "on_function n c" and "n < 8"
  obtains m :: uint8_t where "\<And>k. bit m k \<longleftrightarrow> k = n" "\<And>f. for_cur_function c f = f m"
proof -
  obtain func i d where f: "mc_curDev c = Some d" "sdio_of sdio_curFunction c = Some (Some i)" "cur_function c = Some func"
    "unat (sfn_funcNum func) = n" using assms(1) by (auto simp: on_function_def)
  have lt: "sfn_funcNum func < 32" using f(4) assms(2) by (simp add: word_less_nat_alt)
  have "bit (ucast (push_bit n 1 :: uint32_t) :: uint8_t) k \<longleftrightarrow> k = n" for k
    using assms(2) by (auto simp: bit_simps)
  moreover have "for_cur_function c g = g (ucast (push_bit n 1 :: uint32_t))" for g
    using f lt by (simp add: for_cur_function_def shl32_def)
  ultimately show thesis by (rule that)
qed

definition refines_set :: "regs \<Rightarrow> uint32_t \<Rightarrow> (nat set \<Rightarrow> nat set) \<Rightarrow> (MmcCntlr \<Rightarrow> (int \<times> MmcCntlr) option) \<Rightarrow> MmcCntlr \<Rightarrow> bool" where
  "refines_set R0 a g f c \<longleftrightarrow> (\<exists>c'. f c = Some (0, c') \<and> rest_of c' = rest_of c \<and>
     only_differs_at a (card_regs R0 (mc_trace c)) (card_regs R0 (mc_trace c')) \<and>
     {n. bit (card_regs R0 (mc_trace c') (0, a)) n} = g {n. bit (card_regs R0 (mc_trace c) (0, a)) n})"

lemma refines_setI:
  assumes "reg_card R0 c" "a \<le> 0x1FFFF" "f c = modify_register c a h"
    and "\<And>v. {n. bit (h v) n} = g {n. bit v n}"
  shows "refines_set R0 a g f c"
  using modify_register_on_card [OF assms(1,2), of h] assms(3,4)
  by (auto simp: refines_set_def only_differs_at_def)

lemma bit8: "bit (v :: uint8_t) k \<Longrightarrow> k < 8"
  using bit_imp_le_length [of v k] by simp

lemma only_master_left:
  fixes v m :: uint8_t
  assumes "\<And>k. bit m k \<longleftrightarrow> k = n"
  shows "(v AND NOT m) AND 0xFE = 0 \<longleftrightarrow> {k. bit v k} \<subseteq> {0, n}"
proof -
  have "(0xFE :: uint8_t) = NOT 1" by simp
  then have fe: "bit (0xFE :: uint8_t) k \<longleftrightarrow> k < 8 \<and> k \<noteq> 0" for k by (simp only: bit_not_iff) (auto simp: bit_simps)
  have "(v AND NOT m) AND 0xFE = 0 \<longleftrightarrow> (\<forall>k. \<not> bit ((v AND NOT m) AND 0xFE) k)"
    unfolding bit_eq_iff [where 'a=uint8_t] bit_0_eq using bit8 [of "(v AND NOT m) AND 0xFE"] by auto
  then show ?thesis by (simp only: bit_and_iff bit_not_iff fe assms) (auto simp: bit_simps dest: bit8)
qed

text \<open>
  C13: The functions of an SDIO card.  On a card of registers, enabling and disabling the function the device
  works on, and its interrupt, are operations on sets of functions: enabling adds this function and no other;
  disabling removes it; enabling its interrupt adds the function and the master bit; disabling its interrupt
  removes it, and the master bit with the last one.  No other register of the card changes.
\<close>

theorem sdio_control_refines_sets:
  assumes "reg_card R0 c" and "on_function n c" and "0 < n" "n < 8"
  shows "refines_set R0 IO_ENABLE (insert n) SdioCccrIoEnable c \<and>
    refines_set R0 IO_ENABLE (\<lambda>S. S - {n}) SdioCccrIoDisable c \<and>
    refines_set R0 INT_ENABLE (\<lambda>S. insert 0 (insert n S)) SdioCccrIntEnable c \<and>
    refines_set R0 INT_ENABLE (\<lambda>S. if S \<subseteq> {0, n} then {} else S - {n}) SdioCccrIntDisable c"
proof (intro conjI)
  obtain m :: uint8_t where m: "\<And>k. bit m k \<longleftrightarrow> k = n" "\<And>f. for_cur_function c f = f m"
    using for_cur_function_mask [OF assms(2,4)] by metis
  show "refines_set R0 IO_ENABLE (insert n) SdioCccrIoEnable c"
    by (rule refines_setI [OF assms(1)]) (auto simp: SdioCccrIoEnable_def m bit_simps)
  show "refines_set R0 IO_ENABLE (\<lambda>S. S - {n}) SdioCccrIoDisable c"
    by (rule refines_setI [OF assms(1)]) (auto simp: SdioCccrIoDisable_def m bit_simps dest: bit8)
  show "refines_set R0 INT_ENABLE (\<lambda>S. insert 0 (insert n S)) SdioCccrIntEnable c"
    by (rule refines_setI [OF assms(1)]) (auto simp: SdioCccrIntEnable_def m bit_simps)
  show "refines_set R0 INT_ENABLE (\<lambda>S. if S \<subseteq> {0, n} then {} else S - {n}) SdioCccrIntDisable c"
  proof (rule refines_setI [OF assms(1), where h="\<lambda>val. let val = val AND NOT m in if val AND 0xFE = 0 then 0 else val"], goal_cases)
    case (3 v)
    show ?case
    proof (cases "{k. bit v k} \<subseteq> {0, n}")
      case False
      then show ?thesis using only_master_left [OF m(1), of v] by (auto simp: Let_def m bit_simps dest: bit8)
    qed (simp add: Let_def only_master_left [OF m(1)])
  qed (simp_all add: SdioCccrIntDisable_def m)
qed

definition demo_sdio :: MmcCntlr where
  "demo_sdio = (demo_host (reg_request (\<lambda>_. 0x81)))\<lparr>mc_curDev := Some (zero_MmcDevice\<lparr>dev_type := MMC_DEV_SDIO,
     dev_sdio := Some (zero_SdioPart\<lparr>sdio_curFunction := Some 0,
       sdio_sdioFunc := [Some (zero_SdioFunction\<lparr>sfn_funcNum := 1\<rparr>), None, None, None, None, None, None]\<rparr>)\<rparr>)\<rparr>"

theorem sdio_control_refines_sets_witness:
  "refines_set (\<lambda>_. 0x81) IO_ENABLE (insert 1) SdioCccrIoEnable demo_sdio"
proof -
  have "reg_card (\<lambda>_. 0x81) demo_sdio" by (simp add: reg_card_def demo_sdio_def demo_host_def)
  moreover have "on_function 1 demo_sdio"
    by (simp add: on_function_def demo_sdio_def sdio_of_def cur_function_def arr_get_def zero_SdioPart_def zero_SdioFunction_def zero_MmcDevice_def)
  ultimately show ?thesis using sdio_control_refines_sets [of "\<lambda>_. 0x81" demo_sdio 1] by simp
qed

end
