(* ===== verification/Mmc_Erase.thy ===== *)
theory Mmc_Erase
  imports Mmc_Transfer
begin

text \<open>
  Which erase groups \<^verbatim>\<open>MmcSendErase\<close> asks an eMMC device to erase, for a host that answers every command.
\<close>

definition answers :: "(mmc_event list \<Rightarrow> MmcCmd \<Rightarrow> int \<times> MmcCmd) \<Rightarrow> bool" where
  "answers f \<longleftrightarrow> (\<forall>t q. \<exists>r. r \<noteq> [] \<and> f t q = (0, q\<lparr>cmd_resp := r\<rparr>))"

definition answering :: "MmcCntlr \<Rightarrow> bool" where
  "answering c \<longleftrightarrow> (\<exists>ops f. mc_ops c = Some ops \<and> mop_request ops = Some f \<and> answers f)"

lemma answering_rest: "rest_of c' = rest_of c \<Longrightarrow> answering c' = answering c"
  using rest_curDev [of c' c] by (auto simp: answering_def)

lemma send_answered:
  assumes "answering c" and "cmd_returnError q = 0" "cmd_data q = None" and "n > 0"
  obtains r where "r \<noteq> []" "MmcSendCmd c q None n = (0, q\<lparr>cmd_resp := r\<rparr>, mc_log (EvRequest q) c)"
proof -
  obtain ops f where ops: "mc_ops c = Some ops" "mop_request ops = Some f" "answers f"
    using assms(1) by (auto simp: answering_def)
  then obtain r where r: "r \<noteq> []" "f (mc_trace c) q = (0, q\<lparr>cmd_resp := r\<rparr>)" unfolding answers_def by meson
  have same: "q\<lparr>cmd_data := None\<rparr> = q" using assms(3) by (cases q) simp
  obtain k where k: "n = Suc k" using assms(4) by (cases n) auto
  have "MmcSendCmd c q None n = (0, q\<lparr>cmd_resp := r\<rparr>, mc_log (EvRequest q) c)"
    using ops r assms by (simp add: k MmcSendCmd_def has_method_def MmcCntlrDoRequest_def answered_cmd_def data_error_def same)
  with r(1) show thesis by (rule that)
qed

lemma mk_cmd_clean [simp]: "cmd_returnError (mk_cmd code arg rt) = 0" "cmd_data (mk_cmd code arg rt) = None"
  "cmd_argument (mk_cmd code arg rt) = arg" "cmd_cmdCode (mk_cmd code arg rt) = code"
  by (simp_all add: mk_cmd_def zero_MmcCmd_def)

lemma status_answered:
  assumes "answering c" and "mc_curDev c = Some d"
  shows "\<exists>s c' t. MmcSendStatus c = Some (0, s, c') \<and> rest_of c' = rest_of c \<and> mc_trace c' = mc_trace c @ t"
proof -
  let ?q = "mk_cmd SEND_STATUS (push_bit 16 (reg_rca (dev_reg d))) (MMC_RESP_SPI_R2 OR MMC_RESP_R1 OR MMC_CMD_TYPE_AC)"
  obtain r where "r \<noteq> []" "MmcSendCmd c ?q None MMC_CMD_DEFAULT_RETRY_TIMES = (0, ?q\<lparr>cmd_resp := r\<rparr>, mc_log (EvRequest ?q) c)"
    using send_answered [OF assms(1), of ?q MMC_CMD_DEFAULT_RETRY_TIMES] by auto
  then show ?thesis using assms(2) by (simp add: MmcSendStatus_def resp0_def arr_get_def rest_of_def mc_log_def)
qed

lemma wait_ready_answered:
  assumes "answering c" and "mc_curDev c = Some d"
  shows "\<exists>r c' t. wait_ready_loop n c = Some (r, c') \<and> mc_trace c' = mc_trace c @ t"
  using assms
proof (induction n arbitrary: c)
  case (0 c)
  then show ?case using status_answered [OF 0] by (subst wait_ready_loop.simps) auto
next
  case (Suc n c)
  obtain s c1 t where s: "MmcSendStatus c = Some (0, s, c1)" "rest_of c1 = rest_of c" "mc_trace c1 = mc_trace c @ t"
    using status_answered [OF Suc.prems] by blast
  obtain r c2 t2 where "wait_ready_loop n c1 = Some (r, c2)" "mc_trace c2 = mc_trace c1 @ t2"
    using Suc.IH [of c1] answering_rest [OF s(2)] rest_curDev [OF s(2)] Suc.prems by auto
  then show ?case using s by (subst wait_ready_loop.simps) auto
qed

lemma unat_size_t: "unat (ucast (x :: uint32_t) :: size_t) = unat x"
proof -
  have "unat x < 2 ^ 32" using unsigned_less [of x] by simp
  then show ?thesis by (simp add: unsigned_ucast_eq take_bit_nat_eq_self)
qed

lemma align_of_whole_groups:
  assumes "mc_curDev c = Some d" "dev_eraseSize d \<noteq> 0" "unat (dev_eraseSize d) dvd unat s" "unat (dev_eraseSize d) dvd unat n" "n \<noteq> 0"
  shows "MmcAlignEraseSize c s e n = Some (0, s, s + n)"
proof -
  have z: "ucast x mod dev_eraseSize d = 0" if "unat (dev_eraseSize d) dvd unat x" for x :: uint32_t
    using that by (simp add: word_arith_nat_mod unat_size_t)
  show ?thesis using assms(1,2,5) z [OF assms(3)] z [OF assms(4)] by (simp add: MmcAlignEraseSize_def dev_of_def Let_def)
qed

lemma first_sector_word:
  assumes "cmd_argument q = byte_or_sector d s" and "Suc (unat s) * addr_unit d \<le> 2 ^ 32"
  shows "first_sector (addr_unit d) q = unat s"
proof -
  have "ucast (ucast s :: size_t) = s" by (rule bit_word_eqI) (auto simp: bit_simps)
  then show ?thesis using first_sector_of_command [of q d "ucast s"] assms by (simp add: unat_size_t)
qed

text \<open>The groups between the addresses of the two commands that bound an erase.\<close>

definition groups_between :: "MmcDevice \<Rightarrow> MmcCmd \<Rightarrow> MmcCmd \<Rightarrow> nat set" where
  "groups_between d a b = (let e = unat (dev_eraseSize d); u = addr_unit d in {first_sector u a div e .. first_sector u b div e})"

text \<open>
  C24: Erasing.  Asked to erase whole erase groups of an eMMC device, \<^verbatim>\<open>MmcSendErase\<close> sends as the last
  address of the range the address behind it.  The device erases the groups of both addresses and what lies
  between them, so the group behind the range is erased as well.
\<close>

theorem erase_reaches_the_next_group:
  assumes "answering c" "mc_curDev c = Some d" "dev_type d = MMC_DEV_EMMC"
    and "dev_eraseSize d \<noteq> 0" "csd_ccc (reg_csd (dev_reg d)) AND MMC_CSD_CCC_ERASE \<noteq> 0"
    and "unat (dev_eraseSize d) dvd unat s" "unat (dev_eraseSize d) dvd unat n" "n \<noteq> 0"
    and "Suc (unat s + unat n) * addr_unit d \<le> 2 ^ 32"
  shows "\<exists>r c' a b q t. MmcSendErase c s n = Some (r, c') \<and>
    mc_trace c' = mc_trace c @ [EvRequest a, EvRequest b, EvRequest q] @ t \<and>
    cmd_cmdCode a = ERASE_GROUP_START \<and> cmd_cmdCode b = ERASE_GROUP_END \<and> cmd_cmdCode q = MMC_ERASE \<and>
    groups_between d a b =
      insert ((unat s + unat n) div unat (dev_eraseSize d)) {unat s div unat (dev_eraseSize d) ..< (unat s + unat n) div unat (dev_eraseSize d)}"
proof -
  let ?ac = "MMC_RESP_R1 OR MMC_CMD_TYPE_AC"
  define a where "a = mk_cmd ERASE_GROUP_START (byte_or_sector d s) ?ac"
  define b where "b = mk_cmd ERASE_GROUP_END (byte_or_sector d (s + n)) ?ac"
  define q where "q = mk_cmd MMC_ERASE 0 ?ac"
  have send: "\<exists>c2 cmd'. MmcSendCmd c1 x None 1 = (0, cmd', c2) \<and> rest_of c2 = rest_of c1 \<and> mc_trace c2 = mc_trace c1 @ [EvRequest x]"
    if "rest_of c1 = rest_of c" "x \<in> {a, b, q}" for c1 x
  proof -
    have "answering c1" "cmd_returnError x = 0" "cmd_data x = None"
      using answering_rest [OF that(1)] assms(1) that(2) by (auto simp: a_def b_def q_def)
    then obtain r where "MmcSendCmd c1 x None 1 = (0, x\<lparr>cmd_resp := r\<rparr>, mc_log (EvRequest x) c1)"
      using send_answered [of c1 x 1] by auto
    then show ?thesis by (simp add: rest_of_def mc_log_def)
  qed
  obtain c1 x1 where 1: "MmcSendCmd c a None 1 = (0, x1, c1)" "rest_of c1 = rest_of c" "mc_trace c1 = mc_trace c @ [EvRequest a]"
    using send [OF refl, of a] by auto
  obtain c2 x2 where 2: "MmcSendCmd c1 b None 1 = (0, x2, c2)" "rest_of c2 = rest_of c" "mc_trace c2 = mc_trace c1 @ [EvRequest b]"
    using send [OF 1(2), of b] 1(2) by auto
  obtain c3 x3 where 3: "MmcSendCmd c2 q None 1 = (0, x3, c3)" "rest_of c3 = rest_of c" "mc_trace c3 = mc_trace c2 @ [EvRequest q]"
    using send [OF 2(2), of q] 2(2) by auto
  have cur: "mc_curDev c1 = Some d" "mc_curDev c2 = Some d" "mc_curDev c3 = Some d"
    using rest_curDev [OF 1(2)] rest_curDev [OF 2(2)] rest_curDev [OF 3(2)] assms(2) by simp_all
  obtain r c4 t where w: "MmcWaitCardReady c3 = Some (r, c4)" "mc_trace c4 = mc_trace c3 @ t"
    using wait_ready_answered [of c3 d] answering_rest [OF 3(2)] assms(1) cur(3) unfolding MmcWaitCardReady_def by blast
  have steps: "MmcSendEraseStartCmd c s = (0, c1)" "MmcSendEraseEndCmd c1 (s + n) = (0, c2)" "MmcSendEraseCmd c2 0 = (0, c3)"
    using 1(1) 2(1) 3(1) assms(2,3) cur
    by (simp_all add: MmcSendEraseStartCmd_def MmcSendEraseEndCmd_def MmcSendEraseCmd_def a_def b_def q_def)
  have run: "MmcSendErase c s n = Some (r, c4)"
    using assms(2,4,5) align_of_whole_groups [OF assms(2,4,6,7,8), of "s + n"] steps w(1)
    by (simp add: MmcSendErase_def on_success_def)
  have u: "addr_unit d = 1 \<or> addr_unit d = 512" by (simp add: addr_unit_def)
  have sum: "unat (s + n) = unat s + unat n"
    using assms(9) u by (intro unat_add_lem [THEN iffD1]) auto
  have first: "first_sector (addr_unit d) a = unat s" "first_sector (addr_unit d) b = unat s + unat n"
  proof -
    show "first_sector (addr_unit d) a = unat s" using assms(9) u by (intro first_sector_word) (auto simp: a_def)
    show "first_sector (addr_unit d) b = unat s + unat n"
      using assms(9) first_sector_word [of b d "s + n"] by (simp add: b_def sum)
  qed
  have "unat s div unat (dev_eraseSize d) \<le> (unat s + unat n) div unat (dev_eraseSize d)" by (simp add: div_le_mono)
  then have "groups_between d a b =
      insert ((unat s + unat n) div unat (dev_eraseSize d)) {unat s div unat (dev_eraseSize d) ..< (unat s + unat n) div unat (dev_eraseSize d)}"
    by (simp add: groups_between_def first Let_def) (simp add: atLeastLessThan_eq_atLeastAtMost_diff insert_absorb)
  then show ?thesis using run 1(3) 2(3) 3(3) w(2)
    by (intro exI [of _ r] exI [of _ c4] exI [of _ a] exI [of _ b] exI [of _ q] exI [of _ t])
       (simp add: a_def b_def q_def)
qed


definition demo_emmc :: MmcDevice where
  "demo_emmc = zero_MmcDevice\<lparr>dev_type := MMC_DEV_EMMC, dev_eraseSize := 1024, dev_capacity := 0x200000,
     dev_state := zero_MmcDevState\<lparr>dst_blockAddr := True\<rparr>,
     dev_reg := zero_MmcRegister\<lparr>reg_csd := zero_MmcCsd\<lparr>csd_ccc := 0x0F5\<rparr>\<rparr>\<rparr>"

theorem erase_reaches_the_next_group_witness:
  "\<exists>r c' a b q t. MmcSendErase ((demo_host demo_request)\<lparr>mc_curDev := Some demo_emmc\<rparr>) 2048 1024 = Some (r, c') \<and>
    mc_trace c' = [EvRequest a, EvRequest b, EvRequest q] @ t \<and> groups_between demo_emmc a b = {2, 3}"
proof -
  have "answers demo_request" by (auto simp: answers_def demo_request_def)
  then have "answering ((demo_host demo_request)\<lparr>mc_curDev := Some demo_emmc\<rparr>)"
    by (simp add: answering_def demo_host_def)
  from erase_reaches_the_next_group [OF this, of demo_emmc 2048 1024]
  have "\<exists>r c' a b q t. MmcSendErase ((demo_host demo_request)\<lparr>mc_curDev := Some demo_emmc\<rparr>) 2048 1024 = Some (r, c') \<and>
      mc_trace c' = [EvRequest a, EvRequest b, EvRequest q] @ t \<and> groups_between demo_emmc a b = insert 3 {2..<3}"
    by (auto simp: demo_emmc_def addr_unit_def zero_MmcDevice_def zero_MmcRegister_def demo_host_def demo_cntlr_def zero_MmcDevState_def zero_MmcCsd_def)
  moreover have "insert 3 {2..<3} = {2, 3 :: nat}" by auto
  ultimately show ?thesis by simp
qed

end
