(* ===== verification/Spec2Isabelle.thy ===== *)
theory Spec2Isabelle
  imports Hdf_SList Hdf_Map Hdf_SbufIf Hcs_Query Hdf_SRef Hdf_Observer Hdf_DevSvc Hdf_Driver Hdf_DevHost Hcs_Match Hdf_Attribute Hdf_DevMgr Hdmi_InfoFrame Hdmi_EdidSafe Hcs_Compile Hcs_Bytecode Hdmi_CecRx Mmc_Fields Mmc_SdioSpec Mmc_Erase
begin

text \<open>
  A verification development for the OpenHarmony driver framework (HDF), the C code under
  \<^verbatim>\<open>src/\<close> that loads drivers, publishes their services and carries their messages.

  \<^bold>\<open>The program.\<close>  A compiler (\<^verbatim>\<open>tools/leagecy/hc-gen\<close>) turns the configuration sources of a
  board into a bytecode blob.  At start the configuration library
  (\<^verbatim>\<open>utils/src/hcs_parser\<close>) builds a tree of nodes and attributes from the blob, and the rest of
  the framework queries that tree.  The attribute manager (\<^verbatim>\<open>core/common/src/hdf_attribute.c\<close>)
  reads from it which hosts exist and which devices each has; the device manager
  (\<^verbatim>\<open>core/manager\<close>) starts the hosts and asks them to add devices; a host (\<^verbatim>\<open>core/host\<close>)
  finds the driver of a device, makes device nodes, binds and initialises the driver, publishes
  its service and reports power events.  Published services are kept in a registry, to which
  clients can subscribe.  Clients exchange messages in serialization buffers.  Lists, maps,
  reference counts and strings come from \<^verbatim>\<open>utils/src\<close>.  Device models and platform adapters
  stand on top of this core; of them the HDMI stack's mode tables, info frames, display
  identification data and control bus messages are modelled, and the storage model's memory and
  SDIO cards.

  \<^bold>\<open>Conventions\<close> (\<^verbatim>\<open>Hdf_Prelude\<close>).  A C function that reads or writes memory returns an
  \<^typ>\<open>'a option\<close>: \<^const>\<open>None\<close> is a fault - an access outside an object, through a null or
  freed pointer, or to uninitialised data - or a loop that does not end.  A theorem that an
  operation is \<open>Some r\<close> thus states safety, termination and the result at once.  Integers are
  words of their C width.  A pointer that may be null is an option, or an address of an explicit
  heap where sharing matters.  Each allocation asks an oracle: an argument of type bool, or the next
  answer of a list in the state; theorems quantify over the answers unless they say otherwise.
  Loops are structural recursion, \<^theory_text>\<open>partial_function (option)\<close> where the data may be cyclic or
  malformed, and a counter only where the code has one; there is no fuel to choose.

  \<^bold>\<open>Theories.\<close>
  \<^item> \<^verbatim>\<open>Hdf_Prelude\<close>: status codes (\<^verbatim>\<open>hdf_base.h\<close>), bytes, bounded copies, little-endian integers,
    C strings, searches in lists.
  \<^item> \<^verbatim>\<open>Hdf_SList\<close>: \<^verbatim>\<open>hdf_slist.c\<close> over a heap of next pointers.  The abstraction is a list of
    addresses; the locale \<open>node_list\<close> states what users of a list rely on.
  \<^item> \<^verbatim>\<open>Hdf_Map\<close>: \<^verbatim>\<open>hdf_map.c\<close> and the hash of \<^verbatim>\<open>hdf_cstring.c\<close>.  The invariant says where a key can
    be; the locale \<open>kv_store\<close> states the laws of a map, for keys compared by their hash.
  \<^item> \<^verbatim>\<open>Hdf_Sbuf\<close>, \<^verbatim>\<open>Hdf_SbufIf\<close>: \<^verbatim>\<open>hdf_sbuf_impl_raw.c\<close> and \<^verbatim>\<open>hdf_sbuf.c\<close>.  A buffer is its memory and
    two positions; the front end is a table of methods.  The locale \<open>message_queue\<close> states that
    what is put comes out in order; it is interpreted on the raw buffer and on the front end.  The
    safety theorem runs any sequence of operations on a pool of buffers that copy, move and recycle.
  \<^item> \<^verbatim>\<open>Hcs_Blob\<close>, \<^verbatim>\<open>Hcs_Tree\<close>, \<^verbatim>\<open>Hcs_Query\<close>, \<^verbatim>\<open>Hcs_Match\<close>: the back end of the compiler
    (\<^verbatim>\<open>hcs_bytecode_gen.c\<close>, \<^verbatim>\<open>hcs_opcode.c\<close>), access to the blob (\<^verbatim>\<open>hcs_blob_if.c\<close>), both passes that
    build the tree (\<^verbatim>\<open>hcs_generate_tree.c\<close>, \<^verbatim>\<open>hcs_parser.c\<close>) and every query (\<^verbatim>\<open>hcs_tree_if.c\<close>).
    The tree is an arena of nodes and attributes in a block of memory whose size the first pass
    measures.  The central theorem decompiles what was compiled; the queries are then stated on
    the configuration source.
  \<^item> \<^verbatim>\<open>Hcs_Ast\<close>, \<^verbatim>\<open>Hcs_Middle\<close>, \<^verbatim>\<open>Hcs_AstTree\<close>, \<^verbatim>\<open>Hcs_AstOps\<close>, \<^verbatim>\<open>Hcs_Compile\<close>, \<^verbatim>\<open>Hcs_Bytecode\<close>:
    the compiler on its own data.  The syntax tree (\<^verbatim>\<open>hcs_ast.c\<close>) is a heap of objects with
    parent, child and sibling pointers; a relation says which tree of values the heap holds, and
    walks, deletion, merging and copying are related to it.  The middle end (\<^verbatim>\<open>hcs_middle.c\<close>)
    expands references, copies and templates; the back end writes the bytes of the tree, the same
    as those of the configuration that \<^verbatim>\<open>Hcs_Blob\<close> starts from.
  \<^item> \<^verbatim>\<open>Hdf_SRef\<close>: \<^verbatim>\<open>hdf_sref.c\<close>, \<^verbatim>\<open>power_state_token.c\<close>, \<^verbatim>\<open>hdf_device_object.c\<close>.  Reference counts
    and power tokens; a second model of the references has the atomic steps of several threads.
    The locale \<open>wake_lock\<close> states what the device code relies on.
  \<^item> \<^verbatim>\<open>Hdf_Observer\<close>, \<^verbatim>\<open>Hdf_DevSvc\<close>: subscriptions inside a host and the registry of services
    (\<^verbatim>\<open>hdf_service_observer.c\<close>, \<^verbatim>\<open>devsvc_manager.c\<close>); callbacks are events of a trace.  Locale
    \<open>service_registry\<close>.
  \<^item> \<^verbatim>\<open>Hdf_Driver\<close>, \<^verbatim>\<open>Hdf_DevHost\<close>, \<^verbatim>\<open>Hdf_Attribute\<close>, \<^verbatim>\<open>Hdf_DevMgr\<close>: device information and the driver
    list; device nodes, devices and the host service; the attribute manager; the device manager.
    They share one state, \<open>fw\<close>: the registry, the subscriptions, the tokens, the memory oracle.
    The methods of a driver are parameters.
  \<^item> \<^verbatim>\<open>Hdmi_Common\<close>, \<^verbatim>\<open>Hdmi_InfoFrame\<close>: \<^verbatim>\<open>hdmi_common.c\<close> and \<^verbatim>\<open>hdmi_infoframe.c\<close>, the tables of video
    modes and the packets of 32 bytes; the platform's two methods are parameters.
  \<^item> \<^verbatim>\<open>Hdmi_Edid\<close>, \<^verbatim>\<open>Hdmi_EdidExt\<close>, \<^verbatim>\<open>Hdmi_EdidSafe\<close>: \<^verbatim>\<open>hdmi_edid.c\<close>, the parser of the 512 bytes in which
    a display describes itself, its first block, its extension blocks, and where it stays inside
    the data.
  \<^item> \<^verbatim>\<open>Hdmi_Cec\<close>, \<^verbatim>\<open>Hdmi_CecSpec\<close>, \<^verbatim>\<open>Hdmi_CecRx\<close>: \<^verbatim>\<open>hdmi_cec.c\<close>, the messages of the control bus: all encoders,
    the table of the documented frames that they produce (an inductive relation; the two encoders that
    deviate from their documentation have a table of their own), and the path of a received message
    with its checks and answers.
  \<^item> \<^verbatim>\<open>Mmc_Base\<close>, \<^verbatim>\<open>Mmc_Cmd\<close>, \<^verbatim>\<open>Mmc_Emmc\<close>, \<^verbatim>\<open>Mmc_Sd\<close>, \<^verbatim>\<open>Mmc_Sdio\<close>, \<^verbatim>\<open>Mmc_SdioDev\<close>, \<^verbatim>\<open>Mmc_Core\<close>:
    \<^verbatim>\<open>mmc_protocol.c\<close>, \<^verbatim>\<open>mmc_sdio.c\<close>, \<^verbatim>\<open>mmc_core.c\<close>, \<^verbatim>\<open>mmc_block.c\<close>, \<^verbatim>\<open>mmc_emmc.c\<close> and the worker of
    \<^verbatim>\<open>platform_queue.c\<close>: the controller with its device, every command, the detection of the three
    kinds of card, the functions of an SDIO card, the queue of the controller, and the transfers of
    sectors.  The methods of the host are parameters that see the trace of what was asked before.
    \<^verbatim>\<open>Mmc_Inv\<close> has the steps of the controller and their invariant, \<^verbatim>\<open>Mmc_Fields\<close> the bit fields of
    the registers, \<^verbatim>\<open>Mmc_Transfer\<close> and \<^verbatim>\<open>Mmc_Erase\<close> the sectors that transfers touch, for a card that
    keeps its blocks, and \<^verbatim>\<open>Mmc_SdioSpec\<close> the control registers as sets of functions.

  \<^bold>\<open>What the lemmas show.\<close>  Each component theory proves that its operations keep its invariant
  and refine its abstraction, on success and on every error exit, and then the properties stated
  as \<open>C1\<close> to \<open>C40\<close>: round trips (configuration, messages, adding and removing devices), functional
  results (maps, queries, registries, power order, packets, sectors), safety on hostile input (messages),
  atomicity of failing operations, isolation of private services, termination.  Some properties
  pin down behaviour that is surely unintended; they are listed as findings in the manifest.

  \<^bold>\<open>Bounds.\<close>  A configuration must fit the limits of its format: the sizes of the blob and of each
  node fit their length fields, the depth fits the stack of \<^verbatim>\<open>TREE_STACK_MAX\<close> levels, strings have no
  zero byte.  Messages must fit the 512 KiB limit of a buffer, which the buffer reaches
  early because it grows in steps.  The sectors of a transfer must be
  addressable by the 32 bits of a command's argument.  The theorems state these as
  hypotheses and each has a witness, a concrete input on which they hold.

  \<^bold>\<open>Not modelled.\<close>  The lexer, the queue of included files, the decompiler, the text back ends and
  the command line of the configuration compiler; the C++ interface generators; the adapters that
  carry calls across the kernel boundary and between processes; the dispatch of I/O requests;
  mutexes and threads, except for the atomic steps of the reference counts; the logging; the
  operating-system abstraction; the device models (audio, display, input, network, sensors, USB)
  and the platform adapters other than the parts named above; of the storage model the flash
  protocols, the entry points that forward to a controller, and setting a controller up.  The first four are outside the
  run-time core, the others are I/O on hardware registers and thin wrappers around controllers.
\<close>

end
